(* ===== verification/Prelude.thy ===== *)
theory Prelude
  imports Main
begin

text \<open>
  Shared vocabulary of the development: results of fallible code, the numbers of the language,
  strictly ordered lists, and the generic lemmas the component theories use.

  \<^item> A function that throws returns a value of \<open>'e + 'a\<close>: \<open>Inl e\<close> is the exception, \<open>Inr x\<close> the
    returned value. \<open>traverse\<close> is \<open>Array.prototype.map\<close> with a callback that may throw.
  \<^item> A JavaScript number that the code has not yet checked is a \<open>js_number\<close>: an integral value or
    one of the others (fractions, infinities, NaN). A number a schema has admitted is an \<open>int\<close>.
  \<^item> An unchecked object is a \<open>js_value\<close>: not an object at all, or its own enumerable properties in
    order.

  Two rule collections serve the components: \<open>schema_defs\<close> (the contract predicates) and
  \<open>result_simps\<close> (case analysis on results).
\<close>

named_theorems schema_defs
named_theorems result_simps

section \<open>Results\<close>

type_synonym ('e, 'a) result = "'e + 'a"

abbreviation throw :: "'e \<Rightarrow> ('e, 'a) result" where
  "throw \<equiv> Inl"

abbreviation return :: "'a \<Rightarrow> ('e, 'a) result" where
  "return \<equiv> Inr"

fun traverse :: "('a \<Rightarrow> ('e, 'b) result) \<Rightarrow> 'a list \<Rightarrow> ('e, 'b list) result" where
  "traverse f [] = Inr []"
| "traverse f (x # xs) =
     (case f x of
        Inl e \<Rightarrow> Inl e
      | Inr y \<Rightarrow> (case traverse f xs of Inl e \<Rightarrow> Inl e | Inr ys \<Rightarrow> Inr (y # ys)))"

lemma traverse_Inr_iff:
  "traverse f xs = Inr ys \<longleftrightarrow> list_all2 (\<lambda>x y. f x = Inr y) xs ys"
proof (induction xs arbitrary: ys)
  case Nil
  then show ?case by auto
next
  case (Cons x xs)
  have "traverse f (x # xs) = Inr ys \<longleftrightarrow>
      (\<exists>y zs. f x = Inr y \<and> traverse f xs = Inr zs \<and> ys = y # zs)"
    by (auto split: sum.splits)
  then show ?case by (auto simp: Cons.IH list_all2_Cons1)
qed

lemma traverse_total:
  "\<forall>x \<in> set xs. f x = Inr (g x) \<Longrightarrow> traverse f xs = Inr (map g xs)"
  by (induction xs) auto

lemma traverse_Inr_each: "traverse f xs = Inr ys \<Longrightarrow> x \<in> set xs \<Longrightarrow> \<exists>y. f x = Inr y"
  by (induction xs arbitrary: ys) (auto split: sum.splits)

lemma traverse_Inl_member: "traverse f xs = Inl e \<Longrightarrow> \<exists>x \<in> set xs. f x = Inl e"
  by (induction xs) (auto split: sum.splits)

lemma case_result_Inr_iff [result_simps]:
  "(case r of Inl e \<Rightarrow> Inl (h e) | Inr x \<Rightarrow> k x) = Inr y \<longleftrightarrow> (\<exists>x. r = Inr x \<and> k x = Inr y)"
  by (auto split: sum.splits)

lemma if_throw_Inr_iff [result_simps]:
  "(if c then Inl e else k) = Inr y \<longleftrightarrow> \<not> c \<and> k = Inr y"
  by simp

lemma case_option_Inr_iff [result_simps]:
  "(case x of None \<Rightarrow> Inl e | Some v \<Rightarrow> k v) = Inr y \<longleftrightarrow> (\<exists>v. x = Some v \<and> k v = Inr y)"
  by (cases x) auto

section \<open>Numbers of the language\<close>

definition MAX_SAFE_INTEGER :: int where
  "MAX_SAFE_INTEGER = 9007199254740991"

datatype js_number = JsInt int | JsOther

fun isInteger :: "js_number \<Rightarrow> bool" where
  "isInteger (JsInt n) = True"
| "isInteger JsOther = False"

fun isSafeInteger :: "js_number \<Rightarrow> bool" where
  "isSafeInteger (JsInt n) = (- MAX_SAFE_INTEGER \<le> n \<and> n \<le> MAX_SAFE_INTEGER)"
| "isSafeInteger JsOther = False"

lemma case_js_number_Inr_iff [result_simps]:
  "(case x of JsInt n \<Rightarrow> k n | JsOther \<Rightarrow> Inl e) = Inr y \<longleftrightarrow> (\<exists>n. x = JsInt n \<and> k n = Inr y)"
  by (cases x) auto

lemma MAX_SAFE_INTEGER_pos [simp]: "0 < MAX_SAFE_INTEGER" "0 \<le> MAX_SAFE_INTEGER"
  "1 \<le> MAX_SAFE_INTEGER"
  by (simp_all add: MAX_SAFE_INTEGER_def)

text \<open>The two integer schemas every contract file declares.\<close>

definition SafePositiveInteger :: "int \<Rightarrow> bool" where
  [schema_defs]: "SafePositiveInteger n \<longleftrightarrow> 0 < n \<and> n \<le> MAX_SAFE_INTEGER"

definition SafeNonnegativeInteger :: "int \<Rightarrow> bool" where
  [schema_defs]: "SafeNonnegativeInteger n \<longleftrightarrow> 0 \<le> n \<and> n \<le> MAX_SAFE_INTEGER"

section \<open>Objects\<close>

datatype 'v js_value = NotAnObject | JsObject "(string \<times> 'v) list"

text \<open>A field whose schema is \<open>.optional()\<close> or \<open>.nullable()\<close>.\<close>

fun optional :: "('a \<Rightarrow> bool) \<Rightarrow> 'a option \<Rightarrow> bool" where
  "optional P None = True"
| "optional P (Some x) = P x"

lemma optional_iff: "optional P x \<longleftrightarrow> (\<forall>v. x = Some v \<longrightarrow> P v)"
  by (cases x) auto

section \<open>Ordered lists\<close>

text \<open>
  \<open>strictly_sorted\<close> is the check the contracts spell as
  \<open>values.every((value, index) => index === 0 || values[index - 1] < value)\<close>.
\<close>

fun strictly_sorted :: "('a \<Rightarrow> 'a \<Rightarrow> bool) \<Rightarrow> 'a list \<Rightarrow> bool" where
  "strictly_sorted lt [] = True"
| "strictly_sorted lt [x] = True"
| "strictly_sorted lt (x # y # zs) = (lt x y \<and> strictly_sorted lt (y # zs))"

section \<open>Sorting\<close>

text \<open>
  \<open>Array.prototype.sort\<close> with a comparator is stable; for a consistent comparator its result is the
  one of stable insertion.
\<close>

fun insertBy :: "('a \<Rightarrow> 'a \<Rightarrow> int) \<Rightarrow> 'a \<Rightarrow> 'a list \<Rightarrow> 'a list" where
  "insertBy cmp x [] = [x]"
| "insertBy cmp x (y # ys) = (if cmp x y \<le> 0 then x # y # ys else y # insertBy cmp x ys)"

definition sortBy :: "('a \<Rightarrow> 'a \<Rightarrow> int) \<Rightarrow> 'a list \<Rightarrow> 'a list" where
  "sortBy cmp xs = foldr (insertBy cmp) xs []"

lemma set_insertBy [simp]: "set (insertBy cmp x ys) = insert x (set ys)"
  by (induction ys) auto

lemma set_sortBy [simp]: "set (sortBy cmp xs) = set xs"
  by (induction xs) (simp_all add: sortBy_def)

lemma length_insertBy [simp]: "length (insertBy cmp x ys) = Suc (length ys)"
  by (induction ys) auto

lemma length_sortBy [simp]: "length (sortBy cmp xs) = length xs"
  by (induction xs) (simp_all add: sortBy_def)

lemma insertBy_insort_key:
  "\<forall>y \<in> set ys. cmp x y \<le> 0 \<longleftrightarrow> f x \<le> f y \<Longrightarrow> insertBy cmp x ys = insort_key f x ys"
  by (induction ys) auto

lemma sortBy_sort_key:
  assumes "\<forall>x \<in> set xs. \<forall>y \<in> set xs. cmp x y \<le> 0 \<longleftrightarrow> f x \<le> f y"
  shows "sortBy cmp xs = sort_key f xs"
  using assms
proof (induction xs)
  case (Cons x xs)
  then have "insertBy cmp x (sort_key f xs) = insort_key f x (sort_key f xs)"
    by (intro insertBy_insort_key) auto
  with Cons show ?case by (auto simp: sortBy_def)
qed (simp add: sortBy_def)

end
