(* ===== verification/Primitives.thy ===== *)
theory Primitives
  imports Prelude "HOL-Library.Word" "HOL-Library.Char_ord" "HOL-Library.List_Lexorder"
begin

text \<open>
  The primitive schemas of \<open>packages/contracts/src/primitives.ts\<close> and the evidence scope of
  \<open>evidence.ts\<close>, as predicates over the values they admit.

  Identifiers and digests are \<open>string\<close>s: their regular expressions admit ASCII characters only.
  Free text, which may hold any UTF-16 code unit, is a \<open>js_text\<close>, a list of 16-bit words.
  A canonical UTC millisecond timestamp \<open>YYYY-MM-DDTHH:MM:SS.mmmZ\<close> is written as the number of
  milliseconds \<open>Date.parse\<close> gives for it: the schema admits exactly one text per instant, for the
  instants of the years 1 to 9999.
\<close>

section \<open>Character classes\<close>

definition in_range :: "char \<Rightarrow> char \<Rightarrow> char \<Rightarrow> bool" where
  "in_range lo hi c \<longleftrightarrow>
     (of_char lo :: nat) \<le> of_char c \<and> (of_char c :: nat) \<le> of_char hi"

definition lower_alpha :: "char \<Rightarrow> bool" where
  "lower_alpha c \<longleftrightarrow> in_range CHR ''a'' CHR ''z'' c"

definition upper_alpha :: "char \<Rightarrow> bool" where
  "upper_alpha c \<longleftrightarrow> in_range CHR ''A'' CHR ''Z'' c"

definition digit_char :: "char \<Rightarrow> bool" where
  "digit_char c \<longleftrightarrow> in_range CHR ''0'' CHR ''9'' c"

definition hex_char :: "char \<Rightarrow> bool" where
  "hex_char c \<longleftrightarrow> digit_char c \<or> in_range CHR ''a'' CHR ''f'' c"

definition alnum_char :: "char \<Rightarrow> bool" where
  "alnum_char c \<longleftrightarrow> lower_alpha c \<or> upper_alpha c \<or> digit_char c"

lemmas char_class_defs =
  in_range_def lower_alpha_def upper_alpha_def digit_char_def hex_char_def alnum_char_def

section \<open>Identifiers, digests, tokens\<close>

definition OpaqueIdSchema :: "string \<Rightarrow> bool" where
  "OpaqueIdSchema s \<longleftrightarrow>
     (case s of
        [] \<Rightarrow> False
      | c # cs \<Rightarrow> lower_alpha c \<and> 2 \<le> length cs \<and> length cs \<le> 63 \<and>
          list_all (\<lambda>d. lower_alpha d \<or> digit_char d \<or> d = CHR ''_'') cs)"

definition Sha256Schema :: "string \<Rightarrow> bool" where
  "Sha256Schema s \<longleftrightarrow> length s = 64 \<and> list_all hex_char s"

definition ProtocolTokenSchema :: "string \<Rightarrow> bool" where
  "ProtocolTokenSchema s \<longleftrightarrow>
     (case s of
        [] \<Rightarrow> False
      | c # cs \<Rightarrow> alnum_char c \<and> length cs \<le> 255 \<and>
          list_all (\<lambda>d. alnum_char d \<or> d \<in> set ''._+:/@-'') cs)"

definition ProtocolVersionSchema :: "string \<Rightarrow> bool" where
  "ProtocolVersionSchema s \<longleftrightarrow>
     (case s of
        [] \<Rightarrow> False
      | c # cs \<Rightarrow> alnum_char c \<and> length cs \<le> 63 \<and>
          list_all (\<lambda>d. alnum_char d \<or> d \<in> set ''._+-'') cs)"

section \<open>Scopes\<close>

record EvidenceScope =
  environmentId :: string
  projectId :: string
  tenantId :: string

definition EvidenceScopeSchema :: "EvidenceScope \<Rightarrow> bool" where
  [schema_defs]: "EvidenceScopeSchema s \<longleftrightarrow>
     OpaqueIdSchema (environmentId s) \<and> OpaqueIdSchema (projectId s) \<and>
     OpaqueIdSchema (tenantId s)"

definition sameScope :: "EvidenceScope \<Rightarrow> EvidenceScope \<Rightarrow> bool" where
  "sameScope l r \<longleftrightarrow>
     tenantId l = tenantId r \<and> projectId l = projectId r \<and> environmentId l = environmentId r"

lemma sameScope_iff [simp]: "sameScope l r \<longleftrightarrow> l = r"
  by (auto simp: sameScope_def intro: EvidenceScope.equality)

section \<open>Timestamps\<close>

type_synonym utc_ms = int

definition MIN_UTC_MS :: int where
  "MIN_UTC_MS = -62135596800000"

definition MAX_UTC_MS :: int where
  "MAX_UTC_MS = 253402300799999"

definition MAX_DATE_MS :: int where
  "MAX_DATE_MS = 8640000000000000"

definition UtcMillisecondTimestampSchema :: "utc_ms \<Rightarrow> bool" where
  [schema_defs]: "UtcMillisecondTimestampSchema t \<longleftrightarrow> MIN_UTC_MS \<le> t \<and> t \<le> MAX_UTC_MS"

text \<open>
  \<open>new Date(n).toISOString()\<close> raises a \<open>RangeError\<close> beyond the range of dates and otherwise prints
  the instant; outside the years 1 to 9999 the printed text is not a canonical timestamp.
\<close>

datatype iso_failure = DateRangeError | NotCanonical

definition isoTimestamp :: "int \<Rightarrow> (iso_failure, utc_ms) result" where
  "isoTimestamp n =
     (if \<bar>n\<bar> > MAX_DATE_MS then Inl DateRangeError
      else if \<not> UtcMillisecondTimestampSchema n then Inl NotCanonical
      else Inr n)"

lemma isoTimestamp_Inr_iff [result_simps]:
  "isoTimestamp n = Inr t \<longleftrightarrow> t = n \<and> UtcMillisecondTimestampSchema n"
  by (auto simp: isoTimestamp_def UtcMillisecondTimestampSchema_def MIN_UTC_MS_def MAX_UTC_MS_def
      MAX_DATE_MS_def)

section \<open>String order\<close>

text \<open>
  The relational operators and \<open>Array.prototype.sort\<close> order strings lexicographically by code unit.
  The same function serves ASCII identifiers (\<open>string\<close>) and general text (\<open>16 word list\<close>).
\<close>

fun codeUnitLess :: "'a::linorder list \<Rightarrow> 'a list \<Rightarrow> bool" where
  "codeUnitLess [] [] = False"
| "codeUnitLess [] (y # ys) = True"
| "codeUnitLess (x # xs) [] = False"
| "codeUnitLess (x # xs) (y # ys) = (x < y \<or> (x = y \<and> codeUnitLess xs ys))"

lemma codeUnitLess_iff: "codeUnitLess xs ys \<longleftrightarrow> xs < ys"
  by (induction xs ys rule: codeUnitLess.induct) auto

definition compareCodeUnits :: "'a::linorder list \<Rightarrow> 'a list \<Rightarrow> int" where
  "compareCodeUnits l r = (if codeUnitLess l r then -1 else if codeUnitLess r l then 1 else 0)"

lemma compareCodeUnits_le: "compareCodeUnits l r \<le> 0 \<longleftrightarrow> l \<le> r"
  by (auto simp: compareCodeUnits_def codeUnitLess_iff)

lemma sortBy_compareCodeUnits: "sortBy (\<lambda>x y. compareCodeUnits (f x) (f y)) xs = sort_key f xs"
  by (rule sortBy_sort_key) (simp add: compareCodeUnits_le)

lemma strictly_sorted_codeUnits: "strictly_sorted codeUnitLess xs \<longleftrightarrow> sorted_wrt (<) xs"
  by (induction "codeUnitLess :: 'a list \<Rightarrow> 'a list \<Rightarrow> bool" xs rule: strictly_sorted.induct)
    (auto simp: codeUnitLess_iff intro: less_trans)

text \<open>\<open>String.prototype.split\<close> with a one-character separator.\<close>

fun splitOn :: "char \<Rightarrow> string \<Rightarrow> string list" where
  "splitOn sep [] = [[]]"
| "splitOn sep (c # cs) =
     (if c = sep then [] # splitOn sep cs
      else case splitOn sep cs of p # ps \<Rightarrow> (c # p) # ps | [] \<Rightarrow> [[c]])"

section \<open>Human text\<close>

type_synonym js_text = "16 word list"

definition unsafeTextControl :: "16 word \<Rightarrow> bool" where
  "unsafeTextControl c \<longleftrightarrow>
     c \<le> 0x1f \<or> (0x7f \<le> c \<and> c \<le> 0x9f) \<or> c = 0x2028 \<or> c = 0x2029"

definition containsUnsafeTextControl :: "js_text \<Rightarrow> bool" where
  "containsUnsafeTextControl s \<longleftrightarrow> list_ex unsafeTextControl s"

text \<open>The white space and line terminators that \<open>String.prototype.trim\<close> removes.\<close>

definition js_whitespace :: "16 word \<Rightarrow> bool" where
  "js_whitespace c \<longleftrightarrow>
     c \<in> {0x9, 0xa, 0xb, 0xc, 0xd, 0x20, 0xa0, 0x1680, 0x2028, 0x2029, 0x202f, 0x205f, 0x3000, 0xfeff} \<or>
     (0x2000 \<le> c \<and> c \<le> 0x200a)"

definition js_trim :: "js_text \<Rightarrow> js_text" where
  "js_trim s = rev (dropWhile js_whitespace (rev (dropWhile js_whitespace s)))"

definition canonicalHumanText :: "nat \<Rightarrow> js_text \<Rightarrow> bool" where
  "canonicalHumanText maximumCharacters s \<longleftrightarrow>
     1 \<le> length s \<and> length s \<le> maximumCharacters \<and> js_trim s = s \<and>
     \<not> containsUnsafeTextControl s"

definition js_text_of :: "string \<Rightarrow> js_text" where
  "js_text_of s = map (\<lambda>c. word_of_nat (of_char c)) s"

section \<open>Bounded canonical text\<close>

text \<open>
  The text contracts of \<open>evaluation-source.ts\<close>. Iterating a string yields code points: a surrogate
  pair counts once, a lone surrogate stays what it is. \<open>String.prototype.normalize("NFC")\<close> depends on
  the Unicode tables of the platform and is the parameter \<open>nfc\<close>.
\<close>

fun codePoints :: "js_text \<Rightarrow> nat list" where
  "codePoints [] = []"
| "codePoints [u] = [unat u]"
| "codePoints (u # v # us) =
     (if 0xd800 \<le> u \<and> u \<le> 0xdbff \<and> 0xdc00 \<le> v \<and> v \<le> 0xdfff
      then (0x10000 + (unat u - 0xd800) * 0x400 + (unat v - 0xdc00)) # codePoints us
      else unat u # codePoints (v # us))"

definition unicodeScalarLength :: "js_text \<Rightarrow> nat option" where
  "unicodeScalarLength s =
     (if list_ex (\<lambda>c. 0xd800 \<le> c \<and> c \<le> 0xdfff) (codePoints s) then None
      else Some (length (codePoints s)))"

definition containsUnsafeDisplayControl :: "js_text \<Rightarrow> bool" where
  "containsUnsafeDisplayControl s \<longleftrightarrow>
     list_ex (\<lambda>c. c \<le> 0x1f \<or> (0x7f \<le> c \<and> c \<le> 0x9f) \<or> c = 0x061c \<or> c = 0x200e \<or> c = 0x200f \<or>
       (0x2028 \<le> c \<and> c \<le> 0x202e) \<or> (0x2066 \<le> c \<and> c \<le> 0x2069)) (codePoints s)"

definition boundedCanonicalText :: "(js_text \<Rightarrow> js_text) \<Rightarrow> nat \<Rightarrow> js_text \<Rightarrow> bool" where
  "boundedCanonicalText nfc maximumCharacters s \<longleftrightarrow>
     1 \<le> length s \<and> js_trim s = s \<and> nfc s = s \<and> \<not> containsUnsafeDisplayControl s \<and>
     (case unicodeScalarLength s of None \<Rightarrow> False | Some n \<Rightarrow> n \<le> maximumCharacters)"

definition AssuranceSummarySchema :: "(js_text \<Rightarrow> js_text) \<Rightarrow> js_text \<Rightarrow> bool" where
  "AssuranceSummarySchema nfc s \<longleftrightarrow> boundedCanonicalText nfc 512 s"

end
