(* ===== verification/Replay_Job.thy ===== *)
theory Replay_Job
  imports Primitives
begin

text \<open>
  The job contracts of \<open>packages/contracts/src/replay-job.ts\<close>, with the references of
  \<open>replay-plan.ts\<close> and \<open>artifact.ts\<close> they carry. Each schema is a \<open>record\<close> (its shape) and a
  predicate (its bounds and \<open>superRefine\<close> conditions, one conjunct per issue the code can add).
  Fields whose schema is a literal (\<open>schemaVersion\<close>) hold one value and are not represented;
  an optional field is an \<open>option\<close>.
\<close>

section \<open>Enumerations\<close>

datatype ReplayJobStatus =
  JobBudgetExhausted | JobCancelled | JobFailed | JobQueued | JobRunning | JobSucceeded | JobTimedOut

datatype ReplayJobTerminalStatus =
  TermBudgetExhausted | TermCancelled | TermFailed | TermSucceeded | TermTimedOut

datatype ReplayJobTerminalCode =
  BudgetLimitReached | CancellationCommitted | Completed | ContractRejected | DeadlineReached |
  ExecutionFailed | RetriesExhausted

datatype ReplayAttemptStatus =
  AttBudgetExhausted | AttCancelled | AttFailed | AttLeaseExpired | AttRunning | AttSucceeded |
  AttTimedOut

datatype ReplayEffectCertainty = EffectConfirmed | EffectMayHaveOccurred | EffectNone

datatype ReplayEffectRetrySafety =
    NotRetryableEffect
  | ReadOnlyEffect string
  | DestinationIdempotencyVerified string string

datatype ReplayAttemptErrorCode =
  AccountingViolation | AuthorityDenied | BoundaryRateLimited | BoundaryTemporarilyUnavailable |
  ErrBudgetExhausted | ErrCancelled | ContractMismatch | CredentialUnavailable | DeadlineExceeded |
  EffectUncertain | FixtureUnavailable | IsolationFailed | ErrLeaseExpired | TargetContentUnavailable |
  TargetProcessInterrupted | TargetTemporaryFailure | WorkerInternalError

datatype ReplayAttemptRetryDisposition = NotRetryable | RetryEligible | RetryScheduled

datatype ReplayCancellationReasonCode =
  OperatorRequest | PolicyIntervention | SafetyIntervention | Superseded

datatype DataClassification = Metadata | Internal | Confidential | Restricted

datatype RedactionStage = IngestStage | RetentionStage | SourceStage

datatype ReplayIsolationKind = Container | LocalChildProcess

text \<open>The terminal statuses are strings of the wider status enumerations.\<close>

fun jobStatusOfTerminal :: "ReplayJobTerminalStatus \<Rightarrow> ReplayJobStatus" where
  "jobStatusOfTerminal TermBudgetExhausted = JobBudgetExhausted"
| "jobStatusOfTerminal TermCancelled = JobCancelled"
| "jobStatusOfTerminal TermFailed = JobFailed"
| "jobStatusOfTerminal TermSucceeded = JobSucceeded"
| "jobStatusOfTerminal TermTimedOut = JobTimedOut"

fun attemptStatusOfTerminal :: "ReplayJobTerminalStatus \<Rightarrow> ReplayAttemptStatus" where
  "attemptStatusOfTerminal TermBudgetExhausted = AttBudgetExhausted"
| "attemptStatusOfTerminal TermCancelled = AttCancelled"
| "attemptStatusOfTerminal TermFailed = AttFailed"
| "attemptStatusOfTerminal TermSucceeded = AttSucceeded"
| "attemptStatusOfTerminal TermTimedOut = AttTimedOut"

lemma jobStatusOfTerminal_live [simp]:
  "jobStatusOfTerminal s \<noteq> JobQueued" "jobStatusOfTerminal s \<noteq> JobRunning"
  by (cases s; simp)+

lemma attemptStatusOfTerminal_closed [simp]:
  "attemptStatusOfTerminal s \<noteq> AttRunning" "attemptStatusOfTerminal s \<noteq> AttLeaseExpired"
  by (cases s; simp)+

lemma jobStatusOfTerminal_inj [simp]: "jobStatusOfTerminal s = jobStatusOfTerminal t \<longleftrightarrow> s = t"
  by (cases s; cases t) simp_all

section \<open>References\<close>

record ReplayPlanJobReference =
  planref_definitionSha256 :: string
  planref_planId :: string
  planref_planVersionId :: string

definition ReplayPlanJobReferenceSchema :: "ReplayPlanJobReference \<Rightarrow> bool" where
  "ReplayPlanJobReferenceSchema p \<longleftrightarrow>
     Sha256Schema (planref_definitionSha256 p) \<and> OpaqueIdSchema (planref_planId p) \<and>
     OpaqueIdSchema (planref_planVersionId p)"

record WorkerProtocolReference =
  wproto_name :: string
  wproto_version :: string

definition WorkerProtocolReferenceSchema :: "WorkerProtocolReference \<Rightarrow> bool" where
  "WorkerProtocolReferenceSchema p \<longleftrightarrow>
     ProtocolTokenSchema (wproto_name p) \<and> ProtocolVersionSchema (wproto_version p)"

record ReplayReleaseTargetAdapterReference =
  adapter_name :: string
  adapter_protocolVersion :: string
  adapter_version :: string

definition ReplayReleaseTargetAdapterReferenceSchema ::
    "ReplayReleaseTargetAdapterReference \<Rightarrow> bool" where
  "ReplayReleaseTargetAdapterReferenceSchema a \<longleftrightarrow>
     ProtocolTokenSchema (adapter_name a) \<and> ProtocolVersionSchema (adapter_protocolVersion a) \<and>
     ProtocolVersionSchema (adapter_version a)"

record TargetReleaseReference =
  target_definitionSha256 :: string
  target_targetAdapter :: ReplayReleaseTargetAdapterReference
  target_targetId :: string
  target_targetReleaseId :: string
  target_workerProtocol :: WorkerProtocolReference

definition TargetReleaseReferenceSchema :: "TargetReleaseReference \<Rightarrow> bool" where
  "TargetReleaseReferenceSchema t \<longleftrightarrow>
     Sha256Schema (target_definitionSha256 t) \<and>
     ReplayReleaseTargetAdapterReferenceSchema (target_targetAdapter t) \<and>
     OpaqueIdSchema (target_targetId t) \<and> OpaqueIdSchema (target_targetReleaseId t) \<and>
     WorkerProtocolReferenceSchema (target_workerProtocol t)"

record ReplayRuntimeProfileReference =
  rtprofile_definitionSha256 :: string
  rtprofile_id :: string
  rtprofile_version :: string
  rtprofile_family :: string

definition ReplayRuntimeProfileReferenceSchema :: "ReplayRuntimeProfileReference \<Rightarrow> bool" where
  "ReplayRuntimeProfileReferenceSchema r \<longleftrightarrow>
     Sha256Schema (rtprofile_definitionSha256 r) \<and> OpaqueIdSchema (rtprofile_id r) \<and>
     ProtocolVersionSchema (rtprofile_version r) \<and> ProtocolTokenSchema (rtprofile_family r)"

record ReplayIsolationProfileReference =
  isoprofile_definitionSha256 :: string
  isoprofile_id :: string
  isoprofile_version :: string
  isoprofile_kind :: ReplayIsolationKind

definition ReplayIsolationProfileReferenceSchema :: "ReplayIsolationProfileReference \<Rightarrow> bool" where
  "ReplayIsolationProfileReferenceSchema r \<longleftrightarrow>
     Sha256Schema (isoprofile_definitionSha256 r) \<and> OpaqueIdSchema (isoprofile_id r) \<and>
     ProtocolVersionSchema (isoprofile_version r)"

record ArtifactContentReference =
  content_artifactId :: string
  content_classification :: DataClassification
  content_mediaType :: string
  content_redactedAt :: "RedactionStage option"
  content_sha256 :: string
  content_sizeBytes :: int

definition mediaTypeChar :: "char \<Rightarrow> bool" where
  "mediaTypeChar c \<longleftrightarrow> lower_alpha c \<or> digit_char c \<or> c \<in> set ''!#$&^_.+-''"

definition mediaTypePart :: "string \<Rightarrow> bool" where
  "mediaTypePart s \<longleftrightarrow>
     (case s of
        [] \<Rightarrow> False
      | c # cs \<Rightarrow> (lower_alpha c \<or> digit_char c) \<and> length cs \<le> 126 \<and> list_all mediaTypeChar cs)"

definition ArtifactMediaTypeSchema :: "string \<Rightarrow> bool" where
  "ArtifactMediaTypeSchema s \<longleftrightarrow>
     3 \<le> length s \<and> length s \<le> 255 \<and>
     (let left = takeWhile (\<lambda>c. c \<noteq> CHR ''/'') s; rest = dropWhile (\<lambda>c. c \<noteq> CHR ''/'') s
      in mediaTypePart left \<and> rest \<noteq> [] \<and> mediaTypePart (tl rest))"

definition MAX_ARTIFACT_CONTENT_BYTES :: int where
  "MAX_ARTIFACT_CONTENT_BYTES = 16 * 1024 * 1024"

definition ArtifactContentReferenceSchema :: "ArtifactContentReference \<Rightarrow> bool" where
  "ArtifactContentReferenceSchema a \<longleftrightarrow>
     OpaqueIdSchema (content_artifactId a) \<and> ArtifactMediaTypeSchema (content_mediaType a) \<and>
     Sha256Schema (content_sha256 a) \<and>
     0 < content_sizeBytes a \<and> content_sizeBytes a \<le> MAX_ARTIFACT_CONTENT_BYTES"

section \<open>Fences, leases and terminal records\<close>

record ReplayWorkerMutationFence =
  fence_attemptId :: string
  fence_fencingToken :: int
  fence_jobId :: string
  fence_leaseId :: string
  fence_recoveryEpoch :: int
  fence_workerId :: string

definition ReplayWorkerMutationFenceSchema :: "ReplayWorkerMutationFence \<Rightarrow> bool" where
  "ReplayWorkerMutationFenceSchema f \<longleftrightarrow>
     OpaqueIdSchema (fence_attemptId f) \<and> SafePositiveInteger (fence_fencingToken f) \<and>
     OpaqueIdSchema (fence_jobId f) \<and> OpaqueIdSchema (fence_leaseId f) \<and>
     SafeNonnegativeInteger (fence_recoveryEpoch f) \<and> OpaqueIdSchema (fence_workerId f)"

record ReplayLease =
  lease_acquiredAt :: utc_ms
  lease_attemptSequence :: int
  lease_expiresAt :: utc_ms
  lease_heartbeatAt :: utc_ms
  lease_mutationFence :: ReplayWorkerMutationFence
  lease_scope :: EvidenceScope

definition ReplayLeaseSchema :: "ReplayLease \<Rightarrow> bool" where
  "ReplayLeaseSchema l \<longleftrightarrow>
     UtcMillisecondTimestampSchema (lease_acquiredAt l) \<and>
     SafeNonnegativeInteger (lease_attemptSequence l) \<and>
     UtcMillisecondTimestampSchema (lease_expiresAt l) \<and>
     UtcMillisecondTimestampSchema (lease_heartbeatAt l) \<and>
     ReplayWorkerMutationFenceSchema (lease_mutationFence l) \<and>
     EvidenceScopeSchema (lease_scope l) \<and>
     \<not> lease_heartbeatAt l < lease_acquiredAt l \<and>
     \<not> lease_expiresAt l \<le> lease_heartbeatAt l"

record ReplayJobTerminalRecord =
  term_attemptId :: "string option"
  term_code :: ReplayJobTerminalCode
  term_committedAt :: utc_ms
  term_status :: ReplayJobTerminalStatus

fun expectedCodeByStatus :: "ReplayJobTerminalStatus \<Rightarrow> ReplayJobTerminalCode list" where
  "expectedCodeByStatus TermBudgetExhausted = [BudgetLimitReached]"
| "expectedCodeByStatus TermCancelled = [CancellationCommitted]"
| "expectedCodeByStatus TermFailed = [ContractRejected, ExecutionFailed, RetriesExhausted]"
| "expectedCodeByStatus TermSucceeded = [Completed]"
| "expectedCodeByStatus TermTimedOut = [DeadlineReached]"

definition ReplayJobTerminalRecordSchema :: "ReplayJobTerminalRecord \<Rightarrow> bool" where
  "ReplayJobTerminalRecordSchema t \<longleftrightarrow>
     optional OpaqueIdSchema (term_attemptId t) \<and>
     UtcMillisecondTimestampSchema (term_committedAt t) \<and>
     \<not> (term_status t \<noteq> TermCancelled \<and> term_attemptId t = None) \<and>
     term_code t \<in> set (expectedCodeByStatus (term_status t))"

section \<open>Jobs\<close>

record ReplayJob =
  job_createdAt :: utc_ms
  job_createdByPrincipalId :: string
  job_currentLease :: "ReplayLease option"
  job_jobId :: string
  job_lastFencingToken :: int
  job_latestAttemptSequence :: "int option"
  job_plan :: ReplayPlanJobReference
  job_recoveryEpoch :: int
  job_scope :: EvidenceScope
  job_startedAt :: "utc_ms option"
  job_stateVersion :: int
  job_status :: ReplayJobStatus
  job_terminal :: "ReplayJobTerminalRecord option"

definition replayJobShape :: "ReplayJob \<Rightarrow> bool" where
  "replayJobShape j \<longleftrightarrow>
     UtcMillisecondTimestampSchema (job_createdAt j) \<and>
     OpaqueIdSchema (job_createdByPrincipalId j) \<and>
     optional ReplayLeaseSchema (job_currentLease j) \<and>
     OpaqueIdSchema (job_jobId j) \<and>
     SafeNonnegativeInteger (job_lastFencingToken j) \<and>
     optional SafeNonnegativeInteger (job_latestAttemptSequence j) \<and>
     ReplayPlanJobReferenceSchema (job_plan j) \<and>
     SafeNonnegativeInteger (job_recoveryEpoch j) \<and>
     EvidenceScopeSchema (job_scope j) \<and>
     optional UtcMillisecondTimestampSchema (job_startedAt j) \<and>
     SafePositiveInteger (job_stateVersion j) \<and>
     optional ReplayJobTerminalRecordSchema (job_terminal j)"

text \<open>\<open>refineReplayJob\<close> adds no issue exactly when the following holds.\<close>

definition queuedCancellation :: "ReplayJob \<Rightarrow> bool" where
  "queuedCancellation j \<longleftrightarrow>
     job_status j = JobCancelled \<and>
     (case job_terminal j of None \<Rightarrow> False | Some t \<Rightarrow> term_attemptId t = None)"

definition refineReplayJob :: "ReplayJob \<Rightarrow> bool" where
  "refineReplayJob j \<longleftrightarrow>
     (if job_status j = JobQueued then
        job_lastFencingToken j = 0 \<and> job_currentLease j = None \<and>
        job_latestAttemptSequence j = None \<and> job_startedAt j = None \<and> job_terminal j = None
      else if queuedCancellation j then
        job_lastFencingToken j = 0 \<and> job_currentLease j = None \<and>
        job_latestAttemptSequence j = None \<and> job_startedAt j = None \<and>
        (case job_terminal j of
           None \<Rightarrow> False
         | Some t \<Rightarrow> term_status t = TermCancelled \<and> \<not> term_committedAt t < job_createdAt j)
      else
        job_startedAt j \<noteq> None \<and> job_latestAttemptSequence j \<noteq> None \<and>
        job_lastFencingToken j \<noteq> 0 \<and>
        (case job_startedAt j of None \<Rightarrow> True | Some s \<Rightarrow> \<not> s < job_createdAt j) \<and>
        (if job_status j = JobRunning then
           job_terminal j = None \<and>
           (case job_currentLease j of
              None \<Rightarrow> False
            | Some l \<Rightarrow>
                fence_jobId (lease_mutationFence l) = job_jobId j \<and>
                fence_fencingToken (lease_mutationFence l) = job_lastFencingToken j \<and>
                fence_recoveryEpoch (lease_mutationFence l) = job_recoveryEpoch j \<and>
                Some (lease_attemptSequence l) = job_latestAttemptSequence j \<and>
                sameScope (lease_scope l) (job_scope j))
         else
           job_currentLease j = None \<and>
           (case job_terminal j of
              None \<Rightarrow> False
            | Some t \<Rightarrow>
                jobStatusOfTerminal (term_status t) = job_status j \<and>
                \<not> term_committedAt t <
                   (case job_startedAt j of None \<Rightarrow> job_createdAt j | Some s \<Rightarrow> s))))"

definition ReplayJobSchema :: "ReplayJob \<Rightarrow> bool" where
  "ReplayJobSchema j \<longleftrightarrow> replayJobShape j \<and> refineReplayJob j"

record CreateReplayJobRequest =
  createreq_jobId :: string
  createreq_plan :: ReplayPlanJobReference

definition CreateReplayJobRequestSchema :: "CreateReplayJobRequest \<Rightarrow> bool" where
  "CreateReplayJobRequestSchema r \<longleftrightarrow>
     OpaqueIdSchema (createreq_jobId r) \<and> ReplayPlanJobReferenceSchema (createreq_plan r)"

section \<open>Attempts\<close>

fun ReplayEffectRetrySafetySchema :: "ReplayEffectRetrySafety \<Rightarrow> bool" where
  "ReplayEffectRetrySafetySchema NotRetryableEffect = True"
| "ReplayEffectRetrySafetySchema (ReadOnlyEffect evidence) = Sha256Schema evidence"
| "ReplayEffectRetrySafetySchema (DestinationIdempotencyVerified evidence key) =
     (Sha256Schema evidence \<and> Sha256Schema key)"

record ReplayAttemptError =
  err_code :: ReplayAttemptErrorCode
  err_detailsSha256 :: "string option"
  err_effectCertainty :: ReplayEffectCertainty
  err_effectRetrySafety :: "ReplayEffectRetrySafety option"
  err_message :: js_text

definition MAX_REPLAY_ATTEMPT_ERROR_MESSAGE_CHARACTERS :: nat where
  "MAX_REPLAY_ATTEMPT_ERROR_MESSAGE_CHARACTERS = 1024"

definition ReplayAttemptErrorSchema :: "ReplayAttemptError \<Rightarrow> bool" where
  "ReplayAttemptErrorSchema e \<longleftrightarrow>
     optional Sha256Schema (err_detailsSha256 e) \<and>
     optional ReplayEffectRetrySafetySchema (err_effectRetrySafety e) \<and>
     canonicalHumanText MAX_REPLAY_ATTEMPT_ERROR_MESSAGE_CHARACTERS (err_message e) \<and>
     \<not> ((err_effectCertainty e = EffectNone) = (err_effectRetrySafety e \<noteq> None))"

record ReplayAttempt =
  att_attemptId :: string
  att_attemptSequence :: int
  att_endedAt :: "utc_ms option"
  att_error :: "ReplayAttemptError option"
  att_jobId :: string
  att_mutationFence :: ReplayWorkerMutationFence
  att_plan :: ReplayPlanJobReference
  att_result :: "ArtifactContentReference option"
  att_retryDisposition :: "ReplayAttemptRetryDisposition option"
  att_runtimeProfile :: ReplayRuntimeProfileReference
  att_isolationProfile :: ReplayIsolationProfileReference
  att_scope :: EvidenceScope
  att_startedAt :: utc_ms
  att_status :: ReplayAttemptStatus
  att_targetRelease :: TargetReleaseReference
  att_workerBuildSha256 :: string
  att_workerProtocol :: WorkerProtocolReference

definition replayAttemptShape :: "ReplayAttempt \<Rightarrow> bool" where
  "replayAttemptShape a \<longleftrightarrow>
     OpaqueIdSchema (att_attemptId a) \<and> SafeNonnegativeInteger (att_attemptSequence a) \<and>
     optional UtcMillisecondTimestampSchema (att_endedAt a) \<and>
     optional ReplayAttemptErrorSchema (att_error a) \<and>
     OpaqueIdSchema (att_jobId a) \<and>
     ReplayWorkerMutationFenceSchema (att_mutationFence a) \<and>
     ReplayPlanJobReferenceSchema (att_plan a) \<and>
     optional ArtifactContentReferenceSchema (att_result a) \<and>
     ReplayRuntimeProfileReferenceSchema (att_runtimeProfile a) \<and>
     ReplayIsolationProfileReferenceSchema (att_isolationProfile a) \<and>
     EvidenceScopeSchema (att_scope a) \<and>
     UtcMillisecondTimestampSchema (att_startedAt a) \<and>
     TargetReleaseReferenceSchema (att_targetRelease a) \<and>
     Sha256Schema (att_workerBuildSha256 a) \<and>
     WorkerProtocolReferenceSchema (att_workerProtocol a)"

fun requiredErrorCodes :: "ReplayAttemptStatus \<Rightarrow> ReplayAttemptErrorCode list" where
  "requiredErrorCodes AttBudgetExhausted = [AccountingViolation, ErrBudgetExhausted]"
| "requiredErrorCodes AttCancelled = [ErrCancelled]"
| "requiredErrorCodes AttFailed =
     [AuthorityDenied, BoundaryRateLimited, BoundaryTemporarilyUnavailable, ContractMismatch,
      CredentialUnavailable, EffectUncertain, FixtureUnavailable, IsolationFailed,
      TargetContentUnavailable, TargetProcessInterrupted, TargetTemporaryFailure,
      WorkerInternalError]"
| "requiredErrorCodes AttLeaseExpired = [ErrLeaseExpired]"
| "requiredErrorCodes AttTimedOut = [DeadlineExceeded]"
| "requiredErrorCodes AttRunning = []"
| "requiredErrorCodes AttSucceeded = []"

definition retryableErrorCodes :: "ReplayAttemptErrorCode list" where
  "retryableErrorCodes =
     [BoundaryRateLimited, BoundaryTemporarilyUnavailable, TargetProcessInterrupted,
      TargetTemporaryFailure]"

definition refineReplayAttempt :: "ReplayAttempt \<Rightarrow> bool" where
  "refineReplayAttempt a \<longleftrightarrow>
     fence_attemptId (att_mutationFence a) = att_attemptId a \<and>
     fence_jobId (att_mutationFence a) = att_jobId a \<and>
     wproto_name (target_workerProtocol (att_targetRelease a)) = wproto_name (att_workerProtocol a) \<and>
     wproto_version (target_workerProtocol (att_targetRelease a)) =
       wproto_version (att_workerProtocol a) \<and>
     (if att_status a = AttRunning then
        att_endedAt a = None \<and> att_error a = None \<and> att_result a = None \<and>
        att_retryDisposition a = None
      else
        att_endedAt a \<noteq> None \<and> att_retryDisposition a \<noteq> None \<and>
        (case att_endedAt a of None \<Rightarrow> True | Some t \<Rightarrow> \<not> t < att_startedAt a) \<and>
        (if att_status a = AttSucceeded then
           att_result a \<noteq> None \<and> att_error a = None \<and>
           att_retryDisposition a = Some NotRetryable
         else
           att_error a \<noteq> None \<and> att_result a = None \<and>
           (case att_error a of
              None \<Rightarrow> True
            | Some e \<Rightarrow> err_code e \<in> set (requiredErrorCodes (att_status a))) \<and>
           \<not> (Option.bind (att_error a) err_effectRetrySafety = Some NotRetryableEffect \<and>
              att_retryDisposition a \<noteq> Some NotRetryable) \<and>
           \<not> (att_retryDisposition a \<noteq> None \<and> att_retryDisposition a \<noteq> Some NotRetryable \<and>
              att_status a \<noteq> AttLeaseExpired \<and>
              (case att_error a of
                 None \<Rightarrow> True
               | Some e \<Rightarrow> err_code e \<notin> set retryableErrorCodes)) \<and>
           \<not> (att_status a \<in> {AttBudgetExhausted, AttCancelled, AttTimedOut} \<and>
              att_retryDisposition a \<noteq> None \<and> att_retryDisposition a \<noteq> Some NotRetryable) \<and>
           \<not> (att_status a = AttLeaseExpired \<and> att_retryDisposition a = Some RetryEligible)))"

definition ReplayAttemptSchema :: "ReplayAttempt \<Rightarrow> bool" where
  "ReplayAttemptSchema a \<longleftrightarrow> replayAttemptShape a \<and> refineReplayAttempt a"

section \<open>Cancellation\<close>

definition MAX_REPLAY_CANCELLATION_REASON_CHARACTERS :: nat where
  "MAX_REPLAY_CANCELLATION_REASON_CHARACTERS = 512"

record RequestReplayCancellation =
  rc_cancellationId :: string
  rc_reason :: js_text
  rc_reasonCode :: ReplayCancellationReasonCode

definition RequestReplayCancellationSchema :: "RequestReplayCancellation \<Rightarrow> bool" where
  "RequestReplayCancellationSchema r \<longleftrightarrow>
     OpaqueIdSchema (rc_cancellationId r) \<and>
     canonicalHumanText MAX_REPLAY_CANCELLATION_REASON_CHARACTERS (rc_reason r)"

record ReplayCancellationRequest =
  cancel_cancellationId :: string
  cancel_jobId :: string
  cancel_reason :: js_text
  cancel_reasonCode :: ReplayCancellationReasonCode
  cancel_requestedAt :: utc_ms
  cancel_requestedByPrincipalId :: string
  cancel_scope :: EvidenceScope

definition ReplayCancellationRequestSchema :: "ReplayCancellationRequest \<Rightarrow> bool" where
  "ReplayCancellationRequestSchema r \<longleftrightarrow>
     OpaqueIdSchema (cancel_cancellationId r) \<and> OpaqueIdSchema (cancel_jobId r) \<and>
     canonicalHumanText MAX_REPLAY_CANCELLATION_REASON_CHARACTERS (cancel_reason r) \<and>
     UtcMillisecondTimestampSchema (cancel_requestedAt r) \<and>
     OpaqueIdSchema (cancel_requestedByPrincipalId r) \<and> EvidenceScopeSchema (cancel_scope r)"

datatype ReplayCancellationAction =
  ObservedAfterUninterruptibleCompletion | StopRequested | StoppedBeforeTargetStart

record ReplayCancellationAcknowledgement =
  ack_acknowledgedAt :: utc_ms
  ack_acknowledgementId :: string
  ack_action :: ReplayCancellationAction
  ack_cancellationId :: string
  ack_mutationFence :: ReplayWorkerMutationFence
  ack_scope :: EvidenceScope

definition ReplayCancellationAcknowledgementSchema ::
    "ReplayCancellationAcknowledgement \<Rightarrow> bool" where
  "ReplayCancellationAcknowledgementSchema a \<longleftrightarrow>
     UtcMillisecondTimestampSchema (ack_acknowledgedAt a) \<and>
     OpaqueIdSchema (ack_acknowledgementId a) \<and> OpaqueIdSchema (ack_cancellationId a) \<and>
     ReplayWorkerMutationFenceSchema (ack_mutationFence a) \<and> EvidenceScopeSchema (ack_scope a)"

end
