(* ===== verification/Fenced_Machine.thy ===== *)
theory Fenced_Machine
  imports Main
begin

text \<open>
  The contract two schedulers of the program share: durable replay jobs
  (\<open>packages/replay/src/replay-job-state.ts\<close>) and policy-evaluation jobs
  (\<open>packages/core/src/policy/policy-evaluation-scheduler-*.ts\<close>). A state carries a fencing token
  and a state version; a worker presents a fence, which names the token it was issued with.

  The laws: a step keeps the schema, adds one to the version, never lowers the token, and does not
  leave a terminal state; a state admits only fences that carry its own token, and a terminal state
  admits none. What a client of such a scheduler may rely on is proved here once.
\<close>

locale fenced_machine =
  fixes step :: "'s \<Rightarrow> 's \<Rightarrow> bool"
    and valid :: "'s \<Rightarrow> bool"
    and token :: "'s \<Rightarrow> int"
    and version :: "'s \<Rightarrow> int"
    and terminal :: "'s \<Rightarrow> bool"
    and admits :: "'s \<Rightarrow> 'f \<Rightarrow> bool"
    and fence_token :: "'f \<Rightarrow> int"
  assumes step_valid: "step s t \<Longrightarrow> valid t"
    and step_version: "step s t \<Longrightarrow> version t = version s + 1"
    and step_token: "step s t \<Longrightarrow> token s \<le> token t"
    and step_not_terminal: "step s t \<Longrightarrow> \<not> terminal s"
    and admits_token: "valid s \<Longrightarrow> admits s f \<Longrightarrow> fence_token f = token s"
    and admits_live: "valid s \<Longrightarrow> admits s f \<Longrightarrow> \<not> terminal s"
begin

lemma steps_valid: "step\<^sup>*\<^sup>* s t \<Longrightarrow> valid s \<Longrightarrow> valid t"
  by (induction rule: rtranclp_induct) (auto intro: step_valid)

lemma steps_token: "step\<^sup>*\<^sup>* s t \<Longrightarrow> token s \<le> token t"
  by (induction rule: rtranclp_induct) (auto dest: step_token)

lemma steps_version: "step\<^sup>*\<^sup>* s t \<Longrightarrow> version s \<le> version t"
  by (induction rule: rtranclp_induct) (auto dest: step_version)

lemma relpow_version: "(step ^^ n) s t \<Longrightarrow> version t = version s + int n"
  by (induction n arbitrary: t) (auto dest: step_version)

lemma steps_same_version: "step\<^sup>*\<^sup>* s t \<Longrightarrow> version s = version t \<Longrightarrow> s = t"
proof -
  assume "step\<^sup>*\<^sup>* s t" and same: "version s = version t"
  then obtain n where n: "(step ^^ n) s t" by (auto dest: rtranclp_imp_relpowp)
  with same have "n = 0" by (auto dest: relpow_version)
  with n show "s = t" by simp
qed

lemma terminal_final: "terminal s \<Longrightarrow> step\<^sup>*\<^sup>* s t \<Longrightarrow> t = s"
  by (auto elim: converse_rtranclpE dest: step_not_terminal)

lemma run_length_bounded:
  assumes "(step ^^ n) s t" and "valid s" and "\<And>u. valid u \<Longrightarrow> version u \<le> bound"
  shows "int n \<le> bound - version s"
proof -
  have "valid t"
    using assms(1,2) by (auto intro: steps_valid relpowp_imp_rtranclp)
  then have "version t \<le> bound" by (rule assms(3))
  then show ?thesis using relpow_version [OF assms(1)] by simp
qed

lemma superseded_never_admitted:
  assumes "valid s" and "admits s f" and "step\<^sup>*\<^sup>* s t" and "token t \<noteq> token s" and "step\<^sup>*\<^sup>* t u"
  shows "\<not> admits u f"
proof
  assume "admits u f"
  moreover have "valid u"
    using assms(1,3,5) by (blast intro: steps_valid)
  ultimately have "fence_token f = token u" by (rule admits_token [rotated])
  moreover have "fence_token f = token s"
    using assms(1,2) by (rule admits_token)
  moreover have "token s < token u"
    using assms(3,4,5) by (force dest: steps_token)
  ultimately show False by simp
qed

lemma closed_never_admitted:
  "valid s \<Longrightarrow> terminal s \<Longrightarrow> step\<^sup>*\<^sup>* s t \<Longrightarrow> \<not> admits t f"
  using terminal_final admits_live by blast

end

text \<open>
  A machine that also carries a recovery epoch: every restore of the store raises it, and a fence is
  admitted only in the epoch it was issued in.
\<close>

locale epoch_machine = fenced_machine step valid token version terminal admits fence_token
  for step :: "'s \<Rightarrow> 's \<Rightarrow> bool" and valid :: "'s \<Rightarrow> bool" and token :: "'s \<Rightarrow> int"
    and version :: "'s \<Rightarrow> int" and terminal :: "'s \<Rightarrow> bool" and admits :: "'s \<Rightarrow> 'f \<Rightarrow> bool"
    and fence_token :: "'f \<Rightarrow> int" +
  fixes epoch :: "'s \<Rightarrow> int" and fence_epoch :: "'f \<Rightarrow> int"
  assumes step_epoch: "step s t \<Longrightarrow> epoch s \<le> epoch t"
    and admits_epoch: "valid s \<Longrightarrow> admits s f \<Longrightarrow> fence_epoch f = epoch s"
begin

lemma steps_epoch: "step\<^sup>*\<^sup>* s t \<Longrightarrow> epoch s \<le> epoch t"
  by (induction rule: rtranclp_induct) (auto dest: step_epoch)

lemma recovered_never_admitted:
  assumes "valid s" and "admits s f" and "step\<^sup>*\<^sup>* s t" and "epoch t \<noteq> epoch s" and "step\<^sup>*\<^sup>* t u"
  shows "\<not> admits u f"
proof
  assume "admits u f"
  moreover have "valid u" using assms(1,3,5) by (blast intro: steps_valid)
  ultimately have "fence_epoch f = epoch u" by (rule admits_epoch [rotated])
  moreover have "fence_epoch f = epoch s" using assms(1,2) by (rule admits_epoch)
  moreover have "epoch s < epoch u" using assms(3,4,5) by (force dest: steps_epoch)
  ultimately show False by simp
qed

lemma locked_out:
  assumes "valid s" and "admits s f" and "step\<^sup>*\<^sup>* s t" and "step\<^sup>*\<^sup>* t u"
    and "token t \<noteq> token s \<or> epoch t \<noteq> epoch s \<or> terminal t"
  shows "\<not> admits u f"
  using assms superseded_never_admitted recovered_never_admitted closed_never_admitted steps_valid
  by metis

end

end
