(* ===== verification/Replay_Job_State.thy ===== *)
theory Replay_Job_State
  imports Replay_Job Fenced_Machine
begin

text \<open>
  The state transitions of a durable replay job, \<open>packages/replay/src/replay-job-state.ts\<close>.
  Every exported function is one definition with the checks in the order of the code. A thrown
  \<open>DurableReplayStateError\<close>, a schema rejection (\<open>ZodError\<close>) and the \<open>RangeError\<close> of
  \<open>Date.prototype.toISOString\<close> are the three kinds of error value.
\<close>

section \<open>Errors, options and results\<close>

datatype DurableReplayStateErrorCode =
  AttemptLimitReached | CancellationConflict | CancellationRequired | CounterExhausted |
  StateEffectUncertain | InvalidAttemptState | InvalidLeaseDuration | LeaseActive | LeaseExpired |
  StaleFence | StateConflict

datatype replay_state_error =
  DurableReplayStateError DurableReplayStateErrorCode | ZodError | RangeError

definition MAX_COUNTER :: int where
  "MAX_COUNTER = MAX_SAFE_INTEGER"

definition MAX_LEASE_DURATION_MILLISECONDS :: int where
  "MAX_LEASE_DURATION_MILLISECONDS = 24 * 60 * 60 * 1000"

record CreateQueuedReplayJobOptions =
  cqo_createdAt :: utc_ms
  cqo_createdByPrincipalId :: string
  cqo_request :: CreateReplayJobRequest
  cqo_scope :: EvidenceScope

record ReplayExpiredEffect =
  eff_certainty :: ReplayEffectCertainty
  eff_retrySafety :: "ReplayEffectRetrySafety option"

record ClaimReplayJobOptions =
  clo_attemptId :: string
  clo_currentAttempt :: "ReplayAttempt option"
  clo_expiredEffect :: "ReplayExpiredEffect option"
  clo_isolationProfile :: ReplayIsolationProfileReference
  clo_leaseDurationMilliseconds :: js_number
  clo_leaseId :: string
  clo_maxAttempts :: js_number
  clo_now :: utc_ms
  clo_runtimeProfile :: ReplayRuntimeProfileReference
  clo_targetRelease :: TargetReleaseReference
  clo_workerBuildSha256 :: string
  clo_workerId :: string
  clo_workerProtocol :: WorkerProtocolReference

record ClaimReplayJobResult =
  clr_attempt :: ReplayAttempt
  clr_expiredAttempt :: "ReplayAttempt option"
  clr_job :: ReplayJob
  clr_lease :: ReplayLease

record CompleteReplayAttemptOptions =
  cmo_cancellationRequested :: bool
  cmo_code :: ReplayJobTerminalCode
  cmo_error :: "ReplayAttemptError option"
  cmo_now :: utc_ms
  cmo_result :: "ArtifactContentReference option"
  cmo_status :: ReplayJobTerminalStatus

text \<open>
  \<open>CloseExpiredReplayAttemptOptions\<close> pairs each terminal code with its status in the type.
\<close>

datatype CloseExpiredOutcome =
  CloseCancelled | CloseExecutionFailed | CloseRetriesExhausted | CloseTimedOut

fun closeStatus :: "CloseExpiredOutcome \<Rightarrow> ReplayJobTerminalStatus" where
  "closeStatus CloseCancelled = TermCancelled"
| "closeStatus CloseExecutionFailed = TermFailed"
| "closeStatus CloseRetriesExhausted = TermFailed"
| "closeStatus CloseTimedOut = TermTimedOut"

fun closeCode :: "CloseExpiredOutcome \<Rightarrow> ReplayJobTerminalCode" where
  "closeCode CloseCancelled = CancellationCommitted"
| "closeCode CloseExecutionFailed = ExecutionFailed"
| "closeCode CloseRetriesExhausted = RetriesExhausted"
| "closeCode CloseTimedOut = DeadlineReached"

record CloseExpiredReplayAttemptOptions =
  ceo_effect :: ReplayExpiredEffect
  ceo_now :: utc_ms
  ceo_outcome :: CloseExpiredOutcome

record RequestReplayCancellationOptions =
  rco_existing :: "ReplayCancellationRequest option"
  rco_input :: RequestReplayCancellation
  rco_now :: utc_ms
  rco_requestedByPrincipalId :: string

record RequestReplayCancellationResult =
  rcr_created :: bool
  rcr_job :: ReplayJob
  rcr_request :: ReplayCancellationRequest

section \<open>Helpers\<close>

abbreviation stateError :: "DurableReplayStateErrorCode \<Rightarrow> (replay_state_error, 'a) result" where
  "stateError c \<equiv> Inl (DurableReplayStateError c)"

fun assertLeaseDuration :: "js_number \<Rightarrow> (replay_state_error, int) result" where
  "assertLeaseDuration (JsInt v) =
     (if \<not> isSafeInteger (JsInt v) \<or> v < 1 \<or> v > MAX_LEASE_DURATION_MILLISECONDS
      then stateError InvalidLeaseDuration else Inr v)"
| "assertLeaseDuration JsOther = stateError InvalidLeaseDuration"

definition addMilliseconds :: "utc_ms \<Rightarrow> int \<Rightarrow> (replay_state_error, utc_ms) result" where
  "addMilliseconds t d =
     (case isoTimestamp (t + d) of
        Inl DateRangeError \<Rightarrow> Inl RangeError
      | Inl NotCanonical \<Rightarrow> Inl ZodError
      | Inr t' \<Rightarrow> Inr t')"

definition sameFence :: "ReplayWorkerMutationFence \<Rightarrow> ReplayWorkerMutationFence \<Rightarrow> bool" where
  "sameFence l r \<longleftrightarrow>
     fence_jobId l = fence_jobId r \<and> fence_attemptId l = fence_attemptId r \<and>
     fence_leaseId l = fence_leaseId r \<and> fence_workerId l = fence_workerId r \<and>
     fence_fencingToken l = fence_fencingToken r \<and>
     fence_recoveryEpoch l = fence_recoveryEpoch r"

definition nextCounter :: "int \<Rightarrow> (replay_state_error, int) result" where
  "nextCounter v = (if v \<ge> MAX_COUNTER then stateError CounterExhausted else Inr (v + 1))"

text \<open>\<open>ReplayLeaseSchema.parse(job.currentLease)\<close>: an absent lease is a schema rejection.\<close>

definition parseCurrentLease :: "ReplayJob \<Rightarrow> (replay_state_error, ReplayLease) result" where
  "parseCurrentLease job =
     (case job_currentLease job of
        None \<Rightarrow> Inl ZodError
      | Some l \<Rightarrow> (if ReplayLeaseSchema l then Inr l else Inl ZodError))"

definition assertCurrentFence ::
    "ReplayJob \<Rightarrow> ReplayWorkerMutationFence \<Rightarrow> utc_ms \<Rightarrow> (replay_state_error, ReplayLease) result" where
  "assertCurrentFence job fence now =
     (if job_status job \<noteq> JobRunning then stateError StateConflict
      else case parseCurrentLease job of
        Inl e \<Rightarrow> Inl e
      | Inr currentLease \<Rightarrow>
          if \<not> sameFence (lease_mutationFence currentLease) fence then stateError StaleFence
          else if now \<ge> lease_expiresAt currentLease then stateError LeaseExpired
          else Inr currentLease)"

definition assertReplayWorkerMutationFence ::
    "ReplayJob \<Rightarrow> ReplayWorkerMutationFence \<Rightarrow> utc_ms \<Rightarrow> (replay_state_error, ReplayLease) result" where
  "assertReplayWorkerMutationFence job fence now =
     (if \<not> ReplayJobSchema job then Inl ZodError
      else if \<not> UtcMillisecondTimestampSchema now then Inl ZodError
      else case assertCurrentFence job fence now of
        Inl e \<Rightarrow> Inl e
      | Inr l \<Rightarrow> if ReplayLeaseSchema l then Inr l else Inl ZodError)"

definition assertCurrentAttempt ::
    "ReplayJob \<Rightarrow> ReplayAttempt option \<Rightarrow> (replay_state_error, ReplayAttempt) result" where
  "assertCurrentAttempt job attempt =
     (case parseCurrentLease job of
        Inl e \<Rightarrow> Inl e
      | Inr currentLease \<Rightarrow>
          (case attempt of
             None \<Rightarrow> stateError InvalidAttemptState
           | Some a \<Rightarrow>
               if att_status a \<noteq> AttRunning \<or>
                  \<not> sameFence (att_mutationFence a) (lease_mutationFence currentLease) \<or>
                  \<not> sameScope (att_scope a) (job_scope job) \<or>
                  att_attemptSequence a \<noteq> lease_attemptSequence currentLease
               then stateError InvalidAttemptState
               else Inr a))"

text \<open>Re-validation of a value the code just assembled (\<open>Schema.parse(...)\<close>).\<close>

definition parsed :: "('a \<Rightarrow> bool) \<Rightarrow> 'a \<Rightarrow> (replay_state_error, 'a) result" where
  "parsed schema x = (if schema x then Inr x else Inl ZodError)"

section \<open>Creation and claim\<close>

definition createQueuedReplayJob ::
    "CreateQueuedReplayJobOptions \<Rightarrow> (replay_state_error, ReplayJob) result" where
  "createQueuedReplayJob options =
     (let request = cqo_request options in
      if \<not> CreateReplayJobRequestSchema request then Inl ZodError
      else if \<not> UtcMillisecondTimestampSchema (cqo_createdAt options) then Inl ZodError
      else parsed ReplayJobSchema
        \<lparr>job_createdAt = cqo_createdAt options,
         job_createdByPrincipalId = cqo_createdByPrincipalId options,
         job_currentLease = None,
         job_jobId = createreq_jobId request,
         job_lastFencingToken = 0,
         job_latestAttemptSequence = None,
         job_plan = createreq_plan request,
         job_recoveryEpoch = 0,
         job_scope = cqo_scope options,
         job_startedAt = None,
         job_stateVersion = 1,
         job_status = JobQueued,
         job_terminal = None\<rparr>)"

definition leaseExpiredMessage :: js_text where
  "leaseExpiredMessage = js_text_of ''The worker lease expired before a terminal attempt commit.''"

definition leaseExpiredError :: "ReplayExpiredEffect \<Rightarrow> ReplayAttemptError" where
  "leaseExpiredError effect =
     \<lparr>err_code = ErrLeaseExpired, err_detailsSha256 = None,
      err_effectCertainty = eff_certainty effect, err_effectRetrySafety = eff_retrySafety effect,
      err_message = leaseExpiredMessage\<rparr>"

text \<open>The guard on taking over an expired lease: the effect of the lost attempt must be known safe.\<close>

definition expiredEffectBlocksClaim :: "ReplayExpiredEffect option \<Rightarrow> bool" where
  "expiredEffectBlocksClaim effect =
     (case effect of
        None \<Rightarrow> True
      | Some e \<Rightarrow>
          eff_certainty e \<noteq> EffectNone \<and>
          (case eff_retrySafety e of
             None \<Rightarrow> True
           | Some NotRetryableEffect \<Rightarrow> True
           | Some (ReadOnlyEffect _) \<Rightarrow> False
           | Some (DestinationIdempotencyVerified _ _) \<Rightarrow> False))"

definition claimLease ::
    "ReplayJob \<Rightarrow> ClaimReplayJobOptions \<Rightarrow> int \<Rightarrow> int \<Rightarrow> utc_ms \<Rightarrow> ReplayLease" where
  "claimLease job options attemptSequence fencingToken expiresAt =
     \<lparr>lease_acquiredAt = clo_now options, lease_attemptSequence = attemptSequence,
      lease_expiresAt = expiresAt, lease_heartbeatAt = clo_now options,
      lease_mutationFence =
        \<lparr>fence_attemptId = clo_attemptId options, fence_fencingToken = fencingToken,
         fence_jobId = job_jobId job, fence_leaseId = clo_leaseId options,
         fence_recoveryEpoch = job_recoveryEpoch job, fence_workerId = clo_workerId options\<rparr>,
      lease_scope = job_scope job\<rparr>"

definition claimAttempt ::
    "ReplayJob \<Rightarrow> ClaimReplayJobOptions \<Rightarrow> ReplayLease \<Rightarrow> ReplayAttempt" where
  "claimAttempt job options lease =
     \<lparr>att_attemptId = clo_attemptId options,
      att_attemptSequence = lease_attemptSequence lease,
      att_endedAt = None, att_error = None,
      att_jobId = job_jobId job,
      att_mutationFence = lease_mutationFence lease,
      att_plan = job_plan job,
      att_result = None, att_retryDisposition = None,
      att_runtimeProfile = clo_runtimeProfile options,
      att_isolationProfile = clo_isolationProfile options,
      att_scope = job_scope job,
      att_startedAt = clo_now options,
      att_status = AttRunning,
      att_targetRelease = clo_targetRelease options,
      att_workerBuildSha256 = clo_workerBuildSha256 options,
      att_workerProtocol = clo_workerProtocol options\<rparr>"

text \<open>
  Lines 267-292: when the job was running, its current attempt is closed as expired; when it was
  queued no current attempt may be supplied.
\<close>

definition claimExpiredAttempt ::
    "ReplayJob \<Rightarrow> ClaimReplayJobOptions \<Rightarrow> (replay_state_error, ReplayAttempt option) result" where
  "claimExpiredAttempt job options =
     (if job_status job = JobRunning then
        (case assertCurrentAttempt job (clo_currentAttempt options) of
           Inl e \<Rightarrow> Inl e
         | Inr currentAttempt \<Rightarrow>
             (if expiredEffectBlocksClaim (clo_expiredEffect options)
              then stateError StateEffectUncertain
              else case parsed ReplayAttemptSchema
                  (currentAttempt\<lparr>att_endedAt := Some (clo_now options),
                     att_error := map_option leaseExpiredError (clo_expiredEffect options),
                     att_retryDisposition := Some RetryScheduled,
                     att_status := AttLeaseExpired\<rparr>) of
                Inl e \<Rightarrow> Inl e
              | Inr a \<Rightarrow> Inr (Some a)))
      else if clo_currentAttempt options \<noteq> None then stateError InvalidAttemptState
      else Inr None)"

definition claimReplayJob ::
    "ReplayJob \<Rightarrow> ClaimReplayJobOptions \<Rightarrow> (replay_state_error, ClaimReplayJobResult) result" where
  "claimReplayJob job options =
     (let now = clo_now options in
      if \<not> ReplayJobSchema job then Inl ZodError
      else if \<not> UtcMillisecondTimestampSchema now then Inl ZodError
      else case assertLeaseDuration (clo_leaseDurationMilliseconds options) of Inl e \<Rightarrow> Inl e
      | Inr duration \<Rightarrow>
      (case clo_maxAttempts options of JsOther \<Rightarrow> stateError AttemptLimitReached
      | JsInt maxAttempts \<Rightarrow>
      if \<not> isSafeInteger (JsInt maxAttempts) \<or> maxAttempts < 1 then stateError AttemptLimitReached
      else if job_status job \<noteq> JobQueued \<and> job_status job \<noteq> JobRunning then stateError StateConflict
      else case (if job_status job = JobRunning
                 then (case parseCurrentLease job of
                         Inl e \<Rightarrow> Inl e
                       | Inr l \<Rightarrow> if now < lease_expiresAt l then stateError LeaseActive else Inr ())
                 else Inr ()) of Inl e \<Rightarrow> Inl e
      | Inr _ \<Rightarrow>
      (case nextCounter (case job_latestAttemptSequence job of None \<Rightarrow> -1 | Some n \<Rightarrow> n) of
        Inl e \<Rightarrow> Inl e
      | Inr attemptSequence \<Rightarrow>
      if attemptSequence \<ge> maxAttempts then stateError AttemptLimitReached
      else case nextCounter (job_lastFencingToken job) of Inl e \<Rightarrow> Inl e
      | Inr fencingToken \<Rightarrow>
      (case nextCounter (job_stateVersion job) of Inl e \<Rightarrow> Inl e
      | Inr stateVersion \<Rightarrow>
      (case addMilliseconds now duration of Inl e \<Rightarrow> Inl e
      | Inr expiresAt \<Rightarrow>
      (case parsed ReplayLeaseSchema (claimLease job options attemptSequence fencingToken expiresAt) of
        Inl e \<Rightarrow> Inl e
      | Inr lease \<Rightarrow>
      (case parsed ReplayAttemptSchema (claimAttempt job options lease) of Inl e \<Rightarrow> Inl e
      | Inr attempt \<Rightarrow>
      (case claimExpiredAttempt job options of Inl e \<Rightarrow> Inl e
      | Inr expiredAttempt \<Rightarrow>
      (case parsed ReplayJobSchema
          (job\<lparr>job_currentLease := Some lease,
               job_lastFencingToken := fencingToken,
               job_latestAttemptSequence := Some attemptSequence,
               job_startedAt :=
                 Some (case job_startedAt job of None \<Rightarrow> now | Some s \<Rightarrow> s),
               job_stateVersion := stateVersion,
               job_status := JobRunning\<rparr>) of Inl e \<Rightarrow> Inl e
      | Inr job' \<Rightarrow>
          Inr \<lparr>clr_attempt = attempt, clr_expiredAttempt = expiredAttempt, clr_job = job',
               clr_lease = lease\<rparr>)))))))))"

section \<open>Heartbeat and completion\<close>

definition heartbeatReplayJob ::
    "ReplayJob \<Rightarrow> ReplayWorkerMutationFence \<Rightarrow> utc_ms \<Rightarrow> js_number \<Rightarrow>
     (replay_state_error, ReplayJob) result" where
  "heartbeatReplayJob job fence now leaseDurationMilliseconds =
     (if \<not> ReplayJobSchema job then Inl ZodError
      else if \<not> UtcMillisecondTimestampSchema now then Inl ZodError
      else case assertLeaseDuration leaseDurationMilliseconds of Inl e \<Rightarrow> Inl e
      | Inr duration \<Rightarrow>
      (case assertCurrentFence job fence now of Inl e \<Rightarrow> Inl e
      | Inr currentLease \<Rightarrow>
      (case addMilliseconds now duration of Inl e \<Rightarrow> Inl e
      | Inr expiresAt \<Rightarrow>
      (case parsed ReplayLeaseSchema
          (currentLease\<lparr>lease_expiresAt := expiresAt, lease_heartbeatAt := now\<rparr>) of Inl e \<Rightarrow> Inl e
      | Inr lease \<Rightarrow>
      (case nextCounter (job_stateVersion job) of Inl e \<Rightarrow> Inl e
      | Inr stateVersion \<Rightarrow>
          parsed ReplayJobSchema
            (job\<lparr>job_currentLease := Some lease, job_stateVersion := stateVersion\<rparr>))))))"

definition terminalJob ::
    "ReplayJob \<Rightarrow> int \<Rightarrow> string option \<Rightarrow> ReplayJobTerminalCode \<Rightarrow> utc_ms \<Rightarrow>
     ReplayJobTerminalStatus \<Rightarrow> ReplayJob" where
  "terminalJob job stateVersion attemptId code now status =
     job\<lparr>job_currentLease := None, job_stateVersion := stateVersion,
         job_status := jobStatusOfTerminal status,
         job_terminal := Some \<lparr>term_attemptId = attemptId, term_code = code,
                               term_committedAt = now, term_status = status\<rparr>\<rparr>"

definition closeExpiredReplayAttempt ::
    "ReplayJob \<Rightarrow> ReplayAttempt \<Rightarrow> CloseExpiredReplayAttemptOptions \<Rightarrow>
     (replay_state_error, ReplayAttempt \<times> ReplayJob) result" where
  "closeExpiredReplayAttempt job attempt options =
     (let now = ceo_now options; status = closeStatus (ceo_outcome options);
          code = closeCode (ceo_outcome options) in
      if \<not> ReplayJobSchema job then Inl ZodError
      else if \<not> ReplayAttemptSchema attempt then Inl ZodError
      else if \<not> UtcMillisecondTimestampSchema now then Inl ZodError
      else if job_status job \<noteq> JobRunning then stateError StateConflict
      else case parseCurrentLease job of Inl e \<Rightarrow> Inl e
      | Inr lease \<Rightarrow>
      (case assertCurrentAttempt job (Some attempt) of Inl e \<Rightarrow> Inl e
      | Inr _ \<Rightarrow>
      if now < lease_expiresAt lease then stateError LeaseActive
      else case parsed ReplayAttemptSchema
          (attempt\<lparr>att_endedAt := Some (lease_expiresAt lease),
                   att_error := Some (leaseExpiredError (ceo_effect options)),
                   att_retryDisposition := Some NotRetryable,
                   att_status := AttLeaseExpired\<rparr>) of Inl e \<Rightarrow> Inl e
      | Inr expiredAttempt \<Rightarrow>
      (case nextCounter (job_stateVersion job) of Inl e \<Rightarrow> Inl e
      | Inr stateVersion \<Rightarrow>
      (case parsed ReplayJobSchema
          (terminalJob job stateVersion (Some (att_attemptId attempt)) code now status) of
        Inl e \<Rightarrow> Inl e
      | Inr job' \<Rightarrow> Inr (expiredAttempt, job')))))"

definition completeReplayAttempt ::
    "ReplayJob \<Rightarrow> ReplayAttempt \<Rightarrow> ReplayWorkerMutationFence \<Rightarrow> CompleteReplayAttemptOptions \<Rightarrow>
     (replay_state_error, ReplayAttempt \<times> ReplayJob) result" where
  "completeReplayAttempt job attempt fence options =
     (let now = cmo_now options; status = cmo_status options in
      if \<not> ReplayJobSchema job then Inl ZodError
      else if \<not> ReplayAttemptSchema attempt then Inl ZodError
      else if \<not> UtcMillisecondTimestampSchema now then Inl ZodError
      else case assertCurrentFence job fence now of Inl e \<Rightarrow> Inl e
      | Inr _ \<Rightarrow>
      (case assertCurrentAttempt job (Some attempt) of Inl e \<Rightarrow> Inl e
      | Inr _ \<Rightarrow>
      if cmo_cancellationRequested options \<and> status \<noteq> TermCancelled
      then stateError CancellationRequired
      else case parsed ReplayAttemptSchema
          (attempt\<lparr>att_endedAt := Some now,
                   att_error :=
                     (case cmo_error options of None \<Rightarrow> att_error attempt | Some e \<Rightarrow> Some e),
                   att_result :=
                     (case cmo_result options of None \<Rightarrow> att_result attempt | Some r \<Rightarrow> Some r),
                   att_retryDisposition := Some NotRetryable,
                   att_status := attemptStatusOfTerminal status\<rparr>) of Inl e \<Rightarrow> Inl e
      | Inr completedAttempt \<Rightarrow>
      (case nextCounter (job_stateVersion job) of Inl e \<Rightarrow> Inl e
      | Inr stateVersion \<Rightarrow>
      (case parsed ReplayJobSchema
          (terminalJob job stateVersion (Some (att_attemptId attempt)) (cmo_code options) now status) of
        Inl e \<Rightarrow> Inl e
      | Inr job' \<Rightarrow> Inr (completedAttempt, job')))))"

section \<open>Cancellation\<close>

definition requestReplayCancellation ::
    "ReplayJob \<Rightarrow> RequestReplayCancellationOptions \<Rightarrow>
     (replay_state_error, RequestReplayCancellationResult) result" where
  "requestReplayCancellation job options =
     (let input = rco_input options; now = rco_now options in
      if \<not> ReplayJobSchema job then Inl ZodError
      else if \<not> RequestReplayCancellationSchema input then Inl ZodError
      else if \<not> UtcMillisecondTimestampSchema now then Inl ZodError
      else case rco_existing options of
        Some existing \<Rightarrow>
          if \<not> ReplayCancellationRequestSchema existing then Inl ZodError
          else if cancel_jobId existing \<noteq> job_jobId job \<or>
                  \<not> sameScope (cancel_scope existing) (job_scope job) \<or>
                  cancel_cancellationId existing \<noteq> rc_cancellationId input \<or>
                  cancel_reasonCode existing \<noteq> rc_reasonCode input \<or>
                  cancel_reason existing \<noteq> rc_reason input
          then stateError CancellationConflict
          else Inr \<lparr>rcr_created = False, rcr_job = job, rcr_request = existing\<rparr>
      | None \<Rightarrow>
          if job_status job \<noteq> JobQueued \<and> job_status job \<noteq> JobRunning then stateError StateConflict
          else case parsed ReplayCancellationRequestSchema
              \<lparr>cancel_cancellationId = rc_cancellationId input, cancel_jobId = job_jobId job,
               cancel_reason = rc_reason input, cancel_reasonCode = rc_reasonCode input,
               cancel_requestedAt = now,
               cancel_requestedByPrincipalId = rco_requestedByPrincipalId options,
               cancel_scope = job_scope job\<rparr> of Inl e \<Rightarrow> Inl e
          | Inr request \<Rightarrow>
              if job_status job = JobRunning
              then Inr \<lparr>rcr_created = True, rcr_job = job, rcr_request = request\<rparr>
              else case nextCounter (job_stateVersion job) of Inl e \<Rightarrow> Inl e
              | Inr stateVersion \<Rightarrow>
                  (case parsed ReplayJobSchema
                      (terminalJob job stateVersion None CancellationCommitted now TermCancelled) of
                     Inl e \<Rightarrow> Inl e
                   | Inr job' \<Rightarrow>
                       Inr \<lparr>rcr_created = True, rcr_job = job', rcr_request = request\<rparr>))"

definition acknowledgeReplayCancellation ::
    "ReplayJob \<Rightarrow> ReplayCancellationRequest \<Rightarrow> ReplayWorkerMutationFence \<Rightarrow> string \<Rightarrow>
     ReplayCancellationAction \<Rightarrow> utc_ms \<Rightarrow>
     (replay_state_error, ReplayCancellationAcknowledgement) result" where
  "acknowledgeReplayCancellation job request fence acknowledgementId action now =
     (if \<not> ReplayJobSchema job then Inl ZodError
      else if \<not> ReplayCancellationRequestSchema request then Inl ZodError
      else if \<not> UtcMillisecondTimestampSchema now then Inl ZodError
      else case assertCurrentFence job fence now of Inl e \<Rightarrow> Inl e
      | Inr _ \<Rightarrow>
          if cancel_jobId request \<noteq> job_jobId job \<or>
             \<not> sameScope (cancel_scope request) (job_scope job) \<or>
             now < cancel_requestedAt request
          then stateError CancellationConflict
          else parsed ReplayCancellationAcknowledgementSchema
            \<lparr>ack_acknowledgedAt = now, ack_acknowledgementId = acknowledgementId,
             ack_action = action, ack_cancellationId = cancel_cancellationId request,
             ack_mutationFence = fence, ack_scope = job_scope job\<rparr>)"

section \<open>What a successful transition did\<close>

lemma sameFence_iff [simp]: "sameFence l r \<longleftrightarrow> l = r"
  by (auto simp: sameFence_def intro: ReplayWorkerMutationFence.equality)

lemma nextCounter_Inr_iff [result_simps]:
  "nextCounter v = Inr w \<longleftrightarrow> w = v + 1 \<and> v < MAX_COUNTER"
  by (auto simp: nextCounter_def)

lemma parsed_Inr_iff [result_simps]: "parsed schema x = Inr y \<longleftrightarrow> y = x \<and> schema x"
  by (auto simp: parsed_def)

lemma addMilliseconds_Inr_iff [result_simps]:
  "addMilliseconds t d = Inr u \<longleftrightarrow> u = t + d \<and> UtcMillisecondTimestampSchema (t + d)"
  by (auto simp: addMilliseconds_def isoTimestamp_def UtcMillisecondTimestampSchema_def
      MIN_UTC_MS_def MAX_UTC_MS_def MAX_DATE_MS_def)

lemma assertLeaseDuration_Inr_iff [result_simps]:
  "assertLeaseDuration n = Inr d \<longleftrightarrow> n = JsInt d \<and> 1 \<le> d \<and> d \<le> MAX_LEASE_DURATION_MILLISECONDS"
  by (cases n) (auto simp: MAX_SAFE_INTEGER_def MAX_LEASE_DURATION_MILLISECONDS_def)

declare assertLeaseDuration.simps [simp del]

lemma parseCurrentLease_Inr_iff [result_simps]:
  "parseCurrentLease job = Inr l \<longleftrightarrow> job_currentLease job = Some l \<and> ReplayLeaseSchema l"
  by (auto simp: parseCurrentLease_def split: option.splits)

lemma assertCurrentFence_Inr_iff [result_simps]:
  "assertCurrentFence job fence now = Inr l \<longleftrightarrow>
     job_status job = JobRunning \<and> job_currentLease job = Some l \<and> ReplayLeaseSchema l \<and>
     lease_mutationFence l = fence \<and> now < lease_expiresAt l"
  by (auto simp: assertCurrentFence_def result_simps)

lemma assertCurrentAttempt_Inr_iff [result_simps]:
  "assertCurrentAttempt job a = Inr b \<longleftrightarrow>
     a = Some b \<and>
     (\<exists>l. job_currentLease job = Some l \<and> ReplayLeaseSchema l \<and> att_status b = AttRunning \<and>
        att_mutationFence b = lease_mutationFence l \<and> att_scope b = job_scope job \<and>
        att_attemptSequence b = lease_attemptSequence l)"
  by (auto simp: assertCurrentAttempt_def result_simps split: option.splits)

lemma assertReplayWorkerMutationFence_Inr_iff:
  "assertReplayWorkerMutationFence job fence now = Inr l \<longleftrightarrow>
     ReplayJobSchema job \<and> UtcMillisecondTimestampSchema now \<and> job_status job = JobRunning \<and>
     job_currentLease job = Some l \<and> ReplayLeaseSchema l \<and> lease_mutationFence l = fence \<and>
     now < lease_expiresAt l"
  by (auto simp: assertReplayWorkerMutationFence_def result_simps)

lemma claimReplayJob_InrD:
  assumes "claimReplayJob job options = Inr r"
  shows "ReplayJobSchema job" "ReplayJobSchema (clr_job r)"
    "job_status job = JobQueued \<or>
     job_status job = JobRunning \<and>
       (\<exists>l. job_currentLease job = Some l \<and> lease_expiresAt l \<le> clo_now options)"
    "job_lastFencingToken (clr_job r) = job_lastFencingToken job + 1"
    "job_stateVersion (clr_job r) = job_stateVersion job + 1"
    "job_status (clr_job r) = JobRunning"
    "job_currentLease (clr_job r) = Some (clr_lease r)"
  using assms
  by (auto simp: claimReplayJob_def Let_def result_simps claimLease_def split: if_splits)

lemma heartbeatReplayJob_InrD:
  assumes "heartbeatReplayJob job fence now d = Inr job'"
  shows "ReplayJobSchema job" "ReplayJobSchema job'" "job_status job = JobRunning"
    "job_lastFencingToken job' = job_lastFencingToken job"
    "job_stateVersion job' = job_stateVersion job + 1"
    "assertReplayWorkerMutationFence job fence now = Inr (the (job_currentLease job))"
  using assms
  by (auto simp: heartbeatReplayJob_def result_simps assertReplayWorkerMutationFence_Inr_iff)

lemma closeExpiredReplayAttempt_InrD:
  assumes "closeExpiredReplayAttempt job attempt options = Inr (attempt', job')"
  shows "ReplayJobSchema job" "ReplayJobSchema job'" "ReplayAttemptSchema attempt'"
    "job_status job = JobRunning"
    "job_status job' = jobStatusOfTerminal (closeStatus (ceo_outcome options))"
    "job_lastFencingToken job' = job_lastFencingToken job"
    "job_stateVersion job' = job_stateVersion job + 1"
    "\<exists>l. job_currentLease job = Some l \<and> lease_expiresAt l \<le> ceo_now options"
  using assms
  by (auto simp: closeExpiredReplayAttempt_def Let_def result_simps terminalJob_def)

lemma completeReplayAttempt_InrD:
  assumes "completeReplayAttempt job attempt fence options = Inr (attempt', job')"
  shows "ReplayJobSchema job" "ReplayJobSchema job'" "ReplayAttemptSchema attempt'"
    "job_status job' = jobStatusOfTerminal (cmo_status options)"
    "job_lastFencingToken job' = job_lastFencingToken job"
    "job_stateVersion job' = job_stateVersion job + 1"
    "att_mutationFence attempt = fence"
    "assertReplayWorkerMutationFence job fence (cmo_now options) = Inr (the (job_currentLease job))"
    "cmo_cancellationRequested options \<Longrightarrow> cmo_status options = TermCancelled"
  using assms
  by (auto simp: completeReplayAttempt_def Let_def result_simps terminalJob_def
      assertReplayWorkerMutationFence_Inr_iff)

lemma requestReplayCancellation_queuedD:
  assumes "requestReplayCancellation job options = Inr r" and "rcr_created r"
    and "job_status job = JobQueued"
  shows "ReplayJobSchema job" "ReplayJobSchema (rcr_job r)" "job_status (rcr_job r) = JobCancelled"
    "job_lastFencingToken (rcr_job r) = job_lastFencingToken job"
    "job_stateVersion (rcr_job r) = job_stateVersion job + 1"
  using assms
  by (auto simp: requestReplayCancellation_def Let_def result_simps terminalJob_def
      split: option.splits if_splits)

lemma requestReplayCancellation_otherD:
  assumes "requestReplayCancellation job options = Inr r"
    and "job_status job \<noteq> JobQueued \<or> \<not> rcr_created r"
  shows "rcr_job r = job"
  using assms
  by (auto simp: requestReplayCancellation_def Let_def result_simps split: option.splits if_splits)

lemma acknowledgeReplayCancellation_InrD:
  assumes "acknowledgeReplayCancellation job request fence i a now = Inr ack"
  shows "assertReplayWorkerMutationFence job fence now = Inr (the (job_currentLease job))"
    "ack_mutationFence ack = fence" "cancel_requestedAt request \<le> now"
  using assms
  by (auto simp: acknowledgeReplayCancellation_def result_simps
      assertReplayWorkerMutationFence_Inr_iff)

section \<open>The job as a fenced machine\<close>

text \<open>One rule per operation that changes a job.\<close>

inductive replayStep :: "ReplayJob \<Rightarrow> ReplayJob \<Rightarrow> bool" where
  claim: "claimReplayJob job options = Inr r \<Longrightarrow> replayStep job (clr_job r)"
| heartbeat: "heartbeatReplayJob job fence now d = Inr job' \<Longrightarrow> replayStep job job'"
| close_expired:
    "closeExpiredReplayAttempt job attempt close = Inr (attempt', job') \<Longrightarrow> replayStep job job'"
| complete:
    "completeReplayAttempt job attempt fence done = Inr (attempt', job') \<Longrightarrow> replayStep job job'"
| cancel_queued:
    "requestReplayCancellation job cancel = Inr c \<Longrightarrow> rcr_created c \<Longrightarrow>
     job_status job = JobQueued \<Longrightarrow> replayStep job (rcr_job c)"

inductive_cases replayStepE: "replayStep job job'"

definition replayTerminal :: "ReplayJob \<Rightarrow> bool" where
  "replayTerminal job \<longleftrightarrow> job_status job \<noteq> JobQueued \<and> job_status job \<noteq> JobRunning"

definition replayAdmits :: "ReplayJob \<Rightarrow> ReplayWorkerMutationFence \<Rightarrow> bool" where
  "replayAdmits job fence \<longleftrightarrow> (\<exists>now l. assertReplayWorkerMutationFence job fence now = Inr l)"

lemmas replay_InrD =
  claimReplayJob_InrD heartbeatReplayJob_InrD closeExpiredReplayAttempt_InrD
  completeReplayAttempt_InrD requestReplayCancellation_queuedD

lemmas replay_sourceD =
  claimReplayJob_InrD(3) heartbeatReplayJob_InrD(3) closeExpiredReplayAttempt_InrD(4)
  completeReplayAttempt_InrD(8)

lemma running_lease_token:
  "ReplayJobSchema job \<Longrightarrow> job_status job = JobRunning \<Longrightarrow> job_currentLease job = Some l \<Longrightarrow>
   fence_fencingToken (lease_mutationFence l) = job_lastFencingToken job"
  by (auto simp: ReplayJobSchema_def refineReplayJob_def queuedCancellation_def)

interpretation replay: fenced_machine replayStep ReplayJobSchema job_lastFencingToken
  job_stateVersion replayTerminal replayAdmits fence_fencingToken
proof unfold_locales
  fix s t
  assume step: "replayStep s t"
  then show "ReplayJobSchema t"
    by (cases rule: replayStep.cases) (auto dest: replay_InrD)
  show "job_stateVersion t = job_stateVersion s + 1"
    using step by (cases rule: replayStep.cases) (auto dest: replay_InrD)
  show "job_lastFencingToken s \<le> job_lastFencingToken t"
    using step by (cases rule: replayStep.cases) (auto dest: replay_InrD)
  show "\<not> replayTerminal s"
    using step
    by (cases rule: replayStep.cases)
      (auto simp: replayTerminal_def assertReplayWorkerMutationFence_Inr_iff dest: replay_sourceD)
next
  fix s f
  assume "ReplayJobSchema s" and "replayAdmits s f"
  then show "fence_fencingToken f = job_lastFencingToken s"
    by (auto simp: replayAdmits_def assertReplayWorkerMutationFence_Inr_iff dest: running_lease_token)
  show "\<not> replayTerminal s"
    using \<open>replayAdmits s f\<close>
    by (auto simp: replayAdmits_def replayTerminal_def assertReplayWorkerMutationFence_Inr_iff)
qed

section \<open>When transitions succeed\<close>

lemma running_refine:
  "refineReplayJob (job\<lparr>job_currentLease := Some l, job_stateVersion := v\<rparr>) \<longleftrightarrow>
     job_startedAt job \<noteq> None \<and> job_latestAttemptSequence job \<noteq> None \<and>
     job_lastFencingToken job \<noteq> 0 \<and>
     (case job_startedAt job of None \<Rightarrow> True | Some s \<Rightarrow> job_createdAt job \<le> s) \<and>
     job_terminal job = None \<and>
     fence_jobId (lease_mutationFence l) = job_jobId job \<and>
     fence_fencingToken (lease_mutationFence l) = job_lastFencingToken job \<and>
     fence_recoveryEpoch (lease_mutationFence l) = job_recoveryEpoch job \<and>
     Some (lease_attemptSequence l) = job_latestAttemptSequence job \<and>
     lease_scope l = job_scope job"
  if "job_status job = JobRunning"
  using that by (auto simp: refineReplayJob_def queuedCancellation_def not_less split: option.splits)

lemma running_jobD:
  assumes "ReplayJobSchema job" and "job_status job = JobRunning"
  obtains l s where "job_currentLease job = Some l" "ReplayLeaseSchema l"
    "job_startedAt job = Some s" "job_createdAt job \<le> s" "job_terminal job = None"
    "job_lastFencingToken job \<noteq> 0" "fence_jobId (lease_mutationFence l) = job_jobId job"
    "fence_fencingToken (lease_mutationFence l) = job_lastFencingToken job"
    "fence_recoveryEpoch (lease_mutationFence l) = job_recoveryEpoch job"
    "job_latestAttemptSequence job = Some (lease_attemptSequence l)"
    "lease_scope l = job_scope job"
  using assms
  by (auto simp: ReplayJobSchema_def replayJobShape_def refineReplayJob_def queuedCancellation_def
      split: option.splits)

lemma heartbeatReplayJob_succeeds:
  assumes job: "ReplayJobSchema job" "job_status job = JobRunning" "job_currentLease job = Some l"
    and fence: "lease_mutationFence l = fence"
    and time: "UtcMillisecondTimestampSchema now" "lease_acquiredAt l \<le> now"
      "now < lease_expiresAt l"
    and duration: "1 \<le> d" "d \<le> MAX_LEASE_DURATION_MILLISECONDS"
      "UtcMillisecondTimestampSchema (now + d)"
    and version: "job_stateVersion job < MAX_COUNTER"
  shows "heartbeatReplayJob job fence now (JsInt d) =
    Inr (job\<lparr>job_currentLease := Some (l\<lparr>lease_expiresAt := now + d, lease_heartbeatAt := now\<rparr>),
             job_stateVersion := job_stateVersion job + 1\<rparr>)"
proof -
  let ?l = "l\<lparr>lease_expiresAt := now + d, lease_heartbeatAt := now\<rparr>"
  from job(1,2) obtain s where r: "ReplayLeaseSchema l" "job_startedAt job = Some s"
    "job_createdAt job \<le> s" "job_terminal job = None" "job_lastFencingToken job \<noteq> 0"
    "fence_jobId (lease_mutationFence l) = job_jobId job"
    "fence_fencingToken (lease_mutationFence l) = job_lastFencingToken job"
    "fence_recoveryEpoch (lease_mutationFence l) = job_recoveryEpoch job"
    "job_latestAttemptSequence job = Some (lease_attemptSequence l)" "lease_scope l = job_scope job"
    using job(3) by (auto elim: running_jobD)
  have lease: "ReplayLeaseSchema ?l"
    using r(1) time duration by (auto simp: ReplayLeaseSchema_def)
  have "ReplayJobSchema
      (job\<lparr>job_currentLease := Some ?l, job_stateVersion := job_stateVersion job + 1\<rparr>)"
    using job(1,2) lease r version
    by (auto simp: ReplayJobSchema_def running_refine replayJobShape_def SafePositiveInteger_def
        MAX_COUNTER_def)
  then show ?thesis
    using job r(1) fence time duration version lease
    by (simp add: heartbeatReplayJob_def result_simps)
qed

text \<open>The inputs a worker must supply with a claim, independent of the job.\<close>

definition claimOptionsWellFormed :: "ClaimReplayJobOptions \<Rightarrow> bool" where
  "claimOptionsWellFormed o' \<longleftrightarrow>
     OpaqueIdSchema (clo_attemptId o') \<and> OpaqueIdSchema (clo_leaseId o') \<and>
     OpaqueIdSchema (clo_workerId o') \<and>
     ReplayRuntimeProfileReferenceSchema (clo_runtimeProfile o') \<and>
     ReplayIsolationProfileReferenceSchema (clo_isolationProfile o') \<and>
     TargetReleaseReferenceSchema (clo_targetRelease o') \<and>
     Sha256Schema (clo_workerBuildSha256 o') \<and>
     WorkerProtocolReferenceSchema (clo_workerProtocol o') \<and>
     target_workerProtocol (clo_targetRelease o') = clo_workerProtocol o'"

lemma queued_jobD:
  assumes "ReplayJobSchema job" and "job_status job = JobQueued"
  shows "job_lastFencingToken job = 0" "job_currentLease job = None"
    "job_latestAttemptSequence job = None" "job_startedAt job = None" "job_terminal job = None"
  using assms by (auto simp: ReplayJobSchema_def refineReplayJob_def)

definition claimedJob :: "ReplayJob \<Rightarrow> ReplayLease \<Rightarrow> utc_ms \<Rightarrow> ReplayJob" where
  "claimedJob job lease started =
     job\<lparr>job_currentLease := Some lease,
         job_lastFencingToken := fence_fencingToken (lease_mutationFence lease),
         job_latestAttemptSequence := Some (lease_attemptSequence lease),
         job_startedAt := Some started, job_stateVersion := job_stateVersion job + 1,
         job_status := JobRunning\<rparr>"

lemma claimLease_schema:
  assumes "ReplayJobSchema job" and "claimOptionsWellFormed options"
    and "UtcMillisecondTimestampSchema (clo_now options)"
    and "UtcMillisecondTimestampSchema e" and "clo_now options < e"
    and "SafeNonnegativeInteger n" and "SafePositiveInteger k"
  shows "ReplayLeaseSchema (claimLease job options n k e)"
  using assms
  by (auto simp: ReplayLeaseSchema_def claimLease_def ReplayWorkerMutationFenceSchema_def
      claimOptionsWellFormed_def ReplayJobSchema_def replayJobShape_def)

lemma claimAttempt_schema:
  assumes "ReplayJobSchema job" and "claimOptionsWellFormed options"
    and "UtcMillisecondTimestampSchema (clo_now options)"
    and "ReplayLeaseSchema lease" and "lease = claimLease job options n k e"
  shows "ReplayAttemptSchema (claimAttempt job options lease)"
  using assms(1-4) unfolding assms(5)
  by (auto simp: ReplayAttemptSchema_def replayAttemptShape_def refineReplayAttempt_def
      claimAttempt_def claimLease_def claimOptionsWellFormed_def ReplayLeaseSchema_def
      ReplayJobSchema_def replayJobShape_def)

lemma claimedJob_schema:
  assumes "ReplayJobSchema job" and "ReplayLeaseSchema lease"
    and "lease = claimLease job options n k e" and "job_terminal job = None"
    and "job_createdAt job \<le> started" and "UtcMillisecondTimestampSchema started"
    and "job_stateVersion job < MAX_COUNTER"
  shows "ReplayJobSchema (claimedJob job lease started)"
  using assms(1,2,4-) unfolding assms(3)
  by (auto simp: ReplayJobSchema_def replayJobShape_def refineReplayJob_def claimedJob_def
      queuedCancellation_def ReplayLeaseSchema_def claimLease_def SafePositiveInteger_def
      SafeNonnegativeInteger_def ReplayWorkerMutationFenceSchema_def MAX_COUNTER_def not_less)

lemma claimReplayJob_queued_succeeds:
  assumes job: "ReplayJobSchema job" "job_status job = JobQueued" "job_createdAt job \<le> clo_now options"
    and opts: "claimOptionsWellFormed options" "clo_currentAttempt options = None"
      "clo_leaseDurationMilliseconds options = JsInt d" "clo_maxAttempts options = JsInt m"
    and bounds: "1 \<le> d" "d \<le> MAX_LEASE_DURATION_MILLISECONDS" "1 \<le> m" "m \<le> MAX_SAFE_INTEGER"
    and time: "UtcMillisecondTimestampSchema (clo_now options)"
      "UtcMillisecondTimestampSchema (clo_now options + d)"
    and version: "job_stateVersion job < MAX_COUNTER"
  defines "lease \<equiv> claimLease job options 0 1 (clo_now options + d)"
  shows "claimReplayJob job options =
    Inr \<lparr>clr_attempt = claimAttempt job options lease, clr_expiredAttempt = None,
         clr_job = claimedJob job lease (clo_now options), clr_lease = lease\<rparr>"
proof -
  note q = queued_jobD [OF job(1,2)]
  have lease: "ReplayLeaseSchema lease"
    unfolding lease_def using job opts(1) time bounds(1)
    by (intro claimLease_schema) (auto simp: SafeNonnegativeInteger_def SafePositiveInteger_def)
  have attempt: "ReplayAttemptSchema (claimAttempt job options lease)"
    by (rule claimAttempt_schema [OF job(1) opts(1) time(1) lease]) (simp add: lease_def)
  have job': "ReplayJobSchema (claimedJob job lease (clo_now options))"
    by (rule claimedJob_schema [OF job(1) lease]) (use q job time version in \<open>simp_all add: lease_def\<close>)
  have fields: "fence_fencingToken (lease_mutationFence lease) = 1" "lease_attemptSequence lease = 0"
    by (simp_all add: lease_def claimLease_def)
  show ?thesis
    using lease attempt job' q job opts bounds time version
    by (simp add: claimReplayJob_def Let_def result_simps claimExpiredAttempt_def
        lease_def [symmetric] claimedJob_def fields MAX_COUNTER_def MAX_SAFE_INTEGER_def)
qed

lemma running_attempt_open:
  "ReplayAttemptSchema a \<Longrightarrow> att_status a = AttRunning \<Longrightarrow> att_error a = None \<and> att_result a = None"
  by (auto simp: ReplayAttemptSchema_def refineReplayAttempt_def)

lemma leaseExpiredMessage_canonical:
  "canonicalHumanText MAX_REPLAY_ATTEMPT_ERROR_MESSAGE_CHARACTERS leaseExpiredMessage"
  by code_simp

text \<open>What the code may record about the effects of a lost attempt.\<close>

fun effectRecordable :: "ReplayExpiredEffect \<Rightarrow> bool" where
  "effectRecordable e \<longleftrightarrow>
     optional ReplayEffectRetrySafetySchema (eff_retrySafety e) \<and>
     (eff_certainty e = EffectNone) = (eff_retrySafety e = None)"

lemma leaseExpiredError_schema: "ReplayAttemptErrorSchema (leaseExpiredError e) \<longleftrightarrow> effectRecordable e"
  by (auto simp: ReplayAttemptErrorSchema_def leaseExpiredError_def leaseExpiredMessage_canonical)

definition expiredAttempt ::
    "ReplayAttempt \<Rightarrow> utc_ms \<Rightarrow> ReplayExpiredEffect \<Rightarrow> ReplayAttemptRetryDisposition \<Rightarrow> ReplayAttempt" where
  "expiredAttempt a ended effect retry =
     a\<lparr>att_endedAt := Some ended, att_error := Some (leaseExpiredError effect),
       att_retryDisposition := Some retry, att_status := AttLeaseExpired\<rparr>"

lemma expiredAttempt_schema:
  assumes "ReplayAttemptSchema a" and "att_status a = AttRunning" and "att_startedAt a \<le> ended"
    and "UtcMillisecondTimestampSchema ended" and "effectRecordable effect"
    and "retry = NotRetryable \<or>
      retry = RetryScheduled \<and> eff_retrySafety effect \<noteq> Some NotRetryableEffect"
  shows "ReplayAttemptSchema (expiredAttempt a ended effect retry)"
  using assms running_attempt_open [OF assms(1,2)]
  by (auto simp: ReplayAttemptSchema_def replayAttemptShape_def refineReplayAttempt_def
      expiredAttempt_def leaseExpiredError_schema)
    (auto simp: leaseExpiredError_def)

lemma claimReplayJob_takeover_succeeds:
  assumes job: "ReplayJobSchema job" "job_status job = JobRunning" "job_currentLease job = Some l"
      "lease_expiresAt l \<le> clo_now options" "job_startedAt job = Some s"
    and attempt: "clo_currentAttempt options = Some a" "ReplayAttemptSchema a"
      "att_status a = AttRunning" "att_mutationFence a = lease_mutationFence l"
      "att_scope a = job_scope job" "att_attemptSequence a = lease_attemptSequence l"
      "att_startedAt a \<le> clo_now options"
    and effect: "clo_expiredEffect options = Some e" "effectRecordable e"
      "eff_retrySafety e \<noteq> Some NotRetryableEffect"
    and opts: "claimOptionsWellFormed options"
      "clo_leaseDurationMilliseconds options = JsInt d" "clo_maxAttempts options = JsInt m"
    and bounds: "1 \<le> d" "d \<le> MAX_LEASE_DURATION_MILLISECONDS" "m \<le> MAX_SAFE_INTEGER"
      "lease_attemptSequence l + 1 < m"
    and time: "UtcMillisecondTimestampSchema (clo_now options)"
      "UtcMillisecondTimestampSchema (clo_now options + d)"
    and version: "job_stateVersion job < MAX_COUNTER" "job_lastFencingToken job < MAX_COUNTER"
  defines "lease \<equiv> claimLease job options (lease_attemptSequence l + 1)
    (job_lastFencingToken job + 1) (clo_now options + d)"
  shows "claimReplayJob job options =
    Inr \<lparr>clr_attempt = claimAttempt job options lease,
         clr_expiredAttempt = Some (expiredAttempt a (clo_now options) e RetryScheduled),
         clr_job = claimedJob job lease s, clr_lease = lease\<rparr>"
proof -
  have r: "ReplayLeaseSchema l" "job_createdAt job \<le> s" "job_terminal job = None"
    "job_latestAttemptSequence job = Some (lease_attemptSequence l)"
    using job by (auto elim: running_jobD)
  have seq: "0 \<le> lease_attemptSequence l" "0 \<le> job_lastFencingToken job"
    "UtcMillisecondTimestampSchema s"
    using r(1) job(1,5)
    by (simp_all add: ReplayLeaseSchema_def ReplayJobSchema_def replayJobShape_def
        SafeNonnegativeInteger_def)
  have lease: "ReplayLeaseSchema lease"
    unfolding lease_def using job(1) opts(1) time bounds seq version
    by (intro claimLease_schema)
      (auto simp: SafeNonnegativeInteger_def SafePositiveInteger_def MAX_COUNTER_def)
  have attempt': "ReplayAttemptSchema (claimAttempt job options lease)"
    by (rule claimAttempt_schema [OF job(1) opts(1) time(1) lease]) (simp add: lease_def)
  have job': "ReplayJobSchema (claimedJob job lease s)"
    by (rule claimedJob_schema [OF job(1) lease])
      (use r seq version in \<open>simp_all add: lease_def\<close>)
  have expired: "ReplayAttemptSchema (expiredAttempt a (clo_now options) e RetryScheduled)"
    using attempt(2,3,7) time(1) effect(2,3) by (intro expiredAttempt_schema) auto
  have unblocked: "\<not> expiredEffectBlocksClaim (Some e)"
    using effect(2,3)
    by (auto simp: expiredEffectBlocksClaim_def split: option.splits ReplayEffectRetrySafety.splits)
  have closed: "claimExpiredAttempt job options =
      Inr (Some (expiredAttempt a (clo_now options) e RetryScheduled))"
    using job(2,3) r(1) attempt(1,3-6) effect(1) unblocked expired
    by (simp add: claimExpiredAttempt_def result_simps expiredAttempt_def)
  have fields: "fence_fencingToken (lease_mutationFence lease) = job_lastFencingToken job + 1"
    "lease_attemptSequence lease = lease_attemptSequence l + 1"
    by (simp_all add: lease_def claimLease_def)
  show ?thesis
    using job closed lease attempt' job' r opts bounds time version seq
    by (simp add: claimReplayJob_def Let_def result_simps lease_def [symmetric] claimedJob_def fields
        MAX_COUNTER_def MAX_SAFE_INTEGER_def)
qed

text \<open>An outcome a worker may commit: the terminal code, the error and the result fit the status.\<close>

definition completionCoherent :: "CompleteReplayAttemptOptions \<Rightarrow> bool" where
  "completionCoherent o' \<longleftrightarrow>
     cmo_code o' \<in> set (expectedCodeByStatus (cmo_status o')) \<and>
     (cmo_cancellationRequested o' \<longrightarrow> cmo_status o' = TermCancelled) \<and>
     (if cmo_status o' = TermSucceeded
      then cmo_error o' = None \<and>
        (case cmo_result o' of None \<Rightarrow> False | Some r \<Rightarrow> ArtifactContentReferenceSchema r)
      else cmo_result o' = None \<and>
        (case cmo_error o' of
           None \<Rightarrow> False
         | Some e \<Rightarrow> ReplayAttemptErrorSchema e \<and>
             err_code e \<in> set (requiredErrorCodes (attemptStatusOfTerminal (cmo_status o')))))"

definition completedAttempt :: "ReplayAttempt \<Rightarrow> CompleteReplayAttemptOptions \<Rightarrow> ReplayAttempt" where
  "completedAttempt a o' =
     a\<lparr>att_endedAt := Some (cmo_now o'), att_error := cmo_error o', att_result := cmo_result o',
       att_retryDisposition := Some NotRetryable,
       att_status := attemptStatusOfTerminal (cmo_status o')\<rparr>"

lemma completedAttempt_schema:
  assumes "ReplayAttemptSchema a" and "completionCoherent o'" and "att_startedAt a \<le> cmo_now o'"
    and "UtcMillisecondTimestampSchema (cmo_now o')"
  shows "ReplayAttemptSchema (completedAttempt a o')"
  using assms
  by (cases "cmo_status o'")
    (auto simp: ReplayAttemptSchema_def replayAttemptShape_def refineReplayAttempt_def
      completionCoherent_def completedAttempt_def split: option.splits)

lemma terminalJob_schema:
  assumes job: "ReplayJobSchema job" "job_status job = JobRunning" "job_startedAt job = Some s" "s \<le> now"
    and final: "OpaqueIdSchema attemptId" "code \<in> set (expectedCodeByStatus status)"
      "UtcMillisecondTimestampSchema now"
    and version: "job_stateVersion job < MAX_COUNTER"
  shows "ReplayJobSchema
    (terminalJob job (job_stateVersion job + 1) (Some attemptId) code now status)"
proof -
  from job(1,2) have "job_latestAttemptSequence job \<noteq> None" "job_lastFencingToken job \<noteq> 0"
    "job_createdAt job \<le> s"
    using job(3) by (auto elim!: running_jobD)
  then show ?thesis
    using job(1,3,4) final version
    by (auto simp: ReplayJobSchema_def replayJobShape_def refineReplayJob_def terminalJob_def
        queuedCancellation_def ReplayJobTerminalRecordSchema_def SafePositiveInteger_def MAX_COUNTER_def)
qed

lemma completeReplayAttempt_succeeds:
  assumes job: "ReplayJobSchema job" "job_status job = JobRunning" "job_currentLease job = Some l"
      "job_startedAt job = Some s" "s \<le> cmo_now options"
    and attempt: "ReplayAttemptSchema attempt" "att_status attempt = AttRunning"
      "att_mutationFence attempt = lease_mutationFence l" "att_scope attempt = job_scope job"
      "att_attemptSequence attempt = lease_attemptSequence l"
      "att_startedAt attempt \<le> cmo_now options"
    and time: "UtcMillisecondTimestampSchema (cmo_now options)" "cmo_now options < lease_expiresAt l"
    and outcome: "completionCoherent options"
    and version: "job_stateVersion job < MAX_COUNTER"
  shows "completeReplayAttempt job attempt (lease_mutationFence l) options =
    Inr (completedAttempt attempt options,
         terminalJob job (job_stateVersion job + 1) (Some (att_attemptId attempt))
           (cmo_code options) (cmo_now options) (cmo_status options))"
proof -
  have lease: "ReplayLeaseSchema l" using job by (auto elim: running_jobD)
  have closed: "ReplayAttemptSchema (completedAttempt attempt options)"
    using attempt(1,6) outcome time(1) by (intro completedAttempt_schema)
  have "OpaqueIdSchema (att_attemptId attempt)"
    using attempt(1) by (simp add: ReplayAttemptSchema_def replayAttemptShape_def)
  then have job': "ReplayJobSchema (terminalJob job (job_stateVersion job + 1)
      (Some (att_attemptId attempt)) (cmo_code options) (cmo_now options) (cmo_status options))"
    using job outcome time(1) version
    by (intro terminalJob_schema) (auto simp: completionCoherent_def)
  have same: "attempt\<lparr>att_endedAt := Some (cmo_now options),
        att_error := (case cmo_error options of None \<Rightarrow> att_error attempt | Some e \<Rightarrow> Some e),
        att_result := (case cmo_result options of None \<Rightarrow> att_result attempt | Some r \<Rightarrow> Some r),
        att_retryDisposition := Some NotRetryable,
        att_status := attemptStatusOfTerminal (cmo_status options)\<rparr> = completedAttempt attempt options"
    using running_attempt_open [OF attempt(1,2)]
    by (auto simp: completedAttempt_def split: option.splits)
  show ?thesis
    unfolding completeReplayAttempt_def Let_def same
    using job(1-3) attempt(1-5) time outcome closed job' lease version
    by (auto simp: result_simps completionCoherent_def)
qed

end
