(* ===== verification/Replay_Job_Safety.thy ===== *)
theory Replay_Job_Safety
  imports Replay_Job_State
begin

text \<open>
  The guarantees of the durable replay job: fencing, lease ownership, single commit, cancellation.
  The step relation and its interpretation as a fenced machine are in \<open>Replay_Job_State\<close>; each
  property with hypotheses is followed by its witness on one concrete run.
\<close>

section \<open>A concrete run\<close>

text \<open>
  The inputs of the witnesses: a queued job, a first claim by one worker, a takeover by a second
  worker after the first lease ran out.
\<close>

definition exSha :: string where
  "exSha = replicate 64 CHR ''a''"

definition exScope :: EvidenceScope where
  "exScope = \<lparr>environmentId = ''env_main'', projectId = ''prj_main'', tenantId = ''ten_main''\<rparr>"

definition exPlan :: ReplayPlanJobReference where
  "exPlan = \<lparr>planref_definitionSha256 = exSha, planref_planId = ''plan_one'',
     planref_planVersionId = ''plan_one_v1''\<rparr>"

definition exProtocol :: WorkerProtocolReference where
  "exProtocol = \<lparr>wproto_name = ''proofstack.worker'', wproto_version = ''1.0''\<rparr>"

definition exTarget :: TargetReleaseReference where
  "exTarget = \<lparr>target_definitionSha256 = exSha,
     target_targetAdapter = \<lparr>adapter_name = ''node'', adapter_protocolVersion = ''1'',
       adapter_version = ''2''\<rparr>,
     target_targetId = ''tgt_main'', target_targetReleaseId = ''rel_main'',
     target_workerProtocol = exProtocol\<rparr>"

definition exJob :: ReplayJob where
  "exJob = \<lparr>job_createdAt = 500, job_createdByPrincipalId = ''usr_main'', job_currentLease = None,
     job_jobId = ''job_main'', job_lastFencingToken = 0, job_latestAttemptSequence = None,
     job_plan = exPlan, job_recoveryEpoch = 0, job_scope = exScope, job_startedAt = None,
     job_stateVersion = 1, job_status = JobQueued, job_terminal = None\<rparr>"

definition exClaim :: ClaimReplayJobOptions where
  "exClaim = \<lparr>clo_attemptId = ''att_one'', clo_currentAttempt = None, clo_expiredEffect = None,
     clo_isolationProfile = \<lparr>isoprofile_definitionSha256 = exSha, isoprofile_id = ''iso_main'',
       isoprofile_version = ''1'', isoprofile_kind = LocalChildProcess\<rparr>,
     clo_leaseDurationMilliseconds = JsInt 1000, clo_leaseId = ''lea_one'',
     clo_maxAttempts = JsInt 3, clo_now = 1000,
     clo_runtimeProfile = \<lparr>rtprofile_definitionSha256 = exSha, rtprofile_id = ''run_main'',
       rtprofile_version = ''1'', rtprofile_family = ''node''\<rparr>,
     clo_targetRelease = exTarget, clo_workerBuildSha256 = exSha, clo_workerId = ''wrk_one'',
     clo_workerProtocol = exProtocol\<rparr>"

definition exLease1 :: ReplayLease where
  "exLease1 = claimLease exJob exClaim 0 1 2000"

definition exAttempt1 :: ReplayAttempt where
  "exAttempt1 = claimAttempt exJob exClaim exLease1"

definition exJob1 :: ReplayJob where
  "exJob1 = claimedJob exJob exLease1 1000"

definition exTakeover :: ClaimReplayJobOptions where
  "exTakeover = exClaim\<lparr>clo_attemptId := ''att_two'', clo_leaseId := ''lea_two'',
     clo_workerId := ''wrk_two'', clo_now := 2000, clo_currentAttempt := Some exAttempt1,
     clo_expiredEffect := Some \<lparr>eff_certainty = EffectNone, eff_retrySafety = None\<rparr>\<rparr>"

definition exLease2 :: ReplayLease where
  "exLease2 = claimLease exJob1 exTakeover 1 2 3000"

definition exJob2 :: ReplayJob where
  "exJob2 = claimedJob exJob1 exLease2 1000"

lemma ex_atoms [simp]:
  "Sha256Schema exSha" "OpaqueIdSchema ''usr_main''" "OpaqueIdSchema ''job_main''"
  "OpaqueIdSchema ''plan_one''" "OpaqueIdSchema ''plan_one_v1''" "OpaqueIdSchema ''att_one''"
  "OpaqueIdSchema ''att_two''" "OpaqueIdSchema ''lea_one''" "OpaqueIdSchema ''lea_two''"
  "OpaqueIdSchema ''wrk_one''" "OpaqueIdSchema ''wrk_two''" "OpaqueIdSchema ''env_main''"
  "OpaqueIdSchema ''prj_main''" "OpaqueIdSchema ''ten_main''" "OpaqueIdSchema ''tgt_main''"
  "OpaqueIdSchema ''rel_main''" "OpaqueIdSchema ''iso_main''" "OpaqueIdSchema ''run_main''"
  "OpaqueIdSchema ''can_main''" "OpaqueIdSchema ''artifact_main''"
  "ProtocolTokenSchema ''proofstack.worker''" "ProtocolVersionSchema ''1.0''"
  "ProtocolTokenSchema ''node''" "ProtocolVersionSchema ''1''" "ProtocolVersionSchema ''2''"
  by code_simp+

lemma exScope_schema [simp]: "EvidenceScopeSchema exScope"
  by (simp add: EvidenceScopeSchema_def exScope_def)

lemma exJob_schema: "ReplayJobSchema exJob"
  by (simp add: ReplayJobSchema_def replayJobShape_def refineReplayJob_def exJob_def exPlan_def
      ReplayPlanJobReferenceSchema_def SafeNonnegativeInteger_def SafePositiveInteger_def
      UtcMillisecondTimestampSchema_def MIN_UTC_MS_def MAX_UTC_MS_def)

lemma exClaim_wellFormed: "claimOptionsWellFormed exClaim"
  by (simp add: claimOptionsWellFormed_def exClaim_def exTarget_def exProtocol_def
      ReplayRuntimeProfileReferenceSchema_def ReplayIsolationProfileReferenceSchema_def
      TargetReleaseReferenceSchema_def ReplayReleaseTargetAdapterReferenceSchema_def
      WorkerProtocolReferenceSchema_def)

lemma exTakeover_wellFormed: "claimOptionsWellFormed exTakeover"
  using exClaim_wellFormed by (simp add: claimOptionsWellFormed_def exTakeover_def)

lemmas ex_time = UtcMillisecondTimestampSchema_def MIN_UTC_MS_def MAX_UTC_MS_def
  MAX_LEASE_DURATION_MILLISECONDS_def MAX_SAFE_INTEGER_def MAX_COUNTER_def

lemma exClaim_result:
  "claimReplayJob exJob exClaim =
     Inr \<lparr>clr_attempt = exAttempt1, clr_expiredAttempt = None, clr_job = exJob1, clr_lease = exLease1\<rparr>"
  using claimReplayJob_queued_succeeds [of exJob exClaim 1000 3] exJob_schema exClaim_wellFormed
  by (simp add: exJob1_def exLease1_def exAttempt1_def exJob_def exClaim_def ex_time)

lemma exClaim_schemas: "ReplayJobSchema exJob1" "ReplayAttemptSchema exAttempt1"
  using claimReplayJob_InrD(2) [OF exClaim_result] exClaim_result
  by (auto simp: claimReplayJob_def Let_def result_simps)

lemmas ex1_defs = exJob1_def exLease1_def exAttempt1_def exJob_def exClaim_def claimedJob_def
  claimLease_def claimAttempt_def

lemma exTakeover_result:
  "claimReplayJob exJob1 exTakeover =
     Inr \<lparr>clr_attempt = claimAttempt exJob1 exTakeover exLease2,
          clr_expiredAttempt =
            Some (expiredAttempt exAttempt1 2000
              \<lparr>eff_certainty = EffectNone, eff_retrySafety = None\<rparr> RetryScheduled),
          clr_job = exJob2, clr_lease = exLease2\<rparr>"
  using claimReplayJob_takeover_succeeds [of exJob1 exLease1 exTakeover 1000 exAttempt1
      "\<lparr>eff_certainty = EffectNone, eff_retrySafety = None\<rparr>" 1000 3]
    exClaim_schemas exTakeover_wellFormed
  by (simp add: exJob2_def exLease2_def exTakeover_def ex1_defs ex_time)

lemma exStep_claim: "replayStep exJob exJob1"
  using replayStep.claim [OF exClaim_result] by simp

lemma exStep_takeover: "replayStep exJob1 exJob2"
  using replayStep.claim [OF exTakeover_result] by simp

lemma exFence1: "assertReplayWorkerMutationFence exJob1 (lease_mutationFence exLease1) 1500 = Inr exLease1"
  using exClaim_schemas(1)
  by (auto simp: assertReplayWorkerMutationFence_Inr_iff ex1_defs ex_time
      ReplayJobSchema_def replayJobShape_def)

section \<open>Fencing\<close>

text \<open>
  C1. A worker whose fence was admitted and then superseded (another claim raised the job's fencing
  token), or whose job became terminal, is locked out for good: at any later state and any time the
  mutation-fence check refuses its old fence, and so heartbeat, completion and cancellation
  acknowledgement with it all fail.
\<close>

theorem replay_superseded_worker_locked_out:
  assumes "assertReplayWorkerMutationFence job fence t0 = Inr l"
    and "replayStep\<^sup>*\<^sup>* job job1" and "job_lastFencingToken job1 \<noteq> job_lastFencingToken job \<or> replayTerminal job1"
    and "replayStep\<^sup>*\<^sup>* job1 job2"
  shows "(\<forall>t lease. assertReplayWorkerMutationFence job2 fence t \<noteq> Inr lease) \<and>
    (\<forall>h. heartbeatReplayJob job2 fence now d \<noteq> Inr h) \<and>
    (\<forall>c. completeReplayAttempt job2 attempt fence options \<noteq> Inr c) \<and>
    (\<forall>k. acknowledgeReplayCancellation job2 request fence ackId action now \<noteq> Inr k)"
proof -
  have valid: "ReplayJobSchema job" "replayAdmits job fence"
    using assms(1) by (auto simp: replayAdmits_def assertReplayWorkerMutationFence_Inr_iff)
  have "\<not> replayAdmits job2 fence" if "job_lastFencingToken job1 \<noteq> job_lastFencingToken job"
    using valid assms(2) that assms(4) by (rule replay.superseded_never_admitted)
  moreover have "\<not> replayAdmits job2 fence" if "replayTerminal job1"
    using replay.steps_valid [OF assms(2) valid(1)] that assms(4) by (rule replay.closed_never_admitted)
  ultimately have "\<not> replayAdmits job2 fence" using assms(3) by blast
  then show ?thesis
    by (auto simp: replayAdmits_def dest: heartbeatReplayJob_InrD(6)
        completeReplayAttempt_InrD(8) acknowledgeReplayCancellation_InrD(1))
qed

theorem replay_superseded_worker_locked_out_witness:
  "\<forall>t lease. assertReplayWorkerMutationFence exJob2 (lease_mutationFence exLease1) t \<noteq> Inr lease"
proof -
  have "job_lastFencingToken exJob2 \<noteq> job_lastFencingToken exJob1"
    using claimReplayJob_InrD(4) [OF exTakeover_result] by simp
  then show ?thesis
    using replay_superseded_worker_locked_out [OF exFence1 r_into_rtranclp [of replayStep, OF exStep_takeover] _
        rtranclp.rtrancl_refl]
    by blast
qed

text \<open>
  C2. An unexpired lease is never taken from its worker: claiming a running job before the lease
  expiry is refused with \<open>lease_active\<close>, whatever the claimant presents.
\<close>

theorem replay_live_lease_never_stolen:
  assumes "ReplayJobSchema job" and "job_status job = JobRunning" and "job_currentLease job = Some l"
    and "clo_now options < lease_expiresAt l"
    and "UtcMillisecondTimestampSchema (clo_now options)"
    and "clo_leaseDurationMilliseconds options = JsInt d"
    and "1 \<le> d" and "d \<le> MAX_LEASE_DURATION_MILLISECONDS"
    and "clo_maxAttempts options = JsInt m" and "1 \<le> m" and "m \<le> MAX_SAFE_INTEGER"
  shows "claimReplayJob job options = Inl (DurableReplayStateError LeaseActive)"
proof -
  have "ReplayLeaseSchema l" using assms(1-3) by (auto elim: running_jobD)
  then have "parseCurrentLease job = Inr l" using assms(3) by (simp add: result_simps)
  moreover have "assertLeaseDuration (JsInt d) = Inr d" using assms(7,8) by (simp add: result_simps)
  moreover have "\<not> m < 1" "- MAX_SAFE_INTEGER \<le> m" "\<not> m < - MAX_SAFE_INTEGER"
    using assms(10) by (auto simp: MAX_SAFE_INTEGER_def)
  ultimately show ?thesis using assms by (simp add: claimReplayJob_def)
qed

theorem replay_live_lease_never_stolen_witness:
  "claimReplayJob exJob1 (exTakeover\<lparr>clo_now := 1999\<rparr>) = Inl (DurableReplayStateError LeaseActive)"
  by (rule replay_live_lease_never_stolen [of _ exLease1 _ 1000 3])
    (use exClaim_schemas(1) in \<open>simp_all add: ex1_defs exTakeover_def ex_time\<close>)

text \<open>
  Takeover. When the lease has run out, the recorded attempt is the current one and its effect
  is known not to block a retry, a well-formed claim succeeds: the lost attempt is closed as
  \<open>lease_expired\<close> with a scheduled retry, the new lease carries the next fencing token and the next
  attempt sequence, and the job stays running under the original start time.
\<close>

theorem replay_takeover_after_expiry:
  assumes job: "ReplayJobSchema job" "job_status job = JobRunning" "job_currentLease job = Some l"
      "lease_expiresAt l \<le> clo_now options" "job_startedAt job = Some s"
    and attempt: "clo_currentAttempt options = Some a" "ReplayAttemptSchema a"
      "att_status a = AttRunning" "att_mutationFence a = lease_mutationFence l"
      "att_scope a = job_scope job" "att_attemptSequence a = lease_attemptSequence l"
      "att_startedAt a \<le> clo_now options"
    and effect: "clo_expiredEffect options = Some e" "effectRecordable e"
      "eff_retrySafety e \<noteq> Some NotRetryableEffect"
    and opts: "claimOptionsWellFormed options"
      "clo_leaseDurationMilliseconds options = JsInt d" "clo_maxAttempts options = JsInt m"
    and bounds: "1 \<le> d" "d \<le> MAX_LEASE_DURATION_MILLISECONDS" "m \<le> MAX_SAFE_INTEGER"
      "lease_attemptSequence l + 1 < m"
    and time: "UtcMillisecondTimestampSchema (clo_now options)"
      "UtcMillisecondTimestampSchema (clo_now options + d)"
    and version: "job_stateVersion job < MAX_COUNTER" "job_lastFencingToken job < MAX_COUNTER"
  shows "\<exists>r. claimReplayJob job options = Inr r \<and>
    job_status (clr_job r) = JobRunning \<and> job_startedAt (clr_job r) = Some s \<and>
    job_currentLease (clr_job r) = Some (clr_lease r) \<and>
    fence_fencingToken (lease_mutationFence (clr_lease r)) = job_lastFencingToken job + 1 \<and>
    lease_attemptSequence (clr_lease r) = lease_attemptSequence l + 1 \<and>
    lease_expiresAt (clr_lease r) = clo_now options + d \<and>
    att_status (clr_attempt r) = AttRunning \<and>
    (\<exists>x. clr_expiredAttempt r = Some x \<and> att_status x = AttLeaseExpired \<and>
       att_retryDisposition x = Some RetryScheduled \<and> att_mutationFence x = lease_mutationFence l)"
  using claimReplayJob_takeover_succeeds [OF job attempt effect opts bounds time version] attempt(4)
  by (simp add: claimedJob_def claimLease_def claimAttempt_def expiredAttempt_def)

theorem replay_takeover_after_expiry_witness:
  "\<exists>r. claimReplayJob exJob1 exTakeover = Inr r \<and>
     fence_fencingToken (lease_mutationFence (clr_lease r)) = 2"
proof -
  have "\<exists>r. claimReplayJob exJob1 exTakeover = Inr r \<and>
    job_status (clr_job r) = JobRunning \<and> job_startedAt (clr_job r) = Some 1000 \<and>
    job_currentLease (clr_job r) = Some (clr_lease r) \<and>
    fence_fencingToken (lease_mutationFence (clr_lease r)) = job_lastFencingToken exJob1 + 1 \<and>
    lease_attemptSequence (clr_lease r) = lease_attemptSequence exLease1 + 1 \<and>
    lease_expiresAt (clr_lease r) = clo_now exTakeover + 1000 \<and>
    att_status (clr_attempt r) = AttRunning \<and>
    (\<exists>x. clr_expiredAttempt r = Some x \<and> att_status x = AttLeaseExpired \<and>
       att_retryDisposition x = Some RetryScheduled \<and> att_mutationFence x = lease_mutationFence exLease1)"
    by (rule replay_takeover_after_expiry [of _ _ _ _ exAttempt1
          "\<lparr>eff_certainty = EffectNone, eff_retrySafety = None\<rparr>" _ 3])
      (use exClaim_schemas exTakeover_wellFormed in \<open>simp_all add: exTakeover_def ex1_defs ex_time\<close>)
  then show ?thesis by (auto simp: ex1_defs)
qed

section \<open>Lease renewal and completion\<close>

text \<open>
  A heartbeat by the lease holder before expiry always succeeds: the lease now ends exactly one
  lease duration after the heartbeat, the state version goes up by one, and nothing else changes.
\<close>

theorem replay_heartbeat_extends_lease:
  assumes job: "ReplayJobSchema job" "job_status job = JobRunning" "job_currentLease job = Some l"
    and fence: "lease_mutationFence l = fence"
    and time: "UtcMillisecondTimestampSchema now" "lease_acquiredAt l \<le> now"
      "now < lease_expiresAt l"
    and duration: "1 \<le> d" "d \<le> MAX_LEASE_DURATION_MILLISECONDS"
      "UtcMillisecondTimestampSchema (now + d)"
    and version: "job_stateVersion job < MAX_COUNTER"
  shows "heartbeatReplayJob job fence now (JsInt d) =
    Inr (job\<lparr>job_currentLease := Some (l\<lparr>lease_expiresAt := now + d, lease_heartbeatAt := now\<rparr>),
             job_stateVersion := job_stateVersion job + 1\<rparr>)"
  using assms by (rule heartbeatReplayJob_succeeds)

theorem replay_heartbeat_extends_lease_witness:
  "heartbeatReplayJob exJob1 (lease_mutationFence exLease1) 1500 (JsInt 1000) =
    Inr (exJob1\<lparr>job_currentLease :=
                  Some (exLease1\<lparr>lease_expiresAt := 1500 + 1000, lease_heartbeatAt := 1500\<rparr>),
                job_stateVersion := job_stateVersion exJob1 + 1\<rparr>)"
  by (rule replay_heartbeat_extends_lease)
    (use exClaim_schemas(1) in \<open>simp_all add: ex1_defs ex_time\<close>)

text \<open>
  Completion commits exactly once. The lease holder's coherent outcome is accepted and makes the
  job terminal with the declared status, code and attempt; on the resulting job every further
  completion, heartbeat and claim is refused, whoever asks.
\<close>

theorem replay_completion_commits_once:
  assumes job: "ReplayJobSchema job" "job_status job = JobRunning" "job_currentLease job = Some l"
      "job_startedAt job = Some s" "s \<le> cmo_now options"
    and attempt: "ReplayAttemptSchema attempt" "att_status attempt = AttRunning"
      "att_mutationFence attempt = lease_mutationFence l" "att_scope attempt = job_scope job"
      "att_attemptSequence attempt = lease_attemptSequence l"
      "att_startedAt attempt \<le> cmo_now options"
    and time: "UtcMillisecondTimestampSchema (cmo_now options)" "cmo_now options < lease_expiresAt l"
    and outcome: "completionCoherent options"
    and version: "job_stateVersion job < MAX_COUNTER"
  shows "\<exists>a' j'. completeReplayAttempt job attempt (lease_mutationFence l) options = Inr (a', j') \<and>
    job_status j' = jobStatusOfTerminal (cmo_status options) \<and>
    job_currentLease j' = None \<and>
    job_terminal j' = Some \<lparr>term_attemptId = Some (att_attemptId attempt),
      term_code = cmo_code options, term_committedAt = cmo_now options,
      term_status = cmo_status options\<rparr> \<and>
    (\<forall>a2 f2 o2 x. completeReplayAttempt j' a2 f2 o2 \<noteq> Inr x) \<and>
    (\<forall>f2 now2 d2 x. heartbeatReplayJob j' f2 now2 d2 \<noteq> Inr x) \<and>
    (\<forall>o2 x. claimReplayJob j' o2 \<noteq> Inr x)"
proof -
  let ?a = "completedAttempt attempt options"
  let ?j = "terminalJob job (job_stateVersion job + 1) (Some (att_attemptId attempt))
     (cmo_code options) (cmo_now options) (cmo_status options)"
  have "completeReplayAttempt job attempt (lease_mutationFence l) options = Inr (?a, ?j)"
    using job attempt time outcome version by (rule completeReplayAttempt_succeeds)
  moreover have "replayTerminal ?j" by (simp add: replayTerminal_def terminalJob_def)
  then have none: "\<not> replayStep ?j k" for k
    by (auto dest: replay.step_not_terminal)
  have "completeReplayAttempt ?j a2 f2 o2 \<noteq> Inr x" for a2 f2 o2 x
    using none by (cases x) (auto dest: replayStep.complete)
  moreover have "heartbeatReplayJob ?j f2 now2 d2 \<noteq> Inr x" for f2 now2 d2 x
    using none by (auto dest: replayStep.heartbeat)
  moreover have "claimReplayJob ?j o2 \<noteq> Inr x" for o2 x
    using none by (auto dest: replayStep.claim)
  ultimately show ?thesis by (auto simp: terminalJob_def)
qed

definition exFailure :: CompleteReplayAttemptOptions where
  "exFailure = \<lparr>cmo_cancellationRequested = False, cmo_code = ExecutionFailed,
     cmo_error = Some \<lparr>err_code = TargetTemporaryFailure, err_detailsSha256 = None,
       err_effectCertainty = EffectNone, err_effectRetrySafety = None,
       err_message = leaseExpiredMessage\<rparr>,
     cmo_now = 1800, cmo_result = None, cmo_status = TermFailed\<rparr>"

lemma exFailure_coherent: "completionCoherent exFailure"
  by (simp add: completionCoherent_def exFailure_def ReplayAttemptErrorSchema_def
      leaseExpiredMessage_canonical)

theorem replay_completion_commits_once_witness:
  "\<exists>a' j'. completeReplayAttempt exJob1 exAttempt1 (lease_mutationFence exLease1) exFailure =
      Inr (a', j') \<and> job_status j' = JobFailed"
proof -
  have "\<exists>a' j'. completeReplayAttempt exJob1 exAttempt1 (lease_mutationFence exLease1) exFailure =
      Inr (a', j') \<and>
    job_status j' = jobStatusOfTerminal (cmo_status exFailure) \<and>
    job_currentLease j' = None \<and>
    job_terminal j' = Some \<lparr>term_attemptId = Some (att_attemptId exAttempt1),
      term_code = cmo_code exFailure, term_committedAt = cmo_now exFailure,
      term_status = cmo_status exFailure\<rparr> \<and>
    (\<forall>a2 f2 o2 x. completeReplayAttempt j' a2 f2 o2 \<noteq> Inr x) \<and>
    (\<forall>f2 now2 d2 x. heartbeatReplayJob j' f2 now2 d2 \<noteq> Inr x) \<and>
    (\<forall>o2 x. claimReplayJob j' o2 \<noteq> Inr x)"
    by (rule replay_completion_commits_once [of _ _ 1000])
      (use exClaim_schemas exFailure_coherent in \<open>simp_all add: exFailure_def ex1_defs ex_time\<close>)
  then show ?thesis by (auto simp: exFailure_def)
qed

text \<open>
  Requesting a cancellation is idempotent: the first request is recorded (and cancels a job that
  is still queued at once); repeating it against the stored record changes nothing and returns that
  record.
\<close>

theorem replay_cancellation_idempotent:
  assumes first: "requestReplayCancellation job options = Inr r"
    and again: "rco_input again = rco_input options" "rco_existing again = Some (rcr_request r)"
      "UtcMillisecondTimestampSchema (rco_now again)"
  shows "requestReplayCancellation (rcr_job r) again =
    Inr \<lparr>rcr_created = False, rcr_job = rcr_job r, rcr_request = rcr_request r\<rparr>"
  using assms
  by (auto simp: requestReplayCancellation_def Let_def result_simps terminalJob_def
      split: option.splits if_splits)

definition exCancel :: RequestReplayCancellationOptions where
  "exCancel = \<lparr>rco_existing = None,
     rco_input = \<lparr>rc_cancellationId = ''can_main'', rc_reason = leaseExpiredMessage,
       rc_reasonCode = OperatorRequest\<rparr>,
     rco_now = 700, rco_requestedByPrincipalId = ''usr_main''\<rparr>"

definition exCancelled :: RequestReplayCancellationResult where
  "exCancelled = \<lparr>rcr_created = True,
     rcr_job = terminalJob exJob 2 None CancellationCommitted 700 TermCancelled,
     rcr_request = \<lparr>cancel_cancellationId = ''can_main'', cancel_jobId = ''job_main'',
       cancel_reason = leaseExpiredMessage, cancel_reasonCode = OperatorRequest,
       cancel_requestedAt = 700, cancel_requestedByPrincipalId = ''usr_main'',
       cancel_scope = exScope\<rparr>\<rparr>"

lemma exCancel_result: "requestReplayCancellation exJob exCancel = Inr exCancelled"
proof -
  have reason: "canonicalHumanText MAX_REPLAY_CANCELLATION_REASON_CHARACTERS leaseExpiredMessage"
    by code_simp
  have "ReplayJobSchema (terminalJob exJob 2 None CancellationCommitted 700 TermCancelled)"
    using exJob_schema
    by (simp add: ReplayJobSchema_def replayJobShape_def refineReplayJob_def terminalJob_def exJob_def
        queuedCancellation_def ReplayJobTerminalRecordSchema_def SafePositiveInteger_def ex_time)
  moreover have "job_jobId exJob = ''job_main''" "job_scope exJob = exScope"
    "job_status exJob = JobQueued" "job_stateVersion exJob = 1"
    by (simp_all add: exJob_def)
  ultimately show ?thesis
    using reason exJob_schema
    by (simp add: requestReplayCancellation_def exCancel_def exCancelled_def parsed_def nextCounter_def
        RequestReplayCancellationSchema_def ReplayCancellationRequestSchema_def ex_time)
qed

theorem replay_cancellation_idempotent_witness:
  "requestReplayCancellation (rcr_job exCancelled)
      (exCancel\<lparr>rco_existing := Some (rcr_request exCancelled)\<rparr>) =
     Inr \<lparr>rcr_created = False, rcr_job = rcr_job exCancelled, rcr_request = rcr_request exCancelled\<rparr>"
  by (rule replay_cancellation_idempotent [OF exCancel_result]) (simp_all add: exCancel_def ex_time)

section \<open>A requested cancellation\<close>

text \<open>
  What the result of a request records: the cancellation of the input for this job, new with the instant
  and the principal of the request, or the stored record unchanged.
\<close>

definition cancellationRecorded ::
    "ReplayJob \<Rightarrow> RequestReplayCancellationOptions \<Rightarrow> RequestReplayCancellationResult \<Rightarrow> bool" where
  "cancellationRecorded job options r \<longleftrightarrow>
     (let request = rcr_request r; input = rco_input options in
      cancel_cancellationId request = rc_cancellationId input \<and> cancel_reason request = rc_reason input \<and>
      cancel_reasonCode request = rc_reasonCode input \<and>
      cancel_jobId request = job_jobId job \<and> cancel_scope request = job_scope job \<and>
      (case rco_existing options of
         None \<Rightarrow> rcr_created r \<and> cancel_requestedAt request = rco_now options \<and>
           cancel_requestedByPrincipalId request = rco_requestedByPrincipalId options
       | Some existing \<Rightarrow> \<not> rcr_created r \<and> request = existing))"

lemma requestReplayCancellation_recorded:
  assumes "requestReplayCancellation job options = Inr r"
  shows "cancellationRecorded job options r" "ReplayJobSchema job" "ReplayJobSchema (rcr_job r)"
    "ReplayCancellationRequestSchema (rcr_request r)" "RequestReplayCancellationSchema (rco_input options)"
    "job_jobId (rcr_job r) = job_jobId job" "job_scope (rcr_job r) = job_scope job"
  using assms
  by (auto simp: requestReplayCancellation_def cancellationRecorded_def Let_def result_simps terminalJob_def
      split: option.splits if_splits)

lemma requestReplayCancellation_queued:
  assumes "requestReplayCancellation job options = Inr r" "job_status job = JobQueued" "rco_existing options = None"
  shows "rcr_job r = terminalJob job (job_stateVersion job + 1) None CancellationCommitted (rco_now options) TermCancelled"
  using assms by (auto simp: requestReplayCancellation_def Let_def result_simps split: if_splits)

lemma replayStep_identity:
  assumes "replayStep job job'"
  shows "job_jobId job' = job_jobId job \<and> job_scope job' = job_scope job"
  using assms
proof cases
  case (claim options r)
  then show ?thesis
    by (auto simp: claimReplayJob_def Let_def result_simps claimedJob_def split: option.splits if_splits prod.splits)
next
  case (heartbeat fence now d)
  then show ?thesis by (auto simp: heartbeatReplayJob_def Let_def result_simps split: if_splits)
next
  case (close_expired attempt close attempt')
  then show ?thesis by (auto simp: closeExpiredReplayAttempt_def Let_def result_simps terminalJob_def split: if_splits)
next
  case (complete attempt fence finishing attempt')
  then show ?thesis by (auto simp: completeReplayAttempt_def Let_def result_simps terminalJob_def split: if_splits)
next
  case (cancel_queued cancel c)
  then show ?thesis using requestReplayCancellation_recorded(6,7) by simp
qed

lemma replaySteps_identity:
  "replayStep\<^sup>*\<^sup>* job job' \<Longrightarrow> job_jobId job' = job_jobId job \<and> job_scope job' = job_scope job"
  by (induction rule: rtranclp_induct) (auto dest: replayStep_identity)

lemma requested_again:
  assumes "ReplayJobSchema job" "ReplayCancellationRequestSchema request" "RequestReplayCancellationSchema (rco_input again)"
    "UtcMillisecondTimestampSchema (rco_now again)" "rco_existing again = Some request"
    "cancel_jobId request = job_jobId job" "cancel_scope request = job_scope job"
  shows "requestReplayCancellation job again =
    (if rc_cancellationId (rco_input again) = cancel_cancellationId request \<and>
        rc_reason (rco_input again) = cancel_reason request \<and> rc_reasonCode (rco_input again) = cancel_reasonCode request
     then Inr \<lparr>rcr_created = False, rcr_job = job, rcr_request = request\<rparr>
     else Inl (DurableReplayStateError CancellationConflict))"
  using assms by (auto simp: requestReplayCancellation_def Let_def)

lemma cancellation_required:
  assumes job: "ReplayJobSchema job" "job_status job = JobRunning" "job_currentLease job = Some l"
    and attempt: "ReplayAttemptSchema attempt" "att_status attempt = AttRunning"
      "att_mutationFence attempt = lease_mutationFence l" "att_scope attempt = job_scope job"
      "att_attemptSequence attempt = lease_attemptSequence l"
    and time: "UtcMillisecondTimestampSchema (cmo_now options)" "cmo_now options < lease_expiresAt l"
    and requested: "cmo_cancellationRequested options" "cmo_status options \<noteq> TermCancelled"
  shows "completeReplayAttempt job attempt (lease_mutationFence l) options =
    Inl (DurableReplayStateError CancellationRequired)"
proof -
  have l: "ReplayLeaseSchema l" using job by (auto elim: running_jobD)
  then have "assertCurrentFence job (lease_mutationFence l) (cmo_now options) = Inr l"
    "assertCurrentAttempt job (Some attempt) = Inr attempt"
    using job(2,3) time(2) attempt(2-) by (auto simp: result_simps)
  then show ?thesis
    using job(1) attempt(1) time(1) requested by (simp add: completeReplayAttempt_def)
qed

lemma completion_cancelled:
  assumes "cmo_cancellationRequested completion" "completeReplayAttempt job attempt fence completion = Inr (attempt', job')"
  shows "cmo_status completion = TermCancelled \<and> job_status job' = JobCancelled \<and> att_status attempt' = AttCancelled"
proof -
  have status: "cmo_status completion = TermCancelled" by (rule completeReplayAttempt_InrD(9) [OF assms(2,1)])
  then show ?thesis
    using completeReplayAttempt_InrD(4) [OF assms(2)] assms(2) by (auto simp: completeReplayAttempt_def Let_def result_simps)
qed

lemma queued_closed:
  assumes recorded: "requestReplayCancellation job options = Inr r" and later: "replayStep\<^sup>*\<^sup>* (rcr_job r) job2"
    and queued: "job_status job = JobQueued" "rco_existing options = None"
  shows "job2 = rcr_job r \<and> job_status job2 = JobCancelled \<and> job_stateVersion job2 = job_stateVersion job + 1 \<and>
    job_terminal job2 = Some \<lparr>term_attemptId = None, term_code = CancellationCommitted,
      term_committedAt = rco_now options, term_status = TermCancelled\<rparr>"
proof -
  note closed = requestReplayCancellation_queued [OF recorded queued]
  have "replayTerminal (rcr_job r)" by (simp add: closed replayTerminal_def terminalJob_def)
  then have "job2 = rcr_job r" by (rule replay.terminal_final [OF _ later])
  then show ?thesis by (simp add: closed terminalJob_def)
qed

lemma later_request:
  assumes recorded: "requestReplayCancellation job options = Inr r" and later: "replayStep\<^sup>*\<^sup>* (rcr_job r) job2"
    and again: "RequestReplayCancellationSchema (rco_input again)" "UtcMillisecondTimestampSchema (rco_now again)"
      "rco_existing again = Some (rcr_request r)"
  shows "requestReplayCancellation job2 again =
    (if rco_input again = rco_input options
     then Inr \<lparr>rcr_created = False, rcr_job = job2, rcr_request = rcr_request r\<rparr>
     else Inl (DurableReplayStateError CancellationConflict))"
proof -
  note request = requestReplayCancellation_recorded [OF recorded]
  have valid: "ReplayJobSchema job2" by (rule replay.steps_valid [OF later request(3)])
  have bound: "cancel_jobId (rcr_request r) = job_jobId job2" "cancel_scope (rcr_request r) = job_scope job2"
    using request(1,6,7) replaySteps_identity [OF later] by (simp_all add: cancellationRecorded_def Let_def)
  have "rco_input again = rco_input options \<longleftrightarrow>
      rc_cancellationId (rco_input again) = cancel_cancellationId (rcr_request r) \<and>
      rc_reason (rco_input again) = cancel_reason (rcr_request r) \<and> rc_reasonCode (rco_input again) = cancel_reasonCode (rcr_request r)"
    using request(1) by (auto simp: cancellationRecorded_def Let_def intro: RequestReplayCancellation.equality)
  then show ?thesis using requested_again [OF valid request(4) again bound] by simp
qed

text \<open>
  C3. A cancellation that has been requested cannot be outrun. Let a request for a cancellation succeed on a
  job. It records the cancellation of its input for exactly this job, new with the instant and the principal
  of the request, or the stored record unchanged. A queued job is closed by it as cancelled and stays so in
  every later state. A running job is left as it is, and then in every later state of the job: with the
  cancellation flag set, as the caller of the state machine sets it once a request is stored, a completion
  succeeds only with status \<open>cancelled\<close> and leaves the attempt and the job cancelled, and the holder of the
  lease is refused any other status with \<open>cancellation_required\<close>; and a second request against the stored
  record is answered with that record if it is the same request and refused with \<open>cancellation_conflict\<close> if
  it is another.
\<close>

theorem replay_cancellation_cannot_be_outrun:
  assumes recorded: "requestReplayCancellation job options = Inr r" and later: "replayStep\<^sup>*\<^sup>* (rcr_job r) job2"
  shows "cancellationRecorded job options r \<and>
    (job_status job = JobQueued \<longrightarrow> rco_existing options = None \<longrightarrow>
       job2 = rcr_job r \<and> job_status job2 = JobCancelled \<and> job_stateVersion job2 = job_stateVersion job + 1 \<and>
       job_terminal job2 = Some \<lparr>term_attemptId = None, term_code = CancellationCommitted,
         term_committedAt = rco_now options, term_status = TermCancelled\<rparr>) \<and>
    (job_status job = JobRunning \<longrightarrow> rcr_job r = job) \<and>
    (\<forall>attempt fence completion attempt' job3. cmo_cancellationRequested completion \<longrightarrow>
       completeReplayAttempt job2 attempt fence completion = Inr (attempt', job3) \<longrightarrow>
       cmo_status completion = TermCancelled \<and> job_status job3 = JobCancelled \<and> att_status attempt' = AttCancelled) \<and>
    (\<forall>lease attempt completion. job_status job2 = JobRunning \<longrightarrow> job_currentLease job2 = Some lease \<longrightarrow>
       ReplayAttemptSchema attempt \<longrightarrow> att_status attempt = AttRunning \<longrightarrow>
       att_mutationFence attempt = lease_mutationFence lease \<longrightarrow> att_scope attempt = job_scope job2 \<longrightarrow>
       att_attemptSequence attempt = lease_attemptSequence lease \<longrightarrow>
       UtcMillisecondTimestampSchema (cmo_now completion) \<longrightarrow> cmo_now completion < lease_expiresAt lease \<longrightarrow>
       cmo_cancellationRequested completion \<longrightarrow> cmo_status completion \<noteq> TermCancelled \<longrightarrow>
       completeReplayAttempt job2 attempt (lease_mutationFence lease) completion =
         Inl (DurableReplayStateError CancellationRequired)) \<and>
    (\<forall>again. RequestReplayCancellationSchema (rco_input again) \<longrightarrow> UtcMillisecondTimestampSchema (rco_now again) \<longrightarrow>
       rco_existing again = Some (rcr_request r) \<longrightarrow>
       requestReplayCancellation job2 again =
         (if rco_input again = rco_input options
          then Inr \<lparr>rcr_created = False, rcr_job = job2, rcr_request = rcr_request r\<rparr>
          else Inl (DurableReplayStateError CancellationConflict)))"
proof -
  note request = requestReplayCancellation_recorded [OF recorded]
  have valid: "ReplayJobSchema job2" by (rule replay.steps_valid [OF later request(3)])
  have running: "rcr_job r = job" if "job_status job = JobRunning"
    using requestReplayCancellation_otherD [OF recorded] that by simp
  show ?thesis
    by (rule conjI, rule request(1), rule conjI, intro impI queued_closed [OF recorded later], assumption+, rule conjI,
        intro impI running, assumption, rule conjI, intro allI impI completion_cancelled, assumption+, rule conjI,
        intro allI impI, rule cancellation_required [OF valid], assumption+, intro allI impI later_request [OF recorded later], assumption+)
qed

definition exRunningCancel :: RequestReplayCancellationOptions where
  "exRunningCancel = exCancel\<lparr>rco_now := 1200\<rparr>"

lemma exRunningCancel_result:
  "\<exists>r. requestReplayCancellation exJob1 exRunningCancel = Inr r \<and> rcr_job r = exJob1"
proof -
  have "canonicalHumanText MAX_REPLAY_CANCELLATION_REASON_CHARACTERS leaseExpiredMessage" by code_simp
  moreover have "job_jobId exJob1 = ''job_main''" "job_scope exJob1 = exScope" "job_status exJob1 = JobRunning"
    by (simp_all add: ex1_defs)
  ultimately show ?thesis
    using exClaim_schemas(1)
    by (simp add: requestReplayCancellation_def exRunningCancel_def exCancel_def parsed_def
        RequestReplayCancellationSchema_def ReplayCancellationRequestSchema_def ex_time)
qed

theorem replay_cancellation_cannot_be_outrun_witness:
  "completeReplayAttempt exJob1 exAttempt1 (lease_mutationFence exLease1)
      (exFailure\<lparr>cmo_cancellationRequested := True\<rparr>) =
     Inl (DurableReplayStateError CancellationRequired)"
proof -
  obtain r where r: "requestReplayCancellation exJob1 exRunningCancel = Inr r" "rcr_job r = exJob1"
    using exRunningCancel_result by blast
  have "replayStep\<^sup>*\<^sup>* (rcr_job r) exJob1" by (simp add: r(2))
  note outrun = replay_cancellation_cannot_be_outrun [OF r(1) this, THEN conjunct2, THEN conjunct2, THEN conjunct2,
      THEN conjunct2, THEN conjunct1, rule_format, of exLease1 exAttempt1 "exFailure\<lparr>cmo_cancellationRequested := True\<rparr>"]
  show ?thesis
    by (rule outrun) (use exClaim_schemas in \<open>simp_all add: exFailure_def ex1_defs ex_time\<close>)
qed

text \<open>
  C4. A job's life is finite and counted: every change adds one to the state version, so a run from
  a valid job is at most as long as the counter range allows; and a terminal job never changes again
  and admits no worker.
\<close>

theorem replay_run_counted_and_final:
  assumes "ReplayJobSchema job" and "(replayStep ^^ n) job job'"
  shows "job_stateVersion job' = job_stateVersion job + int n \<and>
    int n \<le> MAX_SAFE_INTEGER - job_stateVersion job \<and> ReplayJobSchema job' \<and>
    (replayTerminal job' \<longrightarrow>
       (\<forall>k. replayStep\<^sup>*\<^sup>* job' k \<longrightarrow> k = job') \<and> (\<forall>fence. \<not> replayAdmits job' fence))"
proof -
  have bound: "ReplayJobSchema u \<Longrightarrow> job_stateVersion u \<le> MAX_SAFE_INTEGER" for u
    by (simp add: ReplayJobSchema_def replayJobShape_def SafePositiveInteger_def)
  have valid: "ReplayJobSchema job'"
    using assms by (auto intro: replay.steps_valid relpowp_imp_rtranclp)
  show ?thesis
    using replay.relpow_version [OF assms(2)] replay.run_length_bounded [OF assms(2,1) bound] valid
      replay.terminal_final replay.admits_live [OF valid]
    by blast
qed

theorem replay_run_counted_and_final_witness:
  "job_stateVersion exJob2 = job_stateVersion exJob + int 2"
  using replay_run_counted_and_final [OF exJob_schema, of 2 exJob2] exStep_claim exStep_takeover
  by (auto simp: numeral_2_eq_2)

end
