(* ===== verification/Replay_Accounting.thy ===== *)
theory Replay_Accounting
  imports Replay_Job
begin

text \<open>
  The accounting contracts of \<open>packages/contracts/src/replay-accounting.ts\<close> and the budget of
  \<open>replay-plan.ts\<close>: reservations and reconciliations over the ten budget dimensions, and the
  observations a worker records. A \<open>Record<Dimension, T>\<close> with all ten keys is a function from the
  dimension.
\<close>

section \<open>Dimensions\<close>

datatype ReplayBudgetDimension =
  ConcurrentInteractions | ElapsedMilliseconds | EmittedArtifactBytes | InputTokens | JobAttempts |
  ModelRequests | OutputTokens | ProviderCostMicrounits | RetrievedBytes | ToolCalls

definition REPLAY_BUDGET_DIMENSIONS :: "ReplayBudgetDimension list" where
  "REPLAY_BUDGET_DIMENSIONS =
     [ConcurrentInteractions, ElapsedMilliseconds, EmittedArtifactBytes, InputTokens, JobAttempts,
      ModelRequests, OutputTokens, ProviderCostMicrounits, RetrievedBytes, ToolCalls]"

fun dimensionName :: "ReplayBudgetDimension \<Rightarrow> string" where
  "dimensionName ConcurrentInteractions = ''concurrentInteractions''"
| "dimensionName ElapsedMilliseconds = ''elapsedMilliseconds''"
| "dimensionName EmittedArtifactBytes = ''emittedArtifactBytes''"
| "dimensionName InputTokens = ''inputTokens''"
| "dimensionName JobAttempts = ''jobAttempts''"
| "dimensionName ModelRequests = ''modelRequests''"
| "dimensionName OutputTokens = ''outputTokens''"
| "dimensionName ProviderCostMicrounits = ''providerCostMicrounits''"
| "dimensionName RetrievedBytes = ''retrievedBytes''"
| "dimensionName ToolCalls = ''toolCalls''"

lemma set_DIMENSIONS [simp]: "set REPLAY_BUDGET_DIMENSIONS = UNIV"
proof (rule set_eqI)
  fix d
  show "d \<in> set REPLAY_BUDGET_DIMENSIONS \<longleftrightarrow> d \<in> UNIV"
    by (cases d) (simp_all add: REPLAY_BUDGET_DIMENSIONS_def)
qed

lemma distinct_DIMENSIONS [simp]: "distinct REPLAY_BUDGET_DIMENSIONS"
  by (simp add: REPLAY_BUDGET_DIMENSIONS_def)

lemma length_DIMENSIONS [simp]: "length REPLAY_BUDGET_DIMENSIONS = 10"
  by (simp add: REPLAY_BUDGET_DIMENSIONS_def)

lemma dimensionName_inj: "inj dimensionName"
proof (rule injI)
  fix a b assume "dimensionName a = dimensionName b"
  then show "a = b" by (cases a; cases b) simp_all
qed

lemma dimensionName_eq [simp]: "dimensionName a = dimensionName b \<longleftrightarrow> a = b"
  using dimensionName_inj by (auto dest: injD)

definition everyDimension :: "(ReplayBudgetDimension \<Rightarrow> bool) \<Rightarrow> bool" where
  "everyDimension P \<longleftrightarrow> list_all P REPLAY_BUDGET_DIMENSIONS"

lemma everyDimension_iff [simp]: "everyDimension P \<longleftrightarrow> (\<forall>d. P d)"
  by (simp add: everyDimension_def list_all_iff)

section \<open>Budgets\<close>

datatype ReplayBudgetMeasurement = EstimatedMeasure | MeasuredMeasure | ProviderReportedMeasure | UnavailableMeasure

record BudgetLimit =
  bl_limit :: int
  bl_measurement :: ReplayBudgetMeasurement

definition BudgetLimitSchema :: "BudgetLimit \<Rightarrow> bool" where
  "BudgetLimitSchema b \<longleftrightarrow> SafePositiveInteger (bl_limit b)"

type_synonym ReplayBudget = "ReplayBudgetDimension \<Rightarrow> BudgetLimit"

definition ReplayBudgetSchema :: "ReplayBudget \<Rightarrow> bool" where
  "ReplayBudgetSchema b \<longleftrightarrow> everyDimension (\<lambda>d. BudgetLimitSchema (b d))"

section \<open>Reservations\<close>

record ReplayBudgetReservationDimension =
  rsv_committedBefore :: int
  rsv_limit :: int
  rsv_measurement :: ReplayBudgetMeasurement
  rsv_reservedAmount :: int

definition ReplayBudgetReservationDimensionSchema :: "ReplayBudgetReservationDimension \<Rightarrow> bool" where
  "ReplayBudgetReservationDimensionSchema v \<longleftrightarrow>
     SafeNonnegativeInteger (rsv_committedBefore v) \<and> SafePositiveInteger (rsv_limit v) \<and>
     SafeNonnegativeInteger (rsv_reservedAmount v) \<and>
     \<not> rsv_committedBefore v > rsv_limit v - rsv_reservedAmount v"

type_synonym ReplayBudgetReservationVector =
  "ReplayBudgetDimension \<Rightarrow> ReplayBudgetReservationDimension"

definition ReplayBudgetReservationVectorSchema :: "ReplayBudgetReservationVector \<Rightarrow> bool" where
  "ReplayBudgetReservationVectorSchema v \<longleftrightarrow>
     everyDimension (\<lambda>d. ReplayBudgetReservationDimensionSchema (v d)) \<and>
     \<not> everyDimension (\<lambda>d. rsv_reservedAmount (v d) = 0)"

datatype ReplayBoundaryKind = DataBoundary | ModelBoundary | RetrievalBoundary | ToolBoundary

datatype ReplayBudgetWorkReference =
    AttemptStart
  | BoundaryCall string ReplayBoundaryKind
  | ArtifactEmission string

fun ReplayBudgetWorkReferenceSchema :: "ReplayBudgetWorkReference \<Rightarrow> bool" where
  "ReplayBudgetWorkReferenceSchema AttemptStart = True"
| "ReplayBudgetWorkReferenceSchema (BoundaryCall boundaryId _) = OpaqueIdSchema boundaryId"
| "ReplayBudgetWorkReferenceSchema (ArtifactEmission artifactId) = OpaqueIdSchema artifactId"

record ReplayBudgetReservation =
  res_dimensions :: ReplayBudgetReservationVector
  res_ledgerSequence :: int
  res_mutationFence :: ReplayWorkerMutationFence
  res_reservationId :: string
  res_reservedAt :: utc_ms
  res_scope :: EvidenceScope
  res_work :: ReplayBudgetWorkReference

definition ReplayBudgetReservationSchema :: "ReplayBudgetReservation \<Rightarrow> bool" where
  "ReplayBudgetReservationSchema r \<longleftrightarrow>
     ReplayBudgetReservationVectorSchema (res_dimensions r) \<and>
     SafeNonnegativeInteger (res_ledgerSequence r) \<and>
     ReplayWorkerMutationFenceSchema (res_mutationFence r) \<and>
     OpaqueIdSchema (res_reservationId r) \<and>
     UtcMillisecondTimestampSchema (res_reservedAt r) \<and>
     EvidenceScopeSchema (res_scope r) \<and>
     ReplayBudgetWorkReferenceSchema (res_work r)"

section \<open>Usage and reconciliation\<close>

datatype ReplayUsageSource = Estimated | Measured | ProviderReported

datatype ReplayUsageUnavailableReason = MeasurementFailed | ProviderDidNotReport | SourceUnavailable

datatype ReplayUsageMeasurement =
    ObservedUsage int ReplayUsageSource
  | UnavailableUsage ReplayUsageUnavailableReason

fun ReplayUsageMeasurementSchema :: "ReplayUsageMeasurement \<Rightarrow> bool" where
  "ReplayUsageMeasurementSchema (ObservedUsage amount _) = SafeNonnegativeInteger amount"
| "ReplayUsageMeasurementSchema (UnavailableUsage _) = True"

datatype ReplayBudgetDisposition = Disputed | Overrun | Settled

record ReplayBudgetReconciliationDimension =
  rcd_actualUsage :: ReplayUsageMeasurement
  rcd_disposition :: ReplayBudgetDisposition
  rcd_overrunAmount :: int
  rcd_releasedAmount :: int
  rcd_reservedAmount :: int

definition ReplayBudgetReconciliationDimensionSchema ::
    "ReplayBudgetReconciliationDimension \<Rightarrow> bool" where
  "ReplayBudgetReconciliationDimensionSchema v \<longleftrightarrow>
     ReplayUsageMeasurementSchema (rcd_actualUsage v) \<and>
     SafeNonnegativeInteger (rcd_overrunAmount v) \<and>
     SafeNonnegativeInteger (rcd_releasedAmount v) \<and>
     SafeNonnegativeInteger (rcd_reservedAmount v) \<and>
     (case rcd_actualUsage v of
        UnavailableUsage _ \<Rightarrow>
          rcd_disposition v = Disputed \<and> rcd_releasedAmount v = 0 \<and> rcd_overrunAmount v = 0
      | ObservedUsage amount _ \<Rightarrow>
          if amount \<le> rcd_reservedAmount v then
            rcd_disposition v = Settled \<and>
            rcd_releasedAmount v = rcd_reservedAmount v - amount \<and> rcd_overrunAmount v = 0
          else
            rcd_disposition v = Overrun \<and> rcd_releasedAmount v = 0 \<and>
            rcd_overrunAmount v = amount - rcd_reservedAmount v)"

type_synonym ReplayBudgetReconciliationVector =
  "ReplayBudgetDimension \<Rightarrow> ReplayBudgetReconciliationDimension"

definition ReplayBudgetReconciliationVectorSchema :: "ReplayBudgetReconciliationVector \<Rightarrow> bool" where
  "ReplayBudgetReconciliationVectorSchema v \<longleftrightarrow>
     everyDimension (\<lambda>d. ReplayBudgetReconciliationDimensionSchema (v d))"

record ReplayBudgetReconciliation =
  rec_dimensions :: ReplayBudgetReconciliationVector
  rec_ledgerSequence :: int
  rec_mutationFence :: ReplayWorkerMutationFence
  rec_reconciledAt :: utc_ms
  rec_reconciliationId :: string
  rec_reservationId :: string
  rec_scope :: EvidenceScope

definition ReplayBudgetReconciliationSchema :: "ReplayBudgetReconciliation \<Rightarrow> bool" where
  "ReplayBudgetReconciliationSchema r \<longleftrightarrow>
     ReplayBudgetReconciliationVectorSchema (rec_dimensions r) \<and>
     SafeNonnegativeInteger (rec_ledgerSequence r) \<and>
     ReplayWorkerMutationFenceSchema (rec_mutationFence r) \<and>
     UtcMillisecondTimestampSchema (rec_reconciledAt r) \<and>
     OpaqueIdSchema (rec_reconciliationId r) \<and>
     OpaqueIdSchema (rec_reservationId r) \<and>
     EvidenceScopeSchema (rec_scope r)"

datatype ReplayBudgetLedgerEntry =
    ReservationEntry ReplayBudgetReservation
  | ReconciliationEntry ReplayBudgetReconciliation

fun ReplayBudgetLedgerEntrySchema :: "ReplayBudgetLedgerEntry \<Rightarrow> bool" where
  "ReplayBudgetLedgerEntrySchema (ReservationEntry r) = ReplayBudgetReservationSchema r"
| "ReplayBudgetLedgerEntrySchema (ReconciliationEntry c) = ReplayBudgetReconciliationSchema c"

fun entryLedgerSequence :: "ReplayBudgetLedgerEntry \<Rightarrow> int" where
  "entryLedgerSequence (ReservationEntry r) = res_ledgerSequence r"
| "entryLedgerSequence (ReconciliationEntry c) = rec_ledgerSequence c"

section \<open>Observations\<close>

record ReplayUsageObservation =
  uob_boundaryId :: "string option"
  uob_measurements :: "(ReplayBudgetDimension \<times> ReplayUsageMeasurement) list"
  uob_mutationFence :: ReplayWorkerMutationFence
  uob_observationId :: string
  uob_observationSequence :: int
  uob_observedAt :: utc_ms
  uob_scope :: EvidenceScope
  uob_sourceEventSha256 :: string

definition ReplayUsageObservationSchema :: "ReplayUsageObservation \<Rightarrow> bool" where
  "ReplayUsageObservationSchema u \<longleftrightarrow>
     optional OpaqueIdSchema (uob_boundaryId u) \<and>
     list_all (\<lambda>(_, m). ReplayUsageMeasurementSchema m) (uob_measurements u) \<and>
     1 \<le> length (uob_measurements u) \<and>
     length (uob_measurements u) \<le> length REPLAY_BUDGET_DIMENSIONS \<and>
     strictly_sorted codeUnitLess (map (dimensionName \<circ> fst) (uob_measurements u)) \<and>
     ReplayWorkerMutationFenceSchema (uob_mutationFence u) \<and>
     OpaqueIdSchema (uob_observationId u) \<and>
     SafeNonnegativeInteger (uob_observationSequence u) \<and>
     UtcMillisecondTimestampSchema (uob_observedAt u) \<and>
     EvidenceScopeSchema (uob_scope u) \<and> Sha256Schema (uob_sourceEventSha256 u)"

datatype ReplayBoundaryMode = LiveProvider | RecordedStub | Simulation

datatype BoundaryOutputOrigin = LiveOrigin | RecordedOrigin | SimulatedOrigin

datatype BoundaryPhase = BoundaryFailed | RequestStarted | ResponseObserved

fun expectedOrigin :: "ReplayBoundaryMode \<Rightarrow> BoundaryOutputOrigin" where
  "expectedOrigin LiveProvider = LiveOrigin"
| "expectedOrigin RecordedStub = RecordedOrigin"
| "expectedOrigin Simulation = SimulatedOrigin"

record BoundaryExecutionObservation =
  bob_afterCancellationRequest :: bool
  bob_boundaryId :: string
  bob_boundaryKind :: ReplayBoundaryKind
  bob_effectCertainty :: ReplayEffectCertainty
  bob_evidenceSha256 :: string
  bob_mode :: ReplayBoundaryMode
  bob_executionOrigin :: BoundaryOutputOrigin
  bob_phase :: BoundaryPhase

definition BoundaryExecutionObservationSchema :: "BoundaryExecutionObservation \<Rightarrow> bool" where
  "BoundaryExecutionObservationSchema v \<longleftrightarrow>
     OpaqueIdSchema (bob_boundaryId v) \<and> Sha256Schema (bob_evidenceSha256 v) \<and>
     bob_executionOrigin v = expectedOrigin (bob_mode v) \<and>
     \<not> (bob_mode v \<noteq> LiveProvider \<and> bob_effectCertainty v \<noteq> EffectNone)"

datatype TargetEvent = TargetExited | TargetStarted | StderrCapped | StdoutCapped

record TargetExecutionObservation =
  tob_afterCancellationRequest :: bool
  tob_evidenceSha256 :: string
  tob_event :: TargetEvent
  tob_exitCode :: "int option"

definition TargetExecutionObservationSchema :: "TargetExecutionObservation \<Rightarrow> bool" where
  "TargetExecutionObservationSchema v \<longleftrightarrow>
     Sha256Schema (tob_evidenceSha256 v) \<and>
     optional (\<lambda>c. -1 \<le> c \<and> c \<le> 255) (tob_exitCode v) \<and>
     ((tob_event v = TargetExited) = (tob_exitCode v \<noteq> None))"

datatype CancellationEvent =
  LateCompletionObserved | RequestObserved | StopRequested | StoppedBeforeTargetStart

record CancellationExecutionObservation =
  cob_cancellationId :: string
  cob_event :: CancellationEvent
  cob_evidenceSha256 :: string

definition CancellationExecutionObservationSchema :: "CancellationExecutionObservation \<Rightarrow> bool" where
  "CancellationExecutionObservationSchema v \<longleftrightarrow>
     OpaqueIdSchema (cob_cancellationId v) \<and> Sha256Schema (cob_evidenceSha256 v)"

datatype IsolationControl =
  EnvironmentAllowlist | FilesystemMounts | NetworkPolicy | NoNewPrivileges | OutputLimits |
  ProcessBoundary | ResourceLimits | SubprocessPolicy

datatype IsolationVerdict = IsolationVerdictFailed | NotVerified | Verified

record IsolationExecutionObservation =
  iob_control :: IsolationControl
  iob_evidenceSha256 :: string
  iob_verdict :: IsolationVerdict

definition IsolationExecutionObservationSchema :: "IsolationExecutionObservation \<Rightarrow> bool" where
  "IsolationExecutionObservationSchema v \<longleftrightarrow> Sha256Schema (iob_evidenceSha256 v)"

datatype ReplayExecutionObservationPayload =
    BoundaryObservation BoundaryExecutionObservation
  | CancellationObservation CancellationExecutionObservation
  | IsolationObservation IsolationExecutionObservation
  | TargetObservation TargetExecutionObservation

fun ReplayExecutionObservationPayloadSchema :: "ReplayExecutionObservationPayload \<Rightarrow> bool" where
  "ReplayExecutionObservationPayloadSchema (BoundaryObservation v) = BoundaryExecutionObservationSchema v"
| "ReplayExecutionObservationPayloadSchema (CancellationObservation v) =
     CancellationExecutionObservationSchema v"
| "ReplayExecutionObservationPayloadSchema (IsolationObservation v) =
     IsolationExecutionObservationSchema v"
| "ReplayExecutionObservationPayloadSchema (TargetObservation v) = TargetExecutionObservationSchema v"

record ReplayExecutionObservation =
  xob_mutationFence :: ReplayWorkerMutationFence
  xob_observationId :: string
  xob_observationSequence :: int
  xob_observedAt :: utc_ms
  xob_payload :: ReplayExecutionObservationPayload
  xob_scope :: EvidenceScope

definition ReplayExecutionObservationSchema :: "ReplayExecutionObservation \<Rightarrow> bool" where
  "ReplayExecutionObservationSchema v \<longleftrightarrow>
     ReplayWorkerMutationFenceSchema (xob_mutationFence v) \<and>
     OpaqueIdSchema (xob_observationId v) \<and>
     SafeNonnegativeInteger (xob_observationSequence v) \<and>
     UtcMillisecondTimestampSchema (xob_observedAt v) \<and>
     ReplayExecutionObservationPayloadSchema (xob_payload v) \<and>
     EvidenceScopeSchema (xob_scope v)"

end
