(* ===== verification/Replay_Budget.thy ===== *)
theory Replay_Budget
  imports Replay_Accounting Replay_Job_Safety
begin

text \<open>
  Budget accounting of durable replay, \<open>packages/replay/src/replay-budget.ts\<close>: reserving budget
  before work, reconciling it with the measured usage, and folding a job's ledger into a summary.
  Amounts that reach a function as unchecked objects are \<open>js_value\<close>s of \<open>js_number\<close>s; the parsed
  amounts are functions from the dimension.
\<close>

section \<open>Errors and inputs\<close>

datatype DurableReplayAccountingErrorCode =
  AccountingConflict | ArithmeticOverflow | DuplicateEntry | InvalidAmounts | InvalidBudget |
  InvalidUsage | LedgerOrder | MissingReservation

datatype accounting_error = DurableReplayAccountingError DurableReplayAccountingErrorCode | AccountingZodError

abbreviation accountingError :: "DurableReplayAccountingErrorCode \<Rightarrow> (accounting_error, 'a) result" where
  "accountingError c \<equiv> Inl (DurableReplayAccountingError c)"

definition MAX_REPLAY_ACCOUNTING_VALUE :: int where
  "MAX_REPLAY_ACCOUNTING_VALUE = MAX_SAFE_INTEGER"

type_synonym ReplayBudgetAmounts = "ReplayBudgetDimension \<Rightarrow> int"

type_synonym ReplayUsageMeasurements = "ReplayBudgetDimension \<Rightarrow> ReplayUsageMeasurement"

datatype raw_usage = RawUsage ReplayUsageMeasurement | MalformedUsage

record ReserveReplayBudgetOptions =
  rbo_budget :: ReplayBudget
  rbo_committed :: "js_number js_value"
  rbo_ledgerSequence :: int
  rbo_mutationFence :: ReplayWorkerMutationFence
  rbo_requested :: "js_number js_value"
  rbo_reservationId :: string
  rbo_reservedAt :: utc_ms
  rbo_scope :: EvidenceScope
  rbo_work :: ReplayBudgetWorkReference

record ReconcileReplayBudgetOptions =
  rqo_ledgerSequence :: int
  rqo_reconciledAt :: utc_ms
  rqo_reconciliationId :: string
  rqo_usage :: "raw_usage js_value"

record ReplayBudgetLedgerSummary =
  sum_committed :: ReplayBudgetAmounts
  sum_disputed :: "string list"
  sum_openReservationIds :: "string list"
  sum_overruns :: "string list"
  sum_reconciliationCount :: nat
  sum_reservationCount :: nat

section \<open>Helpers\<close>

text \<open>
  \<open>mapDimensions\<close> calls its callback once per dimension in order; an exception in the callback
  leaves the function. The entries are collected and turned into an object.
\<close>

definition mapDimensions ::
    "(ReplayBudgetDimension \<Rightarrow> (accounting_error, 'v) result) \<Rightarrow>
     (accounting_error, ReplayBudgetDimension \<Rightarrow> 'v) result" where
  "mapDimensions f =
     (case traverse (\<lambda>d. case f d of Inl e \<Rightarrow> Inl e | Inr v \<Rightarrow> Inr (d, v)) REPLAY_BUDGET_DIMENSIONS of
        Inl e \<Rightarrow> Inl e
      | Inr entries \<Rightarrow> Inr (\<lambda>d. the (map_of entries d)))"

definition keysAreDimensions :: "(string \<times> 'v) list \<Rightarrow> bool" where
  "keysAreDimensions values =
     (length (map fst values) = length REPLAY_BUDGET_DIMENSIONS \<and>
      \<not> list_ex (\<lambda>key. key \<notin> set (map dimensionName REPLAY_BUDGET_DIMENSIONS)) (map fst values))"

fun parseAmounts :: "js_number js_value \<Rightarrow> (accounting_error, ReplayBudgetAmounts) result" where
  "parseAmounts NotAnObject = accountingError InvalidAmounts"
| "parseAmounts (JsObject values) =
     (if \<not> keysAreDimensions values then accountingError InvalidAmounts
      else mapDimensions (\<lambda>dimension.
        case map_of values (dimensionName dimension) of
          None \<Rightarrow> accountingError InvalidAmounts
        | Some JsOther \<Rightarrow> accountingError InvalidAmounts
        | Some (JsInt v) \<Rightarrow>
            if \<not> isSafeInteger (JsInt v) \<or> v < 0 then accountingError InvalidAmounts else Inr v))"

fun parseUsage :: "raw_usage js_value \<Rightarrow> (accounting_error, ReplayUsageMeasurements) result" where
  "parseUsage NotAnObject = accountingError InvalidUsage"
| "parseUsage (JsObject values) =
     (if \<not> keysAreDimensions values then accountingError InvalidUsage
      else mapDimensions (\<lambda>dimension.
        case map_of values (dimensionName dimension) of
          None \<Rightarrow> accountingError InvalidUsage
        | Some MalformedUsage \<Rightarrow> accountingError InvalidUsage
        | Some (RawUsage m) \<Rightarrow>
            if \<not> ReplayUsageMeasurementSchema m then accountingError InvalidUsage else Inr m))"

text \<open>The object with one property per dimension, as callers pass parsed amounts on.\<close>

definition dimensionObject :: "(ReplayBudgetDimension \<Rightarrow> 'v) \<Rightarrow> 'v js_value" where
  "dimensionObject f = JsObject (map (\<lambda>d. (dimensionName d, f d)) REPLAY_BUDGET_DIMENSIONS)"

definition checkedAdd :: "int \<Rightarrow> int \<Rightarrow> (accounting_error, int) result" where
  "checkedAdd left right =
     (if right > MAX_REPLAY_ACCOUNTING_VALUE - left then accountingError ArithmeticOverflow
      else Inr (left + right))"

definition emptyReplayBudgetAmounts :: ReplayBudgetAmounts where
  "emptyReplayBudgetAmounts = (\<lambda>_. 0)"

section \<open>Reserving\<close>

definition reserveReplayBudget ::
    "ReserveReplayBudgetOptions \<Rightarrow> (accounting_error, ReplayBudgetReservation) result" where
  "reserveReplayBudget options =
     (if \<not> ReplayBudgetSchema (rbo_budget options) then accountingError InvalidBudget
      else case parseAmounts (rbo_committed options) of Inl e \<Rightarrow> Inl e
      | Inr committed \<Rightarrow>
      (case parseAmounts (rbo_requested options) of Inl e \<Rightarrow> Inl e
      | Inr requested \<Rightarrow>
      (let reservation =
         \<lparr>res_dimensions = (\<lambda>dimension.
            \<lparr>rsv_committedBefore = committed dimension,
             rsv_limit = bl_limit (rbo_budget options dimension),
             rsv_measurement = bl_measurement (rbo_budget options dimension),
             rsv_reservedAmount = requested dimension\<rparr>),
          res_ledgerSequence = rbo_ledgerSequence options,
          res_mutationFence = rbo_mutationFence options,
          res_reservationId = rbo_reservationId options,
          res_reservedAt = rbo_reservedAt options,
          res_scope = rbo_scope options,
          res_work = rbo_work options\<rparr>
       in if ReplayBudgetReservationSchema reservation then Inr reservation
          else Inl AccountingZodError)))"

definition applyReplayBudgetReservation ::
    "js_number js_value \<Rightarrow> ReplayBudgetReservation \<Rightarrow> (accounting_error, ReplayBudgetAmounts) result" where
  "applyReplayBudgetReservation committedInput reservation =
     (case parseAmounts committedInput of Inl e \<Rightarrow> Inl e
      | Inr committed \<Rightarrow>
      if \<not> ReplayBudgetReservationSchema reservation then Inl AccountingZodError
      else mapDimensions (\<lambda>dimension.
        let entry = res_dimensions reservation dimension in
        if rsv_committedBefore entry \<noteq> committed dimension then accountingError AccountingConflict
        else checkedAdd (committed dimension) (rsv_reservedAmount entry)))"

section \<open>Reconciling\<close>

definition reconcileDimension ::
    "int \<Rightarrow> ReplayUsageMeasurement \<Rightarrow> ReplayBudgetReconciliationDimension" where
  "reconcileDimension reservedAmount actualUsage =
     (case actualUsage of
        UnavailableUsage _ \<Rightarrow>
          \<lparr>rcd_actualUsage = actualUsage, rcd_disposition = Disputed, rcd_overrunAmount = 0,
           rcd_releasedAmount = 0, rcd_reservedAmount = reservedAmount\<rparr>
      | ObservedUsage amount _ \<Rightarrow>
          if amount \<le> reservedAmount then
            \<lparr>rcd_actualUsage = actualUsage, rcd_disposition = Settled, rcd_overrunAmount = 0,
             rcd_releasedAmount = reservedAmount - amount, rcd_reservedAmount = reservedAmount\<rparr>
          else
            \<lparr>rcd_actualUsage = actualUsage, rcd_disposition = Overrun,
             rcd_overrunAmount = amount - reservedAmount, rcd_releasedAmount = 0,
             rcd_reservedAmount = reservedAmount\<rparr>)"

definition reconcileReplayBudget ::
    "ReplayBudgetReservation \<Rightarrow> ReconcileReplayBudgetOptions \<Rightarrow>
     (accounting_error, ReplayBudgetReconciliation) result" where
  "reconcileReplayBudget reservation options =
     (if \<not> ReplayBudgetReservationSchema reservation then Inl AccountingZodError
      else case parseUsage (rqo_usage options) of Inl e \<Rightarrow> Inl e
      | Inr usage \<Rightarrow>
      (let reconciliation =
         \<lparr>rec_dimensions = (\<lambda>dimension.
            reconcileDimension (rsv_reservedAmount (res_dimensions reservation dimension))
              (usage dimension)),
          rec_ledgerSequence = rqo_ledgerSequence options,
          rec_mutationFence = res_mutationFence reservation,
          rec_reconciledAt = rqo_reconciledAt options,
          rec_reconciliationId = rqo_reconciliationId options,
          rec_reservationId = res_reservationId reservation,
          rec_scope = res_scope reservation\<rparr>
       in if ReplayBudgetReconciliationSchema reconciliation then Inr reconciliation
          else Inl AccountingZodError))"

text \<open>The callback of lines 235-245, for one dimension.\<close>

definition settleDimension ::
    "int \<Rightarrow> int \<Rightarrow> ReplayBudgetReconciliationDimension \<Rightarrow> (accounting_error, int) result" where
  "settleDimension committed reservedAmount reconciled =
     (if rcd_reservedAmount reconciled \<noteq> reservedAmount \<or> committed < rcd_releasedAmount reconciled
      then accountingError AccountingConflict
      else checkedAdd (committed - rcd_releasedAmount reconciled) (rcd_overrunAmount reconciled))"

definition applyReplayBudgetReconciliation ::
    "js_number js_value \<Rightarrow> ReplayBudgetReservation \<Rightarrow> ReplayBudgetReconciliation \<Rightarrow>
     (accounting_error, ReplayBudgetAmounts) result" where
  "applyReplayBudgetReconciliation committedInput reservation reconciliation =
     (case parseAmounts committedInput of Inl e \<Rightarrow> Inl e
      | Inr committed \<Rightarrow>
      if \<not> ReplayBudgetReservationSchema reservation then Inl AccountingZodError
      else if \<not> ReplayBudgetReconciliationSchema reconciliation then Inl AccountingZodError
      else if rec_reservationId reconciliation \<noteq> res_reservationId reservation \<or>
              rec_ledgerSequence reconciliation \<le> res_ledgerSequence reservation \<or>
              \<not> sameScope (rec_scope reconciliation) (res_scope reservation) \<or>
              \<not> sameFence (rec_mutationFence reconciliation) (res_mutationFence reservation)
      then accountingError AccountingConflict
      else mapDimensions (\<lambda>dimension.
        settleDimension (committed dimension)
          (rsv_reservedAmount (res_dimensions reservation dimension))
          (rec_dimensions reconciliation dimension)))"

section \<open>Summarizing a ledger\<close>

text \<open>
  The loop state of \<open>summarizeReplayBudgetLedger\<close>. The \<open>Map\<close> from reservation identifiers keeps
  insertion order, hence an association list; a key is only ever set once.
\<close>

record ledger_state =
  ls_committed :: ReplayBudgetAmounts
  ls_reservations :: "(string \<times> ReplayBudgetReservation) list"
  ls_reconciled :: "string list"
  ls_disputed :: "string list"
  ls_overruns :: "string list"
  ls_reconciliationCount :: nat

definition initialLedgerState :: ledger_state where
  "initialLedgerState =
     \<lparr>ls_committed = emptyReplayBudgetAmounts, ls_reservations = [], ls_reconciled = [],
      ls_disputed = [], ls_overruns = [], ls_reconciliationCount = 0\<rparr>"

definition dispositionLabels ::
    "ReplayBudgetReconciliation \<Rightarrow> ReplayBudgetDisposition \<Rightarrow> string list" where
  "dispositionLabels c disposition =
     map (\<lambda>d. rec_reservationId c @ '':'' @ dimensionName d)
       (filter (\<lambda>d. rcd_disposition (rec_dimensions c d) = disposition) REPLAY_BUDGET_DIMENSIONS)"

definition summarizeStep ::
    "nat \<Rightarrow> ledger_state \<Rightarrow> ReplayBudgetLedgerEntry \<Rightarrow> (accounting_error, ledger_state) result" where
  "summarizeStep index st entry =
     (if \<not> ReplayBudgetLedgerEntrySchema entry then Inl AccountingZodError
      else if entryLedgerSequence entry \<noteq> int index then accountingError LedgerOrder
      else case entry of
        ReservationEntry r \<Rightarrow>
          (if map_of (ls_reservations st) (res_reservationId r) \<noteq> None
           then accountingError DuplicateEntry
           else case applyReplayBudgetReservation
                  (dimensionObject (JsInt \<circ> ls_committed st)) r of Inl e \<Rightarrow> Inl e
           | Inr committed \<Rightarrow>
               Inr (st\<lparr>ls_committed := committed,
                       ls_reservations := ls_reservations st @ [(res_reservationId r, r)]\<rparr>))
      | ReconciliationEntry c \<Rightarrow>
          (case map_of (ls_reservations st) (rec_reservationId c) of
             None \<Rightarrow> accountingError MissingReservation
           | Some reservation \<Rightarrow>
               if rec_reservationId c \<in> set (ls_reconciled st) then accountingError DuplicateEntry
               else case applyReplayBudgetReconciliation
                      (dimensionObject (JsInt \<circ> ls_committed st)) reservation c of Inl e \<Rightarrow> Inl e
               | Inr committed \<Rightarrow>
                   Inr (st\<lparr>ls_committed := committed,
                           ls_reconciled := ls_reconciled st @ [rec_reservationId c],
                           ls_reconciliationCount := ls_reconciliationCount st + 1,
                           ls_disputed := ls_disputed st @ dispositionLabels c Disputed,
                           ls_overruns := ls_overruns st @ dispositionLabels c Overrun\<rparr>)))"

fun summarizeLoop ::
    "nat \<Rightarrow> ledger_state \<Rightarrow> ReplayBudgetLedgerEntry list \<Rightarrow> (accounting_error, ledger_state) result" where
  "summarizeLoop index st [] = Inr st"
| "summarizeLoop index st (entry # entries) =
     (case summarizeStep index st entry of
        Inl e \<Rightarrow> Inl e
      | Inr st' \<Rightarrow> summarizeLoop (Suc index) st' entries)"

definition summarizeReplayBudgetLedger ::
    "ReplayBudgetLedgerEntry list \<Rightarrow> (accounting_error, ReplayBudgetLedgerSummary) result" where
  "summarizeReplayBudgetLedger entries =
     (case summarizeLoop 0 initialLedgerState entries of
        Inl e \<Rightarrow> Inl e
      | Inr st \<Rightarrow>
          Inr \<lparr>sum_committed = ls_committed st,
               sum_disputed = ls_disputed st,
               sum_openReservationIds =
                 filter (\<lambda>i. i \<notin> set (ls_reconciled st)) (map fst (ls_reservations st)),
               sum_overruns = ls_overruns st,
               sum_reconciliationCount = ls_reconciliationCount st,
               sum_reservationCount = length (ls_reservations st)\<rparr>)"


section \<open>Lemmas on the helpers\<close>

lemma mapDimensions_Inr_iff [result_simps]:
  "mapDimensions f = Inr g \<longleftrightarrow> (\<forall>d. f d = Inr (g d))"
proof -
  let ?pair = "\<lambda>d. case f d of Inl e \<Rightarrow> Inl e | Inr v \<Rightarrow> Inr (d, v)"
  show ?thesis
  proof
    assume all: "\<forall>d. f d = Inr (g d)"
    then have "traverse ?pair REPLAY_BUDGET_DIMENSIONS =
        Inr (map (\<lambda>d. (d, g d)) REPLAY_BUDGET_DIMENSIONS)"
      by (intro traverse_total) simp
    then show "mapDimensions f = Inr g"
      by (simp add: mapDimensions_def map_of_map_restrict)
  next
    assume "mapDimensions f = Inr g"
    then obtain es where t: "traverse ?pair REPLAY_BUDGET_DIMENSIONS = Inr es"
      and g: "g = (\<lambda>d. the (map_of es d))"
      by (auto simp: mapDimensions_def result_simps)
    have ok: "\<exists>v. f d = Inr v" for d
      using traverse_Inr_each [OF t, of d] by (auto simp: result_simps)
    then obtain h where h: "\<And>d. f d = Inr (h d)" by metis
    then have "traverse ?pair REPLAY_BUDGET_DIMENSIONS =
        Inr (map (\<lambda>d. (d, h d)) REPLAY_BUDGET_DIMENSIONS)"
      by (intro traverse_total) simp
    with t g h show "\<forall>d. f d = Inr (g d)"
      by (simp add: map_of_map_restrict)
  qed
qed

lemma keysAreDimensions_object [simp]:
  "keysAreDimensions (map (\<lambda>d. (dimensionName d, f d)) REPLAY_BUDGET_DIMENSIONS)"
  by (auto simp: keysAreDimensions_def list_ex_iff)

lemma map_of_dimension_object [simp]:
  "map_of (map (\<lambda>d. (dimensionName d, f d)) REPLAY_BUDGET_DIMENSIONS) (dimensionName d) = Some (f d)"
  by (cases d) (simp_all add: REPLAY_BUDGET_DIMENSIONS_def)

lemma safe_amount_iff:
  "(if \<not> isSafeInteger (JsInt v) \<or> v < 0 then accountingError c else Inr v) = Inr w \<longleftrightarrow>
     w = v \<and> SafeNonnegativeInteger v"
  by (auto simp: SafeNonnegativeInteger_def MAX_SAFE_INTEGER_def)

lemma parseAmounts_object [result_simps]:
  "parseAmounts (dimensionObject (JsInt \<circ> a)) = Inr b \<longleftrightarrow>
     b = a \<and> (\<forall>d. SafeNonnegativeInteger (a d))"
  by (simp only: dimensionObject_def parseAmounts.simps keysAreDimensions_object not_True_eq_False
      if_False mapDimensions_Inr_iff map_of_dimension_object option.case comp_apply js_number.case
      safe_amount_iff) (auto simp: fun_eq_iff)

lemma parseAmounts_InrD:
  assumes "parseAmounts v = Inr a"
  shows "SafeNonnegativeInteger (a d)"
proof (cases v)
  case (JsObject properties)
  then show ?thesis
    using assms
    by (auto simp: result_simps SafeNonnegativeInteger_def split: option.split_asm js_number.split_asm if_split_asm
        dest!: spec [of _ d])
qed (use assms in simp)

lemma case_raw_usage_Inr_iff [result_simps]:
  "(case x of RawUsage m \<Rightarrow> k m | MalformedUsage \<Rightarrow> Inl e) = Inr y \<longleftrightarrow>
     (\<exists>m. x = RawUsage m \<and> k m = Inr y)"
  by (cases x) auto

lemma parseUsage_InrD:
  assumes "parseUsage v = Inr u"
  shows "ReplayUsageMeasurementSchema (u d)"
proof (cases v)
  case (JsObject properties)
  then show ?thesis
    using assms
    by (auto simp: result_simps dest!: spec [of _ d])
qed (use assms in simp)

lemma parseUsage_object [result_simps]:
  "parseUsage (dimensionObject (RawUsage \<circ> u)) = Inr w \<longleftrightarrow>
     w = u \<and> (\<forall>d. ReplayUsageMeasurementSchema (u d))"
  by (auto simp: dimensionObject_def result_simps split: if_splits)

lemma checkedAdd_Inr_iff [result_simps]:
  "checkedAdd l r = Inr s \<longleftrightarrow> s = l + r \<and> l + r \<le> MAX_SAFE_INTEGER"
  by (auto simp: checkedAdd_def MAX_REPLAY_ACCOUNTING_VALUE_def)

declare parseAmounts.simps [simp del] parseUsage.simps [simp del]

section \<open>Reserve, apply, reconcile\<close>

lemma reservation_dimension_bounds:
  assumes "ReplayBudgetReservationSchema r"
  shows "SafeNonnegativeInteger (rsv_committedBefore (res_dimensions r d))"
    "SafeNonnegativeInteger (rsv_reservedAmount (res_dimensions r d))"
    "rsv_committedBefore (res_dimensions r d) + rsv_reservedAmount (res_dimensions r d)
       \<le> rsv_limit (res_dimensions r d)"
    "rsv_limit (res_dimensions r d) \<le> MAX_SAFE_INTEGER"
  using assms
  by (auto simp: ReplayBudgetReservationSchema_def ReplayBudgetReservationVectorSchema_def
      ReplayBudgetReservationDimensionSchema_def SafePositiveInteger_def dest: spec [of _ d])

lemma applyReplayBudgetReservation_Inr_iff [result_simps]:
  "applyReplayBudgetReservation (dimensionObject (JsInt \<circ> c)) r = Inr c' \<longleftrightarrow>
     (\<forall>d. SafeNonnegativeInteger (c d)) \<and> ReplayBudgetReservationSchema r \<and>
     (\<forall>d. rsv_committedBefore (res_dimensions r d) = c d \<and>
          c' d = c d + rsv_reservedAmount (res_dimensions r d))"
  using reservation_dimension_bounds(3,4) [of r]
  by (auto simp: applyReplayBudgetReservation_def result_simps Let_def fun_eq_iff)
    (metis order_trans)

text \<open>What one dimension of a reconciled reservation finally costs.\<close>

definition chargedAmount :: "int \<Rightarrow> ReplayUsageMeasurement \<Rightarrow> int" where
  "chargedAmount reserved usage =
     (case usage of ObservedUsage amount _ \<Rightarrow> amount | UnavailableUsage _ \<Rightarrow> reserved)"

lemma reconcileDimension_schema:
  assumes "SafeNonnegativeInteger reserved" and "ReplayUsageMeasurementSchema usage"
  shows "ReplayBudgetReconciliationDimensionSchema (reconcileDimension reserved usage)"
  using assms
  by (cases usage)
    (auto simp: ReplayBudgetReconciliationDimensionSchema_def reconcileDimension_def
      SafeNonnegativeInteger_def)

lemma reconciliation_dimension_charge:
  assumes "ReplayBudgetReconciliationDimensionSchema v"
  shows "rcd_reservedAmount v - rcd_releasedAmount v + rcd_overrunAmount v =
      chargedAmount (rcd_reservedAmount v) (rcd_actualUsage v)"
    and "rcd_releasedAmount v \<le> rcd_reservedAmount v"
    and "0 \<le> chargedAmount (rcd_reservedAmount v) (rcd_actualUsage v)"
  using assms
  by (auto simp: ReplayBudgetReconciliationDimensionSchema_def chargedAmount_def
      SafeNonnegativeInteger_def split: ReplayUsageMeasurement.splits if_splits)

lemma reconciliation_dimension:
  "ReplayBudgetReconciliationSchema c \<Longrightarrow> ReplayBudgetReconciliationDimensionSchema (rec_dimensions c d)"
  by (simp add: ReplayBudgetReconciliationSchema_def ReplayBudgetReconciliationVectorSchema_def)

lemma applyReplayBudgetReconciliation_Inr_iff [result_simps]:
  "applyReplayBudgetReconciliation (dimensionObject (JsInt \<circ> c)) r k = Inr c' \<longleftrightarrow>
     (\<forall>d. SafeNonnegativeInteger (c d)) \<and> ReplayBudgetReservationSchema r \<and>
     ReplayBudgetReconciliationSchema k \<and>
     rec_reservationId k = res_reservationId r \<and> res_ledgerSequence r < rec_ledgerSequence k \<and>
     rec_scope k = res_scope r \<and> rec_mutationFence k = res_mutationFence r \<and>
     (\<forall>d. rcd_reservedAmount (rec_dimensions k d) = rsv_reservedAmount (res_dimensions r d) \<and>
          rcd_releasedAmount (rec_dimensions k d) \<le> c d \<and>
          c' d = c d - rsv_reservedAmount (res_dimensions r d) +
            chargedAmount (rsv_reservedAmount (res_dimensions r d)) (rcd_actualUsage (rec_dimensions k d)) \<and>
          c' d \<le> MAX_SAFE_INTEGER)"
proof -
  have dim: "settleDimension (c d) (rsv_reservedAmount (res_dimensions r d)) (rec_dimensions k d) = Inr w \<longleftrightarrow>
      rcd_reservedAmount (rec_dimensions k d) = rsv_reservedAmount (res_dimensions r d) \<and>
      rcd_releasedAmount (rec_dimensions k d) \<le> c d \<and>
      w = c d - rsv_reservedAmount (res_dimensions r d) +
        chargedAmount (rsv_reservedAmount (res_dimensions r d)) (rcd_actualUsage (rec_dimensions k d)) \<and>
      w \<le> MAX_SAFE_INTEGER"
    if "ReplayBudgetReconciliationSchema k" for d w
    using reconciliation_dimension_charge(1) [OF reconciliation_dimension [OF that], of d]
    by (auto simp: result_simps settleDimension_def)
  show ?thesis
    by (auto simp: applyReplayBudgetReconciliation_def case_result_Inr_iff parseAmounts_object
        mapDimensions_Inr_iff dim not_le split: if_splits)
qed

section \<open>The ledger\<close>

text \<open>
  The meaning of a ledger, independent of the running total: each reservation costs what was
  reserved until it is reconciled with an observed usage, from then on exactly that usage.
\<close>

fun reservationsOf :: "ReplayBudgetLedgerEntry list \<Rightarrow> ReplayBudgetReservation list" where
  "reservationsOf [] = []"
| "reservationsOf (ReservationEntry r # es) = r # reservationsOf es"
| "reservationsOf (ReconciliationEntry c # es) = reservationsOf es"

fun reconciliationsOf :: "ReplayBudgetLedgerEntry list \<Rightarrow> ReplayBudgetReconciliation list" where
  "reconciliationsOf [] = []"
| "reconciliationsOf (ReservationEntry r # es) = reconciliationsOf es"
| "reconciliationsOf (ReconciliationEntry c # es) = c # reconciliationsOf es"

definition reservationCharge ::
    "ReplayBudgetReconciliation list \<Rightarrow> ReplayBudgetDimension \<Rightarrow> ReplayBudgetReservation \<Rightarrow> int" where
  "reservationCharge cs d r =
     (case find (\<lambda>c. rec_reservationId c = res_reservationId r) cs of
        None \<Rightarrow> rsv_reservedAmount (res_dimensions r d)
      | Some c \<Rightarrow>
          chargedAmount (rsv_reservedAmount (res_dimensions r d)) (rcd_actualUsage (rec_dimensions c d)))"

definition ledgerCharge :: "ReplayBudgetLedgerEntry list \<Rightarrow> ReplayBudgetDimension \<Rightarrow> int" where
  "ledgerCharge es d = sum_list (map (reservationCharge (reconciliationsOf es) d) (reservationsOf es))"

lemma reservationsOf_append [simp]: "reservationsOf (xs @ ys) = reservationsOf xs @ reservationsOf ys"
  by (induction xs rule: reservationsOf.induct) auto

lemma reconciliationsOf_append [simp]:
  "reconciliationsOf (xs @ ys) = reconciliationsOf xs @ reconciliationsOf ys"
  by (induction xs rule: reconciliationsOf.induct) auto

definition ledgerInv :: "ReplayBudgetLedgerEntry list \<Rightarrow> ledger_state \<Rightarrow> bool" where
  "ledgerInv es st \<longleftrightarrow>
     ls_reservations st = map (\<lambda>r. (res_reservationId r, r)) (reservationsOf es) \<and>
     distinct (map res_reservationId (reservationsOf es)) \<and>
     ls_reconciled st = map rec_reservationId (reconciliationsOf es) \<and>
     distinct (map rec_reservationId (reconciliationsOf es)) \<and>
     set (map rec_reservationId (reconciliationsOf es)) \<subseteq> set (map res_reservationId (reservationsOf es)) \<and>
     ls_reconciliationCount st = length (reconciliationsOf es) \<and>
     (\<forall>d. ls_committed st d = ledgerCharge es d)"

lemma ledgerInv_initial: "ledgerInv [] initialLedgerState"
  by (simp add: ledgerInv_def initialLedgerState_def ledgerCharge_def emptyReplayBudgetAmounts_def)

lemma find_append: "find P (xs @ ys) = (case find P xs of None \<Rightarrow> find P ys | Some x \<Rightarrow> Some x)"
  by (induction xs) auto

lemma charge_other:
  "rec_reservationId c \<noteq> res_reservationId r \<Longrightarrow>
   reservationCharge (cs @ [c]) d r = reservationCharge cs d r"
  by (auto simp: reservationCharge_def find_append split: option.splits)

lemma find_unreconciled:
  "i \<notin> rec_reservationId ` set cs \<Longrightarrow> find (\<lambda>c. rec_reservationId c = i) cs = None"
  unfolding find_None_iff by (metis imageI)

lemma charge_open:
  "res_reservationId r \<notin> rec_reservationId ` set cs \<Longrightarrow>
   reservationCharge cs d r = rsv_reservedAmount (res_dimensions r d)"
  by (simp add: reservationCharge_def find_unreconciled)

lemma charge_settled:
  "res_reservationId r \<notin> rec_reservationId ` set cs \<Longrightarrow> rec_reservationId c = res_reservationId r \<Longrightarrow>
   reservationCharge (cs @ [c]) d r =
     chargedAmount (rsv_reservedAmount (res_dimensions r d)) (rcd_actualUsage (rec_dimensions c d))"
  by (simp add: reservationCharge_def find_append find_unreconciled)

lemma sum_list_update_one:
  fixes f g :: "'a \<Rightarrow> int"
  assumes "distinct (map key xs)" and "r \<in> set xs"
    and "\<And>x. x \<in> set xs \<Longrightarrow> key x \<noteq> key r \<Longrightarrow> g x = f x"
  shows "sum_list (map g xs) = sum_list (map f xs) - f r + g r"
  using assms
proof (induction xs)
  case (Cons x xs)
  show ?case
  proof (cases "key x = key r")
    case True
    with Cons.prems have "x = r" by (auto intro: imageI)
    moreover have "map g xs = map f xs"
      using Cons.prems \<open>x = r\<close> by (auto intro!: map_cong)
        (metis image_eqI list.set_intros(2))
    ultimately show ?thesis by (simp only: list.map sum_list.Cons)
  next
    case False
    with Cons show ?thesis by auto
  qed
qed simp

lemma ledgerCharge_reconcile:
  assumes "distinct (map res_reservationId (reservationsOf es))" and "r \<in> set (reservationsOf es)"
    and "rec_reservationId c = res_reservationId r"
    and "rec_reservationId c \<notin> rec_reservationId ` set (reconciliationsOf es)"
  shows "ledgerCharge (es @ [ReconciliationEntry c]) d =
    ledgerCharge es d - rsv_reservedAmount (res_dimensions r d) +
    chargedAmount (rsv_reservedAmount (res_dimensions r d)) (rcd_actualUsage (rec_dimensions c d))"
  unfolding ledgerCharge_def
  using sum_list_update_one [OF assms(1,2), of "reservationCharge (reconciliationsOf es @ [c]) d"
      "reservationCharge (reconciliationsOf es) d"] assms(3,4)
  by (simp add: charge_other charge_open charge_settled)

lemma ledgerCharge_reserve:
  assumes "res_reservationId r \<notin> rec_reservationId ` set (reconciliationsOf es)"
  shows "ledgerCharge (es @ [ReservationEntry r]) d =
    ledgerCharge es d + rsv_reservedAmount (res_dimensions r d)"
  using assms by (simp add: ledgerCharge_def charge_open)

lemma map_of_keyed: "map_of (map (\<lambda>x. (key x, x)) xs) k = Some x \<Longrightarrow> x \<in> set xs \<and> key x = k"
  by (induction xs) (auto split: if_splits)

lemma map_of_keyed_None: "map_of (map (\<lambda>x. (key x, x)) xs) k = None \<longleftrightarrow> k \<notin> key ` set xs"
  by (induction xs) auto

lemma summarizeStep_inv:
  assumes inv: "ledgerInv es st" and step: "summarizeStep i st e = Inr st'"
  shows "ledgerInv (es @ [e]) st'"
proof (cases e)
  case (ReservationEntry r)
  with step inv have "res_reservationId r \<notin> res_reservationId ` set (reservationsOf es)"
    and st': "ls_reservations st' = ls_reservations st @ [(res_reservationId r, r)]"
      "ls_reconciled st' = ls_reconciled st"
      "ls_reconciliationCount st' = ls_reconciliationCount st"
      "\<And>d. ls_committed st' d = ls_committed st d + rsv_reservedAmount (res_dimensions r d)"
    by (auto simp: summarizeStep_def result_simps ledgerInv_def map_of_keyed_None split: if_splits)
  moreover from this inv have "res_reservationId r \<notin> rec_reservationId ` set (reconciliationsOf es)"
    by (auto simp: ledgerInv_def)
  ultimately show ?thesis
    using inv ReservationEntry by (auto simp: ledgerInv_def ledgerCharge_reserve)
next
  case (ReconciliationEntry c)
  with step obtain r where r: "map_of (ls_reservations st) (rec_reservationId c) = Some r"
    and fresh: "rec_reservationId c \<notin> set (ls_reconciled st)"
    and st': "ls_reservations st' = ls_reservations st"
      "ls_reconciled st' = ls_reconciled st @ [rec_reservationId c]"
      "ls_reconciliationCount st' = Suc (ls_reconciliationCount st)"
      "\<And>d. ls_committed st' d = ls_committed st d - rsv_reservedAmount (res_dimensions r d) +
         chargedAmount (rsv_reservedAmount (res_dimensions r d)) (rcd_actualUsage (rec_dimensions c d))"
    by (auto simp: summarizeStep_def result_simps split: if_splits)
  from r inv have "r \<in> set (reservationsOf es)" "rec_reservationId c = res_reservationId r"
    by (auto simp: ledgerInv_def dest: map_of_keyed)
  then show ?thesis
    using inv ReconciliationEntry st' fresh
    by (auto simp: ledgerInv_def ledgerCharge_reconcile)
qed

lemma summarizeLoop_inv:
  "ledgerInv es st \<Longrightarrow> summarizeLoop i st rest = Inr st' \<Longrightarrow> ledgerInv (es @ rest) st'"
proof (induction rest arbitrary: es st i)
  case (Cons e rest)
  then obtain st1 where "summarizeStep i st e = Inr st1" "summarizeLoop (Suc i) st1 rest = Inr st'"
    by (auto split: sum.splits)
  with Cons.IH [of "es @ [e]" st1] Cons.prems(1) show ?case
    by (auto dest: summarizeStep_inv)
qed simp

lemma upt_length_Cons: "[i..<i + length (x # xs)] = i # [Suc i..<Suc i + length xs]"
  by (simp add: upt_conv_Cons del: upt_Suc)

lemma summarizeLoop_sequences:
  "summarizeLoop i st es = Inr st' \<Longrightarrow>
   map entryLedgerSequence es = map int [i..<i + length es] \<and> list_all ReplayBudgetLedgerEntrySchema es"
proof (induction es arbitrary: i st)
  case (Cons e es)
  then obtain st1 where "summarizeStep i st e = Inr st1" "summarizeLoop (Suc i) st1 es = Inr st'"
    by (auto split: sum.splits)
  with Cons.IH [of "Suc i" st1] show ?case
    unfolding upt_length_Cons by (auto simp: summarizeStep_def simp del: upt_Suc split: if_splits)
qed simp

lemma summarizeLoop_append:
  "summarizeLoop i st (xs @ ys) =
     (case summarizeLoop i st xs of Inl e \<Rightarrow> Inl e | Inr st' \<Rightarrow> summarizeLoop (i + length xs) st' ys)"
  by (induction xs arbitrary: i st) (auto split: sum.splits)

lemma length_filter_subset:
  assumes "distinct xs" and "distinct ys" and "set ys \<subseteq> set xs"
  shows "length xs = length ys + length (filter (\<lambda>x. x \<notin> set ys) xs)"
proof -
  have "card (set xs) = card (set ys) + card (set xs - set ys)"
    using assms(3) by (metis List.finite_set add_diff_inverse_nat card_Diff_subset card_mono not_less)
  moreover have "set xs - set ys = set (filter (\<lambda>x. x \<notin> set ys) xs)" by auto
  ultimately show ?thesis
    using assms(1,2) by (simp add: distinct_card [symmetric])
qed

section \<open>Properties\<close>

text \<open>
  C5. The budget ledger is conserved. Whenever a ledger is accepted, the committed amount of every
  dimension equals what the ledger means: the sum, over its reservations, of the reserved amount
  while a reservation is open or its usage is disputed, and of the observed usage once it is
  reconciled. The entries carry the sequence numbers 0, 1, 2, ...; reservation identifiers are
  unique; every reconciliation belongs to one reservation and none is reconciled twice; and the
  reservations are exactly the reconciled ones plus the open ones.
\<close>

theorem ledger_summary_conserves_budget:
  assumes "summarizeReplayBudgetLedger es = Inr s"
  shows "(\<forall>d. sum_committed s d = ledgerCharge es d) \<and>
    map entryLedgerSequence es = map int [0..<length es] \<and>
    distinct (map res_reservationId (reservationsOf es)) \<and>
    distinct (map rec_reservationId (reconciliationsOf es)) \<and>
    set (map rec_reservationId (reconciliationsOf es)) \<subseteq> set (map res_reservationId (reservationsOf es)) \<and>
    sum_openReservationIds s =
      filter (\<lambda>i. i \<notin> set (map rec_reservationId (reconciliationsOf es)))
        (map res_reservationId (reservationsOf es)) \<and>
    sum_reservationCount s = sum_reconciliationCount s + length (sum_openReservationIds s)"
proof -
  from assms obtain st where st: "summarizeLoop 0 initialLedgerState es = Inr st"
    and s: "sum_committed s = ls_committed st" "sum_reservationCount s = length (ls_reservations st)"
      "sum_reconciliationCount s = ls_reconciliationCount st"
      "sum_openReservationIds s =
        filter (\<lambda>i. i \<notin> set (ls_reconciled st)) (map fst (ls_reservations st))"
    by (auto simp: summarizeReplayBudgetLedger_def result_simps)
  have inv: "ledgerInv es st"
    using summarizeLoop_inv [OF ledgerInv_initial st] by simp
  have ids: "map fst (ls_reservations st) = map res_reservationId (reservationsOf es)"
    using inv by (simp add: ledgerInv_def comp_def)
  have "length (map res_reservationId (reservationsOf es)) =
      length (map rec_reservationId (reconciliationsOf es)) + length (sum_openReservationIds s)"
    unfolding s(4) ids using inv
    using length_filter_subset [of "map res_reservationId (reservationsOf es)"
        "map rec_reservationId (reconciliationsOf es)"] by (auto simp: ledgerInv_def)
  then show ?thesis
    using inv s summarizeLoop_sequences [OF st] ids by (simp add: ledgerInv_def comp_def)
qed

text \<open>
  C6. A reservation is granted exactly when it fits. For a valid budget and well-formed metadata,
  reserving succeeds if and only if every dimension's committed plus requested amount stays within
  its plan limit and at least one dimension is requested; the granted reservation then applies to
  the committed amounts without overflow or conflict and yields their sum.
\<close>

theorem reservation_granted_iff_within_limits:
  fixes committed requested :: ReplayBudgetAmounts
  assumes "rbo_committed options = dimensionObject (JsInt \<circ> committed)"
    and "rbo_requested options = dimensionObject (JsInt \<circ> requested)"
    and "\<forall>d. SafeNonnegativeInteger (committed d) \<and> SafeNonnegativeInteger (requested d)"
    and "ReplayBudgetSchema (rbo_budget options)"
    and "SafeNonnegativeInteger (rbo_ledgerSequence options)"
    and "ReplayWorkerMutationFenceSchema (rbo_mutationFence options)"
    and "OpaqueIdSchema (rbo_reservationId options)"
    and "UtcMillisecondTimestampSchema (rbo_reservedAt options)"
    and "EvidenceScopeSchema (rbo_scope options)"
    and "ReplayBudgetWorkReferenceSchema (rbo_work options)"
  shows "((\<exists>r. reserveReplayBudget options = Inr r) \<longleftrightarrow>
      (\<forall>d. committed d + requested d \<le> bl_limit (rbo_budget options d)) \<and> (\<exists>d. requested d \<noteq> 0)) \<and>
    (\<forall>r. reserveReplayBudget options = Inr r \<longrightarrow>
      applyReplayBudgetReservation (dimensionObject (JsInt \<circ> committed)) r =
        Inr (\<lambda>d. committed d + requested d))"
proof -
  have parse: "parseAmounts (rbo_committed options) = Inr committed"
    "parseAmounts (rbo_requested options) = Inr requested"
    using assms(1-3) by (auto simp: result_simps)
  have limit: "SafePositiveInteger (bl_limit (rbo_budget options d))" for d
    using assms(4) by (simp add: ReplayBudgetSchema_def BudgetLimitSchema_def)
  show ?thesis
    using assms(3-) limit
    by (auto simp: reserveReplayBudget_def parse Let_def ReplayBudgetReservationSchema_def
        ReplayBudgetReservationVectorSchema_def ReplayBudgetReservationDimensionSchema_def
        applyReplayBudgetReservation_Inr_iff not_less algebra_simps)
qed

text \<open>
  C7. Reconciling always yields a contract-conforming record and applying it settles the account:
  the reserved amount of every dimension is replaced by the observed usage, or kept in full when the
  usage is unavailable (a disputed dimension never frees budget).
\<close>

theorem reconciliation_settles_exact_usage:
  fixes committed :: ReplayBudgetAmounts and usage :: ReplayUsageMeasurements
  assumes "ReplayBudgetReservationSchema r"
    and "rqo_usage options = dimensionObject (RawUsage \<circ> usage)"
    and "\<forall>d. ReplayUsageMeasurementSchema (usage d)"
    and "SafeNonnegativeInteger (rqo_ledgerSequence options)"
    and "res_ledgerSequence r < rqo_ledgerSequence options"
    and "UtcMillisecondTimestampSchema (rqo_reconciledAt options)"
    and "OpaqueIdSchema (rqo_reconciliationId options)"
    and "\<forall>d. SafeNonnegativeInteger (committed d) \<and>
      rsv_reservedAmount (res_dimensions r d) \<le> committed d"
    and "\<forall>d. committed d - rsv_reservedAmount (res_dimensions r d) +
      chargedAmount (rsv_reservedAmount (res_dimensions r d)) (usage d) \<le> MAX_SAFE_INTEGER"
  shows "\<exists>c. reconcileReplayBudget r options = Inr c \<and>
    applyReplayBudgetReconciliation (dimensionObject (JsInt \<circ> committed)) r c =
      Inr (\<lambda>d. committed d - rsv_reservedAmount (res_dimensions r d) +
        chargedAmount (rsv_reservedAmount (res_dimensions r d)) (usage d)) \<and>
    (\<forall>d. rcd_disposition (rec_dimensions c d) = Disputed \<longleftrightarrow> (\<exists>why. usage d = UnavailableUsage why))"
proof -
  define c where "c =
    \<lparr>rec_dimensions = (\<lambda>d. reconcileDimension (rsv_reservedAmount (res_dimensions r d)) (usage d)),
     rec_ledgerSequence = rqo_ledgerSequence options, rec_mutationFence = res_mutationFence r,
     rec_reconciledAt = rqo_reconciledAt options,
     rec_reconciliationId = rqo_reconciliationId options,
     rec_reservationId = res_reservationId r, rec_scope = res_scope r\<rparr>"
  have parse: "parseUsage (rqo_usage options) = Inr usage"
    using assms(2,3) by (auto simp: result_simps)
  have schema: "ReplayBudgetReconciliationSchema c"
    using assms reservation_dimension_bounds(2) [OF assms(1)]
    by (auto simp: c_def ReplayBudgetReconciliationSchema_def ReplayBudgetReservationSchema_def
        ReplayBudgetReconciliationVectorSchema_def intro: reconcileDimension_schema)
  have made: "reconcileReplayBudget r options = Inr c"
    using assms(1) schema by (simp add: reconcileReplayBudget_def parse c_def Let_def)
  have fields: "rcd_reservedAmount (rec_dimensions c d) = rsv_reservedAmount (res_dimensions r d)"
    "rcd_actualUsage (rec_dimensions c d) = usage d"
    "rcd_disposition (rec_dimensions c d) = Disputed \<longleftrightarrow> (\<exists>why. usage d = UnavailableUsage why)" for d
    by (auto simp: c_def reconcileDimension_def split: ReplayUsageMeasurement.splits)
  have "rcd_releasedAmount (rec_dimensions c d) \<le> committed d" for d
    using reconciliation_dimension_charge(2) [OF reconciliation_dimension [OF schema], of d]
      assms(8) fields(1) [of d] by (auto intro: order_trans)
  then have "applyReplayBudgetReconciliation (dimensionObject (JsInt \<circ> committed)) r c =
      Inr (\<lambda>d. committed d - rsv_reservedAmount (res_dimensions r d) +
        chargedAmount (rsv_reservedAmount (res_dimensions r d)) (usage d))"
    using assms(1,5,8,9) schema fields
    by (auto simp: applyReplayBudgetReconciliation_Inr_iff) (auto simp: c_def)
  then show ?thesis using made fields(3) by blast
qed

text \<open>
  C8. No overdraft at grant time: when the last entry of an accepted ledger is a reservation, the
  committed amounts, that reservation included, are within the limits it was granted under.
\<close>

theorem ledger_never_grants_beyond_limit:
  assumes "summarizeReplayBudgetLedger (es @ [ReservationEntry r]) = Inr s"
  shows "sum_committed s d \<le> rsv_limit (res_dimensions r d)"
proof -
  from assms obtain st0 st where
    step: "summarizeStep (length es) st0 (ReservationEntry r) = Inr st"
    and s: "sum_committed s = ls_committed st"
    by (auto simp: summarizeReplayBudgetLedger_def summarizeLoop_append result_simps)
  then have "ReplayBudgetReservationSchema r"
    and "ls_committed st d = rsv_committedBefore (res_dimensions r d) + rsv_reservedAmount (res_dimensions r d)"
    by (auto simp: summarizeStep_def result_simps split: if_splits)
  then show ?thesis using reservation_dimension_bounds(3) [of r d] s by simp
qed

section \<open>Witnesses\<close>

text \<open>
  One reservation of 10 tokens per dimension within limits of 100, and its reconciliation: 7 units
  observed, except the provider cost, which stays unknown.
\<close>

definition exFence :: ReplayWorkerMutationFence where
  "exFence = \<lparr>fence_attemptId = ''att_one'', fence_fencingToken = 1, fence_jobId = ''job_main'',
     fence_leaseId = ''lea_one'', fence_recoveryEpoch = 0, fence_workerId = ''wrk_one''\<rparr>"

definition exReserve :: ReserveReplayBudgetOptions where
  "exReserve = \<lparr>rbo_budget = (\<lambda>_. \<lparr>bl_limit = 100, bl_measurement = MeasuredMeasure\<rparr>),
     rbo_committed = dimensionObject (JsInt \<circ> (\<lambda>_. 0)), rbo_ledgerSequence = 0,
     rbo_mutationFence = exFence, rbo_requested = dimensionObject (JsInt \<circ> (\<lambda>_. 10)),
     rbo_reservationId = ''rsv_main'', rbo_reservedAt = 1000, rbo_scope = exScope,
     rbo_work = AttemptStart\<rparr>"

definition exReservation :: ReplayBudgetReservation where
  "exReservation = \<lparr>res_dimensions = (\<lambda>_. \<lparr>rsv_committedBefore = 0, rsv_limit = 100,
       rsv_measurement = MeasuredMeasure, rsv_reservedAmount = 10\<rparr>),
     res_ledgerSequence = 0, res_mutationFence = exFence, res_reservationId = ''rsv_main'',
     res_reservedAt = 1000, res_scope = exScope, res_work = AttemptStart\<rparr>"

definition exUsage :: ReplayUsageMeasurements where
  "exUsage d = (if d = ProviderCostMicrounits then UnavailableUsage ProviderDidNotReport
     else ObservedUsage 7 Measured)"

definition exReconcile :: ReconcileReplayBudgetOptions where
  "exReconcile = \<lparr>rqo_ledgerSequence = 1, rqo_reconciledAt = 1500,
     rqo_reconciliationId = ''rcn_main'', rqo_usage = dimensionObject (RawUsage \<circ> exUsage)\<rparr>"

lemma ex_budget_atoms [simp]: "OpaqueIdSchema ''rsv_main''" "OpaqueIdSchema ''rcn_main''"
  by code_simp+

lemma exFence_schema [simp]: "ReplayWorkerMutationFenceSchema exFence"
  by (simp add: ReplayWorkerMutationFenceSchema_def exFence_def SafePositiveInteger_def
      SafeNonnegativeInteger_def MAX_SAFE_INTEGER_def)

lemma exReservation_schema: "ReplayBudgetReservationSchema exReservation"
  by (simp add: ReplayBudgetReservationSchema_def exReservation_def
      ReplayBudgetReservationVectorSchema_def ReplayBudgetReservationDimensionSchema_def
      SafePositiveInteger_def SafeNonnegativeInteger_def ex_time)

lemma exLedger: "\<exists>s. summarizeReplayBudgetLedger [ReservationEntry exReservation] = Inr s"
proof -
  have "applyReplayBudgetReservation (dimensionObject (JsInt \<circ> emptyReplayBudgetAmounts))
      exReservation = Inr (\<lambda>d. 10)"
    using exReservation_schema
    by (auto simp: applyReplayBudgetReservation_Inr_iff emptyReplayBudgetAmounts_def
        SafeNonnegativeInteger_def exReservation_def)
  then show ?thesis
    using exReservation_schema
    by (simp add: summarizeReplayBudgetLedger_def summarizeStep_def initialLedgerState_def)
      (simp add: exReservation_def)
qed

theorem ledger_summary_conserves_budget_witness:
  "\<exists>s. summarizeReplayBudgetLedger [ReservationEntry exReservation] = Inr s \<and>
     sum_committed s ToolCalls = 10 \<and> sum_openReservationIds s = [''rsv_main'']"
proof -
  obtain s where s: "summarizeReplayBudgetLedger [ReservationEntry exReservation] = Inr s"
    using exLedger by blast
  then show ?thesis
    using ledger_summary_conserves_budget [OF s]
    by (simp add: ledgerCharge_def reservationCharge_def exReservation_def)
qed

theorem reservation_granted_iff_within_limits_witness:
  "\<exists>r. reserveReplayBudget exReserve = Inr r \<and>
     applyReplayBudgetReservation (dimensionObject (JsInt \<circ> (\<lambda>_. 0))) r = Inr (\<lambda>_. 10)"
  using reservation_granted_iff_within_limits [of exReserve "\<lambda>_. 0" "\<lambda>_. 10"]
  by (auto simp: exReserve_def SafeNonnegativeInteger_def ReplayBudgetSchema_def
      BudgetLimitSchema_def SafePositiveInteger_def ex_time)

theorem reconciliation_settles_exact_usage_witness:
  "\<exists>c. reconcileReplayBudget exReservation exReconcile = Inr c \<and>
     applyReplayBudgetReconciliation (dimensionObject (JsInt \<circ> (\<lambda>_. 10))) exReservation c =
       Inr (\<lambda>d. if d = ProviderCostMicrounits then 10 else 7)"
proof -
  have charge: "10 - rsv_reservedAmount (res_dimensions exReservation d) +
      chargedAmount (rsv_reservedAmount (res_dimensions exReservation d)) (exUsage d) =
      (if d = ProviderCostMicrounits then 10 else 7)" for d
    by (simp add: exReservation_def exUsage_def chargedAmount_def)
  have "ReplayUsageMeasurementSchema (exUsage d)" for d
    by (simp add: exUsage_def SafeNonnegativeInteger_def MAX_SAFE_INTEGER_def)
  then have "\<exists>c. reconcileReplayBudget exReservation exReconcile = Inr c \<and>
    applyReplayBudgetReconciliation (dimensionObject (JsInt \<circ> (\<lambda>_. 10))) exReservation c =
      Inr (\<lambda>d. 10 - rsv_reservedAmount (res_dimensions exReservation d) +
        chargedAmount (rsv_reservedAmount (res_dimensions exReservation d)) (exUsage d)) \<and>
    (\<forall>d. rcd_disposition (rec_dimensions c d) = Disputed \<longleftrightarrow> (\<exists>why. exUsage d = UnavailableUsage why))"
    by (intro reconciliation_settles_exact_usage [OF exReservation_schema] allI)
      (simp_all only: charge, simp_all add: exReconcile_def exReservation_def SafeNonnegativeInteger_def ex_time)
  then show ?thesis unfolding charge by blast
qed

theorem ledger_never_grants_beyond_limit_witness:
  "\<exists>s. summarizeReplayBudgetLedger ([] @ [ReservationEntry exReservation]) = Inr s \<and>
     sum_committed s ToolCalls \<le> 100"
proof -
  obtain s where s: "summarizeReplayBudgetLedger ([] @ [ReservationEntry exReservation]) = Inr s"
    using exLedger by auto
  then show ?thesis
    using ledger_never_grants_beyond_limit [OF s, of ToolCalls] by (simp add: exReservation_def)
qed

end
