(* ===== verification/Replay_Retry.thy ===== *)
theory Replay_Retry
  imports Replay_Accounting Replay_Job_Safety
begin

text \<open>
  Automatic retry of a failed replay attempt, \<open>packages/replay/src/replay-retry.ts\<close>, with the retry
  policy of \<open>replay-plan.ts\<close>: the backoff schedule and the decision. The sums of milliseconds stay
  exact: two safe integers whose sum is not safe have a floating-point sum that is not safe either,
  so the code's \<open>Number.isSafeInteger\<close> tests and those of the model agree.
\<close>

section \<open>Policies\<close>

datatype ReplayRetryableError =
  RetryBoundaryRateLimited | RetryBoundaryTemporarilyUnavailable | RetryTargetProcessInterrupted |
  RetryTargetTemporaryFailure

fun retryableErrorName :: "ReplayRetryableError \<Rightarrow> string" where
  "retryableErrorName RetryBoundaryRateLimited = ''boundary_rate_limited''"
| "retryableErrorName RetryBoundaryTemporarilyUnavailable = ''boundary_temporarily_unavailable''"
| "retryableErrorName RetryTargetProcessInterrupted = ''target_process_interrupted''"
| "retryableErrorName RetryTargetTemporaryFailure = ''target_temporary_failure''"

text \<open>The attempt error code with the same text.\<close>

fun retryableCode :: "ReplayRetryableError \<Rightarrow> ReplayAttemptErrorCode" where
  "retryableCode RetryBoundaryRateLimited = BoundaryRateLimited"
| "retryableCode RetryBoundaryTemporarilyUnavailable = BoundaryTemporarilyUnavailable"
| "retryableCode RetryTargetProcessInterrupted = TargetProcessInterrupted"
| "retryableCode RetryTargetTemporaryFailure = TargetTemporaryFailure"

datatype ReplayBackoff =
    BackoffNone
  | BackoffFixed int
  | BackoffExponential int int int

definition BackoffDelay :: "int \<Rightarrow> bool" where
  "BackoffDelay n \<longleftrightarrow> 0 < n \<and> n \<le> 3600000"

fun ReplayBackoffSchema :: "ReplayBackoff \<Rightarrow> bool" where
  "ReplayBackoffSchema BackoffNone = True"
| "ReplayBackoffSchema (BackoffFixed delayMilliseconds) = BackoffDelay delayMilliseconds"
| "ReplayBackoffSchema (BackoffExponential initial maximum mult) =
     (BackoffDelay initial \<and> BackoffDelay maximum \<and> 2 \<le> mult \<and> mult \<le> 16 \<and> \<not> maximum < initial)"

datatype IdempotencyRequirement = DestinationSupported | NoExternalEffect | ReadOnlyRequirement

definition MAX_REPLAY_ATTEMPTS :: int where
  "MAX_REPLAY_ATTEMPTS = 32"

record ReplayRetryPolicy =
  pol_automatic :: bool
  pol_backoff :: ReplayBackoff
  pol_idempotencyRequirement :: IdempotencyRequirement
  pol_maxAttempts :: int
  pol_perAttemptTimeoutMilliseconds :: int
  pol_retryableErrors :: "ReplayRetryableError list"
  pol_totalDeadlineMilliseconds :: int

definition ReplayRetryPolicySchema :: "ReplayRetryPolicy \<Rightarrow> bool" where
  "ReplayRetryPolicySchema p \<longleftrightarrow>
     ReplayBackoffSchema (pol_backoff p) \<and>
     0 < pol_maxAttempts p \<and> pol_maxAttempts p \<le> MAX_REPLAY_ATTEMPTS \<and>
     SafePositiveInteger (pol_perAttemptTimeoutMilliseconds p) \<and>
     length (pol_retryableErrors p) \<le> 4 \<and>
     strictly_sorted codeUnitLess (map retryableErrorName (pol_retryableErrors p)) \<and>
     SafePositiveInteger (pol_totalDeadlineMilliseconds p) \<and>
     \<not> pol_perAttemptTimeoutMilliseconds p > pol_totalDeadlineMilliseconds p \<and>
     \<not> (pol_maxAttempts p = 1 \<and> pol_automatic p) \<and>
     \<not> (\<not> pol_automatic p \<and> length (pol_retryableErrors p) > 0) \<and>
     \<not> (\<not> pol_automatic p \<and> pol_backoff p \<noteq> BackoffNone)"

section \<open>The decision\<close>

datatype ReplayRetryBlockedReason =
  AttemptLimitReachedReason | AutomaticRetryDisabled | DeadlineInsufficient | EffectNotRetrySafe |
  ErrorNotDeclared

datatype ReplayRetryDecision =
    RetryBlocked ReplayRetryBlockedReason
  | RetryPermitted int utc_ms

datatype retry_error = RetryZodError | RetryDateError iso_failure

record DecideReplayRetryOptions =
  dro_attemptSequence :: js_number
  dro_error :: ReplayAttemptError
  dro_evaluatedAt :: "utc_ms option"
  dro_failedAt :: utc_ms
  dro_jobStartedAt :: utc_ms
  dro_policy :: ReplayRetryPolicy

text \<open>The loop of lines 44-46, \<open>count\<close> rounds.\<close>

fun backoffLoop :: "nat \<Rightarrow> int \<Rightarrow> int \<Rightarrow> int \<Rightarrow> int" where
  "backoffLoop 0 delay mult maximum = delay"
| "backoffLoop (Suc count) delay mult maximum =
     backoffLoop count (min (delay * mult) maximum) mult maximum"

definition retryDelay :: "ReplayRetryPolicy \<Rightarrow> int \<Rightarrow> int" where
  "retryDelay policy attemptSequence =
     (case pol_backoff policy of
        BackoffNone \<Rightarrow> 0
      | BackoffFixed delay \<Rightarrow> delay
      | BackoffExponential initial maximum mult \<Rightarrow>
          backoffLoop (nat attemptSequence) initial mult maximum)"

definition errorDeclared :: "ReplayRetryPolicy \<Rightarrow> ReplayAttemptError \<Rightarrow> bool" where
  "errorDeclared policy error =
     (let declaredCode =
        (if err_code error = ErrLeaseExpired then TargetProcessInterrupted else err_code error)
      in list_ex (\<lambda>code. retryableCode code = declaredCode) (pol_retryableErrors policy))"

definition effectRetrySafe :: "ReplayAttemptError \<Rightarrow> bool" where
  "effectRetrySafe error =
     (err_effectCertainty error = EffectNone \<or>
      (case err_effectRetrySafety error of
         Some (ReadOnlyEffect _) \<Rightarrow> True
       | Some (DestinationIdempotencyVerified _ _) \<Rightarrow> True
       | _ \<Rightarrow> False))"

definition decideReplayRetry ::
    "DecideReplayRetryOptions \<Rightarrow> (retry_error, ReplayRetryDecision) result" where
  "decideReplayRetry options =
     (let policy = dro_policy options; error = dro_error options in
      if \<not> ReplayRetryPolicySchema policy then Inl RetryZodError
      else if \<not> ReplayAttemptErrorSchema error then Inl RetryZodError
      else case dro_attemptSequence options of
        JsOther \<Rightarrow> Inr (RetryBlocked AttemptLimitReachedReason)
      | JsInt attemptSequence \<Rightarrow>
      if \<not> isSafeInteger (JsInt attemptSequence) \<or> attemptSequence < 0
      then Inr (RetryBlocked AttemptLimitReachedReason)
      else if \<not> pol_automatic policy then Inr (RetryBlocked AutomaticRetryDisabled)
      else if attemptSequence + 1 \<ge> pol_maxAttempts policy
      then Inr (RetryBlocked AttemptLimitReachedReason)
      else if \<not> errorDeclared policy error then Inr (RetryBlocked ErrorNotDeclared)
      else if \<not> effectRetrySafe error then Inr (RetryBlocked EffectNotRetrySafe)
      else if \<not> UtcMillisecondTimestampSchema (dro_failedAt options) then Inl RetryZodError
      else if \<not> UtcMillisecondTimestampSchema (dro_jobStartedAt options) then Inl RetryZodError
      else if \<not> optional UtcMillisecondTimestampSchema (dro_evaluatedAt options) then Inl RetryZodError
      else
        let failedAt = dro_failedAt options; startedAt = dro_jobStartedAt options;
            evaluatedAt = (case dro_evaluatedAt options of None \<Rightarrow> failedAt | Some t \<Rightarrow> t);
            delay = retryDelay policy attemptSequence;
            notBeforeValue = failedAt + delay;
            deadlineValue = startedAt + pol_totalDeadlineMilliseconds policy;
            nextAttemptStartsAt = max notBeforeValue evaluatedAt;
            nextAttemptCompletesAt =
              nextAttemptStartsAt + pol_perAttemptTimeoutMilliseconds policy
        in if failedAt < startedAt \<or> evaluatedAt < failedAt \<or>
              \<not> isSafeInteger (JsInt notBeforeValue) \<or> \<not> isSafeInteger (JsInt deadlineValue) \<or>
              \<not> isSafeInteger (JsInt nextAttemptStartsAt) \<or>
              \<not> isSafeInteger (JsInt nextAttemptCompletesAt) \<or>
              nextAttemptCompletesAt > deadlineValue
           then Inr (RetryBlocked DeadlineInsufficient)
           else case isoTimestamp notBeforeValue of
             Inl e \<Rightarrow> Inl (RetryDateError e)
           | Inr notBefore \<Rightarrow> Inr (RetryPermitted delay notBefore))"

section \<open>The backoff schedule\<close>

text \<open>The loop computes the capped geometric sequence.\<close>

lemma backoffLoop_closed:
  assumes "0 < delay" and "delay \<le> maximum" and "1 \<le> mult"
  shows "backoffLoop n delay mult maximum = min (delay * mult ^ n) maximum"
  using assms
proof (induction n arbitrary: delay)
  case (Suc n)
  have grow: "x \<le> x * mult ^ n" if "0 < x" for x :: int
    using that Suc.prems(3) by (simp add: mult_le_cancel_left1)
  have pos: "0 < delay * mult" using Suc.prems by simp
  show ?case
  proof (cases "delay * mult \<le> maximum")
    case True
    then show ?thesis using Suc.IH [of "delay * mult"] Suc.prems pos by (simp add: ac_simps)
  next
    case False
    have "maximum \<le> delay * mult * mult ^ n" using False grow [OF pos] by linarith
    then show ?thesis
      using Suc.IH [of maximum] Suc.prems False grow [of maximum] by (simp add: ac_simps)
  qed
qed simp

definition backoffDelay :: "ReplayBackoff \<Rightarrow> nat \<Rightarrow> int" where
  "backoffDelay b n =
     (case b of BackoffNone \<Rightarrow> 0 | BackoffFixed d \<Rightarrow> d
      | BackoffExponential initial maximum mult \<Rightarrow> min (initial * mult ^ n) maximum)"

lemma retryDelay_eq:
  "ReplayBackoffSchema (pol_backoff p) \<Longrightarrow> retryDelay p n = backoffDelay (pol_backoff p) (nat n)"
  by (cases "pol_backoff p")
    (simp_all add: retryDelay_def backoffDelay_def backoffLoop_closed BackoffDelay_def)

lemma backoffDelay_bounds:
  assumes "ReplayBackoffSchema b"
  shows "0 \<le> backoffDelay b n" "backoffDelay b n \<le> 3600000" "backoffDelay b n \<le> backoffDelay b (Suc n)"
proof -
  have grow: "i * k ^ n \<le> i * k ^ Suc n" if "0 < i" "2 \<le> k" for i k :: int
    using that by (simp add: mult_le_cancel_left1 mult_le_cancel_right1)
  then show "0 \<le> backoffDelay b n" "backoffDelay b n \<le> 3600000"
      "backoffDelay b n \<le> backoffDelay b (Suc n)"
    using assms
    by (cases b; force simp: backoffDelay_def BackoffDelay_def min_le_iff_disj)+
qed

section \<open>Properties\<close>

text \<open>
  A retry is permitted only when nothing forbids it, and then at the right time. For a policy
  and an error that meet their contracts, \<open>decideReplayRetry\<close> permits a retry exactly when automatic
  retry is on, another attempt remains, the error is declared retryable (an expired lease counts as
  an interrupted process), the effect is known to be safe to repeat, the clock readings are ordered
  and a whole further attempt, started no earlier than the backoff allows, ends before the job's
  deadline. The delay is the closed form of the backoff schedule.
\<close>

theorem retry_permitted_iff:
  assumes "ReplayRetryPolicySchema p" and "ReplayAttemptErrorSchema e"
    and "UtcMillisecondTimestampSchema failed" and "UtcMillisecondTimestampSchema started"
    and "UtcMillisecondTimestampSchema evaluated"
  shows "decideReplayRetry \<lparr>dro_attemptSequence = JsInt n, dro_error = e,
      dro_evaluatedAt = Some evaluated, dro_failedAt = failed, dro_jobStartedAt = started,
      dro_policy = p\<rparr> = Inr (RetryPermitted d t) \<longleftrightarrow>
    pol_automatic p \<and> 0 \<le> n \<and> n + 1 < pol_maxAttempts p \<and> errorDeclared p e \<and> effectRetrySafe e \<and>
    started \<le> failed \<and> failed \<le> evaluated \<and>
    d = backoffDelay (pol_backoff p) (nat n) \<and> t = failed + d \<and> t \<le> MAX_UTC_MS \<and>
    max t evaluated + pol_perAttemptTimeoutMilliseconds p
      \<le> started + pol_totalDeadlineMilliseconds p \<and>
    started + pol_totalDeadlineMilliseconds p \<le> MAX_SAFE_INTEGER"
proof -
  let ?k = "backoffDelay (pol_backoff p) (nat n)"
  have backoff: "ReplayBackoffSchema (pol_backoff p)"
    and attempts: "pol_maxAttempts p \<le> 32"
    and positive: "0 < pol_perAttemptTimeoutMilliseconds p" "0 < pol_totalDeadlineMilliseconds p"
    using assms(1)
    by (auto simp: ReplayRetryPolicySchema_def SafePositiveInteger_def MAX_REPLAY_ATTEMPTS_def)
  have delay: "0 \<le> ?k" "?k \<le> 3600000"
    using backoffDelay_bounds [OF backoff] by auto
  note time = assms(3-5) [unfolded UtcMillisecondTimestampSchema_def MIN_UTC_MS_def MAX_UTC_MS_def]
  have safe: "isSafeInteger (JsInt (failed + ?k))" "isSafeInteger (JsInt (max (failed + ?k) evaluated))"
    "UtcMillisecondTimestampSchema (failed + ?k) \<longleftrightarrow> failed + ?k \<le> MAX_UTC_MS"
    using time delay
    by (auto simp: MAX_SAFE_INTEGER_def UtcMillisecondTimestampSchema_def MIN_UTC_MS_def)
  have ends: "isSafeInteger (JsInt (max (failed + ?k) evaluated + pol_perAttemptTimeoutMilliseconds p))"
    if "max (failed + ?k) evaluated + pol_perAttemptTimeoutMilliseconds p
        \<le> started + pol_totalDeadlineMilliseconds p"
      "started + pol_totalDeadlineMilliseconds p \<le> MAX_SAFE_INTEGER"
    using that time delay positive by (auto simp: MAX_SAFE_INTEGER_def)
  have deadline: "isSafeInteger (JsInt (started + pol_totalDeadlineMilliseconds p)) \<longleftrightarrow>
      started + pol_totalDeadlineMilliseconds p \<le> MAX_SAFE_INTEGER"
    using time positive by (auto simp: MAX_SAFE_INTEGER_def)
  have seq: "isSafeInteger (JsInt n)" if "0 \<le> n" "n + 1 < pol_maxAttempts p"
    using that attempts by (auto simp: MAX_SAFE_INTEGER_def)
  show ?thesis
    using assms seq ends
    by (auto simp: decideReplayRetry_def Let_def safe deadline retryDelay_eq [OF backoff] isoTimestamp_Inr_iff
        result_simps simp del: isSafeInteger.simps split: if_splits)
qed


definition exPolicy :: ReplayRetryPolicy where
  "exPolicy = \<lparr>pol_automatic = True, pol_backoff = BackoffExponential 1000 5000 3,
     pol_idempotencyRequirement = NoExternalEffect, pol_maxAttempts = 5,
     pol_perAttemptTimeoutMilliseconds = 10000,
     pol_retryableErrors = [RetryTargetProcessInterrupted],
     pol_totalDeadlineMilliseconds = 60000\<rparr>"

definition exRetryError :: ReplayAttemptError where
  "exRetryError = \<lparr>err_code = ErrLeaseExpired, err_detailsSha256 = None,
     err_effectCertainty = EffectNone, err_effectRetrySafety = None,
     err_message = js_text_of ''interrupted''\<rparr>"

theorem retry_permitted_iff_witness:
  "decideReplayRetry \<lparr>dro_attemptSequence = JsInt 2, dro_error = exRetryError,
      dro_evaluatedAt = Some 21000, dro_failedAt = 20000, dro_jobStartedAt = 1000,
      dro_policy = exPolicy\<rparr> = Inr (RetryPermitted 5000 25000)"
proof -
  have "ReplayRetryPolicySchema exPolicy" "ReplayAttemptErrorSchema exRetryError"
    by code_simp+
  then show ?thesis
    using retry_permitted_iff [of exPolicy exRetryError 20000 1000 21000 2 5000 25000]
    by (simp add: exPolicy_def exRetryError_def errorDeclared_def effectRetrySafe_def
        backoffDelay_def ex_time)
qed

end
