(* ===== verification/Replay_Random.thy ===== *)
theory Replay_Random
  imports Prelude "HOL-Library.Word" "HOL-Library.Sublist"
begin

text \<open>
  Deterministic runtime controls of a recorded replay: the random budget of
  \<open>packages/replay/src/random-budget.ts\<close> and the counter-mode byte stream and fixed clock of
  \<open>packages/replay/src/runtime-controls.ts\<close>. HMAC-SHA256 comes from the platform and is the parameter
  \<open>hmac\<close> (key, message, digest); what the code relies on is that a digest has 32 bytes.
  Every operation returns the object's state after the call together with its outcome, because a
  call that throws still records the violation.
\<close>

section \<open>The random budget\<close>

datatype runtime_control_error =
  RandomRequestOutOfRange | RandomBudgetExhausted | RuntimeControlsClosed | CounterRangeError

definition MAX_RANDOM_BYTES_PER_REQUEST :: int where
  "MAX_RANDOM_BYTES_PER_REQUEST = 65536"

definition MAX_RANDOM_BYTES_PER_INVOCATION :: int where
  "MAX_RANDOM_BYTES_PER_INVOCATION = 1048576"

definition validateRecordedReplayRandomRequest ::
    "int \<Rightarrow> js_number \<Rightarrow> (runtime_control_error, int) result" where
  "validateRecordedReplayRandomRequest randomBytesGenerated len =
     (case len of
        JsOther \<Rightarrow> Inl RandomRequestOutOfRange
      | JsInt n \<Rightarrow>
          if n < 1 \<or> n > MAX_RANDOM_BYTES_PER_REQUEST then Inl RandomRequestOutOfRange
          else if randomBytesGenerated + n > MAX_RANDOM_BYTES_PER_INVOCATION
          then Inl RandomBudgetExhausted
          else Inr (randomBytesGenerated + n))"

section \<open>The controls\<close>

type_synonym byte = "8 word"

record RuntimeProfile =
  prof_instant :: string
  prof_locale :: string
  prof_seedHex :: string
  prof_timeZone :: string

record runtime_controls =
  rc_blockCounter :: nat
  rc_closed :: bool
  rc_clockReads :: nat
  rc_pending :: "byte list"
  rc_profile :: RuntimeProfile
  rc_randomBytesGenerated :: int
  rc_randomRequests :: nat
  rc_runtimeViolated :: bool
  rc_seed :: "byte list"

text \<open>\<open>Buffer.from(text, "hex")\<close> decodes digit pairs and stops at the first that is not one.\<close>

definition hexValue :: "char \<Rightarrow> nat option" where
  "hexValue c =
     (let n = (of_char c :: nat) in
      if 48 \<le> n \<and> n \<le> 57 then Some (n - 48)
      else if 97 \<le> n \<and> n \<le> 102 then Some (n - 87)
      else if 65 \<le> n \<and> n \<le> 70 then Some (n - 55) else None)"

fun bufferFromHex :: "string \<Rightarrow> byte list" where
  "bufferFromHex (a # b # cs) =
     (case (hexValue a, hexValue b) of
        (Some x, Some y) \<Rightarrow> word_of_nat (16 * x + y) # bufferFromHex cs
      | _ \<Rightarrow> [])"
| "bufferFromHex _ = []"

definition createRecordedBoundaryRuntimeControls :: "RuntimeProfile \<Rightarrow> runtime_controls" where
  "createRecordedBoundaryRuntimeControls profile =
     \<lparr>rc_blockCounter = 0, rc_closed = False, rc_clockReads = 0, rc_pending = [],
      rc_profile = profile, rc_randomBytesGenerated = 0, rc_randomRequests = 0,
      rc_runtimeViolated = False, rc_seed = bufferFromHex (prof_seedHex profile)\<rparr>"

definition closeControls :: "runtime_controls \<Rightarrow> runtime_controls" where
  "closeControls st = st\<lparr>rc_closed := True\<rparr>"

definition requireOpen ::
    "runtime_controls \<Rightarrow> runtime_controls \<times> (runtime_control_error, unit) result" where
  "requireOpen st =
     (if rc_closed st then (st\<lparr>rc_runtimeViolated := True\<rparr>, Inl RuntimeControlsClosed)
      else (st, Inr ()))"

definition nowControls ::
    "runtime_controls \<Rightarrow> runtime_controls \<times> (runtime_control_error, string) result" where
  "nowControls st =
     (case requireOpen st of
        (st, Inl e) \<Rightarrow> (st, Inl e)
      | (st, Inr _) \<Rightarrow>
          (st\<lparr>rc_clockReads := rc_clockReads st + 1\<rparr>, Inr (prof_instant (rc_profile st))))"

definition RECORDED_REPLAY_RANDOM_DOMAIN :: string where
  "RECORDED_REPLAY_RANDOM_DOMAIN = ''proofstack.replay.random.v1''"

definition writeBigUInt64BE :: "nat \<Rightarrow> (runtime_control_error, byte list) result" where
  "writeBigUInt64BE n =
     (if n < 2 ^ 64 then Inr (map (\<lambda>i. word_of_nat (n div 256 ^ i)) (rev [0..<8]))
      else Inl CounterRangeError)"

definition blockMessage :: "byte list \<Rightarrow> byte list" where
  "blockMessage counter =
     map (\<lambda>c. word_of_nat (of_char c)) RECORDED_REPLAY_RANDOM_DOMAIN @ counter"

definition nextBlock ::
    "(byte list \<Rightarrow> byte list \<Rightarrow> byte list) \<Rightarrow> runtime_controls \<Rightarrow>
     (runtime_control_error, byte list \<times> runtime_controls) result" where
  "nextBlock hmac st =
     (case writeBigUInt64BE (rc_blockCounter st) of
        Inl e \<Rightarrow> Inl e
      | Inr counter \<Rightarrow>
          Inr (hmac (rc_seed st) (blockMessage counter),
               st\<lparr>rc_blockCounter := rc_blockCounter st + 1\<rparr>))"

text \<open>
  The \<open>while\<close> loop of \<open>randomBytes\<close>; \<open>output\<close> holds the bytes written so far, \<open>need\<close> is the length of
  the array. With an empty digest the loop would not end, hence the option: \<open>None\<close> is "does not
  return".
\<close>

partial_function (option) fillRandom ::
    "(byte list \<Rightarrow> byte list \<Rightarrow> byte list) \<Rightarrow> nat \<Rightarrow> byte list \<Rightarrow> runtime_controls \<Rightarrow>
     (runtime_controls \<times> (runtime_control_error, byte list) result) option" where
  "fillRandom hmac need output st =
     (if length output < need then
        case (if rc_pending st = [] then
                (case nextBlock hmac st of
                   Inl e \<Rightarrow> Inl e
                 | Inr (block, st1) \<Rightarrow> Inr (st1\<lparr>rc_pending := block\<rparr>))
              else Inr st) of
          Inl e \<Rightarrow> Some (st, Inl e)
        | Inr st1 \<Rightarrow>
            (let count = min (length (rc_pending st1)) (need - length output) in
             fillRandom hmac need (output @ take count (rc_pending st1))
               (st1\<lparr>rc_pending := drop count (rc_pending st1)\<rparr>))
      else Some (st, Inr output))"

definition randomBytes ::
    "(byte list \<Rightarrow> byte list \<Rightarrow> byte list) \<Rightarrow> js_number \<Rightarrow> runtime_controls \<Rightarrow>
     (runtime_controls \<times> (runtime_control_error, byte list) result) option" where
  "randomBytes hmac len st =
     (case requireOpen st of
        (st, Inl e) \<Rightarrow> Some (st, Inl e)
      | (st, Inr _) \<Rightarrow>
      (case validateRecordedReplayRandomRequest (rc_randomBytesGenerated st) len of
        Inl e \<Rightarrow> Some (st\<lparr>rc_runtimeViolated := True\<rparr>, Inl e)
      | Inr nextRandomBytesGenerated \<Rightarrow>
      (case len of
        JsOther \<Rightarrow> None
      | JsInt n \<Rightarrow>
      (case fillRandom hmac (nat n) [] st of
        None \<Rightarrow> None
      | Some (st, Inl e) \<Rightarrow> Some (st, Inl e)
      | Some (st, Inr output) \<Rightarrow>
          Some (st\<lparr>rc_randomBytesGenerated := nextRandomBytesGenerated,
                   rc_randomRequests := rc_randomRequests st + 1\<rparr>, Inr output)))))"

text \<open>A client that asks for byte strings of the given lengths, one after another.\<close>

fun randomRun ::
    "(byte list \<Rightarrow> byte list \<Rightarrow> byte list) \<Rightarrow> int list \<Rightarrow> runtime_controls \<Rightarrow>
     (runtime_controls \<times> (runtime_control_error, byte list list) result) option" where
  "randomRun hmac [] st = Some (st, Inr [])"
| "randomRun hmac (n # ns) st =
     (case randomBytes hmac (JsInt n) st of
        None \<Rightarrow> None
      | Some (st1, Inl e) \<Rightarrow> Some (st1, Inl e)
      | Some (st1, Inr bytes) \<Rightarrow>
          (case randomRun hmac ns st1 of
             None \<Rightarrow> None
           | Some (st2, Inl e) \<Rightarrow> Some (st2, Inl e)
           | Some (st2, Inr rest) \<Rightarrow> Some (st2, Inr (bytes # rest))))"

section \<open>The keystream\<close>

definition counterBytes :: "nat \<Rightarrow> byte list" where
  "counterBytes n = map (\<lambda>i. word_of_nat (n div 256 ^ i)) (rev [0..<8])"

definition keystream :: "(byte list \<Rightarrow> byte list \<Rightarrow> byte list) \<Rightarrow> byte list \<Rightarrow> nat \<Rightarrow> byte list" where
  "keystream hmac seed n = concat (map (\<lambda>i. hmac seed (blockMessage (counterBytes i))) [0..<n])"

text \<open>
  \<open>emitted\<close> bytes have left the generator: together with the pending bytes they are the blocks
  generated so far.
\<close>

definition streamInv ::
    "(byte list \<Rightarrow> byte list \<Rightarrow> byte list) \<Rightarrow> byte list \<Rightarrow> runtime_controls \<Rightarrow> bool" where
  "streamInv hmac emitted st \<longleftrightarrow>
     emitted @ rc_pending st = keystream hmac (rc_seed st) (rc_blockCounter st) \<and>
     length (rc_pending st) < 32"

lemma keystream_Suc:
  "keystream hmac seed (Suc n) = keystream hmac seed n @ hmac seed (blockMessage (counterBytes n))"
  by (simp add: keystream_def)

lemma length_keystream:
  "\<forall>k m. length (hmac k m) = 32 \<Longrightarrow> length (keystream hmac seed n) = 32 * n"
  by (induction n) (simp_all add: keystream_Suc, simp add: keystream_def)

lemma keystream_prefix: "n \<le> m \<Longrightarrow> prefix (keystream hmac seed n) (keystream hmac seed m)"
  by (induction rule: dec_induct) (auto simp: keystream_Suc intro: prefix_order.trans)


lemma streamInv_counter:
  assumes "\<forall>k m. length (hmac k m) = 32" and "streamInv hmac emitted st"
  shows "32 * rc_blockCounter st = length emitted + length (rc_pending st)"
  using assms length_keystream [OF assms(1), of "rc_seed st" "rc_blockCounter st"]
  by (metis length_append streamInv_def)

lemma streamInv_fields [simp]:
  "streamInv hmac emitted (st\<lparr>rc_randomBytesGenerated := x\<rparr>) = streamInv hmac emitted st"
  "streamInv hmac emitted (st\<lparr>rc_randomRequests := n\<rparr>) = streamInv hmac emitted st"
  by (simp_all add: streamInv_def)

text \<open>What the loop changes: the pending bytes and the block counter.\<close>

definition refilled :: "runtime_controls \<Rightarrow> byte list \<Rightarrow> nat \<Rightarrow> runtime_controls" where
  "refilled st pending counter = st\<lparr>rc_blockCounter := counter, rc_pending := pending\<rparr>"

lemma refilled_simps [simp]:
  "refilled (refilled st p c) p' c' = refilled st p' c'"
  "rc_pending (refilled st p c) = p" "rc_blockCounter (refilled st p c) = c"
  "rc_seed (refilled st p c) = rc_seed st"
  "rc_closed (refilled st p c) = rc_closed st"
  "rc_randomBytesGenerated (refilled st p c) = rc_randomBytesGenerated st"
  "rc_randomRequests (refilled st p c) = rc_randomRequests st"
  "refilled st (rc_pending st) (rc_blockCounter st) = st"
  by (simp_all add: refilled_def)

lemma nextBlock_ok:
  "rc_blockCounter st < 2 ^ 64 \<Longrightarrow>
   nextBlock hmac st = Inr (hmac (rc_seed st) (blockMessage (counterBytes (rc_blockCounter st))),
     refilled st (rc_pending st) (rc_blockCounter st + 1))"
  by (simp add: nextBlock_def writeBigUInt64BE_def counterBytes_def refilled_def)

lemma fillRandom_total:
  assumes hmac: "\<forall>k m. length (hmac k m) = 32"
    and "streamInv hmac (emitted @ acc) st"
    and "length acc \<le> need" and "length emitted + need \<le> 2 ^ 20"
  shows "\<exists>bytes p c. fillRandom hmac need acc st = Some (refilled st p c, Inr bytes) \<and>
    length bytes = need \<and> streamInv hmac (emitted @ bytes) (refilled st p c)"
  using assms(2,3)
proof (induction "need - length acc" arbitrary: acc st rule: less_induct)
  case less
  have counter: "rc_blockCounter st < 2 ^ 64"
    using streamInv_counter [OF hmac less.prems(1)] less.prems assms(4) by (simp add: streamInv_def)
  show ?case
  proof (cases "length acc < need")
    case False
    then have "fillRandom hmac need acc st = Some (refilled st (rc_pending st) (rc_blockCounter st), Inr acc)"
      by (subst fillRandom.simps) simp
    moreover have "length acc = need" using False less.prems(2) by simp
    ultimately show ?thesis using less.prems(1) refilled_simps(8) [of st] by metis
  next
    case True
    define st1 where "st1 = (if rc_pending st = [] then
        refilled st (hmac (rc_seed st) (blockMessage (counterBytes (rc_blockCounter st))))
          (rc_blockCounter st + 1) else st)"
    define k where "k = min (length (rc_pending st1)) (need - length acc)"
    have stream: "(emitted @ acc) @ rc_pending st1 = keystream hmac (rc_seed st) (rc_blockCounter st1)"
      using less.prems(1) by (auto simp: st1_def streamInv_def keystream_Suc)
    have st1: "0 < length (rc_pending st1)" "length (rc_pending st1) \<le> 32"
      using less.prems(1) spec [OF spec [OF hmac]]
      by (auto simp: st1_def streamInv_def simp flip: length_greater_0_conv)
    have kept: "refilled st1 p c = refilled st p c" "rc_seed st1 = rc_seed st" for p c
      by (simp_all add: st1_def)
    let ?out = "acc @ take k (rc_pending st1)"
    let ?st = "refilled st (drop k (rc_pending st1)) (rc_blockCounter st1)"
    have k: "0 < k" "k \<le> length (rc_pending st1)" "k \<le> need - length acc"
      using True st1(1) by (auto simp: k_def)
    have inv: "streamInv hmac (emitted @ ?out) ?st"
      using stream st1 k by (auto simp: streamInv_def)
    have "fillRandom hmac need acc st = fillRandom hmac need ?out ?st"
      using True counter
      by (subst fillRandom.simps) (simp add: nextBlock_ok st1_def k_def Let_def refilled_def)
    then show ?thesis
      using less.hyps [of ?out ?st] inv k True by simp
  qed
qed

lemma randomBytes_total:
  assumes hmac: "\<forall>k m. length (hmac k m) = 32" and inv: "streamInv hmac emitted st"
    and "\<not> rc_closed st" and "rc_randomBytesGenerated st = int (length emitted)"
    and "1 \<le> n" and "n \<le> 65536" and "int (length emitted) + n \<le> 1048576"
  shows "\<exists>st' bytes. randomBytes hmac (JsInt n) st = Some (st', Inr bytes) \<and>
    int (length bytes) = n \<and> streamInv hmac (emitted @ bytes) st' \<and> \<not> rc_closed st' \<and>
    rc_randomBytesGenerated st' = int (length emitted) + n \<and>
    rc_randomRequests st' = Suc (rc_randomRequests st) \<and> rc_seed st' = rc_seed st"
proof -
  have room: "length emitted + nat n \<le> 2 ^ 20" using assms(5,7) by simp
  obtain bytes p c where fill: "fillRandom hmac (nat n) [] st = Some (refilled st p c, Inr bytes)"
    and "length bytes = nat n" and "streamInv hmac (emitted @ bytes) (refilled st p c)"
    using fillRandom_total [OF hmac, of emitted "[]" st "nat n"] inv room by auto
  moreover have "validateRecordedReplayRandomRequest (rc_randomBytesGenerated st) (JsInt n) =
      Inr (int (length emitted) + n)"
    using assms by (simp add: validateRecordedReplayRandomRequest_def
        MAX_RANDOM_BYTES_PER_REQUEST_def MAX_RANDOM_BYTES_PER_INVOCATION_def)
  ultimately show ?thesis
    using assms(3,5) by (simp add: randomBytes_def requireOpen_def)
qed

lemma randomRun_total:
  assumes hmac: "\<forall>k m. length (hmac k m) = 32" and "streamInv hmac emitted st"
    and "\<not> rc_closed st" and "rc_randomBytesGenerated st = int (length emitted)"
    and "\<forall>n \<in> set ns. 1 \<le> n \<and> n \<le> 65536" and "int (length emitted) + sum_list ns \<le> 1048576"
  shows "\<exists>st' outputs. randomRun hmac ns st = Some (st', Inr outputs) \<and>
    map (int \<circ> length) outputs = ns \<and> streamInv hmac (emitted @ concat outputs) st' \<and>
    rc_randomBytesGenerated st' = int (length emitted) + sum_list ns \<and>
    rc_randomRequests st' = rc_randomRequests st + length ns \<and> rc_seed st' = rc_seed st"
  using assms(2-)
proof (induction ns arbitrary: emitted st)
  case (Cons n ns)
  have "0 \<le> sum_list ns" using Cons.prems(4) by (intro sum_list_nonneg) auto
  then obtain st1 bytes where bytes: "randomBytes hmac (JsInt n) st = Some (st1, Inr bytes)"
    "int (length bytes) = n" "streamInv hmac (emitted @ bytes) st1" "\<not> rc_closed st1"
    "rc_randomBytesGenerated st1 = int (length emitted) + n"
    "rc_randomRequests st1 = Suc (rc_randomRequests st)" "rc_seed st1 = rc_seed st"
    using randomBytes_total [OF hmac Cons.prems(1-3), of n] Cons.prems(4,5) by auto
  with Cons.IH [of "emitted @ bytes" st1] Cons.prems(4,5) show ?case
    by (auto simp: algebra_simps)
qed simp

section \<open>Properties\<close>

text \<open>
  Random bytes are a function of the seed and the position only. From fresh controls, any
  sequence of admissible requests within the invocation budget succeeds, each returns as many bytes
  as asked for, and the concatenated outputs are the prefix of the one keystream of the seed:
  however a target splits its requests, it sees the same bytes. The recorded evidence counts the
  bytes and requests.
\<close>

theorem random_stream_independent_of_requests:
  assumes "\<forall>k m. length (hmac k m) = 32"
    and "\<forall>n \<in> set ns. 1 \<le> n \<and> n \<le> MAX_RANDOM_BYTES_PER_REQUEST"
    and "sum_list ns \<le> MAX_RANDOM_BYTES_PER_INVOCATION"
  shows "\<exists>st outputs.
    randomRun hmac ns (createRecordedBoundaryRuntimeControls profile) = Some (st, Inr outputs) \<and>
    map (int \<circ> length) outputs = ns \<and>
    prefix (concat outputs)
      (keystream hmac (bufferFromHex (prof_seedHex profile)) (rc_blockCounter st)) \<and>
    rc_randomBytesGenerated st = sum_list ns \<and> rc_randomRequests st = length ns"
proof -
  let ?st = "createRecordedBoundaryRuntimeControls profile"
  have "streamInv hmac [] ?st"
    by (simp add: streamInv_def createRecordedBoundaryRuntimeControls_def keystream_def)
  then obtain st outputs where "randomRun hmac ns ?st = Some (st, Inr outputs)"
    "map (int \<circ> length) outputs = ns" "streamInv hmac (concat outputs) st"
    "rc_randomBytesGenerated st = sum_list ns" "rc_randomRequests st = length ns"
    "rc_seed st = bufferFromHex (prof_seedHex profile)"
    using randomRun_total [OF assms(1), of "[]" ?st ns] assms(2,3)
    by (auto simp: createRecordedBoundaryRuntimeControls_def MAX_RANDOM_BYTES_PER_REQUEST_def
        MAX_RANDOM_BYTES_PER_INVOCATION_def)
  then show ?thesis by (auto simp: streamInv_def intro: prefixI [OF sym])
qed

text \<open>
  A request is refused exactly when the controls are closed, the length is not an integer
  between 1 and 65536, or the invocation budget would be exceeded; a refusal marks the controls as
  violated and consumes nothing of the stream or the budget.
\<close>

theorem random_request_refused_iff:
  assumes "\<forall>k m. length (hmac k m) = 32" and "streamInv hmac emitted st"
    and "rc_randomBytesGenerated st = int (length emitted)" and "int (length emitted) \<le> 1048576"
  shows "((\<exists>st' e. randomBytes hmac len st = Some (st', Inl e)) \<longleftrightarrow>
      rc_closed st \<or>
      (\<forall>n. len = JsInt n \<longrightarrow> n < 1 \<or> n > MAX_RANDOM_BYTES_PER_REQUEST \<or>
         rc_randomBytesGenerated st + n > MAX_RANDOM_BYTES_PER_INVOCATION)) \<and>
    (\<forall>st' e. randomBytes hmac len st = Some (st', Inl e) \<longrightarrow> st' = st\<lparr>rc_runtimeViolated := True\<rparr>)"
proof (cases "\<exists>n. len = JsInt n \<and> 1 \<le> n \<and> n \<le> 65536 \<and> int (length emitted) + n \<le> 1048576 \<and> \<not> rc_closed st")
  case True
  then obtain n where n: "len = JsInt n" "1 \<le> n" "n \<le> 65536"
    "int (length emitted) + n \<le> 1048576" "\<not> rc_closed st" by blast
  then show ?thesis
    using randomBytes_total [OF assms(1,2) _ assms(3) n(2-4)] assms(3)
    by (auto simp: MAX_RANDOM_BYTES_PER_REQUEST_def MAX_RANDOM_BYTES_PER_INVOCATION_def)
next
  case False
  then show ?thesis
    using assms(3)
    by (cases len) (auto simp: randomBytes_def requireOpen_def validateRecordedReplayRandomRequest_def
        MAX_RANDOM_BYTES_PER_REQUEST_def MAX_RANDOM_BYTES_PER_INVOCATION_def)
qed

section \<open>Witnesses\<close>

text \<open>A digest of the documented length that shows the block counter.\<close>

definition exHmac :: "byte list \<Rightarrow> byte list \<Rightarrow> byte list" where
  "exHmac key message = replicate 32 (last (0 # key) + last (0 # message))"

definition exProfile :: RuntimeProfile where
  "exProfile = \<lparr>prof_instant = ''2026-01-01T00:00:00.000Z'', prof_locale = ''en-US'',
     prof_seedHex = ''0aff'', prof_timeZone = ''UTC''\<rparr>"

lemma exHmac_length: "\<forall>k m. length (exHmac k m) = 32"
  by (simp add: exHmac_def)

theorem random_stream_independent_of_requests_witness:
  "\<exists>st outputs. randomRun exHmac [1, 40] (createRecordedBoundaryRuntimeControls exProfile) =
     Some (st, Inr outputs) \<and> map length outputs = [1, 40] \<and> rc_randomBytesGenerated st = 41"
proof -
  have "\<exists>st outputs. randomRun exHmac [1, 40] (createRecordedBoundaryRuntimeControls exProfile) =
      Some (st, Inr outputs) \<and> map (int \<circ> length) outputs = [1, 40] \<and>
    prefix (concat outputs)
      (keystream exHmac (bufferFromHex (prof_seedHex exProfile)) (rc_blockCounter st)) \<and>
    rc_randomBytesGenerated st = sum_list [1, 40] \<and> rc_randomRequests st = length [1, 40::int]"
    by (rule random_stream_independent_of_requests [OF exHmac_length])
      (simp_all add: MAX_RANDOM_BYTES_PER_REQUEST_def MAX_RANDOM_BYTES_PER_INVOCATION_def)
  then show ?thesis by (auto simp: map_eq_Cons_conv)
qed

theorem random_request_refused_iff_witness:
  "\<exists>st' e. randomBytes exHmac (JsInt 65537) (createRecordedBoundaryRuntimeControls exProfile) =
     Some (st', Inl e)"
proof -
  let ?st = "createRecordedBoundaryRuntimeControls exProfile"
  have "streamInv exHmac [] ?st"
    by (simp add: streamInv_def createRecordedBoundaryRuntimeControls_def keystream_def)
  moreover have "rc_randomBytesGenerated ?st = int (length ([] :: byte list))"
    by (simp add: createRecordedBoundaryRuntimeControls_def)
  ultimately show ?thesis
    using random_request_refused_iff [OF exHmac_length, of "[]" ?st "JsInt 65537"]
    by (simp add: MAX_RANDOM_BYTES_PER_REQUEST_def)
qed

end
