(* ===== verification/Digits.thy ===== *)
theory Digits
  imports Primitives
begin

text \<open>
  Big integers and their decimal text, as \<open>BigInt(text)\<close>, \<open>toString\<close> and \<open>padStart\<close> treat them: the
  definitions and the round-trip, length and padding lemmas that exact arithmetic and timestamp
  arithmetic share.
\<close>

section \<open>Big integers and their text\<close>

definition digitValue :: "char \<Rightarrow> int" where
  "digitValue c = int (of_char c) - 48"

definition digitOf :: "nat \<Rightarrow> char" where
  "digitOf n = char_of (48 + n)"

definition digitsInt :: "string \<Rightarrow> int" where
  "digitsInt s = foldl (\<lambda>n c. 10 * n + digitValue c) 0 s"

definition stripMinus :: "string \<Rightarrow> string" where
  "stripMinus s = (if take 1 s = ''-'' then drop 1 s else s)"

definition bigInt :: "string \<Rightarrow> int" where
  "bigInt s = (if take 1 s = ''-'' then - digitsInt (drop 1 s) else digitsInt s)"

fun showNat :: "nat \<Rightarrow> string" where
  "showNat n = (if n < 10 then [digitOf n] else showNat (n div 10) @ [digitOf (n mod 10)])"

declare showNat.simps [simp del]

definition showInt :: "int \<Rightarrow> string" where
  "showInt n = (if n < 0 then ''-'' @ showNat (nat (- n)) else showNat (nat n))"

text \<open>Division of big integers truncates towards zero.\<close>

definition bigintDiv :: "int \<Rightarrow> int \<Rightarrow> int" where
  "bigintDiv a b = sgn a * sgn b * (\<bar>a\<bar> div \<bar>b\<bar>)"

definition canonicalDigits :: "string \<Rightarrow> bool" where
  "canonicalDigits s \<longleftrightarrow>
     (case s of [] \<Rightarrow> False
      | c # cs \<Rightarrow> (c = CHR ''0'' \<and> cs = []) \<or> (digit_char c \<and> c \<noteq> CHR ''0'' \<and> list_all digit_char cs))"

definition padStart :: "nat \<Rightarrow> char \<Rightarrow> string \<Rightarrow> string" where
  "padStart n c s = replicate (n - length s) c @ s"

section \<open>Text of integers\<close>

lemma digitsInt_snoc: "digitsInt (s @ [c]) = 10 * digitsInt s + digitValue c"
  by (simp add: digitsInt_def)

lemma digitsInt_append: "digitsInt (a @ b) = digitsInt a * 10 ^ length b + digitsInt b"
proof (induction b rule: rev_induct)
  case (snoc c b)
  have "digitsInt (a @ b @ [c]) = 10 * digitsInt (a @ b) + digitValue c"
    using digitsInt_snoc [of "a @ b" c] by simp
  then show ?case by (simp add: snoc digitsInt_snoc algebra_simps)
qed (simp add: digitsInt_def)

lemma of_char_digitOf: "n < 10 \<Longrightarrow> of_char (digitOf n) = (48 + n :: nat)"
  by (simp add: digitOf_def)

lemma digit_facts:
  assumes "n < 10"
  shows "digitValue (digitOf n) = int n" "digit_char (digitOf n)"
    "digitOf n = CHR ''0'' \<longleftrightarrow> n = 0" "digitOf n \<noteq> CHR ''-''"
proof -
  have eq: "digitOf n = c \<longleftrightarrow> 48 + n = of_char c" for c
    using of_char_digitOf [OF assms] of_char_eq_iff [of "digitOf n" c, where ?'a = nat] by simp
  show "digitValue (digitOf n) = int n" "digit_char (digitOf n)"
    "digitOf n = CHR ''0'' \<longleftrightarrow> n = 0" "digitOf n \<noteq> CHR ''-''"
    using assms
    by (auto simp: eq digitValue_def of_char_digitOf digit_char_def in_range_def)
qed

lemma digitsInt_showNat: "digitsInt (showNat n) = int n"
proof (induction n rule: less_induct)
  case (less n)
  show ?case
  proof (cases "n < 10")
    case True
    then have "showNat n = [] @ [digitOf n]" by (subst showNat.simps) simp
    then show ?thesis using True unfolding digitsInt_snoc by (simp add: digit_facts digitsInt_def)
  next
    case False
    then have "showNat n = showNat (n div 10) @ [digitOf (n mod 10)]" by (subst showNat.simps) simp
    then have "digitsInt (showNat n) = 10 * int (n div 10) + int (n mod 10)"
      using less [of "n div 10"] False by (simp add: digitsInt_snoc digit_facts)
    then show ?thesis by presburger
  qed
qed

lemma canonicalDigits_showNat:
  "canonicalDigits (showNat n) \<and> showNat n \<noteq> [] \<and> list_all digit_char (showNat n) \<and>
   hd (showNat n) \<noteq> CHR ''-'' \<and> (showNat n = ''0'' \<longleftrightarrow> n = 0)"
proof (induction n rule: less_induct)
  case (less n)
  show ?case
  proof (cases "n < 10")
    case True
    then have "showNat n = [digitOf n]" by (subst showNat.simps) simp
    then show ?thesis using True by (auto simp: canonicalDigits_def digit_facts)
  next
    case False
    then have "n div 10 < n" "n div 10 \<noteq> 0" by auto
    with less have *: "canonicalDigits (showNat (n div 10))" "showNat (n div 10) \<noteq> []"
      "list_all digit_char (showNat (n div 10))" "hd (showNat (n div 10)) \<noteq> CHR ''-''"
      "showNat (n div 10) \<noteq> ''0''" by auto
    have n: "showNat n = showNat (n div 10) @ [digitOf (n mod 10)]"
      using False by (subst showNat.simps) simp
    show ?thesis
      unfolding n using * False
      by (auto simp: canonicalDigits_def digit_facts neq_Nil_conv)
  qed
qed

lemma take1_showNat: "take 1 (showNat n) \<noteq> ''-''"
  using canonicalDigits_showNat [of n] by (cases "showNat n") auto

lemma stripMinus_showInt: "stripMinus (showInt n) = showNat (nat \<bar>n\<bar>)"
  using take1_showNat [of "nat n"] by (auto simp: stripMinus_def showInt_def)

lemma bigInt_showInt: "bigInt (showInt n) = n"
  using take1_showNat [of "nat n"] by (auto simp: bigInt_def showInt_def digitsInt_showNat)

lemma digitsInt_nonneg: "list_all digit_char s \<Longrightarrow> 0 \<le> digitsInt s"
proof (induction s rule: rev_induct)
  case (snoc c s)
  then have "0 \<le> digitValue c"
    by (auto simp: digit_char_def in_range_def digitValue_def)
  with snoc show ?case by (simp add: digitsInt_snoc)
qed (simp add: digitsInt_def)

lemma canonicalDigits_digits:
  assumes "canonicalDigits s"
  shows "list_all digit_char s" "s \<noteq> []" "take 1 s \<noteq> ''-''" "bigInt s = digitsInt s" "0 \<le> digitsInt s"
proof -
  show digits: "list_all digit_char s" and "s \<noteq> []"
    using assms by (auto simp: canonicalDigits_def digit_char_def in_range_def split: list.splits)
  then show "take 1 s \<noteq> ''-''"
    by (cases s) (auto simp: digit_char_def in_range_def)
  then show "bigInt s = digitsInt s" "0 \<le> digitsInt s"
    using digits by (auto simp: bigInt_def digitsInt_nonneg)
qed

lemma digitsInt_positive:
  assumes "canonicalDigits s" and "s \<noteq> ''0''"
  shows "0 < digitsInt s"
proof -
  obtain c cs where s: "s = [c] @ cs" and c: "digit_char c" "c \<noteq> CHR ''0''" "list_all digit_char cs"
    using assms by (cases s) (auto simp: canonicalDigits_def)
  have "digitsInt [c] = digitValue c" by (simp add: digitsInt_def)
  moreover have "of_char c \<noteq> (48 :: nat)"
    using c(2) of_char_eq_iff [of c "CHR ''0''", where ?'a = nat] by simp
  then have "0 < digitValue c"
    using c(1) by (simp add: digitValue_def digit_char_def in_range_def)
  ultimately show ?thesis
    using digitsInt_nonneg [OF c(3)] unfolding s digitsInt_append by (simp add: add_pos_nonneg)
qed

lemma length_showNat: "n < 10 ^ k \<Longrightarrow> 1 \<le> k \<Longrightarrow> length (showNat n) \<le> k"
proof (induction k arbitrary: n)
  case (Suc k)
  show ?case
  proof (cases "n < 10")
    case True
    then show ?thesis by (subst showNat.simps) simp
  next
    case False
    then have "1 \<le> k" using Suc.prems by (cases k) auto
    moreover have "n div 10 < 10 ^ k" using Suc.prems by (simp add: div_less_iff_less_mult mult.commute)
    ultimately show ?thesis using Suc.IH [of "n div 10"] False by (subst showNat.simps) simp
  qed
qed simp

lemma digitsInt_bound: "list_all digit_char s \<Longrightarrow> digitsInt s < 10 ^ length s"
proof (induction s rule: rev_induct)
  case (snoc c s)
  then have "digitValue c \<le> 9" by (auto simp: digitValue_def digit_char_def in_range_def)
  with snoc show ?case by (simp add: digitsInt_snoc)
qed (simp add: digitsInt_def)

lemma length_showInt: "\<bar>n\<bar> < 10 ^ k \<Longrightarrow> 1 \<le> k \<Longrightarrow> length (showInt n) \<le> Suc k"
  using length_showNat [of "nat \<bar>n\<bar>" k]
  by (auto simp: showInt_def abs_if nat_less_iff split: if_splits)

lemma length_showInt_nonneg: "0 \<le> n \<Longrightarrow> n < 10 ^ k \<Longrightarrow> 1 \<le> k \<Longrightarrow> length (showInt n) \<le> k"
  using length_showNat [of "nat n" k] by (simp add: showInt_def nat_less_iff)

lemma digitsInt_zeros: "digitsInt (replicate n CHR ''0'' @ s) = digitsInt s"
proof -
  have "digitsInt (replicate n CHR ''0'') = 0"
    by (induction n) (simp_all add: digitsInt_snoc digitValue_def digitsInt_def
        flip: replicate_append_same)
  then show ?thesis by (simp add: digitsInt_append)
qed


end
