(* ===== verification/Exact_Arithmetic.thy ===== *)
theory Exact_Arithmetic
  imports Digits Complex_Main "HOL-Library.Multiset"
begin

text \<open>
  Exact rational arithmetic on evidence values,
  \<open>packages/core/src/evaluation/comparison-exact-arithmetic.ts\<close>, with the value contract of
  \<open>packages/contracts/src/evaluation-comparison.ts\<close>. Values arrive as decimal or rational text, are
  computed on as reduced fractions of big integers and leave as reduced rational text. The
  definitions follow the code down to the digit strings; the lemmas relate them to HOL's \<open>rat\<close>.
\<close>

section \<open>The value contract\<close>

definition MAX_COMPARISON_EXACT_INTEGER_CHARACTERS :: nat where
  "MAX_COMPARISON_EXACT_INTEGER_CHARACTERS = 128"

definition ExactIntegerSchema :: "string \<Rightarrow> bool" where
  "ExactIntegerSchema s \<longleftrightarrow>
     length s \<le> MAX_COMPARISON_EXACT_INTEGER_CHARACTERS \<and> canonicalDigits (stripMinus s)"

definition ExactPositiveIntegerSchema :: "string \<Rightarrow> bool" where
  "ExactPositiveIntegerSchema s \<longleftrightarrow>
     length s \<le> MAX_COMPARISON_EXACT_INTEGER_CHARACTERS \<and> canonicalDigits s \<and> s \<noteq> ''0''"

definition ExactDecimalSchema :: "string \<Rightarrow> bool" where
  "ExactDecimalSchema s \<longleftrightarrow>
     length s \<le> 64 \<and>
     (case splitOn CHR ''.'' (stripMinus s) of
        [w] \<Rightarrow> canonicalDigits w \<and> length w \<le> 18
      | [w, f] \<Rightarrow> canonicalDigits w \<and> length w \<le> 18 \<and> 1 \<le> length f \<and> length f \<le> 18 \<and>
          list_all digit_char f
      | _ \<Rightarrow> False)"

function gcdLoop :: "int \<Rightarrow> int \<Rightarrow> int" where
  "gcdLoop a b = (if b = 0 then a else gcdLoop b (a mod b))"
  by auto
termination
  by (relation "measure (\<lambda>(a, b). nat \<bar>b\<bar>)") (auto simp: abs_mod_less)

declare gcdLoop.simps [simp del]

definition greatestCommonDivisor :: "int \<Rightarrow> int \<Rightarrow> int" where
  "greatestCommonDivisor left right =
     gcdLoop (if left < 0 then - left else left) (if right < 0 then - right else right)"

datatype ComparisonExactValue =
    DecimalValue js_text string
  | RationalValue string string js_text

fun exactUnit :: "ComparisonExactValue \<Rightarrow> js_text" where
  "exactUnit (DecimalValue unit _) = unit"
| "exactUnit (RationalValue _ _ unit) = unit"

fun ComparisonExactValueSchema :: "(js_text \<Rightarrow> js_text) \<Rightarrow> ComparisonExactValue \<Rightarrow> bool" where
  "ComparisonExactValueSchema nfc (DecimalValue unit decimal) =
     (AssuranceSummarySchema nfc unit \<and> ExactDecimalSchema decimal)"
| "ComparisonExactValueSchema nfc (RationalValue denominator numerator unit) =
     (ExactPositiveIntegerSchema denominator \<and> ExactIntegerSchema numerator \<and>
      AssuranceSummarySchema nfc unit \<and>
      \<not> ((bigInt numerator = 0 \<and> bigInt denominator \<noteq> 1) \<or>
         greatestCommonDivisor (bigInt numerator) (bigInt denominator) \<noteq> 1))"

section \<open>Fractions\<close>

datatype ComparisonExactArithmeticErrorCode =
  EmptySample | InvalidAggregation | InvalidExactValue | MixedUnits | ResultOutOfBounds |
  SampleLimitExceeded

datatype exact_error =
    ComparisonExactArithmeticError ComparisonExactArithmeticErrorCode
  | ExactZodError

abbreviation exactError :: "ComparisonExactArithmeticErrorCode \<Rightarrow> (exact_error, 'a) result" where
  "exactError c \<equiv> Inl (ComparisonExactArithmeticError c)"

record ExactFraction =
  ef_denominator :: int
  ef_numerator :: int

record ParsedExactValue = ExactFraction +
  pev_unit :: js_text

definition normalizeFraction :: "int \<Rightarrow> int \<Rightarrow> (exact_error, ExactFraction) result" where
  "normalizeFraction numerator denominator =
     (if denominator = 0 then exactError InvalidExactValue
      else
        let sign = (if denominator < 0 then -1 else 1);
            signedNumerator = numerator * sign;
            positiveDenominator = denominator * sign
        in if signedNumerator = 0 then Inr \<lparr>ef_denominator = 1, ef_numerator = 0\<rparr>
           else
             let divisor = greatestCommonDivisor signedNumerator positiveDenominator
             in Inr \<lparr>ef_denominator = bigintDiv positiveDenominator divisor,
                     ef_numerator = bigintDiv signedNumerator divisor\<rparr>)"

definition assertResultBounds ::
    "ExactFraction \<Rightarrow> (exact_error, ExactFraction) result" where
  "assertResultBounds v =
     (if length (showInt (ef_numerator v)) > MAX_COMPARISON_EXACT_INTEGER_CHARACTERS \<or>
         length (showInt (ef_denominator v)) > MAX_COMPARISON_EXACT_INTEGER_CHARACTERS
      then exactError ResultOutOfBounds else Inr v)"

definition decimalFraction :: "string \<Rightarrow> (exact_error, ExactFraction) result" where
  "decimalFraction v =
     (let negative = (take 1 v = ''-'');
          unsigned = (if negative then drop 1 v else v);
          parts = splitOn CHR ''.'' unsigned;
          whole = (case parts of w # _ \<Rightarrow> w | [] \<Rightarrow> ''0'');
          fractional = (case parts of _ # f # _ \<Rightarrow> f | _ \<Rightarrow> []);
          numerator = bigInt (whole @ fractional) * (if negative then -1 else 1)
      in normalizeFraction numerator (10 ^ length fractional))"

definition parseExactValue ::
    "(js_text \<Rightarrow> js_text) \<Rightarrow> ComparisonExactValue \<Rightarrow> (exact_error, ParsedExactValue) result" where
  "parseExactValue nfc v =
     (if \<not> ComparisonExactValueSchema nfc v then exactError InvalidExactValue
      else case (case v of
          RationalValue denominator numerator _ \<Rightarrow>
            normalizeFraction (bigInt numerator) (bigInt denominator)
        | DecimalValue _ decimal \<Rightarrow> decimalFraction decimal) of
        Inl e \<Rightarrow> Inl e
      | Inr fraction \<Rightarrow>
          Inr \<lparr>ef_denominator = ef_denominator fraction, ef_numerator = ef_numerator fraction,
               pev_unit = exactUnit v\<rparr>)"

definition compareFractions :: "'a ExactFraction_scheme \<Rightarrow> 'b ExactFraction_scheme \<Rightarrow> int" where
  "compareFractions left right =
     (let difference = ef_numerator left * ef_denominator right - ef_numerator right * ef_denominator left
      in if difference = 0 then 0 else if difference < 0 then -1 else 1)"

definition addFractions ::
    "'a ExactFraction_scheme \<Rightarrow> 'b ExactFraction_scheme \<Rightarrow> (exact_error, ExactFraction) result" where
  "addFractions left right =
     (let sharedDivisor = greatestCommonDivisor (ef_denominator left) (ef_denominator right);
          leftMultiplier = bigintDiv (ef_denominator right) sharedDivisor;
          rightMultiplier = bigintDiv (ef_denominator left) sharedDivisor
      in case normalizeFraction
            (ef_numerator left * leftMultiplier + ef_numerator right * rightMultiplier)
            (ef_denominator left * leftMultiplier) of
           Inl e \<Rightarrow> Inl e
         | Inr f \<Rightarrow> assertResultBounds f)"

definition divideFraction ::
    "'a ExactFraction_scheme \<Rightarrow> nat \<Rightarrow> (exact_error, ExactFraction) result" where
  "divideFraction v divisor =
     (case normalizeFraction (ef_numerator v) (ef_denominator v * int divisor) of
        Inl e \<Rightarrow> Inl e
      | Inr f \<Rightarrow> assertResultBounds f)"

definition canonicalFractionOrder ::
    "'a ExactFraction_scheme \<Rightarrow> 'a ExactFraction_scheme \<Rightarrow> int" where
  "canonicalFractionOrder left right =
     (let comparison = compareFractions left right in
      if comparison \<noteq> 0 then comparison
      else if ef_numerator left \<noteq> ef_numerator right
      then (if ef_numerator left < ef_numerator right then -1 else 1)
      else if ef_denominator left = ef_denominator right then 0
      else if ef_denominator left < ef_denominator right then -1 else 1)"

fun sumFrom :: "ExactFraction \<Rightarrow> 'a ExactFraction_scheme list \<Rightarrow> (exact_error, ExactFraction) result" where
  "sumFrom running [] = Inr running"
| "sumFrom running (v # vs) =
     (case addFractions running v of Inl e \<Rightarrow> Inl e | Inr running' \<Rightarrow> sumFrom running' vs)"

definition sumOrderedFractions ::
    "'a ExactFraction_scheme list \<Rightarrow> (exact_error, ExactFraction) result" where
  "sumOrderedFractions vs = sumFrom \<lparr>ef_denominator = 1, ef_numerator = 0\<rparr> vs"

definition exactValue ::
    "(js_text \<Rightarrow> js_text) \<Rightarrow> 'a ExactFraction_scheme \<Rightarrow> js_text \<Rightarrow>
     (exact_error, ComparisonExactValue) result" where
  "exactValue nfc v unit =
     (case normalizeFraction (ef_numerator v) (ef_denominator v) of
        Inl e \<Rightarrow> Inl e
      | Inr f \<Rightarrow>
     (case assertResultBounds f of
        Inl e \<Rightarrow> Inl e
      | Inr bounded \<Rightarrow>
          (let value = RationalValue (showInt (ef_denominator bounded))
             (showInt (ef_numerator bounded)) unit
           in if ComparisonExactValueSchema nfc value then Inr value else Inl ExactZodError)))"

section \<open>Aggregation\<close>

definition MAX_COMPARISON_EXACT_AGGREGATION_VALUES :: nat where
  "MAX_COMPARISON_EXACT_AGGREGATION_VALUES = 8000 * 500"

text \<open>
  An unchecked aggregation object: the method when it is a string, the version when it is a string,
  the basis points when they are a number.
\<close>

record ComparisonExactAggregation =
  agg_basisPoints :: "js_number option"
  agg_method :: "string option"
  agg_methodVersion :: "string option"

definition validateAggregation :: "ComparisonExactAggregation \<Rightarrow> (exact_error, unit) result" where
  "validateAggregation candidate =
     (if agg_method candidate \<in>
         Some ` {''maximum'', ''mean'', ''median'', ''minimum'', ''sum''} then
        (if agg_methodVersion candidate = Some ''1.0.0'' then Inr ()
         else exactError InvalidAggregation)
      else if agg_method candidate \<noteq> Some ''nearest_rank_quantile''
      then exactError InvalidAggregation
      else if agg_methodVersion candidate \<noteq> Some ''1.0.0'' then exactError InvalidAggregation
      else case agg_basisPoints candidate of
        Some (JsInt n) \<Rightarrow>
          (if n < 1 \<or> n > 10000 then exactError InvalidAggregation else Inr ())
      | _ \<Rightarrow> exactError InvalidAggregation)"

definition parseSample ::
    "(js_text \<Rightarrow> js_text) \<Rightarrow> ComparisonExactValue list \<Rightarrow> (exact_error, ParsedExactValue list) result" where
  "parseSample nfc vs =
     (if length vs = 0 then exactError EmptySample
      else if length vs > MAX_COMPARISON_EXACT_AGGREGATION_VALUES
      then exactError SampleLimitExceeded
      else case traverse (parseExactValue nfc) vs of
        Inl e \<Rightarrow> Inl e
      | Inr parsed \<Rightarrow>
          (case parsed of
             [] \<Rightarrow> exactError MixedUnits
           | p # _ \<Rightarrow>
               if pev_unit p = [] \<or> list_ex (\<lambda>v. pev_unit v \<noteq> pev_unit p) parsed
               then exactError MixedUnits else Inr parsed))"

text \<open>An array element by index; reading outside the array gives \<open>undefined\<close>.\<close>

definition elementAt :: "'a list \<Rightarrow> int \<Rightarrow> 'a option" where
  "elementAt xs i = (if 0 \<le> i \<and> i < int (length xs) then Some (xs ! nat i) else None)"

definition medianFraction ::
    "ParsedExactValue list \<Rightarrow> (exact_error, ExactFraction) result" where
  "medianFraction ordered =
     (let upperIndex = int (length ordered) div 2 in
      case elementAt ordered upperIndex of
        None \<Rightarrow> exactError EmptySample
      | Some upper \<Rightarrow>
          if length ordered mod 2 = 1 then Inr (ExactFraction.truncate upper)
          else case elementAt ordered (upperIndex - 1) of
            None \<Rightarrow> exactError EmptySample
          | Some lower \<Rightarrow>
              (case addFractions lower upper of
                 Inl e \<Rightarrow> Inl e | Inr added \<Rightarrow> divideFraction added 2))"

definition quantileFraction ::
    "int \<Rightarrow> ParsedExactValue list \<Rightarrow> (exact_error, ExactFraction) result" where
  "quantileFraction basisPoints ordered =
     (let rank = (basisPoints * int (length ordered) + 9999) div 10000 in
      case elementAt ordered (rank - 1) of
        None \<Rightarrow> exactError InvalidAggregation
      | Some selected \<Rightarrow> Inr (ExactFraction.truncate selected))"

definition selectAggregate ::
    "ComparisonExactAggregation \<Rightarrow> ParsedExactValue list \<Rightarrow> (exact_error, ExactFraction) result" where
  "selectAggregate aggregation ordered =
     (if agg_method aggregation = Some ''minimum'' then Inr (ExactFraction.truncate (hd ordered))
      else if agg_method aggregation = Some ''maximum'' then
        Inr (ExactFraction.truncate (last ordered))
      else if agg_method aggregation = Some ''sum'' then sumOrderedFractions ordered
      else if agg_method aggregation = Some ''mean'' then
        (case sumOrderedFractions ordered of
           Inl e \<Rightarrow> Inl e | Inr added \<Rightarrow> divideFraction added (length ordered))
      else if agg_method aggregation = Some ''median'' then medianFraction ordered
      else case agg_basisPoints aggregation of
        Some (JsInt basisPoints) \<Rightarrow> quantileFraction basisPoints ordered
      | _ \<Rightarrow> exactError InvalidAggregation)"

definition aggregateComparisonExactValues ::
    "(js_text \<Rightarrow> js_text) \<Rightarrow> ComparisonExactValue list \<Rightarrow> ComparisonExactAggregation \<Rightarrow>
     (exact_error, ComparisonExactValue) result" where
  "aggregateComparisonExactValues nfc vs aggregation =
     (case validateAggregation aggregation of Inl e \<Rightarrow> Inl e
      | Inr _ \<Rightarrow>
     (case parseSample nfc vs of Inl e \<Rightarrow> Inl e
      | Inr parsed \<Rightarrow>
     (case parsed of
        [] \<Rightarrow> exactError EmptySample
      | p # _ \<Rightarrow>
          if pev_unit p = [] then exactError EmptySample
          else case selectAggregate aggregation (sortBy canonicalFractionOrder parsed) of
            Inl e \<Rightarrow> Inl e
          | Inr result \<Rightarrow> exactValue nfc result (pev_unit p))))"

definition negateFraction :: "'a ExactFraction_scheme \<Rightarrow> ExactFraction" where
  "negateFraction f = \<lparr>ef_denominator = ef_denominator f, ef_numerator = - ef_numerator f\<rparr>"

definition subtractComparisonExactValues ::
    "(js_text \<Rightarrow> js_text) \<Rightarrow> ComparisonExactValue \<Rightarrow> ComparisonExactValue \<Rightarrow>
     (exact_error, ComparisonExactValue) result" where
  "subtractComparisonExactValues nfc baseline candidate =
     (case parseExactValue nfc baseline of Inl e \<Rightarrow> Inl e
      | Inr parsedBaseline \<Rightarrow>
     (case parseExactValue nfc candidate of Inl e \<Rightarrow> Inl e
      | Inr parsedCandidate \<Rightarrow>
          if pev_unit parsedBaseline \<noteq> pev_unit parsedCandidate then exactError MixedUnits
          else case addFractions parsedCandidate (negateFraction parsedBaseline) of
            Inl e \<Rightarrow> Inl e
          | Inr difference \<Rightarrow> exactValue nfc difference (pev_unit parsedBaseline)))"

definition compareComparisonExactValues ::
    "(js_text \<Rightarrow> js_text) \<Rightarrow> ComparisonExactValue \<Rightarrow> ComparisonExactValue \<Rightarrow>
     (exact_error, int) result" where
  "compareComparisonExactValues nfc left right =
     (case parseExactValue nfc left of Inl e \<Rightarrow> Inl e
      | Inr parsedLeft \<Rightarrow>
     (case parseExactValue nfc right of Inl e \<Rightarrow> Inl e
      | Inr parsedRight \<Rightarrow>
          if pev_unit parsedLeft \<noteq> pev_unit parsedRight then exactError MixedUnits
          else Inr (compareFractions parsedLeft parsedRight)))"


section \<open>Fractions and rationals\<close>

lemma gcdLoop_gcd: "0 \<le> a \<Longrightarrow> 0 \<le> b \<Longrightarrow> gcdLoop a b = gcd a b"
proof (induction a b rule: gcdLoop.induct)
  case (1 a b)
  show ?case
  proof (cases "b = 0")
    case True
    then show ?thesis using 1 by (subst gcdLoop.simps) simp
  next
    case False
    then show ?thesis using 1 by (subst gcdLoop.simps) (simp add: gcd_red_int [symmetric])
  qed
qed

lemma greatestCommonDivisor_gcd [simp]: "greatestCommonDivisor a b = gcd a b"
  by (simp add: greatestCommonDivisor_def gcdLoop_gcd)

lemma bigintDiv_exact: "b dvd a \<Longrightarrow> 0 < b \<Longrightarrow> bigintDiv a b = a div b"
  by (auto simp: bigintDiv_def sgn_if abs_if dvd_neg_div)

text \<open>The reduced fraction of a rational, and back.\<close>

definition ratFraction :: "rat \<Rightarrow> ExactFraction" where
  "ratFraction q = \<lparr>ef_denominator = snd (quotient_of q), ef_numerator = fst (quotient_of q)\<rparr>"

definition fractionRat :: "'a ExactFraction_scheme \<Rightarrow> rat" where
  "fractionRat f = Fract (ef_numerator f) (ef_denominator f)"

lemma fractionRat_ratFraction [simp]: "fractionRat (ratFraction q) = q"
  by (cases q) (auto simp: fractionRat_def ratFraction_def quotient_of_Fract normalize_stable)

lemma ratFraction_denominator [simp]: "0 < ef_denominator (ratFraction q)"
  by (simp add: ratFraction_def quotient_of_denom_pos')

lemma ratFraction_coprime [simp]: "coprime (ef_numerator (ratFraction q)) (ef_denominator (ratFraction q))"
  using quotient_of_coprime [of q "fst (quotient_of q)" "snd (quotient_of q)"]
  by (simp add: ratFraction_def)

lemma bigintDiv_gcd:
  "d \<noteq> 0 \<Longrightarrow> bigintDiv n (gcd n d) = n div gcd n d" "d \<noteq> 0 \<Longrightarrow> bigintDiv d (gcd n d) = d div gcd n d"
  by (simp_all add: bigintDiv_exact)

lemma normalizeFraction_positive:
  assumes "0 < d"
  shows "normalizeFraction n d = Inr (ratFraction (Fract n d))"
  using assms
  by (auto simp: normalizeFraction_def Let_def ratFraction_def quotient_of_Fract Rat.normalize_def
      bigintDiv_gcd)

lemma normalize_ratFraction:
  "normalizeFraction (ef_numerator (ratFraction q)) (ef_denominator (ratFraction q)) = Inr (ratFraction q)"
  using fractionRat_ratFraction [of q] by (simp add: normalizeFraction_positive fractionRat_def)

lemma compareFractions_rat:
  assumes "0 < ef_denominator f" and "0 < ef_denominator g"
  shows "compareFractions f g =
    (if fractionRat f = fractionRat g then 0 else if fractionRat f < fractionRat g then -1 else 1)"
  using assms by (auto simp: compareFractions_def fractionRat_def eq_rat Let_def)

lemma addFractions_rat:
  assumes "0 < ef_denominator f" and "0 < ef_denominator g"
  shows "addFractions f g = assertResultBounds (ratFraction (fractionRat f + fractionRat g))"
proof -
  let ?a = "ef_denominator f" and ?b = "ef_denominator g"
  define k where "k = gcd ?a ?b"
  obtain x y where x: "?a = k * x" and y: "?b = k * y"
    using gcd_dvd1 [of ?a ?b] gcd_dvd2 [of ?a ?b] unfolding k_def [symmetric] dvd_def by blast
  have k: "0 < k" using assms by (simp add: k_def)
  have pos: "0 < x" "0 < y" using assms k x y by (auto simp: zero_less_mult_iff)
  have div: "bigintDiv ?b k = y" "bigintDiv ?a k = x"
    using k by (simp_all add: bigintDiv_exact x y)
  have "Fract (ef_numerator f * y + ef_numerator g * x) (?a * y) = fractionRat f + fractionRat g"
    using k pos by (simp add: fractionRat_def x y eq_rat algebra_simps)
  moreover have "0 < ?a * y" using assms pos by simp
  ultimately show ?thesis
    by (simp add: addFractions_def Let_def k_def [symmetric] div normalizeFraction_positive)
qed

lemma divideFraction_rat:
  "0 < ef_denominator f \<Longrightarrow> 0 < k \<Longrightarrow>
   divideFraction f k = assertResultBounds (ratFraction (fractionRat f / of_nat k))"
  by (simp add: divideFraction_def normalizeFraction_positive fractionRat_def Fract_of_nat_eq [symmetric]
      divide_rat)

section \<open>Parsing and printing values\<close>

text \<open>The rational a value denotes.\<close>

definition decimalRat :: "string \<Rightarrow> rat" where
  "decimalRat s =
     (let parts = splitOn CHR ''.'' (stripMinus s);
          whole = hd parts;
          fractional = (if length parts = 1 then [] else parts ! 1);
          magnitude = of_int (digitsInt whole) + of_int (digitsInt fractional) / 10 ^ length fractional
      in if take 1 s = ''-'' then - magnitude else magnitude)"

fun exactRat :: "ComparisonExactValue \<Rightarrow> rat" where
  "exactRat (DecimalValue _ decimal) = decimalRat decimal"
| "exactRat (RationalValue denominator numerator _) =
     of_int (bigInt numerator) / of_int (bigInt denominator)"

definition parsedValue :: "js_text \<Rightarrow> rat \<Rightarrow> ParsedExactValue" where
  "parsedValue unit q =
     \<lparr>ef_denominator = ef_denominator (ratFraction q), ef_numerator = ef_numerator (ratFraction q),
      pev_unit = unit\<rparr>"

definition representable :: "rat \<Rightarrow> bool" where
  "representable q \<longleftrightarrow>
     length (showInt (ef_numerator (ratFraction q))) \<le> 128 \<and>
     length (showInt (ef_denominator (ratFraction q))) \<le> 128"

definition canonicalValue :: "js_text \<Rightarrow> rat \<Rightarrow> ComparisonExactValue" where
  "canonicalValue unit q =
     RationalValue (showInt (ef_denominator (ratFraction q))) (showInt (ef_numerator (ratFraction q))) unit"

lemma ExactPositiveInteger_positive: "ExactPositiveIntegerSchema s \<Longrightarrow> 0 < bigInt s"
  by (simp add: ExactPositiveIntegerSchema_def canonicalDigits_digits digitsInt_positive)

lemma Fract_decimal:
  fixes w f :: int
  shows "Fract (w * 10 ^ k + f) (10 ^ k) = of_int w + of_int f / 10 ^ k"
  by (simp add: Fract_of_int_quotient add_divide_distrib)

lemma decimal_parts:
  assumes "ExactDecimalSchema s"
  obtains whole fractional and sg :: int where
    "splitOn CHR ''.'' (stripMinus s) = [whole] \<and> fractional = [] \<or>
      splitOn CHR ''.'' (stripMinus s) = [whole, fractional]"
    "sg = (if take 1 s = ''-'' then -1 else 1)"
    "decimalRat s = of_int (bigInt (whole @ fractional) * sg) / 10 ^ length fractional"
proof -
  obtain whole fractional where
    parts: "splitOn CHR ''.'' (stripMinus s) = [whole] \<and> fractional = [] \<or>
      splitOn CHR ''.'' (stripMinus s) = [whole, fractional]" and
    whole: "canonicalDigits whole"
    using assms by (auto simp: ExactDecimalSchema_def split: list.splits)
  have number: "bigInt (whole @ fractional) =
      digitsInt whole * 10 ^ length fractional + digitsInt fractional"
    using canonicalDigits_digits [OF whole] digitsInt_append [of whole fractional]
    by (cases whole) (auto simp: bigInt_def)
  define sg :: int where "sg = (if take 1 s = ''-'' then -1 else 1)"
  have "decimalRat s = of_int sg *
      (of_int (digitsInt whole) + of_int (digitsInt fractional) / 10 ^ length fractional)"
    using parts by (auto simp: decimalRat_def Let_def sg_def digitsInt_def)
  then have "decimalRat s = of_int (bigInt (whole @ fractional) * sg) / 10 ^ length fractional"
    unfolding number by (simp add: field_simps)
  then show ?thesis using that parts sg_def by blast
qed

lemma decimalFraction_rat:
  assumes "ExactDecimalSchema s"
  shows "decimalFraction s = Inr (ratFraction (decimalRat s))"
proof -
  obtain whole fractional and sg :: int where
    parts: "splitOn CHR ''.'' (stripMinus s) = [whole] \<and> fractional = [] \<or>
      splitOn CHR ''.'' (stripMinus s) = [whole, fractional]"
    and sg: "sg = (if take 1 s = ''-'' then -1 else 1)"
    and rat: "decimalRat s = of_int (bigInt (whole @ fractional) * sg) / 10 ^ length fractional"
    using decimal_parts [OF assms] .
  have "decimalFraction s = normalizeFraction (bigInt (whole @ fractional) * sg) (10 ^ length fractional)"
    using parts by (auto simp: decimalFraction_def stripMinus_def Let_def sg)
  then show ?thesis
    unfolding rat by (simp add: normalizeFraction_positive Fract_of_int_quotient)
qed

lemma parseExactValue_rat:
  "parseExactValue nfc v =
     (if ComparisonExactValueSchema nfc v then Inr (parsedValue (exactUnit v) (exactRat v))
      else exactError InvalidExactValue)"
  by (cases v)
    (auto simp: parseExactValue_def decimalFraction_rat normalizeFraction_positive parsedValue_def
      ExactPositiveInteger_positive Fract_of_int_quotient)

lemma parsedValue_simps [simp]:
  "0 < ef_denominator (parsedValue u q)" "fractionRat (parsedValue u q) = q"
  "pev_unit (parsedValue u q) = u" "ExactFraction.truncate (parsedValue u q) = ratFraction q"
  using fractionRat_ratFraction [of q]
  by (simp_all add: parsedValue_def fractionRat_def ExactFraction.truncate_def)

lemma assertResultBounds_rat:
  "assertResultBounds (ratFraction q) =
     (if representable q then Inr (ratFraction q) else exactError ResultOutOfBounds)"
  by (auto simp: assertResultBounds_def representable_def MAX_COMPARISON_EXACT_INTEGER_CHARACTERS_def)

lemma canonicalValue_schema:
  assumes "representable q" and "AssuranceSummarySchema nfc unit"
  shows "ComparisonExactValueSchema nfc (canonicalValue unit q)"
proof -
  let ?n = "ef_numerator (ratFraction q)" and ?d = "ef_denominator (ratFraction q)"
  have "showInt ?d = showNat (nat ?d)"
    by (simp add: showInt_def not_less less_imp_le)
  then have "ExactPositiveIntegerSchema (showInt ?d)"
    using canonicalDigits_showNat [of "nat ?d"] ratFraction_denominator [of q] assms(1)
    by (simp add: ExactPositiveIntegerSchema_def representable_def
        MAX_COMPARISON_EXACT_INTEGER_CHARACTERS_def)
  moreover have "?n = 0 \<Longrightarrow> ?d = 1"
    using ratFraction_coprime [of q] ratFraction_denominator [of q] by simp
  moreover have "ExactIntegerSchema (showInt ?n)"
    using canonicalDigits_showNat [of "nat \<bar>?n\<bar>"] assms(1)
    by (simp add: ExactIntegerSchema_def stripMinus_showInt representable_def
        MAX_COMPARISON_EXACT_INTEGER_CHARACTERS_def)
  ultimately show ?thesis
    using assms(2) ratFraction_coprime [of q] by (auto simp: canonicalValue_def bigInt_showInt)
qed

lemma exactRat_canonicalValue [simp]: "exactRat (canonicalValue unit q) = q"
  using fractionRat_ratFraction [of q]
  by (simp add: canonicalValue_def bigInt_showInt fractionRat_def Fract_of_int_quotient)

lemma exactUnit_canonicalValue [simp]: "exactUnit (canonicalValue unit q) = unit"
  by (simp add: canonicalValue_def)

lemma exactValue_rat:
  assumes "AssuranceSummarySchema nfc unit"
  shows "exactValue nfc (ratFraction q) unit =
    (if representable q then Inr (canonicalValue unit q) else exactError ResultOutOfBounds)"
  using canonicalValue_schema [OF _ assms, of q]
  by (auto simp: exactValue_def normalize_ratFraction assertResultBounds_rat canonicalValue_def)

text \<open>Every admitted value is itself representable.\<close>

lemma div_gcd_smaller:
  fixes n g :: int
  assumes "g dvd n" and "0 < g"
  shows "\<bar>n div g\<bar> \<le> \<bar>n\<bar>"
proof -
  obtain x where n: "n = g * x" using assms(1) by (auto elim: dvdE)
  have "1 * \<bar>x\<bar> \<le> g * \<bar>x\<bar>" using assms(2) by (intro mult_right_mono) auto
  then show ?thesis using assms(2) by (simp add: n abs_mult)
qed

lemma ratFraction_smaller:
  assumes "0 < d"
  shows "\<bar>ef_numerator (ratFraction (Fract n d))\<bar> \<le> \<bar>n\<bar>" "ef_denominator (ratFraction (Fract n d)) \<le> d"
proof -
  have "\<bar>d div gcd n d\<bar> \<le> \<bar>d\<bar>" "\<bar>n div gcd n d\<bar> \<le> \<bar>n\<bar>"
    using assms div_gcd_smaller [of "gcd n d" d] div_gcd_smaller [of "gcd n d" n] by simp_all
  then show "\<bar>ef_numerator (ratFraction (Fract n d))\<bar> \<le> \<bar>n\<bar>"
      "ef_denominator (ratFraction (Fract n d)) \<le> d"
    using assms by (auto simp: ratFraction_def quotient_of_Fract Rat.normalize_def Let_def)
qed

lemma representable_Fract:
  assumes "0 < d" and "d < 10 ^ 128" and "\<bar>n\<bar> < 10 ^ 127 \<or> (0 \<le> n \<and> n < 10 ^ 128)"
  shows "representable (Fract n d)"
proof -
  let ?n = "ef_numerator (ratFraction (Fract n d))" and ?d = "ef_denominator (ratFraction (Fract n d))"
  note le = ratFraction_smaller [OF assms(1), of n]
  have "length (showInt ?d) \<le> 128"
    using length_showInt_nonneg [of ?d 128] le assms(2) by (simp add: less_imp_le)
  moreover have "length (showInt ?n) \<le> 128"
  proof (cases "\<bar>n\<bar> < 10 ^ 127")
    case True
    then show ?thesis using length_showInt [of ?n 127] le by simp
  next
    case False
    then have "0 \<le> ?n"
      using assms by (auto simp: ratFraction_def quotient_of_Fract Rat.normalize_def Let_def
          pos_imp_zdiv_nonneg_iff)
    then show ?thesis using length_showInt_nonneg [of ?n 128] le assms(3) False by simp
  qed
  ultimately show ?thesis by (simp add: representable_def)
qed

lemma ExactInteger_bound:
  assumes "ExactIntegerSchema s"
  shows "\<bar>bigInt s\<bar> < 10 ^ 127 \<or> (0 \<le> bigInt s \<and> bigInt s < 10 ^ 128)"
proof -
  have len: "length s \<le> 128" and digits: "canonicalDigits (stripMinus s)"
    using assms by (auto simp: ExactIntegerSchema_def MAX_COMPARISON_EXACT_INTEGER_CHARACTERS_def)
  note facts = canonicalDigits_digits [OF digits]
  have bound: "digitsInt (stripMinus s) < 10 ^ length (stripMinus s)"
    by (rule digitsInt_bound [OF facts(1)])
  show ?thesis
  proof (cases "take 1 s = ''-''")
    case True
    then have "length (stripMinus s) \<le> 127" using len by (cases s) (auto simp: stripMinus_def)
    then have "(10 :: int) ^ length (stripMinus s) \<le> 10 ^ 127" by (intro power_increasing) auto
    then show ?thesis using True bound facts(5) by (simp add: bigInt_def stripMinus_def)
  next
    case False
    then have "(10 :: int) ^ length (stripMinus s) \<le> 10 ^ 128"
      using len by (intro power_increasing) (auto simp: stripMinus_def)
    then show ?thesis using False bound facts(5) by (simp add: bigInt_def stripMinus_def)
  qed
qed

lemma decimal_representable:
  assumes "ExactDecimalSchema s"
  shows "representable (decimalRat s)"
proof -
  obtain whole fractional where
    parts: "splitOn CHR ''.'' (stripMinus s) = [whole] \<and> fractional = [] \<or>
      splitOn CHR ''.'' (stripMinus s) = [whole, fractional]" and
    digits: "canonicalDigits whole" "list_all digit_char fractional"
      "length whole \<le> 18" "length fractional \<le> 18"
    using assms by (auto simp: ExactDecimalSchema_def split: list.splits)
  define n where "n = digitsInt (whole @ fractional)"
  have "list_all digit_char (whole @ fractional)"
    using canonicalDigits_digits [OF digits(1)] digits(2) by simp
  then have n: "0 \<le> n" "n < 10 ^ length (whole @ fractional)"
    unfolding n_def by (rule digitsInt_nonneg, rule digitsInt_bound)
  moreover have "(10 :: int) ^ length (whole @ fractional) \<le> 10 ^ 127"
    using digits(3,4) by (intro power_increasing) auto
  ultimately have "\<bar>n\<bar> < 10 ^ 127" by simp
  moreover have "(10 :: int) ^ length fractional < 10 ^ 128"
    using digits(4) by (intro power_strict_increasing) auto
  moreover have "decimalRat s = Fract n (10 ^ length fractional) \<or>
      decimalRat s = Fract (- n) (10 ^ length fractional)"
    using parts unfolding n_def digitsInt_append minus_rat [symmetric]
    by (auto simp: decimalRat_def Let_def Fract_decimal digitsInt_def simp del: minus_rat)
  ultimately show ?thesis
    by (auto intro!: representable_Fract simp del: minus_rat)
qed

lemma exactRat_representable: "ComparisonExactValueSchema nfc v \<Longrightarrow> representable (exactRat v)"
proof (cases v)
  case (RationalValue d n u)
  assume "ComparisonExactValueSchema nfc v"
  then have d: "ExactPositiveIntegerSchema d" and n: "ExactIntegerSchema n"
    using RationalValue by auto
  then have "bigInt d < 10 ^ length d" "length d \<le> 128"
    by (auto simp: ExactPositiveIntegerSchema_def MAX_COMPARISON_EXACT_INTEGER_CHARACTERS_def
        canonicalDigits_digits digitsInt_bound)
  moreover have "(10 :: int) ^ length d \<le> 10 ^ 128"
    using \<open>length d \<le> 128\<close> by (intro power_increasing) auto
  ultimately have "bigInt d < 10 ^ 128" by linarith
  then have "representable (Fract (bigInt n) (bigInt d))"
    using ExactInteger_bound [OF n] ExactPositiveInteger_positive [OF d]
    by (intro representable_Fract) auto
  then show ?thesis using RationalValue by (simp add: Fract_of_int_quotient)
qed (simp add: decimal_representable)

section \<open>Aggregation on rationals\<close>

text \<open>
  The same aggregation on exact numbers. Every partial sum has to be representable, in ascending
  order, exactly as the code checks its running total.
\<close>

fun boundedSum :: "rat \<Rightarrow> rat list \<Rightarrow> (exact_error, rat) result" where
  "boundedSum running [] = Inr running"
| "boundedSum running (q # qs) =
     (if representable (running + q) then boundedSum (running + q) qs else exactError ResultOutOfBounds)"

definition boundedQuotient :: "rat \<Rightarrow> nat \<Rightarrow> (exact_error, rat) result" where
  "boundedQuotient q k =
     (if representable (q / of_nat k) then Inr (q / of_nat k) else exactError ResultOutOfBounds)"

definition quantileIndex :: "int \<Rightarrow> nat \<Rightarrow> nat" where
  "quantileIndex basisPoints n = nat ((basisPoints * int n + 9999) div 10000 - 1)"

definition aggregateRats :: "ComparisonExactAggregation \<Rightarrow> rat list \<Rightarrow> (exact_error, rat) result" where
  "aggregateRats aggregation qs =
     (if agg_method aggregation = Some ''minimum'' then Inr (hd qs)
      else if agg_method aggregation = Some ''maximum'' then Inr (last qs)
      else if agg_method aggregation = Some ''sum'' then boundedSum 0 qs
      else if agg_method aggregation = Some ''mean'' then
        (case boundedSum 0 qs of Inl e \<Rightarrow> Inl e | Inr q \<Rightarrow> boundedQuotient q (length qs))
      else if agg_method aggregation = Some ''median'' then
        (if odd (length qs) then Inr (qs ! (length qs div 2))
         else
           (let q = qs ! (length qs div 2 - 1) + qs ! (length qs div 2) in
            if representable q then boundedQuotient q 2 else exactError ResultOutOfBounds))
      else case agg_basisPoints aggregation of
        Some (JsInt basisPoints) \<Rightarrow> Inr (qs ! quantileIndex basisPoints (length qs))
      | _ \<Rightarrow> exactError InvalidAggregation)"

abbreviation liftFraction :: "(exact_error, rat) result \<Rightarrow> (exact_error, ExactFraction) result" where
  "liftFraction r \<equiv> (case r of Inl e \<Rightarrow> Inl e | Inr q \<Rightarrow> Inr (ratFraction q))"

lemma sumFrom_rat:
  "sumFrom (ratFraction q) (map (parsedValue u) qs) = liftFraction (boundedSum q qs)"
  by (induction qs arbitrary: q) (auto simp: addFractions_rat assertResultBounds_rat)

lemma sumOrderedFractions_rat:
  "sumOrderedFractions (map (parsedValue u) qs) = liftFraction (boundedSum 0 qs)"
proof -
  have "ratFraction 0 = \<lparr>ef_denominator = 1, ef_numerator = 0\<rparr>"
    by (simp add: ratFraction_def)
  then show ?thesis using sumFrom_rat [of 0] by (simp add: sumOrderedFractions_def)
qed

lemma divideFraction_liftFraction:
  "0 < k \<Longrightarrow> divideFraction (ratFraction q) k = liftFraction (boundedQuotient q k)"
  by (simp add: divideFraction_rat boundedQuotient_def assertResultBounds_rat)

lemma elementAt_map: "0 \<le> i \<Longrightarrow> i < int (length xs) \<Longrightarrow> elementAt (map f xs) i = Some (f (xs ! nat i))"
  by (simp add: elementAt_def)

lemma medianFraction_rat:
  assumes "qs \<noteq> []"
  shows "medianFraction (map (parsedValue u) qs) =
    (if odd (length qs) then Inr (ratFraction (qs ! (length qs div 2)))
     else
       (let q = qs ! (length qs div 2 - 1) + qs ! (length qs div 2) in
        if representable q then liftFraction (boundedQuotient q 2) else exactError ResultOutOfBounds))"
proof -
  have bounds: "int (length qs) div 2 < int (length qs)" using assms by (cases qs) auto
  have upper: "nat (int (length qs) div 2) = length qs div 2" by (simp add: nat_div_distrib)
  have lower: "nat (int (length qs) div 2 - 1) = length qs div 2 - 1"
    by (simp add: nat_diff_distrib' nat_div_distrib)
  have even: "0 \<le> int (length qs) div 2 - 1" if "even (length qs)"
  proof -
    have "2 \<le> length qs" using assms that by (cases qs; cases "tl qs") auto
    then show ?thesis by linarith
  qed
  show ?thesis
    using bounds even
    by (auto simp: medianFraction_def Let_def elementAt_map upper lower addFractions_rat
        assertResultBounds_rat divideFraction_liftFraction odd_iff_mod_2_eq_one)
qed

lemma quantileFraction_rat:
  assumes "qs \<noteq> []" and "1 \<le> b" and "b \<le> 10000"
  shows "quantileFraction b (map (parsedValue u) qs) =
    Inr (ratFraction (qs ! quantileIndex b (length qs)))"
    and "quantileIndex b (length qs) < length qs"
proof -
  let ?n = "int (length qs)"
  have n: "1 \<le> ?n" using assms(1) by (cases qs) auto
  have "1 \<le> b * ?n" "b * ?n \<le> 10000 * ?n"
    using n assms(2,3) by (auto simp: mult_le_cancel_right intro: order_trans [OF _ mult_mono [of 1 b 1 ?n]])
  then have rank: "0 \<le> (b * ?n + 9999) div 10000 - 1" "(b * ?n + 9999) div 10000 - 1 < ?n"
    by linarith+
  then show "quantileFraction b (map (parsedValue u) qs) =
      Inr (ratFraction (qs ! quantileIndex b (length qs)))"
    "quantileIndex b (length qs) < length qs"
    by (auto simp: quantileFraction_def Let_def elementAt_map quantileIndex_def)
qed

lemma selectAggregate_rat:
  assumes "validateAggregation a = Inr ()" and "qs \<noteq> []"
  shows "selectAggregate a (map (parsedValue u) qs) = liftFraction (aggregateRats a qs)"
proof -
  have basis: "\<exists>b. agg_basisPoints a = Some (JsInt b) \<and> 1 \<le> b \<and> b \<le> 10000"
    if "agg_method a \<notin> Some ` {''maximum'', ''mean'', ''median'', ''minimum'', ''sum''}"
    using assms(1) that
    by (auto simp: validateAggregation_def split: if_splits option.splits js_number.splits)
  show ?thesis
    using assms(2) basis
    by (auto simp: selectAggregate_def aggregateRats_def hd_map last_map sumOrderedFractions_rat
        medianFraction_rat quantileFraction_rat divideFraction_liftFraction Let_def
        split: sum.split)
qed

lemma canonicalFractionOrder_rat:
  "canonicalFractionOrder (parsedValue u p) (parsedValue u q) \<le> 0 \<longleftrightarrow> p \<le> q"
  by (auto simp: canonicalFractionOrder_def Let_def compareFractions_rat)

lemma insort_key_map: "insort_key f (g x) (map g xs) = map g (insort_key (\<lambda>x. f (g x)) x xs)"
  by (induction xs) auto

lemma sort_key_map: "sort_key f (map g xs) = map g (sort_key (\<lambda>x. f (g x)) xs)"
  by (induction xs) (simp_all add: insort_key_map)

lemma sortBy_parsed:
  "sortBy canonicalFractionOrder (map (parsedValue u) qs) = map (parsedValue u) (sort qs)"
proof -
  have "sortBy canonicalFractionOrder (map (parsedValue u) qs) =
      sort_key fractionRat (map (parsedValue u) qs)"
    by (rule sortBy_sort_key) (auto simp: canonicalFractionOrder_rat)
  then show ?thesis by (simp add: sort_key_map)
qed

text \<open>A sample the code accepts: bounded, every value admitted by the contract, one unit.\<close>

definition validSample :: "(js_text \<Rightarrow> js_text) \<Rightarrow> js_text \<Rightarrow> ComparisonExactValue list \<Rightarrow> bool" where
  "validSample nfc u vs \<longleftrightarrow>
     vs \<noteq> [] \<and> length vs \<le> MAX_COMPARISON_EXACT_AGGREGATION_VALUES \<and>
     list_all (\<lambda>v. ComparisonExactValueSchema nfc v \<and> exactUnit v = u) vs"

lemma schema_unit: "ComparisonExactValueSchema nfc v \<Longrightarrow> AssuranceSummarySchema nfc (exactUnit v)"
  by (cases v) auto

lemma summary_nonempty: "AssuranceSummarySchema nfc u \<Longrightarrow> u \<noteq> []"
  by (auto simp: AssuranceSummarySchema_def boundedCanonicalText_def)

lemma validSample_unit: "validSample nfc u vs \<Longrightarrow> AssuranceSummarySchema nfc u"
  by (cases vs) (auto simp: validSample_def dest: schema_unit)

lemma parseSample_rat:
  assumes "validSample nfc u vs"
  shows "parseSample nfc vs = Inr (map (parsedValue u) (map exactRat vs))"
proof -
  have "traverse (parseExactValue nfc) vs = Inr (map (\<lambda>v. parsedValue u (exactRat v)) vs)"
    using assms by (intro traverse_total) (auto simp: validSample_def list_all_iff parseExactValue_rat)
  moreover obtain v vs' where "vs = v # vs'" using assms by (cases vs) (auto simp: validSample_def)
  ultimately show ?thesis
    using assms summary_nonempty [OF validSample_unit [OF assms]]
    by (auto simp: parseSample_def validSample_def list_ex_iff comp_def)
qed

lemma aggregate_rat:
  assumes "validSample nfc u vs" and "validateAggregation a = Inr ()"
  shows "aggregateComparisonExactValues nfc vs a =
    (case aggregateRats a (sort (map exactRat vs)) of
       Inl e \<Rightarrow> Inl e
     | Inr q \<Rightarrow> if representable q then Inr (canonicalValue u q) else exactError ResultOutOfBounds)"
proof -
  have u: "AssuranceSummarySchema nfc u" "u \<noteq> []"
    using validSample_unit [OF assms(1)] summary_nonempty by auto
  obtain v vs' where vs: "vs = v # vs'" using assms(1) by (cases vs) (auto simp: validSample_def)
  have "selectAggregate a (map (parsedValue u) (sort (map exactRat vs))) =
      liftFraction (aggregateRats a (sort (map exactRat vs)))"
    using vs by (intro selectAggregate_rat assms(2)) (metis length_0_conv length_map length_sort list.distinct(1))
  then show ?thesis
    using parseSample_rat [OF assms(1)] sortBy_parsed [of u "map exactRat vs"] assms(2) u vs
    by (simp add: aggregateComparisonExactValues_def exactValue_rat split: sum.split
        del: list.map sort_key_simps) (simp add: exactValue_rat)
qed

section \<open>Properties\<close>

text \<open>
  Exact aggregation depends on the numbers only. Two accepted samples of one unit that denote
  the same multiset of rational numbers - whatever the order of the observations and whether they
  are written as decimals or as fractions - aggregate to the same result, error or value, under
  every method.
\<close>

theorem aggregation_independent_of_order_and_notation:
  assumes "validSample nfc u vs" and "validSample nfc u ws"
    and "mset (map exactRat vs) = mset (map exactRat ws)"
  shows "aggregateComparisonExactValues nfc vs a = aggregateComparisonExactValues nfc ws a"
proof (cases "validateAggregation a")
  case (Inr x)
  have "sort (map exactRat vs) = sort (map exactRat ws)"
    by (rule properties_for_sort) (simp_all only: mset_sort assms(3) sorted_sort)
  then show ?thesis using Inr assms(1,2) by (simp add: aggregate_rat)
qed (simp add: aggregateComparisonExactValues_def)

text \<open>The textbook statistic of a sorted, non-empty list of numbers.\<close>

definition statistic :: "ComparisonExactAggregation \<Rightarrow> rat list \<Rightarrow> rat" where
  "statistic a qs =
     (case agg_method a of
        Some m \<Rightarrow>
          if m = ''minimum'' then Min (set qs)
          else if m = ''maximum'' then Max (set qs)
          else if m = ''sum'' then sum_list qs
          else if m = ''mean'' then sum_list qs / of_nat (length qs)
          else if m = ''median'' then
            (if odd (length qs) then qs ! (length qs div 2)
             else (qs ! (length qs div 2 - 1) + qs ! (length qs div 2)) / 2)
          else (case agg_basisPoints a of
                  Some (JsInt b) \<Rightarrow> qs ! quantileIndex b (length qs)
                | _ \<Rightarrow> 0)
      | None \<Rightarrow> 0)"

lemma boundedSum_exact: "boundedSum q qs = Inr r \<Longrightarrow> r = q + sum_list qs"
proof (induction qs arbitrary: q)
  case (Cons x qs)
  from Cons.prems have "boundedSum (q + x) qs = Inr r" by (simp split: if_splits)
  from Cons.IH [OF this] show ?case by simp
qed simp

lemma boundedSum_errors: "boundedSum q qs = Inl e \<Longrightarrow> e = ComparisonExactArithmeticError ResultOutOfBounds"
  by (induction qs arbitrary: q) (auto split: if_splits)

lemma aggregateRats_exact:
  assumes "validateAggregation a = Inr ()" and "sorted qs" and "qs \<noteq> []"
    and "aggregateRats a qs = Inr q"
  shows "q = statistic a qs"
proof -
  have "hd qs = Min (set qs)"
    using assms(2,3) by (cases qs) (auto intro!: Min_eqI [symmetric])
  moreover have "last qs = Max (set qs)"
    using assms(2,3) by (cases qs rule: rev_cases) (auto simp: sorted_append intro!: Max_eqI [symmetric])
  ultimately show ?thesis
    using assms
    by (auto simp: aggregateRats_def statistic_def boundedQuotient_def Let_def
        validateAggregation_def result_simps
        split: if_splits sum.splits option.splits js_number.splits dest: boundedSum_exact)
qed

lemma aggregate_statistic:
  assumes "validSample nfc u vs" and "validateAggregation a = Inr ()"
  shows "((\<exists>r. aggregateComparisonExactValues nfc vs a = Inr r \<and> ComparisonExactValueSchema nfc r \<and>
        exactUnit r = u \<and> exactRat r = statistic a (sort (map exactRat vs))) \<or>
      aggregateComparisonExactValues nfc vs a = exactError ResultOutOfBounds) \<and>
    (agg_method a \<in> Some ` {''minimum'', ''maximum'', ''nearest_rank_quantile''} \<longrightarrow>
      (\<exists>r. aggregateComparisonExactValues nfc vs a = Inr r))"
proof -
  define qs where "qs = sort (map exactRat vs)"
  have qs: "sorted qs" "qs \<noteq> []" "length qs = length vs" "set qs = exactRat ` set vs"
    using assms(1) by (auto simp: qs_def validSample_def) (metis length_0_conv length_map length_sort)
  have fine: "representable q" if "q \<in> set qs" for q
    using that assms(1) qs(4) exactRat_representable by (fastforce simp: validSample_def list_all_iff)
  have spec: "aggregateComparisonExactValues nfc vs a =
      (case aggregateRats a qs of Inl e \<Rightarrow> Inl e
       | Inr q \<Rightarrow> if representable q then Inr (canonicalValue u q) else exactError ResultOutOfBounds)"
    using aggregate_rat [OF assms] by (simp add: qs_def)
  have errors: "e = ComparisonExactArithmeticError ResultOutOfBounds" if "aggregateRats a qs = Inl e" for e
    using that assms(2)
    by (auto simp: aggregateRats_def boundedQuotient_def Let_def validateAggregation_def
        split: if_splits sum.splits option.splits js_number.splits dest: boundedSum_errors)
  have total: "\<exists>q \<in> set qs. aggregateRats a qs = Inr q"
    if "agg_method a \<in> Some ` {''minimum'', ''maximum'', ''nearest_rank_quantile''}"
    using that assms(2) qs(2) quantileFraction_rat(2) [of qs]
    by (auto simp: aggregateRats_def validateAggregation_def
        split: if_splits option.splits js_number.splits intro: nth_mem)
  show ?thesis
    using errors total fine aggregateRats_exact [OF assms(2) qs(1,2)]
      canonicalValue_schema [OF _ validSample_unit [OF assms(1)]]
    unfolding spec qs_def [symmetric] by (cases "aggregateRats a qs") force+
qed

text \<open>
  C32. The aggregate is the exact statistic. For an accepted sample and a supported method the code
  either returns a value that meets the contract, carries the sample's unit and denotes exactly the
  minimum, maximum, sum, mean, median or nearest-rank quantile of the sample, or reports that a
  result exceeds the 128-character bound; minimum, maximum and quantile never fail.
\<close>

theorem aggregation_is_exact:
  assumes "validSample nfc u vs" and "validateAggregation a = Inr ()"
  shows "((\<exists>r. aggregateComparisonExactValues nfc vs a = Inr r \<and> ComparisonExactValueSchema nfc r \<and>
        exactUnit r = u \<and> exactRat r = statistic a (sort (map exactRat vs))) \<or>
      aggregateComparisonExactValues nfc vs a = exactError ResultOutOfBounds) \<and>
    (agg_method a \<in> Some ` {''minimum'', ''maximum'', ''nearest_rank_quantile''} \<longrightarrow>
      (\<exists>r. aggregateComparisonExactValues nfc vs a = Inr r))"
  by (rule aggregate_statistic [OF assms])

text \<open>
  Comparison and subtraction are exact. On admitted values of one unit the comparison returns
  the sign of the difference of the two rationals, and the subtraction returns the canonical value
  of candidate minus baseline, or the bound error when that number is not representable.
\<close>

theorem comparison_and_difference_exact:
  assumes "ComparisonExactValueSchema nfc v" and "ComparisonExactValueSchema nfc w"
    and "exactUnit v = exactUnit w"
  shows "compareComparisonExactValues nfc v w =
      Inr (if exactRat v = exactRat w then 0 else if exactRat v < exactRat w then -1 else 1) \<and>
    subtractComparisonExactValues nfc v w =
      (if representable (exactRat w - exactRat v)
       then Inr (canonicalValue (exactUnit v) (exactRat w - exactRat v))
       else exactError ResultOutOfBounds)"
proof -
  let ?p = "parsedValue (exactUnit v) (exactRat v)"
  have neg: "0 < ef_denominator (negateFraction ?p)" "fractionRat (negateFraction ?p) = - exactRat v"
    using parsedValue_simps(1,2) [of "exactUnit v" "exactRat v"]
    by (auto simp: negateFraction_def fractionRat_def simp flip: minus_rat)
  show ?thesis
    using assms schema_unit [OF assms(1)] neg
    by (auto simp: compareComparisonExactValues_def subtractComparisonExactValues_def
        parseExactValue_rat compareFractions_rat addFractions_rat assertResultBounds_rat
        exactValue_rat)
qed

section \<open>Witnesses\<close>

definition exUnit :: js_text where
  "exUnit = [0x72, 0x65, 0x71]"

definition exSample :: "ComparisonExactValue list" where
  "exSample = [DecimalValue exUnit ''0.5'', RationalValue ''3'' ''1'' exUnit, DecimalValue exUnit ''-2'']"

definition exSample' :: "ComparisonExactValue list" where
  "exSample' = [DecimalValue exUnit ''-2.0'', RationalValue ''2'' ''1'' exUnit, RationalValue ''3'' ''1'' exUnit]"

definition exMean :: ComparisonExactAggregation where
  "exMean = \<lparr>agg_basisPoints = None, agg_method = Some ''mean'', agg_methodVersion = Some ''1.0.0''\<rparr>"

definition exQuantile :: ComparisonExactAggregation where
  "exQuantile = \<lparr>agg_basisPoints = Some (JsInt 5000), agg_method = Some ''nearest_rank_quantile'',
     agg_methodVersion = Some ''1.0.0''\<rparr>"

lemma exUnit_schema [simp]: "AssuranceSummarySchema (\<lambda>s. s) exUnit"
  by (simp add: AssuranceSummarySchema_def boundedCanonicalText_def exUnit_def js_trim_def
      js_whitespace_def containsUnsafeDisplayControl_def unicodeScalarLength_def)

lemma ex_numbers [simp]:
  "ExactDecimalSchema ''0.5''" "ExactDecimalSchema ''-2''" "ExactDecimalSchema ''-2.0''"
  "ExactPositiveIntegerSchema ''3''" "ExactPositiveIntegerSchema ''2''" "ExactIntegerSchema ''1''"
  "bigInt ''1'' = 1" "bigInt ''2'' = 2" "bigInt ''3'' = 3"
  by code_simp+

lemma ex_rats [simp]: "decimalRat ''0.5'' = 1 / 2" "decimalRat ''-2'' = - 2" "decimalRat ''-2.0'' = - 2"
  by (simp_all add: decimalRat_def stripMinus_def Let_def digitsInt_def digitValue_def)

lemma exSample_valid: "validSample (\<lambda>s. s) exUnit exSample" "validSample (\<lambda>s. s) exUnit exSample'"
  by (simp_all add: validSample_def exSample_def exSample'_def MAX_COMPARISON_EXACT_AGGREGATION_VALUES_def)

theorem aggregation_independent_of_order_and_notation_witness:
  "aggregateComparisonExactValues (\<lambda>s. s) exSample exMean =
   aggregateComparisonExactValues (\<lambda>s. s) exSample' exMean"
  by (rule aggregation_independent_of_order_and_notation [OF exSample_valid])
    (simp add: exSample_def exSample'_def)

theorem aggregation_is_exact_witness:
  "\<exists>r. aggregateComparisonExactValues (\<lambda>s. s) exSample exQuantile = Inr r \<and> exactRat r = 1 / 3"
proof -
  have "validateAggregation exQuantile = Inr ()"
    by (simp add: validateAggregation_def exQuantile_def)
  from aggregation_is_exact [OF exSample_valid(1) this] show ?thesis
    by (auto simp: exQuantile_def exSample_def statistic_def quantileIndex_def)
qed

theorem comparison_and_difference_exact_witness:
  "compareComparisonExactValues (\<lambda>s. s) (DecimalValue exUnit ''0.5'') (RationalValue ''3'' ''1'' exUnit) = Inr 1"
  using comparison_and_difference_exact [of "\<lambda>s. s" "DecimalValue exUnit ''0.5''"
      "RationalValue ''3'' ''1'' exUnit"]
  by simp

end
