(* ===== verification/Policy_Arithmetic.thy ===== *)
theory Policy_Arithmetic
  imports Exact_Arithmetic
begin

text \<open>
  Numeric tests of release-policy predicates,
  \<open>packages/core/src/policy/policy-exact-arithmetic.ts\<close>: thresholds on exact values, counts, coverage
  ratios and interval bounds, built on the exact comparison of \<open>Exact_Arithmetic\<close>. A comparator
  argument outside the enumeration is \<open>None\<close>.
\<close>

section \<open>Inputs\<close>

datatype PolicyNumericInputErrorCode =
  InvalidBasisPoints | InvalidComparator | InvalidCount | InvalidPopulation |
  InvalidProbabilityBound | InvalidThreshold | InvalidUnit | InvalidPolicyValue | MixedPolicyUnits

datatype policy_numeric_error =
    PolicyNumericInputError PolicyNumericInputErrorCode
  | PolicyArithmeticError exact_error

abbreviation numericError :: "PolicyNumericInputErrorCode \<Rightarrow> (policy_numeric_error, 'a) result" where
  "numericError c \<equiv> Inl (PolicyNumericInputError c)"

record PolicyNumericComparison =
  pnc_matches :: bool
  pnc_order :: int

datatype PolicyCoverageRatioComparison =
    CoverageCompared PolicyNumericComparison
  | CoverageZeroDenominator

datatype ReleasePolicyComparator =
  CmpEqual | CmpGreaterThan | CmpGreaterThanOrEqual | CmpLessThan | CmpLessThanOrEqual | CmpNotEqual

datatype BoundComparator = AtLeast | AtMost

definition ReleasePolicyUnitSchema :: "js_text \<Rightarrow> bool" where
  "ReleasePolicyUnitSchema unit \<longleftrightarrow>
     unit \<in> set (map js_text_of
       [''artifacts'', ''assurance_records'', ''attempts'', ''basis_points'', ''bytes'', ''calls'',
        ''cases'', ''evaluation_outcomes'', ''events'', ''interactions'', ''milliseconds'',
        ''provider_cost_microunits'', ''requests'', ''tokens''])"

definition ReleasePolicyExactDecimalSchema :: "string \<Rightarrow> bool" where
  "ReleasePolicyExactDecimalSchema v \<longleftrightarrow>
     ExactDecimalSchema v \<and>
     (let negative = (take 1 v = ''-'');
          unsigned = (if negative then drop 1 v else v);
          parts = splitOn CHR ''.'' unsigned;
          whole = hd parts;
          fraction = (case parts of _ # f # _ \<Rightarrow> Some f | _ \<Rightarrow> None)
      in if whole = ''0'' \<and>
            (case fraction of None \<Rightarrow> True | Some f \<Rightarrow> f = [] \<or> list_all (\<lambda>c. c = CHR ''0'') f) \<and>
            negative
         then False
         else (case fraction of None \<Rightarrow> True | Some f \<Rightarrow> \<not> (f \<noteq> [] \<and> last f = CHR ''0'')))"

definition UnitIntervalDecimalSchema :: "string \<Rightarrow> bool" where
  "UnitIntervalDecimalSchema s \<longleftrightarrow>
     (case splitOn CHR ''.'' s of
        [w] \<Rightarrow> w = ''0'' \<or> w = ''1''
      | [w, f] \<Rightarrow> 1 \<le> length f \<and> length f \<le> 18 \<and>
          ((w = ''0'' \<and> list_all digit_char f) \<or> (w = ''1'' \<and> list_all (\<lambda>c. c = CHR ''0'') f))
      | _ \<Rightarrow> False)"

section \<open>Comparisons\<close>

definition comparator ::
    "ReleasePolicyComparator option \<Rightarrow> (policy_numeric_error, ReleasePolicyComparator) result" where
  "comparator v = (case v of None \<Rightarrow> numericError InvalidComparator | Some c \<Rightarrow> Inr c)"

fun comparatorMatches :: "int \<Rightarrow> ReleasePolicyComparator \<Rightarrow> bool" where
  "comparatorMatches order CmpEqual = (order = 0)"
| "comparatorMatches order CmpGreaterThan = (order = 1)"
| "comparatorMatches order CmpGreaterThanOrEqual = (order \<noteq> -1)"
| "comparatorMatches order CmpLessThan = (order = -1)"
| "comparatorMatches order CmpLessThanOrEqual = (order \<noteq> 1)"
| "comparatorMatches order CmpNotEqual = (order \<noteq> 0)"

definition comparison :: "int \<Rightarrow> ReleasePolicyComparator \<Rightarrow> PolicyNumericComparison" where
  "comparison order operation = \<lparr>pnc_matches = comparatorMatches order operation, pnc_order = order\<rparr>"

definition assertCount :: "js_number \<Rightarrow> (policy_numeric_error, int) result" where
  "assertCount v =
     (case v of
        JsOther \<Rightarrow> numericError InvalidCount
      | JsInt n \<Rightarrow> if \<not> isSafeInteger (JsInt n) \<or> n < 0 then numericError InvalidCount else Inr n)"

definition assertBasisPoints :: "js_number \<Rightarrow> int \<Rightarrow> (policy_numeric_error, int) result" where
  "assertBasisPoints v minimum =
     (case v of
        JsOther \<Rightarrow> numericError InvalidBasisPoints
      | JsInt n \<Rightarrow>
          if \<not> isSafeInteger (JsInt n) \<or> n < minimum \<or> n > 10000
          then numericError InvalidBasisPoints else Inr n)"

definition comparePolicyExactThreshold ::
    "(js_text \<Rightarrow> js_text) \<Rightarrow> ComparisonExactValue \<Rightarrow> string \<Rightarrow> js_text \<Rightarrow>
     ReleasePolicyComparator option \<Rightarrow> (policy_numeric_error, PolicyNumericComparison) result" where
  "comparePolicyExactThreshold nfc v threshold unit operation =
     (case comparator operation of Inl e \<Rightarrow> Inl e
      | Inr parsedComparator \<Rightarrow>
        if \<not> ReleasePolicyUnitSchema unit then numericError InvalidUnit
        else if \<not> ReleasePolicyExactDecimalSchema threshold then numericError InvalidThreshold
        else if \<not> ComparisonExactValueSchema nfc v then numericError InvalidPolicyValue
        else if exactUnit v \<noteq> unit then numericError MixedPolicyUnits
        else case compareComparisonExactValues nfc v (DecimalValue unit threshold) of
          Inl e \<Rightarrow> Inl (PolicyArithmeticError e)
        | Inr order \<Rightarrow> Inr (comparison order parsedComparator))"

definition comparePolicyCounts ::
    "js_number \<Rightarrow> js_number \<Rightarrow> ReleasePolicyComparator option \<Rightarrow>
     (policy_numeric_error, PolicyNumericComparison) result" where
  "comparePolicyCounts observed threshold operation =
     (case comparator operation of Inl e \<Rightarrow> Inl e
      | Inr parsedComparator \<Rightarrow>
     (case assertCount observed of Inl e \<Rightarrow> Inl e
      | Inr observedCount \<Rightarrow>
     (case assertCount threshold of Inl e \<Rightarrow> Inl e
      | Inr thresholdCount \<Rightarrow>
          Inr (comparison
            (if observedCount < thresholdCount then -1
             else if observedCount > thresholdCount then 1 else 0) parsedComparator))))"

definition comparePolicyCoverageRatio ::
    "js_number \<Rightarrow> js_number \<Rightarrow> js_number \<Rightarrow>
     (policy_numeric_error, PolicyCoverageRatioComparison) result" where
  "comparePolicyCoverageRatio observed population minimumBasisPoints =
     (case assertCount observed of Inl e \<Rightarrow> Inl e
      | Inr observedCount \<Rightarrow>
     (case assertCount population of Inl e \<Rightarrow> Inl e
      | Inr totalCount \<Rightarrow>
     (case assertBasisPoints minimumBasisPoints 1 of Inl e \<Rightarrow> Inl e
      | Inr basisPoints \<Rightarrow>
          if observedCount > totalCount then numericError InvalidPopulation
          else if totalCount = 0 then Inr CoverageZeroDenominator
          else
            let left = observedCount * 10000; right = basisPoints * totalCount in
            Inr (CoverageCompared
              (comparison (if left < right then -1 else if left > right then 1 else 0)
                CmpGreaterThanOrEqual)))))"

definition probabilityThreshold :: "int \<Rightarrow> string" where
  "probabilityThreshold basisPoints =
     (if basisPoints = 10000 then ''1''
      else ''0.'' @ padStart 4 CHR ''0'' (showInt basisPoints))"

definition comparePolicyProbabilityBound ::
    "(js_text \<Rightarrow> js_text) \<Rightarrow> string \<Rightarrow> js_number \<Rightarrow> BoundComparator option \<Rightarrow>
     (policy_numeric_error, PolicyNumericComparison) result" where
  "comparePolicyProbabilityBound nfc bound thresholdBasisPoints operation =
     (case operation of None \<Rightarrow> numericError InvalidComparator
      | Some boundComparator \<Rightarrow>
     (case assertBasisPoints thresholdBasisPoints 0 of Inl e \<Rightarrow> Inl e
      | Inr basisPoints \<Rightarrow>
          if \<not> UnitIntervalDecimalSchema bound then numericError InvalidProbabilityBound
          else
            let unit = js_text_of ''probability'' in
            case compareComparisonExactValues nfc (DecimalValue unit bound)
                   (DecimalValue unit (probabilityThreshold basisPoints)) of
              Inl e \<Rightarrow> Inl (PolicyArithmeticError e)
            | Inr order \<Rightarrow>
                Inr (comparison order
                  (if boundComparator = AtLeast then CmpGreaterThanOrEqual
                   else CmpLessThanOrEqual))))"

section \<open>Lemmas\<close>

text \<open>The relation a comparator stands for.\<close>

fun comparatorHolds :: "ReleasePolicyComparator \<Rightarrow> rat \<Rightarrow> rat \<Rightarrow> bool" where
  "comparatorHolds CmpEqual a b = (a = b)"
| "comparatorHolds CmpGreaterThan a b = (a > b)"
| "comparatorHolds CmpGreaterThanOrEqual a b = (a \<ge> b)"
| "comparatorHolds CmpLessThan a b = (a < b)"
| "comparatorHolds CmpLessThanOrEqual a b = (a \<le> b)"
| "comparatorHolds CmpNotEqual a b = (a \<noteq> b)"

definition orderOf :: "rat \<Rightarrow> rat \<Rightarrow> int" where
  "orderOf a b = (if a = b then 0 else if a < b then -1 else 1)"

lemma comparatorMatches_orderOf: "comparatorMatches (orderOf a b) c = comparatorHolds c a b"
  by (cases c) (auto simp: orderOf_def)

lemma compare_decimal:
  assumes "ComparisonExactValueSchema nfc v" and "ExactDecimalSchema d"
  shows "compareComparisonExactValues nfc v (DecimalValue (exactUnit v) d) =
    Inr (orderOf (exactRat v) (decimalRat d))"
  using assms schema_unit [OF assms(1)]
  by (simp add: compareComparisonExactValues_def parseExactValue_rat compareFractions_rat orderOf_def)

lemma splitOn_digits: "list_all digit_char s \<Longrightarrow> splitOn CHR ''.'' s = [s]"
  by (induction s) (auto simp: digit_char_def in_range_def)

lemma probabilityThreshold_rat:
  assumes "0 \<le> n" and "n \<le> 10000"
  shows "ExactDecimalSchema (probabilityThreshold n)" "decimalRat (probabilityThreshold n) = of_int n / 10000"
proof -
  let ?f = "padStart 4 CHR ''0'' (showInt n)"
  have digits: "list_all digit_char ?f" if "n \<noteq> 10000"
    using canonicalDigits_showNat [of "nat n"] assms(1)
    by (auto simp: padStart_def showInt_def list_all_iff digit_char_def in_range_def)
  have len: "length ?f = 4" if "n \<noteq> 10000"
    using length_showInt_nonneg [of n 4] assms that by (simp add: padStart_def)
  have number: "digitsInt ?f = n"
    using assms(1) by (simp add: padStart_def digitsInt_zeros showInt_def digitsInt_showNat)
  have parts: "splitOn CHR ''.'' (''0.'' @ ?f) = [''0'', ?f]" if "n \<noteq> 10000"
    using splitOn_digits [OF digits [OF that]] by simp
  show "ExactDecimalSchema (probabilityThreshold n)"
    using parts digits len
    by (auto simp: probabilityThreshold_def ExactDecimalSchema_def stripMinus_def canonicalDigits_def
        digit_char_def in_range_def)
  show "decimalRat (probabilityThreshold n) = of_int n / 10000"
    using parts len number
    by (auto simp: probabilityThreshold_def decimalRat_def stripMinus_def Let_def)
      (simp_all add: digitsInt_def digitValue_def)
qed

lemma splitOn_join:
  "splitOn c s = [w] \<Longrightarrow> s = w" "splitOn c s = [w, f] \<Longrightarrow> s = w @ c # f"
proof -
  have "splitOn c s \<noteq> [] \<and> s = hd (splitOn c s) @ concat (map (Cons c) (tl (splitOn c s)))"
    by (induction s) (auto split: list.splits)
  then show "splitOn c s = [w] \<Longrightarrow> s = w" "splitOn c s = [w, f] \<Longrightarrow> s = w @ c # f" by auto
qed

lemma unitInterval_decimal:
  assumes "UnitIntervalDecimalSchema s"
  shows "ExactDecimalSchema s"
proof -
  consider (whole) w where "splitOn CHR ''.'' s = [w]" "w = ''0'' \<or> w = ''1''"
    | (fraction) w f where "splitOn CHR ''.'' s = [w, f]" "w = ''0'' \<or> w = ''1''"
        "list_all digit_char f" "1 \<le> length f" "length f \<le> 18"
  proof -
    have zeros: "list_all (\<lambda>c. c = CHR ''0'') f \<Longrightarrow> list_all digit_char f" for f
      by (erule list.pred_mono_strong) (simp add: digit_char_def in_range_def)
    from assms obtain w where "splitOn CHR ''.'' s = [w] \<and> (w = ''0'' \<or> w = ''1'') \<or>
        (\<exists>f. splitOn CHR ''.'' s = [w, f] \<and> 1 \<le> length f \<and> length f \<le> 18 \<and>
          ((w = ''0'' \<and> list_all digit_char f) \<or> (w = ''1'' \<and> list_all (\<lambda>c. c = CHR ''0'') f)))"
      by (auto simp: UnitIntervalDecimalSchema_def split: list.split_asm)
    then show ?thesis using that zeros by blast
  qed
  then show ?thesis
  proof cases
    case whole
    then show ?thesis
      using splitOn_join(1) [OF whole(1)]
      by (auto simp: ExactDecimalSchema_def stripMinus_def canonicalDigits_def digit_char_def in_range_def)
  next
    case fraction
    then show ?thesis
      using splitOn_join(2) [OF fraction(1)]
      by (auto simp: ExactDecimalSchema_def stripMinus_def canonicalDigits_def digit_char_def in_range_def)
  qed
qed

section \<open>Properties\<close>

lemma threshold_rat:
  assumes "ReleasePolicyUnitSchema unit" and "ReleasePolicyExactDecimalSchema threshold"
    and "ComparisonExactValueSchema nfc v" and "exactUnit v = unit"
  shows "comparePolicyExactThreshold nfc v threshold unit (Some c) =
    Inr \<lparr>pnc_matches = comparatorHolds c (exactRat v) (decimalRat threshold),
         pnc_order = orderOf (exactRat v) (decimalRat threshold)\<rparr>"
proof -
  have "ExactDecimalSchema threshold"
    using assms(2) by (simp add: ReleasePolicyExactDecimalSchema_def)
  then show ?thesis
    using assms compare_decimal [OF assms(3)]
    by (auto simp: comparePolicyExactThreshold_def comparator_def comparison_def comparatorMatches_orderOf)
qed

text \<open>
  A policy threshold is decided on the exact numbers. For an admitted value in the policy's
  unit and a canonical threshold, the test returns the order of the two rationals and matches
  exactly when the comparator's relation holds between them; no rounding can flip a gate.
\<close>

theorem policy_threshold_decided_exactly:
  assumes "ReleasePolicyUnitSchema unit" and "ReleasePolicyExactDecimalSchema threshold"
    and "ComparisonExactValueSchema nfc v" and "exactUnit v = unit"
  shows "comparePolicyExactThreshold nfc v threshold unit (Some c) =
    Inr \<lparr>pnc_matches = comparatorHolds c (exactRat v) (decimalRat threshold),
         pnc_order = orderOf (exactRat v) (decimalRat threshold)\<rparr>"
  by (rule threshold_rat [OF assms])

text \<open>
  A coverage floor is met exactly when observed divided by total reaches the declared share;
  an empty population is reported as undefined, never as a success or a failure.
\<close>

theorem coverage_ratio_decided_exactly:
  assumes "0 \<le> observed" and "observed \<le> population" and "population \<le> MAX_SAFE_INTEGER"
    and "1 \<le> basisPoints" and "basisPoints \<le> 10000"
  shows "comparePolicyCoverageRatio (JsInt observed) (JsInt population) (JsInt basisPoints) =
    Inr (if population = 0 then CoverageZeroDenominator
         else CoverageCompared
           \<lparr>pnc_matches = (of_int observed / of_int population \<ge> (of_int basisPoints / 10000 :: rat)),
            pnc_order = orderOf (of_int observed / of_int population) (of_int basisPoints / 10000)\<rparr>)"
proof (cases "population = 0")
  case False
  then have pos: "(0 :: rat) < of_int population" using assms by simp
  have eq: "of_int observed / of_int population = (of_int basisPoints / 10000 :: rat) \<longleftrightarrow>
      observed * 10000 = basisPoints * population"
    using pos by (simp add: field_simps) (metis (mono_tags) of_int_eq_iff of_int_mult of_int_numeral)
  have less: "of_int observed / of_int population < (of_int basisPoints / 10000 :: rat) \<longleftrightarrow>
      observed * 10000 < basisPoints * population"
    using pos by (simp add: field_simps) (metis (mono_tags) of_int_less_iff of_int_mult of_int_numeral)
  have safe: "isSafeInteger (JsInt observed)" "isSafeInteger (JsInt population)" "isSafeInteger (JsInt basisPoints)"
    using assms by (auto simp: MAX_SAFE_INTEGER_def)
  have order: "(if observed * 10000 < basisPoints * population then -1
      else if observed * 10000 > basisPoints * population then 1 else 0) =
      orderOf (of_int observed / of_int population) (of_int basisPoints / 10000)"
    unfolding orderOf_def eq less by auto
  show ?thesis
    using assms False safe
    by (simp add: comparePolicyCoverageRatio_def assertCount_def assertBasisPoints_def Let_def
        comparison_def order comparatorMatches_orderOf del: isSafeInteger.simps comparatorMatches.simps)
next
  case True
  then show ?thesis
    using assms
    by (simp add: comparePolicyCoverageRatio_def assertCount_def assertBasisPoints_def MAX_SAFE_INTEGER_def)
qed

text \<open>
  A retained interval bound is compared with the declared basis points without rounding: the
  threshold text built from the basis points denotes exactly that many ten-thousandths, and the test
  matches when the bound is at least, or at most, that number.
\<close>

theorem probability_bound_decided_exactly:
  assumes "\<forall>s. list_all (\<lambda>c. c < 0x80) s \<longrightarrow> nfc s = s"
    and "UnitIntervalDecimalSchema bound" and "0 \<le> basisPoints" and "basisPoints \<le> 10000"
  shows "comparePolicyProbabilityBound nfc bound (JsInt basisPoints) (Some c) =
    Inr \<lparr>pnc_matches = (if c = AtLeast then decimalRat bound \<ge> of_int basisPoints / 10000
                         else decimalRat bound \<le> of_int basisPoints / 10000),
         pnc_order = orderOf (decimalRat bound) (of_int basisPoints / 10000)\<rparr>"
proof -
  let ?unit = "js_text_of ''probability''"
  have ascii: "?unit = [0x70, 0x72, 0x6f, 0x62, 0x61, 0x62, 0x69, 0x6c, 0x69, 0x74, 0x79]"
    by (simp add: js_text_of_def)
  have "list_all (\<lambda>c. c < 0x80) ?unit" by (simp add: ascii)
  then have "nfc ?unit = ?unit" using assms(1) by blast
  then have "AssuranceSummarySchema nfc ?unit"
    unfolding ascii
    by (simp add: AssuranceSummarySchema_def boundedCanonicalText_def js_trim_def
        js_whitespace_def containsUnsafeDisplayControl_def unicodeScalarLength_def)
  then have schema: "ComparisonExactValueSchema nfc (DecimalValue ?unit bound)"
    by (simp add: unitInterval_decimal [OF assms(2)])
  show ?thesis
    using compare_decimal [OF schema probabilityThreshold_rat(1) [OF assms(3,4)]] assms(2-4)
    by (cases c) (auto simp: comparePolicyProbabilityBound_def assertBasisPoints_def MAX_SAFE_INTEGER_def
        comparison_def probabilityThreshold_rat(2) orderOf_def Let_def)
qed

section \<open>Witnesses\<close>

theorem policy_threshold_decided_exactly_witness:
  "comparePolicyExactThreshold (\<lambda>s. s) (RationalValue ''3'' ''1'' (js_text_of ''cases'')) ''0.5''
     (js_text_of ''cases'') (Some CmpLessThan) = Inr \<lparr>pnc_matches = True, pnc_order = -1\<rparr>"
proof -
  have ascii: "js_text_of ''cases'' = [0x63, 0x61, 0x73, 0x65, 0x73]"
    by (simp add: js_text_of_def)
  have unit: "AssuranceSummarySchema (\<lambda>s. s) (js_text_of ''cases'')"
    unfolding ascii
    by (simp add: AssuranceSummarySchema_def boundedCanonicalText_def js_trim_def
        js_whitespace_def containsUnsafeDisplayControl_def unicodeScalarLength_def)
  have decimal: "ReleasePolicyExactDecimalSchema ''0.5''" by code_simp
  have "ReleasePolicyUnitSchema (js_text_of ''cases'')"
    by (simp add: ReleasePolicyUnitSchema_def)
  from policy_threshold_decided_exactly [OF this decimal, of "\<lambda>s. s"
      "RationalValue ''3'' ''1'' (js_text_of ''cases'')" CmpLessThan] unit
  show ?thesis by (simp add: orderOf_def)
qed

theorem coverage_ratio_decided_exactly_witness:
  "comparePolicyCoverageRatio (JsInt 2) (JsInt 3) (JsInt 6666) =
   Inr (CoverageCompared \<lparr>pnc_matches = True, pnc_order = 1\<rparr>)"
  using coverage_ratio_decided_exactly [of 2 3 6666] by (simp add: MAX_SAFE_INTEGER_def orderOf_def)

theorem probability_bound_decided_exactly_witness:
  "comparePolicyProbabilityBound (\<lambda>s. s) ''0.5'' (JsInt 5000) (Some AtLeast) =
   Inr \<lparr>pnc_matches = True, pnc_order = 0\<rparr>"
proof -
  have "UnitIntervalDecimalSchema ''0.5''" by code_simp
  then show ?thesis
    using probability_bound_decided_exactly [of "\<lambda>s. s" "''0.5''" 5000 AtLeast]
    by (simp add: orderOf_def)
qed

end
