(* ===== verification/Applicability.thy ===== *)
theory Applicability
  imports Primitives
begin

text \<open>
  Applicability of evaluation criteria: the expression and context contracts of
  \<open>packages/contracts/src/evaluation-criteria.ts\<close> and the three-valued evaluator of
  \<open>packages/core/src/evaluation/applicability.ts\<close>.
\<close>

section \<open>Contexts and expressions\<close>

datatype EvaluationRiskTier = LowTier | ModerateTier | HighTier | CriticalTier

record ApplicabilityContext =
  ctx_environmentId :: "string option"
  ctx_jurisdiction :: "string option"
  ctx_locale :: "string option"
  ctx_populationTags :: "js_text list"
  ctx_riskTier :: "EvaluationRiskTier option"
  ctx_taskKind :: "string option"

definition SourceLocaleSchema :: "string \<Rightarrow> bool" where
  "SourceLocaleSchema s \<longleftrightarrow>
     (case splitOn CHR ''-'' s of
        [] \<Rightarrow> False
      | h # ps \<Rightarrow> 2 \<le> length h \<and> length h \<le> 8 \<and> list_all lower_alpha h \<and>
          list_all (\<lambda>p. 1 \<le> length p \<and> length p \<le> 8 \<and>
            list_all (\<lambda>c. lower_alpha c \<or> digit_char c) p) ps)"

definition SourceJurisdictionSchema :: "string \<Rightarrow> bool" where
  "SourceJurisdictionSchema s \<longleftrightarrow>
     (case s of
        [] \<Rightarrow> False
      | c # cs \<Rightarrow> lower_alpha c \<and> 1 \<le> length cs \<and> length cs \<le> 63 \<and>
          list_all (\<lambda>d. lower_alpha d \<or> digit_char d \<or> d \<in> set ''._-'') cs)"

definition ApplicabilityContextSchema ::
    "(js_text \<Rightarrow> js_text) \<Rightarrow> ApplicabilityContext \<Rightarrow> bool" where
  "ApplicabilityContextSchema nfc c \<longleftrightarrow>
     optional OpaqueIdSchema (ctx_environmentId c) \<and>
     optional SourceJurisdictionSchema (ctx_jurisdiction c) \<and>
     optional SourceLocaleSchema (ctx_locale c) \<and>
     length (ctx_populationTags c) \<le> 64 \<and>
     list_all (AssuranceSummarySchema nfc) (ctx_populationTags c) \<and>
     strictly_sorted codeUnitLess (ctx_populationTags c) \<and>
     optional OpaqueIdSchema (ctx_taskKind c)"

datatype ApplicabilityExpression =
    EqualsEnvironmentId string
  | EqualsJurisdiction string
  | EqualsLocale string
  | EqualsRiskTier EvaluationRiskTier
  | EqualsTaskKind string
  | ContainsPopulationTag js_text
  | AllOf "ApplicabilityExpression list"
  | AnyOf "ApplicabilityExpression list"
  | NotExpression ApplicabilityExpression

definition MAX_APPLICABILITY_DEPTH :: nat where
  "MAX_APPLICABILITY_DEPTH = 8"

definition MAX_APPLICABILITY_NODES :: nat where
  "MAX_APPLICABILITY_NODES = 128"

definition MAX_APPLICABILITY_OPERANDS :: nat where
  "MAX_APPLICABILITY_OPERANDS = 8"

fun ApplicabilityExpressionRecursiveSchema ::
    "(js_text \<Rightarrow> js_text) \<Rightarrow> ApplicabilityExpression \<Rightarrow> bool" where
  "ApplicabilityExpressionRecursiveSchema nfc (EqualsEnvironmentId v) = OpaqueIdSchema v"
| "ApplicabilityExpressionRecursiveSchema nfc (EqualsJurisdiction v) = SourceJurisdictionSchema v"
| "ApplicabilityExpressionRecursiveSchema nfc (EqualsLocale v) = SourceLocaleSchema v"
| "ApplicabilityExpressionRecursiveSchema nfc (EqualsRiskTier _) = True"
| "ApplicabilityExpressionRecursiveSchema nfc (EqualsTaskKind v) = OpaqueIdSchema v"
| "ApplicabilityExpressionRecursiveSchema nfc (ContainsPopulationTag v) = AssuranceSummarySchema nfc v"
| "ApplicabilityExpressionRecursiveSchema nfc (AllOf es) =
     (1 \<le> length es \<and> length es \<le> MAX_APPLICABILITY_OPERANDS \<and>
      list_all (ApplicabilityExpressionRecursiveSchema nfc) es)"
| "ApplicabilityExpressionRecursiveSchema nfc (AnyOf es) =
     (1 \<le> length es \<and> length es \<le> MAX_APPLICABILITY_OPERANDS \<and>
      list_all (ApplicabilityExpressionRecursiveSchema nfc) es)"
| "ApplicabilityExpressionRecursiveSchema nfc (NotExpression e) =
     ApplicabilityExpressionRecursiveSchema nfc e"

section \<open>The complexity limit\<close>

text \<open>
  The traversal runs on the unparsed value. Values of the model are trees, so an object is never
  its own ancestor and the cycle test of the source never fires; the frames that leave an object
  are kept, they only pop.
\<close>

datatype js_tree = TreeLeaf | TreeNode "js_tree list"

datatype traversal_frame = EnterFrame nat js_tree | LeaveFrame js_tree

datatype complexity_violation = TooManyNodes | TooDeep

fun treeNodes :: "js_tree \<Rightarrow> nat" where
  "treeNodes TreeLeaf = 1"
| "treeNodes (TreeNode ts) = Suc (sum_list (map treeNodes ts))"

fun treeDepth :: "js_tree \<Rightarrow> nat" where
  "treeDepth TreeLeaf = 0"
| "treeDepth (TreeNode ts) = fold max (map (Suc \<circ> treeDepth) ts) 0"

fun frameWork :: "traversal_frame \<Rightarrow> nat" where
  "frameWork (EnterFrame _ t) = 2 * treeNodes t"
| "frameWork (LeaveFrame _) = 1"

lemma treeNodes_pos [simp]: "0 < treeNodes t"
  by (cases t) simp_all

function complexityLoop :: "nat \<Rightarrow> traversal_frame list \<Rightarrow> complexity_violation option" where
  "complexityLoop nodes [] = None"
| "complexityLoop nodes (LeaveFrame _ # stack) = complexityLoop nodes stack"
| "complexityLoop nodes (EnterFrame depth t # stack) =
     (if nodes + 1 > MAX_APPLICABILITY_NODES then Some TooManyNodes
      else if depth > MAX_APPLICABILITY_DEPTH then Some TooDeep
      else case t of
        TreeLeaf \<Rightarrow> complexityLoop (nodes + 1) stack
      | TreeNode children \<Rightarrow>
          complexityLoop (nodes + 1)
            (map (EnterFrame (depth + 1)) children @ LeaveFrame t # stack))"
  by pat_completeness auto
termination
  by (relation "measure (\<lambda>(_, stack). sum_list (map frameWork stack))")
    (auto simp: comp_def sum_list_const_mult)

definition applicabilityComplexityViolation :: "js_tree \<Rightarrow> complexity_violation option" where
  "applicabilityComplexityViolation v = complexityLoop 0 [EnterFrame 0 v]"

text \<open>
  The unparsed form of an expression: an equality or membership leaf has three string properties, a
  connective an array of operands and the operator, a negation its operand and the operator.
\<close>

fun expressionTree :: "ApplicabilityExpression \<Rightarrow> js_tree" where
  "expressionTree (AllOf es) = TreeNode [TreeNode (map expressionTree es), TreeLeaf]"
| "expressionTree (AnyOf es) = TreeNode [TreeNode (map expressionTree es), TreeLeaf]"
| "expressionTree (NotExpression e) = TreeNode [expressionTree e, TreeLeaf]"
| "expressionTree _ = TreeNode [TreeLeaf, TreeLeaf, TreeLeaf]"

definition ApplicabilityExpressionSchema ::
    "(js_text \<Rightarrow> js_text) \<Rightarrow> ApplicabilityExpression \<Rightarrow> bool" where
  "ApplicabilityExpressionSchema nfc e \<longleftrightarrow>
     applicabilityComplexityViolation (expressionTree e) = None \<and>
     ApplicabilityExpressionRecursiveSchema nfc e"

section \<open>Evaluation\<close>

datatype ApplicabilityResult = Applicable | NotApplicable | Undetermined

datatype ApplicabilityContextField =
  FieldEnvironmentId | FieldJurisdiction | FieldLocale | FieldPopulationTags | FieldRiskTier |
  FieldTaskKind

fun fieldName :: "ApplicabilityContextField \<Rightarrow> string" where
  "fieldName FieldEnvironmentId = ''environment_id''"
| "fieldName FieldJurisdiction = ''jurisdiction''"
| "fieldName FieldLocale = ''locale''"
| "fieldName FieldPopulationTags = ''population_tags''"
| "fieldName FieldRiskTier = ''risk_tier''"
| "fieldName FieldTaskKind = ''task_kind''"

datatype applicability_error = InvalidContext | InvalidExpression

record InternalEvaluation =
  ie_result :: ApplicabilityResult
  ie_unresolvedFields :: "ApplicabilityContextField list"

definition decided :: "ApplicabilityResult \<Rightarrow> InternalEvaluation" where
  "decided r = \<lparr>ie_result = r, ie_unresolvedFields = []\<rparr>"

definition undetermined :: "ApplicabilityContextField \<Rightarrow> InternalEvaluation" where
  "undetermined f = \<lparr>ie_result = Undetermined, ie_unresolvedFields = [f]\<rparr>"

text \<open>A \<open>Set\<close> built from a sequence keeps the first occurrence of each element.\<close>

fun insertionSet :: "'a list \<Rightarrow> 'a list" where
  "insertionSet [] = []"
| "insertionSet (x # xs) = x # filter (\<lambda>y. y \<noteq> x) (insertionSet xs)"

definition mergeUnresolvedFields :: "InternalEvaluation list \<Rightarrow> ApplicabilityContextField list" where
  "mergeUnresolvedFields es = insertionSet (concat (map ie_unresolvedFields es))"

definition evaluateEquals ::
    "ApplicabilityContextField \<Rightarrow> 'v option \<Rightarrow> 'v \<Rightarrow> InternalEvaluation" where
  "evaluateEquals field known v =
     (case known of
        None \<Rightarrow> undetermined field
      | Some x \<Rightarrow> decided (if x = v then Applicable else NotApplicable))"

definition evaluateAllOf :: "InternalEvaluation list \<Rightarrow> InternalEvaluation" where
  "evaluateAllOf operands =
     (if list_ex (\<lambda>x. ie_result x = NotApplicable) operands then decided NotApplicable
      else
        let unresolvedFields = mergeUnresolvedFields operands in
        if length unresolvedFields > 0
        then \<lparr>ie_result = Undetermined, ie_unresolvedFields = unresolvedFields\<rparr>
        else decided Applicable)"

definition evaluateAnyOf :: "InternalEvaluation list \<Rightarrow> InternalEvaluation" where
  "evaluateAnyOf operands =
     (if list_ex (\<lambda>x. ie_result x = Applicable) operands then decided Applicable
      else
        let unresolvedFields = mergeUnresolvedFields operands in
        if length unresolvedFields > 0
        then \<lparr>ie_result = Undetermined, ie_unresolvedFields = unresolvedFields\<rparr>
        else decided NotApplicable)"

fun evaluateExpression :: "ApplicabilityExpression \<Rightarrow> ApplicabilityContext \<Rightarrow> InternalEvaluation" where
  "evaluateExpression (EqualsEnvironmentId v) c =
     evaluateEquals FieldEnvironmentId (ctx_environmentId c) v"
| "evaluateExpression (EqualsJurisdiction v) c =
     evaluateEquals FieldJurisdiction (ctx_jurisdiction c) v"
| "evaluateExpression (EqualsLocale v) c = evaluateEquals FieldLocale (ctx_locale c) v"
| "evaluateExpression (EqualsRiskTier v) c = evaluateEquals FieldRiskTier (ctx_riskTier c) v"
| "evaluateExpression (EqualsTaskKind v) c = evaluateEquals FieldTaskKind (ctx_taskKind c) v"
| "evaluateExpression (ContainsPopulationTag v) c =
     decided (if v \<in> set (ctx_populationTags c) then Applicable else NotApplicable)"
| "evaluateExpression (NotExpression e) c =
     (let operand = evaluateExpression e c in
      if ie_result operand = Undetermined then operand
      else decided (if ie_result operand = Applicable then NotApplicable else Applicable))"
| "evaluateExpression (AllOf es) c = evaluateAllOf (map (\<lambda>e. evaluateExpression e c) es)"
| "evaluateExpression (AnyOf es) c = evaluateAnyOf (map (\<lambda>e. evaluateExpression e c) es)"

definition evaluateApplicability ::
    "(js_text \<Rightarrow> js_text) \<Rightarrow> ApplicabilityExpression \<Rightarrow> ApplicabilityContext \<Rightarrow>
     (applicability_error, ApplicabilityResult \<times> ApplicabilityContextField list) result" where
  "evaluateApplicability nfc expression context =
     (if \<not> ApplicabilityExpressionSchema nfc expression then Inl InvalidExpression
      else if \<not> ApplicabilityContextSchema nfc context then Inl InvalidContext
      else
        let evaluation = evaluateExpression expression context in
        Inr (ie_result evaluation,
             if ie_result evaluation = Undetermined
             then sortBy (\<lambda>a b. compareCodeUnits (fieldName a) (fieldName b))
                    (ie_unresolvedFields evaluation)
             else []))"

section \<open>Lemmas\<close>

lemma set_insertionSet [simp]: "set (insertionSet xs) = set xs"
  by (induction xs) auto

lemma distinct_insertionSet [simp]: "distinct (insertionSet xs)"
  by (induction xs) auto

lemma set_mergeUnresolvedFields [simp]:
  "set (mergeUnresolvedFields es) = (\<Union>e \<in> set es. set (ie_unresolvedFields e))"
  by (simp add: mergeUnresolvedFields_def)

text \<open>The facts a context leaves open.\<close>

definition missingFields :: "ApplicabilityContext \<Rightarrow> ApplicabilityContextField set" where
  "missingFields c =
     {f. (f = FieldEnvironmentId \<and> ctx_environmentId c = None) \<or>
         (f = FieldJurisdiction \<and> ctx_jurisdiction c = None) \<or>
         (f = FieldLocale \<and> ctx_locale c = None) \<or> (f = FieldRiskTier \<and> ctx_riskTier c = None) \<or>
         (f = FieldTaskKind \<and> ctx_taskKind c = None)}"

text \<open>One context extends another when it keeps every known fact.\<close>

definition extendsContext :: "ApplicabilityContext \<Rightarrow> ApplicabilityContext \<Rightarrow> bool" where
  "extendsContext c c' \<longleftrightarrow>
     (ctx_environmentId c = None \<or> ctx_environmentId c' = ctx_environmentId c) \<and>
     (ctx_jurisdiction c = None \<or> ctx_jurisdiction c' = ctx_jurisdiction c) \<and>
     (ctx_locale c = None \<or> ctx_locale c' = ctx_locale c) \<and>
     (ctx_riskTier c = None \<or> ctx_riskTier c' = ctx_riskTier c) \<and>
     (ctx_taskKind c = None \<or> ctx_taskKind c' = ctx_taskKind c) \<and>
     ctx_populationTags c' = ctx_populationTags c"

lemma evaluation_shape:
  "(ie_result (evaluateExpression e c) = Undetermined \<longleftrightarrow>
      ie_unresolvedFields (evaluateExpression e c) \<noteq> []) \<and>
   distinct (ie_unresolvedFields (evaluateExpression e c)) \<and>
   set (ie_unresolvedFields (evaluateExpression e c)) \<subseteq> missingFields c"
proof (induction e)
  case (AllOf es)
  then show ?case
    by (auto simp: evaluateAllOf_def Let_def decided_def mergeUnresolvedFields_def list_ex_iff)
next
  case (AnyOf es)
  then show ?case
    by (auto simp: evaluateAnyOf_def Let_def decided_def mergeUnresolvedFields_def list_ex_iff)
qed (auto simp: evaluateEquals_def decided_def undetermined_def missingFields_def Let_def
    split: option.splits)

lemma evaluation_undetermined_iff:
  "ie_result (evaluateExpression e c) = Undetermined \<longleftrightarrow>
   set (ie_unresolvedFields (evaluateExpression e c)) \<noteq> {}"
  using evaluation_shape [of e c] by auto

text \<open>The results of the connectives, as strong three-valued conjunction and disjunction.\<close>

lemma result_AllOf:
  "ie_result (evaluateExpression (AllOf es) c) =
     (if \<exists>e \<in> set es. ie_result (evaluateExpression e c) = NotApplicable then NotApplicable
      else if \<exists>e \<in> set es. ie_result (evaluateExpression e c) = Undetermined then Undetermined
      else Applicable)"
  by (auto simp: evaluateAllOf_def Let_def decided_def list_ex_iff evaluation_undetermined_iff
      simp flip: set_empty)

lemma result_AnyOf:
  "ie_result (evaluateExpression (AnyOf es) c) =
     (if \<exists>e \<in> set es. ie_result (evaluateExpression e c) = Applicable then Applicable
      else if \<exists>e \<in> set es. ie_result (evaluateExpression e c) = Undetermined then Undetermined
      else NotApplicable)"
  by (auto simp: evaluateAnyOf_def Let_def decided_def list_ex_iff evaluation_undetermined_iff
      simp flip: set_empty)

lemma result_cases: "r \<noteq> Undetermined \<Longrightarrow> r \<noteq> Applicable \<Longrightarrow> r = NotApplicable"
  by (cases r) auto

lemma evaluation_monotone:
  assumes "extendsContext c c'" and "ie_result (evaluateExpression e c) \<noteq> Undetermined"
  shows "ie_result (evaluateExpression e c') = ie_result (evaluateExpression e c)"
  using assms(2)
proof (induction e)
  case (AllOf es)
  then show ?case unfolding result_AllOf by (auto split: if_splits)
next
  case (AnyOf es)
  then show ?case unfolding result_AnyOf by (auto split: if_splits)
next
  case (NotExpression e)
  then show ?case by (auto simp: Let_def decided_def split: if_splits)
qed (use assms(1) in \<open>auto simp: extendsContext_def evaluateEquals_def decided_def undetermined_def
    split: option.splits\<close>)


lemma evaluation_resolves:
  assumes "extendsContext c c'"
    and "set (ie_unresolvedFields (evaluateExpression e c)) \<inter> missingFields c' = {}"
  shows "ie_result (evaluateExpression e c') \<noteq> Undetermined"
  using assms(2)
proof (induction e)
  case (AllOf es)
  show ?case
  proof (cases "ie_result (evaluateExpression (AllOf es) c) = Undetermined")
    case True
    then have "\<forall>e \<in> set es. set (ie_unresolvedFields (evaluateExpression e c)) \<inter> missingFields c' = {}"
      using AllOf.prems by (auto simp: evaluateAllOf_def Let_def decided_def split: if_splits)
    then show ?thesis using AllOf.IH unfolding result_AllOf by auto
  qed (use evaluation_monotone [OF assms(1)] in metis)
next
  case (AnyOf es)
  show ?case
  proof (cases "ie_result (evaluateExpression (AnyOf es) c) = Undetermined")
    case True
    then have "\<forall>e \<in> set es. set (ie_unresolvedFields (evaluateExpression e c)) \<inter> missingFields c' = {}"
      using AnyOf.prems by (auto simp: evaluateAnyOf_def Let_def decided_def split: if_splits)
    then show ?thesis using AnyOf.IH unfolding result_AnyOf by auto
  qed (use evaluation_monotone [OF assms(1)] in metis)
next
  case (NotExpression e)
  show ?case
  proof (cases "ie_result (evaluateExpression e c) = Undetermined")
    case True
    then show ?thesis using NotExpression by (auto simp: Let_def decided_def)
  next
    case False
    then show ?thesis using evaluation_monotone [OF assms(1) False] by (auto simp: Let_def decided_def)
  qed
qed (use assms(1) in \<open>auto simp: extendsContext_def evaluateEquals_def decided_def undetermined_def
    missingFields_def split: option.splits\<close>)

text \<open>The classical reading of an expression in a context with every fact known.\<close>

fun holds :: "ApplicabilityExpression \<Rightarrow> ApplicabilityContext \<Rightarrow> bool" where
  "holds (EqualsEnvironmentId v) c = (ctx_environmentId c = Some v)"
| "holds (EqualsJurisdiction v) c = (ctx_jurisdiction c = Some v)"
| "holds (EqualsLocale v) c = (ctx_locale c = Some v)"
| "holds (EqualsRiskTier v) c = (ctx_riskTier c = Some v)"
| "holds (EqualsTaskKind v) c = (ctx_taskKind c = Some v)"
| "holds (ContainsPopulationTag v) c = (v \<in> set (ctx_populationTags c))"
| "holds (AllOf es) c = (\<forall>e \<in> set es. holds e c)"
| "holds (AnyOf es) c = (\<exists>e \<in> set es. holds e c)"
| "holds (NotExpression e) c = (\<not> holds e c)"

lemma evaluation_classical:
  assumes "ie_result (evaluateExpression e c) \<noteq> Undetermined"
  shows "ie_result (evaluateExpression e c) = Applicable \<longleftrightarrow> holds e c"
  using assms
proof (induction e)
  case (AllOf es)
  have decided: "ie_result (evaluateExpression e c) = Applicable \<longleftrightarrow> holds e c"
    if "e \<in> set es" "ie_result (evaluateExpression e c) \<noteq> Undetermined" for e
    using AllOf.IH that by blast
  show ?case
  proof (cases "\<exists>e \<in> set es. ie_result (evaluateExpression e c) = NotApplicable")
    case True
    then obtain e where "e \<in> set es" "ie_result (evaluateExpression e c) = NotApplicable" by blast
    then show ?thesis using decided [of e] True by (auto simp only: result_AllOf holds.simps if_True simp_thms
        ApplicabilityResult.distinct)
  next
    case False
    then have "\<forall>e \<in> set es. ie_result (evaluateExpression e c) \<noteq> Undetermined"
      using AllOf.prems by (auto simp only: result_AllOf if_False split: if_splits)
    then have "\<forall>e \<in> set es. ie_result (evaluateExpression e c) = Applicable" using False result_cases by blast
    then show ?thesis using decided False by (auto simp only: result_AllOf holds.simps if_False simp_thms
        ApplicabilityResult.distinct split: if_splits)
  qed
next
  case (AnyOf es)
  have decided: "ie_result (evaluateExpression e c) = Applicable \<longleftrightarrow> holds e c"
    if "e \<in> set es" "ie_result (evaluateExpression e c) \<noteq> Undetermined" for e
    using AnyOf.IH that by blast
  show ?case
  proof (cases "\<exists>e \<in> set es. ie_result (evaluateExpression e c) = Applicable")
    case True
    then obtain e where "e \<in> set es" "ie_result (evaluateExpression e c) = Applicable" by blast
    then show ?thesis using decided [of e] True by (auto simp only: result_AnyOf holds.simps if_True simp_thms
        ApplicabilityResult.distinct)
  next
    case False
    then have "\<forall>e \<in> set es. ie_result (evaluateExpression e c) \<noteq> Undetermined"
      using AnyOf.prems by (auto simp only: result_AnyOf if_False split: if_splits)
    then have "\<forall>e \<in> set es. ie_result (evaluateExpression e c) = NotApplicable" using False result_cases by blast
    then show ?thesis using decided False by (auto simp only: result_AnyOf holds.simps if_False simp_thms
        ApplicabilityResult.distinct split: if_splits)
  qed
next
  case (NotExpression e)
  then show ?case by (auto simp: Let_def decided_def split: if_splits)
qed (auto simp: evaluateEquals_def decided_def undetermined_def split: option.splits)

lemma treeDepth_le: "treeDepth (TreeNode ts) \<le> d \<longleftrightarrow> (\<forall>t \<in> set ts. Suc (treeDepth t) \<le> d)"
proof -
  have "fold max xs m \<le> d \<longleftrightarrow> m \<le> d \<and> (\<forall>x \<in> set xs. x \<le> d)" for xs :: "nat list" and m
    by (induction xs arbitrary: m) auto
  then show ?thesis by simp
qed

text \<open>What the frames on the stack still allow.\<close>

fun frameFits :: "traversal_frame \<Rightarrow> bool" where
  "frameFits (EnterFrame d t) = (d + treeDepth t \<le> MAX_APPLICABILITY_DEPTH)"
| "frameFits (LeaveFrame _) = True"

fun frameNodes :: "traversal_frame \<Rightarrow> nat" where
  "frameNodes (EnterFrame _ t) = treeNodes t"
| "frameNodes (LeaveFrame _) = 0"

lemma complexityLoop_None_iff:
  "nodes \<le> MAX_APPLICABILITY_NODES \<Longrightarrow> complexityLoop nodes stack = None \<longleftrightarrow>
     nodes + sum_list (map frameNodes stack) \<le> MAX_APPLICABILITY_NODES \<and> list_all frameFits stack"
proof (induction nodes stack rule: complexityLoop.induct)
  case (3 nodes depth t stack)
  have kids: "list_all frameFits (map (EnterFrame (depth + 1)) ts) \<longleftrightarrow>
      (\<forall>t \<in> set ts. depth + Suc (treeDepth t) \<le> MAX_APPLICABILITY_DEPTH)" for ts
    by (simp add: list_all_iff)
  have depth: "depth + treeDepth (TreeNode ts) \<le> MAX_APPLICABILITY_DEPTH \<longleftrightarrow>
      depth \<le> MAX_APPLICABILITY_DEPTH \<and> (\<forall>t \<in> set ts. depth + Suc (treeDepth t) \<le> MAX_APPLICABILITY_DEPTH)" for ts
    using treeDepth_le [of ts "MAX_APPLICABILITY_DEPTH - depth"] by fastforce
  show ?case
  proof (cases t)
    case TreeLeaf
    then show ?thesis using 3 by auto
  next
    case (TreeNode ts)
    then show ?thesis using 3 kids [of ts] depth [of ts] by (auto simp: comp_def)
  qed
qed auto

lemma complexity_None_iff:
  "applicabilityComplexityViolation t = None \<longleftrightarrow>
     treeNodes t \<le> MAX_APPLICABILITY_NODES \<and> treeDepth t \<le> MAX_APPLICABILITY_DEPTH"
  unfolding applicabilityComplexityViolation_def by (subst complexityLoop_None_iff) simp_all

section \<open>Properties\<close>

text \<open>
  C33. Applicability is decided soundly. A decided answer is the classical truth value of the
  expression, and it never changes when facts that were unknown become known.
\<close>

theorem applicability_decided_soundly:
  assumes "evaluateApplicability nfc e c = Inr (r, missing)" and "r \<noteq> Undetermined"
    and "extendsContext c c'" and "ApplicabilityContextSchema nfc c'"
  shows "evaluateApplicability nfc e c' = Inr (r, []) \<and> (r = Applicable \<longleftrightarrow> holds e c')"
  using assms evaluation_monotone [OF assms(3), of e] evaluation_classical [of e c']
  by (auto simp: evaluateApplicability_def Let_def split: if_splits)

text \<open>
  An undetermined answer says what is missing. The reported fields are non-empty, distinct,
  in name order, all unknown in the context, and they suffice: once a context extends the given one
  with those facts, the same expression is decided.
\<close>

theorem applicability_reports_sufficient_fields:
  assumes "evaluateApplicability nfc e c = Inr (Undetermined, missing)"
  shows "missing \<noteq> [] \<and> sorted_wrt (<) (map fieldName missing) \<and> set missing \<subseteq> missingFields c \<and>
    (\<forall>c'. extendsContext c c' \<and> ApplicabilityContextSchema nfc c' \<and>
        set missing \<inter> missingFields c' = {} \<longrightarrow>
      (\<exists>r. r \<noteq> Undetermined \<and> evaluateApplicability nfc e c' = Inr (r, [])))"
proof -
  let ?u = "ie_unresolvedFields (evaluateExpression e c)"
  have e: "ApplicabilityExpressionSchema nfc e" and "ie_result (evaluateExpression e c) = Undetermined"
    and missing: "missing = sort_key fieldName ?u"
    using assms by (auto simp: evaluateApplicability_def Let_def sortBy_compareCodeUnits split: if_splits)
  then have shape: "?u \<noteq> []" "distinct ?u" "set ?u \<subseteq> missingFields c"
    using evaluation_shape [of e c] by auto
  have inj: "inj fieldName"
  proof (rule injI)
    fix a b assume "fieldName a = fieldName b"
    then show "a = b" by (cases a; cases b) simp_all
  qed
  have "distinct (map fieldName missing)"
    using shape(2) inj by (simp add: missing distinct_map inj_on_subset [OF inj])
  then have "sorted_wrt (<) (map fieldName missing)"
    using sorted_sort_key [of fieldName ?u] by (simp add: missing strict_sorted_iff)
  moreover have "missing \<noteq> []"
    using shape(1) by (metis missing length_0_conv length_sort)
  ultimately show ?thesis
    using shape(3) e evaluation_resolves [of c _ e]
    by (auto simp: missing evaluateApplicability_def Let_def)
qed

text \<open>
  C34. The explicit-stack complexity check is exact: it admits a value precisely when the whole tree
  has at most 128 nodes and no node lies more than 8 levels below the root.
\<close>

theorem applicability_complexity_exact:
  "applicabilityComplexityViolation t = None \<longleftrightarrow>
     treeNodes t \<le> MAX_APPLICABILITY_NODES \<and> treeDepth t \<le> MAX_APPLICABILITY_DEPTH"
  by (rule complexity_None_iff)

section \<open>Witnesses\<close>

definition exContext :: ApplicabilityContext where
  "exContext = \<lparr>ctx_environmentId = None, ctx_jurisdiction = Some ''eu'', ctx_locale = None,
     ctx_populationTags = [], ctx_riskTier = None, ctx_taskKind = None\<rparr>"

definition exContextFull :: ApplicabilityContext where
  "exContextFull = exContext\<lparr>ctx_riskTier := Some HighTier\<rparr>"

definition exExpression :: ApplicabilityExpression where
  "exExpression = AllOf [EqualsJurisdiction ''eu'', NotExpression (EqualsRiskTier LowTier)]"

definition exDecided :: ApplicabilityExpression where
  "exDecided = AnyOf [EqualsJurisdiction ''eu'', EqualsRiskTier LowTier]"

lemma ex_jurisdiction [simp]: "SourceJurisdictionSchema ''eu''"
  by code_simp

lemma ex_contexts [simp]: "ApplicabilityContextSchema nfc exContext" "ApplicabilityContextSchema nfc exContextFull"
  by (simp_all add: ApplicabilityContextSchema_def exContext_def exContextFull_def)

lemma ex_expressions [simp]: "ApplicabilityExpressionSchema nfc exExpression" "ApplicabilityExpressionSchema nfc exDecided"
  by (simp_all add: ApplicabilityExpressionSchema_def exExpression_def exDecided_def
      MAX_APPLICABILITY_OPERANDS_def complexity_None_iff MAX_APPLICABILITY_NODES_def
      MAX_APPLICABILITY_DEPTH_def)

lemma ex_extends: "extendsContext exContext exContextFull"
  by (simp add: extendsContext_def exContext_def exContextFull_def)

theorem applicability_decided_soundly_witness:
  "evaluateApplicability (\<lambda>s. s) exDecided exContextFull = Inr (Applicable, [])"
proof -
  have "evaluateApplicability (\<lambda>s. s) exDecided exContext = Inr (Applicable, [])"
    by (simp add: evaluateApplicability_def, simp add: exDecided_def exContext_def evaluateAnyOf_def
        evaluateEquals_def decided_def undetermined_def)
  from applicability_decided_soundly [OF this _ ex_extends] show ?thesis by simp
qed

theorem applicability_reports_sufficient_fields_witness:
  "\<exists>r. r \<noteq> Undetermined \<and> evaluateApplicability (\<lambda>s. s) exExpression exContextFull = Inr (r, [])"
proof -
  have "evaluateApplicability (\<lambda>s. s) exExpression exContext = Inr (Undetermined, [FieldRiskTier])"
    by (simp add: evaluateApplicability_def, simp add: exExpression_def exContext_def evaluateAllOf_def
        evaluateEquals_def decided_def undetermined_def mergeUnresolvedFields_def sortBy_def)
  moreover have "set [FieldRiskTier] \<inter> missingFields exContextFull = {}"
    by (simp add: exContextFull_def missingFields_def)
  ultimately show ?thesis
    using applicability_reports_sufficient_fields ex_extends ex_contexts(2) by blast
qed

end
