(* ===== verification/Policy_Time.thy ===== *)
theory Policy_Time
  imports Digits
begin

text \<open>
  Instants of the policy-evaluation scheduler: \<open>packages/contracts/src/policy-evaluation-time.ts\<close> and
  the receipt arithmetic of \<open>packages/core/src/policy/policy-evaluation-scheduler-time.ts\<close>.

  A UTC timestamp text is determined by its whole seconds and its fraction digits (none, or 1 to 30
  of them), so that is the model's type; two texts of the same instant stay different values. The
  order key is the exact instant in units of \<open>10\<^sup>-\<^sup>30\<close> seconds.
\<close>

section \<open>Timestamps\<close>

record policy_time =
  pt_seconds :: int
  pt_fraction :: string

definition PolicyEvaluationTimeSchema :: "policy_time \<Rightarrow> bool" where
  "PolicyEvaluationTimeSchema t \<longleftrightarrow>
     MIN_UTC_MS \<le> pt_seconds t * 1000 \<and> pt_seconds t * 1000 + 999 \<le> MAX_UTC_MS \<and>
     length (pt_fraction t) \<le> 30 \<and> list_all digit_char (pt_fraction t)"

definition POLICY_EVALUATION_TIME_UNITS_PER_MILLISECOND :: int where
  "POLICY_EVALUATION_TIME_UNITS_PER_MILLISECOND = 10 ^ 27"

definition padEnd :: "nat \<Rightarrow> char \<Rightarrow> string \<Rightarrow> string" where
  "padEnd n c s = s @ replicate (n - length s) c"

definition policyEvaluationTimestampOrderKey :: "policy_time \<Rightarrow> int" where
  "policyEvaluationTimestampOrderKey t =
     (let wholeMilliseconds = pt_seconds t * 1000 in
      wholeMilliseconds * POLICY_EVALUATION_TIME_UNITS_PER_MILLISECOND +
      bigInt (padEnd 30 CHR ''0'' (pt_fraction t)))"

text \<open>The order key of a canonical millisecond timestamp.\<close>

definition millisecondOrderKey :: "utc_ms \<Rightarrow> int" where
  "millisecondOrderKey t = t * POLICY_EVALUATION_TIME_UNITS_PER_MILLISECOND"

abbreviation tkey :: "policy_time \<Rightarrow> int" where
  "tkey \<equiv> policyEvaluationTimestampOrderKey"

section \<open>Receipt arithmetic\<close>

datatype time_error = DurationRangeError | TimeDateError | TimeZodError

definition unitsPerSecond :: int where
  "unitsPerSecond = POLICY_EVALUATION_TIME_UNITS_PER_MILLISECOND * 1000"

text \<open>\<open>replace(/0+$/, "")\<close>\<close>

definition stripZeros :: "string \<Rightarrow> string" where
  "stripZeros s = rev (dropWhile (\<lambda>c. c = CHR ''0'') (rev s))"

text \<open>The remainder of big integers has the sign of the dividend.\<close>

definition bigintMod :: "int \<Rightarrow> int \<Rightarrow> int" where
  "bigintMod a b = a - b * bigintDiv a b"

definition addPolicyEvaluationMilliseconds ::
    "policy_time \<Rightarrow> int \<Rightarrow> (time_error, policy_time) result" where
  "addPolicyEvaluationMilliseconds v duration =
     (if \<not> isSafeInteger (JsInt duration) \<or> duration < 0 then Inl DurationRangeError
      else if \<not> PolicyEvaluationTimeSchema v then Inl TimeZodError
      else
        let key = policyEvaluationTimestampOrderKey v +
              duration * POLICY_EVALUATION_TIME_UNITS_PER_MILLISECOND;
            seconds0 = bigintDiv key unitsPerSecond;
            fraction0 = bigintMod key unitsPerSecond;
            seconds = (if fraction0 < 0 then seconds0 - 1 else seconds0);
            fraction = (if fraction0 < 0 then fraction0 + unitsPerSecond else fraction0);
            digits = stripZeros (padStart 30 CHR ''0'' (showInt fraction));
            r = \<lparr>pt_seconds = seconds, pt_fraction = (if digits \<noteq> [] then digits else ''000'')\<rparr>
        in if \<bar>seconds * 1000\<bar> > MAX_DATE_MS then Inl TimeDateError
           else if PolicyEvaluationTimeSchema r then Inr r else Inl TimeZodError)"

definition earlierPolicyEvaluationTime :: "policy_time \<Rightarrow> policy_time \<Rightarrow> policy_time" where
  "earlierPolicyEvaluationTime left right =
     (if policyEvaluationTimestampOrderKey left \<le> policyEvaluationTimestampOrderKey right
      then left else right)"

definition addPolicyEvaluationMillisecondsUpTo ::
    "policy_time \<Rightarrow> int \<Rightarrow> policy_time \<Rightarrow> (time_error, policy_time) result" where
  "addPolicyEvaluationMillisecondsUpTo v duration ceiling =
     (if \<not> isSafeInteger (JsInt duration) \<or> duration < 0 then Inl DurationRangeError
      else if \<not> PolicyEvaluationTimeSchema ceiling then Inl TimeZodError
      else if \<not> PolicyEvaluationTimeSchema v then Inl TimeZodError
      else
        let target = policyEvaluationTimestampOrderKey v +
              duration * POLICY_EVALUATION_TIME_UNITS_PER_MILLISECOND
        in if target \<ge> policyEvaluationTimestampOrderKey ceiling then Inr ceiling
           else addPolicyEvaluationMilliseconds v duration)"

section \<open>Lemmas\<close>

lemma bigintDiv_floor:
  assumes "0 < b"
  shows "(if bigintMod a b < 0 then bigintDiv a b - 1 else bigintDiv a b) = a div b"
    and "(if bigintMod a b < 0 then bigintMod a b + b else bigintMod a b) = a mod b"
proof -
  have "0 \<le> a \<Longrightarrow> bigintDiv a b = a div b" using assms by (cases "a = 0") (auto simp: bigintDiv_def)
  moreover have "bigintDiv a b = - (- a div b)" if "a < 0" using assms that by (simp add: bigintDiv_def)
  moreover have "- (- a div b) = (if a mod b = 0 then a div b else a div b + 1)"
    using assms by (simp add: zdiv_zminus1_eq_if)
  ultimately have quotient: "bigintDiv a b = (if a < 0 \<and> a mod b \<noteq> 0 then a div b + 1 else a div b)"
    by (cases "a < 0") auto
  then have "bigintMod a b = (if a < 0 \<and> a mod b \<noteq> 0 then a mod b - b else a mod b)"
    using minus_mult_div_eq_mod [of a b] by (auto simp: bigintMod_def distrib_left)
  then show "(if bigintMod a b < 0 then bigintDiv a b - 1 else bigintDiv a b) = a div b"
    "(if bigintMod a b < 0 then bigintMod a b + b else bigintMod a b) = a mod b"
    using quotient pos_mod_bound [OF assms, of a] pos_mod_sign [OF assms, of a] by auto
qed

lemma bigInt_digits: "list_all digit_char s \<Longrightarrow> bigInt s = digitsInt s"
  by (cases s) (auto simp: bigInt_def digit_char_def in_range_def)

lemma digitsInt_padEnd: "length s \<le> n \<Longrightarrow> digitsInt (padEnd n CHR ''0'' s) = digitsInt s * 10 ^ (n - length s)"
proof -
  have "digitsInt (replicate (n - length s) CHR ''0'') = 0"
    using digitsInt_zeros [of "n - length s" "[]"] by (simp add: digitsInt_def)
  then show ?thesis by (simp add: padEnd_def digitsInt_append)
qed

lemma tkey_fraction:
  assumes "PolicyEvaluationTimeSchema t"
  shows "tkey t = pt_seconds t * 10 ^ 30 + digitsInt (pt_fraction t) * 10 ^ (30 - length (pt_fraction t))"
proof -
  have "list_all digit_char (padEnd 30 CHR ''0'' (pt_fraction t))"
    using assms by (auto simp: padEnd_def PolicyEvaluationTimeSchema_def list_all_iff digit_char_def in_range_def)
  then show ?thesis
    using assms
    by (simp add: policyEvaluationTimestampOrderKey_def bigInt_digits digitsInt_padEnd
        PolicyEvaluationTimeSchema_def POLICY_EVALUATION_TIME_UNITS_PER_MILLISECOND_def)
qed

lemma tkey_seconds:
  assumes "PolicyEvaluationTimeSchema t"
  shows "tkey t div 10 ^ 30 = pt_seconds t"
proof -
  let ?f = "pt_fraction t"
  have digits: "list_all digit_char ?f" "length ?f \<le> 30"
    using assms by (auto simp: PolicyEvaluationTimeSchema_def)
  have "digitsInt ?f * 10 ^ (30 - length ?f) < 10 ^ length ?f * 10 ^ (30 - length ?f)"
    using digitsInt_bound [OF digits(1)] by (simp add: mult_strict_right_mono)
  also have "\<dots> = 10 ^ 30" using digits(2) by (simp flip: power_add)
  finally show ?thesis
    using digitsInt_nonneg [OF digits(1)] by (simp add: tkey_fraction [OF assms] div_add1_eq)
qed

lemma stripZeros_join: "s = stripZeros s @ replicate (length s - length (stripZeros s)) CHR ''0''"
proof -
  let ?z = "\<lambda>c. c = CHR ''0''"
  have "s = rev (takeWhile ?z (rev s) @ dropWhile ?z (rev s))" by simp
  then have split: "s = stripZeros s @ rev (takeWhile ?z (rev s))"
    by (simp only: rev_append stripZeros_def)
  have "takeWhile ?z xs = replicate (length (takeWhile ?z xs)) CHR ''0''" for xs
    by (induction xs) auto
  then have "rev (takeWhile ?z (rev s)) = replicate (length (takeWhile ?z (rev s))) CHR ''0''"
    by (metis rev_replicate)
  moreover have "length s = length (stripZeros s) + length (takeWhile ?z (rev s))"
    by (subst split) simp
  ultimately show ?thesis using split by simp
qed


lemma digitsInt_stripZeros:
  "digitsInt (stripZeros s) * 10 ^ (length s - length (stripZeros s)) = digitsInt s"
proof -
  let ?k = "length s - length (stripZeros s)"
  have "digitsInt (replicate ?k CHR ''0'') = 0"
    using digitsInt_zeros [of ?k "[]"] by (simp add: digitsInt_def)
  then have "digitsInt (stripZeros s @ replicate ?k CHR ''0'') = digitsInt (stripZeros s) * 10 ^ ?k"
    by (simp add: digitsInt_append)
  then show ?thesis using stripZeros_join [of s] by simp
qed

lemma stripZeros_sub: "set (stripZeros s) \<subseteq> set s" "length (stripZeros s) \<le> length s"
  by (auto simp: stripZeros_def dest: set_dropWhileD) (metis length_dropWhile_le length_rev)

text \<open>The fraction text of a remainder: at most 30 digits, denoting exactly the remainder.\<close>

lemma fractionText:
  fixes f :: int
  assumes "0 \<le> f" and "f < 10 ^ 30"
  defines "digits \<equiv> stripZeros (padStart 30 CHR ''0'' (showInt f))"
  defines "txt \<equiv> (if digits \<noteq> [] then digits else ''000'')"
  shows "list_all digit_char txt" "length txt \<le> 30" "digitsInt txt * 10 ^ (30 - length txt) = f"
proof -
  let ?p = "padStart 30 CHR ''0'' (showInt f)"
  have shown: "showInt f = showNat (nat f)" using assms(1) by (simp add: showInt_def)
  have len: "length ?p = 30"
    using length_showInt_nonneg [of f 30] assms by (simp add: padStart_def)
  have all: "list_all digit_char ?p"
    using canonicalDigits_showNat [of "nat f"]
    by (auto simp: shown padStart_def list_all_iff digit_char_def in_range_def)
  have number: "digitsInt ?p = f"
    using assms(1) by (simp add: shown padStart_def digitsInt_zeros digitsInt_showNat)
  have strip: "digitsInt digits * 10 ^ (30 - length digits) = f"
    using digitsInt_stripZeros [of ?p] len number by (simp add: digits_def)
  show "list_all digit_char txt"
    using all stripZeros_sub(1) [of ?p]
    by (auto simp: txt_def digits_def list_all_iff digit_char_def in_range_def)
  show "length txt \<le> 30"
    using stripZeros_sub(2) [of ?p] len by (auto simp: txt_def digits_def)
  show "digitsInt txt * 10 ^ (30 - length txt) = f"
    using strip by (auto simp: txt_def) (simp add: digitsInt_def digitValue_def)
qed

lemma unitsPerSecond_pos: "0 < unitsPerSecond"
  by (simp add: unitsPerSecond_def POLICY_EVALUATION_TIME_UNITS_PER_MILLISECOND_def)

lemma unitsPerSecond_eq: "unitsPerSecond = 10 ^ 30"
  by (simp add: unitsPerSecond_def POLICY_EVALUATION_TIME_UNITS_PER_MILLISECOND_def)

lemma addPolicyEvaluationMilliseconds_exact:
  assumes v: "PolicyEvaluationTimeSchema v" and c: "PolicyEvaluationTimeSchema c"
    and d: "0 \<le> d" "d \<le> MAX_SAFE_INTEGER"
    and le: "tkey v + d * POLICY_EVALUATION_TIME_UNITS_PER_MILLISECOND \<le> tkey c"
  shows "\<exists>r. addPolicyEvaluationMilliseconds v d = Inr r \<and> PolicyEvaluationTimeSchema r \<and>
    tkey r = tkey v + d * POLICY_EVALUATION_TIME_UNITS_PER_MILLISECOND"
proof -
  define key where "key = tkey v + d * POLICY_EVALUATION_TIME_UNITS_PER_MILLISECOND"
  define digits where "digits = stripZeros (padStart 30 CHR ''0'' (showInt (key mod 10 ^ 30)))"
  define r where "r = \<lparr>pt_seconds = key div 10 ^ 30,
    pt_fraction = (if digits \<noteq> [] then digits else ''000'')\<rparr>"
  have "pt_seconds v \<le> key div 10 ^ 30" "key div 10 ^ 30 \<le> pt_seconds c"
    unfolding tkey_seconds [OF v, symmetric] tkey_seconds [OF c, symmetric]
    using d(1) le by (auto intro!: zdiv_mono1 simp: key_def POLICY_EVALUATION_TIME_UNITS_PER_MILLISECOND_def)
  then have range: "MIN_UTC_MS \<le> (key div 10 ^ 30) * 1000" "(key div 10 ^ 30) * 1000 + 999 \<le> MAX_UTC_MS"
    using v c by (auto simp: PolicyEvaluationTimeSchema_def)
  have "0 \<le> key mod 10 ^ 30" "key mod 10 ^ 30 < 10 ^ 30" by simp_all
  note fraction = fractionText [OF this, folded digits_def]
  have schema: "PolicyEvaluationTimeSchema r"
    using range fraction(1,2) by (simp only: PolicyEvaluationTimeSchema_def r_def policy_time.simps simp_thms)
  have "tkey r = key"
    unfolding tkey_fraction [OF schema] unfolding r_def policy_time.simps fraction(3)
    by (rule div_mult_mod_eq)
  moreover have "addPolicyEvaluationMilliseconds v d = Inr r"
  proof -
    have early: "\<bar>(key div 10 ^ 30) * 1000\<bar> \<le> MAX_DATE_MS"
      using range by (simp add: MAX_DATE_MS_def MIN_UTC_MS_def MAX_UTC_MS_def)
    show ?thesis
      unfolding addPolicyEvaluationMilliseconds_def Let_def key_def [symmetric]
        bigintDiv_floor [OF unitsPerSecond_pos]
      unfolding unitsPerSecond_eq digits_def [symmetric] r_def [symmetric]
      using v d schema early by (simp add: MAX_SAFE_INTEGER_def)
  qed
  ultimately show ?thesis using schema by (auto simp: key_def)
qed

lemma addUpTo_exact:
  assumes "PolicyEvaluationTimeSchema v" and "PolicyEvaluationTimeSchema c"
    and "0 \<le> d" and "d \<le> MAX_SAFE_INTEGER"
  shows "\<exists>r. addPolicyEvaluationMillisecondsUpTo v d c = Inr r \<and> PolicyEvaluationTimeSchema r \<and>
    tkey r = min (tkey v + d * POLICY_EVALUATION_TIME_UNITS_PER_MILLISECOND) (tkey c)"
proof (cases "tkey c \<le> tkey v + d * POLICY_EVALUATION_TIME_UNITS_PER_MILLISECOND")
  case True
  then show ?thesis using assms by (simp add: addPolicyEvaluationMillisecondsUpTo_def Let_def)
next
  case False
  then show ?thesis
    using addPolicyEvaluationMilliseconds_exact [OF assms] assms
    by (auto simp: addPolicyEvaluationMillisecondsUpTo_def Let_def)
qed

section \<open>Properties\<close>

text \<open>
  C28. Receipt arithmetic is exact. Adding a duration to a receipt under a ceiling always returns a
  valid timestamp whose instant is the exact sum, or the ceiling when that is earlier, to all thirty
  fractional digits, before and after the epoch.
\<close>

theorem receipt_arithmetic_exact:
  assumes "PolicyEvaluationTimeSchema v" and "PolicyEvaluationTimeSchema c"
    and "0 \<le> d" and "d \<le> MAX_SAFE_INTEGER"
  shows "\<exists>r. addPolicyEvaluationMillisecondsUpTo v d c = Inr r \<and> PolicyEvaluationTimeSchema r \<and>
    policyEvaluationTimestampOrderKey r =
      min (policyEvaluationTimestampOrderKey v + d * POLICY_EVALUATION_TIME_UNITS_PER_MILLISECOND)
        (policyEvaluationTimestampOrderKey c)"
  by (rule addUpTo_exact [OF assms])

theorem receipt_arithmetic_exact_witness:
  "\<exists>r. addPolicyEvaluationMillisecondsUpTo \<lparr>pt_seconds = -1, pt_fraction = ''5''\<rparr> 700
       \<lparr>pt_seconds = 9, pt_fraction = []\<rparr> = Inr r \<and> policyEvaluationTimestampOrderKey r = 2 * 10 ^ 29"
proof -
  let ?v = "\<lparr>pt_seconds = -1, pt_fraction = ''5''\<rparr>" and ?c = "\<lparr>pt_seconds = 9, pt_fraction = []\<rparr>"
  have schema: "PolicyEvaluationTimeSchema ?v" "PolicyEvaluationTimeSchema ?c"
    by (simp_all add: PolicyEvaluationTimeSchema_def MIN_UTC_MS_def MAX_UTC_MS_def digit_char_def in_range_def)
  have "tkey ?v = - 5 * 10 ^ 29" "tkey ?c = 9 * 10 ^ 30"
    unfolding tkey_fraction [OF schema(1)] tkey_fraction [OF schema(2)]
    by (simp_all add: digitsInt_def digitValue_def)
  then show ?thesis
    using receipt_arithmetic_exact [OF schema, of 700]
    by (auto simp: MAX_SAFE_INTEGER_def POLICY_EVALUATION_TIME_UNITS_PER_MILLISECOND_def)
qed

end
