(* ===== verification/Policy_Job.thy ===== *)
theory Policy_Job
  imports Policy_Time
begin

text \<open>
  The scheduler contracts of policy evaluation, under \<open>packages/contracts/src\<close>: requests and frozen
  limits (\<open>policy-evaluation-request.ts\<close>), fences and leases (\<open>policy-evaluation-job-fence.ts\<close>), jobs
  (\<open>policy-evaluation-job.ts\<close>), attempts, usage and cancellation (\<open>policy-evaluation-attempt.ts\<close>),
  acquisition allowances (\<open>policy-evaluation-acquisition-allowance.ts\<close>) and the complete scheduler
  graph (\<open>policy-evaluation-job-snapshot.ts\<close>). Literal version and algorithm fields are left out;
  equality of canonical serializations is equality of the values.
\<close>

section \<open>References\<close>

record ReleaseCandidateReference =
  cand_candidateId :: string
  cand_candidateVersionId :: string
  cand_definitionSha256 :: string

definition ReleaseCandidateReferenceSchema :: "ReleaseCandidateReference \<Rightarrow> bool" where
  "ReleaseCandidateReferenceSchema r \<longleftrightarrow>
     OpaqueIdSchema (cand_candidateId r) \<and> OpaqueIdSchema (cand_candidateVersionId r) \<and>
     Sha256Schema (cand_definitionSha256 r)"

record ReleasePolicyReference =
  rpol_definitionSha256 :: string
  rpol_policyId :: string
  rpol_policyVersionId :: string

definition ReleasePolicyReferenceSchema :: "ReleasePolicyReference \<Rightarrow> bool" where
  "ReleasePolicyReferenceSchema r \<longleftrightarrow>
     Sha256Schema (rpol_definitionSha256 r) \<and> OpaqueIdSchema (rpol_policyId r) \<and>
     OpaqueIdSchema (rpol_policyVersionId r)"

record PolicyEvaluationSnapshotReference =
  snapref_snapshotId :: string
  snapref_definitionSha256 :: string

definition PolicyEvaluationSnapshotReferenceSchema :: "PolicyEvaluationSnapshotReference \<Rightarrow> bool" where
  "PolicyEvaluationSnapshotReferenceSchema r \<longleftrightarrow>
     OpaqueIdSchema (snapref_snapshotId r) \<and> Sha256Schema (snapref_definitionSha256 r)"

record PolicyEvaluationResultReference =
  resref_evaluationId :: string
  resref_definitionSha256 :: string

definition PolicyEvaluationResultReferenceSchema :: "PolicyEvaluationResultReference \<Rightarrow> bool" where
  "PolicyEvaluationResultReferenceSchema r \<longleftrightarrow>
     OpaqueIdSchema (resref_evaluationId r) \<and> Sha256Schema (resref_definitionSha256 r)"

record PolicyEvaluationRequestReference =
  reqref_definitionSha256 :: string
  reqref_evaluationRequestId :: string

definition PolicyEvaluationRequestReferenceSchema :: "PolicyEvaluationRequestReference \<Rightarrow> bool" where
  "PolicyEvaluationRequestReferenceSchema r \<longleftrightarrow>
     Sha256Schema (reqref_definitionSha256 r) \<and> OpaqueIdSchema (reqref_evaluationRequestId r)"

section \<open>Requests\<close>

definition MAX_POLICY_RULES :: int where "MAX_POLICY_RULES = 128"
definition MAX_POLICY_EVALUATION_ATTEMPTS :: int where "MAX_POLICY_EVALUATION_ATTEMPTS = 8"
definition MAX_POLICY_EVALUATION_ACQUISITION_RECORDS :: int where
  "MAX_POLICY_EVALUATION_ACQUISITION_RECORDS = 100000"
definition MAX_POLICY_EVALUATION_ACQUISITION_RECORD_BYTES :: int where
  "MAX_POLICY_EVALUATION_ACQUISITION_RECORD_BYTES = 64 * 1024 * 1024"
definition MAX_POLICY_EVALUATION_ARTIFACT_READ_BYTES :: int where
  "MAX_POLICY_EVALUATION_ARTIFACT_READ_BYTES = 256 * 1024 * 1024"
definition MAX_POLICY_EVALUATION_RULE_EVALUATIONS :: int where
  "MAX_POLICY_EVALUATION_RULE_EVALUATIONS = MAX_POLICY_RULES * MAX_POLICY_EVALUATION_ATTEMPTS"
definition MAX_POLICY_EVALUATION_LEASE_MILLISECONDS :: int where
  "MAX_POLICY_EVALUATION_LEASE_MILLISECONDS = 60000"
definition MAX_POLICY_EVALUATION_HEARTBEAT_MILLISECONDS :: int where
  "MAX_POLICY_EVALUATION_HEARTBEAT_MILLISECONDS = 10000"
definition MAX_POLICY_EVALUATION_ATTEMPT_MILLISECONDS :: int where
  "MAX_POLICY_EVALUATION_ATTEMPT_MILLISECONDS = 15 * 60000"
definition MAX_POLICY_EVALUATION_DEADLINE_MILLISECONDS :: int where
  "MAX_POLICY_EVALUATION_DEADLINE_MILLISECONDS = 60 * 60000"
definition MAX_POLICY_EVALUATION_BACKOFF_MILLISECONDS :: int where
  "MAX_POLICY_EVALUATION_BACKOFF_MILLISECONDS = 60000"

lemmas policy_limits = MAX_POLICY_RULES_def MAX_POLICY_EVALUATION_ATTEMPTS_def
  MAX_POLICY_EVALUATION_ACQUISITION_RECORDS_def MAX_POLICY_EVALUATION_ACQUISITION_RECORD_BYTES_def
  MAX_POLICY_EVALUATION_ARTIFACT_READ_BYTES_def MAX_POLICY_EVALUATION_RULE_EVALUATIONS_def
  MAX_POLICY_EVALUATION_LEASE_MILLISECONDS_def MAX_POLICY_EVALUATION_HEARTBEAT_MILLISECONDS_def
  MAX_POLICY_EVALUATION_ATTEMPT_MILLISECONDS_def MAX_POLICY_EVALUATION_DEADLINE_MILLISECONDS_def
  MAX_POLICY_EVALUATION_BACKOFF_MILLISECONDS_def

datatype PolicyEvaluationRetryableError =
  LeaseExpiredError | SourceRevisionChanged | SourceTemporarilyUnavailable | WorkerInterrupted

fun policyRetryableName :: "PolicyEvaluationRetryableError \<Rightarrow> string" where
  "policyRetryableName LeaseExpiredError = ''lease_expired''"
| "policyRetryableName SourceRevisionChanged = ''source_revision_changed''"
| "policyRetryableName SourceTemporarilyUnavailable = ''source_temporarily_unavailable''"
| "policyRetryableName WorkerInterrupted = ''worker_interrupted''"

definition boundedInteger :: "int \<Rightarrow> int \<Rightarrow> int \<Rightarrow> bool" where
  "boundedInteger minimum maximum n \<longleftrightarrow> minimum \<le> n \<and> n \<le> maximum"

record PolicyEvaluationExecutionLimits =
  lim_heartbeatIntervalMilliseconds :: int
  lim_leaseDurationMilliseconds :: int
  lim_maxAcquisitionRecordBytes :: int
  lim_maxAcquisitionRecords :: int
  lim_maxArtifactReadBytes :: int
  lim_maxAttempts :: int
  lim_maxRuleEvaluations :: int
  lim_perAttemptTimeoutMilliseconds :: int
  lim_retryBackoffMilliseconds :: int
  lim_retryableErrors :: "PolicyEvaluationRetryableError list"
  lim_totalDeadlineMilliseconds :: int

definition PolicyEvaluationExecutionLimitsSchema :: "PolicyEvaluationExecutionLimits \<Rightarrow> bool" where
  "PolicyEvaluationExecutionLimitsSchema v \<longleftrightarrow>
     boundedInteger 100 MAX_POLICY_EVALUATION_HEARTBEAT_MILLISECONDS
       (lim_heartbeatIntervalMilliseconds v) \<and>
     boundedInteger 1000 MAX_POLICY_EVALUATION_LEASE_MILLISECONDS (lim_leaseDurationMilliseconds v) \<and>
     boundedInteger 1 MAX_POLICY_EVALUATION_ACQUISITION_RECORD_BYTES
       (lim_maxAcquisitionRecordBytes v) \<and>
     boundedInteger 2 MAX_POLICY_EVALUATION_ACQUISITION_RECORDS (lim_maxAcquisitionRecords v) \<and>
     boundedInteger 0 MAX_POLICY_EVALUATION_ARTIFACT_READ_BYTES (lim_maxArtifactReadBytes v) \<and>
     boundedInteger 1 MAX_POLICY_EVALUATION_ATTEMPTS (lim_maxAttempts v) \<and>
     boundedInteger 1 MAX_POLICY_EVALUATION_RULE_EVALUATIONS (lim_maxRuleEvaluations v) \<and>
     boundedInteger 1000 MAX_POLICY_EVALUATION_ATTEMPT_MILLISECONDS
       (lim_perAttemptTimeoutMilliseconds v) \<and>
     boundedInteger 0 MAX_POLICY_EVALUATION_BACKOFF_MILLISECONDS (lim_retryBackoffMilliseconds v) \<and>
     length (lim_retryableErrors v) \<le> 4 \<and>
     strictly_sorted codeUnitLess (map policyRetryableName (lim_retryableErrors v)) \<and>
     boundedInteger 1000 MAX_POLICY_EVALUATION_DEADLINE_MILLISECONDS
       (lim_totalDeadlineMilliseconds v) \<and>
     \<not> lim_heartbeatIntervalMilliseconds v * 3 > lim_leaseDurationMilliseconds v \<and>
     \<not> lim_leaseDurationMilliseconds v > lim_perAttemptTimeoutMilliseconds v \<and>
     \<not> lim_perAttemptTimeoutMilliseconds v > lim_totalDeadlineMilliseconds v \<and>
     \<not> lim_maxRuleEvaluations v > MAX_POLICY_RULES * lim_maxAttempts v \<and>
     (if lim_maxAttempts v = 1 then
        \<not> (length (lim_retryableErrors v) \<noteq> 0 \<or> lim_retryBackoffMilliseconds v \<noteq> 0)
      else
        \<not> (length (lim_retryableErrors v) = 0) \<and>
        \<not> (lim_retryBackoffMilliseconds v \<ge> lim_totalDeadlineMilliseconds v))"

record PolicyEvaluationRequest =
  prq_candidate :: ReleaseCandidateReference
  prq_createdAt :: utc_ms
  prq_createdByPrincipalId :: string
  prq_definitionSha256 :: string
  prq_evaluationRequestId :: string
  prq_evaluationTime :: policy_time
  prq_limits :: PolicyEvaluationExecutionLimits
  prq_policy :: ReleasePolicyReference
  prq_scope :: EvidenceScope

definition MAX_SERVER_TIME_KEY :: int where
  "MAX_SERVER_TIME_KEY = millisecondOrderKey MAX_UTC_MS"

definition requestDeadline :: "PolicyEvaluationRequest \<Rightarrow> int" where
  "requestDeadline r =
     millisecondOrderKey (prq_createdAt r) +
     lim_totalDeadlineMilliseconds (prq_limits r) * POLICY_EVALUATION_TIME_UNITS_PER_MILLISECOND"

definition PolicyEvaluationRequestSchema :: "PolicyEvaluationRequest \<Rightarrow> bool" where
  "PolicyEvaluationRequestSchema r \<longleftrightarrow>
     ReleaseCandidateReferenceSchema (prq_candidate r) \<and>
     OpaqueIdSchema (prq_evaluationRequestId r) \<and>
     PolicyEvaluationTimeSchema (prq_evaluationTime r) \<and>
     PolicyEvaluationExecutionLimitsSchema (prq_limits r) \<and>
     ReleasePolicyReferenceSchema (prq_policy r) \<and>
     UtcMillisecondTimestampSchema (prq_createdAt r) \<and>
     OpaqueIdSchema (prq_createdByPrincipalId r) \<and>
     Sha256Schema (prq_definitionSha256 r) \<and> EvidenceScopeSchema (prq_scope r) \<and>
     \<not> requestDeadline r > MAX_SERVER_TIME_KEY"

section \<open>Fences and leases\<close>

record PolicyEvaluationWorkerMutationFence =
  pf_jobId :: string
  pf_attemptId :: string
  pf_workerId :: string
  pf_leaseId :: string
  pf_fencingToken :: int
  pf_recoveryEpoch :: int

definition PolicyEvaluationWorkerMutationFenceSchema ::
    "PolicyEvaluationWorkerMutationFence \<Rightarrow> bool" where
  "PolicyEvaluationWorkerMutationFenceSchema f \<longleftrightarrow>
     OpaqueIdSchema (pf_jobId f) \<and> OpaqueIdSchema (pf_attemptId f) \<and>
     OpaqueIdSchema (pf_workerId f) \<and> OpaqueIdSchema (pf_leaseId f) \<and>
     SafePositiveInteger (pf_fencingToken f) \<and> SafeNonnegativeInteger (pf_recoveryEpoch f)"

record PolicyEvaluationLease =
  pl_scope :: EvidenceScope
  pl_mutationFence :: PolicyEvaluationWorkerMutationFence
  pl_attemptSequence :: int
  pl_acquiredAt :: policy_time
  pl_heartbeatAt :: policy_time
  pl_expiresAt :: policy_time
  pl_attemptDeadlineAt :: policy_time
  pl_jobDeadlineAt :: policy_time

definition PolicyEvaluationLeaseSchema :: "PolicyEvaluationLease \<Rightarrow> bool" where
  "PolicyEvaluationLeaseSchema l \<longleftrightarrow>
     EvidenceScopeSchema (pl_scope l) \<and>
     PolicyEvaluationWorkerMutationFenceSchema (pl_mutationFence l) \<and>
     0 \<le> pl_attemptSequence l \<and> pl_attemptSequence l \<le> MAX_POLICY_EVALUATION_ATTEMPTS - 1 \<and>
     PolicyEvaluationTimeSchema (pl_acquiredAt l) \<and> PolicyEvaluationTimeSchema (pl_heartbeatAt l) \<and>
     PolicyEvaluationTimeSchema (pl_expiresAt l) \<and>
     PolicyEvaluationTimeSchema (pl_attemptDeadlineAt l) \<and>
     PolicyEvaluationTimeSchema (pl_jobDeadlineAt l) \<and>
     \<not> tkey (pl_heartbeatAt l) < tkey (pl_acquiredAt l) \<and>
     \<not> tkey (pl_expiresAt l) \<le> tkey (pl_heartbeatAt l) \<and>
     \<not> tkey (pl_expiresAt l) > tkey (pl_attemptDeadlineAt l) \<and>
     \<not> tkey (pl_attemptDeadlineAt l) > tkey (pl_jobDeadlineAt l)"

section \<open>Jobs\<close>

datatype PolicyEvaluationJobStatus =
  PQueued | PAcquiring | PSealed | PRunning | PRetryReady | PCompleted | PFailed | PTimedOut |
  PBudgetExhausted | PCancelled

datatype PolicyEvaluationJobTerminalCode =
  EvaluationCompletedCode | ContractRejectedCode | AcquisitionFailedCode | ExecutionFailedCode |
  RetriesExhaustedCode | DeadlineReachedCode | BudgetLimitReachedCode | CancellationCommittedCode

definition terminalStatuses :: "PolicyEvaluationJobStatus set" where
  "terminalStatuses = {PCompleted, PFailed, PTimedOut, PBudgetExhausted, PCancelled}"

definition leasedStatuses :: "PolicyEvaluationJobStatus set" where
  "leasedStatuses = {PAcquiring, PSealed, PRunning}"

record PolicyEvaluationJobTerminal =
  pterm_status :: PolicyEvaluationJobStatus
  pterm_code :: PolicyEvaluationJobTerminalCode
  pterm_attemptId :: "string option"
  pterm_committedAt :: policy_time

fun terminalCodes :: "PolicyEvaluationJobStatus \<Rightarrow> PolicyEvaluationJobTerminalCode set" where
  "terminalCodes PCompleted = {EvaluationCompletedCode}"
| "terminalCodes PFailed =
     {ContractRejectedCode, AcquisitionFailedCode, ExecutionFailedCode, RetriesExhaustedCode}"
| "terminalCodes PTimedOut = {DeadlineReachedCode}"
| "terminalCodes PBudgetExhausted = {BudgetLimitReachedCode}"
| "terminalCodes PCancelled = {CancellationCommittedCode}"
| "terminalCodes _ = {}"

definition TerminalSchema :: "PolicyEvaluationJobTerminal \<Rightarrow> bool" where
  "TerminalSchema t \<longleftrightarrow>
     pterm_status t \<in> terminalStatuses \<and> optional OpaqueIdSchema (pterm_attemptId t) \<and>
     PolicyEvaluationTimeSchema (pterm_committedAt t) \<and>
     pterm_code t \<in> terminalCodes (pterm_status t) \<and>
     \<not> (pterm_status t = PCompleted \<and> pterm_attemptId t = None)"

record PolicyEvaluationJob =
  pj_jobId :: string
  pj_request :: PolicyEvaluationRequestReference
  pj_definitionSha256 :: string
  pj_scope :: EvidenceScope
  pj_createdAt :: policy_time
  pj_createdByPrincipalId :: string
  pj_deadlineAt :: policy_time
  pj_updatedAt :: policy_time
  pj_stateVersion :: int
  pj_recoveryEpoch :: int
  pj_lastFencingToken :: int
  pj_attemptCount :: int
  pj_status :: PolicyEvaluationJobStatus
  pj_currentLease :: "PolicyEvaluationLease option"
  pj_snapshot :: "PolicyEvaluationSnapshotReference option"
  pj_result :: "PolicyEvaluationResultReference option"
  pj_retryAt :: "policy_time option"
  pj_terminal :: "PolicyEvaluationJobTerminal option"

definition jobShape :: "PolicyEvaluationJob \<Rightarrow> bool" where
  "jobShape j \<longleftrightarrow>
     OpaqueIdSchema (pj_jobId j) \<and> PolicyEvaluationRequestReferenceSchema (pj_request j) \<and>
     Sha256Schema (pj_definitionSha256 j) \<and> EvidenceScopeSchema (pj_scope j) \<and>
     PolicyEvaluationTimeSchema (pj_createdAt j) \<and> OpaqueIdSchema (pj_createdByPrincipalId j) \<and>
     PolicyEvaluationTimeSchema (pj_deadlineAt j) \<and> PolicyEvaluationTimeSchema (pj_updatedAt j) \<and>
     SafePositiveInteger (pj_stateVersion j) \<and> SafeNonnegativeInteger (pj_recoveryEpoch j) \<and>
     SafeNonnegativeInteger (pj_lastFencingToken j) \<and>
     0 \<le> pj_attemptCount j \<and> pj_attemptCount j \<le> MAX_POLICY_EVALUATION_ATTEMPTS \<and>
     optional PolicyEvaluationLeaseSchema (pj_currentLease j) \<and>
     optional PolicyEvaluationSnapshotReferenceSchema (pj_snapshot j) \<and>
     optional PolicyEvaluationResultReferenceSchema (pj_result j) \<and>
     optional PolicyEvaluationTimeSchema (pj_retryAt j) \<and> optional TerminalSchema (pj_terminal j)"

definition leaseBindsJob :: "PolicyEvaluationJob \<Rightarrow> PolicyEvaluationLease \<Rightarrow> bool" where
  "leaseBindsJob j l \<longleftrightarrow>
     pf_jobId (pl_mutationFence l) = pj_jobId j \<and>
     pf_fencingToken (pl_mutationFence l) = pj_lastFencingToken j \<and>
     pf_recoveryEpoch (pl_mutationFence l) = pj_recoveryEpoch j \<and>
     sameScope (pl_scope l) (pj_scope j) \<and>
     pl_attemptSequence l + 1 = pj_attemptCount j \<and>
     pl_jobDeadlineAt l = pj_deadlineAt j \<and>
     \<not> tkey (pl_acquiredAt l) < tkey (pj_createdAt j) \<and>
     \<not> tkey (pl_heartbeatAt l) > tkey (pj_updatedAt j)"

definition refineJob :: "PolicyEvaluationJob \<Rightarrow> bool" where
  "refineJob j \<longleftrightarrow>
     \<not> (tkey (pj_updatedAt j) < tkey (pj_createdAt j) \<or>
        tkey (pj_deadlineAt j) \<le> tkey (pj_createdAt j)) \<and>
     (pj_status j \<in> terminalStatuses) = (pj_terminal j \<noteq> None) \<and>
     optional (\<lambda>t. pterm_status t = pj_status j \<and>
       \<not> tkey (pterm_committedAt t) > tkey (pj_updatedAt j) \<and>
       \<not> tkey (pterm_committedAt t) < tkey (pj_createdAt j)) (pj_terminal j) \<and>
     (pj_status j \<in> leasedStatuses) = (pj_currentLease j \<noteq> None) \<and>
     optional (leaseBindsJob j) (pj_currentLease j) \<and>
     (pj_attemptCount j = 0) = (pj_lastFencingToken j = 0) \<and>
     \<not> (pj_status j \<in> {PQueued, PAcquiring} \<and> pj_snapshot j \<noteq> None) \<and>
     \<not> (pj_status j \<in> {PSealed, PRunning, PCompleted} \<and> pj_snapshot j = None) \<and>
     (pj_status j = PCompleted) = (pj_result j \<noteq> None) \<and>
     (pj_status j = PRetryReady) = (pj_retryAt j \<noteq> None) \<and>
     optional (\<lambda>r. \<not> (pj_attemptCount j = 0 \<or> tkey r < tkey (pj_updatedAt j) \<or>
       tkey r \<ge> tkey (pj_deadlineAt j))) (pj_retryAt j) \<and>
     \<not> (pj_status j = PQueued \<and> pj_attemptCount j \<noteq> 0) \<and>
     optional (\<lambda>t. (pj_attemptCount j = 0) = (pterm_attemptId t = None)) (pj_terminal j)"

definition PolicyEvaluationJobSchema :: "PolicyEvaluationJob \<Rightarrow> bool" where
  "PolicyEvaluationJobSchema j \<longleftrightarrow> jobShape j \<and> refineJob j"

section \<open>Attempts, usage and cancellation\<close>

text \<open>A usage record has the same seven counters everywhere: a function from the counter.\<close>

datatype UsageKey =
  UReads | URecords | URecordBytes | UReferences | UReferenceBytes | UArtifactReadBytes | URuleEvaluations

definition USAGE_KEYS :: "UsageKey list" where
  "USAGE_KEYS = [UReads, URecords, URecordBytes, UReferences, UReferenceBytes, UArtifactReadBytes,
     URuleEvaluations]"

type_synonym PolicyEvaluationUsage = "UsageKey \<Rightarrow> int"

fun usageMaximum :: "UsageKey \<Rightarrow> int" where
  "usageMaximum UReads = MAX_POLICY_EVALUATION_ACQUISITION_RECORDS"
| "usageMaximum URecords = MAX_POLICY_EVALUATION_ACQUISITION_RECORDS"
| "usageMaximum URecordBytes = MAX_POLICY_EVALUATION_ACQUISITION_RECORD_BYTES"
| "usageMaximum UReferences = MAX_POLICY_EVALUATION_ACQUISITION_RECORDS"
| "usageMaximum UReferenceBytes = MAX_POLICY_EVALUATION_ACQUISITION_RECORD_BYTES"
| "usageMaximum UArtifactReadBytes = MAX_POLICY_EVALUATION_ARTIFACT_READ_BYTES"
| "usageMaximum URuleEvaluations = MAX_POLICY_EVALUATION_RULE_EVALUATIONS"

definition PolicyEvaluationUsageSchema :: "PolicyEvaluationUsage \<Rightarrow> bool" where
  "PolicyEvaluationUsageSchema u \<longleftrightarrow>
     list_all (\<lambda>k. 0 \<le> u k \<and> u k \<le> usageMaximum k) USAGE_KEYS \<and>
     \<not> u URecordBytes + u UReferenceBytes > MAX_POLICY_EVALUATION_ACQUISITION_RECORD_BYTES"

datatype ClosureStatus = ClosedFailed | ClosedCancelled | ClosedTimedOut | ClosedBudgetExhausted

datatype ClosureReason =
  ContractRejected | AcquisitionFailed | ExecutionFailed | CancellationCommitted | DeadlineReachedReason |
  BudgetLimitReached

datatype AttemptClosure =
    ClosureCompleted policy_time
  | ClosureInterrupted PolicyEvaluationRetryableError policy_time
  | ClosureStopped ClosureStatus ClosureReason policy_time

fun closureCommittedAt :: "AttemptClosure \<Rightarrow> policy_time" where
  "closureCommittedAt (ClosureCompleted t) = t"
| "closureCommittedAt (ClosureInterrupted _ t) = t"
| "closureCommittedAt (ClosureStopped _ _ t) = t"

fun closureCodes :: "ClosureStatus \<Rightarrow> ClosureReason set" where
  "closureCodes ClosedFailed = {ContractRejected, AcquisitionFailed, ExecutionFailed}"
| "closureCodes ClosedCancelled = {CancellationCommitted}"
| "closureCodes ClosedTimedOut = {DeadlineReachedReason}"
| "closureCodes ClosedBudgetExhausted = {BudgetLimitReached}"

datatype AttemptPhase = PhaseAcquiring | PhaseComputing

record PolicyEvaluationAttempt =
  pa_scope :: EvidenceScope
  pa_mutationFence :: PolicyEvaluationWorkerMutationFence
  pa_attemptSequence :: int
  pa_startedAt :: policy_time
  pa_deadlineAt :: policy_time
  pa_phase :: AttemptPhase
  pa_snapshot :: "PolicyEvaluationSnapshotReference option"
  pa_usageAtStart :: PolicyEvaluationUsage
  pa_usageAtClose :: "PolicyEvaluationUsage option"
  pa_closure :: "AttemptClosure option"

fun closureFits :: "AttemptPhase \<Rightarrow> AttemptClosure \<Rightarrow> bool" where
  "closureFits phase (ClosureCompleted _) = (phase = PhaseComputing)"
| "closureFits phase (ClosureInterrupted reason _) =
     (\<not> (phase = PhaseComputing \<and> reason = SourceRevisionChanged))"
| "closureFits phase (ClosureStopped status reason _) = (reason \<in> closureCodes status)"

definition usageAtMost :: "PolicyEvaluationUsage \<Rightarrow> PolicyEvaluationUsage \<Rightarrow> bool" where
  "usageAtMost u v \<longleftrightarrow> list_all (\<lambda>k. \<not> u k > v k) USAGE_KEYS"

definition PolicyEvaluationAttemptSchema :: "PolicyEvaluationAttempt \<Rightarrow> bool" where
  "PolicyEvaluationAttemptSchema a \<longleftrightarrow>
     EvidenceScopeSchema (pa_scope a) \<and>
     PolicyEvaluationWorkerMutationFenceSchema (pa_mutationFence a) \<and>
     0 \<le> pa_attemptSequence a \<and> pa_attemptSequence a \<le> MAX_POLICY_EVALUATION_ATTEMPTS - 1 \<and>
     PolicyEvaluationTimeSchema (pa_startedAt a) \<and> PolicyEvaluationTimeSchema (pa_deadlineAt a) \<and>
     optional PolicyEvaluationSnapshotReferenceSchema (pa_snapshot a) \<and>
     PolicyEvaluationUsageSchema (pa_usageAtStart a) \<and>
     optional PolicyEvaluationUsageSchema (pa_usageAtClose a) \<and>
     optional (PolicyEvaluationTimeSchema \<circ> closureCommittedAt) (pa_closure a) \<and>
     \<not> tkey (pa_deadlineAt a) \<le> tkey (pa_startedAt a) \<and>
     (pa_phase a = PhaseComputing) = (pa_snapshot a \<noteq> None) \<and>
     (pa_closure a = None) = (pa_usageAtClose a = None) \<and>
     optional (\<lambda>c. \<not> tkey (closureCommittedAt c) < tkey (pa_startedAt a) \<and>
       closureFits (pa_phase a) c) (pa_closure a) \<and>
     optional (\<lambda>u. usageAtMost (pa_usageAtStart a) u) (pa_usageAtClose a)"

datatype PolicyCancellationReason = OperatorRequested | SupersededRequest | IncidentResponse

record PolicyEvaluationCancellation =
  pcn_jobId :: string
  pcn_cancellationId :: string
  pcn_scope :: EvidenceScope
  pcn_requestedAt :: policy_time
  pcn_requestedByPrincipalId :: string
  pcn_reason :: PolicyCancellationReason

definition PolicyEvaluationCancellationSchema :: "PolicyEvaluationCancellation \<Rightarrow> bool" where
  "PolicyEvaluationCancellationSchema c \<longleftrightarrow>
     OpaqueIdSchema (pcn_jobId c) \<and> OpaqueIdSchema (pcn_cancellationId c) \<and>
     EvidenceScopeSchema (pcn_scope c) \<and> PolicyEvaluationTimeSchema (pcn_requestedAt c) \<and>
     OpaqueIdSchema (pcn_requestedByPrincipalId c)"

section \<open>Acquisition allowances\<close>

record PolicyEvaluationAcquisitionUsage =
  aqu_reads :: int
  aqu_records :: int
  aqu_references :: int
  aqu_recordBytes :: int
  aqu_referenceBytes :: int

definition countInteger :: "int \<Rightarrow> bool" where
  "countInteger n \<longleftrightarrow> 0 \<le> n \<and> n \<le> MAX_POLICY_EVALUATION_ACQUISITION_RECORDS"

definition bytesInteger :: "int \<Rightarrow> bool" where
  "bytesInteger n \<longleftrightarrow> 0 \<le> n \<and> n \<le> MAX_POLICY_EVALUATION_ACQUISITION_RECORD_BYTES"

definition PolicyEvaluationAcquisitionUsageSchema :: "PolicyEvaluationAcquisitionUsage \<Rightarrow> bool" where
  "PolicyEvaluationAcquisitionUsageSchema u \<longleftrightarrow>
     countInteger (aqu_reads u) \<and> countInteger (aqu_records u) \<and> countInteger (aqu_references u) \<and>
     bytesInteger (aqu_recordBytes u) \<and> bytesInteger (aqu_referenceBytes u) \<and>
     \<not> aqu_recordBytes u + aqu_referenceBytes u > MAX_POLICY_EVALUATION_ACQUISITION_RECORD_BYTES"

record PolicyEvaluationAcquisitionLimits =
  aql_reads :: int
  aql_records :: int
  aql_references :: int
  aql_recordAndReferenceBytes :: int

definition PolicyEvaluationAcquisitionLimitsSchema :: "PolicyEvaluationAcquisitionLimits \<Rightarrow> bool" where
  "PolicyEvaluationAcquisitionLimitsSchema l \<longleftrightarrow>
     countInteger (aql_reads l) \<and> countInteger (aql_records l) \<and> countInteger (aql_references l) \<and>
     bytesInteger (aql_recordAndReferenceBytes l)"

record PolicyEvaluationAcquisitionAllowance =
  aal_allowanceId :: string
  aal_mutationFence :: PolicyEvaluationWorkerMutationFence
  aal_reservedAt :: policy_time
  aal_usageAtReservation :: PolicyEvaluationAcquisitionUsage
  aal_limits :: PolicyEvaluationAcquisitionLimits

definition PolicyEvaluationAcquisitionAllowanceSchema ::
    "PolicyEvaluationAcquisitionAllowance \<Rightarrow> bool" where
  "PolicyEvaluationAcquisitionAllowanceSchema a \<longleftrightarrow>
     OpaqueIdSchema (aal_allowanceId a) \<and>
     PolicyEvaluationWorkerMutationFenceSchema (aal_mutationFence a) \<and>
     PolicyEvaluationTimeSchema (aal_reservedAt a) \<and>
     PolicyEvaluationAcquisitionUsageSchema (aal_usageAtReservation a) \<and>
     PolicyEvaluationAcquisitionLimitsSchema (aal_limits a)"

end
