(* ===== verification/Policy_Scheduler.thy ===== *)
theory Policy_Scheduler
  imports Policy_Snapshot
begin

text \<open>
  The transitions of the policy-evaluation scheduler, under \<open>packages/core/src/policy\<close>: claim and
  heartbeat (\<open>policy-evaluation-scheduler-claim.ts\<close>), live fence (\<open>policy-evaluation-live-fence.ts\<close>),
  usage reservation (\<open>-scheduler-budget.ts\<close>), acquisition allowance (\<open>-acquisition-allowance.ts\<close>),
  seal and start (\<open>-scheduler-seal.ts\<close>), completion, interruption, reclaim, cancellation, trusted
  recovery (\<open>-job-recovery.ts\<close>) and history exhaustion (\<open>-history-limit.ts\<close>). Each takes the parsed
  graph, checks its guards, edits a copy and parses the copy again, so a broken edit surfaces as
  \<open>SchedulerZodError\<close>.
\<close>

section \<open>Errors and helpers\<close>

datatype TransitionReason =
  StateConflict | DeadlineReached | RetryNotReady | RetriesExhausted | StaleFence | LeaseExpired |
  IdentifierReused | CounterExhausted | HeartbeatNotReady | EmptyReservation | BudgetExhausted

datatype scheduler_error =
    SchedulerTransitionError TransitionReason
  | SchedulerZodError
  | SchedulerTimeError time_error
  | JobHistoryError

abbreviation rejectTransition :: "TransitionReason \<Rightarrow> (scheduler_error, 'a) result" where
  "rejectTransition r \<equiv> Inl (SchedulerTransitionError r)"

type_synonym transition_result = "(scheduler_error, PolicyEvaluationJobSnapshot) result"

definition parseSnapshot :: "PolicyEvaluationJobSnapshot \<Rightarrow> transition_result" where
  "parseSnapshot s = (if PolicyEvaluationJobSnapshotSchema s then Inr s else Inl SchedulerZodError)"

definition increment :: "int \<Rightarrow> (scheduler_error, int) result" where
  "increment v = (if v \<ge> MAX_SAFE_INTEGER then rejectTransition CounterExhausted else Inr (v + 1))"

definition updateLatest ::
    "(PolicyEvaluationAttempt \<Rightarrow> PolicyEvaluationAttempt) \<Rightarrow> PolicyEvaluationAttempt list \<Rightarrow>
     PolicyEvaluationAttempt list" where
  "updateLatest f attempts = (if attempts = [] then [] else butlast attempts @ [f (last attempts)])"

text \<open>Close the latest attempt when it is still open, with the usage so far.\<close>

definition closeOpenAttempt ::
    "AttemptClosure \<Rightarrow> PolicyEvaluationJobSnapshot \<Rightarrow> PolicyEvaluationJobSnapshot" where
  "closeOpenAttempt c s =
     (case latestAttempt (ps_attempts s) of
        None \<Rightarrow> s
      | Some a \<Rightarrow>
          if pa_closure a = None
          then s\<lparr>ps_attempts :=
                 updateLatest (\<lambda>a. a\<lparr>pa_closure := Some c, pa_usageAtClose := Some (ps_usage s)\<rparr>)
                   (ps_attempts s)\<rparr>
          else s)"

definition latestAttemptId :: "PolicyEvaluationJobSnapshot \<Rightarrow> string option" where
  "latestAttemptId s =
     map_option (\<lambda>a. pf_attemptId (pa_mutationFence a)) (latestAttempt (ps_attempts s))"

section \<open>Live fence\<close>

definition requirePolicyEvaluationLiveFence ::
    "PolicyEvaluationJobSnapshot \<Rightarrow> policy_time \<Rightarrow> js_number \<Rightarrow> PolicyEvaluationWorkerMutationFence \<Rightarrow>
     (scheduler_error, PolicyEvaluationLease) result" where
  "requirePolicyEvaluationLiveFence s now epoch fence =
     (if \<not> PolicyEvaluationJobSnapshotSchema s then Inl SchedulerZodError
      else if \<not> PolicyEvaluationTimeSchema now then Inl SchedulerZodError
      else if \<not> PolicyEvaluationWorkerMutationFenceSchema fence then Inl SchedulerZodError
      else
        let job = ps_job s in
        case pj_currentLease job of
          None \<Rightarrow> rejectTransition StateConflict
        | Some lease \<Rightarrow>
            if pj_status job \<notin> leasedStatuses then rejectTransition StateConflict
            else if epoch \<noteq> JsInt (pj_recoveryEpoch job) \<or> fence \<noteq> pl_mutationFence lease
            then rejectTransition StaleFence
            else if tkey now < tkey (pj_updatedAt job) then rejectTransition StateConflict
            else if tkey now \<ge> tkey (pl_expiresAt lease) then rejectTransition LeaseExpired
            else if tkey now \<ge> tkey (pl_attemptDeadlineAt lease) \<or> tkey now \<ge> tkey (pj_deadlineAt job)
            then rejectTransition DeadlineReached
            else Inr lease)"

section \<open>Claim and heartbeat\<close>

abbreviation timeResult :: "(time_error, 'a) result \<Rightarrow> (scheduler_error, 'a) result" where
  "timeResult r \<equiv> (case r of Inl e \<Rightarrow> Inl (SchedulerTimeError e) | Inr t \<Rightarrow> Inr t)"

definition claimFence ::
    "PolicyEvaluationJob \<Rightarrow> int \<Rightarrow> string \<Rightarrow> string \<Rightarrow> string \<Rightarrow> PolicyEvaluationWorkerMutationFence" where
  "claimFence job token attemptId leaseId workerId =
     \<lparr>pf_jobId = pj_jobId job, pf_attemptId = attemptId, pf_workerId = workerId,
      pf_leaseId = leaseId, pf_fencingToken = token, pf_recoveryEpoch = pj_recoveryEpoch job\<rparr>"

definition claimedAttempt ::
    "PolicyEvaluationJobSnapshot \<Rightarrow> policy_time \<Rightarrow> PolicyEvaluationWorkerMutationFence \<Rightarrow> policy_time \<Rightarrow>
     PolicyEvaluationAttempt" where
  "claimedAttempt s now fence attemptDeadline =
     \<lparr>pa_scope = pj_scope (ps_job s), pa_mutationFence = fence,
      pa_attemptSequence = int (length (ps_attempts s)), pa_startedAt = now,
      pa_deadlineAt = attemptDeadline,
      pa_phase = (if pj_snapshot (ps_job s) = None then PhaseAcquiring else PhaseComputing),
      pa_snapshot = pj_snapshot (ps_job s), pa_usageAtStart = ps_usage s,
      pa_usageAtClose = None, pa_closure = None\<rparr>"

definition claimedLease ::
    "PolicyEvaluationJobSnapshot \<Rightarrow> policy_time \<Rightarrow> PolicyEvaluationWorkerMutationFence \<Rightarrow> policy_time \<Rightarrow>
     policy_time \<Rightarrow> PolicyEvaluationLease" where
  "claimedLease s now fence attemptDeadline expiry =
     \<lparr>pl_scope = pj_scope (ps_job s), pl_mutationFence = fence,
      pl_attemptSequence = int (length (ps_attempts s)), pl_acquiredAt = now, pl_heartbeatAt = now,
      pl_expiresAt = expiry, pl_attemptDeadlineAt = attemptDeadline,
      pl_jobDeadlineAt = pj_deadlineAt (ps_job s)\<rparr>"

definition claimedSnapshot ::
    "PolicyEvaluationJobSnapshot \<Rightarrow> policy_time \<Rightarrow> PolicyEvaluationWorkerMutationFence \<Rightarrow> policy_time \<Rightarrow>
     policy_time \<Rightarrow> int \<Rightarrow> PolicyEvaluationJobSnapshot" where
  "claimedSnapshot s now fence attemptDeadline expiry version =
     s\<lparr>ps_attempts := ps_attempts s @ [claimedAttempt s now fence attemptDeadline],
       ps_job := (ps_job s)
         \<lparr>pj_currentLease := Some (claimedLease s now fence attemptDeadline expiry),
          pj_status := (if pj_snapshot (ps_job s) = None then PAcquiring else PRunning),
          pj_attemptCount := int (length (ps_attempts s)) + 1,
          pj_lastFencingToken := pf_fencingToken fence,
          pj_stateVersion := version, pj_updatedAt := now, pj_retryAt := None\<rparr>\<rparr>"

definition claimPolicyEvaluationJob ::
    "PolicyEvaluationJobSnapshot \<Rightarrow> policy_time \<Rightarrow> js_number \<Rightarrow> string \<Rightarrow> string \<Rightarrow> string \<Rightarrow>
     transition_result" where
  "claimPolicyEvaluationJob s now epoch attemptId leaseId workerId =
     (let job = ps_job s; request = ps_request s; attempts = ps_attempts s in
      if \<not> PolicyEvaluationJobSnapshotSchema s then Inl SchedulerZodError
      else if \<not> PolicyEvaluationTimeSchema now then Inl SchedulerZodError
      else if epoch \<noteq> JsInt (pj_recoveryEpoch job) then rejectTransition StaleFence
      else if pj_status job \<noteq> PQueued \<and> pj_status job \<noteq> PRetryReady
      then rejectTransition StateConflict
      else if tkey now < tkey (pj_updatedAt job) then rejectTransition StateConflict
      else if tkey now \<ge> tkey (pj_deadlineAt job) then rejectTransition DeadlineReached
      else if \<not> optional (\<lambda>r. \<not> tkey now < tkey r) (pj_retryAt job)
      then rejectTransition RetryNotReady
      else if int (length attempts) \<ge> lim_maxAttempts (prq_limits request)
      then rejectTransition RetriesExhausted
      else if \<not> (OpaqueIdSchema attemptId \<and> OpaqueIdSchema leaseId \<and> OpaqueIdSchema workerId)
      then Inl SchedulerZodError
      else if list_ex (\<lambda>a. pf_attemptId (pa_mutationFence a) = attemptId \<or>
                           pf_leaseId (pa_mutationFence a) = leaseId) attempts
      then rejectTransition IdentifierReused
      else case increment (pj_lastFencingToken job) of Inl e \<Rightarrow> Inl e
      | Inr token \<Rightarrow>
      (let fence = claimFence job token attemptId leaseId workerId in
      case timeResult (addPolicyEvaluationMillisecondsUpTo now
             (lim_perAttemptTimeoutMilliseconds (prq_limits request)) (pj_deadlineAt job)) of
        Inl e \<Rightarrow> Inl e
      | Inr attemptDeadline \<Rightarrow>
      (case timeResult (addPolicyEvaluationMillisecondsUpTo now
             (lim_leaseDurationMilliseconds (prq_limits request)) attemptDeadline) of
        Inl e \<Rightarrow> Inl e
      | Inr expiry \<Rightarrow>
      (case increment (pj_stateVersion job) of Inl e \<Rightarrow> Inl e
      | Inr version \<Rightarrow>
          parseSnapshot (claimedSnapshot s now fence attemptDeadline expiry version)))))"

text \<open>
  \<open>heartbeatPolicyEvaluationJob\<close> and \<open>reservePolicyEvaluationUsage\<close> spell the guards of the live-fence
  check out; the text is the same, so the model calls it.
\<close>

definition heartbeatPolicyEvaluationJob ::
    "PolicyEvaluationJobSnapshot \<Rightarrow> policy_time \<Rightarrow> js_number \<Rightarrow> PolicyEvaluationWorkerMutationFence \<Rightarrow>
     transition_result" where
  "heartbeatPolicyEvaluationJob s now epoch fence =
     (case requirePolicyEvaluationLiveFence s now epoch fence of Inl e \<Rightarrow> Inl e
      | Inr lease \<Rightarrow>
        if tkey now < tkey (pl_heartbeatAt lease) +
             lim_heartbeatIntervalMilliseconds (prq_limits (ps_request s)) *
             POLICY_EVALUATION_TIME_UNITS_PER_MILLISECOND
        then rejectTransition HeartbeatNotReady
        else case timeResult (addPolicyEvaluationMillisecondsUpTo now
               (lim_leaseDurationMilliseconds (prq_limits (ps_request s)))
               (pl_attemptDeadlineAt lease)) of
          Inl e \<Rightarrow> Inl e
        | Inr expiry \<Rightarrow>
        (case increment (pj_stateVersion (ps_job s)) of Inl e \<Rightarrow> Inl e
        | Inr version \<Rightarrow>
            parseSnapshot (s\<lparr>ps_job := (ps_job s)
              \<lparr>pj_currentLease := Some (lease\<lparr>pl_heartbeatAt := now, pl_expiresAt := expiry\<rparr>),
               pj_updatedAt := now, pj_stateVersion := version\<rparr>\<rparr>)))"

section \<open>Budget\<close>

definition advanceJob :: "policy_time \<Rightarrow> PolicyEvaluationJob \<Rightarrow> PolicyEvaluationJob" where
  "advanceJob now job = job\<lparr>pj_updatedAt := now, pj_stateVersion := pj_stateVersion job + 1\<rparr>"

definition reservePolicyEvaluationUsage ::
    "PolicyEvaluationJobSnapshot \<Rightarrow> policy_time \<Rightarrow> js_number \<Rightarrow> PolicyEvaluationWorkerMutationFence \<Rightarrow>
     PolicyEvaluationUsage \<Rightarrow> transition_result" where
  "reservePolicyEvaluationUsage s now epoch fence delta =
     (if PolicyEvaluationJobSnapshotSchema s \<and> PolicyEvaluationTimeSchema now \<and>
         PolicyEvaluationWorkerMutationFenceSchema fence \<and> \<not> PolicyEvaluationUsageSchema delta
      then Inl SchedulerZodError
      else case requirePolicyEvaluationLiveFence s now epoch fence of Inl e \<Rightarrow> Inl e
      | Inr lease \<Rightarrow>
        if list_all (\<lambda>k. delta k = 0) USAGE_KEYS then rejectTransition EmptyReservation
        else if ps_acquisitionAllowance s \<noteq> None \<and>
          list_ex (\<lambda>k. delta k \<noteq> 0) [UReads, URecords, UReferences, URecordBytes, UReferenceBytes]
        then rejectTransition StateConflict
        else if delta URuleEvaluations > 0 \<and> pj_status (ps_job s) \<noteq> PRunning
        then rejectTransition StateConflict
        else
          let nextUsage = (\<lambda>k. ps_usage s k + delta k) in
          if \<not> usageWithinLimits (prq_limits (ps_request s)) nextUsage
          then rejectTransition BudgetExhausted
          else if pj_stateVersion (ps_job s) \<ge> MAX_SAFE_INTEGER then rejectTransition CounterExhausted
          else parseSnapshot (s\<lparr>ps_usage := nextUsage, ps_job := advanceJob now (ps_job s)\<rparr>))"

section \<open>Acquisition allowance\<close>

definition policyEvaluationMetadataUsage ::
    "PolicyEvaluationJobSnapshot \<Rightarrow> PolicyEvaluationAcquisitionUsage" where
  "policyEvaluationMetadataUsage s =
     \<lparr>aqu_reads = ps_usage s UReads, aqu_records = ps_usage s URecords,
      aqu_references = ps_usage s UReferences, aqu_recordBytes = ps_usage s URecordBytes,
      aqu_referenceBytes = ps_usage s UReferenceBytes\<rparr>"

definition remainingAcquisition :: "PolicyEvaluationJobSnapshot \<Rightarrow> PolicyEvaluationAcquisitionLimits" where
  "remainingAcquisition s =
     (let limits = prq_limits (ps_request s); usage = policyEvaluationMetadataUsage s in
      \<lparr>aql_reads = lim_maxAcquisitionRecords limits - aqu_reads usage,
       aql_records = lim_maxAcquisitionRecords limits - aqu_records usage,
       aql_references = lim_maxAcquisitionRecords limits - aqu_references usage,
       aql_recordAndReferenceBytes =
         lim_maxAcquisitionRecordBytes limits - aqu_recordBytes usage - aqu_referenceBytes usage\<rparr>)"

definition reservePolicyEvaluationAcquisition ::
    "PolicyEvaluationJobSnapshot \<Rightarrow> policy_time \<Rightarrow> js_number \<Rightarrow> PolicyEvaluationWorkerMutationFence \<Rightarrow>
     string \<Rightarrow> transition_result" where
  "reservePolicyEvaluationAcquisition s now epoch fence allowanceId =
     (case requirePolicyEvaluationLiveFence s now epoch fence of Inl e \<Rightarrow> Inl e
      | Inr lease \<Rightarrow>
        if pj_status (ps_job s) \<noteq> PAcquiring \<or> pj_snapshot (ps_job s) \<noteq> None \<or>
           ps_acquisitionAllowance s \<noteq> None
        then rejectTransition StateConflict
        else
          let limits = remainingAcquisition s in
          if aql_reads limits < 1 \<or> aql_records limits < 1 \<or> aql_recordAndReferenceBytes limits < 1
          then rejectTransition BudgetExhausted
          else if pj_stateVersion (ps_job s) \<ge> MAX_SAFE_INTEGER then rejectTransition CounterExhausted
          else if \<not> OpaqueIdSchema allowanceId then Inl SchedulerZodError
          else parseSnapshot (s\<lparr>
            ps_acquisitionAllowance := Some
              \<lparr>aal_allowanceId = allowanceId, aal_mutationFence = fence, aal_reservedAt = now,
               aal_usageAtReservation = policyEvaluationMetadataUsage s, aal_limits = limits\<rparr>,
            ps_job := advanceJob now (ps_job s)\<rparr>))"

definition fullAllowanceUsage ::
    "PolicyEvaluationAcquisitionAllowance \<Rightarrow> PolicyEvaluationAcquisitionUsage" where
  "fullAllowanceUsage a =
     \<lparr>aqu_reads = aql_reads (aal_limits a), aqu_records = aql_records (aal_limits a),
      aqu_references = aql_references (aal_limits a),
      aqu_recordBytes = aql_recordAndReferenceBytes (aal_limits a), aqu_referenceBytes = 0\<rparr>"

fun chargedUsage :: "PolicyEvaluationUsage \<Rightarrow> PolicyEvaluationAcquisitionUsage \<Rightarrow> PolicyEvaluationUsage" where
  "chargedUsage u v UReads = u UReads + aqu_reads v"
| "chargedUsage u v URecords = u URecords + aqu_records v"
| "chargedUsage u v UReferences = u UReferences + aqu_references v"
| "chargedUsage u v URecordBytes = u URecordBytes + aqu_recordBytes v"
| "chargedUsage u v UReferenceBytes = u UReferenceBytes + aqu_referenceBytes v"
| "chargedUsage u v UArtifactReadBytes = u UArtifactReadBytes"
| "chargedUsage u v URuleEvaluations = u URuleEvaluations"

definition chargeAllowance ::
    "PolicyEvaluationJobSnapshot \<Rightarrow> PolicyEvaluationAcquisitionUsage \<Rightarrow> PolicyEvaluationJobSnapshot" where
  "chargeAllowance s v = s\<lparr>ps_usage := chargedUsage (ps_usage s) v, ps_acquisitionAllowance := None\<rparr>"

definition chargeUncertainPolicyEvaluationAcquisition ::
    "PolicyEvaluationJobSnapshot \<Rightarrow> PolicyEvaluationJobSnapshot \<times> bool" where
  "chargeUncertainPolicyEvaluationAcquisition s =
     (case ps_acquisitionAllowance s of
        None \<Rightarrow> (s, False)
      | Some a \<Rightarrow> (chargeAllowance s (fullAllowanceUsage a), True))"

text \<open>The job record of a terminal commit.\<close>

definition terminate ::
    "PolicyEvaluationJobStatus \<Rightarrow> PolicyEvaluationJobTerminalCode \<Rightarrow> string option \<Rightarrow> policy_time \<Rightarrow>
     PolicyEvaluationJob \<Rightarrow> PolicyEvaluationJob" where
  "terminate status code attemptId now job =
     (advanceJob now job)\<lparr>pj_status := status, pj_currentLease := None, pj_retryAt := None,
       pj_terminal := Some \<lparr>pterm_status = status, pterm_code = code, pterm_attemptId = attemptId,
         pterm_committedAt = now\<rparr>\<rparr>"

definition settlePolicyEvaluationAcquisition ::
    "PolicyEvaluationJobSnapshot \<Rightarrow> policy_time \<Rightarrow> js_number \<Rightarrow> PolicyEvaluationWorkerMutationFence \<Rightarrow>
     string \<Rightarrow> PolicyEvaluationAcquisitionUsage option \<Rightarrow> transition_result" where
  "settlePolicyEvaluationAcquisition s now epoch fence allowanceId observed =
     (case requirePolicyEvaluationLiveFence s now epoch fence of Inl e \<Rightarrow> Inl e
      | Inr lease \<Rightarrow>
     (case ps_acquisitionAllowance s of
        None \<Rightarrow> rejectTransition StateConflict
      | Some allowance \<Rightarrow>
        if \<not> OpaqueIdSchema allowanceId then Inl SchedulerZodError
        else if aal_allowanceId allowance \<noteq> allowanceId \<or> aal_mutationFence allowance \<noteq> fence
        then rejectTransition StateConflict
        else if \<not> optional PolicyEvaluationAcquisitionUsageSchema observed then Inl SchedulerZodError
        else
          let usage = (case observed of None \<Rightarrow> fullAllowanceUsage allowance | Some u \<Rightarrow> u);
              limits = aal_limits allowance
          in if aqu_reads usage > aql_reads limits \<or> aqu_records usage > aql_records limits \<or>
                aqu_references usage > aql_references limits \<or>
                aqu_recordBytes usage + aqu_referenceBytes usage > aql_recordAndReferenceBytes limits
             then rejectTransition BudgetExhausted
             else if pj_stateVersion (ps_job s) \<ge> MAX_SAFE_INTEGER
             then rejectTransition CounterExhausted
             else
               let charged = chargeAllowance s usage in
               if observed \<noteq> None then
                 parseSnapshot (charged\<lparr>ps_job := advanceJob now (ps_job s)\<rparr>)
               else case latestAttempt (ps_attempts s) of
                 None \<Rightarrow> rejectTransition StateConflict
               | Some latest \<Rightarrow>
                   if pa_closure latest \<noteq> None then rejectTransition StateConflict
                   else parseSnapshot
                     ((closeOpenAttempt
                         (ClosureStopped ClosedBudgetExhausted BudgetLimitReached now) charged)
                      \<lparr>ps_job := terminate PBudgetExhausted BudgetLimitReachedCode
                         (Some (pf_attemptId (pa_mutationFence latest))) now (ps_job s)\<rparr>)))"

section \<open>Seal and start\<close>

definition sealPolicyEvaluationJob ::
    "PolicyEvaluationJobSnapshot \<Rightarrow> policy_time \<Rightarrow> js_number \<Rightarrow> PolicyEvaluationWorkerMutationFence \<Rightarrow>
     PolicyEvaluationSnapshotReference \<Rightarrow> transition_result" where
  "sealPolicyEvaluationJob s now epoch fence sealedSnapshot =
     (case requirePolicyEvaluationLiveFence s now epoch fence of Inl e \<Rightarrow> Inl e
      | Inr lease \<Rightarrow>
        if \<not> PolicyEvaluationSnapshotReferenceSchema sealedSnapshot then Inl SchedulerZodError
        else if pj_status (ps_job s) \<noteq> PAcquiring \<or> pj_snapshot (ps_job s) \<noteq> None
        then rejectTransition StateConflict
        else case latestAttempt (ps_attempts s) of
          None \<Rightarrow> rejectTransition StateConflict
        | Some latest \<Rightarrow>
            if pa_closure latest \<noteq> None \<or> pa_phase latest \<noteq> PhaseAcquiring \<or>
               pa_snapshot latest \<noteq> None
            then rejectTransition StateConflict
            else if pj_stateVersion (ps_job s) \<ge> MAX_SAFE_INTEGER
            then rejectTransition CounterExhausted
            else parseSnapshot (s\<lparr>
              ps_attempts := updateLatest
                (\<lambda>a. a\<lparr>pa_phase := PhaseComputing, pa_snapshot := Some sealedSnapshot\<rparr>) (ps_attempts s),
              ps_job := (advanceJob now (ps_job s))
                \<lparr>pj_snapshot := Some sealedSnapshot, pj_status := PSealed\<rparr>\<rparr>))"

definition startPolicyEvaluationComputation ::
    "PolicyEvaluationJobSnapshot \<Rightarrow> policy_time \<Rightarrow> js_number \<Rightarrow> PolicyEvaluationWorkerMutationFence \<Rightarrow>
     transition_result" where
  "startPolicyEvaluationComputation s now epoch fence =
     (case requirePolicyEvaluationLiveFence s now epoch fence of Inl e \<Rightarrow> Inl e
      | Inr lease \<Rightarrow>
        if pj_status (ps_job s) \<noteq> PSealed \<or> pj_snapshot (ps_job s) = None
        then rejectTransition StateConflict
        else case latestAttempt (ps_attempts s) of
          None \<Rightarrow> rejectTransition StateConflict
        | Some latest \<Rightarrow>
            if pa_closure latest \<noteq> None \<or> pa_phase latest \<noteq> PhaseComputing
            then rejectTransition StateConflict
            else if pj_stateVersion (ps_job s) \<ge> MAX_SAFE_INTEGER
            then rejectTransition CounterExhausted
            else parseSnapshot (s\<lparr>ps_job := (advanceJob now (ps_job s))\<lparr>pj_status := PRunning\<rparr>\<rparr>))"

section \<open>Completion\<close>

definition completePolicyEvaluationJob ::
    "PolicyEvaluationJobSnapshot \<Rightarrow> policy_time \<Rightarrow> js_number \<Rightarrow> PolicyEvaluationWorkerMutationFence \<Rightarrow>
     PolicyEvaluationResultReference \<Rightarrow> js_number \<Rightarrow> transition_result" where
  "completePolicyEvaluationJob s now epoch fence reference ruleCount =
     (case requirePolicyEvaluationLiveFence s now epoch fence of Inl e \<Rightarrow> Inl e
      | Inr lease \<Rightarrow>
        if \<not> PolicyEvaluationResultReferenceSchema reference then Inl SchedulerZodError
        else if pj_status (ps_job s) \<noteq> PRunning \<or> pj_snapshot (ps_job s) = None \<or>
                pj_result (ps_job s) \<noteq> None
        then rejectTransition StateConflict
        else case latestAttempt (ps_attempts s) of
          None \<Rightarrow> rejectTransition StateConflict
        | Some latest \<Rightarrow>
            if pa_phase latest \<noteq> PhaseComputing \<or> pa_closure latest \<noteq> None \<or>
               pa_snapshot latest \<noteq> pj_snapshot (ps_job s)
            then rejectTransition StateConflict
            else case ruleCount of
              JsOther \<Rightarrow> rejectTransition StateConflict
            | JsInt count \<Rightarrow>
                if \<not> isSafeInteger (JsInt count) \<or> count < 1 \<or> count > MAX_POLICY_RULES
                then rejectTransition StateConflict
                else if ps_usage s URuleEvaluations - pa_usageAtStart latest URuleEvaluations < count
                then rejectTransition BudgetExhausted
                else if pj_stateVersion (ps_job s) \<ge> MAX_SAFE_INTEGER
                then rejectTransition CounterExhausted
                else parseSnapshot
                  ((closeOpenAttempt (ClosureCompleted now) s)
                   \<lparr>ps_job := (terminate PCompleted EvaluationCompletedCode
                      (Some (pf_attemptId (pa_mutationFence latest))) now (ps_job s))
                      \<lparr>pj_result := Some reference\<rparr>\<rparr>))"

section \<open>Interruption, reclaim and recovery\<close>

text \<open>The retry decision the three closing paths share: a retry time before the deadline, or failure.\<close>

definition retryOrFail ::
    "PolicyEvaluationJobSnapshot \<Rightarrow> policy_time \<Rightarrow> PolicyEvaluationRetryableError \<Rightarrow> string option \<Rightarrow>
     PolicyEvaluationJob \<Rightarrow> (scheduler_error, PolicyEvaluationJob) result" where
  "retryOrFail s now reason attemptId job =
     (case timeResult (addPolicyEvaluationMillisecondsUpTo now
             (lim_retryBackoffMilliseconds (prq_limits (ps_request s))) (pj_deadlineAt job)) of
        Inl e \<Rightarrow> Inl e
      | Inr retryAt \<Rightarrow>
        if tkey retryAt \<ge> tkey (pj_deadlineAt job) \<or>
           int (length (ps_attempts s)) \<ge> lim_maxAttempts (prq_limits (ps_request s)) \<or>
           reason \<notin> set (lim_retryableErrors (prq_limits (ps_request s)))
        then Inr (terminate PFailed RetriesExhaustedCode attemptId now job)
        else Inr ((advanceJob now job)\<lparr>pj_currentLease := None, pj_status := PRetryReady,
                    pj_retryAt := Some retryAt\<rparr>))"

definition interruptPolicyEvaluationJob ::
    "PolicyEvaluationJobSnapshot \<Rightarrow> policy_time \<Rightarrow> js_number \<Rightarrow> PolicyEvaluationWorkerMutationFence \<Rightarrow>
     PolicyEvaluationRetryableError \<Rightarrow> transition_result" where
  "interruptPolicyEvaluationJob s now epoch fence reason =
     (let job = ps_job s in
      if \<not> PolicyEvaluationJobSnapshotSchema s then Inl SchedulerZodError
      else if \<not> PolicyEvaluationTimeSchema now then Inl SchedulerZodError
      else if \<not> PolicyEvaluationWorkerMutationFenceSchema fence then Inl SchedulerZodError
      else case (pj_currentLease job, latestAttempt (ps_attempts s)) of
        (Some lease, Some latest) \<Rightarrow>
          if pa_closure latest \<noteq> None \<or> pj_status job \<notin> leasedStatuses
          then rejectTransition StateConflict
          else if epoch \<noteq> JsInt (pj_recoveryEpoch job) \<or> fence \<noteq> pl_mutationFence lease
          then rejectTransition StaleFence
          else if tkey now < tkey (pj_updatedAt job) then rejectTransition StateConflict
          else if tkey now \<ge> tkey (pl_expiresAt lease) then rejectTransition LeaseExpired
          else if reason = LeaseExpiredError then rejectTransition StateConflict
          else if pj_snapshot job \<noteq> None \<and> reason = SourceRevisionChanged
          then rejectTransition StateConflict
          else if pj_stateVersion job \<ge> MAX_SAFE_INTEGER then rejectTransition CounterExhausted
          else
            let (charged, acquisitionExhausted) = chargeUncertainPolicyEvaluationAcquisition s;
                closed = closeOpenAttempt (ClosureInterrupted reason now) charged;
                attemptId = Some (pf_attemptId (pa_mutationFence latest))
            in if acquisitionExhausted
               then parseSnapshot (closed\<lparr>ps_job :=
                      terminate PBudgetExhausted BudgetLimitReachedCode attemptId now job\<rparr>)
               else case retryOrFail s now reason attemptId job of
                 Inl e \<Rightarrow> Inl e
               | Inr job' \<Rightarrow> parseSnapshot (closed\<lparr>ps_job := job'\<rparr>)
      | _ \<Rightarrow> rejectTransition StateConflict)"

definition reclaimPolicyEvaluationJob ::
    "PolicyEvaluationJobSnapshot \<Rightarrow> policy_time \<Rightarrow> js_number \<Rightarrow> transition_result" where
  "reclaimPolicyEvaluationJob s now epoch =
     (let job = ps_job s in
      if \<not> PolicyEvaluationJobSnapshotSchema s then Inl SchedulerZodError
      else if \<not> PolicyEvaluationTimeSchema now then Inl SchedulerZodError
      else if epoch \<noteq> JsInt (pj_recoveryEpoch job) then rejectTransition StaleFence
      else if pj_terminal job \<noteq> None then Inr s
      else if tkey now < tkey (pj_updatedAt job) then rejectTransition StateConflict
      else
        let deadlineReached = (tkey now \<ge> tkey (pj_deadlineAt job));
            expired = (case pj_currentLease job of None \<Rightarrow> False
                       | Some lease \<Rightarrow> tkey now \<ge> tkey (pl_expiresAt lease))
        in if expired \<and> latestAttempt (ps_attempts s) = None then rejectTransition StateConflict
           else if \<not> deadlineReached \<and> \<not> expired then rejectTransition StateConflict
           else if pj_stateVersion job \<ge> MAX_SAFE_INTEGER then rejectTransition CounterExhausted
           else
             let (charged, acquisitionExhausted) = chargeUncertainPolicyEvaluationAcquisition s;
                 closed = closeOpenAttempt
                   (if deadlineReached then ClosureStopped ClosedTimedOut DeadlineReachedReason now
                    else ClosureInterrupted LeaseExpiredError now) charged;
                 attemptId = latestAttemptId s
             in if deadlineReached \<or> acquisitionExhausted
                then parseSnapshot (closed\<lparr>ps_job :=
                       terminate (if deadlineReached then PTimedOut else PBudgetExhausted)
                         (if deadlineReached then DeadlineReachedCode else BudgetLimitReachedCode)
                         attemptId now job\<rparr>)
                else case retryOrFail s now LeaseExpiredError attemptId job of
                  Inl e \<Rightarrow> Inl e
                | Inr job' \<Rightarrow> parseSnapshot (closed\<lparr>ps_job := job'\<rparr>))"

definition MAX_POLICY_EVALUATION_JOB_HISTORY_ENTRIES :: int where
  "MAX_POLICY_EVALUATION_JOB_HISTORY_ENTRIES = 100000"

definition recoverPolicyEvaluationJob ::
    "PolicyEvaluationJobSnapshot \<Rightarrow> policy_time \<Rightarrow> js_number \<Rightarrow> transition_result" where
  "recoverPolicyEvaluationJob s now recoveryEpoch =
     (let job = ps_job s in
      if \<not> PolicyEvaluationJobSnapshotSchema s then Inl SchedulerZodError
      else if \<not> PolicyEvaluationTimeSchema now then Inl SchedulerZodError
      else case recoveryEpoch of
        JsOther \<Rightarrow> Inl JobHistoryError
      | JsInt epoch \<Rightarrow>
        if \<not> isSafeInteger (JsInt epoch) \<or> epoch \<le> pj_recoveryEpoch job \<or>
           tkey now < tkey (pj_updatedAt job)
        then Inl JobHistoryError
        else if pj_terminal job \<noteq> None then Inr s
        else if pj_stateVersion job \<ge> MAX_POLICY_EVALUATION_JOB_HISTORY_ENTRIES
        then Inl JobHistoryError
        else
          let (charged, acquisitionExhausted) = chargeUncertainPolicyEvaluationAcquisition s;
              wasActive = (pj_currentLease job \<noteq> None);
              deadlineReached = (tkey now \<ge> tkey (pj_deadlineAt job));
              historyReached =
                (pj_stateVersion job = MAX_POLICY_EVALUATION_JOB_HISTORY_ENTRIES - 1);
              closed = closeOpenAttempt
                (if deadlineReached then ClosureStopped ClosedTimedOut DeadlineReachedReason now
                 else if historyReached
                 then ClosureStopped ClosedBudgetExhausted BudgetLimitReached now
                 else ClosureInterrupted WorkerInterrupted now) charged;
              attemptId = latestAttemptId s;
              recovered = job\<lparr>pj_recoveryEpoch := epoch\<rparr>
          in if deadlineReached \<or> historyReached \<or> acquisitionExhausted
             then parseSnapshot (closed\<lparr>ps_job :=
                    terminate (if deadlineReached then PTimedOut else PBudgetExhausted)
                      (if deadlineReached then DeadlineReachedCode else BudgetLimitReachedCode)
                      attemptId now recovered\<rparr>)
             else if wasActive then
               (case retryOrFail s now WorkerInterrupted attemptId recovered of
                  Inl e \<Rightarrow> Inl e
                | Inr job' \<Rightarrow> parseSnapshot (closed\<lparr>ps_job := job'\<rparr>))
             else parseSnapshot (closed\<lparr>ps_job := (advanceJob now recovered)
               \<lparr>pj_currentLease := None,
                pj_retryAt :=
                  (case pj_retryAt job of
                     None \<Rightarrow> None
                   | Some r \<Rightarrow> if pj_status job = PRetryReady \<and> tkey r < tkey now then Some now else Some r)\<rparr>\<rparr>))"

section \<open>Cancellation and history exhaustion\<close>

definition cancelPolicyEvaluationJob ::
    "PolicyEvaluationJobSnapshot \<Rightarrow> PolicyEvaluationCancellation \<Rightarrow> transition_result" where
  "cancelPolicyEvaluationJob s intent =
     (let job = ps_job s in
      if \<not> PolicyEvaluationJobSnapshotSchema s then Inl SchedulerZodError
      else if \<not> PolicyEvaluationCancellationSchema intent then Inl SchedulerZodError
      else if pcn_jobId intent \<noteq> pj_jobId job \<or> \<not> sameScope (pcn_scope intent) (pj_scope job)
      then rejectTransition StateConflict
      else case ps_cancellation s of
        Some previous \<Rightarrow>
          if pcn_cancellationId previous \<noteq> pcn_cancellationId intent \<or>
             pcn_reason previous \<noteq> pcn_reason intent \<or>
             pcn_requestedByPrincipalId previous \<noteq> pcn_requestedByPrincipalId intent
          then rejectTransition StateConflict
          else Inr s
      | None \<Rightarrow>
          if pj_status job \<notin> {PQueued, PAcquiring, PSealed, PRunning, PRetryReady}
          then rejectTransition StateConflict
          else
            let now = pcn_requestedAt intent in
            if tkey now < tkey (pj_updatedAt job) then rejectTransition StateConflict
            else if pj_stateVersion job \<ge> MAX_SAFE_INTEGER then rejectTransition CounterExhausted
            else
              let (charged, _) = chargeUncertainPolicyEvaluationAcquisition s;
                  closed = closeOpenAttempt
                    (ClosureStopped ClosedCancelled CancellationCommitted now) charged
              in parseSnapshot (closed\<lparr>ps_cancellation := Some intent,
                   ps_job := (terminate PCancelled CancellationCommittedCode (latestAttemptId s) now job)
                     \<lparr>pj_result := None\<rparr>\<rparr>))"

definition exhaustPolicyEvaluationJobHistory ::
    "PolicyEvaluationJobSnapshot \<Rightarrow> policy_time \<Rightarrow> transition_result" where
  "exhaustPolicyEvaluationJobHistory s now =
     (let job = ps_job s in
      if \<not> PolicyEvaluationJobSnapshotSchema s then Inl SchedulerZodError
      else if \<not> PolicyEvaluationTimeSchema now then Inl SchedulerZodError
      else if pj_terminal job \<noteq> None \<or>
              pj_stateVersion job \<noteq> MAX_POLICY_EVALUATION_JOB_HISTORY_ENTRIES - 1 \<or>
              tkey now < tkey (pj_updatedAt job)
      then Inl JobHistoryError
      else
        let (charged, _) = chargeUncertainPolicyEvaluationAcquisition s;
            closed = closeOpenAttempt
              (ClosureStopped ClosedBudgetExhausted BudgetLimitReached now) charged
        in parseSnapshot (closed\<lparr>ps_job :=
             terminate PBudgetExhausted BudgetLimitReachedCode (latestAttemptId s) now job\<rparr>))"

end
