(* ===== verification/Policy_Graph.thy ===== *)
theory Policy_Graph
  imports Policy_Scheduler
begin

text \<open>
  How edits of a scheduler graph keep its contract. The history fold is monotone in the receipts, the
  epoch and the usage, and only its last step changes when the latest attempt is closed or sealed;
  an outstanding acquisition allowance is exactly the remaining budget, so charging it in full stays
  within the frozen limits. Two lemmas carry every transition: \<open>close_valid\<close> (the lease ends) and
  \<open>leased_valid\<close> (the lease stays).
\<close>

section \<open>Usage\<close>

lemma usageAtMost_iff [simp]: "usageAtMost u v \<longleftrightarrow> u \<le> v"
proof
  assume "usageAtMost u v"
  then have "u k \<le> v k" for k by (cases k) (auto simp: usageAtMost_def USAGE_KEYS_def)
  then show "u \<le> v" by (simp add: le_fun_def)
qed (simp add: usageAtMost_def le_fun_def not_less USAGE_KEYS_def)

lemma UsageSchema_iff:
  "PolicyEvaluationUsageSchema u \<longleftrightarrow> (\<forall>k. 0 \<le> u k \<and> u k \<le> usageMaximum k) \<and>
     u URecordBytes + u UReferenceBytes \<le> MAX_POLICY_EVALUATION_ACQUISITION_RECORD_BYTES"
proof -
  have "(\<forall>k. P k) \<longleftrightarrow> list_all P USAGE_KEYS" for P
    by (simp add: USAGE_KEYS_def) (metis UsageKey.exhaust)
  then show ?thesis by (simp add: PolicyEvaluationUsageSchema_def not_less)
qed

section \<open>Attempt history\<close>

definition contextAtMost :: "history_context \<Rightarrow> history_context \<Rightarrow> bool" where
  "contextAtMost hc hc' \<longleftrightarrow>
     hc_scope hc' = hc_scope hc \<and> hc_jobId hc' = hc_jobId hc \<and>
     hc_recoveryEpoch hc \<le> hc_recoveryEpoch hc' \<and> hc_createdKey hc' = hc_createdKey hc \<and>
     hc_updatedKey hc \<le> hc_updatedKey hc' \<and> hc_deadline hc' = hc_deadline hc \<and>
     hc_timeout hc' = hc_timeout hc \<and> hc_usage hc \<le> hc_usage hc'"

lemma attemptAccepted_mono:
  assumes "attemptAccepted hc hs a" and "contextAtMost hc hc'"
  shows "attemptAccepted hc' hs a"
  using assms unfolding attemptAccepted_def contextAtMost_def optional_iff usageAtMost_iff Let_def
  by (auto intro: order_trans)

lemma historyLoop_mono:
  "historyLoop hc hs xs = Some r \<Longrightarrow> contextAtMost hc hc' \<Longrightarrow> historyLoop hc' hs xs = Some r"
  by (induction xs arbitrary: hs) (auto split: if_splits intro: attemptAccepted_mono)

lemma historyLoop_snoc:
  "historyLoop hc hs (xs @ [a]) = Some r \<longleftrightarrow>
     (\<exists>h. historyLoop hc hs xs = Some h \<and> attemptAccepted hc h a \<and> r = attemptAdvance h a)"
  by (induction xs arbitrary: hs) auto

lemma historyLoop_facts:
  "historyLoop hc hs xs = Some h \<Longrightarrow>
     hs_index h = hs_index hs + length xs \<and>
     hs_attemptIds h = hs_attemptIds hs @ map (pf_attemptId \<circ> pa_mutationFence) xs \<and>
     hs_leaseIds h = hs_leaseIds hs @ map (pf_leaseId \<circ> pa_mutationFence) xs"
  by (induction xs arbitrary: hs) (auto simp: attemptAdvance_def split: if_splits)

lemma latestAttempt_simps [simp]:
  "latestAttempt [] = None" "latestAttempt (xs @ [a]) = Some a"
  by (simp_all add: latestAttempt_def)

lemma latestAttempt_None_iff: "latestAttempt xs = None \<longleftrightarrow> xs = []"
  by (simp add: latestAttempt_def)

lemma latestAttempt_Some_iff: "latestAttempt xs = Some a \<longleftrightarrow> (\<exists>ys. xs = ys @ [a])"
  by (auto simp: latestAttempt_def intro: append_butlast_last_id [symmetric])

lemma updateLatest_simps [simp]:
  "updateLatest f [] = []" "updateLatest f (xs @ [a]) = xs @ [f a]"
  by (simp_all add: updateLatest_def)

lemma snapshotHistoryOk_snoc:
  assumes "ps_attempts s = xs @ [a]"
  shows "snapshotHistoryOk s \<longleftrightarrow>
    (\<exists>h. historyLoop (historyContext s) initialHistory xs = Some h \<and>
       attemptAccepted (historyContext s) h a \<and>
       pf_fencingToken (pa_mutationFence a) = pj_lastFencingToken (ps_job s) \<and>
       pj_snapshot (ps_job s) = hs_boundSnapshot (attemptAdvance h a))"
proof -
  have "snapshotHistoryOk s \<longleftrightarrow>
    (\<exists>r. historyLoop (historyContext s) initialHistory (xs @ [a]) = Some r \<and>
       pf_fencingToken (pa_mutationFence a) = pj_lastFencingToken (ps_job s) \<and>
       pj_snapshot (ps_job s) = hs_boundSnapshot r)"
    using assms by (simp add: snapshotHistoryOk_def split: option.split)
  then show ?thesis by (auto simp: historyLoop_snoc)
qed

lemma snapshotHistoryOk_Nil: "ps_attempts s = [] \<Longrightarrow> snapshotHistoryOk s"
  by (simp add: snapshotHistoryOk_def)

text \<open>A later graph of the same job: the receipts, the epoch and the usage have only grown.\<close>

definition laterGraph :: "PolicyEvaluationJobSnapshot \<Rightarrow> PolicyEvaluationJobSnapshot \<Rightarrow> bool" where
  "laterGraph s t \<longleftrightarrow> ps_request t = ps_request s \<and>
     pj_jobId (ps_job t) = pj_jobId (ps_job s) \<and> pj_scope (ps_job t) = pj_scope (ps_job s) \<and>
     pj_createdAt (ps_job t) = pj_createdAt (ps_job s) \<and>
     pj_recoveryEpoch (ps_job s) \<le> pj_recoveryEpoch (ps_job t) \<and>
     tkey (pj_updatedAt (ps_job s)) \<le> tkey (pj_updatedAt (ps_job t)) \<and> ps_usage s \<le> ps_usage t"

lemma laterGraph_context: "laterGraph s t \<Longrightarrow> contextAtMost (historyContext s) (historyContext t)"
  by (simp add: laterGraph_def contextAtMost_def historyContext_def)

lemma history_unchanged:
  assumes "snapshotHistoryOk s" and "laterGraph s t" and "ps_attempts t = ps_attempts s"
    and "pj_lastFencingToken (ps_job t) = pj_lastFencingToken (ps_job s)"
    and "pj_snapshot (ps_job t) = pj_snapshot (ps_job s)"
  shows "snapshotHistoryOk t"
proof -
  obtain r where "historyLoop (historyContext s) initialHistory (ps_attempts s) = Some r"
    using assms(1) by (auto simp: snapshotHistoryOk_def split: option.splits)
  from historyLoop_mono [OF this laterGraph_context [OF assms(2)]] this
  show ?thesis using assms by (simp add: snapshotHistoryOk_def cong: option.case_cong)
qed

lemma history_closed:
  assumes "snapshotHistoryOk s" and "laterGraph s t"
    and "ps_attempts s = xs @ [a]"
    and "ps_attempts t = xs @ [a\<lparr>pa_closure := Some c, pa_usageAtClose := Some (ps_usage t)\<rparr>]"
    and "pj_lastFencingToken (ps_job t) = pj_lastFencingToken (ps_job s)"
    and "pj_snapshot (ps_job t) = pj_snapshot (ps_job s)"
    and "tkey (closureCommittedAt c) \<le> tkey (pj_updatedAt (ps_job t))"
  shows "snapshotHistoryOk t"
proof -
  obtain h where h: "historyLoop (historyContext s) initialHistory xs = Some h"
    "attemptAccepted (historyContext s) h a"
    "pf_fencingToken (pa_mutationFence a) = pj_lastFencingToken (ps_job s)"
    "pj_snapshot (ps_job s) = hs_boundSnapshot (attemptAdvance h a)"
    using assms(1) by (auto simp: snapshotHistoryOk_snoc [OF assms(3)])
  note later = laterGraph_context [OF assms(2)]
  have "attemptAccepted (historyContext t) h
      (a\<lparr>pa_closure := Some c, pa_usageAtClose := Some (ps_usage t)\<rparr>)"
    using attemptAccepted_mono [OF h(2) later] assms(7)
    by (simp add: attemptAccepted_def historyContext_def cong: option.case_cong)
  then show ?thesis
    using historyLoop_mono [OF h(1) later] h(3,4) assms(5,6)
    by (simp add: snapshotHistoryOk_snoc [OF assms(4)] attemptAdvance_def)
qed

lemma history_sealed:
  assumes "snapshotHistoryOk s" and "laterGraph s t"
    and "ps_attempts s = xs @ [a]"
    and "ps_attempts t = xs @ [a\<lparr>pa_phase := PhaseComputing, pa_snapshot := Some r\<rparr>]"
    and "pj_lastFencingToken (ps_job t) = pj_lastFencingToken (ps_job s)"
    and "pj_snapshot (ps_job s) = None" and "pa_snapshot a = None"
    and "pj_snapshot (ps_job t) = Some r"
  shows "snapshotHistoryOk t"
proof -
  obtain h where h: "historyLoop (historyContext s) initialHistory xs = Some h"
    "attemptAccepted (historyContext s) h a"
    "pf_fencingToken (pa_mutationFence a) = pj_lastFencingToken (ps_job s)"
    "pj_snapshot (ps_job s) = hs_boundSnapshot (attemptAdvance h a)"
    using assms(1) by (auto simp: snapshotHistoryOk_snoc [OF assms(3)])
  note later = laterGraph_context [OF assms(2)]
  have "hs_boundSnapshot h = None" using h(4) assms(6,7) by (simp add: attemptAdvance_def)
  then have "attemptAccepted (historyContext t) h
      (a\<lparr>pa_phase := PhaseComputing, pa_snapshot := Some r\<rparr>)"
    using attemptAccepted_mono [OF h(2) later] by (simp add: attemptAccepted_def cong: option.case_cong)
  then show ?thesis
    using historyLoop_mono [OF h(1) later] h(3) assms(5,8)
    by (simp add: snapshotHistoryOk_snoc [OF assms(4)] attemptAdvance_def)
qed


section \<open>Charging an uncertain acquisition\<close>

lemmas SnapshotSchemaD = PolicyEvaluationJobSnapshotSchema_def [THEN iffD1]

lemma metadata_within:
  assumes "PolicyEvaluationJobSnapshotSchema s"
  shows "PolicyEvaluationExecutionLimitsSchema (prq_limits (ps_request s))"
    "PolicyEvaluationUsageSchema (ps_usage s)"
    "usageWithinLimits (prq_limits (ps_request s)) (ps_usage s)"
  using assms
  by (simp_all add: PolicyEvaluationJobSnapshotSchema_def snapshotShape_def PolicyEvaluationRequestSchema_def)

text \<open>Usage within the frozen limits satisfies the usage contract.\<close>

lemma usage_schema_within:
  assumes "PolicyEvaluationExecutionLimitsSchema l" and "usageWithinLimits l u" and "\<And>k. 0 \<le> u k"
  shows "PolicyEvaluationUsageSchema u"
proof -
  have "u k \<le> usageMaximum k" for k
    using assms(1,2) assms(3) [of URecordBytes] assms(3) [of UReferenceBytes]
    by (cases k) (simp_all add: usageWithinLimits_def PolicyEvaluationExecutionLimitsSchema_def boundedInteger_def)
  then show ?thesis
    using assms
    by (simp add: UsageSchema_iff usageWithinLimits_def PolicyEvaluationExecutionLimitsSchema_def boundedInteger_def)
qed

text \<open>Charging within the remaining budget keeps the usage contract and the frozen limits.\<close>

definition acquisitionFits :: "PolicyEvaluationJobSnapshot \<Rightarrow> PolicyEvaluationAcquisitionUsage \<Rightarrow> bool" where
  "acquisitionFits s v \<longleftrightarrow>
     0 \<le> aqu_reads v \<and> aqu_reads v \<le> aql_reads (remainingAcquisition s) \<and>
     0 \<le> aqu_records v \<and> aqu_records v \<le> aql_records (remainingAcquisition s) \<and>
     0 \<le> aqu_references v \<and> aqu_references v \<le> aql_references (remainingAcquisition s) \<and>
     0 \<le> aqu_recordBytes v \<and> 0 \<le> aqu_referenceBytes v \<and>
     aqu_recordBytes v + aqu_referenceBytes v \<le> aql_recordAndReferenceBytes (remainingAcquisition s)"

lemma chargedUsage_ok:
  assumes "PolicyEvaluationJobSnapshotSchema s" and "acquisitionFits s v"
  shows "PolicyEvaluationUsageSchema (chargedUsage (ps_usage s) v)"
    "usageWithinLimits (prq_limits (ps_request s)) (chargedUsage (ps_usage s) v)"
    "ps_usage s \<le> chargedUsage (ps_usage s) v"
proof -
  note ok = metadata_within [OF assms(1)]
  have grow: "ps_usage s k \<le> chargedUsage (ps_usage s) v k" for k
    using assms(2) by (cases k) (simp_all add: acquisitionFits_def)
  then show "ps_usage s \<le> chargedUsage (ps_usage s) v" by (simp add: le_fun_def)
  show within: "usageWithinLimits (prq_limits (ps_request s)) (chargedUsage (ps_usage s) v)"
    using ok(3) assms(2)
    by (simp add: usageWithinLimits_def remainingAcquisition_def policyEvaluationMetadataUsage_def
        acquisitionFits_def Let_def)
  show "PolicyEvaluationUsageSchema (chargedUsage (ps_usage s) v)"
    using ok(2) grow by (intro usage_schema_within [OF ok(1) within]) (auto simp: UsageSchema_iff intro: order_trans)
qed

text \<open>An outstanding allowance is exactly the remaining metadata budget.\<close>

lemma allowance_is_remaining:
  assumes "PolicyEvaluationJobSnapshotSchema s" and "ps_acquisitionAllowance s = Some a"
  shows "aal_limits a = remainingAcquisition s" "acquisitionFits s (fullAllowanceUsage a)"
proof -
  have "allowanceBinds s a" using assms by (simp add: PolicyEvaluationJobSnapshotSchema_def)
  then show limits: "aal_limits a = remainingAcquisition s"
    by (auto simp: allowanceBinds_def remainingAcquisition_def policyEvaluationMetadataUsage_def Let_def
        intro!: PolicyEvaluationAcquisitionLimits.equality)
  show "acquisitionFits s (fullAllowanceUsage a)"
    using metadata_within(3) [OF assms(1)]
    by (simp add: acquisitionFits_def fullAllowanceUsage_def limits usageWithinLimits_def
        remainingAcquisition_def policyEvaluationMetadataUsage_def Let_def)
qed

definition chargedGraph :: "PolicyEvaluationJobSnapshot \<Rightarrow> PolicyEvaluationJobSnapshot" where
  "chargedGraph s = fst (chargeUncertainPolicyEvaluationAcquisition s)"

lemma chargeUncertain_eq:
  "chargeUncertainPolicyEvaluationAcquisition s = (chargedGraph s, ps_acquisitionAllowance s \<noteq> None)"
  by (simp add: chargedGraph_def chargeUncertainPolicyEvaluationAcquisition_def split: option.split)

lemma chargedGraph_frame [simp]:
  "ps_request (chargedGraph s) = ps_request s" "ps_job (chargedGraph s) = ps_job s"
  "ps_attempts (chargedGraph s) = ps_attempts s" "ps_cancellation (chargedGraph s) = ps_cancellation s"
  "ps_acquisitionAllowance (chargedGraph s) = None"
  by (simp_all add: chargedGraph_def chargeUncertainPolicyEvaluationAcquisition_def chargeAllowance_def
      split: option.split)

lemma chargedGraph_usage:
  assumes "PolicyEvaluationJobSnapshotSchema s"
  shows "PolicyEvaluationUsageSchema (ps_usage (chargedGraph s))"
    "usageWithinLimits (prq_limits (ps_request s)) (ps_usage (chargedGraph s))"
    "ps_usage s \<le> ps_usage (chargedGraph s)"
proof -
  have "PolicyEvaluationUsageSchema (ps_usage (chargedGraph s)) \<and>
    usageWithinLimits (prq_limits (ps_request s)) (ps_usage (chargedGraph s)) \<and>
    ps_usage s \<le> ps_usage (chargedGraph s)"
  proof (cases "ps_acquisitionAllowance s")
    case None
    then have "chargedGraph s = s"
      by (simp add: chargedGraph_def chargeUncertainPolicyEvaluationAcquisition_def)
    then show ?thesis using metadata_within [OF assms] by simp
  next
    case (Some a)
    then have "ps_usage (chargedGraph s) = chargedUsage (ps_usage s) (fullAllowanceUsage a)"
      by (simp add: chargedGraph_def chargeUncertainPolicyEvaluationAcquisition_def chargeAllowance_def)
    then show ?thesis
      using chargedUsage_ok [OF assms allowance_is_remaining(2) [OF assms Some]] by simp
  qed
  then show "PolicyEvaluationUsageSchema (ps_usage (chargedGraph s))"
    "usageWithinLimits (prq_limits (ps_request s)) (ps_usage (chargedGraph s))"
    "ps_usage s \<le> ps_usage (chargedGraph s)" by blast+
qed


section \<open>Edits that keep the graph valid\<close>

text \<open>What every edit keeps of the job, and what may only grow.\<close>

definition sameJob :: "PolicyEvaluationJob \<Rightarrow> PolicyEvaluationJob \<Rightarrow> bool" where
  "sameJob j k \<longleftrightarrow>
     pj_jobId k = pj_jobId j \<and> pj_definitionSha256 k = pj_definitionSha256 j \<and>
     pj_request k = pj_request j \<and> pj_scope k = pj_scope j \<and>
     pj_createdAt k = pj_createdAt j \<and> pj_createdByPrincipalId k = pj_createdByPrincipalId j \<and>
     pj_deadlineAt k = pj_deadlineAt j \<and> pj_recoveryEpoch j \<le> pj_recoveryEpoch k \<and>
     tkey (pj_updatedAt j) \<le> tkey (pj_updatedAt k)"

lemma sameJob_request: "sameJob j k \<Longrightarrow> jobPreservesRequest r k \<longleftrightarrow> jobPreservesRequest r j"
  by (auto simp: sameJob_def jobPreservesRequest_def)

lemma sameJob_cancellation: "sameJob j k \<Longrightarrow> cancellationBinds j c \<Longrightarrow> cancellationBinds k c"
  by (auto simp: sameJob_def cancellationBinds_def)

lemma sameJob_later:
  "sameJob (ps_job s) (ps_job t) \<Longrightarrow> ps_request t = ps_request s \<Longrightarrow> ps_usage s \<le> ps_usage t \<Longrightarrow>
     laterGraph s t"
  by (simp add: sameJob_def laterGraph_def)

lemma closeOpenAttempt_frame [simp]:
  "ps_request (closeOpenAttempt c s) = ps_request s" "ps_job (closeOpenAttempt c s) = ps_job s"
  "ps_usage (closeOpenAttempt c s) = ps_usage s"
  "ps_cancellation (closeOpenAttempt c s) = ps_cancellation s"
  "ps_acquisitionAllowance (closeOpenAttempt c s) = ps_acquisitionAllowance s"
  "length (ps_attempts (closeOpenAttempt c s)) = length (ps_attempts s)"
  by (auto simp: closeOpenAttempt_def updateLatest_def split: option.split)

lemma closeOpenAttempt_cases:
  obtains "ps_attempts s = []" "ps_attempts (closeOpenAttempt c s) = []"
  | xs a where "ps_attempts s = xs @ [a]" "pa_closure a \<noteq> None"
      "ps_attempts (closeOpenAttempt c s) = xs @ [a]"
  | xs a where "ps_attempts s = xs @ [a]" "pa_closure a = None"
      "ps_attempts (closeOpenAttempt c s) =
         xs @ [a\<lparr>pa_closure := Some c, pa_usageAtClose := Some (ps_usage s)\<rparr>]"
proof (cases "ps_attempts s" rule: rev_cases)
  case Nil
  then show ?thesis using that(1) by (simp add: closeOpenAttempt_def)
next
  case (snoc xs a)
  then show ?thesis using that(2,3) by (cases "pa_closure a = None") (simp_all add: closeOpenAttempt_def)
qed

text \<open>
  Closing: the uncertain acquisition is charged, an open attempt is closed, and the job moves to a
  state without a lease.
\<close>

lemma close_attempts_schema:
  assumes s: "PolicyEvaluationJobSnapshotSchema s"
    and time: "PolicyEvaluationTimeSchema (closureCommittedAt c)"
      "tkey (pj_updatedAt (ps_job s)) \<le> tkey (closureCommittedAt c)"
    and fits: "\<And>a. latestAttempt (ps_attempts s) = Some a \<Longrightarrow> pa_closure a = None \<Longrightarrow> closureFits (pa_phase a) c"
  shows "list_all PolicyEvaluationAttemptSchema (ps_attempts (closeOpenAttempt c (chargedGraph s)))"
proof (cases rule: closeOpenAttempt_cases [of "chargedGraph s" c])
  case 1
  then show ?thesis by simp
next
  case (2 xs a)
  then show ?thesis using s by (simp add: PolicyEvaluationJobSnapshotSchema_def snapshotShape_def)
next
  case (3 xs a)
  then have attempts: "ps_attempts s = xs @ [a]" by simp
  have "snapshotHistoryOk s" and all: "list_all PolicyEvaluationAttemptSchema (xs @ [a])"
    using s attempts by (simp_all add: PolicyEvaluationJobSnapshotSchema_def snapshotShape_def)
  then obtain h where "attemptAccepted (historyContext s) h a"
    by (auto simp: snapshotHistoryOk_snoc [OF attempts])
  then have "pa_usageAtStart a \<le> ps_usage s" "tkey (pa_startedAt a) \<le> tkey (pj_updatedAt (ps_job s))"
    by (simp_all add: attemptAccepted_def historyContext_def)
  then have "PolicyEvaluationAttemptSchema
      (a\<lparr>pa_closure := Some c, pa_usageAtClose := Some (ps_usage (chargedGraph s))\<rparr>)"
    using all time fits [of a] attempts 3(2) chargedGraph_usage [OF s]
    by (auto simp: PolicyEvaluationAttemptSchema_def intro: order_trans)
  then show ?thesis using 3(3) all by simp
qed

lemma close_history:
  assumes s: "PolicyEvaluationJobSnapshotSchema s"
    and job: "sameJob (ps_job s) job" "pj_lastFencingToken job = pj_lastFencingToken (ps_job s)"
      "pj_snapshot job = pj_snapshot (ps_job s)"
    and time: "tkey (closureCommittedAt c) \<le> tkey (pj_updatedAt job)"
    and t: "t = (closeOpenAttempt c (chargedGraph s))\<lparr>ps_job := job, ps_cancellation := cn\<rparr>"
  shows "snapshotHistoryOk t"
proof -
  have history: "snapshotHistoryOk s" using s by (simp add: PolicyEvaluationJobSnapshotSchema_def)
  have later: "laterGraph s t"
    using job(1) chargedGraph_usage(3) [OF s] by (intro sameJob_later) (simp_all add: t)
  show ?thesis
  proof (cases rule: closeOpenAttempt_cases [of "chargedGraph s" c])
    case 1
    then show ?thesis by (intro snapshotHistoryOk_Nil) (simp add: t)
  next
    case (2 xs a)
    then show ?thesis using job(2,3) by (intro history_unchanged [OF history later]) (simp_all add: t)
  next
    case (3 xs a)
    then show ?thesis
      using job(2,3) time by (intro history_closed [OF history later, of xs a c]) (simp_all add: t)
  qed
qed

lemma close_valid:
  assumes s: "PolicyEvaluationJobSnapshotSchema s"
    and job: "sameJob (ps_job s) job" "pj_lastFencingToken job = pj_lastFencingToken (ps_job s)"
      "pj_snapshot job = pj_snapshot (ps_job s)" "pj_attemptCount job = pj_attemptCount (ps_job s)"
      "PolicyEvaluationJobSchema job" "pj_currentLease job = None"
    and time: "PolicyEvaluationTimeSchema (closureCommittedAt c)"
      "tkey (pj_updatedAt (ps_job s)) \<le> tkey (closureCommittedAt c)"
      "tkey (closureCommittedAt c) \<le> tkey (pj_updatedAt job)"
    and fits: "\<And>a. latestAttempt (ps_attempts s) = Some a \<Longrightarrow> pa_closure a = None \<Longrightarrow>
      closureFits (pa_phase a) c \<and> (\<forall>i. c = ClosureCompleted i \<longrightarrow> tkey i < tkey (pa_deadlineAt a))"
    and completed: "pj_status job = PCompleted \<Longrightarrow> (\<exists>i. c = ClosureCompleted i) \<and>
      (\<exists>a. latestAttempt (ps_attempts s) = Some a \<and> pa_closure a = None)"
    and terminal: "optional (\<lambda>r. pterm_attemptId r = latestAttemptId s) (pj_terminal job)"
    and retry: "pj_status job = PRetryReady \<Longrightarrow>
      int (length (ps_attempts s)) < lim_maxAttempts (prq_limits (ps_request s))"
    and cancel: "pj_status job = PCancelled \<Longrightarrow> cn \<noteq> None" "optional PolicyEvaluationCancellationSchema cn"
      "optional (cancellationBinds job) cn"
  shows "PolicyEvaluationJobSnapshotSchema
    ((closeOpenAttempt c (chargedGraph s))\<lparr>ps_job := job, ps_cancellation := cn\<rparr>)"
proof -
  define t where "t = (closeOpenAttempt c (chargedGraph s))\<lparr>ps_job := job, ps_cancellation := cn\<rparr>"
  have graph: "ps_request t = ps_request s" "ps_job t = job" "ps_cancellation t = cn"
    "ps_usage t = ps_usage (chargedGraph s)" "ps_acquisitionAllowance t = None"
    "length (ps_attempts t) = length (ps_attempts s)"
    "ps_attempts t = ps_attempts (closeOpenAttempt c (chargedGraph s))"
    by (simp_all add: t_def)
  have "snapshotShape t"
    using s job(5) cancel(2) chargedGraph_usage(1) [OF s] close_attempts_schema [OF s time(1,2)] fits
    by (simp add: snapshotShape_def graph PolicyEvaluationJobSnapshotSchema_def)
  moreover have "snapshotHistoryOk t" using close_history [OF s job(1-3) time(3) t_def] .
  moreover have "snapshotLeaseOk t"
    using job(6) graph(7)
    by (cases rule: closeOpenAttempt_cases [of "chargedGraph s" c]) (auto simp: snapshotLeaseOk_def graph)
  moreover have "snapshotTerminalOk t"
    using s graph(7) fits completed terminal
    by (cases rule: closeOpenAttempt_cases [of "chargedGraph s" c])
      (auto simp: snapshotTerminalOk_def graph optional_iff latestAttemptId_def
        PolicyEvaluationJobSnapshotSchema_def split: option.splits AttemptClosure.splits)
  ultimately have "PolicyEvaluationJobSnapshotSchema t"
    using s job retry cancel chargedGraph_usage(2) [OF s] sameJob_request [OF job(1), of "ps_request s"]
    by (auto simp: PolicyEvaluationJobSnapshotSchema_def graph not_le)
  then show ?thesis by (simp add: t_def)
qed


text \<open>Working under a lease: the attempts stay, the usage may grow, the lease keeps its fence.\<close>

lemma allowanceBinds_keep:
  assumes "allowanceBinds s a" and "sameJob (ps_job s) (ps_job t)" and "ps_request t = ps_request s"
    and "ps_attempts t = ps_attempts s" and "ps_cancellation t = ps_cancellation s"
    and "pj_status (ps_job t) = pj_status (ps_job s)" and "pj_snapshot (ps_job t) = pj_snapshot (ps_job s)"
    and "map_option pl_mutationFence (pj_currentLease (ps_job t)) =
      map_option pl_mutationFence (pj_currentLease (ps_job s))"
    and "\<forall>k \<in> {UReads, URecords, UReferences, URecordBytes, UReferenceBytes}. ps_usage t k = ps_usage s k"
  shows "allowanceBinds t a"
  using assms by (auto simp: allowanceBinds_def Let_def sameJob_def allowanceStart_def cong: option.case_cong)

lemma lease_statuses:
  assumes "PolicyEvaluationJobSchema j" and "pj_currentLease j = Some l"
  shows "pj_status j \<in> leasedStatuses" "pj_terminal j = None" "pj_retryAt j = None" "pj_result j = None"
proof -
  have r: "refineJob j" using assms(1) by (simp add: PolicyEvaluationJobSchema_def)
  then show leased: "pj_status j \<in> leasedStatuses" using assms(2) by (simp add: refineJob_def)
  have "(pj_status j \<in> terminalStatuses) = (pj_terminal j \<noteq> None)"
    "(pj_status j = PCompleted) = (pj_result j \<noteq> None)" "(pj_status j = PRetryReady) = (pj_retryAt j \<noteq> None)"
    using r by (simp_all add: refineJob_def)
  then show "pj_terminal j = None" "pj_retryAt j = None" "pj_result j = None"
    using leased by (auto simp: leasedStatuses_def terminalStatuses_def)
qed

lemma leased_valid:
  assumes s: "PolicyEvaluationJobSnapshotSchema s" and lease: "pj_currentLease (ps_job s) = Some l"
    and graph: "ps_request t = ps_request s" "ps_attempts t = ps_attempts s"
      "ps_cancellation t = ps_cancellation s"
    and job: "sameJob (ps_job s) (ps_job t)" "PolicyEvaluationJobSchema (ps_job t)"
      "pj_lastFencingToken (ps_job t) = pj_lastFencingToken (ps_job s)"
      "pj_snapshot (ps_job t) = pj_snapshot (ps_job s)"
      "pj_attemptCount (ps_job t) = pj_attemptCount (ps_job s)"
      "pj_currentLease (ps_job t) = Some k"
    and same: "pl_mutationFence k = pl_mutationFence l" "pl_attemptDeadlineAt k = pl_attemptDeadlineAt l"
      "pl_acquiredAt k = pl_acquiredAt l"
      "tkey (pl_expiresAt k) - tkey (pl_heartbeatAt k) \<le>
         lim_leaseDurationMilliseconds (prq_limits (ps_request s)) * POLICY_EVALUATION_TIME_UNITS_PER_MILLISECOND"
    and usage: "ps_usage s \<le> ps_usage t" "PolicyEvaluationUsageSchema (ps_usage t)"
      "usageWithinLimits (prq_limits (ps_request s)) (ps_usage t)"
    and allowance: "optional PolicyEvaluationAcquisitionAllowanceSchema (ps_acquisitionAllowance t)"
      "optional (allowanceBinds t) (ps_acquisitionAllowance t)"
  shows "PolicyEvaluationJobSnapshotSchema t"
proof -
  note statuses = lease_statuses [OF job(2,6)]
  have "snapshotHistoryOk t"
    using s graph job usage(1)
    by (intro history_unchanged [of s t] sameJob_later) (simp_all add: PolicyEvaluationJobSnapshotSchema_def)
  moreover have "snapshotLeaseOk t"
    using s lease graph job(6) same
    by (simp add: PolicyEvaluationJobSnapshotSchema_def snapshotLeaseOk_def split: option.splits)
  moreover have "snapshotTerminalOk t"
    using s graph statuses
    by (auto simp: PolicyEvaluationJobSnapshotSchema_def snapshotTerminalOk_def leasedStatuses_def)
  moreover have "optional (cancellationBinds (ps_job t)) (ps_cancellation t)"
    using s graph(3) sameJob_cancellation [OF job(1)]
    by (auto simp: PolicyEvaluationJobSnapshotSchema_def optional_iff)
  ultimately show ?thesis
    using s graph job usage allowance statuses(1) sameJob_request [OF job(1), of "ps_request s"]
    by (auto simp: PolicyEvaluationJobSnapshotSchema_def snapshotShape_def leasedStatuses_def)
qed

section \<open>Job edits\<close>

lemma increment_Inr_iff [result_simps]: "increment v = Inr n \<longleftrightarrow> v < MAX_SAFE_INTEGER \<and> n = v + 1"
  by (auto simp: increment_def)

lemma parseSnapshot_Inr_iff [result_simps]:
  "parseSnapshot s = Inr t \<longleftrightarrow> PolicyEvaluationJobSnapshotSchema s \<and> t = s"
  by (auto simp: parseSnapshot_def)

lemmas job_schema_defs = PolicyEvaluationJobSchema_def jobShape_def refineJob_def
lemmas status_sets = leasedStatuses_def terminalStatuses_def

lemma advance_schema:
  assumes j: "PolicyEvaluationJobSchema j" and "PolicyEvaluationTimeSchema now"
    and "tkey (pj_updatedAt j) \<le> tkey now" and "pj_stateVersion j < MAX_SAFE_INTEGER"
    and lease: "pj_currentLease j = Some l"
  shows "PolicyEvaluationJobSchema (advanceJob now j)"
proof -
  note none = lease_statuses(2,3) [OF j lease]
  have "jobShape (advanceJob now j)"
    using assms by (simp add: PolicyEvaluationJobSchema_def jobShape_def advanceJob_def SafePositiveInteger_def)
  moreover have "refineJob (advanceJob now j)"
    using assms none by (simp add: PolicyEvaluationJobSchema_def refineJob_def advanceJob_def leaseBindsJob_def) auto
  ultimately show ?thesis by (simp add: PolicyEvaluationJobSchema_def)
qed

lemma advance_same: "tkey (pj_updatedAt j) \<le> tkey now \<Longrightarrow> sameJob j (advanceJob now j)"
  by (simp add: sameJob_def advanceJob_def)

lemma terminate_same: "tkey (pj_updatedAt j) \<le> tkey now \<Longrightarrow> sameJob j (terminate st code aid now j)"
  by (simp add: sameJob_def advanceJob_def terminate_def)

lemma terminal_statuses:
  "status \<in> terminalStatuses \<Longrightarrow> status \<notin> leasedStatuses \<and> status \<noteq> PQueued \<and> status \<noteq> PAcquiring \<and>
     status \<noteq> PSealed \<and> status \<noteq> PRunning \<and> status \<noteq> PRetryReady"
  by (auto simp: status_sets)

text \<open>A job that is not terminal, seen without its lease: what the closing edits start from.\<close>

definition liveJob :: "PolicyEvaluationJob \<Rightarrow> bool" where
  "liveJob j \<longleftrightarrow> jobShape j \<and> pj_terminal j = None \<and> pj_result j = None \<and>
     (pj_attemptCount j = 0) = (pj_lastFencingToken j = 0) \<and>
     tkey (pj_createdAt j) \<le> tkey (pj_updatedAt j) \<and> tkey (pj_createdAt j) < tkey (pj_deadlineAt j)"

lemma live_job:
  assumes "PolicyEvaluationJobSchema j" and "pj_terminal j = None"
  shows "liveJob j"
proof -
  have r: "jobShape j" "refineJob j" using assms(1) by (simp_all add: PolicyEvaluationJobSchema_def)
  then have "pj_status j \<notin> terminalStatuses" using assms(2) by (simp add: refineJob_def)
  then have "pj_status j \<noteq> PCompleted" by (auto simp: terminalStatuses_def)
  then have "pj_result j = None" using r(2) by (simp add: refineJob_def)
  then show ?thesis using r assms(2) by (simp add: liveJob_def refineJob_def not_le)
qed

lemma live_epoch: "liveJob j \<Longrightarrow> SafeNonnegativeInteger e \<Longrightarrow> liveJob (j\<lparr>pj_recoveryEpoch := e\<rparr>)"
  by (simp add: liveJob_def jobShape_def)

lemma terminate_schema:
  assumes j: "liveJob j" and now: "PolicyEvaluationTimeSchema now"
    "tkey (pj_updatedAt j) \<le> tkey now" and version: "pj_stateVersion j < MAX_SAFE_INTEGER"
    and status: "status \<in> terminalStatuses" and code: "code \<in> terminalCodes status"
    and aid: "optional OpaqueIdSchema aid" "(pj_attemptCount j = 0) = (aid = None)"
    and completed: "status = PCompleted \<Longrightarrow> aid \<noteq> None \<and> pj_snapshot j \<noteq> None"
    and res: "(status = PCompleted) = (r \<noteq> None)" "optional PolicyEvaluationResultReferenceSchema r"
  shows "PolicyEvaluationJobSchema ((terminate status code aid now j)\<lparr>pj_result := r\<rparr>)"
proof -
  let ?k = "(terminate status code aid now j)\<lparr>pj_result := r\<rparr>"
  have "jobShape ?k"
    using j now version status code aid(1) res(2) completed
    by (auto simp: liveJob_def jobShape_def terminate_def advanceJob_def SafePositiveInteger_def TerminalSchema_def)
  moreover have "refineJob ?k"
    using j now terminal_statuses [OF status] status aid(2) res(1) completed
    by (cases r) (simp_all add: liveJob_def refineJob_def terminate_def advanceJob_def)
  ultimately show ?thesis by (simp add: PolicyEvaluationJobSchema_def)
qed

lemma terminate_no_result:
  "liveJob j \<Longrightarrow> (terminate status code aid now j)\<lparr>pj_result := None\<rparr> = terminate status code aid now j"
  by (cases j) (simp add: liveJob_def terminate_def advanceJob_def)

lemma retry_schema:
  assumes "liveJob j" and "PolicyEvaluationTimeSchema now"
    and "tkey (pj_updatedAt j) \<le> tkey now" and "pj_stateVersion j < MAX_SAFE_INTEGER"
    and "pj_attemptCount j \<noteq> 0" and "PolicyEvaluationTimeSchema r"
    and "tkey now \<le> tkey r" and "tkey r < tkey (pj_deadlineAt j)"
  shows "PolicyEvaluationJobSchema
    ((advanceJob now j)\<lparr>pj_currentLease := None, pj_status := PRetryReady, pj_retryAt := Some r\<rparr>)"
  using assms
  by (simp add: liveJob_def job_schema_defs advanceJob_def status_sets SafePositiveInteger_def)

section \<open>Closing transitions\<close>

lemma latestAttemptId_facts:
  assumes "PolicyEvaluationJobSnapshotSchema s"
  shows "optional OpaqueIdSchema (latestAttemptId s)"
    "(pj_attemptCount (ps_job s) = 0) = (latestAttemptId s = None)"
  using assms
  by (cases "ps_attempts s" rule: rev_cases;
      simp add: latestAttemptId_def PolicyEvaluationJobSnapshotSchema_def snapshotShape_def
        PolicyEvaluationAttemptSchema_def PolicyEvaluationWorkerMutationFenceSchema_def)+

lemma limits_safe:
  assumes "PolicyEvaluationJobSnapshotSchema s"
  defines "l \<equiv> prq_limits (ps_request s)"
  shows "0 \<le> lim_perAttemptTimeoutMilliseconds l" "lim_perAttemptTimeoutMilliseconds l \<le> MAX_SAFE_INTEGER"
    "0 \<le> lim_retryBackoffMilliseconds l" "lim_retryBackoffMilliseconds l \<le> MAX_SAFE_INTEGER"
    "0 < lim_leaseDurationMilliseconds l" "lim_leaseDurationMilliseconds l \<le> MAX_SAFE_INTEGER"
    "0 < lim_perAttemptTimeoutMilliseconds l"
  using metadata_within(1) [OF assms(1)]
  by (simp_all add: l_def PolicyEvaluationExecutionLimitsSchema_def boundedInteger_def policy_limits
      MAX_SAFE_INTEGER_def)

text \<open>The instant a retry becomes due: the backoff after \<open>now\<close>, or the deadline when that is earlier.\<close>

lemma retryOrFail_cases:
  assumes s: "PolicyEvaluationJobSnapshotSchema s" and now: "PolicyEvaluationTimeSchema now"
    and job: "PolicyEvaluationTimeSchema (pj_deadlineAt job)"
  obtains r where "PolicyEvaluationTimeSchema r"
    "tkey r = min (tkey now + lim_retryBackoffMilliseconds (prq_limits (ps_request s)) *
       POLICY_EVALUATION_TIME_UNITS_PER_MILLISECOND) (tkey (pj_deadlineAt job))"
    "retryOrFail s now reason aid job =
       (if tkey r \<ge> tkey (pj_deadlineAt job) \<or>
           int (length (ps_attempts s)) \<ge> lim_maxAttempts (prq_limits (ps_request s)) \<or>
           reason \<notin> set (lim_retryableErrors (prq_limits (ps_request s)))
        then Inr (terminate PFailed RetriesExhaustedCode aid now job)
        else Inr ((advanceJob now job)\<lparr>pj_currentLease := None, pj_status := PRetryReady,
                    pj_retryAt := Some r\<rparr>))"
  using addUpTo_exact [OF now job limits_safe(3,4) [OF s]] that by (auto simp: retryOrFail_def)

lemma closed_cancellation [simp]:
  "(closeOpenAttempt c (chargedGraph s))\<lparr>ps_job := k, ps_cancellation := ps_cancellation s\<rparr> =
     (closeOpenAttempt c (chargedGraph s))\<lparr>ps_job := k\<rparr>"
  by (rule PolicyEvaluationJobSnapshot.equality) simp_all

lemma close_terminate_valid:
  assumes s: "PolicyEvaluationJobSnapshotSchema s" and live: "pj_terminal (ps_job s) = None"
    and now: "PolicyEvaluationTimeSchema now" "tkey (pj_updatedAt (ps_job s)) \<le> tkey now"
    and version: "pj_stateVersion (ps_job s) < MAX_SAFE_INTEGER"
    and epoch: "pj_recoveryEpoch (ps_job s) \<le> e" "SafeNonnegativeInteger e"
    and status: "status \<in> {PFailed, PTimedOut, PBudgetExhausted}" "code \<in> terminalCodes status"
    and c: "closureCommittedAt c = now" "\<And>i. c \<noteq> ClosureCompleted i"
    and fits: "\<And>a. latestAttempt (ps_attempts s) = Some a \<Longrightarrow> pa_closure a = None \<Longrightarrow> closureFits (pa_phase a) c"
  shows "PolicyEvaluationJobSnapshotSchema ((closeOpenAttempt c (chargedGraph s))
    \<lparr>ps_job := terminate status code (latestAttemptId s) now ((ps_job s)\<lparr>pj_recoveryEpoch := e\<rparr>)\<rparr>)"
proof -
  let ?j = "(ps_job s)\<lparr>pj_recoveryEpoch := e\<rparr>"
  let ?k = "terminate status code (latestAttemptId s) now ?j"
  have "PolicyEvaluationJobSchema (ps_job s)"
    using s by (simp add: PolicyEvaluationJobSnapshotSchema_def snapshotShape_def)
  then have j: "liveJob ?j" using live epoch(2) by (simp add: live_job live_epoch)
  have "PolicyEvaluationJobSchema (?k\<lparr>pj_result := None\<rparr>)"
    using j now version status latestAttemptId_facts [OF s]
    by (intro terminate_schema) (auto simp: terminalStatuses_def)
  then have schema: "PolicyEvaluationJobSchema ?k" by (simp only: terminate_no_result [OF j])
  have same: "sameJob (ps_job s) ?k"
    using now(2) epoch(1) by (simp add: sameJob_def terminate_def advanceJob_def)
  have cancel: "optional PolicyEvaluationCancellationSchema (ps_cancellation s)"
    "optional (cancellationBinds ?k) (ps_cancellation s)"
    using s sameJob_cancellation [OF same]
    by (auto simp: PolicyEvaluationJobSnapshotSchema_def snapshotShape_def optional_iff)
  have "PolicyEvaluationJobSnapshotSchema
      ((closeOpenAttempt c (chargedGraph s))\<lparr>ps_job := ?k, ps_cancellation := ps_cancellation s\<rparr>)"
    using same schema now c fits status(1) cancel
    by (intro close_valid [OF s]) (auto simp: terminate_def advanceJob_def)
  then show ?thesis by simp
qed

lemma close_retry_valid:
  assumes s: "PolicyEvaluationJobSnapshotSchema s" and live: "pj_terminal (ps_job s) = None"
    and now: "PolicyEvaluationTimeSchema now" "tkey (pj_updatedAt (ps_job s)) \<le> tkey now"
    and version: "pj_stateVersion (ps_job s) < MAX_SAFE_INTEGER"
    and epoch: "pj_recoveryEpoch (ps_job s) \<le> e" "SafeNonnegativeInteger e"
    and attempts: "ps_attempts s \<noteq> []"
    and c: "closureCommittedAt c = now" "\<And>i. c \<noteq> ClosureCompleted i"
    and fits: "\<And>a. latestAttempt (ps_attempts s) = Some a \<Longrightarrow> pa_closure a = None \<Longrightarrow> closureFits (pa_phase a) c"
  shows "\<exists>job. retryOrFail s now reason (latestAttemptId s) ((ps_job s)\<lparr>pj_recoveryEpoch := e\<rparr>) = Inr job \<and>
    PolicyEvaluationJobSnapshotSchema ((closeOpenAttempt c (chargedGraph s))\<lparr>ps_job := job\<rparr>)"
proof -
  let ?j = "(ps_job s)\<lparr>pj_recoveryEpoch := e\<rparr>"
  have schema: "PolicyEvaluationJobSchema (ps_job s)" and count: "pj_attemptCount ?j \<noteq> 0"
    using s attempts by (simp_all add: PolicyEvaluationJobSnapshotSchema_def snapshotShape_def)
  then have j: "liveJob ?j" using live epoch(2) by (simp add: live_job live_epoch)
  then have "PolicyEvaluationTimeSchema (pj_deadlineAt ?j)" by (simp add: liveJob_def jobShape_def)
  from retryOrFail_cases [OF s now(1) this, of reason "latestAttemptId s"]
  obtain r where r: "PolicyEvaluationTimeSchema r"
    "tkey r = min (tkey now + lim_retryBackoffMilliseconds (prq_limits (ps_request s)) *
       POLICY_EVALUATION_TIME_UNITS_PER_MILLISECOND) (tkey (pj_deadlineAt (ps_job s)))"
    and eq: "retryOrFail s now reason (latestAttemptId s) ?j =
       (if tkey r \<ge> tkey (pj_deadlineAt (ps_job s)) \<or>
           int (length (ps_attempts s)) \<ge> lim_maxAttempts (prq_limits (ps_request s)) \<or>
           reason \<notin> set (lim_retryableErrors (prq_limits (ps_request s)))
        then Inr (terminate PFailed RetriesExhaustedCode (latestAttemptId s) now ?j)
        else Inr ((advanceJob now ?j)\<lparr>pj_currentLease := None, pj_status := PRetryReady,
                    pj_retryAt := Some r\<rparr>))"
    by auto
  show ?thesis
  proof (cases "tkey r \<ge> tkey (pj_deadlineAt (ps_job s)) \<or>
      int (length (ps_attempts s)) \<ge> lim_maxAttempts (prq_limits (ps_request s)) \<or>
      reason \<notin> set (lim_retryableErrors (prq_limits (ps_request s)))")
    case True
    then show ?thesis
      using close_terminate_valid [OF s live now version epoch, of PFailed RetriesExhaustedCode c] c fits
      by (auto simp: eq)
  next
    case False
    let ?k = "(advanceJob now ?j)\<lparr>pj_currentLease := None, pj_status := PRetryReady, pj_retryAt := Some r\<rparr>"
    have "tkey now \<le> tkey r"
      using r(2) False limits_safe(3) [OF s]
      by (auto simp: min_def POLICY_EVALUATION_TIME_UNITS_PER_MILLISECOND_def split: if_splits)
    then have k: "PolicyEvaluationJobSchema ?k"
      using j now version count r(1) False by (intro retry_schema) auto
    have same: "sameJob (ps_job s) ?k"
      using now(2) epoch(1) by (simp add: sameJob_def advanceJob_def)
    have cancel: "optional PolicyEvaluationCancellationSchema (ps_cancellation s)"
      "optional (cancellationBinds ?k) (ps_cancellation s)"
      using s sameJob_cancellation [OF same]
      by (auto simp: PolicyEvaluationJobSnapshotSchema_def snapshotShape_def optional_iff)
    have "PolicyEvaluationJobSnapshotSchema
        ((closeOpenAttempt c (chargedGraph s))\<lparr>ps_job := ?k, ps_cancellation := ps_cancellation s\<rparr>)"
      using same k now c fits False cancel live
      by (intro close_valid [OF s]) (auto simp: advanceJob_def)
    then show ?thesis using False eq by auto
  qed
qed


text \<open>What the worker transitions check first: a lease that is still the job's, in time.\<close>

definition holdsLease ::
    "PolicyEvaluationJobSnapshot \<Rightarrow> policy_time \<Rightarrow> js_number \<Rightarrow> PolicyEvaluationWorkerMutationFence \<Rightarrow>
     PolicyEvaluationLease \<Rightarrow> bool" where
  "holdsLease s now epoch fence lease \<longleftrightarrow>
     PolicyEvaluationJobSnapshotSchema s \<and> PolicyEvaluationTimeSchema now \<and>
     pj_currentLease (ps_job s) = Some lease \<and> epoch = JsInt (pj_recoveryEpoch (ps_job s)) \<and>
     fence = pl_mutationFence lease \<and> tkey (pj_updatedAt (ps_job s)) \<le> tkey now \<and>
     tkey now < tkey (pl_expiresAt lease)"

lemma lease_shape:
  assumes "PolicyEvaluationJobSnapshotSchema s" and "pj_currentLease (ps_job s) = Some l"
  shows "PolicyEvaluationJobSchema (ps_job s)" "PolicyEvaluationLeaseSchema l" "leaseBindsJob (ps_job s) l"
    "tkey (pl_expiresAt l) \<le> tkey (pl_attemptDeadlineAt l)"
    "tkey (pl_attemptDeadlineAt l) \<le> tkey (pj_deadlineAt (ps_job s))"
    "PolicyEvaluationWorkerMutationFenceSchema (pl_mutationFence l)"
proof -
  show job: "PolicyEvaluationJobSchema (ps_job s)"
    using assms(1) by (simp add: PolicyEvaluationJobSnapshotSchema_def snapshotShape_def)
  then show l: "PolicyEvaluationLeaseSchema l" "leaseBindsJob (ps_job s) l"
    using assms(2) by (simp_all add: job_schema_defs)
  then show "tkey (pl_expiresAt l) \<le> tkey (pl_attemptDeadlineAt l)"
    "tkey (pl_attemptDeadlineAt l) \<le> tkey (pj_deadlineAt (ps_job s))"
    "PolicyEvaluationWorkerMutationFenceSchema (pl_mutationFence l)"
    by (simp_all add: PolicyEvaluationLeaseSchema_def leaseBindsJob_def)
qed

lemma requireLive_Inr_iff [result_simps]:
  "requirePolicyEvaluationLiveFence s now epoch fence = Inr lease \<longleftrightarrow> holdsLease s now epoch fence lease"
proof (cases "PolicyEvaluationJobSnapshotSchema s \<and> pj_currentLease (ps_job s) = Some lease")
  case True
  note facts = lease_shape [OF True [THEN conjunct1] True [THEN conjunct2]]
  show ?thesis
    using True facts(4-6) lease_statuses(1) [OF facts(1) True [THEN conjunct2]]
    by (auto simp: requirePolicyEvaluationLiveFence_def holdsLease_def Let_def)
next
  case False
  then show ?thesis
    by (auto simp: requirePolicyEvaluationLiveFence_def holdsLease_def Let_def split: option.splits)
qed

text \<open>The open attempt behind a lease.\<close>

lemma lease_attempt:
  assumes "PolicyEvaluationJobSnapshotSchema s" and "pj_currentLease (ps_job s) = Some l"
  obtains xs a where "ps_attempts s = xs @ [a]" "pa_closure a = None" "pa_usageAtClose a = None"
    "pa_mutationFence a = pl_mutationFence l" "pa_deadlineAt a = pl_attemptDeadlineAt l"
    "pa_startedAt a = pl_acquiredAt l" "PolicyEvaluationAttemptSchema a"
    "latestAttemptId s = Some (pf_attemptId (pl_mutationFence l))"
    "(pa_phase a = PhaseComputing) = (pj_snapshot (ps_job s) \<noteq> None)"
    "pa_snapshot a = pj_snapshot (ps_job s)"
proof (cases "ps_attempts s" rule: rev_cases)
  case Nil
  then show ?thesis using assms by (simp add: PolicyEvaluationJobSnapshotSchema_def snapshotLeaseOk_def)
next
  case (snoc xs a)
  have lease: "pa_closure a = None" "pa_mutationFence a = pl_mutationFence l"
    "pa_deadlineAt a = pl_attemptDeadlineAt l" "pa_startedAt a = pl_acquiredAt l"
    and schema: "PolicyEvaluationAttemptSchema a" and history: "snapshotHistoryOk s"
    using assms snoc by (simp_all add: PolicyEvaluationJobSnapshotSchema_def snapshotLeaseOk_def snapshotShape_def)
  obtain h where "attemptAccepted (historyContext s) h a" "pj_snapshot (ps_job s) = hs_boundSnapshot (attemptAdvance h a)"
    using history by (auto simp: snapshotHistoryOk_snoc [OF snoc])
  then have bound: "pa_snapshot a = pj_snapshot (ps_job s)"
    by (auto simp: attemptAccepted_def attemptAdvance_def split: option.splits)
  show ?thesis
    using that [OF snoc lease(1) _ lease(2-4) schema _ _ bound] schema lease snoc bound
    by (auto simp: PolicyEvaluationAttemptSchema_def latestAttemptId_def)
qed

end
