(* ===== verification/Policy_Claim.thy ===== *)
theory Policy_Claim
  imports Policy_Graph
begin

text \<open>
  Claiming a policy-evaluation job: when \<open>claimPolicyEvaluationJob\<close> succeeds, and that the graph it
  builds satisfies the whole contract, so the parse that ends it never rejects.
\<close>

section \<open>Claim\<close>

text \<open>The loop's variables after the whole history of an unleased job.\<close>

lemma history_end:
  assumes s: "PolicyEvaluationJobSnapshotSchema s" and lease: "pj_currentLease (ps_job s) = None"
  obtains h where "historyLoop (historyContext s) initialHistory (ps_attempts s) = Some h"
    "hs_previousFence h = pj_lastFencingToken (ps_job s)"
    "hs_previousEpoch h \<le> pj_recoveryEpoch (ps_job s)"
    "hs_index h > 0 \<Longrightarrow> \<exists>i. hs_previousClosed h = Some i \<and> tkey i \<le> tkey (pj_updatedAt (ps_job s))"
    "ps_attempts s \<noteq> [] \<Longrightarrow> hs_boundSnapshot h = pj_snapshot (ps_job s)"
    "ps_attempts s = [] \<Longrightarrow> hs_boundSnapshot h = None"
    "optional (\<lambda>u. u \<le> ps_usage s) (hs_priorUsage h)"
proof (cases "ps_attempts s" rule: rev_cases)
  case Nil
  have "pj_attemptCount (ps_job s) = 0" "PolicyEvaluationJobSchema (ps_job s)"
    using s Nil by (simp_all add: PolicyEvaluationJobSnapshotSchema_def snapshotShape_def)
  then have "pj_lastFencingToken (ps_job s) = 0" "0 \<le> pj_recoveryEpoch (ps_job s)"
    by (simp_all add: job_schema_defs SafeNonnegativeInteger_def)
  then show ?thesis using that [of initialHistory] Nil by (simp add: initialHistory_def)
next
  case (snoc xs a)
  have "snapshotHistoryOk s" and closed: "pa_closure a \<noteq> None"
    using s lease snoc by (auto simp: PolicyEvaluationJobSnapshotSchema_def snapshotLeaseOk_def)
  then obtain h where h: "historyLoop (historyContext s) initialHistory xs = Some h"
    "attemptAccepted (historyContext s) h a"
    "pf_fencingToken (pa_mutationFence a) = pj_lastFencingToken (ps_job s)"
    "pj_snapshot (ps_job s) = hs_boundSnapshot (attemptAdvance h a)"
    by (auto simp: snapshotHistoryOk_snoc [OF snoc])
  have loop: "historyLoop (historyContext s) initialHistory (ps_attempts s) = Some (attemptAdvance h a)"
    using h(1,2) snoc by (simp add: historyLoop_snoc)
  show ?thesis
    using that [OF loop] h(2-4) closed snoc
    by (auto simp: attemptAdvance_def attemptAccepted_def historyContext_def)
qed

definition claimable :: "PolicyEvaluationJobSnapshot \<Rightarrow> policy_time \<Rightarrow> bool" where
  "claimable s now \<longleftrightarrow>
     PolicyEvaluationJobSnapshotSchema s \<and> PolicyEvaluationTimeSchema now \<and>
     pj_status (ps_job s) \<in> {PQueued, PRetryReady} \<and>
     tkey (pj_updatedAt (ps_job s)) \<le> tkey now \<and> tkey now < tkey (pj_deadlineAt (ps_job s)) \<and>
     optional (\<lambda>r. tkey r \<le> tkey now) (pj_retryAt (ps_job s)) \<and>
     int (length (ps_attempts s)) < lim_maxAttempts (prq_limits (ps_request s)) \<and>
     pj_lastFencingToken (ps_job s) < MAX_SAFE_INTEGER \<and> pj_stateVersion (ps_job s) < MAX_SAFE_INTEGER"

definition freshIds :: "PolicyEvaluationJobSnapshot \<Rightarrow> string \<Rightarrow> string \<Rightarrow> string \<Rightarrow> bool" where
  "freshIds s attemptId leaseId workerId \<longleftrightarrow>
     OpaqueIdSchema attemptId \<and> OpaqueIdSchema leaseId \<and> OpaqueIdSchema workerId \<and>
     attemptId \<notin> set (map (pf_attemptId \<circ> pa_mutationFence) (ps_attempts s)) \<and>
     leaseId \<notin> set (map (pf_leaseId \<circ> pa_mutationFence) (ps_attempts s))"

lemma claimable_job:
  assumes "claimable s now"
  shows "PolicyEvaluationJobSchema (ps_job s)" "pj_currentLease (ps_job s) = None"
    "pj_terminal (ps_job s) = None" "liveJob (ps_job s)" "ps_acquisitionAllowance s = None"
    "ps_attempts s = [] \<Longrightarrow> pj_snapshot (ps_job s) = None"
    "pj_attemptCount (ps_job s) = int (length (ps_attempts s))"
proof -
  have s: "PolicyEvaluationJobSnapshotSchema s" using assms by (simp add: claimable_def)
  then show job: "PolicyEvaluationJobSchema (ps_job s)"
    "pj_attemptCount (ps_job s) = int (length (ps_attempts s))"
    by (simp_all add: PolicyEvaluationJobSnapshotSchema_def snapshotShape_def)
  have st: "pj_status (ps_job s) \<in> {PQueued, PRetryReady}" using assms by (simp add: claimable_def)
  then have "pj_status (ps_job s) \<notin> leasedStatuses" "pj_status (ps_job s) \<notin> terminalStatuses"
    by (auto simp: status_sets)
  then show "pj_currentLease (ps_job s) = None" and t: "pj_terminal (ps_job s) = None"
    using job(1) by (simp_all add: job_schema_defs)
  from live_job [OF job(1) t] show "liveJob (ps_job s)" .
  have "pj_status (ps_job s) \<noteq> PAcquiring" using st by auto
  then show "ps_acquisitionAllowance s = None"
    using s by (cases "ps_acquisitionAllowance s")
      (simp_all add: PolicyEvaluationJobSnapshotSchema_def allowanceBinds_def Let_def)
  have "pj_status (ps_job s) = PRetryReady \<Longrightarrow> pj_attemptCount (ps_job s) \<noteq> 0"
    using job(1) by (cases "pj_retryAt (ps_job s)") (auto simp: job_schema_defs)
  then show "pj_snapshot (ps_job s) = None" if "ps_attempts s = []"
    using job st that by (auto simp: job_schema_defs)
qed

lemma claim_instants:
  assumes c: "claimable s now"
  obtains attemptDeadline expiry where
    "addPolicyEvaluationMillisecondsUpTo now (lim_perAttemptTimeoutMilliseconds (prq_limits (ps_request s)))
       (pj_deadlineAt (ps_job s)) = Inr attemptDeadline"
    "addPolicyEvaluationMillisecondsUpTo now (lim_leaseDurationMilliseconds (prq_limits (ps_request s)))
       attemptDeadline = Inr expiry"
    "PolicyEvaluationTimeSchema attemptDeadline" "PolicyEvaluationTimeSchema expiry"
    "tkey attemptDeadline = min (tkey now + lim_perAttemptTimeoutMilliseconds (prq_limits (ps_request s)) *
       POLICY_EVALUATION_TIME_UNITS_PER_MILLISECOND) (tkey (pj_deadlineAt (ps_job s)))"
    "tkey expiry = min (tkey now + lim_leaseDurationMilliseconds (prq_limits (ps_request s)) *
       POLICY_EVALUATION_TIME_UNITS_PER_MILLISECOND) (tkey attemptDeadline)"
    "tkey now < tkey expiry" "tkey expiry \<le> tkey attemptDeadline"
    "tkey attemptDeadline \<le> tkey (pj_deadlineAt (ps_job s))"
proof -
  have s: "PolicyEvaluationJobSnapshotSchema s" and now: "PolicyEvaluationTimeSchema now"
    and before: "tkey now < tkey (pj_deadlineAt (ps_job s))"
    using c by (simp_all add: claimable_def)
  have "PolicyEvaluationTimeSchema (pj_deadlineAt (ps_job s))"
    using claimable_job(1) [OF c] by (simp add: job_schema_defs)
  from addUpTo_exact [OF now this limits_safe(1,2) [OF s]]
  obtain d where d: "addPolicyEvaluationMillisecondsUpTo now
      (lim_perAttemptTimeoutMilliseconds (prq_limits (ps_request s))) (pj_deadlineAt (ps_job s)) = Inr d"
    "PolicyEvaluationTimeSchema d"
    "tkey d = min (tkey now + lim_perAttemptTimeoutMilliseconds (prq_limits (ps_request s)) *
       POLICY_EVALUATION_TIME_UNITS_PER_MILLISECOND) (tkey (pj_deadlineAt (ps_job s)))"
    by blast
  from addUpTo_exact [OF now d(2) less_imp_le [OF limits_safe(5) [OF s]] limits_safe(6) [OF s]]
  obtain e where e: "addPolicyEvaluationMillisecondsUpTo now
      (lim_leaseDurationMilliseconds (prq_limits (ps_request s))) d = Inr e" "PolicyEvaluationTimeSchema e"
    "tkey e = min (tkey now + lim_leaseDurationMilliseconds (prq_limits (ps_request s)) *
       POLICY_EVALUATION_TIME_UNITS_PER_MILLISECOND) (tkey d)"
    by blast
  have "tkey now < tkey e" "tkey e \<le> tkey d" "tkey d \<le> tkey (pj_deadlineAt (ps_job s))"
    using before d(3) e(3) limits_safe(5,7) [OF s]
    by (simp_all add: POLICY_EVALUATION_TIME_UNITS_PER_MILLISECOND_def min_def)
  then show ?thesis by (rule that [OF d(1) e(1) d(2) e(2) d(3) e(3)])
qed


lemma claim_job_schema:
  assumes c: "claimable s now" and fence: "PolicyEvaluationWorkerMutationFenceSchema fence"
    "pf_jobId fence = pj_jobId (ps_job s)" "pf_fencingToken fence = pj_lastFencingToken (ps_job s) + 1"
    "pf_recoveryEpoch fence = pj_recoveryEpoch (ps_job s)"
    and times: "PolicyEvaluationTimeSchema d" "PolicyEvaluationTimeSchema e" "tkey now < tkey e"
      "tkey e \<le> tkey d" "tkey d \<le> tkey (pj_deadlineAt (ps_job s))"
  shows "PolicyEvaluationJobSchema (ps_job (claimedSnapshot s now fence d e (pj_stateVersion (ps_job s) + 1)))"
proof -
  let ?j = "ps_job (claimedSnapshot s now fence d e (pj_stateVersion (ps_job s) + 1))"
  have count: "int (length (ps_attempts s)) < MAX_POLICY_EVALUATION_ATTEMPTS"
    using c metadata_within(1) [of s]
    by (simp add: claimable_def PolicyEvaluationExecutionLimitsSchema_def boundedInteger_def)
  note job = claimable_job(1-4) [OF c]
  have bounds: "0 \<le> pj_lastFencingToken (ps_job s)" "tkey (pj_createdAt (ps_job s)) \<le> tkey now"
    using job(1,4) c by (auto simp: liveJob_def jobShape_def SafeNonnegativeInteger_def claimable_def)
  have lease: "PolicyEvaluationLeaseSchema (claimedLease s now fence d e)"
    using c job(4) fence(1) times count
    by (simp add: claimable_def liveJob_def jobShape_def PolicyEvaluationLeaseSchema_def claimedLease_def)
  have "jobShape ?j"
    using job(4) c count lease bounds
    by (simp add: liveJob_def jobShape_def claimedSnapshot_def claimable_def fence
        SafePositiveInteger_def SafeNonnegativeInteger_def)
  moreover have "refineJob ?j"
    using job(3,4) bounds fence
    by (simp add: liveJob_def refineJob_def claimedSnapshot_def leaseBindsJob_def claimedLease_def status_sets)
  ultimately show ?thesis by (simp add: PolicyEvaluationJobSchema_def)
qed

lemma claim_history:
  assumes c: "claimable s now"
    and fence: "pf_jobId fence = pj_jobId (ps_job s)"
      "pf_fencingToken fence = pj_lastFencingToken (ps_job s) + 1"
      "pf_recoveryEpoch fence = pj_recoveryEpoch (ps_job s)"
    and fresh: "freshIds s (pf_attemptId fence) (pf_leaseId fence) w"
    and d: "tkey d = min (tkey now + lim_perAttemptTimeoutMilliseconds (prq_limits (ps_request s)) *
       POLICY_EVALUATION_TIME_UNITS_PER_MILLISECOND) (tkey (pj_deadlineAt (ps_job s)))"
  shows "snapshotHistoryOk (claimedSnapshot s now fence d e v)"
proof -
  let ?t = "claimedSnapshot s now fence d e v" and ?a = "claimedAttempt s now fence d"
  have s: "PolicyEvaluationJobSnapshotSchema s" using c by (simp add: claimable_def)
  note job = claimable_job [OF c]
  obtain h where h: "historyLoop (historyContext s) initialHistory (ps_attempts s) = Some h"
    "hs_previousFence h = pj_lastFencingToken (ps_job s)"
    "hs_previousEpoch h \<le> pj_recoveryEpoch (ps_job s)"
    "hs_index h > 0 \<Longrightarrow> \<exists>i. hs_previousClosed h = Some i \<and> tkey i \<le> tkey (pj_updatedAt (ps_job s))"
    "ps_attempts s \<noteq> [] \<Longrightarrow> hs_boundSnapshot h = pj_snapshot (ps_job s)"
    "ps_attempts s = [] \<Longrightarrow> hs_boundSnapshot h = None"
    "optional (\<lambda>u. u \<le> ps_usage s) (hs_priorUsage h)"
    using that by (rule history_end [OF s job(2)])
  have bound: "hs_boundSnapshot h = pj_snapshot (ps_job s)" using h(5,6) job(6) by (cases "ps_attempts s = []") auto
  have receipts: "tkey (pj_updatedAt (ps_job s)) \<le> tkey now" "tkey (pj_createdAt (ps_job s)) \<le> tkey now"
    using c job(4) by (auto simp: claimable_def liveJob_def)
  have deadline: "tkey (pj_deadlineAt (ps_job s)) = requestDeadline (ps_request s)"
    using s by (simp add: PolicyEvaluationJobSnapshotSchema_def jobPreservesRequest_def)
  note ids = historyLoop_facts [OF h(1)]
  have "attemptAccepted (historyContext ?t) h ?a"
    unfolding attemptAccepted_def
  proof (intro conjI)
    show "hs_index h > 0 \<longrightarrow> (case hs_previousClosed h of None \<Rightarrow> False
        | Some i \<Rightarrow> \<not> tkey (pa_startedAt ?a) < tkey i)"
      using h(4) receipts(1) by (auto simp: claimedAttempt_def)
    show "case pa_snapshot ?a of None \<Rightarrow> hs_boundSnapshot h = None
        | Some r \<Rightarrow> \<not> (hs_boundSnapshot h \<noteq> None \<and> hs_boundSnapshot h \<noteq> Some r)"
      using bound by (simp add: claimedAttempt_def split: option.split)
  qed (use ids fresh h fence d receipts in
      \<open>simp_all add: claimedAttempt_def claimedSnapshot_def historyContext_def freshIds_def initialHistory_def
         deadline min_def Let_def\<close>)
  moreover have "laterGraph s ?t"
    using receipts by (simp add: laterGraph_def claimedSnapshot_def)
  from historyLoop_mono [OF h(1) laterGraph_context [OF this]]
  have "historyLoop (historyContext ?t) initialHistory (ps_attempts s) = Some h" .
  moreover have "ps_attempts ?t = ps_attempts s @ [?a]" by (simp add: claimedSnapshot_def)
  moreover have "pj_snapshot (ps_job ?t) = hs_boundSnapshot (attemptAdvance h ?a)"
    using bound by (simp add: claimedSnapshot_def attemptAdvance_def claimedAttempt_def split: option.split)
  ultimately show ?thesis
    by (simp add: snapshotHistoryOk_snoc claimedAttempt_def claimedSnapshot_def)
qed


lemma claim_valid:
  assumes c: "claimable s now" and fence: "PolicyEvaluationWorkerMutationFenceSchema fence"
    "pf_jobId fence = pj_jobId (ps_job s)" "pf_fencingToken fence = pj_lastFencingToken (ps_job s) + 1"
    "pf_recoveryEpoch fence = pj_recoveryEpoch (ps_job s)"
    and fresh: "freshIds s (pf_attemptId fence) (pf_leaseId fence) w"
    and times: "PolicyEvaluationTimeSchema d" "PolicyEvaluationTimeSchema e" "tkey now < tkey e"
      "tkey e \<le> tkey d" "tkey d \<le> tkey (pj_deadlineAt (ps_job s))"
    and d: "tkey d = min (tkey now + lim_perAttemptTimeoutMilliseconds (prq_limits (ps_request s)) *
       POLICY_EVALUATION_TIME_UNITS_PER_MILLISECOND) (tkey (pj_deadlineAt (ps_job s)))"
    and e: "tkey e = min (tkey now + lim_leaseDurationMilliseconds (prq_limits (ps_request s)) *
       POLICY_EVALUATION_TIME_UNITS_PER_MILLISECOND) (tkey d)"
  shows "PolicyEvaluationJobSnapshotSchema (claimedSnapshot s now fence d e (pj_stateVersion (ps_job s) + 1))"
proof -
  let ?t = "claimedSnapshot s now fence d e (pj_stateVersion (ps_job s) + 1)"
  let ?a = "claimedAttempt s now fence d"
  have s: "PolicyEvaluationJobSnapshotSchema s" using c by (simp add: claimable_def)
  note job = claimable_job [OF c] and schema = claim_job_schema [OF c fence times]
  have graph: "ps_attempts ?t = ps_attempts s @ [?a]" "ps_request ?t = ps_request s"
    "ps_cancellation ?t = ps_cancellation s" "ps_usage ?t = ps_usage s" "ps_acquisitionAllowance ?t = None"
    "pj_currentLease (ps_job ?t) = Some (claimedLease s now fence d e)"
    "pj_attemptCount (ps_job ?t) = int (length (ps_attempts s)) + 1"
    using job(5) by (simp_all add: claimedSnapshot_def)
  have same: "sameJob (ps_job s) (ps_job ?t)"
    using c by (simp add: sameJob_def claimedSnapshot_def claimable_def)
  have count: "int (length (ps_attempts s)) < lim_maxAttempts (prq_limits (ps_request s))"
    "lim_maxAttempts (prq_limits (ps_request s)) \<le> MAX_POLICY_EVALUATION_ATTEMPTS"
    using c metadata_within(1) [OF s]
    by (simp_all add: claimable_def PolicyEvaluationExecutionLimitsSchema_def boundedInteger_def)
  have "PolicyEvaluationAttemptSchema ?a"
    using c job(4) fence(1) times count metadata_within(2) [OF s]
    by (simp add: claimable_def liveJob_def jobShape_def PolicyEvaluationAttemptSchema_def claimedAttempt_def)
  then have "snapshotShape ?t"
    using s schema count by (simp add: snapshotShape_def graph PolicyEvaluationJobSnapshotSchema_def)
  moreover have "snapshotLeaseOk ?t"
    using d e by (simp add: snapshotLeaseOk_def graph claimedLease_def claimedAttempt_def)
  moreover note statuses = lease_statuses(1,2) [OF schema graph(6)]
  then have "snapshotTerminalOk ?t"
    by (auto simp: snapshotTerminalOk_def graph claimedAttempt_def leasedStatuses_def)
  moreover have "optional (cancellationBinds (ps_job ?t)) (ps_cancellation ?t)"
    using s sameJob_cancellation [OF same]
    by (auto simp: PolicyEvaluationJobSnapshotSchema_def optional_iff graph)
  moreover note claim_history [OF c fence(2-4) fresh d, of e "pj_stateVersion (ps_job s) + 1"]
  ultimately show ?thesis
    using s count statuses sameJob_request [OF same, of "ps_request s"]
    by (auto simp: PolicyEvaluationJobSnapshotSchema_def graph leasedStatuses_def)
qed

text \<open>A claim succeeds exactly when the job is claimable now and the identifiers are new.\<close>

lemma claim_Inr_iff:
  "(\<exists>t. claimPolicyEvaluationJob s now epoch attemptId leaseId workerId = Inr t) \<longleftrightarrow>
     claimable s now \<and> epoch = JsInt (pj_recoveryEpoch (ps_job s)) \<and> freshIds s attemptId leaseId workerId"
  (is "?l \<longleftrightarrow> ?r")
proof
  assume ?l
  then show ?r
    by (auto simp: claimPolicyEvaluationJob_def Let_def result_simps claimable_def freshIds_def list_ex_iff
        not_le not_less)
next
  assume r: ?r
  then have c: "claimable s now" by blast
  define fence where "fence = claimFence (ps_job s) (pj_lastFencingToken (ps_job s) + 1) attemptId leaseId workerId"
  from claim_instants [OF c] obtain d e where times:
    "addPolicyEvaluationMillisecondsUpTo now (lim_perAttemptTimeoutMilliseconds (prq_limits (ps_request s)))
       (pj_deadlineAt (ps_job s)) = Inr d"
    "addPolicyEvaluationMillisecondsUpTo now (lim_leaseDurationMilliseconds (prq_limits (ps_request s))) d = Inr e"
    and "PolicyEvaluationTimeSchema d" "PolicyEvaluationTimeSchema e" "tkey now < tkey e"
      "tkey e \<le> tkey d" "tkey d \<le> tkey (pj_deadlineAt (ps_job s))"
      "tkey d = min (tkey now + lim_perAttemptTimeoutMilliseconds (prq_limits (ps_request s)) *
       POLICY_EVALUATION_TIME_UNITS_PER_MILLISECOND) (tkey (pj_deadlineAt (ps_job s)))"
      "tkey e = min (tkey now + lim_leaseDurationMilliseconds (prq_limits (ps_request s)) *
       POLICY_EVALUATION_TIME_UNITS_PER_MILLISECOND) (tkey d)"
    by metis
  moreover have "PolicyEvaluationWorkerMutationFenceSchema fence" "pf_jobId fence = pj_jobId (ps_job s)"
    "pf_fencingToken fence = pj_lastFencingToken (ps_job s) + 1"
    "pf_recoveryEpoch fence = pj_recoveryEpoch (ps_job s)"
    "freshIds s (pf_attemptId fence) (pf_leaseId fence) workerId"
    using r claimable_job(4) [OF c]
    by (simp_all add: fence_def claimFence_def freshIds_def PolicyEvaluationWorkerMutationFenceSchema_def
        liveJob_def jobShape_def claimable_def SafePositiveInteger_def SafeNonnegativeInteger_def)
  ultimately have "PolicyEvaluationJobSnapshotSchema
      (claimedSnapshot s now fence d e (pj_stateVersion (ps_job s) + 1))"
    by (intro claim_valid [OF c]) auto
  then have "claimPolicyEvaluationJob s now epoch attemptId leaseId workerId =
      Inr (claimedSnapshot s now fence d e (pj_stateVersion (ps_job s) + 1))"
    using r times
    by (auto simp: claimPolicyEvaluationJob_def Let_def claimable_def freshIds_def list_ex_iff not_le
        not_less increment_def parseSnapshot_def fence_def image_iff)
  then show ?l by blast
qed

end
