(* ===== verification/Policy_Validity.thy ===== *)
theory Policy_Validity
  imports Policy_Claim
begin

text \<open>
  The graphs the other transitions build satisfy the whole contract: heartbeat, usage and allowance
  reservation, settlement, sealing, starting, completion, cancellation and recovery. Interruption,
  reclaim and history exhaustion are instances of the closing lemmas.
\<close>

section \<open>Working under the lease\<close>

lemma holdsLease_facts:
  assumes "holdsLease s now epoch fence l"
  shows "PolicyEvaluationJobSnapshotSchema s" "PolicyEvaluationTimeSchema now"
    "pj_currentLease (ps_job s) = Some l" "tkey (pj_updatedAt (ps_job s)) \<le> tkey now"
    "PolicyEvaluationJobSchema (ps_job s)" "pj_terminal (ps_job s) = None" "liveJob (ps_job s)"
    "tkey now < tkey (pl_expiresAt l)" "tkey now < tkey (pl_attemptDeadlineAt l)"
    "tkey now < tkey (pj_deadlineAt (ps_job s))"
proof -
  have h: "PolicyEvaluationJobSnapshotSchema s" "pj_currentLease (ps_job s) = Some l"
    "tkey now < tkey (pl_expiresAt l)"
    using assms by (simp_all add: holdsLease_def)
  note facts = lease_shape [OF h(1,2)]
  note t = lease_statuses(2) [OF facts(1) h(2)]
  show "PolicyEvaluationJobSnapshotSchema s" "PolicyEvaluationTimeSchema now"
    "pj_currentLease (ps_job s) = Some l" "tkey (pj_updatedAt (ps_job s)) \<le> tkey now"
    "tkey now < tkey (pl_expiresAt l)" "tkey now < tkey (pl_attemptDeadlineAt l)"
    "tkey now < tkey (pj_deadlineAt (ps_job s))"
    using assms facts(4,5) by (auto simp: holdsLease_def)
  show "PolicyEvaluationJobSchema (ps_job s)" "pj_terminal (ps_job s) = None" "liveJob (ps_job s)"
    using facts(1) t live_job [OF facts(1) t] by simp_all
qed

lemma allowance_still_binds:
  assumes s: "PolicyEvaluationJobSnapshotSchema s" and same: "sameJob (ps_job s) (ps_job t)"
    and graph: "ps_request t = ps_request s" "ps_attempts t = ps_attempts s"
      "ps_cancellation t = ps_cancellation s" "ps_acquisitionAllowance t = ps_acquisitionAllowance s"
      "pj_status (ps_job t) = pj_status (ps_job s)" "pj_snapshot (ps_job t) = pj_snapshot (ps_job s)"
      "map_option pl_mutationFence (pj_currentLease (ps_job t)) =
         map_option pl_mutationFence (pj_currentLease (ps_job s))"
    and usage: "ps_acquisitionAllowance s \<noteq> None \<Longrightarrow>
      \<forall>k \<in> {UReads, URecords, UReferences, URecordBytes, UReferenceBytes}. ps_usage t k = ps_usage s k"
  shows "optional PolicyEvaluationAcquisitionAllowanceSchema (ps_acquisitionAllowance t)"
    "optional (allowanceBinds t) (ps_acquisitionAllowance t)"
proof -
  show "optional PolicyEvaluationAcquisitionAllowanceSchema (ps_acquisitionAllowance t)"
    using s graph(4) by (simp add: PolicyEvaluationJobSnapshotSchema_def snapshotShape_def)
  show "optional (allowanceBinds t) (ps_acquisitionAllowance t)"
  proof (cases "ps_acquisitionAllowance s")
    case (Some a)
    then have "allowanceBinds s a" using s by (simp add: PolicyEvaluationJobSnapshotSchema_def)
    from allowanceBinds_keep [OF this same graph(1-3) graph(5-7)] usage Some graph(4)
    show ?thesis by simp
  qed (simp add: graph(4))
qed

lemma lease_duration:
  assumes "PolicyEvaluationJobSnapshotSchema s" and "pj_currentLease (ps_job s) = Some l"
  shows "tkey (pl_expiresAt l) - tkey (pl_heartbeatAt l) \<le>
    lim_leaseDurationMilliseconds (prq_limits (ps_request s)) * POLICY_EVALUATION_TIME_UNITS_PER_MILLISECOND"
  using assms by (simp add: PolicyEvaluationJobSnapshotSchema_def snapshotLeaseOk_def)

subsection \<open>Heartbeat\<close>

lemma heartbeat_job_schema:
  assumes h: "holdsLease s now epoch fence l" and version: "pj_stateVersion (ps_job s) < MAX_SAFE_INTEGER"
    and e: "PolicyEvaluationTimeSchema e" "tkey now < tkey e" "tkey e \<le> tkey (pl_attemptDeadlineAt l)"
  shows "PolicyEvaluationJobSchema ((ps_job s)
    \<lparr>pj_currentLease := Some (l\<lparr>pl_heartbeatAt := now, pl_expiresAt := e\<rparr>),
     pj_updatedAt := now, pj_stateVersion := pj_stateVersion (ps_job s) + 1\<rparr>)" (is "PolicyEvaluationJobSchema ?k")
proof -
  note f = holdsLease_facts [OF h]
  note lease = lease_shape [OF f(1,3)] and st = lease_statuses [OF f(5,3)]
  have live: "refineJob (ps_job s)" using f(5) by (simp add: PolicyEvaluationJobSchema_def)
  have "PolicyEvaluationLeaseSchema (l\<lparr>pl_heartbeatAt := now, pl_expiresAt := e\<rparr>)"
    using lease(2,3) e f(2) live f(4)
    by (simp add: PolicyEvaluationLeaseSchema_def leaseBindsJob_def)
  then have "jobShape ?k"
    using f(2,7) version by (simp add: liveJob_def jobShape_def SafePositiveInteger_def)
  moreover have "refineJob ?k"
    using live st lease(3) f(4) f(7)
    by (simp add: refineJob_def liveJob_def leaseBindsJob_def) auto
  ultimately show ?thesis by (simp add: PolicyEvaluationJobSchema_def)
qed

lemma heartbeat_valid:
  assumes h: "holdsLease s now epoch fence l" and version: "pj_stateVersion (ps_job s) < MAX_SAFE_INTEGER"
  obtains e where "addPolicyEvaluationMillisecondsUpTo now
      (lim_leaseDurationMilliseconds (prq_limits (ps_request s))) (pl_attemptDeadlineAt l) = Inr e"
    "tkey e = min (tkey now + lim_leaseDurationMilliseconds (prq_limits (ps_request s)) *
       POLICY_EVALUATION_TIME_UNITS_PER_MILLISECOND) (tkey (pl_attemptDeadlineAt l))"
    "PolicyEvaluationJobSnapshotSchema (s\<lparr>ps_job := (ps_job s)
      \<lparr>pj_currentLease := Some (l\<lparr>pl_heartbeatAt := now, pl_expiresAt := e\<rparr>),
       pj_updatedAt := now, pj_stateVersion := pj_stateVersion (ps_job s) + 1\<rparr>\<rparr>)"
proof -
  note f = holdsLease_facts [OF h]
  have "PolicyEvaluationTimeSchema (pl_attemptDeadlineAt l)"
    using lease_shape(2) [OF f(1,3)] by (simp add: PolicyEvaluationLeaseSchema_def)
  from addUpTo_exact [OF f(2) this less_imp_le [OF limits_safe(5) [OF f(1)]] limits_safe(6) [OF f(1)]]
  obtain e where e: "addPolicyEvaluationMillisecondsUpTo now
      (lim_leaseDurationMilliseconds (prq_limits (ps_request s))) (pl_attemptDeadlineAt l) = Inr e"
    "PolicyEvaluationTimeSchema e"
    "tkey e = min (tkey now + lim_leaseDurationMilliseconds (prq_limits (ps_request s)) *
       POLICY_EVALUATION_TIME_UNITS_PER_MILLISECOND) (tkey (pl_attemptDeadlineAt l))" by blast
  have bounds: "tkey now < tkey e" "tkey e \<le> tkey (pl_attemptDeadlineAt l)"
    using e(3) f(9) limits_safe(5) [OF f(1)]
    by (simp_all add: POLICY_EVALUATION_TIME_UNITS_PER_MILLISECOND_def)
  let ?t = "s\<lparr>ps_job := (ps_job s)
      \<lparr>pj_currentLease := Some (l\<lparr>pl_heartbeatAt := now, pl_expiresAt := e\<rparr>),
       pj_updatedAt := now, pj_stateVersion := pj_stateVersion (ps_job s) + 1\<rparr>\<rparr>"
  have same: "sameJob (ps_job s) (ps_job ?t)" using f(4) by (simp add: sameJob_def)
  have "optional PolicyEvaluationAcquisitionAllowanceSchema (ps_acquisitionAllowance ?t)"
    "optional (allowanceBinds ?t) (ps_acquisitionAllowance ?t)"
    by (rule allowance_still_binds [OF f(1) same]; simp add: f(3))+
  then have "PolicyEvaluationJobSnapshotSchema ?t"
    using same heartbeat_job_schema [OF h version e(2) bounds] e(3) metadata_within [OF f(1)]
    by (intro leased_valid [OF f(1,3), where k = "l\<lparr>pl_heartbeatAt := now, pl_expiresAt := e\<rparr>"]) simp_all
  with e(1,3) show ?thesis by (rule that)
qed

subsection \<open>Usage and allowance\<close>

lemma advance_valid:
  assumes h: "holdsLease s now epoch fence l" and version: "pj_stateVersion (ps_job s) < MAX_SAFE_INTEGER"
    and usage: "ps_usage s \<le> u" "PolicyEvaluationUsageSchema u"
      "usageWithinLimits (prq_limits (ps_request s)) u"
    and allowance: "optional PolicyEvaluationAcquisitionAllowanceSchema x"
      "optional (allowanceBinds (s\<lparr>ps_usage := u, ps_acquisitionAllowance := x,
         ps_job := advanceJob now (ps_job s)\<rparr>)) x"
  shows "PolicyEvaluationJobSnapshotSchema
    (s\<lparr>ps_usage := u, ps_acquisitionAllowance := x, ps_job := advanceJob now (ps_job s)\<rparr>)"
proof -
  note f = holdsLease_facts [OF h]
  have job: "pj_currentLease (advanceJob now (ps_job s)) = Some l"
    "pj_lastFencingToken (advanceJob now (ps_job s)) = pj_lastFencingToken (ps_job s)"
    "pj_snapshot (advanceJob now (ps_job s)) = pj_snapshot (ps_job s)"
    "pj_attemptCount (advanceJob now (ps_job s)) = pj_attemptCount (ps_job s)"
    using f(3) by (simp_all add: advanceJob_def)
  show ?thesis
    using advance_same [OF f(4)] advance_schema [OF f(5,2,4) version f(3)] usage job allowance
      lease_duration [OF f(1,3)]
    by (intro leased_valid [OF f(1,3)]) simp_all
qed

lemma reserveUsage_valid:
  assumes h: "holdsLease s now epoch fence l" and version: "pj_stateVersion (ps_job s) < MAX_SAFE_INTEGER"
    and delta: "PolicyEvaluationUsageSchema delta"
    and within: "usageWithinLimits (prq_limits (ps_request s)) (\<lambda>k. ps_usage s k + delta k)"
    and allowance: "ps_acquisitionAllowance s \<noteq> None \<Longrightarrow>
      \<forall>k \<in> {UReads, URecords, UReferences, URecordBytes, UReferenceBytes}. delta k = 0"
  shows "PolicyEvaluationJobSnapshotSchema
    (s\<lparr>ps_usage := \<lambda>k. ps_usage s k + delta k, ps_job := advanceJob now (ps_job s)\<rparr>)"
proof -
  note f = holdsLease_facts [OF h] and ok = metadata_within [OF holdsLease_facts(1) [OF h]]
  let ?u = "\<lambda>k. ps_usage s k + delta k"
  let ?t = "s\<lparr>ps_usage := ?u, ps_acquisitionAllowance := ps_acquisitionAllowance s,
    ps_job := advanceJob now (ps_job s)\<rparr>"
  have nonneg: "0 \<le> ps_usage s k" "0 \<le> delta k" for k using ok(2) delta by (simp_all add: UsageSchema_iff)
  have "PolicyEvaluationUsageSchema ?u"
    using nonneg by (intro usage_schema_within [OF ok(1) within]) (simp add: add_nonneg_nonneg)
  moreover have "ps_usage s \<le> ?u" using nonneg(2) by (simp add: le_fun_def)
  moreover have "sameJob (ps_job s) (ps_job ?t)" using advance_same [OF f(4)] by simp
  then have "optional PolicyEvaluationAcquisitionAllowanceSchema (ps_acquisitionAllowance ?t)"
    "optional (allowanceBinds ?t) (ps_acquisitionAllowance ?t)"
    by (rule allowance_still_binds [OF f(1)]; use allowance in \<open>simp add: advanceJob_def\<close>)+
  ultimately have "PolicyEvaluationJobSnapshotSchema ?t"
    using within by (intro advance_valid [OF h version]) simp_all
  then show ?thesis by simp
qed


lemma reserveAcquisition_valid:
  assumes h: "holdsLease s now epoch fence l" and version: "pj_stateVersion (ps_job s) < MAX_SAFE_INTEGER"
    and state: "pj_status (ps_job s) = PAcquiring" "pj_snapshot (ps_job s) = None" "ps_cancellation s = None"
    and id: "OpaqueIdSchema aid"
  shows "PolicyEvaluationJobSnapshotSchema (s\<lparr>ps_acquisitionAllowance := Some
      \<lparr>aal_allowanceId = aid, aal_mutationFence = fence, aal_reservedAt = now,
       aal_usageAtReservation = policyEvaluationMetadataUsage s, aal_limits = remainingAcquisition s\<rparr>,
     ps_job := advanceJob now (ps_job s)\<rparr>)"
proof -
  note f = holdsLease_facts [OF h] and ok = metadata_within [OF holdsLease_facts(1) [OF h]]
  let ?x = "\<lparr>aal_allowanceId = aid, aal_mutationFence = fence, aal_reservedAt = now,
    aal_usageAtReservation = policyEvaluationMetadataUsage s, aal_limits = remainingAcquisition s\<rparr>"
  let ?t = "s\<lparr>ps_usage := ps_usage s, ps_acquisitionAllowance := Some ?x,
    ps_job := advanceJob now (ps_job s)\<rparr>"
  have fence: "fence = pl_mutationFence l" using h by (simp add: holdsLease_def)
  obtain xs a where a: "ps_attempts s = xs @ [a]" using lease_attempt [OF f(1,3)] by blast
  have "snapshotHistoryOk s" using f(1) by (simp add: PolicyEvaluationJobSnapshotSchema_def)
  then have start: "tkey (pa_startedAt a) \<le> tkey now"
    using f(4) by (auto simp: snapshotHistoryOk_snoc [OF a] attemptAccepted_def historyContext_def)
  have usage: "0 \<le> ps_usage s k \<and> ps_usage s k \<le> usageMaximum k" for k
    using ok(2) by (simp add: UsageSchema_iff)
  have bytes: "ps_usage s URecordBytes + ps_usage s UReferenceBytes \<le> MAX_POLICY_EVALUATION_ACQUISITION_RECORD_BYTES"
    using ok(2) by (simp add: UsageSchema_iff)
  have "PolicyEvaluationAcquisitionUsageSchema (policyEvaluationMetadataUsage s)"
    using bytes usage [of UReads] usage [of URecords] usage [of UReferences] usage [of URecordBytes]
      usage [of UReferenceBytes]
    by (simp add: PolicyEvaluationAcquisitionUsageSchema_def policyEvaluationMetadataUsage_def
        countInteger_def bytesInteger_def)
  moreover have "PolicyEvaluationAcquisitionLimitsSchema (remainingAcquisition s)"
    using ok(1,3) usage [of UReads] usage [of URecords] usage [of UReferences] usage [of URecordBytes]
      usage [of UReferenceBytes]
    by (simp add: PolicyEvaluationAcquisitionLimitsSchema_def remainingAcquisition_def Let_def
        policyEvaluationMetadataUsage_def countInteger_def bytesInteger_def usageWithinLimits_def
        PolicyEvaluationExecutionLimitsSchema_def boundedInteger_def)
  ultimately have schema: "PolicyEvaluationAcquisitionAllowanceSchema ?x"
    using id fence f(2) lease_shape(6) [OF f(1,3)]
    by (simp add: PolicyEvaluationAcquisitionAllowanceSchema_def)
  have "allowanceBinds ?t ?x"
    using state fence f(3) start a
    by (simp add: allowanceBinds_def Let_def advanceJob_def allowanceStart_def
        policyEvaluationMetadataUsage_def remainingAcquisition_def)
  with schema ok have "PolicyEvaluationJobSnapshotSchema ?t"
    by (intro advance_valid [OF h version]) simp_all
  then show ?thesis by simp
qed

lemma settle_valid:
  assumes h: "holdsLease s now epoch fence l" and version: "pj_stateVersion (ps_job s) < MAX_SAFE_INTEGER"
    and fits: "acquisitionFits s u"
  shows "PolicyEvaluationJobSnapshotSchema ((chargeAllowance s u)\<lparr>ps_job := advanceJob now (ps_job s)\<rparr>)"
  using chargedUsage_ok [OF holdsLease_facts(1) [OF h] fits]
  by (simp add: chargeAllowance_def advance_valid [OF h version])

lemma epoch_kept [simp]: "j\<lparr>pj_recoveryEpoch := pj_recoveryEpoch j\<rparr> = j"
  by (cases j) simp

lemma epoch_safe: "PolicyEvaluationJobSnapshotSchema s \<Longrightarrow> SafeNonnegativeInteger (pj_recoveryEpoch (ps_job s))"
  by (simp add: PolicyEvaluationJobSnapshotSchema_def snapshotShape_def job_schema_defs)

lemmas close_terminate_same_epoch = close_terminate_valid [where e = "pj_recoveryEpoch (ps_job s)" and s = s for s,
    OF _ _ _ _ _ order_refl epoch_safe, simplified epoch_kept]
lemmas close_retry_same_epoch = close_retry_valid [where e = "pj_recoveryEpoch (ps_job s)" and s = s for s,
    OF _ _ _ _ _ order_refl epoch_safe, simplified epoch_kept]

subsection \<open>Seal and start\<close>

lemma no_allowance:
  assumes "PolicyEvaluationJobSnapshotSchema s"
    and "pj_status (ps_job s) \<noteq> PAcquiring \<or> pj_snapshot (ps_job s) \<noteq> None \<or> ps_cancellation s \<noteq> None"
  shows "ps_acquisitionAllowance s = None" "chargedGraph s = s"
proof -
  show "ps_acquisitionAllowance s = None"
    using assms by (cases "ps_acquisitionAllowance s")
      (auto simp: PolicyEvaluationJobSnapshotSchema_def allowanceBinds_def Let_def)
  then show "chargedGraph s = s"
    by (simp add: chargedGraph_def chargeUncertainPolicyEvaluationAcquisition_def)
qed

lemma seal_valid:
  assumes h: "holdsLease s now epoch fence l" and version: "pj_stateVersion (ps_job s) < MAX_SAFE_INTEGER"
    and ref: "PolicyEvaluationSnapshotReferenceSchema r"
    and state: "pj_status (ps_job s) = PAcquiring" "pj_snapshot (ps_job s) = None"
    and free: "ps_acquisitionAllowance s = None"
  defines "t \<equiv> s\<lparr>ps_attempts := updateLatest
      (\<lambda>a. a\<lparr>pa_phase := PhaseComputing, pa_snapshot := Some r\<rparr>) (ps_attempts s),
    ps_job := (advanceJob now (ps_job s))\<lparr>pj_snapshot := Some r, pj_status := PSealed\<rparr>\<rparr>"
  shows "PolicyEvaluationJobSnapshotSchema t"
proof -
  note f = holdsLease_facts [OF h]
  obtain xs a where a: "ps_attempts s = xs @ [a]" "pa_closure a = None" "pa_mutationFence a = pl_mutationFence l"
    "pa_deadlineAt a = pl_attemptDeadlineAt l" "pa_startedAt a = pl_acquiredAt l" "pa_snapshot a = None"
    using lease_attempt [OF f(1,3)] state(2) by metis
  let ?b = "a\<lparr>pa_phase := PhaseComputing, pa_snapshot := Some r\<rparr>"
  have graph: "ps_attempts t = xs @ [?b]" "ps_request t = ps_request s" "ps_usage t = ps_usage s"
    "ps_cancellation t = ps_cancellation s" "ps_acquisitionAllowance t = None"
    "pj_currentLease (ps_job t) = Some l" "pj_status (ps_job t) = PSealed" "pj_snapshot (ps_job t) = Some r"
    "pj_lastFencingToken (ps_job t) = pj_lastFencingToken (ps_job s)"
    "pj_attemptCount (ps_job t) = pj_attemptCount (ps_job s)"
    using a(1) free f(3) by (simp_all add: t_def advanceJob_def)
  have same: "sameJob (ps_job s) (ps_job t)" using f(4) by (simp add: t_def sameJob_def advanceJob_def)
  have "PolicyEvaluationJobSchema (advanceJob now (ps_job s))" by (rule advance_schema [OF f(5,2,4) version f(3)])
  then have job: "PolicyEvaluationJobSchema (ps_job t)"
    using state ref lease_statuses [OF f(5,3)]
    by (simp add: t_def job_schema_defs advanceJob_def status_sets leaseBindsJob_def f(3))
  have attempts: "list_all PolicyEvaluationAttemptSchema (xs @ [a])" and history: "snapshotHistoryOk s"
    using f(1) a(1) by (simp_all add: PolicyEvaluationJobSnapshotSchema_def snapshotShape_def)
  then have "snapshotShape t"
    using f(1) a job ref
    by (simp add: snapshotShape_def graph PolicyEvaluationJobSnapshotSchema_def PolicyEvaluationAttemptSchema_def)
  moreover have "snapshotHistoryOk t"
    using same state(2) a(1,6) graph
    by (intro history_sealed [OF history, of t xs a r] sameJob_later) simp_all
  moreover have "snapshotLeaseOk t" using a lease_duration [OF f(1,3)] by (simp add: snapshotLeaseOk_def graph)
  moreover have ends: "pj_terminal (ps_job t) = None" using lease_statuses(2) [OF job graph(6)] .
  then have "snapshotTerminalOk t" using a by (simp add: snapshotTerminalOk_def graph)
  moreover have "optional (cancellationBinds (ps_job t)) (ps_cancellation t)"
    using f(1) sameJob_cancellation [OF same]
    by (auto simp: PolicyEvaluationJobSnapshotSchema_def optional_iff graph)
  ultimately show ?thesis
    using f(1) a(1) sameJob_request [OF same, of "ps_request s"]
    by (simp add: PolicyEvaluationJobSnapshotSchema_def graph)
qed


lemma start_valid:
  assumes h: "holdsLease s now epoch fence l" and version: "pj_stateVersion (ps_job s) < MAX_SAFE_INTEGER"
    and state: "pj_status (ps_job s) = PSealed"
  shows "PolicyEvaluationJobSnapshotSchema (s\<lparr>ps_job := (advanceJob now (ps_job s))\<lparr>pj_status := PRunning\<rparr>\<rparr>)"
    (is "PolicyEvaluationJobSnapshotSchema ?t")
proof -
  note f = holdsLease_facts [OF h]
  have "PolicyEvaluationJobSchema (advanceJob now (ps_job s))" by (rule advance_schema [OF f(5,2,4) version f(3)])
  then have job: "PolicyEvaluationJobSchema (ps_job ?t)"
    using state lease_statuses [OF f(5,3)]
    by (simp add: job_schema_defs advanceJob_def status_sets leaseBindsJob_def f(3))
  have same: "sameJob (ps_job s) (ps_job ?t)" using f(4) by (simp add: sameJob_def advanceJob_def)
  have "ps_acquisitionAllowance s = None" using no_allowance(1) [OF f(1)] state by simp
  then show ?thesis
    using same job f(3) metadata_within [OF f(1)] lease_duration [OF f(1,3)]
    by (intro leased_valid [OF f(1,3)]) (simp_all add: advanceJob_def)
qed

section \<open>Ending the job\<close>

lemma complete_valid:
  assumes h: "holdsLease s now epoch fence l" and version: "pj_stateVersion (ps_job s) < MAX_SAFE_INTEGER"
    and state: "pj_status (ps_job s) = PRunning" and r: "PolicyEvaluationResultReferenceSchema r"
  shows "PolicyEvaluationJobSnapshotSchema ((closeOpenAttempt (ClosureCompleted now) s)
    \<lparr>ps_job := (terminate PCompleted EvaluationCompletedCode (latestAttemptId s) now (ps_job s))
       \<lparr>pj_result := Some r\<rparr>\<rparr>)"
proof -
  note f = holdsLease_facts [OF h]
  obtain xs a where a: "ps_attempts s = xs @ [a]" "pa_closure a = None"
    "pa_deadlineAt a = pl_attemptDeadlineAt l" "latestAttemptId s = Some (pf_attemptId (pl_mutationFence l))"
    "(pa_phase a = PhaseComputing) = (pj_snapshot (ps_job s) \<noteq> None)"
    using lease_attempt [OF f(1,3)] by metis
  let ?k = "(terminate PCompleted EvaluationCompletedCode (latestAttemptId s) now (ps_job s))\<lparr>pj_result := Some r\<rparr>"
  have snap: "pj_snapshot (ps_job s) \<noteq> None" using f(5) state by (auto simp: job_schema_defs)
  have job: "PolicyEvaluationJobSchema ?k"
    using f(2,4,7) version r a(4) snap latestAttemptId_facts [OF f(1)]
    by (intro terminate_schema) (auto simp: terminalStatuses_def)
  have same: "sameJob (ps_job s) ?k" using f(4) by (simp add: sameJob_def terminate_def advanceJob_def)
  have cancel: "optional PolicyEvaluationCancellationSchema (ps_cancellation s)"
    "optional (cancellationBinds ?k) (ps_cancellation s)"
    using f(1) sameJob_cancellation [OF same]
    by (auto simp: PolicyEvaluationJobSnapshotSchema_def snapshotShape_def optional_iff)
  have "PolicyEvaluationJobSnapshotSchema ((closeOpenAttempt (ClosureCompleted now) (chargedGraph s))
      \<lparr>ps_job := ?k, ps_cancellation := ps_cancellation s\<rparr>)"
    using same job f(2,4,9) a snap cancel
    by (intro close_valid [OF f(1)]) (simp_all add: terminate_def advanceJob_def)
  then show ?thesis unfolding closed_cancellation using no_allowance(2) [OF f(1)] state by simp
qed

lemma cancellation_job_commute: "x\<lparr>ps_cancellation := c, ps_job := k\<rparr> = x\<lparr>ps_job := k, ps_cancellation := c\<rparr>"
  by (cases x) simp

lemma cancel_valid:
  assumes s: "PolicyEvaluationJobSnapshotSchema s" and live: "pj_terminal (ps_job s) = None"
    and i: "PolicyEvaluationCancellationSchema i" "pcn_jobId i = pj_jobId (ps_job s)"
      "pcn_scope i = pj_scope (ps_job s)" "tkey (pj_updatedAt (ps_job s)) \<le> tkey (pcn_requestedAt i)"
    and version: "pj_stateVersion (ps_job s) < MAX_SAFE_INTEGER"
  shows "PolicyEvaluationJobSnapshotSchema
    ((closeOpenAttempt (ClosureStopped ClosedCancelled CancellationCommitted (pcn_requestedAt i)) (chargedGraph s))
     \<lparr>ps_cancellation := Some i, ps_job := (terminate PCancelled CancellationCommittedCode (latestAttemptId s)
        (pcn_requestedAt i) (ps_job s))\<lparr>pj_result := None\<rparr>\<rparr>)"
proof -
  let ?now = "pcn_requestedAt i"
  let ?k = "(terminate PCancelled CancellationCommittedCode (latestAttemptId s) ?now (ps_job s))\<lparr>pj_result := None\<rparr>"
  have now: "PolicyEvaluationTimeSchema ?now" using i(1) by (simp add: PolicyEvaluationCancellationSchema_def)
  have "PolicyEvaluationJobSchema (ps_job s)"
    using s by (simp add: PolicyEvaluationJobSnapshotSchema_def snapshotShape_def)
  then have j: "liveJob (ps_job s)" by (rule live_job [OF _ live])
  then have job: "PolicyEvaluationJobSchema ?k"
    using now i(4) version latestAttemptId_facts [OF s]
    by (intro terminate_schema) (auto simp: terminalStatuses_def)
  have same: "sameJob (ps_job s) ?k" using i(4) by (simp add: sameJob_def terminate_def advanceJob_def)
  have "cancellationBinds ?k i"
    using i j by (auto simp: cancellationBinds_def terminate_def advanceJob_def liveJob_def)
  then have "PolicyEvaluationJobSnapshotSchema
      ((closeOpenAttempt (ClosureStopped ClosedCancelled CancellationCommitted ?now) (chargedGraph s))
       \<lparr>ps_job := ?k, ps_cancellation := Some i\<rparr>)"
    using same job now i
    by (intro close_valid [OF s]) (simp_all add: terminate_def advanceJob_def)
  then show ?thesis by (simp only: cancellation_job_commute)
qed

text \<open>Recovery of a job that no worker holds: only the epoch and a stale retry instant move.\<close>

lemma recover_idle_valid:
  assumes s: "PolicyEvaluationJobSnapshotSchema s" and live: "pj_terminal (ps_job s) = None"
    and idle: "pj_currentLease (ps_job s) = None"
    and now: "PolicyEvaluationTimeSchema now" "tkey (pj_updatedAt (ps_job s)) \<le> tkey now"
      "tkey now < tkey (pj_deadlineAt (ps_job s))"
    and version: "pj_stateVersion (ps_job s) < MAX_SAFE_INTEGER"
    and epoch: "pj_recoveryEpoch (ps_job s) \<le> e" "SafeNonnegativeInteger e"
  defines "k \<equiv> (advanceJob now ((ps_job s)\<lparr>pj_recoveryEpoch := e\<rparr>))\<lparr>pj_currentLease := None,
    pj_retryAt := (case pj_retryAt (ps_job s) of None \<Rightarrow> None
      | Some r \<Rightarrow> if pj_status (ps_job s) = PRetryReady \<and> tkey r < tkey now then Some now else Some r)\<rparr>"
  assumes c: "closureCommittedAt c = now" "\<And>i. c \<noteq> ClosureCompleted i"
  shows "PolicyEvaluationJobSnapshotSchema ((closeOpenAttempt c (chargedGraph s))\<lparr>ps_job := k\<rparr>)"
proof -
  have j: "PolicyEvaluationJobSchema (ps_job s)"
    using s by (simp add: PolicyEvaluationJobSnapshotSchema_def snapshotShape_def)
  note lj = live_job [OF j live]
  have status: "pj_status (ps_job s) = PQueued \<or> pj_status (ps_job s) = PRetryReady"
    using j live idle by (cases "pj_status (ps_job s)") (simp_all add: job_schema_defs status_sets)
  have fields: "pj_status k = pj_status (ps_job s)" "pj_terminal k = None" "pj_currentLease k = None"
    "pj_snapshot k = pj_snapshot (ps_job s)" "pj_attemptCount k = pj_attemptCount (ps_job s)"
    "pj_lastFencingToken k = pj_lastFencingToken (ps_job s)" "pj_updatedAt k = now"
    by (simp_all add: k_def advanceJob_def live)
  have same: "sameJob (ps_job s) k" using now(2) epoch(1) by (simp add: k_def sameJob_def advanceJob_def)
  have "jobShape k"
    using lj now version epoch
    by (auto simp: k_def liveJob_def jobShape_def advanceJob_def SafePositiveInteger_def split: option.splits)
  moreover have "refineJob k"
  proof (cases "pj_retryAt (ps_job s)")
    case None
    then show ?thesis using j lj live idle now
      by (auto simp: k_def PolicyEvaluationJobSchema_def refineJob_def advanceJob_def liveJob_def)
  next
    case (Some r)
    then show ?thesis using j lj live idle now
      by (auto simp: k_def PolicyEvaluationJobSchema_def refineJob_def advanceJob_def liveJob_def)
  qed
  ultimately have job: "PolicyEvaluationJobSchema k" by (simp add: PolicyEvaluationJobSchema_def)
  have closed: "pa_closure a \<noteq> None" if "latestAttempt (ps_attempts s) = Some a" for a
    using s idle that by (simp add: PolicyEvaluationJobSnapshotSchema_def snapshotLeaseOk_def)
  have cancel: "optional PolicyEvaluationCancellationSchema (ps_cancellation s)"
    "optional (cancellationBinds k) (ps_cancellation s)"
    using s sameJob_cancellation [OF same]
    by (auto simp: PolicyEvaluationJobSnapshotSchema_def snapshotShape_def optional_iff)
  have retry: "int (length (ps_attempts s)) < lim_maxAttempts (prq_limits (ps_request s))"
    if "pj_status (ps_job s) = PRetryReady"
    using s that by (simp add: PolicyEvaluationJobSnapshotSchema_def)
  have "PolicyEvaluationJobSnapshotSchema
      ((closeOpenAttempt c (chargedGraph s))\<lparr>ps_job := k, ps_cancellation := ps_cancellation s\<rparr>)"
    using same job now c closed cancel status retry
    by (intro close_valid [OF s]) (auto simp: fields)
  then show ?thesis by simp
qed

end
