(* ===== verification/Policy_Machine.thy ===== *)
theory Policy_Machine
  imports Policy_Validity Fenced_Machine
begin

text \<open>
  The scheduler as a state machine: what each transition does to the graph, the step relation over
  all of them, and the interpretation of the fenced-machine contract.
\<close>

section \<open>What a transition does to the graph\<close>

text \<open>Closed attempts are never touched and open ones keep their fence.\<close>

definition keepsHistory :: "PolicyEvaluationAttempt list \<Rightarrow> PolicyEvaluationAttempt list \<Rightarrow> bool" where
  "keepsHistory xs ys \<longleftrightarrow> length xs \<le> length ys \<and>
     (\<forall>i < length xs. pa_mutationFence (ys ! i) = pa_mutationFence (xs ! i) \<and>
        (pa_closure (xs ! i) \<noteq> None \<longrightarrow> ys ! i = xs ! i))"

lemma keepsHistory_refl [simp]: "keepsHistory xs xs"
  by (simp add: keepsHistory_def)

lemma keepsHistory_trans: "keepsHistory xs ys \<Longrightarrow> keepsHistory ys zs \<Longrightarrow> keepsHistory xs zs"
  unfolding keepsHistory_def by (metis order_trans less_le_trans)

lemma keepsHistory_append [simp]: "keepsHistory xs (xs @ ys)"
  by (simp add: keepsHistory_def nth_append)

lemma keepsHistory_latest:
  "pa_closure a = None \<Longrightarrow> pa_mutationFence b = pa_mutationFence a \<Longrightarrow> keepsHistory (xs @ [a]) (xs @ [b])"
  by (auto simp: keepsHistory_def nth_append)

lemma keepsHistory_close [simp]: "keepsHistory (ps_attempts s) (ps_attempts (closeOpenAttempt c s))"
  by (cases rule: closeOpenAttempt_cases [of s c]) (auto intro: keepsHistory_latest)

definition advances :: "PolicyEvaluationJobSnapshot \<Rightarrow> PolicyEvaluationJobSnapshot \<Rightarrow> bool" where
  "advances s t \<longleftrightarrow>
     PolicyEvaluationJobSnapshotSchema s \<and> PolicyEvaluationJobSnapshotSchema t \<and>
     pj_terminal (ps_job s) = None \<and>
     pj_stateVersion (ps_job t) = pj_stateVersion (ps_job s) + 1 \<and>
     ps_request t = ps_request s \<and> sameJob (ps_job s) (ps_job t) \<and> ps_usage s \<le> ps_usage t \<and>
     pj_lastFencingToken (ps_job s) \<le> pj_lastFencingToken (ps_job t) \<and>
     keepsHistory (ps_attempts s) (ps_attempts t) \<and>
     (pj_snapshot (ps_job s) \<noteq> None \<longrightarrow> pj_snapshot (ps_job t) = pj_snapshot (ps_job s)) \<and>
     (ps_cancellation t = ps_cancellation s \<or> ps_cancellation s = None \<and> pj_status (ps_job t) = PCancelled)"

lemma claim_advances:
  assumes "claimPolicyEvaluationJob s now epoch aid lid wid = Inr t"
  shows "advances s t"
proof -
  have c: "claimable s now" using assms claim_Inr_iff by blast
  from assms show ?thesis
    using c claimable_job(3) [OF c]
    by (auto simp: claimPolicyEvaluationJob_def Let_def result_simps advances_def claimedSnapshot_def
        sameJob_def claimFence_def claimable_def)
qed

lemma heartbeat_advances:
  assumes "heartbeatPolicyEvaluationJob s now epoch fence = Inr t"
  shows "advances s t"
proof -
  obtain l where h: "holdsLease s now epoch fence l"
    using assms by (auto simp: heartbeatPolicyEvaluationJob_def result_simps)
  from assms show ?thesis
    using holdsLease_facts [OF h] h
    by (auto simp: heartbeatPolicyEvaluationJob_def result_simps advances_def sameJob_def)
qed

lemma advanceJob_fields [simp]:
  "pj_currentLease (advanceJob now j) = pj_currentLease j" "pj_terminal (advanceJob now j) = pj_terminal j"
  "pj_snapshot (advanceJob now j) = pj_snapshot j" "pj_status (advanceJob now j) = pj_status j"
  "pj_stateVersion (advanceJob now j) = pj_stateVersion j + 1"
  "pj_lastFencingToken (advanceJob now j) = pj_lastFencingToken j"
  "pj_recoveryEpoch (advanceJob now j) = pj_recoveryEpoch j" "pj_updatedAt (advanceJob now j) = now"
  by (simp_all add: advanceJob_def)

lemma terminate_fields [simp]:
  "pj_currentLease (terminate st code aid now j) = None" "pj_status (terminate st code aid now j) = st"
  "pj_snapshot (terminate st code aid now j) = pj_snapshot j"
  "pj_stateVersion (terminate st code aid now j) = pj_stateVersion j + 1"
  "pj_lastFencingToken (terminate st code aid now j) = pj_lastFencingToken j"
  "pj_recoveryEpoch (terminate st code aid now j) = pj_recoveryEpoch j"
  "pj_updatedAt (terminate st code aid now j) = now"
  "pj_terminal (terminate st code aid now j) = Some \<lparr>pterm_status = st, pterm_code = code,
     pterm_attemptId = aid, pterm_committedAt = now\<rparr>"
  by (simp_all add: terminate_def)

lemma reserveUsage_advances:
  assumes "reservePolicyEvaluationUsage s now epoch fence delta = Inr t"
  shows "advances s t"
proof -
  have a: "\<not> (PolicyEvaluationJobSnapshotSchema s \<and> PolicyEvaluationTimeSchema now \<and>
         PolicyEvaluationWorkerMutationFenceSchema fence \<and> \<not> PolicyEvaluationUsageSchema delta)"
    using assms by (auto simp: reservePolicyEvaluationUsage_def split: if_splits)
  obtain l where h: "holdsLease s now epoch fence l"
    and t: "PolicyEvaluationJobSnapshotSchema t"
      "t = s\<lparr>ps_usage := \<lambda>k. ps_usage s k + delta k, ps_job := advanceJob now (ps_job s)\<rparr>"
    using assms by (auto simp: reservePolicyEvaluationUsage_def Let_def result_simps split: if_splits)
  note f = holdsLease_facts [OF h]
  have "PolicyEvaluationWorkerMutationFenceSchema fence"
    using h lease_shape(6) [OF f(1,3)] by (simp add: holdsLease_def)
  then have "PolicyEvaluationUsageSchema delta" using a f(1,2) by blast
  then have "ps_usage s \<le> ps_usage t" by (simp add: t(2) le_fun_def UsageSchema_iff)
  then show ?thesis using t f advance_same [OF f(4)] by (simp add: advances_def)
qed

lemma reserveAcquisition_advances:
  assumes "reservePolicyEvaluationAcquisition s now epoch fence aid = Inr t"
  shows "advances s t"
proof -
  obtain l x where h: "holdsLease s now epoch fence l" and "PolicyEvaluationJobSnapshotSchema t"
      "t = s\<lparr>ps_acquisitionAllowance := x, ps_job := advanceJob now (ps_job s)\<rparr>"
    using assms by (auto simp: reservePolicyEvaluationAcquisition_def Let_def result_simps split: if_splits)
  then show ?thesis
    using holdsLease_facts [OF h] advance_same [OF holdsLease_facts(4) [OF h]] by (simp add: advances_def)
qed


lemma closing_advances:
  assumes "PolicyEvaluationJobSnapshotSchema s" and "pj_terminal (ps_job s) = None"
    and "PolicyEvaluationJobSnapshotSchema ((closeOpenAttempt c (chargedGraph s))\<lparr>ps_job := k\<rparr>)"
    and "sameJob (ps_job s) k" and "pj_stateVersion k = pj_stateVersion (ps_job s) + 1"
    and "pj_lastFencingToken k = pj_lastFencingToken (ps_job s)"
    and "pj_snapshot k = pj_snapshot (ps_job s)"
  shows "advances s ((closeOpenAttempt c (chargedGraph s))\<lparr>ps_job := k\<rparr>)"
  using assms chargedGraph_usage(3) [OF assms(1)] keepsHistory_close [of "chargedGraph s" c]
  by (simp add: advances_def)

lemma settle_Inr:
  assumes "settlePolicyEvaluationAcquisition s now epoch fence aid observed = Inr t"
  obtains l a where "holdsLease s now epoch fence l" "ps_acquisitionAllowance s = Some a"
    "PolicyEvaluationJobSnapshotSchema t" "pj_stateVersion (ps_job s) < MAX_SAFE_INTEGER"
    "aal_allowanceId a = aid" "aal_mutationFence a = fence"
    "\<And>u. observed = Some u \<Longrightarrow> acquisitionFits s u \<and>
       t = (chargeAllowance s u)\<lparr>ps_job := advanceJob now (ps_job s)\<rparr>"
    "observed = None \<Longrightarrow> t = (closeOpenAttempt (ClosureStopped ClosedBudgetExhausted BudgetLimitReached now)
       (chargedGraph s))\<lparr>ps_job := terminate PBudgetExhausted BudgetLimitReachedCode (latestAttemptId s) now (ps_job s)\<rparr>"
proof -
  from assms obtain l a where h: "holdsLease s now epoch fence l" "ps_acquisitionAllowance s = Some a"
    and id: "aal_allowanceId a = aid" "aal_mutationFence a = fence"
    and observed: "optional PolicyEvaluationAcquisitionUsageSchema observed"
    and version: "pj_stateVersion (ps_job s) < MAX_SAFE_INTEGER" and t: "PolicyEvaluationJobSnapshotSchema t"
    by (auto simp: settlePolicyEvaluationAcquisition_def Let_def result_simps split: if_splits)
  have charged: "chargedGraph s = chargeAllowance s (fullAllowanceUsage a)"
    using h(2) by (simp add: chargedGraph_def chargeUncertainPolicyEvaluationAcquisition_def)
  note limits = allowance_is_remaining(1) [OF holdsLease_facts(1) [OF h(1)] h(2)]
  have some: "acquisitionFits s u \<and> t = (chargeAllowance s u)\<lparr>ps_job := advanceJob now (ps_job s)\<rparr>"
    if "observed = Some u" for u
    using assms h that observed
    by (auto simp: settlePolicyEvaluationAcquisition_def Let_def result_simps limits acquisitionFits_def
        PolicyEvaluationAcquisitionUsageSchema_def countInteger_def bytesInteger_def split: if_splits)
  have none: "t = (closeOpenAttempt (ClosureStopped ClosedBudgetExhausted BudgetLimitReached now)
      (chargedGraph s))\<lparr>ps_job := terminate PBudgetExhausted BudgetLimitReachedCode (latestAttemptId s) now (ps_job s)\<rparr>"
    if "observed = None"
    using assms h that
    by (auto simp: settlePolicyEvaluationAcquisition_def Let_def result_simps charged latestAttemptId_def split: if_splits)
  show ?thesis by (rule that [OF h t version id some none])
qed

lemma settle_advances:
  assumes "settlePolicyEvaluationAcquisition s now epoch fence aid observed = Inr t"
  shows "advances s t"
proof (rule settle_Inr [OF assms])
  fix l a
  assume h: "holdsLease s now epoch fence l" and t: "PolicyEvaluationJobSnapshotSchema t"
    and some: "\<And>u. observed = Some u \<Longrightarrow> acquisitionFits s u \<and>
       t = (chargeAllowance s u)\<lparr>ps_job := advanceJob now (ps_job s)\<rparr>"
    and none: "observed = None \<Longrightarrow> t = (closeOpenAttempt (ClosureStopped ClosedBudgetExhausted BudgetLimitReached now)
       (chargedGraph s))\<lparr>ps_job := terminate PBudgetExhausted BudgetLimitReachedCode (latestAttemptId s) now (ps_job s)\<rparr>"
  note f = holdsLease_facts [OF h]
  show ?thesis
  proof (cases observed)
    case None
    note eq = none [OF None]
    show ?thesis
      unfolding eq using f t eq terminate_same [OF f(4)] by (intro closing_advances) simp_all
  next
    case (Some u)
    then have "acquisitionFits s u" "t = (chargeAllowance s u)\<lparr>ps_job := advanceJob now (ps_job s)\<rparr>"
      using some by auto
    then show ?thesis
      using f t chargedUsage_ok(3) [OF f(1)] advance_same [OF f(4)] by (simp add: advances_def chargeAllowance_def)
  qed
qed

lemma seal_advances:
  assumes "sealPolicyEvaluationJob s now epoch fence r = Inr t"
  shows "advances s t"
proof -
  obtain l latest where h: "holdsLease s now epoch fence l" and t: "PolicyEvaluationJobSnapshotSchema t"
    and latest: "latestAttempt (ps_attempts s) = Some latest" "pa_closure latest = None"
    and none: "pj_snapshot (ps_job s) = None"
    and eq: "t = s\<lparr>ps_attempts := updateLatest
      (\<lambda>a. a\<lparr>pa_phase := PhaseComputing, pa_snapshot := Some r\<rparr>) (ps_attempts s),
    ps_job := (advanceJob now (ps_job s))\<lparr>pj_snapshot := Some r, pj_status := PSealed\<rparr>\<rparr>"
    using assms by (auto simp: sealPolicyEvaluationJob_def Let_def result_simps split: if_splits)
  note f = holdsLease_facts [OF h]
  obtain xs where "ps_attempts s = xs @ [latest]" using latest(1) by (auto simp: latestAttempt_Some_iff)
  then have "keepsHistory (ps_attempts s) (ps_attempts t)"
    using latest(2) by (simp add: eq keepsHistory_latest)
  then show ?thesis using f t none by (simp add: advances_def eq sameJob_def advanceJob_def)
qed

lemma start_advances:
  assumes "startPolicyEvaluationComputation s now epoch fence = Inr t"
  shows "advances s t"
proof -
  obtain l where h: "holdsLease s now epoch fence l" and t: "PolicyEvaluationJobSnapshotSchema t"
    "t = s\<lparr>ps_job := (advanceJob now (ps_job s))\<lparr>pj_status := PRunning\<rparr>\<rparr>"
    using assms by (auto simp: startPolicyEvaluationComputation_def Let_def result_simps split: if_splits)
  then show ?thesis using holdsLease_facts [OF h] by (simp add: advances_def sameJob_def advanceJob_def)
qed

lemma complete_Inr:
  assumes "completePolicyEvaluationJob s now epoch fence reference ruleCount = Inr t"
  obtains l latest count where "holdsLease s now epoch fence l" "PolicyEvaluationJobSnapshotSchema t"
    "PolicyEvaluationResultReferenceSchema reference"
    "pj_status (ps_job s) = PRunning" "latestAttempt (ps_attempts s) = Some latest"
    "ruleCount = JsInt count" "1 \<le> count" "count \<le> MAX_POLICY_RULES"
    "count \<le> ps_usage s URuleEvaluations - pa_usageAtStart latest URuleEvaluations"
    "pj_stateVersion (ps_job s) < MAX_SAFE_INTEGER"
    "t = (closeOpenAttempt (ClosureCompleted now) (chargedGraph s))\<lparr>ps_job :=
       (terminate PCompleted EvaluationCompletedCode (latestAttemptId s) now (ps_job s))\<lparr>pj_result := Some reference\<rparr>\<rparr>"
proof -
  from assms obtain l latest count where h: "holdsLease s now epoch fence l" "PolicyEvaluationJobSnapshotSchema t"
    "PolicyEvaluationResultReferenceSchema reference"
    and st: "pj_status (ps_job s) = PRunning" and rest: "latestAttempt (ps_attempts s) = Some latest"
    "ruleCount = JsInt count" "1 \<le> count" "count \<le> MAX_POLICY_RULES"
    "count \<le> ps_usage s URuleEvaluations - pa_usageAtStart latest URuleEvaluations"
    "pj_stateVersion (ps_job s) < MAX_SAFE_INTEGER"
    and t: "t = (closeOpenAttempt (ClosureCompleted now) s)\<lparr>ps_job :=
       (terminate PCompleted EvaluationCompletedCode (Some (pf_attemptId (pa_mutationFence latest))) now (ps_job s))
         \<lparr>pj_result := Some reference\<rparr>\<rparr>"
    by (auto simp: completePolicyEvaluationJob_def Let_def result_simps not_le not_less split: if_splits)
  have "chargedGraph s = s" using no_allowance(2) [OF holdsLease_facts(1) [OF h(1)]] st by simp
  then show ?thesis using that [OF h st rest] t rest(1) by (simp add: latestAttemptId_def)
qed

lemma complete_advances:
  assumes "completePolicyEvaluationJob s now epoch fence reference ruleCount = Inr t"
  shows "advances s t"
proof (rule complete_Inr [OF assms])
  fix l
  assume h: "holdsLease s now epoch fence l" and t: "PolicyEvaluationJobSnapshotSchema t"
    and eq: "t = (closeOpenAttempt (ClosureCompleted now) (chargedGraph s))\<lparr>ps_job :=
       (terminate PCompleted EvaluationCompletedCode (latestAttemptId s) now (ps_job s))\<lparr>pj_result := Some reference\<rparr>\<rparr>"
  note f = holdsLease_facts [OF h]
  show ?thesis
    unfolding eq using f t eq
    by (intro closing_advances) (simp_all add: sameJob_def terminate_def advanceJob_def)
qed


lemma retryOrFail_fields:
  assumes "retryOrFail s now reason aid j = Inr k" and "tkey (pj_updatedAt j) \<le> tkey now"
  shows "sameJob j k" "pj_stateVersion k = pj_stateVersion j + 1"
    "pj_lastFencingToken k = pj_lastFencingToken j" "pj_snapshot k = pj_snapshot j"
    "pj_recoveryEpoch k = pj_recoveryEpoch j" "pj_currentLease k = None"
proof -
  have "k = terminate PFailed RetriesExhaustedCode aid now j \<or>
      (\<exists>r. k = (advanceJob now j)\<lparr>pj_currentLease := None, pj_status := PRetryReady, pj_retryAt := Some r\<rparr>)"
    using assms(1) by (auto simp: retryOrFail_def result_simps split: if_splits)
  then have "sameJob j k \<and> pj_stateVersion k = pj_stateVersion j + 1 \<and>
    pj_lastFencingToken k = pj_lastFencingToken j \<and> pj_snapshot k = pj_snapshot j \<and>
    pj_recoveryEpoch k = pj_recoveryEpoch j \<and> pj_currentLease k = None"
  proof (elim disjE exE)
    assume "k = terminate PFailed RetriesExhaustedCode aid now j"
    then show ?thesis using assms(2) by (simp add: terminate_same)
  next
    fix r assume "k = (advanceJob now j)\<lparr>pj_currentLease := None, pj_status := PRetryReady, pj_retryAt := Some r\<rparr>"
    then show ?thesis using assms(2) by (simp add: sameJob_def advanceJob_def)
  qed
  then show "sameJob j k" "pj_stateVersion k = pj_stateVersion j + 1"
    "pj_lastFencingToken k = pj_lastFencingToken j" "pj_snapshot k = pj_snapshot j"
    "pj_recoveryEpoch k = pj_recoveryEpoch j" "pj_currentLease k = None" by blast+
qed

lemma interrupt_Inr:
  assumes "interruptPolicyEvaluationJob s now epoch fence reason = Inr t"
  obtains l k where "holdsLease s now epoch fence l" "pj_stateVersion (ps_job s) < MAX_SAFE_INTEGER"
    "reason \<noteq> LeaseExpiredError" "pj_snapshot (ps_job s) \<noteq> None \<Longrightarrow> reason \<noteq> SourceRevisionChanged"
    "PolicyEvaluationJobSnapshotSchema t"
    "t = (closeOpenAttempt (ClosureInterrupted reason now) (chargedGraph s))\<lparr>ps_job := k\<rparr>"
    "ps_acquisitionAllowance s \<noteq> None \<Longrightarrow>
       k = terminate PBudgetExhausted BudgetLimitReachedCode (latestAttemptId s) now (ps_job s)"
    "ps_acquisitionAllowance s = None \<Longrightarrow>
       retryOrFail s now reason (latestAttemptId s) (ps_job s) = Inr k"
proof -
  obtain l latest where lease: "pj_currentLease (ps_job s) = Some l" "latestAttempt (ps_attempts s) = Some latest"
    using assms by (auto simp: interruptPolicyEvaluationJob_def Let_def split: if_splits option.splits)
  then have aid: "latestAttemptId s = Some (pf_attemptId (pa_mutationFence latest))"
    by (simp add: latestAttemptId_def)
  from assms lease have h: "holdsLease s now epoch fence l" "pj_stateVersion (ps_job s) < MAX_SAFE_INTEGER"
    "reason \<noteq> LeaseExpiredError" "pj_snapshot (ps_job s) \<noteq> None \<Longrightarrow> reason \<noteq> SourceRevisionChanged"
    by (auto simp: interruptPolicyEvaluationJob_def Let_def holdsLease_def split: if_splits)
  let ?t = "\<lambda>k. (closeOpenAttempt (ClosureInterrupted reason now) (chargedGraph s))\<lparr>ps_job := k\<rparr>"
  show ?thesis
  proof (cases "ps_acquisitionAllowance s")
    case None
    with assms lease have "\<exists>k. retryOrFail s now reason (latestAttemptId s) (ps_job s) = Inr k \<and>
        PolicyEvaluationJobSnapshotSchema (?t k) \<and> t = ?t k"
      by (simp add: interruptPolicyEvaluationJob_def Let_def result_simps chargeUncertain_eq aid split: if_splits)
    then obtain k where "retryOrFail s now reason (latestAttemptId s) (ps_job s) = Inr k"
      "PolicyEvaluationJobSnapshotSchema (?t k)" "t = ?t k" by (elim exE conjE)
    then show ?thesis using None by (intro that [OF h, of k]) simp_all
  next
    case (Some a)
    let ?k = "terminate PBudgetExhausted BudgetLimitReachedCode (latestAttemptId s) now (ps_job s)"
    from Some assms lease have "PolicyEvaluationJobSnapshotSchema (?t ?k) \<and> t = ?t ?k"
      by (simp add: interruptPolicyEvaluationJob_def Let_def result_simps chargeUncertain_eq aid split: if_splits)
    then show ?thesis using Some by (intro that [OF h, of ?k]) simp_all
  qed
qed

lemma interrupt_advances:
  assumes "interruptPolicyEvaluationJob s now epoch fence reason = Inr t"
  shows "advances s t"
proof (rule interrupt_Inr [OF assms])
  fix l k
  assume h: "holdsLease s now epoch fence l" and t: "PolicyEvaluationJobSnapshotSchema t"
    and eq: "t = (closeOpenAttempt (ClosureInterrupted reason now) (chargedGraph s))\<lparr>ps_job := k\<rparr>"
    and k: "ps_acquisitionAllowance s \<noteq> None \<Longrightarrow>
       k = terminate PBudgetExhausted BudgetLimitReachedCode (latestAttemptId s) now (ps_job s)"
    "ps_acquisitionAllowance s = None \<Longrightarrow> retryOrFail s now reason (latestAttemptId s) (ps_job s) = Inr k"
  note f = holdsLease_facts [OF h]
  have "sameJob (ps_job s) k" "pj_stateVersion k = pj_stateVersion (ps_job s) + 1"
    "pj_lastFencingToken k = pj_lastFencingToken (ps_job s)" "pj_snapshot k = pj_snapshot (ps_job s)"
    using k retryOrFail_fields [OF _ f(4)] terminate_same [OF f(4)]
    by (cases "ps_acquisitionAllowance s"; simp)+
  then show ?thesis unfolding eq using f t eq by (intro closing_advances) simp_all
qed

lemma reclaim_Inr:
  assumes "reclaimPolicyEvaluationJob s now epoch = Inr t" and "pj_terminal (ps_job s) = None"
  obtains k where "PolicyEvaluationJobSnapshotSchema s" "PolicyEvaluationTimeSchema now"
    "epoch = JsInt (pj_recoveryEpoch (ps_job s))" "tkey (pj_updatedAt (ps_job s)) \<le> tkey now"
    "pj_stateVersion (ps_job s) < MAX_SAFE_INTEGER"
    "tkey (pj_deadlineAt (ps_job s)) \<le> tkey now \<or>
       (\<exists>l. pj_currentLease (ps_job s) = Some l \<and> tkey (pl_expiresAt l) \<le> tkey now)"
    "PolicyEvaluationJobSnapshotSchema t"
    "t = (closeOpenAttempt (if tkey (pj_deadlineAt (ps_job s)) \<le> tkey now
          then ClosureStopped ClosedTimedOut DeadlineReachedReason now
          else ClosureInterrupted LeaseExpiredError now) (chargedGraph s))\<lparr>ps_job := k\<rparr>"
    "tkey (pj_deadlineAt (ps_job s)) \<le> tkey now \<Longrightarrow>
       k = terminate PTimedOut DeadlineReachedCode (latestAttemptId s) now (ps_job s)"
    "\<lbrakk>\<not> tkey (pj_deadlineAt (ps_job s)) \<le> tkey now; ps_acquisitionAllowance s \<noteq> None\<rbrakk> \<Longrightarrow>
       k = terminate PBudgetExhausted BudgetLimitReachedCode (latestAttemptId s) now (ps_job s)"
    "\<lbrakk>\<not> tkey (pj_deadlineAt (ps_job s)) \<le> tkey now; ps_acquisitionAllowance s = None\<rbrakk> \<Longrightarrow>
       retryOrFail s now LeaseExpiredError (latestAttemptId s) (ps_job s) = Inr k"
proof -
  have g: "PolicyEvaluationJobSnapshotSchema s" "PolicyEvaluationTimeSchema now"
    "epoch = JsInt (pj_recoveryEpoch (ps_job s))" "tkey (pj_updatedAt (ps_job s)) \<le> tkey now"
    "pj_stateVersion (ps_job s) < MAX_SAFE_INTEGER"
    "tkey (pj_deadlineAt (ps_job s)) \<le> tkey now \<or>
       (\<exists>l. pj_currentLease (ps_job s) = Some l \<and> tkey (pl_expiresAt l) \<le> tkey now)"
    using assms by (auto simp: reclaimPolicyEvaluationJob_def Let_def split: if_splits option.splits)
  have "\<exists>k. PolicyEvaluationJobSnapshotSchema t \<and>
    t = (closeOpenAttempt (if tkey (pj_deadlineAt (ps_job s)) \<le> tkey now
          then ClosureStopped ClosedTimedOut DeadlineReachedReason now
          else ClosureInterrupted LeaseExpiredError now) (chargedGraph s))\<lparr>ps_job := k\<rparr> \<and>
    (tkey (pj_deadlineAt (ps_job s)) \<le> tkey now \<longrightarrow>
       k = terminate PTimedOut DeadlineReachedCode (latestAttemptId s) now (ps_job s)) \<and>
    (\<not> tkey (pj_deadlineAt (ps_job s)) \<le> tkey now \<and> ps_acquisitionAllowance s \<noteq> None \<longrightarrow>
       k = terminate PBudgetExhausted BudgetLimitReachedCode (latestAttemptId s) now (ps_job s)) \<and>
    (\<not> tkey (pj_deadlineAt (ps_job s)) \<le> tkey now \<and> ps_acquisitionAllowance s = None \<longrightarrow>
       retryOrFail s now LeaseExpiredError (latestAttemptId s) (ps_job s) = Inr k)"
    using assms
    by (auto simp: reclaimPolicyEvaluationJob_def Let_def result_simps chargeUncertain_eq split: if_splits)
  then show ?thesis using that [OF g] by blast
qed

lemma reclaim_advances:
  assumes "reclaimPolicyEvaluationJob s now epoch = Inr t" and "t \<noteq> s"
  shows "advances s t"
proof -
  have live: "pj_terminal (ps_job s) = None"
    using assms by (auto simp: reclaimPolicyEvaluationJob_def Let_def split: if_splits)
  show ?thesis
  proof (rule reclaim_Inr [OF assms(1) live])
    fix k let ?c = "if tkey (pj_deadlineAt (ps_job s)) \<le> tkey now
          then ClosureStopped ClosedTimedOut DeadlineReachedReason now else ClosureInterrupted LeaseExpiredError now"
    assume s: "PolicyEvaluationJobSnapshotSchema s" and le: "tkey (pj_updatedAt (ps_job s)) \<le> tkey now"
      and t: "PolicyEvaluationJobSnapshotSchema t" and eq: "t = (closeOpenAttempt ?c (chargedGraph s))\<lparr>ps_job := k\<rparr>"
      and k: "tkey (pj_deadlineAt (ps_job s)) \<le> tkey now \<Longrightarrow>
         k = terminate PTimedOut DeadlineReachedCode (latestAttemptId s) now (ps_job s)"
        "\<lbrakk>\<not> tkey (pj_deadlineAt (ps_job s)) \<le> tkey now; ps_acquisitionAllowance s \<noteq> None\<rbrakk> \<Longrightarrow>
         k = terminate PBudgetExhausted BudgetLimitReachedCode (latestAttemptId s) now (ps_job s)"
        "\<lbrakk>\<not> tkey (pj_deadlineAt (ps_job s)) \<le> tkey now; ps_acquisitionAllowance s = None\<rbrakk> \<Longrightarrow>
         retryOrFail s now LeaseExpiredError (latestAttemptId s) (ps_job s) = Inr k"
    have "sameJob (ps_job s) k \<and> pj_stateVersion k = pj_stateVersion (ps_job s) + 1 \<and>
      pj_lastFencingToken k = pj_lastFencingToken (ps_job s) \<and> pj_snapshot k = pj_snapshot (ps_job s)"
    proof (cases "tkey (pj_deadlineAt (ps_job s)) \<le> tkey now \<or> ps_acquisitionAllowance s \<noteq> None")
      case True
      then obtain st code where "k = terminate st code (latestAttemptId s) now (ps_job s)" using k(1,2) by blast
      then show ?thesis using terminate_same [OF le] by simp
    next
      case False
      then show ?thesis using k(3) retryOrFail_fields [OF _ le] by blast
    qed
    then show ?thesis unfolding eq using s live t eq by (intro closing_advances) simp_all
  qed
qed


lemma cancel_Inr:
  assumes "cancelPolicyEvaluationJob s intent = Inr t" and "ps_cancellation s = None"
  shows "PolicyEvaluationJobSnapshotSchema s" "PolicyEvaluationJobSnapshotSchema t"
    "pj_status (ps_job s) \<notin> terminalStatuses" "tkey (pj_updatedAt (ps_job s)) \<le> tkey (pcn_requestedAt intent)"
    "t = (closeOpenAttempt (ClosureStopped ClosedCancelled CancellationCommitted (pcn_requestedAt intent)) (chargedGraph s))
     \<lparr>ps_cancellation := Some intent, ps_job := (terminate PCancelled CancellationCommittedCode (latestAttemptId s)
        (pcn_requestedAt intent) (ps_job s))\<lparr>pj_result := None\<rparr>\<rparr>"
  using assms
  by (auto simp: cancelPolicyEvaluationJob_def Let_def result_simps chargeUncertain_eq terminalStatuses_def
      split: if_splits)

lemma live_status:
  assumes "PolicyEvaluationJobSnapshotSchema s"
  shows "pj_status (ps_job s) \<in> terminalStatuses \<longleftrightarrow> pj_terminal (ps_job s) \<noteq> None"
  using assms by (simp add: PolicyEvaluationJobSnapshotSchema_def snapshotShape_def job_schema_defs)

lemma cancel_advances:
  assumes "cancelPolicyEvaluationJob s intent = Inr t" and "t \<noteq> s"
  shows "advances s t"
proof -
  have none: "ps_cancellation s = None"
    using assms by (auto simp: cancelPolicyEvaluationJob_def Let_def split: if_splits option.splits)
  note c = cancel_Inr [OF assms(1) none]
  let ?c = "ClosureStopped ClosedCancelled CancellationCommitted (pcn_requestedAt intent)"
  have "pj_terminal (ps_job s) = None" using live_status [OF c(1)] c(3) by simp
  then show ?thesis
    using c none chargedGraph_usage(3) [OF c(1)] keepsHistory_close [of "chargedGraph s" ?c]
    by (simp add: advances_def sameJob_def terminate_def advanceJob_def)
qed

lemma exhaust_Inr:
  assumes "exhaustPolicyEvaluationJobHistory s now = Inr t"
  shows "PolicyEvaluationJobSnapshotSchema s" "PolicyEvaluationJobSnapshotSchema t"
    "pj_terminal (ps_job s) = None" "tkey (pj_updatedAt (ps_job s)) \<le> tkey now"
    "t = (closeOpenAttempt (ClosureStopped ClosedBudgetExhausted BudgetLimitReached now) (chargedGraph s))
     \<lparr>ps_job := terminate PBudgetExhausted BudgetLimitReachedCode (latestAttemptId s) now (ps_job s)\<rparr>"
  using assms
  by (auto simp: exhaustPolicyEvaluationJobHistory_def Let_def result_simps chargeUncertain_eq split: if_splits)

lemma exhaust_advances:
  assumes "exhaustPolicyEvaluationJobHistory s now = Inr t"
  shows "advances s t"
  using exhaust_Inr [OF assms] terminate_same [of "ps_job s" now]
  by (auto intro!: closing_advances)

text \<open>The closure a recovery writes, and the job it leaves behind.\<close>

definition recoveryClosure :: "PolicyEvaluationJobSnapshot \<Rightarrow> policy_time \<Rightarrow> AttemptClosure" where
  "recoveryClosure s now =
     (if tkey now \<ge> tkey (pj_deadlineAt (ps_job s)) then ClosureStopped ClosedTimedOut DeadlineReachedReason now
      else if pj_stateVersion (ps_job s) = MAX_POLICY_EVALUATION_JOB_HISTORY_ENTRIES - 1
      then ClosureStopped ClosedBudgetExhausted BudgetLimitReached now
      else ClosureInterrupted WorkerInterrupted now)"

definition recoveryEnds :: "PolicyEvaluationJobSnapshot \<Rightarrow> policy_time \<Rightarrow> bool" where
  "recoveryEnds s now \<longleftrightarrow> tkey now \<ge> tkey (pj_deadlineAt (ps_job s)) \<or>
     pj_stateVersion (ps_job s) = MAX_POLICY_EVALUATION_JOB_HISTORY_ENTRIES - 1 \<or>
     ps_acquisitionAllowance s \<noteq> None"

definition recoveredJob ::
    "PolicyEvaluationJobSnapshot \<Rightarrow> policy_time \<Rightarrow> int \<Rightarrow> (scheduler_error, PolicyEvaluationJob) result" where
  "recoveredJob s now e =
     (let j = (ps_job s)\<lparr>pj_recoveryEpoch := e\<rparr> in
      if recoveryEnds s now then
        Inr (if tkey now \<ge> tkey (pj_deadlineAt (ps_job s))
             then terminate PTimedOut DeadlineReachedCode (latestAttemptId s) now j
             else terminate PBudgetExhausted BudgetLimitReachedCode (latestAttemptId s) now j)
      else if pj_currentLease (ps_job s) \<noteq> None then
        retryOrFail s now WorkerInterrupted (latestAttemptId s) j
      else Inr ((advanceJob now j)\<lparr>pj_currentLease := None,
        pj_retryAt := (case pj_retryAt (ps_job s) of None \<Rightarrow> None
          | Some r \<Rightarrow> if pj_status (ps_job s) = PRetryReady \<and> tkey r < tkey now then Some now else Some r)\<rparr>))"

definition recoverable :: "PolicyEvaluationJobSnapshot \<Rightarrow> policy_time \<Rightarrow> int \<Rightarrow> bool" where
  "recoverable s now e \<longleftrightarrow>
     PolicyEvaluationJobSnapshotSchema s \<and> PolicyEvaluationTimeSchema now \<and>
     e \<le> MAX_SAFE_INTEGER \<and> pj_recoveryEpoch (ps_job s) < e \<and>
     tkey (pj_updatedAt (ps_job s)) \<le> tkey now \<and> pj_terminal (ps_job s) = None \<and>
     pj_stateVersion (ps_job s) < MAX_POLICY_EVALUATION_JOB_HISTORY_ENTRIES"

lemma recover_valid:
  assumes r: "recoverable s now e"
  obtains k where "recoveredJob s now e = Inr k"
    "PolicyEvaluationJobSnapshotSchema ((closeOpenAttempt (recoveryClosure s now) (chargedGraph s))\<lparr>ps_job := k\<rparr>)"
proof -
  have s: "PolicyEvaluationJobSnapshotSchema s" "pj_terminal (ps_job s) = None" "PolicyEvaluationTimeSchema now"
    "tkey (pj_updatedAt (ps_job s)) \<le> tkey now" "pj_stateVersion (ps_job s) < MAX_SAFE_INTEGER"
    "pj_recoveryEpoch (ps_job s) \<le> e"
    using r by (auto simp: recoverable_def MAX_POLICY_EVALUATION_JOB_HISTORY_ENTRIES_def MAX_SAFE_INTEGER_def)
  have e: "SafeNonnegativeInteger e"
    using epoch_safe [OF s(1)] s(6) r by (simp add: SafeNonnegativeInteger_def recoverable_def)
  have c: "closureCommittedAt (recoveryClosure s now) = now" "recoveryClosure s now \<noteq> ClosureCompleted i"
    "closureFits p (recoveryClosure s now)" for i p
    by (simp_all add: recoveryClosure_def)
  note ends = close_terminate_valid [OF s(1-6) e _ _ c(1,2,3)]
  show ?thesis
  proof (cases "recoveryEnds s now")
    case True
    then show ?thesis
      using that ends [of PTimedOut DeadlineReachedCode] ends [of PBudgetExhausted BudgetLimitReachedCode]
      by (simp add: recoveredJob_def Let_def split: if_splits)
  next
    case False
    show ?thesis
    proof (cases "pj_currentLease (ps_job s)")
      case None
      then show ?thesis
        using that recover_idle_valid [OF s(1,2) None s(3,4) _ s(5,6) e c(1,2)] False
        by (simp add: recoveredJob_def Let_def recoveryEnds_def)
    next
      case (Some l)
      have "ps_attempts s \<noteq> []" by (rule lease_attempt [OF s(1) Some]) simp
      from close_retry_valid [OF s(1-6) e this c(1,2,3), of WorkerInterrupted]
      obtain k where "retryOrFail s now WorkerInterrupted (latestAttemptId s) ((ps_job s)\<lparr>pj_recoveryEpoch := e\<rparr>) = Inr k"
        "PolicyEvaluationJobSnapshotSchema ((closeOpenAttempt (recoveryClosure s now) (chargedGraph s))\<lparr>ps_job := k\<rparr>)"
        by (elim exE conjE)
      then show ?thesis using False Some by (intro that [of k]) (simp_all add: recoveredJob_def Let_def)
    qed
  qed
qed

lemma recover_eq:
  assumes r: "recoverable s now e"
  shows "recoverPolicyEvaluationJob s now (JsInt e) =
    (case recoveredJob s now e of Inl x \<Rightarrow> Inl x
     | Inr k \<Rightarrow> parseSnapshot ((closeOpenAttempt (recoveryClosure s now) (chargedGraph s))\<lparr>ps_job := k\<rparr>))"
proof -
  have "0 \<le> pj_recoveryEpoch (ps_job s)"
    using epoch_safe [of s] r by (simp add: recoverable_def SafeNonnegativeInteger_def)
  then have guards: "PolicyEvaluationJobSnapshotSchema s" "PolicyEvaluationTimeSchema now"
    "isSafeInteger (JsInt e)" "\<not> e \<le> pj_recoveryEpoch (ps_job s)"
    "\<not> tkey now < tkey (pj_updatedAt (ps_job s))" "pj_terminal (ps_job s) = None"
    "\<not> pj_stateVersion (ps_job s) \<ge> MAX_POLICY_EVALUATION_JOB_HISTORY_ENTRIES"
    using r by (auto simp: recoverable_def MAX_SAFE_INTEGER_def)
  show ?thesis
    by (cases "recoveryEnds s now"; cases "pj_currentLease (ps_job s)")
      (simp_all add: recoverPolicyEvaluationJob_def Let_def chargeUncertain_eq guards del: isSafeInteger.simps,
        simp_all add: recoveryEnds_def recoveryClosure_def recoveredJob_def Let_def cong: sum.case_cong)
qed


lemma recover_Inr:
  assumes "recoverPolicyEvaluationJob s now epoch = Inr t" and "pj_terminal (ps_job s) = None"
  obtains e k where "epoch = JsInt e" "recoverable s now e" "recoveredJob s now e = Inr k"
    "PolicyEvaluationJobSnapshotSchema t"
    "t = (closeOpenAttempt (recoveryClosure s now) (chargedGraph s))\<lparr>ps_job := k\<rparr>"
proof -
  from assms obtain e where e: "epoch = JsInt e" "recoverable s now e"
    by (cases epoch) (auto simp: recoverPolicyEvaluationJob_def recoverable_def Let_def split: if_splits)
  from recover_valid [OF e(2)] obtain k where k: "recoveredJob s now e = Inr k"
    "PolicyEvaluationJobSnapshotSchema ((closeOpenAttempt (recoveryClosure s now) (chargedGraph s))\<lparr>ps_job := k\<rparr>)"
    .
  then have "t = (closeOpenAttempt (recoveryClosure s now) (chargedGraph s))\<lparr>ps_job := k\<rparr>"
    using assms(1) recover_eq [OF e(2)] by (simp add: e(1) parseSnapshot_def)
  then show ?thesis using that [OF e k(1)] k(2) by simp
qed

lemma recovered_fields:
  assumes "recoveredJob s now e = Inr k" and "recoverable s now e"
  shows "sameJob (ps_job s) k" "pj_stateVersion k = pj_stateVersion (ps_job s) + 1"
    "pj_lastFencingToken k = pj_lastFencingToken (ps_job s)" "pj_snapshot k = pj_snapshot (ps_job s)"
    "pj_recoveryEpoch k = e" "pj_currentLease k = None"
proof -
  let ?j = "(ps_job s)\<lparr>pj_recoveryEpoch := e\<rparr>"
  have le: "tkey (pj_updatedAt ?j) \<le> tkey now" and up: "sameJob (ps_job s) ?j"
    using assms(2) by (simp_all add: recoverable_def sameJob_def)
  have "sameJob ?j k \<and> pj_stateVersion k = pj_stateVersion ?j + 1 \<and>
    pj_lastFencingToken k = pj_lastFencingToken ?j \<and> pj_snapshot k = pj_snapshot ?j \<and>
    pj_recoveryEpoch k = pj_recoveryEpoch ?j \<and> pj_currentLease k = None"
  proof (cases "recoveryEnds s now \<or> pj_currentLease (ps_job s) = None")
    case True
    then show ?thesis
      using assms(1) terminate_same [OF le] advance_same [OF le]
      by (auto simp: recoveredJob_def Let_def sameJob_def split: if_splits)
  next
    case False
    then have "retryOrFail s now WorkerInterrupted (latestAttemptId s) ?j = Inr k"
      using assms(1) by (simp add: recoveredJob_def Let_def)
    from retryOrFail_fields [OF this le] show ?thesis by blast
  qed
  then show "sameJob (ps_job s) k" "pj_stateVersion k = pj_stateVersion (ps_job s) + 1"
    "pj_lastFencingToken k = pj_lastFencingToken (ps_job s)" "pj_snapshot k = pj_snapshot (ps_job s)"
    "pj_recoveryEpoch k = e" "pj_currentLease k = None"
    using up by (auto simp: sameJob_def)
qed

lemma recover_advances:
  assumes "recoverPolicyEvaluationJob s now epoch = Inr t" and "t \<noteq> s"
  shows "advances s t"
proof -
  have live: "pj_terminal (ps_job s) = None"
    using assms by (cases epoch) (auto simp: recoverPolicyEvaluationJob_def Let_def split: if_splits)
  show ?thesis
  proof (rule recover_Inr [OF assms(1) live])
    fix e k
    assume r: "recoverable s now e" "recoveredJob s now e = Inr k" and t: "PolicyEvaluationJobSnapshotSchema t"
      and eq: "t = (closeOpenAttempt (recoveryClosure s now) (chargedGraph s))\<lparr>ps_job := k\<rparr>"
    have "PolicyEvaluationJobSnapshotSchema s" using r(1) by (simp add: recoverable_def)
    then show ?thesis
      unfolding eq using live t eq recovered_fields [OF r(2,1)] by (intro closing_advances) simp_all
  qed
qed

section \<open>The machine\<close>

inductive policyStep :: "PolicyEvaluationJobSnapshot \<Rightarrow> PolicyEvaluationJobSnapshot \<Rightarrow> bool" where
  step_claim: "claimPolicyEvaluationJob s now epoch aid lid wid = Inr t \<Longrightarrow> policyStep s t"
| step_heartbeat: "heartbeatPolicyEvaluationJob s now epoch fence = Inr t \<Longrightarrow> policyStep s t"
| step_usage: "reservePolicyEvaluationUsage s now epoch fence delta = Inr t \<Longrightarrow> policyStep s t"
| step_acquire: "reservePolicyEvaluationAcquisition s now epoch fence aid = Inr t \<Longrightarrow> policyStep s t"
| step_settle: "settlePolicyEvaluationAcquisition s now epoch fence aid observed = Inr t \<Longrightarrow> policyStep s t"
| step_seal: "sealPolicyEvaluationJob s now epoch fence r = Inr t \<Longrightarrow> policyStep s t"
| step_start: "startPolicyEvaluationComputation s now epoch fence = Inr t \<Longrightarrow> policyStep s t"
| step_complete: "completePolicyEvaluationJob s now epoch fence reference ruleCount = Inr t \<Longrightarrow> policyStep s t"
| step_interrupt: "interruptPolicyEvaluationJob s now epoch fence reason = Inr t \<Longrightarrow> policyStep s t"
| step_reclaim: "reclaimPolicyEvaluationJob s now epoch = Inr t \<Longrightarrow> t \<noteq> s \<Longrightarrow> policyStep s t"
| step_recover: "recoverPolicyEvaluationJob s now epoch = Inr t \<Longrightarrow> t \<noteq> s \<Longrightarrow> policyStep s t"
| step_cancel: "cancelPolicyEvaluationJob s intent = Inr t \<Longrightarrow> t \<noteq> s \<Longrightarrow> policyStep s t"
| step_exhaust: "exhaustPolicyEvaluationJobHistory s now = Inr t \<Longrightarrow> policyStep s t"

lemma policyStep_advances: "policyStep s t \<Longrightarrow> advances s t"
  by (induction rule: policyStep.induct)
    (blast intro: claim_advances heartbeat_advances reserveUsage_advances reserveAcquisition_advances
      settle_advances seal_advances start_advances complete_advances interrupt_advances reclaim_advances
      recover_advances cancel_advances exhaust_advances)+

definition policyAdmits :: "PolicyEvaluationJobSnapshot \<Rightarrow> PolicyEvaluationWorkerMutationFence \<Rightarrow> bool" where
  "policyAdmits s f \<longleftrightarrow> (\<exists>now epoch lease. requirePolicyEvaluationLiveFence s now epoch f = Inr lease)"

definition policyTerminal :: "PolicyEvaluationJobSnapshot \<Rightarrow> bool" where
  "policyTerminal s \<longleftrightarrow> pj_terminal (ps_job s) \<noteq> None"

interpretation policy: epoch_machine policyStep PolicyEvaluationJobSnapshotSchema
    "\<lambda>s. pj_lastFencingToken (ps_job s)" "\<lambda>s. pj_stateVersion (ps_job s)" policyTerminal
    policyAdmits pf_fencingToken "\<lambda>s. pj_recoveryEpoch (ps_job s)" pf_recoveryEpoch
proof unfold_locales
  fix s t :: PolicyEvaluationJobSnapshot
  assume "policyStep s t"
  then have "advances s t" by (rule policyStep_advances)
  then show "PolicyEvaluationJobSnapshotSchema t"
    "pj_stateVersion (ps_job t) = pj_stateVersion (ps_job s) + 1"
    "pj_lastFencingToken (ps_job s) \<le> pj_lastFencingToken (ps_job t)" "\<not> policyTerminal s"
    "pj_recoveryEpoch (ps_job s) \<le> pj_recoveryEpoch (ps_job t)"
    by (simp_all add: advances_def policyTerminal_def sameJob_def)
next
  fix s :: PolicyEvaluationJobSnapshot and f
  assume "PolicyEvaluationJobSnapshotSchema s" and "policyAdmits s f"
  then obtain now epoch l where h: "holdsLease s now epoch f l"
    by (auto simp: policyAdmits_def result_simps)
  note facts = holdsLease_facts [OF h]
  show "pf_fencingToken f = pj_lastFencingToken (ps_job s)" "pf_recoveryEpoch f = pj_recoveryEpoch (ps_job s)"
    using lease_shape(3) [OF facts(1,3)] h by (simp_all add: leaseBindsJob_def holdsLease_def)
  show "\<not> policyTerminal s" using facts(6) by (simp add: policyTerminal_def)
qed

end
