(* ===== verification/Policy_Sample.thy ===== *)
theory Policy_Sample
  imports Policy_Machine
begin

text \<open>A concrete evaluation job, queued and under a lease, on which the scheduler theorems are evaluated.\<close>

section \<open>A concrete job\<close>

definition wholeSecond :: "int \<Rightarrow> policy_time" where
  "wholeSecond n = \<lparr>pt_seconds = n, pt_fraction = []\<rparr>"

lemma wholeSecond_key [simp]: "tkey (wholeSecond n) = n * 10 ^ 30"
proof -
  have "bigInt (padEnd 30 CHR ''0'' []) = 0" by code_simp
  then show ?thesis
    by (simp add: wholeSecond_def policyEvaluationTimestampOrderKey_def POLICY_EVALUATION_TIME_UNITS_PER_MILLISECOND_def)
qed

lemma wholeSecond_eq [simp]: "wholeSecond n = wholeSecond m \<longleftrightarrow> n = m"
  by (simp add: wholeSecond_def)

lemma wholeSecond_schema [simp]: "0 \<le> n \<Longrightarrow> n \<le> 10000 \<Longrightarrow> PolicyEvaluationTimeSchema (wholeSecond n)"
  by (simp add: wholeSecond_def PolicyEvaluationTimeSchema_def MIN_UTC_MS_def MAX_UTC_MS_def)

definition sampleSha :: string where
  "sampleSha = replicate 64 CHR ''a''"

definition sampleScope :: EvidenceScope where
  "sampleScope = \<lparr>environmentId = ''production'', projectId = ''project1'', tenantId = ''tenant1''\<rparr>"

definition sampleLimits :: PolicyEvaluationExecutionLimits where
  "sampleLimits =
     \<lparr>lim_heartbeatIntervalMilliseconds = 1000, lim_leaseDurationMilliseconds = 5000,
      lim_maxAcquisitionRecordBytes = 1000, lim_maxAcquisitionRecords = 100,
      lim_maxArtifactReadBytes = 0, lim_maxAttempts = 2, lim_maxRuleEvaluations = 10,
      lim_perAttemptTimeoutMilliseconds = 10000, lim_retryBackoffMilliseconds = 1000,
      lim_retryableErrors = [LeaseExpiredError, WorkerInterrupted], lim_totalDeadlineMilliseconds = 60000\<rparr>"

definition sampleRequest :: PolicyEvaluationRequest where
  "sampleRequest =
     \<lparr>prq_candidate = \<lparr>cand_candidateId = ''candidate1'', cand_candidateVersionId = ''version1'',
        cand_definitionSha256 = sampleSha\<rparr>,
      prq_createdAt = 1000000, prq_createdByPrincipalId = ''principal1'',
      prq_definitionSha256 = sampleSha, prq_evaluationRequestId = ''request1'',
      prq_evaluationTime = wholeSecond 900, prq_limits = sampleLimits,
      prq_policy = \<lparr>rpol_definitionSha256 = sampleSha, rpol_policyId = ''policy1'',
        rpol_policyVersionId = ''version1''\<rparr>,
      prq_scope = sampleScope\<rparr>"

definition queuedJob :: PolicyEvaluationJob where
  "queuedJob =
     \<lparr>pj_jobId = ''job00001'', pj_request = \<lparr>reqref_definitionSha256 = sampleSha,
        reqref_evaluationRequestId = ''request1''\<rparr>,
      pj_definitionSha256 = sampleSha, pj_scope = sampleScope, pj_createdAt = wholeSecond 1000,
      pj_createdByPrincipalId = ''principal1'', pj_deadlineAt = wholeSecond 1060,
      pj_updatedAt = wholeSecond 1000, pj_stateVersion = 1, pj_recoveryEpoch = 0,
      pj_lastFencingToken = 0, pj_attemptCount = 0, pj_status = PQueued, pj_currentLease = None,
      pj_snapshot = None, pj_result = None, pj_retryAt = None, pj_terminal = None\<rparr>"

definition queuedGraph :: PolicyEvaluationJobSnapshot where
  "queuedGraph =
     \<lparr>ps_request = sampleRequest, ps_job = queuedJob, ps_attempts = [], ps_cancellation = None,
      ps_usage = (\<lambda>k. 0), ps_acquisitionAllowance = None\<rparr>"

definition sampleFence :: PolicyEvaluationWorkerMutationFence where
  "sampleFence = \<lparr>pf_jobId = ''job00001'', pf_attemptId = ''attempt1'', pf_workerId = ''worker01'',
     pf_leaseId = ''lease001'', pf_fencingToken = 1, pf_recoveryEpoch = 0\<rparr>"

definition sampleLease :: PolicyEvaluationLease where
  "sampleLease = \<lparr>pl_scope = sampleScope, pl_mutationFence = sampleFence, pl_attemptSequence = 0,
     pl_acquiredAt = wholeSecond 1001, pl_heartbeatAt = wholeSecond 1001, pl_expiresAt = wholeSecond 1006,
     pl_attemptDeadlineAt = wholeSecond 1011, pl_jobDeadlineAt = wholeSecond 1060\<rparr>"

definition sampleReference :: PolicyEvaluationSnapshotReference where
  "sampleReference = \<lparr>snapref_snapshotId = ''snapshot1'', snapref_definitionSha256 = sampleSha\<rparr>"

definition sampleUsage :: PolicyEvaluationUsage where
  "sampleUsage k = (if k = URuleEvaluations then 3 else 0)"

definition sampleAttempt :: "PolicyEvaluationSnapshotReference option \<Rightarrow> PolicyEvaluationAttempt" where
  "sampleAttempt r = \<lparr>pa_scope = sampleScope, pa_mutationFence = sampleFence, pa_attemptSequence = 0,
     pa_startedAt = wholeSecond 1001, pa_deadlineAt = wholeSecond 1011,
     pa_phase = (if r = None then PhaseAcquiring else PhaseComputing), pa_snapshot = r,
     pa_usageAtStart = (\<lambda>k. 0), pa_usageAtClose = None, pa_closure = None\<rparr>"

definition leasedGraph ::
    "PolicyEvaluationJobStatus \<Rightarrow> PolicyEvaluationSnapshotReference option \<Rightarrow> PolicyEvaluationUsage \<Rightarrow>
     PolicyEvaluationAcquisitionAllowance option \<Rightarrow> PolicyEvaluationJobSnapshot" where
  "leasedGraph status r usage allowance = queuedGraph
     \<lparr>ps_attempts := [sampleAttempt r], ps_usage := usage, ps_acquisitionAllowance := allowance,
      ps_job := queuedJob\<lparr>pj_status := status, pj_currentLease := Some sampleLease, pj_snapshot := r,
        pj_attemptCount := 1, pj_lastFencingToken := 1, pj_stateVersion := 2,
        pj_updatedAt := wholeSecond 1002\<rparr>\<rparr>"

definition acquiringGraph :: PolicyEvaluationJobSnapshot where
  "acquiringGraph = leasedGraph PAcquiring None (\<lambda>k. 0) None"

definition runningGraph :: PolicyEvaluationJobSnapshot where
  "runningGraph = leasedGraph PRunning (Some sampleReference) sampleUsage None"

lemma sample_texts [simp]:
  "OpaqueIdSchema ''job00001''" "OpaqueIdSchema ''request1''" "OpaqueIdSchema ''principal1''"
  "OpaqueIdSchema ''candidate1''" "OpaqueIdSchema ''version1''" "OpaqueIdSchema ''policy1''"
  "OpaqueIdSchema ''attempt1''" "OpaqueIdSchema ''attempt2''" "OpaqueIdSchema ''lease001''"
  "OpaqueIdSchema ''lease002''" "OpaqueIdSchema ''worker01''" "OpaqueIdSchema ''worker02''"
  "OpaqueIdSchema ''snapshot1''" "OpaqueIdSchema ''result01''" "OpaqueIdSchema ''cancel01''"
  "OpaqueIdSchema ''allowance1''"
  "Sha256Schema sampleSha" "EvidenceScopeSchema sampleScope"
  by code_simp+

lemma sample_limits [simp]: "PolicyEvaluationExecutionLimitsSchema sampleLimits"
  by code_simp

lemma sample_request [simp]: "PolicyEvaluationRequestSchema sampleRequest"
  by (simp add: PolicyEvaluationRequestSchema_def sampleRequest_def ReleaseCandidateReferenceSchema_def
      ReleasePolicyReferenceSchema_def UtcMillisecondTimestampSchema_def requestDeadline_def
      MAX_SERVER_TIME_KEY_def millisecondOrderKey_def POLICY_EVALUATION_TIME_UNITS_PER_MILLISECOND_def
      MIN_UTC_MS_def MAX_UTC_MS_def sampleLimits_def [THEN arg_cong [of _ _ lim_totalDeadlineMilliseconds]])


lemmas sample_defs = queuedJob_def sampleLease_def sampleFence_def sampleAttempt_def sampleReference_def

lemma sample_deadline [simp]:
  "requestDeadline sampleRequest = 1060 * 10 ^ 30" "prq_limits sampleRequest = sampleLimits"
  by (simp_all add: requestDeadline_def sampleRequest_def sampleLimits_def millisecondOrderKey_def
      POLICY_EVALUATION_TIME_UNITS_PER_MILLISECOND_def)

lemma sample_preserves: "jobPreservesRequest sampleRequest (queuedJob\<lparr>pj_status := a, pj_currentLease := b,
    pj_snapshot := c, pj_attemptCount := d, pj_lastFencingToken := e, pj_stateVersion := f, pj_updatedAt := g\<rparr>)"
  "jobPreservesRequest sampleRequest queuedJob"
  by (simp_all add: jobPreservesRequest_def queuedJob_def)
    (simp_all add: sampleRequest_def millisecondOrderKey_def POLICY_EVALUATION_TIME_UNITS_PER_MILLISECOND_def)

lemma queued_valid [simp]: "PolicyEvaluationJobSnapshotSchema queuedGraph"
proof -
  have "PolicyEvaluationJobSchema queuedJob"
    by (simp add: job_schema_defs queuedJob_def status_sets PolicyEvaluationRequestReferenceSchema_def
        SafePositiveInteger_def SafeNonnegativeInteger_def MAX_POLICY_EVALUATION_ATTEMPTS_def)
  moreover have "PolicyEvaluationUsageSchema (\<lambda>k. 0)" by code_simp
  ultimately show ?thesis
    by (simp add: PolicyEvaluationJobSnapshotSchema_def snapshotShape_def queuedGraph_def sample_preserves(2)
        MAX_POLICY_EVALUATION_ATTEMPTS_def snapshotHistoryOk_Nil snapshotLeaseOk_def snapshotTerminalOk_def)
      (simp add: queuedJob_def usageWithinLimits_def sampleLimits_def)
qed

lemma leased_job_schema:
  assumes "(status = PAcquiring \<and> r = None) \<or> (status \<in> {PSealed, PRunning} \<and> r = Some sampleReference)"
  shows "PolicyEvaluationJobSchema (queuedJob\<lparr>pj_status := status, pj_currentLease := Some sampleLease,
    pj_snapshot := r, pj_attemptCount := 1, pj_lastFencingToken := 1, pj_stateVersion := 2,
    pj_updatedAt := wholeSecond 1002\<rparr>)"
proof -
  have lease: "PolicyEvaluationLeaseSchema sampleLease"
    by (simp add: PolicyEvaluationLeaseSchema_def sampleLease_def sampleFence_def policy_limits
        PolicyEvaluationWorkerMutationFenceSchema_def SafePositiveInteger_def SafeNonnegativeInteger_def)
  show ?thesis
    using assms lease
    by (auto simp: job_schema_defs queuedJob_def status_sets PolicyEvaluationRequestReferenceSchema_def
        PolicyEvaluationSnapshotReferenceSchema_def sampleReference_def
        SafePositiveInteger_def SafeNonnegativeInteger_def policy_limits)
      (simp_all add: leaseBindsJob_def sampleLease_def sampleFence_def MAX_SAFE_INTEGER_def)
qed

lemma leased_valid_sample:
  assumes st: "(status = PAcquiring \<and> r = None) \<or> (status \<in> {PSealed, PRunning} \<and> r = Some sampleReference)"
    and u: "PolicyEvaluationUsageSchema u" "usageWithinLimits sampleLimits u"
  shows "PolicyEvaluationJobSnapshotSchema (leasedGraph status r u None)"
proof -
  let ?s = "leasedGraph status r u None" and ?a = "sampleAttempt r"
  have graph: "ps_attempts ?s = [] @ [?a]" "ps_request ?s = sampleRequest" "ps_usage ?s = u"
    "ps_cancellation ?s = None" "ps_acquisitionAllowance ?s = None"
    "ps_job ?s = queuedJob\<lparr>pj_status := status, pj_currentLease := Some sampleLease,
    pj_snapshot := r, pj_attemptCount := 1, pj_lastFencingToken := 1, pj_stateVersion := 2,
    pj_updatedAt := wholeSecond 1002\<rparr>"
    by (simp_all add: leasedGraph_def queuedGraph_def)
  have zero: "PolicyEvaluationUsageSchema (\<lambda>k. 0)" by code_simp
  have nonneg: "(\<lambda>k. 0) \<le> u" using u(1) by (simp add: le_fun_def UsageSchema_iff)
  have "PolicyEvaluationAttemptSchema ?a"
    using st zero
    by (auto simp: PolicyEvaluationAttemptSchema_def sampleAttempt_def sampleFence_def policy_limits
        PolicyEvaluationWorkerMutationFenceSchema_def SafePositiveInteger_def SafeNonnegativeInteger_def
        PolicyEvaluationSnapshotReferenceSchema_def sampleReference_def)
  then have "snapshotShape ?s"
    using leased_job_schema [OF st] u(1) by (simp add: snapshotShape_def graph policy_limits)
  moreover have "snapshotHistoryOk ?s"
    unfolding snapshotHistoryOk_snoc [OF graph(1)] using st nonneg
    by (auto simp: graph attemptAccepted_def historyContext_def initialHistory_def sampleAttempt_def sampleFence_def
        queuedJob_def attemptAdvance_def sampleLimits_def POLICY_EVALUATION_TIME_UNITS_PER_MILLISECOND_def)
  moreover have "snapshotLeaseOk ?s" "snapshotTerminalOk ?s"
    using st
    by (auto simp: snapshotLeaseOk_def snapshotTerminalOk_def latestAttempt_def graph sampleAttempt_def sampleLease_def sampleLimits_def
        POLICY_EVALUATION_TIME_UNITS_PER_MILLISECOND_def) (simp_all add: queuedJob_def)
  ultimately show ?thesis
    using st u(2) sample_preserves(1)
    by (auto simp: PolicyEvaluationJobSnapshotSchema_def graph) (simp_all add: sampleLimits_def)
qed

lemma acquiring_valid [simp]: "PolicyEvaluationJobSnapshotSchema acquiringGraph"
  unfolding acquiringGraph_def by (rule leased_valid_sample) (code_simp | simp)+

lemma running_valid [simp]: "PolicyEvaluationJobSnapshotSchema runningGraph"
  unfolding runningGraph_def by (rule leased_valid_sample) (code_simp | simp)+

end
