(* ===== verification/Policy_Totality.thy ===== *)
theory Policy_Totality
  imports Policy_Sample
begin

text \<open>
  Every transition ends with a parse of the graph it built. On a valid graph and well-formed arguments
  that parse, and the receipt arithmetic before it, never fails: a transition either returns the next
  graph or gives one of its declared reasons. There are two exceptions, sealing while an allowance is
  outstanding and reserving an acquisition beside a cancellation, and both are described exactly.
\<close>

section \<open>No transition fails its own validation\<close>

definition internalFailure :: "(scheduler_error, 'a) result \<Rightarrow> bool" where
  "internalFailure r \<longleftrightarrow> r = Inl SchedulerZodError \<or> (\<exists>e. r = Inl (SchedulerTimeError e))"

lemma internalFailure_simps [simp]:
  "\<not> internalFailure (Inr x)" "\<not> internalFailure (rejectTransition r)" "\<not> internalFailure (Inl JobHistoryError)"
  "internalFailure (Inl SchedulerZodError)" "internalFailure (Inl (SchedulerTimeError e))"
  by (simp_all add: internalFailure_def)

lemma claim_total:
  assumes "PolicyEvaluationJobSnapshotSchema s" and "PolicyEvaluationTimeSchema now"
    and "OpaqueIdSchema aid" and "OpaqueIdSchema lid" and "OpaqueIdSchema wid"
  shows "\<not> internalFailure (claimPolicyEvaluationJob s now epoch aid lid wid)"
proof
  have "PolicyEvaluationTimeSchema (pj_deadlineAt (ps_job s))"
    using assms(1) by (simp add: PolicyEvaluationJobSnapshotSchema_def snapshotShape_def job_schema_defs)
  from addUpTo_exact [OF assms(2) this limits_safe(1,2) [OF assms(1)]]
  obtain d where d: "addPolicyEvaluationMillisecondsUpTo now
      (lim_perAttemptTimeoutMilliseconds (prq_limits (ps_request s))) (pj_deadlineAt (ps_job s)) = Inr d"
    "PolicyEvaluationTimeSchema d" by blast
  from addUpTo_exact [OF assms(2) d(2) less_imp_le [OF limits_safe(5) [OF assms(1)]] limits_safe(6) [OF assms(1)]]
  obtain e where e: "addPolicyEvaluationMillisecondsUpTo now
      (lim_leaseDurationMilliseconds (prq_limits (ps_request s))) d = Inr e" by blast
  assume f: "internalFailure (claimPolicyEvaluationJob s now epoch aid lid wid)"
  then have "claimable s now \<and> epoch = JsInt (pj_recoveryEpoch (ps_job s)) \<and> freshIds s aid lid wid"
    using assms
    by (auto simp: claimPolicyEvaluationJob_def Let_def claimable_def freshIds_def increment_def list_ex_iff
        not_le not_less d(1) e split: if_splits)
  then obtain t where "claimPolicyEvaluationJob s now epoch aid lid wid = Inr t"
    using claim_Inr_iff [of s now epoch aid lid wid] by blast
  with f show False by simp
qed

lemma live_total:
  assumes "PolicyEvaluationJobSnapshotSchema s" and "PolicyEvaluationTimeSchema now"
    and "PolicyEvaluationWorkerMutationFenceSchema fence"
  shows "\<not> internalFailure (requirePolicyEvaluationLiveFence s now epoch fence)"
  using assms by (auto simp: requirePolicyEvaluationLiveFence_def Let_def split: option.split)

lemma live_cases:
  assumes "PolicyEvaluationJobSnapshotSchema s" and "PolicyEvaluationTimeSchema now"
    and "PolicyEvaluationWorkerMutationFenceSchema fence"
  obtains r where "requirePolicyEvaluationLiveFence s now epoch fence = rejectTransition r"
  | l where "requirePolicyEvaluationLiveFence s now epoch fence = Inr l" "holdsLease s now epoch fence l"
proof (cases "requirePolicyEvaluationLiveFence s now epoch fence")
  case (Inl e)
  then show ?thesis
    using assms that(1)
    by (auto simp: requirePolicyEvaluationLiveFence_def Let_def split: option.splits if_splits)
next
  case (Inr l)
  then show ?thesis using that(2) by (simp add: result_simps)
qed

lemma heartbeat_total:
  assumes "PolicyEvaluationJobSnapshotSchema s" and "PolicyEvaluationTimeSchema now"
    and "PolicyEvaluationWorkerMutationFenceSchema fence"
  shows "\<not> internalFailure (heartbeatPolicyEvaluationJob s now epoch fence)"
proof (cases rule: live_cases [OF assms, of epoch])
  case (1 r)
  then show ?thesis by (simp add: heartbeatPolicyEvaluationJob_def)
next
  case (2 l)
  show ?thesis
  proof (cases "pj_stateVersion (ps_job s) < MAX_SAFE_INTEGER")
    case True
    show ?thesis
      by (rule heartbeat_valid [OF 2(2) True])
        (simp add: heartbeatPolicyEvaluationJob_def 2(1) increment_def parseSnapshot_def)
  next
    case False
    have "PolicyEvaluationTimeSchema (pl_attemptDeadlineAt l)"
      using lease_shape(2) [OF holdsLease_facts(1,3) [OF 2(2)]] by (simp add: PolicyEvaluationLeaseSchema_def)
    from addUpTo_exact [OF assms(2) this less_imp_le [OF limits_safe(5) [OF assms(1)]] limits_safe(6) [OF assms(1)]]
    show ?thesis using False 2(1) by (auto simp: heartbeatPolicyEvaluationJob_def increment_def)
  qed
qed

lemma reserveUsage_total:
  assumes "PolicyEvaluationJobSnapshotSchema s" and "PolicyEvaluationTimeSchema now"
    and "PolicyEvaluationWorkerMutationFenceSchema fence" and "PolicyEvaluationUsageSchema delta"
  shows "\<not> internalFailure (reservePolicyEvaluationUsage s now epoch fence delta)"
proof (cases rule: live_cases [OF assms(1-3), of epoch])
  case (1 r)
  then show ?thesis using assms(4) by (simp add: reservePolicyEvaluationUsage_def)
next
  case (2 l)
  then show ?thesis
    using assms(4) reserveUsage_valid [OF 2(2) _ assms(4)]
    by (auto simp: reservePolicyEvaluationUsage_def Let_def parseSnapshot_def not_le)
qed

lemma reserveAcquisition_total:
  assumes "PolicyEvaluationJobSnapshotSchema s" and "PolicyEvaluationTimeSchema now"
    and "PolicyEvaluationWorkerMutationFenceSchema fence" and "OpaqueIdSchema aid" and "ps_cancellation s = None"
  shows "\<not> internalFailure (reservePolicyEvaluationAcquisition s now epoch fence aid)"
proof (cases rule: live_cases [OF assms(1-3), of epoch])
  case (1 r)
  then show ?thesis by (simp add: reservePolicyEvaluationAcquisition_def)
next
  case (2 l)
  then show ?thesis
    using assms(4,5) reserveAcquisition_valid [OF 2(2) _ _ _ assms(5,4)]
    by (auto simp: reservePolicyEvaluationAcquisition_def Let_def parseSnapshot_def not_le)
qed

lemma settle_total:
  assumes "PolicyEvaluationJobSnapshotSchema s" and "PolicyEvaluationTimeSchema now"
    and "PolicyEvaluationWorkerMutationFenceSchema fence" and "OpaqueIdSchema aid"
    and "optional PolicyEvaluationAcquisitionUsageSchema observed"
  shows "\<not> internalFailure (settlePolicyEvaluationAcquisition s now epoch fence aid observed)"
proof (cases rule: live_cases [OF assms(1-3), of epoch])
  case (1 r)
  then show ?thesis by (simp add: settlePolicyEvaluationAcquisition_def)
next
  case (2 l)
  show ?thesis
  proof (cases "ps_acquisitionAllowance s = None \<or> MAX_SAFE_INTEGER \<le> pj_stateVersion (ps_job s)")
    case True
    then show ?thesis
      using 2(1) assms(4,5) by (auto simp: settlePolicyEvaluationAcquisition_def Let_def split: option.split)
  next
    case False
    then obtain a where a: "ps_acquisitionAllowance s = Some a" "pj_stateVersion (ps_job s) < MAX_SAFE_INTEGER" by auto
    note f = holdsLease_facts [OF 2(2)] and limits = allowance_is_remaining(1) [OF assms(1) a(1)]
    have charged: "chargeAllowance s (fullAllowanceUsage a) = chargedGraph s"
      using a(1) by (simp add: chargedGraph_def chargeUncertainPolicyEvaluationAcquisition_def)
    have ended: "PolicyEvaluationJobSnapshotSchema
      ((closeOpenAttempt (ClosureStopped ClosedBudgetExhausted BudgetLimitReached now) (chargedGraph s))
       \<lparr>ps_job := terminate PBudgetExhausted BudgetLimitReachedCode (latestAttemptId s) now (ps_job s)\<rparr>)"
      using close_terminate_same_epoch [OF f(1,6,2,4) a(2) f(1), of PBudgetExhausted BudgetLimitReachedCode
        "ClosureStopped ClosedBudgetExhausted BudgetLimitReached now"] by simp
    show ?thesis
    proof (cases observed)
      case None
      then show ?thesis
        using 2(1) a assms(4) ended
        by (auto simp: settlePolicyEvaluationAcquisition_def Let_def charged parseSnapshot_def latestAttemptId_def
            split: option.split)
    next
      case (Some u)
      have "acquisitionFits s u" if "\<not> (aqu_reads u > aql_reads (aal_limits a) \<or> aqu_records u > aql_records (aal_limits a) \<or>
          aqu_references u > aql_references (aal_limits a) \<or>
          aqu_recordBytes u + aqu_referenceBytes u > aql_recordAndReferenceBytes (aal_limits a))"
        using that assms(5) Some
        by (simp add: acquisitionFits_def limits PolicyEvaluationAcquisitionUsageSchema_def countInteger_def bytesInteger_def)
      with settle_valid [OF 2(2) a(2)] show ?thesis
        using 2(1) a assms(4,5) Some
        by (auto simp: settlePolicyEvaluationAcquisition_def Let_def parseSnapshot_def)
    qed
  qed
qed

lemma start_total:
  assumes "PolicyEvaluationJobSnapshotSchema s" and "PolicyEvaluationTimeSchema now"
    and "PolicyEvaluationWorkerMutationFenceSchema fence"
  shows "\<not> internalFailure (startPolicyEvaluationComputation s now epoch fence)"
proof (cases rule: live_cases [OF assms(1-3), of epoch])
  case (1 r)
  then show ?thesis by (simp add: startPolicyEvaluationComputation_def)
next
  case (2 l)
  then show ?thesis
    using start_valid [OF 2(2)]
    by (auto simp: startPolicyEvaluationComputation_def parseSnapshot_def not_le split: option.split)
qed

lemma complete_total:
  assumes "PolicyEvaluationJobSnapshotSchema s" and "PolicyEvaluationTimeSchema now"
    and "PolicyEvaluationWorkerMutationFenceSchema fence" and "PolicyEvaluationResultReferenceSchema r"
  shows "\<not> internalFailure (completePolicyEvaluationJob s now epoch fence r ruleCount)"
proof (cases rule: live_cases [OF assms(1-3), of epoch])
  case (1 e)
  then show ?thesis by (simp add: completePolicyEvaluationJob_def)
next
  case (2 l)
  then show ?thesis
    using assms(4) complete_valid [OF 2(2) _ _ assms(4)]
    by (auto simp: completePolicyEvaluationJob_def parseSnapshot_def not_le latestAttemptId_def
        split: option.split js_number.split)
qed


lemma interrupt_succeeds:
  assumes h: "holdsLease s now epoch fence l" and version: "pj_stateVersion (ps_job s) < MAX_SAFE_INTEGER"
    and reason: "reason \<noteq> LeaseExpiredError" "pj_snapshot (ps_job s) \<noteq> None \<Longrightarrow> reason \<noteq> SourceRevisionChanged"
  obtains k where "interruptPolicyEvaluationJob s now epoch fence reason =
      Inr ((closeOpenAttempt (ClosureInterrupted reason now) (chargedGraph s))\<lparr>ps_job := k\<rparr>)"
    "ps_acquisitionAllowance s \<noteq> None \<Longrightarrow>
       k = terminate PBudgetExhausted BudgetLimitReachedCode (latestAttemptId s) now (ps_job s)"
    "ps_acquisitionAllowance s = None \<Longrightarrow> retryOrFail s now reason (latestAttemptId s) (ps_job s) = Inr k"
proof -
  note f = holdsLease_facts [OF h]
  obtain xs a where a: "ps_attempts s = xs @ [a]" "pa_closure a = None"
    "(pa_phase a = PhaseComputing) = (pj_snapshot (ps_job s) \<noteq> None)"
    using lease_attempt [OF f(1,3)] by metis
  have fits: "closureFits (pa_phase b) (ClosureInterrupted reason now)"
    if "latestAttempt (ps_attempts s) = Some b" for b
    using that a reason(2) by auto
  have guards: "PolicyEvaluationWorkerMutationFenceSchema fence" "pj_status (ps_job s) \<in> leasedStatuses"
    "epoch = JsInt (pj_recoveryEpoch (ps_job s))" "fence = pl_mutationFence l"
    using lease_shape(6) [OF f(1,3)] h lease_statuses(1) [OF f(5,3)] by (simp_all add: holdsLease_def)
  have ended: "PolicyEvaluationJobSnapshotSchema
      ((closeOpenAttempt (ClosureInterrupted reason now) (chargedGraph s))
       \<lparr>ps_job := terminate PBudgetExhausted BudgetLimitReachedCode (latestAttemptId s) now (ps_job s)\<rparr>)"
    using close_terminate_same_epoch [OF f(1,6,2,4) version f(1), of PBudgetExhausted BudgetLimitReachedCode
        "ClosureInterrupted reason now"] fits by simp
  from close_retry_same_epoch [OF f(1,6,2,4) version f(1), of "ClosureInterrupted reason now" reason] fits a(1)
  obtain k where k: "retryOrFail s now reason (latestAttemptId s) (ps_job s) = Inr k"
    "PolicyEvaluationJobSnapshotSchema ((closeOpenAttempt (ClosureInterrupted reason now) (chargedGraph s))\<lparr>ps_job := k\<rparr>)"
    by auto
  have aid: "latestAttemptId s = Some (pf_attemptId (pa_mutationFence a))" by (simp add: latestAttemptId_def a(1))
  have "interruptPolicyEvaluationJob s now epoch fence reason = Inr
      ((closeOpenAttempt (ClosureInterrupted reason now) (chargedGraph s))\<lparr>ps_job :=
        if ps_acquisitionAllowance s \<noteq> None
        then terminate PBudgetExhausted BudgetLimitReachedCode (latestAttemptId s) now (ps_job s) else k\<rparr>)"
    using ended k f a(1,2) guards version reason
    by (cases "pj_snapshot (ps_job s)")
      (simp_all add: interruptPolicyEvaluationJob_def Let_def chargeUncertain_eq parseSnapshot_def aid)
  then show ?thesis by (rule that) (use k in simp_all)
qed

lemma interrupt_total:
  assumes "PolicyEvaluationJobSnapshotSchema s" and "PolicyEvaluationTimeSchema now"
    and "PolicyEvaluationWorkerMutationFenceSchema fence"
  shows "\<not> internalFailure (interruptPolicyEvaluationJob s now epoch fence reason)"
proof (cases "\<exists>l. holdsLease s now epoch fence l \<and> pj_stateVersion (ps_job s) < MAX_SAFE_INTEGER \<and>
    reason \<noteq> LeaseExpiredError \<and> (pj_snapshot (ps_job s) \<noteq> None \<longrightarrow> reason \<noteq> SourceRevisionChanged)")
  case False
  then show ?thesis
    using assms
    by (auto simp: interruptPolicyEvaluationJob_def Let_def holdsLease_def not_le not_less split: option.split)
next
  case True
  then obtain l where "holdsLease s now epoch fence l" "pj_stateVersion (ps_job s) < MAX_SAFE_INTEGER"
    "reason \<noteq> LeaseExpiredError" "pj_snapshot (ps_job s) \<noteq> None \<Longrightarrow> reason \<noteq> SourceRevisionChanged"
    by blast
  from interrupt_succeeds [OF this] show ?thesis by (metis internalFailure_simps(1))
qed

lemma close_expired:
  assumes "PolicyEvaluationJobSnapshotSchema s" and "pj_terminal (ps_job s) = None"
    and "PolicyEvaluationTimeSchema now" and "tkey (pj_updatedAt (ps_job s)) \<le> tkey now"
    and "pj_stateVersion (ps_job s) < MAX_SAFE_INTEGER"
  shows "PolicyEvaluationJobSnapshotSchema
      ((closeOpenAttempt (ClosureStopped ClosedTimedOut DeadlineReachedReason now) (chargedGraph s))
       \<lparr>ps_job := terminate PTimedOut DeadlineReachedCode (latestAttemptId s) now (ps_job s)\<rparr>)"
    "PolicyEvaluationJobSnapshotSchema
      ((closeOpenAttempt (ClosureInterrupted LeaseExpiredError now) (chargedGraph s))
       \<lparr>ps_job := terminate PBudgetExhausted BudgetLimitReachedCode (latestAttemptId s) now (ps_job s)\<rparr>)"
    "PolicyEvaluationJobSnapshotSchema
      ((closeOpenAttempt (ClosureStopped ClosedBudgetExhausted BudgetLimitReached now) (chargedGraph s))
       \<lparr>ps_job := terminate PBudgetExhausted BudgetLimitReachedCode (latestAttemptId s) now (ps_job s)\<rparr>)"
  using close_terminate_same_epoch [OF assms assms(1)] by simp_all

lemma reclaim_deadline:
  assumes "PolicyEvaluationJobSnapshotSchema s" and "PolicyEvaluationTimeSchema now"
    and "pj_terminal (ps_job s) = None" and "tkey (pj_updatedAt (ps_job s)) \<le> tkey now"
    and "pj_stateVersion (ps_job s) < MAX_SAFE_INTEGER" and "tkey (pj_deadlineAt (ps_job s)) \<le> tkey now"
  shows "reclaimPolicyEvaluationJob s now (JsInt (pj_recoveryEpoch (ps_job s))) = Inr
    ((closeOpenAttempt (ClosureStopped ClosedTimedOut DeadlineReachedReason now) (chargedGraph s))
     \<lparr>ps_job := terminate PTimedOut DeadlineReachedCode (latestAttemptId s) now (ps_job s)\<rparr>)"
proof -
  have "\<not> (\<exists>l. pj_currentLease (ps_job s) = Some l \<and> latestAttempt (ps_attempts s) = None)"
    using lease_attempt [OF assms(1)] by (metis latestAttempt_None_iff snoc_eq_iff_butlast)
  then show ?thesis
    using assms close_expired(1) [OF assms(1,3,2,4,5)]
    by (auto simp: reclaimPolicyEvaluationJob_def Let_def chargeUncertain_eq parseSnapshot_def split: option.splits)
qed

lemma reclaim_lease:
  assumes s: "PolicyEvaluationJobSnapshotSchema s" and now: "PolicyEvaluationTimeSchema now"
    and l: "pj_currentLease (ps_job s) = Some l" "tkey (pl_expiresAt l) \<le> tkey now"
    and le: "tkey (pj_updatedAt (ps_job s)) \<le> tkey now" and version: "pj_stateVersion (ps_job s) < MAX_SAFE_INTEGER"
    and early: "\<not> tkey (pj_deadlineAt (ps_job s)) \<le> tkey now"
  obtains k where "reclaimPolicyEvaluationJob s now (JsInt (pj_recoveryEpoch (ps_job s))) =
      Inr ((closeOpenAttempt (ClosureInterrupted LeaseExpiredError now) (chargedGraph s))\<lparr>ps_job := k\<rparr>)"
    "ps_acquisitionAllowance s \<noteq> None \<Longrightarrow>
       k = terminate PBudgetExhausted BudgetLimitReachedCode (latestAttemptId s) now (ps_job s)"
    "ps_acquisitionAllowance s = None \<Longrightarrow> retryOrFail s now LeaseExpiredError (latestAttemptId s) (ps_job s) = Inr k"
proof -
  note live = lease_statuses(2) [OF lease_shape(1) [OF s l(1)] l(1)]
  have attempts: "ps_attempts s \<noteq> []" by (rule lease_attempt [OF s l(1)]) simp
  from close_retry_same_epoch [OF s live now le version s this,
      of "ClosureInterrupted LeaseExpiredError now" LeaseExpiredError]
  obtain k where k: "retryOrFail s now LeaseExpiredError (latestAttemptId s) (ps_job s) = Inr k"
    "PolicyEvaluationJobSnapshotSchema ((closeOpenAttempt (ClosureInterrupted LeaseExpiredError now) (chargedGraph s))\<lparr>ps_job := k\<rparr>)"
    by auto
  have "reclaimPolicyEvaluationJob s now (JsInt (pj_recoveryEpoch (ps_job s))) = Inr
      ((closeOpenAttempt (ClosureInterrupted LeaseExpiredError now) (chargedGraph s))\<lparr>ps_job :=
        if ps_acquisitionAllowance s \<noteq> None
        then terminate PBudgetExhausted BudgetLimitReachedCode (latestAttemptId s) now (ps_job s) else k\<rparr>)"
    using close_expired(2) [OF s live now le version] k s now l le version early live attempts
    by (simp add: reclaimPolicyEvaluationJob_def Let_def chargeUncertain_eq parseSnapshot_def latestAttempt_None_iff)
  then show ?thesis by (rule that) (use k in simp_all)
qed

lemma reclaim_total:
  assumes "PolicyEvaluationJobSnapshotSchema s" and "PolicyEvaluationTimeSchema now"
  shows "\<not> internalFailure (reclaimPolicyEvaluationJob s now epoch)"
proof (cases "epoch = JsInt (pj_recoveryEpoch (ps_job s)) \<and> pj_terminal (ps_job s) = None \<and>
    tkey (pj_updatedAt (ps_job s)) \<le> tkey now \<and> pj_stateVersion (ps_job s) < MAX_SAFE_INTEGER \<and>
    (tkey (pj_deadlineAt (ps_job s)) \<le> tkey now \<or>
       (\<exists>l. pj_currentLease (ps_job s) = Some l \<and> tkey (pl_expiresAt l) \<le> tkey now))")
  case False
  then show ?thesis using assms by (auto simp: reclaimPolicyEvaluationJob_def Let_def split: option.splits)
next
  case True
  show ?thesis
  proof (cases "tkey (pj_deadlineAt (ps_job s)) \<le> tkey now")
    case deadline: True
    then show ?thesis using True reclaim_deadline [OF assms] by simp
  next
    case False
    with True obtain l where "pj_currentLease (ps_job s) = Some l" "tkey (pl_expiresAt l) \<le> tkey now" by blast
    from reclaim_lease [OF assms this _ _ False] True show ?thesis by (metis internalFailure_simps(1))
  qed
qed

lemma recover_total:
  assumes "PolicyEvaluationJobSnapshotSchema s" and "PolicyEvaluationTimeSchema now"
  shows "\<not> internalFailure (recoverPolicyEvaluationJob s now epoch)"
proof (cases "\<exists>e. epoch = JsInt e \<and> recoverable s now e")
  case False
  then show ?thesis
    using assms by (cases epoch) (auto simp: recoverPolicyEvaluationJob_def recoverable_def Let_def not_le not_less)
next
  case True
  then obtain e where e: "epoch = JsInt e" "recoverable s now e" by blast
  show ?thesis
    by (rule recover_valid [OF e(2)]) (simp add: e(1) recover_eq [OF e(2)] parseSnapshot_def)
qed

lemma cancel_total:
  assumes "PolicyEvaluationJobSnapshotSchema s" and "PolicyEvaluationCancellationSchema intent"
  shows "\<not> internalFailure (cancelPolicyEvaluationJob s intent)"
proof -
  have "pj_terminal (ps_job s) = None" if "pj_status (ps_job s) \<in> {PQueued, PAcquiring, PSealed, PRunning, PRetryReady}"
    using that live_status [OF assms(1)] by (auto simp: terminalStatuses_def)
  then show ?thesis
    using assms cancel_valid [OF assms(1) _ assms(2)]
    by (auto simp: cancelPolicyEvaluationJob_def Let_def chargeUncertain_eq parseSnapshot_def not_le not_less
        split: option.split)
qed

lemma cancel_outcome:
  assumes "PolicyEvaluationJobSnapshotSchema s" and "pj_terminal (ps_job s) = None" and "ps_cancellation s = None"
    and "PolicyEvaluationCancellationSchema intent" and "pcn_jobId intent = pj_jobId (ps_job s)"
    and "pcn_scope intent = pj_scope (ps_job s)"
    and "tkey (pj_updatedAt (ps_job s)) \<le> tkey (pcn_requestedAt intent)"
    and "pj_stateVersion (ps_job s) < MAX_SAFE_INTEGER"
  shows "cancelPolicyEvaluationJob s intent = Inr
    ((closeOpenAttempt (ClosureStopped ClosedCancelled CancellationCommitted (pcn_requestedAt intent)) (chargedGraph s))
     \<lparr>ps_cancellation := Some intent, ps_job := (terminate PCancelled CancellationCommittedCode (latestAttemptId s)
        (pcn_requestedAt intent) (ps_job s))\<lparr>pj_result := None\<rparr>\<rparr>)" (is "_ = Inr ?t")
proof -
  have valid: "PolicyEvaluationJobSnapshotSchema ?t" by (rule cancel_valid [OF assms(1,2,4-8)])
  have "pj_status (ps_job s) \<notin> terminalStatuses" using live_status [OF assms(1)] assms(2) by simp
  then have "pj_status (ps_job s) \<in> {PQueued, PAcquiring, PSealed, PRunning, PRetryReady}"
    by (cases "pj_status (ps_job s)") (simp_all add: terminalStatuses_def)
  then show ?thesis
    using assms valid by (simp add: cancelPolicyEvaluationJob_def Let_def chargeUncertain_eq parseSnapshot_def)
qed

lemma exhaust_total:
  assumes "PolicyEvaluationJobSnapshotSchema s" and "PolicyEvaluationTimeSchema now"
  shows "\<not> internalFailure (exhaustPolicyEvaluationJobHistory s now)"
  using assms close_expired(3) [OF assms(1) _ assms(2)]
  by (auto simp: exhaustPolicyEvaluationJobHistory_def Let_def chargeUncertain_eq parseSnapshot_def not_less
      MAX_POLICY_EVALUATION_JOB_HISTORY_ENTRIES_def MAX_SAFE_INTEGER_def)


subsection \<open>Sealing\<close>

lemma seal_outcome:
  assumes h: "holdsLease s now epoch fence l" and version: "pj_stateVersion (ps_job s) < MAX_SAFE_INTEGER"
    and ref: "PolicyEvaluationSnapshotReferenceSchema r"
    and state: "pj_status (ps_job s) = PAcquiring" "pj_snapshot (ps_job s) = None"
  shows "sealPolicyEvaluationJob s now epoch fence r =
    (if ps_acquisitionAllowance s = None
     then Inr (s\<lparr>ps_attempts := updateLatest
       (\<lambda>a. a\<lparr>pa_phase := PhaseComputing, pa_snapshot := Some r\<rparr>) (ps_attempts s),
       ps_job := (advanceJob now (ps_job s))\<lparr>pj_snapshot := Some r, pj_status := PSealed\<rparr>\<rparr>)
     else Inl SchedulerZodError)"
proof -
  let ?t = "s\<lparr>ps_attempts := updateLatest
       (\<lambda>a. a\<lparr>pa_phase := PhaseComputing, pa_snapshot := Some r\<rparr>) (ps_attempts s),
       ps_job := (advanceJob now (ps_job s))\<lparr>pj_snapshot := Some r, pj_status := PSealed\<rparr>\<rparr>"
  note f = holdsLease_facts [OF h]
  obtain xs a where a: "ps_attempts s = xs @ [a]" "pa_closure a = None" "pa_snapshot a = None"
    "pa_phase a \<noteq> PhaseComputing"
    using lease_attempt [OF f(1,3)] state(2) by metis
  have phase: "pa_phase a = PhaseAcquiring" using a(4) by (cases "pa_phase a") auto
  have live: "requirePolicyEvaluationLiveFence s now epoch fence = Inr l" using h by (simp add: result_simps)
  have "PolicyEvaluationJobSnapshotSchema ?t \<longleftrightarrow> ps_acquisitionAllowance s = None"
    using seal_valid [OF h version ref state] no_allowance(1) [of ?t] by auto
  then show ?thesis
    using live ref state a phase version
    by (simp add: sealPolicyEvaluationJob_def parseSnapshot_def)
qed

subsection \<open>Where a transition raises\<close>

text \<open>
  A valid graph may carry a cancellation while its job is still open, although cancelling itself closes the
  job in the same transition. On such a graph an acquisition is reserved and then fails the parse, which
  allows no allowance beside a cancellation.
\<close>

definition reservesBesideCancellation ::
    "PolicyEvaluationJobSnapshot \<Rightarrow> policy_time \<Rightarrow> js_number \<Rightarrow> PolicyEvaluationWorkerMutationFence \<Rightarrow> bool" where
  "reservesBesideCancellation s now epoch fence \<longleftrightarrow>
     (\<exists>lease. requirePolicyEvaluationLiveFence s now epoch fence = Inr lease) \<and>
     pj_status (ps_job s) = PAcquiring \<and> pj_snapshot (ps_job s) = None \<and>
     pj_stateVersion (ps_job s) < MAX_SAFE_INTEGER \<and> ps_acquisitionAllowance s = None \<and>
     (let limits = remainingAcquisition s in
      1 \<le> aql_reads limits \<and> 1 \<le> aql_records limits \<and> 1 \<le> aql_recordAndReferenceBytes limits) \<and>
     ps_cancellation s \<noteq> None"

lemma reserveAcquisition_failure:
  assumes "PolicyEvaluationJobSnapshotSchema s" and "PolicyEvaluationTimeSchema now"
    and "PolicyEvaluationWorkerMutationFenceSchema fence" and "OpaqueIdSchema aid"
  shows "internalFailure (reservePolicyEvaluationAcquisition s now epoch fence aid) \<longleftrightarrow> reservesBesideCancellation s now epoch fence"
proof (cases "ps_cancellation s = None")
  case True
  then show ?thesis using reserveAcquisition_total [OF assms True] by (simp add: reservesBesideCancellation_def)
next
  case False
  show ?thesis
  proof (cases rule: live_cases [OF assms(1-3), of epoch])
    case (1 e)
    then show ?thesis by (simp add: reservePolicyEvaluationAcquisition_def reservesBesideCancellation_def)
  next
    case (2 l)
    have "\<not> PolicyEvaluationJobSnapshotSchema (s\<lparr>ps_acquisitionAllowance := Some x, ps_job := k\<rparr>)" for x k
      using no_allowance(1) [of "s\<lparr>ps_acquisitionAllowance := Some x, ps_job := k\<rparr>"] False by auto
    then show ?thesis
      using 2(1) assms(4) False
      by (auto simp: reservePolicyEvaluationAcquisition_def reservesBesideCancellation_def Let_def parseSnapshot_def not_le not_less)
  qed
qed

text \<open>Sealing by the lease holder while an allowance is outstanding fails the parse too.\<close>

definition sealsOutstandingAllowance ::
    "PolicyEvaluationJobSnapshot \<Rightarrow> policy_time \<Rightarrow> js_number \<Rightarrow> PolicyEvaluationWorkerMutationFence \<Rightarrow> bool" where
  "sealsOutstandingAllowance s now epoch fence \<longleftrightarrow>
     (\<exists>lease. requirePolicyEvaluationLiveFence s now epoch fence = Inr lease) \<and>
     pj_status (ps_job s) = PAcquiring \<and> pj_snapshot (ps_job s) = None \<and>
     pj_stateVersion (ps_job s) < MAX_SAFE_INTEGER \<and> ps_acquisitionAllowance s \<noteq> None"

lemma seal_failure:
  assumes "PolicyEvaluationJobSnapshotSchema s" and "PolicyEvaluationTimeSchema now"
    and "PolicyEvaluationWorkerMutationFenceSchema fence" and ref: "PolicyEvaluationSnapshotReferenceSchema r"
  shows "internalFailure (sealPolicyEvaluationJob s now epoch fence r) \<longleftrightarrow> sealsOutstandingAllowance s now epoch fence"
proof (cases rule: live_cases [OF assms(1-3), of epoch])
  case (1 e)
  then show ?thesis by (simp add: sealPolicyEvaluationJob_def sealsOutstandingAllowance_def)
next
  case (2 l)
  show ?thesis
  proof (cases "pj_status (ps_job s) = PAcquiring \<and> pj_snapshot (ps_job s) = None \<and> pj_stateVersion (ps_job s) < MAX_SAFE_INTEGER")
    case True
    then show ?thesis
      using seal_outcome [OF 2(2) _ ref] 2(1) by (simp add: sealsOutstandingAllowance_def)
  next
    case False
    then show ?thesis
      using 2(1) ref
      by (auto simp: sealPolicyEvaluationJob_def sealsOutstandingAllowance_def not_less split: option.splits)
  qed
qed

end
