(* ===== verification/Policy_Safety.thy ===== *)
theory Policy_Safety
  imports Policy_Totality
begin

text \<open>
  The properties of the policy-evaluation scheduler: fencing, totality, monotone runs, claims,
  recovery, interruption, reclaim, cancellation, completion and sealing.
\<close>

section \<open>Runs\<close>

lemma run_advances:
  assumes "policyStep\<^sup>*\<^sup>* s t" and "PolicyEvaluationJobSnapshotSchema s"
  shows "PolicyEvaluationJobSnapshotSchema t" "ps_request t = ps_request s" "ps_usage s \<le> ps_usage t"
    "keepsHistory (ps_attempts s) (ps_attempts t)"
    "pj_snapshot (ps_job s) \<noteq> None \<Longrightarrow> pj_snapshot (ps_job t) = pj_snapshot (ps_job s)"
    "sameJob (ps_job s) (ps_job t)"
proof -
  have "PolicyEvaluationJobSnapshotSchema t \<and> ps_request t = ps_request s \<and> ps_usage s \<le> ps_usage t \<and>
    keepsHistory (ps_attempts s) (ps_attempts t) \<and>
    (pj_snapshot (ps_job s) \<noteq> None \<longrightarrow> pj_snapshot (ps_job t) = pj_snapshot (ps_job s)) \<and>
    sameJob (ps_job s) (ps_job t)"
    using assms
  proof (induction rule: rtranclp_induct)
    case base
    then show ?case by (simp add: sameJob_def)
  next
    case (step u v)
    from policyStep_advances [OF step.hyps(2)] step.IH [OF step.prems] show ?case
      by (auto simp: advances_def sameJob_def intro: order_trans keepsHistory_trans)
  qed
  then show "PolicyEvaluationJobSnapshotSchema t" "ps_request t = ps_request s" "ps_usage s \<le> ps_usage t"
    "keepsHistory (ps_attempts s) (ps_attempts t)"
    "pj_snapshot (ps_job s) \<noteq> None \<Longrightarrow> pj_snapshot (ps_job t) = pj_snapshot (ps_job s)"
    "sameJob (ps_job s) (ps_job t)"
    by blast+
qed

lemma sample_running_lease:
  "holdsLease runningGraph (wholeSecond 1003) (JsInt 0) sampleFence sampleLease"
  "holdsLease acquiringGraph (wholeSecond 1003) (JsInt 0) sampleFence sampleLease"
  by (simp_all add: holdsLease_def)
    (simp_all add: runningGraph_def acquiringGraph_def leasedGraph_def queuedJob_def sampleLease_def)

lemma sample_recoverable: "recoverable runningGraph (wholeSecond 1003) 1"
  by (simp add: recoverable_def)
    (simp add: runningGraph_def leasedGraph_def queuedJob_def MAX_SAFE_INTEGER_def
      MAX_POLICY_EVALUATION_JOB_HISTORY_ENTRIES_def)

lemma sample_recovery:
  obtains t where "recoverPolicyEvaluationJob runningGraph (wholeSecond 1003) (JsInt 1) = Inr t"
    "policyStep runningGraph t" "pj_recoveryEpoch (ps_job t) = 1" "pj_stateVersion (ps_job t) = 3"
proof -
  obtain k where k: "recoveredJob runningGraph (wholeSecond 1003) 1 = Inr k"
    "PolicyEvaluationJobSnapshotSchema
      ((closeOpenAttempt (recoveryClosure runningGraph (wholeSecond 1003)) (chargedGraph runningGraph))\<lparr>ps_job := k\<rparr>)"
    by (rule recover_valid [OF sample_recoverable])
  define t where "t = (closeOpenAttempt (recoveryClosure runningGraph (wholeSecond 1003)) (chargedGraph runningGraph))\<lparr>ps_job := k\<rparr>"
  have t: "recoverPolicyEvaluationJob runningGraph (wholeSecond 1003) (JsInt 1) = Inr t"
    using recover_eq [OF sample_recoverable] k by (simp add: parseSnapshot_def t_def)
  note r = recovered_fields [OF k(1) sample_recoverable]
  have fields: "pj_recoveryEpoch (ps_job t) = 1" "pj_stateVersion (ps_job t) = 3"
    "pj_stateVersion (ps_job runningGraph) = 2"
    using r(2,5) by (simp_all add: t_def runningGraph_def leasedGraph_def)
  then have "policyStep runningGraph t" by (intro step_recover [OF t]) auto
  with t show ?thesis using fields(1,2) by (rule that)
qed

section \<open>Properties\<close>

text \<open>
  C9. A worker that lost its lease is locked out. Once a fence has been accepted, and later the job is
  claimed again, or recovered into a new epoch, or closed, the live-fence check rejects that fence in
  every graph the scheduler can reach from there, whatever receipt and epoch are presented with it.
\<close>

theorem policy_superseded_worker_locked_out:
  assumes "requirePolicyEvaluationLiveFence s now epoch fence = Inr lease"
    and "policyStep\<^sup>*\<^sup>* s t" and "policyStep\<^sup>*\<^sup>* t u"
    and "pj_lastFencingToken (ps_job t) \<noteq> pj_lastFencingToken (ps_job s) \<or>
      pj_recoveryEpoch (ps_job t) \<noteq> pj_recoveryEpoch (ps_job s) \<or> pj_terminal (ps_job t) \<noteq> None"
  shows "requirePolicyEvaluationLiveFence u now' epoch' fence \<noteq> Inr lease'"
proof -
  have "PolicyEvaluationJobSnapshotSchema s" "policyAdmits s fence"
    using assms(1) by (auto simp: policyAdmits_def result_simps holdsLease_def)
  from policy.locked_out [OF this assms(2,3)] assms(4) have "\<not> policyAdmits u fence"
    by (auto simp: policyTerminal_def)
  then show ?thesis by (auto simp: policyAdmits_def)
qed

theorem policy_superseded_worker_locked_out_witness:
  "\<exists>t lease. requirePolicyEvaluationLiveFence runningGraph (wholeSecond 1003) (JsInt 0) sampleFence = Inr lease \<and>
     recoverPolicyEvaluationJob runningGraph (wholeSecond 1003) (JsInt 1) = Inr t \<and>
     pj_recoveryEpoch (ps_job t) = 1 \<and>
     requirePolicyEvaluationLiveFence t (wholeSecond 1003) (JsInt 1) sampleFence \<noteq> Inr lease"
proof -
  have live: "requirePolicyEvaluationLiveFence runningGraph (wholeSecond 1003) (JsInt 0) sampleFence = Inr sampleLease"
    using sample_running_lease(1) by (simp add: result_simps)
  obtain t where t: "recoverPolicyEvaluationJob runningGraph (wholeSecond 1003) (JsInt 1) = Inr t"
    "policyStep runningGraph t" "pj_recoveryEpoch (ps_job t) = 1" by (rule sample_recovery)
  have "pj_recoveryEpoch (ps_job runningGraph) = 0" by (simp add: runningGraph_def leasedGraph_def queuedJob_def)
  then have "requirePolicyEvaluationLiveFence t (wholeSecond 1003) (JsInt 1) sampleFence \<noteq> Inr sampleLease"
    using policy_superseded_worker_locked_out [OF live r_into_rtranclp rtranclp.rtrancl_refl] t by simp
  with live t(1,3) show ?thesis by blast
qed



text \<open>
  C10. Where a transition fails its own validation. On a valid graph, with well-formed arguments, eleven of
  the thirteen scheduler transitions either return a graph or one of their declared refusals: the parse of
  the edited graph and the receipt arithmetic never raise. The other two raise on exactly one kind of input
  each. Sealing does when the lease holder of an acquiring job without a snapshot, below the version limit,
  seals while an acquisition allowance is outstanding. Reserving an acquisition does when the lease holder
  of such a job, with budget left and no allowance outstanding, reserves on a graph that already carries a
  cancellation.
\<close>

theorem policy_transition_failures_exact:
  assumes "PolicyEvaluationJobSnapshotSchema s" and "PolicyEvaluationTimeSchema now"
    and "PolicyEvaluationWorkerMutationFenceSchema fence"
    and "OpaqueIdSchema aid" and "OpaqueIdSchema lid" and "OpaqueIdSchema wid"
    and "PolicyEvaluationUsageSchema delta" and "optional PolicyEvaluationAcquisitionUsageSchema observed"
    and "PolicyEvaluationResultReferenceSchema reference" and "PolicyEvaluationCancellationSchema intent"
    and "PolicyEvaluationSnapshotReferenceSchema sealed"
  shows "\<not> internalFailure (claimPolicyEvaluationJob s now epoch aid lid wid) \<and>
    \<not> internalFailure (heartbeatPolicyEvaluationJob s now epoch fence) \<and>
    \<not> internalFailure (reservePolicyEvaluationUsage s now epoch fence delta) \<and>
    (internalFailure (reservePolicyEvaluationAcquisition s now epoch fence aid) \<longleftrightarrow> reservesBesideCancellation s now epoch fence) \<and>
    \<not> internalFailure (settlePolicyEvaluationAcquisition s now epoch fence aid observed) \<and>
    \<not> internalFailure (startPolicyEvaluationComputation s now epoch fence) \<and>
    \<not> internalFailure (completePolicyEvaluationJob s now epoch fence reference ruleCount) \<and>
    \<not> internalFailure (interruptPolicyEvaluationJob s now epoch fence reason) \<and>
    \<not> internalFailure (reclaimPolicyEvaluationJob s now epoch) \<and>
    \<not> internalFailure (recoverPolicyEvaluationJob s now epoch) \<and>
    \<not> internalFailure (cancelPolicyEvaluationJob s intent) \<and>
    \<not> internalFailure (exhaustPolicyEvaluationJobHistory s now) \<and>
    (internalFailure (sealPolicyEvaluationJob s now epoch fence sealed) \<longleftrightarrow> sealsOutstandingAllowance s now epoch fence)"
  using assms
  by (intro conjI claim_total heartbeat_total reserveUsage_total reserveAcquisition_failure settle_total
      start_total complete_total interrupt_total reclaim_total recover_total cancel_total exhaust_total seal_failure)

definition sampleResult :: PolicyEvaluationResultReference where
  "sampleResult = \<lparr>resref_evaluationId = ''result01'', resref_definitionSha256 = sampleSha\<rparr>"

definition sampleIntent :: PolicyEvaluationCancellation where
  "sampleIntent = \<lparr>pcn_jobId = ''job00001'', pcn_cancellationId = ''cancel01'', pcn_scope = sampleScope,
     pcn_requestedAt = wholeSecond 1004, pcn_requestedByPrincipalId = ''principal1'',
     pcn_reason = OperatorRequested\<rparr>"

lemma sample_inputs [simp]:
  "PolicyEvaluationResultReferenceSchema sampleResult" "PolicyEvaluationCancellationSchema sampleIntent"
  "PolicyEvaluationWorkerMutationFenceSchema sampleFence" "PolicyEvaluationUsageSchema sampleUsage"
  "PolicyEvaluationSnapshotReferenceSchema sampleReference"
  by (simp_all add: PolicyEvaluationResultReferenceSchema_def sampleResult_def sampleReference_def
      PolicyEvaluationCancellationSchema_def sampleIntent_def PolicyEvaluationSnapshotReferenceSchema_def
      PolicyEvaluationWorkerMutationFenceSchema_def sampleFence_def
      SafePositiveInteger_def SafeNonnegativeInteger_def)
    (simp add: PolicyEvaluationUsageSchema_def USAGE_KEYS_def sampleUsage_def policy_limits)

theorem policy_transition_failures_exact_witness:
  "\<not> internalFailure (completePolicyEvaluationJob runningGraph (wholeSecond 1003) (JsInt 0) sampleFence
      sampleResult (JsInt 3)) \<and>
   \<not> internalFailure (interruptPolicyEvaluationJob runningGraph (wholeSecond 1003) (JsInt 0) sampleFence
      WorkerInterrupted)"
  using policy_transition_failures_exact [of runningGraph "wholeSecond 1003" sampleFence "''attempt2''"
      "''lease002''" "''worker02''" sampleUsage None sampleResult sampleIntent sampleReference "JsInt 0" "JsInt 3" WorkerInterrupted]
  by simp

text \<open>
  C11. Runs only move forward. Along any run from a valid graph every graph satisfies the whole contract;
  the request stays, the metered usage never decreases and stays within the limits frozen in the
  request, closed attempts are never rewritten, a sealed snapshot is never replaced, the state version
  counts the transitions, and a closed job never changes again.
\<close>

theorem policy_runs_move_forward:
  assumes "(policyStep ^^ n) s t" and "PolicyEvaluationJobSnapshotSchema s"
  shows "PolicyEvaluationJobSnapshotSchema t \<and> ps_request t = ps_request s \<and>
    ps_usage s \<le> ps_usage t \<and> usageWithinLimits (prq_limits (ps_request s)) (ps_usage t) \<and>
    length (ps_attempts s) \<le> length (ps_attempts t) \<and>
    (\<forall>i < length (ps_attempts s). pa_closure (ps_attempts s ! i) \<noteq> None \<longrightarrow>
       ps_attempts t ! i = ps_attempts s ! i) \<and>
    (pj_snapshot (ps_job s) \<noteq> None \<longrightarrow> pj_snapshot (ps_job t) = pj_snapshot (ps_job s)) \<and>
    pj_stateVersion (ps_job t) = pj_stateVersion (ps_job s) + int n \<and>
    (pj_terminal (ps_job s) \<noteq> None \<longrightarrow> t = s)"
proof -
  have run: "policyStep\<^sup>*\<^sup>* s t" using assms(1) by (rule relpowp_imp_rtranclp)
  note r = run_advances [OF run assms(2)]
  have "usageWithinLimits (prq_limits (ps_request s)) (ps_usage t)" using metadata_within(3) [OF r(1)] r(2) by simp
  moreover have "pj_terminal (ps_job s) \<noteq> None \<longrightarrow> t = s"
    using policy.terminal_final [of s t] run by (simp add: policyTerminal_def)
  ultimately show ?thesis
    using r policy.relpow_version [OF assms(1)] by (simp add: keepsHistory_def)
qed

theorem policy_runs_move_forward_witness:
  "\<exists>t. (policyStep ^^ 1) runningGraph t \<and> ps_usage t URuleEvaluations \<ge> 3 \<and>
     pj_snapshot (ps_job t) = Some sampleReference \<and> pj_stateVersion (ps_job t) = 3"
proof -
  obtain t where t: "policyStep runningGraph t" "pj_stateVersion (ps_job t) = 3" by (rule sample_recovery)
  have sample: "pj_stateVersion (ps_job runningGraph) = 2" "ps_usage runningGraph URuleEvaluations = 3"
    "pj_snapshot (ps_job runningGraph) = Some sampleReference"
    by (simp_all add: runningGraph_def leasedGraph_def sampleUsage_def)
  have step: "(policyStep ^^ 1) runningGraph t" using t(1) by auto
  from policy_runs_move_forward [OF step running_valid] sample have
    "3 \<le> ps_usage t URuleEvaluations" "pj_snapshot (ps_job t) = Some sampleReference" "pj_stateVersion (ps_job t) = 3"
    by (auto simp: le_fun_def dest: spec [of _ URuleEvaluations])
  with step show ?thesis by blast
qed


text \<open>
  C12. Claims are granted exactly when they should be, and give exactly what they should. A claim
  succeeds if and only if the job is queued or due for retry, before its deadline, with an attempt and
  the counters to spare, in the presented epoch, under identifiers not used before. The claimed job
  carries the next fencing token, a lease on a new open attempt under that token, an attempt deadline
  at the frozen timeout or the job deadline, whichever is earlier, and a lease expiry at the frozen
  lease duration or that attempt deadline.
\<close>

theorem policy_claim_granted_exactly:
  "((\<exists>t. claimPolicyEvaluationJob s now epoch aid lid wid = Inr t) \<longleftrightarrow>
      claimable s now \<and> epoch = JsInt (pj_recoveryEpoch (ps_job s)) \<and> freshIds s aid lid wid) \<and>
   (\<forall>t. claimPolicyEvaluationJob s now epoch aid lid wid = Inr t \<longrightarrow>
      PolicyEvaluationJobSnapshotSchema t \<and>
      pj_lastFencingToken (ps_job t) = pj_lastFencingToken (ps_job s) + 1 \<and>
      ps_usage t = ps_usage s \<and> length (ps_attempts t) = length (ps_attempts s) + 1 \<and>
      (\<exists>lease. pj_currentLease (ps_job t) = Some lease \<and>
         pl_mutationFence lease = claimFence (ps_job s) (pj_lastFencingToken (ps_job s) + 1) aid lid wid \<and>
         tkey (pl_attemptDeadlineAt lease) =
           min (tkey now + lim_perAttemptTimeoutMilliseconds (prq_limits (ps_request s)) *
             POLICY_EVALUATION_TIME_UNITS_PER_MILLISECOND) (tkey (pj_deadlineAt (ps_job s))) \<and>
         tkey (pl_expiresAt lease) =
           min (tkey now + lim_leaseDurationMilliseconds (prq_limits (ps_request s)) *
             POLICY_EVALUATION_TIME_UNITS_PER_MILLISECOND) (tkey (pl_attemptDeadlineAt lease))))"
proof (rule conjI [OF claim_Inr_iff], intro allI impI)
  fix t
  assume t: "claimPolicyEvaluationJob s now epoch aid lid wid = Inr t"
  then have c: "claimable s now" using claim_Inr_iff by blast
  from claim_instants [OF c] obtain d e where
    "addPolicyEvaluationMillisecondsUpTo now (lim_perAttemptTimeoutMilliseconds (prq_limits (ps_request s)))
       (pj_deadlineAt (ps_job s)) = Inr d"
    "addPolicyEvaluationMillisecondsUpTo now (lim_leaseDurationMilliseconds (prq_limits (ps_request s))) d = Inr e"
    and times: "tkey d = min (tkey now + lim_perAttemptTimeoutMilliseconds (prq_limits (ps_request s)) *
       POLICY_EVALUATION_TIME_UNITS_PER_MILLISECOND) (tkey (pj_deadlineAt (ps_job s)))"
      "tkey e = min (tkey now + lim_leaseDurationMilliseconds (prq_limits (ps_request s)) *
       POLICY_EVALUATION_TIME_UNITS_PER_MILLISECOND) (tkey d)"
    by metis
  then have eq: "t = claimedSnapshot s now
      (claimFence (ps_job s) (pj_lastFencingToken (ps_job s) + 1) aid lid wid) d e (pj_stateVersion (ps_job s) + 1)"
    and schema: "PolicyEvaluationJobSnapshotSchema t"
    using t by (auto simp: claimPolicyEvaluationJob_def Let_def result_simps)
  show "PolicyEvaluationJobSnapshotSchema t \<and>
      pj_lastFencingToken (ps_job t) = pj_lastFencingToken (ps_job s) + 1 \<and>
      ps_usage t = ps_usage s \<and> length (ps_attempts t) = length (ps_attempts s) + 1 \<and>
      (\<exists>lease. pj_currentLease (ps_job t) = Some lease \<and>
         pl_mutationFence lease = claimFence (ps_job s) (pj_lastFencingToken (ps_job s) + 1) aid lid wid \<and>
         tkey (pl_attemptDeadlineAt lease) =
           min (tkey now + lim_perAttemptTimeoutMilliseconds (prq_limits (ps_request s)) *
             POLICY_EVALUATION_TIME_UNITS_PER_MILLISECOND) (tkey (pj_deadlineAt (ps_job s))) \<and>
         tkey (pl_expiresAt lease) =
           min (tkey now + lim_leaseDurationMilliseconds (prq_limits (ps_request s)) *
             POLICY_EVALUATION_TIME_UNITS_PER_MILLISECOND) (tkey (pl_attemptDeadlineAt lease)))"
    using schema times by (simp add: eq claimedSnapshot_def claimedLease_def) (simp add: claimFence_def)
qed

theorem policy_claim_granted_exactly_witness:
  "\<exists>t. claimPolicyEvaluationJob queuedGraph (wholeSecond 1001) (JsInt 0) ''attempt1'' ''lease001'' ''worker01'' = Inr t \<and>
     pj_lastFencingToken (ps_job t) = 1"
proof -
  have "claimable queuedGraph (wholeSecond 1001)" "pj_recoveryEpoch (ps_job queuedGraph) = 0"
    "pj_lastFencingToken (ps_job queuedGraph) = 0"
    "freshIds queuedGraph ''attempt1'' ''lease001'' ''worker01''"
    by (simp_all add: claimable_def freshIds_def)
      (simp_all add: queuedGraph_def queuedJob_def sampleLimits_def MAX_SAFE_INTEGER_def)
  with policy_claim_granted_exactly [of queuedGraph "wholeSecond 1001" "JsInt 0" "''attempt1''" "''lease001''" "''worker01''"]
  show ?thesis by auto
qed

text \<open>
  C13. Trusted recovery always gets the job back from its workers. For every open job with history to
  spare, a restore into a later epoch succeeds: no lease remains, the job carries the new epoch, every
  attempt is closed, and the worker that held the lease is refused from then on.
\<close>

lemma idle_attempts_closed:
  assumes "PolicyEvaluationJobSnapshotSchema t" and "pj_currentLease (ps_job t) = None" and "a \<in> set (ps_attempts t)"
  shows "pa_closure a \<noteq> None"
proof -
  have "\<forall>a \<in> set xs. pa_closure a \<noteq> None" if "historyLoop hc h (xs @ [b]) = Some r" for hc h xs b r
    using that
  proof (induction xs arbitrary: h)
    case (Cons x xs)
    then have loop: "historyLoop hc (attemptAdvance h x) (xs @ [b]) = Some r" by (simp split: if_splits)
    then obtain y where "attemptAccepted hc (attemptAdvance h x) y"
      by (cases xs) (auto split: if_splits)
    then have "pa_closure x \<noteq> None" by (auto simp: attemptAccepted_def attemptAdvance_def split: option.splits)
    then show ?case using Cons.IH [OF loop] by simp
  qed simp
  moreover obtain xs b where b: "ps_attempts t = xs @ [b]" using assms(3) by (cases "ps_attempts t" rule: rev_cases) auto
  moreover have "\<exists>r. historyLoop (historyContext t) initialHistory (ps_attempts t) = Some r"
    using assms(1) by (auto simp: PolicyEvaluationJobSnapshotSchema_def snapshotHistoryOk_def split: option.splits)
  moreover have "pa_closure b \<noteq> None"
    using assms(1,2) b by (simp add: PolicyEvaluationJobSnapshotSchema_def snapshotLeaseOk_def)
  ultimately show ?thesis using assms(3) by auto
qed

theorem policy_recovery_revokes_leases:
  assumes "recoverable s now e"
  shows "\<exists>t. recoverPolicyEvaluationJob s now (JsInt e) = Inr t \<and> PolicyEvaluationJobSnapshotSchema t \<and>
    pj_currentLease (ps_job t) = None \<and> pj_recoveryEpoch (ps_job t) = e \<and>
    (\<forall>a \<in> set (ps_attempts t). pa_closure a \<noteq> None) \<and>
    (\<forall>u lease now' epoch' lease'. pj_currentLease (ps_job s) = Some lease \<longrightarrow> policyStep\<^sup>*\<^sup>* t u \<longrightarrow>
       requirePolicyEvaluationLiveFence u now' epoch' (pl_mutationFence lease) \<noteq> Inr lease')"
proof -
  obtain k where k: "recoveredJob s now e = Inr k"
    "PolicyEvaluationJobSnapshotSchema ((closeOpenAttempt (recoveryClosure s now) (chargedGraph s))\<lparr>ps_job := k\<rparr>)"
    by (rule recover_valid [OF assms])
  define t where "t = (closeOpenAttempt (recoveryClosure s now) (chargedGraph s))\<lparr>ps_job := k\<rparr>"
  have t: "recoverPolicyEvaluationJob s now (JsInt e) = Inr t" "PolicyEvaluationJobSnapshotSchema t" "ps_job t = k"
    using recover_eq [OF assms] k by (simp_all add: parseSnapshot_def t_def)
  note r = recovered_fields [OF k(1) assms]
  have "requirePolicyEvaluationLiveFence u now' epoch' (pl_mutationFence lease) \<noteq> Inr lease'"
    if l: "pj_currentLease (ps_job s) = Some lease" and run: "policyStep\<^sup>*\<^sup>* t u" for u lease now' epoch' lease'
  proof
    assume "requirePolicyEvaluationLiveFence u now' epoch' (pl_mutationFence lease) = Inr lease'"
    then have h: "holdsLease u now' epoch' (pl_mutationFence lease) lease'" by (simp add: result_simps)
    have "pf_recoveryEpoch (pl_mutationFence lease) = pj_recoveryEpoch (ps_job u)"
      using lease_shape(3) [OF holdsLease_facts(1,3) [OF h]] h by (simp add: leaseBindsJob_def holdsLease_def)
    moreover have "pf_recoveryEpoch (pl_mutationFence lease) = pj_recoveryEpoch (ps_job s)"
      using lease_shape(3) [OF _ l] assms by (simp add: leaseBindsJob_def recoverable_def)
    moreover have "e \<le> pj_recoveryEpoch (ps_job u)"
      using run_advances(6) [OF run t(2)] t(3) r(5) by (simp add: sameJob_def)
    ultimately show False using assms by (simp add: recoverable_def)
  qed
  then show ?thesis using t r idle_attempts_closed [OF t(2)] by blast
qed

theorem policy_recovery_revokes_leases_witness:
  "\<exists>t. recoverPolicyEvaluationJob runningGraph (wholeSecond 1003) (JsInt 1) = Inr t \<and>
     pj_currentLease (ps_job t) = None \<and> pj_recoveryEpoch (ps_job t) = 1"
  using policy_recovery_revokes_leases [OF sample_recoverable] by blast


text \<open>
  What an interrupted attempt costs. A worker that holds its lease may always give up its attempt.
  With an acquisition still uncertain, the whole remaining metadata budget is charged and the job ends
  as budget exhausted. Otherwise the job becomes ready for retry at exactly the backoff after the
  receipt if that is before the deadline, attempts remain and the reason is declared retryable, and
  ends as failed if not.
\<close>

lemma charged_in_full:
  assumes "PolicyEvaluationJobSnapshotSchema s" and "ps_acquisitionAllowance s \<noteq> None"
  shows "remainingAcquisition (chargedGraph s) =
    \<lparr>aql_reads = 0, aql_records = 0, aql_references = 0, aql_recordAndReferenceBytes = 0\<rparr>"
proof -
  obtain a where a: "ps_acquisitionAllowance s = Some a" using assms(2) by blast
  then have "ps_usage (chargedGraph s) = chargedUsage (ps_usage s) (fullAllowanceUsage a)"
    by (simp add: chargedGraph_def chargeUncertainPolicyEvaluationAcquisition_def chargeAllowance_def)
  then show ?thesis
    using allowance_is_remaining(1) [OF assms(1) a]
    by (simp add: remainingAcquisition_def policyEvaluationMetadataUsage_def Let_def fullAllowanceUsage_def)
qed

theorem policy_interruption_outcome:
  assumes "holdsLease s now epoch fence lease" and "pj_stateVersion (ps_job s) < MAX_SAFE_INTEGER"
    and "reason \<noteq> LeaseExpiredError" and "reason = SourceRevisionChanged \<Longrightarrow> pj_snapshot (ps_job s) = None"
  defines "due \<equiv> tkey now + lim_retryBackoffMilliseconds (prq_limits (ps_request s)) *
    POLICY_EVALUATION_TIME_UNITS_PER_MILLISECOND"
  shows "\<exists>t. interruptPolicyEvaluationJob s now epoch fence reason = Inr t \<and> pj_currentLease (ps_job t) = None \<and>
    (if ps_acquisitionAllowance s \<noteq> None then
       pj_status (ps_job t) = PBudgetExhausted \<and>
       remainingAcquisition t = \<lparr>aql_reads = 0, aql_records = 0, aql_references = 0, aql_recordAndReferenceBytes = 0\<rparr>
     else if due < tkey (pj_deadlineAt (ps_job s)) \<and>
       int (length (ps_attempts s)) < lim_maxAttempts (prq_limits (ps_request s)) \<and>
       reason \<in> set (lim_retryableErrors (prq_limits (ps_request s))) then
       pj_status (ps_job t) = PRetryReady \<and> ps_usage t = ps_usage s \<and>
       (\<exists>r. pj_retryAt (ps_job t) = Some r \<and> tkey r = due)
     else pj_status (ps_job t) = PFailed \<and> ps_usage t = ps_usage s)"
proof -
  note f = holdsLease_facts [OF assms(1)]
  have "pj_snapshot (ps_job s) \<noteq> None \<Longrightarrow> reason \<noteq> SourceRevisionChanged" using assms(4) by auto
  from interrupt_succeeds [OF assms(1-3) this]
  obtain k where t: "interruptPolicyEvaluationJob s now epoch fence reason =
      Inr ((closeOpenAttempt (ClosureInterrupted reason now) (chargedGraph s))\<lparr>ps_job := k\<rparr>)"
    and some: "ps_acquisitionAllowance s \<noteq> None \<Longrightarrow>
       k = terminate PBudgetExhausted BudgetLimitReachedCode (latestAttemptId s) now (ps_job s)"
    and none: "ps_acquisitionAllowance s = None \<Longrightarrow> retryOrFail s now reason (latestAttemptId s) (ps_job s) = Inr k"
    by metis
  let ?t = "(closeOpenAttempt (ClosureInterrupted reason now) (chargedGraph s))\<lparr>ps_job := k\<rparr>"
  show ?thesis
  proof (cases "ps_acquisitionAllowance s")
    case (Some x)
    then have "remainingAcquisition ?t = remainingAcquisition (chargedGraph s)"
      by (simp add: remainingAcquisition_def policyEvaluationMetadataUsage_def)
    then show ?thesis using Some t some charged_in_full [OF f(1)] by simp
  next
    case None
    then have same: "chargedGraph s = s" by (simp add: chargedGraph_def chargeUncertainPolicyEvaluationAcquisition_def)
    have "PolicyEvaluationTimeSchema (pj_deadlineAt (ps_job s))" using f(7) by (simp add: liveJob_def jobShape_def)
    then obtain r where r: "tkey r = min due (tkey (pj_deadlineAt (ps_job s)))"
      and eq: "retryOrFail s now reason (latestAttemptId s) (ps_job s) =
       (if tkey r \<ge> tkey (pj_deadlineAt (ps_job s)) \<or>
           int (length (ps_attempts s)) \<ge> lim_maxAttempts (prq_limits (ps_request s)) \<or>
           reason \<notin> set (lim_retryableErrors (prq_limits (ps_request s)))
        then Inr (terminate PFailed RetriesExhaustedCode (latestAttemptId s) now (ps_job s))
        else Inr ((advanceJob now (ps_job s))\<lparr>pj_currentLease := None, pj_status := PRetryReady, pj_retryAt := Some r\<rparr>))"
      unfolding due_def by (rule retryOrFail_cases [OF f(1,2)])
    have due: "tkey (pj_deadlineAt (ps_job s)) \<le> tkey r \<longleftrightarrow> \<not> due < tkey (pj_deadlineAt (ps_job s))"
      "due < tkey (pj_deadlineAt (ps_job s)) \<Longrightarrow> tkey r = due"
      using r by auto
    show ?thesis
    proof (cases "due < tkey (pj_deadlineAt (ps_job s)) \<and>
        int (length (ps_attempts s)) < lim_maxAttempts (prq_limits (ps_request s)) \<and>
        reason \<in> set (lim_retryableErrors (prq_limits (ps_request s)))")
      case True
      then have "k = (advanceJob now (ps_job s))\<lparr>pj_currentLease := None, pj_status := PRetryReady, pj_retryAt := Some r\<rparr>"
        using none [OF None] eq due(1) by simp
      then show ?thesis using None t same True due(2) by simp
    next
      case False
      then have "k = terminate PFailed RetriesExhaustedCode (latestAttemptId s) now (ps_job s)"
        using none [OF None] eq due(1) by (auto simp: not_less)
      then show ?thesis using None t same False by auto
    qed
  qed
qed

theorem policy_interruption_outcome_witness:
  "\<exists>t. interruptPolicyEvaluationJob runningGraph (wholeSecond 1003) (JsInt 0) sampleFence WorkerInterrupted = Inr t \<and>
     pj_status (ps_job t) = PRetryReady \<and> (\<exists>r. pj_retryAt (ps_job t) = Some r \<and> tkey r = 1004 * 10 ^ 30)"
proof -
  have graph: "pj_stateVersion (ps_job runningGraph) = 2" "ps_acquisitionAllowance runningGraph = None"
    "ps_request runningGraph = sampleRequest" "length (ps_attempts runningGraph) = 1"
    "pj_deadlineAt (ps_job runningGraph) = wholeSecond 1060"
    by (simp_all add: runningGraph_def leasedGraph_def queuedGraph_def queuedJob_def)
  have limits: "lim_retryBackoffMilliseconds sampleLimits = 1000" "lim_maxAttempts sampleLimits = 2"
    "WorkerInterrupted \<in> set (lim_retryableErrors sampleLimits)"
    by (simp_all add: sampleLimits_def)
  show ?thesis
    using policy_interruption_outcome [OF sample_running_lease(1), of WorkerInterrupted] graph limits
    by (auto simp: MAX_SAFE_INTEGER_def POLICY_EVALUATION_TIME_UNITS_PER_MILLISECOND_def)
qed

text \<open>
  No job outlives its deadline and no lost worker holds a job. Once the deadline has passed,
  reclaiming any open job ends it as timed out; once a lease has expired before the deadline,
  reclaiming frees the job, for a retry or to its end.
\<close>

theorem policy_reclaim_always_possible:
  assumes "PolicyEvaluationJobSnapshotSchema s" and "PolicyEvaluationTimeSchema now"
    and "pj_terminal (ps_job s) = None" and "tkey (pj_updatedAt (ps_job s)) \<le> tkey now"
    and "pj_stateVersion (ps_job s) < MAX_SAFE_INTEGER"
  shows "(tkey (pj_deadlineAt (ps_job s)) \<le> tkey now \<longrightarrow>
      (\<exists>t. reclaimPolicyEvaluationJob s now (JsInt (pj_recoveryEpoch (ps_job s))) = Inr t \<and>
         pj_status (ps_job t) = PTimedOut \<and> pj_terminal (ps_job t) \<noteq> None \<and> pj_currentLease (ps_job t) = None)) \<and>
    (\<forall>lease. pj_currentLease (ps_job s) = Some lease \<and> tkey (pl_expiresAt lease) \<le> tkey now \<and>
        tkey now < tkey (pj_deadlineAt (ps_job s)) \<longrightarrow>
      (\<exists>t. reclaimPolicyEvaluationJob s now (JsInt (pj_recoveryEpoch (ps_job s))) = Inr t \<and>
         pj_status (ps_job t) \<in> {PRetryReady, PFailed, PBudgetExhausted} \<and> pj_currentLease (ps_job t) = None \<and>
         (ps_acquisitionAllowance s \<noteq> None \<longrightarrow> pj_status (ps_job t) = PBudgetExhausted)))"
proof (intro conjI impI allI)
  assume "tkey (pj_deadlineAt (ps_job s)) \<le> tkey now"
  from reclaim_deadline [OF assms this] show "\<exists>t. reclaimPolicyEvaluationJob s now (JsInt (pj_recoveryEpoch (ps_job s))) = Inr t \<and>
         pj_status (ps_job t) = PTimedOut \<and> pj_terminal (ps_job t) \<noteq> None \<and> pj_currentLease (ps_job t) = None"
    by simp
next
  fix lease
  assume l: "pj_currentLease (ps_job s) = Some lease \<and> tkey (pl_expiresAt lease) \<le> tkey now \<and>
    tkey now < tkey (pj_deadlineAt (ps_job s))"
  then obtain k where t: "reclaimPolicyEvaluationJob s now (JsInt (pj_recoveryEpoch (ps_job s))) =
      Inr ((closeOpenAttempt (ClosureInterrupted LeaseExpiredError now) (chargedGraph s))\<lparr>ps_job := k\<rparr>)"
    and some: "ps_acquisitionAllowance s \<noteq> None \<Longrightarrow>
       k = terminate PBudgetExhausted BudgetLimitReachedCode (latestAttemptId s) now (ps_job s)"
    and none: "ps_acquisitionAllowance s = None \<Longrightarrow> retryOrFail s now LeaseExpiredError (latestAttemptId s) (ps_job s) = Inr k"
    using reclaim_lease [OF assms(1,2) _ _ assms(4,5), of lease] by (metis not_le)
  have "pj_status k \<in> {PRetryReady, PFailed, PBudgetExhausted} \<and> pj_currentLease k = None"
  proof (cases "ps_acquisitionAllowance s")
    case None
    from none [OF None] show ?thesis
      by (auto simp: retryOrFail_def result_simps split: if_splits)
  next
    case (Some a)
    then show ?thesis using some by simp
  qed
  then show "\<exists>t. reclaimPolicyEvaluationJob s now (JsInt (pj_recoveryEpoch (ps_job s))) = Inr t \<and>
         pj_status (ps_job t) \<in> {PRetryReady, PFailed, PBudgetExhausted} \<and> pj_currentLease (ps_job t) = None \<and>
         (ps_acquisitionAllowance s \<noteq> None \<longrightarrow> pj_status (ps_job t) = PBudgetExhausted)"
    using t some by simp
qed

theorem policy_reclaim_always_possible_witness:
  "\<exists>t. reclaimPolicyEvaluationJob runningGraph (wholeSecond 1007) (JsInt 0) = Inr t \<and>
     pj_currentLease (ps_job t) = None"
proof -
  have graph: "pj_terminal (ps_job runningGraph) = None" "pj_updatedAt (ps_job runningGraph) = wholeSecond 1002"
    "pj_stateVersion (ps_job runningGraph) = 2" "pj_recoveryEpoch (ps_job runningGraph) = 0"
    "pj_currentLease (ps_job runningGraph) = Some sampleLease" "pl_expiresAt sampleLease = wholeSecond 1006"
    "pj_deadlineAt (ps_job runningGraph) = wholeSecond 1060"
    by (simp_all add: runningGraph_def leasedGraph_def queuedGraph_def queuedJob_def sampleLease_def)
  show ?thesis
    using policy_reclaim_always_possible [OF running_valid, of "wholeSecond 1007"] graph
    by (auto simp: MAX_SAFE_INTEGER_def)
qed


text \<open>
  C14. Cancellation commits once and for all. An open job whose cancellation is requested no earlier
  than its last receipt is closed as cancelled, without a lease or a result; repeating the same
  request returns the same graph, a conflicting request is refused, and no transition changes the
  graph any more.
\<close>

theorem policy_cancellation_commits:
  assumes "PolicyEvaluationJobSnapshotSchema s" and "pj_terminal (ps_job s) = None" and "ps_cancellation s = None"
    and "PolicyEvaluationCancellationSchema intent" and "pcn_jobId intent = pj_jobId (ps_job s)"
    and "pcn_scope intent = pj_scope (ps_job s)"
    and "tkey (pj_updatedAt (ps_job s)) \<le> tkey (pcn_requestedAt intent)"
    and "pj_stateVersion (ps_job s) < MAX_SAFE_INTEGER"
  shows "\<exists>t. cancelPolicyEvaluationJob s intent = Inr t \<and> pj_status (ps_job t) = PCancelled \<and>
    pj_currentLease (ps_job t) = None \<and> pj_result (ps_job t) = None \<and> ps_cancellation t = Some intent \<and>
    cancelPolicyEvaluationJob t intent = Inr t \<and>
    (\<forall>other. PolicyEvaluationCancellationSchema other \<and>
       (pcn_cancellationId other \<noteq> pcn_cancellationId intent \<or> pcn_reason other \<noteq> pcn_reason intent \<or>
        pcn_requestedByPrincipalId other \<noteq> pcn_requestedByPrincipalId intent) \<longrightarrow>
       cancelPolicyEvaluationJob t other = rejectTransition StateConflict) \<and>
    (\<forall>u. policyStep\<^sup>*\<^sup>* t u \<longrightarrow> u = t)"
proof -
  let ?now = "pcn_requestedAt intent"
  define t where "t = (closeOpenAttempt (ClosureStopped ClosedCancelled CancellationCommitted ?now) (chargedGraph s))
     \<lparr>ps_cancellation := Some intent, ps_job := (terminate PCancelled CancellationCommittedCode (latestAttemptId s)
        ?now (ps_job s))\<lparr>pj_result := None\<rparr>\<rparr>"
  have valid: "PolicyEvaluationJobSnapshotSchema t"
    unfolding t_def by (rule cancel_valid [OF assms(1,2,4-8)])
  have cancelled: "cancelPolicyEvaluationJob s intent = Inr t"
    unfolding t_def by (rule cancel_outcome [OF assms])
  have fields: "pj_status (ps_job t) = PCancelled" "pj_currentLease (ps_job t) = None" "pj_result (ps_job t) = None"
    "ps_cancellation t = Some intent" "pj_jobId (ps_job t) = pj_jobId (ps_job s)"
    "pj_scope (ps_job t) = pj_scope (ps_job s)" "policyTerminal t"
    by (simp_all add: t_def policyTerminal_def terminate_def advanceJob_def)
  have again: "cancelPolicyEvaluationJob t intent = Inr t"
    using valid assms(4-6) fields by (simp add: cancelPolicyEvaluationJob_def Let_def)
  have other: "cancelPolicyEvaluationJob t other = rejectTransition StateConflict"
    if "PolicyEvaluationCancellationSchema other \<and>
       (pcn_cancellationId other \<noteq> pcn_cancellationId intent \<or> pcn_reason other \<noteq> pcn_reason intent \<or>
        pcn_requestedByPrincipalId other \<noteq> pcn_requestedByPrincipalId intent)" for other
    using that valid fields by (auto simp: cancelPolicyEvaluationJob_def Let_def)
  have final: "u = t" if "policyStep\<^sup>*\<^sup>* t u" for u using policy.terminal_final [OF fields(7) that] .
  show ?thesis using cancelled fields again other final by blast
qed

theorem policy_cancellation_commits_witness:
  "\<exists>t. cancelPolicyEvaluationJob runningGraph sampleIntent = Inr t \<and> pj_status (ps_job t) = PCancelled \<and>
     cancelPolicyEvaluationJob t sampleIntent = Inr t"
proof -
  have "pj_terminal (ps_job runningGraph) = None" "pj_updatedAt (ps_job runningGraph) = wholeSecond 1002"
    "pj_stateVersion (ps_job runningGraph) = 2" "ps_cancellation runningGraph = None"
    "pcn_jobId sampleIntent = pj_jobId (ps_job runningGraph)" "pcn_scope sampleIntent = pj_scope (ps_job runningGraph)"
    "pcn_requestedAt sampleIntent = wholeSecond 1004"
    by (simp_all add: runningGraph_def leasedGraph_def queuedGraph_def queuedJob_def sampleIntent_def)
  then show ?thesis
    using policy_cancellation_commits [OF running_valid, of sampleIntent] by (auto simp: MAX_SAFE_INTEGER_def)
qed

text \<open>
  Completion needs the whole evaluation. A job completes exactly when the worker still holds its
  lease, the job is running on its sealed snapshot, and the attempt has metered at least as many rule
  evaluations as the sealed result claims rules, of which there are at least one and at most the
  contract's maximum. The completed job then carries the result, keeps the snapshot, and its attempt
  is closed as completed before its deadline.
\<close>

theorem policy_completion_requires_rule_evaluations:
  "((\<exists>t. completePolicyEvaluationJob s now epoch fence reference ruleCount = Inr t) \<longleftrightarrow>
      (\<exists>lease latest count. holdsLease s now epoch fence lease \<and> pj_status (ps_job s) = PRunning \<and>
         PolicyEvaluationResultReferenceSchema reference \<and> pj_stateVersion (ps_job s) < MAX_SAFE_INTEGER \<and>
         latestAttempt (ps_attempts s) = Some latest \<and> ruleCount = JsInt count \<and> 1 \<le> count \<and>
         count \<le> MAX_POLICY_RULES \<and>
         count \<le> ps_usage s URuleEvaluations - pa_usageAtStart latest URuleEvaluations)) \<and>
   (\<forall>t. completePolicyEvaluationJob s now epoch fence reference ruleCount = Inr t \<longrightarrow>
      pj_status (ps_job t) = PCompleted \<and> pj_result (ps_job t) = Some reference \<and>
      pj_snapshot (ps_job t) = pj_snapshot (ps_job s) \<and> pj_snapshot (ps_job s) \<noteq> None \<and> ps_usage t = ps_usage s \<and>
      (\<exists>a. latestAttempt (ps_attempts t) = Some a \<and> pa_closure a = Some (ClosureCompleted now) \<and>
         tkey now < tkey (pa_deadlineAt a)))"
proof (intro conjI iffI allI impI)
  assume "\<exists>t. completePolicyEvaluationJob s now epoch fence reference ruleCount = Inr t"
  then obtain t where t: "completePolicyEvaluationJob s now epoch fence reference ruleCount = Inr t" ..
  show "\<exists>lease latest count. holdsLease s now epoch fence lease \<and> pj_status (ps_job s) = PRunning \<and>
         PolicyEvaluationResultReferenceSchema reference \<and> pj_stateVersion (ps_job s) < MAX_SAFE_INTEGER \<and>
         latestAttempt (ps_attempts s) = Some latest \<and> ruleCount = JsInt count \<and> 1 \<le> count \<and>
         count \<le> MAX_POLICY_RULES \<and>
         count \<le> ps_usage s URuleEvaluations - pa_usageAtStart latest URuleEvaluations"
    by (rule complete_Inr [OF t]) blast
next
  assume "\<exists>lease latest count. holdsLease s now epoch fence lease \<and> pj_status (ps_job s) = PRunning \<and>
         PolicyEvaluationResultReferenceSchema reference \<and> pj_stateVersion (ps_job s) < MAX_SAFE_INTEGER \<and>
         latestAttempt (ps_attempts s) = Some latest \<and> ruleCount = JsInt count \<and> 1 \<le> count \<and>
         count \<le> MAX_POLICY_RULES \<and>
         count \<le> ps_usage s URuleEvaluations - pa_usageAtStart latest URuleEvaluations"
  then obtain lease latest count where h: "holdsLease s now epoch fence lease" "pj_stateVersion (ps_job s) < MAX_SAFE_INTEGER"
    "pj_status (ps_job s) = PRunning" "PolicyEvaluationResultReferenceSchema reference"
    and latest: "latestAttempt (ps_attempts s) = Some latest"
    and count: "ruleCount = JsInt count" "1 \<le> count" "count \<le> MAX_POLICY_RULES"
      "count \<le> ps_usage s URuleEvaluations - pa_usageAtStart latest URuleEvaluations" by blast
  note f = holdsLease_facts [OF h(1)]
  obtain xs a where "ps_attempts s = xs @ [a]" "pa_closure a = None"
    "(pa_phase a = PhaseComputing) = (pj_snapshot (ps_job s) \<noteq> None)" "pa_snapshot a = pj_snapshot (ps_job s)"
    using lease_attempt [OF f(1,3)] by metis
  moreover have "pj_snapshot (ps_job s) \<noteq> None" using f(5) h(3) by (auto simp: job_schema_defs)
  ultimately have attempt: "pa_closure latest = None" "pa_phase latest = PhaseComputing"
    "pa_snapshot latest = pj_snapshot (ps_job s)" "pj_snapshot (ps_job s) \<noteq> None"
    using latest by auto
  have "- MAX_SAFE_INTEGER \<le> count" "count \<le> MAX_SAFE_INTEGER"
    using count(2,3) by (simp_all add: MAX_SAFE_INTEGER_def MAX_POLICY_RULES_def)
  then show "\<exists>t. completePolicyEvaluationJob s now epoch fence reference ruleCount = Inr t"
    using h count latest attempt lease_statuses(4) [OF f(5,3)] complete_valid [OF h(1-4)] requireLive_Inr_iff [of s now epoch fence lease]
    by (simp add: completePolicyEvaluationJob_def parseSnapshot_def latestAttemptId_def not_less)
next
  fix t
  assume t: "completePolicyEvaluationJob s now epoch fence reference ruleCount = Inr t"
  show "pj_status (ps_job t) = PCompleted" "pj_result (ps_job t) = Some reference"
    "pj_snapshot (ps_job t) = pj_snapshot (ps_job s)"
    by (rule complete_Inr [OF t]; simp add: terminate_def advanceJob_def)+
  have h: "\<exists>l. holdsLease s now epoch fence l" "pj_status (ps_job s) = PRunning"
    and eq: "t = (closeOpenAttempt (ClosureCompleted now) (chargedGraph s))\<lparr>ps_job :=
       (terminate PCompleted EvaluationCompletedCode (latestAttemptId s) now (ps_job s))\<lparr>pj_result := Some reference\<rparr>\<rparr>"
    by (rule complete_Inr [OF t]; blast)+
  obtain l where l: "holdsLease s now epoch fence l" using h(1) ..
  note f = holdsLease_facts [OF l]
  show "pj_snapshot (ps_job s) \<noteq> None" using f(5) h(2) by (auto simp: job_schema_defs)
  have charged: "chargedGraph s = s" using no_allowance(2) [OF f(1)] h(2) by simp
  then show "ps_usage t = ps_usage s" by (simp add: eq)
  obtain xs a where "ps_attempts s = xs @ [a]" "pa_closure a = None" "pa_deadlineAt a = pl_attemptDeadlineAt l"
    using lease_attempt [OF f(1,3)] by metis
  then show "\<exists>a. latestAttempt (ps_attempts t) = Some a \<and> pa_closure a = Some (ClosureCompleted now) \<and>
      tkey now < tkey (pa_deadlineAt a)"
    using f(9) charged by (simp add: eq closeOpenAttempt_def)
qed

theorem policy_completion_requires_rule_evaluations_witness:
  "\<exists>t. completePolicyEvaluationJob runningGraph (wholeSecond 1003) (JsInt 0) sampleFence sampleResult (JsInt 3) = Inr t \<and>
     pj_status (ps_job t) = PCompleted \<and>
     (\<forall>u. completePolicyEvaluationJob runningGraph (wholeSecond 1003) (JsInt 0) sampleFence sampleResult (JsInt 4) \<noteq> Inr u)"
proof -
  have graph: "pj_status (ps_job runningGraph) = PRunning" "pj_stateVersion (ps_job runningGraph) = 2"
    "latestAttempt (ps_attempts runningGraph) = Some (sampleAttempt (Some sampleReference))"
    "ps_usage runningGraph URuleEvaluations = 3"
    "pa_usageAtStart (sampleAttempt (Some sampleReference)) URuleEvaluations = 0"
    by (simp_all add: runningGraph_def leasedGraph_def sampleUsage_def latestAttempt_def sampleAttempt_def)
  note iff = policy_completion_requires_rule_evaluations [of runningGraph "wholeSecond 1003" "JsInt 0" sampleFence sampleResult]
  have "\<exists>t. completePolicyEvaluationJob runningGraph (wholeSecond 1003) (JsInt 0) sampleFence sampleResult (JsInt 3) = Inr t"
    using iff [of "JsInt 3"] sample_running_lease(1) graph by (auto simp: MAX_SAFE_INTEGER_def MAX_POLICY_RULES_def)
  moreover have "\<nexists>u. completePolicyEvaluationJob runningGraph (wholeSecond 1003) (JsInt 0) sampleFence sampleResult (JsInt 4) = Inr u"
    using iff [of "JsInt 4"] graph by auto
  ultimately show ?thesis using iff [of "JsInt 3"] by blast
qed

text \<open>
  A snapshot is sealed only on settled acquisition. For a worker in good standing on an acquiring
  job, sealing succeeds if and only if no acquisition allowance is outstanding; the sealed job keeps
  its lease, its attempt and its usage. With an allowance outstanding the call is stopped by the
  closing parse.
\<close>

theorem policy_seal_requires_settled_allowance:
  assumes "holdsLease s now epoch fence lease" and "pj_stateVersion (ps_job s) < MAX_SAFE_INTEGER"
    and "PolicyEvaluationSnapshotReferenceSchema r"
    and "pj_status (ps_job s) = PAcquiring" and "pj_snapshot (ps_job s) = None"
  shows "(ps_acquisitionAllowance s \<noteq> None \<longrightarrow>
      sealPolicyEvaluationJob s now epoch fence r = Inl SchedulerZodError) \<and>
    (ps_acquisitionAllowance s = None \<longrightarrow>
      (\<exists>t. sealPolicyEvaluationJob s now epoch fence r = Inr t \<and> pj_status (ps_job t) = PSealed \<and>
         pj_snapshot (ps_job t) = Some r \<and> pj_currentLease (ps_job t) = Some lease \<and> ps_usage t = ps_usage s \<and>
         map pa_mutationFence (ps_attempts t) = map pa_mutationFence (ps_attempts s)))"
proof -
  have lease: "pj_currentLease (ps_job s) = Some lease" using assms(1) by (simp add: holdsLease_def)
  have "map pa_mutationFence (updateLatest (\<lambda>a. a\<lparr>pa_phase := PhaseComputing, pa_snapshot := Some r\<rparr>) xs) =
      map pa_mutationFence xs" for xs
    by (cases xs rule: rev_cases) simp_all
  then show ?thesis using seal_outcome [OF assms] lease by simp
qed

theorem policy_seal_requires_settled_allowance_witness:
  "\<exists>t. sealPolicyEvaluationJob acquiringGraph (wholeSecond 1003) (JsInt 0) sampleFence sampleReference = Inr t \<and>
     pj_status (ps_job t) = PSealed"
proof -
  have "pj_stateVersion (ps_job acquiringGraph) = 2" "pj_status (ps_job acquiringGraph) = PAcquiring"
    "pj_snapshot (ps_job acquiringGraph) = None" "ps_acquisitionAllowance acquiringGraph = None"
    by (simp_all add: acquiringGraph_def leasedGraph_def)
  then show ?thesis
    using policy_seal_requires_settled_allowance [OF sample_running_lease(2), of sampleReference]
    by (auto simp: MAX_SAFE_INTEGER_def)
qed

end
