(* ===== verification/Canonical_Json.thy ===== *)
theory Canonical_Json
  imports Digits
begin

unbundle bit_operations_syntax

text \<open>
  The canonical JSON encoder of \<open>packages/contracts/src/evaluation-definition-encoding.ts\<close>, over which
  every definition digest is computed: the strict admission of a value, the sorted property order, the
  bounded cache of encoded keys, and the portable UTF-8 encoder.

  A value is a finite tree; a value with a reference to itself is not represented. A number is an
  integer within the safe range, any other finite number given by its ECMAScript text, or not finite.
  An array item \<open>None\<close> is a hole. An object records whether its prototype is plain and whether it has
  symbol keys, besides its own enumerable string properties in order.
\<close>

section \<open>Values\<close>

datatype json_number = JInteger int | JDecimal string | JNonFinite

datatype json =
    JNull
  | JBoolean bool
  | JNumber json_number
  | JString js_text
  | JNotJson
  | JArray "json option list"
  | JObject bool bool "(js_text \<times> json) list"

datatype canonical_error =
    NestingExceeded
  | NonFiniteNumber
  | NotScalarString
  | NotJsonValue
  | SparseArray
  | NotPlainObject
  | SymbolKeys
  | NotScalarKey

definition MAX_CANONICAL_NESTING_DEPTH :: nat where
  "MAX_CANONICAL_NESTING_DEPTH = 64"

definition MAX_CANONICAL_KEY_ENCODINGS :: nat where
  "MAX_CANONICAL_KEY_ENCODINGS = 256"

definition containsUnpairedSurrogate :: "js_text \<Rightarrow> bool" where
  "containsUnpairedSurrogate s \<longleftrightarrow> list_ex (\<lambda>c. 0xd800 \<le> c \<and> c \<le> 0xdfff) (codePoints s)"

text \<open>The object \<open>JSON.parse(JSON.stringify(value))\<close>: an absent optional field is left out.\<close>

abbreviation jsonObject :: "(string \<times> json) list \<Rightarrow> json" where
  "jsonObject ps \<equiv> JObject True False (map (map_prod js_text_of id) ps)"

abbreviation jsonString :: "string \<Rightarrow> json" where
  "jsonString s \<equiv> JString (js_text_of s)"

abbreviation jsonInt :: "int \<Rightarrow> json" where
  "jsonInt n \<equiv> JNumber (JInteger n)"

section \<open>\<open>JSON.stringify\<close> on numbers and strings\<close>

fun numberText :: "json_number \<Rightarrow> string" where
  "numberText (JInteger n) = showInt n"
| "numberText (JDecimal t) = t"
| "numberText JNonFinite = ''null''"

definition hexDigit :: "nat \<Rightarrow> 16 word" where
  "hexDigit n = word_of_nat (if n < 10 then 48 + n else 87 + n)"

text \<open>
  Quotation mark, reverse solidus and the controls are escaped; every other code unit of a string
  without unpaired surrogates stands for itself.
\<close>

definition escapeUnit :: "16 word \<Rightarrow> js_text" where
  "escapeUnit u =
     (if u = 0x22 then [0x5c, 0x22]
      else if u = 0x5c then [0x5c, 0x5c]
      else if u = 0x8 then [0x5c, 0x62]
      else if u = 0x9 then [0x5c, 0x74]
      else if u = 0xa then [0x5c, 0x6e]
      else if u = 0xc then [0x5c, 0x66]
      else if u = 0xd then [0x5c, 0x72]
      else if u < 0x20 then [0x5c, 0x75, 0x30, 0x30, hexDigit (unat u div 16), hexDigit (unat u mod 16)]
      else [u])"

definition quoteText :: "js_text \<Rightarrow> js_text" where
  "quoteText s = 0x22 # concat (map escapeUnit s) @ [0x22]"

section \<open>The encoder\<close>

type_synonym key_encodings = "(js_text \<times> js_text) list"

fun joinComma :: "js_text list \<Rightarrow> js_text" where
  "joinComma [] = []"
| "joinComma [x] = x"
| "joinComma (x # y # zs) = x @ 0x2c # joinComma (y # zs)"

definition compareKeys :: "js_text \<times> json \<Rightarrow> js_text \<times> json \<Rightarrow> int" where
  "compareKeys l r = compareCodeUnits (fst l) (fst r)"

definition encodeKey ::
  "js_text \<Rightarrow> key_encodings \<Rightarrow> (canonical_error, js_text \<times> key_encodings) result" where
  "encodeKey key cache =
     (case map_of cache key of
        Some encoded \<Rightarrow> Inr (encoded, cache)
      | None \<Rightarrow>
          if containsUnpairedSurrogate key then Inl NotScalarKey
          else let encoded = quoteText key
               in Inr (encoded,
                    if length cache < MAX_CANONICAL_KEY_ENCODINGS then cache @ [(key, encoded)] else cache))"

lemma size_list_sortBy: "size_list f (sortBy cmp xs) = size_list f xs"
proof -
  have "size_list f (insertBy cmp x ys) = Suc (f x + size_list f ys)" for x ys
    by (induction ys) auto
  then show ?thesis by (induction xs) (simp_all add: sortBy_def)
qed

function (sequential)
  canonicalJson :: "json \<Rightarrow> nat \<Rightarrow> key_encodings \<Rightarrow> (canonical_error, js_text \<times> key_encodings) result" and
  canonicalItems ::
    "json option list \<Rightarrow> nat \<Rightarrow> key_encodings \<Rightarrow> (canonical_error, js_text list \<times> key_encodings) result" and
  canonicalEntries ::
    "(js_text \<times> json) list \<Rightarrow> nat \<Rightarrow> key_encodings \<Rightarrow> (canonical_error, js_text list \<times> key_encodings) result"
where
  "canonicalJson v depth cache =
     (if MAX_CANONICAL_NESTING_DEPTH < depth then Inl NestingExceeded
      else case v of
        JNull \<Rightarrow> Inr (js_text_of ''null'', cache)
      | JBoolean b \<Rightarrow> Inr (js_text_of (if b then ''true'' else ''false''), cache)
      | JNumber n \<Rightarrow>
          if n = JNonFinite then Inl NonFiniteNumber else Inr (js_text_of (numberText n), cache)
      | JString s \<Rightarrow>
          if containsUnpairedSurrogate s then Inl NotScalarString else Inr (quoteText s, cache)
      | JNotJson \<Rightarrow> Inl NotJsonValue
      | JArray items \<Rightarrow>
          (case canonicalItems items (depth + 1) cache of
             Inl e \<Rightarrow> Inl e
           | Inr (ts, cache') \<Rightarrow> Inr (0x5b # joinComma ts @ [0x5d], cache'))
      | JObject plain symbols ps \<Rightarrow>
          if \<not> plain then Inl NotPlainObject
          else if symbols then Inl SymbolKeys
          else (case canonicalEntries (sortBy compareKeys ps) (depth + 1) cache of
                  Inl e \<Rightarrow> Inl e
                | Inr (ts, cache') \<Rightarrow> Inr (0x7b # joinComma ts @ [0x7d], cache')))"
| "canonicalItems [] depth cache = Inr ([], cache)"
| "canonicalItems (None # items) depth cache = Inl SparseArray"
| "canonicalItems (Some v # items) depth cache =
     (case canonicalJson v depth cache of
        Inl e \<Rightarrow> Inl e
      | Inr (t, cache') \<Rightarrow>
          (case canonicalItems items depth cache' of
             Inl e \<Rightarrow> Inl e
           | Inr (ts, cache'') \<Rightarrow> Inr (t # ts, cache'')))"
| "canonicalEntries [] depth cache = Inr ([], cache)"
| "canonicalEntries ((key, v) # entries) depth cache =
     (case encodeKey key cache of
        Inl e \<Rightarrow> Inl e
      | Inr (encoded, cache') \<Rightarrow>
          (case canonicalJson v depth cache' of
             Inl e \<Rightarrow> Inl e
           | Inr (t, cache'') \<Rightarrow>
               (case canonicalEntries entries depth cache'' of
                  Inl e \<Rightarrow> Inl e
                | Inr (ts, cache''') \<Rightarrow> Inr ((encoded @ 0x3a # t) # ts, cache'''))))"
  by pat_completeness auto
termination
  by (relation "measure (\<lambda>x. case x of
        Inl (v, _, _) \<Rightarrow> size v
      | Inr (Inl (items, _, _)) \<Rightarrow> size_list (size_option size) items
      | Inr (Inr (entries, _, _)) \<Rightarrow> size_list (size_prod (\<lambda>_. 0) size) entries)")
    (auto simp: size_list_sortBy)

definition serializeEvaluationCanonicalJson :: "json \<Rightarrow> (canonical_error, js_text) result" where
  "serializeEvaluationCanonicalJson v =
     (case canonicalJson v 0 [] of Inl e \<Rightarrow> Inl e | Inr (t, cache) \<Rightarrow> Inr t)"

declare canonicalJson.simps [simp del]

section \<open>UTF-8\<close>

text \<open>
  The portable path of \<open>encodeUtf8\<close>: one pass over the code units for the length of the array, one over
  the code points for its bytes. A byte written past the end of the array is dropped, one never written
  stays 0. The native encoder gives the same bytes for text without unpaired surrogates.
\<close>

fun utf8Length :: "js_text \<Rightarrow> nat" where
  "utf8Length [] = 0"
| "utf8Length (u # us) =
     (if u \<le> 0x7f then 1 + utf8Length us
      else if u \<le> 0x7ff then 2 + utf8Length us
      else if 0xd800 \<le> u \<and> u \<le> 0xdbff then 4 + utf8Length (drop 1 us)
      else 3 + utf8Length us)"

definition codePointAt :: "16 word \<Rightarrow> js_text \<Rightarrow> nat" where
  "codePointAt u us =
     (case us of
        [] \<Rightarrow> unat u
      | v # _ \<Rightarrow>
          if 0xd800 \<le> u \<and> u \<le> 0xdbff \<and> 0xdc00 \<le> v \<and> v \<le> 0xdfff
          then 0x10000 + (unat u - 0xd800) * 0x400 + (unat v - 0xdc00) else unat u)"

definition utf8CodePoint :: "nat \<Rightarrow> 8 word list" where
  "utf8CodePoint c =
     (if c \<le> 0x7f then [word_of_nat c]
      else if c \<le> 0x7ff then [word_of_nat (0xc0 OR drop_bit 6 c), word_of_nat (0x80 OR (c AND 0x3f))]
      else if c \<le> 0xffff then
        [word_of_nat (0xe0 OR drop_bit 12 c), word_of_nat (0x80 OR (drop_bit 6 c AND 0x3f)),
         word_of_nat (0x80 OR (c AND 0x3f))]
      else [word_of_nat (0xf0 OR drop_bit 18 c), word_of_nat (0x80 OR (drop_bit 12 c AND 0x3f)),
            word_of_nat (0x80 OR (drop_bit 6 c AND 0x3f)), word_of_nat (0x80 OR (c AND 0x3f))])"

fun utf8Bytes :: "js_text \<Rightarrow> 8 word list" where
  "utf8Bytes [] = []"
| "utf8Bytes (u # us) =
     utf8CodePoint (codePointAt u us) @
     utf8Bytes (if codePointAt u us \<le> 0xffff then us else drop 1 us)"

definition encodeUtf8 :: "js_text \<Rightarrow> 8 word list" where
  "encodeUtf8 s =
     take (utf8Length s) (utf8Bytes s) @ replicate (utf8Length s - length (utf8Bytes s)) 0"

definition encodeEvaluationCanonicalJson :: "json \<Rightarrow> (canonical_error, 8 word list) result" where
  "encodeEvaluationCanonicalJson v =
     (case serializeEvaluationCanonicalJson v of Inl e \<Rightarrow> Inl e | Inr t \<Rightarrow> Inr (encodeUtf8 t))"

end
