(* ===== verification/Rule_Result.thy ===== *)
theory Rule_Result
  imports Policy_Arithmetic Policy_Job Replay_Job Canonical_Json
begin

text \<open>
  The contract of one rule result of a policy evaluation,
  \<open>packages/contracts/src/policy-evaluation-result.ts\<close>: the outcome, the compact evidence operands, and
  the rules that tie the outcome to the evidence. Enumerations that only travel are strings with
  their members listed; those the rules branch on are datatypes.
\<close>

section \<open>Evidence\<close>

datatype PolicyEvaluationRuleOutcome =
  OutcomeSatisfied | OutcomeViolated | OutcomeIndeterminate | OutcomeNotApplicable

datatype PredicateKind =
    ComparisonThresholdKind
  | CoverageFloorKind
  | UncertaintyBoundKind
  | EligibilityRequiredKind
  | ArtifactRequiredKind
  | SafetyEventCeilingKind
  | ApprovalRequiredKind

definition POLICY_EVALUATION_UNRESOLVED_REASONS :: "string list" where
  "POLICY_EVALUATION_UNRESOLVED_REASONS =
     [''approval_not_evaluated'', ''artifact_content_unavailable'', ''artifact_reference_unavailable'',
      ''assessment_not_declared'', ''assessment_unavailable'', ''candidate_authority_unverified'',
      ''comparison_ambiguous'', ''comparison_lineage_invalid'', ''comparison_missing'',
      ''comparison_unresolved'', ''criterion_authority_unverified'', ''evidence_incomparable'',
      ''evidence_unqualified'', ''interval_confidence_mismatch'', ''interval_method_mismatch'',
      ''interval_unavailable'', ''metric_missing'', ''metric_type_mismatch'',
      ''metric_value_unavailable'', ''model_resolution_missing'', ''policy_authority_unverified'',
      ''policy_expired'', ''policy_not_effective'', ''policy_superseded'', ''policy_withdrawn'',
      ''required_selector_unknown'', ''sampling_assumption_unsupported'', ''source_unavailable'',
      ''zero_denominator'']"

definition PolicyEvaluationLimitations :: "string list" where
  "PolicyEvaluationLimitations =
     [''approval_not_evaluated'', ''declared_reference_authority_only'',
      ''external_object_observation_only'', ''historical_observation_only'',
      ''incomplete_candidate_population'']"

definition CountPopulation :: "string list" where
  "CountPopulation =
     [''baselineObservedCount'', ''candidateObservedCount'', ''pairedObservedCount'',
      ''pairedTotalCount'', ''decidedCount'', ''attemptedCount'']"

definition NumeratorPopulation :: "string list" where
  "NumeratorPopulation = [''baselineObservedCount'', ''candidateObservedCount'', ''pairedObservedCount'']"

definition DenominatorPopulation :: "string list" where
  "DenominatorPopulation = [''baselineTotalCount'', ''candidateTotalCount'', ''pairedTotalCount'']"

record ExactThresholdEvidence =
  et_operand :: string
  et_value :: ComparisonExactValue
  et_threshold :: string
  et_unit :: js_text
  et_comparator :: ReleasePolicyComparator
  et_order :: int

record CountFloorEvidence =
  cf_population :: string
  cf_observedCount :: int
  cf_minimumCount :: int
  cf_order :: int

record RatioFloorEvidence =
  rf_numeratorPopulation :: string
  rf_denominatorPopulation :: string
  rf_numerator :: int
  rf_denominator :: int
  rf_minimumBasisPoints :: int
  rf_order :: int

record UncertaintyBoundEvidence =
  ub_bound :: string
  ub_value :: string
  ub_thresholdBasisPoints :: int
  ub_comparator :: BoundComparator
  ub_confidenceLevelBasisPoints :: int
  ub_successCount :: int
  ub_trialCount :: int
  ub_order :: int

record SafetyCeilingEvidence =
  sc_eventClass :: string
  sc_observedCount :: int
  sc_maximumCount :: int
  sc_candidatePopulationComplete :: bool
  sc_order :: int

datatype PolicyEvaluationRuleEvidence =
    NotEvaluated string
  | ApplicabilityMismatch
  | ExactThreshold ExactThresholdEvidence
  | CountFloor CountFloorEvidence
  | RatioFloor RatioFloorEvidence
  | UncertaintyBound UncertaintyBoundEvidence
  | EligibilityEvidence string string
  | ArtifactEvidence string "ArtifactContentReference option"
  | SafetyCeiling SafetyCeilingEvidence

abbreviation OrderSchema :: "int \<Rightarrow> bool" where
  "OrderSchema n \<equiv> n \<in> {-1, 0, 1}"

fun PolicyEvaluationRuleEvidenceSchema ::
  "(js_text \<Rightarrow> js_text) \<Rightarrow> PolicyEvaluationRuleEvidence \<Rightarrow> bool" where
  "PolicyEvaluationRuleEvidenceSchema nfc (NotEvaluated reason) =
     (reason \<in> set POLICY_EVALUATION_UNRESOLVED_REASONS)"
| "PolicyEvaluationRuleEvidenceSchema nfc ApplicabilityMismatch = True"
| "PolicyEvaluationRuleEvidenceSchema nfc (ExactThreshold e) =
     (et_operand e \<in> set [''baseline'', ''candidate'', ''delta''] \<and>
      ComparisonExactValueSchema nfc (et_value e) \<and> ReleasePolicyExactDecimalSchema (et_threshold e) \<and>
      ReleasePolicyUnitSchema (et_unit e) \<and> OrderSchema (et_order e))"
| "PolicyEvaluationRuleEvidenceSchema nfc (CountFloor e) =
     (cf_population e \<in> set CountPopulation \<and> SafeNonnegativeInteger (cf_observedCount e) \<and>
      SafeNonnegativeInteger (cf_minimumCount e) \<and> OrderSchema (cf_order e))"
| "PolicyEvaluationRuleEvidenceSchema nfc (RatioFloor e) =
     (rf_numeratorPopulation e \<in> set NumeratorPopulation \<and>
      rf_denominatorPopulation e \<in> set DenominatorPopulation \<and>
      SafeNonnegativeInteger (rf_numerator e) \<and> SafePositiveInteger (rf_denominator e) \<and>
      1 \<le> rf_minimumBasisPoints e \<and> rf_minimumBasisPoints e \<le> 10000 \<and> OrderSchema (rf_order e))"
| "PolicyEvaluationRuleEvidenceSchema nfc (UncertaintyBound e) =
     (ub_bound e \<in> set [''lower'', ''upper''] \<and> UnitIntervalDecimalSchema (ub_value e) \<and>
      0 \<le> ub_thresholdBasisPoints e \<and> ub_thresholdBasisPoints e \<le> 10000 \<and>
      5000 \<le> ub_confidenceLevelBasisPoints e \<and> ub_confidenceLevelBasisPoints e \<le> 9999 \<and>
      SafeNonnegativeInteger (ub_successCount e) \<and> SafePositiveInteger (ub_trialCount e) \<and>
      OrderSchema (ub_order e))"
| "PolicyEvaluationRuleEvidenceSchema nfc (EligibilityEvidence assessmentClass eligibility) =
     (assessmentClass \<in> set [''evaluation'', ''model_assurance''] \<and>
      eligibility \<in> set [''eligible'', ''ineligible''])"
| "PolicyEvaluationRuleEvidenceSchema nfc (ArtifactEvidence status reference) =
     (status \<in> set [''component_missing'', ''artifact_missing'', ''verified'', ''media_type_disallowed'',
        ''classification_disallowed''] \<and> optional ArtifactContentReferenceSchema reference)"
| "PolicyEvaluationRuleEvidenceSchema nfc (SafetyCeiling e) =
     (sc_eventClass e \<in> set [''guardrail_check'', ''replay_safety_intervention'', ''uncertain_side_effect''] \<and>
      SafeNonnegativeInteger (sc_observedCount e) \<and> SafeNonnegativeInteger (sc_maximumCount e) \<and>
      OrderSchema (sc_order e))"

record PolicyEvaluationRuleResult =
  rr_ruleIndex :: int
  rr_ruleId :: string
  rr_predicateKind :: PredicateKind
  rr_outcome :: PolicyEvaluationRuleOutcome
  rr_evidence :: PolicyEvaluationRuleEvidence
  rr_limitations :: "string list"

definition MAX_POLICY_EVALUATION_RULE_RESULT_BYTES :: nat where
  "MAX_POLICY_EVALUATION_RULE_RESULT_BYTES = 2 * 1024"

section \<open>The JSON of a result\<close>

fun outcomeName :: "PolicyEvaluationRuleOutcome \<Rightarrow> string" where
  "outcomeName OutcomeSatisfied = ''satisfied''"
| "outcomeName OutcomeViolated = ''violated''"
| "outcomeName OutcomeIndeterminate = ''indeterminate''"
| "outcomeName OutcomeNotApplicable = ''not_applicable''"

fun predicateKindName :: "PredicateKind \<Rightarrow> string" where
  "predicateKindName ComparisonThresholdKind = ''comparison_threshold''"
| "predicateKindName CoverageFloorKind = ''coverage_floor''"
| "predicateKindName UncertaintyBoundKind = ''uncertainty_bound''"
| "predicateKindName EligibilityRequiredKind = ''eligibility_required''"
| "predicateKindName ArtifactRequiredKind = ''artifact_required''"
| "predicateKindName SafetyEventCeilingKind = ''safety_event_ceiling''"
| "predicateKindName ApprovalRequiredKind = ''approval_required''"

fun comparatorName :: "ReleasePolicyComparator \<Rightarrow> string" where
  "comparatorName CmpEqual = ''equal''"
| "comparatorName CmpGreaterThan = ''greater_than''"
| "comparatorName CmpGreaterThanOrEqual = ''greater_than_or_equal''"
| "comparatorName CmpLessThan = ''less_than''"
| "comparatorName CmpLessThanOrEqual = ''less_than_or_equal''"
| "comparatorName CmpNotEqual = ''not_equal''"

fun classificationName :: "DataClassification \<Rightarrow> string" where
  "classificationName Metadata = ''metadata''"
| "classificationName Internal = ''internal''"
| "classificationName Confidential = ''confidential''"
| "classificationName Restricted = ''restricted''"

fun redactionStageName :: "RedactionStage \<Rightarrow> string" where
  "redactionStageName IngestStage = ''ingest''"
| "redactionStageName RetentionStage = ''retention''"
| "redactionStageName SourceStage = ''source''"

fun exactValueJson :: "ComparisonExactValue \<Rightarrow> json" where
  "exactValueJson (DecimalValue unit v) =
     jsonObject [(''representation'', jsonString ''decimal''), (''unit'', JString unit), (''value'', jsonString v)]"
| "exactValueJson (RationalValue denominator numerator unit) =
     jsonObject [(''denominator'', jsonString denominator), (''numerator'', jsonString numerator),
       (''representation'', jsonString ''rational''), (''unit'', JString unit)]"

definition artifactReferenceJson :: "ArtifactContentReference \<Rightarrow> json" where
  "artifactReferenceJson a =
     jsonObject
       ([(''artifactId'', jsonString (content_artifactId a)),
         (''classification'', jsonString (classificationName (content_classification a))),
         (''mediaType'', jsonString (content_mediaType a)), (''sha256'', jsonString (content_sha256 a)),
         (''sizeBytes'', jsonInt (content_sizeBytes a))] @
        (case content_redactedAt a of
           None \<Rightarrow> [] | Some stage \<Rightarrow> [(''redactedAt'', jsonString (redactionStageName stage))]))"

fun ruleEvidenceJson :: "PolicyEvaluationRuleEvidence \<Rightarrow> json" where
  "ruleEvidenceJson (NotEvaluated reason) =
     jsonObject [(''kind'', jsonString ''not_evaluated''), (''reason'', jsonString reason)]"
| "ruleEvidenceJson ApplicabilityMismatch = jsonObject [(''kind'', jsonString ''applicability_mismatch'')]"
| "ruleEvidenceJson (ExactThreshold e) =
     jsonObject [(''kind'', jsonString ''exact_threshold''), (''operand'', jsonString (et_operand e)),
       (''value'', exactValueJson (et_value e)), (''threshold'', jsonString (et_threshold e)),
       (''unit'', JString (et_unit e)), (''comparator'', jsonString (comparatorName (et_comparator e))),
       (''order'', jsonInt (et_order e))]"
| "ruleEvidenceJson (CountFloor e) =
     jsonObject [(''kind'', jsonString ''count_floor''), (''population'', jsonString (cf_population e)),
       (''observedCount'', jsonInt (cf_observedCount e)), (''minimumCount'', jsonInt (cf_minimumCount e)),
       (''order'', jsonInt (cf_order e))]"
| "ruleEvidenceJson (RatioFloor e) =
     jsonObject [(''kind'', jsonString ''ratio_floor''),
       (''numeratorPopulation'', jsonString (rf_numeratorPopulation e)),
       (''denominatorPopulation'', jsonString (rf_denominatorPopulation e)),
       (''numerator'', jsonInt (rf_numerator e)), (''denominator'', jsonInt (rf_denominator e)),
       (''minimumBasisPoints'', jsonInt (rf_minimumBasisPoints e)), (''order'', jsonInt (rf_order e))]"
| "ruleEvidenceJson (UncertaintyBound e) =
     jsonObject [(''kind'', jsonString ''uncertainty_bound''), (''bound'', jsonString (ub_bound e)),
       (''value'', jsonString (ub_value e)),
       (''thresholdBasisPoints'', jsonInt (ub_thresholdBasisPoints e)),
       (''comparator'', jsonString (if ub_comparator e = AtLeast then ''at_least'' else ''at_most'')),
       (''method'', jsonString ''wilson_score_interval''), (''methodVersion'', jsonString ''1.0.0''),
       (''confidenceLevelBasisPoints'', jsonInt (ub_confidenceLevelBasisPoints e)),
       (''successCount'', jsonInt (ub_successCount e)), (''trialCount'', jsonInt (ub_trialCount e)),
       (''samplingAssumption'', jsonString ''supported''), (''order'', jsonInt (ub_order e))]"
| "ruleEvidenceJson (EligibilityEvidence assessmentClass eligibility) =
     jsonObject [(''kind'', jsonString ''eligibility''), (''assessmentClass'', jsonString assessmentClass),
       (''eligibility'', jsonString eligibility)]"
| "ruleEvidenceJson (ArtifactEvidence status reference) =
     jsonObject [(''kind'', jsonString ''artifact''), (''status'', jsonString status),
       (''reference'', case reference of None \<Rightarrow> JNull | Some a \<Rightarrow> artifactReferenceJson a)]"
| "ruleEvidenceJson (SafetyCeiling e) =
     jsonObject [(''kind'', jsonString ''safety_ceiling''), (''eventClass'', jsonString (sc_eventClass e)),
       (''observedCount'', jsonInt (sc_observedCount e)), (''maximumCount'', jsonInt (sc_maximumCount e)),
       (''candidatePopulationComplete'', JBoolean (sc_candidatePopulationComplete e)),
       (''order'', jsonInt (sc_order e))]"

definition ruleResultJson :: "PolicyEvaluationRuleResult \<Rightarrow> json" where
  "ruleResultJson r =
     jsonObject [(''ruleIndex'', jsonInt (rr_ruleIndex r)), (''ruleId'', jsonString (rr_ruleId r)),
       (''predicateKind'', jsonString (predicateKindName (rr_predicateKind r))),
       (''outcome'', jsonString (outcomeName (rr_outcome r))),
       (''evidence'', ruleEvidenceJson (rr_evidence r)),
       (''limitations'', JArray (map (\<lambda>l. Some (jsonString l)) (rr_limitations r)))]"

definition canonicalBytesAtMost :: "nat \<Rightarrow> json \<Rightarrow> bool" where
  "canonicalBytesAtMost limit v \<longleftrightarrow>
     (case encodeEvaluationCanonicalJson v of Inl _ \<Rightarrow> False | Inr bs \<Rightarrow> length bs \<le> limit)"

section \<open>Outcome and evidence\<close>

text \<open>\<open>String.prototype.replace\<close> with a string pattern.\<close>

fun replaceFirst :: "string \<Rightarrow> string \<Rightarrow> string \<Rightarrow> string" where
  "replaceFirst pat rep [] = (if pat = [] then rep else [])"
| "replaceFirst pat rep (c # cs) =
     (if take (length pat) (c # cs) = pat then rep @ drop (length pat) (c # cs)
      else c # replaceFirst pat rep cs)"

record decimal_fraction =
  df_numerator :: int
  df_denominator :: int

definition ruleDecimalFraction :: "string \<Rightarrow> decimal_fraction" where
  "ruleDecimalFraction v =
     (let negative = (take 1 v = ''-'');
          parts = splitOn CHR ''.'' (if negative then drop 1 v else v);
          whole = hd parts;
          fraction = (case parts of _ # f # _ \<Rightarrow> f | _ \<Rightarrow> [])
      in \<lparr>df_numerator = bigInt (whole @ fraction) * (if negative then -1 else 1),
          df_denominator = 10 ^ length fraction\<rparr>)"

definition ruleSign :: "int \<Rightarrow> int" where
  "ruleSign n = (if n < 0 then -1 else if n > 0 then 1 else 0)"

fun exactValueFraction :: "ComparisonExactValue \<Rightarrow> decimal_fraction" where
  "exactValueFraction (DecimalValue unit v) = ruleDecimalFraction v"
| "exactValueFraction (RationalValue denominator numerator unit) =
     \<lparr>df_numerator = bigInt numerator, df_denominator = bigInt denominator\<rparr>"

definition thresholdOrder :: "ExactThresholdEvidence \<Rightarrow> int" where
  "thresholdOrder e =
     (let actual = exactValueFraction (et_value e); threshold = ruleDecimalFraction (et_threshold e)
      in ruleSign (df_numerator actual * df_denominator threshold -
                   df_numerator threshold * df_denominator actual))"

definition boundOrder :: "UncertaintyBoundEvidence \<Rightarrow> int" where
  "boundOrder e =
     (let bound = ruleDecimalFraction (ub_value e)
      in ruleSign (df_numerator bound * 10000 - ub_thresholdBasisPoints e * df_denominator bound))"

fun expectedKind :: "PolicyEvaluationRuleEvidence \<Rightarrow> PredicateKind option" where
  "expectedKind (ExactThreshold _) = Some ComparisonThresholdKind"
| "expectedKind (CountFloor _) = Some CoverageFloorKind"
| "expectedKind (RatioFloor _) = Some CoverageFloorKind"
| "expectedKind (UncertaintyBound _) = Some UncertaintyBoundKind"
| "expectedKind (EligibilityEvidence _ _) = Some EligibilityRequiredKind"
| "expectedKind (ArtifactEvidence _ _) = Some ArtifactRequiredKind"
| "expectedKind (SafetyCeiling _) = Some SafetyEventCeilingKind"
| "expectedKind _ = None"

text \<open>The retained order, the order its operands have, and the outcome that order demands.\<close>

fun evidenceOrder :: "PolicyEvaluationRuleEvidence \<Rightarrow> (int \<times> int \<times> PolicyEvaluationRuleOutcome) option" where
  "evidenceOrder (ExactThreshold e) =
     Some (et_order e, thresholdOrder e,
       if comparatorMatches (et_order e) (et_comparator e) then OutcomeSatisfied else OutcomeViolated)"
| "evidenceOrder (CountFloor e) =
     Some (cf_order e, ruleSign (cf_observedCount e - cf_minimumCount e),
       if cf_order e = -1 then OutcomeViolated else OutcomeSatisfied)"
| "evidenceOrder (RatioFloor e) =
     Some (rf_order e, ruleSign (rf_numerator e * 10000 - rf_minimumBasisPoints e * rf_denominator e),
       if rf_order e = -1 then OutcomeViolated else OutcomeSatisfied)"
| "evidenceOrder (UncertaintyBound e) =
     Some (ub_order e, boundOrder e,
       if (if ub_comparator e = AtLeast then ub_order e \<noteq> -1 else ub_order e \<noteq> 1)
       then OutcomeSatisfied else OutcomeViolated)"
| "evidenceOrder (SafetyCeiling e) =
     Some (sc_order e, ruleSign (sc_observedCount e - sc_maximumCount e),
       if sc_order e = 1 then OutcomeViolated
       else if sc_candidatePopulationComplete e then OutcomeSatisfied else OutcomeIndeterminate)"
| "evidenceOrder _ = None"

definition incompleteSafety :: "PolicyEvaluationRuleEvidence \<Rightarrow> bool" where
  "incompleteSafety evidence \<longleftrightarrow>
     (case evidence of SafetyCeiling e \<Rightarrow> \<not> sc_candidatePopulationComplete e | _ \<Rightarrow> False)"

fun evidenceOperands :: "PolicyEvaluationRuleEvidence \<Rightarrow> bool" where
  "evidenceOperands (ExactThreshold e) = (exactUnit (et_value e) = et_unit e)"
| "evidenceOperands (RatioFloor e) =
     (rf_numerator e \<le> rf_denominator e \<and>
      rf_denominatorPopulation e = replaceFirst ''ObservedCount'' ''TotalCount'' (rf_numeratorPopulation e))"
| "evidenceOperands (UncertaintyBound e) = (ub_successCount e \<le> ub_trialCount e)"
| "evidenceOperands (ArtifactEvidence status reference) =
     ((status = ''component_missing'') = (reference = None))"
| "evidenceOperands _ = True"

definition computedEvidenceRules :: "PolicyEvaluationRuleResult \<Rightarrow> bool" where
  "computedEvidenceRules r \<longleftrightarrow>
     (let evidence = rr_evidence r; outcome = rr_outcome r in
      Some (rr_predicateKind r) = expectedKind evidence \<and>
      (outcome = OutcomeSatisfied \<or> outcome = OutcomeViolated \<or>
       (incompleteSafety evidence \<and> outcome = OutcomeIndeterminate)) \<and>
      evidenceOperands evidence \<and>
      \<not> (incompleteSafety evidence \<and> outcome = OutcomeSatisfied) \<and>
      (incompleteSafety evidence \<longrightarrow> ''incomplete_candidate_population'' \<in> set (rr_limitations r)) \<and>
      (case evidence of
         EligibilityEvidence _ eligibility \<Rightarrow> (outcome = OutcomeSatisfied) = (eligibility = ''eligible'')
       | ArtifactEvidence status _ \<Rightarrow> (outcome = OutcomeSatisfied) = (status = ''verified'')
       | _ \<Rightarrow> True) \<and>
      (case evidenceOrder evidence of
         None \<Rightarrow> True
       | Some (retained, actual, expected) \<Rightarrow> actual = retained \<and> outcome = expected))"

definition PolicyEvaluationRuleResultSchema ::
  "(js_text \<Rightarrow> js_text) \<Rightarrow> PolicyEvaluationRuleResult \<Rightarrow> bool" where
  "PolicyEvaluationRuleResultSchema nfc r \<longleftrightarrow>
     0 \<le> rr_ruleIndex r \<and> rr_ruleIndex r \<le> MAX_POLICY_RULES - 1 \<and> OpaqueIdSchema (rr_ruleId r) \<and>
     PolicyEvaluationRuleEvidenceSchema nfc (rr_evidence r) \<and>
     length (rr_limitations r) \<le> length PolicyEvaluationLimitations \<and>
     list_all (\<lambda>l. l \<in> set PolicyEvaluationLimitations) (rr_limitations r) \<and>
     strictly_sorted codeUnitLess (rr_limitations r) \<and>
     canonicalBytesAtMost MAX_POLICY_EVALUATION_RULE_RESULT_BYTES (ruleResultJson r) \<and>
     (case rr_evidence r of
        NotEvaluated reason \<Rightarrow>
          rr_outcome r = OutcomeIndeterminate \<and>
          (rr_predicateKind r = ApprovalRequiredKind) = (reason = ''approval_not_evaluated'')
      | ApplicabilityMismatch \<Rightarrow>
          rr_predicateKind r \<noteq> ApprovalRequiredKind \<and> rr_outcome r = OutcomeNotApplicable
      | _ \<Rightarrow> rr_predicateKind r \<noteq> ApprovalRequiredKind \<and> computedEvidenceRules r)"

end
