(* ===== verification/Policy_Json.thy ===== *)
theory Policy_Json
  imports Rule_Result
begin

text \<open>
  The JSON of the references, limits and instants that the policy-evaluation contracts share, as the
  canonical encoder receives it. The instants of the model are written back as their texts.
\<close>

section \<open>Texts of instants\<close>

definition dateText :: "int \<Rightarrow> string" where
  "dateText days =
     (let z = days + 719468;
          era = z div 146097;
          doe = z mod 146097;
          yoe = (doe - doe div 1460 + doe div 36524 - doe div 146096) div 365;
          doy = doe - (365 * yoe + yoe div 4 - yoe div 100);
          mp = (5 * doy + 2) div 153;
          day = doy - (153 * mp + 2) div 5 + 1;
          month = (if mp < 10 then mp + 3 else mp - 9);
          year = yoe + era * 400 + (if month \<le> 2 then 1 else 0)
      in padStart 4 CHR ''0'' (showInt year) @ ''-'' @ padStart 2 CHR ''0'' (showInt month) @ ''-'' @
         padStart 2 CHR ''0'' (showInt day))"

definition secondsText :: "int \<Rightarrow> string" where
  "secondsText seconds =
     (let part = (\<lambda>n. padStart 2 CHR ''0'' (showInt n)); rest = seconds mod 86400
      in dateText (seconds div 86400) @ ''T'' @ part (rest div 3600) @ '':'' @ part (rest div 60 mod 60) @
         '':'' @ part (rest mod 60))"

definition utcMillisecondText :: "utc_ms \<Rightarrow> string" where
  "utcMillisecondText t =
     secondsText (t div 1000) @ ''.'' @ padStart 3 CHR ''0'' (showInt (t mod 1000)) @ ''Z''"

definition policyTimeText :: "policy_time \<Rightarrow> string" where
  "policyTimeText t =
     secondsText (pt_seconds t) @ (if pt_fraction t = [] then [] else ''.'' @ pt_fraction t) @ ''Z''"

section \<open>References and limits\<close>

record PolicyEvaluationRequestDefinition =
  prd_candidate :: ReleaseCandidateReference
  prd_evaluationRequestId :: string
  prd_evaluationTime :: policy_time
  prd_limits :: PolicyEvaluationExecutionLimits
  prd_policy :: ReleasePolicyReference

definition PolicyEvaluationRequestDefinitionSchema :: "PolicyEvaluationRequestDefinition \<Rightarrow> bool" where
  "PolicyEvaluationRequestDefinitionSchema r \<longleftrightarrow>
     ReleaseCandidateReferenceSchema (prd_candidate r) \<and> OpaqueIdSchema (prd_evaluationRequestId r) \<and>
     PolicyEvaluationTimeSchema (prd_evaluationTime r) \<and>
     PolicyEvaluationExecutionLimitsSchema (prd_limits r) \<and> ReleasePolicyReferenceSchema (prd_policy r)"

record PolicyEvaluationJobReference =
  jobref_jobId :: string
  jobref_definitionSha256 :: string

definition PolicyEvaluationJobReferenceSchema :: "PolicyEvaluationJobReference \<Rightarrow> bool" where
  "PolicyEvaluationJobReferenceSchema r \<longleftrightarrow>
     OpaqueIdSchema (jobref_jobId r) \<and> Sha256Schema (jobref_definitionSha256 r)"

definition scopeJson :: "EvidenceScope \<Rightarrow> json" where
  "scopeJson s =
     jsonObject [(''environmentId'', jsonString (environmentId s)), (''projectId'', jsonString (projectId s)),
       (''tenantId'', jsonString (tenantId s))]"

definition candidateReferenceJson :: "ReleaseCandidateReference \<Rightarrow> json" where
  "candidateReferenceJson c =
     jsonObject [(''candidateId'', jsonString (cand_candidateId c)),
       (''candidateVersionId'', jsonString (cand_candidateVersionId c)),
       (''definitionSha256'', jsonString (cand_definitionSha256 c))]"

definition policyReferenceJson :: "ReleasePolicyReference \<Rightarrow> json" where
  "policyReferenceJson p =
     jsonObject [(''definitionSha256'', jsonString (rpol_definitionSha256 p)),
       (''policyId'', jsonString (rpol_policyId p)), (''policyVersionId'', jsonString (rpol_policyVersionId p))]"

definition executionLimitsJson :: "PolicyEvaluationExecutionLimits \<Rightarrow> json" where
  "executionLimitsJson l =
     jsonObject
       [(''heartbeatIntervalMilliseconds'', jsonInt (lim_heartbeatIntervalMilliseconds l)),
        (''leaseDurationMilliseconds'', jsonInt (lim_leaseDurationMilliseconds l)),
        (''maxAcquisitionRecordBytes'', jsonInt (lim_maxAcquisitionRecordBytes l)),
        (''maxAcquisitionRecords'', jsonInt (lim_maxAcquisitionRecords l)),
        (''maxArtifactReadBytes'', jsonInt (lim_maxArtifactReadBytes l)),
        (''maxAttempts'', jsonInt (lim_maxAttempts l)),
        (''maxRuleEvaluations'', jsonInt (lim_maxRuleEvaluations l)),
        (''perAttemptTimeoutMilliseconds'', jsonInt (lim_perAttemptTimeoutMilliseconds l)),
        (''retryBackoffMilliseconds'', jsonInt (lim_retryBackoffMilliseconds l)),
        (''retryableErrors'',
           JArray (map (\<lambda>e. Some (jsonString (policyRetryableName e))) (lim_retryableErrors l))),
        (''totalDeadlineMilliseconds'', jsonInt (lim_totalDeadlineMilliseconds l))]"

definition algorithmJson :: json where
  "algorithmJson =
     jsonObject [(''id'', jsonString ''proofstack.deterministic-policy''), (''version'', jsonString ''1.0.0'')]"

definition requestDefinitionJson :: "PolicyEvaluationRequestDefinition \<Rightarrow> json" where
  "requestDefinitionJson r =
     jsonObject
       [(''algorithm'', algorithmJson),
        (''candidate'', candidateReferenceJson (prd_candidate r)),
        (''evaluationRequestId'', jsonString (prd_evaluationRequestId r)),
        (''evaluationTime'', jsonString (policyTimeText (prd_evaluationTime r))),
        (''limits'', executionLimitsJson (prd_limits r)),
        (''policy'', policyReferenceJson (prd_policy r))]"

fun policyJobStatusName :: "PolicyEvaluationJobStatus \<Rightarrow> string" where
  "policyJobStatusName PQueued = ''queued''"
| "policyJobStatusName PAcquiring = ''acquiring''"
| "policyJobStatusName PSealed = ''sealed''"
| "policyJobStatusName PRunning = ''running''"
| "policyJobStatusName PRetryReady = ''retry_ready''"
| "policyJobStatusName PCompleted = ''completed''"
| "policyJobStatusName PFailed = ''failed''"
| "policyJobStatusName PTimedOut = ''timed_out''"
| "policyJobStatusName PBudgetExhausted = ''budget_exhausted''"
| "policyJobStatusName PCancelled = ''cancelled''"

definition jobReferenceJson :: "PolicyEvaluationJobReference \<Rightarrow> json" where
  "jobReferenceJson j =
     jsonObject [(''jobId'', jsonString (jobref_jobId j)),
       (''definitionSha256'', jsonString (jobref_definitionSha256 j))]"

definition snapshotReferenceJson :: "PolicyEvaluationSnapshotReference \<Rightarrow> json" where
  "snapshotReferenceJson s =
     jsonObject [(''snapshotId'', jsonString (snapref_snapshotId s)),
       (''definitionSha256'', jsonString (snapref_definitionSha256 s))]"

text \<open>An absent optional field is left out of the text, as \<open>JSON.stringify\<close> leaves it out.\<close>

definition jsonField :: "string \<Rightarrow> ('a \<Rightarrow> json) \<Rightarrow> 'a option \<Rightarrow> (string \<times> json) list" where
  "jsonField key encode v = (case v of None \<Rightarrow> [] | Some x \<Rightarrow> [(key, encode x)])"

end
