(* ===== verification/Canonical_Bytes.thy ===== *)
theory Canonical_Bytes
  imports Canonical_Json
begin

unbundle bit_operations_syntax

text \<open>
  The UTF-8 encoder is exact: its two passes agree on the length, and a decoder of well-formed UTF-8,
  defined here as the reference, gives the encoded text back.
\<close>

section \<open>Bytes of a code point\<close>

lemma or_disjoint: "x < 2 ^ k \<Longrightarrow> (push_bit k a :: nat) OR x = push_bit k a + x"
proof -
  assume x: "x < 2 ^ k"
  have "\<not> bit (push_bit k a) n \<or> \<not> bit x n" for n
  proof (cases "n < k")
    case True
    then show ?thesis by (simp add: bit_push_bit_iff)
  next
    case False
    have "x = take_bit k x" using x by (simp add: take_bit_nat_eq_self)
    then have "\<not> bit x n" using False by (metis bit_take_bit_iff)
    then show ?thesis by simp
  qed
  then show ?thesis by (subst disjunctive_add [symmetric]) auto
qed

lemma continuation: "0x80 OR (x AND 0x3f) = 128 + x mod 64" for x :: nat
proof -
  have "x AND 0x3f = x mod 64"
    using take_bit_eq_mask [of 6 x] by (simp add: take_bit_eq_mod mask_eq_exp_minus_1)
  moreover have "(push_bit 7 1 :: nat) OR x mod 64 = push_bit 7 1 + x mod 64"
    by (rule or_disjoint) simp
  ultimately show ?thesis by (simp add: push_bit_eq_mult)
qed

lemma leading:
  "x < 32 \<Longrightarrow> 0xc0 OR x = 192 + x" "x < 16 \<Longrightarrow> 0xe0 OR x = 224 + x" "x < 8 \<Longrightarrow> 0xf0 OR x = 240 + x"
  for x :: nat
  using or_disjoint [of x 5 6] or_disjoint [of x 4 14] or_disjoint [of x 3 30]
  by (simp_all add: push_bit_eq_mult)

lemma utf8CodePoint_arith:
  assumes "c < 0x110000"
  shows "utf8CodePoint c =
    (if c < 0x80 then [word_of_nat c]
     else if c < 0x800 then [word_of_nat (192 + c div 64), word_of_nat (128 + c mod 64)]
     else if c < 0x10000 then
       [word_of_nat (224 + c div 4096), word_of_nat (128 + c div 64 mod 64), word_of_nat (128 + c mod 64)]
     else [word_of_nat (240 + c div 262144), word_of_nat (128 + c div 4096 mod 64),
           word_of_nat (128 + c div 64 mod 64), word_of_nat (128 + c mod 64)])"
proof -
  have "c < 0x800 \<Longrightarrow> c div 64 < 32" "c < 0x10000 \<Longrightarrow> c div 4096 < 16" "c div 262144 < 8"
    using assms by auto
  then show ?thesis
    by (auto simp: utf8CodePoint_def continuation leading drop_bit_eq_div)
qed

section \<open>Decoding\<close>

fun decodeUtf8 :: "8 word list \<Rightarrow> nat list option" where
  "decodeUtf8 [] = Some []"
| "decodeUtf8 (b # bs) =
     (if unat b < 128 then map_option ((#) (unat b)) (decodeUtf8 bs)
      else if unat b < 224 then
        (case bs of
           b1 # bs1 \<Rightarrow> map_option ((#) ((unat b - 192) * 64 + (unat b1 - 128))) (decodeUtf8 bs1)
         | _ \<Rightarrow> None)
      else if unat b < 240 then
        (case bs of
           b1 # b2 # bs2 \<Rightarrow>
             map_option ((#) ((unat b - 224) * 4096 + (unat b1 - 128) * 64 + (unat b2 - 128))) (decodeUtf8 bs2)
         | _ \<Rightarrow> None)
      else
        (case bs of
           b1 # b2 # b3 # bs3 \<Rightarrow>
             map_option ((#) ((unat b - 240) * 262144 + (unat b1 - 128) * 4096 + (unat b2 - 128) * 64 +
               (unat b3 - 128))) (decodeUtf8 bs3)
         | _ \<Rightarrow> None))"

lemma unat_byte: "n < 256 \<Longrightarrow> unat (word_of_nat n :: 8 word) = n"
  by (simp add: unat_of_nat take_bit_eq_mod)

lemma split_point: "c div 4096 * 4096 + c div 64 mod 64 * 64 + c mod 64 = c"
  "c div 262144 * 262144 + c div 4096 mod 64 * 4096 + c div 64 mod 64 * 64 + c mod 64 = c" for c :: nat
proof -
  define p q r where "p = c mod 64" and "q = c div 64 mod 64" and "r = c div 4096 mod 64"
  have "c = c div 64 * 64 + p" "c div 64 = c div 4096 * 64 + q" "c div 4096 = c div 262144 * 64 + r"
    using div_mult_mod_eq [of "c div 64" 64] div_mult_mod_eq [of "c div 4096" 64]
    by (simp_all add: p_def q_def r_def div_mult2_eq [of c 64 64, simplified]
        div_mult2_eq [of c 4096 64, simplified])
  then have "c div 4096 * 4096 + q * 64 + p = c" "c div 262144 * 262144 + r * 4096 + q * 64 + p = c"
    by linarith+
  then show "c div 4096 * 4096 + c div 64 mod 64 * 64 + c mod 64 = c"
    "c div 262144 * 262144 + c div 4096 mod 64 * 4096 + c div 64 mod 64 * 64 + c mod 64 = c"
    unfolding p_def q_def r_def .
qed

lemma decode_codePoint:
  assumes "c < 0x110000"
  shows "decodeUtf8 (utf8CodePoint c @ bs) = map_option ((#) c) (decodeUtf8 bs)"
proof -
  have small: "c div 262144 < 8" using assms by auto
  consider "c < 0x80" | "0x80 \<le> c" "c < 0x800" | "0x800 \<le> c" "c < 0x10000" | "0x10000 \<le> c" by linarith
  then show ?thesis
  proof cases
    case 1
    then show ?thesis by (simp add: utf8CodePoint_arith unat_byte del: of_nat_add)
  next
    case 2
    then have "c div 64 < 32" by auto
    with 2 show ?thesis by (simp add: utf8CodePoint_arith unat_byte del: of_nat_add)
  next
    case 3
    then have "c div 4096 < 16" by auto
    with 3 show ?thesis by (simp add: utf8CodePoint_arith unat_byte split_point del: of_nat_add)
  next
    case 4
    with small assms show ?thesis by (simp add: utf8CodePoint_arith unat_byte split_point del: of_nat_add)
  qed
qed

definition codeUnits :: "nat \<Rightarrow> js_text" where
  "codeUnits c =
     (if c < 0x10000 then [word_of_nat c]
      else [word_of_nat (0xd800 + (c - 0x10000) div 0x400), word_of_nat (0xdc00 + (c - 0x10000) mod 0x400)])"

definition decodeText :: "8 word list \<Rightarrow> js_text option" where
  "decodeText bs = map_option (\<lambda>cs. concat (map codeUnits cs)) (decodeUtf8 bs)"

lemma surrogate_pair:
  fixes u v :: "16 word"
  assumes "0xd800 \<le> u" "u \<le> 0xdbff" "0xdc00 \<le> v" "v \<le> 0xdfff"
  defines "c \<equiv> 0x10000 + (unat u - 0xd800) * 0x400 + (unat v - 0xdc00)"
  shows "0x10000 \<le> c" "c < 0x110000" "codeUnits c = [u, v]"
proof -
  have u: "0xd800 \<le> unat u" "unat u \<le> 0xdbff" "0xdc00 \<le> unat v" "unat v \<le> 0xdfff"
    using assms by (simp_all add: word_le_nat_alt)
  then show "0x10000 \<le> c" "c < 0x110000" by (simp_all add: c_def)
  have "(c - 0x10000) div 0x400 = unat u - 0xd800" "(c - 0x10000) mod 0x400 = unat v - 0xdc00"
  proof -
    have "c - 0x10000 = (unat v - 0xdc00) + (unat u - 0xd800) * 0x400" using u by (simp add: c_def)
    moreover have "unat v - 0xdc00 < 0x400" using u by simp
    ultimately show "(c - 0x10000) div 0x400 = unat u - 0xd800" "(c - 0x10000) mod 0x400 = unat v - 0xdc00"
      by (simp_all add: div_mult_self1 mod_mult_self1)
  qed
  then show "codeUnits c = [u, v]"
    using u \<open>0x10000 \<le> c\<close> by (simp add: codeUnits_def del: of_nat_add)
qed

lemma unat_unit: "unat (u :: 16 word) < 0x10000"
  by (rule order_less_le_trans [OF unsigned_less]) simp

lemma codePoints_units: "concat (map codeUnits (codePoints s)) = s \<and> (\<forall>c \<in> set (codePoints s). c < 0x110000)"
proof (induction s rule: codePoints.induct)
  case (2 u)
  then show ?case using unat_unit [of u] by (simp add: codeUnits_def)
next
  case (3 u v us)
  then show ?case using unat_unit [of u] surrogate_pair [of u v]
    by (auto simp: codeUnits_def)
qed simp

lemma utf8Bytes_codePoints: "utf8Bytes s = concat (map utf8CodePoint (codePoints s))"
proof (induction s rule: codePoints.induct)
  case (2 u)
  then show ?case using unat_unit [of u] by (simp add: codePointAt_def)
next
  case (3 u v us)
  then show ?case using unat_unit [of u] surrogate_pair [of u v] by (auto simp: codePointAt_def)
qed simp

lemma length_utf8CodePoint: "length (utf8CodePoint c) = (if c < 0x80 then 1 else if c < 0x800 then 2 else if c < 0x10000 then 3 else 4)"
  by (simp add: utf8CodePoint_def)

lemma utf8Length_exact:
  "\<not> containsUnpairedSurrogate s \<Longrightarrow> utf8Length s = length (utf8Bytes s)"
proof (induction s rule: codePoints.induct)
  case (2 u)
  then show ?case
    using unat_unit [of u] by (auto simp: containsUnpairedSurrogate_def codePointAt_def length_utf8CodePoint word_le_nat_alt)
next
  case (3 u v us)
  show ?case
  proof (cases "0xd800 \<le> u \<and> u \<le> 0xdbff \<and> 0xdc00 \<le> v \<and> v \<le> 0xdfff")
    case True
    then have "0x7f < u" "0x7ff < u" by (auto simp: word_le_nat_alt word_less_nat_alt)
    with True 3 surrogate_pair [of u v] show ?thesis
      by (auto simp: containsUnpairedSurrogate_def codePointAt_def length_utf8CodePoint)
  next
    case False
    then have point: "codePointAt u (v # us) = unat u" "codePoints (u # v # us) = unat u # codePoints (v # us)"
      by (auto simp: codePointAt_def)
    have rest: "\<not> containsUnpairedSurrogate (v # us)" and "\<not> (0xd800 \<le> unat u \<and> unat u \<le> 0xdfff)"
      using "3.prems" unfolding containsUnpairedSurrogate_def point by simp_all
    moreover have "utf8Length (v # us) = length (utf8Bytes (v # us))" using "3.IH"(2) False rest by blast
    ultimately show ?thesis
      using unat_unit [of u] point unfolding utf8Length.simps(2) [of u "v # us"] utf8Bytes.simps(2) [of u "v # us"]
      by (auto simp: length_utf8CodePoint word_le_nat_alt simp del: utf8Length.simps utf8Bytes.simps)
  qed
qed simp

lemma decode_points: "\<forall>c \<in> set cs. c < 0x110000 \<Longrightarrow> decodeUtf8 (concat (map utf8CodePoint cs)) = Some cs"
  by (induction cs) (simp_all add: decode_codePoint)

lemma decodeText_encodeUtf8: "\<not> containsUnpairedSurrogate s \<Longrightarrow> decodeText (encodeUtf8 s) = Some s"
proof -
  assume s: "\<not> containsUnpairedSurrogate s"
  have "encodeUtf8 s = utf8Bytes s" using utf8Length_exact [OF s] by (simp add: encodeUtf8_def)
  moreover have "decodeUtf8 (utf8Bytes s) = Some (codePoints s)"
    unfolding utf8Bytes_codePoints by (rule decode_points) (use codePoints_units in blast)
  ultimately show ?thesis using codePoints_units [of s] by (simp add: decodeText_def)
qed

text \<open>
  C36: the bytes of a text without unpaired surrogates fill the precomputed array exactly, and decoding
  them gives the text back.
\<close>

theorem utf8_roundtrip:
  assumes "\<not> containsUnpairedSurrogate s"
  shows "length (encodeUtf8 s) = utf8Length s \<and> decodeText (encodeUtf8 s) = Some s"
  using decodeText_encodeUtf8 [OF assms] utf8Length_exact [OF assms] by (simp add: encodeUtf8_def)

theorem utf8_roundtrip_witness:
  "decodeText (encodeUtf8 [0x41, 0xe9, 0x20ac, 0xd83d, 0xde00]) = Some [0x41, 0xe9, 0x20ac, 0xd83d, 0xde00]"
proof -
  have "\<not> containsUnpairedSurrogate [0x41, 0xe9, 0x20ac, 0xd83d, 0xde00]"
    by (simp add: containsUnpairedSurrogate_def)
  from utf8_roundtrip [OF this] show ?thesis by blast
qed

end
