(* ===== verification/Canonical_Identity.thy ===== *)
theory Canonical_Identity
  imports Canonical_Bytes "HOL-Library.Multiset"
begin

text \<open>
  The bytes of the canonical encoding identify a JSON value up to the order of object properties: the
  cached encoder equals a reference without cache on the sorted value, texts can be read in one way
  only, and UTF-8 loses nothing.
\<close>

section \<open>The encoder without its cache\<close>

primrec normalizeJson :: "json \<Rightarrow> json" where
  "normalizeJson JNull = JNull"
| "normalizeJson (JBoolean b) = JBoolean b"
| "normalizeJson (JNumber n) = JNumber n"
| "normalizeJson (JString s) = JString s"
| "normalizeJson JNotJson = JNotJson"
| "normalizeJson (JArray xs) = JArray (map (map_option normalizeJson) xs)"
| "normalizeJson (JObject p s ps) = JObject p s (sortBy compareKeys (map (map_prod id normalizeJson) ps))"

primrec jsonText :: "json \<Rightarrow> js_text" where
  "jsonText JNull = js_text_of ''null''"
| "jsonText (JBoolean b) = js_text_of (if b then ''true'' else ''false'')"
| "jsonText (JNumber n) = js_text_of (numberText n)"
| "jsonText (JString s) = quoteText s"
| "jsonText JNotJson = []"
| "jsonText (JArray xs) = 0x5b # joinComma (map (case_option [] id) (map (map_option jsonText) xs)) @ [0x5d]"
| "jsonText (JObject p s ps) =
     0x7b # joinComma (map (\<lambda>(k, t). quoteText k @ 0x3a # t) (map (map_prod id jsonText) ps)) @ [0x7d]"

primrec jsonHeight :: "json \<Rightarrow> nat" where
  "jsonHeight JNull = 0"
| "jsonHeight (JBoolean b) = 0"
| "jsonHeight (JNumber n) = 0"
| "jsonHeight (JString s) = 0"
| "jsonHeight JNotJson = 0"
| "jsonHeight (JArray xs) = foldr max (map (case_option 0 Suc) (map (map_option jsonHeight) xs)) 0"
| "jsonHeight (JObject p s ps) = foldr max (map (Suc \<circ> snd) (map (map_prod id jsonHeight) ps)) 0"

primrec jsonStrict :: "json \<Rightarrow> bool" where
  "jsonStrict JNull = True"
| "jsonStrict (JBoolean b) = True"
| "jsonStrict (JNumber n) = (n \<noteq> JNonFinite)"
| "jsonStrict (JString s) = (\<not> containsUnpairedSurrogate s)"
| "jsonStrict JNotJson = False"
| "jsonStrict (JArray xs) = list_all (case_option False id) (map (map_option jsonStrict) xs)"
| "jsonStrict (JObject p s ps) =
     (p \<and> \<not> s \<and> list_all (\<lambda>(k, b). \<not> containsUnpairedSurrogate k \<and> b) (map (map_prod id jsonStrict) ps))"

definition admitted :: "nat \<Rightarrow> json \<Rightarrow> bool" where
  "admitted depth v \<longleftrightarrow> depth + jsonHeight v \<le> MAX_CANONICAL_NESTING_DEPTH \<and> jsonStrict v"

definition cacheExact :: "key_encodings \<Rightarrow> bool" where
  "cacheExact cache \<longleftrightarrow>
     (\<forall>(k, t) \<in> set cache. t = quoteText k \<and> \<not> containsUnpairedSurrogate k)"

lemma foldr_max_le: "d + foldr max xs 0 \<le> b \<longleftrightarrow> d \<le> b \<and> (\<forall>x \<in> set xs. d + x \<le> (b :: nat))"
  by (induction xs) auto

lemma admitted_array:
  "admitted d (JArray xs) \<longleftrightarrow>
     d \<le> MAX_CANONICAL_NESTING_DEPTH \<and> (\<forall>x \<in> set xs. case x of None \<Rightarrow> False | Some v \<Rightarrow> admitted (d + 1) v)"
proof -
  have "(\<forall>x \<in> set xs. d + (case map_option jsonHeight x of None \<Rightarrow> 0 | Some n \<Rightarrow> Suc n) \<le> b) \<and>
      (\<forall>x \<in> set xs. case map_option jsonStrict x of None \<Rightarrow> False | Some b \<Rightarrow> b) \<longleftrightarrow>
      (\<forall>x \<in> set xs. case x of None \<Rightarrow> False | Some v \<Rightarrow> d + 1 + jsonHeight v \<le> b \<and> jsonStrict v)" for b
    by (force split: option.splits)
  then show ?thesis by (auto simp: admitted_def foldr_max_le list_all_iff split: option.splits)
qed

lemma admitted_object:
  "admitted d (JObject p s ps) \<longleftrightarrow>
     d \<le> MAX_CANONICAL_NESTING_DEPTH \<and> p \<and> \<not> s \<and>
     (\<forall>(k, v) \<in> set ps. \<not> containsUnpairedSurrogate k \<and> admitted (d + 1) v)"
  by (auto simp: admitted_def foldr_max_le list_all_iff)

lemma encodeKey_exact:
  assumes "cacheExact cache"
  shows "if containsUnpairedSurrogate k then encodeKey k cache = Inl NotScalarKey
    else \<exists>cache'. encodeKey k cache = Inr (quoteText k, cache') \<and> cacheExact cache'"
proof (cases "map_of cache k")
  case None
  then show ?thesis using assms by (auto simp: encodeKey_def cacheExact_def Let_def)
next
  case (Some t)
  then have "(k, t) \<in> set cache" by (rule map_of_SomeD)
  with assms Some show ?thesis by (auto simp: encodeKey_def cacheExact_def)
qed

lemma sortBy_values:
  "sortBy compareKeys (map (map_prod id f) ps) = map (map_prod id f) (sortBy compareKeys ps)"
proof -
  have "insertBy compareKeys (map_prod id f x) (map (map_prod id f) ys) =
      map (map_prod id f) (insertBy compareKeys x ys)" for x ys
    by (induction ys) (auto simp: compareKeys_def)
  then show ?thesis by (induction ps) (simp_all add: sortBy_def)
qed

text \<open>The texts of array items and of properties, and the outcome of an encoding.\<close>

definition entryText :: "js_text \<times> json \<Rightarrow> js_text" where
  "entryText x = quoteText (fst x) @ 0x3a # jsonText (snd x)"

definition encodes :: "bool \<Rightarrow> 'a \<Rightarrow> (canonical_error, 'a \<times> key_encodings) result \<Rightarrow> bool" where
  "encodes ok t r \<longleftrightarrow>
     (if ok then \<exists>cache. r = Inr (t, cache) \<and> cacheExact cache else \<exists>e. r = Inl e)"

lemma jsonText_array: "jsonText (JArray (map Some vs)) = 0x5b # joinComma (map jsonText vs) @ [0x5d]"
  by (simp add: comp_def)

lemma jsonText_object: "jsonText (JObject p s ps) = 0x7b # joinComma (map entryText ps) @ [0x7d]"
  by (simp add: entryText_def [abs_def] case_prod_beta comp_def)

lemma canonical_encodes:
  "cacheExact cache \<Longrightarrow> encodes (admitted depth v) (jsonText (normalizeJson v)) (canonicalJson v depth cache)"
  "cacheExact cache \<Longrightarrow> encodes (\<forall>x \<in> set xs. case x of None \<Rightarrow> False | Some v \<Rightarrow> admitted depth v)
     (map (\<lambda>x. jsonText (normalizeJson (the x))) xs) (canonicalItems xs depth cache)"
  "cacheExact cache \<Longrightarrow> encodes (\<forall>(k, v) \<in> set ps. \<not> containsUnpairedSurrogate k \<and> admitted depth v)
     (map (\<lambda>x. entryText (fst x, normalizeJson (snd x))) ps) (canonicalEntries ps depth cache)"
proof (induction v depth cache and xs depth cache and ps depth cache
    rule: canonicalJson_canonicalItems_canonicalEntries.induct)
  case (1 v depth cache)
  show ?case
  proof (cases "MAX_CANONICAL_NESTING_DEPTH < depth")
    case True
    then show ?thesis by (simp add: canonicalJson.simps encodes_def admitted_def)
  next
    case False
    show ?thesis
    proof (cases v)
      case (JArray xs)
      have items: "jsonText (normalizeJson (JArray xs)) =
          0x5b # joinComma (map (\<lambda>x. jsonText (normalizeJson (the x))) xs) @ [0x5d]"
        if "\<forall>x \<in> set xs. case x of None \<Rightarrow> False | Some v \<Rightarrow> admitted (depth + 1) v"
      proof -
        have "map (case_option [] id) (map (map_option jsonText) (map (map_option normalizeJson) xs)) =
            map (\<lambda>x. jsonText (normalizeJson (the x))) xs"
          using that by (auto split: option.splits)
        then show ?thesis by (simp only: normalizeJson.simps jsonText.simps)
      qed
      show ?thesis
        using 1(1) [OF False JArray "1.prems"] False JArray items
        unfolding canonicalJson.simps [of v] admitted_array [of depth xs] encodes_def
        by (auto simp: admitted_array simp del: jsonText.simps normalizeJson.simps split: if_splits)
    next
      case (JObject p s ps)
      have perm: "(\<forall>(k, v) \<in> set (sortBy compareKeys ps). Q k v) \<longleftrightarrow> (\<forall>(k, v) \<in> set ps. Q k v)" for Q
        by simp
      have body: "jsonText (normalizeJson (JObject a b ps)) =
          0x7b # joinComma (map (\<lambda>x. entryText (fst x, normalizeJson (snd x))) (sortBy compareKeys ps)) @ [0x7d]"
        for a b by (simp only: normalizeJson.simps sortBy_values jsonText_object) (simp add: comp_def map_prod_def case_prod_beta)
      show ?thesis
        using 1(2) [OF False JObject] "1.prems" False JObject
        unfolding canonicalJson.simps [of v] encodes_def perm
        by (auto simp: admitted_object body simp del: jsonText.simps normalizeJson.simps split: if_splits)
    qed (use "1.prems" False in \<open>auto simp: canonicalJson.simps encodes_def admitted_def\<close>)
  qed
next
  case (4 v items depth cache)
  have first: "encodes (admitted depth v) (jsonText (normalizeJson v)) (canonicalJson v depth cache)"
    using "4.IH"(1) "4.prems" .
  show ?case
  proof (cases "admitted depth v")
    case True
    with first obtain c where c: "canonicalJson v depth cache = Inr (jsonText (normalizeJson v), c)" "cacheExact c"
      by (auto simp: encodes_def)
    from "4.IH"(2) [OF c(1) refl c(2)] c True show ?thesis
      by (auto simp: encodes_def split: if_splits)
  qed (use first in \<open>auto simp: encodes_def\<close>)
next
  case (6 key v entries depth cache)
  show ?case
  proof (cases "containsUnpairedSurrogate key")
    case True
    then show ?thesis using encodeKey_exact [OF "6.prems", of key] by (simp add: encodes_def)
  next
    case False
    then obtain c where c: "encodeKey key cache = Inr (quoteText key, c)" "cacheExact c"
      using encodeKey_exact [OF "6.prems", of key] by auto
    have first: "encodes (admitted depth v) (jsonText (normalizeJson v)) (canonicalJson v depth c)"
      using "6.IH"(1) [OF c(1) refl c(2)] .
    show ?thesis
    proof (cases "admitted depth v")
      case True
      with first obtain c' where c': "canonicalJson v depth c = Inr (jsonText (normalizeJson v), c')" "cacheExact c'"
        by (auto simp: encodes_def)
      from "6.IH"(2) [OF c(1) refl c'(1) refl c'(2)] c(1) c'(1) True False show ?thesis
        by (auto simp: encodes_def entryText_def split: if_splits)
    qed (use first c(1) in \<open>auto simp: encodes_def\<close>)
  qed
qed (auto simp: encodes_def)

section \<open>Texts are read in one way only\<close>

definition hexValue :: "16 word \<Rightarrow> nat" where
  "hexValue u = (if unat u < 58 then unat u - 48 else unat u - 87)"

definition unescapeUnit :: "js_text \<Rightarrow> 16 word \<times> js_text" where
  "unescapeUnit t =
     (if hd t \<noteq> 0x5c then (hd t, tl t)
      else if t ! 1 = 0x62 then (0x8, drop 2 t)
      else if t ! 1 = 0x74 then (0x9, drop 2 t)
      else if t ! 1 = 0x6e then (0xa, drop 2 t)
      else if t ! 1 = 0x66 then (0xc, drop 2 t)
      else if t ! 1 = 0x72 then (0xd, drop 2 t)
      else if t ! 1 = 0x75 then (word_of_nat (16 * hexValue (t ! 4) + hexValue (t ! 5)), drop 6 t)
      else (t ! 1, drop 2 t))"

lemma hexValue_hexDigit: "n < 16 \<Longrightarrow> hexValue (hexDigit n) = n"
  by (simp add: hexValue_def hexDigit_def unat_of_nat take_bit_eq_mod del: of_nat_add)

lemma escapeUnit_cases:
  assumes "u \<notin> {0x22, 0x5c, 0x8, 0x9, 0xa, 0xc, 0xd}"
  shows "escapeUnit u =
    (if u < 0x20 then [0x5c, 0x75, 0x30, 0x30, hexDigit (unat u div 16), hexDigit (unat u mod 16)] else [u])"
  using assms by (simp add: escapeUnit_def)

lemma unescape_escape: "unescapeUnit (escapeUnit u @ x) = (u, x)"
proof (cases "u \<in> {0x22, 0x5c, 0x8, 0x9, 0xa, 0xc, 0xd}")
  case True
  then show ?thesis by (elim insertE emptyE) (simp_all add: escapeUnit_def unescapeUnit_def)
next
  case False
  show ?thesis
  proof (cases "u < 0x20")
    case True
    then have "unat u < 32" by (simp add: word_less_nat_alt)
    then have "16 * hexValue (hexDigit (unat u div 16)) + hexValue (hexDigit (unat u mod 16)) = unat u"
      by (simp add: hexValue_hexDigit)
    then show ?thesis
      unfolding escapeUnit_cases [OF False] using True by (simp add: unescapeUnit_def del: of_nat_add of_nat_mult)
  next
    case ge: False
    have "u \<noteq> 0x5c" using False by simp
    then show ?thesis unfolding escapeUnit_cases [OF False] using ge by (simp add: unescapeUnit_def)
  qed
qed

lemma escapeUnit_prefix: "escapeUnit u @ x = escapeUnit v @ y \<Longrightarrow> u = v \<and> x = y"
  by (metis unescape_escape prod.inject)

lemma escapeUnit_first: "\<exists>h t. escapeUnit u = h # t \<and> h \<noteq> 0x22"
  by (auto simp: escapeUnit_def)

lemma escape_prefix:
  "concat (map escapeUnit s) @ 0x22 # x = concat (map escapeUnit t) @ 0x22 # y \<Longrightarrow> s = t \<and> x = y"
proof (induction s arbitrary: t)
  case Nil
  then show ?case
    using escapeUnit_first [of "hd t"] by (cases t) auto
next
  case (Cons u s)
  show ?case
  proof (cases t)
    case Nil
    with Cons.prems escapeUnit_first [of u] show ?thesis by auto
  next
    case (Cons v t')
    with Cons.prems escapeUnit_prefix [of u "concat (map escapeUnit s) @ 0x22 # x" v
        "concat (map escapeUnit t') @ 0x22 # y"] Cons.IH [of t'] show ?thesis by auto
  qed
qed

lemma quoteText_prefix: "quoteText s @ x = quoteText t @ y \<Longrightarrow> s = t \<and> x = y"
  using escape_prefix [of s x t y] by (simp add: quoteText_def)

definition numberUnit :: "16 word \<Rightarrow> bool" where
  "numberUnit u \<longleftrightarrow> (0x30 \<le> u \<and> u \<le> 0x39) \<or> u \<in> {0x2b, 0x2d, 0x2e, 0x65}"

definition stops :: "js_text \<Rightarrow> bool" where
  "stops x \<longleftrightarrow> (case x of [] \<Rightarrow> True | u # _ \<Rightarrow> \<not> numberUnit u)"

text \<open>
  A number has one representation in the model: an integer is in the safe range, any other text is
  not the text of such an integer.
\<close>

fun numberExact :: "json_number \<Rightarrow> bool" where
  "numberExact (JInteger n) = (\<bar>n\<bar> \<le> MAX_SAFE_INTEGER)"
| "numberExact (JDecimal t) =
     (t \<noteq> [] \<and> list_all numberUnit (js_text_of t) \<and> hd (js_text_of t) \<noteq> 0x65 \<and>
      (showInt (bigInt t) = t \<longrightarrow> MAX_SAFE_INTEGER < \<bar>bigInt t\<bar>))"
| "numberExact JNonFinite = True"

lemma unat_char: "unat (word_of_nat (of_char c) :: 16 word) = of_char c"
proof -
  have "(of_char c :: nat) < 256" by simp
  then have "(of_char c :: nat) < 65536" by linarith
  then show ?thesis by (simp add: unat_of_nat take_bit_eq_mod)
qed

lemma js_text_of_inj: "js_text_of s = js_text_of t \<longleftrightarrow> s = t"
proof -
  have "word_of_nat (of_char c) = (word_of_nat (of_char d) :: 16 word) \<longleftrightarrow> c = d" for c d :: char
  proof -
    show ?thesis by (metis unat_char of_char_eq_iff)
  qed
  then have "inj (\<lambda>c. word_of_nat (of_char c) :: 16 word)" by (simp add: inj_def)
  then show ?thesis by (simp add: js_text_of_def inj_map_eq_map)
qed

lemma number_prefix:
  assumes "list_all numberUnit s" "list_all numberUnit t" "stops x" "stops y" "s @ x = t @ y"
  shows "s = t \<and> x = y"
proof -
  have "takeWhile numberUnit (r @ z) = r" if "list_all numberUnit r" "stops z" for r z
    using that by (cases z) (auto simp: takeWhile_append2 list_all_iff stops_def)
  then have "s = t" using assms by metis
  with assms(5) show ?thesis by simp
qed

lemma digit_numberUnit: "digit_char c \<Longrightarrow> numberUnit (word_of_nat (of_char c))"
  using nat_of_char_less_256 [of c]
  by (simp add: digit_char_def in_range_def numberUnit_def word_le_nat_alt unat_of_nat take_bit_eq_mod)

lemma showNat_numberUnits: "list_all numberUnit (js_text_of (showNat n))"
  using canonicalDigits_showNat [of n] digit_numberUnit by (auto simp: js_text_of_def list_all_iff)

lemma showInt_numberUnits: "list_all numberUnit (js_text_of (showInt n))"
proof -
  have "numberUnit 0x2d" by (simp add: numberUnit_def)
  then show ?thesis using showNat_numberUnits by (auto simp: showInt_def js_text_of_def)
qed

lemma numberText_units:
  "numberExact n \<Longrightarrow> n \<noteq> JNonFinite \<Longrightarrow> list_all numberUnit (js_text_of (numberText n))"
  by (cases n) (simp_all add: showInt_numberUnits)

lemma numberText_inj:
  assumes "numberExact m" "numberExact n" "m \<noteq> JNonFinite" "n \<noteq> JNonFinite" "numberText m = numberText n"
  shows "m = n"
  using assms by (cases m; cases n) (auto dest: arg_cong [where f = bigInt] simp: bigInt_showInt)

text \<open>Each kind of value starts with a unit of its own.\<close>

primrec firstUnit :: "json \<Rightarrow> 16 word \<Rightarrow> bool" where
  "firstUnit JNull u = (u = 0x6e)"
| "firstUnit (JBoolean b) u = (u = (if b then 0x74 else 0x66))"
| "firstUnit (JNumber n) u = (numberUnit u \<and> u \<noteq> 0x65)"
| "firstUnit (JString s) u = (u = 0x22)"
| "firstUnit JNotJson u = False"
| "firstUnit (JArray xs) u = (u = 0x5b)"
| "firstUnit (JObject p s ps) u = (u = 0x7b)"

primrec numbersExact :: "json \<Rightarrow> bool" where
  "numbersExact JNull = True"
| "numbersExact (JBoolean b) = True"
| "numbersExact (JNumber n) = numberExact n"
| "numbersExact (JString s) = True"
| "numbersExact JNotJson = True"
| "numbersExact (JArray xs) = list_all (case_option True id) (map (map_option numbersExact) xs)"
| "numbersExact (JObject p s ps) = list_all snd (map (map_prod id numbersExact) ps)"

lemma showInt_first: "showInt n \<noteq> [] \<and> hd (js_text_of (showInt n)) \<noteq> 0x65"
proof -
  have "showNat m \<noteq> [] \<and> hd (js_text_of (showNat m)) \<noteq> 0x65" for m
  proof -
    obtain c cs where c: "showNat m = c # cs" "digit_char c"
      using canonicalDigits_showNat [of m] by (cases "showNat m") auto
    have "(word_of_nat (of_char c) :: 16 word) \<le> 0x39"
      using c(2) nat_of_char_less_256 [of c]
      by (simp add: digit_char_def in_range_def word_le_nat_alt unat_of_nat take_bit_eq_mod)
    then have "(word_of_nat (of_char c) :: 16 word) \<noteq> 0x65" by auto
    with c(1) show ?thesis by (simp add: js_text_of_def)
  qed
  then show ?thesis by (simp add: showInt_def js_text_of_def)
qed

lemma jsonText_first:
  assumes "jsonStrict v" "numbersExact v"
  shows "\<exists>u t. jsonText v = u # t \<and> firstUnit v u"
proof (cases v)
  case (JNumber n)
  have "list_all numberUnit (js_text_of (numberText n))" using assms JNumber numberText_units by simp
  moreover have "js_text_of (numberText n) \<noteq> []" "hd (js_text_of (numberText n)) \<noteq> 0x65"
    using assms JNumber showInt_first by (cases n; auto simp: js_text_of_def)+
  ultimately show ?thesis using JNumber by (cases "js_text_of (numberText n)") auto
qed (use assms in \<open>auto simp: js_text_of_def quoteText_def\<close>)

lemma firstUnit_kind:
  "firstUnit v u \<Longrightarrow> firstUnit w u \<Longrightarrow>
     (case v of JNull \<Rightarrow> w = JNull | JBoolean b \<Rightarrow> w = JBoolean b | JNumber n \<Rightarrow> \<exists>m. w = JNumber m
      | JString s \<Rightarrow> \<exists>t. w = JString t | JNotJson \<Rightarrow> False | JArray xs \<Rightarrow> \<exists>ys. w = JArray ys
      | JObject p s ps \<Rightarrow> \<exists>q t qs. w = JObject q t qs)"
  by (cases v; cases w) (auto simp: numberUnit_def split: if_splits)

lemma joinComma_Cons: "joinComma (x # xs) = x @ (if xs = [] then [] else 0x2c # joinComma xs)"
  by (cases xs) auto

lemma joinComma_prefix:
  assumes "\<And>a b x y. a \<in> set as \<Longrightarrow> b \<in> set bs \<Longrightarrow> stops x \<Longrightarrow> stops y \<Longrightarrow> f a @ x = f b @ y \<Longrightarrow> a = b \<and> x = y"
    and "\<And>a. a \<in> set as \<union> set bs \<Longrightarrow> \<exists>u t. f a = u # t \<and> u \<noteq> close"
    and close: "\<not> numberUnit close" "close \<noteq> 0x2c"
    and "joinComma (map f as) @ close # x = joinComma (map f bs) @ close # y"
  shows "as = bs \<and> x = y"
  using assms(1,2,5)
proof (induction as arbitrary: bs)
  case Nil
  show ?case
  proof (cases bs)
    case (Cons b bs')
    then obtain u t where "f b = u # t" "u \<noteq> close" using Nil.prems(2) [of b] by auto
    with Nil.prems(3) Cons show ?thesis by (simp add: joinComma_Cons)
  qed (use Nil in simp)
next
  case (Cons a as)
  have comma: "\<not> numberUnit 0x2c" by (simp add: numberUnit_def)
  show ?case
  proof (cases bs)
    case Nil
    obtain u t where "f a = u # t" "u \<noteq> close" using Cons.prems(2) [of a] by auto
    with Cons.prems(3) Nil show ?thesis by (simp add: joinComma_Cons)
  next
    case bs: (Cons b bs')
    let ?x = "(if as = [] then [] else 0x2c # joinComma (map f as)) @ close # x"
    let ?y = "(if bs' = [] then [] else 0x2c # joinComma (map f bs')) @ close # y"
    have "stops ?x" "stops ?y" using close comma by (simp_all add: stops_def)
    moreover have "f a @ ?x = f b @ ?y" using Cons.prems(3) bs by (auto simp: joinComma_Cons)
    ultimately have ab: "a = b" "?x = ?y" using Cons.prems(1) [of a b ?x ?y] bs by auto
    show ?thesis
    proof (cases "as = [] \<or> bs' = []")
      case True
      then show ?thesis using ab bs close(2) by (auto split: if_splits)
    next
      case False
      then have "joinComma (map f as) @ close # x = joinComma (map f bs') @ close # y" using ab(2) by simp
      then have "as = bs' \<and> x = y"
        using Cons.prems(1,2) bs by (intro Cons.IH) auto
      with ab bs show ?thesis by simp
    qed
  qed
qed

lemma strict_array:
  assumes "jsonStrict (JArray xs)" "numbersExact (JArray xs)"
  obtains vs where "xs = map Some vs" "\<forall>v \<in> set vs. jsonStrict v \<and> numbersExact v"
proof (rule that [of "map the xs"])
  have "x \<noteq> None \<and> jsonStrict (the x) \<and> numbersExact (the x)" if "x \<in> set xs" for x
    using assms that by (cases x) (auto simp: list_all_iff)
  then show "xs = map Some (map the xs)" "\<forall>v \<in> set (map the xs). jsonStrict v \<and> numbersExact v"
    by (auto simp: map_idI)
qed

lemma strict_object:
  assumes "jsonStrict (JObject p s ps)" "numbersExact (JObject p s ps)"
  shows "p" "\<not> s" "\<And>k v. (k, v) \<in> set ps \<Longrightarrow> jsonStrict v \<and> numbersExact v \<and> \<not> containsUnpairedSurrogate k"
  using assms by (auto simp: list_all_iff)

lemma firstUnit_brackets: "firstUnit v u \<Longrightarrow> u \<noteq> 0x5d \<and> u \<noteq> 0x7d"
  by (cases v) (auto simp: numberUnit_def)

lemma same_first:
  assumes "jsonStrict v" "numbersExact v" "jsonStrict w" "numbersExact w" "jsonText v @ x = jsonText w @ y"
  obtains u where "firstUnit v u" "firstUnit w u"
  using jsonText_first [OF assms(1,2)] jsonText_first [OF assms(3,4)] assms(5) by auto

lemma entryText_prefix:
  assumes "\<And>w x y. jsonStrict w \<Longrightarrow> numbersExact w \<Longrightarrow> stops x \<Longrightarrow> stops y \<Longrightarrow>
      jsonText v @ x = jsonText w @ y \<Longrightarrow> v = w \<and> x = y"
    and "jsonStrict w" "numbersExact w" "stops x" "stops y" "entryText (k, v) @ x = entryText (l, w) @ y"
  shows "(k, v) = (l, w) \<and> x = y"
  using assms quoteText_prefix [of k "0x3a # jsonText v @ x" l "0x3a # jsonText w @ y"]
  by (auto simp: entryText_def)

lemma jsonText_prefix:
  assumes "jsonStrict v" "numbersExact v" "jsonStrict w" "numbersExact w" "stops x" "stops y"
    and "jsonText v @ x = jsonText w @ y"
  shows "v = w \<and> x = y"
  using assms
proof (induction v arbitrary: w x y)
  case (JArray xs)
  note prem = JArray.prems
  obtain u where "firstUnit (JArray xs) u" "firstUnit w u" using same_first prem by metis
  then obtain ys where w: "w = JArray ys" using firstUnit_kind [of "JArray xs" u w] by auto
  obtain vs where vs: "xs = map Some vs" "\<forall>v \<in> set vs. jsonStrict v \<and> numbersExact v"
    using strict_array [OF prem(1,2)] .
  obtain ws where ws: "ys = map Some ws" "\<forall>v \<in> set ws. jsonStrict v \<and> numbersExact v"
    using strict_array [OF prem(3,4) [unfolded w]] .
  have "vs = ws \<and> x = y"
  proof (rule joinComma_prefix)
    show "joinComma (map jsonText vs) @ 0x5d # x = joinComma (map jsonText ws) @ 0x5d # y"
      using prem(7) unfolding w vs(1) ws(1) jsonText_array by simp
    show "\<exists>u t. jsonText a = u # t \<and> u \<noteq> 0x5d" if "a \<in> set vs \<union> set ws" for a
      using that jsonText_first [of a] firstUnit_brackets [of a] vs(2) ws(2) by blast
    show "a = b \<and> x = y" if "a \<in> set vs" "b \<in> set ws" "stops x" "stops y" "jsonText a @ x = jsonText b @ y"
      for a b x y
      using that vs ws(2) by (intro JArray.IH [of "Some a" a b]) auto
  qed (simp_all add: numberUnit_def)
  then show ?case using w vs(1) ws(1) by simp
next
  case (JObject p s ps)
  note prem = JObject.prems
  obtain u where "firstUnit (JObject p s ps) u" "firstUnit w u" using same_first prem by metis
  then obtain q t qs where w: "w = JObject q t qs" using firstUnit_kind [of "JObject p s ps" u w] by auto
  note left = strict_object [OF prem(1,2)] and right = strict_object [OF prem(3,4) [unfolded w]]
  have "ps = qs \<and> x = y"
  proof (rule joinComma_prefix)
    show "joinComma (map entryText ps) @ 0x7d # x = joinComma (map entryText qs) @ 0x7d # y"
      using prem(7) unfolding w jsonText_object by simp
    show "\<exists>u t. entryText a = u # t \<and> u \<noteq> 0x7d" for a
      by (simp add: entryText_def quoteText_def)
    show "a = b \<and> x = y" if "a \<in> set ps" "b \<in> set qs" "stops x" "stops y" "entryText a @ x = entryText b @ y"
      for a b x y
    proof -
      obtain k v l z where ab: "a = (k, v)" "b = (l, z)" by (cases a; cases b)
      have IH: "v = w \<and> x = y" if "jsonStrict w" "numbersExact w" "stops x" "stops y" "jsonText v @ x = jsonText w @ y"
        for w x y
        using that \<open>a \<in> set ps\<close> left(3) [of k v] ab by (intro JObject.IH [of a v w]) auto
      show ?thesis
        using that right(3) [of l z] entryText_prefix [OF IH, of z x y k l] unfolding ab by blast
    qed
  qed (simp_all add: numberUnit_def)
  then show ?case using w left(1,2) right(1,2) by simp
next
  case (JNumber n)
  note prem = JNumber.prems
  obtain u where "firstUnit (JNumber n) u" "firstUnit w u" using same_first prem by metis
  then obtain m where w: "w = JNumber m" using firstUnit_kind [of "JNumber n" u w] by auto
  have "js_text_of (numberText n) = js_text_of (numberText m) \<and> x = y"
    using prem numberText_units unfolding w by (intro number_prefix) auto
  then have "numberText n = numberText m" "x = y" by (simp_all add: js_text_of_inj)
  then show ?case using prem numberText_inj [of n m] unfolding w by simp
next
  case (JString s)
  note prem = JString.prems
  obtain u where "firstUnit (JString s) u" "firstUnit w u" using same_first prem by metis
  then obtain t where w: "w = JString t" using firstUnit_kind [of "JString s" u w] by auto
  then show ?case using quoteText_prefix [of s x t y] prem(7) by simp
next
  case JNull
  obtain u where "firstUnit JNull u" "firstUnit w u" using same_first JNull by metis
  then show ?case using firstUnit_kind [of JNull u w] JNull.prems by auto
next
  case (JBoolean b)
  obtain u where "firstUnit (JBoolean b) u" "firstUnit w u" using same_first JBoolean by metis
  then show ?case using firstUnit_kind [of "JBoolean b" u w] JBoolean.prems by auto
qed simp

section \<open>Normal forms\<close>

text \<open>
  Two values are the same JSON value when they differ in the order of object properties only.
\<close>

inductive sameJson :: "json \<Rightarrow> json \<Rightarrow> bool" where
  same_refl: "sameJson v v"
| same_array: "list_all2 (rel_option sameJson) xs ys \<Longrightarrow> sameJson (JArray xs) (JArray ys)"
| same_object: "mset ps = mset ps' \<Longrightarrow> list_all2 (rel_prod (=) sameJson) ps' qs' \<Longrightarrow> mset qs' = mset qs \<Longrightarrow>
    sameJson (JObject p s ps) (JObject p s qs)"
monos list.rel_mono option.rel_mono prod.rel_mono

primrec keysDistinct :: "json \<Rightarrow> bool" where
  "keysDistinct JNull = True"
| "keysDistinct (JBoolean b) = True"
| "keysDistinct (JNumber n) = True"
| "keysDistinct (JString s) = True"
| "keysDistinct JNotJson = True"
| "keysDistinct (JArray xs) = list_all (case_option True id) (map (map_option keysDistinct) xs)"
| "keysDistinct (JObject p s ps) = (distinct (map fst ps) \<and> list_all snd (map (map_prod id keysDistinct) ps))"

lemma mset_sortBy: "mset (sortBy cmp xs) = mset xs"
proof -
  have "mset (insertBy cmp x ys) = add_mset x (mset ys)" for x ys by (induction ys) auto
  then show ?thesis by (induction xs) (simp_all add: sortBy_def)
qed

lemma sortBy_compareKeys: "sortBy compareKeys = sort_key fst"
  using sortBy_compareCodeUnits [of fst] by (intro ext) (simp add: compareKeys_def [abs_def])

lemma same_normalize: "sameJson v w \<Longrightarrow> keysDistinct v \<Longrightarrow> normalizeJson v = normalizeJson w"
proof (induction rule: sameJson.induct)
  case (same_array xs ys)
  have "map (map_option normalizeJson) xs = map (map_option normalizeJson) ys"
  proof (rule nth_equalityI)
    fix i assume i: "i < length (map (map_option normalizeJson) xs)"
    then have "rel_option (\<lambda>v w. sameJson v w \<and> (keysDistinct v \<longrightarrow> normalizeJson v = normalizeJson w)) (xs ! i) (ys ! i)"
      using list_all2_nthD [OF same_array.IH] by simp
    moreover have "\<forall>x \<in> set xs. case x of None \<Rightarrow> True | Some v \<Rightarrow> keysDistinct v"
      using same_array.prems by (auto simp: list_all_iff split: option.splits)
    then have "case xs ! i of None \<Rightarrow> True | Some v \<Rightarrow> keysDistinct v" using i by simp
    ultimately show "map (map_option normalizeJson) xs ! i = map (map_option normalizeJson) ys ! i"
      using i list_all2_lengthD [OF same_array.IH] by (cases "xs ! i"; cases "ys ! i") auto
  qed (use list_all2_lengthD [OF same_array.IH] in simp)
  then show ?case by simp
next
  case (same_object ps ps' qs' qs p s)
  let ?N = "map (map_prod id normalizeJson)"
  have "?N ps' = ?N qs'"
  proof (rule nth_equalityI)
    fix i assume i: "i < length (?N ps')"
    then have "rel_prod (=) (\<lambda>v w. sameJson v w \<and> (keysDistinct v \<longrightarrow> normalizeJson v = normalizeJson w)) (ps' ! i) (qs' ! i)"
      using list_all2_nthD [OF same_object.IH] by simp
    moreover have "ps' ! i \<in> set ps" using i same_object.hyps(1) by (metis length_map nth_mem set_mset_mset)
    then have "keysDistinct (snd (ps' ! i))" using same_object.prems by (auto simp: list_all_iff)
    ultimately show "?N ps' ! i = ?N qs' ! i"
      using i list_all2_lengthD [OF same_object.IH] by (cases "ps' ! i"; cases "qs' ! i") auto
  qed (use list_all2_lengthD [OF same_object.IH] in simp)
  then have ms: "mset (?N ps) = mset (?N qs)"
    using same_object.hyps by (metis mset_map)
  have "distinct (map fst (?N ps))" using same_object.prems by (simp add: comp_def)
  then have inj: "inj_on fst (set (?N ps))" unfolding distinct_map by blast
  have "sort_key fst (?N ps) = sort_key fst (?N qs)"
    by (rule sort_key_inj_key_eq) (use ms inj in simp_all)
  then show ?case by (simp add: sortBy_compareKeys)
qed simp

lemma normalize_leaf:
  "normalizeJson w = u \<Longrightarrow> (\<forall>xs. u \<noteq> JArray xs) \<Longrightarrow> (\<forall>p s ps. u \<noteq> JObject p s ps) \<Longrightarrow> w = u"
  by (cases w) auto

lemma normalize_same: "normalizeJson v = normalizeJson w \<Longrightarrow> sameJson v w"
proof (induction v arbitrary: w)
  case (JArray xs)
  obtain ys where w: "w = JArray ys" using JArray.prems by (cases w) auto
  have eq: "map (map_option normalizeJson) xs = map (map_option normalizeJson) ys" using JArray.prems w by simp
  have "list_all2 (rel_option sameJson) xs ys"
  proof (rule list_all2_all_nthI)
    show len: "length xs = length ys" using eq by (rule map_eq_imp_length_eq)
    fix i assume i: "i < length xs"
    then have "map_option normalizeJson (xs ! i) = map_option normalizeJson (ys ! i)"
      using eq len by (metis nth_map)
    then show "rel_option sameJson (xs ! i) (ys ! i)"
      using JArray.IH [OF nth_mem [OF i]] by (cases "xs ! i"; cases "ys ! i") auto
  qed
  then show ?case unfolding w by (rule same_array)
next
  case (JObject p s ps)
  obtain qs where w: "w = JObject p s qs" using JObject.prems by (cases w) auto
  let ?ps = "sortBy compareKeys ps" and ?qs = "sortBy compareKeys qs"
  have eq: "map (map_prod id normalizeJson) ?ps = map (map_prod id normalizeJson) ?qs"
    using JObject.prems w by (simp add: sortBy_values)
  have "list_all2 (rel_prod (=) sameJson) ?ps ?qs"
  proof (rule list_all2_all_nthI)
    show len: "length ?ps = length ?qs" using eq by (rule map_eq_imp_length_eq)
    fix i assume i: "i < length ?ps"
    then have "map_prod id normalizeJson (?ps ! i) = map_prod id normalizeJson (?qs ! i)"
      using eq len by (metis nth_map)
    moreover have "?ps ! i \<in> set ps" using nth_mem [OF i] by simp
    ultimately show "rel_prod (=) sameJson (?ps ! i) (?qs ! i)"
      using JObject.IH [of "?ps ! i" "snd (?ps ! i)"] by (cases "?ps ! i"; cases "?qs ! i") auto
  qed
  then show ?case unfolding w
    by (intro same_object [of ps ?ps ?qs qs]) (simp_all add: mset_sortBy)
qed (auto dest!: normalize_leaf [OF sym] intro: same_refl)

section \<open>Texts of scalars only\<close>

abbreviation scalarText :: "js_text \<Rightarrow> bool" where
  "scalarText s \<equiv> \<not> containsUnpairedSurrogate s"

definition surrogateUnit :: "16 word \<Rightarrow> bool" where
  "surrogateUnit u \<longleftrightarrow> 0xd800 \<le> u \<and> u \<le> 0xdfff"

lemma surrogateUnit_unat: "surrogateUnit u \<longleftrightarrow> 0xd800 \<le> unat u \<and> unat u \<le> 0xdfff"
  by (simp add: surrogateUnit_def word_le_nat_alt)

lemma high_surrogate: "0xd800 \<le> u \<Longrightarrow> u \<le> 0xdbff \<Longrightarrow> surrogateUnit u" for u :: "16 word"
  by (simp add: surrogateUnit_def word_le_nat_alt)

lemma codePoints_plain: "\<not> surrogateUnit u \<Longrightarrow> codePoints (u # us) = unat u # codePoints us"
  using high_surrogate [of u] by (cases us) auto

lemma codePoints_append: "scalarText s \<Longrightarrow> codePoints (s @ t) = codePoints s @ codePoints t"
proof (induction s rule: codePoints.induct)
  case (2 u)
  then show ?case by (simp add: containsUnpairedSurrogate_def codePoints_plain surrogateUnit_unat)
next
  case (3 u v us)
  show ?case
  proof (cases "0xd800 \<le> u \<and> u \<le> 0xdbff \<and> 0xdc00 \<le> v \<and> v \<le> 0xdfff")
    case True
    with 3 show ?thesis by (auto simp: containsUnpairedSurrogate_def)
  next
    case False
    then have step: "codePoints (u # v # us) = unat u # codePoints (v # us)"
      "codePoints (u # v # us @ t) = unat u # codePoints (v # us @ t)" by auto
    have "scalarText (v # us)" using "3.prems" unfolding containsUnpairedSurrogate_def step by simp
    with "3.IH"(2) [OF False] step show ?thesis by simp
  qed
qed simp

lemma scalarText_append: "scalarText s \<Longrightarrow> scalarText t \<Longrightarrow> scalarText (s @ t)"
  by (simp add: containsUnpairedSurrogate_def codePoints_append)

lemma scalarText_plain: "list_all (\<lambda>u. \<not> surrogateUnit u) s \<Longrightarrow> scalarText s"
  by (induction s) (auto simp: containsUnpairedSurrogate_def codePoints_plain surrogateUnit_unat)

lemma scalarText_Cons: "\<not> surrogateUnit u \<Longrightarrow> scalarText t \<Longrightarrow> scalarText (u # t)"
  by (auto simp: containsUnpairedSurrogate_def codePoints_plain surrogateUnit_unat)

lemma hexDigit_plain: "n < 16 \<Longrightarrow> \<not> surrogateUnit (hexDigit n)"
  by (simp add: surrogateUnit_unat hexDigit_def unat_of_nat take_bit_eq_mod del: of_nat_add)

lemma escapeUnit_surrogate: "surrogateUnit u \<Longrightarrow> escapeUnit u = [u]"
  by (auto simp: surrogateUnit_unat escapeUnit_def word_less_nat_alt)

lemma escapeUnit_plain: "\<not> surrogateUnit u \<Longrightarrow> list_all (\<lambda>u. \<not> surrogateUnit u) (escapeUnit u)"
proof (cases "u \<in> {0x22, 0x5c, 0x8, 0x9, 0xa, 0xc, 0xd}")
  case True
  then show ?thesis by (elim insertE emptyE) (simp_all add: escapeUnit_def surrogateUnit_def)
next
  case False
  assume "\<not> surrogateUnit u"
  moreover have "unat u < 32 \<Longrightarrow> \<not> surrogateUnit (hexDigit (unat u div 16)) \<and> \<not> surrogateUnit (hexDigit (unat u mod 16))"
    by (simp add: hexDigit_plain)
  ultimately show ?thesis
    unfolding escapeUnit_cases [OF False] by (auto simp: word_less_nat_alt) (simp_all add: surrogateUnit_def)
qed

lemma scalarText_escape: "scalarText s \<Longrightarrow> scalarText (concat (map escapeUnit s))"
proof (induction s rule: codePoints.induct)
  case (2 u)
  then have "\<not> surrogateUnit u" by (simp add: containsUnpairedSurrogate_def surrogateUnit_unat)
  from scalarText_plain [OF escapeUnit_plain [OF this]] show ?case by simp
next
  case (3 u v us)
  show ?case
  proof (cases "0xd800 \<le> u \<and> u \<le> 0xdbff \<and> 0xdc00 \<le> v \<and> v \<le> 0xdfff")
    case True
    then have "surrogateUnit u" "surrogateUnit v" by (auto simp: surrogateUnit_def word_le_nat_alt)
    moreover have pts: "codePoints (u # v # t) =
        (0x10000 + (unat u - 0xd800) * 0x400 + (unat v - 0xdc00)) # codePoints t" for t
      using True by simp
    have "scalarText us" using "3.prems" unfolding containsUnpairedSurrogate_def pts by simp
    then have "scalarText (concat (map escapeUnit us))" using "3.IH"(1) [OF True] by simp
    then have "scalarText (u # v # concat (map escapeUnit us))"
      using "3.prems" unfolding containsUnpairedSurrogate_def pts by simp
    ultimately show ?thesis by (simp add: escapeUnit_surrogate)
  next
    case False
    then have step: "codePoints (u # v # us) = unat u # codePoints (v # us)" by auto
    have u: "\<not> surrogateUnit u" and rest: "scalarText (v # us)"
      using "3.prems" unfolding containsUnpairedSurrogate_def step by (simp_all add: surrogateUnit_unat)
    have "scalarText (concat (map escapeUnit (v # us)))" using "3.IH"(2) [OF False rest] .
    with scalarText_append [OF scalarText_plain [OF escapeUnit_plain [OF u]]] show ?thesis by simp
  qed
qed (simp add: containsUnpairedSurrogate_def)

lemma scalarText_quote: "scalarText s \<Longrightarrow> scalarText (quoteText s)"
proof -
  assume "scalarText s"
  moreover have "\<not> surrogateUnit 0x22" "scalarText [0x22]"
    by (simp_all add: surrogateUnit_def containsUnpairedSurrogate_def)
  ultimately show ?thesis
    unfolding quoteText_def using scalarText_Cons scalarText_append scalarText_escape by blast
qed

lemma scalarText_join: "\<forall>t \<in> set ts. scalarText t \<Longrightarrow> scalarText (joinComma ts)"
proof (induction ts rule: joinComma.induct)
  case (3 x y zs)
  have "\<not> surrogateUnit 0x2c" by (simp add: surrogateUnit_def)
  with 3 have "scalarText x" "scalarText (0x2c # joinComma (y # zs))" by (simp_all add: scalarText_Cons)
  then show ?case using scalarText_append by simp
qed (simp_all add: containsUnpairedSurrogate_def)

lemma js_text_of_scalar [simp]: "scalarText (js_text_of s)"
proof (rule scalarText_plain)
  have "\<not> surrogateUnit (word_of_nat (of_char c))" for c
  proof -
    have "unat (word_of_nat (of_char c) :: 16 word) = of_char c" by (rule unat_char)
    then show ?thesis using nat_of_char_less_256 [of c] by (simp add: surrogateUnit_unat del: nat_of_char_less_256)
  qed
  then show "list_all (\<lambda>u. \<not> surrogateUnit u) (js_text_of s)" by (simp add: js_text_of_def list_all_iff)
qed

lemma scalarText_bracketed:
  "scalarText t \<Longrightarrow> \<not> surrogateUnit a \<Longrightarrow> \<not> surrogateUnit b \<Longrightarrow> scalarText (a # t @ [b])"
  using scalarText_append [of t "[b]"] scalarText_plain [of "[b]"] by (intro scalarText_Cons) simp_all

lemma jsonText_scalar: "jsonStrict v \<Longrightarrow> scalarText (jsonText v)"
proof (induction v)
  case (JArray xs)
  have "scalarText t" if "t \<in> set (map (case_option [] id) (map (map_option jsonText) xs))" for t
    using JArray that by (auto simp: list_all_iff containsUnpairedSurrogate_def split: option.splits)
  then have "scalarText (joinComma (map (case_option [] id) (map (map_option jsonText) xs)))"
    by (intro scalarText_join ballI)
  then show ?case
    unfolding jsonText.simps by (rule scalarText_bracketed) (simp_all add: surrogateUnit_def)
next
  case (JObject p s ps)
  have "scalarText (entryText x)" if "x \<in> set ps" for x
  proof -
    obtain k v where x: "x = (k, v)" by (cases x)
    have "scalarText (jsonText v)" "scalarText k"
      using JObject that x by (auto simp: list_all_iff)
    then have "scalarText (0x3a # jsonText v)" by (intro scalarText_Cons) (simp add: surrogateUnit_def)
    with \<open>scalarText k\<close> show ?thesis
      using scalarText_append [OF scalarText_quote] by (simp add: entryText_def x)
  qed
  then have "scalarText (joinComma (map entryText ps))" by (intro scalarText_join) auto
  then show ?case
    unfolding jsonText_object by (rule scalarText_bracketed) (simp_all add: surrogateUnit_def)
qed (use js_text_of_scalar scalarText_quote in \<open>simp_all\<close>)

lemma normalize_strict: "jsonStrict (normalizeJson v) = jsonStrict v"
  by (induction v) (auto simp: list_all_iff split: option.splits)

lemma normalize_numbers: "numbersExact (normalizeJson v) = numbersExact v"
  by (induction v) (auto simp: list_all_iff split: option.splits)

section \<open>Bytes identify values\<close>

definition jsonValue :: "json \<Rightarrow> bool" where
  "jsonValue v \<longleftrightarrow> numbersExact v \<and> keysDistinct v"

lemma encode_iff:
  "encodeEvaluationCanonicalJson v = Inr bs \<longleftrightarrow>
     admitted 0 v \<and> bs = encodeUtf8 (jsonText (normalizeJson v))"
proof -
  have "encodes (admitted 0 v) (jsonText (normalizeJson v)) (canonicalJson v 0 [])"
    by (rule canonical_encodes(1)) (simp add: cacheExact_def)
  then show ?thesis
    by (auto simp: encodes_def encodeEvaluationCanonicalJson_def serializeEvaluationCanonicalJson_def
        split: if_splits)
qed

lemma utf8_inj:
  assumes "scalarText s" "scalarText t" "encodeUtf8 s = encodeUtf8 t"
  shows "s = t"
  by (metis assms decodeText_encodeUtf8 option.inject)

lemma canonical_identifies:
  assumes "encodeEvaluationCanonicalJson v = Inr bs" "encodeEvaluationCanonicalJson w = Inr bs"
    and "numbersExact v" "numbersExact w"
  shows "normalizeJson v = normalizeJson w"
proof -
  have strict: "jsonStrict (normalizeJson v)" "jsonStrict (normalizeJson w)"
    using assms(1,2) by (auto simp: encode_iff normalize_strict admitted_def)
  have "jsonText (normalizeJson v) = jsonText (normalizeJson w)"
    using assms(1,2) utf8_inj [OF jsonText_scalar [OF strict(1)] jsonText_scalar [OF strict(2)]] encode_iff by metis
  then show ?thesis
    using jsonText_prefix [OF strict(1) _ strict(2), of "[]" "[]"] assms(3,4)
    by (simp add: stops_def normalize_numbers)
qed

text \<open>
  C37: a value is encoded exactly when it holds JSON only, in scalar strings and plain objects, nested
  at most 64 deep; then equal bytes mean equal values and the order of properties does not matter.
  The cache of encoded keys is invisible.
\<close>

theorem canonical_bytes_identify_values:
  assumes "jsonValue v" "jsonValue w"
    and "encodeEvaluationCanonicalJson v = Inr bs" "encodeEvaluationCanonicalJson w = Inr cs"
  shows "(bs = cs \<longleftrightarrow> sameJson v w) \<and> decodeText bs = Some (jsonText (normalizeJson v)) \<and>
    (\<forall>x. (\<exists>ds. encodeEvaluationCanonicalJson x = Inr ds) \<longleftrightarrow> admitted 0 x)"
proof -
  have v: "admitted 0 v" "bs = encodeUtf8 (jsonText (normalizeJson v))"
    and w: "admitted 0 w" "cs = encodeUtf8 (jsonText (normalizeJson w))"
    using assms(3,4) by (auto simp: encode_iff)
  have scalar: "scalarText (jsonText (normalizeJson v))"
    using v(1) by (intro jsonText_scalar) (simp add: normalize_strict admitted_def)
  have "sameJson v w" if "bs = cs"
  proof (rule normalize_same, rule canonical_identifies)
    show "encodeEvaluationCanonicalJson v = Inr bs" "encodeEvaluationCanonicalJson w = Inr bs"
      using assms(3,4) that by simp_all
    show "numbersExact v" "numbersExact w" using assms(1,2) by (simp_all add: jsonValue_def)
  qed
  moreover have "bs = cs" if "sameJson v w"
    using same_normalize [OF that] assms(1) v(2) w(2) by (simp add: jsonValue_def)
  ultimately show ?thesis using v decodeText_encodeUtf8 [OF scalar] by (auto simp: encode_iff)
qed

definition sampleJson :: "bool \<Rightarrow> json" where
  "sampleJson swapped =
     (let a = (js_text_of ''a'', JNumber (JInteger 1)); b = (js_text_of ''b'', JArray [Some JNull])
      in JObject True False (if swapped then [b, a] else [a, b]))"

lemma sampleJson_value: "jsonValue (sampleJson x)"
  by (cases x) (simp_all add: sampleJson_def jsonValue_def js_text_of_def MAX_SAFE_INTEGER_def)

lemma sampleJson_admitted: "admitted 0 (sampleJson x)"
  by (cases x) (simp_all add: sampleJson_def admitted_def js_text_of_def containsUnpairedSurrogate_def
      MAX_CANONICAL_NESTING_DEPTH_def)

theorem canonical_bytes_identify_values_witness:
  "encodeUtf8 (jsonText (normalizeJson (sampleJson False))) = encodeUtf8 (jsonText (normalizeJson (sampleJson True)))"
proof -
  have e: "encodeEvaluationCanonicalJson (sampleJson x) = Inr (encodeUtf8 (jsonText (normalizeJson (sampleJson x))))" for x
    using sampleJson_admitted encode_iff by blast
  have "sameJson (sampleJson False) (sampleJson True)"
    unfolding sampleJson_def Let_def
    by (simp, intro same_object [OF refl], rule list.rel_refl) (auto intro: same_refl simp: rel_prod_sel)
  with canonical_bytes_identify_values [OF sampleJson_value sampleJson_value e e] show ?thesis by blast
qed

end
