(* ===== verification/Canonical_Size.thy ===== *)
theory Canonical_Size
  imports Canonical_Identity
begin

text \<open>
  What the contracts rely on of the canonical encoder: which values it admits, how long the bytes can be,
  and that equal bytes mean equal values. The bound is linear in the lengths of the texts of a value.
\<close>

section \<open>The interface\<close>

locale bounded_encoder =
  fixes encode :: "'a \<Rightarrow> ('e, 'b list) result"
    and admits :: "'a \<Rightarrow> bool"
    and weight :: "'a \<Rightarrow> nat"
    and exact :: "'a \<Rightarrow> bool"
    and normal :: "'a \<Rightarrow> 'n"
  assumes encode_admits: "(\<exists>bs. encode v = Inr bs) \<longleftrightarrow> admits v"
    and encode_length: "encode v = Inr bs \<Longrightarrow> length bs \<le> weight v"
    and encode_identifies:
      "encode v = Inr bs \<Longrightarrow> encode w = Inr bs \<Longrightarrow> exact v \<Longrightarrow> exact w \<Longrightarrow> normal v = normal w"
begin

lemma within_ceiling: "admits v \<Longrightarrow> weight v \<le> limit \<Longrightarrow> \<exists>bs. encode v = Inr bs \<and> length bs \<le> limit"
  using encode_admits encode_length order_trans by blast

lemma same_result: "encode v = encode w \<Longrightarrow> admits v \<Longrightarrow> exact v \<Longrightarrow> exact w \<Longrightarrow> normal v = normal w"
  using encode_admits encode_identifies by metis

end

section \<open>The bound\<close>

definition unitCost :: "16 word \<Rightarrow> nat" where
  "unitCost u = (if u \<le> 0x7f then 1 else if u \<le> 0x7ff then 2 else 4)"

definition textCost :: "js_text \<Rightarrow> nat" where
  "textCost s = sum_list (map unitCost s)"

lemma textCost_simps [simp]:
  "textCost [] = 0" "textCost (u # s) = unitCost u + textCost s" "textCost (s @ t) = textCost s + textCost t"
  by (simp_all add: textCost_def)

lemma utf8Length_cost: "utf8Length s \<le> textCost s"
proof (induction s rule: utf8Length.induct)
  case (2 u us)
  have "textCost (drop 1 us) \<le> textCost us" by (cases us) simp_all
  with 2 show ?case by (auto simp: unitCost_def)
qed simp

lemma hexDigit_cost: "n < 16 \<Longrightarrow> unitCost (hexDigit n) = 1"
  by (auto simp: unitCost_def hexDigit_def word_le_nat_alt unat_of_nat take_bit_eq_mod)

lemma escapeUnit_cost: "textCost (escapeUnit u) \<le> 6"
proof -
  have "unat u div 16 < 16" if "u < 0x20"
    using that by (simp add: word_less_nat_alt)
  then show ?thesis by (auto simp: escapeUnit_def hexDigit_cost) (auto simp: unitCost_def)
qed

lemma quoteText_cost: "textCost (quoteText s) \<le> 6 * length s + 2"
proof -
  have "textCost (concat (map escapeUnit s)) \<le> 6 * length s"
    by (induction s) (use escapeUnit_cost in \<open>auto intro!: add_mono\<close>)
  then show ?thesis by (simp add: quoteText_def unitCost_def)
qed

lemma js_text_of_cost: "textCost (js_text_of s) \<le> 2 * length s"
proof (induction s)
  case (Cons c s)
  have "(of_char c :: nat) \<le> 2047" using nat_of_char_less_256 [of c] by linarith
  then have "unitCost (word_of_nat (of_char c)) \<le> 2"
    using unat_char [of c] by (simp add: unitCost_def word_le_nat_alt)
  with Cons show ?case by (simp add: js_text_of_def)
qed (simp add: js_text_of_def)

lemma joinComma_cost: "textCost (joinComma ts) \<le> sum_list (map (\<lambda>t. Suc (textCost t)) ts)"
  by (induction ts rule: joinComma.induct) (simp_all add: unitCost_def)


lemma sum_list_pointwise: "(\<And>x. x \<in> set xs \<Longrightarrow> f x \<le> g x) \<Longrightarrow> sum_list (map f xs) \<le> (sum_list (map g xs) :: nat)"
  by (induction xs) (simp, simp add: add_mono)

text \<open>The length of the text with its escapes, and a coarser bound from the lengths of the strings alone.\<close>

primrec jsonCost :: "json \<Rightarrow> nat" where
  "jsonCost JNull = 4"
| "jsonCost (JBoolean b) = 5"
| "jsonCost (JNumber n) = textCost (js_text_of (numberText n))"
| "jsonCost (JString s) = textCost (quoteText s)"
| "jsonCost JNotJson = 4"
| "jsonCost (JArray items) =
     2 + sum_list (map (\<lambda>i. case i of None \<Rightarrow> 5 | Some w \<Rightarrow> Suc w) (map (map_option jsonCost) items))"
| "jsonCost (JObject p s ps) =
     2 + sum_list (map (\<lambda>(k, w). textCost (quoteText k) + 2 + w) (map (map_prod id jsonCost) ps))"

primrec jsonWeight :: "json \<Rightarrow> nat" where
  "jsonWeight JNull = 4"
| "jsonWeight (JBoolean b) = 5"
| "jsonWeight (JNumber n) = 2 * length (numberText n)"
| "jsonWeight (JString s) = 6 * length s + 2"
| "jsonWeight JNotJson = 4"
| "jsonWeight (JArray items) =
     2 + sum_list (map (\<lambda>i. case i of None \<Rightarrow> 5 | Some w \<Rightarrow> Suc w) (map (map_option jsonWeight) items))"
| "jsonWeight (JObject p s ps) =
     2 + sum_list (map (\<lambda>(k, w). 6 * length k + 4 + w) (map (map_prod id jsonWeight) ps))"

lemma jsonText_cost: "textCost (jsonText v) \<le> jsonCost v"
proof (induction v)
  case (JArray xs)
  have "sum_list (map (\<lambda>t. Suc (textCost t)) (map (case_option [] id) (map (map_option jsonText) xs))) \<le>
      sum_list (map (\<lambda>i. case i of None \<Rightarrow> 5 | Some w \<Rightarrow> Suc w) (map (map_option jsonCost) xs))"
    unfolding map_map using JArray by (intro sum_list_pointwise) (auto split: option.splits)
  then show ?case
    using order_trans [OF joinComma_cost] by (fastforce simp: unitCost_def)
next
  case (JObject p s ps)
  have "sum_list (map (\<lambda>t. Suc (textCost t)) (map (\<lambda>(k, t). quoteText k @ 0x3a # t) (map (map_prod id jsonText) ps))) \<le>
      sum_list (map (\<lambda>(k, w). textCost (quoteText k) + 2 + w) (map (map_prod id jsonCost) ps))"
    unfolding map_map using JObject by (intro sum_list_pointwise) (auto simp: unitCost_def)
  then show ?case
    using order_trans [OF joinComma_cost] by (fastforce simp: unitCost_def)
qed (simp_all add: js_text_of_def unitCost_def)

lemma normalize_cost: "jsonCost (normalizeJson v) = jsonCost v"
proof (induction v)
  case (JArray xs)
  then show ?case by (auto intro!: arg_cong [of _ _ sum_list] split: option.splits)
next
  case (JObject p s ps)
  let ?w = "\<lambda>(k, v). textCost (quoteText k) + 2 + jsonCost v"
  have split: "sum_list (map (\<lambda>(k, w). textCost (quoteText k) + 2 + w) (map (map_prod id jsonCost) qs)) =
      sum_mset (image_mset ?w (mset qs))" for qs :: "(js_text \<times> json) list"
    by (simp add: case_prod_unfold comp_def flip: sum_mset_sum_list mset_map)
  have "map ?w (map (map_prod id normalizeJson) ps) = map ?w ps"
    using JObject by auto
  then have "image_mset ?w (mset (map (map_prod id normalizeJson) ps)) = image_mset ?w (mset ps)"
    by (metis mset_map)
  then show ?case by (simp only: normalizeJson.simps jsonCost.simps split mset_sortBy)
qed simp_all

lemma cost_le_weight: "jsonCost v \<le> jsonWeight v"
proof (induction v)
  case (JObject p s ps)
  have "textCost (quoteText k) + 2 + jsonCost w \<le> 6 * length k + 4 + jsonWeight w" if "(k, w) \<in> set ps" for k w
    using quoteText_cost [of k] JObject [OF that] by simp
  then show ?case unfolding jsonCost.simps jsonWeight.simps map_map
    by (intro add_left_mono sum_list_pointwise) auto
next
  case (JArray xs)
  then show ?case unfolding jsonCost.simps jsonWeight.simps map_map
    by (intro add_left_mono sum_list_pointwise) (auto split: option.splits)
qed (use js_text_of_cost quoteText_cost in simp_all)

lemma canonical_length_cost:
  assumes "encodeEvaluationCanonicalJson v = Inr bs"
  shows "length bs \<le> jsonCost v"
proof -
  have "length bs = utf8Length (jsonText (normalizeJson v))"
    using assms by (auto simp: encode_iff encodeUtf8_def)
  then show ?thesis
    using utf8Length_cost jsonText_cost [of "normalizeJson v"] unfolding normalize_cost
    by (metis order_trans)
qed

lemma canonical_length_bound: "encodeEvaluationCanonicalJson v = Inr bs \<Longrightarrow> length bs \<le> jsonWeight v"
  using canonical_length_cost cost_le_weight order_trans by blast

section \<open>The encoder provides the interface\<close>

interpretation canonical: bounded_encoder encodeEvaluationCanonicalJson "admitted 0" jsonWeight numbersExact normalizeJson
  by unfold_locales (use encode_iff canonical_length_bound canonical_identifies in blast)+

end
