(* ===== verification/Canonical_Plain.thy ===== *)
theory Canonical_Plain
  imports Canonical_Size
begin

text \<open>
  Objects of ASCII strings, integers and nested objects, which is what the retained records are: when the
  encoder admits them, how equal encodings give equal fields, and how long their bytes are.
\<close>

section \<open>Admission\<close>

text \<open>At most \<open>k\<close> levels deep, with scalar strings and integers only.\<close>

definition plainJson :: "nat \<Rightarrow> json \<Rightarrow> bool" where
  "plainJson k v \<longleftrightarrow> jsonHeight v \<le> k \<and> jsonStrict v \<and> numbersExact v"

lemma plainJson_leaf [simp]: "plainJson k JNull" "plainJson k (JBoolean b)" "plainJson k (jsonString s)"
    "plainJson k (jsonInt n) \<longleftrightarrow> \<bar>n\<bar> \<le> MAX_SAFE_INTEGER"
  by (simp_all add: plainJson_def)

lemma plainJson_object:
  "plainJson k (jsonObject ps) \<longleftrightarrow> ps = [] \<or> 0 < k \<and> list_all (\<lambda>(key, v). plainJson (k - 1) v) ps"
proof -
  have "foldr max (map f ps) 0 \<le> k \<longleftrightarrow> list_all (\<lambda>x. f x \<le> k) ps" for f :: "string \<times> json \<Rightarrow> nat"
    by (induction ps) auto
  then have "jsonHeight (jsonObject ps) \<le> k \<longleftrightarrow> list_all (\<lambda>(key, v). Suc (jsonHeight v) \<le> k) ps"
    by (simp add: comp_def case_prod_unfold)
  moreover have "ps \<noteq> [] \<Longrightarrow> list_all (\<lambda>(key, v). Suc (jsonHeight v) \<le> k) ps \<longleftrightarrow>
      0 < k \<and> list_all (\<lambda>(key, v). jsonHeight v \<le> k - 1) ps"
    by (cases ps; cases k) auto
  ultimately show ?thesis by (cases "ps = []") (auto simp: plainJson_def list_all_iff comp_def)
qed

lemma plainJson_array:
  "plainJson k (JArray (map (\<lambda>x. Some (f x)) xs)) \<longleftrightarrow> xs = [] \<or> 0 < k \<and> list_all (\<lambda>x. plainJson (k - 1) (f x)) xs"
proof -
  have "foldr max (map f ps) 0 \<le> k \<longleftrightarrow> list_all (\<lambda>x. f x \<le> k) ps" for f :: "'b \<Rightarrow> nat" and ps
    by (induction ps) auto
  then have "jsonHeight (JArray (map (\<lambda>x. Some (f x)) xs)) \<le> k \<longleftrightarrow> list_all (\<lambda>x. Suc (jsonHeight (f x)) \<le> k) xs"
    by (simp add: comp_def)
  then show ?thesis
    by (cases k; cases "xs = []") (auto simp: plainJson_def list_all_iff comp_def ball_simps)
qed

lemma plainJson_encodes:
  assumes "plainJson 64 v"
  obtains bs where "encodeEvaluationCanonicalJson v = Inr bs"
  using assms canonical.encode_admits [of v] by (auto simp: plainJson_def admitted_def MAX_CANONICAL_NESTING_DEPTH_def)

section \<open>Equal encodings\<close>

abbreviation sameEncoding :: "json \<Rightarrow> json \<Rightarrow> bool" where
  "sameEncoding v w \<equiv> normalizeJson v = normalizeJson w"

lemma encoded_same:
  "encodeEvaluationCanonicalJson v = Inr bs \<Longrightarrow> encodeEvaluationCanonicalJson w = Inr bs \<Longrightarrow>
   plainJson k v \<Longrightarrow> plainJson k' w \<Longrightarrow> sameEncoding v w"
  by (rule canonical.encode_identifies) (simp_all add: plainJson_def)

lemma same_leaf [simp]:
  "sameEncoding (jsonString s) (jsonString t) \<longleftrightarrow> s = t" "sameEncoding (jsonInt m) (jsonInt n) \<longleftrightarrow> m = n"
  by (simp_all add: js_text_of_inj)

lemma same_field:
  assumes "sameEncoding (jsonObject ps) (jsonObject qs)" "distinct (map fst ps)" "distinct (map fst qs)"
  shows "map_option normalizeJson (map_of ps key) = map_option normalizeJson (map_of qs key)"
proof -
  let ?n = "\<lambda>ps. map (map_prod js_text_of normalizeJson) ps"
  have "map_prod id normalizeJson \<circ> map_prod js_text_of id = map_prod js_text_of normalizeJson" by auto
  then have "sortBy compareKeys (?n ps) = sortBy compareKeys (?n qs)" using assms(1) by simp
  then have "set (?n ps) = set (?n qs)" by (metis mset_sortBy set_mset_mset)
  moreover have d: "distinct (map fst (?n xs))" if "distinct (map fst xs)" for xs :: "(string \<times> json) list"
  proof -
    have "map fst (?n xs) = map js_text_of (map fst xs)" by simp
    then show ?thesis using that by (simp add: distinct_map inj_on_def js_text_of_inj del: map_map)
  qed
  ultimately have "map_of (?n ps) = map_of (?n qs)" using assms(2,3) by (simp add: map_of_inject_set)
  moreover have "map_of (?n xs) (js_text_of key) = map_option normalizeJson (map_of xs key)" for xs :: "(string \<times> json) list"
    by (induction xs) (auto simp: js_text_of_inj)
  ultimately show ?thesis by metis
qed

lemma same_object:
  assumes "sameEncoding (jsonObject ps) (jsonObject qs)" "map fst ps = map fst qs" "distinct (map fst ps)"
  shows "map (normalizeJson \<circ> snd) ps = map (normalizeJson \<circ> snd) qs"
proof (rule nth_equalityI)
  show "length (map (normalizeJson \<circ> snd) ps) = length (map (normalizeJson \<circ> snd) qs)"
    using assms(2) by (metis length_map)
  fix i assume i: "i < length (map (normalizeJson \<circ> snd) ps)"
  have "map_of ps (fst (ps ! i)) = Some (snd (ps ! i))" "map_of qs (fst (ps ! i)) = Some (snd (qs ! i))"
    using i assms(2,3) by (metis length_map map_of_eq_Some_iff nth_map nth_mem prod.collapse)+
  then show "map (normalizeJson \<circ> snd) ps ! i = map (normalizeJson \<circ> snd) qs ! i"
    using same_field [OF assms(1,3), of "fst (ps ! i)"] assms(2,3) i by (metis comp_apply length_map nth_map option.inject option.map(2))
qed

lemma same_array:
  "sameEncoding (JArray (map (\<lambda>x. Some (f x)) xs)) (JArray (map (\<lambda>x. Some (f x)) ys)) \<Longrightarrow>
   (\<And>x y. x \<in> set xs \<Longrightarrow> y \<in> set ys \<Longrightarrow> sameEncoding (f x) (f y) \<Longrightarrow> x = y) \<Longrightarrow> xs = ys"
proof (induction xs arbitrary: ys)
  case (Cons x xs)
  then show ?case by (cases ys) auto
qed simp

text \<open>A nullable field.\<close>

definition jsonNullable :: "('a \<Rightarrow> json) \<Rightarrow> 'a option \<Rightarrow> json" where
  "jsonNullable encode v = (case v of None \<Rightarrow> JNull | Some x \<Rightarrow> encode x)"

lemma same_nullable:
  assumes "sameEncoding (jsonNullable f x) (jsonNullable f y)" "\<And>a. normalizeJson (f a) \<noteq> JNull"
    and "\<And>a b. x = Some a \<Longrightarrow> y = Some b \<Longrightarrow> sameEncoding (f a) (f b) \<Longrightarrow> a = b"
  shows "x = y"
proof (cases x)
  case None
  then show ?thesis using assms(1) assms(2) [symmetric] by (cases y) (simp_all add: jsonNullable_def)
next
  case (Some a)
  then show ?thesis using assms by (cases y) (simp_all add: jsonNullable_def)
qed

lemma plainJson_nullable: "(\<And>a. v = Some a \<Longrightarrow> plainJson k (f a)) \<Longrightarrow> plainJson k (jsonNullable f v)"
  by (cases v) (simp_all add: jsonNullable_def)

section \<open>Sizes\<close>

definition plainText :: "string \<Rightarrow> bool" where
  "plainText s \<longleftrightarrow> list_all (\<lambda>c. 0x20 \<le> (of_char c :: nat) \<and> (of_char c :: nat) \<le> 0x7e \<and> c \<noteq> CHR 0x22 \<and> c \<noteq> CHR 0x5c) s"

lemma plain_unit:
  assumes "0x20 \<le> (of_char c :: nat)" "(of_char c :: nat) \<le> 0x7e" "c \<noteq> CHR 0x22" "c \<noteq> CHR 0x5c"
  shows "textCost (escapeUnit (word_of_nat (of_char c))) = 1" "unitCost (word_of_nat (of_char c)) = 1"
proof -
  let ?u = "word_of_nat (of_char c) :: 16 word"
  have "?u \<noteq> 0x22" "?u \<noteq> 0x5c"
    using js_text_of_inj [of "[c]" "[CHR 0x22]"] js_text_of_inj [of "[c]" "[CHR 0x5c]"] assms(3,4)
    by (simp_all add: js_text_of_def)
  moreover have "unat ?u = of_char c" by (rule unat_char)
  then have u: "\<not> ?u < 0x20" "?u \<le> 0x7f" using assms(1,2) by (simp_all add: word_less_nat_alt word_le_nat_alt)
  moreover from u(1) have "?u \<noteq> 0x8" "?u \<noteq> 0x9" "?u \<noteq> 0xa" "?u \<noteq> 0xc" "?u \<noteq> 0xd" by auto
  ultimately show "textCost (escapeUnit ?u) = 1" "unitCost ?u = 1" by (simp_all add: escapeUnit_def unitCost_def)
qed

lemma plainText_cost:
  "plainText s \<Longrightarrow> textCost (concat (map escapeUnit (js_text_of s))) = length s \<and> textCost (js_text_of s) = length s"
  by (induction s) (simp_all add: js_text_of_def plainText_def plain_unit)

lemma plainText_quote: "plainText s \<Longrightarrow> textCost (quoteText (js_text_of s)) = length s + 2"
  using plainText_cost [of s] by (simp add: quoteText_def unitCost_def)

lemma plainText_append [simp]: "plainText (s @ t) \<longleftrightarrow> plainText s \<and> plainText t"
  by (simp add: plainText_def)

lemma plainText_mono: "list_all P s \<Longrightarrow> (\<And>c. P c \<Longrightarrow> plainText [c]) \<Longrightarrow> plainText s"
  by (auto simp: plainText_def list_all_iff)

lemma plain_char: "lower_alpha c \<Longrightarrow> plainText [c]" "digit_char c \<Longrightarrow> plainText [c]" "hex_char c \<Longrightarrow> plainText [c]"
  by (auto simp: lower_alpha_def digit_char_def hex_char_def in_range_def plainText_def)

lemma opaque_cost: "OpaqueIdSchema s \<Longrightarrow> jsonCost (jsonString s) \<le> 66"
proof -
  assume s: "OpaqueIdSchema s"
  have "plainText s"
    by (rule plainText_mono [where P = "\<lambda>d. lower_alpha d \<or> digit_char d \<or> d = CHR ''_''"])
      (use s plain_char in \<open>auto simp: OpaqueIdSchema_def plainText_def split: list.splits\<close>)
  then show ?thesis using s plainText_quote [of s] by (auto simp: OpaqueIdSchema_def split: list.splits)
qed

lemma sha_cost: "Sha256Schema s \<Longrightarrow> jsonCost (jsonString s) \<le> 66"
proof -
  assume s: "Sha256Schema s"
  have "plainText s"
    by (rule plainText_mono [where P = hex_char])
      (use s plain_char in \<open>auto simp: Sha256Schema_def\<close>)
  then show ?thesis using s plainText_quote [of s] by (auto simp: Sha256Schema_def)
qed

lemma int_cost: "0 \<le> n \<Longrightarrow> n \<le> MAX_SAFE_INTEGER \<Longrightarrow> jsonCost (jsonInt n) \<le> 16"
proof -
  assume n: "0 \<le> n" "n \<le> MAX_SAFE_INTEGER"
  have d: "list_all digit_char (showInt n)"
    using n canonicalDigits_digits canonicalDigits_showNat by (simp add: showInt_def)
  have "plainText (showInt n)"
    by (rule plainText_mono [OF d]) (rule plain_char)
  then show ?thesis using length_showInt_nonneg [of n 16] n plainText_cost [of "showInt n"] by (simp add: MAX_SAFE_INTEGER_def)
qed

lemma cost_object:
  "jsonCost (jsonObject ps) = 2 + sum_list (map (\<lambda>(k, v). textCost (quoteText (js_text_of k)) + 2 + jsonCost v) ps)"
  by (simp add: case_prod_unfold comp_def)

lemma cost_array: "jsonCost (JArray (map (\<lambda>x. Some (f x)) xs)) = 2 + sum_list (map (\<lambda>x. Suc (jsonCost (f x))) xs)"
  by (simp add: comp_def)

lemma cost_nullable: "(\<And>a. v = Some a \<Longrightarrow> jsonCost (f a) \<le> k) \<Longrightarrow> 4 \<le> k \<Longrightarrow> jsonCost (jsonNullable f v) \<le> k"
  by (cases v) (simp_all add: jsonNullable_def)

end
