(* ===== verification/Time_Text.thy ===== *)
theory Time_Text
  imports Policy_Json Canonical_Plain
begin

text \<open>
  The text of an instant determines it: the calendar date is inverted through the 400-year era, so two
  instants of the model that the contracts accept have different texts. Also the length of the texts.
\<close>

section \<open>Padded numbers\<close>

lemma padded_value: "0 \<le> n \<Longrightarrow> digitsInt (padStart k CHR ''0'' (showInt n)) = n"
  by (simp add: padStart_def digitsInt_zeros showInt_def digitsInt_showNat)

lemma padded_digits:
  assumes "0 \<le> n"
  shows "list_all digit_char (padStart k CHR ''0'' (showInt n))"
proof -
  have "digit_char CHR ''0''" by code_simp
  moreover have "list_all digit_char (showNat (nat n))" using canonicalDigits_digits canonicalDigits_showNat by blast
  ultimately show ?thesis using assms by (auto simp: padStart_def list_all_iff showInt_def)
qed

lemma padded:
  assumes "0 \<le> n" "n < 10 ^ k" "1 \<le> k"
  shows "length (padStart k CHR ''0'' (showInt n)) = k"
  using length_showInt_nonneg [OF assms] by (simp add: padStart_def)

section \<open>The calendar\<close>

text \<open>A day of a 400-year era is a century, a four-year span in it, a year in that and a day of the year.\<close>

lemma div_bounds: "0 < k \<Longrightarrow> k * (x div k) \<le> x \<and> x < k * (x div k) + k" for x k :: int
  by (metis minus_mod_eq_mult_div pos_mod_bound pos_mod_sign add.commute diff_add_cancel less_add_same_cancel1
      diff_ge_0_iff_ge diff_less_eq le_add_same_cancel1 mod_mult_div_eq add_less_cancel_right add_strict_right_mono)

lemma era_day:
  assumes "0 \<le> doe" "doe < (146097 :: int)"
  obtains c q t u where "doe = 36524 * c + 1461 * q + 365 * t + u"
    "0 \<le> c" "c \<le> 3" "0 \<le> q" "q \<le> 24" "0 \<le> t" "t \<le> 3" "0 \<le> u" "u \<le> 365" "u = 365 \<longrightarrow> t = 3"
    "q = 24 \<and> t = 3 \<and> u = 365 \<longrightarrow> c = 3"
proof -
  define c where "c = (if doe = 146096 then 3 else doe div 36524)"
  define r where "r = doe - 36524 * c"
  define q where "q = r div 1461"
  define s where "s = r - 1461 * q"
  define t where "t = (if s = 1460 then 3 else s div 365)"
  define u where "u = s - 365 * t"
  have c: "0 \<le> c" "c \<le> 3" "0 \<le> r" "r \<le> 36524" "r = 36524 \<Longrightarrow> c = 3"
    using assms div_bounds [of 36524 doe] unfolding c_def r_def by (auto split: if_splits)
  have q: "0 \<le> q" "q \<le> 24" "0 \<le> s" "s \<le> 1460"
    using c(3,4) div_bounds [of 1461 r] unfolding q_def s_def by auto
  have t: "0 \<le> t" "t \<le> 3" "0 \<le> u" "u \<le> 365" "u = 365 \<Longrightarrow> t = 3"
    using q(3,4) div_bounds [of 365 s] unfolding t_def u_def by (auto split: if_splits)
  show ?thesis
  proof (rule that [of c q t u])
    show "doe = 36524 * c + 1461 * q + 365 * t + u" by (simp add: r_def s_def u_def)
    show "q = 24 \<and> t = 3 \<and> u = 365 \<longrightarrow> c = 3" using c(4,5) by (auto simp: u_def s_def)
  qed (use c q t in auto)
qed

lemma era_year:
  assumes doe: "doe = 36524 * c + 1461 * q + 365 * t + u" and c: "0 \<le> c" "c \<le> (3 :: int)"
    and q: "0 \<le> q" "q \<le> 24" and t: "0 \<le> t" "t \<le> 3" and u: "0 \<le> u" "u \<le> 365" "u = 365 \<longrightarrow> t = 3"
    and last: "q = 24 \<and> t = 3 \<and> u = 365 \<longrightarrow> c = 3"
  shows "(doe - doe div 1460 + doe div 36524 - doe div 146096) div 365 = 100 * c + 4 * q + t"
proof -
  define e where "e = doe div 1460 - 25 * c - q"
  have e: "0 \<le> e" "e \<le> 1" "u = 365 \<Longrightarrow> e = 1" "u = 0 \<Longrightarrow> e = 0"
    using div_bounds [of 1460 doe] doe c q t u unfolding e_def by auto
  have "doe div 36524 - doe div 146096 = c"
  proof (cases "doe = 146096")
    case True
    then have "c = 3" using doe c q t u by auto
    then show ?thesis using True by simp
  next
    case False
    have "1461 * q + 365 * t + u < 36524"
    proof (rule ccontr)
      assume "\<not> ?thesis"
      then have "q = 24" "t = 3" "u = 365" using q t u by auto
      then show False using last False doe by simp
    qed
    then have "doe div 36524 = c" "doe div 146096 = 0"
      using doe c q t u by (auto intro!: int_div_pos_eq [where r = "1461 * q + 365 * t + u"] div_pos_pos_trivial)
    then show ?thesis by simp
  qed
  then have "doe - doe div 1460 + doe div 36524 - doe div 146096 = 365 * (100 * c + 4 * q + t) + (u - e)"
    using doe by (simp add: e_def)
  moreover have "0 \<le> u - e" "u - e < 365" using e u(1,2) by (cases "u = 0"; cases "u = 365"; simp)+
  ultimately show ?thesis by (intro int_div_pos_eq)
qed

lemma split_first: "a @ d # x = b @ d # y \<Longrightarrow> d \<notin> set a \<Longrightarrow> d \<notin> set b \<Longrightarrow> a = b \<and> x = y"
proof (induction a arbitrary: b)
  case Nil
  then show ?case by (cases b) auto
next
  case (Cons z a)
  then show ?case by (cases b) auto
qed

lemma not_digit: "\<not> digit_char CHR ''-''"
  by code_simp

lemma digits_no_dash: "list_all digit_char s \<Longrightarrow> CHR ''-'' \<notin> set s"
  using not_digit by (auto simp: list_all_iff)

lemma civil_parts:
  fixes days :: int
  assumes "-719468 \<le> days"
  obtains era y mp day month year where "days + 719468 = 146097 * era + 365 * y + y div 4 - y div 100 + (153 * mp + 2) div 5 + day - 1"
    "0 \<le> era" "0 \<le> y" "y < 400" "0 \<le> mp" "mp \<le> 11" "1 \<le> day" "day \<le> 31"
    "month = (if mp < 10 then mp + 3 else mp - 9)" "year = y + era * 400 + (if month \<le> 2 then 1 else 0)"
    "dateText days = padStart 4 CHR ''0'' (showInt year) @ ''-'' @ padStart 2 CHR ''0'' (showInt month) @ ''-'' @
       padStart 2 CHR ''0'' (showInt day)"
proof -
  define z where "z = days + 719468"
  define doe where "doe = z mod 146097"
  have "0 \<le> doe" "doe < 146097" by (simp_all add: doe_def)
  from era_day [OF this] obtain c q t u where p: "doe = 36524 * c + 1461 * q + 365 * t + u"
    "0 \<le> c" "c \<le> 3" "0 \<le> q" "q \<le> 24" "0 \<le> t" "t \<le> 3" "0 \<le> u" "u \<le> 365" "u = 365 \<longrightarrow> t = 3"
    "q = 24 \<and> t = 3 \<and> u = 365 \<longrightarrow> c = 3" .
  define y where "y = 100 * c + 4 * q + t"
  note yoe = era_year [OF p, folded y_def]
  have y: "0 \<le> y" "y < 400" "y div 4 = 25 * c + q" "y div 100 = c"
    using p by (auto simp: y_def intro!: int_div_pos_eq)
  have doy: "doe - (365 * y + y div 4 - y div 100) = u" using p(1) y by (simp add: y_def)
  define mp where "mp = (5 * u + 2) div 153"
  define day where "day = u - (153 * mp + 2) div 5 + 1"
  have mp: "0 \<le> mp" "mp \<le> 11" "1 \<le> day" "day \<le> 31"
    using p(8,9) div_bounds [of 153 "5 * u + 2"] div_bounds [of 5 "153 * mp + 2"] unfolding mp_def [symmetric] day_def
    by auto
  show ?thesis
  proof (rule that [of "z div 146097" y mp day])
    show "days + 719468 = 146097 * (z div 146097) + 365 * y + y div 4 - y div 100 + (153 * mp + 2) div 5 + day - 1"
      using doy by (simp add: day_def doe_def z_def minus_mod_eq_mult_div [symmetric])
    show "0 \<le> z div 146097" using assms by (simp add: z_def pos_imp_zdiv_nonneg_iff)
    show "dateText days = padStart 4 CHR ''0'' (showInt (y + z div 146097 * 400 + (if (if mp < 10 then mp + 3 else mp - 9) \<le> 2 then 1 else 0))) @
      ''-'' @ padStart 2 CHR ''0'' (showInt (if mp < 10 then mp + 3 else mp - 9)) @ ''-'' @ padStart 2 CHR ''0'' (showInt day)"
      unfolding dateText_def Let_def z_def [symmetric] doe_def [symmetric] yoe doy mp_def [symmetric] day_def [symmetric] by (rule refl)
  qed (use y mp in auto)
qed


lemma dateText_inj:
  assumes "dateText a = dateText b" "-719468 \<le> a" "-719468 \<le> b"
  shows "a = b"
proof -
  obtain era y mp day month year where a: "a + 719468 = 146097 * era + 365 * y + y div 4 - y div 100 + (153 * mp + 2) div 5 + day - 1"
    "0 \<le> era" "0 \<le> y" "y < 400" "0 \<le> mp" "mp \<le> 11" "1 \<le> day" "day \<le> 31"
    "month = (if mp < 10 then mp + 3 else mp - 9)" "year = y + era * 400 + (if month \<le> 2 then 1 else 0)"
    "dateText a = padStart 4 CHR ''0'' (showInt year) @ ''-'' @ padStart 2 CHR ''0'' (showInt month) @ ''-'' @
       padStart 2 CHR ''0'' (showInt day)" by (rule civil_parts [OF assms(2)])
  obtain era' y' mp' day' month' year' where b: "b + 719468 = 146097 * era' + 365 * y' + y' div 4 - y' div 100 + (153 * mp' + 2) div 5 + day' - 1"
    "0 \<le> era'" "0 \<le> y'" "y' < 400" "0 \<le> mp'" "mp' \<le> 11" "1 \<le> day'" "day' \<le> 31"
    "month' = (if mp' < 10 then mp' + 3 else mp' - 9)" "year' = y' + era' * 400 + (if month' \<le> 2 then 1 else 0)"
    "dateText b = padStart 4 CHR ''0'' (showInt year') @ ''-'' @ padStart 2 CHR ''0'' (showInt month') @ ''-'' @
       padStart 2 CHR ''0'' (showInt day')" by (rule civil_parts [OF assms(3)])
  have r: "0 \<le> year" "0 \<le> year'" "0 \<le> month" "month < 10 ^ 2" "0 \<le> month'" "month' < 10 ^ 2" "0 \<le> day" "day < 10 ^ 2"
    "0 \<le> day'" "day' < 10 ^ 2" using a(2-10) b(2-10) by (auto split: if_splits)
  have eq: "padStart 4 CHR ''0'' (showInt year) @ CHR ''-'' # (padStart 2 CHR ''0'' (showInt month) @ CHR ''-'' # padStart 2 CHR ''0'' (showInt day)) =
    padStart 4 CHR ''0'' (showInt year') @ CHR ''-'' # (padStart 2 CHR ''0'' (showInt month') @ CHR ''-'' # padStart 2 CHR ''0'' (showInt day'))"
    using assms(1) unfolding a(11) b(11) by simp
  have parts: "padStart 4 CHR ''0'' (showInt year) = padStart 4 CHR ''0'' (showInt year')"
    "padStart 2 CHR ''0'' (showInt month) @ CHR ''-'' # padStart 2 CHR ''0'' (showInt day) =
     padStart 2 CHR ''0'' (showInt month') @ CHR ''-'' # padStart 2 CHR ''0'' (showInt day')"
    using split_first [OF eq] digits_no_dash [OF padded_digits] r(1,2) by blast+
  moreover have "padStart 2 CHR ''0'' (showInt month) = padStart 2 CHR ''0'' (showInt month')"
    "padStart 2 CHR ''0'' (showInt day) = padStart 2 CHR ''0'' (showInt day')"
    using split_first [OF parts(2)] digits_no_dash [OF padded_digits] r by blast+
  ultimately have "year = year'" "month = month'" "day = day'"
    using padded_value r by metis+
  moreover from this have "mp = mp'" using a(5,6,9) b(5,6,9) by (auto split: if_splits)
  moreover have "y + era * 400 = y' + era' * 400"
    using \<open>year = year'\<close> \<open>month = month'\<close> a(10) b(10) by simp
  then have "y = y' \<and> era = era'"
    using a(3,4) b(3,4) by (cases era era' rule: linorder_cases) auto
  ultimately show ?thesis using a(1) b(1) by simp
qed

lemma length_dateText:
  assumes "-719468 \<le> a" "a \<le> 2932896"
  shows "length (dateText a) \<le> 11"
proof -
  obtain era y mp day month year where a: "a + 719468 = 146097 * era + 365 * y + y div 4 - y div 100 + (153 * mp + 2) div 5 + day - 1"
    "0 \<le> era" "0 \<le> y" "y < 400" "0 \<le> mp" "mp \<le> 11" "1 \<le> day" "day \<le> 31"
    "month = (if mp < 10 then mp + 3 else mp - 9)" "year = y + era * 400 + (if month \<le> 2 then 1 else 0)"
    "dateText a = padStart 4 CHR ''0'' (showInt year) @ ''-'' @ padStart 2 CHR ''0'' (showInt month) @ ''-'' @
       padStart 2 CHR ''0'' (showInt day)" by (rule civil_parts [OF assms(1)])
  have "era \<le> 25" using a(1-8) assms(2) by auto
  then have "0 \<le> year" "year < 10 ^ 5" "0 \<le> month" "month < 10 ^ 2" "0 \<le> day" "day < 10 ^ 2"
    using a(2-10) by (auto split: if_splits)
  then show ?thesis
    using padded [of month 2] padded [of day 2] length_showInt_nonneg [of year 5]
    unfolding a(11) by (simp add: padStart_def)
qed

lemma dateText_digits:
  assumes "-719468 \<le> a"
  shows "list_all (\<lambda>c. digit_char c \<or> c = CHR ''-'') (dateText a)"
proof -
  obtain era y mp day month year where a: "a + 719468 = 146097 * era + 365 * y + y div 4 - y div 100 + (153 * mp + 2) div 5 + day - 1"
    "0 \<le> era" "0 \<le> y" "y < 400" "0 \<le> mp" "mp \<le> 11" "1 \<le> day" "day \<le> 31"
    "month = (if mp < 10 then mp + 3 else mp - 9)" "year = y + era * 400 + (if month \<le> 2 then 1 else 0)"
    "dateText a = padStart 4 CHR ''0'' (showInt year) @ ''-'' @ padStart 2 CHR ''0'' (showInt month) @ ''-'' @
       padStart 2 CHR ''0'' (showInt day)" by (rule civil_parts [OF assms(1)])
  have "0 \<le> year" "0 \<le> month" "0 \<le> day" using a(2-10) by (auto split: if_splits)
  then show ?thesis
    unfolding a(11) using padded_digits [of year 4] padded_digits [of month 2] padded_digits [of day 2]
    by (auto simp: list_all_iff)
qed

lemma secondsText_parts:
  fixes seconds :: int
  obtains h m s where "seconds = 86400 * (seconds div 86400) + 3600 * h + 60 * m + s"
    "0 \<le> h" "h < 10 ^ 2" "0 \<le> m" "m < 10 ^ 2" "0 \<le> s" "s < 10 ^ 2"
    "secondsText seconds = dateText (seconds div 86400) @ CHR ''T'' # (padStart 2 CHR ''0'' (showInt h) @ '':'' @
       padStart 2 CHR ''0'' (showInt m) @ '':'' @ padStart 2 CHR ''0'' (showInt s))"
proof -
  define r where "r = seconds mod 86400"
  have r: "0 \<le> r" "r < 86400" by (simp_all add: r_def)
  have "r div 60 mod 60 = r div 60 - 60 * (r div 60 div 60)" by (simp add: minus_mult_div_eq_mod)
  also have "r div 60 div 60 = r div 3600" by (simp add: zdiv_zmult2_eq [symmetric])
  finally have m: "r div 60 mod 60 = r div 60 - 60 * (r div 3600)" .
  show ?thesis
  proof (rule that [of "r div 3600" "r div 60 mod 60" "r mod 60"])
    show "seconds = 86400 * (seconds div 86400) + 3600 * (r div 3600) + 60 * (r div 60 mod 60) + r mod 60"
      unfolding m using minus_mod_eq_mult_div [of r 60] minus_mod_eq_mult_div [of seconds 86400] by (simp add: r_def)
    show "r div 3600 < 10 ^ 2" using r div_bounds [of 3600 r] by simp
    show "0 \<le> r div 60 mod 60" "r div 60 mod 60 < 10 ^ 2" "0 \<le> r mod 60" "r mod 60 < 10 ^ 2"
      using pos_mod_bound [of 60 "r div 60"] pos_mod_bound [of 60 r] by simp_all
  qed (use r in \<open>simp_all add: secondsText_def Let_def r_def pos_imp_zdiv_nonneg_iff\<close>)
qed

lemma T_not_date: "-719468 \<le> a \<Longrightarrow> CHR ''T'' \<notin> set (dateText a)"
proof
  assume "-719468 \<le> a" "CHR ''T'' \<in> set (dateText a)"
  then have "digit_char CHR ''T'' \<or> CHR ''T'' = CHR ''-''" using dateText_digits by (auto simp: list_all_iff)
  moreover have "\<not> digit_char CHR ''T''" by code_simp
  ultimately show False by simp
qed

lemma secondsText_inj:
  assumes "secondsText a @ x = secondsText b @ y" "-719468 \<le> a div 86400" "-719468 \<le> b div 86400"
  shows "a = b \<and> x = y"
proof -
  obtain h m s where a: "a = 86400 * (a div 86400) + 3600 * h + 60 * m + s"
    "0 \<le> h" "h < 10 ^ 2" "0 \<le> m" "m < 10 ^ 2" "0 \<le> s" "s < 10 ^ 2"
    "secondsText a = dateText (a div 86400) @ CHR ''T'' # (padStart 2 CHR ''0'' (showInt h) @ '':'' @
       padStart 2 CHR ''0'' (showInt m) @ '':'' @ padStart 2 CHR ''0'' (showInt s))" by (rule secondsText_parts)
  obtain h' m' s' where b: "b = 86400 * (b div 86400) + 3600 * h' + 60 * m' + s'"
    "0 \<le> h'" "h' < 10 ^ 2" "0 \<le> m'" "m' < 10 ^ 2" "0 \<le> s'" "s' < 10 ^ 2"
    "secondsText b = dateText (b div 86400) @ CHR ''T'' # (padStart 2 CHR ''0'' (showInt h') @ '':'' @
       padStart 2 CHR ''0'' (showInt m') @ '':'' @ padStart 2 CHR ''0'' (showInt s'))" by (rule secondsText_parts)
  have "dateText (a div 86400) = dateText (b div 86400) \<and>
    (padStart 2 CHR ''0'' (showInt h) @ '':'' @ padStart 2 CHR ''0'' (showInt m) @ '':'' @ padStart 2 CHR ''0'' (showInt s)) @ x =
    (padStart 2 CHR ''0'' (showInt h') @ '':'' @ padStart 2 CHR ''0'' (showInt m') @ '':'' @ padStart 2 CHR ''0'' (showInt s')) @ y"
    using assms(1) T_not_date [OF assms(2)] T_not_date [OF assms(3)] unfolding a(8) b(8)
    by (intro split_first [of _ "CHR ''T''"]) auto
  then have d: "dateText (a div 86400) = dateText (b div 86400)" and
    "padStart 2 CHR ''0'' (showInt h) = padStart 2 CHR ''0'' (showInt h')"
    "padStart 2 CHR ''0'' (showInt m) = padStart 2 CHR ''0'' (showInt m')"
    "padStart 2 CHR ''0'' (showInt s) = padStart 2 CHR ''0'' (showInt s')" "x = y"
    using padded [OF a(2,3)] padded [OF b(2,3)] padded [OF a(4,5)] padded [OF b(4,5)] padded [OF a(6,7)] padded [OF b(6,7)]
    by auto
  moreover from this have "h = h'" "m = m'" "s = s'" using padded_value a(2,4,6) b(2,4,6) by metis+
  ultimately show ?thesis using dateText_inj [OF d assms(2,3)] a(1) b(1) by simp
qed

lemma schema_day:
  "MIN_UTC_MS \<le> s * 1000 \<Longrightarrow> -719468 \<le> s div 86400" "s * 1000 \<le> MAX_UTC_MS \<Longrightarrow> s div 86400 \<le> 2932896"
  using div_bounds [of 86400 s] by (simp_all add: MIN_UTC_MS_def MAX_UTC_MS_def)

lemma policyTimeText_inj:
  assumes "policyTimeText a = policyTimeText b" "PolicyEvaluationTimeSchema a" "PolicyEvaluationTimeSchema b"
  shows "a = b"
proof -
  have "pt_seconds a = pt_seconds b \<and> (if pt_fraction a = [] then [] else ''.'' @ pt_fraction a) @ ''Z'' =
    (if pt_fraction b = [] then [] else ''.'' @ pt_fraction b) @ ''Z''"
    using assms schema_day(1) unfolding policyTimeText_def PolicyEvaluationTimeSchema_def by (intro secondsText_inj) auto
  moreover from this have "pt_fraction a = pt_fraction b"
    by (cases "pt_fraction a = []"; cases "pt_fraction b = []") simp_all
  ultimately show ?thesis by (intro policy_time.equality) simp_all
qed

lemma utcMillisecondText_inj:
  assumes "utcMillisecondText a = utcMillisecondText b" "UtcMillisecondTimestampSchema a" "UtcMillisecondTimestampSchema b"
  shows "a = b"
proof -
  have day: "-719468 \<le> t div 1000 div 86400" if "UtcMillisecondTimestampSchema t" for t
    using that div_bounds [of 1000 t] div_bounds [of 86400 "t div 1000"]
    by (simp add: UtcMillisecondTimestampSchema_def MIN_UTC_MS_def)
  have "a div 1000 = b div 1000 \<and> ''.'' @ padStart 3 CHR ''0'' (showInt (a mod 1000)) @ ''Z'' =
     ''.'' @ padStart 3 CHR ''0'' (showInt (b mod 1000)) @ ''Z''"
    using assms day unfolding utcMillisecondText_def by (intro secondsText_inj) auto
  then have "a div 1000 = b div 1000" "padStart 3 CHR ''0'' (showInt (a mod 1000)) = padStart 3 CHR ''0'' (showInt (b mod 1000))"
    by auto
  moreover from this(2) have "a mod 1000 = b mod 1000"
    by (metis padded_value pos_mod_sign zero_less_numeral)
  ultimately show ?thesis by (metis mult_div_mod_eq)
qed

lemma secondsText_plain:
  assumes "-719468 \<le> a div 86400" "a div 86400 \<le> 2932896"
  shows "plainText (secondsText a)" "length (secondsText a) \<le> 20"
proof -
  obtain h m s where a: "a = 86400 * (a div 86400) + 3600 * h + 60 * m + s"
    "0 \<le> h" "h < 10 ^ 2" "0 \<le> m" "m < 10 ^ 2" "0 \<le> s" "s < 10 ^ 2"
    "secondsText a = dateText (a div 86400) @ CHR ''T'' # (padStart 2 CHR ''0'' (showInt h) @ '':'' @
       padStart 2 CHR ''0'' (showInt m) @ '':'' @ padStart 2 CHR ''0'' (showInt s))" by (rule secondsText_parts)
  have digits: "plainText x" if "list_all digit_char x" for x
    using that by (rule plainText_mono) (rule plain_char)
  have "plainText (dateText (a div 86400))"
    by (rule plainText_mono [OF dateText_digits [OF assms(1)]]) (use plain_char in \<open>auto simp: plainText_def\<close>)
  moreover have "plainText ''T''" "plainText '':''" by (simp_all add: plainText_def)
  ultimately have "plainText (dateText (a div 86400) @ ''T'' @ padStart 2 CHR ''0'' (showInt h) @ '':'' @
       padStart 2 CHR ''0'' (showInt m) @ '':'' @ padStart 2 CHR ''0'' (showInt s))"
    using digits [OF padded_digits] a(2,4,6) unfolding plainText_append by blast
  then show "plainText (secondsText a)" unfolding a(8) by simp
  show "length (secondsText a) \<le> 20"
    using length_dateText [OF assms] padded [OF a(2,3)] padded [OF a(4,5)] padded [OF a(6,7)] unfolding a(8) by simp
qed

lemma time_cost:
  assumes "PolicyEvaluationTimeSchema t"
  shows "jsonCost (jsonString (policyTimeText t)) \<le> 54"
proof -
  have d: "-719468 \<le> pt_seconds t div 86400" "pt_seconds t div 86400 \<le> 2932896"
    using assms schema_day [of "pt_seconds t"] by (auto simp: PolicyEvaluationTimeSchema_def)
  have "plainText (pt_fraction t)"
    by (rule plainText_mono [of digit_char]) (use assms plain_char in \<open>auto simp: PolicyEvaluationTimeSchema_def\<close>)
  moreover have "plainText ''.''" "plainText ''Z''" "plainText []" by (simp_all add: plainText_def)
  ultimately have "plainText (policyTimeText t)" using secondsText_plain(1) [OF d] by (simp add: policyTimeText_def plainText_def)
  then show ?thesis
    using plainText_quote [of "policyTimeText t"] secondsText_plain(2) [OF d] assms
    by (simp add: policyTimeText_def PolicyEvaluationTimeSchema_def)
qed

end
