(* ===== verification/Policy_Graph_Json.thy ===== *)
theory Policy_Graph_Json
  imports Policy_Snapshot Time_Text
begin

text \<open>
  The JSON of a retained scheduler graph, over which its digest is taken: every record of
  \<open>policy-evaluation-job-snapshot.ts\<close> with its literal version fields. The outstanding allowance may be
  absent, \<open>null\<close> or an object, and an absent field stays absent, so the graph carries whether the field
  was ever written. Two accepted graphs with the same canonical text are equal.
\<close>

section \<open>The records\<close>

definition requestReferenceJson :: "PolicyEvaluationRequestReference \<Rightarrow> json" where
  "requestReferenceJson r =
     jsonObject [(''definitionSha256'', jsonString (reqref_definitionSha256 r)),
       (''evaluationRequestId'', jsonString (reqref_evaluationRequestId r))]"

definition resultReferenceJson :: "PolicyEvaluationResultReference \<Rightarrow> json" where
  "resultReferenceJson r =
     jsonObject [(''evaluationId'', jsonString (resref_evaluationId r)),
       (''definitionSha256'', jsonString (resref_definitionSha256 r))]"

definition timeJson :: "policy_time \<Rightarrow> json" where
  "timeJson t = jsonString (policyTimeText t)"

text \<open>\<open>definitionOf\<close>: the record without its receipt.\<close>

definition definitionOf :: "PolicyEvaluationRequest \<Rightarrow> PolicyEvaluationRequestDefinition" where
  "definitionOf r =
     \<lparr>prd_candidate = prq_candidate r, prd_evaluationRequestId = prq_evaluationRequestId r,
      prd_evaluationTime = prq_evaluationTime r, prd_limits = prq_limits r, prd_policy = prq_policy r\<rparr>"

definition requestJson :: "PolicyEvaluationRequest \<Rightarrow> json" where
  "requestJson r =
     jsonObject
       [(''algorithm'', algorithmJson),
        (''candidate'', candidateReferenceJson (prq_candidate r)),
        (''evaluationRequestId'', jsonString (prq_evaluationRequestId r)),
        (''evaluationTime'', timeJson (prq_evaluationTime r)),
        (''limits'', executionLimitsJson (prq_limits r)),
        (''policy'', policyReferenceJson (prq_policy r)),
        (''createdAt'', jsonString (utcMillisecondText (prq_createdAt r))),
        (''createdByPrincipalId'', jsonString (prq_createdByPrincipalId r)),
        (''definitionSha256'', jsonString (prq_definitionSha256 r)),
        (''schemaVersion'', jsonString ''0.1''), (''scope'', scopeJson (prq_scope r))]"

definition fenceJson :: "PolicyEvaluationWorkerMutationFence \<Rightarrow> json" where
  "fenceJson f =
     jsonObject
       [(''jobId'', jsonString (pf_jobId f)), (''attemptId'', jsonString (pf_attemptId f)),
        (''workerId'', jsonString (pf_workerId f)), (''leaseId'', jsonString (pf_leaseId f)),
        (''fencingToken'', jsonInt (pf_fencingToken f)), (''recoveryEpoch'', jsonInt (pf_recoveryEpoch f))]"

definition leaseJson :: "PolicyEvaluationLease \<Rightarrow> json" where
  "leaseJson l =
     jsonObject
       [(''schemaVersion'', jsonString ''0.1''), (''scope'', scopeJson (pl_scope l)),
        (''mutationFence'', fenceJson (pl_mutationFence l)),
        (''attemptSequence'', jsonInt (pl_attemptSequence l)), (''acquiredAt'', timeJson (pl_acquiredAt l)),
        (''heartbeatAt'', timeJson (pl_heartbeatAt l)), (''expiresAt'', timeJson (pl_expiresAt l)),
        (''attemptDeadlineAt'', timeJson (pl_attemptDeadlineAt l)),
        (''jobDeadlineAt'', timeJson (pl_jobDeadlineAt l))]"

fun terminalCodeName :: "PolicyEvaluationJobTerminalCode \<Rightarrow> string" where
  "terminalCodeName EvaluationCompletedCode = ''evaluation_completed''"
| "terminalCodeName ContractRejectedCode = ''contract_rejected''"
| "terminalCodeName AcquisitionFailedCode = ''acquisition_failed''"
| "terminalCodeName ExecutionFailedCode = ''execution_failed''"
| "terminalCodeName RetriesExhaustedCode = ''retries_exhausted''"
| "terminalCodeName DeadlineReachedCode = ''deadline_reached''"
| "terminalCodeName BudgetLimitReachedCode = ''budget_limit_reached''"
| "terminalCodeName CancellationCommittedCode = ''cancellation_committed''"

definition terminalJson :: "PolicyEvaluationJobTerminal \<Rightarrow> json" where
  "terminalJson t =
     jsonObject
       [(''status'', jsonString (policyJobStatusName (pterm_status t))),
        (''code'', jsonString (terminalCodeName (pterm_code t))),
        (''attemptId'', jsonNullable (\<lambda>s. jsonString s) (pterm_attemptId t)),
        (''committedAt'', timeJson (pterm_committedAt t))]"

definition jobJson :: "PolicyEvaluationJob \<Rightarrow> json" where
  "jobJson j =
     jsonObject
       [(''schemaVersion'', jsonString ''0.1''), (''jobId'', jsonString (pj_jobId j)),
        (''request'', requestReferenceJson (pj_request j)),
        (''definitionSha256'', jsonString (pj_definitionSha256 j)), (''scope'', scopeJson (pj_scope j)),
        (''createdAt'', timeJson (pj_createdAt j)),
        (''createdByPrincipalId'', jsonString (pj_createdByPrincipalId j)),
        (''deadlineAt'', timeJson (pj_deadlineAt j)), (''updatedAt'', timeJson (pj_updatedAt j)),
        (''stateVersion'', jsonInt (pj_stateVersion j)), (''recoveryEpoch'', jsonInt (pj_recoveryEpoch j)),
        (''lastFencingToken'', jsonInt (pj_lastFencingToken j)),
        (''attemptCount'', jsonInt (pj_attemptCount j)),
        (''status'', jsonString (policyJobStatusName (pj_status j))),
        (''currentLease'', jsonNullable leaseJson (pj_currentLease j)),
        (''snapshot'', jsonNullable snapshotReferenceJson (pj_snapshot j)),
        (''result'', jsonNullable resultReferenceJson (pj_result j)),
        (''retryAt'', jsonNullable timeJson (pj_retryAt j)),
        (''terminal'', jsonNullable terminalJson (pj_terminal j))]"

definition usageJson :: "PolicyEvaluationUsage \<Rightarrow> json" where
  "usageJson u =
     jsonObject
       [(''reads'', jsonInt (u UReads)), (''records'', jsonInt (u URecords)),
        (''recordBytes'', jsonInt (u URecordBytes)), (''references'', jsonInt (u UReferences)),
        (''referenceBytes'', jsonInt (u UReferenceBytes)),
        (''artifactReadBytes'', jsonInt (u UArtifactReadBytes)),
        (''ruleEvaluations'', jsonInt (u URuleEvaluations))]"

fun closureStatusName :: "ClosureStatus \<Rightarrow> string" where
  "closureStatusName ClosedFailed = ''failed''"
| "closureStatusName ClosedCancelled = ''cancelled''"
| "closureStatusName ClosedTimedOut = ''timed_out''"
| "closureStatusName ClosedBudgetExhausted = ''budget_exhausted''"

fun closureReasonName :: "ClosureReason \<Rightarrow> string" where
  "closureReasonName ClosureReason.ContractRejected = ''contract_rejected''"
| "closureReasonName ClosureReason.AcquisitionFailed = ''acquisition_failed''"
| "closureReasonName ClosureReason.ExecutionFailed = ''execution_failed''"
| "closureReasonName ClosureReason.CancellationCommitted = ''cancellation_committed''"
| "closureReasonName ClosureReason.DeadlineReachedReason = ''deadline_reached''"
| "closureReasonName ClosureReason.BudgetLimitReached = ''budget_limit_reached''"

fun closureJson :: "AttemptClosure \<Rightarrow> json" where
  "closureJson (ClosureCompleted t) =
     jsonObject [(''status'', jsonString ''completed''), (''committedAt'', timeJson t)]"
| "closureJson (ClosureInterrupted reason t) =
     jsonObject [(''status'', jsonString ''interrupted''), (''reason'', jsonString (policyRetryableName reason)),
       (''committedAt'', timeJson t)]"
| "closureJson (ClosureStopped status reason t) =
     jsonObject [(''status'', jsonString (closureStatusName status)),
       (''reason'', jsonString (closureReasonName reason)), (''committedAt'', timeJson t)]"

fun phaseName :: "AttemptPhase \<Rightarrow> string" where
  "phaseName PhaseAcquiring = ''acquiring''"
| "phaseName PhaseComputing = ''computing''"

definition attemptJson :: "PolicyEvaluationAttempt \<Rightarrow> json" where
  "attemptJson a =
     jsonObject
       [(''schemaVersion'', jsonString ''0.1''), (''scope'', scopeJson (pa_scope a)),
        (''mutationFence'', fenceJson (pa_mutationFence a)),
        (''attemptSequence'', jsonInt (pa_attemptSequence a)), (''startedAt'', timeJson (pa_startedAt a)),
        (''deadlineAt'', timeJson (pa_deadlineAt a)), (''phase'', jsonString (phaseName (pa_phase a))),
        (''snapshot'', jsonNullable snapshotReferenceJson (pa_snapshot a)),
        (''usageAtStart'', usageJson (pa_usageAtStart a)),
        (''usageAtClose'', jsonNullable usageJson (pa_usageAtClose a)),
        (''closure'', jsonNullable closureJson (pa_closure a))]"

fun cancellationReasonName :: "PolicyCancellationReason \<Rightarrow> string" where
  "cancellationReasonName OperatorRequested = ''operator_requested''"
| "cancellationReasonName SupersededRequest = ''superseded_request''"
| "cancellationReasonName IncidentResponse = ''incident_response''"

definition cancellationJson :: "PolicyEvaluationCancellation \<Rightarrow> json" where
  "cancellationJson c =
     jsonObject
       [(''jobId'', jsonString (pcn_jobId c)), (''cancellationId'', jsonString (pcn_cancellationId c)),
        (''scope'', scopeJson (pcn_scope c)), (''requestedAt'', timeJson (pcn_requestedAt c)),
        (''requestedByPrincipalId'', jsonString (pcn_requestedByPrincipalId c)),
        (''reason'', jsonString (cancellationReasonName (pcn_reason c)))]"

definition acquisitionUsageJson :: "PolicyEvaluationAcquisitionUsage \<Rightarrow> json" where
  "acquisitionUsageJson u =
     jsonObject
       [(''reads'', jsonInt (aqu_reads u)), (''records'', jsonInt (aqu_records u)),
        (''references'', jsonInt (aqu_references u)), (''recordBytes'', jsonInt (aqu_recordBytes u)),
        (''referenceBytes'', jsonInt (aqu_referenceBytes u))]"

definition acquisitionLimitsJson :: "PolicyEvaluationAcquisitionLimits \<Rightarrow> json" where
  "acquisitionLimitsJson l =
     jsonObject
       [(''reads'', jsonInt (aql_reads l)), (''records'', jsonInt (aql_records l)),
        (''references'', jsonInt (aql_references l)),
        (''recordAndReferenceBytes'', jsonInt (aql_recordAndReferenceBytes l))]"

definition allowanceJson :: "PolicyEvaluationAcquisitionAllowance \<Rightarrow> json" where
  "allowanceJson a =
     jsonObject
       [(''schemaVersion'', jsonString ''0.1''), (''allowanceId'', jsonString (aal_allowanceId a)),
        (''mutationFence'', fenceJson (aal_mutationFence a)), (''reservedAt'', timeJson (aal_reservedAt a)),
        (''usageAtReservation'', acquisitionUsageJson (aal_usageAtReservation a)),
        (''limits'', acquisitionLimitsJson (aal_limits a))]"

text \<open>A graph as it is retained: \<open>rg_allowanceWritten\<close> tells a \<open>null\<close> allowance from an absent one.\<close>

record RetainedJobGraph =
  rg_snapshot :: PolicyEvaluationJobSnapshot
  rg_allowanceWritten :: bool

definition allowanceWritten :: "RetainedJobGraph \<Rightarrow> bool" where
  "allowanceWritten g \<longleftrightarrow> rg_allowanceWritten g \<or> ps_acquisitionAllowance (rg_snapshot g) \<noteq> None"

definition graphJson :: "RetainedJobGraph \<Rightarrow> json" where
  "graphJson g =
     (let s = rg_snapshot g in
      jsonObject
        ([(''request'', requestJson (ps_request s)), (''job'', jobJson (ps_job s)),
          (''attempts'', JArray (map (\<lambda>a. Some (attemptJson a)) (ps_attempts s))),
          (''cancellation'', jsonNullable cancellationJson (ps_cancellation s)),
          (''usage'', usageJson (ps_usage s))] @
         (if allowanceWritten g
          then [(''acquisitionAllowance'', jsonNullable allowanceJson (ps_acquisitionAllowance s))] else [])))"

section \<open>Equal texts of equal records\<close>

lemma same_time:
  "sameEncoding (timeJson a) (timeJson b) \<Longrightarrow> PolicyEvaluationTimeSchema a \<Longrightarrow> PolicyEvaluationTimeSchema b \<Longrightarrow> a = b"
  by (auto simp: timeJson_def js_text_of_inj intro: policyTimeText_inj)

lemma name_inj:
  "policyRetryableName a = policyRetryableName b \<longleftrightarrow> a = b" "policyJobStatusName c = policyJobStatusName d \<longleftrightarrow> c = d"
  "terminalCodeName e = terminalCodeName f \<longleftrightarrow> e = f" "closureStatusName g = closureStatusName h \<longleftrightarrow> g = h"
  "closureReasonName i = closureReasonName j \<longleftrightarrow> i = j" "phaseName k = phaseName l \<longleftrightarrow> k = l"
  "cancellationReasonName m = cancellationReasonName n \<longleftrightarrow> m = n"
proof -
  show "policyRetryableName a = policyRetryableName b \<longleftrightarrow> a = b" by (cases a; cases b) simp_all
  show "policyJobStatusName c = policyJobStatusName d \<longleftrightarrow> c = d" by (cases c; cases d) simp_all
  show "terminalCodeName e = terminalCodeName f \<longleftrightarrow> e = f" by (cases e; cases f) simp_all
  show "closureStatusName g = closureStatusName h \<longleftrightarrow> g = h" by (cases g; cases h) simp_all
  show "closureReasonName i = closureReasonName j \<longleftrightarrow> i = j" by (cases i; cases j) simp_all
  show "phaseName k = phaseName l \<longleftrightarrow> k = l" by (cases k; cases l) simp_all
  show "cancellationReasonName m = cancellationReasonName n \<longleftrightarrow> m = n" by (cases m; cases n) simp_all
qed

lemma same_scope: "sameEncoding (scopeJson a) (scopeJson b) \<Longrightarrow> a = b"
  unfolding scopeJson_def by (drule same_object) (simp_all add: js_text_of_inj)

lemma same_candidate: "sameEncoding (candidateReferenceJson a) (candidateReferenceJson b) \<Longrightarrow> a = b"
  unfolding candidateReferenceJson_def by (drule same_object) (simp_all add: js_text_of_inj)

lemma same_policy: "sameEncoding (policyReferenceJson a) (policyReferenceJson b) \<Longrightarrow> a = b"
  unfolding policyReferenceJson_def by (drule same_object) (simp_all add: js_text_of_inj)

lemma same_limits: "sameEncoding (executionLimitsJson a) (executionLimitsJson b) \<Longrightarrow> a = b"
proof -
  assume "sameEncoding (executionLimitsJson a) (executionLimitsJson b)"
  note f = same_object [OF this [unfolded executionLimitsJson_def]]
  have "sameEncoding (JArray (map (\<lambda>e. Some (jsonString (policyRetryableName e))) (lim_retryableErrors a)))
    (JArray (map (\<lambda>e. Some (jsonString (policyRetryableName e))) (lim_retryableErrors b)))"
    using f by simp
  then have "lim_retryableErrors a = lim_retryableErrors b"
    by (rule same_array) (simp add: js_text_of_inj name_inj)
  then show ?thesis using f by simp
qed

lemma same_request:
  assumes "sameEncoding (requestJson a) (requestJson b)" "PolicyEvaluationRequestSchema a" "PolicyEvaluationRequestSchema b"
  shows "a = b"
proof -
  note f = same_object [OF assms(1) [unfolded requestJson_def]]
  have "prq_candidate a = prq_candidate b" by (rule same_candidate) (use f in simp)
  moreover have "prq_policy a = prq_policy b" by (rule same_policy) (use f in simp)
  moreover have "prq_limits a = prq_limits b" by (rule same_limits) (use f in simp)
  moreover have "prq_scope a = prq_scope b" by (rule same_scope) (use f in simp)
  moreover have "prq_evaluationTime a = prq_evaluationTime b"
    by (rule same_time) (use f assms(2,3) in \<open>simp_all add: PolicyEvaluationRequestSchema_def\<close>)
  moreover have "prq_createdAt a = prq_createdAt b"
    by (rule utcMillisecondText_inj) (use f assms(2,3) in \<open>simp_all add: PolicyEvaluationRequestSchema_def js_text_of_inj\<close>)
  ultimately show ?thesis using f by (simp add: js_text_of_inj)
qed

lemma same_request_reference: "sameEncoding (requestReferenceJson a) (requestReferenceJson b) \<Longrightarrow> a = b"
  unfolding requestReferenceJson_def by (drule same_object) (simp_all add: js_text_of_inj)

lemma same_result_reference: "sameEncoding (resultReferenceJson a) (resultReferenceJson b) \<Longrightarrow> a = b"
  unfolding resultReferenceJson_def by (drule same_object) (simp_all add: js_text_of_inj)

lemma same_snapshot_reference: "sameEncoding (snapshotReferenceJson a) (snapshotReferenceJson b) \<Longrightarrow> a = b"
  unfolding snapshotReferenceJson_def by (drule same_object) (simp_all add: js_text_of_inj)

lemma same_job_reference: "sameEncoding (jobReferenceJson a) (jobReferenceJson b) \<Longrightarrow> a = b"
  unfolding jobReferenceJson_def by (drule same_object) (simp_all add: js_text_of_inj)

lemma same_fence: "sameEncoding (fenceJson a) (fenceJson b) \<Longrightarrow> a = b"
  unfolding fenceJson_def by (drule same_object) (simp_all add: js_text_of_inj)

lemma same_acquisition_usage: "sameEncoding (acquisitionUsageJson a) (acquisitionUsageJson b) \<Longrightarrow> a = b"
  unfolding acquisitionUsageJson_def by (drule same_object) (simp_all add: js_text_of_inj)

lemma same_acquisition_limits: "sameEncoding (acquisitionLimitsJson a) (acquisitionLimitsJson b) \<Longrightarrow> a = b"
  unfolding acquisitionLimitsJson_def by (drule same_object) (simp_all add: js_text_of_inj)

lemma same_usage: "sameEncoding (usageJson a) (usageJson b) \<Longrightarrow> a = b"
proof
  fix k
  assume "sameEncoding (usageJson a) (usageJson b)"
  from same_object [OF this [unfolded usageJson_def]] show "a k = b k" by (cases k) simp_all
qed

lemma not_null [simp]:
  "normalizeJson (leaseJson a) \<noteq> JNull" "normalizeJson (snapshotReferenceJson b) \<noteq> JNull"
  "normalizeJson (resultReferenceJson c) \<noteq> JNull" "normalizeJson (timeJson d) \<noteq> JNull"
  "normalizeJson (terminalJson e) \<noteq> JNull" "normalizeJson (usageJson f) \<noteq> JNull"
  "normalizeJson (closureJson g) \<noteq> JNull" "normalizeJson (cancellationJson h) \<noteq> JNull"
  "normalizeJson (allowanceJson i) \<noteq> JNull" "normalizeJson (acquisitionUsageJson j) \<noteq> JNull"
  by (simp_all add: leaseJson_def snapshotReferenceJson_def resultReferenceJson_def timeJson_def terminalJson_def
      usageJson_def cancellationJson_def allowanceJson_def acquisitionUsageJson_def) (cases g; simp)

lemma same_lease:
  assumes "sameEncoding (leaseJson a) (leaseJson b)" "PolicyEvaluationLeaseSchema a" "PolicyEvaluationLeaseSchema b"
  shows "a = b"
proof -
  note f = same_object [OF assms(1) [unfolded leaseJson_def]]
  note t = same_time f assms(2,3) [unfolded PolicyEvaluationLeaseSchema_def]
  have "pl_scope a = pl_scope b" by (rule same_scope) (use f in simp)
  moreover have "pl_mutationFence a = pl_mutationFence b" by (rule same_fence) (use f in simp)
  moreover have "pl_acquiredAt a = pl_acquiredAt b" by (rule t(1)) (use t in simp_all)
  moreover have "pl_heartbeatAt a = pl_heartbeatAt b" by (rule t(1)) (use t in simp_all)
  moreover have "pl_expiresAt a = pl_expiresAt b" by (rule t(1)) (use t in simp_all)
  moreover have "pl_attemptDeadlineAt a = pl_attemptDeadlineAt b" by (rule t(1)) (use t in simp_all)
  moreover have "pl_jobDeadlineAt a = pl_jobDeadlineAt b" by (rule t(1)) (use t in simp_all)
  ultimately show ?thesis using f by simp
qed

lemma same_terminal:
  assumes "sameEncoding (terminalJson a) (terminalJson b)" "TerminalSchema a" "TerminalSchema b"
  shows "a = b"
proof -
  note f = same_object [OF assms(1) [unfolded terminalJson_def]]
  have "pterm_committedAt a = pterm_committedAt b"
    by (rule same_time) (use f assms(2,3) in \<open>simp_all add: TerminalSchema_def\<close>)
  moreover have "pterm_attemptId a = pterm_attemptId b"
    by (rule same_nullable [where f = "\<lambda>s. jsonString s"]) (use f in \<open>simp_all add: js_text_of_inj\<close>)
  ultimately show ?thesis using f by (simp add: js_text_of_inj name_inj)
qed

lemma same_closure:
  assumes "sameEncoding (closureJson a) (closureJson b)" "PolicyEvaluationTimeSchema (closureCommittedAt a)"
    "PolicyEvaluationTimeSchema (closureCommittedAt b)"
  shows "a = b"
proof -
  define kind where "kind c = (case c of ClosureCompleted _ \<Rightarrow> ''completed'' | ClosureInterrupted _ _ \<Rightarrow> ''interrupted''
    | ClosureStopped s _ _ \<Rightarrow> closureStatusName s)" for c
  define fields where "fields c = (case c of
      ClosureCompleted t \<Rightarrow> [(''status'', jsonString ''completed''), (''committedAt'', timeJson t)]
    | ClosureInterrupted reason t \<Rightarrow>
        [(''status'', jsonString ''interrupted''), (''reason'', jsonString (policyRetryableName reason)), (''committedAt'', timeJson t)]
    | ClosureStopped status reason t \<Rightarrow> [(''status'', jsonString (closureStatusName status)),
       (''reason'', jsonString (closureReasonName reason)), (''committedAt'', timeJson t)])" for c
  have eq: "closureJson c = jsonObject (fields c)" for c by (cases c) (simp_all add: fields_def)
  have d: "distinct (map fst (fields c))" "map_of (fields c) ''status'' = Some (jsonString (kind c))"
    "map_of (fields c) ''committedAt'' = Some (timeJson (closureCommittedAt c))" for c
    by (cases c; simp add: fields_def kind_def)+
  note s = same_field [OF assms(1) [unfolded eq] d(1) d(1)]
  have k: "kind a = kind b" using s [of "''status''"] by (simp add: d js_text_of_inj)
  have t: "closureCommittedAt a = closureCommittedAt b"
    by (rule same_time) (use s [of "''committedAt''"] assms(2,3) in \<open>simp_all add: d\<close>)
  have n: "closureStatusName x \<noteq> ''completed''" "closureStatusName x \<noteq> ''interrupted''" for x by (cases x; simp)+
  show ?thesis
    using k t s [of "''reason''"] n n [symmetric]
    by (cases a; cases b) (simp_all add: kind_def fields_def js_text_of_inj name_inj)
qed

lemma same_cancellation:
  assumes "sameEncoding (cancellationJson a) (cancellationJson b)" "PolicyEvaluationCancellationSchema a" "PolicyEvaluationCancellationSchema b"
  shows "a = b"
proof -
  note f = same_object [OF assms(1) [unfolded cancellationJson_def]]
  have "pcn_scope a = pcn_scope b" by (rule same_scope) (use f in simp)
  moreover have "pcn_requestedAt a = pcn_requestedAt b"
    by (rule same_time) (use f assms(2,3) in \<open>simp_all add: PolicyEvaluationCancellationSchema_def\<close>)
  ultimately show ?thesis using f by (simp add: js_text_of_inj name_inj)
qed

lemma same_allowance:
  assumes "sameEncoding (allowanceJson a) (allowanceJson b)" "PolicyEvaluationAcquisitionAllowanceSchema a"
    "PolicyEvaluationAcquisitionAllowanceSchema b"
  shows "a = b"
proof -
  note f = same_object [OF assms(1) [unfolded allowanceJson_def]]
  have "aal_mutationFence a = aal_mutationFence b" by (rule same_fence) (use f in simp)
  moreover have "aal_usageAtReservation a = aal_usageAtReservation b" by (rule same_acquisition_usage) (use f in simp)
  moreover have "aal_limits a = aal_limits b" by (rule same_acquisition_limits) (use f in simp)
  moreover have "aal_reservedAt a = aal_reservedAt b"
    by (rule same_time) (use f assms(2,3) in \<open>simp_all add: PolicyEvaluationAcquisitionAllowanceSchema_def\<close>)
  ultimately show ?thesis using f by (simp add: js_text_of_inj)
qed

lemma same_attempt:
  assumes "sameEncoding (attemptJson a) (attemptJson b)" "PolicyEvaluationAttemptSchema a" "PolicyEvaluationAttemptSchema b"
  shows "a = b"
proof -
  note f = same_object [OF assms(1) [unfolded attemptJson_def]]
  note t = assms(2,3) [unfolded PolicyEvaluationAttemptSchema_def]
  have "pa_scope a = pa_scope b" by (rule same_scope) (use f in simp)
  moreover have "pa_mutationFence a = pa_mutationFence b" by (rule same_fence) (use f in simp)
  moreover have "pa_startedAt a = pa_startedAt b" by (rule same_time) (use f t in simp_all)
  moreover have "pa_deadlineAt a = pa_deadlineAt b" by (rule same_time) (use f t in simp_all)
  moreover have "pa_snapshot a = pa_snapshot b"
    by (rule same_nullable [where f = snapshotReferenceJson]) (use f in \<open>simp_all add: same_snapshot_reference\<close>)
  moreover have "pa_usageAtStart a = pa_usageAtStart b" by (rule same_usage) (use f in simp)
  moreover have "pa_usageAtClose a = pa_usageAtClose b"
    by (rule same_nullable [where f = usageJson]) (use f in \<open>simp_all add: same_usage\<close>)
  moreover have "pa_closure a = pa_closure b"
    by (rule same_nullable [where f = closureJson]) (use f t in \<open>simp_all add: same_closure\<close>)
  ultimately show ?thesis using f by (simp add: js_text_of_inj name_inj)
qed

lemma same_job:
  assumes "sameEncoding (jobJson a) (jobJson b)" "jobShape a" "jobShape b"
  shows "a = b"
proof -
  note f = same_object [OF assms(1) [unfolded jobJson_def]]
  note t = assms(2,3) [unfolded jobShape_def]
  have "pj_scope a = pj_scope b" by (rule same_scope) (use f in simp)
  moreover have "pj_request a = pj_request b" by (rule same_request_reference) (use f in simp)
  moreover have "pj_createdAt a = pj_createdAt b" by (rule same_time) (use f t in simp_all)
  moreover have "pj_deadlineAt a = pj_deadlineAt b" by (rule same_time) (use f t in simp_all)
  moreover have "pj_updatedAt a = pj_updatedAt b" by (rule same_time) (use f t in simp_all)
  moreover have "pj_currentLease a = pj_currentLease b"
    by (rule same_nullable [where f = leaseJson]) (use f t in \<open>simp_all add: same_lease\<close>)
  moreover have "pj_snapshot a = pj_snapshot b"
    by (rule same_nullable [where f = snapshotReferenceJson]) (use f in \<open>simp_all add: same_snapshot_reference\<close>)
  moreover have "pj_result a = pj_result b"
    by (rule same_nullable [where f = resultReferenceJson]) (use f in \<open>simp_all add: same_result_reference\<close>)
  moreover have "pj_retryAt a = pj_retryAt b"
    by (rule same_nullable [where f = timeJson]) (use f t in \<open>simp_all add: same_time\<close>)
  moreover have "pj_terminal a = pj_terminal b"
    by (rule same_nullable [where f = terminalJson]) (use f t in \<open>simp_all add: same_terminal\<close>)
  ultimately show ?thesis using f by (simp add: js_text_of_inj name_inj)
qed

lemma same_graph:
  assumes "sameEncoding (graphJson g) (graphJson h)" "PolicyEvaluationJobSnapshotSchema (rg_snapshot g)"
    "PolicyEvaluationJobSnapshotSchema (rg_snapshot h)"
  shows "rg_snapshot g = rg_snapshot h" "allowanceWritten g = allowanceWritten h"
proof -
  let ?s = "rg_snapshot g" and ?t = "rg_snapshot h"
  have shape: "snapshotShape ?s" "snapshotShape ?t" using assms(2,3) by (simp_all add: PolicyEvaluationJobSnapshotSchema_def)
  note v = shape [unfolded snapshotShape_def PolicyEvaluationJobSchema_def]
  note f = same_field [OF assms(1) [unfolded graphJson_def Let_def]]
  have request: "ps_request ?s = ps_request ?t"
    by (rule same_request) (use f [of "''request''"] v in simp_all)
  have job: "ps_job ?s = ps_job ?t"
    by (rule same_job) (use f [of "''job''"] v in simp_all)
  have "sameEncoding (JArray (map (\<lambda>a. Some (attemptJson a)) (ps_attempts ?s))) (JArray (map (\<lambda>a. Some (attemptJson a)) (ps_attempts ?t)))"
    using f [of "''attempts''"] by simp
  then have attempts: "ps_attempts ?s = ps_attempts ?t"
    by (rule same_array) (use v in \<open>simp add: list_all_iff same_attempt\<close>)
  have cancellation: "ps_cancellation ?s = ps_cancellation ?t"
    by (rule same_nullable [where f = cancellationJson]) (use f [of "''cancellation''"] v in \<open>simp_all add: same_cancellation\<close>)
  have usage: "ps_usage ?s = ps_usage ?t"
    by (rule same_usage) (use f [of "''usage''"] in simp)
  show written: "allowanceWritten g = allowanceWritten h"
    using f [of "''acquisitionAllowance''"] by (cases "allowanceWritten g"; cases "allowanceWritten h") simp_all
  have "ps_acquisitionAllowance ?s = ps_acquisitionAllowance ?t"
  proof (cases "allowanceWritten g")
    case True
    show ?thesis
      by (rule same_nullable [where f = allowanceJson])
        (use f [of "''acquisitionAllowance''"] True written v in \<open>simp_all add: same_allowance\<close>)
  next
    case False
    then show ?thesis using written by (simp add: allowanceWritten_def)
  qed
  then show "?s = ?t" using request job attempts cancellation usage by simp
qed

section \<open>The encoder admits every graph\<close>

lemma plain_flat [simp]:
  "1 \<le> k \<Longrightarrow> plainJson k (scopeJson a)" "1 \<le> k \<Longrightarrow> plainJson k (candidateReferenceJson b)"
  "1 \<le> k \<Longrightarrow> plainJson k (policyReferenceJson c)" "1 \<le> k \<Longrightarrow> plainJson k (requestReferenceJson d)"
  "1 \<le> k \<Longrightarrow> plainJson k (resultReferenceJson e)" "1 \<le> k \<Longrightarrow> plainJson k (snapshotReferenceJson f)"
  "1 \<le> k \<Longrightarrow> plainJson k (jobReferenceJson g)" "1 \<le> k \<Longrightarrow> plainJson k algorithmJson" "plainJson k (timeJson t)"
  unfolding scopeJson_def candidateReferenceJson_def policyReferenceJson_def requestReferenceJson_def
    resultReferenceJson_def snapshotReferenceJson_def jobReferenceJson_def timeJson_def algorithmJson_def plainJson_object by simp_all

lemma plain_closure [simp]: "1 \<le> k \<Longrightarrow> plainJson k (closureJson c)"
  by (cases c) (simp_all only: closureJson.simps plainJson_object, simp_all)

lemmas integer_bounds = SafePositiveInteger_def SafeNonnegativeInteger_def boundedInteger_def countInteger_def
  bytesInteger_def MAX_SAFE_INTEGER_def policy_limits

lemma plain_limits: "2 \<le> k \<Longrightarrow> PolicyEvaluationExecutionLimitsSchema l \<Longrightarrow> plainJson k (executionLimitsJson l)"
  unfolding executionLimitsJson_def plainJson_object PolicyEvaluationExecutionLimitsSchema_def
  by (simp add: plainJson_array list_all_iff integer_bounds)

lemma plain_fence: "1 \<le> k \<Longrightarrow> PolicyEvaluationWorkerMutationFenceSchema f \<Longrightarrow> plainJson k (fenceJson f)"
  unfolding fenceJson_def plainJson_object PolicyEvaluationWorkerMutationFenceSchema_def by (simp add: integer_bounds)

lemma plain_usage: "1 \<le> k \<Longrightarrow> PolicyEvaluationUsageSchema u \<Longrightarrow> plainJson k (usageJson u)"
  unfolding usageJson_def plainJson_object PolicyEvaluationUsageSchema_def
  by (simp add: USAGE_KEYS_def integer_bounds)

lemma plain_request: "3 \<le> k \<Longrightarrow> PolicyEvaluationRequestSchema r \<Longrightarrow> plainJson k (requestJson r)"
  unfolding requestJson_def plainJson_object by (simp add: plain_limits PolicyEvaluationRequestSchema_def)

lemma plain_lease: "2 \<le> k \<Longrightarrow> PolicyEvaluationLeaseSchema l \<Longrightarrow> plainJson k (leaseJson l)"
  unfolding leaseJson_def plainJson_object PolicyEvaluationLeaseSchema_def
  by (simp add: plain_fence integer_bounds)

lemma plain_terminal: "1 \<le> k \<Longrightarrow> plainJson k (terminalJson t)"
  unfolding terminalJson_def plainJson_object by (simp add: plainJson_nullable)

lemma plain_optional:
  "2 \<le> k \<Longrightarrow> optional PolicyEvaluationLeaseSchema l \<Longrightarrow> plainJson k (jsonNullable leaseJson l)"
  "1 \<le> k \<Longrightarrow> optional PolicyEvaluationUsageSchema u \<Longrightarrow> plainJson k (jsonNullable usageJson u)"
  by (cases l; cases u; simp add: jsonNullable_def plain_lease plain_usage)+

lemma plain_job: "3 \<le> k \<Longrightarrow> jobShape j \<Longrightarrow> plainJson k (jobJson j)"
  unfolding jobJson_def plainJson_object jobShape_def
  by (simp add: integer_bounds plainJson_nullable plain_optional plain_terminal)

lemma plain_attempt: "2 \<le> k \<Longrightarrow> PolicyEvaluationAttemptSchema a \<Longrightarrow> plainJson k (attemptJson a)"
  unfolding attemptJson_def plainJson_object PolicyEvaluationAttemptSchema_def
  by (simp add: integer_bounds plainJson_nullable plain_fence plain_usage plain_optional)

lemma plain_cancellation: "2 \<le> k \<Longrightarrow> plainJson k (cancellationJson c)"
  unfolding cancellationJson_def plainJson_object by simp

lemma plain_acquisition_usage: "1 \<le> k \<Longrightarrow> PolicyEvaluationAcquisitionUsageSchema u \<Longrightarrow> plainJson k (acquisitionUsageJson u)"
  unfolding acquisitionUsageJson_def plainJson_object PolicyEvaluationAcquisitionUsageSchema_def by (simp add: integer_bounds)

lemma plain_acquisition_limits: "1 \<le> k \<Longrightarrow> PolicyEvaluationAcquisitionLimitsSchema l \<Longrightarrow> plainJson k (acquisitionLimitsJson l)"
  unfolding acquisitionLimitsJson_def plainJson_object PolicyEvaluationAcquisitionLimitsSchema_def by (simp add: integer_bounds)

lemma plain_allowance: "2 \<le> k \<Longrightarrow> PolicyEvaluationAcquisitionAllowanceSchema a \<Longrightarrow> plainJson k (allowanceJson a)"
  unfolding allowanceJson_def plainJson_object PolicyEvaluationAcquisitionAllowanceSchema_def
  by (simp add: plain_fence plain_acquisition_usage plain_acquisition_limits)

lemma plain_optional_allowance:
  "2 \<le> k \<Longrightarrow> optional PolicyEvaluationAcquisitionAllowanceSchema a \<Longrightarrow> plainJson k (jsonNullable allowanceJson a)"
  by (cases a) (simp_all add: jsonNullable_def plain_allowance)

lemma plain_graph: "4 \<le> k \<Longrightarrow> snapshotShape (rg_snapshot g) \<Longrightarrow> plainJson k (graphJson g)"
  unfolding graphJson_def Let_def plainJson_object snapshotShape_def PolicyEvaluationJobSchema_def
  by (simp add: plain_request plain_job plain_usage plainJson_nullable plain_cancellation plain_optional_allowance plainJson_array
      plain_attempt list_all_iff)

end
