(* ===== verification/Policy_History.thy ===== *)
theory Policy_History
  imports Policy_Machine Policy_Graph_Json
begin

text \<open>
  The retained history of a policy-evaluation job: the entry, head and page contracts of
  \<open>packages/contracts/src/policy-evaluation-job-history.ts\<close>, the canonical digests of
  \<open>policy-evaluation-request-record-validation.ts\<close>, \<open>policy-evaluation-job-record-validation.ts\<close> and
  \<open>policy-evaluation-job-history.ts\<close> under \<open>packages/core/src/policy\<close>, the re-derivation of an entry in
  \<open>policy-evaluation-job-history-replay.ts\<close>, and the append of
  \<open>packages/postgres/src/postgres-policy-evaluation-job-base.ts\<close> up to its stored procedure.

  The hexadecimal SHA-256 digest of a byte sequence is the parameter \<open>sha\<close>. Equality of canonical
  serializations of scopes and fences is equality of the values.
\<close>

section \<open>The contract\<close>

datatype HistoryOperation =
    OpReserveAcquisition PolicyEvaluationWorkerMutationFence string
  | OpSettleAcquisition PolicyEvaluationWorkerMutationFence string "PolicyEvaluationAcquisitionUsage option"
  | OpComplete PolicyEvaluationWorkerMutationFence PolicyEvaluationResultReference int
  | OpSeal PolicyEvaluationWorkerMutationFence PolicyEvaluationSnapshotReference
  | OpStartComputation PolicyEvaluationWorkerMutationFence
  | OpCreated
  | OpClaim PolicyEvaluationWorkerMutationFence
  | OpHeartbeat PolicyEvaluationWorkerMutationFence
  | OpReserve PolicyEvaluationWorkerMutationFence string PolicyEvaluationUsage
  | OpInterrupt PolicyEvaluationWorkerMutationFence PolicyEvaluationRetryableError
  | OpReclaim
  | OpHistoryLimit
  | OpRecovery int
  | OpCancel PolicyEvaluationCancellation

fun operationFence :: "HistoryOperation \<Rightarrow> PolicyEvaluationWorkerMutationFence option" where
  "operationFence (OpReserveAcquisition f _) = Some f"
| "operationFence (OpSettleAcquisition f _ _) = Some f"
| "operationFence (OpComplete f _ _) = Some f"
| "operationFence (OpSeal f _) = Some f"
| "operationFence (OpStartComputation f) = Some f"
| "operationFence (OpClaim f) = Some f"
| "operationFence (OpHeartbeat f) = Some f"
| "operationFence (OpReserve f _ _) = Some f"
| "operationFence (OpInterrupt f _) = Some f"
| "operationFence _ = None"

fun operationFields :: "HistoryOperation \<Rightarrow> bool" where
  "operationFields (OpReserveAcquisition _ allowanceId) = OpaqueIdSchema allowanceId"
| "operationFields (OpSettleAcquisition _ allowanceId usage) =
     (OpaqueIdSchema allowanceId \<and> optional PolicyEvaluationAcquisitionUsageSchema usage)"
| "operationFields (OpComplete _ result ruleCount) =
     (PolicyEvaluationResultReferenceSchema result \<and> 0 < ruleCount \<and> ruleCount \<le> MAX_POLICY_RULES)"
| "operationFields (OpSeal _ snapshot) = PolicyEvaluationSnapshotReferenceSchema snapshot"
| "operationFields (OpReserve _ reservationId delta) =
     (OpaqueIdSchema reservationId \<and> PolicyEvaluationUsageSchema delta)"
| "operationFields (OpRecovery recoveryEpoch) = SafePositiveInteger recoveryEpoch"
| "operationFields (OpCancel intent) = PolicyEvaluationCancellationSchema intent"
| "operationFields _ = True"

definition OperationSchema :: "HistoryOperation \<Rightarrow> bool" where
  "OperationSchema operation \<longleftrightarrow>
     optional PolicyEvaluationWorkerMutationFenceSchema (operationFence operation) \<and> operationFields operation"

record HistoryEntryDefinition =
  he_scope :: EvidenceScope
  he_job :: PolicyEvaluationJobReference
  he_sequence :: int
  he_predecessorEntrySha256 :: "string option"
  he_previousGraphSha256 :: "string option"
  he_graphSha256 :: string
  he_stateVersion :: int
  he_committedAt :: policy_time
  he_previousStatus :: "PolicyEvaluationJobStatus option"
  he_status :: PolicyEvaluationJobStatus
  he_operation :: HistoryOperation

definition SequenceSchema :: "int \<Rightarrow> bool" where
  "SequenceSchema n \<longleftrightarrow> 0 \<le> n \<and> n \<le> MAX_POLICY_EVALUATION_JOB_HISTORY_ENTRIES - 1"

definition refineHistoryEntry :: "HistoryEntryDefinition \<Rightarrow> bool" where
  "refineHistoryEntry d \<longleftrightarrow>
     (let initial = (he_sequence d = 0); operation = he_operation d in
      he_stateVersion d = he_sequence d + 1 \<and>
      \<not> (initial \<noteq> (operation = OpCreated) \<or> initial \<noteq> (he_predecessorEntrySha256 d = None) \<or>
         initial \<noteq> (he_previousGraphSha256 d = None) \<or> initial \<noteq> (he_previousStatus d = None)) \<and>
      \<not> (initial \<and> he_status d \<noteq> PQueued) \<and>
      optional (\<lambda>f. pf_jobId f = jobref_jobId (he_job d)) (operationFence operation) \<and>
      (case operation of OpReserve _ _ delta \<Rightarrow> \<not> list_all (\<lambda>k. delta k = 0) USAGE_KEYS | _ \<Rightarrow> True) \<and>
      (case operation of
         OpCancel intent \<Rightarrow>
           pcn_jobId intent = jobref_jobId (he_job d) \<and> sameScope (pcn_scope intent) (he_scope d) \<and>
           pcn_requestedAt intent = he_committedAt d
       | _ \<Rightarrow> True))"

definition HistoryEntryDefinitionSchema :: "HistoryEntryDefinition \<Rightarrow> bool" where
  "HistoryEntryDefinitionSchema d \<longleftrightarrow>
     EvidenceScopeSchema (he_scope d) \<and> PolicyEvaluationJobReferenceSchema (he_job d) \<and>
     SequenceSchema (he_sequence d) \<and> optional Sha256Schema (he_predecessorEntrySha256 d) \<and>
     optional Sha256Schema (he_previousGraphSha256 d) \<and> Sha256Schema (he_graphSha256 d) \<and>
     0 < he_stateVersion d \<and> he_stateVersion d \<le> MAX_POLICY_EVALUATION_JOB_HISTORY_ENTRIES \<and>
     PolicyEvaluationTimeSchema (he_committedAt d) \<and> OperationSchema (he_operation d) \<and>
     refineHistoryEntry d"

record HistoryEntry =
  en_definition :: HistoryEntryDefinition
  en_entrySha256 :: string

definition HistoryEntrySchema :: "HistoryEntry \<Rightarrow> bool" where
  "HistoryEntrySchema e \<longleftrightarrow>
     HistoryEntryDefinitionSchema (en_definition e) \<and> Sha256Schema (en_entrySha256 e)"

record HistoryHead =
  hh_scope :: EvidenceScope
  hh_job :: PolicyEvaluationJobReference
  hh_sequence :: int
  hh_entrySha256 :: string
  hh_graphSha256 :: string

definition HistoryHeadSchema :: "HistoryHead \<Rightarrow> bool" where
  "HistoryHeadSchema h \<longleftrightarrow>
     EvidenceScopeSchema (hh_scope h) \<and> PolicyEvaluationJobReferenceSchema (hh_job h) \<and>
     SequenceSchema (hh_sequence h) \<and> Sha256Schema (hh_entrySha256 h) \<and> Sha256Schema (hh_graphSha256 h)"

definition POLICY_EVALUATION_JOB_HISTORY_PAGE_SIZE :: int where
  "POLICY_EVALUATION_JOB_HISTORY_PAGE_SIZE = 100"

definition MAX_POLICY_EVALUATION_JOB_HISTORY_ENTRY_BYTES :: nat where
  "MAX_POLICY_EVALUATION_JOB_HISTORY_ENTRY_BYTES = 4096"

definition MAX_POLICY_EVALUATION_JOB_HISTORY_PAGE_BYTES :: nat where
  "MAX_POLICY_EVALUATION_JOB_HISTORY_PAGE_BYTES = 512 * 1024"

definition HistoryPageIndexSchema :: "int \<Rightarrow> bool" where
  "HistoryPageIndexSchema n \<longleftrightarrow>
     0 \<le> n \<and> n \<le> MAX_POLICY_EVALUATION_JOB_HISTORY_ENTRIES div POLICY_EVALUATION_JOB_HISTORY_PAGE_SIZE - 1"

record HistoryPage =
  hp_head :: HistoryHead
  hp_pageIndex :: int
  hp_entries :: "HistoryEntry list"

definition continuesEntry :: "HistoryEntry \<Rightarrow> HistoryEntryDefinition \<Rightarrow> bool" where
  "continuesEntry previous d \<longleftrightarrow>
     he_predecessorEntrySha256 d = Some (en_entrySha256 previous) \<and>
     he_previousGraphSha256 d = Some (he_graphSha256 (en_definition previous)) \<and>
     he_previousStatus d = Some (he_status (en_definition previous)) \<and>
     \<not> tkey (he_committedAt d) < tkey (he_committedAt (en_definition previous))"

fun pageContinuous :: "HistoryHead \<Rightarrow> int \<Rightarrow> HistoryEntry option \<Rightarrow> HistoryEntry list \<Rightarrow> bool" where
  "pageContinuous head sequence previous [] = True"
| "pageContinuous head sequence previous (e # entries) =
     (he_sequence (en_definition e) = sequence \<and> he_job (en_definition e) = hh_job head \<and>
      sameScope (he_scope (en_definition e)) (hh_scope head) \<and>
      optional (\<lambda>p. continuesEntry p (en_definition e)) previous \<and>
      pageContinuous head (sequence + 1) (Some e) entries)"

definition HistoryPageSchema :: "HistoryPage \<Rightarrow> bool" where
  "HistoryPageSchema p \<longleftrightarrow>
     (let head = hp_head p; entries = hp_entries p;
          start = hp_pageIndex p * POLICY_EVALUATION_JOB_HISTORY_PAGE_SIZE;
          count = min POLICY_EVALUATION_JOB_HISTORY_PAGE_SIZE (hh_sequence head + 1 - start) in
      HistoryHeadSchema head \<and> HistoryPageIndexSchema (hp_pageIndex p) \<and>
      list_all HistoryEntrySchema entries \<and> entries \<noteq> [] \<and>
      int (length entries) \<le> POLICY_EVALUATION_JOB_HISTORY_PAGE_SIZE \<and>
      \<not> (count \<le> 0 \<or> int (length entries) \<noteq> count) \<and>
      pageContinuous head start None entries \<and>
      \<not> (he_sequence (en_definition (last entries)) = hh_sequence head \<and>
         (en_entrySha256 (last entries) \<noteq> hh_entrySha256 head \<or>
          he_graphSha256 (en_definition (last entries)) \<noteq> hh_graphSha256 head)))"

section \<open>The JSON of an entry\<close>

fun operationKind :: "HistoryOperation \<Rightarrow> string" where
  "operationKind (OpReserveAcquisition _ _) = ''reserve_acquisition''"
| "operationKind (OpSettleAcquisition _ _ _) = ''settle_acquisition''"
| "operationKind (OpComplete _ _ _) = ''complete''"
| "operationKind (OpSeal _ _) = ''seal''"
| "operationKind (OpStartComputation _) = ''start_computation''"
| "operationKind OpCreated = ''created''"
| "operationKind (OpClaim _) = ''claim''"
| "operationKind (OpHeartbeat _) = ''heartbeat''"
| "operationKind (OpReserve _ _ _) = ''reserve''"
| "operationKind (OpInterrupt _ _) = ''interrupt''"
| "operationKind OpReclaim = ''reclaim''"
| "operationKind OpHistoryLimit = ''history_limit''"
| "operationKind (OpRecovery _) = ''recovery''"
| "operationKind (OpCancel _) = ''cancel''"

fun operationPayload :: "HistoryOperation \<Rightarrow> (string \<times> json) list" where
  "operationPayload (OpReserveAcquisition f allowanceId) =
     [(''fence'', fenceJson f), (''allowanceId'', jsonString allowanceId)]"
| "operationPayload (OpSettleAcquisition f allowanceId usage) =
     [(''fence'', fenceJson f), (''allowanceId'', jsonString allowanceId),
      (''usage'', jsonNullable acquisitionUsageJson usage)]"
| "operationPayload (OpComplete f result ruleCount) =
     [(''fence'', fenceJson f), (''result'', resultReferenceJson result), (''ruleCount'', jsonInt ruleCount)]"
| "operationPayload (OpSeal f snapshot) =
     [(''fence'', fenceJson f), (''snapshot'', snapshotReferenceJson snapshot)]"
| "operationPayload (OpStartComputation f) = [(''fence'', fenceJson f)]"
| "operationPayload (OpClaim f) = [(''fence'', fenceJson f)]"
| "operationPayload (OpHeartbeat f) = [(''fence'', fenceJson f)]"
| "operationPayload (OpReserve f reservationId delta) =
     [(''fence'', fenceJson f), (''reservationId'', jsonString reservationId), (''delta'', usageJson delta)]"
| "operationPayload (OpInterrupt f reason) =
     [(''fence'', fenceJson f), (''reason'', jsonString (policyRetryableName reason))]"
| "operationPayload (OpRecovery recoveryEpoch) = [(''recoveryEpoch'', jsonInt recoveryEpoch)]"
| "operationPayload (OpCancel intent) = [(''intent'', cancellationJson intent)]"
| "operationPayload _ = []"

definition operationJson :: "HistoryOperation \<Rightarrow> json" where
  "operationJson operation =
     jsonObject ((''kind'', jsonString (operationKind operation)) # operationPayload operation)"

definition entryDefinitionJson :: "HistoryEntryDefinition \<Rightarrow> json" where
  "entryDefinitionJson d =
     jsonObject
       [(''scope'', scopeJson (he_scope d)), (''job'', jobReferenceJson (he_job d)),
        (''sequence'', jsonInt (he_sequence d)),
        (''predecessorEntrySha256'', jsonNullable (\<lambda>s. jsonString s) (he_predecessorEntrySha256 d)),
        (''previousGraphSha256'', jsonNullable (\<lambda>s. jsonString s) (he_previousGraphSha256 d)),
        (''graphSha256'', jsonString (he_graphSha256 d)), (''stateVersion'', jsonInt (he_stateVersion d)),
        (''committedAt'', timeJson (he_committedAt d)),
        (''previousStatus'', jsonNullable (\<lambda>s. jsonString (policyJobStatusName s)) (he_previousStatus d)),
        (''status'', jsonString (policyJobStatusName (he_status d))),
        (''operation'', operationJson (he_operation d))]"

definition entryJson :: "HistoryEntry \<Rightarrow> json" where
  "entryJson e =
     jsonObject [(''schemaVersion'', jsonString ''0.1''),
       (''definition'', entryDefinitionJson (en_definition e)),
       (''entrySha256'', jsonString (en_entrySha256 e))]"

definition headJson :: "HistoryHead \<Rightarrow> json" where
  "headJson h =
     jsonObject [(''scope'', scopeJson (hh_scope h)), (''job'', jobReferenceJson (hh_job h)),
       (''sequence'', jsonInt (hh_sequence h)), (''entrySha256'', jsonString (hh_entrySha256 h)),
       (''graphSha256'', jsonString (hh_graphSha256 h))]"

definition pageJson :: "HistoryPage \<Rightarrow> json" where
  "pageJson p =
     jsonObject [(''head'', headJson (hp_head p)), (''pageIndex'', jsonInt (hp_pageIndex p)),
       (''entries'', JArray (map (\<lambda>e. Some (entryJson e)) (hp_entries p)))]"

section \<open>Digests\<close>

datatype history_error =
    HistoryZodError
  | HistoryCanonicalError canonical_error
  | RequestRecordInvalid
  | JobGraphInvalid
  | EntryDigestMismatch
  | EntryTooLarge
  | PredecessorMissing
  | GraphNotContinued
  | PageHeadDiffers
  | PageTooLarge
  | PreviousGraphNotBound
  | ClaimFenceSubstituted
  | CreationReplayed
  | OutputNotRederived
  | HistoryTransition scheduler_error

type_synonym 'a history_result = "(history_error, 'a) result"

type_synonym digest = "8 word list \<Rightarrow> string"

definition canonicalBytes :: "json \<Rightarrow> 8 word list history_result" where
  "canonicalBytes v = map_sum HistoryCanonicalError id (encodeEvaluationCanonicalJson v)"

definition encodePolicyEvaluationRequestDefinition ::
    "EvidenceScope \<Rightarrow> PolicyEvaluationRequestDefinition \<Rightarrow> 8 word list history_result" where
  "encodePolicyEvaluationRequestDefinition scope d =
     (if \<not> (PolicyEvaluationRequestDefinitionSchema d \<and> EvidenceScopeSchema scope) then Inl HistoryZodError
      else canonicalBytes (jsonObject
        [(''definition'', requestDefinitionJson d),
         (''definitionDomain'', jsonString ''proofstack.policy-evaluation-request.v1''),
         (''encodingVersion'', jsonString ''proofstack.policy-evaluation-request-definition-jcs.v1''),
         (''schemaVersion'', jsonString ''0.1''), (''scope'', scopeJson scope)]))"

definition digestPolicyEvaluationRequestDefinition ::
    "digest \<Rightarrow> EvidenceScope \<Rightarrow> PolicyEvaluationRequestDefinition \<Rightarrow> string history_result" where
  "digestPolicyEvaluationRequestDefinition sha scope d =
     map_sum id sha (encodePolicyEvaluationRequestDefinition scope d)"

definition validatePolicyEvaluationRequestRecord ::
    "digest \<Rightarrow> PolicyEvaluationRequest \<Rightarrow> PolicyEvaluationRequest history_result" where
  "validatePolicyEvaluationRequestRecord sha r =
     (if \<not> PolicyEvaluationRequestSchema r then Inl RequestRecordInvalid
      else case digestPolicyEvaluationRequestDefinition sha (prq_scope r) (definitionOf r) of
        Inl e \<Rightarrow> Inl RequestRecordInvalid
      | Inr digest \<Rightarrow>
          if digest \<noteq> prq_definitionSha256 r then Inl RequestRecordInvalid else Inr r)"

definition encodePolicyEvaluationJobDefinition ::
    "EvidenceScope \<Rightarrow> string \<Rightarrow> PolicyEvaluationRequestReference \<Rightarrow> 8 word list history_result" where
  "encodePolicyEvaluationJobDefinition scope jobId request =
     (if \<not> (OpaqueIdSchema jobId \<and> PolicyEvaluationRequestReferenceSchema request \<and> EvidenceScopeSchema scope)
      then Inl HistoryZodError
      else canonicalBytes (jsonObject
        [(''definition'', jsonObject [(''jobId'', jsonString jobId), (''request'', requestReferenceJson request)]),
         (''scope'', scopeJson scope),
         (''definitionDomain'', jsonString ''proofstack.policy-evaluation-job.v1''),
         (''encodingVersion'', jsonString ''proofstack.policy-evaluation-job-definition-jcs.v1''),
         (''schemaVersion'', jsonString ''0.1'')]))"

definition digestPolicyEvaluationJobDefinition ::
    "digest \<Rightarrow> EvidenceScope \<Rightarrow> string \<Rightarrow> PolicyEvaluationRequestReference \<Rightarrow> string history_result" where
  "digestPolicyEvaluationJobDefinition sha scope jobId request =
     map_sum id sha (encodePolicyEvaluationJobDefinition scope jobId request)"

definition validatePolicyEvaluationJobSnapshotRecord ::
    "digest \<Rightarrow> EvidenceScope \<Rightarrow> PolicyEvaluationJobReference \<Rightarrow> RetainedJobGraph \<Rightarrow>
     RetainedJobGraph history_result" where
  "validatePolicyEvaluationJobSnapshotRecord sha scope expected g =
     (let s = rg_snapshot g; job = ps_job s in
      if \<not> PolicyEvaluationJobSnapshotSchema s then Inl JobGraphInvalid
      else case validatePolicyEvaluationRequestRecord sha (ps_request s) of Inl e \<Rightarrow> Inl JobGraphInvalid
      | Inr _ \<Rightarrow>
      (case digestPolicyEvaluationJobDefinition sha (pj_scope job) (pj_jobId job) (pj_request job) of
         Inl e \<Rightarrow> Inl JobGraphInvalid
       | Inr digest \<Rightarrow>
           if digest \<noteq> pj_definitionSha256 job \<or> pj_jobId job \<noteq> jobref_jobId expected \<or>
              digest \<noteq> jobref_definitionSha256 expected \<or> pj_scope job \<noteq> scope
           then Inl JobGraphInvalid else Inr g))"

definition graphJobReference :: "RetainedJobGraph \<Rightarrow> PolicyEvaluationJobReference" where
  "graphJobReference g =
     \<lparr>jobref_jobId = pj_jobId (ps_job (rg_snapshot g)),
      jobref_definitionSha256 = pj_definitionSha256 (ps_job (rg_snapshot g))\<rparr>"

definition encodePolicyEvaluationJobGraph :: "digest \<Rightarrow> RetainedJobGraph \<Rightarrow> 8 word list history_result" where
  "encodePolicyEvaluationJobGraph sha g =
     (case validatePolicyEvaluationJobSnapshotRecord sha (pj_scope (ps_job (rg_snapshot g)))
             (graphJobReference g) g of
        Inl e \<Rightarrow> Inl e
      | Inr snapshot \<Rightarrow> canonicalBytes (jsonObject
          [(''definitionDomain'', jsonString ''proofstack.policy-evaluation-job-graph.v1''),
           (''schemaVersion'', jsonString ''0.1''), (''snapshot'', graphJson snapshot)]))"

definition digestPolicyEvaluationJobGraph :: "digest \<Rightarrow> RetainedJobGraph \<Rightarrow> string history_result" where
  "digestPolicyEvaluationJobGraph sha g = map_sum id sha (encodePolicyEvaluationJobGraph sha g)"

section \<open>Entries, heads and pages\<close>

definition encodePolicyEvaluationJobHistoryEntry :: "HistoryEntryDefinition \<Rightarrow> 8 word list history_result" where
  "encodePolicyEvaluationJobHistoryEntry d =
     (if \<not> HistoryEntryDefinitionSchema d then Inl HistoryZodError
      else canonicalBytes (jsonObject
        [(''definition'', entryDefinitionJson d),
         (''definitionDomain'', jsonString ''proofstack.policy-evaluation-job-history.v1''),
         (''encodingVersion'', jsonString ''proofstack.policy-evaluation-job-history-jcs.v1''),
         (''schemaVersion'', jsonString ''0.1'')]))"

definition validatePolicyEvaluationJobHistoryEntry :: "digest \<Rightarrow> HistoryEntry \<Rightarrow> HistoryEntry history_result" where
  "validatePolicyEvaluationJobHistoryEntry sha e =
     (if \<not> HistoryEntrySchema e then Inl HistoryZodError
      else case encodePolicyEvaluationJobHistoryEntry (en_definition e) of Inl x \<Rightarrow> Inl x
      | Inr bytes \<Rightarrow>
      if en_entrySha256 e \<noteq> sha bytes then Inl EntryDigestMismatch
      else case canonicalBytes (entryJson e) of Inl x \<Rightarrow> Inl x
      | Inr whole \<Rightarrow>
          if length whole > MAX_POLICY_EVALUATION_JOB_HISTORY_ENTRY_BYTES then Inl EntryTooLarge else Inr e)"

text \<open>Evaluate a nullable input, keeping its absence.\<close>

definition whenPresent :: "('a \<Rightarrow> 'b history_result) \<Rightarrow> 'a option \<Rightarrow> 'b option history_result" where
  "whenPresent f x = (case x of None \<Rightarrow> Inr None | Some v \<Rightarrow> map_sum id Some (f v))"

definition continuesGraph ::
    "RetainedJobGraph \<Rightarrow> string option \<Rightarrow> HistoryEntry \<Rightarrow> RetainedJobGraph \<Rightarrow> bool" where
  "continuesGraph previous previousGraphSha256 predecessor g \<longleftrightarrow>
     (let d = en_definition predecessor; job = ps_job (rg_snapshot g); before = ps_job (rg_snapshot previous) in
      Some (he_graphSha256 d) = previousGraphSha256 \<and> he_stateVersion d = pj_stateVersion before \<and>
      jobref_jobId (he_job d) = pj_jobId job \<and> jobref_definitionSha256 (he_job d) = pj_definitionSha256 job \<and>
      sameScope (he_scope d) (pj_scope job) \<and> pj_stateVersion job = pj_stateVersion before + 1)"

definition createPolicyEvaluationJobHistoryEntry ::
    "digest \<Rightarrow> RetainedJobGraph option \<Rightarrow> HistoryEntry option \<Rightarrow> RetainedJobGraph \<Rightarrow> HistoryOperation \<Rightarrow>
     HistoryEntry history_result" where
  "createPolicyEvaluationJobHistoryEntry sha previous previousEntry g operation =
     (case digestPolicyEvaluationJobGraph sha g of Inl x \<Rightarrow> Inl x
      | Inr graphSha256 \<Rightarrow>
      (case whenPresent (digestPolicyEvaluationJobGraph sha) previous of Inl x \<Rightarrow> Inl x
       | Inr previousGraphSha256 \<Rightarrow>
      (case whenPresent (validatePolicyEvaluationJobHistoryEntry sha) previousEntry of Inl x \<Rightarrow> Inl x
       | Inr predecessor \<Rightarrow>
      if (previous = None) \<noteq> (predecessor = None) then Inl PredecessorMissing
      else if \<not> (case (previous, predecessor) of
                   (Some p, Some e) \<Rightarrow> continuesGraph p previousGraphSha256 e g | _ \<Rightarrow> True)
      then Inl GraphNotContinued
      else
        let job = ps_job (rg_snapshot g);
            definition =
              \<lparr>he_scope = pj_scope job, he_job = graphJobReference g, he_sequence = pj_stateVersion job - 1,
               he_predecessorEntrySha256 = map_option en_entrySha256 predecessor,
               he_previousGraphSha256 = previousGraphSha256, he_graphSha256 = graphSha256,
               he_stateVersion = pj_stateVersion job, he_committedAt = pj_updatedAt job,
               he_previousStatus = map_option (\<lambda>p. pj_status (ps_job (rg_snapshot p))) previous,
               he_status = pj_status job, he_operation = operation\<rparr>
        in case encodePolicyEvaluationJobHistoryEntry definition of Inl x \<Rightarrow> Inl x
           | Inr bytes \<Rightarrow> validatePolicyEvaluationJobHistoryEntry sha
               \<lparr>en_definition = definition, en_entrySha256 = sha bytes\<rparr>)))"

definition policyEvaluationJobHistoryHead :: "digest \<Rightarrow> HistoryEntry \<Rightarrow> HistoryHead history_result" where
  "policyEvaluationJobHistoryHead sha entry =
     (case validatePolicyEvaluationJobHistoryEntry sha entry of Inl x \<Rightarrow> Inl x
      | Inr e \<Rightarrow>
          let head = \<lparr>hh_scope = he_scope (en_definition e), hh_job = he_job (en_definition e),
                hh_sequence = he_sequence (en_definition e), hh_entrySha256 = en_entrySha256 e,
                hh_graphSha256 = he_graphSha256 (en_definition e)\<rparr>
          in if HistoryHeadSchema head then Inr head else Inl HistoryZodError)"

definition validatePolicyEvaluationJobHistoryPage ::
    "digest \<Rightarrow> HistoryHead \<Rightarrow> HistoryPage \<Rightarrow> HistoryPage history_result" where
  "validatePolicyEvaluationJobHistoryPage sha expected p =
     (if \<not> HistoryHeadSchema expected then Inl HistoryZodError
      else if \<not> HistoryPageSchema p then Inl HistoryZodError
      else case canonicalBytes (headJson expected) of Inl x \<Rightarrow> Inl x
      | Inr left \<Rightarrow>
      (case canonicalBytes (headJson (hp_head p)) of Inl x \<Rightarrow> Inl x
       | Inr right \<Rightarrow>
      if sha left \<noteq> sha right then Inl PageHeadDiffers
      else case traverse (validatePolicyEvaluationJobHistoryEntry sha) (hp_entries p) of Inl x \<Rightarrow> Inl x
      | Inr _ \<Rightarrow>
      (case canonicalBytes (pageJson p) of Inl x \<Rightarrow> Inl x
       | Inr whole \<Rightarrow>
           if length whole > MAX_POLICY_EVALUATION_JOB_HISTORY_PAGE_BYTES then Inl PageTooLarge else Inr p)))"

section \<open>Re-derivation\<close>

text \<open>
  A transition edits a copy of the graph; the allowance field exists afterwards when it existed before
  or when the transition wrote it.
\<close>

definition retained :: "RetainedJobGraph \<Rightarrow> transition_result \<Rightarrow> RetainedJobGraph history_result" where
  "retained g r =
     (case r of Inl e \<Rightarrow> Inl (HistoryTransition e)
      | Inr s \<Rightarrow> Inr \<lparr>rg_snapshot = s,
          rg_allowanceWritten = (allowanceWritten g \<or> ps_acquisitionAllowance s \<noteq> None)\<rparr>)"

definition rederive :: "RetainedJobGraph \<Rightarrow> policy_time \<Rightarrow> HistoryOperation \<Rightarrow> RetainedJobGraph history_result" where
  "rederive previous now operation =
     (let s = rg_snapshot previous; epoch = JsInt (pj_recoveryEpoch (ps_job s)) in
      case operation of
        OpComplete f result ruleCount \<Rightarrow>
          retained previous (completePolicyEvaluationJob s now epoch f result (JsInt ruleCount))
      | OpSeal f snapshot \<Rightarrow> retained previous (sealPolicyEvaluationJob s now epoch f snapshot)
      | OpStartComputation f \<Rightarrow> retained previous (startPolicyEvaluationComputation s now epoch f)
      | OpClaim f \<Rightarrow>
          (case retained previous (claimPolicyEvaluationJob s now epoch (pf_attemptId f) (pf_leaseId f) (pf_workerId f)) of
             Inl x \<Rightarrow> Inl x
           | Inr g \<Rightarrow>
               if map_option pl_mutationFence (pj_currentLease (ps_job (rg_snapshot g))) \<noteq> Some f
               then Inl ClaimFenceSubstituted else Inr g)
      | OpHeartbeat f \<Rightarrow> retained previous (heartbeatPolicyEvaluationJob s now epoch f)
      | OpReserve f _ delta \<Rightarrow> retained previous (reservePolicyEvaluationUsage s now epoch f delta)
      | OpReserveAcquisition f allowanceId \<Rightarrow>
          retained previous (reservePolicyEvaluationAcquisition s now epoch f allowanceId)
      | OpSettleAcquisition f allowanceId usage \<Rightarrow>
          retained previous (settlePolicyEvaluationAcquisition s now epoch f allowanceId usage)
      | OpInterrupt f reason \<Rightarrow> retained previous (interruptPolicyEvaluationJob s now epoch f reason)
      | OpReclaim \<Rightarrow> retained previous (reclaimPolicyEvaluationJob s now epoch)
      | OpHistoryLimit \<Rightarrow> retained previous (exhaustPolicyEvaluationJobHistory s now)
      | OpRecovery recoveryEpoch \<Rightarrow> retained previous (recoverPolicyEvaluationJob s now (JsInt recoveryEpoch))
      | OpCancel intent \<Rightarrow> retained previous (cancelPolicyEvaluationJob s intent)
      | OpCreated \<Rightarrow> Inl CreationReplayed)"

definition replayPolicyEvaluationJobHistoryEntry ::
    "digest \<Rightarrow> RetainedJobGraph \<Rightarrow> HistoryEntry \<Rightarrow> RetainedJobGraph history_result" where
  "replayPolicyEvaluationJobHistoryEntry sha previous raw =
     (case validatePolicyEvaluationJobHistoryEntry sha raw of Inl x \<Rightarrow> Inl x
      | Inr entry \<Rightarrow>
      (let d = en_definition entry; job = ps_job (rg_snapshot previous) in
       case digestPolicyEvaluationJobGraph sha previous of Inl x \<Rightarrow> Inl x
       | Inr digest \<Rightarrow>
       if he_previousGraphSha256 d \<noteq> Some digest \<or> he_previousStatus d \<noteq> Some (pj_status job) \<or>
          he_stateVersion d \<noteq> pj_stateVersion job + 1 \<or> he_scope d \<noteq> pj_scope job \<or>
          jobref_jobId (he_job d) \<noteq> pj_jobId job \<or> jobref_definitionSha256 (he_job d) \<noteq> pj_definitionSha256 job
       then Inl PreviousGraphNotBound
       else case rederive previous (he_committedAt d) (he_operation d) of Inl x \<Rightarrow> Inl x
       | Inr g \<Rightarrow>
           if pj_status (ps_job (rg_snapshot g)) \<noteq> he_status d then Inl OutputNotRederived
           else case digestPolicyEvaluationJobGraph sha g of Inl x \<Rightarrow> Inl x
           | Inr digest' \<Rightarrow> if digest' \<noteq> he_graphSha256 d then Inl OutputNotRederived else Inr g))"

section \<open>Append\<close>

definition appendPolicyEvaluationJobHistory ::
    "digest \<Rightarrow> RetainedJobGraph option \<Rightarrow> HistoryEntry option \<Rightarrow> RetainedJobGraph \<Rightarrow> HistoryOperation \<Rightarrow>
     HistoryEntry history_result" where
  "appendPolicyEvaluationJobHistory sha previous previousEntry g operation =
     (case createPolicyEvaluationJobHistoryEntry sha previous previousEntry g operation of Inl x \<Rightarrow> Inl x
      | Inr entry \<Rightarrow>
      (case previous of None \<Rightarrow> Inr entry
       | Some p \<Rightarrow>
           (case replayPolicyEvaluationJobHistoryEntry sha p entry of Inl x \<Rightarrow> Inl x | Inr _ \<Rightarrow> Inr entry)))"

end
