(* ===== verification/Policy_History_Entries.thy ===== *)
theory Policy_History_Entries
  imports Policy_History
begin

text \<open>
  What an accepted entry is: its definition is recovered from the bytes its digest is taken over, the
  encoder admits it, and neither the entry nor the page ceiling can reject what the schemas accept.
\<close>

section \<open>Bytes identify a definition\<close>

lemma operation_keys: "distinct (map fst ((''kind'', jsonString (operationKind op)) # operationPayload op))"
  by (cases op) simp_all

lemma same_operation_kind:
  assumes "sameEncoding (operationJson a) (operationJson b)"
  shows "operationKind a = operationKind b"
  using same_field [OF assms [unfolded operationJson_def] operation_keys operation_keys, of "''kind''"]
  by (simp add: js_text_of_inj)

lemma same_operation:
  assumes eq: "sameEncoding (operationJson a) (operationJson b)" and s: "OperationSchema a" "OperationSchema b"
  shows "a = b"
proof -
  have k: "operationKind a = operationKind b" by (rule same_operation_kind [OF eq])
  note f = same_object [OF eq [unfolded operationJson_def] _ operation_keys]
  have u: "x = y" if "sameEncoding (jsonNullable acquisitionUsageJson x) (jsonNullable acquisitionUsageJson y)" for x y
    using that by (rule same_nullable) (simp_all add: same_acquisition_usage)
  show ?thesis
  proof (cases a)
    case (OpCancel c)
    with k obtain d where b: "b = OpCancel d" by (cases b) simp_all
    have "c = d" by (rule same_cancellation) (use f s OpCancel b in \<open>simp_all add: OperationSchema_def\<close>)
    then show ?thesis using OpCancel b by simp
  qed (use k f in \<open>cases b; simp add: js_text_of_inj name_inj same_fence same_result_reference
      same_snapshot_reference same_usage u\<close>)+
qed

lemma same_definition:
  assumes "sameEncoding (entryDefinitionJson a) (entryDefinitionJson b)"
    and "HistoryEntryDefinitionSchema a" "HistoryEntryDefinitionSchema b"
  shows "a = b"
proof -
  note f = same_object [OF assms(1) [unfolded entryDefinitionJson_def]]
  have str: "x = y" if "sameEncoding (jsonNullable (\<lambda>s. jsonString s) x) (jsonNullable (\<lambda>s. jsonString s) y)" for x y
    using that by (rule same_nullable) (simp_all add: js_text_of_inj)
  have "he_scope a = he_scope b" by (rule same_scope) (use f in simp)
  moreover have "he_job a = he_job b" by (rule same_job_reference) (use f in simp)
  moreover have "he_predecessorEntrySha256 a = he_predecessorEntrySha256 b" by (rule str) (use f in simp)
  moreover have "he_previousGraphSha256 a = he_previousGraphSha256 b" by (rule str) (use f in simp)
  moreover have "he_previousStatus a = he_previousStatus b"
    by (rule same_nullable [where f = "\<lambda>s. jsonString (policyJobStatusName s)"])
      (use f in \<open>simp_all add: js_text_of_inj name_inj\<close>)
  moreover have "he_committedAt a = he_committedAt b"
    by (rule same_time) (use f assms(2,3) in \<open>simp_all add: HistoryEntryDefinitionSchema_def\<close>)
  moreover have "he_operation a = he_operation b"
    by (rule same_operation) (use f assms(2,3) in \<open>simp_all add: HistoryEntryDefinitionSchema_def\<close>)
  ultimately show ?thesis using f by (simp add: js_text_of_inj name_inj)
qed

lemma same_head: "sameEncoding (headJson a) (headJson b) \<Longrightarrow> a = b"
proof -
  assume "sameEncoding (headJson a) (headJson b)"
  note f = same_object [OF this [unfolded headJson_def]]
  have "hh_scope a = hh_scope b" by (rule same_scope) (use f in simp)
  moreover have "hh_job a = hh_job b" by (rule same_job_reference) (use f in simp)
  ultimately show ?thesis using f by (simp add: js_text_of_inj)
qed

section \<open>The encoder admits entries\<close>

lemma plain_operation: "3 \<le> k \<Longrightarrow> OperationSchema op \<Longrightarrow> plainJson k (operationJson op)"
  unfolding operationJson_def plainJson_object
  by (cases op) (auto simp: OperationSchema_def plain_fence plain_usage plain_cancellation plain_acquisition_usage
      integer_bounds plainJson_nullable jsonNullable_def split: option.splits)

lemma plain_definition: "4 \<le> k \<Longrightarrow> HistoryEntryDefinitionSchema d \<Longrightarrow> plainJson k (entryDefinitionJson d)"
  unfolding entryDefinitionJson_def plainJson_object HistoryEntryDefinitionSchema_def
  by (simp add: plain_operation plainJson_nullable SequenceSchema_def MAX_POLICY_EVALUATION_JOB_HISTORY_ENTRIES_def
      MAX_SAFE_INTEGER_def)

lemma plain_entry: "5 \<le> k \<Longrightarrow> HistoryEntrySchema e \<Longrightarrow> plainJson k (entryJson e)"
  unfolding entryJson_def plainJson_object HistoryEntrySchema_def by (simp add: plain_definition)

lemma plain_head: "2 \<le> k \<Longrightarrow> HistoryHeadSchema h \<Longrightarrow> plainJson k (headJson h)"
  unfolding headJson_def plainJson_object HistoryHeadSchema_def
  by (simp add: SequenceSchema_def MAX_POLICY_EVALUATION_JOB_HISTORY_ENTRIES_def MAX_SAFE_INTEGER_def)

lemma plain_page:
  assumes "HistoryHeadSchema (hp_head p)" "HistoryPageIndexSchema (hp_pageIndex p)" "list_all HistoryEntrySchema (hp_entries p)"
  shows "plainJson 64 (pageJson p)"
  using assms unfolding pageJson_def plainJson_object
  by (simp add: plain_head plainJson_array plain_entry list_all_iff HistoryPageIndexSchema_def
      MAX_POLICY_EVALUATION_JOB_HISTORY_ENTRIES_def POLICY_EVALUATION_JOB_HISTORY_PAGE_SIZE_def MAX_SAFE_INTEGER_def)

section \<open>Sizes\<close>

lemma scope_cost: "EvidenceScopeSchema s \<Longrightarrow> jsonCost (scopeJson s) \<le> 244"
  unfolding scopeJson_def cost_object EvidenceScopeSchema_def
  using opaque_cost [of "environmentId s"] opaque_cost [of "projectId s"] opaque_cost [of "tenantId s"]
  by (simp add: plainText_quote plainText_def)

lemma job_reference_cost: "PolicyEvaluationJobReferenceSchema r \<Longrightarrow> jsonCost (jobReferenceJson r) \<le> 163"
  unfolding jobReferenceJson_def cost_object PolicyEvaluationJobReferenceSchema_def
  using opaque_cost [of "jobref_jobId r"] sha_cost [of "jobref_definitionSha256 r"]
  by (simp add: plainText_quote plainText_def)

lemma result_reference_cost: "PolicyEvaluationResultReferenceSchema r \<Longrightarrow> jsonCost (resultReferenceJson r) \<le> 170"
  unfolding resultReferenceJson_def cost_object PolicyEvaluationResultReferenceSchema_def
  using opaque_cost [of "resref_evaluationId r"] sha_cost [of "resref_definitionSha256 r"]
  by (simp add: plainText_quote plainText_def)

lemma snapshot_reference_cost: "PolicyEvaluationSnapshotReferenceSchema r \<Longrightarrow> jsonCost (snapshotReferenceJson r) \<le> 170"
  unfolding snapshotReferenceJson_def cost_object PolicyEvaluationSnapshotReferenceSchema_def
  using opaque_cost [of "snapref_snapshotId r"] sha_cost [of "snapref_definitionSha256 r"]
  by (simp add: plainText_quote plainText_def)

lemma fence_cost: "PolicyEvaluationWorkerMutationFenceSchema f \<Longrightarrow> jsonCost (fenceJson f) \<le> 376"
  unfolding fenceJson_def cost_object PolicyEvaluationWorkerMutationFenceSchema_def SafePositiveInteger_def SafeNonnegativeInteger_def
  using opaque_cost [of "pf_jobId f"] opaque_cost [of "pf_attemptId f"] opaque_cost [of "pf_workerId f"]
    opaque_cost [of "pf_leaseId f"] int_cost [of "pf_fencingToken f"] int_cost [of "pf_recoveryEpoch f"]
  by (simp add: plainText_quote plainText_def)

lemma usage_cost:
  assumes "PolicyEvaluationUsageSchema u"
  shows "jsonCost (usageJson u) \<le> 230"
proof -
  have "jsonCost (jsonInt (u k)) \<le> 16" for k
    by (rule int_cost) (use assms in \<open>cases k; simp add: PolicyEvaluationUsageSchema_def USAGE_KEYS_def integer_bounds\<close>)+
  from this [of UReads] this [of URecords] this [of URecordBytes] this [of UReferences] this [of UReferenceBytes]
    this [of UArtifactReadBytes] this [of URuleEvaluations]
  show ?thesis unfolding usageJson_def cost_object by (simp add: plainText_quote plainText_def)
qed

lemma acquisition_usage_cost: "PolicyEvaluationAcquisitionUsageSchema u \<Longrightarrow> jsonCost (acquisitionUsageJson u) \<le> 170"
  unfolding acquisitionUsageJson_def cost_object PolicyEvaluationAcquisitionUsageSchema_def
  using int_cost [of "aqu_reads u"] int_cost [of "aqu_records u"] int_cost [of "aqu_references u"]
    int_cost [of "aqu_recordBytes u"] int_cost [of "aqu_referenceBytes u"]
  by (simp add: plainText_quote plainText_def integer_bounds)

lemma reason_cost:
  "jsonCost (jsonString (cancellationReasonName a)) \<le> 20" "jsonCost (jsonString (policyRetryableName b)) \<le> 32"
  "jsonCost (jsonString (policyJobStatusName c)) \<le> 18" "jsonCost (jsonString (operationKind d)) \<le> 21"
proof -
  show "jsonCost (jsonString (cancellationReasonName a)) \<le> 20" by (cases a) (simp_all add: plainText_quote plainText_def)
  show "jsonCost (jsonString (policyRetryableName b)) \<le> 32" by (cases b) (simp_all add: plainText_quote plainText_def)
  show "jsonCost (jsonString (policyJobStatusName c)) \<le> 18" by (cases c) (simp_all add: plainText_quote plainText_def)
  show "jsonCost (jsonString (operationKind d)) \<le> 21" by (cases d) (simp_all add: plainText_quote plainText_def)
qed

lemma cancellation_cost: "PolicyEvaluationCancellationSchema c \<Longrightarrow> jsonCost (cancellationJson c) \<le> 620"
  unfolding cancellationJson_def cost_object PolicyEvaluationCancellationSchema_def timeJson_def
  using opaque_cost [of "pcn_jobId c"] opaque_cost [of "pcn_cancellationId c"] opaque_cost [of "pcn_requestedByPrincipalId c"]
    scope_cost [of "pcn_scope c"] time_cost [of "pcn_requestedAt c"] reason_cost(1) [of "pcn_reason c"]
  by (simp add: plainText_quote plainText_def)

lemma operation_cost: "OperationSchema op \<Longrightarrow> jsonCost (operationJson op) \<le> 800"
proof -
  assume s: "OperationSchema op"
  have t: "jsonCost (jsonNullable acquisitionUsageJson u) \<le> 170" if "optional PolicyEvaluationAcquisitionUsageSchema u" for u
    by (rule cost_nullable) (use that acquisition_usage_cost in auto)
  have n: "jsonCost (jsonInt n) \<le> 16" if "0 < n" "n \<le> MAX_POLICY_RULES" for n
    by (rule int_cost) (use that in \<open>simp_all add: integer_bounds\<close>)
  have e: "jsonCost (jsonInt n) \<le> 16" if "SafePositiveInteger n" for n
    by (rule int_cost) (use that in \<open>simp_all add: SafePositiveInteger_def\<close>)
  have fenced: "jsonCost (fenceJson f) \<le> 741" if "PolicyEvaluationWorkerMutationFenceSchema f" for f
    using fence_cost [OF that] by simp
  have "sum_list (map (\<lambda>(k, v). textCost (quoteText (js_text_of k)) + 2 + jsonCost v) (operationPayload op)) \<le> 750"
  proof (cases op)
    case (OpReserveAcquisition f a)
    then show ?thesis using s fence_cost [of f] opaque_cost [of a] by (simp add: OperationSchema_def plainText_quote plainText_def)
  next
    case (OpSettleAcquisition f a u)
    then show ?thesis using s fence_cost [of f] opaque_cost [of a] t [of u] by (simp add: OperationSchema_def plainText_quote plainText_def)
  next
    case (OpComplete f r c)
    then show ?thesis using s fence_cost [of f] result_reference_cost [of r] n [of c] by (simp add: OperationSchema_def plainText_quote plainText_def)
  next
    case (OpSeal f r)
    then show ?thesis using s fence_cost [of f] snapshot_reference_cost [of r] by (simp add: OperationSchema_def plainText_quote plainText_def)
  next
    case (OpReserve f r d)
    then show ?thesis using s fence_cost [of f] opaque_cost [of r] usage_cost [of d] by (simp add: OperationSchema_def plainText_quote plainText_def)
  next
    case (OpInterrupt f r)
    then show ?thesis using s fence_cost [of f] reason_cost(2) [of r] by (simp add: OperationSchema_def plainText_quote plainText_def)
  next
    case (OpRecovery n)
    then show ?thesis using s e [of n] by (simp add: OperationSchema_def plainText_quote plainText_def)
  next
    case (OpCancel c)
    then show ?thesis using s cancellation_cost [of c] by (simp add: OperationSchema_def plainText_quote plainText_def)
  qed (use s fenced in \<open>simp_all add: OperationSchema_def plainText_quote plainText_def\<close>)
  moreover have "textCost (quoteText (js_text_of ''kind'')) = 6" by (simp add: plainText_quote plainText_def)
  ultimately show ?thesis
    using reason_cost(4) [of op] unfolding operationJson_def cost_object by simp
qed

lemma definition_cost:
  assumes "HistoryEntryDefinitionSchema d"
  shows "jsonCost (entryDefinitionJson d) \<le> 1800"
proof -
  note v = assms [unfolded HistoryEntryDefinitionSchema_def]
  have h: "jsonCost (jsonNullable (\<lambda>s. jsonString s) x) \<le> 66" if "optional Sha256Schema x" for x
    by (rule cost_nullable) (use that sha_cost in \<open>auto simp del: jsonCost.simps\<close>)
  have p: "jsonCost (jsonNullable (\<lambda>s. jsonString (policyJobStatusName s)) x) \<le> 18" for x
    by (rule cost_nullable) (use reason_cost(3) in \<open>auto simp del: jsonCost.simps\<close>)
  have i: "jsonCost (jsonInt (he_sequence d)) \<le> 16" "jsonCost (jsonInt (he_stateVersion d)) \<le> 16"
    by (rule int_cost; use v in \<open>simp add: SequenceSchema_def MAX_POLICY_EVALUATION_JOB_HISTORY_ENTRIES_def MAX_SAFE_INTEGER_def\<close>)+
  show ?thesis
    unfolding entryDefinitionJson_def cost_object timeJson_def
    using v scope_cost [of "he_scope d"] job_reference_cost [of "he_job d"] h [of "he_predecessorEntrySha256 d"]
      h [of "he_previousGraphSha256 d"] sha_cost [of "he_graphSha256 d"] time_cost [of "he_committedAt d"]
      p [of "he_previousStatus d"] reason_cost(3) [of "he_status d"] operation_cost [of "he_operation d"] i
    by (simp add: plainText_quote plainText_def)
qed

lemma entry_cost: "HistoryEntrySchema e \<Longrightarrow> jsonCost (entryJson e) \<le> 1950"
  unfolding entryJson_def cost_object HistoryEntrySchema_def
  using definition_cost [of "en_definition e"] sha_cost [of "en_entrySha256 e"] by (simp add: plainText_quote plainText_def)

lemma head_cost: "HistoryHeadSchema h \<Longrightarrow> jsonCost (headJson h) \<le> 650"
  unfolding headJson_def cost_object HistoryHeadSchema_def SequenceSchema_def
  using scope_cost [of "hh_scope h"] job_reference_cost [of "hh_job h"] int_cost [of "hh_sequence h"]
    sha_cost [of "hh_entrySha256 h"] sha_cost [of "hh_graphSha256 h"]
  by (simp add: plainText_quote plainText_def MAX_POLICY_EVALUATION_JOB_HISTORY_ENTRIES_def MAX_SAFE_INTEGER_def)

lemma page_cost:
  assumes "HistoryPageSchema p"
  shows "jsonCost (pageJson p) \<le> 200000"
proof -
  have v: "HistoryHeadSchema (hp_head p)" "HistoryPageIndexSchema (hp_pageIndex p)" "list_all HistoryEntrySchema (hp_entries p)"
    "int (length (hp_entries p)) \<le> 100"
    using assms by (simp_all add: HistoryPageSchema_def Let_def POLICY_EVALUATION_JOB_HISTORY_PAGE_SIZE_def)
  have "sum_list (map (\<lambda>e. Suc (jsonCost (entryJson e))) (hp_entries p)) \<le> sum_list (map (\<lambda>_. 1951) (hp_entries p))"
    by (rule sum_list_pointwise) (use v(3) entry_cost in \<open>auto simp: list_all_iff\<close>)
  also have "\<dots> \<le> 195100" using v(4) by (simp add: sum_list_triv)
  finally have "jsonCost (JArray (map (\<lambda>e. Some (entryJson e)) (hp_entries p))) \<le> 195102" unfolding cost_array by simp
  moreover have "jsonCost (jsonInt (hp_pageIndex p)) \<le> 16"
    by (rule int_cost; use v(2) in \<open>simp add: HistoryPageIndexSchema_def MAX_POLICY_EVALUATION_JOB_HISTORY_ENTRIES_def
      POLICY_EVALUATION_JOB_HISTORY_PAGE_SIZE_def MAX_SAFE_INTEGER_def\<close>)
  ultimately show ?thesis
    unfolding pageJson_def cost_object using head_cost [OF v(1)] by (simp add: plainText_quote plainText_def del: jsonCost.simps)
qed

section \<open>What the validations accept\<close>

lemma canonicalBytes_plain:
  assumes "plainJson 64 v"
  shows "\<exists>bs. canonicalBytes v = Inr bs \<and> length bs \<le> jsonCost v"
proof -
  obtain bs where "encodeEvaluationCanonicalJson v = Inr bs" using plainJson_encodes [OF assms] .
  then show ?thesis using canonical_length_cost by (auto simp: canonicalBytes_def)
qed

lemma canonicalBytes_Inr: "canonicalBytes v = Inr bs \<longleftrightarrow> encodeEvaluationCanonicalJson v = Inr bs"
  by (cases "encodeEvaluationCanonicalJson v") (simp_all add: canonicalBytes_def)

lemma canonicalBytes_same:
  "canonicalBytes v = Inr bs \<Longrightarrow> canonicalBytes w = Inr bs \<Longrightarrow> plainJson k v \<Longrightarrow> plainJson k' w \<Longrightarrow> sameEncoding v w"
  unfolding canonicalBytes_Inr by (rule encoded_same)

definition bytesOf :: "8 word list history_result \<Rightarrow> 8 word list" where
  "bytesOf r = (case r of Inl _ \<Rightarrow> [] | Inr bs \<Rightarrow> bs)"

definition entryBytes :: "HistoryEntryDefinition \<Rightarrow> 8 word list" where
  "entryBytes d = bytesOf (encodePolicyEvaluationJobHistoryEntry d)"

definition entryEnvelope :: "HistoryEntryDefinition \<Rightarrow> json" where
  "entryEnvelope d = jsonObject
     [(''definition'', entryDefinitionJson d),
      (''definitionDomain'', jsonString ''proofstack.policy-evaluation-job-history.v1''),
      (''encodingVersion'', jsonString ''proofstack.policy-evaluation-job-history-jcs.v1''),
      (''schemaVersion'', jsonString ''0.1'')]"

lemma plain_envelope: "HistoryEntryDefinitionSchema d \<Longrightarrow> plainJson 64 (entryEnvelope d)"
  unfolding entryEnvelope_def plainJson_object by (simp add: plain_definition)

lemma encodes_entry:
  assumes "HistoryEntryDefinitionSchema d"
  shows "encodePolicyEvaluationJobHistoryEntry d = Inr (entryBytes d)" "canonicalBytes (entryEnvelope d) = Inr (entryBytes d)"
proof -
  have eq: "encodePolicyEvaluationJobHistoryEntry d = canonicalBytes (entryEnvelope d)"
    using assms by (simp add: encodePolicyEvaluationJobHistoryEntry_def entryEnvelope_def)
  obtain bs where "canonicalBytes (entryEnvelope d) = Inr bs" using canonicalBytes_plain [OF plain_envelope [OF assms]] by blast
  then show "encodePolicyEvaluationJobHistoryEntry d = Inr (entryBytes d)" "canonicalBytes (entryEnvelope d) = Inr (entryBytes d)"
    by (simp_all add: eq entryBytes_def bytesOf_def)
qed

lemma entryBytes_inj:
  assumes "HistoryEntryDefinitionSchema a" "HistoryEntryDefinitionSchema b" "entryBytes a = entryBytes b"
  shows "a = b"
proof -
  have "sameEncoding (entryEnvelope a) (entryEnvelope b)"
    using canonicalBytes_same encodes_entry(2) [OF assms(1)] encodes_entry(2) [OF assms(2)] plain_envelope assms by metis
  note f = same_object [OF this [unfolded entryEnvelope_def]]
  have "sameEncoding (entryDefinitionJson a) (entryDefinitionJson b)" using f by simp
  then show ?thesis using same_definition assms(1,2) by blast
qed

definition entryRecorded :: "digest \<Rightarrow> HistoryEntry \<Rightarrow> bool" where
  "entryRecorded sha e \<longleftrightarrow> HistoryEntrySchema e \<and> en_entrySha256 e = sha (entryBytes (en_definition e))"

lemma validate_entry_iff:
  "validatePolicyEvaluationJobHistoryEntry sha e = Inr e' \<longleftrightarrow> e' = e \<and> entryRecorded sha e"
proof (cases "HistoryEntrySchema e")
  case True
  then have d: "encodePolicyEvaluationJobHistoryEntry (en_definition e) = Inr (entryBytes (en_definition e))"
    by (intro encodes_entry) (simp add: HistoryEntrySchema_def)
  obtain bs where "canonicalBytes (entryJson e) = Inr bs" "length bs \<le> 1950"
    using canonicalBytes_plain [OF plain_entry [OF _ True]] entry_cost [OF True] by force
  then show ?thesis
    using True d by (auto simp: validatePolicyEvaluationJobHistoryEntry_def entryRecorded_def
        MAX_POLICY_EVALUATION_JOB_HISTORY_ENTRY_BYTES_def)
qed (simp add: validatePolicyEvaluationJobHistoryEntry_def entryRecorded_def)

definition headBytes :: "HistoryHead \<Rightarrow> 8 word list" where
  "headBytes h = bytesOf (canonicalBytes (headJson h))"

lemma encodes_head: "HistoryHeadSchema h \<Longrightarrow> canonicalBytes (headJson h) = Inr (headBytes h)"
  using canonicalBytes_plain [of "headJson h"] plain_head [of 64 h] by (auto simp: headBytes_def bytesOf_def)

lemma headBytes_inj: "HistoryHeadSchema a \<Longrightarrow> HistoryHeadSchema b \<Longrightarrow> headBytes a = headBytes b \<Longrightarrow> a = b"
  using canonicalBytes_same [OF encodes_head, of a "headJson b"] encodes_head [of b] plain_head [of 64 a] plain_head [of 64 b]
  by (intro same_head) simp

lemma traverse_entries:
  "(\<exists>ys. traverse (validatePolicyEvaluationJobHistoryEntry sha) es = Inr ys) \<longleftrightarrow> list_all (entryRecorded sha) es"
  by (induction es) (auto simp: validate_entry_iff result_simps split: sum.splits)

lemma validate_page_iff:
  "validatePolicyEvaluationJobHistoryPage sha expected p = Inr p' \<longleftrightarrow>
     p' = p \<and> HistoryHeadSchema expected \<and> HistoryPageSchema p \<and>
     sha (headBytes expected) = sha (headBytes (hp_head p)) \<and> list_all (entryRecorded sha) (hp_entries p)"
proof (cases "HistoryHeadSchema expected \<and> HistoryPageSchema p")
  case True
  then have v: "HistoryHeadSchema (hp_head p)" "HistoryPageIndexSchema (hp_pageIndex p)" "list_all HistoryEntrySchema (hp_entries p)"
    by (simp_all add: HistoryPageSchema_def Let_def)
  obtain bs where bs: "canonicalBytes (pageJson p) = Inr bs" "length bs \<le> 200000"
    using canonicalBytes_plain [OF plain_page [OF v]] page_cost True by force
  show ?thesis
  proof (cases "list_all (entryRecorded sha) (hp_entries p)")
    case recorded: True
    then obtain ys where "traverse (validatePolicyEvaluationJobHistoryEntry sha) (hp_entries p) = Inr ys"
      using traverse_entries by blast
    then show ?thesis using True bs recorded encodes_head [OF v(1)] encodes_head [of expected]
      by (auto simp: validatePolicyEvaluationJobHistoryPage_def MAX_POLICY_EVALUATION_JOB_HISTORY_PAGE_BYTES_def)
  next
    case False
    then have "\<nexists>ys. traverse (validatePolicyEvaluationJobHistoryEntry sha) (hp_entries p) = Inr ys"
      using traverse_entries by blast
    then show ?thesis using False by (auto simp: validatePolicyEvaluationJobHistoryPage_def result_simps)
  qed
qed (auto simp: validatePolicyEvaluationJobHistoryPage_def)

section \<open>Graphs\<close>

text \<open>A graph whose request and job carry the digests of their definitions.\<close>

definition graphRecorded :: "digest \<Rightarrow> RetainedJobGraph \<Rightarrow> bool" where
  "graphRecorded sha g \<longleftrightarrow>
     (let s = rg_snapshot g; job = ps_job s in
      PolicyEvaluationJobSnapshotSchema s \<and>
      digestPolicyEvaluationRequestDefinition sha (prq_scope (ps_request s)) (definitionOf (ps_request s)) =
        Inr (prq_definitionSha256 (ps_request s)) \<and>
      digestPolicyEvaluationJobDefinition sha (pj_scope job) (pj_jobId job) (pj_request job) = Inr (pj_definitionSha256 job))"

definition graphEnvelope :: "RetainedJobGraph \<Rightarrow> json" where
  "graphEnvelope g = jsonObject
     [(''definitionDomain'', jsonString ''proofstack.policy-evaluation-job-graph.v1''),
      (''schemaVersion'', jsonString ''0.1''), (''snapshot'', graphJson g)]"

definition graphBytes :: "RetainedJobGraph \<Rightarrow> 8 word list" where
  "graphBytes g = bytesOf (canonicalBytes (graphEnvelope g))"

lemma plain_graph_envelope: "PolicyEvaluationJobSnapshotSchema (rg_snapshot g) \<Longrightarrow> plainJson 64 (graphEnvelope g)"
  unfolding graphEnvelope_def plainJson_object by (simp add: plain_graph PolicyEvaluationJobSnapshotSchema_def)

lemma encodes_graph: "PolicyEvaluationJobSnapshotSchema (rg_snapshot g) \<Longrightarrow> canonicalBytes (graphEnvelope g) = Inr (graphBytes g)"
  using canonicalBytes_plain [OF plain_graph_envelope, of g] by (auto simp: graphBytes_def bytesOf_def)

lemma graphBytes_inj:
  assumes "PolicyEvaluationJobSnapshotSchema (rg_snapshot g)" "PolicyEvaluationJobSnapshotSchema (rg_snapshot h)"
    and "graphBytes g = graphBytes h"
  shows "rg_snapshot g = rg_snapshot h"
proof -
  have "sameEncoding (graphEnvelope g) (graphEnvelope h)"
    using canonicalBytes_same encodes_graph [OF assms(1)] encodes_graph [OF assms(2)] plain_graph_envelope assms by metis
  note f = same_object [OF this [unfolded graphEnvelope_def]]
  have "sameEncoding (graphJson g) (graphJson h)" using f by simp
  then show ?thesis using same_graph(1) assms(1,2) by blast
qed

lemma digest_graph_iff: "digestPolicyEvaluationJobGraph sha g = Inr d \<longleftrightarrow> graphRecorded sha g \<and> d = sha (graphBytes g)"
proof (cases "graphRecorded sha g")
  case True
  then have s: "PolicyEvaluationJobSnapshotSchema (rg_snapshot g)" by (simp add: graphRecorded_def Let_def)
  then have r: "PolicyEvaluationRequestSchema (ps_request (rg_snapshot g))"
    by (simp add: PolicyEvaluationJobSnapshotSchema_def snapshotShape_def)
  have "validatePolicyEvaluationJobSnapshotRecord sha (pj_scope (ps_job (rg_snapshot g))) (graphJobReference g) g = Inr g"
    using True r by (simp add: validatePolicyEvaluationJobSnapshotRecord_def Let_def graphRecorded_def graphJobReference_def
        validatePolicyEvaluationRequestRecord_def)
  then show ?thesis
    using True encodes_graph [OF s] by (auto simp: digestPolicyEvaluationJobGraph_def encodePolicyEvaluationJobGraph_def graphEnvelope_def)
next
  case False
  have "validatePolicyEvaluationJobSnapshotRecord sha (pj_scope (ps_job (rg_snapshot g))) (graphJobReference g) g = Inl JobGraphInvalid"
    using False by (auto simp: validatePolicyEvaluationJobSnapshotRecord_def Let_def graphRecorded_def graphJobReference_def
        validatePolicyEvaluationRequestRecord_def split: sum.splits)
  then show ?thesis
    using False by (simp add: digestPolicyEvaluationJobGraph_def encodePolicyEvaluationJobGraph_def)
qed

end
