(* ===== verification/Policy_History_Run.thy ===== *)
theory Policy_History_Run
  imports Policy_History_Entries
begin

text \<open>
  Recorded histories: an entry re-derives the transition it records, so a history that was appended entry
  by entry is a run of the scheduler.
\<close>

section \<open>Re-derived transitions\<close>

lemma retained_Inr:
  "retained g r = Inr h \<longleftrightarrow> r = Inr (rg_snapshot h) \<and>
     rg_allowanceWritten h = (allowanceWritten g \<or> ps_acquisitionAllowance (rg_snapshot h) \<noteq> None)"
  by (cases h) (auto simp: retained_def split: sum.splits)

lemma rederive_step:
  assumes "rederive p now op = Inr g" "rg_snapshot g \<noteq> rg_snapshot p"
  shows "policyStep (rg_snapshot p) (rg_snapshot g)"
  using assms by (cases op) (auto simp: rederive_def Let_def retained_Inr result_simps intro: policyStep.intros)

lemma retryOrFail_stamp: "retryOrFail s now reason aid j = Inr k \<Longrightarrow> pj_updatedAt k = now"
  by (auto simp: retryOrFail_def result_simps split: if_splits sum.splits)

text \<open>The instant of a re-derived transition is the one it stamps on the job.\<close>

fun stampOf :: "HistoryOperation \<Rightarrow> policy_time \<Rightarrow> policy_time" where
  "stampOf (OpCancel intent) now = pcn_requestedAt intent"
| "stampOf _ now = now"

lemma settle_stamp:
  assumes "settlePolicyEvaluationAcquisition s now epoch f aid u = Inr t"
  shows "pj_updatedAt (ps_job t) = now"
  by (rule settle_Inr [OF assms]) (cases u; simp)

lemma complete_stamp:
  assumes "completePolicyEvaluationJob s now epoch f r n = Inr t"
  shows "pj_updatedAt (ps_job t) = now"
  by (rule complete_Inr [OF assms]) simp

lemma interrupt_stamp:
  assumes "interruptPolicyEvaluationJob s now epoch f r = Inr t"
  shows "pj_updatedAt (ps_job t) = now"
  by (rule interrupt_Inr [OF assms]) (cases "ps_acquisitionAllowance s"; simp add: retryOrFail_stamp)

lemma live_stamp:
  "claimPolicyEvaluationJob s now epoch aid lid wid = Inr t \<Longrightarrow> pj_updatedAt (ps_job t) = now"
  "heartbeatPolicyEvaluationJob s now epoch f = Inr t \<Longrightarrow> pj_updatedAt (ps_job t) = now"
  "reservePolicyEvaluationUsage s now epoch f d = Inr t \<Longrightarrow> pj_updatedAt (ps_job t) = now"
  "reservePolicyEvaluationAcquisition s now epoch f aid = Inr t \<Longrightarrow> pj_updatedAt (ps_job t) = now"
  "sealPolicyEvaluationJob s now epoch f ref = Inr t \<Longrightarrow> pj_updatedAt (ps_job t) = now"
  "startPolicyEvaluationComputation s now epoch f = Inr t \<Longrightarrow> pj_updatedAt (ps_job t) = now"
proof -
  show "pj_updatedAt (ps_job t) = now" if "claimPolicyEvaluationJob s now epoch aid lid wid = Inr t"
    using that by (auto simp: claimPolicyEvaluationJob_def Let_def result_simps claimedSnapshot_def)
  show "pj_updatedAt (ps_job t) = now" if "heartbeatPolicyEvaluationJob s now epoch f = Inr t"
    using that by (auto simp: heartbeatPolicyEvaluationJob_def Let_def result_simps)
  show "pj_updatedAt (ps_job t) = now" if "reservePolicyEvaluationUsage s now epoch f d = Inr t"
    using that by (auto simp: reservePolicyEvaluationUsage_def Let_def result_simps split: if_splits)
  show "pj_updatedAt (ps_job t) = now" if "reservePolicyEvaluationAcquisition s now epoch f aid = Inr t"
    using that by (auto simp: reservePolicyEvaluationAcquisition_def Let_def result_simps split: if_splits)
  show "pj_updatedAt (ps_job t) = now" if "sealPolicyEvaluationJob s now epoch f ref = Inr t"
    using that by (auto simp: sealPolicyEvaluationJob_def Let_def result_simps split: if_splits)
  show "pj_updatedAt (ps_job t) = now" if "startPolicyEvaluationComputation s now epoch f = Inr t"
    using that by (auto simp: startPolicyEvaluationComputation_def Let_def result_simps split: if_splits)
qed

lemma changed_live:
  "reclaimPolicyEvaluationJob s now epoch = Inr t \<Longrightarrow> t \<noteq> s \<Longrightarrow> pj_terminal (ps_job s) = None"
  "recoverPolicyEvaluationJob s now epoch = Inr t \<Longrightarrow> t \<noteq> s \<Longrightarrow> pj_terminal (ps_job s) = None"
  "cancelPolicyEvaluationJob s intent = Inr t \<Longrightarrow> t \<noteq> s \<Longrightarrow> ps_cancellation s = None"
proof -
  show "pj_terminal (ps_job s) = None" if "reclaimPolicyEvaluationJob s now epoch = Inr t" "t \<noteq> s"
    using that by (auto simp: reclaimPolicyEvaluationJob_def Let_def split: if_splits)
  show "pj_terminal (ps_job s) = None" if "recoverPolicyEvaluationJob s now epoch = Inr t" "t \<noteq> s"
    using that by (cases epoch) (auto simp: recoverPolicyEvaluationJob_def Let_def split: if_splits)
  show "ps_cancellation s = None" if "cancelPolicyEvaluationJob s intent = Inr t" "t \<noteq> s"
    using that by (auto simp: cancelPolicyEvaluationJob_def Let_def split: if_splits option.splits)
qed

lemma reclaim_stamp:
  assumes "reclaimPolicyEvaluationJob s now epoch = Inr t" "t \<noteq> s"
  shows "pj_updatedAt (ps_job t) = now"
  using assms changed_live(1) [OF assms]
  by (auto simp: reclaimPolicyEvaluationJob_def Let_def chargeUncertain_eq result_simps retryOrFail_stamp split: if_splits)

lemma recover_stamp:
  assumes "recoverPolicyEvaluationJob s now epoch = Inr t" "t \<noteq> s"
  shows "pj_updatedAt (ps_job t) = now"
proof (rule recover_Inr [OF assms(1) changed_live(2) [OF assms]])
  fix e k
  assume k: "recoveredJob s now e = Inr k" and t: "t = (closeOpenAttempt (recoveryClosure s now) (chargedGraph s))\<lparr>ps_job := k\<rparr>"
  have "pj_updatedAt k = now"
    using k by (auto simp: recoveredJob_def Let_def retryOrFail_stamp split: if_splits)
  then show ?thesis by (simp add: t)
qed

lemma cancel_stamp:
  assumes "cancelPolicyEvaluationJob s intent = Inr t" "t \<noteq> s"
  shows "pj_updatedAt (ps_job t) = pcn_requestedAt intent"
  using cancel_Inr(5) [OF assms(1) changed_live(3) [OF assms]] by simp

lemma exhaust_stamp: "exhaustPolicyEvaluationJobHistory s now = Inr t \<Longrightarrow> pj_updatedAt (ps_job t) = now"
  using exhaust_Inr(5) [of s now t] by simp

lemma rederive_stamp:
  assumes "rederive p now op = Inr g" "rg_snapshot g \<noteq> rg_snapshot p"
  shows "pj_updatedAt (ps_job (rg_snapshot g)) = stampOf op now"
  using assms
  by (cases op)
    (auto simp: rederive_def Let_def retained_Inr result_simps live_stamp settle_stamp complete_stamp interrupt_stamp reclaim_stamp
      recover_stamp exhaust_stamp cancel_stamp)

lemma rederive_at_stamp: "rederive p now op = rederive p (stampOf op now) op"
  by (cases op) (simp_all add: rederive_def)

section \<open>The recorded operation satisfies its contract\<close>

lemma live_fence_ok:
  assumes "holdsLease s now epoch f l"
  shows "PolicyEvaluationWorkerMutationFenceSchema f" "pf_jobId f = pj_jobId (ps_job s)"
proof -
  note h = holdsLease_facts [OF assms]
  show "PolicyEvaluationWorkerMutationFenceSchema f" "pf_jobId f = pj_jobId (ps_job s)"
    using assms lease_shape(6) [OF h(1,3)] lease_shape(3) [OF h(1,3)] by (simp_all add: holdsLease_def leaseBindsJob_def)
qed

text \<open>What the entry contract asks of the operation beyond the transition itself: a reservation is named.\<close>

fun operationNamed :: "HistoryOperation \<Rightarrow> bool" where
  "operationNamed (OpReserve f reservationId delta) = OpaqueIdSchema reservationId"
| "operationNamed _ = True"

definition operationFits :: "EvidenceScope \<Rightarrow> string \<Rightarrow> policy_time \<Rightarrow> HistoryOperation \<Rightarrow> bool" where
  "operationFits scope jobId now op \<longleftrightarrow>
     OperationSchema op \<and> op \<noteq> OpCreated \<and> optional (\<lambda>f. pf_jobId f = jobId) (operationFence op) \<and>
     (case op of OpReserve _ _ delta \<Rightarrow> \<not> list_all (\<lambda>k. delta k = 0) USAGE_KEYS | _ \<Rightarrow> True) \<and>
     (case op of OpCancel intent \<Rightarrow> pcn_jobId intent = jobId \<and> pcn_scope intent = scope \<and> pcn_requestedAt intent = now | _ \<Rightarrow> True)"

abbreviation fenceBinds :: "PolicyEvaluationJobSnapshot \<Rightarrow> PolicyEvaluationWorkerMutationFence \<Rightarrow> bool" where
  "fenceBinds s f \<equiv> PolicyEvaluationWorkerMutationFenceSchema f \<and> pf_jobId f = pj_jobId (ps_job s)"

lemma live_fits: "holdsLease s now epoch f l \<Longrightarrow> fenceBinds s f"
  using live_fence_ok by blast

lemma live_operations:
  fixes s t :: PolicyEvaluationJobSnapshot
  shows "heartbeatPolicyEvaluationJob s now epoch f = Inr t \<Longrightarrow> fenceBinds s f"
    "reservePolicyEvaluationUsage s now epoch f d = Inr t \<Longrightarrow> fenceBinds s f \<and>
       \<not> list_all (\<lambda>k. d k = 0) USAGE_KEYS \<and> PolicyEvaluationUsageSchema d"
    "reservePolicyEvaluationAcquisition s now epoch f aid = Inr t \<Longrightarrow> fenceBinds s f \<and> OpaqueIdSchema aid"
    "settlePolicyEvaluationAcquisition s now epoch f aid u = Inr t \<Longrightarrow> fenceBinds s f \<and>
       OpaqueIdSchema aid \<and> optional PolicyEvaluationAcquisitionUsageSchema u"
    "sealPolicyEvaluationJob s now epoch f ref = Inr t \<Longrightarrow> fenceBinds s f \<and>
       PolicyEvaluationSnapshotReferenceSchema ref"
    "startPolicyEvaluationComputation s now epoch f = Inr t \<Longrightarrow> fenceBinds s f"
proof -
  show "fenceBinds s f" if "heartbeatPolicyEvaluationJob s now epoch f = Inr t"
    using that by (auto simp: heartbeatPolicyEvaluationJob_def Let_def result_simps dest: live_fits)
  show "fenceBinds s f" if "startPolicyEvaluationComputation s now epoch f = Inr t"
    using that by (auto simp: startPolicyEvaluationComputation_def Let_def result_simps split: if_splits dest: live_fits)
  show "fenceBinds s f \<and> PolicyEvaluationSnapshotReferenceSchema ref" if "sealPolicyEvaluationJob s now epoch f ref = Inr t"
    using that by (auto simp: sealPolicyEvaluationJob_def Let_def result_simps split: if_splits dest: live_fits)
  show "fenceBinds s f \<and> OpaqueIdSchema aid" if "reservePolicyEvaluationAcquisition s now epoch f aid = Inr t"
    using that by (auto simp: reservePolicyEvaluationAcquisition_def Let_def result_simps split: if_splits dest: live_fits)
  show "fenceBinds s f \<and> OpaqueIdSchema aid \<and> optional PolicyEvaluationAcquisitionUsageSchema u"
    if "settlePolicyEvaluationAcquisition s now epoch f aid u = Inr t"
    using that by (auto simp: settlePolicyEvaluationAcquisition_def Let_def result_simps split: if_splits dest: live_fits)
  show "fenceBinds s f \<and> \<not> list_all (\<lambda>k. d k = 0) USAGE_KEYS \<and> PolicyEvaluationUsageSchema d"
    if u: "reservePolicyEvaluationUsage s now epoch f d = Inr t"
  proof -
    obtain l where h: "holdsLease s now epoch f l" and n: "\<not> list_all (\<lambda>k. d k = 0) USAGE_KEYS"
      using u by (auto simp: reservePolicyEvaluationUsage_def Let_def result_simps split: if_splits dest: live_fits)
    have "PolicyEvaluationUsageSchema d"
      using u holdsLease_facts(1,2) [OF h] live_fence_ok(1) [OF h] by (auto simp: reservePolicyEvaluationUsage_def split: if_splits dest: live_fits)
    then show ?thesis using live_fits [OF h] n by blast
  qed
qed

lemma claim_fits:
  assumes "rederive p now (OpClaim f) = Inr g"
  shows "fenceBinds (rg_snapshot p) f"
proof -
  obtain l where c: "claimPolicyEvaluationJob (rg_snapshot p) now (JsInt (pj_recoveryEpoch (ps_job (rg_snapshot p))))
      (pf_attemptId f) (pf_leaseId f) (pf_workerId f) = Inr (rg_snapshot g)"
    and l: "pj_currentLease (ps_job (rg_snapshot g)) = Some l" "pl_mutationFence l = f"
    using assms by (auto simp: rederive_def Let_def retained_Inr result_simps)
  have a: "advances (rg_snapshot p) (rg_snapshot g)" by (rule claim_advances [OF c])
  then show ?thesis
    using l lease_shape(6) [OF _ l(1)] lease_shape(3) [OF _ l(1)] by (simp add: advances_def sameJob_def leaseBindsJob_def)
qed

lemma cancel_fits:
  assumes "cancelPolicyEvaluationJob s intent = Inr t"
  shows "PolicyEvaluationCancellationSchema intent" "pcn_jobId intent = pj_jobId (ps_job s)" "pcn_scope intent = pj_scope (ps_job s)"
  using assms by (auto simp: cancelPolicyEvaluationJob_def Let_def split: if_splits)

lemma rederive_fits:
  assumes r: "rederive p now op = Inr g" and changed: "rg_snapshot g \<noteq> rg_snapshot p" and named: "operationNamed op"
  shows "operationFits (pj_scope (ps_job (rg_snapshot p))) (pj_jobId (ps_job (rg_snapshot p))) (stampOf op now) op"
proof (cases op)
  case (OpClaim f)
  then show ?thesis using claim_fits r by (simp add: operationFits_def OperationSchema_def)
next
  case (OpComplete f reference n)
  then have "completePolicyEvaluationJob (rg_snapshot p) now (JsInt (pj_recoveryEpoch (ps_job (rg_snapshot p)))) f reference (JsInt n) =
      Inr (rg_snapshot g)" using r by (simp add: rederive_def Let_def retained_Inr)
  then show ?thesis
    by (rule complete_Inr) (use OpComplete live_fits in \<open>force simp: operationFits_def OperationSchema_def\<close>)
next
  case (OpInterrupt f reason)
  then have "interruptPolicyEvaluationJob (rg_snapshot p) now (JsInt (pj_recoveryEpoch (ps_job (rg_snapshot p)))) f reason = Inr (rg_snapshot g)"
    using r by (simp add: rederive_def Let_def retained_Inr)
  then show ?thesis
    by (rule interrupt_Inr) (use OpInterrupt live_fits in \<open>force simp: operationFits_def OperationSchema_def\<close>)
next
  case (OpRecovery e)
  then have "recoverPolicyEvaluationJob (rg_snapshot p) now (JsInt e) = Inr (rg_snapshot g)"
    using r by (simp add: rederive_def Let_def retained_Inr)
  then have "recoverable (rg_snapshot p) now e"
    using recover_Inr changed_live(2) changed by (metis js_number.inject)
  then show ?thesis
    using OpRecovery epoch_safe [of "rg_snapshot p"]
    by (simp add: operationFits_def OperationSchema_def recoverable_def SafePositiveInteger_def SafeNonnegativeInteger_def)
next
  case (OpCancel intent)
  then have "cancelPolicyEvaluationJob (rg_snapshot p) intent = Inr (rg_snapshot g)"
    using r by (simp add: rederive_def Let_def retained_Inr)
  from cancel_fits [OF this] show ?thesis using OpCancel by (simp add: operationFits_def OperationSchema_def)
next
  case (OpHeartbeat f)
  then show ?thesis
    using r named live_operations(1) [of "rg_snapshot p" now _ f "rg_snapshot g"]
    by (auto simp: rederive_def Let_def retained_Inr operationFits_def OperationSchema_def)
next
  case (OpReserve f reservationId d)
  then show ?thesis
    using r named live_operations(2) [of "rg_snapshot p" now _ f d "rg_snapshot g"]
    by (auto simp: rederive_def Let_def retained_Inr operationFits_def OperationSchema_def)
next
  case (OpReserveAcquisition f aid)
  then show ?thesis
    using r named live_operations(3) [of "rg_snapshot p" now _ f aid "rg_snapshot g"]
    by (auto simp: rederive_def Let_def retained_Inr operationFits_def OperationSchema_def)
next
  case (OpSettleAcquisition f aid u)
  then show ?thesis
    using r named live_operations(4) [of "rg_snapshot p" now _ f aid u "rg_snapshot g"]
    by (auto simp: rederive_def Let_def retained_Inr operationFits_def OperationSchema_def)
next
  case (OpSeal f ref)
  then show ?thesis
    using r named live_operations(5) [of "rg_snapshot p" now _ f ref "rg_snapshot g"]
    by (auto simp: rederive_def Let_def retained_Inr operationFits_def OperationSchema_def)
next
  case (OpStartComputation f)
  then show ?thesis
    using r named live_operations(6) [of "rg_snapshot p" now _ f "rg_snapshot g"]
    by (auto simp: rederive_def Let_def retained_Inr operationFits_def OperationSchema_def)
qed (use r in \<open>simp_all add: rederive_def Let_def operationFits_def OperationSchema_def\<close>)

section \<open>Appending an entry\<close>

lemma step_recorded:
  assumes "graphRecorded sha p" "policyStep (rg_snapshot p) (rg_snapshot g)"
  shows "graphRecorded sha g"
  using assms(1) policyStep_advances [OF assms(2)] by (simp add: graphRecorded_def Let_def advances_def sameJob_def)

definition entryFor ::
    "digest \<Rightarrow> (RetainedJobGraph \<times> HistoryEntry) option \<Rightarrow> RetainedJobGraph \<Rightarrow> HistoryOperation \<Rightarrow> HistoryEntry" where
  "entryFor sha previous g op =
     (let job = ps_job (rg_snapshot g);
          d = \<lparr>he_scope = pj_scope job, he_job = graphJobReference g, he_sequence = pj_stateVersion job - 1,
               he_predecessorEntrySha256 = map_option (en_entrySha256 \<circ> snd) previous,
               he_previousGraphSha256 = map_option (sha \<circ> graphBytes \<circ> fst) previous,
               he_graphSha256 = sha (graphBytes g),
               he_stateVersion = pj_stateVersion job, he_committedAt = pj_updatedAt job,
               he_previousStatus = map_option (\<lambda>(p, e). pj_status (ps_job (rg_snapshot p))) previous,
               he_status = pj_status job, he_operation = op\<rparr>
      in \<lparr>en_definition = d, en_entrySha256 = sha (entryBytes d)\<rparr>)"

lemma create_iff:
  "createPolicyEvaluationJobHistoryEntry sha (Some p) (Some e) g op = Inr e' \<longleftrightarrow>
     graphRecorded sha g \<and> graphRecorded sha p \<and> entryRecorded sha e \<and>
     continuesGraph p (Some (sha (graphBytes p))) e g \<and> e' = entryFor sha (Some (p, e)) g op \<and> HistoryEntrySchema e'"
  "createPolicyEvaluationJobHistoryEntry sha None None g op = Inr e' \<longleftrightarrow>
     graphRecorded sha g \<and> e' = entryFor sha None g op \<and> HistoryEntrySchema e'"
proof -
  have encode: "(\<exists>bytes. encodePolicyEvaluationJobHistoryEntry d = Inr bytes \<and>
      validatePolicyEvaluationJobHistoryEntry sha \<lparr>en_definition = d, en_entrySha256 = sha bytes\<rparr> = Inr e') \<longleftrightarrow>
    e' = \<lparr>en_definition = d, en_entrySha256 = sha (entryBytes d)\<rparr> \<and> HistoryEntrySchema e'" for d
  proof (cases "HistoryEntryDefinitionSchema d")
    case True
    then show ?thesis
      using encodes_entry(1) [OF True] by (auto simp: validate_entry_iff entryRecorded_def)
  qed (auto simp: encodePolicyEvaluationJobHistoryEntry_def HistoryEntrySchema_def)
  have digest: "whenPresent (digestPolicyEvaluationJobGraph sha) (Some p) = Inr d \<longleftrightarrow> graphRecorded sha p \<and> d = Some (sha (graphBytes p))" for d
    using digest_graph_iff [of sha p] by (cases "digestPolicyEvaluationJobGraph sha p") (auto simp: whenPresent_def)
  have entry: "whenPresent (validatePolicyEvaluationJobHistoryEntry sha) (Some e) = Inr d \<longleftrightarrow> entryRecorded sha e \<and> d = Some e" for d
    using validate_entry_iff [of sha e] by (cases "validatePolicyEvaluationJobHistoryEntry sha e") (auto simp: whenPresent_def)
  show "createPolicyEvaluationJobHistoryEntry sha (Some p) (Some e) g op = Inr e' \<longleftrightarrow>
     graphRecorded sha g \<and> graphRecorded sha p \<and> entryRecorded sha e \<and>
     continuesGraph p (Some (sha (graphBytes p))) e g \<and> e' = entryFor sha (Some (p, e)) g op \<and> HistoryEntrySchema e'"
    by (simp add: createPolicyEvaluationJobHistoryEntry_def case_result_Inr_iff digest_graph_iff digest entry encode Let_def
        entryFor_def)
  show "createPolicyEvaluationJobHistoryEntry sha None None g op = Inr e' \<longleftrightarrow>
     graphRecorded sha g \<and> e' = entryFor sha None g op \<and> HistoryEntrySchema e'"
    by (simp add: createPolicyEvaluationJobHistoryEntry_def case_result_Inr_iff digest_graph_iff whenPresent_def encode Let_def
        entryFor_def)
qed

lemma replay_iff:
  "replayPolicyEvaluationJobHistoryEntry sha p e = Inr g \<longleftrightarrow>
     entryRecorded sha e \<and> graphRecorded sha p \<and>
     (let d = en_definition e; job = ps_job (rg_snapshot p) in
      he_previousGraphSha256 d = Some (sha (graphBytes p)) \<and> he_previousStatus d = Some (pj_status job) \<and>
      he_stateVersion d = pj_stateVersion job + 1 \<and> he_scope d = pj_scope job \<and> he_job d = graphJobReference p \<and>
      rederive p (he_committedAt d) (he_operation d) = Inr g \<and> pj_status (ps_job (rg_snapshot g)) = he_status d \<and>
      graphRecorded sha g \<and> he_graphSha256 d = sha (graphBytes g))"
proof -
  have job: "he_job d = graphJobReference p \<longleftrightarrow> jobref_jobId (he_job d) = pj_jobId (ps_job (rg_snapshot p)) \<and>
      jobref_definitionSha256 (he_job d) = pj_definitionSha256 (ps_job (rg_snapshot p))" for d
    by (cases "he_job d") (auto simp: graphJobReference_def)
  show ?thesis
    unfolding replayPolicyEvaluationJobHistoryEntry_def Let_def case_result_Inr_iff if_throw_Inr_iff validate_entry_iff digest_graph_iff job
    by auto
qed

text \<open>An entry that binds a graph: the graph it was appended with.\<close>

definition entryBinds :: "digest \<Rightarrow> RetainedJobGraph \<Rightarrow> HistoryEntry \<Rightarrow> bool" where
  "entryBinds sha g e \<longleftrightarrow>
     entryRecorded sha e \<and> graphRecorded sha g \<and>
     (let d = en_definition e; job = ps_job (rg_snapshot g) in
      he_graphSha256 d = sha (graphBytes g) \<and> he_stateVersion d = pj_stateVersion job \<and>
      he_sequence d = pj_stateVersion job - 1 \<and>
      he_job d = graphJobReference g \<and> he_scope d = pj_scope job \<and> he_status d = pj_status job \<and>
      he_committedAt d = pj_updatedAt job)"

lemma entryFor_binds:
  assumes "graphRecorded sha g" "HistoryEntrySchema (entryFor sha previous g op)"
  shows "entryBinds sha g (entryFor sha previous g op)"
  using assms by (simp add: entryBinds_def entryFor_def Let_def entryRecorded_def)

lemma recorded_schemas:
  assumes "graphRecorded sha g"
  shows "EvidenceScopeSchema (pj_scope (ps_job (rg_snapshot g)))" "PolicyEvaluationJobReferenceSchema (graphJobReference g)"
    "PolicyEvaluationTimeSchema (pj_updatedAt (ps_job (rg_snapshot g)))" "0 < pj_stateVersion (ps_job (rg_snapshot g))"
    "PolicyEvaluationJobSnapshotSchema (rg_snapshot g)"
proof -
  have s: "PolicyEvaluationJobSnapshotSchema (rg_snapshot g)" using assms by (simp add: graphRecorded_def Let_def)
  then have "jobShape (ps_job (rg_snapshot g))"
    by (simp add: PolicyEvaluationJobSnapshotSchema_def snapshotShape_def PolicyEvaluationJobSchema_def)
  then show "EvidenceScopeSchema (pj_scope (ps_job (rg_snapshot g)))" "PolicyEvaluationJobReferenceSchema (graphJobReference g)"
    "PolicyEvaluationTimeSchema (pj_updatedAt (ps_job (rg_snapshot g)))" "0 < pj_stateVersion (ps_job (rg_snapshot g))"
    by (simp_all add: jobShape_def PolicyEvaluationJobReferenceSchema_def graphJobReference_def SafePositiveInteger_def)
  show "PolicyEvaluationJobSnapshotSchema (rg_snapshot g)" by (rule s)
qed

lemma append_rederives:
  assumes hex: "\<And>bs. Sha256Schema (sha bs)" and p: "entryBinds sha p e"
    and r: "rederive p now op = Inr g" and changed: "rg_snapshot g \<noteq> rg_snapshot p" and named: "operationNamed op"
    and room: "pj_stateVersion (ps_job (rg_snapshot p)) < MAX_POLICY_EVALUATION_JOB_HISTORY_ENTRIES"
  defines "e' \<equiv> entryFor sha (Some (p, e)) g op"
  shows "appendPolicyEvaluationJobHistory sha (Some p) (Some e) g op = Inr e'"
    "replayPolicyEvaluationJobHistoryEntry sha p e' = Inr g" "entryBinds sha g e'"
proof -
  let ?s = "rg_snapshot p" and ?t = "rg_snapshot g"
  have gp: "graphRecorded sha p" "entryRecorded sha e" using p by (simp_all add: entryBinds_def)
  have step: "policyStep ?s ?t" by (rule rederive_step [OF r changed])
  note a = policyStep_advances [OF step, unfolded advances_def sameJob_def]
  have gg: "graphRecorded sha g" by (rule step_recorded [OF gp(1) step])
  have stamp: "pj_updatedAt (ps_job ?t) = stampOf op now" by (rule rederive_stamp [OF r changed])
  have fits: "operationFits (pj_scope (ps_job ?t)) (pj_jobId (ps_job ?t)) (pj_updatedAt (ps_job ?t)) op"
    using rederive_fits [OF r changed named] a stamp by simp
  have ref: "graphJobReference g = graphJobReference p" using a by (simp add: graphJobReference_def)
  have positive: "1 < pj_stateVersion (ps_job ?t)" using recorded_schemas(4) [OF gp(1)] a by simp
  have "HistoryEntryDefinitionSchema (en_definition e')"
    using recorded_schemas [OF gg] fits positive room a hex gp(2)
    by (cases op) (auto simp: e'_def entryFor_def Let_def HistoryEntryDefinitionSchema_def refineHistoryEntry_def SequenceSchema_def
        operationFits_def graphJobReference_def entryRecorded_def)
  then have schema: "HistoryEntrySchema e'" using hex by (simp add: HistoryEntrySchema_def e'_def entryFor_def Let_def)
  have continues: "continuesGraph p (Some (sha (graphBytes p))) e g"
    using p a ref by (simp add: continuesGraph_def entryBinds_def Let_def graphJobReference_def)
  have create: "createPolicyEvaluationJobHistoryEntry sha (Some p) (Some e) g op = Inr e'"
    using create_iff(1) gg gp continues schema e'_def by metis
  have "entryBinds sha g e'" unfolding e'_def by (rule entryFor_binds [OF gg schema [unfolded e'_def]])
  moreover have "rederive p (pj_updatedAt (ps_job ?t)) op = Inr g" using r rederive_at_stamp stamp by metis
  ultimately show replay: "replayPolicyEvaluationJobHistoryEntry sha p e' = Inr g" and "entryBinds sha g e'"
    using gp gg a ref by (simp_all add: replay_iff Let_def e'_def entryFor_def entryBinds_def)
  show "appendPolicyEvaluationJobHistory sha (Some p) (Some e) g op = Inr e'"
    by (simp add: appendPolicyEvaluationJobHistory_def create replay)
qed

section \<open>Recorded histories\<close>

inductive recordedHistory :: "digest \<Rightarrow> HistoryEntry list \<Rightarrow> RetainedJobGraph list \<Rightarrow> bool" for sha where
  recorded_created:
    "appendPolicyEvaluationJobHistory sha None None g OpCreated = Inr e \<Longrightarrow> recordedHistory sha [e] [g]"
| recorded_appended:
    "recordedHistory sha (es @ [e]) (gs @ [p]) \<Longrightarrow>
     appendPolicyEvaluationJobHistory sha (Some p) (Some e) g op = Inr e' \<Longrightarrow>
     recordedHistory sha (es @ [e, e']) (gs @ [p, g])"

text \<open>
  No collision of the digest where a history is replayed. Replaying an entry re-derives one graph from the
  graph before it, with the operation of the entry and the instant of the recorded graph, and compares the
  digests. The assumption is about these two graphs only, one pair per entry: if their canonical bytes have
  the same digest then they are the same bytes. The digest of all byte sequences cannot be injective, so
  nothing is assumed about any other graph.
\<close>

definition linkCollisionFree :: "digest \<Rightarrow> RetainedJobGraph \<Rightarrow> HistoryOperation \<Rightarrow> RetainedJobGraph \<Rightarrow> bool" where
  "linkCollisionFree sha p op g \<longleftrightarrow>
     (case rederive p (pj_updatedAt (ps_job (rg_snapshot g))) op of
        Inl _ \<Rightarrow> True
      | Inr h \<Rightarrow> graphRecorded sha h \<longrightarrow> sha (graphBytes h) = sha (graphBytes g) \<longrightarrow> graphBytes h = graphBytes g)"

definition collisionFree :: "digest \<Rightarrow> HistoryEntry list \<Rightarrow> RetainedJobGraph list \<Rightarrow> bool" where
  "collisionFree sha es gs \<longleftrightarrow>
     (\<forall>i. Suc i < length gs \<longrightarrow> linkCollisionFree sha (gs ! i) (he_operation (en_definition (es ! Suc i))) (gs ! Suc i))"

lemma collisionFree_butlast:
  assumes "collisionFree sha (es @ [e]) (gs @ [g])" "length es = length gs"
  shows "collisionFree sha es gs"
  unfolding collisionFree_def
proof (intro allI impI)
  fix i assume i: "Suc i < length gs"
  then show "linkCollisionFree sha (gs ! i) (he_operation (en_definition (es ! Suc i))) (gs ! Suc i)"
    using assms(1) [unfolded collisionFree_def, rule_format, of i] assms(2) by (simp add: nth_append)
qed

lemma collisionFree_last:
  assumes "collisionFree sha (es @ [e, e']) (gs @ [p, g])" "length es = length gs"
  shows "linkCollisionFree sha p (he_operation (en_definition e')) g"
  using assms(1) [unfolded collisionFree_def, rule_format, of "length gs"] assms(2) by (simp add: nth_append)

lemma append_Some:
  assumes "appendPolicyEvaluationJobHistory sha (Some p) (Some e) g op = Inr e'"
  obtains h where "e' = entryFor sha (Some (p, e)) g op" "entryBinds sha g e'" "entryRecorded sha e" "graphRecorded sha p"
    "continuesGraph p (Some (sha (graphBytes p))) e g" "replayPolicyEvaluationJobHistoryEntry sha p e' = Inr h"
    "rederive p (pj_updatedAt (ps_job (rg_snapshot g))) op = Inr h" "sha (graphBytes h) = sha (graphBytes g)" "graphRecorded sha h"
proof -
  have c: "createPolicyEvaluationJobHistoryEntry sha (Some p) (Some e) g op = Inr e'"
    using assms by (auto simp: appendPolicyEvaluationJobHistory_def result_simps)
  then obtain h where h: "replayPolicyEvaluationJobHistoryEntry sha p e' = Inr h"
    using assms by (auto simp: appendPolicyEvaluationJobHistory_def result_simps)
  from c [unfolded create_iff] have i: "graphRecorded sha g" "graphRecorded sha p" "entryRecorded sha e"
    "continuesGraph p (Some (sha (graphBytes p))) e g" "e' = entryFor sha (Some (p, e)) g op" "HistoryEntrySchema e'"
    by blast+
  have "entryBinds sha g e'" using entryFor_binds i by metis
  moreover have "rederive p (pj_updatedAt (ps_job (rg_snapshot g))) op = Inr h" "sha (graphBytes h) = sha (graphBytes g)" "graphRecorded sha h"
    using h i(5) by (simp_all add: replay_iff Let_def entryFor_def)
  ultimately show ?thesis using that i h by blast
qed

lemma append_None:
  assumes "appendPolicyEvaluationJobHistory sha None None g op = Inr e"
  shows "e = entryFor sha None g op" "entryBinds sha g e"
proof -
  have c: "createPolicyEvaluationJobHistoryEntry sha None None g op = Inr e"
    using assms by (auto simp: appendPolicyEvaluationJobHistory_def result_simps)
  then show "e = entryFor sha None g op" by (simp only: create_iff)
  then show "entryBinds sha g e" using c entryFor_binds by (simp only: create_iff)
qed

lemma recordedHistory_shape: "recordedHistory sha es gs \<Longrightarrow> length es = length gs \<and> gs \<noteq> []"
  by (induction rule: recordedHistory.induct) auto

lemma recordedHistory_binds: "recordedHistory sha es gs \<Longrightarrow> list_all2 (entryBinds sha) gs es"
proof (induction rule: recordedHistory.induct)
  case (recorded_created g e)
  then show ?case by (simp add: append_None)
next
  case (recorded_appended es e gs p g op e')
  from recorded_appended(2) have "entryBinds sha g e'" by (rule append_Some)
  moreover have "length gs = length es" using recordedHistory_shape [OF recorded_appended(1)] by simp
  ultimately show ?case using recorded_appended(3) by (simp add: list_all2_append)
qed

lemma append_replays:
  assumes a: "appendPolicyEvaluationJobHistory sha (Some p) (Some e) g op = Inr e'"
    and free: "linkCollisionFree sha p op g"
  shows "\<exists>h. replayPolicyEvaluationJobHistoryEntry sha p e' = Inr h \<and> rg_snapshot h = rg_snapshot g \<and>
    policyStep (rg_snapshot p) (rg_snapshot g)"
proof (rule append_Some [OF a])
  fix h
  assume c: "continuesGraph p (Some (sha (graphBytes p))) e g" and r: "rederive p (pj_updatedAt (ps_job (rg_snapshot g))) op = Inr h"
    and h: "sha (graphBytes h) = sha (graphBytes g)" "graphRecorded sha h" and b: "entryBinds sha g e'"
    and replay: "replayPolicyEvaluationJobHistoryEntry sha p e' = Inr h"
  have "graphBytes h = graphBytes g" using free r h by (simp add: linkCollisionFree_def)
  then have eq: "rg_snapshot h = rg_snapshot g"
    using graphBytes_inj recorded_schemas(5) h(2) b by (metis entryBinds_def)
  moreover have "rg_snapshot g \<noteq> rg_snapshot p" using c by (auto simp: continuesGraph_def Let_def)
  ultimately show ?thesis using replay rederive_step [OF r] by auto
qed

lemma recorded_link:
  "recordedHistory sha es gs \<Longrightarrow> Suc i < length gs \<Longrightarrow>
   \<exists>op. appendPolicyEvaluationJobHistory sha (Some (gs ! i)) (Some (es ! i)) (gs ! Suc i) op = Inr (es ! Suc i)"
proof (induction arbitrary: i rule: recordedHistory.induct)
  case (recorded_appended es e gs p g op e')
  have len: "length es = length gs" using recordedHistory_shape [OF recorded_appended(1)] by simp
  show ?case
  proof (cases "Suc i < Suc (length gs)")
    case True
    have n: "(gs @ [p, g]) ! k = (gs @ [p]) ! k" "(es @ [e, e']) ! k = (es @ [e]) ! k" if "k < Suc (length gs)" for k
      using that len by (auto simp: nth_append less_Suc_eq)
    show ?thesis using recorded_appended(3) [of i] True n by simp
  next
    case False
    then have "i = length gs" using recorded_appended(4) by simp
    then show ?thesis using recorded_appended(2) len by (auto simp: nth_append)
  qed
qed simp

lemma recorded_link_replays:
  assumes r: "recordedHistory sha es gs" "collisionFree sha es gs" and i: "Suc i < length gs"
  shows "\<exists>h. replayPolicyEvaluationJobHistoryEntry sha (gs ! i) (es ! Suc i) = Inr h \<and> rg_snapshot h = rg_snapshot (gs ! Suc i) \<and>
    policyStep (rg_snapshot (gs ! i)) (rg_snapshot (gs ! Suc i))"
proof -
  obtain op where a: "appendPolicyEvaluationJobHistory sha (Some (gs ! i)) (Some (es ! i)) (gs ! Suc i) op = Inr (es ! Suc i)"
    using recorded_link [OF r(1) i] by blast
  then have "es ! Suc i = entryFor sha (Some (gs ! i, es ! i)) (gs ! Suc i) op" by (rule append_Some)
  then have "he_operation (en_definition (es ! Suc i)) = op" by (simp add: entryFor_def Let_def)
  then have "linkCollisionFree sha (gs ! i) op (gs ! Suc i)"
    using r(2) [unfolded collisionFree_def, rule_format, OF i] by simp
  with a show ?thesis by (rule append_replays)
qed

lemma recorded_run:
  "recordedHistory sha es gs \<Longrightarrow> collisionFree sha es gs \<Longrightarrow> Suc i < length gs \<Longrightarrow>
   policyStep (rg_snapshot (gs ! i)) (rg_snapshot (gs ! Suc i))"
  using recorded_link_replays by blast

lemma recorded_first: "recordedHistory sha es gs \<Longrightarrow>
    pj_status (ps_job (rg_snapshot (gs ! 0))) = PQueued \<and> pj_stateVersion (ps_job (rg_snapshot (gs ! 0))) = 1"
proof (induction rule: recordedHistory.induct)
  case (recorded_created g e)
  note b = append_None [OF recorded_created]
  have "refineHistoryEntry (en_definition e)"
    using b(2) by (simp add: entryBinds_def entryRecorded_def HistoryEntrySchema_def HistoryEntryDefinitionSchema_def)
  then show ?case using b(1) by (auto simp: refineHistoryEntry_def Let_def entryFor_def)
next
  case (recorded_appended es e gs p g op e')
  then show ?case by (cases gs) simp_all
qed

lemma recorded_sequence:
  assumes "recordedHistory sha es gs" "collisionFree sha es gs" "i < length gs"
  shows "pj_stateVersion (ps_job (rg_snapshot (gs ! i))) = int i + 1"
  using assms(3)
proof (induction i)
  case 0
  then show ?case using recorded_first [OF assms(1)] by simp
next
  case (Suc i)
  then have "pj_stateVersion (ps_job (rg_snapshot (gs ! Suc i))) = pj_stateVersion (ps_job (rg_snapshot (gs ! i))) + 1"
    using policyStep_advances [OF recorded_run [OF assms(1,2), of i]] by (simp add: advances_def)
  then show ?case using Suc by simp
qed

lemma recorded_entry:
  assumes "recordedHistory sha es gs" "i < length gs"
  shows "entryBinds sha (gs ! i) (es ! i)"
  using list_all2_nthD [OF recordedHistory_binds [OF assms(1)] assms(2)] .

lemma recorded_continues:
  assumes r: "recordedHistory sha es gs" "collisionFree sha es gs" and i: "Suc i < length gs"
  shows "continuesEntry (es ! i) (en_definition (es ! Suc i))"
proof -
  obtain op where "appendPolicyEvaluationJobHistory sha (Some (gs ! i)) (Some (es ! i)) (gs ! Suc i) op = Inr (es ! Suc i)"
    using recorded_link [OF r(1) i] by blast
  then have e: "es ! Suc i = entryFor sha (Some (gs ! i, es ! i)) (gs ! Suc i) op" by (rule append_Some)
  have "tkey (pj_updatedAt (ps_job (rg_snapshot (gs ! i)))) \<le> tkey (pj_updatedAt (ps_job (rg_snapshot (gs ! Suc i))))"
    using policyStep_advances [OF recorded_run [OF r i]] by (simp add: advances_def sameJob_def)
  then show ?thesis
    using recorded_entry [OF r(1), of i] i
    by (simp add: continuesEntry_def e entryFor_def Let_def entryBinds_def)
qed

lemma recorded_identity:
  assumes r: "recordedHistory sha es gs" "collisionFree sha es gs" and i: "i < length gs"
  shows "graphJobReference (gs ! i) = graphJobReference (gs ! 0) \<and>
    pj_scope (ps_job (rg_snapshot (gs ! i))) = pj_scope (ps_job (rg_snapshot (gs ! 0)))"
  using i
proof (induction i)
  case (Suc i)
  then show ?case
    using policyStep_advances [OF recorded_run [OF r, of i]] by (simp add: advances_def sameJob_def graphJobReference_def)
qed simp

section \<open>Pages\<close>

lemma pageContinuous_iff:
  "pageContinuous head n prev xs \<longleftrightarrow>
     (\<forall>i < length xs. he_sequence (en_definition (xs ! i)) = n + int i \<and> he_job (en_definition (xs ! i)) = hh_job head \<and>
        he_scope (en_definition (xs ! i)) = hh_scope head) \<and>
     (\<forall>i. Suc i < length xs \<longrightarrow> continuesEntry (xs ! i) (en_definition (xs ! Suc i))) \<and>
     (xs \<noteq> [] \<longrightarrow> optional (\<lambda>p. continuesEntry p (en_definition (hd xs))) prev)"
proof (induction xs arbitrary: n prev)
  case (Cons x xs)
  have links: "(\<forall>i. Suc i < length (x # xs) \<longrightarrow> continuesEntry ((x # xs) ! i) (en_definition ((x # xs) ! Suc i))) \<longleftrightarrow>
      (xs \<noteq> [] \<longrightarrow> continuesEntry x (en_definition (hd xs))) \<and>
      (\<forall>i. Suc i < length xs \<longrightarrow> continuesEntry (xs ! i) (en_definition (xs ! Suc i)))"
  proof (cases xs)
    case (Cons y ys)
    then show ?thesis by (simp add: All_less_Suc2)
  qed simp
  have all: "(\<forall>i < length (x # xs). he_sequence (en_definition ((x # xs) ! i)) = n + int i \<and>
        he_job (en_definition ((x # xs) ! i)) = hh_job head \<and> he_scope (en_definition ((x # xs) ! i)) = hh_scope head) \<longleftrightarrow>
      (he_sequence (en_definition x) = n \<and> he_job (en_definition x) = hh_job head \<and> he_scope (en_definition x) = hh_scope head) \<and>
      (\<forall>i < length xs. he_sequence (en_definition (xs ! i)) = n + 1 + int i \<and>
        he_job (en_definition (xs ! i)) = hh_job head \<and> he_scope (en_definition (xs ! i)) = hh_scope head)"
    by (simp add: All_less_Suc2 add.assoc)
  show ?case
    unfolding pageContinuous.simps Cons.IH links all by simp blast
qed simp

lemma chain_agrees:
  assumes "length xs = length ys" "xs \<noteq> []" "list_all (entryRecorded sha) xs" "list_all (entryRecorded sha) ys"
    and "\<forall>i. Suc i < length xs \<longrightarrow> continuesEntry (xs ! i) (en_definition (xs ! Suc i))"
    and "\<forall>i. Suc i < length ys \<longrightarrow> continuesEntry (ys ! i) (en_definition (ys ! Suc i))"
    and "en_entrySha256 (last xs) = en_entrySha256 (last ys)"
    and inj: "inj_on sha ((\<lambda>e. entryBytes (en_definition e)) ` (set xs \<union> set ys))"
  shows "xs = ys"
proof -
  have same: "x = y" if "x \<in> set xs" "y \<in> set ys" "en_entrySha256 x = en_entrySha256 y" for x y
  proof -
    have r: "entryRecorded sha x" "entryRecorded sha y" using that assms(3,4) by (simp_all add: list_all_iff)
    then have "sha (entryBytes (en_definition x)) = sha (entryBytes (en_definition y))"
      using that(3) by (simp add: entryRecorded_def)
    then have "entryBytes (en_definition x) = entryBytes (en_definition y)" using that by (intro inj_onD [OF inj]) auto
    then have "en_definition x = en_definition y"
      using r by (intro entryBytes_inj) (simp_all add: entryRecorded_def HistoryEntrySchema_def)
    then show ?thesis using that(3) by simp
  qed
  have fromEnd: "xs ! (length xs - 1 - k) = ys ! (length xs - 1 - k)" if "k < length xs" for k
    using that
  proof (induction k)
    case 0
    then show ?case using same assms(1,2,7) by (metis diff_zero last_conv_nth last_in_set length_0_conv)
  next
    case (Suc k)
    let ?j = "length xs - 1 - Suc k"
    have j: "Suc ?j = length xs - 1 - k" "Suc ?j < length xs" "?j < length xs" using Suc.prems by simp_all
    have "xs ! Suc ?j = ys ! Suc ?j" using Suc j(1) by simp
    then have "en_entrySha256 (xs ! ?j) = en_entrySha256 (ys ! ?j)"
      using assms(5) [rule_format, OF j(2)] assms(6) [rule_format, of ?j] j(2) assms(1) by (simp add: continuesEntry_def)
    then show ?case using same j(3) assms(1) by simp
  qed
  have "xs ! i = ys ! i" if "i < length xs" for i
    using fromEnd [of "length xs - 1 - i"] that by simp
  then show ?thesis using assms(1) by (simp add: list_eq_iff_nth_eq)
qed

end
