(* ===== verification/Policy_History_Safety.thy ===== *)
theory Policy_History_Safety
  imports Policy_History_Run Policy_Safety
begin

text \<open>
  The properties of the recorded history of a policy evaluation job: a transition of the scheduler can
  always be recorded and replayed, a recorded history is a run of the scheduler, it can be read back page
  by page, and two accepted last pages of one head are the same page. The concrete history used by the
  witnesses is a queued job and its cancellation.
\<close>

section \<open>Creation\<close>

lemma append_created:
  assumes hex: "\<And>bs. Sha256Schema (sha bs)" and g: "graphRecorded sha g"
    and "pj_status (ps_job (rg_snapshot g)) = PQueued" "pj_stateVersion (ps_job (rg_snapshot g)) = 1"
  shows "appendPolicyEvaluationJobHistory sha None None g OpCreated = Inr (entryFor sha None g OpCreated)"
    "entryBinds sha g (entryFor sha None g OpCreated)"
proof -
  have "HistoryEntryDefinitionSchema (en_definition (entryFor sha None g OpCreated))"
    using recorded_schemas [OF g] assms(3,4) hex
    by (simp add: entryFor_def Let_def HistoryEntryDefinitionSchema_def refineHistoryEntry_def SequenceSchema_def
        MAX_POLICY_EVALUATION_JOB_HISTORY_ENTRIES_def OperationSchema_def)
  then have s: "HistoryEntrySchema (entryFor sha None g OpCreated)"
    using hex by (simp add: HistoryEntrySchema_def entryFor_def Let_def)
  then show "entryBinds sha g (entryFor sha None g OpCreated)" by (rule entryFor_binds [OF g])
  have "createPolicyEvaluationJobHistoryEntry sha None None g OpCreated = Inr (entryFor sha None g OpCreated)"
    using g s create_iff(2) by metis
  then show "appendPolicyEvaluationJobHistory sha None None g OpCreated = Inr (entryFor sha None g OpCreated)"
    by (simp add: appendPolicyEvaluationJobHistory_def)
qed

section \<open>A concrete history\<close>

text \<open>A queued job, cancelled one second later, with a digest that tells the graphs and the first entry apart.\<close>

definition createdGraph :: RetainedJobGraph where
  "createdGraph = \<lparr>rg_snapshot = queuedGraph, rg_allowanceWritten = False\<rparr>"

definition cancelledGraph :: RetainedJobGraph where
  "cancelledGraph = \<lparr>rg_snapshot = queuedGraph\<lparr>ps_cancellation := Some sampleIntent,
     ps_job := (terminate PCancelled CancellationCommittedCode None (wholeSecond 1004) queuedJob)\<lparr>pj_result := None\<rparr>\<rparr>,
     rg_allowanceWritten = False\<rparr>"

definition createdDefinition :: HistoryEntryDefinition where
  "createdDefinition =
     \<lparr>he_scope = sampleScope, he_job = \<lparr>jobref_jobId = ''job00001'', jobref_definitionSha256 = sampleSha\<rparr>,
      he_sequence = 0, he_predecessorEntrySha256 = None, he_previousGraphSha256 = None,
      he_graphSha256 = replicate 64 CHR ''b'', he_stateVersion = 1, he_committedAt = wholeSecond 1000,
      he_previousStatus = None, he_status = PQueued, he_operation = OpCreated\<rparr>"

definition sampleDigest :: digest where
  "sampleDigest bs =
     (if bs = graphBytes createdGraph then replicate 64 CHR ''b''
      else if bs = graphBytes cancelledGraph then replicate 64 CHR ''c''
      else if bs = entryBytes createdDefinition then replicate 64 CHR ''d'' else sampleSha)"

lemma cancelled_rederives: "rederive createdGraph (wholeSecond 1004) (OpCancel sampleIntent) = Inr cancelledGraph"
proof -
  have q: "pj_terminal (ps_job queuedGraph) = None" "pj_updatedAt (ps_job queuedGraph) = wholeSecond 1000"
    "pj_stateVersion (ps_job queuedGraph) = 1" "ps_cancellation queuedGraph = None" "ps_attempts queuedGraph = []"
    "pcn_jobId sampleIntent = pj_jobId (ps_job queuedGraph)" "pcn_scope sampleIntent = pj_scope (ps_job queuedGraph)"
    "pcn_requestedAt sampleIntent = wholeSecond 1004" "ps_acquisitionAllowance queuedGraph = None" "ps_job queuedGraph = queuedJob"
    "PolicyEvaluationTimeSchema (wholeSecond 1004)"
    by (simp_all add: queuedGraph_def queuedJob_def sampleIntent_def)
  have close: "closeOpenAttempt c (chargedGraph queuedGraph) = queuedGraph" for c
    using q by (simp add: closeOpenAttempt_def chargedGraph_def chargeUncertainPolicyEvaluationAcquisition_def latestAttempt_def)
  have "cancelPolicyEvaluationJob queuedGraph sampleIntent = Inr (rg_snapshot cancelledGraph)"
    using cancel_outcome [OF queued_valid, of sampleIntent] q
    by (simp add: close cancelledGraph_def latestAttemptId_def latestAttempt_def MAX_SAFE_INTEGER_def)
  then show ?thesis
    using q by (simp add: rederive_def Let_def createdGraph_def retained_def cancelledGraph_def allowanceWritten_def)
qed

lemma sampleDigest_hex: "Sha256Schema (sampleDigest bs)"
proof -
  have "Sha256Schema (replicate 64 CHR ''b'')" "Sha256Schema (replicate 64 CHR ''c'')" "Sha256Schema (replicate 64 CHR ''d'')"
    by code_simp+
  then show ?thesis by (simp add: sampleDigest_def)
qed

text \<open>Encodings with different domains are different bytes.\<close>

lemma other_domain:
  assumes "canonicalBytes (jsonObject ps) = Inr bs" "plainJson 64 (jsonObject ps)" "distinct (map fst ps)"
    and "map_of ps ''definitionDomain'' = Some (jsonString domain)"
  shows "domain \<noteq> ''proofstack.policy-evaluation-job-graph.v1'' \<Longrightarrow> PolicyEvaluationJobSnapshotSchema (rg_snapshot g) \<Longrightarrow> bs \<noteq> graphBytes g"
    "domain \<noteq> ''proofstack.policy-evaluation-job-history.v1'' \<Longrightarrow> HistoryEntryDefinitionSchema d \<Longrightarrow> bs \<noteq> entryBytes d"
proof -
  show "bs \<noteq> graphBytes g"
    if d: "domain \<noteq> ''proofstack.policy-evaluation-job-graph.v1''" and s: "PolicyEvaluationJobSnapshotSchema (rg_snapshot g)"
  proof
    assume "bs = graphBytes g"
    then have "sameEncoding (jsonObject ps) (graphEnvelope g)"
      using canonicalBytes_same [OF assms(1) _ assms(2) plain_graph_envelope [OF s]] encodes_graph [OF s] by simp
    from same_field [OF this [unfolded graphEnvelope_def] assms(3), of "''definitionDomain''"] d
    show False by (simp add: assms(4) js_text_of_inj)
  qed
  show "bs \<noteq> entryBytes d"
    if n: "domain \<noteq> ''proofstack.policy-evaluation-job-history.v1''" and s: "HistoryEntryDefinitionSchema d"
  proof
    assume "bs = entryBytes d"
    then have "sameEncoding (jsonObject ps) (entryEnvelope d)"
      using canonicalBytes_same [OF assms(1) _ assms(2) plain_envelope [OF s]] encodes_entry(2) [OF s] by simp
    from same_field [OF this [unfolded entryEnvelope_def] assms(3), of "''definitionDomain''"] n
    show False by (simp add: assms(4) js_text_of_inj)
  qed
qed

lemma cancelled_valid: "PolicyEvaluationJobSnapshotSchema (rg_snapshot cancelledGraph)" "rg_snapshot cancelledGraph \<noteq> rg_snapshot createdGraph"
  "pj_stateVersion (ps_job (rg_snapshot cancelledGraph)) = 2"
proof -
  show "rg_snapshot cancelledGraph \<noteq> rg_snapshot createdGraph" by (simp add: cancelledGraph_def createdGraph_def queuedGraph_def)
  from rederive_step [OF cancelled_rederives this] show "PolicyEvaluationJobSnapshotSchema (rg_snapshot cancelledGraph)"
    by (rule policy.step_valid)
  show "pj_stateVersion (ps_job (rg_snapshot cancelledGraph)) = 2" by (simp add: cancelledGraph_def queuedJob_def)
qed

lemma created_definition: "HistoryEntryDefinitionSchema createdDefinition"
proof -
  have "Sha256Schema (replicate 64 CHR ''b'')" by code_simp
  then show ?thesis
    by (simp add: HistoryEntryDefinitionSchema_def createdDefinition_def PolicyEvaluationJobReferenceSchema_def SequenceSchema_def
        MAX_POLICY_EVALUATION_JOB_HISTORY_ENTRIES_def OperationSchema_def refineHistoryEntry_def)
qed

lemma sampleDigest_other:
  assumes "canonicalBytes (jsonObject ps) = Inr bs" "plainJson 64 (jsonObject ps)" "distinct (map fst ps)"
    and "map_of ps ''definitionDomain'' = Some (jsonString domain)"
    and "domain \<noteq> ''proofstack.policy-evaluation-job-graph.v1''" "domain \<noteq> ''proofstack.policy-evaluation-job-history.v1''"
  shows "sampleDigest bs = sampleSha"
  using other_domain(1) [OF assms(1-5)] other_domain(2) [OF assms(1-4,6) created_definition] cancelled_valid(1)
  by (simp add: sampleDigest_def createdGraph_def)

lemma created_recorded: "graphRecorded sampleDigest createdGraph"
proof -
  let ?r = "jsonObject [(''definition'', requestDefinitionJson (definitionOf sampleRequest)),
         (''definitionDomain'', jsonString ''proofstack.policy-evaluation-request.v1''),
         (''encodingVersion'', jsonString ''proofstack.policy-evaluation-request-definition-jcs.v1''),
         (''schemaVersion'', jsonString ''0.1''), (''scope'', scopeJson sampleScope)]"
  let ?j = "jsonObject [(''definition'', jsonObject [(''jobId'', jsonString ''job00001''), (''request'', requestReferenceJson (pj_request queuedJob))]),
         (''scope'', scopeJson sampleScope),
         (''definitionDomain'', jsonString ''proofstack.policy-evaluation-job.v1''),
         (''encodingVersion'', jsonString ''proofstack.policy-evaluation-job-definition-jcs.v1''),
         (''schemaVersion'', jsonString ''0.1'')]"
  have "plainJson 63 (requestDefinitionJson (definitionOf sampleRequest))"
    unfolding requestDefinitionJson_def plainJson_object by (simp add: definitionOf_def plain_limits)
  then have r: "plainJson 64 ?r" unfolding plainJson_object by simp
  obtain bs where bs: "canonicalBytes ?r = Inr bs" using canonicalBytes_plain [OF r] by blast
  have "sampleDigest bs = sampleSha"
    by (rule sampleDigest_other [OF bs r, where domain = "''proofstack.policy-evaluation-request.v1''"]) simp_all
  moreover have "PolicyEvaluationRequestDefinitionSchema (definitionOf sampleRequest)" "prq_scope sampleRequest = sampleScope"
    using sample_request by (simp_all add: PolicyEvaluationRequestDefinitionSchema_def definitionOf_def PolicyEvaluationRequestSchema_def)
      (simp add: sampleRequest_def)
  ultimately have request: "digestPolicyEvaluationRequestDefinition sampleDigest sampleScope (definitionOf sampleRequest) = Inr sampleSha"
    using bs by (simp add: digestPolicyEvaluationRequestDefinition_def encodePolicyEvaluationRequestDefinition_def)
  have "plainJson 63 (jsonObject [(''jobId'', jsonString ''job00001''), (''request'', requestReferenceJson (pj_request queuedJob))])"
    unfolding plainJson_object by simp
  then have j: "plainJson 64 ?j" unfolding plainJson_object [of 64] by simp
  obtain cs where cs: "canonicalBytes ?j = Inr cs" using canonicalBytes_plain [OF j] by blast
  have "sampleDigest cs = sampleSha"
    by (rule sampleDigest_other [OF cs j, where domain = "''proofstack.policy-evaluation-job.v1''"]) simp_all
  moreover have "PolicyEvaluationRequestReferenceSchema (pj_request queuedJob)"
    by (simp add: queuedJob_def PolicyEvaluationRequestReferenceSchema_def)
  ultimately have "digestPolicyEvaluationJobDefinition sampleDigest sampleScope ''job00001'' (pj_request queuedJob) = Inr sampleSha"
    using cs by (simp add: digestPolicyEvaluationJobDefinition_def encodePolicyEvaluationJobDefinition_def)
  moreover have "ps_request queuedGraph = sampleRequest" "ps_job queuedGraph = queuedJob" "pj_scope queuedJob = sampleScope"
    "pj_jobId queuedJob = ''job00001''" "pj_definitionSha256 queuedJob = sampleSha" "prq_definitionSha256 sampleRequest = sampleSha"
    "prq_scope sampleRequest = sampleScope"
    by (simp_all add: queuedGraph_def queuedJob_def sampleRequest_def)
  ultimately show ?thesis using request by (simp add: graphRecorded_def Let_def createdGraph_def)
qed

definition createdEntry :: HistoryEntry where
  "createdEntry = entryFor sampleDigest None createdGraph OpCreated"

definition cancelledEntry :: HistoryEntry where
  "cancelledEntry = entryFor sampleDigest (Some (createdGraph, createdEntry)) cancelledGraph (OpCancel sampleIntent)"

lemma created_fields: "pj_status (ps_job (rg_snapshot createdGraph)) = PQueued" "pj_stateVersion (ps_job (rg_snapshot createdGraph)) = 1"
  by (simp_all add: createdGraph_def queuedGraph_def queuedJob_def)

lemmas created_entry = append_created [OF sampleDigest_hex created_recorded created_fields, folded createdEntry_def]

lemma sample_room: "pj_stateVersion (ps_job (rg_snapshot createdGraph)) < MAX_POLICY_EVALUATION_JOB_HISTORY_ENTRIES"
  by (simp add: created_fields MAX_POLICY_EVALUATION_JOB_HISTORY_ENTRIES_def)

lemmas cancelled_entry = append_rederives [OF sampleDigest_hex created_entry(2) cancelled_rederives cancelled_valid(2) _ sample_room,
    folded cancelledEntry_def]

lemma sample_recorded: "recordedHistory sampleDigest [createdEntry, cancelledEntry] [createdGraph, cancelledGraph]"
proof -
  have "recordedHistory sampleDigest ([] @ [createdEntry]) ([] @ [createdGraph])"
    using recorded_created [OF created_entry(1)] by simp
  from recorded_appended [OF this, OF cancelled_entry(1)] show ?thesis by simp
qed

lemma sample_collisionFree: "collisionFree sampleDigest [createdEntry, cancelledEntry] [createdGraph, cancelledGraph]"
proof -
  have "pj_updatedAt (ps_job (rg_snapshot cancelledGraph)) = wholeSecond 1004" by (simp add: cancelledGraph_def)
  then show ?thesis
    by (simp add: collisionFree_def linkCollisionFree_def cancelledEntry_def entryFor_def Let_def cancelled_rederives)
qed

lemma page_accepted:
  assumes r: "recordedHistory sha es gs" "collisionFree sha es gs" and k: "100 * k < length es"
  shows "\<exists>head. policyEvaluationJobHistoryHead sha (last es) = Inr head \<and> hh_sequence head = int (length es) - 1 \<and>
    (let page = \<lparr>hp_head = head, hp_pageIndex = int k, hp_entries = take 100 (drop (100 * k) es)\<rparr>
     in validatePolicyEvaluationJobHistoryPage sha head page = Inr page)"
proof -
  define n where "n = length es - 1"
  have n: "n < length es" "length es = Suc n" "n < length gs" "length gs = length es" "last es = es ! n"
    using k recordedHistory_shape [OF r(1)] by (auto simp: n_def last_conv_nth simp flip: length_greater_0_conv)
  have b: "entryBinds sha (gs ! i) (es ! i)" if "i < length es" for i using recorded_entry [OF r(1)] that n(4) by simp
  have ident: "he_sequence (en_definition (es ! i)) = int i \<and> he_job (en_definition (es ! i)) = he_job (en_definition (es ! n)) \<and>
      he_scope (en_definition (es ! i)) = he_scope (en_definition (es ! n))" if "i < length es" for i
    using b [OF that] b [OF n(1)] recorded_identity [OF r, of i] recorded_identity [OF r, of n] recorded_sequence [OF r, of i] that n
    by (simp add: entryBinds_def Let_def)
  have recorded: "entryRecorded sha (es ! i)" if "i < length es" for i using b [OF that] by (simp add: entryBinds_def)
  define head where "head = \<lparr>hh_scope = he_scope (en_definition (es ! n)), hh_job = he_job (en_definition (es ! n)),
    hh_sequence = he_sequence (en_definition (es ! n)), hh_entrySha256 = en_entrySha256 (es ! n),
    hh_graphSha256 = he_graphSha256 (en_definition (es ! n))\<rparr>"
  have schema: "HistoryHeadSchema head"
    using recorded [OF n(1)] by (auto simp: head_def HistoryHeadSchema_def entryRecorded_def HistoryEntrySchema_def HistoryEntryDefinitionSchema_def)
  have "validatePolicyEvaluationJobHistoryEntry sha (es ! n) = Inr (es ! n)" using recorded [OF n(1)] validate_entry_iff by blast
  then have last: "policyEvaluationJobHistoryHead sha (last es) = Inr head"
    using schema by (simp add: policyEvaluationJobHistoryHead_def Let_def head_def n(5))
  let ?xs = "take 100 (drop (100 * k) es)"
  let ?page = "\<lparr>hp_head = head, hp_pageIndex = int k, hp_entries = ?xs\<rparr>"
  have len: "length ?xs = min 100 (length es - 100 * k)" by simp
  have nth: "?xs ! i = es ! (100 * k + i)" "100 * k + i < length es" if "i < length ?xs" for i
    using that less_imp_le [OF k] by auto
  have seq: "int n \<le> 99999" "hh_sequence head = int n"
    using recorded [OF n(1)] ident [OF n(1)]
    by (simp_all add: entryRecorded_def HistoryEntrySchema_def HistoryEntryDefinitionSchema_def SequenceSchema_def head_def
        MAX_POLICY_EVALUATION_JOB_HISTORY_ENTRIES_def)
  have step: "continuesEntry (es ! (100 * k + i)) (en_definition (es ! Suc (100 * k + i)))" if "Suc i < length es - 100 * k" for i
    using recorded_continues [OF r, of "100 * k + i"] n(4) that by simp
  have continuous: "pageContinuous head (int k * 100) None ?xs"
    unfolding pageContinuous_iff using ident nth step by (simp add: head_def)
  have final: "last ?xs = es ! n" if "he_sequence (en_definition (last ?xs)) = int n"
  proof -
    have some: "?xs \<noteq> []" using k by simp
    define m where "m = length ?xs - 1"
    have m: "m < length ?xs" using some unfolding m_def by (metis diff_less length_greater_0_conv zero_less_one)
    have "last ?xs = es ! (100 * k + m)" using last_conv_nth [OF some] nth(1) [OF m] unfolding m_def by (rule trans)
    moreover have "100 * k + m = n" using calculation that ident [OF nth(2) [OF m]] by simp
    ultimately show ?thesis by simp
  qed
  have "list_all (entryRecorded sha) ?xs" using recorded nth by (auto simp: list_all_length)
  moreover have "HistoryPageSchema ?page"
    unfolding HistoryPageSchema_def Let_def
    using schema k len seq n(2) continuous final calculation
    by (auto simp: HistoryPageIndexSchema_def POLICY_EVALUATION_JOB_HISTORY_PAGE_SIZE_def MAX_POLICY_EVALUATION_JOB_HISTORY_ENTRIES_def
        list_all_iff entryRecorded_def head_def)
  ultimately have "validatePolicyEvaluationJobHistoryPage sha head ?page = Inr ?page"
    using schema by (simp add: validate_page_iff)
  then show ?thesis using last seq n(2) by (intro exI [of _ head]) simp
qed

lemma sample_page:
  obtains head where "hh_sequence head = 1"
    "validatePolicyEvaluationJobHistoryPage sampleDigest head
       \<lparr>hp_head = head, hp_pageIndex = 0, hp_entries = [createdEntry, cancelledEntry]\<rparr> =
       Inr \<lparr>hp_head = head, hp_pageIndex = 0, hp_entries = [createdEntry, cancelledEntry]\<rparr>"
  using page_accepted [OF sample_recorded sample_collisionFree, of 0] by (auto simp: Let_def)

lemma sample_entries_differ:
  "sampleDigest (entryBytes (en_definition createdEntry)) \<noteq> sampleDigest (entryBytes (en_definition cancelledEntry))"
proof -
  have v: "HistoryEntryDefinitionSchema (en_definition createdEntry)" "HistoryEntryDefinitionSchema (en_definition cancelledEntry)"
    using created_entry(2) cancelled_entry(3) by (simp_all add: entryBinds_def entryRecorded_def HistoryEntrySchema_def)
  have c: "en_definition createdEntry = createdDefinition"
    by (simp add: createdEntry_def entryFor_def Let_def createdDefinition_def createdGraph_def graphJobReference_def queuedGraph_def
        queuedJob_def sampleDigest_def)
  have "he_sequence (en_definition cancelledEntry) = 1"
    using cancelled_valid(3) by (simp add: cancelledEntry_def entryFor_def Let_def)
  then have "entryBytes (en_definition cancelledEntry) \<noteq> entryBytes createdDefinition"
    using entryBytes_inj [OF v(2) v(1)] c by (auto simp: createdDefinition_def)
  moreover have "entryBytes d \<noteq> graphBytes g"
    if "HistoryEntryDefinitionSchema d" "PolicyEvaluationJobSnapshotSchema (rg_snapshot g)" for d g
    by (rule other_domain(1) [where domain = "''proofstack.policy-evaluation-job-history.v1''", OF encodes_entry(2) [OF that(1), unfolded entryEnvelope_def] plain_envelope [OF that(1), unfolded entryEnvelope_def]
        _ _ _ that(2)]) simp_all
  moreover have "PolicyEvaluationJobSnapshotSchema (rg_snapshot createdGraph)" by (simp add: createdGraph_def)
  moreover have "replicate 64 CHR ''d'' \<noteq> sampleSha" by (simp add: sampleSha_def)
  ultimately show ?thesis using c v cancelled_valid(1) by (simp add: sampleDigest_def)
qed

lemma last_page:
  assumes x: "HistoryPageSchema x" "hp_head x = h" "hp_pageIndex x = hh_sequence h div 100"
  shows "length (hp_entries x) = nat (hh_sequence h mod 100 + 1)" "hp_entries x \<noteq> []"
    "en_entrySha256 (last (hp_entries x)) = hh_entrySha256 h"
    "\<forall>i. Suc i < length (hp_entries x) \<longrightarrow> continuesEntry (hp_entries x ! i) (en_definition (hp_entries x ! Suc i))"
proof -
  let ?start = "hh_sequence h div 100 * 100"
  have m: "hh_sequence h - ?start = hh_sequence h mod 100" by (simp add: minus_div_mult_eq_mod)
  have b: "0 \<le> hh_sequence h mod 100" "hh_sequence h mod 100 < 100" by simp_all
  have l: "int (length (hp_entries x)) = min 100 (hh_sequence h + 1 - ?start)" and ne: "hp_entries x \<noteq> []"
    and c: "pageContinuous h ?start None (hp_entries x)"
    using x by (simp_all add: HistoryPageSchema_def Let_def POLICY_EVALUATION_JOB_HISTORY_PAGE_SIZE_def)
  have len: "int (length (hp_entries x)) = hh_sequence h mod 100 + 1" using l m b by simp
  then show "length (hp_entries x) = nat (hh_sequence h mod 100 + 1)" by simp
  show "hp_entries x \<noteq> []" by (rule ne)
  show "\<forall>i. Suc i < length (hp_entries x) \<longrightarrow> continuesEntry (hp_entries x ! i) (en_definition (hp_entries x ! Suc i))"
    using c unfolding pageContinuous_iff by blast
  have "he_sequence (en_definition (hp_entries x ! (length (hp_entries x) - 1))) = ?start + int (length (hp_entries x) - 1)"
    using c ne unfolding pageContinuous_iff by simp
  then have "he_sequence (en_definition (last (hp_entries x))) = hh_sequence h"
    using ne len m by (simp add: last_conv_nth of_nat_diff Suc_leI)
  then show "en_entrySha256 (last (hp_entries x)) = hh_entrySha256 h"
    using x by (auto simp: HistoryPageSchema_def Let_def)
qed

section \<open>Properties\<close>

text \<open>
  C15. Re-derivation of a recorded transition. Let a graph be bound by its last entry and let any
  scheduler operation succeed on it and change it, below the history limit. Then appending the result
  succeeds: the entry passes its contract, its digest and its byte ceiling, it binds the new graph, and
  replaying it on the previous graph gives back exactly the new graph.
\<close>

theorem recorded_transition_replays:
  assumes "\<And>bs. Sha256Schema (sha bs)" and "entryBinds sha p e" and "rederive p now op = Inr g"
    and "rg_snapshot g \<noteq> rg_snapshot p" and "operationNamed op"
    and "pj_stateVersion (ps_job (rg_snapshot p)) < MAX_POLICY_EVALUATION_JOB_HISTORY_ENTRIES"
  shows "\<exists>e'. appendPolicyEvaluationJobHistory sha (Some p) (Some e) g op = Inr e' \<and> entryBinds sha g e' \<and>
    he_operation (en_definition e') = op \<and> he_predecessorEntrySha256 (en_definition e') = Some (en_entrySha256 e) \<and>
    replayPolicyEvaluationJobHistoryEntry sha p e' = Inr g"
  using append_rederives [OF assms] by (intro exI [of _ "entryFor sha (Some (p, e)) g op"]) (simp add: entryFor_def Let_def)

theorem recorded_transition_replays_witness:
  "\<exists>e'. appendPolicyEvaluationJobHistory sampleDigest (Some createdGraph) (Some createdEntry) cancelledGraph (OpCancel sampleIntent) = Inr e' \<and>
     replayPolicyEvaluationJobHistoryEntry sampleDigest createdGraph e' = Inr cancelledGraph"
  using recorded_transition_replays [OF sampleDigest_hex created_entry(2) cancelled_rederives cancelled_valid(2) _ sample_room]
  by auto

text \<open>
  C16. A recorded history is a run of the scheduler. Let entries and graphs be recorded one after the
  other, each entry accepted by the append that rederives its graph, and let the digest not collide
  between a recorded graph and the graph re-derived for its entry (\<open>collisionFree\<close>: one pair of graphs per
  entry, nothing about any other bytes). Then the first graph is queued, entry \<open>i\<close> has sequence \<open>i\<close> and binds graph \<open>i\<close>,
  consecutive graphs are one transition of the scheduler apart, replaying an entry on the graph before it
  gives the snapshot after it, and nothing follows a terminal graph.
\<close>

theorem recorded_history_is_scheduler_run:
  assumes "recordedHistory sha es gs" "collisionFree sha es gs"
  shows "pj_status (ps_job (rg_snapshot (gs ! 0))) = PQueued \<and>
    (\<forall>i < length gs. he_sequence (en_definition (es ! i)) = int i \<and> entryBinds sha (gs ! i) (es ! i)) \<and>
    (\<forall>i. Suc i < length gs \<longrightarrow> policyStep (rg_snapshot (gs ! i)) (rg_snapshot (gs ! Suc i)) \<and>
       (\<exists>h. replayPolicyEvaluationJobHistoryEntry sha (gs ! i) (es ! Suc i) = Inr h \<and>
            rg_snapshot h = rg_snapshot (gs ! Suc i))) \<and>
    (\<forall>i < length gs. policyTerminal (rg_snapshot (gs ! i)) \<longrightarrow> Suc i = length gs)"
proof (intro conjI allI impI)
  show "pj_status (ps_job (rg_snapshot (gs ! 0))) = PQueued" using recorded_first [OF assms(1)] by simp
  fix i assume i: "i < length gs"
  show b: "entryBinds sha (gs ! i) (es ! i)" by (rule recorded_entry [OF assms(1) i])
  then show "he_sequence (en_definition (es ! i)) = int i"
    using recorded_sequence [OF assms i] by (simp add: entryBinds_def Let_def)
  assume t: "policyTerminal (rg_snapshot (gs ! i))"
  show "Suc i = length gs"
  proof (rule ccontr)
    assume "Suc i \<noteq> length gs"
    then have "policyStep (rg_snapshot (gs ! i)) (rg_snapshot (gs ! Suc i))" using i by (intro recorded_run [OF assms]) simp
    then show False using t policyStep_advances by (simp add: advances_def policyTerminal_def)
  qed
next
  fix i assume i: "Suc i < length gs"
  show step: "policyStep (rg_snapshot (gs ! i)) (rg_snapshot (gs ! Suc i))" by (rule recorded_run [OF assms i])
  show "\<exists>h. replayPolicyEvaluationJobHistoryEntry sha (gs ! i) (es ! Suc i) = Inr h \<and> rg_snapshot h = rg_snapshot (gs ! Suc i)"
    using recorded_link_replays [OF assms i] by blast
qed

theorem recorded_history_is_scheduler_run_witness:
  "pj_status (ps_job (rg_snapshot createdGraph)) = PQueued \<and> policyStep (rg_snapshot createdGraph) (rg_snapshot cancelledGraph) \<and>
     he_sequence (en_definition cancelledEntry) = 1"
proof -
  note run = recorded_history_is_scheduler_run [OF sample_recorded sample_collisionFree]
  from run have "pj_status (ps_job (rg_snapshot ([createdGraph, cancelledGraph] ! 0))) = PQueued" by (rule conjunct1)
  then show ?thesis
    using run [THEN conjunct2, THEN conjunct1, rule_format, of "Suc 0"] run [THEN conjunct2, THEN conjunct2, THEN conjunct1, rule_format, of 0]
    by simp
qed

text \<open>
  C17. A recorded history can be read back. Let the digest not collide between a recorded graph and the
  graph re-derived for its entry (\<open>collisionFree\<close>, one pair of graphs per entry). Then for every page that starts inside a recorded history, the
  head of the last entry exists, counts the entries, and the page of up to one hundred entries from that
  point is accepted by page validation and returned unchanged.
\<close>

theorem recorded_history_pages_accepted:
  assumes r: "recordedHistory sha es gs" "collisionFree sha es gs" and k: "100 * k < length es"
  shows "\<exists>head. policyEvaluationJobHistoryHead sha (last es) = Inr head \<and> hh_sequence head = int (length es) - 1 \<and>
    (let page = \<lparr>hp_head = head, hp_pageIndex = int k, hp_entries = take 100 (drop (100 * k) es)\<rparr>
     in validatePolicyEvaluationJobHistoryPage sha head page = Inr page)"
  by (rule page_accepted [OF assms])

theorem recorded_history_pages_accepted_witness:
  "\<exists>head. policyEvaluationJobHistoryHead sampleDigest cancelledEntry = Inr head \<and>
     validatePolicyEvaluationJobHistoryPage sampleDigest head
       \<lparr>hp_head = head, hp_pageIndex = 0, hp_entries = [createdEntry, cancelledEntry]\<rparr> =
       Inr \<lparr>hp_head = head, hp_pageIndex = 0, hp_entries = [createdEntry, cancelledEntry]\<rparr>"
  using recorded_history_pages_accepted [OF sample_recorded sample_collisionFree, of 0] by (auto simp: Let_def)

text \<open>
  C18. Accepted last pages of one head agree. Two pages accepted for the same head at the index of its
  last entry are equal when the digest does not confuse the heads and entries at hand: the expected head
  is the head of the page, the final entry carries the digest of the head and every earlier entry is fixed
  by the predecessor digest of the one after it.
\<close>

theorem accepted_last_pages_agree:
  assumes p: "validatePolicyEvaluationJobHistoryPage sha h p = Inr p'" and q: "validatePolicyEvaluationJobHistoryPage sha h q = Inr q'"
    and page: "hp_pageIndex p = hh_sequence h div 100" "hp_pageIndex q = hh_sequence h div 100"
    and heads: "inj_on sha (headBytes ` {h, hp_head p, hp_head q})"
    and entries: "inj_on sha ((\<lambda>e. entryBytes (en_definition e)) ` (set (hp_entries p) \<union> set (hp_entries q)))"
  shows "p = q \<and> hp_head p = h \<and> en_entrySha256 (last (hp_entries p)) = hh_entrySha256 h"
proof -
  note vp = p [unfolded validate_page_iff] and vq = q [unfolded validate_page_iff]
  have hs: "HistoryHeadSchema h" "HistoryHeadSchema (hp_head p)" "HistoryHeadSchema (hp_head q)"
    using vp vq by (simp_all add: HistoryPageSchema_def Let_def)
  have "headBytes h = headBytes (hp_head p)" "headBytes h = headBytes (hp_head q)"
    by (rule inj_onD [OF heads]; use vp vq in simp)+
  then have head: "hp_head p = h" "hp_head q = h" using headBytes_inj hs by metis+
  note lp = last_page [of p, OF _ head(1) page(1)] and lq = last_page [of q, OF _ head(2) page(2)]
  have s: "HistoryPageSchema p" "HistoryPageSchema q" using vp vq by simp_all
  have "hp_entries p = hp_entries q"
    by (rule chain_agrees [OF _ lp(2) _ _ lp(4) lq(4) _ entries]) (use lp lq s vp vq in simp_all)
  then show ?thesis using head page lp(3) s by (simp add: HistoryPage.equality)
qed

theorem accepted_last_pages_agree_witness:
  "\<exists>head p. validatePolicyEvaluationJobHistoryPage sampleDigest head p = Inr p \<and> length (hp_entries p) = 2 \<and> hp_head p = head \<and>
     en_entrySha256 (last (hp_entries p)) = hh_entrySha256 head"
proof -
  obtain head where h: "hh_sequence head = 1" "validatePolicyEvaluationJobHistoryPage sampleDigest head
       \<lparr>hp_head = head, hp_pageIndex = 0, hp_entries = [createdEntry, cancelledEntry]\<rparr> =
       Inr \<lparr>hp_head = head, hp_pageIndex = 0, hp_entries = [createdEntry, cancelledEntry]\<rparr>" by (rule sample_page)
  have "inj_on sampleDigest ((\<lambda>e. entryBytes (en_definition e)) ` {createdEntry, cancelledEntry})"
    using sample_entries_differ by (auto simp: inj_on_def)
  from accepted_last_pages_agree [OF h(2) h(2)] this show ?thesis using h by (intro exI [of _ head] exI) (auto simp: insert_commute)
qed

end
