(* ===== verification/Policy_Outbox.thy ===== *)
theory Policy_Outbox
  imports Policy_History_Safety
begin

text \<open>
  The outbox intents of a policy evaluation job,
  \<open>packages/core/src/policy/policy-evaluation-job-outbox.ts\<close>: creation, requested cancellation and
  terminal state, each written in the transaction that records the transition. The intents a history
  emits one by one are those that the verification of its last graph asks for.
\<close>

section \<open>Intents\<close>

datatype JobEventType = JobCreatedEvent | JobCancellationRequestedEvent | JobTerminalEvent

fun jobEventName :: "JobEventType \<Rightarrow> string" where
  "jobEventName JobCreatedEvent = ''policy.evaluation.job.created''"
| "jobEventName JobCancellationRequestedEvent = ''policy.evaluation.job.cancellation-requested''"
| "jobEventName JobTerminalEvent = ''policy.evaluation.job.terminal''"

record PolicyEvaluationJobOutboxIntent =
  oi_aggregateId :: string
  oi_tenantId :: string
  oi_createdAt :: policy_time
  oi_eventType :: JobEventType
  oi_payload :: "(string \<times> json) list"

definition intentCommon ::
    "PolicyEvaluationJob \<Rightarrow> policy_time \<Rightarrow> JobEventType \<Rightarrow> (string \<times> json) list \<Rightarrow> PolicyEvaluationJobOutboxIntent" where
  "intentCommon job createdAt eventType payload =
     \<lparr>oi_aggregateId = ''pej_'' @ take 60 (pj_definitionSha256 job), oi_tenantId = tenantId (pj_scope job),
      oi_createdAt = createdAt, oi_eventType = eventType, oi_payload = payload\<rparr>"

definition intentPayload :: "PolicyEvaluationJob \<Rightarrow> (string \<times> json) list" where
  "intentPayload job =
     [(''environmentId'', jsonString (environmentId (pj_scope job))),
      (''projectId'', jsonString (projectId (pj_scope job))), (''jobId'', jsonString (pj_jobId job)),
      (''jobDefinitionSha256'', jsonString (pj_definitionSha256 job)),
      (''evaluationRequestId'', jsonString (reqref_evaluationRequestId (pj_request job))),
      (''requestDefinitionSha256'', jsonString (reqref_definitionSha256 (pj_request job)))]"

definition cancellationIntent ::
    "PolicyEvaluationJob \<Rightarrow> PolicyEvaluationCancellation \<Rightarrow> PolicyEvaluationJobOutboxIntent" where
  "cancellationIntent job c =
     intentCommon job (pcn_requestedAt c) JobCancellationRequestedEvent
       (intentPayload job @
        [(''cancellationId'', jsonString (pcn_cancellationId c)),
         (''requestedByPrincipalId'', jsonString (pcn_requestedByPrincipalId c)),
         (''reason'', jsonString (cancellationReasonName (pcn_reason c)))])"

definition terminalIntent ::
    "PolicyEvaluationJob \<Rightarrow> PolicyEvaluationJobTerminal \<Rightarrow> PolicyEvaluationJobOutboxIntent" where
  "terminalIntent job t =
     intentCommon job (pterm_committedAt t) JobTerminalEvent
       (intentPayload job @
        [(''status'', jsonString (policyJobStatusName (pterm_status t))),
         (''code'', jsonString (terminalCodeName (pterm_code t))),
         (''stateVersion'', jsonInt (pj_stateVersion job))] @
        (case pj_result job of None \<Rightarrow> []
         | Some r \<Rightarrow> [(''resultId'', jsonString (resref_evaluationId r)),
                      (''resultDefinitionSha256'', jsonString (resref_definitionSha256 r))]))"

definition jobIntents ::
    "PolicyEvaluationJobSnapshot option \<Rightarrow> PolicyEvaluationJobSnapshot \<Rightarrow> PolicyEvaluationJobOutboxIntent list" where
  "jobIntents previous s =
     (let job = ps_job s in
      (if previous = None then [intentCommon job (pj_createdAt job) JobCreatedEvent (intentPayload job)] else []) @
      (case ps_cancellation s of None \<Rightarrow> []
       | Some c \<Rightarrow> if Option.bind previous ps_cancellation = None then [cancellationIntent job c] else []) @
      (case pj_terminal job of None \<Rightarrow> []
       | Some t \<Rightarrow> if Option.bind previous (\<lambda>p. pj_terminal (ps_job p)) = None then [terminalIntent job t] else []))"

definition buildPolicyEvaluationJobOutboxIntents ::
    "digest \<Rightarrow> RetainedJobGraph option \<Rightarrow> RetainedJobGraph \<Rightarrow> PolicyEvaluationJobOutboxIntent list history_result" where
  "buildPolicyEvaluationJobOutboxIntents sha previous nextInput =
     (case validatePolicyEvaluationJobSnapshotRecord sha (pj_scope (ps_job (rg_snapshot nextInput)))
             (graphJobReference nextInput) nextInput of
        Inl e \<Rightarrow> Inl e
      | Inr g \<Rightarrow> Inr (jobIntents (map_option rg_snapshot previous) (rg_snapshot g)))"

section \<open>Intents of a run\<close>

lemma validate_record_iff:
  "validatePolicyEvaluationJobSnapshotRecord sha scope expected g = Inr h \<longleftrightarrow>
     h = g \<and> graphRecorded sha g \<and> pj_scope (ps_job (rg_snapshot g)) = scope \<and> graphJobReference g = expected"
proof -
  have "PolicyEvaluationJobSnapshotSchema (rg_snapshot g) \<Longrightarrow> PolicyEvaluationRequestSchema (ps_request (rg_snapshot g))"
    by (simp add: PolicyEvaluationJobSnapshotSchema_def snapshotShape_def)
  then show ?thesis
    by (cases expected) (auto simp: validatePolicyEvaluationJobSnapshotRecord_def Let_def graphRecorded_def graphJobReference_def
        validatePolicyEvaluationRequestRecord_def result_simps split: sum.splits)
qed

lemma build_iff: "buildPolicyEvaluationJobOutboxIntents sha previous g = Inr is \<longleftrightarrow>
    graphRecorded sha g \<and> is = jobIntents (map_option rg_snapshot previous) (rg_snapshot g)"
  by (auto simp: buildPolicyEvaluationJobOutboxIntents_def result_simps validate_record_iff)

lemma jobIntents_step:
  assumes "advances s t"
  shows "jobIntents None t = jobIntents None s @ jobIntents (Some s) t"
proof -
  have same: "intentCommon (ps_job t) = intentCommon (ps_job s)" "intentPayload (ps_job t) = intentPayload (ps_job s)"
    "pj_createdAt (ps_job t) = pj_createdAt (ps_job s)"
    using assms by (simp_all add: advances_def sameJob_def intentCommon_def [abs_def] intentPayload_def)
  then have "cancellationIntent (ps_job t) = cancellationIntent (ps_job s)" by (simp add: cancellationIntent_def [abs_def])
  moreover have "pj_terminal (ps_job s) = None" using assms by (simp add: advances_def)
  moreover have "ps_cancellation t = ps_cancellation s \<or> ps_cancellation s = None" using assms by (auto simp: advances_def)
  ultimately show ?thesis using same by (auto simp: jobIntents_def Let_def split: option.splits)
qed

lemma jobIntents_types: "distinct (map oi_eventType (jobIntents p s))"
  by (auto simp: jobIntents_def Let_def intentCommon_def cancellationIntent_def terminalIntent_def split: option.splits)

lemma jobIntents_run:
  assumes "\<And>i. Suc i < length ss \<Longrightarrow> advances (ss ! i) (ss ! Suc i)" and "k < length ss"
  shows "concat (map (\<lambda>i. jobIntents (if i = 0 then None else Some (ss ! (i - 1))) (ss ! i)) [0..<Suc k]) = jobIntents None (ss ! k)"
  using assms(2)
proof (induction k)
  case (Suc k)
  then show ?case using jobIntents_step [OF assms(1), of k] by simp
qed simp

text \<open>
  C23. Outbox intents are emitted exactly once. Let the digest not collide between a recorded graph and the
  graph re-derived for its entry (\<open>collisionFree\<close>, one pair of graphs per entry). Then along a recorded
  history the intents written with each
  entry, taken together and in order, are exactly the intents that verification derives from the last
  graph alone, and no event type occurs twice: nothing is announced again, and nothing that later
  verification asks for was never announced.
\<close>

theorem outbox_intents_emitted_once:
  assumes r: "recordedHistory sha es gs" "collisionFree sha es gs"
  shows "\<exists>emitted. length emitted = length gs \<and>
    (\<forall>i < length gs. buildPolicyEvaluationJobOutboxIntents sha (if i = 0 then None else Some (gs ! (i - 1))) (gs ! i) = Inr (emitted ! i)) \<and>
    buildPolicyEvaluationJobOutboxIntents sha None (last gs) = Inr (concat emitted) \<and>
    distinct (map oi_eventType (concat emitted))"
proof -
  let ?ss = "map rg_snapshot gs" and ?k = "length gs - 1"
  let ?e = "\<lambda>i. jobIntents (if i = 0 then None else Some (?ss ! (i - 1))) (?ss ! i)"
  have gs: "gs \<noteq> []" "length es = length gs" using recordedHistory_shape [OF r(1)] by simp_all
  have recorded: "graphRecorded sha (gs ! i)" if "i < length gs" for i
    using recorded_entry [OF r(1) that] by (simp add: entryBinds_def)
  have k: "?k < length gs" "Suc ?k = length gs" using gs by (simp_all add: length_greater_0_conv [symmetric] del: length_greater_0_conv)
  have run: "concat (map ?e [0..<length gs]) = jobIntents None (rg_snapshot (last gs))"
    using jobIntents_run [of ?ss ?k] policyStep_advances [OF recorded_run [OF r]] k gs by (simp add: last_conv_nth)
  show ?thesis
  proof (intro exI [of _ "map ?e [0..<length gs]"] conjI allI impI)
    show "buildPolicyEvaluationJobOutboxIntents sha (if i = 0 then None else Some (gs ! (i - 1))) (gs ! i) = Inr (map ?e [0..<length gs] ! i)"
      if "i < length gs" for i
      using recorded that by (simp add: build_iff)
    show "buildPolicyEvaluationJobOutboxIntents sha None (last gs) = Inr (concat (map ?e [0..<length gs]))"
      unfolding run using recorded [OF k(1)] gs by (simp add: build_iff last_conv_nth)
    show "distinct (map oi_eventType (concat (map ?e [0..<length gs])))" unfolding run by (rule jobIntents_types)
  qed simp
qed

theorem outbox_intents_emitted_once_witness:
  "\<exists>a b. buildPolicyEvaluationJobOutboxIntents sampleDigest None createdGraph = Inr a \<and>
     buildPolicyEvaluationJobOutboxIntents sampleDigest (Some createdGraph) cancelledGraph = Inr b \<and>
     buildPolicyEvaluationJobOutboxIntents sampleDigest None cancelledGraph = Inr (a @ b)"
proof -
  let ?gs = "[createdGraph, cancelledGraph]"
  obtain emitted where e: "length emitted = length ?gs"
    "\<forall>i < length ?gs. buildPolicyEvaluationJobOutboxIntents sampleDigest (if i = 0 then None else Some (?gs ! (i - 1))) (?gs ! i) =
       Inr (emitted ! i)"
    "buildPolicyEvaluationJobOutboxIntents sampleDigest None (last ?gs) = Inr (concat emitted)"
    using outbox_intents_emitted_once [OF sample_recorded sample_collisionFree] by blast
  obtain a b where "emitted = [a, b]" using e(1) by (auto simp: length_Suc_conv)
  then show ?thesis using e(2) [rule_format, of 0] e(2) [rule_format, of "Suc 0"] e(3) by auto
qed

end
