(* ===== verification/Policy_Store.thy ===== *)
theory Policy_Store
  imports Policy_Outbox
begin

text \<open>
  The relational repositories of policy evaluation jobs: \<open>postgres-policy-evaluation-job-readers.ts\<close>,
  \<open>-job-base.ts\<close>, \<open>-job-control-repository.ts\<close>, \<open>-job-worker-repository.ts\<close> and \<open>-job-recovery.ts\<close> under
  \<open>packages/postgres/src\<close>.

  The database is a parameter: a function from the fixed statements the repositories send to what the
  bounded transaction port answers, over a state of any type. An answer is a list of rows or a failure,
  and nothing is assumed of it. A statement that begins or commits a transaction, admits migrations, takes
  an advisory lock or sets a time limit answers with rows nobody reads. A failed transaction is rolled
  back, so a failure carries no state. A row holds a value of any kind; a value of another kind than the
  one expected fails the schema that reads it.
\<close>

section \<open>Statements, values and errors\<close>

record IoBudgetDescriptor =
  io_observedAt :: policy_time
  io_remainingMilliseconds :: int
  io_stateVersion :: int
  io_scope :: EvidenceScope
  io_job :: PolicyEvaluationJobReference

datatype StoredValue =
    StoredNull
  | StoredOther
  | StoredGraph RetainedJobGraph
  | StoredHead HistoryHead
  | StoredPage HistoryPage
  | StoredEntry HistoryEntry
  | StoredText string
  | StoredBudget IoBudgetDescriptor
  | StoredReceipt "bool option" StoredValue StoredValue
  | StoredJobKey EvidenceScope string

datatype PolicyStatement =
    BeginTransaction "EvidenceScope option"
  | CommitTransaction
  | LockRecoveryEpoch
  | SelectScope EvidenceScope
  | TightenTransaction int
  | ReadIoBudget string "PolicyEvaluationWorkerMutationFence option"
  | PrepareMutation string
  | ReadJob string
  | ReadJobForRequest string string
  | ListOpenJobs
  | ReadHistoryHead string
  | ReadHistoryHeadAt string int
  | ReadHistoryPage HistoryHead int
  | ReadIntentStatus string string "(string \<times> json) list" policy_time
  | AppendHistory HistoryEntry "8 word list" "8 word list" "PolicyEvaluationJobOutboxIntent list"
  | CreateJob PolicyEvaluationRequest string string
  | CancelJob string string string PolicyCancellationReason
  | ClaimJob string string string string
  | StartComputation PolicyEvaluationWorkerMutationFence
  | HeartbeatJob PolicyEvaluationWorkerMutationFence
  | InterruptJob PolicyEvaluationWorkerMutationFence PolicyEvaluationRetryableError
  | ReclaimJob string
  | ReserveWork PolicyEvaluationWorkerMutationFence string PolicyEvaluationUsage
  | RecoverJob string

datatype store_violation =
    UnexpectedRowCount
  | HistorySubjectSubstituted
  | HeadDoesNotBind
  | LastEntryAbsent
  | IntentNotCanonical
  | InvalidIoDescriptor
  | IoAdmissionSubstituted
  | IdempotentMutationChanged
  | ClaimOmittedLease
  | CancellationOmittedIntent
  | InvalidCreationReceipt
  | CreationSubstitutedRequest
  | InvalidReservationReceipt
  | ReservationRetryChanged
  | ReservationSubstituted
  | ReservationInconsistent
  | RecoveryCountExceeded
  | SelectorSubstitutedRequest

datatype store_error =
    StoreZodError
  | StoreContractError store_violation
  | StoreHistoryError history_error
  | StoreSqlState string
  | StorePortError
  | StoreJobNotFound
  | StoreRequestConflict
  | StoreTransitionError TransitionReason

type_synonym ('s, 'e, 'a) effect = "'s \<Rightarrow> ('e, 'a \<times> 's) result"

type_synonym ('s, 'a) transaction = "('s, store_error, 'a) effect"

type_synonym 's database = "PolicyStatement \<Rightarrow> ('s, StoredValue list) transaction"

definition bindTx :: "('s, 'e, 'a) effect \<Rightarrow> ('a \<Rightarrow> ('s, 'e, 'b) effect) \<Rightarrow> ('s, 'e, 'b) effect" where
  "bindTx m k s = (case m s of Inl e \<Rightarrow> Inl e | Inr (x, t) \<Rightarrow> k x t)"

definition pureTx :: "'a \<Rightarrow> ('s, 'e, 'a) effect" where
  "pureTx x s = Inr (x, s)"

definition throwTx :: "'e \<Rightarrow> ('s, 'e, 'a) effect" where
  "throwTx e s = Inl e"

definition violateTx :: "store_violation \<Rightarrow> ('s, 'a) transaction" where
  "violateTx v = throwTx (StoreContractError v)"

definition historyTx :: "'a history_result \<Rightarrow> ('s, 'a) transaction" where
  "historyTx r s = (case r of Inl e \<Rightarrow> Inl (StoreHistoryError e) | Inr x \<Rightarrow> Inr (x, s))"

section \<open>Readers\<close>

definition readPolicyJobValue :: "'s database \<Rightarrow> PolicyStatement \<Rightarrow> ('s, StoredValue) transaction" where
  "readPolicyJobValue db statement =
     bindTx (db statement) (\<lambda>rows. case rows of [v] \<Rightarrow> pureTx v | _ \<Rightarrow> violateTx UnexpectedRowCount)"

definition parseStoredGraph :: "StoredValue \<Rightarrow> ('s, RetainedJobGraph) transaction" where
  "parseStoredGraph raw =
     (case raw of
        StoredGraph g \<Rightarrow> if PolicyEvaluationJobSnapshotSchema (rg_snapshot g) then pureTx g else throwTx StoreZodError
      | _ \<Rightarrow> throwTx StoreZodError)"

definition inspectStoredPolicyJob ::
    "digest \<Rightarrow> StoredValue \<Rightarrow> EvidenceScope \<Rightarrow> string \<Rightarrow> ('s, RetainedJobGraph) transaction" where
  "inspectStoredPolicyJob sha raw scope jobId =
     bindTx (parseStoredGraph raw) (\<lambda>g.
       historyTx (validatePolicyEvaluationJobSnapshotRecord sha scope
         \<lparr>jobref_jobId = jobId, jobref_definitionSha256 = pj_definitionSha256 (ps_job (rg_snapshot g))\<rparr> g))"

definition readPolicyJobHistoryHeadOnClient ::
    "'s database \<Rightarrow> EvidenceScope \<Rightarrow> string \<Rightarrow> int option \<Rightarrow> ('s, HistoryHead option) transaction" where
  "readPolicyJobHistoryHeadOnClient db scope jobId sequence =
     bindTx (readPolicyJobValue db (case sequence of None \<Rightarrow> ReadHistoryHead jobId | Some n \<Rightarrow> ReadHistoryHeadAt jobId n)) (\<lambda>raw.
       case raw of
         StoredNull \<Rightarrow> pureTx None
       | StoredHead head \<Rightarrow>
           if \<not> HistoryHeadSchema head then throwTx StoreZodError
           else if jobref_jobId (hh_job head) \<noteq> jobId \<or> hh_scope head \<noteq> scope then violateTx HistorySubjectSubstituted
           else pureTx (Some head)
       | _ \<Rightarrow> throwTx StoreZodError)"

definition readHistoryPageOnClient ::
    "digest \<Rightarrow> 's database \<Rightarrow> HistoryHead \<Rightarrow> int \<Rightarrow> ('s, HistoryPage) transaction" where
  "readHistoryPageOnClient sha db head pageIndex =
     bindTx (readPolicyJobValue db (ReadHistoryPage head pageIndex)) (\<lambda>raw.
       case raw of
         StoredPage p \<Rightarrow> historyTx (validatePolicyEvaluationJobHistoryPage sha head p)
       | _ \<Rightarrow> throwTx StoreZodError)"

definition readPolicyJobLastHistoryOnClient ::
    "digest \<Rightarrow> 's database \<Rightarrow> EvidenceScope \<Rightarrow> RetainedJobGraph \<Rightarrow> ('s, HistoryEntry) transaction" where
  "readPolicyJobLastHistoryOnClient sha db scope g =
     (let job = ps_job (rg_snapshot g) in
      bindTx (readPolicyJobHistoryHeadOnClient db scope (pj_jobId job) (Some (pj_stateVersion job - 1))) (\<lambda>found.
      case found of None \<Rightarrow> violateTx HeadDoesNotBind
      | Some head \<Rightarrow>
          if hh_sequence head + 1 \<noteq> pj_stateVersion job \<or>
             jobref_definitionSha256 (hh_job head) \<noteq> pj_definitionSha256 job
          then violateTx HeadDoesNotBind
          else bindTx (historyTx (digestPolicyEvaluationJobGraph sha g)) (\<lambda>digest.
            if hh_graphSha256 head \<noteq> digest then violateTx HeadDoesNotBind
            else bindTx (readHistoryPageOnClient sha db head (hh_sequence head div 100)) (\<lambda>page.
              if hp_entries page = [] \<or> en_entrySha256 (last (hp_entries page)) \<noteq> hh_entrySha256 head
              then violateTx LastEntryAbsent else pureTx (last (hp_entries page))))))"

fun verifyIntentsLoop ::
    "'s database \<Rightarrow> string \<Rightarrow> PolicyEvaluationJobOutboxIntent list \<Rightarrow> ('s, unit) transaction" where
  "verifyIntentsLoop db jobId [] = pureTx ()"
| "verifyIntentsLoop db jobId (intent # intents) =
     bindTx (readPolicyJobValue db
         (ReadIntentStatus jobId (jobEventName (oi_eventType intent)) (oi_payload intent) (oi_createdAt intent))) (\<lambda>status.
       if status \<noteq> StoredText ''canonical'' then violateTx IntentNotCanonical
       else verifyIntentsLoop db jobId intents)"

definition verifyPolicyJobIntentsOnClient :: "digest \<Rightarrow> 's database \<Rightarrow> RetainedJobGraph \<Rightarrow> ('s, unit) transaction" where
  "verifyPolicyJobIntentsOnClient sha db g =
     bindTx (historyTx (buildPolicyEvaluationJobOutboxIntents sha None g)) (\<lambda>intents.
       verifyIntentsLoop db (pj_jobId (ps_job (rg_snapshot g))) intents)"

definition inspectOwningRead ::
    "digest \<Rightarrow> 's database \<Rightarrow> EvidenceScope \<Rightarrow> StoredValue \<Rightarrow> string \<Rightarrow> ('s, RetainedJobGraph) transaction" where
  "inspectOwningRead sha db scope raw jobId =
     bindTx (inspectStoredPolicyJob sha raw scope jobId) (\<lambda>g.
     bindTx (readPolicyJobLastHistoryOnClient sha db scope g) (\<lambda>_.
     bindTx (verifyPolicyJobIntentsOnClient sha db g) (\<lambda>_. pureTx g)))"

definition readPostgresPolicyEvaluationJobOnClient ::
    "digest \<Rightarrow> 's database \<Rightarrow> EvidenceScope \<Rightarrow> string \<Rightarrow> ('s, RetainedJobGraph option) transaction" where
  "readPostgresPolicyEvaluationJobOnClient sha db scope jobId =
     (if \<not> EvidenceScopeSchema scope \<or> \<not> OpaqueIdSchema jobId then throwTx StoreZodError
      else bindTx (readPolicyJobValue db (ReadJob jobId)) (\<lambda>raw.
        if raw = StoredNull then pureTx None
        else bindTx (inspectOwningRead sha db scope raw jobId) (\<lambda>g. pureTx (Some g))))"

definition readPostgresPolicyEvaluationJobForRequestOnClient ::
    "digest \<Rightarrow> 's database \<Rightarrow> EvidenceScope \<Rightarrow> PolicyEvaluationRequestReference \<Rightarrow>
     ('s, RetainedJobGraph option) transaction" where
  "readPostgresPolicyEvaluationJobForRequestOnClient sha db scope request =
     (if \<not> EvidenceScopeSchema scope \<or> \<not> PolicyEvaluationRequestReferenceSchema request then throwTx StoreZodError
      else bindTx (\<lambda>s.
          case readPolicyJobValue db
            (ReadJobForRequest (reqref_evaluationRequestId request) (reqref_definitionSha256 request)) s of
            Inl e \<Rightarrow> if e = StoreSqlState ''23505'' then Inl StoreRequestConflict else Inl e
          | Inr r \<Rightarrow> Inr r) (\<lambda>raw.
        if raw = StoredNull then pureTx None
        else bindTx (parseStoredGraph raw) (\<lambda>g.
          if pj_request (ps_job (rg_snapshot g)) \<noteq> request then violateTx SelectorSubstitutedRequest
          else bindTx (inspectOwningRead sha db scope (StoredGraph g) (pj_jobId (ps_job (rg_snapshot g))))
            (\<lambda>h. pureTx (Some h)))))"

section \<open>Transactions\<close>

definition persistenceError :: "store_error \<Rightarrow> store_error" where
  "persistenceError e =
     (case e of
        StoreSqlState code \<Rightarrow>
          if code = ''P0002'' then StoreJobNotFound
          else if code = ''23505'' then StoreRequestConflict
          else if code = ''40001'' then StoreTransitionError StateConflict
          else if code = ''55000'' then StoreTransitionError LeaseExpired
          else if code = ''22003'' then StoreTransitionError BudgetExhausted
          else e
      | _ \<Rightarrow> e)"

definition transact ::
    "'s database \<Rightarrow> EvidenceScope \<Rightarrow> (EvidenceScope \<Rightarrow> ('s, 'a) transaction) \<Rightarrow> ('s, 'a) transaction" where
  "transact db scope work s =
     (if \<not> EvidenceScopeSchema scope then Inl StoreZodError
      else case bindTx (db (BeginTransaction (Some scope))) (\<lambda>_.
             bindTx (work scope) (\<lambda>x. bindTx (db CommitTransaction) (\<lambda>_. pureTx x))) s of
        Inl e \<Rightarrow> Inl (persistenceError e)
      | Inr r \<Rightarrow> Inr r)"

definition admitWorkerBudget ::
    "'s database \<Rightarrow> RetainedJobGraph \<Rightarrow> PolicyEvaluationWorkerMutationFence option \<Rightarrow> ('s, unit) transaction" where
  "admitWorkerBudget db g fence =
     (let job = ps_job (rg_snapshot g) in
      bindTx (readPolicyJobValue db (ReadIoBudget (pj_jobId job) fence)) (\<lambda>raw.
      case raw of
        StoredBudget value \<Rightarrow>
          if \<not> PolicyEvaluationTimeSchema (io_observedAt value) then throwTx StoreZodError
          else
            let cut = tkey (io_observedAt value);
                expiry = (case pj_currentLease job of None \<Rightarrow> tkey (pj_deadlineAt job)
                  | Some l \<Rightarrow> min (min (tkey (pj_deadlineAt job)) (tkey (pl_expiresAt l))) (tkey (pl_attemptDeadlineAt l)));
                milliseconds = bigintDiv (expiry - cut) (10 ^ 27)
            in if cut < tkey (pj_updatedAt job) \<or> milliseconds \<le> 0 \<or>
                  io_remainingMilliseconds value \<noteq> min 2000 milliseconds \<or>
                  io_stateVersion value \<noteq> pj_stateVersion job \<or> io_scope value \<noteq> pj_scope job \<or>
                  io_job value \<noteq> graphJobReference g
               then violateTx IoAdmissionSubstituted
               else bindTx (db (TightenTransaction (min 2000 milliseconds))) (\<lambda>_. pureTx ())
      | _ \<Rightarrow> violateTx InvalidIoDescriptor))"

definition appendOnClient ::
    "digest \<Rightarrow> 's database \<Rightarrow> RetainedJobGraph option \<Rightarrow> HistoryEntry option \<Rightarrow> RetainedJobGraph \<Rightarrow> HistoryOperation \<Rightarrow>
     ('s, HistoryEntry) transaction" where
  "appendOnClient sha db previous previousEntry g operation =
     bindTx (historyTx (appendPolicyEvaluationJobHistory sha previous previousEntry g operation)) (\<lambda>entry.
     bindTx (historyTx (encodePolicyEvaluationJobHistoryEntry (en_definition entry))) (\<lambda>entryText.
     bindTx (historyTx (encodePolicyEvaluationJobGraph sha g)) (\<lambda>graphText.
     bindTx (historyTx (buildPolicyEvaluationJobOutboxIntents sha previous g)) (\<lambda>intents.
     bindTx (db (AppendHistory entry entryText graphText intents)) (\<lambda>_.
     bindTx (readPolicyJobLastHistoryOnClient sha db (pj_scope (ps_job (rg_snapshot g))) g) (\<lambda>_.
     bindTx (verifyPolicyJobIntentsOnClient sha db g) (\<lambda>_. pureTx entry)))))))"

definition findJob :: "digest \<Rightarrow> 's database \<Rightarrow> EvidenceScope \<Rightarrow> string \<Rightarrow> ('s, RetainedJobGraph option) transaction" where
  "findJob sha db scopeInput jobId =
     (if \<not> OpaqueIdSchema jobId then throwTx StoreZodError
      else transact db scopeInput (\<lambda>scope. readPostgresPolicyEvaluationJobOnClient sha db scope jobId))"

definition findJobForRequest ::
    "digest \<Rightarrow> 's database \<Rightarrow> EvidenceScope \<Rightarrow> PolicyEvaluationRequestReference \<Rightarrow> ('s, RetainedJobGraph option) transaction" where
  "findJobForRequest sha db scopeInput request =
     (if \<not> PolicyEvaluationRequestReferenceSchema request then throwTx StoreZodError
      else transact db scopeInput (\<lambda>scope. readPostgresPolicyEvaluationJobForRequestOnClient sha db scope request))"

definition findHistoryHead :: "'s database \<Rightarrow> EvidenceScope \<Rightarrow> string \<Rightarrow> ('s, HistoryHead option) transaction" where
  "findHistoryHead db scopeInput jobId =
     (if \<not> OpaqueIdSchema jobId then throwTx StoreZodError
      else transact db scopeInput (\<lambda>scope. readPolicyJobHistoryHeadOnClient db scope jobId None))"

definition readHistoryPage :: "digest \<Rightarrow> 's database \<Rightarrow> HistoryHead \<Rightarrow> int \<Rightarrow> ('s, HistoryPage) transaction" where
  "readHistoryPage sha db head pageIndex =
     (if \<not> HistoryHeadSchema head \<or> \<not> HistoryPageIndexSchema pageIndex then throwTx StoreZodError
      else transact db (hh_scope head) (\<lambda>_. readHistoryPageOnClient sha db head pageIndex))"

end
