(* ===== verification/Policy_Repository.thy ===== *)
theory Policy_Repository
  imports Policy_Store
begin

text \<open>
  The operations of the policy job repositories over the store: creation and cancellation
  (\<open>postgres-policy-evaluation-job-control-repository.ts\<close>), the worker operations
  (\<open>-job-worker-repository.ts\<close>) and owner recovery (\<open>-job-recovery.ts\<close>). Each reads the retained graph and
  its last history entry, sends one mutation, inspects what came back and appends it to the history.
\<close>

section \<open>Comparing graphs\<close>

definition serializedGraph :: "RetainedJobGraph \<Rightarrow> ('s, js_text) transaction" where
  "serializedGraph g s =
     (case serializeEvaluationCanonicalJson (graphJson g) of
        Inl e \<Rightarrow> Inl (StoreHistoryError (HistoryCanonicalError e)) | Inr t \<Rightarrow> Inr (t, s))"

definition requireUnchanged ::
    "store_violation \<Rightarrow> RetainedJobGraph \<Rightarrow> RetainedJobGraph \<Rightarrow> ('s, unit) transaction" where
  "requireUnchanged violation previous g =
     bindTx (serializedGraph previous) (\<lambda>x.
     bindTx (serializedGraph g) (\<lambda>y. if x \<noteq> y then violateTx violation else pureTx ()))"

text \<open>
  The end of every mutation: a graph with another state version is recorded under the operation it was
  asked for, a graph with the same version has to be the previous one.
\<close>

definition settleMutation ::
    "digest \<Rightarrow> 's database \<Rightarrow> RetainedJobGraph \<Rightarrow> HistoryEntry \<Rightarrow> RetainedJobGraph \<Rightarrow>
     (store_violation, HistoryOperation) result \<Rightarrow> ('s, RetainedJobGraph) transaction" where
  "settleMutation sha db previous latest g operation =
     (if pj_stateVersion (ps_job (rg_snapshot g)) \<noteq> pj_stateVersion (ps_job (rg_snapshot previous))
      then (case operation of Inl v \<Rightarrow> violateTx v
            | Inr action \<Rightarrow> bindTx (appendOnClient sha db (Some previous) (Some latest) g action) (\<lambda>_. pureTx g))
      else bindTx (requireUnchanged IdempotentMutationChanged previous g) (\<lambda>_. pureTx g))"

definition historyFull :: "RetainedJobGraph \<Rightarrow> bool" where
  "historyFull g \<longleftrightarrow> pj_status (ps_job (rg_snapshot g)) = PBudgetExhausted \<and> pj_stateVersion (ps_job (rg_snapshot g)) = 100000"

section \<open>Control\<close>

definition createJob ::
    "digest \<Rightarrow> 's database \<Rightarrow> PolicyEvaluationRequest \<Rightarrow> string \<Rightarrow> ('s, bool \<times> RetainedJobGraph) transaction" where
  "createJob sha db requestInput jobId =
     bindTx (historyTx (validatePolicyEvaluationRequestRecord sha requestInput)) (\<lambda>request.
     if \<not> OpaqueIdSchema jobId then throwTx StoreZodError
     else bindTx (historyTx (digestPolicyEvaluationJobDefinition sha (prq_scope request) jobId
            \<lparr>reqref_definitionSha256 = prq_definitionSha256 request,
             reqref_evaluationRequestId = prq_evaluationRequestId request\<rparr>)) (\<lambda>digest.
     transact db (prq_scope request) (\<lambda>scope.
       bindTx (db (CreateJob request jobId digest)) (\<lambda>rows.
       case rows of
         [StoredReceipt (Some created) raw _] \<Rightarrow>
           bindTx (parseStoredGraph raw) (\<lambda>parsed.
           bindTx (inspectStoredPolicyJob sha (StoredGraph parsed) scope
                     (if created then jobId else pj_jobId (ps_job (rg_snapshot parsed)))) (\<lambda>g.
           let stored = ps_request (rg_snapshot g) in
           if prq_evaluationRequestId stored \<noteq> prq_evaluationRequestId request \<or>
              prq_definitionSha256 stored \<noteq> prq_definitionSha256 request
           then violateTx CreationSubstitutedRequest
           else if created
           then bindTx (appendOnClient sha db None None g OpCreated) (\<lambda>_. pureTx (created, g))
           else bindTx (readPolicyJobLastHistoryOnClient sha db scope g) (\<lambda>_.
                bindTx (verifyPolicyJobIntentsOnClient sha db g) (\<lambda>_. pureTx (created, g)))))
       | _ \<Rightarrow> violateTx InvalidCreationReceipt))))"

definition cancelJob ::
    "digest \<Rightarrow> 's database \<Rightarrow> EvidenceScope \<Rightarrow> string \<Rightarrow> string \<Rightarrow> string \<Rightarrow> PolicyCancellationReason \<Rightarrow>
     ('s, RetainedJobGraph) transaction" where
  "cancelJob sha db scopeInput jobId cancellationId principalId reason =
     (if \<not> OpaqueIdSchema jobId \<or> \<not> OpaqueIdSchema cancellationId \<or> \<not> OpaqueIdSchema principalId
      then throwTx StoreZodError
      else transact db scopeInput (\<lambda>scope.
        bindTx (readPolicyJobValue db (PrepareMutation jobId)) (\<lambda>raw.
        bindTx (inspectStoredPolicyJob sha raw scope jobId) (\<lambda>previous.
        bindTx (readPolicyJobLastHistoryOnClient sha db scope previous) (\<lambda>latest.
        bindTx (verifyPolicyJobIntentsOnClient sha db previous) (\<lambda>_.
        bindTx (readPolicyJobValue db (CancelJob jobId cancellationId principalId reason)) (\<lambda>changed.
        bindTx (inspectStoredPolicyJob sha changed scope jobId) (\<lambda>g.
        settleMutation sha db previous latest g
          (case ps_cancellation (rg_snapshot g) of None \<Rightarrow> Inl CancellationOmittedIntent
           | Some intent \<Rightarrow> Inr (OpCancel intent))))))))))"

section \<open>Workers\<close>

text \<open>
  The budget argument is \<open>None\<close> for an operation that does not admit the worker budget first, and carries
  the fence when the caller has one.
\<close>

definition mutate ::
    "digest \<Rightarrow> 's database \<Rightarrow> EvidenceScope \<Rightarrow> string \<Rightarrow> PolicyStatement \<Rightarrow>
     (RetainedJobGraph \<Rightarrow> (store_violation, HistoryOperation) result) \<Rightarrow>
     PolicyEvaluationWorkerMutationFence option option \<Rightarrow> ('s, RetainedJobGraph) transaction" where
  "mutate sha db scopeInput jobId statement operation budgetFence =
     (if \<not> OpaqueIdSchema jobId then throwTx StoreZodError
      else transact db scopeInput (\<lambda>scope.
        bindTx (readPolicyJobValue db (PrepareMutation jobId)) (\<lambda>raw.
        bindTx (inspectStoredPolicyJob sha raw scope jobId) (\<lambda>previous.
        bindTx (case budgetFence of None \<Rightarrow> pureTx () | Some fence \<Rightarrow> admitWorkerBudget db previous fence) (\<lambda>_.
        bindTx (readPolicyJobLastHistoryOnClient sha db scope previous) (\<lambda>latest.
        bindTx (verifyPolicyJobIntentsOnClient sha db previous) (\<lambda>_.
        bindTx (readPolicyJobValue db statement) (\<lambda>changed.
        bindTx (inspectStoredPolicyJob sha changed scope jobId) (\<lambda>g.
        bindTx (case pj_currentLease (ps_job (rg_snapshot g)) of None \<Rightarrow> pureTx ()
                | Some l \<Rightarrow> admitWorkerBudget db g (Some (pl_mutationFence l))) (\<lambda>_.
        settleMutation sha db previous latest g (if historyFull g then Inr OpHistoryLimit else operation g)))))))))))"

definition claimJob ::
    "digest \<Rightarrow> 's database \<Rightarrow> EvidenceScope \<Rightarrow> string \<Rightarrow> string \<Rightarrow> string \<Rightarrow> string \<Rightarrow> ('s, RetainedJobGraph) transaction" where
  "claimJob sha db scope jobId workerId attemptId leaseId =
     (if \<not> OpaqueIdSchema jobId \<or> \<not> OpaqueIdSchema workerId \<or> \<not> OpaqueIdSchema attemptId \<or> \<not> OpaqueIdSchema leaseId
      then throwTx StoreZodError
      else mutate sha db scope jobId (ClaimJob jobId workerId attemptId leaseId)
        (\<lambda>g. case pj_currentLease (ps_job (rg_snapshot g)) of None \<Rightarrow> Inl ClaimOmittedLease
             | Some l \<Rightarrow> Inr (OpClaim (pl_mutationFence l))) (Some None))"

definition startComputation ::
    "digest \<Rightarrow> 's database \<Rightarrow> EvidenceScope \<Rightarrow> PolicyEvaluationWorkerMutationFence \<Rightarrow> ('s, RetainedJobGraph) transaction" where
  "startComputation sha db scope fence =
     (if \<not> PolicyEvaluationWorkerMutationFenceSchema fence then throwTx StoreZodError
      else mutate sha db scope (pf_jobId fence) (StartComputation fence) (\<lambda>_. Inr (OpStartComputation fence)) (Some (Some fence)))"

definition heartbeatJob ::
    "digest \<Rightarrow> 's database \<Rightarrow> EvidenceScope \<Rightarrow> PolicyEvaluationWorkerMutationFence \<Rightarrow> ('s, RetainedJobGraph) transaction" where
  "heartbeatJob sha db scope fence =
     (if \<not> PolicyEvaluationWorkerMutationFenceSchema fence then throwTx StoreZodError
      else mutate sha db scope (pf_jobId fence) (HeartbeatJob fence) (\<lambda>_. Inr (OpHeartbeat fence)) (Some (Some fence)))"

definition interruptJob ::
    "digest \<Rightarrow> 's database \<Rightarrow> EvidenceScope \<Rightarrow> PolicyEvaluationWorkerMutationFence \<Rightarrow> PolicyEvaluationRetryableError \<Rightarrow>
     ('s, RetainedJobGraph) transaction" where
  "interruptJob sha db scope fence reason =
     (if \<not> PolicyEvaluationWorkerMutationFenceSchema fence then throwTx StoreZodError
      else mutate sha db scope (pf_jobId fence) (InterruptJob fence reason) (\<lambda>_. Inr (OpInterrupt fence reason)) (Some (Some fence)))"

definition reclaimJob :: "digest \<Rightarrow> 's database \<Rightarrow> EvidenceScope \<Rightarrow> string \<Rightarrow> ('s, RetainedJobGraph) transaction" where
  "reclaimJob sha db scope jobId =
     (if \<not> OpaqueIdSchema jobId then throwTx StoreZodError
      else mutate sha db scope jobId (ReclaimJob jobId) (\<lambda>_. Inr OpReclaim) None)"

record WorkReservation =
  wr_created :: bool
  wr_snapshot :: RetainedJobGraph
  wr_reservation :: "HistoryEntry option"

definition validateStoredEntry :: "digest \<Rightarrow> StoredValue \<Rightarrow> ('s, HistoryEntry) transaction" where
  "validateStoredEntry sha raw =
     (case raw of StoredEntry e \<Rightarrow> historyTx (validatePolicyEvaluationJobHistoryEntry sha e)
      | _ \<Rightarrow> throwTx (StoreHistoryError HistoryZodError))"

definition settleReservation ::
    "digest \<Rightarrow> 's database \<Rightarrow> EvidenceScope \<Rightarrow> PolicyEvaluationWorkerMutationFence \<Rightarrow> string \<Rightarrow> PolicyEvaluationUsage \<Rightarrow>
     RetainedJobGraph \<Rightarrow> HistoryEntry \<Rightarrow> bool \<Rightarrow> StoredValue \<Rightarrow> RetainedJobGraph \<Rightarrow> ('s, WorkReservation) transaction" where
  "settleReservation sha db scope fence reservationId delta previous latest created reservation g =
     (let job = ps_job (rg_snapshot g) in
      if pj_stateVersion job = pj_stateVersion (ps_job (rg_snapshot previous))
      then if created then violateTx ReservationRetryChanged
        else bindTx (requireUnchanged ReservationRetryChanged previous g) (\<lambda>_.
          bindTx (validateStoredEntry sha reservation) (\<lambda>e.
          let d = en_definition e in
          if he_scope d \<noteq> scope \<or> jobref_jobId (he_job d) \<noteq> pf_jobId fence \<or>
             jobref_definitionSha256 (he_job d) \<noteq> pj_definitionSha256 job \<or>
             he_sequence d > he_sequence (en_definition latest) \<or>
             he_operation d \<noteq> OpReserve fence reservationId delta
          then violateTx ReservationSubstituted
          else pureTx \<lparr>wr_created = False, wr_snapshot = g, wr_reservation = Some e\<rparr>))
      else if created = historyFull g \<or> reservation \<noteq> StoredNull then violateTx ReservationInconsistent
      else bindTx (appendOnClient sha db (Some previous) (Some latest) g
             (if historyFull g then OpHistoryLimit else OpReserve fence reservationId delta)) (\<lambda>entry.
        pureTx \<lparr>wr_created = \<not> historyFull g, wr_snapshot = g,
                wr_reservation = (if historyFull g then None else Some entry)\<rparr>))"

definition reserveWork ::
    "digest \<Rightarrow> 's database \<Rightarrow> EvidenceScope \<Rightarrow> PolicyEvaluationWorkerMutationFence \<Rightarrow> string \<Rightarrow> PolicyEvaluationUsage \<Rightarrow>
     ('s, WorkReservation) transaction" where
  "reserveWork sha db scopeInput fence reservationId delta =
     (if \<not> PolicyEvaluationWorkerMutationFenceSchema fence \<or> \<not> OpaqueIdSchema reservationId \<or> \<not> PolicyEvaluationUsageSchema delta
      then throwTx StoreZodError
      else transact db scopeInput (\<lambda>scope.
        bindTx (readPolicyJobValue db (PrepareMutation (pf_jobId fence))) (\<lambda>raw.
        bindTx (inspectStoredPolicyJob sha raw scope (pf_jobId fence)) (\<lambda>previous.
        bindTx (admitWorkerBudget db previous (Some fence)) (\<lambda>_.
        bindTx (readPolicyJobLastHistoryOnClient sha db scope previous) (\<lambda>latest.
        bindTx (verifyPolicyJobIntentsOnClient sha db previous) (\<lambda>_.
        bindTx (db (ReserveWork fence reservationId delta)) (\<lambda>rows.
        case rows of
          [StoredReceipt (Some created) changed reservation] \<Rightarrow>
            bindTx (inspectStoredPolicyJob sha changed scope (pf_jobId fence)) (\<lambda>g.
            bindTx (case pj_currentLease (ps_job (rg_snapshot g)) of None \<Rightarrow> pureTx ()
                    | Some l \<Rightarrow> admitWorkerBudget db g (Some (pl_mutationFence l))) (\<lambda>_.
            settleReservation sha db scope fence reservationId delta previous latest created reservation g))
        | _ \<Rightarrow> violateTx InvalidReservationReceipt))))))))"

text \<open>The reservation identifier of \<open>reserveUsage\<close> is drawn from a random UUID, here without its hyphens.\<close>

definition reserveUsage ::
    "digest \<Rightarrow> 's database \<Rightarrow> string \<Rightarrow> EvidenceScope \<Rightarrow> PolicyEvaluationWorkerMutationFence \<Rightarrow> PolicyEvaluationUsage \<Rightarrow>
     ('s, RetainedJobGraph) transaction" where
  "reserveUsage sha db uuid scope fence delta =
     bindTx (reserveWork sha db scope fence (''reservation_'' @ uuid) delta) (\<lambda>r. pureTx (wr_snapshot r))"

section \<open>Recovery\<close>

definition recoverOnClient ::
    "digest \<Rightarrow> 's database \<Rightarrow> EvidenceScope \<Rightarrow> string \<Rightarrow> ('s, bool \<times> RetainedJobGraph) transaction" where
  "recoverOnClient sha db scope jobId =
     bindTx (readPolicyJobValue db (ReadJob jobId)) (\<lambda>raw.
     bindTx (inspectStoredPolicyJob sha raw scope jobId) (\<lambda>previous.
     bindTx (readPolicyJobLastHistoryOnClient sha db scope previous) (\<lambda>latest.
     bindTx (verifyPolicyJobIntentsOnClient sha db previous) (\<lambda>_.
     bindTx (readPolicyJobValue db (RecoverJob jobId)) (\<lambda>changed.
     bindTx (inspectStoredPolicyJob sha changed scope jobId) (\<lambda>g.
     bindTx (settleMutation sha db previous latest g (Inr (OpRecovery (pj_recoveryEpoch (ps_job (rg_snapshot g)))))) (\<lambda>h.
     pureTx (pj_stateVersion (ps_job (rg_snapshot h)) \<noteq> pj_stateVersion (ps_job (rg_snapshot previous)), h))))))))"

definition recoverJob :: "digest \<Rightarrow> 's database \<Rightarrow> EvidenceScope \<Rightarrow> string \<Rightarrow> ('s, RetainedJobGraph) transaction" where
  "recoverJob sha db scopeInput jobId =
     transact db scopeInput (\<lambda>scope.
       bindTx (db LockRecoveryEpoch) (\<lambda>_.
       bindTx (recoverOnClient sha db scope jobId) (\<lambda>r. pureTx (snd r))))"

fun recoverRows :: "digest \<Rightarrow> 's database \<Rightarrow> StoredValue list \<Rightarrow> int \<Rightarrow> ('s, int) transaction" where
  "recoverRows sha db [] recovered = pureTx recovered"
| "recoverRows sha db (row # rows) recovered =
     (case row of
        StoredJobKey scope jobId \<Rightarrow>
          if \<not> EvidenceScopeSchema scope then throwTx StoreZodError
          else bindTx (db (SelectScope scope)) (\<lambda>_.
            bindTx (recoverOnClient sha db scope jobId) (\<lambda>r.
              recoverRows sha db rows (if fst r then recovered + 1 else recovered)))
      | _ \<Rightarrow> throwTx StoreZodError)"

definition recoverAllAtCurrentEpoch :: "digest \<Rightarrow> 's database \<Rightarrow> ('s, int) transaction" where
  "recoverAllAtCurrentEpoch sha db =
     bindTx (db (BeginTransaction None)) (\<lambda>_.
     bindTx (db LockRecoveryEpoch) (\<lambda>_.
     bindTx (db ListOpenJobs) (\<lambda>rows.
     if length rows > 100000 then violateTx RecoveryCountExceeded
     else bindTx (recoverRows sha db rows 0) (\<lambda>n.
       bindTx (db CommitTransaction) (\<lambda>_. pureTx n)))))"

end
