(* ===== verification/Policy_Repository_Safety.thy ===== *)
theory Policy_Repository_Safety
  imports Policy_Repository
begin

text \<open>
  The repositories accept from the database only transitions of the scheduler. Nothing is assumed of the
  database: whatever it answers, an operation that returns has either left the retained graph alone or
  moved it by the very transition that was asked for, re-derived by the scheduler's own code.
\<close>

section \<open>Returned transactions\<close>

lemma bindTx_Inr: "bindTx m k s = Inr (y, u) \<longleftrightarrow> (\<exists>x t. m s = Inr (x, t) \<and> k x t = Inr (y, u))"
  by (auto simp: bindTx_def split: sum.splits)

lemma bindTx_run: "m s = Inr (x, t) \<Longrightarrow> bindTx m k s = k x t"
  by (simp add: bindTx_def)

lemma pureTx_Inr: "pureTx x s = Inr (y, t) \<longleftrightarrow> y = x \<and> t = s"
  by (auto simp: pureTx_def)

lemma throwTx_Inr: "throwTx e s \<noteq> Inr r" "violateTx v s' \<noteq> Inr r'"
  by (simp_all add: throwTx_def violateTx_def)

lemma historyTx_Inr: "historyTx r s = Inr (x, t) \<longleftrightarrow> r = Inr x \<and> t = s"
  by (auto simp: historyTx_def split: sum.splits)

lemma if_throwTx_Inr: "(if c then throwTx e else m) s = Inr r \<longleftrightarrow> \<not> c \<and> m s = Inr r"
  "(if c then violateTx v else n) s' = Inr r' \<longleftrightarrow> \<not> c \<and> n s' = Inr r'"
  by (simp_all add: throwTx_Inr)

lemmas tx_simps = bindTx_Inr pureTx_Inr throwTx_Inr historyTx_Inr if_throwTx_Inr

text \<open>Partial correctness of a transaction: what holds of the value of every run that returns.\<close>

definition yields :: "('s, 'e, 'a) effect \<Rightarrow> ('a \<Rightarrow> bool) \<Rightarrow> bool" where
  "yields m Q \<longleftrightarrow> (\<forall>s x t. m s = Inr (x, t) \<longrightarrow> Q x)"

lemma yieldsD: "yields m Q \<Longrightarrow> m s = Inr (x, t) \<Longrightarrow> Q x"
  by (auto simp: yields_def)

lemma yields_then: "(\<And>x. yields (k x) Q) \<Longrightarrow> yields (bindTx m k) Q"
  by (auto simp: yields_def bindTx_Inr)

lemma yields_bind: "yields m P \<Longrightarrow> (\<And>x. P x \<Longrightarrow> yields (k x) Q) \<Longrightarrow> yields (bindTx m k) Q"
  unfolding yields_def bindTx_Inr by blast

lemma yields_pure: "Q x \<Longrightarrow> yields (pureTx x) Q"
  by (auto simp: yields_def pureTx_Inr)

lemma yields_throw: "yields (throwTx e) Q" "yields (violateTx v) P"
  by (simp_all add: yields_def throwTx_Inr)

lemma yields_guard: "(\<not> c \<Longrightarrow> yields m Q) \<Longrightarrow> yields (if c then throwTx e else m) Q"
  "(\<not> c \<Longrightarrow> yields n P) \<Longrightarrow> yields (if c then violateTx v else n) P"
  by (simp_all add: yields_throw)

lemma yields_history: "(\<And>x. r = Inr x \<Longrightarrow> Q x) \<Longrightarrow> yields (historyTx r) Q"
  by (auto simp: yields_def historyTx_Inr)

lemma yields_transact: "(EvidenceScopeSchema scope \<Longrightarrow> yields (work scope) Q) \<Longrightarrow> yields (transact db scope work) Q"
  by (auto simp: yields_def transact_def bindTx_Inr pureTx_Inr split: if_splits sum.splits)

lemma readValue_Inr: "readPolicyJobValue db st s = Inr (v, t) \<longleftrightarrow> db st s = Inr ([v], t)"
proof -
  have "(case rows of [w] \<Rightarrow> pureTx w | _ \<Rightarrow> violateTx UnexpectedRowCount) u = Inr (v, t) \<longleftrightarrow> rows = [v] \<and> u = t" for rows u
    by (cases rows; cases "tl rows") (auto simp: tx_simps)
  then show ?thesis by (auto simp: readPolicyJobValue_def bindTx_Inr)
qed

lemma inspect_Inr:
  "inspectStoredPolicyJob sha raw scope jobId s = Inr (g, t) \<longleftrightarrow>
     t = s \<and> raw = StoredGraph g \<and> graphRecorded sha g \<and> pj_scope (ps_job (rg_snapshot g)) = scope \<and>
     pj_jobId (ps_job (rg_snapshot g)) = jobId"
proof -
  have "PolicyEvaluationJobSnapshotSchema (rg_snapshot h)" if "graphRecorded sha h" for h
    using that by (simp add: graphRecorded_def Let_def)
  then show ?thesis
    by (cases raw) (auto simp: inspectStoredPolicyJob_def parseStoredGraph_def tx_simps validate_record_iff graphJobReference_def)
qed

lemma append_Inr:
  "appendOnClient sha db p e g op s = Inr (e', t) \<Longrightarrow> appendPolicyEvaluationJobHistory sha p e g op = Inr e'"
  by (auto simp: appendOnClient_def tx_simps)

lemma unchanged_Inr:
  assumes "requireUnchanged v p g s = Inr r" "graphRecorded sha p" "graphRecorded sha g"
  shows "rg_snapshot g = rg_snapshot p"
proof -
  have schema: "PolicyEvaluationJobSnapshotSchema (rg_snapshot p)" "PolicyEvaluationJobSnapshotSchema (rg_snapshot g)"
    using assms(2,3) by (simp_all add: graphRecorded_def Let_def)
  then have plain: "plainJson 64 (graphJson p)" "plainJson 64 (graphJson g)"
    by (simp_all add: plain_graph PolicyEvaluationJobSnapshotSchema_def)
  obtain x where x: "serializeEvaluationCanonicalJson (graphJson p) = Inr x" "serializeEvaluationCanonicalJson (graphJson g) = Inr x"
    using assms(1) by (cases r) (auto simp: requireUnchanged_def serializedGraph_def tx_simps split: sum.splits if_splits)
  then have "canonicalBytes (graphJson p) = Inr (encodeUtf8 x)" "canonicalBytes (graphJson g) = Inr (encodeUtf8 x)"
    by (simp_all add: canonicalBytes_def encodeEvaluationCanonicalJson_def)
  from canonicalBytes_same [OF this plain] have "sameEncoding (graphJson p) (graphJson g)" .
  then show ?thesis using same_graph(1) schema by metis
qed

section \<open>Recorded moves\<close>

text \<open>A statement that the database answered with the given rows at some point of the transaction.\<close>

definition answered :: "'s database \<Rightarrow> PolicyStatement \<Rightarrow> StoredValue list \<Rightarrow> bool" where
  "answered db statement rows \<longleftrightarrow> (\<exists>s t. db statement s = Inr (rows, t))"

lemma answeredI: "db statement s = Inr (rows, t) \<Longrightarrow> answered db statement rows"
  by (auto simp: answered_def)

definition recordedMove ::
    "digest \<Rightarrow> 's database \<Rightarrow> RetainedJobGraph \<Rightarrow> RetainedJobGraph \<Rightarrow> HistoryOperation \<Rightarrow> bool" where
  "recordedMove sha db p g operation \<longleftrightarrow>
     (\<exists>latest entry entryText graphText intents rows.
        appendPolicyEvaluationJobHistory sha (Some p) (Some latest) g operation = Inr entry \<and>
        answered db (AppendHistory entry entryText graphText intents) rows)"

lemma appended_recorded:
  "appendOnClient sha db (Some p) (Some e) g operation s = Inr (e', t) \<Longrightarrow> recordedMove sha db p g operation"
  by (fastforce simp: appendOnClient_def tx_simps recordedMove_def intro: answeredI)

definition graphOf :: "digest \<Rightarrow> EvidenceScope \<Rightarrow> string \<Rightarrow> RetainedJobGraph \<Rightarrow> bool" where
  "graphOf sha scope jobId g \<longleftrightarrow> graphRecorded sha g \<and> pj_scope (ps_job (rg_snapshot g)) = scope \<and>
     pj_jobId (ps_job (rg_snapshot g)) = jobId"

lemma yields_inspect:
  assumes "\<And>g. raw = StoredGraph g \<Longrightarrow> graphOf sha scope jobId g \<Longrightarrow> yields (k g) Q"
  shows "yields (bindTx (inspectStoredPolicyJob sha raw scope jobId) k) Q"
  using assms by (auto simp: yields_def bindTx_Inr inspect_Inr graphOf_def)

lemma yields_read:
  assumes "\<And>g. answered db statement [StoredGraph g] \<Longrightarrow> graphOf sha scope jobId g \<Longrightarrow> yields (k g) Q"
  shows "yields (bindTx (readPolicyJobValue db statement) (\<lambda>raw. bindTx (inspectStoredPolicyJob sha raw scope jobId) k)) Q"
proof (rule yields_bind)
  show "yields (readPolicyJobValue db statement) (\<lambda>raw. answered db statement [raw])"
    by (auto simp: yields_def readValue_Inr intro: answeredI)
  show "yields (bindTx (inspectStoredPolicyJob sha raw scope jobId) k) Q" if "answered db statement [raw]" for raw
    using assms that by (intro yields_inspect) simp
qed

text \<open>
  The database answered \<open>prepare\<close> with a graph of the job and the mutation with \<open>g\<close>, and \<open>g\<close> is that graph
  or was recorded after it under an operation in \<open>ops\<close>.
\<close>

definition storeMove ::
    "digest \<Rightarrow> 's database \<Rightarrow> EvidenceScope \<Rightarrow> string \<Rightarrow> PolicyStatement \<Rightarrow> (HistoryOperation \<Rightarrow> bool) \<Rightarrow>
     RetainedJobGraph \<Rightarrow> bool" where
  "storeMove sha db scope jobId prepare ops g \<longleftrightarrow> graphOf sha scope jobId g \<and>
     (\<exists>p. answered db prepare [StoredGraph p] \<and> graphOf sha scope jobId p \<and>
        (rg_snapshot g = rg_snapshot p \<or> (\<exists>operation. ops operation \<and> recordedMove sha db p g operation)))"

lemma storeMove_same:
  assumes "requireUnchanged v p g s = Inr r" "answered db prepare [StoredGraph p]" "graphOf sha scope jobId p"
    "graphOf sha scope jobId g"
  shows "storeMove sha db scope jobId prepare ops g"
  using unchanged_Inr [OF assms(1), of sha] assms(2-4) unfolding storeMove_def graphOf_def by blast

lemma storeMove_append:
  assumes "appendOnClient sha db (Some p) (Some e) g operation s = Inr (e', t)" "ops operation"
    "answered db prepare [StoredGraph p]" "graphOf sha scope jobId p" "graphOf sha scope jobId g"
  shows "storeMove sha db scope jobId prepare ops g"
  using appended_recorded [OF assms(1)] assms(2-5) unfolding storeMove_def by blast

lemma settle_move:
  assumes "answered db prepare [StoredGraph p]" "graphOf sha scope jobId p" "graphOf sha scope jobId g"
    and "\<And>op. operation = Inr op \<Longrightarrow> ops g op"
  shows "yields (settleMutation sha db p latest g operation) (\<lambda>h. storeMove sha db scope jobId prepare (ops h) h)"
proof -
  have same: "requireUnchanged v p g s = Inr r \<Longrightarrow> storeMove sha db scope jobId prepare (ops g) g" for v s r
    by (rule storeMove_same [OF _ assms(1-3)])
  have append: "appendOnClient sha db (Some p) (Some latest) g op s = Inr (e, t) \<Longrightarrow> operation = Inr op \<Longrightarrow>
      storeMove sha db scope jobId prepare (ops g) g" for op s e t
    by (rule storeMove_append [OF _ assms(4) assms(1-3)])
  show ?thesis
    by (cases operation) (auto simp: yields_def settleMutation_def bindTx_Inr pureTx_Inr throwTx_Inr split: if_splits dest: same append)
qed

lemma mutate_move:
  "yields (mutate sha db scope jobId statement operation fence)
     (\<lambda>g. storeMove sha db scope jobId (PrepareMutation jobId)
        (\<lambda>op. if historyFull g then op = OpHistoryLimit else operation g = Inr op) g)"
  unfolding mutate_def
  by (rule yields_guard, rule yields_transact, rule yields_read, rule yields_then, rule yields_then, rule yields_then,
      rule yields_read, rule yields_then, rule settle_move) (simp_all split: if_splits)

lemma cancel_move:
  "yields (cancelJob sha db scope jobId cancellationId actor reason)
     (\<lambda>g. storeMove sha db scope jobId (PrepareMutation jobId)
        (\<lambda>op. \<exists>intent. ps_cancellation (rg_snapshot g) = Some intent \<and> op = OpCancel intent) g)"
  unfolding cancelJob_def
  by (rule yields_guard, rule yields_transact, rule yields_read, rule yields_then, rule yields_then, rule yields_read,
      rule settle_move) (simp_all split: option.splits)

lemma recover_move:
  "yields (recoverOnClient sha db scope jobId)
     (\<lambda>(_, g). storeMove sha db scope jobId (ReadJob jobId) (\<lambda>op. op = OpRecovery (pj_recoveryEpoch (ps_job (rg_snapshot g)))) g)"
  unfolding recoverOnClient_def
  by (rule yields_read, rule yields_then, rule yields_then, rule yields_read,
      rule yields_bind [OF settle_move [where ops = "\<lambda>g op. op = OpRecovery (pj_recoveryEpoch (ps_job (rg_snapshot g)))"]])
    (simp_all, rule yields_pure, simp)

lemma settle_reservation_move:
  assumes "answered db prepare [StoredGraph p]" "graphOf sha scope (pf_jobId fence) p" "graphOf sha scope (pf_jobId fence) g"
  shows "yields (settleReservation sha db scope fence reservationId delta p latest created reservation g)
     (\<lambda>r. storeMove sha db scope (pf_jobId fence) prepare
        (\<lambda>op. op = (if historyFull (wr_snapshot r) then OpHistoryLimit else OpReserve fence reservationId delta)) (wr_snapshot r))"
  using storeMove_append [OF _ _ assms] storeMove_same [OF _ assms]
  unfolding settleReservation_def Let_def yields_def
  by (fastforce simp: bindTx_Inr pureTx_Inr throwTx_Inr split: if_splits)

lemma yields_receipt:
  assumes "\<And>created changed reservation. yields (k created changed reservation) Q"
  shows "yields (case rows of [StoredReceipt (Some created) changed reservation] \<Rightarrow> k created changed reservation | _ \<Rightarrow> violateTx v) Q"
  using assms by (auto simp: yields_throw split: list.splits StoredValue.splits option.splits)

lemma reserve_move:
  "yields (reserveWork sha db scope fence reservationId delta)
     (\<lambda>r. storeMove sha db scope (pf_jobId fence) (PrepareMutation (pf_jobId fence))
        (\<lambda>op. op = (if historyFull (wr_snapshot r) then OpHistoryLimit else OpReserve fence reservationId delta)) (wr_snapshot r))"
  unfolding reserveWork_def
  by (rule yields_guard, rule yields_transact, rule yields_read, rule yields_then, rule yields_then, rule yields_then, rule yields_then,
      rule yields_receipt, rule yields_inspect, rule yields_then, rule settle_reservation_move)

section \<open>Requests to the store\<close>

datatype StoreRequest =
    ClaimRequest string string string string
  | StartRequest PolicyEvaluationWorkerMutationFence
  | HeartbeatRequest PolicyEvaluationWorkerMutationFence
  | InterruptRequest PolicyEvaluationWorkerMutationFence PolicyEvaluationRetryableError
  | ReclaimRequest string
  | ReserveRequest PolicyEvaluationWorkerMutationFence string PolicyEvaluationUsage
  | CancelRequest string string string PolicyCancellationReason
  | RecoverRequest string

fun runStore :: "digest \<Rightarrow> 's database \<Rightarrow> EvidenceScope \<Rightarrow> StoreRequest \<Rightarrow> ('s, RetainedJobGraph) transaction" where
  "runStore sha db scope (ClaimRequest jobId workerId attemptId leaseId) = claimJob sha db scope jobId workerId attemptId leaseId"
| "runStore sha db scope (StartRequest fence) = startComputation sha db scope fence"
| "runStore sha db scope (HeartbeatRequest fence) = heartbeatJob sha db scope fence"
| "runStore sha db scope (InterruptRequest fence reason) = interruptJob sha db scope fence reason"
| "runStore sha db scope (ReclaimRequest jobId) = reclaimJob sha db scope jobId"
| "runStore sha db scope (ReserveRequest fence reservationId delta) =
     bindTx (reserveWork sha db scope fence reservationId delta) (\<lambda>r. pureTx (wr_snapshot r))"
| "runStore sha db scope (CancelRequest jobId cancellationId actor reason) = cancelJob sha db scope jobId cancellationId actor reason"
| "runStore sha db scope (RecoverRequest jobId) = recoverJob sha db scope jobId"

fun requestJob :: "StoreRequest \<Rightarrow> string" where
  "requestJob (ClaimRequest jobId _ _ _) = jobId"
| "requestJob (StartRequest fence) = pf_jobId fence"
| "requestJob (HeartbeatRequest fence) = pf_jobId fence"
| "requestJob (InterruptRequest fence _) = pf_jobId fence"
| "requestJob (ReclaimRequest jobId) = jobId"
| "requestJob (ReserveRequest fence _ _) = pf_jobId fence"
| "requestJob (CancelRequest jobId _ _ _) = jobId"
| "requestJob (RecoverRequest jobId) = jobId"

fun requestReads :: "StoreRequest \<Rightarrow> PolicyStatement" where
  "requestReads (RecoverRequest jobId) = ReadJob jobId"
| "requestReads request = PrepareMutation (requestJob request)"

text \<open>The operations a request may record, given the graph it returns.\<close>

fun requested :: "StoreRequest \<Rightarrow> RetainedJobGraph \<Rightarrow> HistoryOperation \<Rightarrow> bool" where
  "requested (CancelRequest _ _ _ _) g op \<longleftrightarrow> (\<exists>intent. ps_cancellation (rg_snapshot g) = Some intent \<and> op = OpCancel intent)"
| "requested (RecoverRequest _) g op \<longleftrightarrow> op = OpRecovery (pj_recoveryEpoch (ps_job (rg_snapshot g)))"
| "requested (ClaimRequest _ _ _ _) g op \<longleftrightarrow>
     (if historyFull g then op = OpHistoryLimit
      else \<exists>l. pj_currentLease (ps_job (rg_snapshot g)) = Some l \<and> op = OpClaim (pl_mutationFence l))"
| "requested (StartRequest fence) g op \<longleftrightarrow> op = (if historyFull g then OpHistoryLimit else OpStartComputation fence)"
| "requested (HeartbeatRequest fence) g op \<longleftrightarrow> op = (if historyFull g then OpHistoryLimit else OpHeartbeat fence)"
| "requested (InterruptRequest fence reason) g op \<longleftrightarrow> op = (if historyFull g then OpHistoryLimit else OpInterrupt fence reason)"
| "requested (ReclaimRequest _) g op \<longleftrightarrow> op = (if historyFull g then OpHistoryLimit else OpReclaim)"
| "requested (ReserveRequest fence reservationId delta) g op \<longleftrightarrow>
     op = (if historyFull g then OpHistoryLimit else OpReserve fence reservationId delta)"

lemma storeMove_mono:
  "storeMove sha db scope jobId prepare ops g \<Longrightarrow> (\<And>op. ops op \<Longrightarrow> ops' op) \<Longrightarrow> storeMove sha db scope jobId prepare ops' g"
  unfolding storeMove_def by blast

lemma yields_mono: "yields m P \<Longrightarrow> (\<And>x. P x \<Longrightarrow> Q x) \<Longrightarrow> yields m Q"
  unfolding yields_def by blast

lemma guarded_move:
  assumes "\<And>g op. (if historyFull g then op = OpHistoryLimit else operation g = Inr op) \<Longrightarrow> ops g op"
  shows "yields (if c then throwTx e else mutate sha db scope jobId statement operation fence)
    (\<lambda>g. storeMove sha db scope jobId (PrepareMutation jobId) (ops g) g)"
  by (intro yields_guard yields_mono [OF mutate_move]) (erule storeMove_mono, rule assms)

lemma claim_requested:
  "(if historyFull g then op = OpHistoryLimit
    else (case pj_currentLease (ps_job (rg_snapshot g)) of None \<Rightarrow> Inl ClaimOmittedLease
          | Some l \<Rightarrow> Inr (OpClaim (pl_mutationFence l))) = Inr op) \<Longrightarrow>
   requested (ClaimRequest jobId workerId attemptId leaseId) g op"
  by (auto split: option.splits if_splits)

lemma runStore_move:
  "yields (runStore sha db scope request)
     (\<lambda>g. storeMove sha db scope (requestJob request) (requestReads request) (requested request g) g)"
proof -
  note worker_defs = claimJob_def startComputation_def heartbeatJob_def interruptJob_def reclaimJob_def
  show ?thesis
  proof (cases request)
    case (ClaimRequest jobId workerId attemptId leaseId)
    show ?thesis unfolding ClaimRequest runStore.simps requestReads.simps requestJob.simps worker_defs
      by (rule guarded_move) (rule claim_requested)
  next
    case (ReserveRequest fence reservationId delta)
    have "yields (runStore sha db scope request)
        (\<lambda>g. storeMove sha db scope (pf_jobId fence) (PrepareMutation (pf_jobId fence)) (requested request g) g)"
      unfolding ReserveRequest runStore.simps by (rule yields_bind [OF reserve_move]) (rule yields_pure, erule storeMove_mono, simp)
    then show ?thesis using ReserveRequest by simp
  next
    case (CancelRequest jobId cancellationId actor reason)
    show ?thesis unfolding CancelRequest runStore.simps requestReads.simps requestJob.simps
      by (rule yields_mono [OF cancel_move]) (erule storeMove_mono, simp)
  next
    case (RecoverRequest jobId)
    show ?thesis unfolding RecoverRequest runStore.simps requestReads.simps requestJob.simps recoverJob_def
      by (rule yields_transact, rule yields_then, rule yields_bind [OF recover_move])
        (rule yields_pure, clarsimp, erule storeMove_mono, simp)
  qed (simp only: runStore.simps requestReads.simps requestJob.simps worker_defs,
      rule guarded_move, simp split: if_splits)+
qed

lemma recorded_move_step:
  assumes "recordedMove sha db p g operation" and "linkCollisionFree sha p operation g"
  shows "policyStep (rg_snapshot p) (rg_snapshot g) \<and>
    (\<exists>h. rederive p (pj_updatedAt (ps_job (rg_snapshot g))) operation = Inr h \<and> rg_snapshot h = rg_snapshot g)"
proof -
  obtain e e' where a: "appendPolicyEvaluationJobHistory sha (Some p) (Some e) g operation = Inr e'"
    using assms(1) by (auto simp: recordedMove_def)
  obtain h where h: "replayPolicyEvaluationJobHistoryEntry sha p e' = Inr h" "rg_snapshot h = rg_snapshot g"
    "policyStep (rg_snapshot p) (rg_snapshot g)"
    using append_replays [OF a assms(2)] by auto
  obtain h' where "replayPolicyEvaluationJobHistoryEntry sha p e' = Inr h'"
    "rederive p (pj_updatedAt (ps_job (rg_snapshot g))) operation = Inr h'"
    by (rule append_Some [OF a])
  then show ?thesis using h by auto
qed

section \<open>Reading an honest store\<close>

text \<open>
  What a store that keeps a recorded history answers to the reads that follow a graph of the job: the head
  at its last entry, the last page and the confirmation of every intent, without changing its state.
\<close>

definition servesHistory :: "digest \<Rightarrow> 's database \<Rightarrow> HistoryEntry list \<Rightarrow> RetainedJobGraph list \<Rightarrow> 's \<Rightarrow> bool" where
  "servesHistory sha db es gs s \<longleftrightarrow>
     (let g = last gs; jobId = pj_jobId (ps_job (rg_snapshot g)); n = length es - 1; k = n div 100 in
      (\<forall>head. policyEvaluationJobHistoryHead sha (last es) = Inr head \<longrightarrow>
         db (ReadHistoryHeadAt jobId (int n)) s = Inr ([StoredHead head], s) \<and>
         db (ReadHistoryPage head (int k)) s =
           Inr ([StoredPage \<lparr>hp_head = head, hp_pageIndex = int k, hp_entries = drop (100 * k) es\<rparr>], s)) \<and>
      (\<forall>intent \<in> set (jobIntents None (rg_snapshot g)).
         db (ReadIntentStatus jobId (jobEventName (oi_eventType intent)) (oi_payload intent) (oi_createdAt intent)) s =
           Inr ([StoredText ''canonical''], s)))"

lemma last_history_read:
  assumes r: "recordedHistory sha es gs" "collisionFree sha es gs" and serves: "servesHistory sha db es gs s"
  shows "readPolicyJobLastHistoryOnClient sha db (pj_scope (ps_job (rg_snapshot (last gs)))) (last gs) s = Inr (last es, s)"
proof -
  let ?g = "last gs"
  define n k where "n = length es - 1" and "k = n div 100"
  have shape: "length es = length gs" "gs \<noteq> []" "es \<noteq> []" using recordedHistory_shape [OF r(1)] by auto
  then have n: "length es = Suc n" "n < length gs" by (simp_all add: n_def)
  have last: "last gs = gs ! n" "last es = es ! n" using shape by (simp_all add: last_conv_nth n_def)
  have b: "entryBinds sha ?g (last es)" using recorded_entry [OF r(1) n(2)] last by simp
  have version: "pj_stateVersion (ps_job (rg_snapshot ?g)) = int n + 1" using recorded_sequence [OF r n(2)] last by simp
  have k: "100 * k \<le> n" "n < 100 * k + 100" using mod_less_divisor [of 100 n] div_mult_mod_eq [of n 100] by (simp_all add: k_def)
  then have page: "take 100 (drop (100 * k) es) = drop (100 * k) es" "drop (100 * k) es \<noteq> []" "last (drop (100 * k) es) = last es"
    using n(1) by (simp_all add: last_drop)
  obtain head where head: "policyEvaluationJobHistoryHead sha (last es) = Inr head" "hh_sequence head = int n"
    "validatePolicyEvaluationJobHistoryPage sha head \<lparr>hp_head = head, hp_pageIndex = int k, hp_entries = drop (100 * k) es\<rparr> =
       Inr \<lparr>hp_head = head, hp_pageIndex = int k, hp_entries = drop (100 * k) es\<rparr>"
    using page_accepted [OF r, of k] k n(1) page(1) by (auto simp: Let_def)
  have fields: "HistoryHeadSchema head" "hh_scope head = pj_scope (ps_job (rg_snapshot ?g))" "hh_job head = graphJobReference ?g"
    "hh_graphSha256 head = sha (graphBytes ?g)" "hh_entrySha256 head = en_entrySha256 (last es)"
    using head(1) b
    by (auto simp: policyEvaluationJobHistoryHead_def validate_entry_iff Let_def entryBinds_def split: sum.splits if_splits)
  let ?scope = "pj_scope (ps_job (rg_snapshot ?g))" and ?jobId = "pj_jobId (ps_job (rg_snapshot ?g))"
  let ?page = "\<lparr>hp_head = head, hp_pageIndex = int k, hp_entries = drop (100 * k) es\<rparr>"
  have answers: "db (ReadHistoryHeadAt ?jobId (int n)) s = Inr ([StoredHead head], s)" "db (ReadHistoryPage head (int k)) s = Inr ([StoredPage ?page], s)"
    using serves head(1) unfolding servesHistory_def Let_def n_def k_def by blast+
  have "readPolicyJobHistoryHeadOnClient db ?scope ?jobId (Some (int n)) s = Inr (Some head, s)"
    using answers(1) fields(1-3)
    by (simp add: readPolicyJobHistoryHeadOnClient_def bindTx_run [OF readValue_Inr [THEN iffD2]] pureTx_def graphJobReference_def)
  moreover have "readHistoryPageOnClient sha db head (int k) s = Inr (?page, s)"
    using answers(2) head(3)
    by (simp add: readHistoryPageOnClient_def bindTx_run [OF readValue_Inr [THEN iffD2]] historyTx_def)
  moreover have "historyTx (digestPolicyEvaluationJobGraph sha ?g) s = Inr (sha (graphBytes ?g), s)"
    using b by (simp add: historyTx_Inr digest_graph_iff entryBinds_def)
  moreover have "int n div 100 = int k" by (simp add: k_def zdiv_int)
  ultimately show ?thesis
    using fields head(2) page(2,3)
    by (simp add: readPolicyJobLastHistoryOnClient_def Let_def version bindTx_run graphJobReference_def pureTx_def)
qed

lemma intents_loop_run:
  assumes "\<And>intent. intent \<in> set intents \<Longrightarrow>
    db (ReadIntentStatus jobId (jobEventName (oi_eventType intent)) (oi_payload intent) (oi_createdAt intent)) s =
      Inr ([StoredText ''canonical''], s)"
  shows "verifyIntentsLoop db jobId intents s = Inr ((), s)"
  using assms
proof (induction intents)
  case (Cons intent intents)
  then show ?case by (simp add: bindTx_run [OF readValue_Inr [THEN iffD2]])
qed (simp add: pureTx_def)

lemma intents_verified:
  assumes "graphRecorded sha (last gs)" "servesHistory sha db es gs s"
  shows "verifyPolicyJobIntentsOnClient sha db (last gs) s = Inr ((), s)"
proof -
  have "historyTx (buildPolicyEvaluationJobOutboxIntents sha None (last gs)) s = Inr (jobIntents None (rg_snapshot (last gs)), s)"
    using assms(1) by (simp add: historyTx_Inr build_iff)
  moreover have "verifyIntentsLoop db (pj_jobId (ps_job (rg_snapshot (last gs)))) (jobIntents None (rg_snapshot (last gs))) s = Inr ((), s)"
    using assms(2) by (intro intents_loop_run) (simp add: servesHistory_def Let_def)
  ultimately show ?thesis by (simp add: verifyPolicyJobIntentsOnClient_def bindTx_run)
qed

lemma recorded_last:
  assumes "recordedHistory sha es gs"
  shows "entryBinds sha (last gs) (last es)" "graphRecorded sha (last gs)"
proof -
  show "entryBinds sha (last gs) (last es)"
    using recorded_entry [OF assms, of "length gs - 1"] recordedHistory_shape [OF assms]
    by (metis diff_less last_conv_nth length_0_conv length_greater_0_conv zero_less_one)
  then show "graphRecorded sha (last gs)" by (simp add: entryBinds_def)
qed

lemma recorded_next:
  assumes "recordedHistory sha es gs" "appendPolicyEvaluationJobHistory sha (Some (last gs)) (Some (last es)) g op = Inr e"
  shows "recordedHistory sha (es @ [e]) (gs @ [g])"
proof -
  obtain xs x ys y where "es = xs @ [x]" "gs = ys @ [y]"
    using recordedHistory_shape [OF assms(1)] by (metis append_butlast_last_id length_0_conv)
  then show ?thesis using recorded_appended [of sha xs x ys y g op e] assms by simp
qed

lemma append_run:
  assumes r: "recordedHistory sha es gs" and free: "collisionFree sha (es @ [e]) (gs @ [g])"
    and a: "appendPolicyEvaluationJobHistory sha (Some (last gs)) (Some (last es)) g op = Inr e"
    and stored: "db (AppendHistory e (entryBytes (en_definition e)) (graphBytes g)
        (jobIntents (Some (rg_snapshot (last gs))) (rg_snapshot g))) s = Inr (rows, t)"
    and serves: "servesHistory sha db (es @ [e]) (gs @ [g]) t"
  shows "appendOnClient sha db (Some (last gs)) (Some (last es)) g op s = Inr (e, t)"
proof -
  note next_history = recorded_next [OF r a]
  note b = recorded_last [OF next_history, simplified]
  have entry: "historyTx (encodePolicyEvaluationJobHistoryEntry (en_definition e)) s = Inr (entryBytes (en_definition e), s)"
    using b(1) by (simp add: historyTx_Inr encodes_entry entryBinds_def entryRecorded_def HistoryEntrySchema_def)
  have "encodePolicyEvaluationJobGraph sha g = canonicalBytes (graphEnvelope g)"
    using b(2) validate_record_iff [of sha "pj_scope (ps_job (rg_snapshot g))" "graphJobReference g" g g]
    by (simp add: encodePolicyEvaluationJobGraph_def graphEnvelope_def)
  then have graph: "historyTx (encodePolicyEvaluationJobGraph sha g) s = Inr (graphBytes g, s)"
    using encodes_graph [OF recorded_schemas(5) [OF b(2)]] by (simp add: historyTx_Inr)
  have intents: "historyTx (buildPolicyEvaluationJobOutboxIntents sha (Some (last gs)) g) s =
      Inr (jobIntents (Some (rg_snapshot (last gs))) (rg_snapshot g), s)"
    using b(2) by (simp add: historyTx_Inr build_iff)
  have "readPolicyJobLastHistoryOnClient sha db (pj_scope (ps_job (rg_snapshot g))) g t = Inr (e, t)"
    using last_history_read [OF next_history free serves] by simp
  moreover have "verifyPolicyJobIntentsOnClient sha db g t = Inr ((), t)"
    using intents_verified [of sha "gs @ [g]", OF _ serves] b(2) by simp
  ultimately show ?thesis
    using a entry graph intents stored by (simp add: appendOnClient_def historyTx_def bindTx_run pureTx_def)
qed

lemma settle_run:
  assumes "recordedHistory sha es gs" "collisionFree sha (es @ [e]) (gs @ [g])"
    and a: "appendPolicyEvaluationJobHistory sha (Some (last gs)) (Some (last es)) g op = Inr e"
    and "db (AppendHistory e (entryBytes (en_definition e)) (graphBytes g)
        (jobIntents (Some (rg_snapshot (last gs))) (rg_snapshot g))) s = Inr (rows, t)"
    and "servesHistory sha db (es @ [e]) (gs @ [g]) t"
  shows "settleMutation sha db (last gs) (last es) g (Inr op) s = Inr (g, t)"
proof -
  have "pj_stateVersion (ps_job (rg_snapshot g)) \<noteq> pj_stateVersion (ps_job (rg_snapshot (last gs)))"
  proof (rule append_Some [OF a])
    assume "continuesGraph (last gs) (Some (sha (graphBytes (last gs)))) (last es) g"
    then show ?thesis by (simp add: continuesGraph_def Let_def)
  qed
  then show ?thesis using append_run [OF assms] by (simp add: settleMutation_def bindTx_run pureTx_def)
qed

lemma inspect_run: "graphOf sha scope jobId g \<Longrightarrow> inspectStoredPolicyJob sha (StoredGraph g) scope jobId t = Inr (g, t)"
  by (simp add: inspect_Inr graphOf_def)

lemma transact_run:
  assumes "EvidenceScopeSchema scope" "db (BeginTransaction (Some scope)) s = Inr (rows, t)" "work scope t = Inr (x, u)"
    "db CommitTransaction u = Inr (rows', v)"
  shows "transact db scope work s = Inr (x, v)"
  using assms by (simp add: transact_def bindTx_run pureTx_def)

lemma honest_read:
  assumes r: "recordedHistory sha es gs" "collisionFree sha es gs" and job: "graphOf sha scope jobId (last gs)" "OpaqueIdSchema jobId"
    and opened: "db (BeginTransaction (Some scope)) s = Inr (rows, t)" "servesHistory sha db es gs t"
    and read: "db (ReadJob jobId) t = Inr ([StoredGraph (last gs)], t)" "db CommitTransaction t = Inr (rows', u)"
  shows "findJob sha db scope jobId s = Inr (Some (last gs), u)"
proof -
  have scope: "pj_scope (ps_job (rg_snapshot (last gs))) = scope" "EvidenceScopeSchema scope"
    using job(1) recorded_schemas(1) by (auto simp: graphOf_def)
  note run = bindTx_run readValue_Inr inspect_run pureTx_def last_history_read [OF r opened(2), unfolded scope(1)]
    intents_verified [OF recorded_last(2) [OF r(1)] opened(2)]
  have "readPostgresPolicyEvaluationJobOnClient sha db scope jobId t = Inr (Some (last gs), t)"
    using scope(2) job read(1) by (simp add: readPostgresPolicyEvaluationJobOnClient_def inspectOwningRead_def run)
  then show ?thesis using job(2) transact_run [OF scope(2) opened(1) _ read(2)] by (simp add: findJob_def)
qed

lemma honest_cancel:
  assumes r: "recordedHistory sha es gs" "collisionFree sha (es @ [e]) (gs @ [g])"
    and job: "graphOf sha scope jobId (last gs)" "OpaqueIdSchema jobId" "OpaqueIdSchema cancellationId" "OpaqueIdSchema actor"
    and opened: "db (BeginTransaction (Some scope)) s = Inr (rows, t)" "servesHistory sha db es gs t"
    and cancel: "db (PrepareMutation jobId) t = Inr ([StoredGraph (last gs)], t)"
      "db (CancelJob jobId cancellationId actor reason) t = Inr ([StoredGraph g], t)"
      "ps_cancellation (rg_snapshot g) = Some intent" "graphOf sha scope jobId g"
      "appendPolicyEvaluationJobHistory sha (Some (last gs)) (Some (last es)) g (OpCancel intent) = Inr e"
    and commit: "db (AppendHistory e (entryBytes (en_definition e)) (graphBytes g)
        (jobIntents (Some (rg_snapshot (last gs))) (rg_snapshot g))) t = Inr (rows', v)"
      "servesHistory sha db (es @ [e]) (gs @ [g]) v" "db CommitTransaction v = Inr (rows'', w)"
  shows "cancelJob sha db scope jobId cancellationId actor reason s = Inr (g, w)"
proof -
  have free: "collisionFree sha es gs" by (rule collisionFree_butlast [OF r(2)]) (simp add: recordedHistory_shape [OF r(1)])
  have scope: "pj_scope (ps_job (rg_snapshot (last gs))) = scope" "EvidenceScopeSchema scope"
    using job(1) recorded_schemas(1) by (auto simp: graphOf_def)
  note run = bindTx_run readValue_Inr inspect_run last_history_read [OF r(1) free opened(2), unfolded scope(1)]
    intents_verified [OF recorded_last(2) [OF r(1)] opened(2)] settle_run [OF r cancel(5) commit(1,2)]
  show ?thesis
    unfolding cancelJob_def using job(2-4)
    by (simp, intro transact_run [OF scope(2) opened(1) _ commit(3)]) (simp add: run job(1) cancel)
qed

section \<open>A concrete store\<close>

text \<open>A store that holds the queued job, and its cancellation once it is asked to cancel.\<close>

definition sampleHead :: "HistoryEntry list \<Rightarrow> HistoryHead" where
  "sampleHead es = projr (policyEvaluationJobHistoryHead sampleDigest (last es))"

definition sampleStore :: "unit database" where
  "sampleStore statement s = Inr
     (case statement of
        PrepareMutation _ \<Rightarrow> [StoredGraph createdGraph]
      | ReadJob _ \<Rightarrow> [StoredGraph createdGraph]
      | CancelJob _ _ _ _ \<Rightarrow> [StoredGraph cancelledGraph]
      | ReadHistoryHeadAt _ n \<Rightarrow> [StoredHead (sampleHead (take (Suc (nat n)) [createdEntry, cancelledEntry]))]
      | ReadHistoryPage head k \<Rightarrow> [StoredPage \<lparr>hp_head = head, hp_pageIndex = k,
          hp_entries = (if head = sampleHead [createdEntry] then [createdEntry] else [createdEntry, cancelledEntry])\<rparr>]
      | ReadIntentStatus _ _ _ _ \<Rightarrow> [StoredText ''canonical'']
      | _ \<Rightarrow> [], s)"

lemma sample_first: "recordedHistory sampleDigest [createdEntry] [createdGraph]"
  by (rule recorded_created [OF created_entry(1)])

lemma sample_head:
  "policyEvaluationJobHistoryHead sampleDigest createdEntry = Inr h \<Longrightarrow> h = sampleHead [createdEntry]"
  "policyEvaluationJobHistoryHead sampleDigest cancelledEntry = Inr h' \<Longrightarrow> h' = sampleHead [createdEntry, cancelledEntry] \<and> h' \<noteq> sampleHead [createdEntry]"
proof -
  show "policyEvaluationJobHistoryHead sampleDigest createdEntry = Inr h \<Longrightarrow> h = sampleHead [createdEntry]"
    by (simp add: sampleHead_def)
  have free: "collisionFree sampleDigest [createdEntry] [createdGraph]" by (simp add: collisionFree_def)
  assume "policyEvaluationJobHistoryHead sampleDigest cancelledEntry = Inr h'"
  then show "h' = sampleHead [createdEntry, cancelledEntry] \<and> h' \<noteq> sampleHead [createdEntry]"
    using page_accepted [OF sample_recorded sample_collisionFree, of 0] page_accepted [OF sample_first free, of 0]
    by (auto simp: sampleHead_def)
qed

lemma sample_serves:
  "servesHistory sampleDigest sampleStore [createdEntry] [createdGraph] s"
  "servesHistory sampleDigest sampleStore [createdEntry, cancelledEntry] [createdGraph, cancelledGraph] s"
  using sample_head by (auto simp: servesHistory_def Let_def sampleStore_def)

lemma sample_graphs:
  "graphOf sampleDigest sampleScope ''job00001'' createdGraph" "graphOf sampleDigest sampleScope ''job00001'' cancelledGraph"
  "ps_cancellation (rg_snapshot cancelledGraph) = Some sampleIntent"
proof -
  have "graphRecorded sampleDigest cancelledGraph" using cancelled_entry(3) by (simp add: entryBinds_def)
  then show "graphOf sampleDigest sampleScope ''job00001'' createdGraph" "graphOf sampleDigest sampleScope ''job00001'' cancelledGraph"
    "ps_cancellation (rg_snapshot cancelledGraph) = Some sampleIntent"
    using created_recorded by (simp_all add: graphOf_def createdGraph_def cancelledGraph_def queuedGraph_def queuedJob_def terminate_def advanceJob_def)
qed

lemma sample_store_answers:
  "sampleStore (BeginTransaction x) s = Inr ([], s)" "sampleStore CommitTransaction s = Inr ([], s)"
  "sampleStore (ReadJob j) s = Inr ([StoredGraph createdGraph], s)" "sampleStore (PrepareMutation j) s = Inr ([StoredGraph createdGraph], s)"
  "sampleStore (CancelJob j c a r) s = Inr ([StoredGraph cancelledGraph], s)" "sampleStore (AppendHistory e b b' is) s = Inr ([], s)"
  by (simp_all add: sampleStore_def)

lemma sample_cancelled:
  "cancelJob sampleDigest sampleStore sampleScope ''job00001'' ''cancel001'' ''operator1'' OperatorRequested () = Inr (cancelledGraph, ())"
proof -
  have "OpaqueIdSchema ''job00001''" "OpaqueIdSchema ''cancel001''" "OpaqueIdSchema ''operator1''" by code_simp+
  then show ?thesis
    using honest_cancel [OF sample_first, of cancelledEntry cancelledGraph sampleScope "''job00001''" "''cancel001''" "''operator1''" sampleStore]
      sample_graphs sample_serves cancelled_entry(1) sample_collisionFree
    by (simp add: sample_store_answers)
qed

section \<open>Properties\<close>

text \<open>
  C19. The repositories accept only requested scheduler transitions. Nothing is assumed of the database.
  Whenever a claim, start, heartbeat, interruption, reclaim, reservation, cancellation or recovery returns a
  graph, that graph is a valid, digest-bound graph of the job that was asked for in the scope that was
  asked for, the database had presented such a graph before, and either the two are the same or the new one
  was appended to the history under the operation that was asked for. Unless the digest confuses the
  appended graph with the one graph the scheduler's own code gives for that operation, the two are the same
  snapshot, one transition of the scheduler away.
\<close>

theorem store_returns_requested_transition:
  assumes "runStore sha db scope request s = Inr (g, t)"
  shows "graphOf sha scope (requestJob request) g \<and>
    (\<exists>p. answered db (requestReads request) [StoredGraph p] \<and> graphOf sha scope (requestJob request) p \<and>
       (rg_snapshot g = rg_snapshot p \<or>
        (\<exists>operation. requested request g operation \<and> recordedMove sha db p g operation \<and>
           (linkCollisionFree sha p operation g \<longrightarrow> policyStep (rg_snapshot p) (rg_snapshot g) \<and>
              (\<exists>h. rederive p (pj_updatedAt (ps_job (rg_snapshot g))) operation = Inr h \<and> rg_snapshot h = rg_snapshot g)))))"
  using yieldsD [OF runStore_move assms] recorded_move_step unfolding storeMove_def by blast

theorem store_returns_requested_transition_witness:
  "\<exists>p. answered sampleStore (PrepareMutation ''job00001'') [StoredGraph p] \<and>
     (\<exists>operation. recordedMove sampleDigest sampleStore p cancelledGraph operation)"
proof -
  have run: "runStore sampleDigest sampleStore sampleScope (CancelRequest ''job00001'' ''cancel001'' ''operator1'' OperatorRequested) () =
      Inr (cancelledGraph, ())"
    using sample_cancelled by simp
  obtain p where p: "answered sampleStore (PrepareMutation ''job00001'') [StoredGraph p]"
    "rg_snapshot cancelledGraph = rg_snapshot p \<or> (\<exists>operation. recordedMove sampleDigest sampleStore p cancelledGraph operation)"
    using store_returns_requested_transition [OF run] by auto
  then have "p = createdGraph" by (auto simp: answered_def sample_store_answers)
  then show ?thesis using p cancelled_valid(2) by auto
qed

text \<open>
  C20. An honest store is never refused. Let a store keep a recorded history, and let the digest not collide
  between a graph recorded in it (or the cancelled graph) and the graph re-derived for its entry
  (\<open>collisionFree\<close>: one pair of graphs per entry, nothing about any other bytes). Then reading the job returns the last graph. Let the cancellation that the store answers be one the
  scheduler derives from the last graph and let the store keep the entry it is given: then the
  cancellation commits and returns that graph.
\<close>

theorem honest_store_served:
  assumes r: "recordedHistory sha es gs" "collisionFree sha (es @ [e]) (gs @ [g])"
    and job: "graphOf sha scope jobId (last gs)" "OpaqueIdSchema jobId" "OpaqueIdSchema cancellationId" "OpaqueIdSchema actor"
    and opened: "db (BeginTransaction (Some scope)) s = Inr (rows, t)" "servesHistory sha db es gs t"
    and read: "db (ReadJob jobId) t = Inr ([StoredGraph (last gs)], t)" "db CommitTransaction t = Inr (rows', u)"
    and cancel: "db (PrepareMutation jobId) t = Inr ([StoredGraph (last gs)], t)"
      "db (CancelJob jobId cancellationId actor reason) t = Inr ([StoredGraph g], t)"
      "ps_cancellation (rg_snapshot g) = Some intent" "graphOf sha scope jobId g"
      "appendPolicyEvaluationJobHistory sha (Some (last gs)) (Some (last es)) g (OpCancel intent) = Inr e"
    and commit: "db (AppendHistory e (entryBytes (en_definition e)) (graphBytes g)
        (jobIntents (Some (rg_snapshot (last gs))) (rg_snapshot g))) t = Inr (rows'', v)"
      "servesHistory sha db (es @ [e]) (gs @ [g]) v" "db CommitTransaction v = Inr (r4, w)"
  shows "findJob sha db scope jobId s = Inr (Some (last gs), u) \<and>
    cancelJob sha db scope jobId cancellationId actor reason s = Inr (g, w)"
proof
  have "collisionFree sha es gs" by (rule collisionFree_butlast [OF r(2)]) (simp add: recordedHistory_shape [OF r(1)])
  then show "findJob sha db scope jobId s = Inr (Some (last gs), u)"
    by (rule honest_read [OF r(1) _ job(1,2) opened read])
  show "cancelJob sha db scope jobId cancellationId actor reason s = Inr (g, w)"
    by (rule honest_cancel [OF r job opened cancel commit])
qed

theorem honest_store_served_witness:
  "findJob sampleDigest sampleStore sampleScope ''job00001'' () = Inr (Some createdGraph, ()) \<and>
   cancelJob sampleDigest sampleStore sampleScope ''job00001'' ''cancel001'' ''operator1'' OperatorRequested () = Inr (cancelledGraph, ())"
proof -
  have ids: "OpaqueIdSchema ''job00001''" "OpaqueIdSchema ''cancel001''" "OpaqueIdSchema ''operator1''" by code_simp+
  show ?thesis
    using honest_store_served [OF sample_first _ _ ids, of cancelledEntry cancelledGraph sampleScope sampleStore "()" "[]" "()"]
      sample_graphs sample_serves cancelled_entry(1) sample_collisionFree
    by (simp add: sample_store_answers)
qed

end
