(* ===== verification/Identity.thy ===== *)
theory Identity
  imports Primitives
begin

text \<open>
  Principals and their authority: the contract \<open>packages/contracts/src/identity.ts\<close>, the access checks of
  \<open>packages/core/src/auth/authorization.ts\<close>, the delegation rules of
  \<open>packages/core/src/auth/workload-delegation.ts\<close> and the worker boundary of
  \<open>packages/core/src/policy/policy-evaluation-worker-authorization.ts\<close>.

  The ISO date-time format of the schema library is the parameter \<open>isoDatetime\<close>; the recorded instant of
  authentication is only checked, never read.
\<close>

section \<open>The contract\<close>

datatype PrincipalType = UserPrincipal | WorkloadPrincipal | ServicePrincipal

datatype AuthenticationMethod = DevelopmentMethod | ApiKeyMethod | OidcMethod | ServiceTokenMethod

datatype Role = OwnerRole | AdminRole | MemberRole | ViewerRole | IngestRole

definition CAPABILITIES :: "string list" where
  "CAPABILITIES =
     [''project:read'', ''project:manage'', ''evidence:ingest'', ''evidence:read'', ''artifact:write'',
      ''artifact:read'', ''artifact:read:restricted'', ''artifact:delete'', ''dataset:read'', ''dataset:manage'',
      ''replay:read'', ''replay:run'', ''replay:cancel'', ''replay:manage'', ''evaluation:read'',
      ''evaluation:run'', ''evaluation:model:run'', ''evaluation:human:review'', ''evaluation:manage'',
      ''comparison:read'', ''comparison:manage'', ''release:read'', ''release:manage'', ''policy:read'',
      ''policy:author'', ''policy:evaluate'', ''policy:evaluation:execute'', ''policy:evaluation:cancel'',
      ''approval:decide'', ''release:selection:manage'', ''approval:authority:manage'',
      ''release:decision:publish'', ''audit:read'', ''identity:read'', ''identity:manage'']"

definition WORKLOAD_DELEGABLE_CAPABILITIES :: "string list" where
  "WORKLOAD_DELEGABLE_CAPABILITIES =
     [''project:read'', ''evidence:ingest'', ''evidence:read'', ''artifact:write'', ''artifact:read'',
      ''dataset:read'', ''replay:read'', ''replay:run'', ''replay:cancel'', ''evaluation:read'',
      ''evaluation:run'', ''evaluation:model:run'', ''comparison:read'', ''release:read'', ''policy:read'',
      ''policy:evaluate'', ''policy:evaluation:cancel'']"

record ProjectResourceScope =
  prs_environmentIds :: "string list option"
  prs_projectId :: string

definition ProjectResourceScopeSchema :: "ProjectResourceScope \<Rightarrow> bool" where
  "ProjectResourceScopeSchema p \<longleftrightarrow>
     optional (\<lambda>es. list_all OpaqueIdSchema es \<and> 1 \<le> length es \<and> length es \<le> 100 \<and> distinct es)
       (prs_environmentIds p) \<and>
     OpaqueIdSchema (prs_projectId p)"

datatype ResourceScope = TenantScope | RestrictedScope "ProjectResourceScope list"

fun ResourceScopeSchema :: "ResourceScope \<Rightarrow> bool" where
  "ResourceScopeSchema TenantScope = True"
| "ResourceScopeSchema (RestrictedScope projects) =
     (list_all ProjectResourceScopeSchema projects \<and> 1 \<le> length projects \<and> length projects \<le> 100 \<and>
      distinct (map prs_projectId projects))"

record AuthenticationContext =
  ac_authenticatedAt :: string
  ac_credentialId :: "string option"
  ac_method :: AuthenticationMethod

definition AuthenticationContextSchema :: "(string \<Rightarrow> bool) \<Rightarrow> AuthenticationContext \<Rightarrow> bool" where
  "AuthenticationContextSchema isoDatetime a \<longleftrightarrow>
     isoDatetime (ac_authenticatedAt a) \<and> optional OpaqueIdSchema (ac_credentialId a) \<and>
     \<not> (ac_method a \<noteq> DevelopmentMethod \<and> ac_credentialId a = None)"

record PrincipalContext =
  pc_authentication :: AuthenticationContext
  pc_capabilities :: "string list"
  pc_principalId :: string
  pc_principalType :: PrincipalType
  pc_requestId :: js_text
  pc_resourceScope :: ResourceScope
  pc_roles :: "Role list"
  pc_tenantId :: string

definition PrincipalContextSchema :: "(string \<Rightarrow> bool) \<Rightarrow> PrincipalContext \<Rightarrow> bool" where
  "PrincipalContextSchema isoDatetime p \<longleftrightarrow>
     AuthenticationContextSchema isoDatetime (pc_authentication p) \<and>
     list_all (\<lambda>c. c \<in> set CAPABILITIES) (pc_capabilities p) \<and>
     length (pc_capabilities p) \<le> length CAPABILITIES \<and>
     OpaqueIdSchema (pc_principalId p) \<and>
     8 \<le> length (pc_requestId p) \<and> length (pc_requestId p) \<le> 128 \<and>
     ResourceScopeSchema (pc_resourceScope p) \<and>
     1 \<le> length (pc_roles p) \<and> length (pc_roles p) \<le> 5 \<and>
     OpaqueIdSchema (pc_tenantId p) \<and>
     distinct (pc_capabilities p) \<and> distinct (pc_roles p)"

section \<open>Access checks\<close>

datatype access_error =
    MissingCapability string
  | ProjectForbidden string
  | EnvironmentForbidden string
  | DelegationRequiresUser
  | DelegatedCapabilitiesInvalid
  | DelegatedCapabilityNotHeld
  | DelegatedScopeBroader
  | WorkerRequiresServiceToken
  | WorkerTenantMismatch
  | AccessZodError

type_synonym access_result = "(access_error, unit) result"

definition requireCapability :: "PrincipalContext \<Rightarrow> string \<Rightarrow> access_result" where
  "requireCapability actor requiredCapability =
     (if requiredCapability \<notin> set (pc_capabilities actor) then Inl (MissingCapability requiredCapability)
      else Inr ())"

definition requireProjectAccess :: "ResourceScope \<Rightarrow> string \<Rightarrow> access_result" where
  "requireProjectAccess resourceScope project =
     (case resourceScope of
        RestrictedScope projects \<Rightarrow>
          if \<not> list_ex (\<lambda>p. prs_projectId p = project) projects then Inl (ProjectForbidden project) else Inr ()
      | TenantScope \<Rightarrow> Inr ())"

definition requireEnvironmentAccess :: "ResourceScope \<Rightarrow> string \<Rightarrow> string \<Rightarrow> access_result" where
  "requireEnvironmentAccess resourceScope project environment =
     (case requireProjectAccess resourceScope project of Inl e \<Rightarrow> Inl e
      | Inr _ \<Rightarrow>
      (case resourceScope of
         TenantScope \<Rightarrow> Inr ()
       | RestrictedScope projects \<Rightarrow>
           (case find (\<lambda>p. prs_projectId p = project) projects of
              None \<Rightarrow> Inr ()
            | Some projectScope \<Rightarrow>
                (case prs_environmentIds projectScope of
                   None \<Rightarrow> Inr ()
                 | Some es \<Rightarrow>
                     if environment \<notin> set es then Inl (EnvironmentForbidden environment) else Inr ()))))"

section \<open>Delegation\<close>

definition canDelegateResourceScope :: "ResourceScope \<Rightarrow> ResourceScope \<Rightarrow> bool" where
  "canDelegateResourceScope issuerScope requestedScope =
     (case issuerScope of
        TenantScope \<Rightarrow> True
      | RestrictedScope issuerProjects \<Rightarrow>
          (case requestedScope of
             TenantScope \<Rightarrow> False
           | RestrictedScope requestedProjects \<Rightarrow>
               list_all (\<lambda>requestedProject.
                 case find (\<lambda>p. prs_projectId p = prs_projectId requestedProject) issuerProjects of
                   None \<Rightarrow> False
                 | Some issuerProject \<Rightarrow>
                     (case prs_environmentIds issuerProject of
                        None \<Rightarrow> True
                      | Some es \<Rightarrow>
                          (case prs_environmentIds requestedProject of
                             None \<Rightarrow> False
                           | Some requested \<Rightarrow> list_all (\<lambda>e. e \<in> set es) requested))) requestedProjects))"

definition requireWorkloadDelegation :: "PrincipalContext \<Rightarrow> string list \<Rightarrow> ResourceScope \<Rightarrow> access_result" where
  "requireWorkloadDelegation issuer requestedCapabilities requestedScope =
     (case requireCapability issuer ''identity:manage'' of Inl e \<Rightarrow> Inl e
      | Inr _ \<Rightarrow>
      if pc_principalType issuer \<noteq> UserPrincipal then Inl DelegationRequiresUser
      else if requestedCapabilities = [] \<or> \<not> distinct requestedCapabilities \<or>
              list_ex (\<lambda>c. c \<notin> set WORKLOAD_DELEGABLE_CAPABILITIES) requestedCapabilities
      then Inl DelegatedCapabilitiesInvalid
      else if list_ex (\<lambda>c. c \<notin> set (pc_capabilities issuer)) requestedCapabilities
      then Inl DelegatedCapabilityNotHeld
      else if \<not> canDelegateResourceScope (pc_resourceScope issuer) requestedScope then Inl DelegatedScopeBroader
      else Inr ())"

section \<open>Policy workers\<close>

definition requirePolicyEvaluationExecution ::
    "(string \<Rightarrow> bool) \<Rightarrow> PrincipalContext \<Rightarrow> EvidenceScope \<Rightarrow> access_result" where
  "requirePolicyEvaluationExecution isoDatetime actor scope =
     (if \<not> PrincipalContextSchema isoDatetime actor then Inl AccessZodError
      else case requireCapability actor ''policy:evaluation:execute'' of Inl e \<Rightarrow> Inl e
      | Inr _ \<Rightarrow>
      if pc_principalType actor \<noteq> ServicePrincipal \<or>
         ac_method (pc_authentication actor) \<noteq> ServiceTokenMethod
      then Inl WorkerRequiresServiceToken
      else if \<not> EvidenceScopeSchema scope then Inl AccessZodError
      else if pc_tenantId actor \<noteq> tenantId scope then Inl WorkerTenantMismatch
      else requireEnvironmentAccess (pc_resourceScope actor) (projectId scope) (environmentId scope))"

section \<open>What a scope reaches\<close>

text \<open>The environments a resource scope reaches, independently of how the checks walk it.\<close>

fun reaches :: "ResourceScope \<Rightarrow> string \<Rightarrow> string \<Rightarrow> bool" where
  "reaches TenantScope p e = True"
| "reaches (RestrictedScope projects) p e =
     (\<exists>x \<in> set projects. prs_projectId x = p \<and> (case prs_environmentIds x of None \<Rightarrow> True | Some es \<Rightarrow> e \<in> set es))"

lemma find_project:
  "distinct (map prs_projectId projects) \<Longrightarrow>
   find (\<lambda>x. prs_projectId x = p) projects = Some y \<longleftrightarrow> y \<in> set projects \<and> prs_projectId y = p"
  by (induction projects) (auto simp: image_iff)

lemma find_no_project: "find (\<lambda>x. prs_projectId x = p) projects = None \<longleftrightarrow> p \<notin> prs_projectId ` set projects"
  by (auto simp: find_None_iff)

lemma reaches_project:
  assumes "distinct (map prs_projectId projects)" "x \<in> set projects"
  shows "reaches (RestrictedScope projects) (prs_projectId x) e \<longleftrightarrow>
    (case prs_environmentIds x of None \<Rightarrow> True | Some es \<Rightarrow> e \<in> set es)"
proof -
  have "y = x" if "y \<in> set projects" "prs_projectId y = prs_projectId x" for y
    using that assms by (auto simp: distinct_map dest: inj_onD)
  then show ?thesis using assms(2) by (auto split: option.splits)
qed

lemma environment_access_iff:
  assumes "ResourceScopeSchema scope"
  shows "requireEnvironmentAccess scope p e = Inr () \<longleftrightarrow> reaches scope p e"
proof (cases scope)
  case (RestrictedScope projects)
  then have d: "distinct (map prs_projectId projects)" using assms by simp
  show ?thesis
  proof (cases "find (\<lambda>x. prs_projectId x = p) projects")
    case None
    then show ?thesis
      using RestrictedScope by (auto simp: requireEnvironmentAccess_def requireProjectAccess_def find_no_project list_ex_iff image_iff)
  next
    case (Some y)
    then have y: "y \<in> set projects" "prs_projectId y = p" using find_project [OF d] by auto
    then have "reaches scope p e \<longleftrightarrow> (case prs_environmentIds y of None \<Rightarrow> True | Some es \<Rightarrow> e \<in> set es)"
      using reaches_project [OF d y(1)] RestrictedScope by blast
    moreover have "list_ex (\<lambda>x. prs_projectId x = p) projects" using y by (auto simp: list_ex_iff)
    ultimately show ?thesis
      using RestrictedScope Some
      by (simp add: requireEnvironmentAccess_def requireProjectAccess_def split: option.split)
  qed
qed (simp add: requireEnvironmentAccess_def requireProjectAccess_def)

lemma fresh_string: "\<exists>s :: string. s \<notin> set xs"
  by (rule ex_new_if_finite) (simp_all add: infinite_UNIV_listI)

lemma delegation_iff_contained:
  assumes "ResourceScopeSchema issuer" "ResourceScopeSchema requested"
  shows "canDelegateResourceScope issuer requested \<longleftrightarrow> (\<forall>p e. reaches requested p e \<longrightarrow> reaches issuer p e)"
proof (cases issuer)
  case i: (RestrictedScope ips)
  then have di: "distinct (map prs_projectId ips)" using assms(1) by simp
  show ?thesis
  proof (cases requested)
    case TenantScope
    obtain p where "p \<notin> set (map prs_projectId ips)" using fresh_string by blast
    then have "\<not> reaches issuer p e" for e using i by auto
    then show ?thesis using TenantScope i by (auto simp: canDelegateResourceScope_def)
  next
    case r: (RestrictedScope rps)
    then have dr: "distinct (map prs_projectId rps)" using assms(2) by simp
    have one: "(case find (\<lambda>p. prs_projectId p = prs_projectId x) ips of None \<Rightarrow> False
        | Some y \<Rightarrow> (case prs_environmentIds y of None \<Rightarrow> True
          | Some es \<Rightarrow> (case prs_environmentIds x of None \<Rightarrow> False | Some rs \<Rightarrow> list_all (\<lambda>e. e \<in> set es) rs))) \<longleftrightarrow>
        (\<forall>e. reaches requested (prs_projectId x) e \<longrightarrow> reaches issuer (prs_projectId x) e)" if x: "x \<in> set rps" for x
    proof -
      have some: "\<exists>e. case prs_environmentIds x of None \<Rightarrow> True | Some es \<Rightarrow> e \<in> set es"
      proof (cases "prs_environmentIds x")
        case (Some es)
        have "ProjectResourceScopeSchema x" using assms(2) r x by (simp add: list_all_iff)
        then have "es \<noteq> []" using Some by (auto simp: ProjectResourceScopeSchema_def)
        then show ?thesis using Some by (auto simp: neq_Nil_conv)
      qed simp
      note rx = reaches_project [OF dr x] and here = r i
      show ?thesis
      proof (cases "find (\<lambda>p. prs_projectId p = prs_projectId x) ips")
        case None
        then have "\<not> reaches issuer (prs_projectId x) e" for e using i by (auto simp: find_no_project image_iff)
        then show ?thesis using None some rx r by auto
      next
        case (Some y)
        then have y: "y \<in> set ips" "prs_projectId y = prs_projectId x" using find_project [OF di] by auto
        have iy: "reaches issuer (prs_projectId x) e \<longleftrightarrow> (case prs_environmentIds y of None \<Rightarrow> True | Some es \<Rightarrow> e \<in> set es)" for e
          using reaches_project [OF di y(1)] y(2) i by simp
        show ?thesis
          using Some fresh_string unfolding iy r rx by (auto simp: list_all_iff split: option.splits)
      qed
    qed
    have "(\<forall>p e. reaches requested p e \<longrightarrow> reaches issuer p e) \<longleftrightarrow>
        (\<forall>x \<in> set rps. \<forall>e. reaches requested (prs_projectId x) e \<longrightarrow> reaches issuer (prs_projectId x) e)"
      using r by auto
    then show ?thesis using i r one by (simp add: canDelegateResourceScope_def list_all_iff)
  qed
qed (simp add: canDelegateResourceScope_def)

end
