(* ===== verification/Policy_Requests.thy ===== *)
theory Policy_Requests
  imports Policy_Repository_Safety Identity
begin

text \<open>
  The requests of \<open>packages/core/src/policy/policy-evaluation-job-use-cases.ts\<close>: enqueue, read, history head
  and page, cancel, claim and the worker mutations. Each authorizes the principal for the route, asks a
  repository and checks what the repository returned. The repository is the port of
  \<open>policy-evaluation-job-repository.ts\<close>, a record of transactions that answer with unchecked values.
\<close>

section \<open>Ports and errors\<close>

record 's JobRepository =
  jr_findJob :: "EvidenceScope \<Rightarrow> string \<Rightarrow> ('s, StoredValue) transaction"
  jr_findHistoryHead :: "EvidenceScope \<Rightarrow> string \<Rightarrow> ('s, StoredValue) transaction"
  jr_readHistoryPage :: "HistoryHead \<Rightarrow> int \<Rightarrow> ('s, StoredValue) transaction"
  jr_createJob :: "PolicyEvaluationRequest \<Rightarrow> string \<Rightarrow> ('s, bool option \<times> StoredValue) transaction"
  jr_cancelJob :: "EvidenceScope \<Rightarrow> string \<Rightarrow> string \<Rightarrow> string \<Rightarrow> PolicyCancellationReason \<Rightarrow> ('s, StoredValue) transaction"
  jr_claimJob :: "EvidenceScope \<Rightarrow> string \<Rightarrow> string \<Rightarrow> string \<Rightarrow> string \<Rightarrow> ('s, StoredValue) transaction"
  jr_heartbeatJob :: "EvidenceScope \<Rightarrow> PolicyEvaluationWorkerMutationFence \<Rightarrow> ('s, StoredValue) transaction"
  jr_reserveUsage :: "EvidenceScope \<Rightarrow> PolicyEvaluationWorkerMutationFence \<Rightarrow> PolicyEvaluationUsage \<Rightarrow> ('s, StoredValue) transaction"
  jr_interruptJob ::
    "EvidenceScope \<Rightarrow> PolicyEvaluationWorkerMutationFence \<Rightarrow> PolicyEvaluationRetryableError \<Rightarrow> ('s, StoredValue) transaction"

datatype request_error =
    RequestZodError
  | RequestDateError
  | RequestAccess access_error
  | RequestStore store_error
  | RequestHistory history_error
  | RequestHeadMalformed
  | RequestHeadSubstituted
  | RequestHeadForbidden
  | RequestPageMalformed
  | RequestPageSubstituted
  | RequestCancellationConflict
  | RequestIntentSubstituted
  | RequestWorkerSubstituted
  | RequestFenceForbidden
  | RequestReasonInvalid
  | RequestAttemptSubstituted

type_synonym ('s, 'a) request = "('s, request_error, 'a) effect"

definition liftStore :: "('s, 'a) transaction \<Rightarrow> ('s, 'a) request" where
  "liftStore m s = (case m s of Inl e \<Rightarrow> Inl (RequestStore e) | Inr r \<Rightarrow> Inr r)"

definition liftResult :: "('e \<Rightarrow> request_error) \<Rightarrow> ('e, 'a) result \<Rightarrow> ('s, 'a) request" where
  "liftResult f r s = (case r of Inl e \<Rightarrow> Inl (f e) | Inr x \<Rightarrow> Inr (x, s))"

section \<open>Routes\<close>

record JobRoute =
  rt_principal :: PrincipalContext
  rt_projectId :: string
  rt_environmentId :: string

definition routeScope :: "JobRoute \<Rightarrow> EvidenceScope" where
  "routeScope command =
     \<lparr>environmentId = rt_environmentId command, projectId = rt_projectId command, tenantId = pc_tenantId (rt_principal command)\<rparr>"

definition authorizedScope :: "(string \<Rightarrow> bool) \<Rightarrow> JobRoute \<Rightarrow> string \<Rightarrow> ('s, EvidenceScope) request" where
  "authorizedScope isoDatetime command capability =
     (if \<not> PrincipalContextSchema isoDatetime (rt_principal command) then throwTx RequestZodError
      else bindTx (liftResult RequestAccess (requireCapability (rt_principal command) capability)) (\<lambda>_.
        bindTx (liftResult RequestAccess (requireEnvironmentAccess (pc_resourceScope (rt_principal command))
            (rt_projectId command) (rt_environmentId command))) (\<lambda>_.
        if \<not> EvidenceScopeSchema (routeScope command) then throwTx RequestZodError
        else pureTx (routeScope command))))"

definition returnedJob :: "digest \<Rightarrow> StoredValue \<Rightarrow> EvidenceScope \<Rightarrow> string option \<Rightarrow> ('s, RetainedJobGraph) request" where
  "returnedJob sha raw scope jobId =
     (case raw of
        StoredGraph g \<Rightarrow>
          if \<not> PolicyEvaluationJobSnapshotSchema (rg_snapshot g) then throwTx (RequestHistory JobGraphInvalid)
          else
            let job = ps_job (rg_snapshot g) in
            liftResult RequestHistory (validatePolicyEvaluationJobSnapshotRecord sha scope
              \<lparr>jobref_jobId = (case jobId of None \<Rightarrow> pj_jobId job | Some i \<Rightarrow> i),
               jobref_definitionSha256 = pj_definitionSha256 job\<rparr> g)
      | _ \<Rightarrow> throwTx (RequestHistory JobGraphInvalid))"

section \<open>Control requests\<close>

definition enqueuePolicyEvaluationJob ::
    "(string \<Rightarrow> bool) \<Rightarrow> digest \<Rightarrow> 's JobRepository \<Rightarrow> int \<Rightarrow> string \<Rightarrow> JobRoute \<Rightarrow> PolicyEvaluationRequestDefinition \<Rightarrow>
     ('s, bool \<times> RetainedJobGraph) request" where
  "enqueuePolicyEvaluationJob isoDatetime sha repository now newJobId command d =
     bindTx (authorizedScope isoDatetime command ''policy:evaluate'') (\<lambda>scope.
     if \<not> PolicyEvaluationRequestDefinitionSchema d then throwTx RequestZodError
     else bindTx (liftResult (\<lambda>e. case e of DateRangeError \<Rightarrow> RequestDateError | NotCanonical \<Rightarrow> RequestZodError) (isoTimestamp now)) (\<lambda>createdAt.
     bindTx (liftResult RequestHistory (digestPolicyEvaluationRequestDefinition sha scope d)) (\<lambda>digest.
     let request = \<lparr>prq_candidate = prd_candidate d, prq_createdAt = createdAt,
           prq_createdByPrincipalId = pc_principalId (rt_principal command), prq_definitionSha256 = digest,
           prq_evaluationRequestId = prd_evaluationRequestId d, prq_evaluationTime = prd_evaluationTime d,
           prq_limits = prd_limits d, prq_policy = prd_policy d, prq_scope = scope\<rparr>
     in
     if \<not> PolicyEvaluationRequestSchema request \<or> \<not> OpaqueIdSchema newJobId then throwTx RequestZodError
     else bindTx (liftStore (jr_createJob repository request newJobId)) (\<lambda>(receipt, raw).
       case receipt of None \<Rightarrow> throwTx (RequestHistory JobGraphInvalid)
       | Some created \<Rightarrow>
           bindTx (returnedJob sha raw scope (if created then Some newJobId else None)) (\<lambda>g.
           let stored = ps_request (rg_snapshot g) in
           if prq_evaluationRequestId stored \<noteq> prq_evaluationRequestId request \<or>
              prq_definitionSha256 stored \<noteq> prq_definitionSha256 request
           then throwTx (RequestHistory JobGraphInvalid) else pureTx (created, g))))))"

definition readPolicyEvaluationJob ::
    "(string \<Rightarrow> bool) \<Rightarrow> digest \<Rightarrow> 's JobRepository \<Rightarrow> JobRoute \<Rightarrow> string \<Rightarrow> ('s, RetainedJobGraph option) request" where
  "readPolicyEvaluationJob isoDatetime sha repository command jobId =
     bindTx (authorizedScope isoDatetime command ''policy:read'') (\<lambda>scope.
     if \<not> OpaqueIdSchema jobId then throwTx RequestZodError
     else bindTx (liftStore (jr_findJob repository scope jobId)) (\<lambda>raw.
       if raw = StoredNull then pureTx None
       else bindTx (returnedJob sha raw scope (Some jobId)) (\<lambda>g. pureTx (Some g))))"

definition readPolicyEvaluationJobHistoryHead ::
    "(string \<Rightarrow> bool) \<Rightarrow> 's JobRepository \<Rightarrow> JobRoute \<Rightarrow> string \<Rightarrow> ('s, HistoryHead option) request" where
  "readPolicyEvaluationJobHistoryHead isoDatetime repository command jobId =
     bindTx (authorizedScope isoDatetime command ''policy:read'') (\<lambda>scope.
     if \<not> OpaqueIdSchema jobId then throwTx RequestZodError
     else bindTx (liftStore (jr_findHistoryHead repository scope jobId)) (\<lambda>raw.
       case raw of StoredNull \<Rightarrow> pureTx None
       | StoredHead head \<Rightarrow>
           if \<not> HistoryHeadSchema head then throwTx RequestHeadMalformed
           else if jobref_jobId (hh_job head) \<noteq> jobId \<or> hh_scope head \<noteq> scope then throwTx RequestHeadSubstituted
           else pureTx (Some head)
       | _ \<Rightarrow> throwTx RequestHeadMalformed))"

definition readPolicyEvaluationJobHistoryPage ::
    "(string \<Rightarrow> bool) \<Rightarrow> digest \<Rightarrow> 's JobRepository \<Rightarrow> JobRoute \<Rightarrow> string \<Rightarrow> HistoryHead \<Rightarrow> int \<Rightarrow>
     ('s, HistoryPage) request" where
  "readPolicyEvaluationJobHistoryPage isoDatetime sha repository command jobId head pageIndex =
     bindTx (authorizedScope isoDatetime command ''policy:read'') (\<lambda>scope.
     if \<not> OpaqueIdSchema jobId \<or> \<not> HistoryHeadSchema head then throwTx RequestZodError
     else if jobref_jobId (hh_job head) \<noteq> jobId \<or> hh_scope head \<noteq> scope then throwTx RequestHeadForbidden
     else if \<not> HistoryPageIndexSchema pageIndex then throwTx RequestZodError
     else bindTx (liftStore (jr_readHistoryPage repository head pageIndex)) (\<lambda>raw.
       bindTx (case raw of
           StoredPage p \<Rightarrow> liftResult
             (\<lambda>e. case e of HistoryZodError \<Rightarrow> RequestPageMalformed | HistoryCanonicalError _ \<Rightarrow> RequestPageMalformed
                  | _ \<Rightarrow> RequestHistory e)
             (validatePolicyEvaluationJobHistoryPage sha head p)
         | _ \<Rightarrow> throwTx RequestPageMalformed) (\<lambda>page.
       if hp_pageIndex page \<noteq> pageIndex then throwTx RequestPageSubstituted else pureTx page)))"

definition cancelPolicyEvaluationJobRequest ::
    "(string \<Rightarrow> bool) \<Rightarrow> digest \<Rightarrow> 's JobRepository \<Rightarrow> string \<Rightarrow> JobRoute \<Rightarrow> string \<Rightarrow> PolicyCancellationReason \<Rightarrow>
     ('s, RetainedJobGraph) request" where
  "cancelPolicyEvaluationJobRequest isoDatetime sha repository newCancellationId command jobId reason =
     bindTx (authorizedScope isoDatetime command ''policy:evaluation:cancel'') (\<lambda>scope.
     if \<not> OpaqueIdSchema jobId then throwTx RequestZodError
     else bindTx (liftStore (jr_findJob repository scope jobId)) (\<lambda>found.
       bindTx (if found = StoredNull then pureTx None
               else bindTx (returnedJob sha found scope (Some jobId)) (\<lambda>g. pureTx (ps_cancellation (rg_snapshot g)))) (\<lambda>previous.
       if (case previous of None \<Rightarrow> False
           | Some c \<Rightarrow> pcn_reason c \<noteq> reason \<or> pcn_requestedByPrincipalId c \<noteq> pc_principalId (rt_principal command))
       then throwTx RequestCancellationConflict
       else if previous = None \<and> \<not> OpaqueIdSchema newCancellationId then throwTx RequestZodError
       else
         let cancellationId = (case previous of None \<Rightarrow> newCancellationId | Some c \<Rightarrow> pcn_cancellationId c) in
         bindTx (liftStore (jr_cancelJob repository scope jobId cancellationId (pc_principalId (rt_principal command)) reason)) (\<lambda>raw.
         bindTx (returnedJob sha raw scope (Some jobId)) (\<lambda>g.
         case ps_cancellation (rg_snapshot g) of None \<Rightarrow> throwTx (RequestHistory JobGraphInvalid)
         | Some intent \<Rightarrow>
             if \<not> PolicyEvaluationCancellationSchema intent then throwTx (RequestHistory JobGraphInvalid)
             else if (previous \<noteq> None \<and> pcn_cancellationId intent \<noteq> cancellationId) \<or> pcn_reason intent \<noteq> reason \<or>
                pcn_requestedByPrincipalId intent \<noteq> pc_principalId (rt_principal command)
             then throwTx RequestIntentSubstituted else pureTx g)))))"

section \<open>Worker requests\<close>

definition workerScope :: "(string \<Rightarrow> bool) \<Rightarrow> JobRoute \<Rightarrow> ('s, EvidenceScope) request" where
  "workerScope isoDatetime command =
     (if \<not> PrincipalContextSchema isoDatetime (rt_principal command) then throwTx RequestZodError
      else bindTx (liftResult RequestAccess
          (requirePolicyEvaluationExecution isoDatetime (rt_principal command) (routeScope command))) (\<lambda>_.
        if \<not> EvidenceScopeSchema (routeScope command) then throwTx RequestZodError
        else pureTx (routeScope command)))"

definition claimPolicyEvaluationJobRequest ::
    "(string \<Rightarrow> bool) \<Rightarrow> digest \<Rightarrow> 's JobRepository \<Rightarrow> string \<Rightarrow> string \<Rightarrow> JobRoute \<Rightarrow> string \<Rightarrow>
     ('s, RetainedJobGraph) request" where
  "claimPolicyEvaluationJobRequest isoDatetime sha repository newAttemptId newLeaseId command jobId =
     bindTx (workerScope isoDatetime command) (\<lambda>scope.
     if \<not> OpaqueIdSchema jobId \<or> \<not> OpaqueIdSchema newAttemptId \<or> \<not> OpaqueIdSchema newLeaseId then throwTx RequestZodError
     else bindTx (liftStore (jr_claimJob repository scope jobId (pc_principalId (rt_principal command)) newAttemptId newLeaseId)) (\<lambda>raw.
       bindTx (returnedJob sha raw scope (Some jobId)) (\<lambda>g.
       if pj_status (ps_job (rg_snapshot g)) = PBudgetExhausted then pureTx g
       else case pj_currentLease (ps_job (rg_snapshot g)) of None \<Rightarrow> throwTx RequestWorkerSubstituted
       | Some l \<Rightarrow>
           let current = pl_mutationFence l in
           if pf_workerId current \<noteq> pc_principalId (rt_principal command) \<or> pf_attemptId current \<noteq> newAttemptId \<or>
              pf_leaseId current \<noteq> newLeaseId
           then throwTx RequestWorkerSubstituted else pureTx g)))"

datatype WorkerOperation =
    WorkerHeartbeat
  | WorkerReserve PolicyEvaluationUsage
  | WorkerInterrupt PolicyEvaluationRetryableError

definition mutatePolicyEvaluationWorkerJob ::
    "(string \<Rightarrow> bool) \<Rightarrow> digest \<Rightarrow> 's JobRepository \<Rightarrow> JobRoute \<Rightarrow> PolicyEvaluationWorkerMutationFence \<Rightarrow> WorkerOperation \<Rightarrow>
     ('s, RetainedJobGraph) request" where
  "mutatePolicyEvaluationWorkerJob isoDatetime sha repository command fence operation =
     bindTx (workerScope isoDatetime command) (\<lambda>scope.
     if \<not> PolicyEvaluationWorkerMutationFenceSchema fence then throwTx RequestZodError
     else if pf_workerId fence \<noteq> pc_principalId (rt_principal command) then throwTx RequestFenceForbidden
     else bindTx (case operation of
           WorkerHeartbeat \<Rightarrow> liftStore (jr_heartbeatJob repository scope fence)
         | WorkerReserve delta \<Rightarrow>
             if \<not> PolicyEvaluationUsageSchema delta then throwTx RequestZodError
             else liftStore (jr_reserveUsage repository scope fence delta)
         | WorkerInterrupt reason \<Rightarrow>
             if reason = LeaseExpiredError then throwTx RequestReasonInvalid
             else liftStore (jr_interruptJob repository scope fence reason)) (\<lambda>raw.
       bindTx (returnedJob sha raw scope (Some (pf_jobId fence))) (\<lambda>g.
       case ps_attempts (rg_snapshot g) of [] \<Rightarrow> throwTx RequestAttemptSubstituted
       | attempts \<Rightarrow>
           if pa_mutationFence (last attempts) \<noteq> fence then throwTx RequestAttemptSubstituted else pureTx g)))"

section \<open>The relational repository as a port\<close>

definition asValue :: "('a \<Rightarrow> StoredValue) \<Rightarrow> ('s, 'a) transaction \<Rightarrow> ('s, StoredValue) transaction" where
  "asValue f m = bindTx m (\<lambda>x. pureTx (f x))"

definition postgresRepository :: "digest \<Rightarrow> 's database \<Rightarrow> string \<Rightarrow> 's JobRepository" where
  "postgresRepository sha db uuid =
     \<lparr>jr_findJob = (\<lambda>scope jobId. asValue (\<lambda>g. case g of None \<Rightarrow> StoredNull | Some g \<Rightarrow> StoredGraph g) (findJob sha db scope jobId)),
      jr_findHistoryHead = (\<lambda>scope jobId. asValue (\<lambda>h. case h of None \<Rightarrow> StoredNull | Some h \<Rightarrow> StoredHead h) (findHistoryHead db scope jobId)),
      jr_readHistoryPage = (\<lambda>head k. asValue StoredPage (readHistoryPage sha db head k)),
      jr_createJob = (\<lambda>request jobId. bindTx (createJob sha db request jobId) (\<lambda>(created, g). pureTx (Some created, StoredGraph g))),
      jr_cancelJob = (\<lambda>scope jobId cancellationId actor reason. asValue StoredGraph (cancelJob sha db scope jobId cancellationId actor reason)),
      jr_claimJob = (\<lambda>scope jobId workerId attemptId leaseId. asValue StoredGraph (claimJob sha db scope jobId workerId attemptId leaseId)),
      jr_heartbeatJob = (\<lambda>scope fence. asValue StoredGraph (heartbeatJob sha db scope fence)),
      jr_reserveUsage = (\<lambda>scope fence delta. asValue StoredGraph (reserveUsage sha db uuid scope fence delta)),
      jr_interruptJob = (\<lambda>scope fence reason. asValue StoredGraph (interruptJob sha db scope fence reason))\<rparr>"

end
