(* ===== verification/Policy_Requests_Safety.thy ===== *)
theory Policy_Requests_Safety
  imports Policy_Requests
begin

text \<open>
  Requests stay inside what their principal may reach, whatever the repository answers, and a lease that a
  claim request returns from the relational repository is a lease of the scheduler for the authenticated
  worker.
\<close>

section \<open>What a request yields\<close>

definition permitted :: "(string \<Rightarrow> bool) \<Rightarrow> JobRoute \<Rightarrow> string \<Rightarrow> bool" where
  "permitted isoDatetime command capability \<longleftrightarrow>
     PrincipalContextSchema isoDatetime (rt_principal command) \<and> capability \<in> set (pc_capabilities (rt_principal command)) \<and>
     reaches (pc_resourceScope (rt_principal command)) (rt_projectId command) (rt_environmentId command) \<and>
     EvidenceScopeSchema (routeScope command)"

lemma liftResult_Inr: "liftResult f r s = Inr (x, t) \<longleftrightarrow> r = Inr x \<and> t = s"
  by (auto simp: liftResult_def split: sum.splits)

lemma liftStore_Inr: "liftStore m s = Inr r \<longleftrightarrow> m s = Inr r"
  by (auto simp: liftStore_def split: sum.splits)

lemmas request_simps = bindTx_Inr pureTx_Inr throwTx_Inr if_throwTx_Inr liftResult_Inr

lemma access_reaches:
  assumes "PrincipalContextSchema isoDatetime actor" "requireEnvironmentAccess (pc_resourceScope actor) p e = Inr ()"
  shows "reaches (pc_resourceScope actor) p e"
  using assms environment_access_iff [of "pc_resourceScope actor" p e] by (simp add: PrincipalContextSchema_def)

lemma capability_held: "requireCapability actor c = Inr () \<longleftrightarrow> c \<in> set (pc_capabilities actor)"
  by (simp add: requireCapability_def)

lemma authorized:
  "yields (authorizedScope isoDatetime command capability) (\<lambda>scope. scope = routeScope command \<and> permitted isoDatetime command capability)"
  using access_reaches by (auto simp: yields_def authorizedScope_def request_simps capability_held permitted_def)

definition servicePrincipal :: "PrincipalContext \<Rightarrow> bool" where
  "servicePrincipal actor \<longleftrightarrow> pc_principalType actor = ServicePrincipal \<and> ac_method (pc_authentication actor) = ServiceTokenMethod"

lemma execution_permitted:
  assumes "requirePolicyEvaluationExecution isoDatetime (rt_principal command) (routeScope command) = Inr ()"
  shows "permitted isoDatetime command ''policy:evaluation:execute'' \<and> servicePrincipal (rt_principal command)"
proof -
  have "PrincipalContextSchema isoDatetime (rt_principal command)" "EvidenceScopeSchema (routeScope command)"
    "requireCapability (rt_principal command) ''policy:evaluation:execute'' = Inr ()"
    "requireEnvironmentAccess (pc_resourceScope (rt_principal command)) (rt_projectId command) (rt_environmentId command) = Inr ()"
    "servicePrincipal (rt_principal command)"
    using assms by (auto simp: requirePolicyEvaluationExecution_def routeScope_def servicePrincipal_def split: sum.splits if_splits)
  then show ?thesis using access_reaches by (simp add: permitted_def capability_held)
qed

lemma worker_authorized:
  "yields (workerScope isoDatetime command)
     (\<lambda>scope. scope = routeScope command \<and> permitted isoDatetime command ''policy:evaluation:execute'' \<and> servicePrincipal (rt_principal command))"
  using execution_permitted by (auto simp: yields_def workerScope_def request_simps)

lemma returned:
  "yields (returnedJob sha raw scope jobId)
     (\<lambda>g. raw = StoredGraph g \<and> graphOf sha scope (case jobId of None \<Rightarrow> pj_jobId (ps_job (rg_snapshot g)) | Some i \<Rightarrow> i) g)"
  by (cases raw) (auto simp: yields_def returnedJob_def request_simps validate_record_iff graphOf_def graphJobReference_def Let_def split: option.splits)

lemma yields_returned:
  assumes "\<And>g. raw = StoredGraph g \<Longrightarrow> graphOf sha scope jobId g \<Longrightarrow> yields (k g) Q"
  shows "yields (bindTx (returnedJob sha raw scope (Some jobId)) k) Q"
  by (rule yields_bind [OF returned]) (use assms in auto)

lemma yields_answer: "(\<And>x. \<exists>s t. m s = Inr (x, t) \<Longrightarrow> yields (k x) Q) \<Longrightarrow> yields (bindTx (liftStore m) k) Q"
  unfolding yields_def bindTx_Inr liftStore_Inr by blast

section \<open>Each request\<close>

lemma read_confined:
  "yields (readPolicyEvaluationJob isoDatetime sha repository command jobId)
     (\<lambda>r. permitted isoDatetime command ''policy:read'' \<and> (case r of None \<Rightarrow> True | Some g \<Rightarrow> graphOf sha (routeScope command) jobId g))"
  unfolding readPolicyEvaluationJob_def
  by (rule yields_bind [OF authorized], rule yields_guard, rule yields_answer)
    (auto intro!: yields_pure yields_returned)

lemma head_confined:
  "yields (readPolicyEvaluationJobHistoryHead isoDatetime repository command jobId)
     (\<lambda>r. permitted isoDatetime command ''policy:read'' \<and>
        (case r of None \<Rightarrow> True | Some h \<Rightarrow> hh_scope h = routeScope command \<and> jobref_jobId (hh_job h) = jobId))"
  unfolding readPolicyEvaluationJobHistoryHead_def
  by (rule yields_bind [OF authorized], rule yields_guard, rule yields_answer)
    (auto intro!: yields_pure yields_throw yields_guard split: StoredValue.splits)

lemma page_confined:
  "yields (readPolicyEvaluationJobHistoryPage isoDatetime sha repository command jobId head pageIndex)
     (\<lambda>p. permitted isoDatetime command ''policy:read'' \<and> hp_pageIndex p = pageIndex \<and>
        (\<exists>q. validatePolicyEvaluationJobHistoryPage sha head q = Inr p) \<and> hh_scope head = routeScope command \<and>
        jobref_jobId (hh_job head) = jobId)"
  unfolding readPolicyEvaluationJobHistoryPage_def
  by (rule yields_bind [OF authorized], rule yields_guard, rule yields_guard, rule yields_guard, rule yields_answer)
    (auto simp: yields_def request_simps split: StoredValue.splits)

lemma enqueue_confined:
  "yields (enqueuePolicyEvaluationJob isoDatetime sha repository now newJobId command d)
     (\<lambda>(created, g). permitted isoDatetime command ''policy:evaluate'' \<and>
        graphOf sha (routeScope command) (if created then newJobId else pj_jobId (ps_job (rg_snapshot g))) g \<and>
        prq_evaluationRequestId (ps_request (rg_snapshot g)) = prd_evaluationRequestId d)"
  unfolding enqueuePolicyEvaluationJob_def Let_def
  by (rule yields_bind [OF authorized], rule yields_guard, rule yields_then, rule yields_then, rule yields_guard, rule yields_answer)
    (auto intro!: yields_pure yields_throw yields_guard yields_bind [OF returned] split: option.splits)

lemma cancel_confined:
  "yields (cancelPolicyEvaluationJobRequest isoDatetime sha repository newCancellationId command jobId reason)
     (\<lambda>g. permitted isoDatetime command ''policy:evaluation:cancel'' \<and> graphOf sha (routeScope command) jobId g \<and>
        (\<exists>i s t. jr_cancelJob repository (routeScope command) jobId i (pc_principalId (rt_principal command)) reason s = Inr (StoredGraph g, t)) \<and>
        (\<exists>c. ps_cancellation (rg_snapshot g) = Some c \<and> pcn_reason c = reason \<and>
           pcn_requestedByPrincipalId c = pc_principalId (rt_principal command)))"
  unfolding cancelPolicyEvaluationJobRequest_def Let_def
  by (rule yields_bind [OF authorized], rule yields_guard, rule yields_answer, rule yields_then, rule yields_guard, rule yields_guard,
      rule yields_answer, rule yields_returned)
    (auto intro!: yields_pure yields_throw yields_guard split: option.splits)

lemma claim_confined:
  "yields (claimPolicyEvaluationJobRequest isoDatetime sha repository newAttemptId newLeaseId command jobId)
     (\<lambda>g. permitted isoDatetime command ''policy:evaluation:execute'' \<and> servicePrincipal (rt_principal command) \<and>
        graphOf sha (routeScope command) jobId g \<and>
        (\<exists>s t. jr_claimJob repository (routeScope command) jobId (pc_principalId (rt_principal command)) newAttemptId newLeaseId s =
           Inr (StoredGraph g, t)) \<and>
        (pj_status (ps_job (rg_snapshot g)) = PBudgetExhausted \<or>
         (\<exists>l. pj_currentLease (ps_job (rg_snapshot g)) = Some l \<and> pf_workerId (pl_mutationFence l) = pc_principalId (rt_principal command) \<and>
            pf_attemptId (pl_mutationFence l) = newAttemptId \<and> pf_leaseId (pl_mutationFence l) = newLeaseId)))"
  unfolding claimPolicyEvaluationJobRequest_def Let_def
  by (rule yields_bind [OF worker_authorized], rule yields_guard, rule yields_answer, rule yields_returned)
    (auto intro!: yields_pure yields_throw yields_guard split: option.splits)

fun workerCall ::
    "'s JobRepository \<Rightarrow> EvidenceScope \<Rightarrow> PolicyEvaluationWorkerMutationFence \<Rightarrow> WorkerOperation \<Rightarrow> ('s, StoredValue) transaction" where
  "workerCall repository scope fence WorkerHeartbeat = jr_heartbeatJob repository scope fence"
| "workerCall repository scope fence (WorkerReserve delta) = jr_reserveUsage repository scope fence delta"
| "workerCall repository scope fence (WorkerInterrupt reason) = jr_interruptJob repository scope fence reason"

lemma yields_worker:
  assumes "\<And>raw. \<exists>s t. workerCall repository scope fence operation s = Inr (raw, t) \<Longrightarrow> yields (k raw) Q"
  shows "yields (bindTx (case operation of
      WorkerHeartbeat \<Rightarrow> liftStore (jr_heartbeatJob repository scope fence)
    | WorkerReserve delta \<Rightarrow>
        if \<not> PolicyEvaluationUsageSchema delta then throwTx RequestZodError
        else liftStore (jr_reserveUsage repository scope fence delta)
    | WorkerInterrupt reason \<Rightarrow>
        if reason = LeaseExpiredError then throwTx RequestReasonInvalid
        else liftStore (jr_interruptJob repository scope fence reason)) k) Q"
proof (rule yields_bind)
  show "yields (case operation of
      WorkerHeartbeat \<Rightarrow> liftStore (jr_heartbeatJob repository scope fence)
    | WorkerReserve delta \<Rightarrow>
        if \<not> PolicyEvaluationUsageSchema delta then throwTx RequestZodError
        else liftStore (jr_reserveUsage repository scope fence delta)
    | WorkerInterrupt reason \<Rightarrow>
        if reason = LeaseExpiredError then throwTx RequestReasonInvalid
        else liftStore (jr_interruptJob repository scope fence reason))
    (\<lambda>raw. \<exists>s t. workerCall repository scope fence operation s = Inr (raw, t))"
    by (cases operation) (auto simp: yields_def if_throwTx_Inr liftStore_Inr)
qed (rule assms)

lemma mutation_confined:
  "yields (mutatePolicyEvaluationWorkerJob isoDatetime sha repository command fence operation)
     (\<lambda>g. permitted isoDatetime command ''policy:evaluation:execute'' \<and> servicePrincipal (rt_principal command) \<and>
        graphOf sha (routeScope command) (pf_jobId fence) g \<and> pf_workerId fence = pc_principalId (rt_principal command) \<and>
        (\<exists>s t. workerCall repository (routeScope command) fence operation s = Inr (StoredGraph g, t)) \<and>
        ps_attempts (rg_snapshot g) \<noteq> [] \<and> pa_mutationFence (last (ps_attempts (rg_snapshot g))) = fence)"
  unfolding mutatePolicyEvaluationWorkerJob_def
  by (rule yields_bind [OF worker_authorized], rule yields_guard, rule yields_guard, rule yields_worker, rule yields_returned)
    (auto intro!: yields_pure yields_throw yields_guard split: list.splits)

section \<open>Commands\<close>

text \<open>The requests that change a job, as one type: the identifiers a claim and a cancellation draw are part of the command.\<close>

datatype JobCommand =
    CancelCommand string string PolicyCancellationReason
  | ClaimCommand string string string
  | WorkerCommand PolicyEvaluationWorkerMutationFence WorkerOperation

fun runCommand ::
    "(string \<Rightarrow> bool) \<Rightarrow> digest \<Rightarrow> 's JobRepository \<Rightarrow> JobRoute \<Rightarrow> JobCommand \<Rightarrow> ('s, RetainedJobGraph) request" where
  "runCommand isoDatetime sha repository route (CancelCommand cancellationId jobId reason) =
     cancelPolicyEvaluationJobRequest isoDatetime sha repository cancellationId route jobId reason"
| "runCommand isoDatetime sha repository route (ClaimCommand attemptId leaseId jobId) =
     claimPolicyEvaluationJobRequest isoDatetime sha repository attemptId leaseId route jobId"
| "runCommand isoDatetime sha repository route (WorkerCommand fence operation) =
     mutatePolicyEvaluationWorkerJob isoDatetime sha repository route fence operation"

fun commandJob :: "JobCommand \<Rightarrow> string" where
  "commandJob (CancelCommand _ jobId _) = jobId"
| "commandJob (ClaimCommand _ _ jobId) = jobId"
| "commandJob (WorkerCommand fence _) = pf_jobId fence"

fun commandPermitted :: "(string \<Rightarrow> bool) \<Rightarrow> JobRoute \<Rightarrow> JobCommand \<Rightarrow> bool" where
  "commandPermitted isoDatetime route (CancelCommand _ _ _) \<longleftrightarrow> permitted isoDatetime route ''policy:evaluation:cancel''"
| "commandPermitted isoDatetime route (ClaimCommand _ _ _) \<longleftrightarrow>
     permitted isoDatetime route ''policy:evaluation:execute'' \<and> servicePrincipal (rt_principal route)"
| "commandPermitted isoDatetime route (WorkerCommand fence _) \<longleftrightarrow>
     permitted isoDatetime route ''policy:evaluation:execute'' \<and> servicePrincipal (rt_principal route) \<and>
     pf_workerId fence = pc_principalId (rt_principal route)"

text \<open>
  What the returned graph owes to the principal: its cancellation, its lease or its attempt. A claim that
  finds the budget or the history of the job exhausted returns the job it closed: there is then no lease at
  all, the principal's or any other.
\<close>

fun commandBound :: "string \<Rightarrow> JobCommand \<Rightarrow> PolicyEvaluationJobSnapshot \<Rightarrow> bool" where
  "commandBound actor (CancelCommand _ _ reason) g \<longleftrightarrow>
     (\<exists>c. ps_cancellation g = Some c \<and> pcn_reason c = reason \<and> pcn_requestedByPrincipalId c = actor)"
| "commandBound actor (ClaimCommand attemptId leaseId _) g \<longleftrightarrow>
     (case pj_currentLease (ps_job g) of
        None \<Rightarrow> pj_status (ps_job g) = PBudgetExhausted \<and> pj_terminal (ps_job g) \<noteq> None
      | Some l \<Rightarrow> pf_workerId (pl_mutationFence l) = actor \<and>
          pf_attemptId (pl_mutationFence l) = attemptId \<and> pf_leaseId (pl_mutationFence l) = leaseId)"
| "commandBound actor (WorkerCommand fence _) g \<longleftrightarrow>
     ps_attempts g \<noteq> [] \<and> pa_mutationFence (last (ps_attempts g)) = fence"

text \<open>A recorded job closed for its budget is terminal and holds no lease.\<close>

lemma exhausted_unleased:
  assumes "graphOf sha scope jobId g" "pj_status (ps_job (rg_snapshot g)) = PBudgetExhausted"
  shows "pj_currentLease (ps_job (rg_snapshot g)) = None \<and> pj_terminal (ps_job (rg_snapshot g)) \<noteq> None"
proof -
  have "PolicyEvaluationJobSnapshotSchema (rg_snapshot g)" using assms(1) by (simp add: graphOf_def graphRecorded_def Let_def)
  then have "refineJob (ps_job (rg_snapshot g))"
    by (simp add: PolicyEvaluationJobSnapshotSchema_def snapshotShape_def PolicyEvaluationJobSchema_def)
  then show ?thesis using assms(2) by (simp add: refineJob_def leasedStatuses_def terminalStatuses_def)
qed

lemma command_confined:
  "yields (runCommand isoDatetime sha repository route command)
     (\<lambda>g. commandPermitted isoDatetime route command \<and> graphOf sha (routeScope route) (commandJob command) g \<and>
        commandBound (pc_principalId (rt_principal route)) command (rg_snapshot g))"
proof (cases command)
  case (CancelCommand cancellationId jobId reason)
  show ?thesis unfolding CancelCommand runCommand.simps by (rule yields_mono [OF cancel_confined]) simp
next
  case (ClaimCommand attemptId leaseId jobId)
  show ?thesis unfolding ClaimCommand runCommand.simps
    by (rule yields_mono [OF claim_confined]) (use exhausted_unleased in \<open>fastforce\<close>)
next
  case (WorkerCommand fence operation)
  show ?thesis unfolding WorkerCommand runCommand.simps by (rule yields_mono [OF mutation_confined]) simp
qed

section \<open>Repositories that serve the scheduler\<close>

text \<open>The request of the store that a command of a principal stands for; a reservation takes the identifier \<open>reservationId\<close>.\<close>

fun commandRequest :: "string \<Rightarrow> string \<Rightarrow> JobCommand \<Rightarrow> StoreRequest \<Rightarrow> bool" where
  "commandRequest reservationId actor (CancelCommand _ jobId reason) request \<longleftrightarrow> (\<exists>i. request = CancelRequest jobId i actor reason)"
| "commandRequest reservationId actor (ClaimCommand attemptId leaseId jobId) request \<longleftrightarrow> request = ClaimRequest jobId actor attemptId leaseId"
| "commandRequest reservationId actor (WorkerCommand fence WorkerHeartbeat) request \<longleftrightarrow> request = HeartbeatRequest fence"
| "commandRequest reservationId actor (WorkerCommand fence (WorkerReserve delta)) request \<longleftrightarrow> request = ReserveRequest fence reservationId delta"
| "commandRequest reservationId actor (WorkerCommand fence (WorkerInterrupt reason)) request \<longleftrightarrow> request = InterruptRequest fence reason"

text \<open>
  What the requests rely on: a repository whose every answer to an operation is one the store \<open>serves\<close> for
  the corresponding request.
\<close>

locale serving_repository =
  fixes repository :: "'s JobRepository" and reservationId :: string
    and serves :: "EvidenceScope \<Rightarrow> StoreRequest \<Rightarrow> RetainedJobGraph \<Rightarrow> bool"
  assumes cancels: "jr_cancelJob repository scope jobId i actor reason s = Inr (StoredGraph g, t) \<Longrightarrow>
      serves scope (CancelRequest jobId i actor reason) g"
    and claims: "jr_claimJob repository scope jobId actor attemptId leaseId s = Inr (StoredGraph g, t) \<Longrightarrow>
      serves scope (ClaimRequest jobId actor attemptId leaseId) g"
    and heartbeats: "jr_heartbeatJob repository scope fence s = Inr (StoredGraph g, t) \<Longrightarrow> serves scope (HeartbeatRequest fence) g"
    and reserves: "jr_reserveUsage repository scope fence delta s = Inr (StoredGraph g, t) \<Longrightarrow>
      serves scope (ReserveRequest fence reservationId delta) g"
    and interrupts: "jr_interruptJob repository scope fence cause s = Inr (StoredGraph g, t) \<Longrightarrow>
      serves scope (InterruptRequest fence cause) g"
begin

lemma worker_served:
  assumes "workerCall repository scope fence operation s = Inr (StoredGraph g, t)"
  shows "\<exists>request. commandRequest reservationId actor (WorkerCommand fence operation) request \<and> serves scope request g"
  using assms heartbeats reserves interrupts by (cases operation) auto

lemma command_served:
  assumes "runCommand isoDatetime sha repository route command s = Inr (g, t)"
  shows "\<exists>request. commandRequest reservationId (pc_principalId (rt_principal route)) command request \<and>
    serves (routeScope route) request g"
proof (cases command)
  case (CancelCommand cancellationId jobId reason)
  obtain i u v where "jr_cancelJob repository (routeScope route) jobId i (pc_principalId (rt_principal route)) reason u = Inr (StoredGraph g, v)"
    using yieldsD [OF cancel_confined assms [unfolded CancelCommand runCommand.simps]] by blast
  from cancels [OF this] show ?thesis using CancelCommand by auto
next
  case (ClaimCommand attemptId leaseId jobId)
  obtain u v where "jr_claimJob repository (routeScope route) jobId (pc_principalId (rt_principal route)) attemptId leaseId u = Inr (StoredGraph g, v)"
    using yieldsD [OF claim_confined assms [unfolded ClaimCommand runCommand.simps]] by blast
  from claims [OF this] show ?thesis using ClaimCommand by auto
next
  case (WorkerCommand fence operation)
  obtain u v where "workerCall repository (routeScope route) fence operation u = Inr (StoredGraph g, v)"
    using yieldsD [OF mutation_confined assms [unfolded WorkerCommand runCommand.simps]] by blast
  from worker_served [OF this] show ?thesis using WorkerCommand by simp
qed

end

lemma asValue_Inr: "asValue StoredGraph m s = Inr (StoredGraph g, t) \<longleftrightarrow> m s = Inr (g, t)"
  by (auto simp: asValue_def bindTx_Inr pureTx_Inr)

interpretation postgres: serving_repository "postgresRepository sha db uuid" "''reservation_'' @ uuid"
  "\<lambda>scope request g. storeMove sha db scope (requestJob request) (requestReads request) (requested request g) g" for sha db uuid
proof
  note move = yieldsD [OF runStore_move] and port = postgresRepository_def JobRepository.simps asValue_Inr
  show "storeMove sha db scope (requestJob (CancelRequest jobId i actor reason)) (requestReads (CancelRequest jobId i actor reason))
      (requested (CancelRequest jobId i actor reason) g) g"
    if "jr_cancelJob (postgresRepository sha db uuid) scope jobId i actor reason s = Inr (StoredGraph g, t)" for scope jobId i actor reason s g t
    by (rule move [of _ _ _ _ s _ t]) (use that in \<open>simp add: port\<close>)
  show "storeMove sha db scope (requestJob (ClaimRequest jobId actor attemptId leaseId)) (requestReads (ClaimRequest jobId actor attemptId leaseId))
      (requested (ClaimRequest jobId actor attemptId leaseId) g) g"
    if "jr_claimJob (postgresRepository sha db uuid) scope jobId actor attemptId leaseId s = Inr (StoredGraph g, t)"
    for scope jobId actor attemptId leaseId s g t
    by (rule move [of _ _ _ _ s _ t]) (use that in \<open>simp add: port\<close>)
  show "storeMove sha db scope (requestJob (HeartbeatRequest fence)) (requestReads (HeartbeatRequest fence)) (requested (HeartbeatRequest fence) g) g"
    if "jr_heartbeatJob (postgresRepository sha db uuid) scope fence s = Inr (StoredGraph g, t)" for scope fence s g t
    by (rule move [of _ _ _ _ s _ t]) (use that in \<open>simp add: port\<close>)
  show "storeMove sha db scope (requestJob (ReserveRequest fence (''reservation_'' @ uuid) delta))
      (requestReads (ReserveRequest fence (''reservation_'' @ uuid) delta)) (requested (ReserveRequest fence (''reservation_'' @ uuid) delta) g) g"
    if "jr_reserveUsage (postgresRepository sha db uuid) scope fence delta s = Inr (StoredGraph g, t)" for scope fence delta s g t
    by (rule move [of _ _ _ _ s _ t]) (use that in \<open>simp add: port reserveUsage_def\<close>)
  show "storeMove sha db scope (requestJob (InterruptRequest fence reason)) (requestReads (InterruptRequest fence reason))
      (requested (InterruptRequest fence reason) g) g"
    if "jr_interruptJob (postgresRepository sha db uuid) scope fence reason s = Inr (StoredGraph g, t)" for scope fence reason s g t
    by (rule move [of _ _ _ _ s _ t]) (use that in \<open>simp add: port\<close>)
qed

section \<open>A concrete request\<close>

definition operatorPrincipal :: PrincipalContext where
  "operatorPrincipal =
     \<lparr>pc_authentication = \<lparr>ac_authenticatedAt = ''2026-01-01T00:00:00.000Z'', ac_credentialId = None, ac_method = DevelopmentMethod\<rparr>,
      pc_capabilities = [''policy:evaluation:cancel''], pc_principalId = ''principal1'', pc_principalType = UserPrincipal,
      pc_requestId = replicate 8 0,
      pc_resourceScope = RestrictedScope [\<lparr>prs_environmentIds = Some [''production''], prs_projectId = ''project1''\<rparr>],
      pc_roles = [AdminRole], pc_tenantId = ''tenant1''\<rparr>"

definition operatorRoute :: JobRoute where
  "operatorRoute = \<lparr>rt_principal = operatorPrincipal, rt_projectId = ''project1'', rt_environmentId = ''production''\<rparr>"

lemma operator_scope: "routeScope operatorRoute = sampleScope"
  by (simp add: routeScope_def operatorRoute_def operatorPrincipal_def sampleScope_def)

lemma operator_authorized: "authorizedScope (\<lambda>_. True) operatorRoute ''policy:evaluation:cancel'' s = Inr (sampleScope, s)"
proof -
  have "PrincipalContextSchema (\<lambda>_. True) operatorPrincipal" "EvidenceScopeSchema sampleScope" by code_simp+
  moreover have "requireCapability operatorPrincipal ''policy:evaluation:cancel'' = Inr ()"
    "requireEnvironmentAccess (pc_resourceScope operatorPrincipal) ''project1'' ''production'' = Inr ()" by code_simp+
  ultimately show ?thesis
    unfolding authorizedScope_def operator_scope by (simp add: operatorRoute_def bindTx_def liftResult_def pureTx_def)
qed

lemma sample_found: "findJob sampleDigest sampleStore sampleScope ''job00001'' () = Inr (Some createdGraph, ())"
proof -
  have "collisionFree sampleDigest [createdEntry] [createdGraph]" by (simp add: collisionFree_def)
  moreover have "OpaqueIdSchema ''job00001''" by code_simp
  ultimately show ?thesis
    using honest_read [OF sample_first, of sampleScope "''job00001''" sampleStore "()" "[]" "()"] sample_graphs(1) sample_serves(1)
    by (simp add: sample_store_answers)
qed

lemma returned_run:
  assumes "graphOf sha scope jobId g"
  shows "returnedJob sha (StoredGraph g) scope (Some jobId) s = Inr (g, s)"
proof -
  have "PolicyEvaluationJobSnapshotSchema (rg_snapshot g)" using assms by (simp add: graphOf_def graphRecorded_def Let_def)
  moreover have "validatePolicyEvaluationJobSnapshotRecord sha scope
      \<lparr>jobref_jobId = jobId, jobref_definitionSha256 = pj_definitionSha256 (ps_job (rg_snapshot g))\<rparr> g = Inr g"
    using assms by (simp add: validate_record_iff graphOf_def graphJobReference_def)
  ultimately show ?thesis by (simp add: returnedJob_def liftResult_def Let_def)
qed

lemma sample_command:
  "runCommand (\<lambda>_. True) sampleDigest (postgresRepository sampleDigest sampleStore uuid) operatorRoute
     (CancelCommand ''cancel001'' ''job00001'' OperatorRequested) () = Inr (cancelledGraph, ())"
proof -
  have ids: "OpaqueIdSchema ''job00001''" "OpaqueIdSchema ''cancel001''" "OpaqueIdSchema ''principal1''" by code_simp+
  have actor: "pc_principalId (rt_principal operatorRoute) = ''principal1''" by (simp add: operatorRoute_def operatorPrincipal_def)
  have cancelled: "cancelJob sampleDigest sampleStore sampleScope ''job00001'' ''cancel001'' ''principal1'' OperatorRequested () = Inr (cancelledGraph, ())"
    using honest_cancel [OF sample_first, of cancelledEntry cancelledGraph sampleScope "''job00001''" "''cancel001''" "''principal1''" sampleStore]
      sample_graphs sample_serves cancelled_entry(1) sample_collisionFree ids by (simp add: sample_store_answers)
  have none: "ps_cancellation (rg_snapshot createdGraph) = None" by (simp add: createdGraph_def queuedGraph_def)
  have intent: "pcn_reason sampleIntent = OperatorRequested" "pcn_requestedByPrincipalId sampleIntent = ''principal1''"
    by (simp_all add: sampleIntent_def)
  show ?thesis
    by (simp add: cancelPolicyEvaluationJobRequest_def Let_def operator_authorized ids bindTx_def liftStore_def
        postgresRepository_def asValue_def sample_found pureTx_def returned_run [OF sample_graphs(1)] returned_run [OF sample_graphs(2)] none actor cancelled sample_graphs intent)
qed

section \<open>Properties\<close>

text \<open>
  C21. A request stays inside what its principal may reach. Nothing is assumed of the repository. Whenever a
  cancellation, a claim or a worker mutation returns a graph, the principal holds the capability of that
  request and its resource scope reaches the project and environment of the route, workers are service
  principals with a service token that present their own fence, the graph is a valid digest-bound graph of
  the requested job in the principal's tenant, and it carries the cancellation, the lease or the attempt of
  that very principal. The one exception is a claim that closes a job whose budget or history is exhausted:
  it returns the terminal job, which carries no lease of anybody.
\<close>

theorem command_confined_to_principal:
  assumes "runCommand isoDatetime sha repository route command s = Inr (g, t)"
  shows "commandPermitted isoDatetime route command \<and>
    graphOf sha (routeScope route) (commandJob command) g \<and>
    commandBound (pc_principalId (rt_principal route)) command (rg_snapshot g)"
  by (rule yieldsD [OF command_confined assms])

theorem command_confined_to_principal_witness:
  "commandBound ''principal1'' (CancelCommand ''cancel001'' ''job00001'' OperatorRequested) (rg_snapshot cancelledGraph) \<and>
   reaches (pc_resourceScope operatorPrincipal) ''project1'' ''production''"
  using command_confined_to_principal [OF sample_command [of "[]"]]
  by (simp add: permitted_def operatorRoute_def) (simp add: operatorPrincipal_def)

text \<open>
  C22. Requests, repository and scheduler compose. Whenever a request of a principal returns a graph from
  the relational repository, over any database, the database had presented a valid graph of the same job in
  the same scope, and the returned graph is that graph or was appended to the history under the operation
  the principal asked for; unless the digest confuses the appended graph with the one graph the scheduler's
  own code gives for that operation, it gives that snapshot and one transition of the scheduler separates
  the two.
\<close>

theorem command_returns_scheduler_transition:
  assumes "runCommand isoDatetime sha (postgresRepository sha db uuid) route command s = Inr (g, t)"
  shows "\<exists>request p. commandRequest (''reservation_'' @ uuid) (pc_principalId (rt_principal route)) command request \<and>
    answered db (PrepareMutation (commandJob command)) [StoredGraph p] \<and> graphOf sha (routeScope route) (commandJob command) p \<and>
    (rg_snapshot g = rg_snapshot p \<or>
     (\<exists>operation. requested request g operation \<and> recordedMove sha db p g operation \<and>
        (linkCollisionFree sha p operation g \<longrightarrow> policyStep (rg_snapshot p) (rg_snapshot g) \<and>
           (\<exists>h. rederive p (pj_updatedAt (ps_job (rg_snapshot g))) operation = Inr h \<and> rg_snapshot h = rg_snapshot g))))"
proof -
  obtain request where request: "commandRequest (''reservation_'' @ uuid) (pc_principalId (rt_principal route)) command request"
    "storeMove sha db (routeScope route) (requestJob request) (requestReads request) (requested request g) g"
    using postgres.command_served [OF assms] by blast
  then have "requestJob request = commandJob command" "requestReads request = PrepareMutation (commandJob command)"
    by (cases rule: commandRequest.cases [of "(''reservation_'' @ uuid, pc_principalId (rt_principal route), command, request)"]; auto)+
  then show ?thesis using request recorded_move_step unfolding storeMove_def by metis
qed

theorem command_returns_scheduler_transition_witness:
  "\<exists>operation. recordedMove sampleDigest sampleStore createdGraph cancelledGraph operation"
proof -
  obtain p where p: "answered sampleStore (PrepareMutation ''job00001'') [StoredGraph p]"
    "rg_snapshot cancelledGraph = rg_snapshot p \<or> (\<exists>operation. recordedMove sampleDigest sampleStore p cancelledGraph operation)"
    using command_returns_scheduler_transition [OF sample_command [of "[]"]] by auto
  then have "p = createdGraph" by (auto simp: answered_def sample_store_answers)
  then show ?thesis using p cancelled_valid(2) by auto
qed

end
