(* ===== verification/Base64url.thy ===== *)
theory Base64url
  imports Primitives
begin

text \<open>
  The unpadded base64url text of bytes, as \<open>Buffer\<close> writes and reads it. Reading is defined for texts over
  the alphabet, which every caller checks first with a regular expression; like \<open>Buffer\<close>, it drops the
  bits that do not fill a byte. A text is canonical when writing what was read gives it back.
\<close>

section \<open>Writing and reading\<close>

definition BASE64URL_ALPHABET :: string where
  "BASE64URL_ALPHABET = ''ABCDEFGHIJKLMNOPQRSTUVWXYZabcdefghijklmnopqrstuvwxyz0123456789-_''"

definition base64Char :: "nat \<Rightarrow> char" where
  "base64Char n = BASE64URL_ALPHABET ! n"

fun indexIn :: "'a list \<Rightarrow> 'a \<Rightarrow> nat" where
  "indexIn [] c = 0"
| "indexIn (x # xs) c = (if x = c then 0 else Suc (indexIn xs c))"

definition base64Value :: "char \<Rightarrow> nat" where
  "base64Value c = indexIn BASE64URL_ALPHABET c"

definition base64Text :: "string \<Rightarrow> bool" where
  "base64Text s \<longleftrightarrow> list_all (\<lambda>c. c \<in> set BASE64URL_ALPHABET) s"

fun base64urlEncode :: "8 word list \<Rightarrow> string" where
  "base64urlEncode (a # b # c # rest) =
     (let x = unat a; y = unat b; z = unat c in
      base64Char (x div 4) # base64Char (x mod 4 * 16 + y div 16) # base64Char (y mod 16 * 4 + z div 64) #
      base64Char (z mod 64) # base64urlEncode rest)"
| "base64urlEncode [a, b] =
     (let x = unat a; y = unat b in
      [base64Char (x div 4), base64Char (x mod 4 * 16 + y div 16), base64Char (y mod 16 * 4)])"
| "base64urlEncode [a] = (let x = unat a in [base64Char (x div 4), base64Char (x mod 4 * 16)])"
| "base64urlEncode [] = []"

fun base64urlDecode :: "string \<Rightarrow> 8 word list" where
  "base64urlDecode (p # q # r # s # rest) =
     (let i = base64Value p; j = base64Value q; k = base64Value r; l = base64Value s in
      word_of_nat (i * 4 + j div 16) # word_of_nat (j mod 16 * 16 + k div 4) # word_of_nat (k mod 4 * 64 + l) #
      base64urlDecode rest)"
| "base64urlDecode [p, q, r] =
     (let i = base64Value p; j = base64Value q; k = base64Value r in
      [word_of_nat (i * 4 + j div 16), word_of_nat (j mod 16 * 16 + k div 4)])"
| "base64urlDecode [p, q] = (let i = base64Value p; j = base64Value q in [word_of_nat (i * 4 + j div 16)])"
| "base64urlDecode _ = []"

section \<open>Laws\<close>

lemma indexIn_nth: "distinct xs \<Longrightarrow> n < length xs \<Longrightarrow> indexIn xs (xs ! n) = n"
  by (induction xs arbitrary: n) (auto simp: nth_Cons split: nat.splits)

lemma nth_indexIn: "c \<in> set xs \<Longrightarrow> indexIn xs c < length xs \<and> xs ! indexIn xs c = c"
  by (induction xs) auto

lemma alphabet: "length BASE64URL_ALPHABET = 64" "distinct BASE64URL_ALPHABET"
  by (simp_all add: BASE64URL_ALPHABET_def)

lemma base64Value_char [simp]: "n < 64 \<Longrightarrow> base64Value (base64Char n) = n"
  by (simp add: base64Value_def base64Char_def indexIn_nth alphabet)

lemma base64Char_value [simp]: "c \<in> set BASE64URL_ALPHABET \<Longrightarrow> base64Char (base64Value c) = c"
  by (simp add: base64Value_def base64Char_def nth_indexIn)

lemma base64Value_less: "c \<in> set BASE64URL_ALPHABET \<Longrightarrow> base64Value c < 64"
  using nth_indexIn [of c BASE64URL_ALPHABET] by (simp add: base64Value_def alphabet)

lemma base64Char_alphabet [simp]: "n < 64 \<Longrightarrow> base64Char n \<in> set BASE64URL_ALPHABET"
  by (simp add: base64Char_def alphabet)

lemma byte_less: "unat (a :: 8 word) < 256"
  using unsigned_less [of a] by simp

lemma byte_parts [simp]:
  fixes a b :: "8 word"
  shows "unat a div 4 < 64" "unat a mod 4 * 16 + unat b div 16 < 64" "unat a mod 16 * 4 + unat b div 64 < 64"
    "unat a mod 64 < 64" "unat a mod 16 * 4 < 64" "unat a mod 4 * 16 < 64"
  using byte_less [of a] byte_less [of b] mod_less_divisor [of 4 "unat a"] mod_less_divisor [of 16 "unat a"]
  by simp_all

lemma high_bits [simp]:
  fixes a :: "8 word"
  shows "unat a div 16 div 16 = 0" "unat a div 64 div 4 = 0" "unat a div 16 mod 16 = unat a div 16" "unat a div 64 mod 4 = unat a div 64"
  using byte_less [of a] by simp_all

lemma base64_roundtrip: "base64urlDecode (base64urlEncode bs) = bs"
  by (induction bs rule: base64urlEncode.induct) (simp_all add: Let_def div_mult_mod_eq del: of_nat_add of_nat_mult)

lemma base64_encoded_text: "base64Text (base64urlEncode bs)"
  by (induction bs rule: base64urlEncode.induct)
    (simp_all add: base64Text_def Let_def)

lemma base64_length: "length (base64urlEncode bs) = (4 * length bs + 2) div 3"
  by (induction bs rule: base64urlEncode.induct) (simp_all add: Let_def)

lemma base64_decoded_length: "length (base64urlDecode s) = 3 * length s div 4"
  by (induction s rule: base64urlDecode.induct) (simp_all add: Let_def)

end
