(* ===== verification/Credentials.thy ===== *)
theory Credentials
  imports Canonical_Json Identity Base64url
begin

text \<open>
  Credentials of workloads and services: \<open>api-key.ts\<close>, \<open>service-token.ts\<close>, both authenticators and the API
  key life cycle under \<open>packages/identity/src\<close>, with the request and response contracts of
  \<open>packages/contracts/src/api-key.ts\<close>.

  Parameters: \<open>kdf\<close> is \<open>scrypt\<close> with the fixed cost parameters of the code, from secret and salt to the
  derived key; \<open>isoDatetime\<close> is the format check of the schema library; the credential store, the lookup
  and the generated identifiers and random bytes are arguments. An instant is the number of milliseconds
  \<open>Date\<close> gives for it. Presented values are texts of characters; a code unit outside that range matches
  neither pattern.
\<close>

section \<open>Keys\<close>

datatype identity_error =
    ApiKeyFormatError
  | ApiKeyHashError
  | KeyLengthError
  | InvalidApiKeyError
  | IdentityDataIntegrityError
  | ServiceTokenFormatError
  | InvalidServiceTokenError
  | InvalidApiKeyLifecycleInputError
  | ApiKeyGenerationError
  | ApiKeyCredentialConflictError
  | ApiKeyCredentialNotFoundError
  | ApiKeyCredentialNotActiveError
  | IdentityForbidden access_error
  | CredentialStoreError

type_synonym 'a identity_result = "(identity_error, 'a) result"

type_synonym kdf = "8 word list \<Rightarrow> 8 word list \<Rightarrow> 8 word list"

record ApiKeyParts =
  kp_prefix :: string
  kp_secret :: string

record ApiKeyPasswordHash =
  ph_algorithm :: string
  ph_blockSize :: int
  ph_cost :: int
  ph_digest :: string
  ph_keyLength :: int
  ph_parallelization :: int
  ph_salt :: string

record IssuedApiKey =
  ik_parts :: ApiKeyParts
  ik_value :: string

text \<open>\<open>/^<head>([A-Za-z0-9_-]{n})_([A-Za-z0-9_-]{43})$/\<close>: the groups have fixed lengths.\<close>

definition matchCredential :: "string \<Rightarrow> nat \<Rightarrow> string \<Rightarrow> ApiKeyParts option" where
  "matchCredential head n v =
     (let rest = drop (length head) v; pre = take n rest; secret = drop (n + 1) rest in
      if take (length head) v = head \<and> length rest = n + 1 + 43 \<and> rest ! n = CHR ''_'' \<and>
         base64Text pre \<and> base64Text secret
      then Some \<lparr>kp_prefix = pre, kp_secret = secret\<rparr> else None)"

definition canonicalBase64Url :: "string \<Rightarrow> nat \<Rightarrow> 8 word list identity_result" where
  "canonicalBase64Url v expectedBytes =
     (if v = [] \<or> \<not> base64Text v then Inl ApiKeyFormatError
      else let decoded = base64urlDecode v in
        if length decoded \<noteq> expectedBytes \<or> base64urlEncode decoded \<noteq> v then Inl ApiKeyFormatError
        else Inr decoded)"

definition requireRandomBytes :: "8 word list \<Rightarrow> nat \<Rightarrow> 8 word list identity_result" where
  "requireRandomBytes bytes expected = (if length bytes \<noteq> expected then Inl ApiKeyFormatError else Inr bytes)"

definition validateHash :: "ApiKeyPasswordHash \<Rightarrow> (8 word list \<times> 8 word list) identity_result" where
  "validateHash hash =
     (if ph_algorithm hash \<noteq> ''scrypt-v1'' \<or> ph_cost hash \<noteq> 32768 \<or> ph_blockSize hash \<noteq> 8 \<or>
         ph_parallelization hash \<noteq> 1 \<or> ph_keyLength hash \<noteq> 32
      then Inl ApiKeyHashError
      else case canonicalBase64Url (ph_digest hash) 32 of Inl e \<Rightarrow> Inl ApiKeyHashError
      | Inr digest \<Rightarrow>
      (case canonicalBase64Url (ph_salt hash) 16 of Inl e \<Rightarrow> Inl ApiKeyHashError
       | Inr salt \<Rightarrow> Inr (digest, salt)))"

definition generateApiKey :: "8 word list \<Rightarrow> IssuedApiKey identity_result" where
  "generateApiKey source =
     (case requireRandomBytes source 41 of Inl e \<Rightarrow> Inl e
      | Inr bytes \<Rightarrow>
          let pre = base64urlEncode (take 9 bytes); secret = base64urlEncode (drop 9 bytes) in
          Inr \<lparr>ik_parts = \<lparr>kp_prefix = pre, kp_secret = secret\<rparr>,
               ik_value = ''psk_v1_'' @ pre @ ''_'' @ secret\<rparr>)"

definition parseApiKey :: "string \<Rightarrow> ApiKeyParts identity_result" where
  "parseApiKey v =
     (case matchCredential ''psk_v1_'' 12 v of None \<Rightarrow> Inl ApiKeyFormatError
      | Some parts \<Rightarrow>
      (case canonicalBase64Url (kp_prefix parts) 9 of Inl e \<Rightarrow> Inl e
       | Inr _ \<Rightarrow>
      (case canonicalBase64Url (kp_secret parts) 32 of Inl e \<Rightarrow> Inl e
       | Inr _ \<Rightarrow> Inr parts)))"

definition hashApiKeySecret :: "kdf \<Rightarrow> string \<Rightarrow> 8 word list \<Rightarrow> ApiKeyPasswordHash identity_result" where
  "hashApiKeySecret kdf secret source =
     (case canonicalBase64Url secret 32 of Inl e \<Rightarrow> Inl e
      | Inr secretBytes \<Rightarrow>
      (case requireRandomBytes source 16 of Inl e \<Rightarrow> Inl e
       | Inr salt \<Rightarrow>
           Inr \<lparr>ph_algorithm = ''scrypt-v1'', ph_blockSize = 8, ph_cost = 32768,
                ph_digest = base64urlEncode (kdf secretBytes salt), ph_keyLength = 32, ph_parallelization = 1,
                ph_salt = base64urlEncode salt\<rparr>))"

definition verifyApiKeySecret :: "kdf \<Rightarrow> string \<Rightarrow> ApiKeyPasswordHash \<Rightarrow> bool identity_result" where
  "verifyApiKeySecret kdf secret hash =
     (case canonicalBase64Url secret 32 of Inl e \<Rightarrow> Inl e
      | Inr secretBytes \<Rightarrow>
      (case validateHash hash of Inl e \<Rightarrow> Inl e
       | Inr (digest, salt) \<Rightarrow>
           let candidate = kdf secretBytes salt in
           if length candidate \<noteq> length digest then Inl KeyLengthError else Inr (candidate = digest)))"

section \<open>Service tokens\<close>

definition canonicalToken :: "string \<Rightarrow> string identity_result" where
  "canonicalToken v = (if base64urlEncode (base64urlDecode v) \<noteq> v then Inl ServiceTokenFormatError else Inr v)"

definition generateServiceToken :: "8 word list \<Rightarrow> IssuedApiKey identity_result" where
  "generateServiceToken bytes =
     (if length bytes \<noteq> 48 then Inl ServiceTokenFormatError
      else let pre = base64urlEncode (take 16 bytes); secret = base64urlEncode (drop 16 bytes) in
        Inr \<lparr>ik_parts = \<lparr>kp_prefix = pre, kp_secret = secret\<rparr>,
             ik_value = ''pss_v1_'' @ pre @ ''_'' @ secret\<rparr>)"

definition parseServiceToken :: "string \<Rightarrow> ApiKeyParts identity_result" where
  "parseServiceToken v =
     (case matchCredential ''pss_v1_'' 22 v of None \<Rightarrow> Inl ServiceTokenFormatError
      | Some parts \<Rightarrow>
      (case canonicalToken (kp_prefix parts) of Inl e \<Rightarrow> Inl e
       | Inr pre \<Rightarrow>
      (case canonicalToken (kp_secret parts) of Inl e \<Rightarrow> Inl e
       | Inr secret \<Rightarrow> Inr \<lparr>kp_prefix = pre, kp_secret = secret\<rparr>)))"

section \<open>Authenticators\<close>

record AuthenticatableApiKey =
  ak_authenticatedAt :: string
  ak_capabilities :: "string list"
  ak_credentialId :: string
  ak_passwordHash :: ApiKeyPasswordHash
  ak_prefix :: string
  ak_principalId :: string
  ak_resourceScope :: ResourceScope
  ak_tenantId :: string

record ApiKeyUseConfirmation =
  uc_credentialId :: string
  uc_prefix :: string
  uc_tenantId :: string

definition credentialPrincipal ::
    "AuthenticatableApiKey \<Rightarrow> AuthenticationMethod \<Rightarrow> PrincipalType \<Rightarrow> Role \<Rightarrow> js_text \<Rightarrow> PrincipalContext" where
  "credentialPrincipal c m t r requestId =
     \<lparr>pc_authentication = \<lparr>ac_authenticatedAt = ak_authenticatedAt c, ac_credentialId = Some (ak_credentialId c),
        ac_method = m\<rparr>,
      pc_capabilities = ak_capabilities c, pc_principalId = ak_principalId c, pc_principalType = t,
      pc_requestId = requestId, pc_resourceScope = ak_resourceScope c, pc_roles = [r],
      pc_tenantId = ak_tenantId c\<rparr>"

definition authenticateApiKey ::
    "(string \<Rightarrow> bool) \<Rightarrow> kdf \<Rightarrow> (string \<Rightarrow> AuthenticatableApiKey option) \<Rightarrow> (ApiKeyUseConfirmation \<Rightarrow> bool) \<Rightarrow>
     string \<Rightarrow> js_text \<Rightarrow> PrincipalContext identity_result" where
  "authenticateApiKey isoDatetime kdf findActiveByPrefix confirmActiveUse v requestId =
     (case parseApiKey v of Inl e \<Rightarrow> Inl InvalidApiKeyError
      | Inr parts \<Rightarrow>
      (case findActiveByPrefix (kp_prefix parts) of None \<Rightarrow> Inl InvalidApiKeyError
       | Some credential \<Rightarrow>
      if ak_prefix credential \<noteq> kp_prefix parts then Inl IdentityDataIntegrityError
      else case verifyApiKeySecret kdf (kp_secret parts) (ak_passwordHash credential) of
        Inl e \<Rightarrow> Inl IdentityDataIntegrityError
      | Inr verified \<Rightarrow>
      if \<not> verified then Inl InvalidApiKeyError
      else
        let actor = credentialPrincipal credential ApiKeyMethod WorkloadPrincipal IngestRole requestId in
        if \<not> PrincipalContextSchema isoDatetime actor then Inl IdentityDataIntegrityError
        else if \<not> confirmActiveUse \<lparr>uc_credentialId = ak_credentialId credential, uc_prefix = ak_prefix credential,
                  uc_tenantId = ak_tenantId credential\<rparr>
        then Inl InvalidApiKeyError
        else Inr actor))"

text \<open>A stored service credential carries its kind; the confirmation repeats all of it but the instant.\<close>

definition authenticateServiceToken ::
    "(string \<Rightarrow> bool) \<Rightarrow> kdf \<Rightarrow> (string \<Rightarrow> (string \<times> AuthenticatableApiKey) option) \<Rightarrow>
     (string \<times> AuthenticatableApiKey \<Rightarrow> bool) \<Rightarrow> string \<Rightarrow> js_text \<Rightarrow> PrincipalContext identity_result" where
  "authenticateServiceToken isoDatetime kdf findActiveServiceByPrefix confirmActiveServiceUse v requestId =
     (case parseServiceToken v of Inl e \<Rightarrow> Inl InvalidServiceTokenError
      | Inr parts \<Rightarrow>
      (case findActiveServiceByPrefix (kp_prefix parts) of None \<Rightarrow> Inl InvalidServiceTokenError
       | Some (kind, credential) \<Rightarrow>
      if kind \<noteq> ''service_token'' \<or> ak_prefix credential \<noteq> kp_prefix parts then Inl IdentityDataIntegrityError
      else case verifyApiKeySecret kdf (kp_secret parts) (ak_passwordHash credential) of
        Inl e \<Rightarrow> Inl IdentityDataIntegrityError
      | Inr verified \<Rightarrow>
      if \<not> verified then Inl InvalidServiceTokenError
      else
        let actor = credentialPrincipal credential ServiceTokenMethod ServicePrincipal MemberRole requestId in
        if \<not> PrincipalContextSchema isoDatetime actor then Inl IdentityDataIntegrityError
        else if \<not> confirmActiveServiceUse (kind, credential) then Inl InvalidServiceTokenError
        else Inr actor))"

section \<open>Life cycle\<close>

definition printableText :: "nat \<Rightarrow> js_text \<Rightarrow> bool" where
  "printableText maximumLength s \<longleftrightarrow>
     1 \<le> length s \<and> length (codePoints s) \<le> maximumLength \<and> js_trim s = s \<and>
     \<not> list_ex (\<lambda>codePoint. codePoint \<le> 0x1f \<or> codePoint = 0x7f) (codePoints s)"

definition ApiKeyNameSchema :: "js_text \<Rightarrow> bool" where
  "ApiKeyNameSchema s \<longleftrightarrow> printableText 128 s"

definition ApiKeyRevocationReasonSchema :: "js_text \<Rightarrow> bool" where
  "ApiKeyRevocationReasonSchema s \<longleftrightarrow> printableText 512 s"

definition DEFAULT_EXPIRATION_MS :: int where
  "DEFAULT_EXPIRATION_MS = 90 * 24 * 60 * 60 * 1000"

definition MIN_EXPIRATION_MS :: int where
  "MIN_EXPIRATION_MS = 60 * 1000"

definition MAX_EXPIRATION_MS :: int where
  "MAX_EXPIRATION_MS = 365 * 24 * 60 * 60 * 1000"

definition MAX_GENERATION_ATTEMPTS :: nat where
  "MAX_GENERATION_ATTEMPTS = 3"

text \<open>An instant whose ISO text has a year of four digits; the schema refuses the others.\<close>

definition isoYear :: "int \<Rightarrow> bool" where
  "isoYear t \<longleftrightarrow> - 62167219200000 \<le> t \<and> t \<le> MAX_UTC_MS"

record ManagedApiKeyCredential =
  mk_capabilities :: "string list"
  mk_createdAt :: string
  mk_credentialId :: string
  mk_expiresAt :: int
  mk_name :: js_text
  mk_prefix :: string
  mk_principalId :: string
  mk_resourceScope :: ResourceScope
  mk_revokedAt :: "string option"
  mk_rotatedFromCredentialId :: "string option"
  mk_tenantId :: string

record CreateApiKeyCredential =
  cc_actorPrincipalId :: string
  cc_capabilities :: "string list"
  cc_credentialId :: string
  cc_expiresAt :: int
  cc_name :: js_text
  cc_passwordHash :: ApiKeyPasswordHash
  cc_prefix :: string
  cc_principalId :: string
  cc_resourceScope :: ResourceScope
  cc_rotatedFromCredentialId :: "string option"
  cc_tenantId :: string

text \<open>
  What one call draws from its surroundings: the instants of its two readings of the clock, the workload
  identifier, and for each generation attempt the credential identifier, the key bytes and the salt.
\<close>

record LifecycleDraws =
  ld_activeAt :: int
  ld_now :: int
  ld_workloadId :: string
  ld_credentialId :: "nat \<Rightarrow> string"
  ld_keyBytes :: "nat \<Rightarrow> 8 word list"
  ld_salt :: "nat \<Rightarrow> 8 word list"

text \<open>A requested expiration is the instant of its text, \<open>None\<close> when the text is not a timestamp.\<close>

definition expiration :: "int \<Rightarrow> int option option \<Rightarrow> int identity_result" where
  "expiration now requested =
     (case requested of
        Some None \<Rightarrow> Inl InvalidApiKeyLifecycleInputError
      | _ \<Rightarrow>
          let expiresAt = (case requested of Some (Some t) \<Rightarrow> t | _ \<Rightarrow> now + DEFAULT_EXPIRATION_MS) in
          if requested = None \<and> \<not> isoYear expiresAt then Inl InvalidApiKeyLifecycleInputError
          else if expiresAt - now < MIN_EXPIRATION_MS \<or> expiresAt - now > MAX_EXPIRATION_MS
          then Inl InvalidApiKeyLifecycleInputError
          else Inr expiresAt)"

definition requireGeneratedId :: "string \<Rightarrow> string identity_result" where
  "requireGeneratedId v = (if \<not> OpaqueIdSchema v then Inl ApiKeyGenerationError else Inr v)"

definition forbid :: "access_result \<Rightarrow> unit identity_result" where
  "forbid r = map_sum IdentityForbidden id r"

definition requireIdentityAdministrator :: "PrincipalContext \<Rightarrow> access_result" where
  "requireIdentityAdministrator issuer =
     (case requireCapability issuer ''identity:manage'' of Inl e \<Rightarrow> Inl e
      | Inr _ \<Rightarrow> if pc_principalType issuer \<noteq> UserPrincipal then Inl DelegationRequiresUser else Inr ())"

definition requireIdentityManager :: "PrincipalContext \<Rightarrow> ResourceScope \<Rightarrow> access_result" where
  "requireIdentityManager issuer targetScope =
     (case requireIdentityAdministrator issuer of Inl e \<Rightarrow> Inl e
      | Inr _ \<Rightarrow>
          if \<not> canDelegateResourceScope (pc_resourceScope issuer) targetScope then Inl DelegatedScopeBroader
          else Inr ())"

definition activeAt :: "ManagedApiKeyCredential \<Rightarrow> int \<Rightarrow> bool" where
  "activeAt credential now \<longleftrightarrow> mk_revokedAt credential = None \<and> mk_expiresAt credential > now"

definition managedCredential :: "CreateApiKeyCredential \<Rightarrow> string \<Rightarrow> ManagedApiKeyCredential" where
  "managedCredential c createdAt =
     \<lparr>mk_capabilities = cc_capabilities c, mk_createdAt = createdAt, mk_credentialId = cc_credentialId c,
      mk_expiresAt = cc_expiresAt c, mk_name = cc_name c, mk_prefix = cc_prefix c,
      mk_principalId = cc_principalId c, mk_resourceScope = cc_resourceScope c, mk_revokedAt = None,
      mk_rotatedFromCredentialId = cc_rotatedFromCredentialId c, mk_tenantId = cc_tenantId c\<rparr>"

definition generateCredential ::
    "kdf \<Rightarrow> LifecycleDraws \<Rightarrow> nat \<Rightarrow> CreateApiKeyCredential \<Rightarrow> (CreateApiKeyCredential \<times> IssuedApiKey) identity_result" where
  "generateCredential kdf draws attempt input =
     (case generateApiKey (ld_keyBytes draws attempt) of Inl e \<Rightarrow> Inl e
      | Inr issued \<Rightarrow>
      (case requireGeneratedId (ld_credentialId draws attempt) of Inl e \<Rightarrow> Inl e
       | Inr credentialId \<Rightarrow>
      (case hashApiKeySecret kdf (kp_secret (ik_parts issued)) (ld_salt draws attempt) of Inl e \<Rightarrow> Inl e
       | Inr hash \<Rightarrow>
           Inr (input\<lparr>cc_credentialId := credentialId, cc_passwordHash := hash,
                  cc_prefix := kp_prefix (ik_parts issued)\<rparr>, issued))))"

text \<open>
  The attempts of a call: a conflict in the store starts another one, any other error is final. The store
  is a function of its state; a refused write leaves the state it returns.
\<close>

fun generationLoop ::
    "kdf \<Rightarrow> LifecycleDraws \<Rightarrow> (CreateApiKeyCredential \<Rightarrow> 's \<Rightarrow> string identity_result \<times> 's) \<Rightarrow>
     CreateApiKeyCredential \<Rightarrow> nat \<Rightarrow> nat \<Rightarrow> 's \<Rightarrow> (ManagedApiKeyCredential \<times> string) identity_result \<times> 's" where
  "generationLoop kdf draws store input attempt 0 s = (Inl ApiKeyGenerationError, s)"
| "generationLoop kdf draws store input attempt (Suc left) s =
     (case generateCredential kdf draws attempt input of Inl e \<Rightarrow> (Inl e, s)
      | Inr (credential, issued) \<Rightarrow>
      (case store credential s of
         (Inr createdAt, t) \<Rightarrow> (Inr (managedCredential credential createdAt, ik_value issued), t)
       | (Inl e, t) \<Rightarrow>
           if e \<noteq> ApiKeyCredentialConflictError then (Inl e, t)
           else generationLoop kdf draws store input (Suc attempt) left t))"

definition blankHash :: ApiKeyPasswordHash where
  "blankHash = \<lparr>ph_algorithm = [], ph_blockSize = 0, ph_cost = 0, ph_digest = [], ph_keyLength = 0,
     ph_parallelization = 0, ph_salt = []\<rparr>"

definition issueApiKey ::
    "kdf \<Rightarrow> LifecycleDraws \<Rightarrow> (CreateApiKeyCredential \<Rightarrow> 's \<Rightarrow> string identity_result \<times> 's) \<Rightarrow>
     PrincipalContext \<Rightarrow> string list \<Rightarrow> js_text \<Rightarrow> ResourceScope \<Rightarrow> int option option \<Rightarrow> 's \<Rightarrow>
     (ManagedApiKeyCredential \<times> string) identity_result \<times> 's" where
  "issueApiKey kdf draws store issuer capabilities name resourceScope expiresAt s =
     (case forbid (requireWorkloadDelegation issuer capabilities resourceScope) of Inl e \<Rightarrow> (Inl e, s)
      | Inr _ \<Rightarrow>
      if \<not> ApiKeyNameSchema name then (Inl InvalidApiKeyLifecycleInputError, s)
      else case expiration (ld_now draws) expiresAt of Inl e \<Rightarrow> (Inl e, s)
      | Inr expires \<Rightarrow>
      (case requireGeneratedId (ld_workloadId draws) of Inl e \<Rightarrow> (Inl e, s)
       | Inr workload \<Rightarrow>
           generationLoop kdf draws store
             \<lparr>cc_actorPrincipalId = pc_principalId issuer, cc_capabilities = capabilities, cc_credentialId = [],
              cc_expiresAt = expires, cc_name = name, cc_passwordHash = blankHash, cc_prefix = [],
              cc_principalId = workload, cc_resourceScope = resourceScope, cc_rotatedFromCredentialId = None,
              cc_tenantId = pc_tenantId issuer\<rparr> 0 MAX_GENERATION_ATTEMPTS s))"

definition rotateApiKey ::
    "kdf \<Rightarrow> LifecycleDraws \<Rightarrow> (string \<Rightarrow> string \<Rightarrow> 's \<Rightarrow> ManagedApiKeyCredential option) \<Rightarrow>
     (string \<Rightarrow> CreateApiKeyCredential \<Rightarrow> 's \<Rightarrow> string identity_result \<times> 's) \<Rightarrow>
     PrincipalContext \<Rightarrow> string \<Rightarrow> int option option \<Rightarrow> 's \<Rightarrow>
     (ManagedApiKeyCredential \<times> string) identity_result \<times> 's" where
  "rotateApiKey kdf draws findById store issuer credentialId expiresAt s =
     (if \<not> OpaqueIdSchema credentialId then (Inl InvalidApiKeyLifecycleInputError, s)
      else case forbid (requireIdentityAdministrator issuer) of Inl e \<Rightarrow> (Inl e, s)
      | Inr _ \<Rightarrow>
      (case findById (pc_tenantId issuer) credentialId s of None \<Rightarrow> (Inl ApiKeyCredentialNotFoundError, s)
       | Some previous \<Rightarrow>
      if \<not> activeAt previous (ld_activeAt draws) then (Inl ApiKeyCredentialNotActiveError, s)
      else case forbid (requireWorkloadDelegation issuer (mk_capabilities previous) (mk_resourceScope previous)) of
        Inl e \<Rightarrow> (Inl e, s)
      | Inr _ \<Rightarrow>
      (case expiration (ld_now draws) expiresAt of Inl e \<Rightarrow> (Inl e, s)
       | Inr expires \<Rightarrow>
           generationLoop kdf draws (store credentialId)
             \<lparr>cc_actorPrincipalId = pc_principalId issuer, cc_capabilities = mk_capabilities previous,
              cc_credentialId = [], cc_expiresAt = expires, cc_name = mk_name previous,
              cc_passwordHash = blankHash, cc_prefix = [], cc_principalId = mk_principalId previous,
              cc_resourceScope = mk_resourceScope previous,
              cc_rotatedFromCredentialId = Some (mk_credentialId previous), cc_tenantId = mk_tenantId previous\<rparr>
             0 MAX_GENERATION_ATTEMPTS s)))"

definition revokeApiKey ::
    "(string \<Rightarrow> string \<Rightarrow> 's \<Rightarrow> ManagedApiKeyCredential option) \<Rightarrow>
     (string \<Rightarrow> string \<Rightarrow> string \<Rightarrow> js_text \<Rightarrow> 's \<Rightarrow> bool identity_result \<times> 's) \<Rightarrow>
     PrincipalContext \<Rightarrow> string \<Rightarrow> js_text \<Rightarrow> 's \<Rightarrow> bool identity_result \<times> 's" where
  "revokeApiKey findById revoke issuer credentialId reason s =
     (if \<not> OpaqueIdSchema credentialId then (Inl InvalidApiKeyLifecycleInputError, s)
      else if \<not> ApiKeyRevocationReasonSchema reason then (Inl InvalidApiKeyLifecycleInputError, s)
      else case forbid (requireIdentityAdministrator issuer) of Inl e \<Rightarrow> (Inl e, s)
      | Inr _ \<Rightarrow>
      (case findById (pc_tenantId issuer) credentialId s of None \<Rightarrow> (Inl ApiKeyCredentialNotFoundError, s)
       | Some credential \<Rightarrow>
      (case forbid (requireIdentityManager issuer (mk_resourceScope credential)) of Inl e \<Rightarrow> (Inl e, s)
       | Inr _ \<Rightarrow> revoke (pc_tenantId issuer) credentialId (pc_principalId issuer) reason s)))"

section \<open>Responses\<close>

definition ApiKeyCapabilitiesSchema :: "string list \<Rightarrow> bool" where
  "ApiKeyCapabilitiesSchema cs \<longleftrightarrow>
     list_all (\<lambda>c. c \<in> set WORKLOAD_DELEGABLE_CAPABILITIES) cs \<and> 1 \<le> length cs \<and>
     length cs \<le> length WORKLOAD_DELEGABLE_CAPABILITIES \<and> distinct cs"

definition ApiKeyCredentialSchema :: "(string \<Rightarrow> bool) \<Rightarrow> ManagedApiKeyCredential \<Rightarrow> bool" where
  "ApiKeyCredentialSchema isoDatetime c \<longleftrightarrow>
     ApiKeyCapabilitiesSchema (mk_capabilities c) \<and> isoDatetime (mk_createdAt c) \<and> OpaqueIdSchema (mk_credentialId c) \<and>
     isoYear (mk_expiresAt c) \<and> ApiKeyNameSchema (mk_name c) \<and>
     length (mk_prefix c) = 12 \<and> base64Text (mk_prefix c) \<and> OpaqueIdSchema (mk_principalId c) \<and>
     ResourceScopeSchema (mk_resourceScope c) \<and> optional isoDatetime (mk_revokedAt c) \<and>
     optional OpaqueIdSchema (mk_rotatedFromCredentialId c) \<and> OpaqueIdSchema (mk_tenantId c)"

text \<open>\<open>/^psk_v1_[A-Za-z0-9_-]{12}_[A-Za-z0-9_-]{42}[AEIMQUYcgkosw048]$/\<close>\<close>

definition ApiKeyValueSchema :: "string \<Rightarrow> bool" where
  "ApiKeyValueSchema v \<longleftrightarrow>
     matchCredential ''psk_v1_'' 12 v \<noteq> None \<and> last v \<in> set ''AEIMQUYcgkosw048''"

record IssueApiKeyResponse =
  ir_credential :: ManagedApiKeyCredential
  ir_requestId :: js_text
  ir_value :: string

definition IssueApiKeyResponseSchema :: "(string \<Rightarrow> bool) \<Rightarrow> IssueApiKeyResponse \<Rightarrow> bool" where
  "IssueApiKeyResponseSchema isoDatetime r \<longleftrightarrow>
     ApiKeyCredentialSchema isoDatetime (ir_credential r) \<and>
     1 \<le> length (ir_requestId r) \<and> length (ir_requestId r) \<le> 128 \<and> ApiKeyValueSchema (ir_value r) \<and>
     splitOn CHR ''_'' (ir_value r) ! 2 = mk_prefix (ir_credential r)"

end
