(* ===== verification/Credentials_Safety.thy ===== *)
theory Credentials_Safety
  imports Credentials
begin

text \<open>
  What holds of credentials: keys and tokens are exactly the texts that generation produces, delegation is
  exact containment of authority, a key issued to a workload authenticates within the authority of its
  issuer, and the response contract of issuing refuses some of the keys that issuing produces.
\<close>

section \<open>Keys\<close>

lemma canonical_iff:
  assumes "0 < n"
  shows "canonicalBase64Url v n = Inr bs \<longleftrightarrow> length bs = n \<and> v = base64urlEncode bs"
proof
  assume "canonicalBase64Url v n = Inr bs"
  then show "length bs = n \<and> v = base64urlEncode bs" by (auto simp: canonicalBase64Url_def Let_def split: if_splits)
next
  assume r: "length bs = n \<and> v = base64urlEncode bs"
  then have "length v = (4 * n + 2) div 3" using base64_length by simp
  then have "v \<noteq> []" using assms by auto
  then show "canonicalBase64Url v n = Inr bs"
    using r by (simp add: canonicalBase64Url_def Let_def base64_roundtrip base64_encoded_text)
qed

lemma match_iff:
  "matchCredential head n v = Some parts \<longleftrightarrow>
     v = head @ kp_prefix parts @ ''_'' @ kp_secret parts \<and> length (kp_prefix parts) = n \<and> length (kp_secret parts) = 43 \<and>
     base64Text (kp_prefix parts) \<and> base64Text (kp_secret parts)"
proof
  assume m: "matchCredential head n v = Some parts"
  define rest where "rest = drop (length head) v"
  from m have r: "take (length head) v = head" "length rest = n + 1 + 43" "rest ! n = CHR ''_''"
    "parts = \<lparr>kp_prefix = take n rest, kp_secret = drop (n + 1) rest\<rparr>" "base64Text (take n rest)" "base64Text (drop (n + 1) rest)"
    by (auto simp: matchCredential_def Let_def rest_def split: if_splits)
  have "rest = take n rest @ rest ! n # drop (n + 1) rest" using r(2) by (simp add: id_take_nth_drop)
  moreover have "v = head @ rest" using r(1) append_take_drop_id [of "length head" v] by (simp add: rest_def)
  ultimately show "v = head @ kp_prefix parts @ ''_'' @ kp_secret parts \<and> length (kp_prefix parts) = n \<and>
      length (kp_secret parts) = 43 \<and> base64Text (kp_prefix parts) \<and> base64Text (kp_secret parts)"
    using r by simp
qed (auto simp: matchCredential_def Let_def nth_append)

lemma generated_parts:
  assumes "length bytes = 41"
  shows "generateApiKey bytes = Inr k \<longleftrightarrow>
    k = \<lparr>ik_parts = \<lparr>kp_prefix = base64urlEncode (take 9 bytes), kp_secret = base64urlEncode (drop 9 bytes)\<rparr>,
         ik_value = ''psk_v1_'' @ base64urlEncode (take 9 bytes) @ ''_'' @ base64urlEncode (drop 9 bytes)\<rparr>"
  using assms by (auto simp: generateApiKey_def requireRandomBytes_def Let_def)

lemma parse_key_iff:
  "parseApiKey v = Inr parts \<longleftrightarrow> (\<exists>bytes. length bytes = 41 \<and> generateApiKey bytes = Inr \<lparr>ik_parts = parts, ik_value = v\<rparr>)"
proof
  assume "parseApiKey v = Inr parts"
  then obtain p s where "matchCredential ''psk_v1_'' 12 v = Some parts" "canonicalBase64Url (kp_prefix parts) 9 = Inr p"
    "canonicalBase64Url (kp_secret parts) 32 = Inr s" by (auto simp: parseApiKey_def result_simps)
  then have "length (p @ s) = 41" "generateApiKey (p @ s) = Inr \<lparr>ik_parts = parts, ik_value = v\<rparr>"
    by (cases parts; simp add: canonical_iff match_iff generated_parts)+
  then show "\<exists>bytes. length bytes = 41 \<and> generateApiKey bytes = Inr \<lparr>ik_parts = parts, ik_value = v\<rparr>" by blast
next
  assume "\<exists>bytes. length bytes = 41 \<and> generateApiKey bytes = Inr \<lparr>ik_parts = parts, ik_value = v\<rparr>"
  then obtain bytes where b: "length bytes = 41" "generateApiKey bytes = Inr \<lparr>ik_parts = parts, ik_value = v\<rparr>" by blast
  have "canonicalBase64Url (base64urlEncode (take 9 bytes)) 9 = Inr (take 9 bytes)"
    "canonicalBase64Url (base64urlEncode (drop 9 bytes)) 32 = Inr (drop 9 bytes)"
    using b(1) by (simp_all add: canonical_iff)
  moreover have "matchCredential ''psk_v1_'' 12 v = Some parts"
    using b by (auto simp: generated_parts match_iff base64_length base64_encoded_text)
  ultimately show "parseApiKey v = Inr parts" using b by (simp add: parseApiKey_def generated_parts)
qed

lemma token_canonical_iff: "canonicalToken v = Inr w \<longleftrightarrow> w = v \<and> base64urlEncode (base64urlDecode v) = v"
  by (auto simp: canonicalToken_def)

lemma parse_token_iff:
  "parseServiceToken v = Inr parts \<longleftrightarrow>
     (\<exists>bytes. length bytes = 48 \<and> generateServiceToken bytes = Inr \<lparr>ik_parts = parts, ik_value = v\<rparr>)"
proof
  assume "parseServiceToken v = Inr parts"
  then have p: "v = ''pss_v1_'' @ kp_prefix parts @ ''_'' @ kp_secret parts" "length (kp_prefix parts) = 22"
    "length (kp_secret parts) = 43" "base64urlEncode (base64urlDecode (kp_prefix parts)) = kp_prefix parts"
    "base64urlEncode (base64urlDecode (kp_secret parts)) = kp_secret parts"
    by (auto simp: parseServiceToken_def result_simps token_canonical_iff match_iff)
  let ?bytes = "base64urlDecode (kp_prefix parts) @ base64urlDecode (kp_secret parts)"
  have "length (base64urlDecode (kp_prefix parts)) = 16" "length (base64urlDecode (kp_secret parts)) = 32"
    using p(2,3) by (simp_all add: base64_decoded_length)
  then have "length ?bytes = 48" "generateServiceToken ?bytes = Inr \<lparr>ik_parts = parts, ik_value = v\<rparr>"
    using p by (simp_all add: generateServiceToken_def Let_def)
  then show "\<exists>bytes. length bytes = 48 \<and> generateServiceToken bytes = Inr \<lparr>ik_parts = parts, ik_value = v\<rparr>" by blast
next
  assume "\<exists>bytes. length bytes = 48 \<and> generateServiceToken bytes = Inr \<lparr>ik_parts = parts, ik_value = v\<rparr>"
  then obtain bytes where b: "length bytes = 48" "v = ''pss_v1_'' @ kp_prefix parts @ ''_'' @ kp_secret parts"
    "kp_prefix parts = base64urlEncode (take 16 bytes)" "kp_secret parts = base64urlEncode (drop 16 bytes)"
    by (auto simp: generateServiceToken_def Let_def)
  have "matchCredential ''pss_v1_'' 22 v = Some parts"
    using b by (simp add: match_iff base64_length base64_encoded_text)
  then show "parseServiceToken v = Inr parts"
    using b(3,4) by (simp add: parseServiceToken_def canonicalToken_def base64_roundtrip)
qed

lemma hash_verifies:
  assumes "\<And>a b. length (kdf a b) = 32" and "hashApiKeySecret kdf secret salt = Inr hash"
  shows "verifyApiKeySecret kdf secret hash = Inr True"
proof -
  obtain sb where s: "canonicalBase64Url secret 32 = Inr sb" "length salt = 16"
    "hash = \<lparr>ph_algorithm = ''scrypt-v1'', ph_blockSize = 8, ph_cost = 32768, ph_digest = base64urlEncode (kdf sb salt),
       ph_keyLength = 32, ph_parallelization = 1, ph_salt = base64urlEncode salt\<rparr>"
    using assms(2) by (auto simp: hashApiKeySecret_def requireRandomBytes_def result_simps)
  have "canonicalBase64Url (base64urlEncode (kdf sb salt)) 32 = Inr (kdf sb salt)"
    "canonicalBase64Url (base64urlEncode salt) 16 = Inr salt" using assms(1) s(2) by (simp_all add: canonical_iff)
  then show ?thesis using s by (simp add: verifyApiKeySecret_def validateHash_def)
qed

text \<open>
  C26. Keys and tokens are exactly what generation writes. A presented API key is accepted by the parser
  exactly when it is the text of 41 random bytes, with the parts those bytes have, and a service token
  exactly when it is the text of 48 bytes; so no two texts name the same key. A secret always verifies
  against its own hash, for every key derivation of the fixed length.
\<close>

theorem credentials_parse_exactly_generated:
  "(parseApiKey v = Inr parts \<longleftrightarrow>
      (\<exists>bytes. length bytes = 41 \<and> generateApiKey bytes = Inr \<lparr>ik_parts = parts, ik_value = v\<rparr>)) \<and>
   (parseServiceToken v = Inr parts \<longleftrightarrow>
      (\<exists>bytes. length bytes = 48 \<and> generateServiceToken bytes = Inr \<lparr>ik_parts = parts, ik_value = v\<rparr>)) \<and>
   ((\<forall>a b. length (kdf a b) = 32) \<longrightarrow> hashApiKeySecret kdf secret salt = Inr hash \<longrightarrow>
      verifyApiKeySecret kdf secret hash = Inr True)"
  using parse_key_iff parse_token_iff hash_verifies by blast

definition sampleKdf :: kdf where
  "sampleKdf secret salt = take 32 (secret @ salt @ replicate 32 0)"

definition sampleKey :: IssuedApiKey where
  "sampleKey = \<lparr>ik_parts = \<lparr>kp_prefix = ''AAAAAAAAAAAA'', kp_secret = replicate 43 CHR ''A''\<rparr>,
     ik_value = ''psk_v1_AAAAAAAAAAAA_'' @ replicate 43 CHR ''A''\<rparr>"

definition sampleHash :: ApiKeyPasswordHash where
  "sampleHash = \<lparr>ph_algorithm = ''scrypt-v1'', ph_blockSize = 8, ph_cost = 32768, ph_digest = replicate 43 CHR ''A'',
     ph_keyLength = 32, ph_parallelization = 1, ph_salt = replicate 22 CHR ''A''\<rparr>"

lemma zeros_text: "base64urlEncode (replicate (3 * n) 0 @ bs) = replicate (4 * n) CHR ''A'' @ base64urlEncode bs"
proof (induction n)
  case (Suc n)
  have "replicate (3 * Suc n) (0 :: 8 word) = 0 # 0 # 0 # replicate (3 * n) 0"
    "replicate (4 * Suc n) CHR ''A'' = CHR ''A'' # CHR ''A'' # CHR ''A'' # CHR ''A'' # replicate (4 * n) CHR ''A''"
    by (simp_all flip: replicate_Suc)
  then show ?case using Suc by (simp add: Let_def base64Char_def BASE64URL_ALPHABET_def del: mult_Suc_right)
qed simp

lemma zero_text: "base64urlEncode (replicate 9 0) = ''AAAAAAAAAAAA''" "base64urlEncode (replicate 32 0) = replicate 43 CHR ''A''"
  "base64urlEncode (replicate 16 0) = replicate 22 CHR ''A''"
proof -
  have r: "replicate 32 0 = replicate (3 * 10) 0 @ [0 :: 8 word, 0]" "replicate 16 0 = replicate (3 * 5) 0 @ [0 :: 8 word]"
    "replicate 43 CHR ''A'' = replicate (4 * 10) CHR ''A'' @ ''AAA''" "replicate 22 CHR ''A'' = replicate (4 * 5) CHR ''A'' @ ''AA''"
    "''AAAAAAAAAAAA'' = replicate (4 * 3) CHR ''A''"
    by (simp_all add: numeral_eq_Suc)
  show "base64urlEncode (replicate 9 0) = ''AAAAAAAAAAAA''" using zeros_text [of 3 "[]"] by (simp add: r(5))
  show "base64urlEncode (replicate 32 0) = replicate 43 CHR ''A''"
    unfolding r(1,3) zeros_text by (simp add: Let_def base64Char_def BASE64URL_ALPHABET_def)
  show "base64urlEncode (replicate 16 0) = replicate 22 CHR ''A''"
    unfolding r(2,4) zeros_text by (simp add: Let_def base64Char_def BASE64URL_ALPHABET_def)
qed

lemma sampleKdf_length [simp]: "length (sampleKdf a b) = 32"
  by (simp add: sampleKdf_def)

lemma sample_generated: "generateApiKey (replicate 41 0) = Inr sampleKey"
  using zero_text by (simp add: generated_parts sampleKey_def)

lemma sample_hashed: "hashApiKeySecret sampleKdf (kp_secret (ik_parts sampleKey)) (replicate 16 0) = Inr sampleHash"
proof -
  have "canonicalBase64Url (replicate 43 CHR ''A'') 32 = Inr (replicate 32 0)"
    using zero_text(2) by (subst canonical_iff) simp_all
  then show ?thesis
    by (simp add: hashApiKeySecret_def requireRandomBytes_def sampleKey_def sampleHash_def sampleKdf_def zero_text)
qed

theorem credentials_parse_exactly_generated_witness:
  "parseApiKey (ik_value sampleKey) = Inr (ik_parts sampleKey) \<and>
   verifyApiKeySecret sampleKdf (kp_secret (ik_parts sampleKey)) sampleHash = Inr True"
proof -
  have "\<exists>bytes. length bytes = 41 \<and> generateApiKey bytes = Inr \<lparr>ik_parts = ik_parts sampleKey, ik_value = ik_value sampleKey\<rparr>"
    using sample_generated by (intro exI [of _ "replicate 41 0"]) simp
  then show ?thesis
    using credentials_parse_exactly_generated [of "ik_value sampleKey" "ik_parts sampleKey" sampleKdf
        "kp_secret (ik_parts sampleKey)" "replicate 16 0" sampleHash] sample_hashed by simp
qed

section \<open>Delegation\<close>

lemma delegation_iff:
  assumes "ResourceScopeSchema (pc_resourceScope issuer)" "ResourceScopeSchema requested"
  shows "requireWorkloadDelegation issuer capabilities requested = Inr () \<longleftrightarrow>
    ''identity:manage'' \<in> set (pc_capabilities issuer) \<and> pc_principalType issuer = UserPrincipal \<and>
    capabilities \<noteq> [] \<and> distinct capabilities \<and>
    set capabilities \<subseteq> set WORKLOAD_DELEGABLE_CAPABILITIES \<inter> set (pc_capabilities issuer) \<and>
    (\<forall>p e. requireEnvironmentAccess requested p e = Inr () \<longrightarrow> requireEnvironmentAccess (pc_resourceScope issuer) p e = Inr ())"
  using delegation_iff_contained [OF assms] environment_access_iff [OF assms(1)] environment_access_iff [OF assms(2)]
  by (auto simp: requireWorkloadDelegation_def requireCapability_def list_ex_iff)

text \<open>
  C25. Delegation is containment. An issuer may grant capabilities and a resource scope to a workload
  exactly when it is a user with the identity capability, the capabilities are distinct, delegable and its
  own, and every environment the granted scope admits is one its own scope admits.
\<close>

theorem delegation_granted_exactly:
  assumes "ResourceScopeSchema (pc_resourceScope issuer)" "ResourceScopeSchema requested"
  shows "requireWorkloadDelegation issuer capabilities requested = Inr () \<longleftrightarrow>
    ''identity:manage'' \<in> set (pc_capabilities issuer) \<and> pc_principalType issuer = UserPrincipal \<and>
    capabilities \<noteq> [] \<and> distinct capabilities \<and>
    set capabilities \<subseteq> set WORKLOAD_DELEGABLE_CAPABILITIES \<inter> set (pc_capabilities issuer) \<and>
    (\<forall>p e. requireEnvironmentAccess requested p e = Inr () \<longrightarrow> requireEnvironmentAccess (pc_resourceScope issuer) p e = Inr ())"
  by (rule delegation_iff [OF assms])

definition sampleIssuer :: PrincipalContext where
  "sampleIssuer =
     \<lparr>pc_authentication = \<lparr>ac_authenticatedAt = ''2026-01-01T00:00:00Z'', ac_credentialId = Some ''session_1'', ac_method = OidcMethod\<rparr>,
      pc_capabilities = [''identity:manage'', ''replay:run'', ''replay:read''], pc_principalId = ''user_1'',
      pc_principalType = UserPrincipal, pc_requestId = replicate 8 0x61,
      pc_resourceScope = RestrictedScope [\<lparr>prs_environmentIds = Some [''staging'', ''production''], prs_projectId = ''shop''\<rparr>],
      pc_roles = [AdminRole], pc_tenantId = ''tenant_1''\<rparr>"

definition sampleGrant :: ResourceScope where
  "sampleGrant = RestrictedScope [\<lparr>prs_environmentIds = Some [''staging''], prs_projectId = ''shop''\<rparr>]"

lemma sample_scopes [simp]: "ResourceScopeSchema (pc_resourceScope sampleIssuer)" "ResourceScopeSchema sampleGrant"
  by (simp_all add: sampleIssuer_def sampleGrant_def ProjectResourceScopeSchema_def OpaqueIdSchema_def char_class_defs)

lemma sample_delegation: "requireWorkloadDelegation sampleIssuer [''replay:run''] sampleGrant = Inr ()"
  by (simp add: requireWorkloadDelegation_def requireCapability_def canDelegateResourceScope_def sampleIssuer_def sampleGrant_def
      WORKLOAD_DELEGABLE_CAPABILITIES_def)

theorem delegation_granted_exactly_witness:
  "''replay:run'' \<in> set (pc_capabilities sampleIssuer) \<and>
   requireEnvironmentAccess (pc_resourceScope sampleIssuer) ''shop'' ''staging'' = Inr ()"
proof -
  have "requireEnvironmentAccess sampleGrant ''shop'' ''staging'' = Inr ()"
    by (simp add: sampleGrant_def requireEnvironmentAccess_def requireProjectAccess_def)
  then show ?thesis using delegation_granted_exactly [OF sample_scopes, of "[''replay:run'']"] sample_delegation by auto
qed

section \<open>Issued keys\<close>

lemma generationLoop_Inr:
  "generationLoop kdf draws store input attempt n s = (Inr (m, v), t) \<Longrightarrow>
   \<exists>i c issued createdAt u. generateCredential kdf draws i input = Inr (c, issued) \<and> store c u = (Inr createdAt, t) \<and>
     m = managedCredential c createdAt \<and> v = ik_value issued"
proof (induction n arbitrary: attempt s)
  case (Suc n)
  show ?case
  proof (cases "generateCredential kdf draws attempt input")
    case (Inr r)
    obtain c issued where r: "r = (c, issued)" by fastforce
    show ?thesis
    proof (cases "store c s")
      case (Pair x u)
      show ?thesis
      proof (cases x)
        case (Inl e)
        then have "generationLoop kdf draws store input (Suc attempt) n u = (Inr (m, v), t)"
          using Suc.prems Inr r Pair by (simp split: if_splits)
        then show ?thesis by (rule Suc.IH)
      next
        case (Inr createdAt)
        then have "m = managedCredential c createdAt" "u = t" "v = ik_value issued"
          using Suc.prems Pair r \<open>generateCredential _ _ _ _ = _\<close> by auto
        then show ?thesis
          using Pair r Inr \<open>generateCredential _ _ _ _ = _\<close>
          by (intro exI [of _ attempt] exI [of _ c] exI [of _ issued] exI [of _ createdAt] exI [of _ s]) simp
      qed
    qed
  qed (use Suc.prems in simp)
qed simp

lemma generateCredential_Inr:
  assumes "generateCredential kdf draws i input = Inr (c, issued)"
  obtains bytes salt hash where "length bytes = 41" "generateApiKey bytes = Inr issued" "OpaqueIdSchema (cc_credentialId c)"
    "hashApiKeySecret kdf (kp_secret (ik_parts issued)) salt = Inr hash"
    "c = input\<lparr>cc_credentialId := cc_credentialId c, cc_passwordHash := hash, cc_prefix := kp_prefix (ik_parts issued)\<rparr>"
proof -
  from assms obtain cid hash where "generateApiKey (ld_keyBytes draws i) = Inr issued" "OpaqueIdSchema cid"
    "hashApiKeySecret kdf (kp_secret (ik_parts issued)) (ld_salt draws i) = Inr hash"
    "c = input\<lparr>cc_credentialId := cid, cc_passwordHash := hash, cc_prefix := kp_prefix (ik_parts issued)\<rparr>"
    by (auto simp: generateCredential_def requireGeneratedId_def result_simps split: if_splits)
  moreover from this(1) have "length (ld_keyBytes draws i) = 41" by (auto simp: generateApiKey_def requireRandomBytes_def split: if_splits)
  ultimately show ?thesis by (intro that [of "ld_keyBytes draws i" "ld_salt draws i" hash]) simp_all
qed

text \<open>The stored credential as the lookup returns it, with the instant of authentication.\<close>

definition storedKey :: "CreateApiKeyCredential \<Rightarrow> string \<Rightarrow> AuthenticatableApiKey" where
  "storedKey c at =
     \<lparr>ak_authenticatedAt = at, ak_capabilities = cc_capabilities c, ak_credentialId = cc_credentialId c,
      ak_passwordHash = cc_passwordHash c, ak_prefix = cc_prefix c, ak_principalId = cc_principalId c,
      ak_resourceScope = cc_resourceScope c, ak_tenantId = cc_tenantId c\<rparr>"

lemma forbid_ok: "forbid r = Inr u \<longleftrightarrow> r = Inr ()"
  by (cases r) (simp_all add: forbid_def)

lemma issue_Inr:
  assumes "issueApiKey kdf draws store issuer capabilities name grant expires s = (Inr (m, v), t)"
  obtains c createdAt u bytes salt hash expiresAt issued where "requireWorkloadDelegation issuer capabilities grant = Inr ()"
    "store c u = (Inr createdAt, t)" "m = managedCredential c createdAt" "v = ik_value issued"
    "length bytes = 41" "generateApiKey bytes = Inr issued" "hashApiKeySecret kdf (kp_secret (ik_parts issued)) salt = Inr hash"
    "cc_prefix c = kp_prefix (ik_parts issued)" "cc_passwordHash c = hash" "OpaqueIdSchema (cc_credentialId c)"
    "OpaqueIdSchema (cc_principalId c)" "cc_capabilities c = capabilities" "cc_resourceScope c = grant" "cc_name c = name"
    "ApiKeyNameSchema name" "cc_rotatedFromCredentialId c = None" "cc_tenantId c = pc_tenantId issuer"
    "expiration (ld_now draws) expires = Inr (cc_expiresAt c)"
proof -
  let ?input = "\<lambda>x w. \<lparr>cc_actorPrincipalId = pc_principalId issuer, cc_capabilities = capabilities, cc_credentialId = [],
      cc_expiresAt = x, cc_name = name, cc_passwordHash = blankHash, cc_prefix = [], cc_principalId = w,
      cc_resourceScope = grant, cc_rotatedFromCredentialId = None, cc_tenantId = pc_tenantId issuer\<rparr>"
  from assms obtain x w where g: "requireWorkloadDelegation issuer capabilities grant = Inr ()" "ApiKeyNameSchema name"
    "expiration (ld_now draws) expires = Inr x" "OpaqueIdSchema w"
    "generationLoop kdf draws store (?input x w) 0 MAX_GENERATION_ATTEMPTS s = (Inr (m, v), t)"
    by (auto simp: issueApiKey_def forbid_ok requireGeneratedId_def split: sum.splits if_splits)
  obtain i c issued createdAt u where c: "generateCredential kdf draws i (?input x w) = Inr (c, issued)" "store c u = (Inr createdAt, t)"
    "m = managedCredential c createdAt" "v = ik_value issued" using generationLoop_Inr [OF g(5)] by blast
  obtain bytes salt hash where b: "length bytes = 41" "generateApiKey bytes = Inr issued" "OpaqueIdSchema (cc_credentialId c)"
    "hashApiKeySecret kdf (kp_secret (ik_parts issued)) salt = Inr hash"
    "c = (?input x w)\<lparr>cc_credentialId := cc_credentialId c, cc_passwordHash := hash, cc_prefix := kp_prefix (ik_parts issued)\<rparr>"
    using generateCredential_Inr [OF c(1)] by blast
  have f: "cc_prefix c = kp_prefix (ik_parts issued)" "cc_passwordHash c = hash" "cc_principalId c = w" "cc_capabilities c = capabilities"
    "cc_resourceScope c = grant" "cc_name c = name" "cc_rotatedFromCredentialId c = None" "cc_tenantId c = pc_tenantId issuer" "cc_expiresAt c = x"
    by (subst b(5), simp)+
  show ?thesis by (rule that [OF g(1) c(2-4) b(1,2,4) f(1,2) b(3) _ f(4-6) g(2) f(7,8)]) (use f g in simp_all)
qed

lemma issued_authenticates:
  assumes issuer: "PrincipalContextSchema isoDatetime issuer" "ResourceScopeSchema grant" and kdf: "\<And>a b. length (kdf a b) = 32"
    and issue: "issueApiKey kdf draws store issuer capabilities name grant expires s = (Inr (m, v), t)"
  obtains c createdAt u where "store c u = (Inr createdAt, t)" "m = managedCredential c createdAt"
    "requireWorkloadDelegation issuer capabilities grant = Inr ()"
    "\<And>find confirm at requestId. find (cc_prefix c) = Some (storedKey c at) \<Longrightarrow> isoDatetime at \<Longrightarrow>
       8 \<le> length requestId \<Longrightarrow> length requestId \<le> 128 \<Longrightarrow>
       confirm \<lparr>uc_credentialId = cc_credentialId c, uc_prefix = cc_prefix c, uc_tenantId = cc_tenantId c\<rparr> \<Longrightarrow>
       authenticateApiKey isoDatetime kdf find confirm v requestId =
         Inr (credentialPrincipal (storedKey c at) ApiKeyMethod WorkloadPrincipal IngestRole requestId)"
    "cc_tenantId c = pc_tenantId issuer" "cc_capabilities c = capabilities" "cc_resourceScope c = grant"
proof (rule issue_Inr [OF issue])
  fix c createdAt u bytes salt hash issued
  assume d: "requireWorkloadDelegation issuer capabilities grant = Inr ()"
    and store: "store c u = (Inr createdAt, t)" "m = managedCredential c createdAt" "v = ik_value issued"
    and key: "length bytes = 41" "generateApiKey bytes = Inr issued" "hashApiKeySecret kdf (kp_secret (ik_parts issued)) salt = Inr hash"
    and c: "cc_prefix c = kp_prefix (ik_parts issued)" "cc_passwordHash c = hash" "OpaqueIdSchema (cc_credentialId c)"
      "OpaqueIdSchema (cc_principalId c)" "cc_capabilities c = capabilities" "cc_resourceScope c = grant"
      "cc_tenantId c = pc_tenantId issuer"
  have parse: "parseApiKey v = Inr (ik_parts issued)" using key store(3) parse_key_iff by (metis IssuedApiKey.surjective old.unit.exhaust)
  have verified: "verifyApiKeySecret kdf (kp_secret (ik_parts issued)) hash = Inr True" by (rule hash_verifies [OF kdf key(3)])
  have sub: "distinct capabilities" "set capabilities \<subseteq> set CAPABILITIES"
  proof -
    have "distinct capabilities" "set capabilities \<subseteq> set (pc_capabilities issuer)"
      using d by (auto simp: requireWorkloadDelegation_def result_simps list_ex_iff split: if_splits)
    moreover have "set (pc_capabilities issuer) \<subseteq> set CAPABILITIES" using issuer(1) by (auto simp: PrincipalContextSchema_def list_all_iff)
    ultimately show "distinct capabilities" "set capabilities \<subseteq> set CAPABILITIES" by blast+
  qed
  have "length capabilities \<le> length CAPABILITIES"
    using distinct_card [OF sub(1)] card_mono [OF finite_set sub(2)] card_length [of CAPABILITIES] by linarith
  then have schema: "PrincipalContextSchema isoDatetime (credentialPrincipal (storedKey c at) ApiKeyMethod WorkloadPrincipal IngestRole requestId)"
    if "isoDatetime at" "8 \<le> length requestId" "length requestId \<le> 128" for at requestId
    using that c sub issuer
    by (auto simp: PrincipalContextSchema_def AuthenticationContextSchema_def credentialPrincipal_def storedKey_def list_all_iff)
  show ?thesis
  proof (rule that [OF store(1,2) d _ c(7,5,6)])
    fix find confirm at and requestId :: js_text
    assume "find (cc_prefix c) = Some (storedKey c at)" "isoDatetime at" "8 \<le> length requestId" "length requestId \<le> 128"
      "confirm \<lparr>uc_credentialId = cc_credentialId c, uc_prefix = cc_prefix c, uc_tenantId = cc_tenantId c\<rparr>"
    then show "authenticateApiKey isoDatetime kdf find confirm v requestId =
        Inr (credentialPrincipal (storedKey c at) ApiKeyMethod WorkloadPrincipal IngestRole requestId)"
      using parse verified schema c by (simp add: authenticateApiKey_def Let_def storedKey_def)
  qed
qed

text \<open>
  C24. An issued key acts within its issuer. When a principal issues an API key, the store accepted one
  credential, and presenting the returned value authenticates, whenever the lookup finds that credential
  still active, as a workload of the issuer's tenant whose capabilities are delegable ones of the issuer
  and which reaches only environments the issuer reaches.
\<close>

theorem issued_key_acts_within_issuer:
  assumes "PrincipalContextSchema isoDatetime issuer" "ResourceScopeSchema grant" "\<And>a b. length (kdf a b) = 32"
    and "issueApiKey kdf draws store issuer capabilities name grant expires s = (Inr (m, v), t)"
  shows "\<exists>c createdAt u. store c u = (Inr createdAt, t) \<and> m = managedCredential c createdAt \<and>
    (\<forall>find confirm at requestId. find (cc_prefix c) = Some (storedKey c at) \<longrightarrow> isoDatetime at \<longrightarrow>
       8 \<le> length requestId \<longrightarrow> length requestId \<le> 128 \<longrightarrow>
       confirm \<lparr>uc_credentialId = cc_credentialId c, uc_prefix = cc_prefix c, uc_tenantId = cc_tenantId c\<rparr> \<longrightarrow>
       (\<exists>actor. authenticateApiKey isoDatetime kdf find confirm v requestId = Inr actor \<and>
          pc_tenantId actor = pc_tenantId issuer \<and> pc_principalType actor = WorkloadPrincipal \<and>
          set (pc_capabilities actor) \<subseteq> set (pc_capabilities issuer) \<inter> set WORKLOAD_DELEGABLE_CAPABILITIES \<and>
          (\<forall>p e. requireEnvironmentAccess (pc_resourceScope actor) p e = Inr () \<longrightarrow>
             requireEnvironmentAccess (pc_resourceScope issuer) p e = Inr ())))"
proof (rule issued_authenticates [OF assms])
  fix c createdAt u
  assume store: "store c u = (Inr createdAt, t)" "m = managedCredential c createdAt"
    and d: "requireWorkloadDelegation issuer capabilities grant = Inr ()"
    and auth: "\<And>find confirm at requestId. find (cc_prefix c) = Some (storedKey c at) \<Longrightarrow> isoDatetime at \<Longrightarrow>
       8 \<le> length requestId \<Longrightarrow> length requestId \<le> 128 \<Longrightarrow>
       confirm \<lparr>uc_credentialId = cc_credentialId c, uc_prefix = cc_prefix c, uc_tenantId = cc_tenantId c\<rparr> \<Longrightarrow>
       authenticateApiKey isoDatetime kdf find confirm v requestId =
         Inr (credentialPrincipal (storedKey c at) ApiKeyMethod WorkloadPrincipal IngestRole requestId)"
    and c: "cc_tenantId c = pc_tenantId issuer" "cc_capabilities c = capabilities" "cc_resourceScope c = grant"
  have scope: "ResourceScopeSchema (pc_resourceScope issuer)" using assms(1) by (simp add: PrincipalContextSchema_def)
  note g = d [unfolded delegation_iff [OF scope assms(2)]]
  have "\<exists>actor. authenticateApiKey isoDatetime kdf find confirm v requestId = Inr actor \<and>
      pc_tenantId actor = pc_tenantId issuer \<and> pc_principalType actor = WorkloadPrincipal \<and>
      set (pc_capabilities actor) \<subseteq> set (pc_capabilities issuer) \<inter> set WORKLOAD_DELEGABLE_CAPABILITIES \<and>
      (\<forall>p e. requireEnvironmentAccess (pc_resourceScope actor) p e = Inr () \<longrightarrow>
         requireEnvironmentAccess (pc_resourceScope issuer) p e = Inr ())"
    if "find (cc_prefix c) = Some (storedKey c at)" "isoDatetime at" "8 \<le> length requestId" "length requestId \<le> 128"
      "confirm \<lparr>uc_credentialId = cc_credentialId c, uc_prefix = cc_prefix c, uc_tenantId = cc_tenantId c\<rparr>"
    for find confirm at and requestId :: js_text
    using auth [of find at requestId confirm] that g c by (auto simp: credentialPrincipal_def storedKey_def)
  then show ?thesis using store by blast
qed

text \<open>A clock, identifiers and bytes for one issue, and a store that keeps what it is given.\<close>

definition sampleDraws :: "8 word \<Rightarrow> LifecycleDraws" where
  "sampleDraws b = \<lparr>ld_activeAt = 1000, ld_now = 1000, ld_workloadId = ''wrk_1'', ld_credentialId = (\<lambda>_. ''key_1''),
     ld_keyBytes = (\<lambda>_. replicate 9 b @ replicate 32 0), ld_salt = (\<lambda>_. replicate 16 0)\<rparr>"

definition keepCredential :: "CreateApiKeyCredential \<Rightarrow> CreateApiKeyCredential list \<Rightarrow> string identity_result \<times> CreateApiKeyCredential list" where
  "keepCredential c s = (Inr ''2026-01-01T00:00:00Z'', c # s)"

definition issuedCredential :: "8 word \<Rightarrow> CreateApiKeyCredential" where
  "issuedCredential b = \<lparr>cc_actorPrincipalId = ''user_1'', cc_capabilities = [''replay:run''], cc_credentialId = ''key_1'',
     cc_expiresAt = 1000 + DEFAULT_EXPIRATION_MS, cc_name = [0x61], cc_passwordHash = sampleHash,
     cc_prefix = base64urlEncode (replicate 9 b), cc_principalId = ''wrk_1'', cc_resourceScope = sampleGrant,
     cc_rotatedFromCredentialId = None, cc_tenantId = ''tenant_1''\<rparr>"

definition issuedValue :: "8 word \<Rightarrow> string" where
  "issuedValue b = ''psk_v1_'' @ base64urlEncode (replicate 9 b) @ ''_'' @ replicate 43 CHR ''A''"

lemma sample_name: "ApiKeyNameSchema [0x61]"
  by (simp add: ApiKeyNameSchema_def printableText_def js_trim_def js_whitespace_def)

lemma sample_issue:
  "issueApiKey sampleKdf (sampleDraws b) keepCredential sampleIssuer [''replay:run''] [0x61] sampleGrant None [] =
     (Inr (managedCredential (issuedCredential b) ''2026-01-01T00:00:00Z'', issuedValue b), [issuedCredential b])"
proof -
  have key: "generateApiKey (replicate 9 b @ replicate 32 0) =
      Inr \<lparr>ik_parts = \<lparr>kp_prefix = base64urlEncode (replicate 9 b), kp_secret = replicate 43 CHR ''A''\<rparr>, ik_value = issuedValue b\<rparr>"
    by (simp add: generated_parts zero_text issuedValue_def)
  have hash: "hashApiKeySecret sampleKdf (replicate 43 CHR ''A'') (replicate 16 0) = Inr sampleHash"
    using sample_hashed by (simp add: sampleKey_def)
  have ids: "OpaqueIdSchema ''key_1''" "OpaqueIdSchema ''wrk_1''" by (simp_all add: OpaqueIdSchema_def char_class_defs)
  have expires: "expiration 1000 None = Inr (1000 + DEFAULT_EXPIRATION_MS)"
    by (simp add: expiration_def Let_def isoYear_def DEFAULT_EXPIRATION_MS_def MIN_EXPIRATION_MS_def MAX_EXPIRATION_MS_def MAX_UTC_MS_def)
  have attempts: "MAX_GENERATION_ATTEMPTS = Suc (Suc (Suc 0))" by (simp add: MAX_GENERATION_ATTEMPTS_def)
  have issuer: "pc_principalId sampleIssuer = ''user_1''" "pc_tenantId sampleIssuer = ''tenant_1''" by (simp_all add: sampleIssuer_def)
  have draws: "ld_now (sampleDraws b) = 1000" "ld_workloadId (sampleDraws b) = ''wrk_1''" "ld_credentialId (sampleDraws b) 0 = ''key_1''"
    "ld_keyBytes (sampleDraws b) 0 = replicate 9 b @ replicate 32 0" "ld_salt (sampleDraws b) 0 = replicate 16 0"
    by (simp_all add: sampleDraws_def)
  have generated: "generateCredential sampleKdf (sampleDraws b) 0 input =
      Inr (input\<lparr>cc_credentialId := ''key_1'', cc_passwordHash := sampleHash, cc_prefix := base64urlEncode (replicate 9 b)\<rparr>,
        \<lparr>ik_parts = \<lparr>kp_prefix = base64urlEncode (replicate 9 b), kp_secret = replicate 43 CHR ''A''\<rparr>, ik_value = issuedValue b\<rparr>)" for input
    unfolding generateCredential_def draws key requireGeneratedId_def using ids(1) hash by simp
  show ?thesis
    unfolding issueApiKey_def sample_delegation draws expires attempts issuer
    using ids sample_name by (simp add: forbid_def requireGeneratedId_def generated keepCredential_def issuedCredential_def)
qed

lemma sample_issuer: "PrincipalContextSchema (\<lambda>_. True) sampleIssuer"
  using sample_scopes(1)
  by (simp add: PrincipalContextSchema_def AuthenticationContextSchema_def sampleIssuer_def CAPABILITIES_def OpaqueIdSchema_def char_class_defs)

theorem issued_key_acts_within_issuer_witness:
  "\<exists>actor. authenticateApiKey (\<lambda>_. True) sampleKdf (\<lambda>_. Some (storedKey (issuedCredential 0) ''now'')) (\<lambda>_. True) (issuedValue 0)
     (replicate 8 0x61) = Inr actor \<and> pc_tenantId actor = ''tenant_1'' \<and> set (pc_capabilities actor) \<subseteq> set (pc_capabilities sampleIssuer)"
proof -
  obtain c createdAt u where c: "keepCredential c u = (Inr createdAt, [issuedCredential 0])"
    and all: "\<forall>find confirm at requestId. find (cc_prefix c) = Some (storedKey c at) \<longrightarrow> True \<longrightarrow>
       8 \<le> length requestId \<longrightarrow> length requestId \<le> 128 \<longrightarrow>
       confirm \<lparr>uc_credentialId = cc_credentialId c, uc_prefix = cc_prefix c, uc_tenantId = cc_tenantId c\<rparr> \<longrightarrow>
       (\<exists>actor. authenticateApiKey (\<lambda>_. True) sampleKdf find confirm (issuedValue 0) requestId = Inr actor \<and>
          pc_tenantId actor = pc_tenantId sampleIssuer \<and> pc_principalType actor = WorkloadPrincipal \<and>
          set (pc_capabilities actor) \<subseteq> set (pc_capabilities sampleIssuer) \<inter> set WORKLOAD_DELEGABLE_CAPABILITIES \<and>
          (\<forall>p e. requireEnvironmentAccess (pc_resourceScope actor) p e = Inr () \<longrightarrow>
             requireEnvironmentAccess (pc_resourceScope sampleIssuer) p e = Inr ()))"
    using issued_key_acts_within_issuer [OF sample_issuer sample_scopes(2) sampleKdf_length sample_issue, of 0] by (elim exE conjE) (rule that)
  have "c = issuedCredential 0" using c by (simp add: keepCredential_def)
  moreover have "pc_tenantId sampleIssuer = ''tenant_1''" by (simp add: sampleIssuer_def)
  ultimately show ?thesis
    using all [rule_format, of "\<lambda>_. Some (storedKey (issuedCredential 0) ''now'')" "''now''" "replicate 8 0x61" "\<lambda>_. True"] by auto
qed

section \<open>The response of issuing\<close>

lemma hd_splitOn: "hd (splitOn sep s) = takeWhile (\<lambda>c. c \<noteq> sep) s \<and> splitOn sep s \<noteq> []"
  by (induction s) (auto split: list.splits)

lemma takeWhile_separator: "takeWhile (\<lambda>x. x \<noteq> c) (p @ c # s) = p \<longleftrightarrow> c \<notin> set p"
proof (cases "c \<in> set p")
  case True
  have "c \<notin> set (takeWhile (\<lambda>x. x \<noteq> c) (p @ c # s))" by (auto dest: set_takeWhileD)
  then show ?thesis using True by metis
qed (subst takeWhile_append2, auto)

lemma last_canonical: "length bs mod 3 = 2 \<Longrightarrow> last (base64urlEncode bs) = base64Char (unat (last bs) mod 16 * 4)"
proof (induction bs rule: base64urlEncode.induct)
  case (1 a b c rest)
  then have "rest \<noteq> []" "length rest mod 3 = 2" by (auto simp: mod_Suc split: if_splits)
  moreover from this have "base64urlEncode rest \<noteq> []" using base64_length [of rest] by (cases rest) auto
  ultimately show ?case using 1 by (simp add: Let_def)
qed (simp_all add: Let_def)

lemma canonical_last_char: "k < 16 \<Longrightarrow> base64Char (k * 4) \<in> set ''AEIMQUYcgkosw048''"
proof -
  assume "k < 16"
  then consider "k = 0" | "k = 1" | "k = 2" | "k = 3" | "k = 4" | "k = 5" | "k = 6" | "k = 7" | "k = 8" | "k = 9" | "k = 10"
    | "k = 11" | "k = 12" | "k = 13" | "k = 14" | "k = 15" by atomize_elim arith
  then show ?thesis by cases (simp_all add: base64Char_def BASE64URL_ALPHABET_def)
qed

text \<open>
  C27. The response contract of issuing and generated keys. For a key that issuing returned, under a valid
  request identifier and timestamps, the response contract accepts the response exactly when the public
  prefix of the key contains no underscore, although underscore is one of the sixty-four characters a
  generated prefix may contain: the contract takes the prefix to end at the first underscore. By then the
  store has accepted the credential.
\<close>

theorem issue_response_accepted_iff:
  assumes "PrincipalContextSchema isoDatetime issuer" "ResourceScopeSchema grant"
    and issue: "issueApiKey kdf draws store issuer capabilities name grant expires s = (Inr (m, v), t)"
    and "isoDatetime (mk_createdAt m)" "isoYear (mk_expiresAt m)" "1 \<le> length requestId" "length requestId \<le> 128"
  shows "IssueApiKeyResponseSchema isoDatetime \<lparr>ir_credential = m, ir_requestId = requestId, ir_value = v\<rparr> \<longleftrightarrow>
    CHR ''_'' \<notin> set (mk_prefix m)"
proof (rule issue_Inr [OF issue])
  fix c createdAt u bytes salt hash issued
  assume d: "requireWorkloadDelegation issuer capabilities grant = Inr ()"
    and store: "store c u = (Inr createdAt, t)" "m = managedCredential c createdAt" "v = ik_value issued"
    and key: "length bytes = 41" "generateApiKey bytes = Inr issued"
    and c: "cc_prefix c = kp_prefix (ik_parts issued)" "OpaqueIdSchema (cc_credentialId c)"
      "OpaqueIdSchema (cc_principalId c)" "cc_capabilities c = capabilities" "cc_resourceScope c = grant" "cc_name c = name"
      "ApiKeyNameSchema name" "cc_rotatedFromCredentialId c = None" "cc_tenantId c = pc_tenantId issuer"
  let ?p = "base64urlEncode (take 9 bytes)" and ?s = "base64urlEncode (drop 9 bytes)"
  have issued: "mk_prefix m = ?p" "v = ''psk_v1_'' @ ?p @ ''_'' @ ?s" using key store c by (simp_all add: generated_parts managedCredential_def)
  have len: "length ?p = 12" "length ?s = 43" using key(1) by (simp_all add: base64_length)
  have "?s \<noteq> []" using len by auto
  then have "last v = base64Char (unat (last (drop 9 bytes)) mod 16 * 4)"
    using issued(2) last_canonical [of "drop 9 bytes"] key(1) by simp
  then have "last v \<in> set ''AEIMQUYcgkosw048''" using canonical_last_char [of "unat (last (drop 9 bytes)) mod 16"] by simp
  moreover have "matchCredential ''psk_v1_'' 12 v = Some (ik_parts issued)"
    using key issued(2) len by (simp add: generated_parts match_iff base64_encoded_text)
  ultimately have v: "ApiKeyValueSchema v" by (simp add: ApiKeyValueSchema_def)
  have "splitOn CHR ''_'' v ! 2 = hd (splitOn CHR ''_'' (?p @ ''_'' @ ?s))" using issued(2) hd_splitOn by (subst hd_conv_nth) simp_all
  then have split: "splitOn CHR ''_'' v ! 2 = takeWhile (\<lambda>x. x \<noteq> CHR ''_'') (?p @ ''_'' @ ?s)" using hd_splitOn by metis
  have caps: "ApiKeyCapabilitiesSchema capabilities"
  proof -
    have "capabilities \<noteq> []" "distinct capabilities" "set capabilities \<subseteq> set WORKLOAD_DELEGABLE_CAPABILITIES"
      using d by (auto simp: requireWorkloadDelegation_def result_simps list_ex_iff split: if_splits)
    moreover from this(2,3) have "length capabilities \<le> length WORKLOAD_DELEGABLE_CAPABILITIES"
      by (metis card_length card_mono distinct_card finite_set order_trans)
    ultimately show ?thesis by (auto simp: ApiKeyCapabilitiesSchema_def list_all_iff Suc_le_eq)
  qed
  have credential: "ApiKeyCredentialSchema isoDatetime m"
    using assms caps c store(2) issued(1) len(1)
    by (simp add: ApiKeyCredentialSchema_def managedCredential_def base64_encoded_text PrincipalContextSchema_def)
  have "takeWhile (\<lambda>x. x \<noteq> CHR ''_'') (?p @ ''_'' @ ?s) = ?p \<longleftrightarrow> CHR ''_'' \<notin> set ?p"
    using takeWhile_separator [of "CHR ''_''" ?p ?s] by simp
  then show ?thesis using v credential assms split issued(1) by (simp add: IssueApiKeyResponseSchema_def)
qed

lemma ones_text: "base64urlEncode (replicate 9 255) = ''____________''"
proof -
  have "replicate 9 x = [x, x, x, x, x, x, x, x, x]" for x :: "8 word" by (simp add: numeral_eq_Suc)
  moreover have "base64Char 63 = CHR ''_''" by (simp add: base64Char_def BASE64URL_ALPHABET_def)
  ultimately show ?thesis by (simp add: Let_def)
qed

theorem issue_response_accepted_iff_witness:
  "fst (issueApiKey sampleKdf (sampleDraws 255) keepCredential sampleIssuer [''replay:run''] [0x61] sampleGrant None []) =
     Inr (managedCredential (issuedCredential 255) ''2026-01-01T00:00:00Z'', issuedValue 255) \<and>
   \<not> IssueApiKeyResponseSchema (\<lambda>_. True) \<lparr>ir_credential = managedCredential (issuedCredential 255) ''2026-01-01T00:00:00Z'',
       ir_requestId = replicate 8 0x61, ir_value = issuedValue 255\<rparr>"
proof -
  have "isoYear (mk_expiresAt (managedCredential (issuedCredential 255) ''2026-01-01T00:00:00Z''))"
    by (simp add: isoYear_def managedCredential_def issuedCredential_def DEFAULT_EXPIRATION_MS_def MAX_UTC_MS_def)
  from issue_response_accepted_iff [OF sample_issuer sample_scopes(2) sample_issue [of 255] _ this, of "replicate 8 0x61"]
  show ?thesis using sample_issue [of 255] ones_text by (simp add: managedCredential_def issuedCredential_def)
qed

end
