(* ===== verification/Rule_Outcome.thy ===== *)
theory Rule_Outcome
  imports Rule_Result Canonical_Size
begin

text \<open>
  The outcome of an accepted rule result is a function of its evidence: the contract, which recomputes
  the order of the retained operands, admits exactly the outcome rational arithmetic gives.
\<close>

definition numberOutcome :: "bool \<Rightarrow> PolicyEvaluationRuleOutcome" where
  "numberOutcome holds = (if holds then OutcomeSatisfied else OutcomeViolated)"

text \<open>The meaning of evidence, over the rational numbers.\<close>

fun evidenceOutcome :: "PolicyEvaluationRuleEvidence \<Rightarrow> PolicyEvaluationRuleOutcome" where
  "evidenceOutcome (NotEvaluated reason) = OutcomeIndeterminate"
| "evidenceOutcome ApplicabilityMismatch = OutcomeNotApplicable"
| "evidenceOutcome (ExactThreshold e) =
     numberOutcome (comparatorHolds (et_comparator e) (exactRat (et_value e)) (decimalRat (et_threshold e)))"
| "evidenceOutcome (CountFloor e) = numberOutcome (cf_minimumCount e \<le> cf_observedCount e)"
| "evidenceOutcome (RatioFloor e) =
     numberOutcome (of_int (rf_minimumBasisPoints e) / 10000 \<le>
       (of_int (rf_numerator e) / of_int (rf_denominator e) :: rat))"
| "evidenceOutcome (UncertaintyBound e) =
     numberOutcome
       (if ub_comparator e = AtLeast then of_int (ub_thresholdBasisPoints e) / 10000 \<le> decimalRat (ub_value e)
        else decimalRat (ub_value e) \<le> of_int (ub_thresholdBasisPoints e) / 10000)"
| "evidenceOutcome (EligibilityEvidence assessmentClass eligibility) = numberOutcome (eligibility = ''eligible'')"
| "evidenceOutcome (ArtifactEvidence status reference) = numberOutcome (status = ''verified'')"
| "evidenceOutcome (SafetyCeiling e) =
     (if sc_maximumCount e < sc_observedCount e then OutcomeViolated
      else if sc_candidatePopulationComplete e then OutcomeSatisfied else OutcomeIndeterminate)"

lemma ruleSign_quotients:
  assumes "0 < b" and "0 < d"
  shows "ruleSign (a * d - c * b) = orderOf (of_int a / of_int b) (of_int c / of_int d)"
proof -
  have pos: "(0 :: rat) < of_int b" "(0 :: rat) < of_int d" using assms by simp_all
  have "(of_int a / of_int b = (of_int c / of_int d :: rat)) = (of_int (a * d) = (of_int (c * b) :: rat))"
    using pos by (simp add: field_simps)
  moreover have "(of_int a / of_int b < (of_int c / of_int d :: rat)) = (of_int (a * d) < (of_int (c * b) :: rat))"
    using pos by (simp add: field_simps)
  ultimately show ?thesis
    unfolding orderOf_def ruleSign_def of_int_eq_iff of_int_less_iff by simp
qed

lemma ruleDecimalFraction_rat:
  assumes "ExactDecimalSchema s"
  shows "decimalRat s = of_int (df_numerator (ruleDecimalFraction s)) / of_int (df_denominator (ruleDecimalFraction s))"
    "0 < df_denominator (ruleDecimalFraction s)"
proof -
  obtain whole fractional and sg :: int where
    parts: "splitOn CHR ''.'' (stripMinus s) = [whole] \<and> fractional = [] \<or>
      splitOn CHR ''.'' (stripMinus s) = [whole, fractional]"
    and sg: "sg = (if take 1 s = ''-'' then -1 else 1)"
    and rat: "decimalRat s = of_int (bigInt (whole @ fractional) * sg) / 10 ^ length fractional"
    using decimal_parts [OF assms] .
  have fraction: "ruleDecimalFraction s =
      \<lparr>df_numerator = bigInt (whole @ fractional) * sg, df_denominator = 10 ^ length fractional\<rparr>"
    using parts by (auto simp: ruleDecimalFraction_def stripMinus_def Let_def sg)
  show "decimalRat s = of_int (df_numerator (ruleDecimalFraction s)) / of_int (df_denominator (ruleDecimalFraction s))"
    "0 < df_denominator (ruleDecimalFraction s)"
    unfolding fraction rat by simp_all
qed

lemma exactValueFraction_rat:
  assumes "ComparisonExactValueSchema nfc v"
  shows "exactRat v = of_int (df_numerator (exactValueFraction v)) / of_int (df_denominator (exactValueFraction v))"
    "0 < df_denominator (exactValueFraction v)"
  using assms ruleDecimalFraction_rat
  by (cases v; simp add: ExactPositiveInteger_positive)+

lemma thresholdOrder_rat:
  assumes "ComparisonExactValueSchema nfc (et_value e)" and "ReleasePolicyExactDecimalSchema (et_threshold e)"
  shows "thresholdOrder e = orderOf (exactRat (et_value e)) (decimalRat (et_threshold e))"
proof -
  have "ExactDecimalSchema (et_threshold e)" using assms(2) by (simp add: ReleasePolicyExactDecimalSchema_def)
  then show ?thesis
    using ruleDecimalFraction_rat exactValueFraction_rat [OF assms(1)]
    by (simp add: thresholdOrder_def Let_def ruleSign_quotients)
qed

lemma boundOrder_rat:
  assumes "UnitIntervalDecimalSchema (ub_value e)"
  shows "boundOrder e = orderOf (decimalRat (ub_value e)) (of_int (ub_thresholdBasisPoints e) / 10000)"
  using ruleDecimalFraction_rat [OF unitInterval_decimal [OF assms]] ruleSign_quotients [of _ 10000]
  by (simp add: boundOrder_def Let_def)

lemma orderOf_iff: "orderOf a b = -1 \<longleftrightarrow> a < b" "orderOf a b = 1 \<longleftrightarrow> b < a"
  by (auto simp: orderOf_def)

lemma ruleSign_iff: "ruleSign n = -1 \<longleftrightarrow> n < 0" "ruleSign n = 1 \<longleftrightarrow> 0 < n"
  by (auto simp: ruleSign_def)


lemma computed_outcome:
  assumes evidence: "PolicyEvaluationRuleEvidenceSchema nfc (rr_evidence r)" and rules: "computedEvidenceRules r"
  shows "rr_outcome r = evidenceOutcome (rr_evidence r)"
proof (cases "rr_evidence r")
  case (ExactThreshold e)
  then show ?thesis
    using rules evidence thresholdOrder_rat [of nfc e]
    by (simp add: computedEvidenceRules_def numberOutcome_def Let_def flip: comparatorMatches_orderOf)
next
  case (CountFloor e)
  then show ?thesis
    using rules ruleSign_iff(1) [of "cf_observedCount e - cf_minimumCount e"]
    by (auto simp: computedEvidenceRules_def Let_def numberOutcome_def)
next
  case (RatioFloor e)
  have "0 < rf_denominator e" using evidence RatioFloor by (simp add: SafePositiveInteger_def)
  then have "ruleSign (rf_numerator e * 10000 - rf_minimumBasisPoints e * rf_denominator e) =
      orderOf (of_int (rf_numerator e) / of_int (rf_denominator e)) (of_int (rf_minimumBasisPoints e) / 10000)"
    using ruleSign_quotients [of "rf_denominator e" 10000] by simp
  then have "rr_outcome r = (if orderOf (of_int (rf_numerator e) / of_int (rf_denominator e))
      (of_int (rf_minimumBasisPoints e) / 10000) = -1 then OutcomeViolated else OutcomeSatisfied)"
    using rules RatioFloor by (simp add: computedEvidenceRules_def Let_def)
  then show ?thesis
    unfolding orderOf_iff RatioFloor evidenceOutcome.simps numberOutcome_def by (simp flip: not_less)
next
  case (UncertaintyBound e)
  then show ?thesis
    using rules evidence boundOrder_rat [of e] orderOf_iff
    by (auto simp: computedEvidenceRules_def Let_def numberOutcome_def simp flip: not_less)
next
  case (SafetyCeiling e)
  then show ?thesis
    using rules ruleSign_iff(2) [of "sc_observedCount e - sc_maximumCount e"]
    by (auto simp: computedEvidenceRules_def Let_def)
qed (use rules in \<open>auto simp: computedEvidenceRules_def Let_def numberOutcome_def incompleteSafety_def\<close>)


lemma accepted_outcome:
  assumes "PolicyEvaluationRuleResultSchema nfc r"
  shows "rr_outcome r = evidenceOutcome (rr_evidence r)"
  using assms computed_outcome [of nfc r]
  by (cases "rr_evidence r") (simp_all add: PolicyEvaluationRuleResultSchema_def)

lemma accepted_threshold:
  assumes "PolicyEvaluationRuleResultSchema nfc r" and e: "rr_evidence r = ExactThreshold e"
  shows "comparePolicyExactThreshold nfc (et_value e) (et_threshold e) (et_unit e) (Some (et_comparator e)) =
    Inr \<lparr>pnc_matches = (rr_outcome r = OutcomeSatisfied), pnc_order = et_order e\<rparr>"
proof -
  have schema: "ComparisonExactValueSchema nfc (et_value e)" "ReleasePolicyExactDecimalSchema (et_threshold e)"
    "ReleasePolicyUnitSchema (et_unit e)" "exactUnit (et_value e) = et_unit e" "thresholdOrder e = et_order e"
    using assms by (auto simp: PolicyEvaluationRuleResultSchema_def computedEvidenceRules_def Let_def)
  have "pnc_matches (comparison (et_order e) (et_comparator e)) = (rr_outcome r = OutcomeSatisfied)"
    using accepted_outcome [OF assms(1)] e thresholdOrder_rat [OF schema(1,2)] schema(5)
    by (simp add: comparison_def numberOutcome_def flip: comparatorMatches_orderOf)
  then show ?thesis
    using threshold_rat [OF schema(3,2,1,4)] thresholdOrder_rat [OF schema(1,2)] schema(5)
    by (simp add: comparison_def flip: comparatorMatches_orderOf)
qed

section \<open>A concrete result\<close>

lemma canonicalBytesAtMostI:
  "admitted 0 v \<Longrightarrow> jsonWeight v \<le> limit \<Longrightarrow> canonicalBytesAtMost limit v"
  using canonical.within_ceiling [of v limit] by (auto simp: canonicalBytesAtMost_def)

lemma length_js_text_of [simp]: "length (js_text_of s) = length s"
  by (simp add: js_text_of_def)

lemmas textSchemas = boundedCanonicalText_def js_trim_def js_whitespace_def
  containsUnsafeDisplayControl_def unicodeScalarLength_def js_text_of_def

definition sampleThreshold :: ExactThresholdEvidence where
  "sampleThreshold =
     \<lparr>et_operand = ''candidate'', et_value = RationalValue ''3'' ''1'' (js_text_of ''cases''),
      et_threshold = ''0.5'', et_unit = js_text_of ''cases'', et_comparator = CmpLessThan, et_order = -1\<rparr>"

definition sampleThresholdResult :: PolicyEvaluationRuleResult where
  "sampleThresholdResult =
     \<lparr>rr_ruleIndex = 0, rr_ruleId = ''rule0001'', rr_predicateKind = ComparisonThresholdKind,
      rr_outcome = OutcomeSatisfied, rr_evidence = ExactThreshold sampleThreshold, rr_limitations = []\<rparr>"

lemma sampleThresholdResult_schema: "PolicyEvaluationRuleResultSchema (\<lambda>x. x) sampleThresholdResult"
proof -
  have bytes: "canonicalBytesAtMost MAX_POLICY_EVALUATION_RULE_RESULT_BYTES (ruleResultJson sampleThresholdResult)"
    by (rule canonicalBytesAtMostI)
      (simp_all add: sampleThresholdResult_def sampleThreshold_def ruleResultJson_def admitted_def
        MAX_CANONICAL_NESTING_DEPTH_def MAX_POLICY_EVALUATION_RULE_RESULT_BYTES_def showInt_def showNat.simps)
  have unit: "AssuranceSummarySchema (\<lambda>x. x) (js_text_of ''cases'')"
    by (simp add: AssuranceSummarySchema_def textSchemas)
  have "ReleasePolicyUnitSchema (js_text_of ''cases'')" by (simp add: ReleasePolicyUnitSchema_def)
  moreover have "ReleasePolicyExactDecimalSchema ''0.5''" "ExactIntegerSchema ''1''"
    "ExactPositiveIntegerSchema ''3''" by code_simp+
  moreover have "OpaqueIdSchema ''rule0001''" by code_simp
  moreover have "thresholdOrder sampleThreshold = -1" by code_simp
  ultimately show ?thesis
    using bytes unit
    by (simp add: PolicyEvaluationRuleResultSchema_def sampleThresholdResult_def computedEvidenceRules_def
        MAX_POLICY_RULES_def incompleteSafety_def Let_def)
      (simp add: sampleThreshold_def)
qed

end
