(* ===== verification/Policy_Result.thy ===== *)
theory Policy_Result
  imports Rule_Outcome
begin

text \<open>
  A whole policy evaluation of \<open>packages/contracts/src/policy-evaluation-result.ts\<close>: one result per rule of
  the policy, in order, with the counts of the outcomes, and the receipt of the worker that recorded it.
\<close>

record OutcomeCounts =
  oc_satisfied :: int
  oc_violated :: int
  oc_indeterminate :: int
  oc_not_applicable :: int

definition OutcomeCountsSchema :: "OutcomeCounts \<Rightarrow> bool" where
  "OutcomeCountsSchema c \<longleftrightarrow>
     0 \<le> oc_satisfied c \<and> oc_satisfied c \<le> MAX_POLICY_RULES \<and>
     0 \<le> oc_violated c \<and> oc_violated c \<le> MAX_POLICY_RULES \<and>
     0 \<le> oc_indeterminate c \<and> oc_indeterminate c \<le> MAX_POLICY_RULES \<and>
     0 \<le> oc_not_applicable c \<and> oc_not_applicable c \<le> MAX_POLICY_RULES"

definition outcomeCountsJson :: "OutcomeCounts \<Rightarrow> json" where
  "outcomeCountsJson c =
     jsonObject [(''satisfied'', jsonInt (oc_satisfied c)), (''violated'', jsonInt (oc_violated c)),
       (''indeterminate'', jsonInt (oc_indeterminate c)), (''not_applicable'', jsonInt (oc_not_applicable c))]"

fun countOutcome :: "PolicyEvaluationRuleOutcome \<Rightarrow> OutcomeCounts \<Rightarrow> OutcomeCounts" where
  "countOutcome OutcomeSatisfied c = c\<lparr>oc_satisfied := oc_satisfied c + 1\<rparr>"
| "countOutcome OutcomeViolated c = c\<lparr>oc_violated := oc_violated c + 1\<rparr>"
| "countOutcome OutcomeIndeterminate c = c\<lparr>oc_indeterminate := oc_indeterminate c + 1\<rparr>"
| "countOutcome OutcomeNotApplicable c = c\<lparr>oc_not_applicable := oc_not_applicable c + 1\<rparr>"

record PolicyEvaluationDefinition =
  pev_evaluationId :: string
  pev_request :: PolicyEvaluationRequestReference
  pev_snapshot :: PolicyEvaluationSnapshotReference
  pev_candidate :: ReleaseCandidateReference
  pev_policy :: ReleasePolicyReference
  pev_evaluationTime :: policy_time
  pev_ruleCount :: int
  pev_rules :: "PolicyEvaluationRuleResult list"
  pev_outcomeCounts :: OutcomeCounts

definition outcomeInventory :: "'a PolicyEvaluationDefinition_scheme \<Rightarrow> bool" where
  "outcomeInventory v \<longleftrightarrow>
     (let counts = fold (countOutcome \<circ> rr_outcome) (pev_rules v)
            \<lparr>oc_satisfied = 0, oc_violated = 0, oc_indeterminate = 0, oc_not_applicable = 0\<rparr>
      in pev_ruleCount v = int (length (pev_rules v)) \<and>
         map rr_ruleIndex (pev_rules v) = map int [0..<length (pev_rules v)] \<and>
         strictly_sorted codeUnitLess ([] # map rr_ruleId (pev_rules v)) \<and>
         serializeEvaluationCanonicalJson (outcomeCountsJson counts) =
           serializeEvaluationCanonicalJson (outcomeCountsJson (pev_outcomeCounts v)))"

definition PolicyEvaluationDefinitionSchema ::
  "(js_text \<Rightarrow> js_text) \<Rightarrow> 'a PolicyEvaluationDefinition_scheme \<Rightarrow> bool" where
  "PolicyEvaluationDefinitionSchema nfc v \<longleftrightarrow>
     OpaqueIdSchema (pev_evaluationId v) \<and> PolicyEvaluationRequestReferenceSchema (pev_request v) \<and>
     PolicyEvaluationSnapshotReferenceSchema (pev_snapshot v) \<and>
     ReleaseCandidateReferenceSchema (pev_candidate v) \<and> ReleasePolicyReferenceSchema (pev_policy v) \<and>
     PolicyEvaluationTimeSchema (pev_evaluationTime v) \<and>
     1 \<le> pev_ruleCount v \<and> pev_ruleCount v \<le> MAX_POLICY_RULES \<and>
     list_all (PolicyEvaluationRuleResultSchema nfc) (pev_rules v) \<and> 1 \<le> length (pev_rules v) \<and>
     int (length (pev_rules v)) \<le> MAX_POLICY_RULES \<and> OutcomeCountsSchema (pev_outcomeCounts v) \<and>
     outcomeInventory v"

record PolicyEvaluation = PolicyEvaluationDefinition +
  pev_definitionSha256 :: string
  pev_scope :: EvidenceScope
  pev_recordedAt :: policy_time
  pev_recordedByPrincipalId :: string
  pev_jobId :: string
  pev_attemptId :: string
  pev_workerId :: string
  pev_leaseId :: string
  pev_fencingToken :: int
  pev_recoveryEpoch :: int

definition PolicyEvaluationSchema :: "(js_text \<Rightarrow> js_text) \<Rightarrow> PolicyEvaluation \<Rightarrow> bool" where
  "PolicyEvaluationSchema nfc v \<longleftrightarrow>
     PolicyEvaluationDefinitionSchema nfc v \<and> Sha256Schema (pev_definitionSha256 v) \<and>
     EvidenceScopeSchema (pev_scope v) \<and> PolicyEvaluationTimeSchema (pev_recordedAt v) \<and>
     OpaqueIdSchema (pev_recordedByPrincipalId v) \<and> OpaqueIdSchema (pev_jobId v) \<and>
     OpaqueIdSchema (pev_attemptId v) \<and> OpaqueIdSchema (pev_workerId v) \<and> OpaqueIdSchema (pev_leaseId v) \<and>
     SafePositiveInteger (pev_fencingToken v) \<and> SafeNonnegativeInteger (pev_recoveryEpoch v) \<and>
     \<not> tkey (pev_recordedAt v) < tkey (pev_evaluationTime v)"

section \<open>The counts are the counts\<close>

definition trueCounts :: "PolicyEvaluationRuleOutcome list \<Rightarrow> OutcomeCounts" where
  "trueCounts os =
     \<lparr>oc_satisfied = int (count_list os OutcomeSatisfied), oc_violated = int (count_list os OutcomeViolated),
      oc_indeterminate = int (count_list os OutcomeIndeterminate),
      oc_not_applicable = int (count_list os OutcomeNotApplicable)\<rparr>"

lemma fold_countOutcome:
  "fold (countOutcome \<circ> rr_outcome) rs
     \<lparr>oc_satisfied = a, oc_violated = b, oc_indeterminate = c, oc_not_applicable = d\<rparr> =
   \<lparr>oc_satisfied = a + oc_satisfied (trueCounts (map rr_outcome rs)),
    oc_violated = b + oc_violated (trueCounts (map rr_outcome rs)),
    oc_indeterminate = c + oc_indeterminate (trueCounts (map rr_outcome rs)),
    oc_not_applicable = d + oc_not_applicable (trueCounts (map rr_outcome rs))\<rparr>"
proof (induction rs arbitrary: a b c d)
  case (Cons r rs)
  then show ?case by (cases "rr_outcome r") (simp_all add: trueCounts_def)
qed (simp add: trueCounts_def)

lemma serialize_eq:
  assumes "serializeEvaluationCanonicalJson v = serializeEvaluationCanonicalJson w"
    and "admitted 0 v" "numbersExact v" "numbersExact w"
  shows "normalizeJson v = normalizeJson w"
  using assms by (intro canonical.same_result) (simp_all add: encodeEvaluationCanonicalJson_def)

lemma outcomeCountsJson_admitted:
  "admitted 0 (outcomeCountsJson c)" "OutcomeCountsSchema c \<Longrightarrow> numbersExact (outcomeCountsJson c)"
  by (simp_all add: outcomeCountsJson_def admitted_def MAX_CANONICAL_NESTING_DEPTH_def OutcomeCountsSchema_def
      MAX_SAFE_INTEGER_def MAX_POLICY_RULES_def)

lemma outcomeCountsJson_normal:
  "normalizeJson (outcomeCountsJson c) = normalizeJson (outcomeCountsJson d) \<Longrightarrow> c = d"
  by (cases c; cases d)
    (simp add: outcomeCountsJson_def sortBy_def compareKeys_def compareCodeUnits_def js_text_of_def)

lemma trueCounts_schema: "int (length os) \<le> MAX_POLICY_RULES \<Longrightarrow> OutcomeCountsSchema (trueCounts os)"
  using count_le_length [of os]
  by (auto simp: OutcomeCountsSchema_def trueCounts_def intro: order_trans [OF of_nat_mono])

lemma accepted_counts:
  assumes "PolicyEvaluationDefinitionSchema nfc v"
  shows "pev_outcomeCounts v = trueCounts (map rr_outcome (pev_rules v))"
proof -
  have "serializeEvaluationCanonicalJson (outcomeCountsJson (trueCounts (map rr_outcome (pev_rules v)))) =
      serializeEvaluationCanonicalJson (outcomeCountsJson (pev_outcomeCounts v))"
    using assms
    by (simp add: PolicyEvaluationDefinitionSchema_def outcomeInventory_def fold_countOutcome Let_def trueCounts_def)
  moreover have "OutcomeCountsSchema (trueCounts (map rr_outcome (pev_rules v)))"
    "OutcomeCountsSchema (pev_outcomeCounts v)"
    using assms by (auto simp: PolicyEvaluationDefinitionSchema_def intro: trueCounts_schema)
  ultimately show ?thesis
    using serialize_eq outcomeCountsJson_normal outcomeCountsJson_admitted by metis
qed


lemma trueCounts_total:
  "oc_satisfied (trueCounts os) + oc_violated (trueCounts os) + oc_indeterminate (trueCounts os) +
   oc_not_applicable (trueCounts os) = int (length os)"
proof (induction os)
  case (Cons x os)
  then show ?case by (cases x) (simp_all add: trueCounts_def)
qed (simp add: trueCounts_def)

section \<open>Theorem\<close>

text \<open>
  C40 (equivalence). In an accepted policy evaluation every rule has the one outcome its evidence means
  over the rational numbers: the order the contract recomputes from decimal and fraction texts, counts
  and basis points is the order of the numbers, so a label that disagrees with its operands is never
  accepted, and for a threshold the evaluator's own comparison returns the retained order and matches
  exactly when the outcome is satisfied. The recorded counts, compared as canonical texts, are the
  numbers of those outcomes and add up to the number of rules.
\<close>

theorem evaluation_counts_what_evidence_means:
  assumes "PolicyEvaluationDefinitionSchema nfc v"
  shows "map rr_outcome (pev_rules v) = map (evidenceOutcome \<circ> rr_evidence) (pev_rules v) \<and>
    (\<forall>r\<in>set (pev_rules v). \<forall>e. rr_evidence r = ExactThreshold e \<longrightarrow>
      comparePolicyExactThreshold nfc (et_value e) (et_threshold e) (et_unit e) (Some (et_comparator e)) =
      Inr \<lparr>pnc_matches = (rr_outcome r = OutcomeSatisfied), pnc_order = et_order e\<rparr>) \<and>
    pev_outcomeCounts v = trueCounts (map (evidenceOutcome \<circ> rr_evidence) (pev_rules v)) \<and>
    oc_satisfied (pev_outcomeCounts v) + oc_violated (pev_outcomeCounts v) +
      oc_indeterminate (pev_outcomeCounts v) + oc_not_applicable (pev_outcomeCounts v) = pev_ruleCount v"
proof -
  have rules: "PolicyEvaluationRuleResultSchema nfc r" if "r \<in> set (pev_rules v)" for r
    using assms that by (auto simp: PolicyEvaluationDefinitionSchema_def list_all_iff)
  have outcomes: "map rr_outcome (pev_rules v) = map (evidenceOutcome \<circ> rr_evidence) (pev_rules v)"
    using accepted_outcome [OF rules] by simp
  have "pev_ruleCount v = int (length (map rr_outcome (pev_rules v)))"
    using assms by (simp add: PolicyEvaluationDefinitionSchema_def outcomeInventory_def Let_def)
  then show ?thesis
    using outcomes accepted_threshold [OF rules] accepted_counts [OF assms]
      trueCounts_total [of "map rr_outcome (pev_rules v)"]
    by metis
qed

definition sampleEvaluation :: PolicyEvaluationDefinition where
  "sampleEvaluation =
     \<lparr>pev_evaluationId = ''result01'',
      pev_request = \<lparr>reqref_definitionSha256 = replicate 64 CHR ''a'', reqref_evaluationRequestId = ''request1''\<rparr>,
      pev_snapshot = \<lparr>snapref_snapshotId = ''snapshot1'', snapref_definitionSha256 = replicate 64 CHR ''a''\<rparr>,
      pev_candidate = \<lparr>cand_candidateId = ''candidate1'', cand_candidateVersionId = ''version1'',
        cand_definitionSha256 = replicate 64 CHR ''a''\<rparr>,
      pev_policy = \<lparr>rpol_definitionSha256 = replicate 64 CHR ''a'', rpol_policyId = ''policy01'',
        rpol_policyVersionId = ''version1''\<rparr>,
      pev_evaluationTime = \<lparr>pt_seconds = 1000, pt_fraction = []\<rparr>, pev_ruleCount = 1,
      pev_rules = [sampleThresholdResult],
      pev_outcomeCounts =
        \<lparr>oc_satisfied = 1, oc_violated = 0, oc_indeterminate = 0, oc_not_applicable = 0\<rparr>\<rparr>"

lemma sampleEvaluation_schema: "PolicyEvaluationDefinitionSchema (\<lambda>x. x) sampleEvaluation"
proof -
  have "OpaqueIdSchema (pev_evaluationId sampleEvaluation)"
    "PolicyEvaluationRequestReferenceSchema (pev_request sampleEvaluation)"
    "PolicyEvaluationSnapshotReferenceSchema (pev_snapshot sampleEvaluation)"
    "ReleaseCandidateReferenceSchema (pev_candidate sampleEvaluation)"
    "ReleasePolicyReferenceSchema (pev_policy sampleEvaluation)"
    "PolicyEvaluationTimeSchema (pev_evaluationTime sampleEvaluation)"
    by code_simp+
  moreover have "outcomeInventory sampleEvaluation"
    by (simp add: outcomeInventory_def sampleEvaluation_def sampleThresholdResult_def)
  ultimately show ?thesis
    using sampleThresholdResult_schema
    by (simp add: PolicyEvaluationDefinitionSchema_def)
      (simp add: sampleEvaluation_def OutcomeCountsSchema_def MAX_POLICY_RULES_def)
qed

theorem evaluation_counts_what_evidence_means_witness:
  "PolicyEvaluationDefinitionSchema (\<lambda>x. x) sampleEvaluation \<and>
   evidenceOutcome (ExactThreshold sampleThreshold) = OutcomeSatisfied"
  using evaluation_counts_what_evidence_means [OF sampleEvaluation_schema] sampleEvaluation_schema
  by (simp add: sampleEvaluation_def sampleThresholdResult_def)

end
