(* ===== verification/Reviewer_Matching.thy ===== *)
theory Reviewer_Matching
  imports Primitives
begin

text \<open>
  The assignment of reviewers to approval groups of
  \<open>packages/core/src/release/match-reviewer-groups.ts\<close>: the checks of an unchecked input, the cost
  matrix, the assignment search with its potentials, and the result.

  An unchecked value is an \<open>unknown\<close>. A string with a code unit above 255 is one of the values
  \<open>UOther\<close>: every check here refuses such a string where it expects an identifier. Positive infinity
  is \<open>None\<close> of an \<open>int option\<close>; the arithmetic of the search is on integers. The two
  \<open>do ... while\<close> loops are partial functions, whose value \<open>None\<close> is a loop that does not end; a step
  whose \<open>delta\<close> would stay infinite is \<open>None\<close> as well.
\<close>

section \<open>Input\<close>

datatype unknown =
    UString string
  | UNumber js_number
  | UBoolean bool
  | UArray "unknown list"
  | UObject "(string \<times> unknown) list"
  | UOther

datatype reviewer_graph_error = InvalidReviewerGroupGraph

record Reviewer =
  principalId :: string
  reviewerGroupIds :: "string list"
  human :: bool

record ReviewerGroupGraph =
  groupIds :: "string list"
  reviewers :: "Reviewer list"
  quorum :: int
  humanGroupIds :: "string list"

definition MAX_POLICY_APPROVAL_GROUPS :: nat where
  "MAX_POLICY_APPROVAL_GROUPS = 32"

definition MAX_RELEASE_DECISION_APPROVAL_READS :: nat where
  "MAX_RELEASE_DECISION_APPROVAL_READS = 4096"

definition MAX_RELEASE_QUORUM_REVIEWERS :: nat where
  "MAX_RELEASE_QUORUM_REVIEWERS = MAX_RELEASE_DECISION_APPROVAL_READS"

definition objectWithKeys ::
  "unknown \<Rightarrow> string list \<Rightarrow> (reviewer_graph_error, string \<Rightarrow> unknown) result" where
  "objectWithKeys x ks =
     (case x of
        UObject ps \<Rightarrow>
          if length ps \<noteq> length ks \<or> \<not> list_all (\<lambda>k. map_of ps k \<noteq> None) ks
          then Inl InvalidReviewerGroupGraph
          else Inr (\<lambda>k. case map_of ps k of None \<Rightarrow> UOther | Some y \<Rightarrow> y)
      | _ \<Rightarrow> Inl InvalidReviewerGroupGraph)"

fun opaqueId :: "unknown \<Rightarrow> string option" where
  "opaqueId (UString s) = (if OpaqueIdSchema s then Some s else None)"
| "opaqueId _ = None"

definition ids :: "unknown \<Rightarrow> nat \<Rightarrow> nat \<Rightarrow> (reviewer_graph_error, string list) result" where
  "ids x minimum maximum =
     (case x of
        UArray xs \<Rightarrow>
          if length xs < minimum \<or> maximum < length xs \<or> \<not> list_all (\<lambda>y. opaqueId y \<noteq> None) xs \<or>
             \<not> distinct xs
          then Inl InvalidReviewerGroupGraph
          else Inr (sortBy compareCodeUnits (List.map_filter opaqueId xs))
      | _ \<Rightarrow> Inl InvalidReviewerGroupGraph)"

definition parseReviewer :: "unknown \<Rightarrow> (reviewer_graph_error, Reviewer) result" where
  "parseReviewer raw =
     (case objectWithKeys raw [''principalId'', ''groupIds'', ''human''] of
        Inl e \<Rightarrow> Inl e
      | Inr f \<Rightarrow>
          (case opaqueId (f ''principalId'') of
             None \<Rightarrow> Inl InvalidReviewerGroupGraph
           | Some p \<Rightarrow>
               (case f ''human'' of
                  UBoolean h \<Rightarrow>
                    (case ids (f ''groupIds'') 0 MAX_POLICY_APPROVAL_GROUPS of
                       Inl e \<Rightarrow> Inl e
                     | Inr gs \<Rightarrow> Inr \<lparr>principalId = p, reviewerGroupIds = gs, human = h\<rparr>)
                | _ \<Rightarrow> Inl InvalidReviewerGroupGraph)))"

definition parseQuorum :: "unknown \<Rightarrow> nat \<Rightarrow> (reviewer_graph_error, int) result" where
  "parseQuorum x rows =
     (case x of
        UNumber (JsInt q) \<Rightarrow>
          if q < 1 \<or> int rows < q then Inl InvalidReviewerGroupGraph else Inr q
      | _ \<Rightarrow> Inl InvalidReviewerGroupGraph)"

definition parseReviewers :: "unknown \<Rightarrow> (reviewer_graph_error, Reviewer list) result" where
  "parseReviewers x =
     (case x of
        UArray xs \<Rightarrow>
          if MAX_RELEASE_QUORUM_REVIEWERS < length xs then Inl InvalidReviewerGroupGraph
          else (case traverse parseReviewer xs of
                  Inl e \<Rightarrow> Inl e
                | Inr rs \<Rightarrow>
                    let sorted = sortBy (\<lambda>l r. compareCodeUnits (principalId l) (principalId r)) rs
                    in if \<not> distinct (map principalId sorted) then Inl InvalidReviewerGroupGraph
                       else Inr sorted)
      | _ \<Rightarrow> Inl InvalidReviewerGroupGraph)"

definition parseReviewerGraph :: "unknown \<Rightarrow> (reviewer_graph_error, ReviewerGroupGraph) result" where
  "parseReviewerGraph input =
     (case objectWithKeys input [''groupIds'', ''reviewers'', ''quorum'', ''humanGroupIds''] of
        Inl e \<Rightarrow> Inl e
      | Inr f \<Rightarrow>
          (case ids (f ''groupIds'') 1 MAX_POLICY_APPROVAL_GROUPS of
             Inl e \<Rightarrow> Inl e
           | Inr gs \<Rightarrow>
               (case ids (f ''humanGroupIds'') 0 MAX_POLICY_APPROVAL_GROUPS of
                  Inl e \<Rightarrow> Inl e
                | Inr hs \<Rightarrow>
                    if list_ex (\<lambda>h. h \<notin> set gs) hs then Inl InvalidReviewerGroupGraph
                    else (case parseQuorum (f ''quorum'') (length gs) of
                            Inl e \<Rightarrow> Inl e
                          | Inr q \<Rightarrow>
                              (case parseReviewers (f ''reviewers'') of
                                 Inl e \<Rightarrow> Inl e
                               | Inr rs \<Rightarrow> Inr \<lparr>groupIds = gs, reviewers = rs, quorum = q,
                                            humanGroupIds = hs\<rparr>)))))"

section \<open>The cost matrix\<close>

text \<open>Rows and columns are counted from one; \<open>nthFromOne\<close> is \<open>xs[i - 1]\<close>, undefined outside.\<close>

definition nthFromOne :: "'a list \<Rightarrow> nat \<Rightarrow> 'a option" where
  "nthFromOne xs i = (if 1 \<le> i \<and> i \<le> length xs then Some (xs ! (i - 1)) else None)"

definition matrixRows :: "ReviewerGroupGraph \<Rightarrow> nat" where
  "matrixRows g = length (groupIds g)"

definition matrixColumns :: "ReviewerGroupGraph \<Rightarrow> nat" where
  "matrixColumns g =
     nat (int (length (reviewers g)) +
          max (int (matrixRows g) - quorum g) (int (matrixRows g) - int (length (reviewers g))))"

definition groupOfRow :: "ReviewerGroupGraph \<Rightarrow> nat \<Rightarrow> string" where
  "groupOfRow g row = (case nthFromOne (groupIds g) row of None \<Rightarrow> [] | Some x \<Rightarrow> x)"

definition cost :: "ReviewerGroupGraph \<Rightarrow> nat \<Rightarrow> nat \<Rightarrow> int" where
  "cost g row column =
     (case nthFromOne (reviewers g) column of
        None \<Rightarrow> 0
      | Some reviewer \<Rightarrow>
          if groupOfRow g row \<notin> set (reviewerGroupIds reviewer) then int (matrixRows g) + 1
          else if human reviewer \<and> groupOfRow g row \<in> set (humanGroupIds g) then -1 else 0)"

section \<open>The assignment search\<close>

text \<open>\<open>cell d xs i\<close> is \<open>xs[i] ?? d\<close>.\<close>

definition cell :: "'a \<Rightarrow> 'a list \<Rightarrow> nat \<Rightarrow> 'a" where
  "cell d xs i = (if i < length xs then xs ! i else d)"

fun below :: "int option \<Rightarrow> int option \<Rightarrow> bool" where
  "below None y = False"
| "below (Some x) None = True"
| "below (Some x) (Some y) = (x < y)"

record search =
  rowPotential :: "int list"
  columnPotential :: "int list"
  owner :: "nat list"
  previous :: "nat list"
  minimum :: "int option list"
  used :: "bool list"
  column :: nat

type_synonym scan = "int option list \<times> nat list \<times> int option \<times> nat"

fun scanCandidate :: "(nat \<Rightarrow> nat \<Rightarrow> int) \<Rightarrow> search \<Rightarrow> nat \<Rightarrow> scan \<Rightarrow> scan" where
  "scanCandidate c s candidate (mins, prevs, delta, next) =
     (if cell False (used s) candidate then (mins, prevs, delta, next)
      else let currentRow = cell 0 (owner s) (column s);
               reduced = c currentRow candidate - cell 0 (rowPotential s) currentRow -
                           cell 0 (columnPotential s) candidate;
               better = below (Some reduced) (cell None mins candidate);
               mins' = (if better then mins[candidate := Some reduced] else mins);
               prevs' = (if better then prevs[candidate := column s] else prevs);
               found = cell None mins' candidate
           in if below found delta then (mins', prevs', found, candidate)
              else (mins', prevs', delta, next))"

type_synonym potentials = "int list \<times> int list \<times> int option list"

fun shiftCandidate :: "search \<Rightarrow> int \<Rightarrow> nat \<Rightarrow> potentials \<Rightarrow> potentials" where
  "shiftCandidate s delta candidate (us, vs, mins) =
     (if cell False (used s) candidate
      then let assignedRow = cell 0 (owner s) candidate
           in (us[assignedRow := cell 0 us assignedRow + delta],
               vs[candidate := cell 0 vs candidate - delta], mins)
      else (us, vs, mins[candidate := map_option (\<lambda>x. x - delta) (cell None mins candidate)]))"

definition searchStep :: "(nat \<Rightarrow> nat \<Rightarrow> int) \<Rightarrow> nat \<Rightarrow> search \<Rightarrow> search option" where
  "searchStep c columns s0 =
     (let s = s0\<lparr>used := (used s0)[column s0 := True]\<rparr>;
          (mins, prevs, delta, next) =
            fold (scanCandidate c s) [1..<columns + 1] (minimum s, previous s, None, 0)
      in case delta of
           None \<Rightarrow> None
         | Some d \<Rightarrow>
             let (us, vs, mins') =
                   fold (shiftCandidate s d) [0..<columns + 1]
                     (rowPotential s, columnPotential s, mins)
             in Some (s\<lparr>rowPotential := us, columnPotential := vs, minimum := mins',
                        previous := prevs, column := next\<rparr>))"

partial_function (option) searchLoop ::
  "(nat \<Rightarrow> nat \<Rightarrow> int) \<Rightarrow> nat \<Rightarrow> search \<Rightarrow> search option" where
  "searchLoop c columns s =
     (case searchStep c columns s of
        None \<Rightarrow> None
      | Some s' \<Rightarrow>
          if cell 0 (owner s') (column s') \<noteq> 0 then searchLoop c columns s' else Some s')"

partial_function (option) augmentLoop :: "nat list \<Rightarrow> nat list \<Rightarrow> nat \<Rightarrow> nat list option" where
  "augmentLoop prevs owners j =
     (let predecessor = cell 0 prevs j;
          owners' = owners[j := cell 0 owners predecessor]
      in if predecessor \<noteq> 0 then augmentLoop prevs owners' predecessor else Some owners')"

declare searchLoop.simps [code] augmentLoop.simps [code]

definition assignRow ::
  "(nat \<Rightarrow> nat \<Rightarrow> int) \<Rightarrow> nat \<Rightarrow> nat \<Rightarrow> search \<Rightarrow> search option" where
  "assignRow c columns row s =
     (case searchLoop c columns
             (s\<lparr>owner := (owner s)[0 := row], column := 0,
                minimum := replicate (columns + 1) None,
                used := replicate (columns + 1) False\<rparr>) of
        None \<Rightarrow> None
      | Some s' \<Rightarrow>
          (case augmentLoop (previous s') (owner s') (column s') of
             None \<Rightarrow> None
           | Some owners \<Rightarrow> Some (s'\<lparr>owner := owners, column := 0\<rparr>)))"

fun assignRows ::
  "(nat \<Rightarrow> nat \<Rightarrow> int) \<Rightarrow> nat \<Rightarrow> nat list \<Rightarrow> search \<Rightarrow> search option" where
  "assignRows c columns [] s = Some s"
| "assignRows c columns (row # rows) s =
     (case assignRow c columns row s of
        None \<Rightarrow> None
      | Some s' \<Rightarrow> assignRows c columns rows s')"

definition initialSearch :: "nat \<Rightarrow> nat \<Rightarrow> search" where
  "initialSearch rows columns =
     \<lparr>rowPotential = replicate (rows + 1) 0, columnPotential = replicate (columns + 1) 0,
      owner = replicate (columns + 1) 0, previous = replicate (columns + 1) 0,
      minimum = replicate (columns + 1) None, used = replicate (columns + 1) False, column = 0\<rparr>"

section \<open>The result\<close>

datatype match_status = Matched | Shortfall

record MatchedReviewer =
  matchedPrincipal :: string
  matchedGroup :: string
  humanGroup :: bool

record ReviewerGroupAssignment =
  assignmentStatus :: match_status
  matched :: "MatchedReviewer list"

definition matchedColumn :: "ReviewerGroupGraph \<Rightarrow> nat list \<Rightarrow> nat \<Rightarrow> MatchedReviewer list" where
  "matchedColumn g owners j =
     (case nthFromOne (reviewers g) j of
        None \<Rightarrow> []
      | Some reviewer \<Rightarrow>
          let row = cell 0 owners j; groupId = groupOfRow g row
          in if row = 0 \<or> groupId \<notin> set (reviewerGroupIds reviewer) then []
             else [\<lparr>matchedPrincipal = principalId reviewer, matchedGroup = groupId,
                    humanGroup = human reviewer \<and> groupId \<in> set (humanGroupIds g)\<rparr>])"

definition matchedReviewers :: "ReviewerGroupGraph \<Rightarrow> nat list \<Rightarrow> MatchedReviewer list" where
  "matchedReviewers g owners =
     sortBy (\<lambda>l r. compareCodeUnits (matchedGroup l) (matchedGroup r))
       (concat (map (matchedColumn g owners) [1..<length (reviewers g) + 1]))"

definition assignmentOf :: "ReviewerGroupGraph \<Rightarrow> nat list \<Rightarrow> ReviewerGroupAssignment" where
  "assignmentOf g owners =
     (let ms = matchedReviewers g owners
      in \<lparr>assignmentStatus =
            (if quorum g \<le> int (length ms) \<and> (humanGroupIds g = [] \<or> list_ex humanGroup ms)
             then Matched else Shortfall),
          matched = ms\<rparr>)"

definition matchDistinctReviewerGroups ::
  "unknown \<Rightarrow> (reviewer_graph_error, ReviewerGroupAssignment) result option" where
  "matchDistinctReviewerGroups input =
     (case parseReviewerGraph input of
        Inl e \<Rightarrow> Some (Inl e)
      | Inr g \<Rightarrow>
          map_option (\<lambda>s. Inr (assignmentOf g (owner s)))
            (assignRows (cost g) (matrixColumns g) [1..<matrixRows g + 1]
               (initialSearch (matrixRows g) (matrixColumns g))))"

end
