(* ===== verification/Release_Policy.thy ===== *)
theory Release_Policy
  imports Rule_Result Applicability Reviewer_Matching
begin

text \<open>
  The release policy contract, \<open>packages/contracts/src/release-policy.ts\<close>: installation bindings,
  applicability selectors, the seven predicate kinds, rules, policy definitions with their cross
  rules, and lifecycle events. Literal fields are left out.
\<close>

section \<open>References\<close>

record ComparisonDefinitionReference =
  cmpref_comparisonId :: string
  cmpref_comparisonVersionId :: string
  cmpref_definitionSha256 :: string

definition ComparisonDefinitionReferenceSchema :: "ComparisonDefinitionReference \<Rightarrow> bool" where
  "ComparisonDefinitionReferenceSchema r \<longleftrightarrow>
     OpaqueIdSchema (cmpref_comparisonId r) \<and> OpaqueIdSchema (cmpref_comparisonVersionId r) \<and>
     Sha256Schema (cmpref_definitionSha256 r)"

record AssessmentReference =
  asmref_assessmentId :: string
  asmref_definitionSha256 :: string

definition AssessmentReferenceSchema :: "AssessmentReference \<Rightarrow> bool" where
  "AssessmentReferenceSchema r \<longleftrightarrow>
     OpaqueIdSchema (asmref_assessmentId r) \<and> Sha256Schema (asmref_definitionSha256 r)"

record ModelAssuranceAssessmentReference =
  maaref_assessmentExtensionId :: string
  maaref_definitionSha256 :: string

definition ModelAssuranceAssessmentReferenceSchema :: "ModelAssuranceAssessmentReference \<Rightarrow> bool" where
  "ModelAssuranceAssessmentReferenceSchema r \<longleftrightarrow>
     OpaqueIdSchema (maaref_assessmentExtensionId r) \<and> Sha256Schema (maaref_definitionSha256 r)"

record SourceReference =
  srcref_definitionSha256 :: string
  srcref_sourceSnapshotId :: string

definition SourceReferenceSchema :: "SourceReference \<Rightarrow> bool" where
  "SourceReferenceSchema r \<longleftrightarrow>
     Sha256Schema (srcref_definitionSha256 r) \<and> OpaqueIdSchema (srcref_sourceSnapshotId r)"

record SourceReviewReference =
  revref_definitionSha256 :: string
  revref_sourceReviewId :: string

definition SourceReviewReferenceSchema :: "SourceReviewReference \<Rightarrow> bool" where
  "SourceReviewReferenceSchema r \<longleftrightarrow>
     Sha256Schema (revref_definitionSha256 r) \<and> OpaqueIdSchema (revref_sourceReviewId r)"

record QualifiedSourceReference =
  qs_review :: SourceReviewReference
  qs_source :: SourceReference

definition QualifiedSourceReferenceSchema :: "QualifiedSourceReference \<Rightarrow> bool" where
  "QualifiedSourceReferenceSchema r \<longleftrightarrow>
     SourceReviewReferenceSchema (qs_review r) \<and> SourceReferenceSchema (qs_source r)"

definition AssuranceRationaleSchema :: "(js_text \<Rightarrow> js_text) \<Rightarrow> js_text \<Rightarrow> bool" where
  "AssuranceRationaleSchema nfc s \<longleftrightarrow> boundedCanonicalText nfc 4096 s"

datatype CriterionSeverity =
  InformationalSeverity | LowSeverity | ModerateSeverity | HighSeverity | CriticalSeverity

section \<open>Shared shapes\<close>

definition sortedUniqueStrings ::
  "('a::linorder list \<Rightarrow> bool) \<Rightarrow> nat \<Rightarrow> nat \<Rightarrow> 'a list list \<Rightarrow> bool" where
  "sortedUniqueStrings item least most xs \<longleftrightarrow>
     list_all item xs \<and> least \<le> length xs \<and> length xs \<le> most \<and> strictly_sorted codeUnitLess xs"

definition MAX_POLICY_APPLICABILITY_VALUES :: nat where "MAX_POLICY_APPLICABILITY_VALUES = 64"
definition MAX_POLICY_APPROVAL_ROLES :: nat where "MAX_POLICY_APPROVAL_ROLES = 32"
definition MAX_POLICY_SOURCES :: nat where "MAX_POLICY_SOURCES = 64"
definition MAX_POLICY_TEXT_VALUES :: nat where "MAX_POLICY_TEXT_VALUES = 64"

definition qualifiedSourceKey :: "QualifiedSourceReference \<Rightarrow> string" where
  "qualifiedSourceKey r =
     srcref_sourceSnapshotId (qs_source r) @ '':'' @ srcref_definitionSha256 (qs_source r) @ '':'' @
     revref_sourceReviewId (qs_review r) @ '':'' @ revref_definitionSha256 (qs_review r)"

definition sortedQualifiedSources :: "nat \<Rightarrow> QualifiedSourceReference list \<Rightarrow> bool" where
  "sortedQualifiedSources least xs \<longleftrightarrow>
     list_all QualifiedSourceReferenceSchema xs \<and> least \<le> length xs \<and> length xs \<le> MAX_POLICY_SOURCES \<and>
     strictly_sorted codeUnitLess (map qualifiedSourceKey xs)"

datatype ReleasePolicyMode = AdvisoryMode | MandatoryMode

fun releasePolicyModeName :: "ReleasePolicyMode \<Rightarrow> string" where
  "releasePolicyModeName AdvisoryMode = ''advisory''"
| "releasePolicyModeName MandatoryMode = ''mandatory''"

section \<open>Installation bindings\<close>

record PolicyInstallationBindingReference =
  bindref_bindingVersionId :: string
  bindref_definitionSha256 :: string
  bindref_installationId :: string

definition PolicyInstallationBindingReferenceSchema :: "PolicyInstallationBindingReference \<Rightarrow> bool" where
  "PolicyInstallationBindingReferenceSchema r \<longleftrightarrow>
     OpaqueIdSchema (bindref_bindingVersionId r) \<and> Sha256Schema (bindref_definitionSha256 r) \<and>
     OpaqueIdSchema (bindref_installationId r)"

record PolicyInstallationBindingDefinition =
  bind_allowedModes :: "ReleasePolicyMode list"
  bind_authorityEvidence :: ArtifactContentReference
  bind_authorizedIssuerPrincipalIds :: "string list"
  bind_bindingVersionId :: string
  bind_effectiveAt :: utc_ms
  bind_expiresAt :: utc_ms
  bind_installationId :: string
  bind_scope :: EvidenceScope

definition refinePositiveValidityInterval :: "utc_ms \<Rightarrow> utc_ms \<Rightarrow> bool" where
  "refinePositiveValidityInterval effectiveAt expiresAt \<longleftrightarrow> effectiveAt < expiresAt"

definition PolicyInstallationBindingDefinitionSchema :: "PolicyInstallationBindingDefinition \<Rightarrow> bool" where
  "PolicyInstallationBindingDefinitionSchema b \<longleftrightarrow>
     sortedUniqueStrings (\<lambda>_. True) 1 2 (map releasePolicyModeName (bind_allowedModes b)) \<and>
     ArtifactContentReferenceSchema (bind_authorityEvidence b) \<and>
     sortedUniqueStrings OpaqueIdSchema 1 64 (bind_authorizedIssuerPrincipalIds b) \<and>
     OpaqueIdSchema (bind_bindingVersionId b) \<and> UtcMillisecondTimestampSchema (bind_effectiveAt b) \<and>
     UtcMillisecondTimestampSchema (bind_expiresAt b) \<and> OpaqueIdSchema (bind_installationId b) \<and>
     EvidenceScopeSchema (bind_scope b) \<and>
     refinePositiveValidityInterval (bind_effectiveAt b) (bind_expiresAt b)"

record PolicyInstallationBinding = PolicyInstallationBindingDefinition +
  bind_definitionSha256 :: string
  bind_registeredAt :: utc_ms
  bind_registeredByPrincipalId :: string

definition PolicyInstallationBindingSchema :: "PolicyInstallationBinding \<Rightarrow> bool" where
  "PolicyInstallationBindingSchema b \<longleftrightarrow>
     PolicyInstallationBindingDefinitionSchema (PolicyInstallationBindingDefinition.truncate b) \<and>
     Sha256Schema (bind_definitionSha256 b) \<and> UtcMillisecondTimestampSchema (bind_registeredAt b) \<and>
     OpaqueIdSchema (bind_registeredByPrincipalId b) \<and> bind_registeredAt b < bind_expiresAt b"

section \<open>Applicability\<close>

datatype 'a selector =
    SelectAny
  | SelectAbsent
  | SelectEquals 'a
  | SelectOneOf "'a list"

definition optionalScalarSelector ::
  "('a \<Rightarrow> bool) \<Rightarrow> ('a \<Rightarrow> 'b::linorder list) \<Rightarrow> 'a selector \<Rightarrow> bool" where
  "optionalScalarSelector item name s \<longleftrightarrow>
     (case s of
        SelectAny \<Rightarrow> True
      | SelectAbsent \<Rightarrow> True
      | SelectEquals v \<Rightarrow> item v
      | SelectOneOf vs \<Rightarrow> list_all item vs \<and> 1 \<le> length vs \<and>
          length vs \<le> MAX_POLICY_APPLICABILITY_VALUES \<and> strictly_sorted codeUnitLess (map name vs))"

definition scalarSelector ::
  "('a \<Rightarrow> bool) \<Rightarrow> ('a \<Rightarrow> 'b::linorder list) \<Rightarrow> 'a selector \<Rightarrow> bool" where
  "scalarSelector item name s \<longleftrightarrow> s \<noteq> SelectAbsent \<and> optionalScalarSelector item name s"

datatype PolicyPopulationSelector =
    AnyPopulation
  | ContainsAllPopulation "js_text list"
  | ExactlyPopulation "js_text list"

fun PolicyPopulationSelectorSchema ::
  "(js_text \<Rightarrow> js_text) \<Rightarrow> PolicyPopulationSelector \<Rightarrow> bool" where
  "PolicyPopulationSelectorSchema nfc AnyPopulation = True"
| "PolicyPopulationSelectorSchema nfc (ContainsAllPopulation vs) =
     sortedUniqueStrings (AssuranceSummarySchema nfc) 1 MAX_POLICY_APPLICABILITY_VALUES vs"
| "PolicyPopulationSelectorSchema nfc (ExactlyPopulation vs) =
     sortedUniqueStrings (AssuranceSummarySchema nfc) 0 MAX_POLICY_APPLICABILITY_VALUES vs"

fun riskTierName :: "EvaluationRiskTier \<Rightarrow> string" where
  "riskTierName LowTier = ''low''"
| "riskTierName ModerateTier = ''moderate''"
| "riskTierName HighTier = ''high''"
| "riskTierName CriticalTier = ''critical''"

record ReleasePolicyApplicability =
  rpa_jurisdiction :: "string selector"
  rpa_locale :: "string selector"
  rpa_maximumDataClassification :: "DataClassification selector"
  rpa_populationTags :: PolicyPopulationSelector
  rpa_purpose :: "js_text selector"
  rpa_riskTier :: "EvaluationRiskTier selector"
  rpa_taskKind :: "string selector"

definition ReleasePolicyApplicabilitySchema ::
  "(js_text \<Rightarrow> js_text) \<Rightarrow> ReleasePolicyApplicability \<Rightarrow> bool" where
  "ReleasePolicyApplicabilitySchema nfc a \<longleftrightarrow>
     optionalScalarSelector SourceJurisdictionSchema id (rpa_jurisdiction a) \<and>
     optionalScalarSelector SourceLocaleSchema id (rpa_locale a) \<and>
     scalarSelector (\<lambda>_. True) classificationName (rpa_maximumDataClassification a) \<and>
     PolicyPopulationSelectorSchema nfc (rpa_populationTags a) \<and>
     scalarSelector (AssuranceRationaleSchema nfc) id (rpa_purpose a) \<and>
     scalarSelector (\<lambda>_. True) riskTierName (rpa_riskTier a) \<and>
     scalarSelector OpaqueIdSchema id (rpa_taskKind a)"

fun applicabilityCoversHighRisk :: "EvaluationRiskTier selector \<Rightarrow> bool" where
  "applicabilityCoversHighRisk SelectAny = True"
| "applicabilityCoversHighRisk (SelectEquals v) = (v = HighTier \<or> v = CriticalTier)"
| "applicabilityCoversHighRisk (SelectOneOf vs) = (HighTier \<in> set vs \<or> CriticalTier \<in> set vs)"
| "applicabilityCoversHighRisk SelectAbsent = False"

section \<open>Predicates\<close>

definition policyComparisonMetricKinds :: "string list" where
  "policyComparisonMetricKinds =
     [''artifact_set'', ''assurance_state_count'', ''coverage_count'', ''evaluation_verdict_count'',
      ''replay_usage'', ''safety_event_count'', ''trace_event_count'']"

definition COMPARISON_COUNT_METRIC_UNITS :: "(string \<times> string) list" where
  "COMPARISON_COUNT_METRIC_UNITS =
     [(''artifact_set'', ''artifacts''), (''assurance_state_count'', ''assurance_records''),
      (''coverage_count'', ''cases''), (''evaluation_verdict_count'', ''evaluation_outcomes''),
      (''safety_event_count'', ''events''), (''trace_event_count'', ''events'')]"

definition COMPARISON_REPLAY_USAGE_UNITS :: "string list" where
  "COMPARISON_REPLAY_USAGE_UNITS =
     [''interactions'', ''milliseconds'', ''bytes'', ''tokens'', ''attempts'', ''requests'', ''tokens'',
      ''provider_cost_microunits'', ''bytes'', ''calls'']"

definition allowedUnitsByMetricKind :: "string \<Rightarrow> string list" where
  "allowedUnitsByMetricKind kind =
     (if kind = ''replay_usage'' then COMPARISON_REPLAY_USAGE_UNITS
      else case map_of COMPARISON_COUNT_METRIC_UNITS kind of None \<Rightarrow> [] | Some unit \<Rightarrow> [unit])"

record ComparisonThresholdPredicate =
  ctp_comparator :: ReleasePolicyComparator
  ctp_comparison :: ComparisonDefinitionReference
  ctp_metricId :: string
  ctp_metricKind :: string
  ctp_operand :: string
  ctp_threshold :: string
  ctp_unit :: string

record MetricSamplesPredicate =
  msp_comparison :: ComparisonDefinitionReference
  msp_metricId :: string
  msp_minimumCount :: int
  msp_sampleClass :: string

record MetricRatioPredicate =
  mrp_comparison :: ComparisonDefinitionReference
  mrp_denominator :: string
  mrp_metricId :: string
  mrp_minimumBasisPoints :: int
  mrp_numerator :: string

record AssessmentSamplesPredicate =
  asp_assessment :: AssessmentReference
  asp_minimumCount :: int
  asp_sampleClass :: string

record UncertaintyBoundPredicate =
  ubp_assessment :: AssessmentReference
  ubp_bound :: string
  ubp_comparator :: BoundComparator
  ubp_confidenceLevelBasisPoints :: int
  ubp_thresholdBasisPoints :: int

datatype EligibilityRequiredPredicate =
    EvaluationEligibility AssessmentReference
  | ModelAssuranceEligibility ModelAssuranceAssessmentReference

record ArtifactRequiredPredicate =
  arp_allowedMediaTypes :: "string list"
  arp_componentKind :: string
  arp_maximumDataClassification :: DataClassification
  arp_role :: string

record SafetyEventCeilingPredicate =
  sep_comparison :: ComparisonDefinitionReference
  sep_eventClass :: string
  sep_maximumCount :: int
  sep_metricId :: string

record PolicyApprovalRequirement =
  par_excludeCandidateAuthor :: bool
  par_humanReviewerGroupIds :: "string list"
  par_independenceGroupIds :: "string list"
  par_quorum :: int
  par_reviewerRoleIds :: "string list"

datatype ReleasePolicyPredicate =
    ComparisonThreshold ComparisonThresholdPredicate
  | CoverageMetricSamples MetricSamplesPredicate
  | CoverageMetricRatio MetricRatioPredicate
  | CoverageAssessmentSamples AssessmentSamplesPredicate
  | UncertaintyBoundRequired UncertaintyBoundPredicate
  | EligibilityRequired EligibilityRequiredPredicate
  | ArtifactRequired ArtifactRequiredPredicate
  | SafetyEventCeiling SafetyEventCeilingPredicate
  | ApprovalRequired PolicyApprovalRequirement

fun predicateKind :: "ReleasePolicyPredicate \<Rightarrow> PredicateKind" where
  "predicateKind (ComparisonThreshold _) = ComparisonThresholdKind"
| "predicateKind (CoverageMetricSamples _) = CoverageFloorKind"
| "predicateKind (CoverageMetricRatio _) = CoverageFloorKind"
| "predicateKind (CoverageAssessmentSamples _) = CoverageFloorKind"
| "predicateKind (UncertaintyBoundRequired _) = UncertaintyBoundKind"
| "predicateKind (EligibilityRequired _) = EligibilityRequiredKind"
| "predicateKind (ArtifactRequired _) = ArtifactRequiredKind"
| "predicateKind (SafetyEventCeiling _) = SafetyEventCeilingKind"
| "predicateKind (ApprovalRequired _) = ApprovalRequiredKind"

definition ComparisonThresholdPredicateSchema :: "ComparisonThresholdPredicate \<Rightarrow> bool" where
  "ComparisonThresholdPredicateSchema p \<longleftrightarrow>
     ComparisonDefinitionReferenceSchema (ctp_comparison p) \<and> OpaqueIdSchema (ctp_metricId p) \<and>
     ctp_metricKind p \<in> set policyComparisonMetricKinds \<and>
     ctp_operand p \<in> set [''baseline'', ''candidate'', ''delta''] \<and>
     ReleasePolicyExactDecimalSchema (ctp_threshold p) \<and>
     ReleasePolicyUnitSchema (js_text_of (ctp_unit p)) \<and>
     ctp_unit p \<in> set (allowedUnitsByMetricKind (ctp_metricKind p))"

definition ratioPopulationsAgree :: "string \<Rightarrow> string \<Rightarrow> bool" where
  "ratioPopulationsAgree numerator denominator \<longleftrightarrow>
     (let role = hd (splitOn CHR ''_'' numerator)
      in \<not> (role \<noteq> ''paired'' \<and> denominator \<noteq> role @ ''_total'') \<and>
         \<not> (role = ''paired'' \<and> denominator \<noteq> ''paired_total''))"

definition PolicyApprovalRequirementSchema :: "PolicyApprovalRequirement \<Rightarrow> bool" where
  "PolicyApprovalRequirementSchema p \<longleftrightarrow>
     sortedUniqueStrings OpaqueIdSchema 0 MAX_POLICY_APPROVAL_GROUPS (par_humanReviewerGroupIds p) \<and>
     sortedUniqueStrings OpaqueIdSchema 1 MAX_POLICY_APPROVAL_GROUPS (par_independenceGroupIds p) \<and>
     0 < par_quorum p \<and> par_quorum p \<le> int MAX_POLICY_APPROVAL_ROLES \<and>
     sortedUniqueStrings OpaqueIdSchema 1 MAX_POLICY_APPROVAL_ROLES (par_reviewerRoleIds p) \<and>
     \<not> par_quorum p > int (length (par_independenceGroupIds p)) \<and>
     list_all (\<lambda>g. g \<in> set (par_independenceGroupIds p)) (par_humanReviewerGroupIds p)"

fun ReleasePolicyPredicateSchema :: "ReleasePolicyPredicate \<Rightarrow> bool" where
  "ReleasePolicyPredicateSchema (ComparisonThreshold p) = ComparisonThresholdPredicateSchema p"
| "ReleasePolicyPredicateSchema (CoverageMetricSamples p) =
     (ComparisonDefinitionReferenceSchema (msp_comparison p) \<and> OpaqueIdSchema (msp_metricId p) \<and>
      SafeNonnegativeInteger (msp_minimumCount p) \<and>
      msp_sampleClass p \<in> set [''baseline_observed'', ''candidate_observed'', ''paired_observed'', ''paired_total''])"
| "ReleasePolicyPredicateSchema (CoverageMetricRatio p) =
     (ComparisonDefinitionReferenceSchema (mrp_comparison p) \<and>
      mrp_denominator p \<in> set [''baseline_total'', ''candidate_total'', ''paired_total''] \<and>
      OpaqueIdSchema (mrp_metricId p) \<and> 1 \<le> mrp_minimumBasisPoints p \<and> mrp_minimumBasisPoints p \<le> 10000 \<and>
      mrp_numerator p \<in> set [''baseline_observed'', ''candidate_observed'', ''paired_observed''] \<and>
      ratioPopulationsAgree (mrp_numerator p) (mrp_denominator p))"
| "ReleasePolicyPredicateSchema (CoverageAssessmentSamples p) =
     (AssessmentReferenceSchema (asp_assessment p) \<and> SafeNonnegativeInteger (asp_minimumCount p) \<and>
      asp_sampleClass p \<in> set [''decided'', ''observed''])"
| "ReleasePolicyPredicateSchema (UncertaintyBoundRequired p) =
     (AssessmentReferenceSchema (ubp_assessment p) \<and> ubp_bound p \<in> set [''lower'', ''upper''] \<and>
      5000 \<le> ubp_confidenceLevelBasisPoints p \<and> ubp_confidenceLevelBasisPoints p \<le> 9999 \<and>
      0 \<le> ubp_thresholdBasisPoints p \<and> ubp_thresholdBasisPoints p \<le> 10000)"
| "ReleasePolicyPredicateSchema (EligibilityRequired (EvaluationEligibility r)) = AssessmentReferenceSchema r"
| "ReleasePolicyPredicateSchema (EligibilityRequired (ModelAssuranceEligibility r)) =
     ModelAssuranceAssessmentReferenceSchema r"
| "ReleasePolicyPredicateSchema (ArtifactRequired p) =
     (sortedUniqueStrings ArtifactMediaTypeSchema 1 32 (arp_allowedMediaTypes p) \<and>
      arp_componentKind p \<in> set [''build_artifact'', ''model_resolution'', ''prompt'', ''tool_contract''] \<and>
      OpaqueIdSchema (arp_role p))"
| "ReleasePolicyPredicateSchema (SafetyEventCeiling p) =
     (ComparisonDefinitionReferenceSchema (sep_comparison p) \<and>
      sep_eventClass p \<in> set [''guardrail_check'', ''replay_safety_intervention'', ''uncertain_side_effect''] \<and>
      SafeNonnegativeInteger (sep_maximumCount p) \<and> OpaqueIdSchema (sep_metricId p))"
| "ReleasePolicyPredicateSchema (ApprovalRequired p) = PolicyApprovalRequirementSchema p"

section \<open>Rules and policies\<close>

record ReleasePolicyRule =
  rule_nonWaivable :: bool
  rule_predicate :: ReleasePolicyPredicate
  rule_rationale :: js_text
  rule_ruleId :: string
  rule_severity :: CriterionSeverity
  rule_sources :: "QualifiedSourceReference list"

definition ReleasePolicyRuleSchema :: "(js_text \<Rightarrow> js_text) \<Rightarrow> ReleasePolicyRule \<Rightarrow> bool" where
  "ReleasePolicyRuleSchema nfc r \<longleftrightarrow>
     ReleasePolicyPredicateSchema (rule_predicate r) \<and> AssuranceRationaleSchema nfc (rule_rationale r) \<and>
     OpaqueIdSchema (rule_ruleId r) \<and> sortedQualifiedSources 1 (rule_sources r)"

record ReleasePolicyShared =
  rps_applicability :: ReleasePolicyApplicability
  rps_assumptions :: "js_text list"
  rps_changeRationale :: js_text
  rps_counterevidence :: "QualifiedSourceReference list"
  rps_description :: "js_text option"
  rps_effectiveAt :: utc_ms
  rps_exclusions :: "js_text list"
  rps_expiresAt :: utc_ms
  rps_installationBinding :: PolicyInstallationBindingReference
  rps_knownLimitations :: "js_text list"
  rps_mode :: ReleasePolicyMode
  rps_name :: js_text
  rps_rationale :: js_text
  rps_rules :: "ReleasePolicyRule list"
  rps_semanticVersion :: string
  rps_sources :: "QualifiedSourceReference list"

text \<open>
  Normalized semantic versions: three numbers without leading zeros, and an optional prerelease of
  dot-separated numbers without leading zeros or lower-case identifiers that do not start with a digit.
\<close>

definition versionIdentifier :: "string \<Rightarrow> bool" where
  "versionIdentifier s \<longleftrightarrow>
     canonicalDigits s \<or>
     (case s of
        [] \<Rightarrow> False
      | c # cs \<Rightarrow> (lower_alpha c \<or> c = CHR ''-'') \<and>
          list_all (\<lambda>d. lower_alpha d \<or> digit_char d \<or> d = CHR ''-'') cs)"

definition ReleasePolicySemanticVersionSchema :: "string \<Rightarrow> bool" where
  "ReleasePolicySemanticVersionSchema s \<longleftrightarrow>
     length s \<le> 128 \<and>
     (let core = takeWhile (\<lambda>c. c \<noteq> CHR ''-'') s; rest = dropWhile (\<lambda>c. c \<noteq> CHR ''-'') s
      in length (splitOn CHR ''.'' core) = 3 \<and> list_all canonicalDigits (splitOn CHR ''.'' core) \<and>
         (rest = [] \<or> list_all versionIdentifier (splitOn CHR ''.'' (tl rest))))"

definition ReleasePolicySharedShape :: "(js_text \<Rightarrow> js_text) \<Rightarrow> 'a ReleasePolicyShared_scheme \<Rightarrow> bool" where
  "ReleasePolicySharedShape nfc p \<longleftrightarrow>
     ReleasePolicyApplicabilitySchema nfc (rps_applicability p) \<and>
     sortedUniqueStrings (AssuranceSummarySchema nfc) 0 MAX_POLICY_TEXT_VALUES (rps_assumptions p) \<and>
     AssuranceRationaleSchema nfc (rps_changeRationale p) \<and>
     sortedQualifiedSources 0 (rps_counterevidence p) \<and>
     optional (AssuranceSummarySchema nfc) (rps_description p) \<and>
     UtcMillisecondTimestampSchema (rps_effectiveAt p) \<and>
     sortedUniqueStrings (AssuranceSummarySchema nfc) 0 MAX_POLICY_TEXT_VALUES (rps_exclusions p) \<and>
     UtcMillisecondTimestampSchema (rps_expiresAt p) \<and>
     PolicyInstallationBindingReferenceSchema (rps_installationBinding p) \<and>
     sortedUniqueStrings (AssuranceSummarySchema nfc) 0 MAX_POLICY_TEXT_VALUES (rps_knownLimitations p) \<and>
     AssuranceSummarySchema nfc (rps_name p) \<and> AssuranceRationaleSchema nfc (rps_rationale p) \<and>
     list_all (ReleasePolicyRuleSchema nfc) (rps_rules p) \<and> 1 \<le> length (rps_rules p) \<and>
     int (length (rps_rules p)) \<le> MAX_POLICY_RULES \<and>
     strictly_sorted codeUnitLess (map rule_ruleId (rps_rules p)) \<and>
     ReleasePolicySemanticVersionSchema (rps_semanticVersion p) \<and>
     sortedQualifiedSources 1 (rps_sources p)"

definition approvalRequirements :: "ReleasePolicyRule list \<Rightarrow> PolicyApprovalRequirement list" where
  "approvalRequirements rules =
     List.map_filter (\<lambda>r. case rule_predicate r of ApprovalRequired a \<Rightarrow> Some a | _ \<Rightarrow> None) rules"

definition refineReleasePolicyShared :: "'a ReleasePolicyShared_scheme \<Rightarrow> bool" where
  "refineReleasePolicyShared p \<longleftrightarrow>
     (let policySources = map qualifiedSourceKey (rps_sources p);
          counterevidence = map qualifiedSourceKey (rps_counterevidence p);
          approvals = approvalRequirements (rps_rules p)
      in refinePositiveValidityInterval (rps_effectiveAt p) (rps_expiresAt p) \<and>
         list_all (\<lambda>r. list_all (\<lambda>s. qualifiedSourceKey s \<in> set policySources) (rule_sources r)) (rps_rules p) \<and>
         list_all (\<lambda>s. s \<notin> set counterevidence) policySources \<and>
         length approvals \<le> 1 \<and>
         (applicabilityCoversHighRisk (rpa_riskTier (rps_applicability p)) \<longrightarrow>
            (case approvals of [] \<Rightarrow> False | a # _ \<Rightarrow> par_humanReviewerGroupIds a \<noteq> [])))"

record ReleasePolicyDefinition = ReleasePolicyShared +
  rpd_issuerPrincipalId :: string
  rpd_policyId :: string
  rpd_policyVersionId :: string
  rpd_predecessor :: "ReleasePolicyReference option"

definition ReleasePolicyDefinitionSchema ::
  "(js_text \<Rightarrow> js_text) \<Rightarrow> 'a ReleasePolicyDefinition_scheme \<Rightarrow> bool" where
  "ReleasePolicyDefinitionSchema nfc p \<longleftrightarrow>
     ReleasePolicySharedShape nfc p \<and> OpaqueIdSchema (rpd_issuerPrincipalId p) \<and>
     OpaqueIdSchema (rpd_policyId p) \<and> OpaqueIdSchema (rpd_policyVersionId p) \<and>
     optional ReleasePolicyReferenceSchema (rpd_predecessor p) \<and> refineReleasePolicyShared p \<and>
     optional (\<lambda>r. rpol_policyId r = rpd_policyId p \<and> rpol_policyVersionId r \<noteq> rpd_policyVersionId p)
       (rpd_predecessor p)"

record PublishReleasePolicyRequest = ReleasePolicyShared +
  ppr_policyVersionId :: string
  ppr_predecessorVersionId :: "string option"

definition PublishReleasePolicyRequestSchema ::
  "(js_text \<Rightarrow> js_text) \<Rightarrow> PublishReleasePolicyRequest \<Rightarrow> bool" where
  "PublishReleasePolicyRequestSchema nfc r \<longleftrightarrow>
     ReleasePolicySharedShape nfc r \<and> OpaqueIdSchema (ppr_policyVersionId r) \<and>
     optional OpaqueIdSchema (ppr_predecessorVersionId r) \<and> refineReleasePolicyShared r \<and>
     ppr_predecessorVersionId r \<noteq> Some (ppr_policyVersionId r)"

record ReleasePolicy = ReleasePolicyDefinition +
  rpp_definitionSha256 :: string
  rpp_publishedAt :: utc_ms
  rpp_publishedByPrincipalId :: string
  rpp_scope :: EvidenceScope

definition ReleasePolicySchema :: "(js_text \<Rightarrow> js_text) \<Rightarrow> ReleasePolicy \<Rightarrow> bool" where
  "ReleasePolicySchema nfc p \<longleftrightarrow>
     ReleasePolicyDefinitionSchema nfc p \<and> Sha256Schema (rpp_definitionSha256 p) \<and>
     UtcMillisecondTimestampSchema (rpp_publishedAt p) \<and> OpaqueIdSchema (rpp_publishedByPrincipalId p) \<and>
     EvidenceScopeSchema (rpp_scope p) \<and> rpp_publishedByPrincipalId p = rpd_issuerPrincipalId p \<and>
     rpp_publishedAt p < rps_expiresAt p"

datatype lifecycle_kind = PolicyWithdrawn | PolicySuperseded ReleasePolicyReference

record ReleasePolicyLifecycleEvent =
  rle_actorPrincipalId :: string
  rle_eventId :: string
  rle_occurredAt :: utc_ms
  rle_policy :: ReleasePolicyReference
  rle_reason :: js_text
  rle_scope :: EvidenceScope
  rle_kind :: lifecycle_kind

definition ReleasePolicyLifecycleEventSchema ::
  "(js_text \<Rightarrow> js_text) \<Rightarrow> ReleasePolicyLifecycleEvent \<Rightarrow> bool" where
  "ReleasePolicyLifecycleEventSchema nfc e \<longleftrightarrow>
     OpaqueIdSchema (rle_actorPrincipalId e) \<and> OpaqueIdSchema (rle_eventId e) \<and>
     UtcMillisecondTimestampSchema (rle_occurredAt e) \<and> ReleasePolicyReferenceSchema (rle_policy e) \<and>
     AssuranceRationaleSchema nfc (rle_reason e) \<and> EvidenceScopeSchema (rle_scope e) \<and>
     (case rle_kind e of
        PolicyWithdrawn \<Rightarrow> True
      | PolicySuperseded successor \<Rightarrow>
          ReleasePolicyReferenceSchema successor \<and>
          rpol_policyId successor = rpol_policyId (rle_policy e) \<and>
          rpol_policyVersionId successor \<noteq> rpol_policyVersionId (rle_policy e))"

record PublishReleasePolicyLifecycleRequest =
  plr_eventId :: string
  plr_reason :: js_text
  plr_successorPolicyVersionId :: "string option"

definition PublishReleasePolicyLifecycleRequestSchema ::
  "(js_text \<Rightarrow> js_text) \<Rightarrow> PublishReleasePolicyLifecycleRequest \<Rightarrow> bool" where
  "PublishReleasePolicyLifecycleRequestSchema nfc r \<longleftrightarrow>
     OpaqueIdSchema (plr_eventId r) \<and> AssuranceRationaleSchema nfc (plr_reason r) \<and>
     optional OpaqueIdSchema (plr_successorPolicyVersionId r)"

end
