(* ===== verification/Comparison_Contract.thy ===== *)
theory Comparison_Contract
  imports Release_Policy Replay_Accounting
begin

text \<open>
  The contracts of baseline and candidate comparison, \<open>packages/contracts/src/evaluation-comparison.ts\<close>:
  the subjects, strata, metrics and calculation policy of a comparison definition, and the evidence
  snapshot of one role with its fixtures, counts, observations, assurance states, artifacts, safety events
  and omissions. Identifiers that order lists are compared by code units. \<open>nfc\<close> is Unicode normalization and
  \<open>isoDatetime\<close> the library's check of a timestamp text.
\<close>

section \<open>References\<close>

definition sortedUnique :: "'a::linorder list list \<Rightarrow> bool" where
  "sortedUnique keys \<longleftrightarrow> strictly_sorted codeUnitLess keys"

record RegressionFixtureVersionReference =
  fx_definitionSha256 :: string
  fx_fixtureId :: string
  fx_fixtureVersionId :: string

definition RegressionFixtureVersionReferenceSchema :: "RegressionFixtureVersionReference \<Rightarrow> bool" where
  "RegressionFixtureVersionReferenceSchema r \<longleftrightarrow>
     OpaqueIdSchema (fx_fixtureId r) \<and> OpaqueIdSchema (fx_fixtureVersionId r) \<and> Sha256Schema (fx_definitionSha256 r)"

record EvaluationDatasetVersionReference =
  dv_datasetId :: string
  dv_datasetVersionId :: string
  dv_definitionSha256 :: string

definition EvaluationDatasetVersionReferenceSchema :: "EvaluationDatasetVersionReference \<Rightarrow> bool" where
  "EvaluationDatasetVersionReferenceSchema r \<longleftrightarrow>
     OpaqueIdSchema (dv_datasetId r) \<and> OpaqueIdSchema (dv_datasetVersionId r) \<and> Sha256Schema (dv_definitionSha256 r)"

record CriterionSetReference =
  csr_criterionSetId :: string
  csr_criterionSetVersionId :: string
  csr_definitionSha256 :: string

record CriterionReference =
  crr_criterionId :: string
  crr_criterionSet :: CriterionSetReference

definition CriterionReferenceSchema :: "CriterionReference \<Rightarrow> bool" where
  "CriterionReferenceSchema r \<longleftrightarrow>
     OpaqueIdSchema (crr_criterionId r) \<and>
     (let s = crr_criterionSet r in
      OpaqueIdSchema (csr_criterionSetId s) \<and> OpaqueIdSchema (csr_criterionSetVersionId s) \<and> Sha256Schema (csr_definitionSha256 s))"

record RawObservationReference =
  ror_definitionSha256 :: string
  ror_observationId :: string

definition RawObservationReferenceSchema :: "RawObservationReference \<Rightarrow> bool" where
  "RawObservationReferenceSchema r \<longleftrightarrow> Sha256Schema (ror_definitionSha256 r) \<and> OpaqueIdSchema (ror_observationId r)"

text \<open>
  The pattern of \<open>PostgresTimestampSchema\<close>: digits and separators at fixed places up to the seconds, a
  fraction of at most thirty digits, and \<open>Z\<close> or an offset of at most 15:59.
\<close>

definition timestampOffset :: "string \<Rightarrow> bool" where
  "timestampOffset s \<longleftrightarrow>
     s = ''Z'' \<or>
     (case s of
        [sign, h, h', colon, m, m'] \<Rightarrow>
          (sign = CHR ''+'' \<or> sign = CHR ''-'') \<and> colon = CHR '':'' \<and>
          (h = CHR ''0'' \<and> digit_char h' \<or> h = CHR ''1'' \<and> h' \<in> set ''012345'') \<and> m \<in> set ''012345'' \<and> digit_char m'
      | _ \<Rightarrow> False)"

definition timestampTail :: "string \<Rightarrow> bool" where
  "timestampTail s \<longleftrightarrow>
     (case s of
        c # cs \<Rightarrow>
          if c = CHR ''.''
          then (let n = length (takeWhile digit_char cs) in 1 \<le> n \<and> n \<le> 30 \<and> timestampOffset (drop n cs))
          else timestampOffset s
      | [] \<Rightarrow> False)"

definition PostgresTimestampSchema :: "(string \<Rightarrow> bool) \<Rightarrow> string \<Rightarrow> bool" where
  "PostgresTimestampSchema isoDatetime s \<longleftrightarrow>
     isoDatetime s \<and> 19 \<le> length s \<and> take 5 s \<noteq> ''0000-'' \<and>
     list_all2 (\<lambda>p c. if p = CHR ''9'' then digit_char c else c = p) ''9999-99-99T99:99:99'' (take 19 s) \<and> timestampTail (drop 19 s)"

record EvaluationReplayResultReference =
  rrr_attemptId :: string
  rrr_completedAt :: string
  rrr_jobId :: string
  rrr_plan :: ReplayPlanJobReference
  rrr_result :: ArtifactContentReference
  rrr_targetRelease :: TargetReleaseReference

definition EvaluationReplayResultReferenceSchema :: "(string \<Rightarrow> bool) \<Rightarrow> EvaluationReplayResultReference \<Rightarrow> bool" where
  "EvaluationReplayResultReferenceSchema isoDatetime r \<longleftrightarrow>
     OpaqueIdSchema (rrr_attemptId r) \<and> PostgresTimestampSchema isoDatetime (rrr_completedAt r) \<and> OpaqueIdSchema (rrr_jobId r) \<and>
     ReplayPlanJobReferenceSchema (rrr_plan r) \<and> ArtifactContentReferenceSchema (rrr_result r) \<and>
     TargetReleaseReferenceSchema (rrr_targetRelease r)"

section \<open>Subjects\<close>

definition MAX_COMPARISON_SUBJECT_FIXTURES :: nat where "MAX_COMPARISON_SUBJECT_FIXTURES = 500"
definition MAX_COMPARISON_SUBJECT_ASSESSMENTS :: nat where "MAX_COMPARISON_SUBJECT_ASSESSMENTS = 128"
definition MAX_COMPARISON_STRATA :: nat where "MAX_COMPARISON_STRATA = 64"
definition MAX_COMPARISON_METRICS :: nat where "MAX_COMPARISON_METRICS = 128"
definition MAX_COMPARISON_NUMERIC_OBSERVATIONS :: nat where "MAX_COMPARISON_NUMERIC_OBSERVATIONS = 8000"
definition MAX_COMPARISON_ARTIFACTS :: nat where "MAX_COMPARISON_ARTIFACTS = 4000"
definition MAX_COMPARISON_SAFETY_EVENTS :: nat where "MAX_COMPARISON_SAFETY_EVENTS = 4000"
definition MAX_COMPARISON_OMISSIONS :: nat where "MAX_COMPARISON_OMISSIONS = 4000"

definition assessmentReferenceKey :: "AssessmentReference \<Rightarrow> string" where
  "assessmentReferenceKey r = asmref_assessmentId r @ '':'' @ asmref_definitionSha256 r"

definition modelAssuranceReferenceKey :: "ModelAssuranceAssessmentReference \<Rightarrow> string" where
  "modelAssuranceReferenceKey r = maaref_assessmentExtensionId r @ '':'' @ maaref_definitionSha256 r"

definition exactAssessmentReferences :: "AssessmentReference list \<Rightarrow> bool" where
  "exactAssessmentReferences rs \<longleftrightarrow>
     list_all AssessmentReferenceSchema rs \<and> length rs \<le> MAX_COMPARISON_SUBJECT_ASSESSMENTS \<and>
     sortedUnique (map assessmentReferenceKey rs)"

definition exactModelAssuranceReferences :: "ModelAssuranceAssessmentReference list \<Rightarrow> bool" where
  "exactModelAssuranceReferences rs \<longleftrightarrow>
     list_all ModelAssuranceAssessmentReferenceSchema rs \<and> length rs \<le> MAX_COMPARISON_SUBJECT_ASSESSMENTS \<and>
     sortedUnique (map modelAssuranceReferenceKey rs)"

record ComparisonSubjectFixture =
  sf_assessments :: "AssessmentReference list"
  sf_fixture :: RegressionFixtureVersionReference
  sf_modelAssuranceAssessments :: "ModelAssuranceAssessmentReference list"
  sf_replay :: EvaluationReplayResultReference

definition ComparisonSubjectFixtureSchema :: "(string \<Rightarrow> bool) \<Rightarrow> ComparisonSubjectFixture \<Rightarrow> bool" where
  "ComparisonSubjectFixtureSchema isoDatetime f \<longleftrightarrow>
     exactAssessmentReferences (sf_assessments f) \<and> RegressionFixtureVersionReferenceSchema (sf_fixture f) \<and>
     exactModelAssuranceReferences (sf_modelAssuranceAssessments f) \<and>
     EvaluationReplayResultReferenceSchema isoDatetime (sf_replay f)"

definition fixtureVersionKey :: "RegressionFixtureVersionReference \<Rightarrow> string" where
  "fixtureVersionKey r = fx_fixtureId r @ '':'' @ fx_fixtureVersionId r"

record ComparisonSubject =
  sub_dataset :: EvaluationDatasetVersionReference
  sub_fixtures :: "ComparisonSubjectFixture list"

definition ComparisonSubjectSchema :: "(string \<Rightarrow> bool) \<Rightarrow> ComparisonSubject \<Rightarrow> bool" where
  "ComparisonSubjectSchema isoDatetime s \<longleftrightarrow>
     EvaluationDatasetVersionReferenceSchema (sub_dataset s) \<and>
     list_all (ComparisonSubjectFixtureSchema isoDatetime) (sub_fixtures s) \<and>
     1 \<le> length (sub_fixtures s) \<and> length (sub_fixtures s) \<le> MAX_COMPARISON_SUBJECT_FIXTURES \<and>
     sortedUnique (map (\<lambda>f. fixtureVersionKey (sf_fixture f)) (sub_fixtures s))"

section \<open>Metrics and strata\<close>

datatype NumericAggregation =
  MaximumMethod | MeanMethod | MedianMethod | MinimumMethod | SumMethod | NearestRankQuantile int

fun NumericAggregationSchema :: "NumericAggregation \<Rightarrow> bool" where
  "NumericAggregationSchema (NearestRankQuantile basisPoints) \<longleftrightarrow> 1 \<le> basisPoints \<and> basisPoints \<le> 10000"
| "NumericAggregationSchema _ \<longleftrightarrow> True"

definition EVIDENCE_KINDS :: "string list" where
  "EVIDENCE_KINDS =
     [''agent.run'', ''agent.handoff'', ''model.generate'', ''tool.execute'', ''retrieval.query'', ''memory.access'',
      ''guardrail.check'', ''policy.decision'', ''evaluation.score'', ''artifact.change'', ''custom'']"

definition EVIDENCE_STATUSES :: "string list" where
  "EVIDENCE_STATUSES = [''unset'', ''ok'', ''error'']"

definition EVALUATION_VERDICTS :: "string list" where
  "EVALUATION_VERDICTS = [''abstain'', ''error'', ''fail'', ''not_applicable'', ''pass'']"

definition SAFETY_EVENT_KINDS :: "string list" where
  "SAFETY_EVENT_KINDS = [''guardrail_check'', ''replay_safety_intervention'', ''uncertain_side_effect'']"

fun comparisonAssuranceConditions :: "string \<Rightarrow> string list" where
  "comparisonAssuranceConditions dimension =
     (if dimension = ''assessment_eligibility'' then [''assessment_eligible'', ''assessment_ineligible'']
      else if dimension = ''calibration_availability'' then
        [''calibration_available'', ''calibration_incompatible'', ''calibration_stale'', ''calibration_unavailable'']
      else if dimension = ''counterevidence'' then [''critical_counterevidence_absent'', ''critical_counterevidence_present'']
      else if dimension = ''disagreement'' then [''disagreement_absent'', ''order_sensitive_result'', ''unresolved_disagreement'']
      else if dimension = ''human_review'' then
        [''human_review_available'', ''human_review_conflicted'', ''human_review_expired'', ''human_review_invalid'',
         ''human_review_missing'', ''human_review_protocol_mismatch'', ''human_review_quorum_shortfall'']
      else if dimension = ''model_assurance_eligibility'' then [''model_assurance_eligible'', ''model_assurance_ineligible'']
      else [])"

definition replayUsageUnit :: "ReplayBudgetDimension \<Rightarrow> string" where
  "replayUsageUnit dimension =
     (case map_of (zip REPLAY_BUDGET_DIMENSIONS COMPARISON_REPLAY_USAGE_UNITS) dimension of None \<Rightarrow> [] | Some unit \<Rightarrow> unit)"

datatype ComparisonMetricBody =
    TraceEventCount string "string option"
  | EvaluationVerdictCount CriterionReference string
  | NumericMeasurement NumericAggregation js_text js_text
  | ReplayUsage NumericAggregation ReplayBudgetDimension js_text
  | SafetyEventCount string
  | ArtifactSet
  | AssuranceStateCount string string
  | CoverageCount CriterionReference string

record ComparisonMetric =
  met_label :: js_text
  met_metricId :: string
  met_stratumId :: string
  met_body :: ComparisonMetricBody

fun metricBody :: "(js_text \<Rightarrow> js_text) \<Rightarrow> ComparisonMetricBody \<Rightarrow> bool" where
  "metricBody nfc (TraceEventCount kind status) \<longleftrightarrow>
     kind \<in> set EVIDENCE_KINDS \<and> (case status of None \<Rightarrow> True | Some s \<Rightarrow> s \<in> set EVIDENCE_STATUSES)"
| "metricBody nfc (EvaluationVerdictCount criterion verdict) \<longleftrightarrow>
     CriterionReferenceSchema criterion \<and> verdict \<in> set EVALUATION_VERDICTS"
| "metricBody nfc (NumericMeasurement aggregation measurementName unit) \<longleftrightarrow>
     NumericAggregationSchema aggregation \<and> AssuranceSummarySchema nfc measurementName \<and> AssuranceSummarySchema nfc unit"
| "metricBody nfc (ReplayUsage aggregation dimension unit) \<longleftrightarrow>
     NumericAggregationSchema aggregation \<and> AssuranceSummarySchema nfc unit \<and> unit = js_text_of (replayUsageUnit dimension)"
| "metricBody nfc (SafetyEventCount kind) \<longleftrightarrow> kind \<in> set SAFETY_EVENT_KINDS"
| "metricBody nfc ArtifactSet \<longleftrightarrow> True"
| "metricBody nfc (AssuranceStateCount dimension condition) \<longleftrightarrow> condition \<in> set (comparisonAssuranceConditions dimension)"
| "metricBody nfc (CoverageCount criterion dimension) \<longleftrightarrow>
     CriterionReferenceSchema criterion \<and> dimension \<in> {''abstention'', ''decided'', ''error'', ''observed''}"

definition ComparisonMetricSchema :: "(js_text \<Rightarrow> js_text) \<Rightarrow> ComparisonMetric \<Rightarrow> bool" where
  "ComparisonMetricSchema nfc m \<longleftrightarrow>
     AssuranceSummarySchema nfc (met_label m) \<and> OpaqueIdSchema (met_metricId m) \<and> OpaqueIdSchema (met_stratumId m) \<and>
     metricBody nfc (met_body m)"

record ComparisonStratum =
  str_fixtureIds :: "string list"
  str_label :: js_text
  str_stratumId :: string

definition ComparisonStratumSchema :: "(js_text \<Rightarrow> js_text) \<Rightarrow> ComparisonStratum \<Rightarrow> bool" where
  "ComparisonStratumSchema nfc s \<longleftrightarrow>
     list_all OpaqueIdSchema (str_fixtureIds s) \<and> 1 \<le> length (str_fixtureIds s) \<and>
     length (str_fixtureIds s) \<le> MAX_COMPARISON_SUBJECT_FIXTURES \<and> sortedUnique (str_fixtureIds s) \<and>
     AssuranceSummarySchema nfc (str_label s) \<and> OpaqueIdSchema (str_stratumId s)"

section \<open>Comparison definitions\<close>

record ComparisonDefinitionPredecessor =
  cdp_comparisonVersionId :: string
  cdp_definitionSha256 :: string

definition ComparisonDefinitionPredecessorSchema :: "ComparisonDefinitionPredecessor \<Rightarrow> bool" where
  "ComparisonDefinitionPredecessorSchema p \<longleftrightarrow> OpaqueIdSchema (cdp_comparisonVersionId p) \<and> Sha256Schema (cdp_definitionSha256 p)"

record ComparisonDefinition =
  cd_baseline :: ComparisonSubject
  cd_minimumPairedCoverageBasisPoints :: int
  cd_candidate :: ComparisonSubject
  cd_comparisonId :: string
  cd_comparisonVersionId :: string
  cd_description :: "js_text option"
  cd_metrics :: "ComparisonMetric list"
  cd_name :: js_text
  cd_predecessor :: "ComparisonDefinitionPredecessor option"
  cd_strata :: "ComparisonStratum list"
  cd_createdAt :: utc_ms
  cd_createdByPrincipalId :: string
  cd_definitionSha256 :: string
  cd_scope :: EvidenceScope

definition subjectFixtureIdList :: "ComparisonSubject \<Rightarrow> string list" where
  "subjectFixtureIdList s = map (\<lambda>f. fx_fixtureId (sf_fixture f)) (sub_fixtures s)"

definition refineComparisonPopulation :: "ComparisonDefinition \<Rightarrow> bool" where
  "refineComparisonPopulation d \<longleftrightarrow>
     (let fixtureIds = set (subjectFixtureIdList (cd_baseline d)) \<union> set (subjectFixtureIdList (cd_candidate d));
          stratumIds = set (map str_stratumId (cd_strata d))
      in list_all (\<lambda>s. list_all (\<lambda>f. f \<in> fixtureIds) (str_fixtureIds s)) (cd_strata d) \<and>
         list_all (\<lambda>m. met_stratumId m \<in> stratumIds) (cd_metrics d))"

definition refineComparisonDefinition :: "ComparisonDefinition \<Rightarrow> bool" where
  "refineComparisonDefinition d \<longleftrightarrow>
     map_option cdp_comparisonVersionId (cd_predecessor d) \<noteq> Some (cd_comparisonVersionId d) \<and>
     cd_baseline d \<noteq> cd_candidate d \<and> refineComparisonPopulation d"

definition ComparisonDefinitionRecordSchema ::
    "(js_text \<Rightarrow> js_text) \<Rightarrow> (string \<Rightarrow> bool) \<Rightarrow> ComparisonDefinition \<Rightarrow> bool" where
  "ComparisonDefinitionRecordSchema nfc isoDatetime d \<longleftrightarrow>
     ComparisonSubjectSchema isoDatetime (cd_baseline d) \<and>
     1 \<le> cd_minimumPairedCoverageBasisPoints d \<and> cd_minimumPairedCoverageBasisPoints d \<le> 10000 \<and>
     ComparisonSubjectSchema isoDatetime (cd_candidate d) \<and>
     OpaqueIdSchema (cd_comparisonId d) \<and> OpaqueIdSchema (cd_comparisonVersionId d) \<and>
     (case cd_description d of None \<Rightarrow> True | Some t \<Rightarrow> AssuranceSummarySchema nfc t) \<and>
     list_all (ComparisonMetricSchema nfc) (cd_metrics d) \<and> 1 \<le> length (cd_metrics d) \<and>
     length (cd_metrics d) \<le> MAX_COMPARISON_METRICS \<and> sortedUnique (map met_metricId (cd_metrics d)) \<and>
     AssuranceSummarySchema nfc (cd_name d) \<and>
     (case cd_predecessor d of None \<Rightarrow> True | Some p \<Rightarrow> ComparisonDefinitionPredecessorSchema p) \<and>
     list_all (ComparisonStratumSchema nfc) (cd_strata d) \<and> 1 \<le> length (cd_strata d) \<and>
     length (cd_strata d) \<le> MAX_COMPARISON_STRATA \<and> sortedUnique (map str_stratumId (cd_strata d)) \<and>
     UtcMillisecondTimestampSchema (cd_createdAt d) \<and> OpaqueIdSchema (cd_createdByPrincipalId d) \<and>
     Sha256Schema (cd_definitionSha256 d) \<and> EvidenceScopeSchema (cd_scope d) \<and> refineComparisonDefinition d"

end
