(* ===== verification/Comparison_Evidence.thy ===== *)
theory Comparison_Evidence
  imports Comparison_Contract
begin

text \<open>
  The evidence snapshot of one role of a comparison, the second half of
  \<open>packages/contracts/src/evaluation-comparison.ts\<close>. A map built from entries keeps the last entry of a key.
\<close>

section \<open>Counts\<close>

definition SafeComparisonCountSchema :: "int \<Rightarrow> bool" where
  "SafeComparisonCountSchema n \<longleftrightarrow> 0 \<le> n \<and> n \<le> MAX_SAFE_INTEGER"

definition PositiveComparisonCountSchema :: "int \<Rightarrow> bool" where
  "PositiveComparisonCountSchema n \<longleftrightarrow> 0 < n \<and> n \<le> MAX_SAFE_INTEGER"

record TraceKindCount =
  tkc_count :: int
  tkc_kind :: string

record TraceKindStatusCount =
  tks_count :: int
  tks_kind :: string
  tks_status :: string

record TraceStatusCount =
  tsc_count :: int
  tsc_status :: string

record ComparisonTraceStructure =
  ts_eventCount :: int
  ts_eventKinds :: "TraceKindCount list"
  ts_eventKindStatuses :: "TraceKindStatusCount list"
  ts_eventStatuses :: "TraceStatusCount list"

text \<open>The counts of a projection agree with the joint counts: same keys, and each the sum of its entries.\<close>

definition projectsJointCounts :: "(string \<times> int) list \<Rightarrow> (string \<times> int) list \<Rightarrow> bool" where
  "projectsJointCounts projected joint \<longleftrightarrow>
     length projected = length (remdups (map fst joint)) \<and>
     list_all (\<lambda>(k, n). k \<in> fst ` set joint \<and> sum_list (map snd (filter (\<lambda>e. fst e = k) joint)) = n) projected"

definition ComparisonTraceStructureSchema :: "ComparisonTraceStructure \<Rightarrow> bool" where
  "ComparisonTraceStructureSchema t \<longleftrightarrow>
     SafeComparisonCountSchema (ts_eventCount t) \<and>
     list_all (\<lambda>e. PositiveComparisonCountSchema (tkc_count e) \<and> tkc_kind e \<in> set EVIDENCE_KINDS) (ts_eventKinds t) \<and>
     length (ts_eventKinds t) \<le> length EVIDENCE_KINDS \<and> sortedUnique (map tkc_kind (ts_eventKinds t)) \<and>
     list_all (\<lambda>e. PositiveComparisonCountSchema (tks_count e) \<and> tks_kind e \<in> set EVIDENCE_KINDS \<and>
       tks_status e \<in> set EVIDENCE_STATUSES) (ts_eventKindStatuses t) \<and>
     length (ts_eventKindStatuses t) \<le> length EVIDENCE_KINDS * length EVIDENCE_STATUSES \<and>
     sortedUnique (map (\<lambda>e. tks_kind e @ '':'' @ tks_status e) (ts_eventKindStatuses t)) \<and>
     list_all (\<lambda>e. PositiveComparisonCountSchema (tsc_count e) \<and> tsc_status e \<in> set EVIDENCE_STATUSES) (ts_eventStatuses t) \<and>
     length (ts_eventStatuses t) \<le> length EVIDENCE_STATUSES \<and> sortedUnique (map tsc_status (ts_eventStatuses t)) \<and>
     sum_list (map tkc_count (ts_eventKinds t)) = ts_eventCount t \<and>
     sum_list (map tks_count (ts_eventKindStatuses t)) = ts_eventCount t \<and>
     sum_list (map tsc_count (ts_eventStatuses t)) = ts_eventCount t \<and>
     projectsJointCounts (map (\<lambda>e. (tkc_kind e, tkc_count e)) (ts_eventKinds t))
       (map (\<lambda>e. (tks_kind e, tks_count e)) (ts_eventKindStatuses t)) \<and>
     projectsJointCounts (map (\<lambda>e. (tsc_status e, tsc_count e)) (ts_eventStatuses t))
       (map (\<lambda>e. (tks_status e, tks_count e)) (ts_eventKindStatuses t))"

definition USAGE_SOURCES :: "string list" where
  "USAGE_SOURCES = [''estimated'', ''measured'', ''provider_reported'']"

definition USAGE_UNAVAILABLE_REASONS :: "string list" where
  "USAGE_UNAVAILABLE_REASONS = [''measurement_failed'', ''provider_did_not_report'', ''source_unavailable'']"

definition sortedMembers :: "string list \<Rightarrow> string list \<Rightarrow> bool" where
  "sortedMembers options xs \<longleftrightarrow>
     list_all (\<lambda>x. x \<in> set options) xs \<and> 1 \<le> length xs \<and> length xs \<le> length options \<and> sortedUnique xs"

datatype ComparisonUsageValue =
    UsageAvailable int int "string list"
  | UsagePartial int int "string list" int "string list"
  | UsageUnavailable int "string list"

fun ComparisonUsageValueSchema :: "ComparisonUsageValue \<Rightarrow> bool" where
  "ComparisonUsageValueSchema (UsageAvailable amount observedCount sources) \<longleftrightarrow>
     SafeComparisonCountSchema amount \<and> PositiveComparisonCountSchema observedCount \<and> sortedMembers USAGE_SOURCES sources"
| "ComparisonUsageValueSchema (UsagePartial amount observedCount sources unavailableCount reasons) \<longleftrightarrow>
     SafeComparisonCountSchema amount \<and> PositiveComparisonCountSchema observedCount \<and> sortedMembers USAGE_SOURCES sources \<and>
     PositiveComparisonCountSchema unavailableCount \<and> sortedMembers USAGE_UNAVAILABLE_REASONS reasons"
| "ComparisonUsageValueSchema (UsageUnavailable unavailableCount reasons) \<longleftrightarrow>
     PositiveComparisonCountSchema unavailableCount \<and> sortedMembers USAGE_UNAVAILABLE_REASONS reasons"

record ComparisonUsageDimension =
  cud_dimension :: ReplayBudgetDimension
  cud_value :: ComparisonUsageValue

record ComparisonVerdictCounts =
  vc_abstain :: int
  vc_error :: int
  vc_fail :: int
  vc_notApplicable :: int
  vc_pass :: int
  vc_total :: int

definition ComparisonVerdictCountsSchema :: "ComparisonVerdictCounts \<Rightarrow> bool" where
  "ComparisonVerdictCountsSchema c \<longleftrightarrow>
     SafeComparisonCountSchema (vc_abstain c) \<and> SafeComparisonCountSchema (vc_error c) \<and> SafeComparisonCountSchema (vc_fail c) \<and>
     SafeComparisonCountSchema (vc_notApplicable c) \<and> SafeComparisonCountSchema (vc_pass c) \<and> SafeComparisonCountSchema (vc_total c) \<and>
     vc_abstain c + vc_error c + vc_fail c + vc_notApplicable c + vc_pass c = vc_total c"

section \<open>Retained evidence\<close>

record ComparisonEvaluationOutcome =
  eo_assessment :: AssessmentReference
  eo_criterion :: CriterionReference
  eo_counts :: ComparisonVerdictCounts

definition ComparisonEvaluationOutcomeSchema :: "ComparisonEvaluationOutcome \<Rightarrow> bool" where
  "ComparisonEvaluationOutcomeSchema o' \<longleftrightarrow>
     AssessmentReferenceSchema (eo_assessment o') \<and> CriterionReferenceSchema (eo_criterion o') \<and>
     ComparisonVerdictCountsSchema (eo_counts o')"

record ComparisonNumericObservation =
  no_measurementName :: js_text
  no_observation :: RawObservationReference
  no_unit :: js_text
  no_value :: string

definition ComparisonNumericObservationSchema :: "(js_text \<Rightarrow> js_text) \<Rightarrow> ComparisonNumericObservation \<Rightarrow> bool" where
  "ComparisonNumericObservationSchema nfc n \<longleftrightarrow>
     AssuranceSummarySchema nfc (no_measurementName n) \<and> RawObservationReferenceSchema (no_observation n) \<and>
     AssuranceSummarySchema nfc (no_unit n) \<and> ExactDecimalSchema (no_value n)"

definition ASSESSMENT_ELIGIBILITY_REASONS :: "string list" where
  "ASSESSMENT_ELIGIBILITY_REASONS =
     [''criterion_not_approved'', ''criterion_not_applicable'', ''critical_counterevidence'', ''digest_mismatch'',
      ''human_review_required'', ''insufficient_coverage'', ''insufficient_evidence_classes'',
      ''insufficient_independent_quorum'', ''invalid_provenance'', ''missing_non_model_evidence'',
      ''qualification_not_current'', ''source_identity_not_verified'', ''source_review_not_current'',
      ''unresolved_disagreement'', ''unsupported_statistical_assumptions'']"

definition MODEL_ASSURANCE_INELIGIBILITY_REASONS :: "string list" where
  "MODEL_ASSURANCE_INELIGIBILITY_REASONS =
     [''base_assessment_ineligible'', ''assurance_lineage_mismatch'', ''assurance_scope_mismatch'', ''blind_incomplete'',
      ''blind_invalid'', ''calibration_incompatible'', ''calibration_stale'', ''calibration_unavailable'',
      ''critical_counterevidence'', ''critique_invalid'', ''human_review_conflicted'', ''human_review_expired'',
      ''human_review_missing'', ''human_review_protocol_mismatch'', ''human_review_quorum_shortfall'',
      ''human_review_invalid'', ''independence_correlated'', ''independence_unverified'', ''injection_qualification_failed'',
      ''model_qualification_stale'', ''model_qualification_unqualified'', ''model_qualification_invalid'',
      ''non_model_evidence_missing'', ''non_model_evidence_invalid'', ''order_sensitive_result'', ''source_stale'',
      ''unresolved_disagreement'']"

datatype AssuranceReference = OfAssessment AssessmentReference | OfModelAssurance ModelAssuranceAssessmentReference

record ComparisonAssuranceState =
  cas_eligible :: bool
  cas_reasons :: "string list"
  cas_reference :: AssuranceReference

definition ComparisonAssuranceStateSchema :: "ComparisonAssuranceState \<Rightarrow> bool" where
  "ComparisonAssuranceStateSchema a \<longleftrightarrow>
     (case cas_reference a of
        OfAssessment r \<Rightarrow> AssessmentReferenceSchema r \<and> list_all (\<lambda>x. x \<in> set ASSESSMENT_ELIGIBILITY_REASONS) (cas_reasons a) \<and>
          length (cas_reasons a) \<le> length ASSESSMENT_ELIGIBILITY_REASONS
      | OfModelAssurance r \<Rightarrow> ModelAssuranceAssessmentReferenceSchema r \<and>
          list_all (\<lambda>x. x \<in> set MODEL_ASSURANCE_INELIGIBILITY_REASONS) (cas_reasons a) \<and>
          length (cas_reasons a) \<le> length MODEL_ASSURANCE_INELIGIBILITY_REASONS) \<and>
     sortedUnique (cas_reasons a) \<and> (cas_eligible a \<longleftrightarrow> cas_reasons a = [])"

fun assuranceStateKey :: "AssuranceReference \<Rightarrow> string" where
  "assuranceStateKey (OfAssessment r) = ''assessment:'' @ assessmentReferenceKey r"
| "assuranceStateKey (OfModelAssurance r) = ''model_assurance:'' @ modelAssuranceReferenceKey r"

datatype ArtifactAvailability = ArtifactAvailable | ArtifactRevoked | ArtifactUnavailable

record ComparisonArtifactState =
  ca_artifact :: ArtifactContentReference
  ca_availability :: ArtifactAvailability

record ComparisonSafetyEvent =
  se_eventId :: string
  se_kind :: string
  se_occurredAt :: utc_ms
  se_sourceId :: string
  se_sourceSha256 :: string

definition ComparisonSafetyEventSchema :: "ComparisonSafetyEvent \<Rightarrow> bool" where
  "ComparisonSafetyEventSchema e \<longleftrightarrow>
     OpaqueIdSchema (se_eventId e) \<and> se_kind e \<in> set SAFETY_EVENT_KINDS \<and> UtcMillisecondTimestampSchema (se_occurredAt e) \<and>
     OpaqueIdSchema (se_sourceId e) \<and> Sha256Schema (se_sourceSha256 e)"

datatype ArtifactOmissionReason = OmittedRevoked | OmittedUnavailable

datatype MeasurementOmissionReason = MeasurementUnavailable | SourceOverLimit

datatype ComparisonOmissionSource =
    OmittedArtifact string ArtifactOmissionReason
  | OmittedAssessment AssessmentReference
  | OmittedContent js_text
  | OmittedMeasurement js_text MeasurementOmissionReason js_text
  | OmittedModelAssurance ModelAssuranceAssessmentReference

record ComparisonOmission =
  om_fixtureId :: string
  om_source :: ComparisonOmissionSource

definition ComparisonOmissionSchema :: "(js_text \<Rightarrow> js_text) \<Rightarrow> ComparisonOmission \<Rightarrow> bool" where
  "ComparisonOmissionSchema nfc x \<longleftrightarrow>
     OpaqueIdSchema (om_fixtureId x) \<and>
     (case om_source x of
        OmittedArtifact artifactId _ \<Rightarrow> OpaqueIdSchema artifactId
      | OmittedAssessment r \<Rightarrow> AssessmentReferenceSchema r
      | OmittedContent projectionKey \<Rightarrow> AssuranceSummarySchema nfc projectionKey
      | OmittedMeasurement measurementName _ unit \<Rightarrow> AssuranceSummarySchema nfc measurementName \<and> AssuranceSummarySchema nfc unit
      | OmittedModelAssurance r \<Rightarrow> ModelAssuranceAssessmentReferenceSchema r)"

fun omissionSourceKey :: "ComparisonOmissionSource \<Rightarrow> js_text" where
  "omissionSourceKey (OmittedArtifact artifactId _) = js_text_of (''artifact:'' @ artifactId)"
| "omissionSourceKey (OmittedAssessment r) = js_text_of (''assessment:'' @ assessmentReferenceKey r)"
| "omissionSourceKey (OmittedContent projectionKey) = js_text_of ''classified_content:'' @ projectionKey"
| "omissionSourceKey (OmittedMeasurement measurementName _ unit) =
     js_text_of ''numeric_measurement:'' @ measurementName @ js_text_of '':'' @ unit"
| "omissionSourceKey (OmittedModelAssurance r) = js_text_of (''model_assurance_assessment:'' @ modelAssuranceReferenceKey r)"

definition comparisonOmissionKey :: "ComparisonOmission \<Rightarrow> js_text" where
  "comparisonOmissionKey x = js_text_of (om_fixtureId x @ '':'') @ omissionSourceKey (om_source x)"

section \<open>Fixture snapshots\<close>

record ComparisonEvidenceFixtureSnapshot =
  ef_artifacts :: "ComparisonArtifactState list"
  ef_assurance :: "ComparisonAssuranceState list"
  ef_evaluationOutcomes :: "ComparisonEvaluationOutcome list"
  ef_fixture :: RegressionFixtureVersionReference
  ef_numericObservations :: "ComparisonNumericObservation list"
  ef_replay :: EvaluationReplayResultReference
  ef_safetyEvents :: "ComparisonSafetyEvent list"
  ef_trace :: ComparisonTraceStructure
  ef_usage :: "ComparisonUsageDimension list"

definition numericObservationKey :: "ComparisonNumericObservation \<Rightarrow> js_text" where
  "numericObservationKey n =
     no_measurementName n @ js_text_of '':'' @ no_unit n @
     js_text_of ('':'' @ ror_observationId (no_observation n) @ '':'' @ ror_definitionSha256 (no_observation n))"

definition ComparisonEvidenceFixtureSnapshotSchema ::
    "(js_text \<Rightarrow> js_text) \<Rightarrow> (string \<Rightarrow> bool) \<Rightarrow> ComparisonEvidenceFixtureSnapshot \<Rightarrow> bool" where
  "ComparisonEvidenceFixtureSnapshotSchema nfc isoDatetime f \<longleftrightarrow>
     list_all (\<lambda>a. ArtifactContentReferenceSchema (ca_artifact a)) (ef_artifacts f) \<and>
     length (ef_artifacts f) \<le> MAX_COMPARISON_ARTIFACTS \<and>
     sortedUnique (map (\<lambda>a. content_artifactId (ca_artifact a) @ '':'' @ content_sha256 (ca_artifact a)) (ef_artifacts f)) \<and>
     sortedUnique (map (\<lambda>a. content_artifactId (ca_artifact a)) (ef_artifacts f)) \<and>
     list_all ComparisonAssuranceStateSchema (ef_assurance f) \<and>
     length (ef_assurance f) \<le> MAX_COMPARISON_SUBJECT_ASSESSMENTS * 2 \<and>
     sortedUnique (map (\<lambda>a. assuranceStateKey (cas_reference a)) (ef_assurance f)) \<and>
     list_all ComparisonEvaluationOutcomeSchema (ef_evaluationOutcomes f) \<and>
     length (ef_evaluationOutcomes f) \<le> MAX_COMPARISON_SUBJECT_ASSESSMENTS \<and>
     sortedUnique (map (\<lambda>x. crr_criterionId (eo_criterion x) @ '':'' @ assessmentReferenceKey (eo_assessment x)) (ef_evaluationOutcomes f)) \<and>
     RegressionFixtureVersionReferenceSchema (ef_fixture f) \<and>
     list_all (ComparisonNumericObservationSchema nfc) (ef_numericObservations f) \<and>
     length (ef_numericObservations f) \<le> MAX_COMPARISON_NUMERIC_OBSERVATIONS \<and>
     sortedUnique (map numericObservationKey (ef_numericObservations f)) \<and>
     EvaluationReplayResultReferenceSchema isoDatetime (ef_replay f) \<and>
     list_all ComparisonSafetyEventSchema (ef_safetyEvents f) \<and> length (ef_safetyEvents f) \<le> MAX_COMPARISON_SAFETY_EVENTS \<and>
     sortedUnique (map se_eventId (ef_safetyEvents f)) \<and>
     ComparisonTraceStructureSchema (ef_trace f) \<and>
     list_all (\<lambda>u. ComparisonUsageValueSchema (cud_value u)) (ef_usage f) \<and>
     length (ef_usage f) \<le> length REPLAY_BUDGET_DIMENSIONS \<and> sortedUnique (map (\<lambda>u. dimensionName (cud_dimension u)) (ef_usage f))"

section \<open>Snapshots\<close>

datatype ComparisonRole = BaselineRole | CandidateRole

record ComparisonEvidenceSnapshot =
  es_comparison :: ComparisonDefinitionReference
  es_dataset :: EvaluationDatasetVersionReference
  es_fixtures :: "ComparisonEvidenceFixtureSnapshot list"
  es_knownLimitations :: "js_text list"
  es_omissions :: "ComparisonOmission list"
  es_role :: ComparisonRole
  es_snapshotId :: string
  es_sourceCutoff :: utc_ms
  es_createdAt :: utc_ms
  es_createdByPrincipalId :: string
  es_definitionSha256 :: string
  es_scope :: EvidenceScope

definition mapOf :: "('a \<Rightarrow> 'k) \<Rightarrow> 'a list \<Rightarrow> 'k \<rightharpoonup> 'a" where
  "mapOf key xs = map_of (rev (map (\<lambda>x. (key x, x)) xs))"

definition evidenceFixtureId :: "ComparisonEvidenceFixtureSnapshot \<Rightarrow> string" where
  "evidenceFixtureId f = fx_fixtureId (ef_fixture f)"

fun omissionFits :: "ComparisonEvidenceFixtureSnapshot \<Rightarrow> ComparisonOmissionSource \<Rightarrow> bool" where
  "omissionFits f (OmittedMeasurement measurementName _ unit) \<longleftrightarrow>
     \<not> list_ex (\<lambda>n. no_measurementName n = measurementName \<and> no_unit n = unit) (ef_numericObservations f)"
| "omissionFits f (OmittedAssessment r) \<longleftrightarrow> \<not> list_ex (\<lambda>a. cas_reference a = OfAssessment r) (ef_assurance f)"
| "omissionFits f (OmittedModelAssurance r) \<longleftrightarrow> \<not> list_ex (\<lambda>a. cas_reference a = OfModelAssurance r) (ef_assurance f)"
| "omissionFits f (OmittedArtifact artifactId reason) \<longleftrightarrow>
     (case find (\<lambda>a. content_artifactId (ca_artifact a) = artifactId) (ef_artifacts f) of
        None \<Rightarrow> False
      | Some a \<Rightarrow> ca_availability a = (case reason of OmittedRevoked \<Rightarrow> ArtifactRevoked | OmittedUnavailable \<Rightarrow> ArtifactUnavailable))"
| "omissionFits f (OmittedContent _) \<longleftrightarrow> True"

definition refineComparisonEvidenceSnapshot :: "ComparisonEvidenceSnapshot \<Rightarrow> bool" where
  "refineComparisonEvidenceSnapshot s \<longleftrightarrow>
     distinct (concat (map (\<lambda>f. map (\<lambda>a. content_artifactId (ca_artifact a)) (ef_artifacts f)) (es_fixtures s))) \<and>
     sum_list (map (\<lambda>f. length (ef_artifacts f)) (es_fixtures s)) \<le> MAX_COMPARISON_ARTIFACTS \<and>
     list_all (\<lambda>x. case mapOf evidenceFixtureId (es_fixtures s) (om_fixtureId x) of
        None \<Rightarrow> False | Some f \<Rightarrow> omissionFits f (om_source x)) (es_omissions s)"

definition ComparisonEvidenceSnapshotSchema ::
    "(js_text \<Rightarrow> js_text) \<Rightarrow> (string \<Rightarrow> bool) \<Rightarrow> ComparisonEvidenceSnapshot \<Rightarrow> bool" where
  "ComparisonEvidenceSnapshotSchema nfc isoDatetime s \<longleftrightarrow>
     ComparisonDefinitionReferenceSchema (es_comparison s) \<and> EvaluationDatasetVersionReferenceSchema (es_dataset s) \<and>
     list_all (ComparisonEvidenceFixtureSnapshotSchema nfc isoDatetime) (es_fixtures s) \<and>
     1 \<le> length (es_fixtures s) \<and> length (es_fixtures s) \<le> MAX_COMPARISON_SUBJECT_FIXTURES \<and>
     sortedUnique (map (\<lambda>f. fixtureVersionKey (ef_fixture f)) (es_fixtures s)) \<and>
     list_all (AssuranceSummarySchema nfc) (es_knownLimitations s) \<and> length (es_knownLimitations s) \<le> 64 \<and>
     sortedUnique (es_knownLimitations s) \<and>
     list_all (ComparisonOmissionSchema nfc) (es_omissions s) \<and> length (es_omissions s) \<le> MAX_COMPARISON_OMISSIONS \<and>
     sortedUnique (map comparisonOmissionKey (es_omissions s)) \<and>
     OpaqueIdSchema (es_snapshotId s) \<and> UtcMillisecondTimestampSchema (es_sourceCutoff s) \<and>
     UtcMillisecondTimestampSchema (es_createdAt s) \<and> OpaqueIdSchema (es_createdByPrincipalId s) \<and>
     Sha256Schema (es_definitionSha256 s) \<and> EvidenceScopeSchema (es_scope s) \<and>
     refineComparisonEvidenceSnapshot s \<and> \<not> es_createdAt s < es_sourceCutoff s"

end
