(* ===== verification/Comparison_Pairing.thy ===== *)
theory Comparison_Pairing
  imports Comparison_Evidence
begin

text \<open>
  Pairing of baseline and candidate evidence, \<open>packages/core/src/evaluation/comparison-pairing.ts\<close>, with the
  case, summary and comparability contracts of \<open>evaluation-comparison-result.ts\<close>. Canonical encodings are
  compared by comparing the values, which they identify.
\<close>

section \<open>Result contracts\<close>

definition MISSING_CASE_REASONS :: "string list" where
  "MISSING_CASE_REASONS = [''fixture_absent'', ''snapshot_omission'', ''source_unavailable'']"

definition INVALID_CASE_REASONS :: "string list" where
  "INVALID_CASE_REASONS =
     [''ambiguous_pairing'', ''digest_mismatch'', ''invalid_source_integrity'', ''nonterminal_replay'', ''scope_mismatch'',
      ''unresolved_lineage'']"

datatype ComparisonCase =
    PairedCase string RegressionFixtureVersionReference RegressionFixtureVersionReference
  | BaselineOnlyCase string RegressionFixtureVersionReference string
  | CandidateOnlyCase string string RegressionFixtureVersionReference
  | InvalidCase string "RegressionFixtureVersionReference option" "RegressionFixtureVersionReference option" "string list"

fun caseFixtureId :: "ComparisonCase \<Rightarrow> string" where
  "caseFixtureId (PairedCase i _ _) = i"
| "caseFixtureId (BaselineOnlyCase i _ _) = i"
| "caseFixtureId (CandidateOnlyCase i _ _) = i"
| "caseFixtureId (InvalidCase i _ _ _) = i"

fun caseShape :: "ComparisonCase \<Rightarrow> bool" where
  "caseShape (PairedCase i b c) \<longleftrightarrow>
     OpaqueIdSchema i \<and> RegressionFixtureVersionReferenceSchema b \<and> RegressionFixtureVersionReferenceSchema c"
| "caseShape (BaselineOnlyCase i b reason) \<longleftrightarrow>
     OpaqueIdSchema i \<and> RegressionFixtureVersionReferenceSchema b \<and> reason \<in> set MISSING_CASE_REASONS"
| "caseShape (CandidateOnlyCase i reason c) \<longleftrightarrow>
     OpaqueIdSchema i \<and> reason \<in> set MISSING_CASE_REASONS \<and> RegressionFixtureVersionReferenceSchema c"
| "caseShape (InvalidCase i b c reasons) \<longleftrightarrow>
     OpaqueIdSchema i \<and> pred_option RegressionFixtureVersionReferenceSchema b \<and>
     pred_option RegressionFixtureVersionReferenceSchema c \<and> list_all (\<lambda>r. r \<in> set INVALID_CASE_REASONS) reasons \<and>
     1 \<le> length reasons \<and> length reasons \<le> length INVALID_CASE_REASONS \<and> sortedUnique reasons \<and> (b \<noteq> None \<or> c \<noteq> None)"

fun caseReferences :: "ComparisonCase \<Rightarrow> RegressionFixtureVersionReference list" where
  "caseReferences (PairedCase _ b c) = [b, c]"
| "caseReferences (BaselineOnlyCase _ b _) = [b]"
| "caseReferences (CandidateOnlyCase _ _ c) = [c]"
| "caseReferences (InvalidCase _ b c _) = (case b of None \<Rightarrow> [] | Some r \<Rightarrow> [r]) @ (case c of None \<Rightarrow> [] | Some r \<Rightarrow> [r])"

definition ComparisonCaseSchema :: "ComparisonCase \<Rightarrow> bool" where
  "ComparisonCaseSchema c \<longleftrightarrow> caseShape c \<and> list_all (\<lambda>r. fx_fixtureId r = caseFixtureId c) (caseReferences c)"

record ComparisonPairingSummary =
  ps_baselineOnlyCount :: int
  ps_candidateOnlyCount :: int
  ps_invalidCount :: int
  ps_pairedCount :: int
  ps_requestedCount :: int

definition ComparisonPairingSummarySchema :: "ComparisonPairingSummary \<Rightarrow> bool" where
  "ComparisonPairingSummarySchema s \<longleftrightarrow>
     SafeComparisonCountSchema (ps_baselineOnlyCount s) \<and> SafeComparisonCountSchema (ps_candidateOnlyCount s) \<and>
     SafeComparisonCountSchema (ps_invalidCount s) \<and> SafeComparisonCountSchema (ps_pairedCount s) \<and>
     SafeComparisonCountSchema (ps_requestedCount s) \<and>
     ps_baselineOnlyCount s + ps_candidateOnlyCount s + ps_invalidCount s + ps_pairedCount s = ps_requestedCount s"

definition COMPARABILITY_REASONS :: "string list" where
  "COMPARABILITY_REASONS =
     [''calibration_mismatch'', ''criterion_mismatch'', ''dataset_mismatch'', ''fixture_mismatch'',
      ''insufficient_paired_coverage'', ''invalid_source_integrity'', ''method_mismatch'', ''missing_source_evidence'',
      ''population_mismatch'', ''unit_mismatch'', ''unresolved_critical_counterevidence'', ''unsupported_statistical_assumptions'']"

datatype ComparabilityStatus = Comparable | Incomparable | PartiallyComparable

record ComparisonComparability =
  cmp_reasons :: "string list"
  cmp_status :: ComparabilityStatus

definition ComparisonComparabilitySchema :: "ComparisonComparability \<Rightarrow> bool" where
  "ComparisonComparabilitySchema c \<longleftrightarrow>
     list_all (\<lambda>r. r \<in> set COMPARABILITY_REASONS) (cmp_reasons c) \<and> length (cmp_reasons c) \<le> 32 \<and> sortedUnique (cmp_reasons c) \<and>
     (cmp_status c = Comparable \<longleftrightarrow> cmp_reasons c = [])"

section \<open>Pairing\<close>

datatype pairing_error =
    ComparisonReferenceMismatch
  | DatasetReferenceMismatch
  | InvalidComparisonDefinition
  | InvalidEvidenceSnapshot
  | RoleMismatch
  | ScopeMismatch
  | SnapshotSubjectMismatch
  | PairingZodError

type_synonym 'a pairing_result = "(pairing_error, 'a) result"

record ComparisonPairingResult =
  pr_cases :: "ComparisonCase list"
  pr_comparability :: ComparisonComparability
  pr_pairing :: ComparisonPairingSummary

definition exactComparisonReference :: "ComparisonDefinition \<Rightarrow> ComparisonDefinitionReference" where
  "exactComparisonReference d =
     \<lparr>cmpref_comparisonId = cd_comparisonId d, cmpref_comparisonVersionId = cd_comparisonVersionId d,
      cmpref_definitionSha256 = cd_definitionSha256 d\<rparr>"

definition fixtureReferenceKey :: "RegressionFixtureVersionReference \<Rightarrow> string" where
  "fixtureReferenceKey r = fx_fixtureId r @ '':'' @ fx_fixtureVersionId r @ '':'' @ fx_definitionSha256 r"

definition exactDatasetKey :: "EvaluationDatasetVersionReference \<Rightarrow> string" where
  "exactDatasetKey r = dv_datasetId r @ '':'' @ dv_datasetVersionId r @ '':'' @ dv_definitionSha256 r"

definition exactSorted :: "string list \<Rightarrow> string list" where
  "exactSorted xs = sortBy compareCodeUnits xs"

definition sortedSet :: "string list \<Rightarrow> string list" where
  "sortedSet xs = exactSorted (remdups xs)"

definition sameStringSet :: "string list \<Rightarrow> string list \<Rightarrow> bool" where
  "sameStringSet l r \<longleftrightarrow> exactSorted l = exactSorted r"

definition retainedAssessments :: "ComparisonEvidenceFixtureSnapshot \<Rightarrow> string list" where
  "retainedAssessments f =
     concat (map (\<lambda>a. case cas_reference a of OfAssessment r \<Rightarrow> [assessmentReferenceKey r] | OfModelAssurance _ \<Rightarrow> []) (ef_assurance f))"

definition retainedModelAssurance :: "ComparisonEvidenceFixtureSnapshot \<Rightarrow> string list" where
  "retainedModelAssurance f =
     concat (map (\<lambda>a. case cas_reference a of OfAssessment _ \<Rightarrow> [] | OfModelAssurance r \<Rightarrow> [modelAssuranceReferenceKey r]) (ef_assurance f))"

definition fixtureIntegrityReasons :: "ComparisonSubjectFixture \<Rightarrow> ComparisonEvidenceFixtureSnapshot \<Rightarrow> string list" where
  "fixtureIntegrityReasons expected actual =
     (let e = sf_fixture expected; a = ef_fixture actual;
          expectedAssessments = map assessmentReferenceKey (sf_assessments expected)
      in sortedSet (
        (if fx_fixtureId e \<noteq> fx_fixtureId a \<or> fx_fixtureVersionId e \<noteq> fx_fixtureVersionId a then [''unresolved_lineage'']
         else if fx_definitionSha256 e \<noteq> fx_definitionSha256 a then [''digest_mismatch''] else []) @
        (if sf_replay expected \<noteq> ef_replay actual then [''unresolved_lineage''] else []) @
        (if \<not> sameStringSet expectedAssessments (retainedAssessments actual) then [''unresolved_lineage''] else []) @
        (if list_ex (\<lambda>x. assessmentReferenceKey (eo_assessment x) \<notin> set expectedAssessments) (ef_evaluationOutcomes actual)
         then [''unresolved_lineage''] else []) @
        (if \<not> sameStringSet (map modelAssuranceReferenceKey (sf_modelAssuranceAssessments expected)) (retainedModelAssurance actual)
         then [''unresolved_lineage''] else [])))"

definition parseEvidenceSnapshot ::
    "(js_text \<Rightarrow> js_text) \<Rightarrow> (string \<Rightarrow> bool) \<Rightarrow> ComparisonRole \<Rightarrow> ComparisonEvidenceSnapshot \<Rightarrow> unit pairing_result" where
  "parseEvidenceSnapshot nfc isoDatetime role s =
     (if \<not> ComparisonEvidenceSnapshotSchema nfc isoDatetime s then Inl InvalidEvidenceSnapshot
      else if es_role s \<noteq> role then Inl RoleMismatch else Inr ())"

definition roleSubject :: "ComparisonDefinition \<Rightarrow> ComparisonRole \<Rightarrow> ComparisonSubject" where
  "roleSubject d role = (case role of BaselineRole \<Rightarrow> cd_baseline d | CandidateRole \<Rightarrow> cd_candidate d)"

definition assertSnapshotEnvelope ::
    "ComparisonDefinition \<Rightarrow> ComparisonEvidenceSnapshot \<Rightarrow> ComparisonRole \<Rightarrow> unit pairing_result" where
  "assertSnapshotEnvelope d s role =
     (if es_scope s \<noteq> cd_scope d then Inl ScopeMismatch
      else if es_comparison s \<noteq> exactComparisonReference d then Inl ComparisonReferenceMismatch
      else if es_dataset s \<noteq> sub_dataset (roleSubject d role) then Inl DatasetReferenceMismatch
      else Inr ())"

definition subjectFixtureId :: "ComparisonSubjectFixture \<Rightarrow> string" where
  "subjectFixtureId f = fx_fixtureId (sf_fixture f)"

definition assertNoUnexpectedFixtures :: "ComparisonSubject \<Rightarrow> ComparisonEvidenceSnapshot \<Rightarrow> unit pairing_result" where
  "assertNoUnexpectedFixtures subject s =
     (if list_all (\<lambda>i. i \<in> set (map subjectFixtureId (sub_fixtures subject))) (map evidenceFixtureId (es_fixtures s)) then Inr ()
      else Inl SnapshotSubjectMismatch)"

definition missingReason :: "ComparisonSubjectFixture option \<Rightarrow> string" where
  "missingReason expected = (if expected \<noteq> None then ''snapshot_omission'' else ''fixture_absent'')"

definition parseCase :: "ComparisonCase \<Rightarrow> ComparisonCase pairing_result" where
  "parseCase c = (if ComparisonCaseSchema c then Inr c else Inl PairingZodError)"

definition roleReasons ::
    "ComparisonSubjectFixture option \<Rightarrow> ComparisonEvidenceFixtureSnapshot option \<Rightarrow> string list" where
  "roleReasons expected actual =
     (case (expected, actual) of (Some e, Some a) \<Rightarrow> fixtureIntegrityReasons e a | _ \<Rightarrow> [])"

definition referenceOf ::
    "ComparisonSubjectFixture option \<Rightarrow> ComparisonEvidenceFixtureSnapshot option \<Rightarrow> RegressionFixtureVersionReference option" where
  "referenceOf expected actual = (case actual of Some a \<Rightarrow> Some (ef_fixture a) | None \<Rightarrow> map_option sf_fixture expected)"

definition caseForFixture ::
    "string \<Rightarrow> ComparisonSubjectFixture option \<Rightarrow> ComparisonSubjectFixture option \<Rightarrow>
     ComparisonEvidenceFixtureSnapshot option \<Rightarrow> ComparisonEvidenceFixtureSnapshot option \<Rightarrow> ComparisonCase pairing_result" where
  "caseForFixture fixtureId baselineExpected candidateExpected baselineActual candidateActual =
     (let reasons = remdups_adj (exactSorted (roleReasons baselineExpected baselineActual @ roleReasons candidateExpected candidateActual)) in
      if baselineActual = None \<and> candidateActual = None
      then parseCase (InvalidCase fixtureId (map_option sf_fixture baselineExpected) (map_option sf_fixture candidateExpected)
             [''unresolved_lineage''])
      else if reasons \<noteq> []
      then parseCase (InvalidCase fixtureId (referenceOf baselineExpected baselineActual) (referenceOf candidateExpected candidateActual) reasons)
      else case (baselineActual, candidateActual) of
        (Some b, Some c) \<Rightarrow> parseCase (PairedCase fixtureId (ef_fixture b) (ef_fixture c))
      | (Some b, None) \<Rightarrow> parseCase (BaselineOnlyCase fixtureId (ef_fixture b) (missingReason candidateExpected))
      | (None, Some c) \<Rightarrow> parseCase (CandidateOnlyCase fixtureId (missingReason baselineExpected) (ef_fixture c))
      | (None, None) \<Rightarrow> Inl PairingZodError)"

fun isPaired :: "ComparisonCase \<Rightarrow> bool" where
  "isPaired (PairedCase _ _ _) = True"
| "isPaired _ = False"

fun isInvalid :: "ComparisonCase \<Rightarrow> bool" where
  "isInvalid (InvalidCase _ _ _ _) = True"
| "isInvalid _ = False"

fun isBaselineOnly :: "ComparisonCase \<Rightarrow> bool" where
  "isBaselineOnly (BaselineOnlyCase _ _ _) = True"
| "isBaselineOnly _ = False"

fun isCandidateOnly :: "ComparisonCase \<Rightarrow> bool" where
  "isCandidateOnly (CandidateOnlyCase _ _ _) = True"
| "isCandidateOnly _ = False"

fun fixturesDiffer :: "ComparisonCase \<Rightarrow> bool" where
  "fixturesDiffer (PairedCase _ b c) \<longleftrightarrow> fixtureReferenceKey b \<noteq> fixtureReferenceKey c"
| "fixturesDiffer _ \<longleftrightarrow> False"

definition assuranceReasons :: "ComparisonAssuranceState \<Rightarrow> string list" where
  "assuranceReasons a =
     (if ''critical_counterevidence'' \<in> set (cas_reasons a) then [''unresolved_critical_counterevidence''] else []) @
     (case cas_reference a of
        OfAssessment _ \<Rightarrow>
          if ''unsupported_statistical_assumptions'' \<in> set (cas_reasons a) then [''unsupported_statistical_assumptions''] else []
      | OfModelAssurance _ \<Rightarrow> [])"

definition deriveComparability ::
    "ComparisonDefinition \<Rightarrow> ComparisonCase list \<Rightarrow> ComparisonEvidenceSnapshot \<Rightarrow> ComparisonEvidenceSnapshot \<Rightarrow>
     ComparisonComparability pairing_result" where
  "deriveComparability d cases baseline candidate =
     (let paired = filter isPaired cases;
          reasons = sortedSet (
            (if exactDatasetKey (sub_dataset (cd_baseline d)) \<noteq> exactDatasetKey (sub_dataset (cd_candidate d)) then [''dataset_mismatch''] else []) @
            (if int (length paired) * 10000 < int (length cases) * cd_minimumPairedCoverageBasisPoints d
             then [''insufficient_paired_coverage''] else []) @
            (if list_ex isInvalid cases then [''invalid_source_integrity''] else []) @
            (if list_ex (\<lambda>c. isBaselineOnly c \<or> isCandidateOnly c) cases then [''missing_source_evidence''] else []) @
            (if list_ex fixturesDiffer paired then [''fixture_mismatch''] else []) @
            concat (map (\<lambda>f. concat (map assuranceReasons (ef_assurance f))) (es_fixtures baseline @ es_fixtures candidate)));
          c = \<lparr>cmp_reasons = reasons,
               cmp_status = (if reasons = [] then Comparable
                 else if paired = [] \<or> ''unresolved_critical_counterevidence'' \<in> set reasons then Incomparable
                 else PartiallyComparable)\<rparr>
      in if ComparisonComparabilitySchema c then Inr c else Inl PairingZodError)"

definition summarizeCases :: "ComparisonCase list \<Rightarrow> ComparisonPairingSummary" where
  "summarizeCases cases =
     \<lparr>ps_baselineOnlyCount = int (length (filter isBaselineOnly cases)),
      ps_candidateOnlyCount = int (length (filter isCandidateOnly cases)),
      ps_invalidCount = int (length (filter isInvalid cases)), ps_pairedCount = int (length (filter isPaired cases)),
      ps_requestedCount = int (length cases)\<rparr>"

definition comparisonFixtureIds :: "ComparisonDefinition \<Rightarrow> string list" where
  "comparisonFixtureIds d =
     sortedSet (map subjectFixtureId (sub_fixtures (cd_baseline d)) @ map subjectFixtureId (sub_fixtures (cd_candidate d)))"

definition caseOf ::
    "ComparisonDefinition \<Rightarrow> ComparisonEvidenceSnapshot \<Rightarrow> ComparisonEvidenceSnapshot \<Rightarrow> string \<Rightarrow> ComparisonCase pairing_result" where
  "caseOf d baseline candidate fixtureId =
     caseForFixture fixtureId (mapOf subjectFixtureId (sub_fixtures (cd_baseline d)) fixtureId)
       (mapOf subjectFixtureId (sub_fixtures (cd_candidate d)) fixtureId)
       (mapOf evidenceFixtureId (es_fixtures baseline) fixtureId) (mapOf evidenceFixtureId (es_fixtures candidate) fixtureId)"

definition pairComparisonEvidence ::
    "(js_text \<Rightarrow> js_text) \<Rightarrow> (string \<Rightarrow> bool) \<Rightarrow> ComparisonDefinition \<Rightarrow> ComparisonEvidenceSnapshot \<Rightarrow> ComparisonEvidenceSnapshot \<Rightarrow>
     ComparisonPairingResult pairing_result" where
  "pairComparisonEvidence nfc isoDatetime d baseline candidate =
     (if \<not> ComparisonDefinitionRecordSchema nfc isoDatetime d then Inl InvalidComparisonDefinition
      else case parseEvidenceSnapshot nfc isoDatetime BaselineRole baseline of Inl e \<Rightarrow> Inl e | Inr _ \<Rightarrow>
      (case parseEvidenceSnapshot nfc isoDatetime CandidateRole candidate of Inl e \<Rightarrow> Inl e | Inr _ \<Rightarrow>
      (case assertSnapshotEnvelope d baseline BaselineRole of Inl e \<Rightarrow> Inl e | Inr _ \<Rightarrow>
      (case assertSnapshotEnvelope d candidate CandidateRole of Inl e \<Rightarrow> Inl e | Inr _ \<Rightarrow>
      if es_snapshotId baseline = es_snapshotId candidate then Inl SnapshotSubjectMismatch
      else case assertNoUnexpectedFixtures (cd_baseline d) baseline of Inl e \<Rightarrow> Inl e | Inr _ \<Rightarrow>
      (case assertNoUnexpectedFixtures (cd_candidate d) candidate of Inl e \<Rightarrow> Inl e | Inr _ \<Rightarrow>
      (case traverse (caseOf d baseline candidate) (comparisonFixtureIds d) of Inl e \<Rightarrow> Inl e | Inr cases \<Rightarrow>
      if \<not> ComparisonPairingSummarySchema (summarizeCases cases) then Inl PairingZodError
      else case deriveComparability d cases baseline candidate of Inl e \<Rightarrow> Inl e | Inr comparability \<Rightarrow>
        Inr \<lparr>pr_cases = cases, pr_comparability = comparability, pr_pairing = summarizeCases cases\<rparr>))))))"

end
