(* ===== verification/Comparison_Metrics.thy ===== *)
theory Comparison_Metrics
  imports Comparison_Pairing Exact_Arithmetic
begin

text \<open>
  The metric results of a comparison, \<open>packages/contracts/src/evaluation-comparison-result.ts\<close>: sample counts,
  values with their exact delta and direction, usage provenance, results and distributions. The fifteen
  sample counts are three groups of five, one per prefix.
\<close>

section \<open>Reasons and sample counts\<close>

definition METRIC_UNAVAILABLE_REASONS :: "string list" where
  "METRIC_UNAVAILABLE_REASONS =
     [''baseline_missing'', ''candidate_missing'', ''insufficient_observations'', ''invalid_observations'',
      ''measurement_unavailable'', ''source_over_limit'']"

definition MAX_COMPARISON_RESULT_REASONS :: nat where "MAX_COMPARISON_RESULT_REASONS = 32"

definition orderedMetricUnavailableReasons :: "string list \<Rightarrow> bool" where
  "orderedMetricUnavailableReasons reasons \<longleftrightarrow> sortedMembers METRIC_UNAVAILABLE_REASONS reasons"

definition orderedMetricIncomparabilityReasons :: "string list \<Rightarrow> bool" where
  "orderedMetricIncomparabilityReasons reasons \<longleftrightarrow>
     list_all (\<lambda>r. r \<in> set COMPARABILITY_REASONS) reasons \<and> 1 \<le> length reasons \<and>
     length reasons \<le> MAX_COMPARISON_RESULT_REASONS \<and> sortedUnique reasons"

record SampleClasses =
  sc_invalidCount :: int
  sc_missingCount :: int
  sc_observedCount :: int
  sc_totalCount :: int
  sc_unavailableCount :: int

definition SampleClassesSchema :: "SampleClasses \<Rightarrow> bool" where
  "SampleClassesSchema c \<longleftrightarrow>
     SafeComparisonCountSchema (sc_invalidCount c) \<and> SafeComparisonCountSchema (sc_missingCount c) \<and>
     SafeComparisonCountSchema (sc_observedCount c) \<and> SafeComparisonCountSchema (sc_totalCount c) \<and>
     SafeComparisonCountSchema (sc_unavailableCount c)"

definition reconstructsTotal :: "SampleClasses \<Rightarrow> bool" where
  "reconstructsTotal c \<longleftrightarrow> sc_invalidCount c + sc_missingCount c + sc_observedCount c + sc_unavailableCount c = sc_totalCount c"

record ComparisonMetricSampleCounts =
  smp_baseline :: SampleClasses
  smp_candidate :: SampleClasses
  smp_paired :: SampleClasses

definition ComparisonMetricSampleCountsSchema :: "ComparisonMetricSampleCounts \<Rightarrow> bool" where
  "ComparisonMetricSampleCountsSchema s \<longleftrightarrow>
     (let b = smp_baseline s; c = smp_candidate s; p = smp_paired s in
      SampleClassesSchema b \<and> SampleClassesSchema c \<and> SampleClassesSchema p \<and>
      \<not> (sc_observedCount p > sc_observedCount b \<or> sc_observedCount p > sc_observedCount c) \<and>
      reconstructsTotal b \<and> reconstructsTotal c \<and> reconstructsTotal p \<and>
      \<not> (sc_totalCount p > sc_totalCount b \<or> sc_totalCount p > sc_totalCount c) \<and>
      \<not> (sc_missingCount p > sc_missingCount b + sc_missingCount c \<or>
         sc_unavailableCount p > sc_unavailableCount b + sc_unavailableCount c \<or>
         sc_invalidCount p > sc_invalidCount b + sc_invalidCount c))"

section \<open>Values\<close>

definition exactDecimalParts :: "string \<Rightarrow> int \<times> nat" where
  "exactDecimalParts v =
     (let negative = (take 1 v = ''-'');
          unsigned = (if negative then drop 1 v else v);
          parts = splitOn CHR ''.'' unsigned;
          whole = (case parts of w # _ \<Rightarrow> w | [] \<Rightarrow> ''0'');
          fractional = (case parts of _ # f # _ \<Rightarrow> f | _ \<Rightarrow> [])
      in (bigInt (whole @ fractional) * (if negative then -1 else 1), length fractional))"

fun exactFraction :: "ComparisonExactValue \<Rightarrow> ExactFraction" where
  "exactFraction (RationalValue denominator numerator _) =
     \<lparr>ef_denominator = bigInt denominator, ef_numerator = bigInt numerator\<rparr>"
| "exactFraction (DecimalValue _ decimal) =
     (let integer = fst (exactDecimalParts decimal);
          denominator = 10 ^ snd (exactDecimalParts decimal);
          divisor = greatestCommonDivisor integer denominator
      in \<lparr>ef_denominator = bigintDiv denominator divisor, ef_numerator = bigintDiv integer divisor\<rparr>)"

definition exactDelta :: "ComparisonExactValue \<Rightarrow> ComparisonExactValue \<Rightarrow> ComparisonExactValue \<Rightarrow> bool \<times> int" where
  "exactDelta baseline candidate delta =
     (let b = exactFraction baseline; c = exactFraction candidate; d = exactFraction delta;
          expectedNumerator = ef_numerator c * ef_denominator b - ef_numerator b * ef_denominator c;
          expectedDenominator = ef_denominator c * ef_denominator b
      in (expectedNumerator * ef_denominator d = ef_numerator d * expectedDenominator,
          if ef_numerator d = 0 then 0 else if ef_numerator d < 0 then -1 else 1))"

datatype MetricDirection = Decreased | Increased | Unchanged

datatype ComparisonMetricValue =
    AvailableMetric ComparisonExactValue ComparisonExactValue ComparisonExactValue MetricDirection
  | UnavailableMetric "string list"
  | IncomparableMetric "ComparisonExactValue option" "ComparisonExactValue option" "string list"

fun ComparisonMetricValueSchema :: "(js_text \<Rightarrow> js_text) \<Rightarrow> ComparisonMetricValue \<Rightarrow> bool" where
  "ComparisonMetricValueSchema nfc (AvailableMetric baseline candidate delta direction) \<longleftrightarrow>
     ComparisonExactValueSchema nfc baseline \<and> ComparisonExactValueSchema nfc candidate \<and> ComparisonExactValueSchema nfc delta \<and>
     \<not> (exactUnit baseline \<noteq> exactUnit candidate \<or> exactUnit baseline \<noteq> exactUnit delta) \<and>
     fst (exactDelta baseline candidate delta) \<and>
     direction = (let sign = snd (exactDelta baseline candidate delta) in
       if sign = 0 then Unchanged else if sign < 0 then Decreased else Increased)"
| "ComparisonMetricValueSchema nfc (UnavailableMetric reasons) \<longleftrightarrow> orderedMetricUnavailableReasons reasons"
| "ComparisonMetricValueSchema nfc (IncomparableMetric baseline candidate reasons) \<longleftrightarrow>
     pred_option (ComparisonExactValueSchema nfc) baseline \<and> pred_option (ComparisonExactValueSchema nfc) candidate \<and>
     orderedMetricIncomparabilityReasons reasons"

section \<open>Results\<close>

definition COMPARISON_METRIC_KINDS :: "string list" where
  "COMPARISON_METRIC_KINDS =
     [''artifact_set'', ''assurance_state_count'', ''coverage_count'', ''evaluation_verdict_count'', ''numeric_measurement'',
      ''replay_usage'', ''safety_event_count'', ''trace_event_count'']"

record ComparisonUsageMetricRoleProvenance =
  up_completeCount :: int
  up_observedSources :: "string list"
  up_partialCount :: int
  up_unavailableCount :: int
  up_unavailableReasons :: "string list"

definition ComparisonUsageMetricRoleProvenanceSchema :: "ComparisonUsageMetricRoleProvenance \<Rightarrow> bool" where
  "ComparisonUsageMetricRoleProvenanceSchema p \<longleftrightarrow>
     SafeComparisonCountSchema (up_completeCount p) \<and>
     list_all (\<lambda>x. x \<in> set USAGE_SOURCES) (up_observedSources p) \<and> length (up_observedSources p) \<le> length USAGE_SOURCES \<and>
     sortedUnique (up_observedSources p) \<and>
     SafeComparisonCountSchema (up_partialCount p) \<and> SafeComparisonCountSchema (up_unavailableCount p) \<and>
     list_all (\<lambda>x. x \<in> set USAGE_UNAVAILABLE_REASONS) (up_unavailableReasons p) \<and>
     length (up_unavailableReasons p) \<le> length USAGE_UNAVAILABLE_REASONS \<and> sortedUnique (up_unavailableReasons p) \<and>
     up_completeCount p + up_partialCount p + up_unavailableCount p \<le> MAX_SAFE_INTEGER \<and>
     ((up_completeCount p > 0 \<or> up_partialCount p > 0) \<longleftrightarrow> up_observedSources p \<noteq> []) \<and>
     ((up_partialCount p > 0 \<or> up_unavailableCount p > 0) \<longleftrightarrow> up_unavailableReasons p \<noteq> [])"

record ComparisonUsageMetricProvenance =
  prov_baseline :: ComparisonUsageMetricRoleProvenance
  prov_candidate :: ComparisonUsageMetricRoleProvenance

record ComparisonMetricResult =
  mr_kind :: string
  mr_metricId :: string
  mr_samples :: ComparisonMetricSampleCounts
  mr_unit :: js_text
  mr_usageProvenance :: "ComparisonUsageMetricProvenance option"
  mr_value :: ComparisonMetricValue

fun metricExactValues :: "ComparisonMetricValue \<Rightarrow> ComparisonExactValue list" where
  "metricExactValues (AvailableMetric baseline candidate delta _) = [baseline, candidate, delta]"
| "metricExactValues (UnavailableMetric _) = []"
| "metricExactValues (IncomparableMetric baseline candidate _) =
     (case baseline of None \<Rightarrow> [] | Some v \<Rightarrow> [v]) @ (case candidate of None \<Rightarrow> [] | Some v \<Rightarrow> [v])"

definition provenanceAgrees :: "ComparisonUsageMetricRoleProvenance \<Rightarrow> SampleClasses \<Rightarrow> bool" where
  "provenanceAgrees p c \<longleftrightarrow>
     up_completeCount p = sc_observedCount c \<and> up_partialCount p + up_unavailableCount p = sc_unavailableCount c"

definition ComparisonMetricResultSchema :: "(js_text \<Rightarrow> js_text) \<Rightarrow> ComparisonMetricResult \<Rightarrow> bool" where
  "ComparisonMetricResultSchema nfc r \<longleftrightarrow>
     mr_kind r \<in> set COMPARISON_METRIC_KINDS \<and> OpaqueIdSchema (mr_metricId r) \<and>
     ComparisonMetricSampleCountsSchema (mr_samples r) \<and> AssuranceSummarySchema nfc (mr_unit r) \<and>
     pred_option (\<lambda>p. ComparisonUsageMetricRoleProvenanceSchema (prov_baseline p) \<and>
       ComparisonUsageMetricRoleProvenanceSchema (prov_candidate p)) (mr_usageProvenance r) \<and>
     ComparisonMetricValueSchema nfc (mr_value r) \<and>
     (case map_of COMPARISON_COUNT_METRIC_UNITS (mr_kind r) of None \<Rightarrow> True | Some unit \<Rightarrow> mr_unit r = js_text_of unit) \<and>
     list_all (\<lambda>v. exactUnit v = mr_unit r) (metricExactValues (mr_value r)) \<and>
     \<not> ((case mr_value r of AvailableMetric _ _ _ _ \<Rightarrow> True | _ \<Rightarrow> False) \<and> sc_observedCount (smp_paired (mr_samples r)) = 0) \<and>
     (mr_kind r = ''replay_usage'' \<longleftrightarrow> mr_usageProvenance r \<noteq> None) \<and>
     pred_option (\<lambda>p. provenanceAgrees (prov_baseline p) (smp_baseline (mr_samples r)) \<and>
       provenanceAgrees (prov_candidate p) (smp_candidate (mr_samples r))) (mr_usageProvenance r)"

section \<open>Distributions\<close>

record ComparisonDistributionSummary =
  dist_classes :: SampleClasses
  dist_method :: NumericAggregation
  dist_metricId :: string
  dist_role :: ComparisonRole
  dist_value :: ComparisonExactValue

definition ComparisonDistributionSummarySchema :: "(js_text \<Rightarrow> js_text) \<Rightarrow> ComparisonDistributionSummary \<Rightarrow> bool" where
  "ComparisonDistributionSummarySchema nfc s \<longleftrightarrow>
     (let c = dist_classes s in
      SampleClassesSchema c \<and> NumericAggregationSchema (dist_method s) \<and> OpaqueIdSchema (dist_metricId s) \<and>
      0 < sc_observedCount c \<and> 0 < sc_totalCount c \<and> ComparisonExactValueSchema nfc (dist_value s) \<and> reconstructsTotal c)"

section \<open>Exact deltas\<close>

lemma reduced_fraction:
  fixes n d :: int
  assumes "0 < g" "g dvd n" "g dvd d" "0 < d"
  shows "0 < d div g" "Fract (n div g) (d div g) = Fract n d"
proof -
  obtain n' d' where "n = g * n'" "d = g * d'" using assms(2,3) by (auto elim!: dvdE)
  then show "0 < d div g" "Fract (n div g) (d div g) = Fract n d"
    using assms(1,4) by (simp_all add: zero_less_mult_iff mult_rat_cancel)
qed

lemma exactFraction_rat:
  assumes "ComparisonExactValueSchema nfc v"
  shows "0 < ef_denominator (exactFraction v)" "fractionRat (exactFraction v) = exactRat v"
proof -
  have both: "0 < ef_denominator (exactFraction v) \<and> fractionRat (exactFraction v) = exactRat v"
  proof (cases v)
    case (RationalValue d n u)
    then show ?thesis
      using assms by (simp add: ExactPositiveInteger_positive fractionRat_def Fract_of_int_quotient)
  next
    case (DecimalValue u s)
    then have s: "ExactDecimalSchema s" using assms by simp
    obtain whole fractional and sg :: int where
      parts: "splitOn CHR ''.'' (stripMinus s) = [whole] \<and> fractional = [] \<or> splitOn CHR ''.'' (stripMinus s) = [whole, fractional]"
      and sg: "sg = (if take 1 s = ''-'' then -1 else 1)"
      and rat: "decimalRat s = of_int (bigInt (whole @ fractional) * sg) / 10 ^ length fractional"
      using decimal_parts [OF s] .
    let ?n = "bigInt (whole @ fractional) * sg" and ?d = "10 ^ length fractional :: int"
    have parts': "exactDecimalParts s = (?n, length fractional)"
      using parts by (auto simp: exactDecimalParts_def stripMinus_def Let_def sg)
    note reduced = reduced_fraction [of "gcd ?n ?d" ?n ?d]
    have division: "bigintDiv ?d (gcd ?n ?d) = ?d div gcd ?n ?d" "bigintDiv ?n (gcd ?n ?d) = ?n div gcd ?n ?d"
      by (simp_all add: bigintDiv_exact)
    show ?thesis
      using DecimalValue parts' division reduced by (simp add: Let_def fractionRat_def rat Fract_of_int_quotient)
  qed
  then show "0 < ef_denominator (exactFraction v)" "fractionRat (exactFraction v) = exactRat v" by auto
qed

lemma exactDelta_rat:
  assumes "ComparisonExactValueSchema nfc b" "ComparisonExactValueSchema nfc c" "ComparisonExactValueSchema nfc d"
  shows "exactDelta b c d =
    (exactRat d = exactRat c - exactRat b, if exactRat d = 0 then 0 else if exactRat d < 0 then -1 else 1)"
proof -
  note pos = exactFraction_rat(1) [OF assms(1)] exactFraction_rat(1) [OF assms(2)] exactFraction_rat(1) [OF assms(3)]
  note rat = exactFraction_rat(2) [OF assms(1)] exactFraction_rat(2) [OF assms(2)] exactFraction_rat(2) [OF assms(3)]
  obtain nb db nc dc nd dd where fractions: "exactFraction b = \<lparr>ef_denominator = db, ef_numerator = nb\<rparr>"
    "exactFraction c = \<lparr>ef_denominator = dc, ef_numerator = nc\<rparr>" "exactFraction d = \<lparr>ef_denominator = dd, ef_numerator = nd\<rparr>"
    by (metis ExactFraction.cases)
  then have numbers: "exactRat b = of_int nb / of_int db" "exactRat c = of_int nc / of_int dc" "exactRat d = of_int nd / of_int dd"
    and positive: "0 < db" "0 < dc" "0 < dd"
    using rat pos by (simp_all add: fractionRat_def Fract_of_int_quotient)
  have "exactRat d = exactRat c - exactRat b \<longleftrightarrow> (of_int ((nc * db - nb * dc) * dd) :: rat) = of_int (nd * (dc * db))"
    using positive by (auto simp: numbers field_simps)
  then have "exactRat d = exactRat c - exactRat b \<longleftrightarrow> (nc * db - nb * dc) * dd = nd * (dc * db)" by (simp only: of_int_eq_iff)
  moreover have "exactRat d = 0 \<longleftrightarrow> nd = 0" "exactRat d < 0 \<longleftrightarrow> nd < 0"
    using positive by (simp_all add: numbers divide_less_0_iff)
  ultimately show ?thesis by (simp add: exactDelta_def Let_def fractions)
qed

end
