(* ===== verification/Comparison_Numeric.thy ===== *)
theory Comparison_Numeric
  imports Comparison_Metrics "HOL-Library.AList"
begin

text \<open>
  Numeric metrics of a comparison, \<open>packages/core/src/evaluation/comparison-numeric-metrics.ts\<close>: every fixture
  of a stratum is classified per role, distributions aggregate what a role observed and a delta compares
  only what both roles observed on paired fixtures. A JavaScript \<open>Map\<close> that is iterated is an association
  list in insertion order.
\<close>

section \<open>Numeric metrics\<close>

record NumericComparisonMetric =
  nm_aggregation :: NumericAggregation
  nm_measurementName :: js_text
  nm_metricId :: string
  nm_stratumId :: string
  nm_unit :: js_text

definition numericMetric :: "ComparisonMetric \<Rightarrow> NumericComparisonMetric option" where
  "numericMetric m =
     (case met_body m of
        NumericMeasurement aggregation measurementName unit \<Rightarrow>
          Some \<lparr>nm_aggregation = aggregation, nm_measurementName = measurementName, nm_metricId = met_metricId m,
                nm_stratumId = met_stratumId m, nm_unit = unit\<rparr>
      | _ \<Rightarrow> None)"

text \<open>The aggregation object a metric carries, as the exact arithmetic receives it.\<close>

definition plainAggregation :: "string \<Rightarrow> ComparisonExactAggregation" where
  "plainAggregation name = \<lparr>agg_basisPoints = None, agg_method = Some name, agg_methodVersion = Some ''1.0.0''\<rparr>"

fun aggregationObject :: "NumericAggregation \<Rightarrow> ComparisonExactAggregation" where
  "aggregationObject MaximumMethod = plainAggregation ''maximum''"
| "aggregationObject MeanMethod = plainAggregation ''mean''"
| "aggregationObject MedianMethod = plainAggregation ''median''"
| "aggregationObject MinimumMethod = plainAggregation ''minimum''"
| "aggregationObject SumMethod = plainAggregation ''sum''"
| "aggregationObject (NearestRankQuantile basisPoints) =
     \<lparr>agg_basisPoints = Some (JsInt basisPoints), agg_method = Some ''nearest_rank_quantile'', agg_methodVersion = Some ''1.0.0''\<rparr>"

section \<open>The evidence index\<close>

record IndexedNumericObservation =
  ix_count :: nat
  ix_first :: ComparisonNumericObservation

record NumericEvidenceIndex =
  ne_fixtures :: "string \<rightharpoonup> ComparisonEvidenceFixtureSnapshot"
  ne_observations :: "string \<rightharpoonup> (js_text \<rightharpoonup> IndexedNumericObservation)"
  ne_omissions :: "string \<rightharpoonup> (js_text \<rightharpoonup> (js_text \<rightharpoonup> MeasurementOmissionReason))"

definition indexObservation ::
    "ComparisonNumericObservation \<Rightarrow> (js_text \<rightharpoonup> IndexedNumericObservation) \<Rightarrow> (js_text \<rightharpoonup> IndexedNumericObservation)" where
  "indexObservation observation byMeasurement =
     (let existing = byMeasurement (no_measurementName observation) in
      byMeasurement(no_measurementName observation \<mapsto>
        \<lparr>ix_count = (case existing of None \<Rightarrow> 0 | Some e \<Rightarrow> ix_count e) + 1,
         ix_first = (case existing of None \<Rightarrow> observation | Some e \<Rightarrow> ix_first e)\<rparr>))"

definition observationIndex :: "ComparisonEvidenceFixtureSnapshot \<Rightarrow> (js_text \<rightharpoonup> IndexedNumericObservation)" where
  "observationIndex f = fold indexObservation (ef_numericObservations f) Map.empty"

fun indexOmission ::
    "ComparisonOmission \<Rightarrow> (string \<rightharpoonup> (js_text \<rightharpoonup> (js_text \<rightharpoonup> MeasurementOmissionReason))) \<Rightarrow>
     (string \<rightharpoonup> (js_text \<rightharpoonup> (js_text \<rightharpoonup> MeasurementOmissionReason)))" where
  "indexOmission omission omissions =
     (case om_source omission of
        OmittedMeasurement measurementName reason unit \<Rightarrow>
          let byMeasurement = (case omissions (om_fixtureId omission) of None \<Rightarrow> Map.empty | Some m \<Rightarrow> m);
              byUnit = (case byMeasurement measurementName of None \<Rightarrow> Map.empty | Some u \<Rightarrow> u)
          in omissions(om_fixtureId omission \<mapsto> byMeasurement(measurementName \<mapsto> byUnit(unit \<mapsto> reason)))
      | _ \<Rightarrow> omissions)"

definition numericEvidenceIndex :: "ComparisonEvidenceSnapshot \<Rightarrow> NumericEvidenceIndex" where
  "numericEvidenceIndex s =
     \<lparr>ne_fixtures = mapOf evidenceFixtureId (es_fixtures s),
      ne_observations = fold (\<lambda>f m. m(evidenceFixtureId f \<mapsto> observationIndex f)) (es_fixtures s) Map.empty,
      ne_omissions = fold indexOmission (es_omissions s) Map.empty\<rparr>"

section \<open>Classification\<close>

datatype ObservationState = InvalidObservation | MissingObservation | ObservedObservation | UnavailableObservation

record ClassifiedObservation =
  co_state :: ObservationState
  co_unavailableReason :: "MeasurementOmissionReason option"
  co_value :: "ComparisonExactValue option"

definition plainState :: "ObservationState \<Rightarrow> ClassifiedObservation" where
  "plainState s = \<lparr>co_state = s, co_unavailableReason = None, co_value = None\<rparr>"

definition classifyObservation ::
    "NumericEvidenceIndex \<Rightarrow> ComparisonCase option \<Rightarrow> NumericComparisonMetric \<Rightarrow> string \<Rightarrow> ClassifiedObservation" where
  "classifyObservation index comparisonCase metric fixtureId =
     (if (case comparisonCase of None \<Rightarrow> True | Some c \<Rightarrow> isInvalid c) then plainState InvalidObservation
      else if ne_fixtures index fixtureId = None then plainState MissingObservation
      else case Option.bind (ne_observations index fixtureId) (\<lambda>m. m (nm_measurementName metric)) of
        Some indexed \<Rightarrow>
          if ix_count indexed > 1 then plainState InvalidObservation
          else if no_unit (ix_first indexed) \<noteq> nm_unit metric then plainState InvalidObservation
          else \<lparr>co_state = ObservedObservation, co_unavailableReason = None,
                co_value = Some (DecimalValue (no_unit (ix_first indexed)) (no_value (ix_first indexed)))\<rparr>
      | None \<Rightarrow>
          (case Option.bind (Option.bind (ne_omissions index fixtureId) (\<lambda>m. m (nm_measurementName metric))) (\<lambda>u. u (nm_unit metric)) of
             Some reason \<Rightarrow> \<lparr>co_state = UnavailableObservation, co_unavailableReason = Some reason, co_value = None\<rparr>
           | None \<Rightarrow> plainState MissingObservation))"

record ClassifiedPopulation =
  cp_byFixtureId :: "(string \<times> ClassifiedObservation) list"
  cp_classes :: SampleClasses
  cp_observedValues :: "ComparisonExactValue list"

fun countState :: "ObservationState \<Rightarrow> SampleClasses \<Rightarrow> SampleClasses" where
  "countState InvalidObservation c = c\<lparr>sc_invalidCount := sc_invalidCount c + 1\<rparr>"
| "countState MissingObservation c = c\<lparr>sc_missingCount := sc_missingCount c + 1\<rparr>"
| "countState ObservedObservation c = c\<lparr>sc_observedCount := sc_observedCount c + 1\<rparr>"
| "countState UnavailableObservation c = c\<lparr>sc_unavailableCount := sc_unavailableCount c + 1\<rparr>"

definition subjectFixtureIds :: "ComparisonDefinition \<Rightarrow> ComparisonRole \<Rightarrow> string list \<Rightarrow> string list" where
  "subjectFixtureIds d role stratumFixtureIds =
     filter (\<lambda>i. i \<in> set (subjectFixtureIdList (roleSubject d role))) stratumFixtureIds"

definition classifyPopulation ::
    "NumericEvidenceIndex \<Rightarrow> (string \<rightharpoonup> ComparisonCase) \<Rightarrow> string list \<Rightarrow> NumericComparisonMetric \<Rightarrow> ClassifiedPopulation" where
  "classifyPopulation index cases fixtureIds metric =
     fold (\<lambda>fixtureId p.
         let classified = classifyObservation index (cases fixtureId) metric fixtureId in
         \<lparr>cp_byFixtureId = AList.update fixtureId classified (cp_byFixtureId p),
          cp_classes = countState (co_state classified) (cp_classes p),
          cp_observedValues = cp_observedValues p @ (case co_value classified of None \<Rightarrow> [] | Some v \<Rightarrow> [v])\<rparr>)
       fixtureIds
       \<lparr>cp_byFixtureId = [],
        cp_classes = \<lparr>sc_invalidCount = 0, sc_missingCount = 0, sc_observedCount = 0, sc_totalCount = int (length fixtureIds),
          sc_unavailableCount = 0\<rparr>,
        cp_observedValues = []\<rparr>"

definition pairedState :: "ClassifiedObservation \<Rightarrow> ClassifiedObservation \<Rightarrow> ObservationState" where
  "pairedState baseline candidate =
     (if co_state baseline = InvalidObservation \<or> co_state candidate = InvalidObservation then InvalidObservation
      else if co_state baseline = UnavailableObservation \<or> co_state candidate = UnavailableObservation then UnavailableObservation
      else if co_state baseline = MissingObservation \<or> co_state candidate = MissingObservation then MissingObservation
      else ObservedObservation)"

definition classifyPopulationFromMap :: "(string \<times> ClassifiedObservation) list \<Rightarrow> ClassifiedPopulation" where
  "classifyPopulationFromMap byFixtureId =
     (let count = (\<lambda>s. int (length (filter (\<lambda>e. co_state (snd e) = s) byFixtureId))) in
      \<lparr>cp_byFixtureId = byFixtureId,
       cp_classes = \<lparr>sc_invalidCount = count InvalidObservation, sc_missingCount = count MissingObservation,
         sc_observedCount = count ObservedObservation, sc_totalCount = int (length byFixtureId),
         sc_unavailableCount = count UnavailableObservation\<rparr>,
       cp_observedValues = concat (map (\<lambda>e. case co_value (snd e) of None \<Rightarrow> [] | Some v \<Rightarrow> [v]) byFixtureId)\<rparr>)"

section \<open>Pairs\<close>

record PairedObservations =
  po_byFixtureId :: "(string \<times> ClassifiedObservation) list"
  po_baselineValues :: "ComparisonExactValue list"
  po_candidateValues :: "ComparisonExactValue list"

definition pairObservation ::
    "ClassifiedPopulation \<Rightarrow> ClassifiedPopulation \<Rightarrow> string \<Rightarrow> PairedObservations \<Rightarrow> PairedObservations" where
  "pairObservation baseline candidate fixtureId p =
     (let b = (case map_of (cp_byFixtureId baseline) fixtureId of None \<Rightarrow> plainState InvalidObservation | Some x \<Rightarrow> x);
          c = (case map_of (cp_byFixtureId candidate) fixtureId of None \<Rightarrow> plainState InvalidObservation | Some x \<Rightarrow> x);
          state = pairedState b c;
          reason = (case co_unavailableReason b of None \<Rightarrow> co_unavailableReason c | Some r \<Rightarrow> Some r);
          entry = AList.update fixtureId \<lparr>co_state = state, co_unavailableReason = reason, co_value = None\<rparr> (po_byFixtureId p)
      in case (state, co_value b, co_value c) of
           (ObservedObservation, Some v, Some w) \<Rightarrow>
             \<lparr>po_byFixtureId = entry, po_baselineValues = po_baselineValues p @ [v], po_candidateValues = po_candidateValues p @ [w]\<rparr>
         | _ \<Rightarrow> p\<lparr>po_byFixtureId := entry\<rparr>)"

section \<open>Results\<close>

datatype numeric_error =
    NumericPairingError pairing_error
  | NumericArithmeticError exact_error
  | NumericZodError
  | NumericStratumError string

type_synonym 'a numeric_result = "(numeric_error, 'a) result"

definition liftArithmetic :: "(exact_error, 'a) result \<Rightarrow> 'a numeric_result" where
  "liftArithmetic r = (case r of Inl e \<Rightarrow> Inl (NumericArithmeticError e) | Inr x \<Rightarrow> Inr x)"

definition unavailableMetricReasons :: "ClassifiedPopulation \<Rightarrow> ClassifiedPopulation \<Rightarrow> ClassifiedPopulation \<Rightarrow> string list" where
  "unavailableMetricReasons baseline candidate paired =
     (let classifications = map snd (cp_byFixtureId baseline) @ map snd (cp_byFixtureId candidate) @ map snd (cp_byFixtureId paired) in
      sortedSet (
        [''insufficient_observations''] @
        (if sc_observedCount (cp_classes baseline) = 0 then [''baseline_missing''] else []) @
        (if sc_observedCount (cp_classes candidate) = 0 then [''candidate_missing''] else []) @
        (if sc_invalidCount (cp_classes baseline) + sc_invalidCount (cp_classes candidate) + sc_invalidCount (cp_classes paired) > 0
         then [''invalid_observations''] else []) @
        (if list_ex (\<lambda>x. co_unavailableReason x = Some SourceOverLimit) classifications then [''source_over_limit''] else []) @
        (if list_ex (\<lambda>x. co_unavailableReason x = Some MeasurementUnavailable) classifications
         then [''measurement_unavailable''] else [])))"

definition distribution ::
    "(js_text \<Rightarrow> js_text) \<Rightarrow> ClassifiedPopulation \<Rightarrow> NumericComparisonMetric \<Rightarrow> ComparisonRole \<Rightarrow>
     ComparisonDistributionSummary option numeric_result" where
  "distribution nfc population metric role =
     (if cp_observedValues population = [] then Inr None
      else case liftArithmetic (aggregateComparisonExactValues nfc (cp_observedValues population) (aggregationObject (nm_aggregation metric))) of
        Inl e \<Rightarrow> Inl e
      | Inr v \<Rightarrow>
          let summary = \<lparr>dist_classes = cp_classes population, dist_method = nm_aggregation metric,
                dist_metricId = nm_metricId metric, dist_role = role, dist_value = v\<rparr>
          in if ComparisonDistributionSummarySchema nfc summary then Inr (Some summary) else Inl NumericZodError)"

definition parseMetricResult :: "(js_text \<Rightarrow> js_text) \<Rightarrow> ComparisonMetricResult \<Rightarrow> ComparisonMetricResult numeric_result" where
  "parseMetricResult nfc r = (if ComparisonMetricResultSchema nfc r then Inr r else Inl NumericZodError)"

definition numericMetricResult ::
    "NumericComparisonMetric \<Rightarrow> ComparisonMetricSampleCounts \<Rightarrow> ComparisonMetricValue \<Rightarrow> ComparisonMetricResult" where
  "numericMetricResult metric samples v =
     \<lparr>mr_kind = ''numeric_measurement'', mr_metricId = nm_metricId metric, mr_samples = samples, mr_unit = nm_unit metric,
      mr_usageProvenance = None, mr_value = v\<rparr>"

definition metricResult ::
    "(js_text \<Rightarrow> js_text) \<Rightarrow> ClassifiedPopulation \<Rightarrow> ClassifiedPopulation \<Rightarrow> ClassifiedPopulation \<Rightarrow> PairedObservations \<Rightarrow>
     NumericComparisonMetric \<Rightarrow> ComparisonMetricResult numeric_result" where
  "metricResult nfc baseline candidate paired pairs metric =
     (let samples = \<lparr>smp_baseline = cp_classes baseline, smp_candidate = cp_classes candidate, smp_paired = cp_classes paired\<rparr>;
          aggregation = aggregationObject (nm_aggregation metric) in
      if \<not> ComparisonMetricSampleCountsSchema samples then Inl NumericZodError
      else if sc_observedCount (cp_classes paired) = 0
      then parseMetricResult nfc (numericMetricResult metric samples (UnavailableMetric (unavailableMetricReasons baseline candidate paired)))
      else case liftArithmetic (aggregateComparisonExactValues nfc (po_baselineValues pairs) aggregation) of Inl e \<Rightarrow> Inl e | Inr b \<Rightarrow>
        (case liftArithmetic (aggregateComparisonExactValues nfc (po_candidateValues pairs) aggregation) of Inl e \<Rightarrow> Inl e | Inr c \<Rightarrow>
        (case liftArithmetic (compareComparisonExactValues nfc c b) of Inl e \<Rightarrow> Inl e | Inr order \<Rightarrow>
        (case liftArithmetic (subtractComparisonExactValues nfc b c) of Inl e \<Rightarrow> Inl e | Inr delta \<Rightarrow>
          parseMetricResult nfc (numericMetricResult metric samples
            (AvailableMetric b c delta (if order = 0 then Unchanged else if order < 0 then Decreased else Increased)))))))"

section \<open>Derivation\<close>

record ComparisonNumericMetricDerivation =
  nd_distributions :: "ComparisonDistributionSummary list"
  nd_metricResults :: "ComparisonMetricResult list"

definition deriveMetric ::
    "(js_text \<Rightarrow> js_text) \<Rightarrow> ComparisonDefinition \<Rightarrow> (string \<rightharpoonup> ComparisonCase) \<Rightarrow> NumericEvidenceIndex \<Rightarrow> NumericEvidenceIndex \<Rightarrow>
     NumericComparisonMetric \<Rightarrow> (ComparisonDistributionSummary list \<times> ComparisonMetricResult) numeric_result" where
  "deriveMetric nfc d cases baselineIndex candidateIndex metric =
     (case mapOf str_stratumId (cd_strata d) (nm_stratumId metric) of
        None \<Rightarrow> Inl (NumericStratumError (nm_metricId metric))
      | Some stratum \<Rightarrow>
          let baseline = classifyPopulation baselineIndex cases (subjectFixtureIds d BaselineRole (str_fixtureIds stratum)) metric;
              candidate = classifyPopulation candidateIndex cases (subjectFixtureIds d CandidateRole (str_fixtureIds stratum)) metric;
              pairedIds = filter (\<lambda>i. case cases i of None \<Rightarrow> False | Some c \<Rightarrow> isPaired c) (str_fixtureIds stratum);
              pairs = fold (pairObservation baseline candidate) pairedIds
                \<lparr>po_byFixtureId = [], po_baselineValues = [], po_candidateValues = []\<rparr>;
              paired = classifyPopulationFromMap (po_byFixtureId pairs)
          in case distribution nfc baseline metric BaselineRole of Inl e \<Rightarrow> Inl e | Inr baselineDistribution \<Rightarrow>
             (case distribution nfc candidate metric CandidateRole of Inl e \<Rightarrow> Inl e | Inr candidateDistribution \<Rightarrow>
             (case metricResult nfc baseline candidate paired pairs metric of Inl e \<Rightarrow> Inl e | Inr result \<Rightarrow>
                Inr ((case baselineDistribution of None \<Rightarrow> [] | Some x \<Rightarrow> [x]) @
                     (case candidateDistribution of None \<Rightarrow> [] | Some x \<Rightarrow> [x]), result))))"

definition numericMetrics :: "ComparisonDefinition \<Rightarrow> NumericComparisonMetric list" where
  "numericMetrics d = List.map_filter numericMetric (cd_metrics d)"

definition deriveComparisonNumericMetrics ::
    "(js_text \<Rightarrow> js_text) \<Rightarrow> (string \<Rightarrow> bool) \<Rightarrow> ComparisonDefinition \<Rightarrow> ComparisonEvidenceSnapshot \<Rightarrow> ComparisonEvidenceSnapshot \<Rightarrow>
     ComparisonNumericMetricDerivation numeric_result" where
  "deriveComparisonNumericMetrics nfc isoDatetime d baseline candidate =
     (case pairComparisonEvidence nfc isoDatetime d baseline candidate of Inl e \<Rightarrow> Inl (NumericPairingError e)
      | Inr pairing \<Rightarrow>
      (case traverse (deriveMetric nfc d (mapOf caseFixtureId (pr_cases pairing)) (numericEvidenceIndex baseline)
          (numericEvidenceIndex candidate)) (numericMetrics d) of
         Inl e \<Rightarrow> Inl e
       | Inr rs \<Rightarrow> Inr \<lparr>nd_distributions = concat (map fst rs), nd_metricResults = map snd rs\<rparr>))"

end
