(* ===== verification/Comparison_Safety.thy ===== *)
theory Comparison_Safety
  imports Comparison_Pairing
begin

text \<open>
  Pairing is total on admitted evidence, accounts for every logical fixture once, and calls two sides
  comparable exactly when every fixture is retained by both with the same version and matching lineage.
\<close>

section \<open>Keys\<close>

lemma append_cons_cancel:
  "c \<notin> set a \<Longrightarrow> c \<notin> set b \<Longrightarrow> a @ c # x = b @ c # y \<longleftrightarrow> a = b \<and> x = y"
  by (induction a arbitrary: b) (case_tac b; auto)+

lemma opaque_no_colon: "OpaqueIdSchema s \<Longrightarrow> CHR '':'' \<notin> set s"
  by (auto simp: OpaqueIdSchema_def lower_alpha_def digit_char_def in_range_def list_all_iff split: list.splits)

lemma key_injective:
  "AssessmentReferenceSchema r \<Longrightarrow> AssessmentReferenceSchema r' \<Longrightarrow> assessmentReferenceKey r = assessmentReferenceKey r' \<longleftrightarrow> r = r'"
  "ModelAssuranceAssessmentReferenceSchema m \<Longrightarrow> ModelAssuranceAssessmentReferenceSchema m' \<Longrightarrow>
     modelAssuranceReferenceKey m = modelAssuranceReferenceKey m' \<longleftrightarrow> m = m'"
  "RegressionFixtureVersionReferenceSchema f \<Longrightarrow> RegressionFixtureVersionReferenceSchema f' \<Longrightarrow>
     fixtureReferenceKey f = fixtureReferenceKey f' \<longleftrightarrow> f = f'"
  "EvaluationDatasetVersionReferenceSchema d \<Longrightarrow> EvaluationDatasetVersionReferenceSchema d' \<Longrightarrow>
     exactDatasetKey d = exactDatasetKey d' \<longleftrightarrow> d = d'"
  by (simp_all add: assessmentReferenceKey_def AssessmentReferenceSchema_def modelAssuranceReferenceKey_def
      ModelAssuranceAssessmentReferenceSchema_def fixtureReferenceKey_def RegressionFixtureVersionReferenceSchema_def
      exactDatasetKey_def EvaluationDatasetVersionReferenceSchema_def append_cons_cancel opaque_no_colon)
    (auto intro: AssessmentReference.equality ModelAssuranceAssessmentReference.equality
      RegressionFixtureVersionReference.equality EvaluationDatasetVersionReference.equality)

section \<open>Sorted sets of reasons\<close>

lemma exactSorted_sort: "exactSorted xs = sort xs"
  unfolding exactSorted_def using sortBy_compareCodeUnits [of "\<lambda>x. x" xs] by simp

lemma sortedUnique_iff: "sortedUnique xs \<longleftrightarrow> sorted xs \<and> distinct xs"
  by (simp add: sortedUnique_def strictly_sorted_codeUnits strict_sorted_iff)

lemma sortedSet_sorted: "sortedUnique (sortedSet xs)" "set (sortedSet xs) = set xs"
  by (simp_all add: sortedSet_def exactSorted_sort sortedUnique_iff)

lemma sortedSet_list: "sortedSet xs = sorted_list_of_set (set xs)"
  by (simp add: sortedSet_def exactSorted_sort sorted_list_of_set_sort_remdups)

lemma sortedSet_Nil: "sortedSet xs = [] \<longleftrightarrow> xs = []"
  using sortedSet_sorted(2) [of xs] by (metis set_empty)

lemma adjacent_sorted: "sorted xs \<Longrightarrow> distinct (remdups_adj xs)"
  by (induction xs rule: remdups_adj.induct) auto

lemma merged_sorted: "sortedUnique (remdups_adj (exactSorted xs))" "set (remdups_adj (exactSorted xs)) = set xs"
  by (simp_all add: exactSorted_sort sortedUnique_iff adjacent_sorted)

lemma sortedUnique_length:
  assumes "sortedUnique xs" "set xs \<subseteq> set ys"
  shows "length xs \<le> length ys"
proof -
  have "length xs = card (set xs)" using assms(1) by (simp add: sortedUnique_iff distinct_card)
  also have "\<dots> \<le> card (set ys)" using assms(2) by (simp add: card_mono)
  also have "\<dots> \<le> length ys" by (rule card_length)
  finally show ?thesis .
qed

lemma mapOf_Some: "mapOf key xs k = Some x \<Longrightarrow> x \<in> set xs \<and> key x = k"
  by (auto simp: mapOf_def dest!: map_of_SomeD)

lemma mapOf_None: "mapOf key xs k = None \<longleftrightarrow> k \<notin> key ` set xs"
  by (simp add: mapOf_def map_of_eq_None_iff image_image)

section \<open>Cases\<close>

definition roleFits ::
    "string \<Rightarrow> ComparisonSubjectFixture option \<Rightarrow> ComparisonEvidenceFixtureSnapshot option \<Rightarrow> bool" where
  "roleFits i expected actual \<longleftrightarrow>
     pred_option (\<lambda>e. subjectFixtureId e = i \<and> RegressionFixtureVersionReferenceSchema (sf_fixture e)) expected \<and>
     pred_option (\<lambda>a. evidenceFixtureId a = i \<and> RegressionFixtureVersionReferenceSchema (ef_fixture a)) actual \<and>
     (actual \<noteq> None \<longrightarrow> expected \<noteq> None)"

lemma integrity_reasons: "set (fixtureIntegrityReasons e a) \<subseteq> {''digest_mismatch'', ''unresolved_lineage''}"
  unfolding fixtureIntegrityReasons_def Let_def sortedSet_sorted(2) by auto

lemma role_reasons: "set (roleReasons e a) \<subseteq> {''digest_mismatch'', ''unresolved_lineage''}"
  using integrity_reasons by (auto simp: roleReasons_def split: option.splits)

definition fixtureAccepted ::
    "ComparisonSubjectFixture option \<Rightarrow> ComparisonSubjectFixture option \<Rightarrow>
     ComparisonEvidenceFixtureSnapshot option \<Rightarrow> ComparisonEvidenceFixtureSnapshot option \<Rightarrow> bool" where
  "fixtureAccepted be ce b c \<longleftrightarrow> b \<noteq> None \<and> c \<noteq> None \<and> roleReasons be b = [] \<and> roleReasons ce c = []"

lemma parseCase_accepts: "ComparisonCaseSchema c \<Longrightarrow> parseCase c = Inr c"
  by (simp add: parseCase_def)

lemma reference_fits:
  assumes "roleFits i e a"
  shows "pred_option RegressionFixtureVersionReferenceSchema (referenceOf e a)" "pred_option (\<lambda>r. fx_fixtureId r = i) (referenceOf e a)"
    "pred_option RegressionFixtureVersionReferenceSchema (map_option sf_fixture e)" "pred_option (\<lambda>r. fx_fixtureId r = i) (map_option sf_fixture e)"
    "referenceOf e a = None \<longleftrightarrow> e = None"
  using assms by (cases e; cases a; auto simp: roleFits_def referenceOf_def subjectFixtureId_def evidenceFixtureId_def)+

lemma invalid_case_accepted:
  assumes "OpaqueIdSchema i" "sortedUnique reasons" "reasons \<noteq> []" "set reasons \<subseteq> {''digest_mismatch'', ''unresolved_lineage''}"
    and "pred_option RegressionFixtureVersionReferenceSchema b" "pred_option (\<lambda>r. fx_fixtureId r = i) b"
    and "pred_option RegressionFixtureVersionReferenceSchema c" "pred_option (\<lambda>r. fx_fixtureId r = i) c" "b \<noteq> None \<or> c \<noteq> None"
  shows "parseCase (InvalidCase i b c reasons) = Inr (InvalidCase i b c reasons)"
proof (rule parseCase_accepts)
  have known: "set reasons \<subseteq> set INVALID_CASE_REASONS" using assms(4) by (rule subset_trans) (simp add: INVALID_CASE_REASONS_def)
  have "1 \<le> length reasons" using assms(3) by (cases reasons) auto
  then show "ComparisonCaseSchema (InvalidCase i b c reasons)"
    using assms known sortedUnique_length [OF assms(2) known]
    by (auto simp: ComparisonCaseSchema_def list_all_iff split: option.splits)
qed

lemma case_exists:
  assumes i: "OpaqueIdSchema i" and fits: "roleFits i be b" "roleFits i ce c" and some: "be \<noteq> None \<or> ce \<noteq> None"
  shows "\<exists>x. caseForFixture i be ce b c = Inr x \<and> caseFixtureId x = i \<and>
    (isPaired x \<longleftrightarrow> fixtureAccepted be ce b c) \<and>
    (isPaired x \<longrightarrow> x = PairedCase i (ef_fixture (the b)) (ef_fixture (the c)))"
proof -
  define reasons where "reasons = remdups_adj (exactSorted (roleReasons be b @ roleReasons ce c))"
  have set: "set reasons = set (roleReasons be b) \<union> set (roleReasons ce c)" by (simp only: reasons_def merged_sorted(2) set_append)
  have sorted: "sortedUnique reasons" by (simp only: reasons_def merged_sorted(1))
  have known: "set reasons \<subseteq> {''digest_mismatch'', ''unresolved_lineage''}" using role_reasons set by blast
  have empty: "reasons = [] \<longleftrightarrow> roleReasons be b = [] \<and> roleReasons ce c = []" using set by (metis set_empty Un_empty)
  note refs = reference_fits [OF fits(1)] reference_fits [OF fits(2)]
  consider (absent) "b = None" "c = None" | (rejected) "b \<noteq> None \<or> c \<noteq> None" "reasons \<noteq> []"
    | (both) b' c' where "b = Some b'" "c = Some c'" "reasons = []"
    | (baseline) b' where "b = Some b'" "c = None" "reasons = []" | (candidate) c' where "b = None" "c = Some c'" "reasons = []"
    by (cases b; cases c; cases "reasons = []") auto
  then show ?thesis
  proof cases
    case absent
    have "parseCase (InvalidCase i (map_option sf_fixture be) (map_option sf_fixture ce) [''unresolved_lineage'']) =
        Inr (InvalidCase i (map_option sf_fixture be) (map_option sf_fixture ce) [''unresolved_lineage''])"
      using i refs some by (intro invalid_case_accepted) (auto simp: sortedUnique_iff)
    then show ?thesis using absent by (simp add: caseForFixture_def fixtureAccepted_def Let_def)
  next
    case rejected
    have "parseCase (InvalidCase i (referenceOf be b) (referenceOf ce c) reasons) =
        Inr (InvalidCase i (referenceOf be b) (referenceOf ce c) reasons)"
      using i sorted known refs some rejected(2) by (intro invalid_case_accepted) auto
    then show ?thesis using rejected empty by (auto simp: caseForFixture_def fixtureAccepted_def Let_def reasons_def [symmetric])
  next
    case both
    have "parseCase (PairedCase i (ef_fixture b') (ef_fixture c')) = Inr (PairedCase i (ef_fixture b') (ef_fixture c'))"
      using fits i both by (intro parseCase_accepts) (simp add: ComparisonCaseSchema_def roleFits_def evidenceFixtureId_def)
    then show ?thesis using both empty by (simp add: caseForFixture_def fixtureAccepted_def Let_def exactSorted_sort)
  next
    case baseline
    have "parseCase (BaselineOnlyCase i (ef_fixture b') (missingReason ce)) = Inr (BaselineOnlyCase i (ef_fixture b') (missingReason ce))"
      using fits i baseline
      by (intro parseCase_accepts) (simp add: ComparisonCaseSchema_def roleFits_def evidenceFixtureId_def missingReason_def MISSING_CASE_REASONS_def)
    then show ?thesis using baseline empty by (simp add: caseForFixture_def fixtureAccepted_def Let_def exactSorted_sort)
  next
    case candidate
    have "parseCase (CandidateOnlyCase i (missingReason be) (ef_fixture c')) = Inr (CandidateOnlyCase i (missingReason be) (ef_fixture c'))"
      using fits i candidate
      by (intro parseCase_accepts) (simp add: ComparisonCaseSchema_def roleFits_def evidenceFixtureId_def missingReason_def MISSING_CASE_REASONS_def)
    then show ?thesis using candidate empty by (simp add: caseForFixture_def fixtureAccepted_def Let_def exactSorted_sort)
  qed
qed

text \<open>What a case that is returned says of the bound and the retained fixtures of its logical fixture.\<close>

fun caseOutcome ::
    "ComparisonSubjectFixture option \<Rightarrow> ComparisonSubjectFixture option \<Rightarrow>
     ComparisonEvidenceFixtureSnapshot option \<Rightarrow> ComparisonEvidenceFixtureSnapshot option \<Rightarrow> ComparisonCase \<Rightarrow> bool" where
  "caseOutcome be ce b c (PairedCase _ r r') \<longleftrightarrow>
     roleReasons be b = [] \<and> roleReasons ce c = [] \<and> Some r = map_option ef_fixture b \<and> Some r' = map_option ef_fixture c"
| "caseOutcome be ce b c (BaselineOnlyCase _ r reason) \<longleftrightarrow>
     roleReasons be b = [] \<and> c = None \<and> Some r = map_option ef_fixture b \<and> reason = missingReason ce"
| "caseOutcome be ce b c (CandidateOnlyCase _ reason r) \<longleftrightarrow>
     roleReasons ce c = [] \<and> b = None \<and> Some r = map_option ef_fixture c \<and> reason = missingReason be"
| "caseOutcome be ce b c (InvalidCase _ r r' reasons) \<longleftrightarrow>
     r = referenceOf be b \<and> r' = referenceOf ce c \<and> sortedUnique reasons \<and>
     (if b = None \<and> c = None then reasons = [''unresolved_lineage'']
      else reasons \<noteq> [] \<and> set reasons = set (roleReasons be b) \<union> set (roleReasons ce c))"

lemma case_outcome:
  assumes "caseForFixture i be ce b c = Inr x"
  shows "caseFixtureId x = i \<and> caseOutcome be ce b c x"
proof -
  define reasons where "reasons = remdups_adj (exactSorted (roleReasons be b @ roleReasons ce c))"
  have set: "set reasons = set (roleReasons be b) \<union> set (roleReasons ce c)" by (simp only: reasons_def merged_sorted(2) set_append)
  have sorted: "sortedUnique reasons" by (simp only: reasons_def merged_sorted(1))
  have parsed: "parseCase y = Inr x \<Longrightarrow> x = y" for y by (simp add: parseCase_def split: if_splits)
  have empty: "roleReasons be b = []" "roleReasons ce c = []" if "reasons = []" using set that by auto
  consider "b = None" "c = None" | "b \<noteq> None \<or> c \<noteq> None" "reasons \<noteq> []"
    | b' c' where "b = Some b'" "c = Some c'" "reasons = []"
    | b' where "b = Some b'" "c = None" "reasons = []" | c' where "b = None" "c = Some c'" "reasons = []"
    by (cases b; cases c; cases "reasons = []") auto
  then show ?thesis
  proof cases
    case 1
    then have "x = InvalidCase i (map_option sf_fixture be) (map_option sf_fixture ce) [''unresolved_lineage'']"
      using assms by (intro parsed) (simp add: caseForFixture_def)
    then show ?thesis using 1 by (simp add: referenceOf_def sortedUnique_iff)
  next
    case 2
    then have "x = InvalidCase i (referenceOf be b) (referenceOf ce c) reasons"
      using assms by (intro parsed) (auto simp: caseForFixture_def Let_def reasons_def [symmetric])
    then show ?thesis using 2 sorted set by auto
  next
    case 3
    have none: "roleReasons be b = []" "roleReasons ce c = []" using empty 3 by simp_all
    have "x = PairedCase i (ef_fixture b') (ef_fixture c')"
      using assms none by (intro parsed) (simp add: 3(1,2) caseForFixture_def Let_def exactSorted_sort)
    then show ?thesis using 3 none by simp
  next
    case 4
    have none: "roleReasons be b = []" "roleReasons ce c = []" using empty 4 by simp_all
    have "x = BaselineOnlyCase i (ef_fixture b') (missingReason ce)"
      using assms none by (intro parsed) (simp add: caseForFixture_def Let_def exactSorted_sort 4(1,2))
    then show ?thesis using 4 none by simp
  next
    case 5
    have none: "roleReasons be b = []" "roleReasons ce c = []" using empty 5 by simp_all
    have "x = CandidateOnlyCase i (missingReason be) (ef_fixture c')"
      using assms none by (intro parsed) (simp add: caseForFixture_def Let_def exactSorted_sort 5(1,2))
    then show ?thesis using 5 none by simp
  qed
qed

section \<open>Admission\<close>

definition pairingAdmitted ::
    "(js_text \<Rightarrow> js_text) \<Rightarrow> (string \<Rightarrow> bool) \<Rightarrow> ComparisonDefinition \<Rightarrow> ComparisonEvidenceSnapshot \<Rightarrow> ComparisonEvidenceSnapshot \<Rightarrow> bool" where
  "pairingAdmitted nfc isoDatetime d baseline candidate \<longleftrightarrow>
     ComparisonDefinitionRecordSchema nfc isoDatetime d \<and>
     ComparisonEvidenceSnapshotSchema nfc isoDatetime baseline \<and> ComparisonEvidenceSnapshotSchema nfc isoDatetime candidate \<and>
     es_role baseline = BaselineRole \<and> es_role candidate = CandidateRole \<and>
     es_scope baseline = cd_scope d \<and> es_scope candidate = cd_scope d \<and>
     es_comparison baseline = exactComparisonReference d \<and> es_comparison candidate = exactComparisonReference d \<and>
     es_dataset baseline = sub_dataset (cd_baseline d) \<and> es_dataset candidate = sub_dataset (cd_candidate d) \<and>
     es_snapshotId baseline \<noteq> es_snapshotId candidate \<and>
     evidenceFixtureId ` set (es_fixtures baseline) \<subseteq> subjectFixtureId ` set (sub_fixtures (cd_baseline d)) \<and>
     evidenceFixtureId ` set (es_fixtures candidate) \<subseteq> subjectFixtureId ` set (sub_fixtures (cd_candidate d))"

definition acceptedFixture :: "ComparisonDefinition \<Rightarrow> ComparisonEvidenceSnapshot \<Rightarrow> ComparisonEvidenceSnapshot \<Rightarrow> string \<Rightarrow> bool" where
  "acceptedFixture d baseline candidate i \<longleftrightarrow>
     fixtureAccepted (mapOf subjectFixtureId (sub_fixtures (cd_baseline d)) i) (mapOf subjectFixtureId (sub_fixtures (cd_candidate d)) i)
       (mapOf evidenceFixtureId (es_fixtures baseline) i) (mapOf evidenceFixtureId (es_fixtures candidate) i)"

definition pairedFixtures :: "ComparisonEvidenceSnapshot \<Rightarrow> ComparisonEvidenceSnapshot \<Rightarrow> string \<Rightarrow> ComparisonCase" where
  "pairedFixtures baseline candidate i =
     PairedCase i (ef_fixture (the (mapOf evidenceFixtureId (es_fixtures baseline) i)))
       (ef_fixture (the (mapOf evidenceFixtureId (es_fixtures candidate) i)))"

lemma role_fits:
  assumes "ComparisonSubjectSchema isoDatetime subject" "ComparisonEvidenceSnapshotSchema nfc isoDatetime s"
    and "evidenceFixtureId ` set (es_fixtures s) \<subseteq> subjectFixtureId ` set (sub_fixtures subject)"
  shows "roleFits i (mapOf subjectFixtureId (sub_fixtures subject) i) (mapOf evidenceFixtureId (es_fixtures s) i)"
proof -
  have "RegressionFixtureVersionReferenceSchema (sf_fixture e)" if "e \<in> set (sub_fixtures subject)" for e
    using assms(1) that by (auto simp: ComparisonSubjectSchema_def ComparisonSubjectFixtureSchema_def list_all_iff)
  moreover have "RegressionFixtureVersionReferenceSchema (ef_fixture a)" if "a \<in> set (es_fixtures s)" for a
    using assms(2) that by (auto simp: ComparisonEvidenceSnapshotSchema_def ComparisonEvidenceFixtureSnapshotSchema_def list_all_iff)
  moreover have "mapOf subjectFixtureId (sub_fixtures subject) i \<noteq> None" if "mapOf evidenceFixtureId (es_fixtures s) i \<noteq> None"
    using that assms(3) by (auto simp: mapOf_None)
  ultimately show ?thesis
    unfolding roleFits_def
    by (cases "mapOf subjectFixtureId (sub_fixtures subject) i"; cases "mapOf evidenceFixtureId (es_fixtures s) i") (auto dest: mapOf_Some)
qed

lemma fixture_ids_set:
  "set (comparisonFixtureIds d) = subjectFixtureId ` (set (sub_fixtures (cd_baseline d)) \<union> set (sub_fixtures (cd_candidate d)))"
  by (simp add: comparisonFixtureIds_def sortedSet_sorted image_Un)

lemma fixture_ids_sorted:
  "comparisonFixtureIds d = sorted_list_of_set (subjectFixtureId ` (set (sub_fixtures (cd_baseline d)) \<union> set (sub_fixtures (cd_candidate d))))"
  by (simp add: comparisonFixtureIds_def sortedSet_list image_Un)

lemma admitted_case:
  assumes "pairingAdmitted nfc isoDatetime d baseline candidate" "i \<in> set (comparisonFixtureIds d)"
  shows "\<exists>x. caseOf d baseline candidate i = Inr x \<and> caseFixtureId x = i \<and>
    (isPaired x \<longleftrightarrow> acceptedFixture d baseline candidate i) \<and> (isPaired x \<longrightarrow> x = pairedFixtures baseline candidate i)"
proof -
  have subjects: "ComparisonSubjectSchema isoDatetime (cd_baseline d)" "ComparisonSubjectSchema isoDatetime (cd_candidate d)"
    using assms(1) by (auto simp: pairingAdmitted_def ComparisonDefinitionRecordSchema_def)
  have "OpaqueIdSchema (subjectFixtureId e)" if "e \<in> set (sub_fixtures (cd_baseline d)) \<union> set (sub_fixtures (cd_candidate d))" for e
    using that subjects by (auto simp: ComparisonSubjectSchema_def ComparisonSubjectFixtureSchema_def list_all_iff
        RegressionFixtureVersionReferenceSchema_def subjectFixtureId_def)
  then have "OpaqueIdSchema i" using assms(2) unfolding fixture_ids_set by blast
  moreover have "mapOf subjectFixtureId (sub_fixtures (cd_baseline d)) i \<noteq> None \<or> mapOf subjectFixtureId (sub_fixtures (cd_candidate d)) i \<noteq> None"
    using assms(2) unfolding fixture_ids_set mapOf_None by blast
  moreover have "roleFits i (mapOf subjectFixtureId (sub_fixtures (cd_baseline d)) i) (mapOf evidenceFixtureId (es_fixtures baseline) i)"
    "roleFits i (mapOf subjectFixtureId (sub_fixtures (cd_candidate d)) i) (mapOf evidenceFixtureId (es_fixtures candidate) i)"
    using assms(1) by (auto simp: pairingAdmitted_def intro!: role_fits [OF subjects(1)] role_fits [OF subjects(2)])
  ultimately show ?thesis unfolding caseOf_def acceptedFixture_def pairedFixtures_def by (intro case_exists)
qed

lemma admitted_cases:
  assumes "pairingAdmitted nfc isoDatetime d baseline candidate"
  obtains cases where "traverse (caseOf d baseline candidate) (comparisonFixtureIds d) = Inr cases"
    "map caseFixtureId cases = comparisonFixtureIds d"
    "\<And>x. x \<in> set cases \<Longrightarrow> isPaired x \<longleftrightarrow> acceptedFixture d baseline candidate (caseFixtureId x)"
    "\<And>x. x \<in> set cases \<Longrightarrow> isPaired x \<Longrightarrow> x = pairedFixtures baseline candidate (caseFixtureId x)"
proof -
  define f where "f i = (SOME x. caseOf d baseline candidate i = Inr x)" for i
  have f: "caseOf d baseline candidate i = Inr (f i)" "caseFixtureId (f i) = i"
    "isPaired (f i) \<longleftrightarrow> acceptedFixture d baseline candidate i" "isPaired (f i) \<Longrightarrow> f i = pairedFixtures baseline candidate i"
    if "i \<in> set (comparisonFixtureIds d)" for i
    using admitted_case [OF assms that] unfolding f_def by auto
  show ?thesis
  proof (rule that)
    show "traverse (caseOf d baseline candidate) (comparisonFixtureIds d) = Inr (map f (comparisonFixtureIds d))"
      using f(1) by (intro traverse_total) blast
    show "map caseFixtureId (map f (comparisonFixtureIds d)) = comparisonFixtureIds d" using f(2) by (simp add: map_idI)
    fix x assume x: "x \<in> set (map f (comparisonFixtureIds d))"
    then obtain i where i: "i \<in> set (comparisonFixtureIds d)" "x = f i" by auto
    show "isPaired x \<longleftrightarrow> acceptedFixture d baseline candidate (caseFixtureId x)" using i f(2,3) by simp
    show "x = pairedFixtures baseline candidate (caseFixtureId x)" if "isPaired x" using i f(2,4) that by metis
  qed
qed

section \<open>Counts and reasons\<close>

lemma counts_partition:
  "length (filter isBaselineOnly cases) + length (filter isCandidateOnly cases) + length (filter isInvalid cases) +
   length (filter isPaired cases) = length cases"
proof (induction cases)
  case (Cons x xs)
  then show ?case by (cases x) auto
qed simp

lemma summary_accepted:
  assumes "length cases \<le> 1000"
  shows "ComparisonPairingSummarySchema (summarizeCases cases)"
proof -
  have "length (filter P cases) \<le> 1000" for P by (rule order_trans [OF length_filter_le assms])
  then show ?thesis
    using counts_partition [of cases] assms
    by (auto simp: ComparisonPairingSummarySchema_def summarizeCases_def SafeComparisonCountSchema_def MAX_SAFE_INTEGER_def
        intro: order_trans)
qed

definition comparabilityReasons ::
    "ComparisonDefinition \<Rightarrow> ComparisonCase list \<Rightarrow> ComparisonEvidenceSnapshot \<Rightarrow> ComparisonEvidenceSnapshot \<Rightarrow> string list" where
  "comparabilityReasons d cases baseline candidate =
     (let paired = filter isPaired cases in sortedSet (
        (if exactDatasetKey (sub_dataset (cd_baseline d)) \<noteq> exactDatasetKey (sub_dataset (cd_candidate d)) then [''dataset_mismatch''] else []) @
        (if int (length paired) * 10000 < int (length cases) * cd_minimumPairedCoverageBasisPoints d
         then [''insufficient_paired_coverage''] else []) @
        (if list_ex isInvalid cases then [''invalid_source_integrity''] else []) @
        (if list_ex (\<lambda>c. isBaselineOnly c \<or> isCandidateOnly c) cases then [''missing_source_evidence''] else []) @
        (if list_ex fixturesDiffer paired then [''fixture_mismatch''] else []) @
        concat (map (\<lambda>f. concat (map assuranceReasons (ef_assurance f))) (es_fixtures baseline @ es_fixtures candidate))))"

lemma assurance_reasons: "set (assuranceReasons a) \<subseteq> {''unresolved_critical_counterevidence'', ''unsupported_statistical_assumptions''}"
  by (auto simp: assuranceReasons_def split: AssuranceReference.splits)

lemma reasons_known: "set (comparabilityReasons d cases baseline candidate) \<subseteq> set COMPARABILITY_REASONS"
proof -
  have "set (assuranceReasons a) \<subseteq> set COMPARABILITY_REASONS" for a
    using assurance_reasons by (rule subset_trans) (simp add: COMPARABILITY_REASONS_def)
  moreover have "{''dataset_mismatch'', ''insufficient_paired_coverage'', ''invalid_source_integrity'', ''missing_source_evidence'', ''fixture_mismatch''}
      \<subseteq> set COMPARABILITY_REASONS"
    by (simp add: COMPARABILITY_REASONS_def)
  ultimately show ?thesis unfolding comparabilityReasons_def Let_def sortedSet_sorted(2) by auto
qed

lemma comparability_derived:
  "deriveComparability d cases baseline candidate =
     Inr \<lparr>cmp_reasons = comparabilityReasons d cases baseline candidate,
          cmp_status = (if comparabilityReasons d cases baseline candidate = [] then Comparable
            else if filter isPaired cases = [] \<or> ''unresolved_critical_counterevidence'' \<in> set (comparabilityReasons d cases baseline candidate)
            then Incomparable else PartiallyComparable)\<rparr>"
proof -
  let ?r = "comparabilityReasons d cases baseline candidate"
  have "sortedUnique ?r" unfolding comparabilityReasons_def Let_def by (rule sortedSet_sorted(1))
  moreover from this have "length ?r \<le> 32"
    using sortedUnique_length [OF _ reasons_known] by (fastforce simp: COMPARABILITY_REASONS_def)
  ultimately show ?thesis
    using reasons_known [of d cases baseline candidate]
    unfolding deriveComparability_def Let_def comparabilityReasons_def [unfolded Let_def, symmetric] ComparisonComparabilitySchema_def
    by (auto simp: list_all_iff)
qed

lemma status_comparable:
  assumes "deriveComparability d cases baseline candidate = Inr x"
  shows "cmp_status x = Comparable \<longleftrightarrow> comparabilityReasons d cases baseline candidate = []"
  using assms comparability_derived [of d cases baseline candidate] by (cases x) (simp split: if_splits)

lemma pair_runs:
  assumes "pairingAdmitted nfc isoDatetime d baseline candidate"
  obtains r where "pairComparisonEvidence nfc isoDatetime d baseline candidate = Inr r"
    "map caseFixtureId (pr_cases r) = comparisonFixtureIds d"
    "\<And>x. x \<in> set (pr_cases r) \<Longrightarrow> isPaired x \<longleftrightarrow> acceptedFixture d baseline candidate (caseFixtureId x)"
    "\<And>x. x \<in> set (pr_cases r) \<Longrightarrow> isPaired x \<Longrightarrow> x = pairedFixtures baseline candidate (caseFixtureId x)"
    "pr_pairing r = summarizeCases (pr_cases r)"
    "deriveComparability d (pr_cases r) baseline candidate = Inr (pr_comparability r)"
proof -
  obtain cases where cases: "traverse (caseOf d baseline candidate) (comparisonFixtureIds d) = Inr cases"
    "map caseFixtureId cases = comparisonFixtureIds d"
    "\<And>x. x \<in> set cases \<Longrightarrow> isPaired x \<longleftrightarrow> acceptedFixture d baseline candidate (caseFixtureId x)"
    "\<And>x. x \<in> set cases \<Longrightarrow> isPaired x \<Longrightarrow> x = pairedFixtures baseline candidate (caseFixtureId x)"
    using admitted_cases [OF assms] by metis
  have "length cases = length (comparisonFixtureIds d)" using cases(2) by (metis length_map)
  also have "\<dots> = card (subjectFixtureId ` (set (sub_fixtures (cd_baseline d)) \<union> set (sub_fixtures (cd_candidate d))))"
    by (simp add: fixture_ids_sorted)
  also have "\<dots> \<le> card (set (sub_fixtures (cd_baseline d)) \<union> set (sub_fixtures (cd_candidate d)))" by (rule card_image_le) simp
  also have "\<dots> \<le> length (sub_fixtures (cd_baseline d) @ sub_fixtures (cd_candidate d))"
    unfolding set_append [symmetric] by (rule card_length)
  also have "\<dots> \<le> 1000"
    using assms by (simp add: pairingAdmitted_def ComparisonDefinitionRecordSchema_def ComparisonSubjectSchema_def MAX_COMPARISON_SUBJECT_FIXTURES_def)
  finally have summary: "ComparisonPairingSummarySchema (summarizeCases cases)" by (rule summary_accepted)
  obtain c where c: "deriveComparability d cases baseline candidate = Inr c" using comparability_derived by blast
  have "pairComparisonEvidence nfc isoDatetime d baseline candidate =
      Inr \<lparr>pr_cases = cases, pr_comparability = c, pr_pairing = summarizeCases cases\<rparr>"
    using assms cases(1) summary c
    by (auto simp: pairComparisonEvidence_def pairingAdmitted_def parseEvidenceSnapshot_def assertSnapshotEnvelope_def roleSubject_def
        assertNoUnexpectedFixtures_def list_all_iff)
  then show ?thesis using cases c by (intro that) auto
qed

lemma pair_admitted:
  assumes "pairComparisonEvidence nfc isoDatetime d baseline candidate = Inr r"
  shows "pairingAdmitted nfc isoDatetime d baseline candidate"
  using assms
  by (auto simp: pairComparisonEvidence_def pairingAdmitted_def parseEvidenceSnapshot_def assertSnapshotEnvelope_def roleSubject_def
      assertNoUnexpectedFixtures_def list_all_iff split: if_splits sum.splits)

lemma admission_error:
  assumes "pairComparisonEvidence nfc isoDatetime d baseline candidate = Inl e"
  shows "\<not> pairingAdmitted nfc isoDatetime d baseline candidate \<and> e \<noteq> PairingZodError"
proof -
  have refused: "\<not> pairingAdmitted nfc isoDatetime d baseline candidate"
    using assms pair_runs by (metis sum.distinct(1))
  moreover have "e \<noteq> PairingZodError"
  proof
    assume "e = PairingZodError"
    then have "pairingAdmitted nfc isoDatetime d baseline candidate"
      using assms by (auto simp: pairComparisonEvidence_def pairingAdmitted_def parseEvidenceSnapshot_def assertSnapshotEnvelope_def roleSubject_def
          assertNoUnexpectedFixtures_def list_all_iff split: if_splits sum.splits)
    then show False using refused by simp
  qed
  ultimately show ?thesis by simp
qed

section \<open>Lineage\<close>

text \<open>What the integrity check of a retained fixture means: the fixture version, replay and assurance references it is bound to.\<close>

definition lineageMatches :: "ComparisonSubjectFixture \<Rightarrow> ComparisonEvidenceFixtureSnapshot \<Rightarrow> bool" where
  "lineageMatches e a \<longleftrightarrow>
     sf_fixture e = ef_fixture a \<and> sf_replay e = ef_replay a \<and>
     set (sf_assessments e) = {r. OfAssessment r \<in> cas_reference ` set (ef_assurance a)} \<and>
     (\<forall>x \<in> set (ef_evaluationOutcomes a). eo_assessment x \<in> set (sf_assessments e)) \<and>
     set (sf_modelAssuranceAssessments e) = {r. OfModelAssurance r \<in> cas_reference ` set (ef_assurance a)}"

lemma sameStringSet_iff: "distinct l \<Longrightarrow> distinct r \<Longrightarrow> sameStringSet l r \<longleftrightarrow> set l = set r"
  unfolding sameStringSet_def exactSorted_sort
  by (metis set_sort sorted_distinct_set_unique sorted_sort distinct_sort)

lemma retained_sets:
  "set (retainedAssessments a) = assessmentReferenceKey ` {r. OfAssessment r \<in> cas_reference ` set (ef_assurance a)}"
  "set (retainedModelAssurance a) = modelAssuranceReferenceKey ` {r. OfModelAssurance r \<in> cas_reference ` set (ef_assurance a)}"
  by (force simp: retainedAssessments_def retainedModelAssurance_def image_iff split: AssuranceReference.splits)+

lemma distinct_tagged:
  assumes "\<And>x. h x = [] \<or> (\<exists>k. h x = [k] \<and> key x = tag @ k)" "distinct (map key xs)"
  shows "distinct (concat (map h xs))"
  using assms(2)
proof (induction xs)
  case (Cons x xs)
  have "k \<notin> set (h y)" if "h x = [k]" "y \<in> set xs" for k y
    using that assms(1) [of x] assms(1) [of y] Cons.prems by (auto simp: image_iff)
  then show ?case using Cons assms(1) [of x] by auto
qed simp

lemma retained_distinct:
  assumes "sortedUnique (map (\<lambda>x. assuranceStateKey (cas_reference x)) (ef_assurance a))"
  shows "distinct (retainedAssessments a)" "distinct (retainedModelAssurance a)"
proof -
  have keys: "distinct (map (\<lambda>x. assuranceStateKey (cas_reference x)) (ef_assurance a))" using assms by (simp add: sortedUnique_iff)
  show "distinct (retainedAssessments a)" unfolding retainedAssessments_def
    by (rule distinct_tagged [OF _ keys, where tag = "''assessment:''"]) (simp split: AssuranceReference.splits)
  show "distinct (retainedModelAssurance a)" unfolding retainedModelAssurance_def
    by (rule distinct_tagged [OF _ keys, where tag = "''model_assurance:''"]) (simp split: AssuranceReference.splits)
qed

lemma image_key_eq:
  assumes "\<And>x y. P x \<Longrightarrow> P y \<Longrightarrow> key x = key y \<longleftrightarrow> x = y" "\<And>x. x \<in> A \<union> B \<Longrightarrow> P x"
  shows "key ` A = key ` B \<longleftrightarrow> A = B"
proof (rule inj_on_image_eq_iff)
  show "inj_on key (A \<union> B)" using assms by (intro inj_onI) blast
qed auto

lemma integrity_iff:
  assumes "ComparisonSubjectFixtureSchema isoDatetime e" "ComparisonEvidenceFixtureSnapshotSchema nfc isoDatetime a"
  shows "fixtureIntegrityReasons e a = [] \<longleftrightarrow> lineageMatches e a"
proof -
  let ?A = "{r. OfAssessment r \<in> cas_reference ` set (ef_assurance a)}" and ?M = "{r. OfModelAssurance r \<in> cas_reference ` set (ef_assurance a)}"
  have e: "\<forall>r \<in> set (sf_assessments e). AssessmentReferenceSchema r" "distinct (map assessmentReferenceKey (sf_assessments e))"
    "\<forall>r \<in> set (sf_modelAssuranceAssessments e). ModelAssuranceAssessmentReferenceSchema r"
    "distinct (map modelAssuranceReferenceKey (sf_modelAssuranceAssessments e))"
    using assms(1) by (auto simp: ComparisonSubjectFixtureSchema_def exactAssessmentReferences_def exactModelAssuranceReferences_def
        sortedUnique_iff list_all_iff)
  have states: "list_all ComparisonAssuranceStateSchema (ef_assurance a)" "sortedUnique (map (\<lambda>x. assuranceStateKey (cas_reference x)) (ef_assurance a))"
    and outcomes: "\<And>x. x \<in> set (ef_evaluationOutcomes a) \<Longrightarrow> AssessmentReferenceSchema (eo_assessment x)"
    using assms(2) by (auto simp: ComparisonEvidenceFixtureSnapshotSchema_def list_all_iff ComparisonEvaluationOutcomeSchema_def)
  have refs: "\<And>r. r \<in> ?A \<Longrightarrow> AssessmentReferenceSchema r" "\<And>r. r \<in> ?M \<Longrightarrow> ModelAssuranceAssessmentReferenceSchema r"
    using states(1) by (auto simp: list_all_iff ComparisonAssuranceStateSchema_def split: AssuranceReference.splits)
  have keys: "assessmentReferenceKey ` set (sf_assessments e) = assessmentReferenceKey ` ?A \<longleftrightarrow> set (sf_assessments e) = ?A"
    by (rule image_key_eq [of AssessmentReferenceSchema]) (rule key_injective(1), assumption+, use e(1) refs(1) in blast)
  have model_keys: "modelAssuranceReferenceKey ` set (sf_modelAssuranceAssessments e) = modelAssuranceReferenceKey ` ?M \<longleftrightarrow>
      set (sf_modelAssuranceAssessments e) = ?M"
    by (rule image_key_eq [of ModelAssuranceAssessmentReferenceSchema]) (rule key_injective(2), assumption+, use e(3) refs(2) in blast)
  have sets: "sameStringSet (map assessmentReferenceKey (sf_assessments e)) (retainedAssessments a) \<longleftrightarrow> set (sf_assessments e) = ?A"
    "sameStringSet (map modelAssuranceReferenceKey (sf_modelAssuranceAssessments e)) (retainedModelAssurance a) \<longleftrightarrow>
       set (sf_modelAssuranceAssessments e) = ?M"
    unfolding sameStringSet_iff [OF e(2) retained_distinct(1) [OF states(2)]] sameStringSet_iff [OF e(4) retained_distinct(2) [OF states(2)]]
      retained_sets set_map keys model_keys by simp_all
  have "list_ex (\<lambda>x. assessmentReferenceKey (eo_assessment x) \<notin> set (map assessmentReferenceKey (sf_assessments e))) (ef_evaluationOutcomes a) \<longleftrightarrow>
      \<not> (\<forall>x \<in> set (ef_evaluationOutcomes a). eo_assessment x \<in> set (sf_assessments e))"
    using outcomes e(1) key_injective(1) by (auto simp: list_ex_iff image_iff)
  then show ?thesis
    unfolding fixtureIntegrityReasons_def Let_def sortedSet_Nil lineageMatches_def sets
    by (auto intro: RegressionFixtureVersionReference.equality)
qed

section \<open>Classification\<close>

text \<open>
  What the snapshots say of a logical fixture, without the code's cases: whether a snapshot retains it, and
  whether what it retains has the lineage the subject is bound to.
\<close>

definition retains :: "ComparisonEvidenceSnapshot \<Rightarrow> string \<Rightarrow> bool" where
  "retains s i \<longleftrightarrow> i \<in> evidenceFixtureId ` set (es_fixtures s)"

definition boundBy :: "ComparisonSubject \<Rightarrow> string \<Rightarrow> bool" where
  "boundBy subject i \<longleftrightarrow> i \<in> subjectFixtureId ` set (sub_fixtures subject)"

definition intact :: "ComparisonSubject \<Rightarrow> ComparisonEvidenceSnapshot \<Rightarrow> string \<Rightarrow> bool" where
  "intact subject s i \<longleftrightarrow>
     (case (mapOf subjectFixtureId (sub_fixtures subject) i, mapOf evidenceFixtureId (es_fixtures s) i) of
        (Some e, Some a) \<Rightarrow> lineageMatches e a
      | _ \<Rightarrow> True)"

datatype EvidenceState = BothRetained | BaselineRetained | CandidateRetained | Unusable

definition evidenceState ::
    "ComparisonDefinition \<Rightarrow> ComparisonEvidenceSnapshot \<Rightarrow> ComparisonEvidenceSnapshot \<Rightarrow> string \<Rightarrow> EvidenceState" where
  "evidenceState d baseline candidate i =
     (if \<not> intact (cd_baseline d) baseline i \<or> \<not> intact (cd_candidate d) candidate i then Unusable
      else if retains baseline i \<and> retains candidate i then BothRetained
      else if retains baseline i then BaselineRetained
      else if retains candidate i then CandidateRetained
      else Unusable)"

text \<open>The version a snapshot retains, the version a subject binds, and why a side is missing.\<close>

definition retainedVersion :: "ComparisonEvidenceSnapshot \<Rightarrow> string \<Rightarrow> RegressionFixtureVersionReference option" where
  "retainedVersion s i = map_option ef_fixture (mapOf evidenceFixtureId (es_fixtures s) i)"

definition knownVersion :: "ComparisonSubject \<Rightarrow> ComparisonEvidenceSnapshot \<Rightarrow> string \<Rightarrow> RegressionFixtureVersionReference option" where
  "knownVersion subject s i =
     (if retains s i then retainedVersion s i else map_option sf_fixture (mapOf subjectFixtureId (sub_fixtures subject) i))"

definition absenceReason :: "ComparisonSubject \<Rightarrow> string \<Rightarrow> string" where
  "absenceReason subject i = (if boundBy subject i then ''snapshot_omission'' else ''fixture_absent'')"

text \<open>The case of a logical fixture, by its state, with every field.\<close>

fun caseDescribes ::
    "ComparisonDefinition \<Rightarrow> ComparisonEvidenceSnapshot \<Rightarrow> ComparisonEvidenceSnapshot \<Rightarrow> ComparisonCase \<Rightarrow> bool" where
  "caseDescribes d baseline candidate (PairedCase i b c) \<longleftrightarrow>
     evidenceState d baseline candidate i = BothRetained \<and> retainedVersion baseline i = Some b \<and> retainedVersion candidate i = Some c"
| "caseDescribes d baseline candidate (BaselineOnlyCase i b reason) \<longleftrightarrow>
     evidenceState d baseline candidate i = BaselineRetained \<and> retainedVersion baseline i = Some b \<and>
     reason = absenceReason (cd_candidate d) i"
| "caseDescribes d baseline candidate (CandidateOnlyCase i reason c) \<longleftrightarrow>
     evidenceState d baseline candidate i = CandidateRetained \<and> retainedVersion candidate i = Some c \<and>
     reason = absenceReason (cd_baseline d) i"
| "caseDescribes d baseline candidate (InvalidCase i b c reasons) \<longleftrightarrow>
     evidenceState d baseline candidate i = Unusable \<and>
     b = knownVersion (cd_baseline d) baseline i \<and> c = knownVersion (cd_candidate d) candidate i \<and>
     reasons \<noteq> [] \<and> sortedUnique reasons \<and> set reasons \<subseteq> {''digest_mismatch'', ''unresolved_lineage''} \<and>
     (\<not> retains baseline i \<and> \<not> retains candidate i \<longrightarrow> reasons = [''unresolved_lineage''])"

lemma retains_iff: "retains s i \<longleftrightarrow> mapOf evidenceFixtureId (es_fixtures s) i \<noteq> None"
  by (simp add: retains_def mapOf_None)

lemma bound_iff: "boundBy subject i \<longleftrightarrow> mapOf subjectFixtureId (sub_fixtures subject) i \<noteq> None"
  by (simp add: boundBy_def mapOf_None)

lemma known_version:
  "knownVersion subject s i = referenceOf (mapOf subjectFixtureId (sub_fixtures subject) i) (mapOf evidenceFixtureId (es_fixtures s) i)"
  by (auto simp: knownVersion_def retainedVersion_def referenceOf_def retains_iff split: option.splits)

lemma absence_reason: "absenceReason subject i = missingReason (mapOf subjectFixtureId (sub_fixtures subject) i)"
  by (simp add: absenceReason_def missingReason_def bound_iff)

lemma admitted_schemas:
  assumes "pairingAdmitted nfc isoDatetime d baseline candidate"
  shows "e \<in> set (sub_fixtures (cd_baseline d)) \<union> set (sub_fixtures (cd_candidate d)) \<Longrightarrow> ComparisonSubjectFixtureSchema isoDatetime e"
    "a \<in> set (es_fixtures baseline) \<union> set (es_fixtures candidate) \<Longrightarrow> ComparisonEvidenceFixtureSnapshotSchema nfc isoDatetime a"
    "EvaluationDatasetVersionReferenceSchema (sub_dataset (cd_baseline d))" "EvaluationDatasetVersionReferenceSchema (sub_dataset (cd_candidate d))"
    "cd_minimumPairedCoverageBasisPoints d \<le> 10000"
  using assms by (auto simp: pairingAdmitted_def ComparisonDefinitionRecordSchema_def ComparisonSubjectSchema_def
      ComparisonEvidenceSnapshotSchema_def list_all_iff)

lemma intact_iff:
  assumes "\<And>e. e \<in> set (sub_fixtures subject) \<Longrightarrow> ComparisonSubjectFixtureSchema isoDatetime e"
    and "\<And>a. a \<in> set (es_fixtures s) \<Longrightarrow> ComparisonEvidenceFixtureSnapshotSchema nfc isoDatetime a"
  shows "intact subject s i \<longleftrightarrow>
    roleReasons (mapOf subjectFixtureId (sub_fixtures subject) i) (mapOf evidenceFixtureId (es_fixtures s) i) = []"
proof (cases "mapOf subjectFixtureId (sub_fixtures subject) i")
  case (Some e)
  show ?thesis
  proof (cases "mapOf evidenceFixtureId (es_fixtures s) i")
    case a: (Some a)
    have "fixtureIntegrityReasons e a = [] \<longleftrightarrow> lineageMatches e a"
      using mapOf_Some [OF Some] mapOf_Some [OF a] by (intro integrity_iff [OF assms]) simp_all
    then show ?thesis using Some a by (simp add: intact_def roleReasons_def)
  qed (simp add: Some intact_def roleReasons_def)
qed (simp add: intact_def roleReasons_def)

lemma case_described:
  assumes admitted: "pairingAdmitted nfc isoDatetime d baseline candidate" and "caseOf d baseline candidate i = Inr x"
  shows "caseDescribes d baseline candidate x"
proof -
  let ?be = "mapOf subjectFixtureId (sub_fixtures (cd_baseline d)) i" and ?ce = "mapOf subjectFixtureId (sub_fixtures (cd_candidate d)) i"
  let ?b = "mapOf evidenceFixtureId (es_fixtures baseline) i" and ?c = "mapOf evidenceFixtureId (es_fixtures candidate) i"
  have outcome: "caseFixtureId x = i" "caseOutcome ?be ?ce ?b ?c x"
    using case_outcome [OF assms(2) [unfolded caseOf_def]] by simp_all
  have intact: "intact (cd_baseline d) baseline i \<longleftrightarrow> roleReasons ?be ?b = []" "intact (cd_candidate d) candidate i \<longleftrightarrow> roleReasons ?ce ?c = []"
    by (rule intact_iff; use admitted_schemas(1,2) [OF admitted] in blast)+
  have absent: "roleReasons e None = []" for e by (simp add: roleReasons_def split: option.splits)
  have some: "Some r = map_option ef_fixture b \<Longrightarrow> b \<noteq> None" for r b by (cases b) simp_all
  note state = evidenceState_def retains_iff intact retainedVersion_def
  show ?thesis
  proof (cases x)
    case (PairedCase j b c)
    then show ?thesis using outcome some [of b ?b] some [of c ?c] by (simp add: state)
  next
    case (BaselineOnlyCase j b reason)
    then show ?thesis using outcome some [of b ?b] by (simp add: state absence_reason absent)
  next
    case (CandidateOnlyCase j reason c)
    then show ?thesis using outcome some [of c ?c] by (simp add: state absence_reason absent)
  next
    case (InvalidCase j b c reasons)
    have known: "set (roleReasons ?be ?b) \<union> set (roleReasons ?ce ?c) \<subseteq> {''digest_mismatch'', ''unresolved_lineage''}"
      using role_reasons by blast
    show ?thesis
    proof (cases "?b = None \<and> ?c = None")
      case True
      then show ?thesis using InvalidCase outcome by (auto simp: state known_version absent)
    next
      case False
      then have "roleReasons ?be ?b \<noteq> [] \<or> roleReasons ?ce ?c \<noteq> []" using InvalidCase outcome by auto
      then have "evidenceState d baseline candidate i = Unusable" by (simp add: evidenceState_def intact)
      then show ?thesis using False InvalidCase outcome known by (simp add: retains_iff known_version)
    qed
  qed
qed

lemma described_kinds:
  assumes "caseDescribes d baseline candidate x"
  shows "isPaired x \<longleftrightarrow> evidenceState d baseline candidate (caseFixtureId x) = BothRetained"
    "isBaselineOnly x \<longleftrightarrow> evidenceState d baseline candidate (caseFixtureId x) = BaselineRetained"
    "isCandidateOnly x \<longleftrightarrow> evidenceState d baseline candidate (caseFixtureId x) = CandidateRetained"
    "isInvalid x \<longleftrightarrow> evidenceState d baseline candidate (caseFixtureId x) = Unusable"
  using assms by (cases x; simp)+

lemma filter_by_key:
  assumes "distinct (map key xs)" "\<And>x. x \<in> set xs \<Longrightarrow> P x \<longleftrightarrow> Q (key x)"
  shows "length (filter P xs) = card {k \<in> key ` set xs. Q k}"
proof -
  have "length (filter P xs) = length (filter (\<lambda>x. Q (key x)) xs)" using assms(2) by (metis filter_cong)
  also have "\<dots> = length (filter Q (map key xs))" by (simp add: filter_map o_def)
  also have "\<dots> = card (set (filter Q (map key xs)))" using assms(1) by (intro distinct_card [symmetric] distinct_filter)
  also have "set (filter Q (map key xs)) = {k \<in> key ` set xs. Q k}" by auto
  finally show ?thesis .
qed

lemma pair_cases:
  assumes "pairComparisonEvidence nfc isoDatetime d baseline candidate = Inr r"
  shows "traverse (caseOf d baseline candidate) (comparisonFixtureIds d) = Inr (pr_cases r)" "pr_pairing r = summarizeCases (pr_cases r)"
  using assms by (auto simp: pairComparisonEvidence_def split: if_splits sum.splits)

lemma pair_described:
  assumes r: "pairComparisonEvidence nfc isoDatetime d baseline candidate = Inr r"
    and admitted: "pairingAdmitted nfc isoDatetime d baseline candidate"
  shows "list_all (caseDescribes d baseline candidate) (pr_cases r)"
proof -
  have "list_all2 (\<lambda>i x. caseOf d baseline candidate i = Inr x) (comparisonFixtureIds d) (pr_cases r)"
    using pair_cases(1) [OF r] by (simp add: traverse_Inr_iff)
  then have "list_all2 (\<lambda>i x. caseDescribes d baseline candidate x) (comparisonFixtureIds d) (pr_cases r)"
    by (rule list_all2_mono) (rule case_described [OF admitted])
  then show ?thesis by (auto simp: list_all2_conv_all_nth list_all_length)
qed

section \<open>Comparable evidence\<close>

text \<open>
  One logical fixture compared: both roles bind it, both snapshots retain it with the lineage they are bound
  to, and the two versions are the same. The maps keep the last version of a logical fixture.
\<close>

definition fixtureCompared :: "ComparisonDefinition \<Rightarrow> ComparisonEvidenceSnapshot \<Rightarrow> ComparisonEvidenceSnapshot \<Rightarrow> string \<Rightarrow> bool" where
  "fixtureCompared d baseline candidate i \<longleftrightarrow>
     (\<exists>be ce b c. mapOf subjectFixtureId (sub_fixtures (cd_baseline d)) i = Some be \<and>
        mapOf subjectFixtureId (sub_fixtures (cd_candidate d)) i = Some ce \<and>
        mapOf evidenceFixtureId (es_fixtures baseline) i = Some b \<and> mapOf evidenceFixtureId (es_fixtures candidate) i = Some c \<and>
        lineageMatches be b \<and> lineageMatches ce c \<and> sf_fixture be = sf_fixture ce)"

definition assuranceUnflagged :: "ComparisonAssuranceState \<Rightarrow> bool" where
  "assuranceUnflagged a \<longleftrightarrow> ''critical_counterevidence'' \<notin> set (cas_reasons a) \<and>
     (''unsupported_statistical_assumptions'' \<in> set (cas_reasons a) \<longrightarrow> (\<exists>r. cas_reference a = OfModelAssurance r))"

text \<open>
  Nothing is missing: one dataset version, the same fixture versions bound by both subjects, every one of
  them retained by both snapshots with the lineage it is bound to, and no flagged assurance.
\<close>

definition evidenceComparable :: "ComparisonDefinition \<Rightarrow> ComparisonEvidenceSnapshot \<Rightarrow> ComparisonEvidenceSnapshot \<Rightarrow> bool" where
  "evidenceComparable d baseline candidate \<longleftrightarrow>
     sub_dataset (cd_baseline d) = sub_dataset (cd_candidate d) \<and>
     sf_fixture ` set (sub_fixtures (cd_baseline d)) = sf_fixture ` set (sub_fixtures (cd_candidate d)) \<and>
     (\<forall>e \<in> set (sub_fixtures (cd_baseline d)). \<exists>a \<in> set (es_fixtures baseline). lineageMatches e a) \<and>
     (\<forall>e \<in> set (sub_fixtures (cd_candidate d)). \<exists>a \<in> set (es_fixtures candidate). lineageMatches e a) \<and>
     (\<forall>f \<in> set (es_fixtures baseline) \<union> set (es_fixtures candidate). \<forall>a \<in> set (ef_assurance f). assuranceUnflagged a)"

text \<open>A subject, and a snapshot, names each logical fixture in one version.\<close>

definition oneVersionEach :: "ComparisonDefinition \<Rightarrow> ComparisonEvidenceSnapshot \<Rightarrow> ComparisonEvidenceSnapshot \<Rightarrow> bool" where
  "oneVersionEach d baseline candidate \<longleftrightarrow>
     distinct (map subjectFixtureId (sub_fixtures (cd_baseline d))) \<and> distinct (map subjectFixtureId (sub_fixtures (cd_candidate d))) \<and>
     distinct (map evidenceFixtureId (es_fixtures baseline)) \<and> distinct (map evidenceFixtureId (es_fixtures candidate))"

lemma mapOf_distinct: "distinct (map key xs) \<Longrightarrow> mapOf key xs k = Some x \<longleftrightarrow> x \<in> set xs \<and> key x = k"
  by (auto simp: mapOf_def map_of_eq_Some_iff [of "rev (map (\<lambda>x. (key x, x)) xs)"] rev_map [symmetric] o_def)

lemma lineage_fixture: "lineageMatches e a \<Longrightarrow> evidenceFixtureId a = subjectFixtureId e"
  by (simp add: lineageMatches_def evidenceFixtureId_def subjectFixtureId_def)

lemma same_fixture: "sf_fixture e = sf_fixture e' \<Longrightarrow> subjectFixtureId e = subjectFixtureId e'"
  by (simp add: subjectFixtureId_def)

lemma every_fixture_compared:
  assumes "oneVersionEach d baseline candidate"
  shows "(\<forall>i \<in> subjectFixtureId ` (set (sub_fixtures (cd_baseline d)) \<union> set (sub_fixtures (cd_candidate d))).
      fixtureCompared d baseline candidate i) \<longleftrightarrow>
    sf_fixture ` set (sub_fixtures (cd_baseline d)) = sf_fixture ` set (sub_fixtures (cd_candidate d)) \<and>
    (\<forall>e \<in> set (sub_fixtures (cd_baseline d)). \<exists>a \<in> set (es_fixtures baseline). lineageMatches e a) \<and>
    (\<forall>e \<in> set (sub_fixtures (cd_candidate d)). \<exists>a \<in> set (es_fixtures candidate). lineageMatches e a)" (is "?all \<longleftrightarrow> ?same")
proof -
  have maps: "mapOf subjectFixtureId (sub_fixtures (cd_baseline d)) i = Some e \<longleftrightarrow> e \<in> set (sub_fixtures (cd_baseline d)) \<and> subjectFixtureId e = i"
    "mapOf subjectFixtureId (sub_fixtures (cd_candidate d)) i = Some e \<longleftrightarrow> e \<in> set (sub_fixtures (cd_candidate d)) \<and> subjectFixtureId e = i"
    "mapOf evidenceFixtureId (es_fixtures baseline) i = Some a \<longleftrightarrow> a \<in> set (es_fixtures baseline) \<and> evidenceFixtureId a = i"
    "mapOf evidenceFixtureId (es_fixtures candidate) i = Some a \<longleftrightarrow> a \<in> set (es_fixtures candidate) \<and> evidenceFixtureId a = i" for i e a
    using assms by (simp_all add: oneVersionEach_def mapOf_distinct)
  have unique: "e = e'" if "{e, e'} \<subseteq> set (sub_fixtures (cd_baseline d)) \<or> {e, e'} \<subseteq> set (sub_fixtures (cd_candidate d))"
      "subjectFixtureId e = subjectFixtureId e'" for e e'
    using that assms by (auto simp: oneVersionEach_def distinct_map inj_on_def)
  note compared = fixtureCompared_def maps
  show ?thesis
  proof
    assume all: ?all
    have left: "\<exists>ce \<in> set (sub_fixtures (cd_candidate d)). sf_fixture ce = sf_fixture e \<and> (\<exists>a \<in> set (es_fixtures baseline). lineageMatches e a)"
      if "e \<in> set (sub_fixtures (cd_baseline d))" for e
    proof -
      have "fixtureCompared d baseline candidate (subjectFixtureId e)" using all that by blast
      then obtain be ce b where "be \<in> set (sub_fixtures (cd_baseline d))" "subjectFixtureId be = subjectFixtureId e"
        "ce \<in> set (sub_fixtures (cd_candidate d))" "b \<in> set (es_fixtures baseline)" "lineageMatches be b" "sf_fixture be = sf_fixture ce"
        unfolding compared by blast
      moreover from this have "be = e" using that by (intro unique) auto
      ultimately show ?thesis by auto
    qed
    have right: "\<exists>be \<in> set (sub_fixtures (cd_baseline d)). sf_fixture be = sf_fixture e \<and> (\<exists>a \<in> set (es_fixtures candidate). lineageMatches e a)"
      if "e \<in> set (sub_fixtures (cd_candidate d))" for e
    proof -
      have "fixtureCompared d baseline candidate (subjectFixtureId e)" using all that by blast
      then obtain be ce c where "be \<in> set (sub_fixtures (cd_baseline d))" "subjectFixtureId ce = subjectFixtureId e"
        "ce \<in> set (sub_fixtures (cd_candidate d))" "c \<in> set (es_fixtures candidate)" "lineageMatches ce c" "sf_fixture be = sf_fixture ce"
        unfolding compared by blast
      moreover from this have "ce = e" using that by (intro unique) auto
      ultimately show ?thesis by auto
    qed
    have "sf_fixture e \<in> sf_fixture ` set (sub_fixtures (cd_candidate d))" if "e \<in> set (sub_fixtures (cd_baseline d))" for e
      using left [OF that] by (metis imageI)
    moreover have "sf_fixture e \<in> sf_fixture ` set (sub_fixtures (cd_baseline d))" if "e \<in> set (sub_fixtures (cd_candidate d))" for e
      using right [OF that] by (metis imageI)
    ultimately show ?same using left right by blast
  next
    assume same: ?same
    have "fixtureCompared d baseline candidate i"
      if pair: "be \<in> set (sub_fixtures (cd_baseline d))" "ce \<in> set (sub_fixtures (cd_candidate d))" "sf_fixture be = sf_fixture ce"
        "subjectFixtureId be = i" for be ce i
    proof -
      obtain b c where "b \<in> set (es_fixtures baseline)" "lineageMatches be b" "c \<in> set (es_fixtures candidate)" "lineageMatches ce c"
        using same pair(1,2) by blast
      then show ?thesis
        unfolding compared using pair lineage_fixture same_fixture [OF pair(3)]
        by (intro exI [of _ be] exI [of _ ce] exI [of _ b] exI [of _ c]) simp
    qed
    moreover have "\<exists>be ce. be \<in> set (sub_fixtures (cd_baseline d)) \<and> ce \<in> set (sub_fixtures (cd_candidate d)) \<and>
        sf_fixture be = sf_fixture ce \<and> subjectFixtureId be = i"
      if member: "i \<in> subjectFixtureId ` (set (sub_fixtures (cd_baseline d)) \<union> set (sub_fixtures (cd_candidate d)))" for i
    proof -
      obtain e where e: "e \<in> set (sub_fixtures (cd_baseline d)) \<union> set (sub_fixtures (cd_candidate d))" "subjectFixtureId e = i"
        using member by auto
      have images: "sf_fixture ` set (sub_fixtures (cd_baseline d)) = sf_fixture ` set (sub_fixtures (cd_candidate d))" using same by blast
      show ?thesis
      proof (cases "e \<in> set (sub_fixtures (cd_baseline d))")
        case True
        then obtain ce where "ce \<in> set (sub_fixtures (cd_candidate d))" "sf_fixture e = sf_fixture ce" using images by blast
        then show ?thesis using True e(2) by blast
      next
        case False
        then obtain be where "be \<in> set (sub_fixtures (cd_baseline d))" "sf_fixture be = sf_fixture e" using e(1) images by (metis UnE imageE imageI)
        then show ?thesis using False e same_fixture by blast
      qed
    qed
    ultimately show ?all by blast
  qed
qed

lemma compared_iff:
  assumes "pairingAdmitted nfc isoDatetime d baseline candidate"
  shows "acceptedFixture d baseline candidate i \<and> \<not> fixturesDiffer (pairedFixtures baseline candidate i) \<longleftrightarrow> fixtureCompared d baseline candidate i"
proof -
  have subset: "evidenceFixtureId ` set (es_fixtures baseline) \<subseteq> subjectFixtureId ` set (sub_fixtures (cd_baseline d))"
    "evidenceFixtureId ` set (es_fixtures candidate) \<subseteq> subjectFixtureId ` set (sub_fixtures (cd_candidate d))"
    using assms by (auto simp: pairingAdmitted_def)
  show ?thesis
  proof (cases "mapOf evidenceFixtureId (es_fixtures baseline) i = None \<or> mapOf evidenceFixtureId (es_fixtures candidate) i = None")
    case False
    then obtain b c where bc: "mapOf evidenceFixtureId (es_fixtures baseline) i = Some b" "mapOf evidenceFixtureId (es_fixtures candidate) i = Some c"
      by auto
    moreover from this obtain be ce where e: "mapOf subjectFixtureId (sub_fixtures (cd_baseline d)) i = Some be"
      "mapOf subjectFixtureId (sub_fixtures (cd_candidate d)) i = Some ce"
      using subset mapOf_Some [OF bc(1)] mapOf_Some [OF bc(2)] by (metis image_subset_iff mapOf_None not_None_eq)
    moreover have "RegressionFixtureVersionReferenceSchema (ef_fixture b)" "RegressionFixtureVersionReferenceSchema (ef_fixture c)"
      using mapOf_Some [OF bc(1)] mapOf_Some [OF bc(2)] admitted_schemas(2) [OF assms, of b] admitted_schemas(2) [OF assms, of c]
      by (auto simp: ComparisonEvidenceFixtureSnapshotSchema_def)
    moreover have "fixtureIntegrityReasons be b = [] \<longleftrightarrow> lineageMatches be b" "fixtureIntegrityReasons ce c = [] \<longleftrightarrow> lineageMatches ce c"
      using mapOf_Some [OF bc(1)] mapOf_Some [OF bc(2)] mapOf_Some [OF e(1)] mapOf_Some [OF e(2)]
      by (auto intro!: integrity_iff admitted_schemas [OF assms])
    ultimately show ?thesis
      by (auto simp: acceptedFixture_def fixtureAccepted_def roleReasons_def fixtureCompared_def pairedFixtures_def key_injective(3) lineageMatches_def)
  qed (auto simp: acceptedFixture_def fixtureAccepted_def fixtureCompared_def)
qed

lemma unflagged_iff: "assuranceReasons a = [] \<longleftrightarrow> assuranceUnflagged a"
  by (auto simp: assuranceReasons_def assuranceUnflagged_def split: AssuranceReference.splits)

lemma unpaired_cases: "isInvalid x \<or> isBaselineOnly x \<or> isCandidateOnly x \<longleftrightarrow> \<not> isPaired x"
  by (cases x) auto

lemma no_reasons_iff:
  assumes "pairingAdmitted nfc isoDatetime d baseline candidate"
  shows "comparabilityReasons d cases baseline candidate = [] \<longleftrightarrow>
    sub_dataset (cd_baseline d) = sub_dataset (cd_candidate d) \<and> (\<forall>x \<in> set cases. isPaired x \<and> \<not> fixturesDiffer x) \<and>
    (\<forall>f \<in> set (es_fixtures baseline) \<union> set (es_fixtures candidate). \<forall>a \<in> set (ef_assurance f). assuranceUnflagged a)"
proof -
  have dataset: "exactDatasetKey (sub_dataset (cd_baseline d)) = exactDatasetKey (sub_dataset (cd_candidate d)) \<longleftrightarrow>
      sub_dataset (cd_baseline d) = sub_dataset (cd_candidate d)"
    by (rule key_injective(4) [OF admitted_schemas(3,4) [OF assms]])
  have coverage: "\<not> int (length cases) * 10000 < int (length cases) * cd_minimumPairedCoverageBasisPoints d"
    using admitted_schemas(5) [OF assms] by (simp add: mult_left_mono not_less)
  have all: "\<not> list_ex isInvalid cases \<and> \<not> list_ex (\<lambda>c. isBaselineOnly c \<or> isCandidateOnly c) cases \<longleftrightarrow> (\<forall>x \<in> set cases. isPaired x)"
    using unpaired_cases by (auto simp: list_ex_iff)
  have "filter isPaired cases = cases" if "\<forall>x \<in> set cases. isPaired x" using that by (simp add: filter_True)
  then show ?thesis
    unfolding comparabilityReasons_def Let_def sortedSet_Nil
    using dataset coverage all by (auto simp: unflagged_iff list_ex_iff)
qed

section \<open>Properties\<close>

text \<open>
  C29. Pairing accounts for every logical fixture. It succeeds exactly on admitted inputs and never fails on
  its own results: a valid definition, a valid snapshot of each role in the scope of the definition, bound
  to it and to the dataset of its subject, two different snapshots, and no fixture outside the subject. The
  cases then are one per logical fixture of either subject, in code unit order. Each is classified by what
  the snapshots retain: paired when both retain the fixture with the lineage they are bound to, baseline
  only or candidate only when just that side retains it so, invalid when neither does or a side retains it
  with another lineage; and it carries the retained versions and the reason of the missing side, or the
  integrity reasons. Each of the four counts is the number of logical fixtures in that state, and together
  they make the requested count, which is the number of logical fixtures. Where a subject or a snapshot names
  a logical fixture in several versions, the last one is the one that is bound or retained.
\<close>

theorem pairing_accounts_for_every_fixture:
  "(case pairComparisonEvidence nfc isoDatetime d baseline candidate of
      Inl e \<Rightarrow> \<not> pairingAdmitted nfc isoDatetime d baseline candidate \<and> e \<noteq> PairingZodError
    | Inr r \<Rightarrow>
       (let fixtures = subjectFixtureId ` (set (sub_fixtures (cd_baseline d)) \<union> set (sub_fixtures (cd_candidate d)));
            inState = (\<lambda>state. int (card {i \<in> fixtures. evidenceState d baseline candidate i = state}))
        in pairingAdmitted nfc isoDatetime d baseline candidate \<and>
           map caseFixtureId (pr_cases r) = sorted_list_of_set fixtures \<and>
           list_all (caseDescribes d baseline candidate) (pr_cases r) \<and>
           list_all (\<lambda>x. isPaired x = acceptedFixture d baseline candidate (caseFixtureId x)) (pr_cases r) \<and>
           ps_pairedCount (pr_pairing r) = inState BothRetained \<and>
           ps_baselineOnlyCount (pr_pairing r) = inState BaselineRetained \<and>
           ps_candidateOnlyCount (pr_pairing r) = inState CandidateRetained \<and>
           ps_invalidCount (pr_pairing r) = inState Unusable \<and>
           ps_requestedCount (pr_pairing r) = int (card fixtures) \<and>
           ps_baselineOnlyCount (pr_pairing r) + ps_candidateOnlyCount (pr_pairing r) + ps_invalidCount (pr_pairing r) +
             ps_pairedCount (pr_pairing r) = int (length (pr_cases r))))"
proof (cases "pairingAdmitted nfc isoDatetime d baseline candidate")
  case True
  obtain r where r: "pairComparisonEvidence nfc isoDatetime d baseline candidate = Inr r"
    "map caseFixtureId (pr_cases r) = comparisonFixtureIds d"
    "\<And>x. x \<in> set (pr_cases r) \<Longrightarrow> isPaired x \<longleftrightarrow> acceptedFixture d baseline candidate (caseFixtureId x)"
    "pr_pairing r = summarizeCases (pr_cases r)"
    using pair_runs [OF True] by metis
  note described = pair_described [OF r(1) True]
  have keys: "distinct (map caseFixtureId (pr_cases r))" unfolding r(2) fixture_ids_sorted by simp
  have fixtures: "caseFixtureId ` set (pr_cases r) = subjectFixtureId ` (set (sub_fixtures (cd_baseline d)) \<union> set (sub_fixtures (cd_candidate d)))"
    using arg_cong [OF r(2), of set] fixture_ids_set by simp
  have kinds: "isPaired x \<longleftrightarrow> evidenceState d baseline candidate (caseFixtureId x) = BothRetained"
    "isBaselineOnly x \<longleftrightarrow> evidenceState d baseline candidate (caseFixtureId x) = BaselineRetained"
    "isCandidateOnly x \<longleftrightarrow> evidenceState d baseline candidate (caseFixtureId x) = CandidateRetained"
    "isInvalid x \<longleftrightarrow> evidenceState d baseline candidate (caseFixtureId x) = Unusable" if "x \<in> set (pr_cases r)" for x
    using described_kinds described that by (metis list_all_iff)+
  let ?F = "subjectFixtureId ` (set (sub_fixtures (cd_baseline d)) \<union> set (sub_fixtures (cd_candidate d)))"
  have counts: "length (filter isPaired (pr_cases r)) = card {i \<in> ?F. evidenceState d baseline candidate i = BothRetained}"
    "length (filter isBaselineOnly (pr_cases r)) = card {i \<in> ?F. evidenceState d baseline candidate i = BaselineRetained}"
    "length (filter isCandidateOnly (pr_cases r)) = card {i \<in> ?F. evidenceState d baseline candidate i = CandidateRetained}"
    "length (filter isInvalid (pr_cases r)) = card {i \<in> ?F. evidenceState d baseline candidate i = Unusable}"
    unfolding fixtures [symmetric]
    by (rule filter_by_key [OF keys], rule kinds(1), assumption, rule filter_by_key [OF keys], rule kinds(2), assumption,
        rule filter_by_key [OF keys], rule kinds(3), assumption, rule filter_by_key [OF keys], rule kinds(4), assumption)
  have "length (pr_cases r) = card (subjectFixtureId ` (set (sub_fixtures (cd_baseline d)) \<union> set (sub_fixtures (cd_candidate d))))"
    using distinct_card [OF keys] fixtures by simp
  then show ?thesis
    using True r described counts counts_partition [of "pr_cases r"]
    by (simp add: fixture_ids_sorted list_all_iff summarizeCases_def)
next
  case False
  then obtain e where e: "pairComparisonEvidence nfc isoDatetime d baseline candidate = Inl e"
    using pair_admitted by (cases "pairComparisonEvidence nfc isoDatetime d baseline candidate") auto
  then show ?thesis using False admission_error by simp
qed

lemma comparable_iff:
  assumes True: "pairingAdmitted nfc isoDatetime d baseline candidate"
  shows "(\<exists>r. pairComparisonEvidence nfc isoDatetime d baseline candidate = Inr r \<and> cmp_status (pr_comparability r) = Comparable) \<longleftrightarrow>
    sub_dataset (cd_baseline d) = sub_dataset (cd_candidate d) \<and>
    (\<forall>i \<in> subjectFixtureId ` (set (sub_fixtures (cd_baseline d)) \<union> set (sub_fixtures (cd_candidate d))).
       fixtureCompared d baseline candidate i) \<and>
    (\<forall>f \<in> set (es_fixtures baseline) \<union> set (es_fixtures candidate). \<forall>a \<in> set (ef_assurance f). assuranceUnflagged a)"
proof -
  obtain r where r: "pairComparisonEvidence nfc isoDatetime d baseline candidate = Inr r"
    "map caseFixtureId (pr_cases r) = comparisonFixtureIds d"
    "\<And>x. x \<in> set (pr_cases r) \<Longrightarrow> isPaired x \<longleftrightarrow> acceptedFixture d baseline candidate (caseFixtureId x)"
    "\<And>x. x \<in> set (pr_cases r) \<Longrightarrow> isPaired x \<Longrightarrow> x = pairedFixtures baseline candidate (caseFixtureId x)"
    "deriveComparability d (pr_cases r) baseline candidate = Inr (pr_comparability r)"
    using pair_runs [OF True] by metis
  have ids: "subjectFixtureId ` (set (sub_fixtures (cd_baseline d)) \<union> set (sub_fixtures (cd_candidate d))) = caseFixtureId ` set (pr_cases r)"
    using fixture_ids_set r(2) by (metis set_map)
  have "isPaired x \<and> \<not> fixturesDiffer x \<longleftrightarrow> fixtureCompared d baseline candidate (caseFixtureId x)" if "x \<in> set (pr_cases r)" for x
    using r(3,4) [OF that] compared_iff [OF True, of "caseFixtureId x"] by metis
  then have "comparabilityReasons d (pr_cases r) baseline candidate = [] \<longleftrightarrow>
      sub_dataset (cd_baseline d) = sub_dataset (cd_candidate d) \<and>
      (\<forall>i \<in> caseFixtureId ` set (pr_cases r). fixtureCompared d baseline candidate i) \<and>
      (\<forall>f \<in> set (es_fixtures baseline) \<union> set (es_fixtures candidate). \<forall>a \<in> set (ef_assurance f). assuranceUnflagged a)"
    unfolding no_reasons_iff [OF True] by auto
  then show ?thesis unfolding ids using r(1,5) status_comparable by simp
qed

section \<open>Two versions of one logical fixture\<close>

text \<open>
  Subjects are ordered by fixture and version, so a subject may bind two versions of one logical fixture.
  The maps of pairing are keyed by the logical fixture alone and keep the last version only.
\<close>

definition comparisonHash :: string where
  "comparisonHash = replicate 64 CHR ''a''"

definition sampleReplay :: "string \<Rightarrow> EvaluationReplayResultReference" where
  "sampleReplay job =
     \<lparr>rrr_attemptId = ''attempt1'', rrr_completedAt = ''2026-01-01T00:00:00Z'', rrr_jobId = job,
      rrr_plan = \<lparr>planref_definitionSha256 = comparisonHash, planref_planId = ''plan1'', planref_planVersionId = ''plan1v1''\<rparr>,
      rrr_result = \<lparr>content_artifactId = ''artifact1'', content_classification = Internal, content_mediaType = ''text/plain'',
        content_redactedAt = None, content_sha256 = comparisonHash, content_sizeBytes = 1\<rparr>,
      rrr_targetRelease = \<lparr>target_definitionSha256 = comparisonHash,
        target_targetAdapter = \<lparr>adapter_name = ''adapter'', adapter_protocolVersion = ''1.0.0'', adapter_version = ''1.0.0''\<rparr>, target_targetId = ''target1'',
        target_targetReleaseId = ''release1'', target_workerProtocol = \<lparr>wproto_name = ''protocol'', wproto_version = ''1.0.0''\<rparr>\<rparr>\<rparr>"

definition sampleVersion :: "string \<Rightarrow> RegressionFixtureVersionReference" where
  "sampleVersion version = \<lparr>fx_definitionSha256 = comparisonHash, fx_fixtureId = ''fixture1'', fx_fixtureVersionId = version\<rparr>"

definition sampleSubject :: "string list \<Rightarrow> string \<Rightarrow> ComparisonSubject" where
  "sampleSubject versions job =
     \<lparr>sub_dataset = \<lparr>dv_datasetId = ''dataset1'', dv_datasetVersionId = ''dataset1v1'', dv_definitionSha256 = comparisonHash\<rparr>,
      sub_fixtures = map (\<lambda>v. \<lparr>sf_assessments = [], sf_fixture = sampleVersion v, sf_modelAssuranceAssessments = [], sf_replay = sampleReplay job\<rparr>)
        versions\<rparr>"

definition sampleComparison :: "string list \<Rightarrow> ComparisonDefinition" where
  "sampleComparison versions =
     \<lparr>cd_baseline = sampleSubject versions ''jobbefore'', cd_minimumPairedCoverageBasisPoints = 10000,
      cd_candidate = sampleSubject versions ''jobafter'',
      cd_comparisonId = ''comparison1'', cd_comparisonVersionId = ''comparison1v1'', cd_description = None,
      cd_metrics = [\<lparr>met_label = [0x61], met_metricId = ''metric1'', met_stratumId = ''stratum1'', met_body = ArtifactSet\<rparr>],
      cd_name = [0x61], cd_predecessor = None,
      cd_strata = [\<lparr>str_fixtureIds = [''fixture1''], str_label = [0x61], str_stratumId = ''stratum1''\<rparr>],
      cd_createdAt = 0, cd_createdByPrincipalId = ''principal1'', cd_definitionSha256 = comparisonHash,
      cd_scope = \<lparr>environmentId = ''production'', projectId = ''project1'', tenantId = ''tenant1''\<rparr>\<rparr>"

abbreviation "currentOnly \<equiv> [''version2'']"

abbreviation "bothVersions \<equiv> [''version1'', ''version2'']"

definition sampleSnapshot :: "ComparisonRole \<Rightarrow> string \<Rightarrow> string \<Rightarrow> ComparisonEvidenceSnapshot" where
  "sampleSnapshot role snapshotId job =
     \<lparr>es_comparison = exactComparisonReference (sampleComparison []), es_dataset = sub_dataset (sampleSubject [] job),
      es_fixtures = [\<lparr>ef_artifacts = [], ef_assurance = [], ef_evaluationOutcomes = [], ef_fixture = sampleVersion ''version2'',
        ef_numericObservations = [], ef_replay = sampleReplay job, ef_safetyEvents = [],
        ef_trace = \<lparr>ts_eventCount = 0, ts_eventKinds = [], ts_eventKindStatuses = [], ts_eventStatuses = []\<rparr>, ef_usage = []\<rparr>],
      es_knownLimitations = [], es_omissions = [], es_role = role, es_snapshotId = snapshotId, es_sourceCutoff = 0, es_createdAt = 0,
      es_createdByPrincipalId = ''principal1'', es_definitionSha256 = comparisonHash, es_scope = cd_scope (sampleComparison [])\<rparr>"

lemma comparison_references:
  "Sha256Schema comparisonHash" "OpaqueIdSchema ''fixture1''" "OpaqueIdSchema ''version1''" "OpaqueIdSchema ''version2''"
  "OpaqueIdSchema ''jobbefore''" "OpaqueIdSchema ''jobafter''" "OpaqueIdSchema ''snapbefore''" "OpaqueIdSchema ''snapafter''"
  "OpaqueIdSchema ''principal1''" "OpaqueIdSchema ''comparison1''" "OpaqueIdSchema ''comparison1v1''" "OpaqueIdSchema ''metric1''"
  "OpaqueIdSchema ''stratum1''"
  "EvaluationDatasetVersionReferenceSchema (sub_dataset (sampleSubject [] job))" "EvidenceScopeSchema (cd_scope (sampleComparison []))"
  by code_simp+

lemma sample_replay: "OpaqueIdSchema job \<Longrightarrow> EvaluationReplayResultReferenceSchema (\<lambda>_. True) (sampleReplay job)"
proof -
  have "EvaluationReplayResultReferenceSchema (\<lambda>_. True) (sampleReplay ''jobbefore'')" by code_simp
  then show "OpaqueIdSchema job \<Longrightarrow> ?thesis" by (simp add: EvaluationReplayResultReferenceSchema_def sampleReplay_def)
qed

lemma sample_version: "version \<in> {''version1'', ''version2''} \<Longrightarrow> RegressionFixtureVersionReferenceSchema (sampleVersion version)"
  by (auto simp: RegressionFixtureVersionReferenceSchema_def sampleVersion_def comparison_references)

lemma sample_subject:
  "OpaqueIdSchema job \<Longrightarrow> ComparisonSubjectSchema (\<lambda>_. True) (sampleSubject bothVersions job)"
  "OpaqueIdSchema job \<Longrightarrow> ComparisonSubjectSchema (\<lambda>_. True) (sampleSubject currentOnly job)"
proof -
  have "sortedUnique [fixtureVersionKey (sampleVersion ''version1''), fixtureVersionKey (sampleVersion ''version2'')]" by code_simp
  moreover have "EvaluationDatasetVersionReferenceSchema (sub_dataset (sampleSubject versions job))" for versions
    using comparison_references(14) [of job] by (simp add: sampleSubject_def)
  ultimately show "OpaqueIdSchema job \<Longrightarrow> ComparisonSubjectSchema (\<lambda>_. True) (sampleSubject bothVersions job)"
    "OpaqueIdSchema job \<Longrightarrow> ComparisonSubjectSchema (\<lambda>_. True) (sampleSubject currentOnly job)"
    by (simp_all add: ComparisonSubjectSchema_def sampleSubject_def ComparisonSubjectFixtureSchema_def exactAssessmentReferences_def
        exactModelAssuranceReferences_def sample_version sample_replay sortedUnique_iff MAX_COMPARISON_SUBJECT_FIXTURES_def)
qed

lemma sample_definition:
  "ComparisonDefinitionRecordSchema (\<lambda>x. x) (\<lambda>_. True) (sampleComparison bothVersions)"
  "ComparisonDefinitionRecordSchema (\<lambda>x. x) (\<lambda>_. True) (sampleComparison currentOnly)"
proof -
  have labels: "AssuranceSummarySchema (\<lambda>x. x) [0x61]"
    by (simp add: AssuranceSummarySchema_def boundedCanonicalText_def js_trim_def js_whitespace_def containsUnsafeDisplayControl_def
        unicodeScalarLength_def)
  have "EvidenceScopeSchema (cd_scope (sampleComparison versions))" for versions
    using comparison_references(15) by (simp add: sampleComparison_def)
  moreover have "ComparisonDefinitionRecordSchema (\<lambda>x. x) (\<lambda>_. True) (sampleComparison versions)"
    if subjects: "ComparisonSubjectSchema (\<lambda>_. True) (sampleSubject versions ''jobbefore'')"
      "ComparisonSubjectSchema (\<lambda>_. True) (sampleSubject versions ''jobafter'')"
      and versions: "versions = bothVersions \<or> versions = currentOnly"
      and scope: "EvidenceScopeSchema (cd_scope (sampleComparison versions))" for versions
    using subjects scope comparison_references(1-13) labels versions
    by (simp add: ComparisonDefinitionRecordSchema_def sampleComparison_def ComparisonMetricSchema_def ComparisonStratumSchema_def
        sortedUnique_iff MAX_COMPARISON_METRICS_def MAX_COMPARISON_STRATA_def MAX_COMPARISON_SUBJECT_FIXTURES_def
        UtcMillisecondTimestampSchema_def MIN_UTC_MS_def MAX_UTC_MS_def refineComparisonDefinition_def refineComparisonPopulation_def
        subjectFixtureIdList_def)
      (auto simp: sampleSubject_def sampleVersion_def sampleReplay_def)
  ultimately show "ComparisonDefinitionRecordSchema (\<lambda>x. x) (\<lambda>_. True) (sampleComparison bothVersions)"
    "ComparisonDefinitionRecordSchema (\<lambda>x. x) (\<lambda>_. True) (sampleComparison currentOnly)"
    using sample_subject comparison_references(5,6) by blast+
qed

lemma sample_snapshot:
  "OpaqueIdSchema snapshotId \<Longrightarrow> OpaqueIdSchema job \<Longrightarrow>
   ComparisonEvidenceSnapshotSchema (\<lambda>x. x) (\<lambda>_. True) (sampleSnapshot role snapshotId job)"
proof -
  have "ComparisonDefinitionReferenceSchema (exactComparisonReference (sampleComparison []))" by code_simp
  moreover have "ComparisonTraceStructureSchema \<lparr>ts_eventCount = 0, ts_eventKinds = [], ts_eventKindStatuses = [], ts_eventStatuses = []\<rparr>"
    by code_simp
  ultimately show "OpaqueIdSchema snapshotId \<Longrightarrow> OpaqueIdSchema job \<Longrightarrow> ?thesis"
    using comparison_references
    by (simp add: ComparisonEvidenceSnapshotSchema_def sampleSnapshot_def ComparisonEvidenceFixtureSnapshotSchema_def
        sortedUnique_iff MAX_COMPARISON_SUBJECT_FIXTURES_def sample_version sample_replay refineComparisonEvidenceSnapshot_def
        UtcMillisecondTimestampSchema_def MIN_UTC_MS_def MAX_UTC_MS_def)
qed

abbreviation "sampleBaseline \<equiv> sampleSnapshot BaselineRole ''snapbefore'' ''jobbefore''"

abbreviation "sampleCandidate \<equiv> sampleSnapshot CandidateRole ''snapafter'' ''jobafter''"

lemma sample_admitted:
  "pairingAdmitted (\<lambda>x. x) (\<lambda>_. True) (sampleComparison bothVersions) sampleBaseline sampleCandidate"
  "pairingAdmitted (\<lambda>x. x) (\<lambda>_. True) (sampleComparison currentOnly) sampleBaseline sampleCandidate"
proof -
  have "ComparisonEvidenceSnapshotSchema (\<lambda>x. x) (\<lambda>_. True) sampleBaseline" "ComparisonEvidenceSnapshotSchema (\<lambda>x. x) (\<lambda>_. True) sampleCandidate"
    using sample_snapshot comparison_references by blast+
  then have "pairingAdmitted (\<lambda>x. x) (\<lambda>_. True) (sampleComparison (version # versions)) sampleBaseline sampleCandidate"
    if "ComparisonDefinitionRecordSchema (\<lambda>x. x) (\<lambda>_. True) (sampleComparison (version # versions))" for version versions
    using that
    by (simp add: pairingAdmitted_def) (simp add: sampleSnapshot_def sampleComparison_def sampleSubject_def evidenceFixtureId_def
        subjectFixtureId_def sampleVersion_def exactComparisonReference_def)
  then show "pairingAdmitted (\<lambda>x. x) (\<lambda>_. True) (sampleComparison bothVersions) sampleBaseline sampleCandidate"
    "pairingAdmitted (\<lambda>x. x) (\<lambda>_. True) (sampleComparison currentOnly) sampleBaseline sampleCandidate"
    using sample_definition by simp_all
qed

lemma sample_last_version:
  "mapOf evidenceFixtureId (es_fixtures (sampleSnapshot role snapshotId job)) ''fixture1'' = Some (es_fixtures (sampleSnapshot role snapshotId job) ! 0)"
  "mapOf subjectFixtureId (sub_fixtures (sampleSubject bothVersions job)) ''fixture1'' = Some (sub_fixtures (sampleSubject bothVersions job) ! 1)"
  by (simp_all add: mapOf_def sampleSnapshot_def evidenceFixtureId_def sampleVersion_def sampleSubject_def subjectFixtureId_def)

lemma sample_lineage:
  "lineageMatches (sub_fixtures (sampleSubject bothVersions job) ! 1) (es_fixtures (sampleSnapshot role snapshotId job) ! 0)"
  by (simp add: lineageMatches_def sampleSubject_def sampleSnapshot_def)

text \<open>
  Both subjects bind the versions \<open>version1\<close> and \<open>version2\<close> of one logical fixture and neither snapshot retains
  \<open>version1\<close>, yet the inputs are admitted, the one case pairs \<open>version2\<close> and the sides are reported comparable: the evidence of the other
  version is missing on both sides and nothing says so.
\<close>

theorem dropped_fixture_version_comparable:
  "sampleVersion ''version1'' \<in> sf_fixture ` set (sub_fixtures (cd_baseline (sampleComparison bothVersions))) \<and>
   ef_fixture ` set (es_fixtures sampleBaseline) = {sampleVersion ''version2''} \<and>
   ef_fixture ` set (es_fixtures sampleCandidate) = {sampleVersion ''version2''} \<and>
   (\<exists>r. pairComparisonEvidence (\<lambda>x. x) (\<lambda>_. True) (sampleComparison bothVersions) sampleBaseline sampleCandidate = Inr r \<and>
      pr_cases r = [PairedCase ''fixture1'' (sampleVersion ''version2'') (sampleVersion ''version2'')] \<and>
      cmp_status (pr_comparability r) = Comparable)"
proof (intro conjI)
  let ?d = "sampleComparison bothVersions"
  show "sampleVersion ''version1'' \<in> sf_fixture ` set (sub_fixtures (cd_baseline ?d))"
    by (simp add: sampleComparison_def sampleSubject_def)
  show "ef_fixture ` set (es_fixtures sampleBaseline) = {sampleVersion ''version2''}"
    "ef_fixture ` set (es_fixtures sampleCandidate) = {sampleVersion ''version2''}" by (simp_all add: sampleSnapshot_def)
  have compared: "fixtureCompared ?d sampleBaseline sampleCandidate ''fixture1''"
    using sample_last_version sample_lineage unfolding fixtureCompared_def
    by (intro exI [of _ "sub_fixtures (sampleSubject bothVersions ''jobbefore'') ! 1"] exI [of _ "sub_fixtures (sampleSubject bothVersions ''jobafter'') ! 1"]
        exI [of _ "es_fixtures sampleBaseline ! 0"] exI [of _ "es_fixtures sampleCandidate ! 0"])
      (simp add: sampleComparison_def sampleSubject_def)
  have fixtures: "subjectFixtureId ` (set (sub_fixtures (cd_baseline ?d)) \<union> set (sub_fixtures (cd_candidate ?d))) = {''fixture1''}"
    by (simp add: sampleComparison_def sampleSubject_def subjectFixtureId_def sampleVersion_def)
  have "sub_dataset (cd_baseline ?d) = sub_dataset (cd_candidate ?d)" by (simp add: sampleComparison_def sampleSubject_def)
  moreover have "\<forall>f \<in> set (es_fixtures sampleBaseline) \<union> set (es_fixtures sampleCandidate). \<forall>a \<in> set (ef_assurance f). assuranceUnflagged a"
    by (simp add: sampleSnapshot_def)
  ultimately have "\<exists>r. pairComparisonEvidence (\<lambda>x. x) (\<lambda>_. True) ?d sampleBaseline sampleCandidate = Inr r \<and>
      cmp_status (pr_comparability r) = Comparable"
    unfolding comparable_iff [OF sample_admitted(1)] fixtures using compared by simp
  then obtain r where r: "pairComparisonEvidence (\<lambda>x. x) (\<lambda>_. True) ?d sampleBaseline sampleCandidate = Inr r"
    "cmp_status (pr_comparability r) = Comparable" by blast
  obtain r' where r': "pairComparisonEvidence (\<lambda>x. x) (\<lambda>_. True) ?d sampleBaseline sampleCandidate = Inr r'"
    "map caseFixtureId (pr_cases r') = comparisonFixtureIds ?d"
    "\<And>x. x \<in> set (pr_cases r') \<Longrightarrow> isPaired x \<longleftrightarrow> acceptedFixture ?d sampleBaseline sampleCandidate (caseFixtureId x)"
    "\<And>x. x \<in> set (pr_cases r') \<Longrightarrow> isPaired x \<Longrightarrow> x = pairedFixtures sampleBaseline sampleCandidate (caseFixtureId x)"
    using pair_runs [OF sample_admitted(1)] by metis
  have "comparisonFixtureIds ?d = [''fixture1'']" unfolding fixture_ids_sorted fixtures by simp
  then obtain x where x: "pr_cases r' = [x]" "caseFixtureId x = ''fixture1''" using r'(2) by (auto simp: map_eq_Cons_conv)
  moreover have "acceptedFixture ?d sampleBaseline sampleCandidate ''fixture1''"
    using compared compared_iff [OF sample_admitted(1)] by blast
  ultimately have "x = pairedFixtures sampleBaseline sampleCandidate ''fixture1''" using r'(3,4) by simp
  moreover have "ef_fixture (es_fixtures (sampleSnapshot role snapshotId job) ! 0) = sampleVersion ''version2''" for role snapshotId job
    by (simp add: sampleSnapshot_def)
  ultimately have "pr_cases r' = [PairedCase ''fixture1'' (sampleVersion ''version2'') (sampleVersion ''version2'')]"
    using x(1) sample_last_version(1) by (simp add: pairedFixtures_def)
  then show "\<exists>r. pairComparisonEvidence (\<lambda>x. x) (\<lambda>_. True) ?d sampleBaseline sampleCandidate = Inr r \<and>
      pr_cases r = [PairedCase ''fixture1'' (sampleVersion ''version2'') (sampleVersion ''version2'')] \<and>
      cmp_status (pr_comparability r) = Comparable"
    using r r'(1) by auto
qed

text \<open>
  C30. Two sides are comparable exactly when nothing is missing. Let each subject and each snapshot name every
  logical fixture in one version. Then pairing reports \<open>comparable\<close> if and only if its inputs are admitted,
  both subjects use the same dataset version and bind the same fixture versions, every bound fixture of
  either subject is retained by its snapshot with exactly the fixture version, replay, assessments and
  assurance assessments it is bound to, and no retained assurance carries critical counterevidence or
  unsupported statistical assumptions. The hypothesis is needed: where a subject binds two versions of one
  logical fixture only the last one is compared, and \<open>comparable\<close> is reported with the other one missing
  (\<open>dropped_fixture_version_comparable\<close>).
\<close>

theorem comparable_exactly_when_complete:
  assumes "oneVersionEach d baseline candidate"
  shows "(\<exists>r. pairComparisonEvidence nfc isoDatetime d baseline candidate = Inr r \<and> cmp_status (pr_comparability r) = Comparable) \<longleftrightarrow>
     pairingAdmitted nfc isoDatetime d baseline candidate \<and> evidenceComparable d baseline candidate"
proof (cases "pairingAdmitted nfc isoDatetime d baseline candidate")
  case True
  then show ?thesis
    unfolding comparable_iff [OF True] every_fixture_compared [OF assms] evidenceComparable_def by blast
next
  case False
  then show ?thesis using pair_admitted by blast
qed

theorem comparable_exactly_when_complete_witness:
  "\<exists>r. pairComparisonEvidence (\<lambda>x. x) (\<lambda>_. True) (sampleComparison currentOnly) sampleBaseline sampleCandidate = Inr r \<and>
     cmp_status (pr_comparability r) = Comparable"
proof -
  have "oneVersionEach (sampleComparison currentOnly) sampleBaseline sampleCandidate"
    by (simp add: oneVersionEach_def sampleComparison_def sampleSubject_def sampleSnapshot_def)
  moreover have "evidenceComparable (sampleComparison currentOnly) sampleBaseline sampleCandidate"
    by (simp add: evidenceComparable_def sampleComparison_def sampleSubject_def sampleSnapshot_def lineageMatches_def)
  ultimately show ?thesis using comparable_exactly_when_complete sample_admitted(2) by blast
qed

end
