(* ===== verification/Comparison_Numeric_Safety.thy ===== *)
theory Comparison_Numeric_Safety
  imports Comparison_Numeric Comparison_Safety
begin

text \<open>
  Numeric metrics are exact statistics of the observations that count: a role's distribution aggregates what
  that role measured, a delta compares only fixtures that are paired and measured once by both sides in the
  unit of the metric, and nothing absent, invalid or omitted enters a number.
\<close>

section \<open>Classified populations\<close>

lemma update_fresh: "k \<notin> fst ` set al \<Longrightarrow> AList.update k v al = al @ [(k, v)]"
  by (induction al) auto

lemma map_of_graph: "map_of (map (\<lambda>i. (i, f i)) keys) i = (if i \<in> set keys then Some (f i) else None)"
  by (induction keys) auto

definition classesOf :: "ObservationState list \<Rightarrow> SampleClasses" where
  "classesOf ss =
     \<lparr>sc_invalidCount = int (count_list ss InvalidObservation), sc_missingCount = int (count_list ss MissingObservation),
      sc_observedCount = int (count_list ss ObservedObservation), sc_totalCount = int (length ss),
      sc_unavailableCount = int (count_list ss UnavailableObservation)\<rparr>"

lemma fold_countState:
  "fold countState ss c =
     \<lparr>sc_invalidCount = sc_invalidCount c + int (count_list ss InvalidObservation),
      sc_missingCount = sc_missingCount c + int (count_list ss MissingObservation),
      sc_observedCount = sc_observedCount c + int (count_list ss ObservedObservation), sc_totalCount = sc_totalCount c,
      sc_unavailableCount = sc_unavailableCount c + int (count_list ss UnavailableObservation)\<rparr>"
proof (induction ss arbitrary: c)
  case (Cons s ss)
  then show ?case by (cases s) simp_all
qed simp

definition observedValue :: "ClassifiedObservation \<Rightarrow> ComparisonExactValue list" where
  "observedValue x = (case co_value x of None \<Rightarrow> [] | Some v \<Rightarrow> [v])"

definition populationOf :: "(string \<Rightarrow> ClassifiedObservation) \<Rightarrow> string list \<Rightarrow> ClassifiedPopulation" where
  "populationOf classify keys =
     \<lparr>cp_byFixtureId = map (\<lambda>i. (i, classify i)) keys, cp_classes = classesOf (map (\<lambda>i. co_state (classify i)) keys),
      cp_observedValues = concat (map (\<lambda>i. observedValue (classify i)) keys)\<rparr>"

lemma classifyPopulation_eq:
  assumes "distinct keys"
  shows "classifyPopulation index cases keys m = populationOf (\<lambda>i. classifyObservation index (cases i) m i) keys"
proof -
  let ?f = "\<lambda>i. classifyObservation index (cases i) m i"
  let ?step = "\<lambda>i p. \<lparr>cp_byFixtureId = AList.update i (?f i) (cp_byFixtureId p), cp_classes = countState (co_state (?f i)) (cp_classes p),
          cp_observedValues = cp_observedValues p @ observedValue (?f i)\<rparr>"
  have "fold ?step keys p =
      \<lparr>cp_byFixtureId = cp_byFixtureId p @ map (\<lambda>i. (i, ?f i)) keys,
       cp_classes = fold countState (map (\<lambda>i. co_state (?f i)) keys) (cp_classes p),
       cp_observedValues = cp_observedValues p @ concat (map (\<lambda>i. observedValue (?f i)) keys)\<rparr>"
    if "distinct keys" "fst ` set (cp_byFixtureId p) \<inter> set keys = {}" for p :: ClassifiedPopulation
    using that
  proof (induction keys arbitrary: p)
    case (Cons i keys)
    then have fresh: "AList.update i (?f i) (cp_byFixtureId p) = cp_byFixtureId p @ [(i, ?f i)]" by (intro update_fresh) auto
    show ?case using Cons.prems fresh by (simp add: Cons.IH disjoint_iff)
  qed simp
  then show ?thesis
    using assms
    by (simp add: classifyPopulation_def Let_def observedValue_def [symmetric] populationOf_def fold_countState classesOf_def)
qed

lemma fromMap_eq:
  "classifyPopulationFromMap (map (\<lambda>i. (i, classify i)) keys) = populationOf classify keys"
proof -
  have "length (filter (\<lambda>e. co_state (snd e) = s) (map (\<lambda>i. (i, classify i)) keys)) = count_list (map (\<lambda>i. co_state (classify i)) keys) s" for s
    by (induction keys) auto
  then show ?thesis
    by (simp add: classifyPopulationFromMap_def Let_def populationOf_def classesOf_def observedValue_def comp_def)
qed

text \<open>Four states partition a population, and they fit the contract of sample counts.\<close>

lemma states_partition:
  "count_list ss InvalidObservation + count_list ss MissingObservation + count_list ss ObservedObservation +
   count_list ss UnavailableObservation = length ss"
proof (induction ss)
  case (Cons s ss)
  then show ?case by (cases s) auto
qed simp

lemma reconstructs: "reconstructsTotal (classesOf ss)"
  using states_partition [of ss] by (simp add: reconstructsTotal_def classesOf_def)

lemma classes_safe: "length ss \<le> 500 \<Longrightarrow> SampleClassesSchema (classesOf ss)"
proof -
  assume "length ss \<le> 500"
  then have "count_list ss s \<le> 500" for s using count_le_length [of ss s] by simp
  then show ?thesis
    using \<open>length ss \<le> 500\<close>
    by (simp add: SampleClassesSchema_def classesOf_def SafeComparisonCountSchema_def MAX_SAFE_INTEGER_def order_trans [of _ 500])
qed

lemma count_filtered: "count_list (map f (filter B xs)) s = length (filter (\<lambda>i. B i \<and> f i = s) xs)"
  by (induction xs) auto

lemma length_filter_imp: "(\<And>i. i \<in> set xs \<Longrightarrow> P i \<Longrightarrow> Q i) \<Longrightarrow> length (filter P xs) \<le> length (filter Q xs)"
  by (induction xs) (auto simp: le_SucI)

lemma length_filter_or:
  "(\<And>i. i \<in> set xs \<Longrightarrow> P i \<Longrightarrow> Q i \<or> R i) \<Longrightarrow> length (filter P xs) \<le> length (filter Q xs) + length (filter R xs)"
  by (induction xs) (auto simp: le_SucI)

lemma samples_accepted:
  assumes "length xs \<le> 500" "\<And>i. i \<in> set xs \<Longrightarrow> Q i \<Longrightarrow> B i \<and> C i"
  shows "ComparisonMetricSampleCountsSchema
    \<lparr>smp_baseline = classesOf (map (\<lambda>i. co_state (b i)) (filter B xs)), smp_candidate = classesOf (map (\<lambda>i. co_state (c i)) (filter C xs)),
     smp_paired = classesOf (map (\<lambda>i. pairedState (b i) (c i)) (filter Q xs))\<rparr>"
proof -
  let ?b = "\<lambda>s. length (filter (\<lambda>i. B i \<and> co_state (b i) = s) xs)" and ?c = "\<lambda>s. length (filter (\<lambda>i. C i \<and> co_state (c i) = s) xs)"
    and ?p = "\<lambda>s. length (filter (\<lambda>i. Q i \<and> pairedState (b i) (c i) = s) xs)"
  have short: "length (filter P xs) \<le> 500" for P by (rule order_trans [OF length_filter_le assms(1)])
  have observed: "?p ObservedObservation \<le> ?b ObservedObservation" "?p ObservedObservation \<le> ?c ObservedObservation"
    using assms(2) by (auto intro!: length_filter_imp simp: pairedState_def split: if_splits) (metis ObservationState.exhaust)+
  have either: "?p s \<le> ?b s + ?c s" if "s \<noteq> ObservedObservation" for s
    using assms(2) that by (intro length_filter_or) (auto simp: pairedState_def split: if_splits)
  have totals: "length (filter Q xs) \<le> length (filter B xs)" "length (filter Q xs) \<le> length (filter C xs)"
    using assms(2) by (auto intro!: length_filter_imp)
  show ?thesis
    using short observed either [of MissingObservation] either [of UnavailableObservation] either [of InvalidObservation] totals
    by (simp add: ComparisonMetricSampleCountsSchema_def Let_def reconstructs classes_safe not_less)
      (simp add: classesOf_def count_filtered)
qed

section \<open>The index\<close>

lemma mapOf_snoc: "mapOf key (xs @ [x]) = (mapOf key xs)(key x \<mapsto> x)"
  by (simp add: mapOf_def)

definition namedObservations :: "ComparisonEvidenceFixtureSnapshot \<Rightarrow> js_text \<Rightarrow> ComparisonNumericObservation list" where
  "namedObservations f measurementName = filter (\<lambda>n. no_measurementName n = measurementName) (ef_numericObservations f)"

lemma observationIndex_eq:
  "observationIndex f measurementName =
     (case namedObservations f measurementName of [] \<Rightarrow> None | n # ns \<Rightarrow> Some \<lparr>ix_count = length (n # ns), ix_first = n\<rparr>)"
proof -
  have "fold indexObservation xs Map.empty measurementName =
      (case filter (\<lambda>n. no_measurementName n = measurementName) xs of [] \<Rightarrow> None | n # ns \<Rightarrow> Some \<lparr>ix_count = length (n # ns), ix_first = n\<rparr>)" for xs
  proof (induction xs rule: rev_induct)
    case (snoc x xs)
    then show ?case by (auto simp: indexObservation_def Let_def split: list.splits)
  qed simp
  then show ?thesis by (simp add: observationIndex_def namedObservations_def)
qed

lemma index_observations:
  "ne_observations (numericEvidenceIndex s) i = map_option observationIndex (mapOf evidenceFixtureId (es_fixtures s) i)"
proof -
  have "fold (\<lambda>f m. m(evidenceFixtureId f \<mapsto> observationIndex f)) xs Map.empty i = map_option observationIndex (mapOf evidenceFixtureId xs i)" for xs
  proof (induction xs rule: rev_induct)
    case (snoc x xs)
    then show ?case by (simp add: mapOf_snoc)
  qed (simp add: mapOf_def)
  then show ?thesis by (simp add: numericEvidenceIndex_def)
qed

text \<open>What a role measured of a fixture: the one retained observation of the measurement, in the unit of the metric.\<close>

definition measurementOf :: "ComparisonEvidenceSnapshot \<Rightarrow> NumericComparisonMetric \<Rightarrow> string \<Rightarrow> string option" where
  "measurementOf s m i =
     (case mapOf evidenceFixtureId (es_fixtures s) i of None \<Rightarrow> None
      | Some f \<Rightarrow> (case namedObservations f (nm_measurementName m) of
          [n] \<Rightarrow> if no_unit n = nm_unit m then Some (no_value n) else None
        | _ \<Rightarrow> None))"

lemma classify_value:
  "co_value (classifyObservation (numericEvidenceIndex s) c m i) =
     (if (case c of None \<Rightarrow> True | Some x \<Rightarrow> isInvalid x) then None else map_option (DecimalValue (nm_unit m)) (measurementOf s m i))"
proof (cases "mapOf evidenceFixtureId (es_fixtures s) i")
  case None
  then show ?thesis by (simp add: classifyObservation_def plainState_def numericEvidenceIndex_def measurementOf_def)
next
  case (Some f)
  then have "ne_fixtures (numericEvidenceIndex s) i = Some f" by (simp add: numericEvidenceIndex_def)
  then show ?thesis
    using Some by (cases "namedObservations f (nm_measurementName m)"; cases "tl (namedObservations f (nm_measurementName m))")
      (auto simp: classifyObservation_def plainState_def index_observations observationIndex_eq measurementOf_def split: option.splits)
qed

lemma classify_observed:
  "co_state (classifyObservation index c m i) = ObservedObservation \<longleftrightarrow> co_value (classifyObservation index c m i) \<noteq> None"
  by (auto simp: classifyObservation_def plainState_def split: option.splits)

section \<open>Pairs\<close>

lemma pairedState_observed:
  "pairedState x y = ObservedObservation \<longleftrightarrow> co_state x = ObservedObservation \<and> co_state y = ObservedObservation"
  by (cases "co_state x"; cases "co_state y") (simp_all add: pairedState_def)

definition pairOf :: "ClassifiedObservation \<Rightarrow> ClassifiedObservation \<Rightarrow> ClassifiedObservation" where
  "pairOf x y =
     \<lparr>co_state = pairedState x y,
      co_unavailableReason = (case co_unavailableReason x of None \<Rightarrow> co_unavailableReason y | Some r \<Rightarrow> Some r), co_value = None\<rparr>"

lemma pairs_eq:
  assumes "distinct ps" "set ps \<subseteq> set bs" "set ps \<subseteq> set cs"
    and observed: "\<And>i. co_state (b i) = ObservedObservation \<longleftrightarrow> co_value (b i) \<noteq> None"
      "\<And>i. co_state (c i) = ObservedObservation \<longleftrightarrow> co_value (c i) \<noteq> None"
  shows "fold (pairObservation (populationOf b bs) (populationOf c cs)) ps \<lparr>po_byFixtureId = [], po_baselineValues = [], po_candidateValues = []\<rparr> =
    (let P = filter (\<lambda>i. co_value (b i) \<noteq> None \<and> co_value (c i) \<noteq> None) ps in
     \<lparr>po_byFixtureId = map (\<lambda>i. (i, pairOf (b i) (c i))) ps, po_baselineValues = map (\<lambda>i. the (co_value (b i))) P,
      po_candidateValues = map (\<lambda>i. the (co_value (c i))) P\<rparr>)"
proof -
  have "fold (pairObservation (populationOf b bs) (populationOf c cs)) qs p =
      (let P = filter (\<lambda>i. co_value (b i) \<noteq> None \<and> co_value (c i) \<noteq> None) qs in
       \<lparr>po_byFixtureId = po_byFixtureId p @ map (\<lambda>i. (i, pairOf (b i) (c i))) qs,
        po_baselineValues = po_baselineValues p @ map (\<lambda>i. the (co_value (b i))) P,
        po_candidateValues = po_candidateValues p @ map (\<lambda>i. the (co_value (c i))) P\<rparr>)"
    if "distinct qs" "set qs \<subseteq> set ps" "fst ` set (po_byFixtureId p) \<inter> set qs = {}" for qs p
    using that
  proof (induction qs arbitrary: p)
    case (Cons i qs)
    then have i: "i \<in> set bs" "i \<in> set cs" "i \<notin> fst ` set (po_byFixtureId p)" using assms(2,3) by auto
    have step: "pairObservation (populationOf b bs) (populationOf c cs) i p =
        (if co_value (b i) \<noteq> None \<and> co_value (c i) \<noteq> None
         then \<lparr>po_byFixtureId = po_byFixtureId p @ [(i, pairOf (b i) (c i))],
           po_baselineValues = po_baselineValues p @ [the (co_value (b i))], po_candidateValues = po_candidateValues p @ [the (co_value (c i))]\<rparr>
         else p\<lparr>po_byFixtureId := po_byFixtureId p @ [(i, pairOf (b i) (c i))]\<rparr>)"
      using i pairedState_observed [of "b i" "c i"] observed [of i]
      by (auto simp: pairObservation_def populationOf_def map_of_graph update_fresh pairOf_def Let_def split: option.splits ObservationState.splits)
    show ?case using Cons by (auto simp: step Let_def disjoint_iff)
  qed (simp add: Let_def)
  from this [of ps] show ?thesis using assms(1) by (simp add: Let_def)
qed

section \<open>Exact results\<close>

abbreviation "outOfBounds \<equiv> NumericArithmeticError (ComparisonExactArithmeticError ResultOutOfBounds)"

definition metricAdmitted :: "(js_text \<Rightarrow> js_text) \<Rightarrow> NumericComparisonMetric \<Rightarrow> bool" where
  "metricAdmitted nfc m \<longleftrightarrow>
     OpaqueIdSchema (nm_metricId m) \<and> AssuranceSummarySchema nfc (nm_unit m) \<and> NumericAggregationSchema (nm_aggregation m)"

lemma aggregation_admitted: "NumericAggregationSchema a \<Longrightarrow> validateAggregation (aggregationObject a) = Inr ()"
  by (cases a) (simp_all add: validateAggregation_def plainAggregation_def)

text \<open>Exact values a role contributes, and the statistic of a metric over them.\<close>

definition metricStatistic :: "NumericComparisonMetric \<Rightarrow> ComparisonExactValue list \<Rightarrow> rat" where
  "metricStatistic m vs = statistic (aggregationObject (nm_aggregation m)) (sort (map exactRat vs))"

definition unitValues :: "(js_text \<Rightarrow> js_text) \<Rightarrow> NumericComparisonMetric \<Rightarrow> ComparisonExactValue list \<Rightarrow> bool" where
  "unitValues nfc m vs \<longleftrightarrow> length vs \<le> 500 \<and> (\<forall>v \<in> set vs. ComparisonExactValueSchema nfc v \<and> exactUnit v = nm_unit m)"

lemma aggregated:
  assumes "metricAdmitted nfc m" "unitValues nfc m vs" "vs \<noteq> []"
  shows "liftArithmetic (aggregateComparisonExactValues nfc vs (aggregationObject (nm_aggregation m))) = Inl outOfBounds \<or>
    (\<exists>r. liftArithmetic (aggregateComparisonExactValues nfc vs (aggregationObject (nm_aggregation m))) = Inr r \<and>
       ComparisonExactValueSchema nfc r \<and> exactUnit r = nm_unit m \<and> exactRat r = metricStatistic m vs)"
proof -
  have "validSample nfc (nm_unit m) vs"
    using assms by (auto simp: validSample_def unitValues_def list_all_iff MAX_COMPARISON_EXACT_AGGREGATION_VALUES_def)
  moreover have "NumericAggregationSchema (nm_aggregation m)" using assms(1) by (simp add: metricAdmitted_def)
  ultimately have "(\<exists>r. aggregateComparisonExactValues nfc vs (aggregationObject (nm_aggregation m)) = Inr r \<and> ComparisonExactValueSchema nfc r \<and>
      exactUnit r = nm_unit m \<and> exactRat r = metricStatistic m vs) \<or>
    aggregateComparisonExactValues nfc vs (aggregationObject (nm_aggregation m)) = exactError ResultOutOfBounds"
    using aggregate_statistic [OF _ aggregation_admitted] unfolding metricStatistic_def by blast
  then show ?thesis by (auto simp: liftArithmetic_def)
qed

lemma reasons_ordered: "orderedMetricUnavailableReasons (unavailableMetricReasons b c p)"
proof -
  let ?r = "unavailableMetricReasons b c p"
  have sorted: "sortedUnique ?r" unfolding unavailableMetricReasons_def Let_def by (rule sortedSet_sorted(1))
  have members: "set ?r \<subseteq> set METRIC_UNAVAILABLE_REASONS"
    unfolding unavailableMetricReasons_def Let_def sortedSet_sorted(2) METRIC_UNAVAILABLE_REASONS_def by auto
  have "''insufficient_observations'' \<in> set ?r" unfolding unavailableMetricReasons_def Let_def sortedSet_sorted(2) by simp
  then have "1 \<le> length ?r" by (cases ?r) auto
  then show ?thesis
    using sorted members sortedUnique_length [OF sorted members]
    by (auto simp: orderedMetricUnavailableReasons_def sortedMembers_def list_all_iff)
qed

text \<open>The value a metric owes to the paired values of both roles.\<close>

definition exactlyCompares ::
    "NumericComparisonMetric \<Rightarrow> ComparisonExactValue list \<Rightarrow> ComparisonExactValue list \<Rightarrow> ComparisonMetricValue \<Rightarrow> bool" where
  "exactlyCompares m bs cs v \<longleftrightarrow>
     (case v of
        AvailableMetric b c delta direction \<Rightarrow>
          bs \<noteq> [] \<and> exactRat b = metricStatistic m bs \<and> exactRat c = metricStatistic m cs \<and> exactRat delta = exactRat c - exactRat b \<and>
          (direction = Increased \<longleftrightarrow> exactRat b < exactRat c) \<and> (direction = Decreased \<longleftrightarrow> exactRat c < exactRat b)
      | UnavailableMetric reasons \<Rightarrow> bs = [] \<and> ''insufficient_observations'' \<in> set reasons
      | IncomparableMetric _ _ _ \<Rightarrow> False)"

lemma available_result:
  assumes m: "metricAdmitted nfc m" and samples: "ComparisonMetricSampleCountsSchema samples" "sc_observedCount (smp_paired samples) \<noteq> 0"
    and b: "ComparisonExactValueSchema nfc b" "exactUnit b = nm_unit m" and c: "ComparisonExactValueSchema nfc c" "exactUnit c = nm_unit m"
    and representable: "representable (exactRat c - exactRat b)"
  defines "delta \<equiv> canonicalValue (nm_unit m) (exactRat c - exactRat b)"
    and "direction \<equiv> if exactRat c = exactRat b then Unchanged else if exactRat c < exactRat b then Decreased else Increased"
  shows "parseMetricResult nfc (numericMetricResult m samples (AvailableMetric b c delta direction)) =
    Inr (numericMetricResult m samples (AvailableMetric b c delta direction))"
proof -
  have unit: "AssuranceSummarySchema nfc (nm_unit m)" using m by (simp add: metricAdmitted_def)
  have d: "ComparisonExactValueSchema nfc delta" "exactUnit delta = nm_unit m" "exactRat delta = exactRat c - exactRat b"
    using canonicalValue_schema [OF representable unit] by (simp_all add: delta_def)
  have "ComparisonMetricValueSchema nfc (AvailableMetric b c delta direction)"
    using b c d exactDelta_rat [OF b(1) c(1) d(1)] by (simp add: direction_def Let_def)
  then show ?thesis
    using m samples b(2) c(2) d(2)
    by (simp add: parseMetricResult_def numericMetricResult_def ComparisonMetricResultSchema_def COMPARISON_METRIC_KINDS_def
        COMPARISON_COUNT_METRIC_UNITS_def metricAdmitted_def)
qed

lemma metric_result:
  assumes m: "metricAdmitted nfc m"
    and samples: "ComparisonMetricSampleCountsSchema \<lparr>smp_baseline = cp_classes baseline, smp_candidate = cp_classes candidate, smp_paired = cp_classes paired\<rparr>"
    and counted: "sc_observedCount (cp_classes paired) = int (length (po_baselineValues pairs))"
      "length (po_candidateValues pairs) = length (po_baselineValues pairs)"
    and exacts: "unitValues nfc m (po_baselineValues pairs)" "unitValues nfc m (po_candidateValues pairs)"
  shows "case metricResult nfc baseline candidate paired pairs m of Inl e \<Rightarrow> e = outOfBounds
    | Inr r \<Rightarrow> mr_metricId r = nm_metricId m \<and> mr_unit r = nm_unit m \<and>
        mr_samples r = \<lparr>smp_baseline = cp_classes baseline, smp_candidate = cp_classes candidate, smp_paired = cp_classes paired\<rparr> \<and>
        exactlyCompares m (po_baselineValues pairs) (po_candidateValues pairs) (mr_value r)"
proof (cases "po_baselineValues pairs = []")
  case True
  have "parseMetricResult nfc (numericMetricResult m samples' (UnavailableMetric (unavailableMetricReasons baseline candidate paired))) =
      Inr (numericMetricResult m samples' (UnavailableMetric (unavailableMetricReasons baseline candidate paired)))"
    if "ComparisonMetricSampleCountsSchema samples'" for samples'
    using that m reasons_ordered
    by (simp add: parseMetricResult_def numericMetricResult_def ComparisonMetricResultSchema_def COMPARISON_METRIC_KINDS_def
        COMPARISON_COUNT_METRIC_UNITS_def metricAdmitted_def)
  moreover have "''insufficient_observations'' \<in> set (unavailableMetricReasons baseline candidate paired)"
    unfolding unavailableMetricReasons_def Let_def sortedSet_sorted(2) by simp
  ultimately show ?thesis
    using True counted samples by (simp add: metricResult_def Let_def numericMetricResult_def exactlyCompares_def)
next
  case False
  then have nonempty: "po_candidateValues pairs \<noteq> []" "sc_observedCount (cp_classes paired) \<noteq> 0" using counted by auto
  let ?b = "liftArithmetic (aggregateComparisonExactValues nfc (po_baselineValues pairs) (aggregationObject (nm_aggregation m)))"
    and ?c = "liftArithmetic (aggregateComparisonExactValues nfc (po_candidateValues pairs) (aggregationObject (nm_aggregation m)))"
  consider (baseline) "?b = Inl outOfBounds" | (candidate) b where "?b = Inr b" "?c = Inl outOfBounds"
    | (both) b c where "?b = Inr b" "ComparisonExactValueSchema nfc b" "exactUnit b = nm_unit m" "exactRat b = metricStatistic m (po_baselineValues pairs)"
        "?c = Inr c" "ComparisonExactValueSchema nfc c" "exactUnit c = nm_unit m" "exactRat c = metricStatistic m (po_candidateValues pairs)"
    using aggregated [OF m exacts(1) False] aggregated [OF m exacts(2) nonempty(1)] by blast
  then show ?thesis
  proof cases
    case both
    have exact: "compareComparisonExactValues nfc c b = Inr (if exactRat c = exactRat b then 0 else if exactRat c < exactRat b then -1 else 1)"
      "subtractComparisonExactValues nfc b c = (if representable (exactRat c - exactRat b)
         then Inr (canonicalValue (nm_unit m) (exactRat c - exactRat b)) else exactError ResultOutOfBounds)"
      using comparison_and_difference_exact [OF both(6,2)] comparison_and_difference_exact [OF both(2,6)] both(3,7) by simp_all
    show ?thesis
    proof (cases "representable (exactRat c - exactRat b)")
      case True
      note result = available_result [OF m samples _ both(2,3,6,7) True]
      show ?thesis
        using True samples nonempty both exact result False
        by (auto simp: metricResult_def Let_def liftArithmetic_def numericMetricResult_def exactlyCompares_def)
    qed (use samples nonempty both exact in \<open>simp add: metricResult_def Let_def liftArithmetic_def\<close>)
  qed (use samples nonempty in \<open>simp_all add: metricResult_def Let_def\<close>)
qed

text \<open>The distribution of one role.\<close>

lemma observed_length:
  assumes "\<And>i. co_state (f i) = ObservedObservation \<longleftrightarrow> co_value (f i) \<noteq> None"
  shows "count_list (map (\<lambda>i. co_state (f i)) keys) ObservedObservation = length (concat (map (\<lambda>i. observedValue (f i)) keys))"
  using assms by (induction keys) (auto simp: observedValue_def split: option.splits)

lemma distribution_exact:
  assumes m: "metricAdmitted nfc m" and short: "length keys \<le> 500"
    and observed: "\<And>i. co_state (f i) = ObservedObservation \<longleftrightarrow> co_value (f i) \<noteq> None"
    and exacts: "unitValues nfc m (cp_observedValues (populationOf f keys))"
  shows "case distribution nfc (populationOf f keys) m role of Inl e \<Rightarrow> e = outOfBounds
    | Inr s \<Rightarrow> map (\<lambda>s. (dist_role s, exactRat (dist_value s))) (case s of None \<Rightarrow> [] | Some x \<Rightarrow> [x]) =
        (if cp_observedValues (populationOf f keys) = [] then []
         else [(role, metricStatistic m (cp_observedValues (populationOf f keys)))])"
proof (cases "cp_observedValues (populationOf f keys) = []")
  case False
  have "sc_observedCount (cp_classes (populationOf f keys)) = int (length (cp_observedValues (populationOf f keys)))"
    using observed_length [OF observed] by (simp add: populationOf_def classesOf_def)
  then have "0 < sc_observedCount (cp_classes (populationOf f keys))" using False by simp
  moreover have "0 < sc_totalCount (cp_classes (populationOf f keys))"
    using False by (cases keys) (auto simp: populationOf_def classesOf_def)
  moreover have "SampleClassesSchema (cp_classes (populationOf f keys))" "reconstructsTotal (cp_classes (populationOf f keys))"
    using short by (simp_all add: populationOf_def classes_safe reconstructs)
  ultimately show ?thesis
    using aggregated [OF m exacts False] False m
    by (auto simp: distribution_def Let_def ComparisonDistributionSummarySchema_def metricAdmitted_def)
qed (simp add: distribution_def)

section \<open>One metric\<close>

definition usableCase :: "ComparisonPairingResult \<Rightarrow> string \<Rightarrow> bool" where
  "usableCase r i \<longleftrightarrow> (case mapOf caseFixtureId (pr_cases r) i of None \<Rightarrow> False | Some x \<Rightarrow> \<not> isInvalid x)"

definition pairedCase :: "ComparisonPairingResult \<Rightarrow> string \<Rightarrow> bool" where
  "pairedCase r i \<longleftrightarrow> (case mapOf caseFixtureId (pr_cases r) i of None \<Rightarrow> False | Some x \<Rightarrow> isPaired x)"

definition measuredValues :: "ComparisonEvidenceSnapshot \<Rightarrow> NumericComparisonMetric \<Rightarrow> string list \<Rightarrow> ComparisonExactValue list" where
  "measuredValues s m keys = map (\<lambda>i. DecimalValue (nm_unit m) (the (measurementOf s m i))) keys"

definition measuredFixtures ::
    "ComparisonPairingResult \<Rightarrow> ComparisonEvidenceSnapshot \<Rightarrow> NumericComparisonMetric \<Rightarrow> string list \<Rightarrow> string list" where
  "measuredFixtures r s m keys = filter (\<lambda>i. usableCase r i \<and> measurementOf s m i \<noteq> None) keys"

definition comparedFixtures ::
    "ComparisonPairingResult \<Rightarrow> ComparisonEvidenceSnapshot \<Rightarrow> ComparisonEvidenceSnapshot \<Rightarrow> NumericComparisonMetric \<Rightarrow> string list \<Rightarrow>
     string list" where
  "comparedFixtures r baseline candidate m keys =
     filter (\<lambda>i. pairedCase r i \<and> measurementOf baseline m i \<noteq> None \<and> measurementOf candidate m i \<noteq> None) keys"

text \<open>
  What a metric owes to the evidence: over the fixtures of its stratum, the distribution of each role that
  measured anything, the counts, and the comparison of what both roles measured on paired fixtures.
\<close>

definition describesMetric ::
    "ComparisonPairingResult \<Rightarrow> ComparisonDefinition \<Rightarrow> ComparisonEvidenceSnapshot \<Rightarrow> ComparisonEvidenceSnapshot \<Rightarrow>
     NumericComparisonMetric \<Rightarrow> ComparisonDistributionSummary list \<times> ComparisonMetricResult \<Rightarrow> bool" where
  "describesMetric r d baseline candidate m result \<longleftrightarrow>
     (\<exists>stratum \<in> set (cd_strata d). str_stratumId stratum = nm_stratumId m \<and>
        (let compared = comparedFixtures r baseline candidate m (str_fixtureIds stratum);
             baselineIds = subjectFixtureIds d BaselineRole (str_fixtureIds stratum);
             candidateIds = subjectFixtureIds d CandidateRole (str_fixtureIds stratum);
             baselineValues = measuredValues baseline m (measuredFixtures r baseline m baselineIds);
             candidateValues = measuredValues candidate m (measuredFixtures r candidate m candidateIds);
             samples = mr_samples (snd result)
         in mr_metricId (snd result) = nm_metricId m \<and> mr_unit (snd result) = nm_unit m \<and>
            sc_observedCount (smp_paired samples) = int (length compared) \<and>
            sc_observedCount (smp_baseline samples) = int (length baselineValues) \<and>
            sc_totalCount (smp_baseline samples) = int (length baselineIds) \<and>
            sc_observedCount (smp_candidate samples) = int (length candidateValues) \<and>
            sc_totalCount (smp_candidate samples) = int (length candidateIds) \<and>
            exactlyCompares m (measuredValues baseline m compared) (measuredValues candidate m compared) (mr_value (snd result)) \<and>
            map (\<lambda>s. (dist_role s, exactRat (dist_value s))) (fst result) =
              (if baselineValues = [] then [] else [(BaselineRole, metricStatistic m baselineValues)]) @
              (if candidateValues = [] then [] else [(CandidateRole, metricStatistic m candidateValues)])))"

lemma population_values:
  "cp_observedValues (populationOf (\<lambda>i. classifyObservation (numericEvidenceIndex s) (mapOf caseFixtureId (pr_cases r) i) m i) keys) =
   measuredValues s m (measuredFixtures r s m keys)"
proof -
  have one: "observedValue (classifyObservation (numericEvidenceIndex s) (mapOf caseFixtureId (pr_cases r) i) m i) =
      (if usableCase r i \<and> measurementOf s m i \<noteq> None then [DecimalValue (nm_unit m) (the (measurementOf s m i))] else [])" for i
    by (auto simp: observedValue_def classify_value usableCase_def split: option.splits)
  show ?thesis
    unfolding populationOf_def ClassifiedPopulation.simps one
    by (induction keys) (auto simp: measuredValues_def measuredFixtures_def)
qed

lemma measured_exact:
  assumes "ComparisonEvidenceSnapshotSchema nfc isoDatetime s" "metricAdmitted nfc m" "length keys \<le> 500"
    and "\<forall>i \<in> set keys. measurementOf s m i \<noteq> None"
  shows "unitValues nfc m (measuredValues s m keys)"
proof -
  have "ExactDecimalSchema v" if v: "measurementOf s m i = Some v" for i v
  proof -
    obtain f n where f: "mapOf evidenceFixtureId (es_fixtures s) i = Some f" "namedObservations f (nm_measurementName m) = [n]" "no_value n = v"
      using v by (auto simp: measurementOf_def split: option.splits list.splits if_splits)
    then have "f \<in> set (es_fixtures s)" "n \<in> set (ef_numericObservations f)"
      using mapOf_Some [OF f(1)] by (auto simp: namedObservations_def filter_eq_Cons_iff)
    then show ?thesis
      using assms(1) f(3) by (auto simp: ComparisonEvidenceSnapshotSchema_def ComparisonEvidenceFixtureSnapshotSchema_def
          ComparisonNumericObservationSchema_def list_all_iff)
  qed
  then show ?thesis using assms(2-4) by (auto simp: unitValues_def measuredValues_def metricAdmitted_def)
qed

lemma numeric_metric_admitted:
  assumes "pairingAdmitted nfc isoDatetime d baseline candidate" "m \<in> set (numericMetrics d)"
  obtains stratum where "metricAdmitted nfc m" "mapOf str_stratumId (cd_strata d) (nm_stratumId m) = Some stratum"
    "stratum \<in> set (cd_strata d)" "str_stratumId stratum = nm_stratumId m"
    "distinct (str_fixtureIds stratum)" "length (str_fixtureIds stratum) \<le> 500"
proof -
  obtain x where x: "x \<in> set (cd_metrics d)" "numericMetric x = Some m"
    using assms(2) by (auto simp: numericMetrics_def List.map_filter_def)
  have schema: "ComparisonMetricSchema nfc x" "met_stratumId x \<in> str_stratumId ` set (cd_strata d)"
    "list_all (ComparisonStratumSchema nfc) (cd_strata d)"
    using assms(1) x(1) by (auto simp: pairingAdmitted_def ComparisonDefinitionRecordSchema_def refineComparisonDefinition_def
        refineComparisonPopulation_def Let_def list_all_iff)
  then have "metricAdmitted nfc m" "nm_stratumId m = met_stratumId x"
    using x(2) by (auto simp: numericMetric_def metricAdmitted_def ComparisonMetricSchema_def split: ComparisonMetricBody.splits)
  moreover from this(2) obtain stratum where stratum: "mapOf str_stratumId (cd_strata d) (nm_stratumId m) = Some stratum"
    using schema(2) mapOf_None [of str_stratumId "cd_strata d" "nm_stratumId m"] by auto
  ultimately show ?thesis
    using mapOf_Some [OF stratum] schema(3)
    by (intro that) (auto simp: list_all_iff ComparisonStratumSchema_def MAX_COMPARISON_SUBJECT_FIXTURES_def sortedUnique_iff)
qed

lemma paired_bound:
  assumes admitted: "pairingAdmitted nfc isoDatetime d baseline candidate"
    and r: "pairComparisonEvidence nfc isoDatetime d baseline candidate = Inr r" and i: "pairedCase r i"
  shows "i \<in> set (subjectFixtureIdList (cd_baseline d))" "i \<in> set (subjectFixtureIdList (cd_candidate d))" "usableCase r i"
proof -
  obtain x where x: "x \<in> set (pr_cases r)" "caseFixtureId x = i" "isPaired x"
    using i mapOf_Some by (fastforce simp: pairedCase_def split: option.splits)
  then have "acceptedFixture d baseline candidate i" using pair_runs [OF admitted] r by (metis sum.inject(2))
  then have "i \<in> evidenceFixtureId ` set (es_fixtures baseline)" "i \<in> evidenceFixtureId ` set (es_fixtures candidate)"
    by (auto simp: acceptedFixture_def fixtureAccepted_def dest: mapOf_Some)
  then show "i \<in> set (subjectFixtureIdList (cd_baseline d))" "i \<in> set (subjectFixtureIdList (cd_candidate d))"
    using admitted by (auto simp: pairingAdmitted_def subjectFixtureIdList_def subjectFixtureId_def)
  show "usableCase r i" using i by (auto simp: pairedCase_def usableCase_def isInvalid.simps split: option.splits elim!: isPaired.elims)
qed

text \<open>The classification of a role, the populations of a stratum and the pairs of a metric, named.\<close>

definition roleClassification ::
    "ComparisonPairingResult \<Rightarrow> ComparisonEvidenceSnapshot \<Rightarrow> NumericComparisonMetric \<Rightarrow> string \<Rightarrow> ClassifiedObservation" where
  "roleClassification r s m i = classifyObservation (numericEvidenceIndex s) (mapOf caseFixtureId (pr_cases r) i) m i"

definition boundFixtures :: "ComparisonSubject \<Rightarrow> string list \<Rightarrow> string list" where
  "boundFixtures subject keys = filter (\<lambda>i. i \<in> set (subjectFixtureIdList subject)) keys"

definition pairClassification ::
    "ComparisonPairingResult \<Rightarrow> ComparisonEvidenceSnapshot \<Rightarrow> ComparisonEvidenceSnapshot \<Rightarrow> NumericComparisonMetric \<Rightarrow> string \<Rightarrow>
     ClassifiedObservation" where
  "pairClassification r baseline candidate m i = pairOf (roleClassification r baseline m i) (roleClassification r candidate m i)"

definition metricPairs ::
    "ComparisonPairingResult \<Rightarrow> ComparisonEvidenceSnapshot \<Rightarrow> ComparisonEvidenceSnapshot \<Rightarrow> NumericComparisonMetric \<Rightarrow> string list \<Rightarrow>
     PairedObservations" where
  "metricPairs r baseline candidate m keys =
     \<lparr>po_byFixtureId = map (\<lambda>i. (i, pairClassification r baseline candidate m i)) (filter (pairedCase r) keys),
      po_baselineValues = measuredValues baseline m (comparedFixtures r baseline candidate m keys),
      po_candidateValues = measuredValues candidate m (comparedFixtures r baseline candidate m keys)\<rparr>"

lemma metric_pair_values:
  "po_baselineValues (metricPairs r baseline candidate m keys) = measuredValues baseline m (comparedFixtures r baseline candidate m keys)"
  "po_candidateValues (metricPairs r baseline candidate m keys) = measuredValues candidate m (comparedFixtures r baseline candidate m keys)"
  by (simp_all add: metricPairs_def)

lemma measured_length: "length (measuredValues s m keys) = length keys"
  by (simp add: measuredValues_def)

lemma role_value:
  "co_value (roleClassification r s m i) = (if usableCase r i then map_option (DecimalValue (nm_unit m)) (measurementOf s m i) else None)"
  by (auto simp: roleClassification_def classify_value usableCase_def split: option.splits)

lemma role_observed: "co_state (roleClassification r s m i) = ObservedObservation \<longleftrightarrow> co_value (roleClassification r s m i) \<noteq> None"
  unfolding roleClassification_def by (rule classify_observed)

lemma population_measured:
  "cp_observedValues (populationOf (roleClassification r s m) keys) = measuredValues s m (measuredFixtures r s m keys)"
  using population_values unfolding roleClassification_def [abs_def] .

lemma compared_iff_observed:
  assumes "\<And>i. pairedCase r i \<Longrightarrow> usableCase r i"
  shows "comparedFixtures r baseline candidate m keys =
    filter (\<lambda>i. co_value (roleClassification r baseline m i) \<noteq> None \<and> co_value (roleClassification r candidate m i) \<noteq> None)
      (filter (pairedCase r) keys)"
  unfolding comparedFixtures_def filter_filter role_value using assms by (intro filter_cong) auto

lemma metric_pairs:
  assumes "distinct keys" and bound: "\<And>i. pairedCase r i \<Longrightarrow> i \<in> set (subjectFixtureIdList (cd_baseline d))"
    "\<And>i. pairedCase r i \<Longrightarrow> i \<in> set (subjectFixtureIdList (cd_candidate d))" and usable: "\<And>i. pairedCase r i \<Longrightarrow> usableCase r i"
  shows "fold (pairObservation (populationOf (roleClassification r baseline m) (boundFixtures (cd_baseline d) keys))
      (populationOf (roleClassification r candidate m) (boundFixtures (cd_candidate d) keys))) (filter (pairedCase r) keys)
      \<lparr>po_byFixtureId = [], po_baselineValues = [], po_candidateValues = []\<rparr> = metricPairs r baseline candidate m keys"
proof -
  let ?ps = "filter (pairedCase r) keys" and ?P = "comparedFixtures r baseline candidate m keys"
  have within: "distinct ?ps" "set ?ps \<subseteq> set (boundFixtures (cd_baseline d) keys)" "set ?ps \<subseteq> set (boundFixtures (cd_candidate d) keys)"
    using assms by (auto simp: boundFixtures_def)
  have "map (\<lambda>i. the (co_value (roleClassification r baseline m i))) ?P = measuredValues baseline m ?P"
    "map (\<lambda>i. the (co_value (roleClassification r candidate m i))) ?P = measuredValues candidate m ?P"
    unfolding measuredValues_def using usable by (auto simp: role_value comparedFixtures_def)
  moreover have "?P = filter (\<lambda>i. co_value (roleClassification r baseline m i) \<noteq> None \<and> co_value (roleClassification r candidate m i) \<noteq> None) ?ps"
    by (rule compared_iff_observed) (rule usable)
  ultimately show ?thesis
    using pairs_eq [of ?ps _ _ "roleClassification r baseline m" "roleClassification r candidate m", OF within role_observed role_observed]
    unfolding Let_def by (simp only: metricPairs_def pairClassification_def)
qed

lemma pairs_counted:
  assumes usable: "\<And>i. pairedCase r i \<Longrightarrow> usableCase r i"
  shows "sc_observedCount (cp_classes (populationOf (pairClassification r baseline candidate m) (filter (pairedCase r) keys))) =
    int (length (comparedFixtures r baseline candidate m keys))"
proof -
  have "comparedFixtures r baseline candidate m keys =
      filter (\<lambda>i. co_value (roleClassification r baseline m i) \<noteq> None \<and> co_value (roleClassification r candidate m i) \<noteq> None)
        (filter (pairedCase r) keys)"
    by (rule compared_iff_observed) (rule usable)
  then show ?thesis
    by (simp add: populationOf_def classesOf_def pairClassification_def pairOf_def count_filtered pairedState_observed role_observed
      filter_filter conj_assoc)
qed

lemma stratum_samples:
  assumes "length keys \<le> 500" "\<And>i. pairedCase r i \<Longrightarrow> i \<in> set (subjectFixtureIdList (cd_baseline d))"
    "\<And>i. pairedCase r i \<Longrightarrow> i \<in> set (subjectFixtureIdList (cd_candidate d))"
  shows "ComparisonMetricSampleCountsSchema
    \<lparr>smp_baseline = cp_classes (populationOf (roleClassification r baseline m) (boundFixtures (cd_baseline d) keys)),
     smp_candidate = cp_classes (populationOf (roleClassification r candidate m) (boundFixtures (cd_candidate d) keys)),
     smp_paired = cp_classes (populationOf (pairClassification r baseline candidate m) (filter (pairedCase r) keys))\<rparr>"
  using samples_accepted [OF assms(1), of "pairedCase r" "\<lambda>i. i \<in> set (subjectFixtureIdList (cd_baseline d))"
      "\<lambda>i. i \<in> set (subjectFixtureIdList (cd_candidate d))" "roleClassification r baseline m" "roleClassification r candidate m"] assms(2,3)
  by (simp add: populationOf_def pairOf_def pairClassification_def boundFixtures_def)

lemma role_totals:
  "sc_observedCount (cp_classes (populationOf (roleClassification r s m) keys)) =
     int (length (cp_observedValues (populationOf (roleClassification r s m) keys)))"
  "sc_totalCount (cp_classes (populationOf (roleClassification r s m) keys)) = int (length keys)"
  using observed_length [of "roleClassification r s m" keys, OF role_observed] by (simp_all add: populationOf_def classesOf_def)

lemma derive_metric_eq:
  fixes r :: ComparisonPairingResult and d :: ComparisonDefinition and baseline candidate :: ComparisonEvidenceSnapshot
    and m :: NumericComparisonMetric and stratum :: ComparisonStratum
  assumes "mapOf str_stratumId (cd_strata d) (nm_stratumId m) = Some stratum" "distinct (str_fixtureIds stratum)"
    and bound: "\<forall>i. pairedCase r i \<longrightarrow>
      i \<in> set (subjectFixtureIdList (cd_baseline d)) \<and> i \<in> set (subjectFixtureIdList (cd_candidate d)) \<and> usableCase r i"
  defines "keys \<equiv> str_fixtureIds stratum"
  defines "b \<equiv> populationOf (roleClassification r baseline m) (boundFixtures (cd_baseline d) keys)"
    and "c \<equiv> populationOf (roleClassification r candidate m) (boundFixtures (cd_candidate d) keys)"
    and "p \<equiv> populationOf (pairClassification r baseline candidate m) (filter (pairedCase r) keys)"
  shows "deriveMetric nfc d (mapOf caseFixtureId (pr_cases r)) (numericEvidenceIndex baseline) (numericEvidenceIndex candidate) m =
    (case distribution nfc b m BaselineRole of Inl e \<Rightarrow> Inl e | Inr x \<Rightarrow>
     (case distribution nfc c m CandidateRole of Inl e \<Rightarrow> Inl e | Inr y \<Rightarrow>
     (case metricResult nfc b c p (metricPairs r baseline candidate m keys) m of Inl e \<Rightarrow> Inl e | Inr z \<Rightarrow>
        Inr ((case x of None \<Rightarrow> [] | Some s \<Rightarrow> [s]) @ (case y of None \<Rightarrow> [] | Some s \<Rightarrow> [s]), z))))"
proof -
  let ?cases = "mapOf caseFixtureId (pr_cases r)"
  have populations: "classifyPopulation (numericEvidenceIndex baseline) ?cases (subjectFixtureIds d BaselineRole keys) m = b"
    "classifyPopulation (numericEvidenceIndex candidate) ?cases (subjectFixtureIds d CandidateRole keys) m = c"
    "filter (\<lambda>i. case ?cases i of None \<Rightarrow> False | Some x \<Rightarrow> isPaired x) keys = filter (pairedCase r) keys"
    "classifyPopulationFromMap (po_byFixtureId (metricPairs r baseline candidate m keys)) = p"
    using assms(2) by (simp_all add: classifyPopulation_eq subjectFixtureIds_def roleSubject_def pairedCase_def [abs_def] fromMap_eq
        metricPairs_def b_def c_def p_def boundFixtures_def roleClassification_def [abs_def] keys_def)
  have pairs: "fold (pairObservation b c) (filter (pairedCase r) keys) \<lparr>po_byFixtureId = [], po_baselineValues = [], po_candidateValues = []\<rparr> =
      metricPairs r baseline candidate m keys"
    unfolding b_def c_def keys_def using bound by (intro metric_pairs [OF assms(2)]) blast+
  show ?thesis
    unfolding deriveMetric_def assms(1) option.case Let_def keys_def [symmetric] populations pairs ..
qed

lemma metric_described:
  assumes admitted: "pairingAdmitted nfc isoDatetime d baseline candidate"
    and r: "pairComparisonEvidence nfc isoDatetime d baseline candidate = Inr r" and m: "m \<in> set (numericMetrics d)"
  shows "case deriveMetric nfc d (mapOf caseFixtureId (pr_cases r)) (numericEvidenceIndex baseline) (numericEvidenceIndex candidate) m of
      Inl e \<Rightarrow> e = outOfBounds | Inr result \<Rightarrow> describesMetric r d baseline candidate m result"
proof -
  obtain stratum where stratum: "metricAdmitted nfc m" "mapOf str_stratumId (cd_strata d) (nm_stratumId m) = Some stratum"
    "stratum \<in> set (cd_strata d)" "str_stratumId stratum = nm_stratumId m"
    "distinct (str_fixtureIds stratum)" "length (str_fixtureIds stratum) \<le> 500"
    by (rule numeric_metric_admitted [OF admitted m])
  define keys where "keys = str_fixtureIds stratum"
  let ?bs = "boundFixtures (cd_baseline d) keys" and ?cs = "boundFixtures (cd_candidate d) keys"
  let ?b = "populationOf (roleClassification r baseline m) ?bs" and ?c = "populationOf (roleClassification r candidate m) ?cs"
  let ?P = "comparedFixtures r baseline candidate m keys"
  note bound = paired_bound [OF admitted r]
  then have bounds: "\<forall>i. pairedCase r i \<longrightarrow>
      i \<in> set (subjectFixtureIdList (cd_baseline d)) \<and> i \<in> set (subjectFixtureIdList (cd_candidate d)) \<and> usableCase r i"
    by blast
  have short: "length (filter Q keys) \<le> 500" for Q unfolding keys_def by (rule order_trans [OF length_filter_le stratum(6)])
  have short': "length ?bs \<le> 500" "length ?cs \<le> 500" using short by (simp_all add: boundFixtures_def)
  have snapshots: "ComparisonEvidenceSnapshotSchema nfc isoDatetime baseline" "ComparisonEvidenceSnapshotSchema nfc isoDatetime candidate"
    using admitted by (auto simp: pairingAdmitted_def)
  note measured = measured_exact [OF snapshots(1) stratum(1)] measured_exact [OF snapshots(2) stratum(1)]
  have exacts: "unitValues nfc m (measuredValues baseline m ?P)" "unitValues nfc m (measuredValues candidate m ?P)"
    "unitValues nfc m (cp_observedValues ?b)" "unitValues nfc m (cp_observedValues ?c)"
    unfolding population_measured using short
    by (auto intro!: measured simp: comparedFixtures_def measuredFixtures_def boundFixtures_def filter_filter)
  have counted: "sc_observedCount (cp_classes (populationOf (pairClassification r baseline candidate m) (filter (pairedCase r) keys))) =
      int (length ?P)"
    by (rule pairs_counted) (rule bound(3))
  have samples: "ComparisonMetricSampleCountsSchema \<lparr>smp_baseline = cp_classes ?b, smp_candidate = cp_classes ?c,
      smp_paired = cp_classes (populationOf (pairClassification r baseline candidate m) (filter (pairedCase r) keys))\<rparr>"
    using stratum(6) bound by (intro stratum_samples) (auto simp: keys_def)
  have result: "case metricResult nfc ?b ?c (populationOf (pairClassification r baseline candidate m) (filter (pairedCase r) keys))
        (metricPairs r baseline candidate m keys) m of Inl e \<Rightarrow> e = outOfBounds
    | Inr x \<Rightarrow> mr_metricId x = nm_metricId m \<and> mr_unit x = nm_unit m \<and>
        mr_samples x = \<lparr>smp_baseline = cp_classes ?b, smp_candidate = cp_classes ?c,
          smp_paired = cp_classes (populationOf (pairClassification r baseline candidate m) (filter (pairedCase r) keys))\<rparr> \<and>
        exactlyCompares m (measuredValues baseline m ?P) (measuredValues candidate m ?P) (mr_value x)"
    using metric_result [OF stratum(1) samples, of "metricPairs r baseline candidate m keys"] counted exacts(1,2)
    unfolding metric_pair_values by (simp only: measured_length)
  have roles: "case distribution nfc ?b m BaselineRole of Inl e \<Rightarrow> e = outOfBounds
    | Inr s \<Rightarrow> map (\<lambda>s. (dist_role s, exactRat (dist_value s))) (case s of None \<Rightarrow> [] | Some x \<Rightarrow> [x]) =
        (if cp_observedValues ?b = [] then [] else [(BaselineRole, metricStatistic m (cp_observedValues ?b))])"
    "case distribution nfc ?c m CandidateRole of Inl e \<Rightarrow> e = outOfBounds
    | Inr s \<Rightarrow> map (\<lambda>s. (dist_role s, exactRat (dist_value s))) (case s of None \<Rightarrow> [] | Some x \<Rightarrow> [x]) =
        (if cp_observedValues ?c = [] then [] else [(CandidateRole, metricStatistic m (cp_observedValues ?c))])"
    by (rule distribution_exact [OF stratum(1) short'(1) role_observed exacts(3)],
        rule distribution_exact [OF stratum(1) short'(2) role_observed exacts(4)])
  note derive = derive_metric_eq [OF stratum(2,5), of r nfc baseline candidate, OF bounds, folded keys_def]
  show ?thesis
  proof (cases "deriveMetric nfc d (mapOf caseFixtureId (pr_cases r)) (numericEvidenceIndex baseline) (numericEvidenceIndex candidate) m")
    case (Inl e)
    then show ?thesis using result roles unfolding derive by (auto split: sum.splits)
  next
    case (Inr x)
    then show ?thesis
      using result roles
      unfolding derive describesMetric_def Let_def subjectFixtureIds_def roleSubject_def ComparisonRole.case boundFixtures_def [symmetric]
        population_measured [symmetric]
      using stratum(3,4) counted
        role_totals [of r baseline m ?bs] role_totals [of r candidate m ?cs]
      by (auto simp: keys_def split: sum.splits)
  qed
qed

section \<open>Properties\<close>

text \<open>
  C31. Numeric metrics are exact statistics of the observations that count. The derivation fails only when
  pairing does not admit its inputs or a result exceeds the bound of exact values. Otherwise it yields one
  result per numeric metric, in order: the delta is the rational difference of the metric's statistic over
  exactly the fixtures of its stratum that are paired and measured once by both sides in its unit, with the
  direction of that difference, or unavailable when there is none; each role has a distribution exactly when
  it measured anything on a valid case, with the statistic of what it measured; and the counts are those of
  these fixtures.
\<close>

theorem numeric_metrics_exact:
  "(case deriveComparisonNumericMetrics nfc isoDatetime d baseline candidate of
      Inl e \<Rightarrow> (case e of NumericPairingError _ \<Rightarrow> \<not> pairingAdmitted nfc isoDatetime d baseline candidate
        | _ \<Rightarrow> pairingAdmitted nfc isoDatetime d baseline candidate \<and> e = outOfBounds)
    | Inr n \<Rightarrow> (\<exists>r results. pairComparisonEvidence nfc isoDatetime d baseline candidate = Inr r \<and>
        nd_distributions n = concat (map fst results) \<and> nd_metricResults n = map snd results \<and>
        list_all2 (describesMetric r d baseline candidate) (numericMetrics d) results))"
proof (cases "pairComparisonEvidence nfc isoDatetime d baseline candidate")
  case (Inl e)
  then show ?thesis using admission_error [OF Inl] by (simp add: deriveComparisonNumericMetrics_def)
next
  case (Inr r)
  let ?derive = "deriveMetric nfc d (mapOf caseFixtureId (pr_cases r)) (numericEvidenceIndex baseline) (numericEvidenceIndex candidate)"
  have admitted: "pairingAdmitted nfc isoDatetime d baseline candidate" by (rule pair_admitted [OF Inr])
  note described = metric_described [OF admitted Inr]
  show ?thesis
  proof (cases "traverse ?derive (numericMetrics d)")
    case failed: (Inl e)
    obtain m where "m \<in> set (numericMetrics d)" "?derive m = Inl e" using traverse_Inl_member [OF failed] by blast
    then have "e = outOfBounds" using described by force
    then show ?thesis using Inr failed admitted by (simp add: deriveComparisonNumericMetrics_def)
  next
    case results: (Inr xs)
    then have "list_all2 (\<lambda>m x. ?derive m = Inr x) (numericMetrics d) xs" by (simp add: traverse_Inr_iff)
    then have "list_all2 (describesMetric r d baseline candidate) (numericMetrics d) xs"
      using described by (auto simp: list_all2_conv_all_nth) (metis (no_types, lifting) nth_mem sum.case(2))
    then show ?thesis using Inr results by (auto simp: deriveComparisonNumericMetrics_def)
  qed
qed

end
