(* ===== verification/Reviewer_Search.thy ===== *)
theory Reviewer_Search
  imports Reviewer_Matching
begin

text \<open>
  The assignment search of \<open>matchDistinctReviewerGroups\<close> is correct for every cost matrix: both loops
  end, every row receives a column of its own, and no other assignment of the rows costs less.

  The invariant has four parts. The frame holds what a search never changes, the potentials stay
  feasible and tight on assigned columns, the frontier describes the running minima, and the tree
  says that the predecessor of a used column was used before it, over a cell of reduced cost zero.
\<close>

section \<open>Arrays and the two scans\<close>

lemma cell_update [simp]:
  "cell d (xs[i := x]) j = (if j = i \<and> i < length xs then x else cell d xs j)"
  by (simp add: cell_def)

lemma cell_replicate [simp]: "cell d (replicate n x) i = (if i < n then x else d)"
  by (simp add: cell_def)

lemma cell_replicate_Suc [simp]: "cell d (x # replicate n x) i = (if i < Suc n then x else d)"
  using cell_replicate [of d "Suc n" x i] by simp

lemma below_Some_iff: "below (Some x) y \<longleftrightarrow> (\<forall>z. y = Some z \<longrightarrow> x < z)"
  by (cases y) auto

definition reducedCost :: "(nat \<Rightarrow> nat \<Rightarrow> int) \<Rightarrow> search \<Rightarrow> nat \<Rightarrow> nat \<Rightarrow> int" where
  "reducedCost c s i j = c i j - cell 0 (rowPotential s) i - cell 0 (columnPotential s) j"

definition improves :: "(nat \<Rightarrow> nat \<Rightarrow> int) \<Rightarrow> search \<Rightarrow> nat \<Rightarrow> bool" where
  "improves c s j \<longleftrightarrow>
     below (Some (reducedCost c s (cell 0 (owner s) (column s)) j)) (cell None (minimum s) j)"

definition scannedMinimum :: "(nat \<Rightarrow> nat \<Rightarrow> int) \<Rightarrow> search \<Rightarrow> nat \<Rightarrow> int option" where
  "scannedMinimum c s j =
     (if improves c s j then Some (reducedCost c s (cell 0 (owner s) (column s)) j)
      else cell None (minimum s) j)"

definition closest ::
  "(nat \<Rightarrow> nat \<Rightarrow> int) \<Rightarrow> search \<Rightarrow> nat \<Rightarrow> int option \<Rightarrow> nat \<Rightarrow> bool" where
  "closest c s b delta candidate \<longleftrightarrow>
     (case delta of
        None \<Rightarrow> \<forall>j. 1 \<le> j \<and> j < b \<longrightarrow> cell False (used s) j
      | Some d \<Rightarrow> 1 \<le> candidate \<and> candidate < b \<and> \<not> cell False (used s) candidate \<and>
          scannedMinimum c s candidate = Some d \<and>
          (\<forall>j. 1 \<le> j \<and> j < b \<and> \<not> cell False (used s) j \<longrightarrow>
             (\<exists>x. scannedMinimum c s j = Some x \<and> d \<le> x)))"

definition scanned :: "(nat \<Rightarrow> nat \<Rightarrow> int) \<Rightarrow> search \<Rightarrow> nat \<Rightarrow> scan \<Rightarrow> bool" where
  "scanned c s b r \<longleftrightarrow>
     (case r of (mins, prevs, delta, next) \<Rightarrow>
        length mins = length (minimum s) \<and> length prevs = length (previous s) \<and>
        (\<forall>j. cell None mins j =
           (if 1 \<le> j \<and> j < b \<and> \<not> cell False (used s) j then scannedMinimum c s j
            else cell None (minimum s) j)) \<and>
        (\<forall>j. cell 0 prevs j =
           (if 1 \<le> j \<and> j < b \<and> \<not> cell False (used s) j \<and> improves c s j then column s
            else cell 0 (previous s) j)) \<and>
        closest c s b delta next)"

lemma scannedMinimum_Some: "\<exists>x. scannedMinimum c s j = Some x"
  by (cases "cell None (minimum s) j") (auto simp: scannedMinimum_def improves_def)

lemma closest_used:
  "cell False (used s) b \<Longrightarrow> closest c s b delta k \<Longrightarrow> closest c s (Suc b) delta k"
  by (auto simp: closest_def less_Suc_eq split: option.splits)

lemma closest_step:
  assumes k: "closest c s b delta k" and b: "1 \<le> b" "\<not> cell False (used s) b"
    and x: "scannedMinimum c s b = Some x"
  shows "below (Some x) delta \<Longrightarrow> closest c s (Suc b) (Some x) b"
    and "\<not> below (Some x) delta \<Longrightarrow> closest c s (Suc b) delta k"
proof -
  show "closest c s (Suc b) (Some x) b" if less: "below (Some x) delta"
  proof -
    have "\<exists>y. scannedMinimum c s j = Some y \<and> x \<le> y"
      if j: "1 \<le> j" "j < Suc b" "\<not> cell False (used s) j" for j
      using k j less x by (cases delta; cases "j = b") (fastforce simp: closest_def)+
    with b x show ?thesis by (simp add: closest_def)
  qed
  show "closest c s (Suc b) delta k" if "\<not> below (Some x) delta"
    using k that x by (auto simp: closest_def less_Suc_eq below_Some_iff split: option.splits)
qed

lemma scan_step:
  assumes r: "scanned c s b r" and b: "1 \<le> b" "b < length (minimum s)" "b < length (previous s)"
  shows "scanned c s (Suc b) (scanCandidate c s b r)"
proof -
  obtain mins prevs delta k where rr: "r = (mins, prevs, delta, k)" by (cases r)
  show ?thesis
  proof (cases "cell False (used s) b")
    case True
    have "(1 \<le> j \<and> j < Suc b \<and> \<not> cell False (used s) j) \<longleftrightarrow>
        (1 \<le> j \<and> j < b \<and> \<not> cell False (used s) j)" for j
      using True by (auto simp: less_Suc_eq)
    with True r show ?thesis
      by (auto simp: scanned_def rr less_Suc_eq closest_used)
  next
    case False
    obtain x where x: "scannedMinimum c s b = Some x" using scannedMinimum_Some by blast
    let ?red = "reducedCost c s (cell 0 (owner s) (column s)) b"
    have old: "cell None mins b = cell None (minimum s) b" "cell 0 prevs b = cell 0 (previous s) b"
      and len: "b < length mins" "b < length prevs"
      using r b by (auto simp: scanned_def rr)
    define mins' prevs' where "mins' = (if improves c s b then mins[b := Some ?red] else mins)"
      and "prevs' = (if improves c s b then prevs[b := column s] else prevs)"
    have step: "scanCandidate c s b r =
        (if below (Some x) delta then (mins', prevs', Some x, b) else (mins', prevs', delta, k))"
      using False old len x
      by (auto simp: rr mins'_def prevs'_def improves_def scannedMinimum_def reducedCost_def Let_def)
    have cells: "\<forall>j. cell None mins' j =
           (if 1 \<le> j \<and> j < Suc b \<and> \<not> cell False (used s) j then scannedMinimum c s j
            else cell None (minimum s) j)"
      "\<forall>j. cell 0 prevs' j =
           (if 1 \<le> j \<and> j < Suc b \<and> \<not> cell False (used s) j \<and> improves c s j then column s
            else cell 0 (previous s) j)"
      "length mins' = length (minimum s)" "length prevs' = length (previous s)"
      using r b False old len
      by (auto simp: scanned_def rr mins'_def prevs'_def less_Suc_eq scannedMinimum_def)
    have "closest c s b delta k" using r by (simp add: scanned_def rr)
    from cells closest_step [OF this b(1) False x] show ?thesis
      by (cases "below (Some x) delta") (simp_all add: scanned_def step)
  qed
qed

lemma scan_fold:
  assumes "length (minimum s) = m + 1" "length (previous s) = m + 1"
  shows "scanned c s (m + 1) (fold (scanCandidate c s) [1..<m + 1] (minimum s, previous s, None, 0))"
proof -
  have "b \<le> m \<Longrightarrow>
      scanned c s (b + 1) (fold (scanCandidate c s) [1..<b + 1] (minimum s, previous s, None, 0))" for b
  proof (induction b)
    case 0
    show ?case by (simp add: scanned_def closest_def)
  next
    case (Suc b)
    then show ?case using assms scan_step [OF Suc.IH] by simp
  qed
  then show ?thesis by blast
qed

definition shifted :: "search \<Rightarrow> int \<Rightarrow> int option list \<Rightarrow> nat \<Rightarrow> potentials \<Rightarrow> bool" where
  "shifted s d mins b r \<longleftrightarrow>
     (case r of (us, vs, mins') \<Rightarrow>
        length us = length (rowPotential s) \<and> length vs = length (columnPotential s) \<and>
        length mins' = length mins \<and>
        (\<forall>i. cell 0 us i = cell 0 (rowPotential s) i +
           (if \<exists>j<b. cell False (used s) j \<and> cell 0 (owner s) j = i then d else 0)) \<and>
        (\<forall>j. cell 0 vs j = cell 0 (columnPotential s) j - (if j < b \<and> cell False (used s) j then d else 0)) \<and>
        (\<forall>j. cell None mins' j =
           (if j < b \<and> \<not> cell False (used s) j then map_option (\<lambda>x. x - d) (cell None mins j)
            else cell None mins j)))"

lemma shift_step:
  assumes r: "shifted s d mins b r"
    and len: "b < length (columnPotential s)" "b < length mins"
    and own: "cell False (used s) b \<Longrightarrow> cell 0 (owner s) b < length (rowPotential s)"
    and inj: "\<And>j. j < b \<Longrightarrow> cell False (used s) j \<Longrightarrow> cell False (used s) b \<Longrightarrow>
      cell 0 (owner s) j \<noteq> cell 0 (owner s) b"
  shows "shifted s d mins (Suc b) (shiftCandidate s d b r)"
proof -
  obtain us vs mins' where rr: "r = (us, vs, mins')" by (cases r)
  show ?thesis
  proof (cases "cell False (used s) b")
    case True
    have "\<not> (\<exists>j<b. cell False (used s) j \<and> cell 0 (owner s) j = cell 0 (owner s) b)"
      using inj True by blast
    with r True len own show ?thesis
      by (auto simp: shifted_def rr Let_def less_Suc_eq)
  next
    case False
    with r len show ?thesis by (auto simp: shifted_def rr less_Suc_eq)
  qed
qed

lemma shift_fold:
  assumes len: "length (columnPotential s) = m + 1" "length mins = m + 1"
    and own: "\<And>j. j \<le> m \<Longrightarrow> cell False (used s) j \<Longrightarrow> cell 0 (owner s) j < length (rowPotential s)"
    and inj: "inj_on (cell 0 (owner s)) {j. j \<le> m \<and> cell False (used s) j}"
  shows "shifted s d mins (m + 1)
    (fold (shiftCandidate s d) [0..<m + 1] (rowPotential s, columnPotential s, mins))"
proof -
  have "b \<le> m + 1 \<Longrightarrow>
      shifted s d mins b (fold (shiftCandidate s d) [0..<b] (rowPotential s, columnPotential s, mins))" for b
  proof (induction b)
    case 0
    show ?case by (simp add: shifted_def)
  next
    case (Suc b)
    have "shifted s d mins (Suc b) (shiftCandidate s d b
        (fold (shiftCandidate s d) [0..<b] (rowPotential s, columnPotential s, mins)))"
    proof (rule shift_step)
      show "shifted s d mins b (fold (shiftCandidate s d) [0..<b] (rowPotential s, columnPotential s, mins))"
        using Suc by simp
      fix j assume "j < b" "cell False (used s) j" "cell False (used s) b"
      with Suc.prems show "cell 0 (owner s) j \<noteq> cell 0 (owner s) b"
        using inj by (auto dest: inj_onD)
    qed (use Suc.prems len own in auto)
    then show ?case by simp
  qed
  then show ?thesis by blast
qed

section \<open>The invariant of the search\<close>

text \<open>
  \<open>us\<close> lists the columns already used, in order, with column 0 standing for the row to assign. The
  frame says what the search never changes, the tree what the predecessors mean, the frontier what
  the running minima are.
\<close>

abbreviation ownerOf :: "search \<Rightarrow> nat \<Rightarrow> nat" where
  "ownerOf s \<equiv> cell 0 (owner s)"

abbreviation previousOf :: "search \<Rightarrow> nat \<Rightarrow> nat" where
  "previousOf s \<equiv> cell 0 (previous s)"

definition sized :: "nat \<Rightarrow> nat \<Rightarrow> search \<Rightarrow> bool" where
  "sized n m s \<longleftrightarrow>
     length (rowPotential s) = n + 1 \<and> length (columnPotential s) = m + 1 \<and>
     length (owner s) = m + 1 \<and> length (previous s) = m + 1 \<and>
     length (minimum s) = m + 1 \<and> length (used s) = m + 1"

definition assigned :: "nat \<Rightarrow> (nat \<Rightarrow> nat) \<Rightarrow> nat set" where
  "assigned m own = {j \<in> {1..m}. own j \<noteq> 0}"

definition searchFrame :: "nat \<Rightarrow> nat \<Rightarrow> nat \<Rightarrow> nat list \<Rightarrow> search \<Rightarrow> bool" where
  "searchFrame n m k us s \<longleftrightarrow>
     sized n m s \<and> 1 \<le> k \<and> k \<le> n \<and> n \<le> m \<and> ownerOf s 0 = k \<and>
     bij_betw (ownerOf s) (assigned m (ownerOf s)) {1..k - 1} \<and>
     (\<forall>j. cell False (used s) j \<longleftrightarrow> j \<in> set us) \<and> distinct us \<and>
     set us \<subseteq> insert 0 (assigned m (ownerOf s)) \<and>
     column s \<le> m \<and> column s \<notin> set us \<and> (us = [] \<longleftrightarrow> column s = 0) \<and> (us \<noteq> [] \<longrightarrow> us ! 0 = 0)"

definition dualFeasible :: "(nat \<Rightarrow> nat \<Rightarrow> int) \<Rightarrow> nat \<Rightarrow> nat set \<Rightarrow> search \<Rightarrow> bool" where
  "dualFeasible c m rows s \<longleftrightarrow>
     (\<forall>i \<in> rows. \<forall>j \<in> {1..m}. 0 \<le> reducedCost c s i j) \<and>
     (\<forall>j \<in> {1..m}. cell 0 (columnPotential s) j \<le> 0 \<and>
        (ownerOf s j = 0 \<longrightarrow> cell 0 (columnPotential s) j = 0) \<and>
        (ownerOf s j \<noteq> 0 \<longrightarrow> reducedCost c s (ownerOf s j) j = 0))"

definition searchFrontier :: "(nat \<Rightarrow> nat \<Rightarrow> int) \<Rightarrow> nat \<Rightarrow> nat list \<Rightarrow> search \<Rightarrow> bool" where
  "searchFrontier c m us s \<longleftrightarrow>
     (\<forall>j \<in> {1..m} - set us.
        if us = [] then cell None (minimum s) j = None
        else previousOf s j \<in> set us \<and>
          cell None (minimum s) j = Some (reducedCost c s (ownerOf s (previousOf s j)) j) \<and>
          (\<forall>i \<in> set us. reducedCost c s (ownerOf s (previousOf s j)) j \<le> reducedCost c s (ownerOf s i) j))"

definition searchTree :: "(nat \<Rightarrow> nat \<Rightarrow> int) \<Rightarrow> nat list \<Rightarrow> search \<Rightarrow> bool" where
  "searchTree c ws s \<longleftrightarrow>
     (\<forall>t. 0 < t \<and> t < length ws \<longrightarrow>
        previousOf s (ws ! t) \<in> set (take t ws) \<and>
        reducedCost c s (ownerOf s (previousOf s (ws ! t))) (ws ! t) = 0)"

definition searching :: "(nat \<Rightarrow> nat \<Rightarrow> int) \<Rightarrow> nat \<Rightarrow> nat \<Rightarrow> nat \<Rightarrow> nat list \<Rightarrow> search \<Rightarrow> bool" where
  "searching c n m k us s \<longleftrightarrow>
     searchFrame n m k us s \<and>
     dualFeasible c m (if us = [] then {1..k - 1} else {1..k}) s \<and>
     searchFrontier c m us s \<and> searchTree c (us @ [column s]) s"

lemma ownerOf_used:
  assumes "searchFrame n m k us s" "j \<in> set us"
  shows "ownerOf s j \<noteq> 0" "ownerOf s j \<le> k" "j \<le> m"
proof -
  have own: "ownerOf s 0 = k" "1 \<le> k" "k \<le> n" "n \<le> m"
    "ownerOf s ` assigned m (ownerOf s) = {1..k - 1}" "j = 0 \<or> j \<in> assigned m (ownerOf s)"
    using assms by (auto simp: searchFrame_def bij_betw_def)
  then have "j = 0 \<or> ownerOf s j \<in> {1..k - 1}" by blast
  with own show "ownerOf s j \<noteq> 0" "ownerOf s j \<le> k" "j \<le> m" by (auto simp: assigned_def)
qed

lemma ownerOf_inj:
  assumes f: "searchFrame n m k us s"
  shows "inj_on (ownerOf s) (insert 0 (assigned m (ownerOf s)))"
proof -
  have "inj_on (ownerOf s) (assigned m (ownerOf s))"
    "ownerOf s ` assigned m (ownerOf s) = {1..k - 1}" "ownerOf s 0 = k" "1 \<le> k"
    using f by (auto simp: searchFrame_def bij_betw_def)
  moreover have "k \<notin> {1..k - 1}" using \<open>1 \<le> k\<close> by simp
  ultimately show ?thesis unfolding inj_on_insert by blast
qed

lemma unassigned_column:
  assumes "searchFrame n m k us s"
  obtains j where "1 \<le> j" "j \<le> m" "ownerOf s j = 0"
proof -
  have "card (assigned m (ownerOf s)) = k - 1" "k \<le> m" "1 \<le> k"
    using assms bij_betw_same_card [of "ownerOf s" "assigned m (ownerOf s)" "{1..k - 1}"]
    by (simp_all add: searchFrame_def)
  then have "card (assigned m (ownerOf s)) \<noteq> card {1..m}" by simp
  then have "assigned m (ownerOf s) \<noteq> {1..m}" by metis
  then obtain j where "j \<in> {1..m}" "ownerOf s j = 0" unfolding assigned_def by blast
  then show ?thesis using that by auto
qed

text \<open>One step: the columns used, the potentials moved by \<open>d\<close> on them, the new frontier.\<close>

definition stepped ::
  "(nat \<Rightarrow> nat \<Rightarrow> int) \<Rightarrow> nat \<Rightarrow> nat list \<Rightarrow> search \<Rightarrow> int \<Rightarrow> search \<Rightarrow> bool" where
  "stepped c m ws s d s' \<longleftrightarrow>
     owner s' = owner s \<and>
     (\<forall>i. \<forall>j \<in> {1..m}. reducedCost c s' i j =
        reducedCost c s i j - (if i \<in> ownerOf s ` set ws then d else 0) +
        (if j \<in> set ws then d else 0)) \<and>
     (\<forall>j. cell 0 (columnPotential s') j = cell 0 (columnPotential s) j - (if j \<in> set ws then d else 0)) \<and>
     (\<forall>j \<in> {1..m} - set ws.
        previousOf s' j \<in> set ws \<and>
        cell None (minimum s') j = Some (reducedCost c s (ownerOf s (previousOf s' j)) j - d) \<and>
        d \<le> reducedCost c s (ownerOf s (previousOf s' j)) j \<and>
        (\<forall>i \<in> set ws. reducedCost c s (ownerOf s (previousOf s' j)) j \<le> reducedCost c s (ownerOf s i) j)) \<and>
     (\<forall>j \<in> set ws. previousOf s' j = previousOf s j) \<and>
     column s' \<in> {1..m} - set ws \<and>
     reducedCost c s (ownerOf s (previousOf s' (column s'))) (column s') = d"

lemma scannedMinimum_frontier:
  assumes front: "searchFrontier c m us s" and j: "j \<in> {1..m} - set (us @ [column s])"
    and s1: "s1 = s\<lparr>used := us1\<rparr>"
  defines "p \<equiv> (if improves c s1 j then column s else previousOf s j)"
  shows "p \<in> set (us @ [column s])"
    and "scannedMinimum c s1 j = Some (reducedCost c s (ownerOf s p) j)"
    and "\<forall>i \<in> set (us @ [column s]). reducedCost c s (ownerOf s p) j \<le> reducedCost c s (ownerOf s i) j"
proof -
  have red: "reducedCost c s1 = reducedCost c s" by (intro ext) (simp add: reducedCost_def s1)
  have imp: "improves c s1 j \<longleftrightarrow> below (Some (reducedCost c s (ownerOf s (column s)) j)) (cell None (minimum s) j)"
    unfolding improves_def red by (simp add: s1)
  have f: "if us = [] then cell None (minimum s) j = None
        else previousOf s j \<in> set us \<and>
          cell None (minimum s) j = Some (reducedCost c s (ownerOf s (previousOf s j)) j) \<and>
          (\<forall>i \<in> set us. reducedCost c s (ownerOf s (previousOf s j)) j \<le> reducedCost c s (ownerOf s i) j)"
    using front j by (auto simp: searchFrontier_def)
  show "p \<in> set (us @ [column s])"
    using f by (auto simp: p_def imp split: if_splits)
  show "scannedMinimum c s1 j = Some (reducedCost c s (ownerOf s p) j)"
    using f unfolding p_def scannedMinimum_def imp red by (simp add: s1 split: if_splits)
  show "\<forall>i \<in> set (us @ [column s]). reducedCost c s (ownerOf s p) j \<le> reducedCost c s (ownerOf s i) j"
    using f by (auto simp: p_def imp split: if_splits)
qed

lemma stepped_intro:
  assumes sc: "scanned c s1 (m + 1) (mins, prevs, Some d, nxt)"
    and sh: "shifted s1 d mins (m + 1) (xs, ys, zs)"
    and s1: "s1 = s\<lparr>used := us1\<rparr>"
    and used1: "\<And>j. cell False (used s1) j \<longleftrightarrow> j \<in> set (us @ [column s])"
    and wsm: "\<And>j. j \<in> set (us @ [column s]) \<Longrightarrow> j \<le> m"
    and front: "searchFrontier c m us s"
    and s': "s' = s1\<lparr>rowPotential := xs, columnPotential := ys, minimum := zs,
                        previous := prevs, column := nxt\<rparr>"
  shows "stepped c m (us @ [column s]) s d s'"
proof -
  let ?ws = "us @ [column s]"
  have pot: "cell 0 xs i = cell 0 (rowPotential s) i + (if i \<in> ownerOf s ` set ?ws then d else 0)"
    "cell 0 ys j = cell 0 (columnPotential s) j - (if j \<in> set ?ws then d else 0)" for i j
  proof -
    have "(\<exists>j<m + 1. cell False (used s1) j \<and> ownerOf s1 j = i) \<longleftrightarrow> i \<in> ownerOf s ` set ?ws"
      using wsm unfolding used1 by (auto simp: s1 less_Suc_eq_le image_iff)
    then show "cell 0 xs i = cell 0 (rowPotential s) i + (if i \<in> ownerOf s ` set ?ws then d else 0)"
      using sh by (simp add: shifted_def s1)
    have "(j < m + 1 \<and> cell False (used s1) j) \<longleftrightarrow> j \<in> set ?ws"
      using wsm [of j] unfolding used1 by auto
    then show "cell 0 ys j = cell 0 (columnPotential s) j - (if j \<in> set ?ws then d else 0)"
      using sh by (simp add: shifted_def s1)
  qed
  have free: "cell 0 prevs j = (if improves c s1 j then column s else previousOf s j)"
    "cell None zs j = map_option (\<lambda>x. x - d) (scannedMinimum c s1 j)"
    "\<exists>x. scannedMinimum c s1 j = Some x \<and> d \<le> x"
    if j: "j \<in> {1..m} - set ?ws" for j
  proof -
    have "\<not> cell False (used s1) j" "1 \<le> j" "j < m + 1" using j unfolding used1 by auto
    with sc sh show "cell 0 prevs j = (if improves c s1 j then column s else previousOf s j)"
      "cell None zs j = map_option (\<lambda>x. x - d) (scannedMinimum c s1 j)"
      "\<exists>x. scannedMinimum c s1 j = Some x \<and> d \<le> x"
      by (simp_all add: scanned_def shifted_def closest_def s1)
  qed
  have kept: "cell 0 prevs j = previousOf s j" if "j \<in> set ?ws" for j
    using sc that used1 [of j] by (auto simp: scanned_def s1)
  have nxt: "nxt \<in> {1..m} - set ?ws" "scannedMinimum c s1 nxt = Some d"
    using sc used1 [of nxt] by (auto simp: scanned_def closest_def)
  have fr: "previousOf s' j \<in> set ?ws"
    "cell None (minimum s') j = Some (reducedCost c s (ownerOf s (previousOf s' j)) j - d)"
    "d \<le> reducedCost c s (ownerOf s (previousOf s' j)) j"
    "\<forall>i \<in> set ?ws. reducedCost c s (ownerOf s (previousOf s' j)) j \<le> reducedCost c s (ownerOf s i) j"
    "scannedMinimum c s1 j = Some (reducedCost c s (ownerOf s (previousOf s' j)) j)"
    if j: "j \<in> {1..m} - set ?ws" for j
    using scannedMinimum_frontier [OF front j s1] free [OF j] by (simp_all add: s')
  have "reducedCost c s' i j = reducedCost c s i j - (if i \<in> ownerOf s ` set ?ws then d else 0) +
        (if j \<in> set ?ws then d else 0)" for i j
    using pot(1) [of i] pot(2) [of j] by (simp add: reducedCost_def s')
  moreover have "reducedCost c s (ownerOf s (previousOf s' nxt)) nxt = d"
    using fr(5) [OF nxt(1)] nxt(2) by simp
  ultimately show ?thesis
    unfolding stepped_def using fr(1-4) kept nxt(1) pot(2)
    by (intro conjI ballI allI) (auto simp: s' s1)
qed

lemma searchStep_stepped:
  assumes frame: "searchFrame n m k us s" and front: "searchFrontier c m us s"
    and own: "ownerOf s (column s) \<noteq> 0"
  obtains s' d where "searchStep c m s = Some s'" "stepped c m (us @ [column s]) s d s'"
    "sized n m s'" "\<forall>j. cell False (used s') j \<longleftrightarrow> j \<in> set (us @ [column s])"
proof -
  let ?ws = "us @ [column s]"
  define s1 where "s1 = s\<lparr>used := (used s)[column s := True]\<rparr>"
  have sz: "sized n m s" and col: "column s \<le> m"
    and us: "\<And>j. cell False (used s) j \<longleftrightarrow> j \<in> set us"
    using frame by (auto simp: searchFrame_def)
  have used1: "cell False (used s1) j \<longleftrightarrow> j \<in> set ?ws" for j
    using us [of j] sz col by (auto simp: s1_def sized_def)
  have red: "reducedCost c s1 = reducedCost c s" by (intro ext) (simp add: reducedCost_def s1_def)
  have ws: "set ?ws \<subseteq> insert 0 (assigned m (ownerOf s))"
    using frame own by (auto simp: searchFrame_def assigned_def)
  have wsm: "j \<le> m" "ownerOf s j \<le> n" if "j \<in> set ?ws" for j
  proof -
    have "ownerOf s 0 = k" "k \<le> n" "ownerOf s ` assigned m (ownerOf s) = {1..k - 1}"
      using frame by (auto simp: searchFrame_def bij_betw_def)
    moreover have "j = 0 \<or> j \<in> assigned m (ownerOf s)" using ws that by blast
    ultimately have "ownerOf s j = k \<or> ownerOf s j \<in> {1..k - 1}" by blast
    with \<open>k \<le> n\<close> show "ownerOf s j \<le> n" by auto
    show "j \<le> m" using \<open>j = 0 \<or> j \<in> assigned m (ownerOf s)\<close> by (auto simp: assigned_def)
  qed
  obtain mins prevs delta nxt where scan:
    "fold (scanCandidate c s1) [1..<m + 1] (minimum s1, previous s1, None, 0) = (mins, prevs, delta, nxt)"
    by (metis prod_cases4)
  have sc: "scanned c s1 (m + 1) (mins, prevs, delta, nxt)"
    unfolding scan [symmetric] by (rule scan_fold) (use sz in \<open>simp_all add: s1_def sized_def\<close>)
  obtain j0 where "1 \<le> j0" "j0 \<le> m" "ownerOf s j0 = 0" using unassigned_column [OF frame] .
  then have "j0 \<notin> set ?ws" using ws by (auto simp: assigned_def)
  with \<open>1 \<le> j0\<close> \<open>j0 \<le> m\<close> sc used1 obtain d where d: "delta = Some d"
    by (cases delta) (auto simp: scanned_def closest_def)
  obtain xs ys zs where shift:
    "fold (shiftCandidate s1 d) [0..<m + 1] (rowPotential s1, columnPotential s1, mins) = (xs, ys, zs)"
    by (metis prod_cases3)
  have inj: "inj_on (ownerOf s) (set ?ws)"
    using inj_on_subset [OF ownerOf_inj [OF frame] ws] .
  have sh: "shifted s1 d mins (m + 1) (xs, ys, zs)"
    unfolding shift [symmetric]
  proof (rule shift_fold)
    show "length mins = m + 1" using sc sz by (simp add: scanned_def s1_def sized_def)
    show "inj_on (cell 0 (owner s1)) {j. j \<le> m \<and> cell False (used s1) j}"
      using inj used1 by (auto simp: s1_def intro: inj_on_subset)
    show "cell 0 (owner s1) j < length (rowPotential s1)" if "cell False (used s1) j" for j
      using wsm(2) [of j] that used1 sz by (simp add: s1_def sized_def)
  qed (use sz in \<open>simp add: s1_def sized_def\<close>)
  define s' where "s' = s1\<lparr>rowPotential := xs, columnPotential := ys, minimum := zs,
                        previous := prevs, column := nxt\<rparr>"
  have step: "searchStep c m s = Some s'"
    using scan shift d by (simp add: searchStep_def s1_def [symmetric] s'_def Let_def)
  show ?thesis
  proof (rule that [OF step])
    show "sized n m s'" using sc sh sz by (simp add: sized_def s'_def s1_def scanned_def shifted_def)
    show "\<forall>j. cell False (used s') j \<longleftrightarrow> j \<in> set ?ws" using used1 by (simp add: s'_def)
    show "stepped c m ?ws s d s'"
      using sc sh s1_def used1 wsm(1) front s'_def unfolding d by (rule stepped_intro)
  qed
qed

lemma steppedD:
  assumes "stepped c m ws s d s'"
  shows "owner s' = owner s"
    and "j \<in> {1..m} \<Longrightarrow> reducedCost c s' i j =
        reducedCost c s i j - (if i \<in> ownerOf s ` set ws then d else 0) + (if j \<in> set ws then d else 0)"
    and "cell 0 (columnPotential s') j = cell 0 (columnPotential s) j - (if j \<in> set ws then d else 0)"
    and "j \<in> {1..m} - set ws \<Longrightarrow> previousOf s' j \<in> set ws"
    and "j \<in> {1..m} - set ws \<Longrightarrow>
        cell None (minimum s') j = Some (reducedCost c s (ownerOf s (previousOf s' j)) j - d)"
    and "j \<in> {1..m} - set ws \<Longrightarrow> d \<le> reducedCost c s (ownerOf s (previousOf s' j)) j"
    and "j \<in> {1..m} - set ws \<Longrightarrow> h \<in> set ws \<Longrightarrow>
        reducedCost c s (ownerOf s (previousOf s' j)) j \<le> reducedCost c s (ownerOf s h) j"
    and "j \<in> set ws \<Longrightarrow> previousOf s' j = previousOf s j"
    and "column s' \<in> {1..m} - set ws"
    and "reducedCost c s (ownerOf s (previousOf s' (column s'))) (column s') = d"
  using assms unfolding stepped_def by blast+

lemma stepped_frame:
  assumes frame: "searchFrame n m k us s" and own: "ownerOf s (column s) \<noteq> 0"
    and step: "stepped c m (us @ [column s]) s d s'" and sz: "sized n m s'"
    and used': "\<forall>j. cell False (used s') j \<longleftrightarrow> j \<in> set (us @ [column s])"
  shows "searchFrame n m k (us @ [column s]) s'"
proof -
  have "set (us @ [column s]) \<subseteq> insert 0 (assigned m (ownerOf s))"
    using frame own by (auto simp: searchFrame_def assigned_def)
  moreover have "(us @ [column s]) ! 0 = 0"
    using frame by (cases us) (auto simp: searchFrame_def)
  moreover have "column s' \<in> {1..m} - set (us @ [column s])" by (rule steppedD(9) [OF step])
  ultimately show ?thesis
    using frame sz used' by (auto simp: searchFrame_def steppedD(1) [OF step])
qed

lemma stepped_dual:
  assumes inv: "dualFeasible c m (if us = [] then {1..k - 1} else {1..k}) s"
    and frame: "searchFrame n m k us s" and ws: "ws = us @ [column s]"
    and frame': "searchFrame n m k ws s'" and step: "stepped c m ws s d s'"
  shows "dualFeasible c m {1..k} s'"
proof -
  note owner' = steppedD(1) [OF step] and red = steppedD(2) [OF step] and vs = steppedD(3) [OF step]
    and fr = steppedD(4-7) [OF step] and col' = steppedD(9,10) [OF step]
  have wsA: "set ws \<subseteq> insert 0 (assigned m (ownerOf s))" and ws0: "0 \<in> set ws"
    using frame' nth_mem [of 0 ws] by (auto simp: searchFrame_def owner' ws)
  have rows: "ownerOf s i \<in> {1..k}" "ownerOf s i \<noteq> 0" if "i \<in> set ws" for i
    using ownerOf_used [OF frame' that] by (auto simp: owner')
  have nonneg: "0 \<le> d" if "us \<noteq> []"
    using inv that rows(1) [OF fr(1) [OF col'(1)]] col' by (fastforce simp: dualFeasible_def)
  have single: "j \<notin> set ws" if "us = []" "1 \<le> j" for j
    using frame that by (auto simp: searchFrame_def ws)
  have inR: "ownerOf s j \<in> ownerOf s ` set ws \<longleftrightarrow> j \<in> set ws" if "j \<in> assigned m (ownerOf s)" for j
    using inj_on_image_mem_iff [OF ownerOf_inj [OF frame] _ wsA] that by blast
  have "0 \<le> reducedCost c s' i j" if i: "i \<in> {1..k}" and j: "j \<in> {1..m}" for i j
  proof (cases "i \<in> ownerOf s ` set ws")
    case True
    then obtain i' where i': "i' \<in> set ws" "i = ownerOf s i'" by blast
    have "0 \<le> reducedCost c s i j" if "j \<in> set ws"
      using inv i j that single [of j] by (auto simp: dualFeasible_def split: if_splits)
    moreover have "d \<le> reducedCost c s i j" if "j \<notin> set ws"
      using fr(3) [of j] fr(4) [of j i'] j i' that by fastforce
    ultimately show ?thesis using i' by (cases "j \<in> set ws") (simp_all add: red [OF j])
  next
    case False
    have "ownerOf s 0 = k" using frame by (simp add: searchFrame_def)
    then have "i \<noteq> k" using False ws0 by blast
    with inv i j have "0 \<le> reducedCost c s i j"
      by (cases "us = []") (auto simp: dualFeasible_def)
    with False nonneg single j show ?thesis by (cases "us = []") (auto simp: red [OF j])
  qed
  moreover have "cell 0 (columnPotential s') j \<le> 0 \<and>
        (ownerOf s' j = 0 \<longrightarrow> cell 0 (columnPotential s') j = 0) \<and>
        (ownerOf s' j \<noteq> 0 \<longrightarrow> reducedCost c s' (ownerOf s' j) j = 0)" if j: "j \<in> {1..m}" for j
  proof -
    have old: "cell 0 (columnPotential s) j \<le> 0" "ownerOf s j = 0 \<longrightarrow> cell 0 (columnPotential s) j = 0"
      "ownerOf s j \<noteq> 0 \<longrightarrow> reducedCost c s (ownerOf s j) j = 0"
      using inv j by (auto simp: dualFeasible_def)
    have "cell 0 (columnPotential s') j \<le> 0"
      using old nonneg single j by (cases "us = []") (auto simp: vs)
    moreover have "cell 0 (columnPotential s') j = 0" if "ownerOf s j = 0"
      using old that rows(2) [of j] by (auto simp: vs)
    moreover have "reducedCost c s' (ownerOf s j) j = 0" if "ownerOf s j \<noteq> 0"
      using old that inR [of j] j by (auto simp: red [OF j] assigned_def)
    ultimately show ?thesis by (simp add: owner')
  qed
  ultimately show ?thesis unfolding dualFeasible_def by blast
qed

lemma stepped_frontier:
  assumes step: "stepped c m ws s d s'" and ws: "ws \<noteq> []"
  shows "searchFrontier c m ws s'"
  using steppedD(4,5,7) [OF step] ws
  by (auto simp: searchFrontier_def steppedD(1,2) [OF step])

lemma stepped_tree:
  assumes tree: "searchTree c ws s" and frame': "searchFrame n m k ws s'" and ws: "ws \<noteq> []"
    and step: "stepped c m ws s d s'"
  shows "searchTree c (ws @ [column s']) s'"
  unfolding searchTree_def
proof (intro allI impI)
  note facts = steppedD(1,2,8) [OF step]
  fix t assume t: "0 < t \<and> t < length (ws @ [column s'])"
  show "previousOf s' ((ws @ [column s']) ! t) \<in> set (take t (ws @ [column s'])) \<and>
      reducedCost c s' (ownerOf s' (previousOf s' ((ws @ [column s']) ! t))) ((ws @ [column s']) ! t) = 0"
  proof (cases "t < length ws")
    case True
    let ?j = "ws ! t"
    have p: "previousOf s ?j \<in> set (take t ws)" "reducedCost c s (ownerOf s (previousOf s ?j)) ?j = 0"
      using tree True t by (auto simp: searchTree_def)
    have "distinct ws" "ws ! 0 = 0" using frame' ws by (auto simp: searchFrame_def)
    then have j: "?j \<in> set ws" "?j \<noteq> 0" "?j \<le> m"
      using True t ws nth_eq_iff_index_eq [of ws t 0] ownerOf_used(3) [OF frame', of ?j] by auto
    have "previousOf s ?j \<in> set ws" using p(1) by (meson in_set_takeD)
    with p j True show ?thesis by (auto simp: nth_append facts)
  next
    case False
    then have "t = length ws" using t by simp
    with steppedD(4) [OF step] steppedD(9,10) [OF step] show ?thesis by (auto simp: nth_append facts)
  qed
qed

lemma stepped_searching:
  assumes inv: "searching c n m k us s" and own: "ownerOf s (column s) \<noteq> 0"
    and step: "stepped c m (us @ [column s]) s d s'" and sz: "sized n m s'"
    and used': "\<forall>j. cell False (used s') j \<longleftrightarrow> j \<in> set (us @ [column s])"
  shows "searching c n m k (us @ [column s]) s'"
proof -
  have frame: "searchFrame n m k us s" and dual: "dualFeasible c m (if us = [] then {1..k - 1} else {1..k}) s"
    and tree: "searchTree c (us @ [column s]) s"
    using inv by (simp_all add: searching_def)
  have frame': "searchFrame n m k (us @ [column s]) s'"
    by (rule stepped_frame [OF frame own step sz used'])
  moreover have "dualFeasible c m {1..k} s'" by (rule stepped_dual [OF dual frame refl frame' step])
  moreover have "searchFrontier c m (us @ [column s]) s'"
    by (rule stepped_frontier [OF step]) simp
  moreover have "searchTree c ((us @ [column s]) @ [column s']) s'"
    by (rule stepped_tree [OF tree frame' _ step]) simp
  ultimately show ?thesis by (simp add: searching_def)
qed

section \<open>Both loops end\<close>

lemma used_bounded: "searchFrame n m k us s \<Longrightarrow> length us \<le> m"
proof -
  assume f: "searchFrame n m k us s"
  have "set us \<subseteq> {..m} - {column s}" "column s \<le> m" "distinct us"
    using f ownerOf_used(3) [OF f] by (auto simp: searchFrame_def)
  then show ?thesis
    using card_mono [of "{..m} - {column s}" "set us"] by (simp add: distinct_card)
qed

lemma searchLoop_ends:
  assumes "searching c n m k us s" "ownerOf s (column s) \<noteq> 0"
  obtains us' s' where "searchLoop c m s = Some s'" "searching c n m k us' s'" "us' \<noteq> []"
    "ownerOf s' (column s') = 0" "owner s' = owner s"
proof -
  have "\<exists>us' s'. searchLoop c m s = Some s' \<and> searching c n m k us' s' \<and> us' \<noteq> [] \<and>
      ownerOf s' (column s') = 0 \<and> owner s' = owner s"
    using assms
  proof (induction "m - length us" arbitrary: us s rule: less_induct)
    case less
    have frame: "searchFrame n m k us s" "searchFrontier c m us s"
      using less.prems by (auto simp: searching_def)
    obtain s' d where step: "searchStep c m s = Some s'" "stepped c m (us @ [column s]) s d s'"
      "sized n m s'" "\<forall>j. cell False (used s') j \<longleftrightarrow> j \<in> set (us @ [column s])"
      using searchStep_stepped [OF frame less.prems(2)] .
    have inv: "searching c n m k (us @ [column s]) s'"
      using stepped_searching [OF less.prems step(2-4)] .
    have own: "owner s' = owner s" using step(2) by (simp add: stepped_def)
    show ?case
    proof (cases "ownerOf s' (column s') = 0")
      case True
      with step(1) inv own show ?thesis
        by (intro exI [of _ "us @ [column s]"] exI [of _ s']) (simp add: searchLoop.simps)
    next
      case False
      have "m - length (us @ [column s]) < m - length us"
        using used_bounded [of n m k "us @ [column s]" s'] inv by (simp add: searching_def)
      from less.hyps [OF this inv False] step(1) False own show ?thesis
        by (subst searchLoop.simps) simp
    qed
  qed
  then show ?thesis using that by blast
qed

text \<open>
  The second loop moves a hole along the predecessors: every row but the one at the hole keeps a
  column of its own, until the hole is column 0.
\<close>

definition holeAt :: "nat \<Rightarrow> nat \<Rightarrow> nat \<Rightarrow> (nat \<Rightarrow> nat) \<Rightarrow> bool" where
  "holeAt m k h own \<longleftrightarrow> bij_betw own {j \<in> {..m} - {h}. own j \<noteq> 0} {1..k}"

lemma holeAt_move:
  assumes h: "holeAt m k h own" and p: "p \<le> m" "p \<noteq> h" "own p \<noteq> 0" "h \<le> m"
  shows "holeAt m k p (own(h := own p))"
proof -
  let ?f = "\<lambda>j. if j = h then p else j"
  have "bij_betw ?f {j \<in> {..m} - {p}. (own(h := own p)) j \<noteq> 0} {j \<in> {..m} - {h}. own j \<noteq> 0}"
    by (rule bij_betw_byWitness [where f' = "\<lambda>j. if j = p then h else j"]) (use p in auto)
  from bij_betw_trans [OF this h [unfolded holeAt_def]]
  have "bij_betw (own \<circ> ?f) {j \<in> {..m} - {p}. (own(h := own p)) j \<noteq> 0} {1..k}" .
  moreover have "own \<circ> ?f = own(h := own p)" by auto
  ultimately show ?thesis by (simp add: holeAt_def)
qed

lemma augmentLoop_ends:
  assumes "0 < t" "t < length ws" "ws ! t = j" "distinct ws" "ws ! 0 = 0"
    and "\<And>i. i \<in> set ws \<Longrightarrow> i \<le> m" "length owners = m + 1"
    and "\<And>t. 0 < t \<Longrightarrow> t < length ws \<Longrightarrow> cell 0 prevs (ws ! t) \<in> set (take t ws)"
    and "\<And>t. 0 < t \<Longrightarrow> t < length ws \<Longrightarrow> good (prior (cell 0 prevs (ws ! t))) (ws ! t)"
    and "\<And>i. i \<in> set (take t ws) \<Longrightarrow> cell 0 owners i = prior i \<and> prior i \<noteq> 0"
    and "holeAt m k j (cell 0 owners)"
    and "\<And>i. i \<in> {1..m} - {j} \<Longrightarrow> cell 0 owners i \<noteq> 0 \<Longrightarrow> good (cell 0 owners i) i"
  shows "\<exists>owners'. augmentLoop prevs owners j = Some owners' \<and> length owners' = m + 1 \<and>
    holeAt m k 0 (cell 0 owners') \<and>
    (\<forall>i \<in> {1..m}. cell 0 owners' i \<noteq> 0 \<longrightarrow> good (cell 0 owners' i) i) \<and>
    (\<forall>i \<in> {1..m}. cell 0 owners i \<noteq> 0 \<or> i = j \<longrightarrow> cell 0 owners' i \<noteq> 0)"
  using assms
proof (induction t arbitrary: j owners rule: less_induct)
  case (less t)
  note t = less.prems(1-3) and ws = less.prems(4,5) and bound = less.prems(6) and len = less.prems(7)
    and tree = less.prems(8,9) and old = less.prems(10) and hole = less.prems(11) and fine = less.prems(12)
  define p where "p = cell 0 prevs j"
  have "p \<in> set (take t ws)" using tree(1) t by (auto simp: p_def)
  then obtain t' where t': "t' < t" "ws ! t' = p" using t(2) by (auto simp: in_set_conv_nth)
  have pj: "p \<noteq> j" using t t' ws nth_eq_iff_index_eq [of ws t' t] by auto
  have pm: "p \<le> m" "j \<le> m" using bound t t' by (metis nth_mem less_trans)+
  have j0: "j \<noteq> 0" using t ws nth_eq_iff_index_eq [of ws t 0] by (metis gr_implies_not0 length_pos_if_in_set nth_mem)
  have own: "cell 0 owners p = prior p" "prior p \<noteq> 0"
    using old \<open>p \<in> set (take t ws)\<close> by blast+
  define owners' where "owners' = owners[j := cell 0 owners p]"
  have cells: "cell 0 owners' = (cell 0 owners)(j := cell 0 owners p)"
    using len pm by (auto simp: owners'_def)
  have hole': "holeAt m k p (cell 0 owners')"
    unfolding cells by (rule holeAt_move [OF hole]) (use pm pj own in auto)
  have len': "length owners' = m + 1" using len by (simp add: owners'_def)
  have goodj: "good (cell 0 owners p) j" using tree(2) [OF t(1,2)] own by (simp add: t(3) p_def)
  have fine': "good (cell 0 owners' i) i" if "i \<in> {1..m} - {p}" "cell 0 owners' i \<noteq> 0" for i
    using that fine [of i] goodj by (auto simp: cells split: if_splits)
  have unroll: "augmentLoop prevs owners j = (if p \<noteq> 0 then augmentLoop prevs owners' p else Some owners')"
    by (subst augmentLoop.simps) (simp add: p_def owners'_def Let_def)
  show ?case
  proof (cases "p = 0")
    case True
    have "\<forall>i \<in> {1..m}. cell 0 owners' i \<noteq> 0 \<longrightarrow> good (cell 0 owners' i) i" using fine' True by auto
    moreover have "\<forall>i \<in> {1..m}. cell 0 owners i \<noteq> 0 \<or> i = j \<longrightarrow> cell 0 owners' i \<noteq> 0"
      using own by (auto simp: cells)
    ultimately show ?thesis using hole' len' True by (simp add: unroll)
  next
    case False
    have t0: "0 < t'" using False ws t' by (metis gr0I)
    have tl: "t' < length ws" using t' t by simp
    have old': "cell 0 owners' i = prior i \<and> prior i \<noteq> 0" if i: "i \<in> set (take t' ws)" for i
    proof -
      have "set (take t' ws) \<subseteq> set (take t ws)" using t'(1) by (simp add: set_take_subset_set_take)
      moreover have "i \<noteq> j" using i t t' ws by (auto simp: in_set_conv_nth nth_eq_iff_index_eq)
      ultimately show ?thesis using old i by (auto simp: cells)
    qed
    obtain os where os: "augmentLoop prevs owners' p = Some os" "length os = m + 1"
      "holeAt m k 0 (cell 0 os)" "\<forall>i \<in> {1..m}. cell 0 os i \<noteq> 0 \<longrightarrow> good (cell 0 os i) i"
      "\<forall>i \<in> {1..m}. cell 0 owners' i \<noteq> 0 \<or> i = p \<longrightarrow> cell 0 os i \<noteq> 0"
      using less.IH [OF t'(1) t0 tl t'(2) ws bound len' tree old' hole' fine'] by blast
    have "\<forall>i \<in> {1..m}. cell 0 owners i \<noteq> 0 \<or> i = j \<longrightarrow> cell 0 os i \<noteq> 0"
      using os(5) own by (auto simp: cells)
    with os False show ?thesis by (simp add: unroll)
  qed
qed

section \<open>Every row gets a column of least total cost\<close>

definition certified :: "(nat \<Rightarrow> nat \<Rightarrow> int) \<Rightarrow> nat \<Rightarrow> nat \<Rightarrow> nat \<Rightarrow> search \<Rightarrow> bool" where
  "certified c n m k s \<longleftrightarrow>
     sized n m s \<and> k \<le> n \<and> n \<le> m \<and> dualFeasible c m {1..k} s \<and>
     bij_betw (ownerOf s) (assigned m (ownerOf s)) {1..k}"

lemma holeAt_0: "holeAt m k 0 own \<longleftrightarrow> bij_betw own (assigned m own) {1..k}"
proof -
  have "{j \<in> {..m} - {0}. own j \<noteq> 0} = assigned m own" by (auto simp: assigned_def)
  then show ?thesis by (simp add: holeAt_def)
qed

lemma certified_searching:
  assumes cert: "certified c n m k s" and k: "k < n"
  shows "searching c n m (k + 1) []
    (s\<lparr>owner := (owner s)[0 := k + 1], column := 0, minimum := replicate (m + 1) None,
       used := replicate (m + 1) False\<rparr>)" (is "searching c n m (k + 1) [] ?s")
proof -
  have own: "ownerOf ?s = (ownerOf s)(0 := k + 1)"
    using cert by (auto simp: certified_def sized_def)
  have same: "assigned m (ownerOf ?s) = assigned m (ownerOf s)"
    unfolding own by (auto simp: assigned_def)
  have "bij_betw (ownerOf ?s) (assigned m (ownerOf ?s)) {1..k}"
    unfolding same using cert bij_betw_cong [of "assigned m (ownerOf s)" "ownerOf s" "ownerOf ?s" "{1..k}"]
    by (auto simp: certified_def own assigned_def)
  then have "searchFrame n m (k + 1) [] ?s"
    using cert k own by (auto simp: searchFrame_def certified_def sized_def)
  moreover have "dualFeasible c m {1..k} ?s"
    using cert by (simp add: certified_def dualFeasible_def own reducedCost_def)
  ultimately show ?thesis by (auto simp: searching_def searchFrontier_def searchTree_def)
qed

lemma searching_hole:
  assumes inv: "searching c n m k us s" and us: "us \<noteq> []" and out: "ownerOf s (column s) = 0"
  shows "holeAt m k (column s) (ownerOf s)"
proof -
  have f: "searchFrame n m k us s" using inv by (simp add: searching_def)
  have col: "column s \<noteq> 0" "1 \<le> k" "ownerOf s 0 = k"
    "bij_betw (ownerOf s) (assigned m (ownerOf s)) {1..k - 1}"
    using f us by (auto simp: searchFrame_def)
  have "{j \<in> {..m} - {column s}. ownerOf s j \<noteq> 0} = insert 0 (assigned m (ownerOf s))"
    using col out by (auto simp: assigned_def)
  moreover have "ownerOf s ` insert 0 (assigned m (ownerOf s)) = insert k {1..k - 1}"
    using col by (auto simp: bij_betw_def)
  moreover have "insert k {1..k - 1} = {1..k}" using col by auto
  ultimately show ?thesis using ownerOf_inj [OF f] by (simp add: holeAt_def bij_betw_def)
qed

lemma assignRow_certified:
  assumes cert: "certified c n m k s" and k: "k < n"
  obtains s' where "assignRow c m (k + 1) s = Some s'" "certified c n m (k + 1) s'"
proof -
  let ?s = "s\<lparr>owner := (owner s)[0 := k + 1], column := 0, minimum := replicate (m + 1) None,
       used := replicate (m + 1) False\<rparr>"
  have "length (owner s) = m + 1" using cert by (simp add: certified_def sized_def)
  then have "ownerOf ?s (column ?s) \<noteq> 0" by simp
  from searchLoop_ends [OF certified_searching [OF cert k] this]
  obtain us s1 where loop: "searchLoop c m ?s = Some s1" "searching c n m (k + 1) us s1" "us \<noteq> []"
    "ownerOf s1 (column s1) = 0" by blast
  define ws where "ws = us @ [column s1]"
  have f: "searchFrame n m (k + 1) us s1" and dual: "dualFeasible c m {1..k + 1} s1"
    and tree: "searchTree c ws s1"
    using loop by (auto simp: searching_def ws_def)
  have szs: "sized n m s1" "column s1 \<le> m" using f by (auto simp: searchFrame_def)
  have "\<exists>owners. augmentLoop (previous s1) (owner s1) (column s1) = Some owners \<and> length owners = m + 1 \<and>
    holeAt m (k + 1) 0 (cell 0 owners) \<and>
    (\<forall>i \<in> {1..m}. cell 0 owners i \<noteq> 0 \<longrightarrow> reducedCost c s1 (cell 0 owners i) i = 0) \<and>
    (\<forall>i \<in> {1..m}. ownerOf s1 i \<noteq> 0 \<or> i = column s1 \<longrightarrow> cell 0 owners i \<noteq> 0)"
  proof (rule augmentLoop_ends [where t = "length us" and ws = ws and prior = "ownerOf s1"
        and good = "\<lambda>i j. reducedCost c s1 i j = 0"])
    show "holeAt m (k + 1) (column s1) (ownerOf s1)" using searching_hole [OF loop(2-4)] .
    show "distinct ws" "ws ! 0 = 0" using f loop(3) by (auto simp: searchFrame_def ws_def nth_append)
    show "i \<le> m" if "i \<in> set ws" for i using that ownerOf_used(3) [OF f] szs by (auto simp: ws_def)
    show "previousOf s1 (ws ! t) \<in> set (take t ws)"
      "reducedCost c s1 (ownerOf s1 (previousOf s1 (ws ! t))) (ws ! t) = 0"
      if "0 < t" "t < length ws" for t
      using tree that by (auto simp: searchTree_def)
    show "ownerOf s1 i = ownerOf s1 i \<and> ownerOf s1 i \<noteq> 0" if "i \<in> set (take (length us) ws)" for i
      using that ownerOf_used(1) [OF f] by (simp add: ws_def)
    show "reducedCost c s1 (ownerOf s1 i) i = 0" if "i \<in> {1..m} - {column s1}" "ownerOf s1 i \<noteq> 0" for i
      using dual that by (simp add: dualFeasible_def)
  qed (use loop(3) szs in \<open>simp_all add: ws_def sized_def\<close>)
  then obtain owners where aug: "augmentLoop (previous s1) (owner s1) (column s1) = Some owners"
    "length owners = m + 1" "holeAt m (k + 1) 0 (cell 0 owners)"
    "\<And>i. i \<in> {1..m} \<Longrightarrow> cell 0 owners i \<noteq> 0 \<Longrightarrow> reducedCost c s1 (cell 0 owners i) i = 0"
    "\<And>i. i \<in> {1..m} \<Longrightarrow> ownerOf s1 i \<noteq> 0 \<Longrightarrow> cell 0 owners i \<noteq> 0" by blast
  let ?t = "s1\<lparr>owner := owners, column := 0\<rparr>"
  have "dualFeasible c m {1..k + 1} ?t"
    using dual aug(4,5) by (fastforce simp: dualFeasible_def reducedCost_def)
  then have "certified c n m (k + 1) ?t"
    using f k szs aug(2,3) by (simp add: certified_def sized_def holeAt_0 searchFrame_def)
  with loop(1) aug(1) show ?thesis by (intro that [of ?t]) (simp_all add: assignRow_def)
qed

lemma assignRows_certified:
  assumes "n \<le> m"
  obtains s where "assignRows c m [1..<n + 1] (initialSearch n m) = Some s" "certified c n m n s"
proof -
  have start: "certified c n m 0 (initialSearch n m)"
    using assms by (simp add: certified_def sized_def initialSearch_def dualFeasible_def assigned_def
        bij_betw_def)
  have "certified c n m k s \<Longrightarrow> \<exists>s'. assignRows c m [k + 1..<n + 1] s = Some s' \<and> certified c n m n s'"
    if "k \<le> n" for k s
    using that
  proof (induction "n - k" arbitrary: k s)
    case 0
    then show ?case by simp
  next
    case (Suc d)
    then have "k < n" by simp
    then obtain s' where s': "assignRow c m (k + 1) s = Some s'" "certified c n m (k + 1) s'"
      using assignRow_certified [OF Suc.prems(1)] by blast
    have "[k + 1..<n + 1] = (k + 1) # [k + 1 + 1..<n + 1]" using \<open>k < n\<close> by (simp add: upt_rec)
    with s' Suc.hyps(1) [of "k + 1" s'] Suc.hyps(2) \<open>k < n\<close> show ?case by simp
  qed
  from this [of 0, OF _ start] show ?thesis using that by auto
qed

lemma certified_optimal:
  assumes cert: "certified c n m n s"
    and inj: "inj_on f {1..n}" and into: "f ` {1..n} \<subseteq> {1..m}"
  shows "(\<Sum>j \<in> assigned m (ownerOf s). c (ownerOf s j) j) \<le> (\<Sum>i \<in> {1..n}. c i (f i))"
proof -
  let ?u = "cell 0 (rowPotential s)" and ?v = "cell 0 (columnPotential s)"
  let ?A = "assigned m (ownerOf s)"
  have bij: "bij_betw (ownerOf s) ?A {1..n}" and dual: "dualFeasible c m {1..n} s"
    using cert by (simp_all add: certified_def)
  have A: "?A \<subseteq> {1..m}" by (auto simp: assigned_def)
  have "c (ownerOf s j) j = ?u (ownerOf s j) + ?v j" if "j \<in> ?A" for j
  proof -
    have "reducedCost c s (ownerOf s j) j = 0" using dual that by (simp add: dualFeasible_def assigned_def)
    then show ?thesis by (simp add: reducedCost_def)
  qed
  then have "(\<Sum>j \<in> ?A. c (ownerOf s j) j) = (\<Sum>j \<in> ?A. ?u (ownerOf s j) + ?v j)"
    by (intro sum.cong) auto
  also have "\<dots> = (\<Sum>i \<in> {1..n}. ?u i) + (\<Sum>j \<in> ?A. ?v j)"
    using sum.reindex_bij_betw [OF bij, of ?u] by (simp add: sum.distrib)
  also have "(\<Sum>j \<in> ?A. ?v j) = (\<Sum>j \<in> {1..m}. ?v j)"
    using dual A by (intro sum.mono_neutral_left) (auto simp: dualFeasible_def assigned_def)
  also have "\<dots> \<le> (\<Sum>j \<in> f ` {1..n}. ?v j)"
  proof -
    have "(\<Sum>j \<in> {1..m} - f ` {1..n}. ?v j) \<le> 0"
      using dual by (intro sum_nonpos) (auto simp: dualFeasible_def)
    then show ?thesis using sum.subset_diff [OF into, of ?v] by simp
  qed
  also have "\<dots> = (\<Sum>i \<in> {1..n}. ?v (f i))" using inj by (simp add: sum.reindex)
  also have "(\<Sum>i \<in> {1..n}. ?u i) + \<dots> = (\<Sum>i \<in> {1..n}. ?u i + ?v (f i))" by (simp add: sum.distrib)
  also have "\<dots> \<le> (\<Sum>i \<in> {1..n}. c i (f i))"
    using dual into by (intro sum_mono) (force simp: dualFeasible_def reducedCost_def)
  finally show ?thesis by simp
qed

end
