(* ===== verification/Reviewer_Quorum.thy ===== *)
theory Reviewer_Quorum
  imports Reviewer_Search
begin

text \<open>
  What the result of \<open>matchDistinctReviewerGroups\<close> means. A quorum is specified without costs,
  potentials or search: a set of (person, group) seats, each a membership of the graph, with no
  person and no group twice, as many as the quorum asks, one of them a human in a human group when
  such groups are required. The search reports \<open>matched\<close> exactly when such a set exists, and what it
  returns is one.
\<close>

section \<open>Accepted graphs\<close>

definition wellFormedGraph :: "ReviewerGroupGraph \<Rightarrow> bool" where
  "wellFormedGraph g \<longleftrightarrow>
     distinct (groupIds g) \<and> groupIds g \<noteq> [] \<and> distinct (map principalId (reviewers g)) \<and>
     1 \<le> quorum g \<and> quorum g \<le> int (length (groupIds g)) \<and>
     set (humanGroupIds g) \<subseteq> set (groupIds g)"

lemma sortBy_identity: "sortBy compareCodeUnits xs = sort (xs :: string list)"
  using sortBy_compareCodeUnits [of "\<lambda>x. x" xs] by simp

lemma opaqueId_inj: "opaqueId x = Some s \<Longrightarrow> x = UString s"
  by (cases x) (auto split: if_splits)

lemma ids_Inr:
  assumes "ids x lo hi = Inr ys"
  shows "distinct ys" "lo \<le> length ys" "length ys \<le> hi"
proof -
  obtain xs where xs: "x = UArray xs" "lo \<le> length xs" "length xs \<le> hi"
    "list_all (\<lambda>y. opaqueId y \<noteq> None) xs" "distinct xs" "ys = sort (List.map_filter opaqueId xs)"
    using assms by (auto simp: ids_def sortBy_identity split: unknown.splits if_splits)
  have "List.map_filter opaqueId xs = map (the \<circ> opaqueId) xs"
    using xs(4) by (induction xs) (auto simp: List.map_filter_def)
  moreover have "inj_on (the \<circ> opaqueId) (set xs)"
  proof (rule inj_onI)
    fix x y assume "x \<in> set xs" "y \<in> set xs" "(the \<circ> opaqueId) x = (the \<circ> opaqueId) y"
    moreover from this xs(4) obtain s t where "opaqueId x = Some s" "opaqueId y = Some t"
      unfolding list_all_iff by blast
    ultimately show "x = y" by (auto dest!: opaqueId_inj)
  qed
  ultimately show "distinct ys" "lo \<le> length ys" "length ys \<le> hi"
    using xs by (simp_all add: distinct_map)
qed

lemma parseReviewerGraph_wellFormed:
  assumes "parseReviewerGraph input = Inr g"
  shows "wellFormedGraph g"
proof -
  obtain f gs hs q rs where p: "ids (f ''groupIds'') 1 MAX_POLICY_APPROVAL_GROUPS = Inr gs"
    "set hs \<subseteq> set gs" "parseQuorum (f ''quorum'') (length gs) = Inr q"
    "parseReviewers (f ''reviewers'') = Inr rs"
    "g = \<lparr>groupIds = gs, reviewers = rs, quorum = q, humanGroupIds = hs\<rparr>"
    using assms unfolding parseReviewerGraph_def result_simps list_ex_iff by blast
  have "distinct (map principalId rs)"
    using p(4) by (auto simp: parseReviewers_def Let_def split: unknown.splits if_splits sum.splits)
  moreover have "1 \<le> q" "q \<le> int (length gs)"
    using p(3) by (auto simp: parseQuorum_def split: unknown.splits js_number.splits if_splits)
  ultimately show ?thesis using ids_Inr [OF p(1)] p(2,5) by (auto simp: wellFormedGraph_def)
qed

section \<open>What a quorum is\<close>

definition memberPair :: "ReviewerGroupGraph \<Rightarrow> string \<times> string \<Rightarrow> bool" where
  "memberPair g x \<longleftrightarrow>
     snd x \<in> set (groupIds g) \<and>
     (\<exists>r \<in> set (reviewers g). principalId r = fst x \<and> snd x \<in> set (reviewerGroupIds r))"

definition humanPair :: "ReviewerGroupGraph \<Rightarrow> string \<times> string \<Rightarrow> bool" where
  "humanPair g x \<longleftrightarrow>
     snd x \<in> set (humanGroupIds g) \<and> (\<exists>r \<in> set (reviewers g). principalId r = fst x \<and> human r)"

text \<open>Every seat is a real membership; no person and no group is counted twice.\<close>

definition seating :: "ReviewerGroupGraph \<Rightarrow> (string \<times> string) set \<Rightarrow> bool" where
  "seating g M \<longleftrightarrow> (\<forall>x \<in> M. memberPair g x) \<and> inj_on fst M \<and> inj_on snd M"

definition quorumSeating :: "ReviewerGroupGraph \<Rightarrow> (string \<times> string) set \<Rightarrow> bool" where
  "quorumSeating g M \<longleftrightarrow>
     seating g M \<and> quorum g \<le> int (card M) \<and> (humanGroupIds g = [] \<or> (\<exists>x \<in> M. humanPair g x))"

section \<open>Seats as cells of the matrix\<close>

definition edgeAt :: "ReviewerGroupGraph \<Rightarrow> nat \<Rightarrow> nat \<Rightarrow> bool" where
  "edgeAt g i j \<longleftrightarrow> i \<in> {1..matrixRows g} \<and> j \<in> {1..length (reviewers g)} \<and>
     groupIds g ! (i - 1) \<in> set (reviewerGroupIds (reviewers g ! (j - 1)))"

definition humanAt :: "ReviewerGroupGraph \<Rightarrow> nat \<Rightarrow> nat \<Rightarrow> bool" where
  "humanAt g i j \<longleftrightarrow> human (reviewers g ! (j - 1)) \<and> groupIds g ! (i - 1) \<in> set (humanGroupIds g)"

definition pairAt :: "ReviewerGroupGraph \<Rightarrow> nat \<times> nat \<Rightarrow> string \<times> string" where
  "pairAt g x = (principalId (reviewers g ! (snd x - 1)), groupIds g ! (fst x - 1))"

lemma cost_cases:
  assumes "i \<in> {1..matrixRows g}"
  shows "cost g i j =
     (if j \<notin> {1..length (reviewers g)} then 0
      else if \<not> edgeAt g i j then int (matrixRows g) + 1
      else if humanAt g i j then -1 else 0)"
  using assms by (auto simp: cost_def nthFromOne_def groupOfRow_def edgeAt_def humanAt_def matrixRows_def)

lemma pairAt_inj:
  assumes wf: "wellFormedGraph g"
    and "i \<in> {1..matrixRows g}" "i' \<in> {1..matrixRows g}"
    and "j \<in> {1..length (reviewers g)}" "j' \<in> {1..length (reviewers g)}"
  shows "groupIds g ! (i - 1) = groupIds g ! (i' - 1) \<longleftrightarrow> i = i'"
    and "principalId (reviewers g ! (j - 1)) = principalId (reviewers g ! (j' - 1)) \<longleftrightarrow> j = j'"
proof -
  have "groupIds g ! (i - 1) = groupIds g ! (i' - 1) \<longleftrightarrow> i - 1 = i' - 1"
    using assms by (intro nth_eq_iff_index_eq) (auto simp: wellFormedGraph_def matrixRows_def)
  then show "groupIds g ! (i - 1) = groupIds g ! (i' - 1) \<longleftrightarrow> i = i'"
    using assms by auto
  have "map principalId (reviewers g) ! (j - 1) = map principalId (reviewers g) ! (j' - 1) \<longleftrightarrow> j - 1 = j' - 1"
    using assms by (intro nth_eq_iff_index_eq) (auto simp: wellFormedGraph_def)
  then show "principalId (reviewers g ! (j - 1)) = principalId (reviewers g ! (j' - 1)) \<longleftrightarrow> j = j'"
    using assms by auto
qed

lemma memberPair_iff: "memberPair g x \<longleftrightarrow> (\<exists>i j. edgeAt g i j \<and> x = pairAt g (i, j))" if "wellFormedGraph g"
proof
  assume "memberPair g x"
  then obtain r where r: "snd x \<in> set (groupIds g)" "r \<in> set (reviewers g)" "principalId r = fst x"
    "snd x \<in> set (reviewerGroupIds r)"
    by (auto simp: memberPair_def)
  moreover obtain a b where "a < length (groupIds g)" "snd x = groupIds g ! a" "b < length (reviewers g)"
    "r = reviewers g ! b"
    using r(1,2) unfolding in_set_conv_nth by metis
  ultimately have "edgeAt g (a + 1) (b + 1)" "x = pairAt g (a + 1, b + 1)"
    by (auto simp: edgeAt_def matrixRows_def pairAt_def prod_eq_iff)
  then show "\<exists>i j. edgeAt g i j \<and> x = pairAt g (i, j)" by blast
qed (auto simp: edgeAt_def memberPair_def pairAt_def matrixRows_def intro!: bexI [OF _ nth_mem])

lemma humanPair_at:
  assumes wf: "wellFormedGraph g" and e: "edgeAt g i j"
  shows "humanPair g (pairAt g (i, j)) \<longleftrightarrow> humanAt g i j"
proof
  assume "humanPair g (pairAt g (i, j))"
  then obtain b where b: "b < length (reviewers g)" "human (reviewers g ! b)"
    "principalId (reviewers g ! b) = principalId (reviewers g ! (j - 1))"
    "groupIds g ! (i - 1) \<in> set (humanGroupIds g)"
    by (auto simp: humanPair_def pairAt_def in_set_conv_nth)
  have "b + 1 = j" using pairAt_inj(2) [OF wf, of i i "b + 1" j] b e by (auto simp: edgeAt_def)
  with b show "humanAt g i j" by (auto simp: humanAt_def)
qed (use e in \<open>auto simp: humanPair_def humanAt_def pairAt_def edgeAt_def intro!: bexI [OF _ nth_mem]\<close>)

text \<open>A seating, in the cells of the matrix.\<close>

lemma seating_cells:
  assumes wf: "wellFormedGraph g" and M: "seating g M"
  obtains N where "M = pairAt g ` N" "\<And>i j. (i, j) \<in> N \<Longrightarrow> edgeAt g i j" "inj_on (pairAt g) N"
    "inj_on fst N" "inj_on snd N" "finite N"
proof -
  define N where "N = {(i, j). edgeAt g i j \<and> pairAt g (i, j) \<in> M}"
  have e: "edgeAt g (fst x) (snd x)" "pairAt g x \<in> M" if "x \<in> N" for x using that by (auto simp: N_def)
  have one: "pairAt g x = pairAt g y \<Longrightarrow> x = y" if "x \<in> N" "y \<in> N" for x y
    using e(1) [OF that(1)] e(1) [OF that(2)] pairAt_inj [OF wf, of "fst x" "fst y" "snd x" "snd y"]
    by (auto simp: edgeAt_def pairAt_def prod_eq_iff)
  have "x = y" if "x \<in> N" "y \<in> N" "fst x = fst y \<or> snd x = snd y" for x y
  proof -
    have "fst (pairAt g x) = fst (pairAt g y) \<or> snd (pairAt g x) = snd (pairAt g y)"
      using that(3) by (auto simp: pairAt_def)
    then have "pairAt g x = pairAt g y"
      using M e(2) [OF that(1)] e(2) [OF that(2)] by (auto simp: seating_def dest: inj_onD)
    then show ?thesis using one that by blast
  qed
  then have "inj_on fst N" "inj_on snd N" by (auto simp: inj_on_def)
  moreover have "M = pairAt g ` N"
  proof
    show "pairAt g ` N \<subseteq> M" using e(2) by blast
    show "M \<subseteq> pairAt g ` N"
    proof
      fix x assume "x \<in> M"
      then obtain i j where "edgeAt g i j" "x = pairAt g (i, j)"
        using M memberPair_iff [OF wf, of x] by (auto simp: seating_def)
      with \<open>x \<in> M\<close> show "x \<in> pairAt g ` N" by (auto simp: N_def)
    qed
  qed
  moreover have "finite N"
    by (rule finite_subset [of _ "{1..matrixRows g} \<times> {1..length (reviewers g)}"]) (auto simp: N_def edgeAt_def)
  moreover have "inj_on (pairAt g) N" using one by (rule inj_onI)
  moreover have "edgeAt g i j" if "(i, j) \<in> N" for i j using that by (simp add: N_def)
  ultimately show ?thesis by (intro that [of N])
qed

section \<open>A seating bounds the least cost\<close>

lemma matrixColumns_bounds:
  assumes "wellFormedGraph g"
  shows "matrixRows g \<le> matrixColumns g"
    and "length (reviewers g) + (matrixRows g - nat (quorum g)) \<le> matrixColumns g"
    and "nat (quorum g) \<le> length (reviewers g) \<Longrightarrow>
      matrixColumns g = length (reviewers g) + (matrixRows g - nat (quorum g))"
  using assms by (auto simp: matrixColumns_def matrixRows_def wellFormedGraph_def)

lemma seating_completes:
  assumes wf: "wellFormedGraph g"
    and N: "\<And>i j. (i, j) \<in> N \<Longrightarrow> edgeAt g i j" "inj_on fst N" "inj_on snd N" "finite N"
    and q: "quorum g \<le> int (card N)"
  obtains f where "inj_on f {1..matrixRows g}" "f ` {1..matrixRows g} \<subseteq> {1..matrixColumns g}"
    "\<And>i j. (i, j) \<in> N \<Longrightarrow> f i = j"
    "\<And>i. i \<in> {1..matrixRows g} - fst ` N \<Longrightarrow> length (reviewers g) < f i"
proof -
  let ?n = "matrixRows g" and ?R = "length (reviewers g)" and ?m = "matrixColumns g"
  let ?free = "{1..?n} - fst ` N"
  have sub: "fst ` N \<subseteq> {1..?n}" "snd ` N \<subseteq> {1..?R}" using N(1) by (fastforce simp: edgeAt_def)+
  have "card ?free = ?n - card N"
    using sub(1) N(2,4) by (simp add: card_Diff_subset card_image)
  also have "\<dots> \<le> card {?R + 1..?m}"
    using q matrixColumns_bounds(2) [OF wf] by simp
  finally obtain h where h: "h ` ?free \<subseteq> {?R + 1..?m}" "inj_on h ?free"
    using card_le_inj [of ?free "{?R + 1..?m}"] by auto
  define f where "f i = (if i \<in> fst ` N then snd (inv_into N fst i) else h i)" for i
  have seat: "f i = j" if "(i, j) \<in> N" for i j
  proof -
    have "inv_into N fst i = (i, j)" using inv_into_f_f [OF N(2) that] by simp
    with that show ?thesis by (force simp: f_def)
  qed
  have seated: "f i \<in> {1..?R} \<and> (i, f i) \<in> N" if "i \<in> fst ` N" for i
    using that seat N(1) by (auto simp: edgeAt_def)
  have free: "f i \<in> {?R + 1..?m}" if "i \<in> ?free" for i
    using image_subset_iff [THEN iffD1, OF h(1)] that by (simp add: f_def)
  have "i = i'" if "i \<in> {1..?n}" "i' \<in> {1..?n}" "f i = f i'" for i i'
  proof (cases "i \<in> fst ` N"; cases "i' \<in> fst ` N")
    assume "i \<in> fst ` N" "i' \<in> fst ` N"
    then have "(i, f i) = (i', f i')"
      using seated [of i] seated [of i'] that(3) by (intro inj_onD [OF N(3)]) auto
    then show ?thesis by simp
  next
    assume "i \<notin> fst ` N" "i' \<notin> fst ` N"
    then show ?thesis using that h(2) by (auto simp: f_def dest: inj_onD)
  qed (use that seated free in fastforce)+
  then have "inj_on f {1..?n}" by (rule inj_onI)
  moreover have "f ` {1..?n} \<subseteq> {1..?m}"
  proof (rule image_subsetI)
    fix i assume "i \<in> {1..?n}"
    then have "f i \<in> {1..?R} \<or> f i \<in> {?R + 1..?m}" using seated free by blast
    then show "f i \<in> {1..?m}" using matrixColumns_bounds(2) [OF wf] by auto
  qed
  moreover have "?R < f i" if "i \<in> ?free" for i using free [OF that] by simp
  ultimately show ?thesis using seat by (intro that [of f])
qed

lemma seating_cost:
  assumes wf: "wellFormedGraph g" and M: "quorumSeating g M"
  obtains f where "inj_on f {1..matrixRows g}" "f ` {1..matrixRows g} \<subseteq> {1..matrixColumns g}"
    "(\<Sum>i \<in> {1..matrixRows g}. cost g i (f i)) \<le> (if humanGroupIds g = [] then 0 else -1)"
    "nat (quorum g) \<le> length (reviewers g)"
proof -
  let ?n = "matrixRows g"
  obtain N where N: "M = pairAt g ` N" "\<And>i j. (i, j) \<in> N \<Longrightarrow> edgeAt g i j" "inj_on (pairAt g) N"
    "inj_on fst N" "inj_on snd N" "finite N"
    using seating_cells [OF wf] M by (auto simp: quorumSeating_def)
  have card: "card M = card N" using N(1,3) by (simp add: card_image)
  have "snd ` N \<subseteq> {1..length (reviewers g)}" using N(2) by (force simp: edgeAt_def)
  then have "card N \<le> length (reviewers g)"
    using card_mono [of "{1..length (reviewers g)}" "snd ` N"] N(5) by (simp add: card_image)
  then have few: "nat (quorum g) \<le> length (reviewers g)"
    using M card by (auto simp: quorumSeating_def)
  obtain f where f: "inj_on f {1..?n}" "f ` {1..?n} \<subseteq> {1..matrixColumns g}"
    "\<And>i j. (i, j) \<in> N \<Longrightarrow> f i = j" "\<And>i. i \<in> {1..?n} - fst ` N \<Longrightarrow> length (reviewers g) < f i"
    using seating_completes [OF wf N(2,4,5,6)] M card by (auto simp: quorumSeating_def)
  have nonpos: "cost g i (f i) \<le> 0" if "i \<in> {1..?n}" for i
  proof (cases "i \<in> fst ` N")
    case True
    then have "edgeAt g i (f i)" using f(3) N(2) by auto
    with that show ?thesis by (simp add: cost_cases)
  qed (use f(4) [of i] that in \<open>simp add: cost_cases\<close>)
  have "(\<Sum>i \<in> {1..?n}. cost g i (f i)) \<le> -1" if "humanGroupIds g \<noteq> []"
  proof -
    obtain x where "x \<in> M" "humanPair g x" using M \<open>humanGroupIds g \<noteq> []\<close> by (auto simp: quorumSeating_def)
    then obtain i j where ij: "(i, j) \<in> N" "humanPair g (pairAt g (i, j))" using N(1) by auto
    then have "cost g i (f i) = -1" "i \<in> {1..?n}"
      using humanPair_at [OF wf N(2)] N(2) f(3) by (auto simp: cost_cases edgeAt_def)
    moreover have "(\<Sum>i \<in> {1..?n}. cost g i (f i)) = cost g i (f i) + (\<Sum>i \<in> {1..?n} - {i}. cost g i (f i))"
      using \<open>i \<in> {1..?n}\<close> by (simp add: sum.remove)
    moreover have "(\<Sum>i \<in> {1..?n} - {i}. cost g i (f i)) \<le> 0" using nonpos by (intro sum_nonpos) simp
    ultimately show ?thesis by simp
  qed
  moreover have "(\<Sum>i \<in> {1..?n}. cost g i (f i)) \<le> 0" using nonpos by (intro sum_nonpos)
  ultimately show ?thesis using f(1,2) few by (intro that [of f]) auto
qed

section \<open>What the result reports\<close>

definition seatedColumns :: "ReviewerGroupGraph \<Rightarrow> nat list \<Rightarrow> nat set" where
  "seatedColumns g owners =
     {j \<in> {1..length (reviewers g)}. cell 0 owners j \<noteq> 0 \<and> edgeAt g (cell 0 owners j) j}"

definition matchedAt :: "ReviewerGroupGraph \<Rightarrow> nat list \<Rightarrow> nat \<Rightarrow> MatchedReviewer" where
  "matchedAt g owners j =
     \<lparr>matchedPrincipal = principalId (reviewers g ! (j - 1)),
      matchedGroup = groupIds g ! (cell 0 owners j - 1), humanGroup = humanAt g (cell 0 owners j) j\<rparr>"

definition seatOf :: "MatchedReviewer \<Rightarrow> string \<times> string" where
  "seatOf x = (matchedPrincipal x, matchedGroup x)"

lemma concat_map_singleton:
  "concat (map (\<lambda>x. if P x then [h x] else []) xs) = map h (filter P xs)"
  by (induction xs) auto

lemma matchedReviewers_eq:
  assumes "\<And>j. j \<in> {1..length (reviewers g)} \<Longrightarrow> cell 0 owners j \<le> matrixRows g"
  shows "matchedReviewers g owners =
    sort_key matchedGroup
      (map (matchedAt g owners) (filter (\<lambda>j. j \<in> seatedColumns g owners) [1..<length (reviewers g) + 1]))"
proof -
  have "matchedColumn g owners j = (if j \<in> seatedColumns g owners then [matchedAt g owners j] else [])"
    if "j \<in> set [1..<length (reviewers g) + 1]" for j
    using that assms [of j]
    by (auto simp: matchedColumn_def nthFromOne_def seatedColumns_def matchedAt_def groupOfRow_def
        edgeAt_def humanAt_def matrixRows_def Let_def)
  then have "concat (map (matchedColumn g owners) [1..<length (reviewers g) + 1]) =
      concat (map (\<lambda>j. if j \<in> seatedColumns g owners then [matchedAt g owners j] else [])
        [1..<length (reviewers g) + 1])"
    by (intro arg_cong [where f = concat] map_cong) auto
  also have "\<dots> = map (matchedAt g owners)
      (filter (\<lambda>j. j \<in> seatedColumns g owners) [1..<length (reviewers g) + 1])"
    by (rule concat_map_singleton)
  finally show ?thesis by (simp add: matchedReviewers_def sortBy_compareCodeUnits)
qed

lemma matched_seats:
  assumes wf: "wellFormedGraph g"
    and bij: "bij_betw (cell 0 owners) (assigned (matrixColumns g) (cell 0 owners)) {1..matrixRows g}"
  defines "J \<equiv> seatedColumns g owners" and "ms \<equiv> matchedReviewers g owners"
  shows "length ms = card J" and "set ms = matchedAt g owners ` J" and "seating g (seatOf ` set ms)"
    and "card (seatOf ` set ms) = length ms" and "sorted (map matchedGroup ms)"
    and "x \<in> set ms \<Longrightarrow> humanGroup x \<longleftrightarrow> humanPair g (seatOf x)"
proof -
  let ?own = "cell 0 owners"
  have J: "J \<subseteq> assigned (matrixColumns g) ?own" "finite J"
    using matrixColumns_bounds(2) [OF wf] by (auto simp: J_def seatedColumns_def assigned_def)
  have rows: "?own j \<le> matrixRows g" if "j \<in> {1..length (reviewers g)}" for j
    using that bij matrixColumns_bounds(2) [OF wf]
    by (cases "?own j = 0") (auto simp: bij_betw_def assigned_def)
  have ms: "ms = sort_key matchedGroup (map (matchedAt g owners)
      (filter (\<lambda>j. j \<in> J) [1..<length (reviewers g) + 1]))"
    unfolding ms_def J_def by (rule matchedReviewers_eq) (rule rows)
  have upt: "set (filter (\<lambda>j. j \<in> J) [1..<length (reviewers g) + 1]) = J"
    by (auto simp: J_def seatedColumns_def)
  have "distinct (filter (\<lambda>j. j \<in> J) [1..<length (reviewers g) + 1])" by simp
  from distinct_card [OF this] show len: "length ms = card J" unfolding upt ms by simp
  show st: "set ms = matchedAt g owners ` J" unfolding ms using upt by simp
  show "sorted (map matchedGroup ms)" unfolding ms by simp
  have edge: "edgeAt g (?own j) j" "matchedAt g owners j \<in> set ms" if "j \<in> J" for j
    using that st by (auto simp: J_def seatedColumns_def)
  have seat: "seatOf (matchedAt g owners j) = pairAt g (?own j, j)" for j
    by (simp add: seatOf_def matchedAt_def pairAt_def)
  have same: "i = j" if "i \<in> J" "j \<in> J" "fst (pairAt g (?own i, i)) = fst (pairAt g (?own j, j)) \<or>
      snd (pairAt g (?own i, i)) = snd (pairAt g (?own j, j))" for i j
  proof -
    have "i = j \<or> ?own i = ?own j"
      using that(3) edge(1) [OF that(1)] edge(1) [OF that(2)]
        pairAt_inj [OF wf, of "?own i" "?own j" i j] by (auto simp: pairAt_def edgeAt_def)
    then show ?thesis using bij J(1) that(1,2) by (auto simp: bij_betw_def dest: inj_onD)
  qed
  have seats: "seatOf ` set ms = (\<lambda>j. pairAt g (?own j, j)) ` J"
    unfolding st by (simp add: image_image seat)
  have "inj_on fst (seatOf ` set ms)" "inj_on snd (seatOf ` set ms)"
    unfolding seats using same unfolding inj_on_def by blast+
  moreover have "memberPair g x" if "x \<in> seatOf ` set ms" for x
    using that edge(1) memberPair_iff [OF wf] unfolding seats by blast
  ultimately show "seating g (seatOf ` set ms)" by (simp add: seating_def)
  have "inj_on (\<lambda>j. pairAt g (?own j, j)) J" using same by (auto intro!: inj_onI)
  then show "card (seatOf ` set ms) = length ms" unfolding seats len by (rule card_image)
  show "humanGroup x \<longleftrightarrow> humanPair g (seatOf x)" if "x \<in> set ms"
    using that edge(1) humanPair_at [OF wf] unfolding st by (auto simp: seat) (auto simp: matchedAt_def)
qed

lemma assignment_quorum:
  assumes wf: "wellFormedGraph g"
    and bij: "bij_betw (cell 0 owners) (assigned (matrixColumns g) (cell 0 owners)) {1..matrixRows g}"
  shows "assignmentStatus (assignmentOf g owners) = Matched \<longleftrightarrow>
    quorumSeating g (seatOf ` set (matched (assignmentOf g owners)))"
  using matched_seats [OF wf bij]
  by (auto simp: assignmentOf_def Let_def quorumSeating_def list_ex_iff)

lemma least_cost_seats_quorum:
  assumes wf: "wellFormedGraph g" and M: "quorumSeating g M"
    and cert: "certified (cost g) (matrixRows g) (matrixColumns g) (matrixRows g) s"
  shows "quorum g \<le> int (card (seatedColumns g (owner s)))"
    and "humanGroupIds g \<noteq> [] \<Longrightarrow> \<exists>j \<in> seatedColumns g (owner s). humanAt g (ownerOf s j) j"
proof -
  let ?n = "matrixRows g" and ?R = "length (reviewers g)" and ?A = "assigned (matrixColumns g) (ownerOf s)"
  let ?J = "seatedColumns g (owner s)"
  have bij: "bij_betw (ownerOf s) ?A {1..?n}" using cert by (simp add: certified_def)
  have row: "ownerOf s j \<in> {1..?n}" if "j \<in> ?A" for j using bij that by (auto simp: bij_betw_def)
  have A: "finite ?A" "card ?A = ?n" using bij_betw_same_card [OF bij] by (auto simp: assigned_def)
  obtain f where f: "inj_on f {1..?n}" "f ` {1..?n} \<subseteq> {1..matrixColumns g}"
    "(\<Sum>i \<in> {1..?n}. cost g i (f i)) \<le> (if humanGroupIds g = [] then 0 else -1)" "nat (quorum g) \<le> ?R"
    using seating_cost [OF wf M] by blast
  have total: "(\<Sum>j \<in> ?A. cost g (ownerOf s j) j) \<le> (if humanGroupIds g = [] then 0 else -1)"
    using certified_optimal [OF cert f(1,2)] f(3) by simp
  have least: "-1 \<le> cost g (ownerOf s j) j" if "j \<in> ?A" for j using row [OF that] by (simp add: cost_cases)
  have real: "edgeAt g (ownerOf s j) j" if j: "j \<in> ?A" "j \<le> ?R" for j
  proof (rule ccontr)
    assume "\<not> edgeAt g (ownerOf s j) j"
    then have "cost g (ownerOf s j) j = int ?n + 1"
      using row [OF j(1)] j by (auto simp: cost_cases assigned_def)
    moreover have "(\<Sum>i \<in> ?A - {j}. (-1 :: int)) \<le> (\<Sum>i \<in> ?A - {j}. cost g (ownerOf s i) i)"
      using least by (intro sum_mono) auto
    moreover have "(\<Sum>i \<in> ?A. cost g (ownerOf s i) i) =
        cost g (ownerOf s j) j + (\<Sum>i \<in> ?A - {j}. cost g (ownerOf s i) i)"
      using A j(1) by (simp add: sum.remove)
    moreover have "0 < ?n" using row [OF j(1)] by simp
    ultimately show False using total A j(1) by (auto split: if_splits)
  qed
  have J: "?A \<inter> {..?R} = ?J"
    using real matrixColumns_bounds(2) [OF wf] by (auto simp: seatedColumns_def assigned_def)
  have "?A - {..?R} \<subseteq> {?R + 1..matrixColumns g}" by (auto simp: assigned_def)
  from card_mono [OF _ this] have "card (?A - {..?R}) \<le> ?n - nat (quorum g)"
    using matrixColumns_bounds(3) [OF wf f(4)] by simp
  moreover have "card ?A = card (?A \<inter> {..?R}) + card (?A - {..?R})"
    using A(1) by (metis card_Int_Diff)
  moreover have "nat (quorum g) \<le> ?n" using wf by (auto simp: wellFormedGraph_def matrixRows_def)
  ultimately show "quorum g \<le> int (card ?J)" using A(2) unfolding J by simp
  show "\<exists>j \<in> ?J. humanAt g (ownerOf s j) j" if "humanGroupIds g \<noteq> []"
  proof (rule ccontr)
    assume none: "\<not> (\<exists>j \<in> ?J. humanAt g (ownerOf s j) j)"
    have "0 \<le> cost g (ownerOf s j) j" if "j \<in> ?A" for j
      using row [OF that] none J that by (auto simp: cost_cases)
    then have "0 \<le> (\<Sum>j \<in> ?A. cost g (ownerOf s j) j)" by (rule sum_nonneg)
    with total \<open>humanGroupIds g \<noteq> []\<close> show False by simp
  qed
qed

section \<open>The matching is exact\<close>

lemma matching_returns:
  assumes "parseReviewerGraph input = Inr g"
  obtains s where "matchDistinctReviewerGroups input = Some (Inr (assignmentOf g (owner s)))"
    "certified (cost g) (matrixRows g) (matrixColumns g) (matrixRows g) s"
proof -
  obtain s where "assignRows (cost g) (matrixColumns g) [1..<matrixRows g + 1]
      (initialSearch (matrixRows g) (matrixColumns g)) = Some s"
    "certified (cost g) (matrixRows g) (matrixColumns g) (matrixRows g) s"
    using assignRows_certified [OF matrixColumns_bounds(1) [OF parseReviewerGraph_wellFormed [OF assms]]] .
  with assms show ?thesis by (intro that [of s]) (simp_all add: matchDistinctReviewerGroups_def)
qed

lemma matched_if_quorum:
  assumes wf: "wellFormedGraph g" and M: "quorumSeating g M"
    and cert: "certified (cost g) (matrixRows g) (matrixColumns g) (matrixRows g) s"
  shows "assignmentStatus (assignmentOf g (owner s)) = Matched"
proof -
  have bij: "bij_betw (ownerOf s) (assigned (matrixColumns g) (ownerOf s)) {1..matrixRows g}"
    using cert by (simp add: certified_def)
  show ?thesis
    using least_cost_seats_quorum [OF wf M cert] matched_seats(1,2) [OF wf bij]
    by (auto simp: assignmentOf_def Let_def list_ex_iff matchedAt_def)
qed

text \<open>
  C35: for every accepted input the search ends and reports \<open>matched\<close> exactly when some set of
  distinct (reviewer, group) memberships reaches the quorum, with a human in a required human group
  when there are such groups. The seats it reports are always real memberships, each person and each
  group at most once, listed once each in the order of their groups; they form such a quorum when
  the status is \<open>matched\<close>.
\<close>

theorem reviewer_quorum_found_exactly:
  assumes "parseReviewerGraph input = Inr g"
  shows "\<exists>r. matchDistinctReviewerGroups input = Some (Inr r) \<and>
    (assignmentStatus r = Matched \<longleftrightarrow> (\<exists>M. quorumSeating g M)) \<and>
    (assignmentStatus r = Matched \<longleftrightarrow> quorumSeating g (seatOf ` set (matched r))) \<and>
    seating g (seatOf ` set (matched r)) \<and> card (seatOf ` set (matched r)) = length (matched r) \<and>
    sorted (map matchedGroup (matched r))"
proof -
  have wf: "wellFormedGraph g" using parseReviewerGraph_wellFormed [OF assms] .
  obtain s where s: "matchDistinctReviewerGroups input = Some (Inr (assignmentOf g (owner s)))"
    "certified (cost g) (matrixRows g) (matrixColumns g) (matrixRows g) s"
    using matching_returns [OF assms] .
  then have bij: "bij_betw (ownerOf s) (assigned (matrixColumns g) (ownerOf s)) {1..matrixRows g}"
    by (simp add: certified_def)
  have "matched (assignmentOf g (owner s)) = matchedReviewers g (owner s)"
    by (simp add: assignmentOf_def Let_def)
  with assignment_quorum [OF wf bij] matched_if_quorum [OF wf _ s(2)] matched_seats(3-5) [OF wf bij] s(1)
  show ?thesis by (intro exI [of _ "assignmentOf g (owner s)"]) auto
qed

definition reviewerInput :: "string \<Rightarrow> string list \<Rightarrow> bool \<Rightarrow> unknown" where
  "reviewerInput p gs h =
     UObject [(''principalId'', UString p), (''groupIds'', UArray (map UString gs)), (''human'', UBoolean h)]"

definition matchingInput :: unknown where
  "matchingInput =
     UObject
       [(''groupIds'', UArray (map UString [''legal'', ''safety''])),
        (''reviewers'', UArray [reviewerInput ''bob'' [''legal'', ''safety''] True,
                                reviewerInput ''alice'' [''safety''] False]),
        (''quorum'', UNumber (JsInt 2)), (''humanGroupIds'', UArray [UString ''legal''])]"

definition matchingGraph :: ReviewerGroupGraph where
  "matchingGraph =
     \<lparr>groupIds = [''legal'', ''safety''],
      reviewers = [\<lparr>principalId = ''alice'', reviewerGroupIds = [''safety''], human = False\<rparr>,
                   \<lparr>principalId = ''bob'', reviewerGroupIds = [''legal'', ''safety''], human = True\<rparr>],
      quorum = 2, humanGroupIds = [''legal'']\<rparr>"

lemma parse_matchingInput: "parseReviewerGraph matchingInput = Inr matchingGraph"
  by code_simp

lemma match_matchingInput:
  "matchDistinctReviewerGroups matchingInput =
     Some (Inr \<lparr>assignmentStatus = Matched,
       matched = [\<lparr>matchedPrincipal = ''bob'', matchedGroup = ''legal'', humanGroup = True\<rparr>,
                  \<lparr>matchedPrincipal = ''alice'', matchedGroup = ''safety'', humanGroup = False\<rparr>]\<rparr>)"
  by code_simp

theorem reviewer_quorum_found_exactly_witness:
  "quorumSeating matchingGraph {(''bob'', ''legal''), (''alice'', ''safety'')}"
  using reviewer_quorum_found_exactly [OF parse_matchingInput]
  by (simp add: match_matchingInput seatOf_def)

end
