(* ===== verification/Release_Decision.thy ===== *)
theory Release_Decision
  imports Release_Policy Policy_Json
begin

text \<open>
  Release decisions: the input definition of \<open>packages/contracts/src/release-decision-input.ts\<close>, the
  findings and the decision table of \<open>release-decision.ts\<close>, the rule classification of
  \<open>packages/core/src/release/classify-release-rule.ts\<close> and the disposition of
  \<open>derive-release-disposition.ts\<close>.

  An observation outside its enumeration is \<open>None\<close>. The canonical JSON of a definition, which the byte
  ceiling measures, writes the instants of the model back as their texts.
\<close>

section \<open>Decision inputs\<close>

record ReleasePolicySelectionReference =
  selref_selectionId :: string
  selref_selectionVersionId :: string
  selref_definitionSha256 :: string
  selref_installationId :: string
  selref_gateTargetId :: string

definition ReleasePolicySelectionReferenceSchema :: "ReleasePolicySelectionReference \<Rightarrow> bool" where
  "ReleasePolicySelectionReferenceSchema r \<longleftrightarrow>
     OpaqueIdSchema (selref_selectionId r) \<and> OpaqueIdSchema (selref_selectionVersionId r) \<and>
     Sha256Schema (selref_definitionSha256 r) \<and> OpaqueIdSchema (selref_installationId r) \<and>
     OpaqueIdSchema (selref_gateTargetId r)"

datatype receipt_principal = UserReceipt | ServiceReceipt

record ReleaseDecisionPublisherReceipt =
  pub_principalType :: receipt_principal
  pub_principalId :: string
  pub_authenticatedAt :: utc_ms
  pub_credentialId :: string
  pub_requestId :: js_text

definition ReleaseDecisionPublisherReceiptSchema :: "ReleaseDecisionPublisherReceipt \<Rightarrow> bool" where
  "ReleaseDecisionPublisherReceiptSchema r \<longleftrightarrow>
     OpaqueIdSchema (pub_principalId r) \<and> UtcMillisecondTimestampSchema (pub_authenticatedAt r) \<and>
     OpaqueIdSchema (pub_credentialId r) \<and> 1 \<le> length (pub_requestId r) \<and>
     length (pub_requestId r) \<le> 128 \<and> \<not> containsUnpairedSurrogate (pub_requestId r)"

record ReleaseDecisionVerificationLimits =
  rvl_maxAcquisitionRecords :: int
  rvl_maxAcquisitionRecordBytes :: int
  rvl_maxApprovalRecords :: int

definition ReleaseDecisionVerificationLimitsSchema :: "ReleaseDecisionVerificationLimits \<Rightarrow> bool" where
  "ReleaseDecisionVerificationLimitsSchema l \<longleftrightarrow>
     2 \<le> rvl_maxAcquisitionRecords l \<and>
     rvl_maxAcquisitionRecords l \<le> MAX_POLICY_EVALUATION_ACQUISITION_RECORDS \<and>
     1 \<le> rvl_maxAcquisitionRecordBytes l \<and>
     rvl_maxAcquisitionRecordBytes l \<le> MAX_POLICY_EVALUATION_ACQUISITION_RECORD_BYTES \<and>
     0 \<le> rvl_maxApprovalRecords l \<and>
     rvl_maxApprovalRecords l \<le> int MAX_RELEASE_DECISION_APPROVAL_READS"

record PlannedReleasePolicyEvaluation =
  plan_mode :: ReleasePolicyMode
  plan_request :: PolicyEvaluationRequestDefinition
  plan_requestSha256 :: string

definition PlannedReleasePolicyEvaluationSchema :: "PlannedReleasePolicyEvaluation \<Rightarrow> bool" where
  "PlannedReleasePolicyEvaluationSchema p \<longleftrightarrow>
     PolicyEvaluationRequestDefinitionSchema (plan_request p) \<and> Sha256Schema (plan_requestSha256 p)"

datatype DecisionMode = ObservationOnly | Enforce

record ReleaseDecisionInputDefinition =
  rdi_decisionInputRequestId :: string
  rdi_candidate :: ReleaseCandidateReference
  rdi_selection :: ReleasePolicySelectionReference
  rdi_rationale :: js_text
  rdi_scope :: EvidenceScope
  rdi_mode :: DecisionMode
  rdi_publisher :: ReleaseDecisionPublisherReceipt
  rdi_createdAt :: policy_time
  rdi_expiresAt :: policy_time
  rdi_verificationLimits :: ReleaseDecisionVerificationLimits
  rdi_evaluations :: "PlannedReleasePolicyEvaluation list"

definition MAX_RELEASE_POLICY_SELECTION_POLICIES :: nat where
  "MAX_RELEASE_POLICY_SELECTION_POLICIES = 16"

definition MAX_RELEASE_DECISION_INPUT_DEFINITION_BYTES :: nat where
  "MAX_RELEASE_DECISION_INPUT_DEFINITION_BYTES = 64 * 1024"

definition plannedEvaluationJson :: "PlannedReleasePolicyEvaluation \<Rightarrow> json" where
  "plannedEvaluationJson p =
     (let r = plan_request p in
      jsonObject
        [(''mode'', jsonString (releasePolicyModeName (plan_mode p))),
         (''request'', requestDefinitionJson r),
         (''requestSha256'', jsonString (plan_requestSha256 p))])"

definition publisherJson :: "ReleaseDecisionPublisherReceipt \<Rightarrow> json" where
  "publisherJson r =
     jsonObject
       [(''principalId'', jsonString (pub_principalId r)),
        (''principalType'', jsonString (case pub_principalType r of UserReceipt \<Rightarrow> ''user'' | ServiceReceipt \<Rightarrow> ''service'')),
        (''authenticationMethod'',
           jsonString (case pub_principalType r of UserReceipt \<Rightarrow> ''oidc'' | ServiceReceipt \<Rightarrow> ''service_token'')),
        (''authenticatedAt'', jsonString (utcMillisecondText (pub_authenticatedAt r))),
        (''credentialId'', jsonString (pub_credentialId r)), (''requestId'', JString (pub_requestId r))]"

definition decisionInputJson :: "ReleaseDecisionInputDefinition \<Rightarrow> json" where
  "decisionInputJson d =
     (let s = rdi_selection d; l = rdi_verificationLimits d in
      jsonObject
        [(''decisionInputRequestId'', jsonString (rdi_decisionInputRequestId d)),
         (''candidate'', candidateReferenceJson (rdi_candidate d)),
         (''selection'', jsonObject
            [(''selectionId'', jsonString (selref_selectionId s)),
             (''selectionVersionId'', jsonString (selref_selectionVersionId s)),
             (''definitionSha256'', jsonString (selref_definitionSha256 s)),
             (''installationId'', jsonString (selref_installationId s)),
             (''gateTargetId'', jsonString (selref_gateTargetId s))]),
         (''rationale'', JString (rdi_rationale d)),
         (''scope'', scopeJson (rdi_scope d)),
         (''mode'', jsonString (case rdi_mode d of ObservationOnly \<Rightarrow> ''observation_only'' | Enforce \<Rightarrow> ''enforce'')),
         (''publisher'', publisherJson (rdi_publisher d)),
         (''createdAt'', jsonString (policyTimeText (rdi_createdAt d))),
         (''expiresAt'', jsonString (policyTimeText (rdi_expiresAt d))),
         (''verificationLimits'', jsonObject
            [(''maxAcquisitionRecords'', jsonInt (rvl_maxAcquisitionRecords l)),
             (''maxAcquisitionRecordBytes'', jsonInt (rvl_maxAcquisitionRecordBytes l)),
             (''maxApprovalRecords'', jsonInt (rvl_maxApprovalRecords l))]),
         (''evaluations'', JArray (map (\<lambda>p. Some (plannedEvaluationJson p)) (rdi_evaluations d)))])"

definition decisionInputRules :: "ReleaseDecisionInputDefinition \<Rightarrow> bool" where
  "decisionInputRules d \<longleftrightarrow>
     (let created = tkey (rdi_createdAt d); expires = tkey (rdi_expiresAt d); es = rdi_evaluations d in
      \<not> (expires \<le> created \<or>
         expires - created > MAX_POLICY_EVALUATION_DEADLINE_MILLISECONDS *
           POLICY_EVALUATION_TIME_UNITS_PER_MILLISECOND) \<and>
      \<not> millisecondOrderKey (pub_authenticatedAt (rdi_publisher d)) > created \<and>
      (rdi_mode d = Enforce) = list_ex (\<lambda>e. plan_mode e = MandatoryMode) es \<and>
      strictly_sorted codeUnitLess (map (\<lambda>e. rpol_policyId (prd_policy (plan_request e))) es) \<and>
      distinct (map (\<lambda>e. prd_evaluationRequestId (plan_request e)) es) \<and>
      list_all (\<lambda>e. prd_candidate (plan_request e) = rdi_candidate d \<and>
                    prd_evaluationTime (plan_request e) = rdi_createdAt d) es)"

definition ReleaseDecisionInputDefinitionSchema ::
  "(js_text \<Rightarrow> js_text) \<Rightarrow> ReleaseDecisionInputDefinition \<Rightarrow> bool" where
  "ReleaseDecisionInputDefinitionSchema nfc d \<longleftrightarrow>
     OpaqueIdSchema (rdi_decisionInputRequestId d) \<and> ReleaseCandidateReferenceSchema (rdi_candidate d) \<and>
     ReleasePolicySelectionReferenceSchema (rdi_selection d) \<and>
     AssuranceRationaleSchema nfc (rdi_rationale d) \<and> EvidenceScopeSchema (rdi_scope d) \<and>
     ReleaseDecisionPublisherReceiptSchema (rdi_publisher d) \<and>
     PolicyEvaluationTimeSchema (rdi_createdAt d) \<and> PolicyEvaluationTimeSchema (rdi_expiresAt d) \<and>
     ReleaseDecisionVerificationLimitsSchema (rdi_verificationLimits d) \<and>
     list_all PlannedReleasePolicyEvaluationSchema (rdi_evaluations d) \<and>
     length (rdi_evaluations d) \<le> MAX_RELEASE_POLICY_SELECTION_POLICIES \<and>
     decisionInputRules d \<and>
     canonicalBytesAtMost MAX_RELEASE_DECISION_INPUT_DEFINITION_BYTES (decisionInputJson d)"

section \<open>Findings\<close>

datatype ReleaseDecisionDisposition = AdvisoryDisposition | ProceedDisposition | HoldDisposition | RejectDisposition

datatype ReleaseDecisionRuleStatus = StatusSatisfied | StatusUnresolved | StatusNonWaivableViolation

datatype ReleaseDecisionRuleReason =
    EvaluationSatisfied
  | NormalApprovalApplied
  | ScopedExceptionApplied
  | OriginalPolicyUnavailable
  | CurrentPolicyUnavailable
  | CandidateAuthorityUnverified
  | PolicyInapplicable
  | PolicyApplicabilityUnknown
  | EvidenceIndeterminate
  | NonWaivableViolation
  | NormalApprovalUnavailable
  | ExceptionUnavailable
  | ReviewOpposed
  | ReviewEscalated

datatype ReleaseDecisionSelectionState =
    SelectionCurrent
  | SelectionUnavailable
  | SelectionNotEffective
  | SelectionExpired
  | SelectionWithdrawn
  | SelectionSuperseded
  | SelectionConflicting

record ReleaseApprovalReference =
  apref_approvalId :: string
  apref_definitionSha256 :: string

definition ReleaseApprovalReferenceSchema :: "ReleaseApprovalReference \<Rightarrow> bool" where
  "ReleaseApprovalReferenceSchema r \<longleftrightarrow>
     OpaqueIdSchema (apref_approvalId r) \<and> Sha256Schema (apref_definitionSha256 r)"

record ReleaseDecisionRuleFinding =
  rf_ruleId :: string
  rf_ruleIndex :: int
  rf_predicateKind :: PredicateKind
  rf_originalOutcome :: PolicyEvaluationRuleOutcome
  rf_nonWaivable :: bool
  rf_status :: ReleaseDecisionRuleStatus
  rf_reason :: ReleaseDecisionRuleReason
  rf_supportingApprovals :: "ReleaseApprovalReference list"

definition ruleFindingRules :: "ReleaseDecisionRuleFinding \<Rightarrow> bool" where
  "ruleFindingRules f \<longleftrightarrow>
     (let approval = (rf_reason f = NormalApprovalApplied);
          exception = (rf_reason f = ScopedExceptionApplied) in
      (case rf_status f of
         StatusSatisfied \<Rightarrow>
           \<not> (\<not> approval \<and> \<not> exception \<and> rf_reason f \<noteq> EvaluationSatisfied) \<and>
           \<not> (approval \<and> (rf_predicateKind f \<noteq> ApprovalRequiredKind \<or>
                            rf_originalOutcome f \<noteq> OutcomeIndeterminate)) \<and>
           \<not> (exception \<and> (rf_predicateKind f = ApprovalRequiredKind \<or>
                             rf_originalOutcome f \<noteq> OutcomeViolated \<or> rf_nonWaivable f)) \<and>
           \<not> (rf_reason f = EvaluationSatisfied \<and>
              (rf_originalOutcome f \<noteq> OutcomeSatisfied \<or> rf_predicateKind f = ApprovalRequiredKind))
       | StatusNonWaivableViolation \<Rightarrow>
           \<not> (rf_originalOutcome f \<noteq> OutcomeViolated \<or> \<not> rf_nonWaivable f \<or>
              rf_reason f \<noteq> NonWaivableViolation \<or> rf_predicateKind f = ApprovalRequiredKind)
       | StatusUnresolved \<Rightarrow>
           \<not> (approval \<or> exception \<or> rf_reason f = EvaluationSatisfied \<or>
              rf_reason f = NonWaivableViolation)) \<and>
      (approval \<or> exception) = (rf_supportingApprovals f \<noteq> []) \<and>
      \<not> (rf_predicateKind f = ApprovalRequiredKind \<and> rf_originalOutcome f \<noteq> OutcomeIndeterminate))"

definition ReleaseDecisionRuleFindingSchema :: "ReleaseDecisionRuleFinding \<Rightarrow> bool" where
  "ReleaseDecisionRuleFindingSchema f \<longleftrightarrow>
     OpaqueIdSchema (rf_ruleId f) \<and> 0 \<le> rf_ruleIndex f \<and> rf_ruleIndex f \<le> MAX_POLICY_RULES - 1 \<and>
     list_all ReleaseApprovalReferenceSchema (rf_supportingApprovals f) \<and>
     length (rf_supportingApprovals f) \<le> MAX_POLICY_APPROVAL_GROUPS \<and>
     strictly_sorted codeUnitLess (map apref_approvalId (rf_supportingApprovals f)) \<and>
     ruleFindingRules f"

record EvaluatedPolicyFinding =
  ef_job :: PolicyEvaluationJobReference
  ef_snapshot :: PolicyEvaluationSnapshotReference
  ef_evaluation :: PolicyEvaluationResultReference
  ef_ruleCount :: int
  ef_rules :: "ReleaseDecisionRuleFinding list"

datatype UnavailableReason =
  RequestMissing | ResultMissing | OriginalGraphUnavailable | OriginalGraphAmbiguous | OriginalGraphInvalid

record UnavailablePolicyFinding =
  uf_reason :: UnavailableReason
  uf_job :: "PolicyEvaluationJobReference option"
  uf_jobStatus :: "PolicyEvaluationJobStatus option"
  uf_snapshot :: "PolicyEvaluationSnapshotReference option"

datatype finding_state = Evaluated EvaluatedPolicyFinding | Unavailable UnavailablePolicyFinding

record ReleaseDecisionPolicyFinding =
  fd_policy :: ReleasePolicyReference
  fd_request :: PolicyEvaluationRequestReference
  fd_mode :: ReleasePolicyMode
  fd_state :: finding_state

definition ReleaseDecisionPolicyFindingSchema :: "ReleaseDecisionPolicyFinding \<Rightarrow> bool" where
  "ReleaseDecisionPolicyFindingSchema f \<longleftrightarrow>
     ReleasePolicyReferenceSchema (fd_policy f) \<and> PolicyEvaluationRequestReferenceSchema (fd_request f) \<and>
     (case fd_state f of
        Evaluated e \<Rightarrow>
          PolicyEvaluationJobReferenceSchema (ef_job e) \<and>
          PolicyEvaluationSnapshotReferenceSchema (ef_snapshot e) \<and>
          PolicyEvaluationResultReferenceSchema (ef_evaluation e) \<and>
          1 \<le> ef_ruleCount e \<and> ef_ruleCount e \<le> MAX_POLICY_RULES \<and>
          list_all ReleaseDecisionRuleFindingSchema (ef_rules e) \<and> 1 \<le> length (ef_rules e) \<and>
          int (length (ef_rules e)) \<le> MAX_POLICY_RULES \<and>
          ef_ruleCount e = int (length (ef_rules e)) \<and>
          strictly_sorted codeUnitLess (map rf_ruleId (ef_rules e)) \<and>
          map rf_ruleIndex (ef_rules e) = map int [0..<length (ef_rules e)]
      | Unavailable u \<Rightarrow>
          optional PolicyEvaluationJobReferenceSchema (uf_job u) \<and>
          optional PolicyEvaluationSnapshotReferenceSchema (uf_snapshot u) \<and>
          (uf_job u \<noteq> None) = (uf_jobStatus u \<noteq> None) \<and>
          \<not> (uf_snapshot u \<noteq> None \<and> uf_job u = None) \<and>
          \<not> (uf_reason u = RequestMissing \<and> (uf_job u \<noteq> None \<or> uf_snapshot u \<noteq> None)))"

section \<open>Classification of a rule\<close>

datatype PolicyState =
  StateActive | StateNotEffective | StateExpired | StateWithdrawn | StateSuperseded | StateAuthorityUnavailable

datatype ReviewState =
    ReviewUnavailable
  | ReviewInsufficient
  | ReviewConditionsUnresolved
  | ReviewConflicted
  | ReviewStateOpposed
  | ReviewStateEscalated
  | ReviewMatched

datatype ApplicabilityObservation = ApplicabilityMatch | ApplicabilityNoMatch | ApplicabilityUnknown

datatype CandidateAuthority = AuthorityQualified | AuthorityUnqualified | AuthorityUnavailable

record ReleaseRuleClassificationInput =
  rci_rule :: ReleasePolicyRule
  rci_result :: PolicyEvaluationRuleResult
  rci_applicability :: "ApplicabilityObservation option"
  rci_candidateAuthority :: "CandidateAuthority option"
  rci_originalPolicyState :: "PolicyState option"
  rci_currentPolicyState :: "PolicyState option"
  rci_normalApproval :: "ReviewState option"
  rci_ruleException :: "ReviewState option"

datatype release_rule_error = InvalidReleaseRuleObservation

record ReleaseRuleObservation =
  obs_rule :: ReleasePolicyRule
  obs_result :: PolicyEvaluationRuleResult
  obs_applicability :: ApplicabilityObservation
  obs_candidateAuthority :: CandidateAuthority
  obs_originalPolicyState :: PolicyState
  obs_currentPolicyState :: PolicyState
  obs_normalApproval :: ReviewState
  obs_ruleException :: ReviewState

record ReleaseRuleClassification =
  rc_status :: ReleaseDecisionRuleStatus
  rc_originalOutcome :: PolicyEvaluationRuleOutcome
  rc_reason :: ReleaseDecisionRuleReason

definition parseRuleObservation ::
  "(js_text \<Rightarrow> js_text) \<Rightarrow> ReleaseRuleClassificationInput \<Rightarrow> (release_rule_error, ReleaseRuleObservation) result" where
  "parseRuleObservation nfc input =
     (if \<not> ReleasePolicyRuleSchema nfc (rci_rule input) \<or>
         \<not> PolicyEvaluationRuleResultSchema nfc (rci_result input) \<or>
         rule_ruleId (rci_rule input) \<noteq> rr_ruleId (rci_result input) \<or>
         predicateKind (rule_predicate (rci_rule input)) \<noteq> rr_predicateKind (rci_result input)
      then Inl InvalidReleaseRuleObservation
      else case (rci_applicability input, rci_candidateAuthority input, rci_originalPolicyState input,
                 rci_currentPolicyState input, rci_normalApproval input, rci_ruleException input) of
        (Some applicability, Some authority, Some original, Some current, Some approval, Some exception) \<Rightarrow>
          Inr \<lparr>obs_rule = rci_rule input, obs_result = rci_result input, obs_applicability = applicability,
               obs_candidateAuthority = authority, obs_originalPolicyState = original,
               obs_currentPolicyState = current, obs_normalApproval = approval, obs_ruleException = exception\<rparr>
      | _ \<Rightarrow> Inl InvalidReleaseRuleObservation)"

definition decideReleaseRule :: "ReleaseRuleObservation \<Rightarrow> ReleaseRuleClassification" where
  "decideReleaseRule v =
     (let outcome = rr_outcome (obs_result v);
          finding = (\<lambda>status reason. \<lparr>rc_status = status, rc_originalOutcome = outcome, rc_reason = reason\<rparr>);
          unresolved = finding StatusUnresolved;
          satisfied = finding StatusSatisfied
      in if obs_originalPolicyState v \<noteq> StateActive then unresolved OriginalPolicyUnavailable
         else if obs_currentPolicyState v \<noteq> StateActive then unresolved CurrentPolicyUnavailable
         else if obs_candidateAuthority v \<noteq> AuthorityQualified then unresolved CandidateAuthorityUnverified
         else if obs_applicability v = ApplicabilityNoMatch \<or> outcome = OutcomeNotApplicable
           then unresolved PolicyInapplicable
         else if obs_applicability v = ApplicabilityUnknown then unresolved PolicyApplicabilityUnknown
         else if predicateKind (rule_predicate (obs_rule v)) = ApprovalRequiredKind then
           (if obs_normalApproval v = ReviewStateOpposed then unresolved ReviewOpposed
            else if obs_normalApproval v = ReviewStateEscalated then unresolved ReviewEscalated
            else if obs_normalApproval v = ReviewMatched then satisfied NormalApprovalApplied
            else unresolved NormalApprovalUnavailable)
         else if outcome = OutcomeSatisfied then satisfied EvaluationSatisfied
         else if outcome = OutcomeIndeterminate then unresolved EvidenceIndeterminate
         else if rule_nonWaivable (obs_rule v) then finding StatusNonWaivableViolation NonWaivableViolation
         else if obs_ruleException v = ReviewStateOpposed then unresolved ReviewOpposed
         else if obs_ruleException v = ReviewStateEscalated then unresolved ReviewEscalated
         else if obs_ruleException v = ReviewMatched then satisfied ScopedExceptionApplied
         else unresolved ExceptionUnavailable)"

definition classifyReleaseRule ::
  "(js_text \<Rightarrow> js_text) \<Rightarrow> ReleaseRuleClassificationInput \<Rightarrow>
   (release_rule_error, ReleaseRuleClassification) result" where
  "classifyReleaseRule nfc input =
     (case parseRuleObservation nfc input of Inl e \<Rightarrow> Inl e | Inr v \<Rightarrow> Inr (decideReleaseRule v))"

section \<open>The disposition\<close>

datatype release_inventory_error = InvalidReleaseDecisionInventory

definition findingJobs :: "ReleaseDecisionPolicyFinding \<Rightarrow> PolicyEvaluationJobReference list" where
  "findingJobs f =
     (case fd_state f of
        Evaluated e \<Rightarrow> [ef_job e] | Unavailable u \<Rightarrow> (case uf_job u of None \<Rightarrow> [] | Some j \<Rightarrow> [j]))"

definition findingSnapshots :: "ReleaseDecisionPolicyFinding \<Rightarrow> PolicyEvaluationSnapshotReference list" where
  "findingSnapshots f =
     (case fd_state f of
        Evaluated e \<Rightarrow> [ef_snapshot e] | Unavailable u \<Rightarrow> (case uf_snapshot u of None \<Rightarrow> [] | Some s \<Rightarrow> [s]))"

definition findingEvaluations :: "ReleaseDecisionPolicyFinding \<Rightarrow> PolicyEvaluationResultReference list" where
  "findingEvaluations f = (case fd_state f of Evaluated e \<Rightarrow> [ef_evaluation e] | Unavailable u \<Rightarrow> [])"

definition findingRules :: "ReleaseDecisionPolicyFinding \<Rightarrow> ReleaseDecisionRuleFinding list" where
  "findingRules f = (case fd_state f of Evaluated e \<Rightarrow> ef_rules e | Unavailable u \<Rightarrow> [])"

definition findingSupports :: "ReleaseDecisionPolicyFinding list \<Rightarrow> ReleaseApprovalReference list" where
  "findingSupports policies = concat (map (\<lambda>f. concat (map rf_supportingApprovals (findingRules f))) policies)"

definition findingMatchesPlan :: "ReleaseDecisionPolicyFinding \<Rightarrow> PlannedReleasePolicyEvaluation \<Rightarrow> bool" where
  "findingMatchesPlan f planned \<longleftrightarrow>
     fd_mode f = plan_mode planned \<and>
     rpol_policyId (fd_policy f) = rpol_policyId (prd_policy (plan_request planned)) \<and>
     rpol_policyVersionId (fd_policy f) = rpol_policyVersionId (prd_policy (plan_request planned)) \<and>
     rpol_definitionSha256 (fd_policy f) = rpol_definitionSha256 (prd_policy (plan_request planned)) \<and>
     reqref_evaluationRequestId (fd_request f) = prd_evaluationRequestId (plan_request planned) \<and>
     reqref_definitionSha256 (fd_request f) = plan_requestSha256 planned"

definition inventoryComplete ::
  "(js_text \<Rightarrow> js_text) \<Rightarrow> ReleaseDecisionInputDefinition \<Rightarrow> ReleaseDecisionPolicyFinding list \<Rightarrow> bool" where
  "inventoryComplete nfc request policies \<longleftrightarrow>
     ReleaseDecisionInputDefinitionSchema nfc request \<and>
     length policies = length (rdi_evaluations request) \<and>
     list_all ReleaseDecisionPolicyFindingSchema policies \<and>
     list_all2 findingMatchesPlan policies (rdi_evaluations request) \<and>
     distinct (map jobref_jobId (concat (map findingJobs policies))) \<and>
     distinct (map snapref_snapshotId (concat (map findingSnapshots policies))) \<and>
     distinct (map resref_evaluationId (concat (map findingEvaluations policies))) \<and>
     int (length (findingSupports policies)) \<le> rvl_maxApprovalRecords (rdi_verificationLimits request) \<and>
     distinct (map apref_approvalId (findingSupports policies))"

definition mandatoryRejected :: "ReleaseDecisionPolicyFinding list \<Rightarrow> bool" where
  "mandatoryRejected policies \<longleftrightarrow>
     list_ex (\<lambda>f. list_ex (\<lambda>r. rf_status r = StatusNonWaivableViolation) (findingRules f))
       (filter (\<lambda>f. fd_mode f = MandatoryMode) policies)"

definition mandatoryUnresolved :: "ReleaseDecisionPolicyFinding list \<Rightarrow> bool" where
  "mandatoryUnresolved policies \<longleftrightarrow>
     list_ex (\<lambda>f. case fd_state f of
                    Unavailable _ \<Rightarrow> True
                  | Evaluated e \<Rightarrow> list_ex (\<lambda>r. rf_status r = StatusUnresolved) (ef_rules e))
       (filter (\<lambda>f. fd_mode f = MandatoryMode) policies)"

definition deriveReleaseDisposition ::
  "(js_text \<Rightarrow> js_text) \<Rightarrow> ReleaseDecisionInputDefinition \<Rightarrow> ReleaseDecisionSelectionState option \<Rightarrow>
   ReleaseDecisionPolicyFinding list \<Rightarrow> (release_inventory_error, ReleaseDecisionDisposition) result" where
  "deriveReleaseDisposition nfc request selectionState policies =
     (case selectionState of
        None \<Rightarrow> Inl InvalidReleaseDecisionInventory
      | Some state \<Rightarrow>
          if \<not> inventoryComplete nfc request policies then Inl InvalidReleaseDecisionInventory
          else if state \<noteq> SelectionCurrent then Inr HoldDisposition
          else if rdi_mode request = ObservationOnly then Inr AdvisoryDisposition
          else if mandatoryRejected policies then Inr RejectDisposition
          else if mandatoryUnresolved policies then Inr HoldDisposition
          else Inr ProceedDisposition)"

text \<open>The table the decision contract recomputes, from the mode and state a definition records.\<close>

definition expectedDisposition ::
  "ReleaseDecisionSelectionState \<Rightarrow> DecisionMode \<Rightarrow> ReleaseDecisionPolicyFinding list \<Rightarrow>
   ReleaseDecisionDisposition" where
  "expectedDisposition selectionState mode policies =
     (if selectionState \<noteq> SelectionCurrent then HoldDisposition
      else if mode = ObservationOnly then AdvisoryDisposition
      else if mandatoryRejected policies then RejectDisposition
      else if mandatoryUnresolved policies then HoldDisposition
      else ProceedDisposition)"

text \<open>The rules of \<open>ReleaseDecisionDefinitionSchema\<close> on the findings, their inventory and the disposition.\<close>

definition decisionFindingsRules ::
  "DecisionMode \<Rightarrow> ReleaseDecisionSelectionState \<Rightarrow> ReleaseDecisionPolicyFinding list \<Rightarrow>
   ReleaseDecisionDisposition \<Rightarrow> bool" where
  "decisionFindingsRules mode selectionState policies disposition \<longleftrightarrow>
     list_all ReleaseDecisionPolicyFindingSchema policies \<and>
     length policies \<le> MAX_RELEASE_POLICY_SELECTION_POLICIES \<and>
     strictly_sorted codeUnitLess (map (\<lambda>f. rpol_policyId (fd_policy f)) policies) \<and>
     (mode = Enforce) = (filter (\<lambda>f. fd_mode f = MandatoryMode) policies \<noteq> []) \<and>
     distinct (map (\<lambda>f. reqref_evaluationRequestId (fd_request f)) policies) \<and>
     distinct (map jobref_jobId (concat (map findingJobs policies))) \<and>
     distinct (map snapref_snapshotId (concat (map findingSnapshots policies))) \<and>
     distinct (map resref_evaluationId (concat (map findingEvaluations policies))) \<and>
     length (findingSupports policies) \<le> MAX_RELEASE_DECISION_APPROVAL_READS \<and>
     distinct (map apref_approvalId (findingSupports policies)) \<and>
     disposition = expectedDisposition selectionState mode policies"

end
