(* ===== verification/Decision_Record.thy ===== *)
theory Decision_Record
  imports Release_Decision
begin

text \<open>
  The recorded decision of \<open>packages/contracts/src/release-decision.ts\<close>: its definition with the rules on
  time, inventory, disposition and size, the record, and the requests that create an input and a decision.
\<close>

section \<open>Requests and references\<close>

record ReleaseDecisionInputReference =
  inref_decisionInputRequestId :: string
  inref_definitionSha256 :: string

definition ReleaseDecisionInputReferenceSchema :: "ReleaseDecisionInputReference \<Rightarrow> bool" where
  "ReleaseDecisionInputReferenceSchema r \<longleftrightarrow>
     OpaqueIdSchema (inref_decisionInputRequestId r) \<and> Sha256Schema (inref_definitionSha256 r)"

record CreateReleaseDecisionInputRequest =
  cdi_decisionInputRequestId :: string
  cdi_candidate :: ReleaseCandidateReference
  cdi_selection :: ReleasePolicySelectionReference
  cdi_rationale :: js_text

definition CreateReleaseDecisionInputRequestSchema ::
  "(js_text \<Rightarrow> js_text) \<Rightarrow> CreateReleaseDecisionInputRequest \<Rightarrow> bool" where
  "CreateReleaseDecisionInputRequestSchema nfc r \<longleftrightarrow>
     OpaqueIdSchema (cdi_decisionInputRequestId r) \<and> ReleaseCandidateReferenceSchema (cdi_candidate r) \<and>
     ReleasePolicySelectionReferenceSchema (cdi_selection r) \<and> AssuranceRationaleSchema nfc (cdi_rationale r)"

record ReleaseDecisionAuthoritySnapshotReference =
  asref_authoritySnapshotId :: string
  asref_definitionSha256 :: string

definition ReleaseDecisionAuthoritySnapshotReferenceSchema ::
  "ReleaseDecisionAuthoritySnapshotReference \<Rightarrow> bool" where
  "ReleaseDecisionAuthoritySnapshotReferenceSchema r \<longleftrightarrow>
     OpaqueIdSchema (asref_authoritySnapshotId r) \<and> Sha256Schema (asref_definitionSha256 r)"

record CreateReleaseDecisionRequest =
  cdr_decisionId :: string
  cdr_input :: ReleaseDecisionInputReference
  cdr_rationale :: js_text

definition CreateReleaseDecisionRequestSchema ::
  "(js_text \<Rightarrow> js_text) \<Rightarrow> CreateReleaseDecisionRequest \<Rightarrow> bool" where
  "CreateReleaseDecisionRequestSchema nfc r \<longleftrightarrow>
     OpaqueIdSchema (cdr_decisionId r) \<and> ReleaseDecisionInputReferenceSchema (cdr_input r) \<and>
     AssuranceRationaleSchema nfc (cdr_rationale r)"

section \<open>The decision\<close>

record ReleaseDecisionDefinition =
  rdd_decisionId :: string
  rdd_scope :: EvidenceScope
  rdd_input :: ReleaseDecisionInputReference
  rdd_candidate :: ReleaseCandidateReference
  rdd_selection :: ReleasePolicySelectionReference
  rdd_mode :: DecisionMode
  rdd_selectionState :: ReleaseDecisionSelectionState
  rdd_authoritySnapshot :: ReleaseDecisionAuthoritySnapshotReference
  rdd_publisher :: ReleaseDecisionPublisherReceipt
  rdd_decidedAt :: policy_time
  rdd_expiresAt :: policy_time
  rdd_rationale :: js_text
  rdd_disposition :: ReleaseDecisionDisposition
  rdd_policies :: "ReleaseDecisionPolicyFinding list"

definition MAX_RELEASE_DECISION_DEFINITION_BYTES :: nat where
  "MAX_RELEASE_DECISION_DEFINITION_BYTES = 2 * 1024 * 1024"

fun decisionModeName :: "DecisionMode \<Rightarrow> string" where
  "decisionModeName ObservationOnly = ''observation_only''"
| "decisionModeName Enforce = ''enforce''"

fun dispositionName :: "ReleaseDecisionDisposition \<Rightarrow> string" where
  "dispositionName AdvisoryDisposition = ''advisory''"
| "dispositionName ProceedDisposition = ''proceed''"
| "dispositionName HoldDisposition = ''hold''"
| "dispositionName RejectDisposition = ''reject''"

fun ruleStatusName :: "ReleaseDecisionRuleStatus \<Rightarrow> string" where
  "ruleStatusName StatusSatisfied = ''satisfied''"
| "ruleStatusName StatusUnresolved = ''unresolved''"
| "ruleStatusName StatusNonWaivableViolation = ''non_waivable_violation''"

fun ruleReasonName :: "ReleaseDecisionRuleReason \<Rightarrow> string" where
  "ruleReasonName EvaluationSatisfied = ''evaluation_satisfied''"
| "ruleReasonName NormalApprovalApplied = ''normal_approval_applied''"
| "ruleReasonName ScopedExceptionApplied = ''scoped_exception_applied''"
| "ruleReasonName OriginalPolicyUnavailable = ''original_policy_unavailable''"
| "ruleReasonName CurrentPolicyUnavailable = ''current_policy_unavailable''"
| "ruleReasonName CandidateAuthorityUnverified = ''candidate_authority_unverified''"
| "ruleReasonName PolicyInapplicable = ''policy_inapplicable''"
| "ruleReasonName PolicyApplicabilityUnknown = ''policy_applicability_unknown''"
| "ruleReasonName EvidenceIndeterminate = ''evidence_indeterminate''"
| "ruleReasonName NonWaivableViolation = ''non_waivable_violation''"
| "ruleReasonName NormalApprovalUnavailable = ''normal_approval_unavailable''"
| "ruleReasonName ExceptionUnavailable = ''exception_unavailable''"
| "ruleReasonName ReviewOpposed = ''review_opposed''"
| "ruleReasonName ReviewEscalated = ''review_escalated''"

fun selectionStateName :: "ReleaseDecisionSelectionState \<Rightarrow> string" where
  "selectionStateName SelectionCurrent = ''current''"
| "selectionStateName SelectionUnavailable = ''unavailable''"
| "selectionStateName SelectionNotEffective = ''not_effective''"
| "selectionStateName SelectionExpired = ''expired''"
| "selectionStateName SelectionWithdrawn = ''withdrawn''"
| "selectionStateName SelectionSuperseded = ''superseded''"
| "selectionStateName SelectionConflicting = ''conflicting''"

fun unavailableReasonName :: "UnavailableReason \<Rightarrow> string" where
  "unavailableReasonName RequestMissing = ''request_missing''"
| "unavailableReasonName ResultMissing = ''result_missing''"
| "unavailableReasonName OriginalGraphUnavailable = ''original_graph_unavailable''"
| "unavailableReasonName OriginalGraphAmbiguous = ''original_graph_ambiguous''"
| "unavailableReasonName OriginalGraphInvalid = ''original_graph_invalid''"

definition ruleFindingJson :: "ReleaseDecisionRuleFinding \<Rightarrow> json" where
  "ruleFindingJson f =
     jsonObject
       [(''ruleId'', jsonString (rf_ruleId f)), (''ruleIndex'', jsonInt (rf_ruleIndex f)),
        (''predicateKind'', jsonString (predicateKindName (rf_predicateKind f))),
        (''originalOutcome'', jsonString (outcomeName (rf_originalOutcome f))),
        (''nonWaivable'', JBoolean (rf_nonWaivable f)), (''status'', jsonString (ruleStatusName (rf_status f))),
        (''reason'', jsonString (ruleReasonName (rf_reason f))),
        (''supportingApprovals'', JArray (map (\<lambda>a. Some (jsonObject
           [(''approvalId'', jsonString (apref_approvalId a)),
            (''definitionSha256'', jsonString (apref_definitionSha256 a))])) (rf_supportingApprovals f)))]"

definition policyFindingJson :: "ReleaseDecisionPolicyFinding \<Rightarrow> json" where
  "policyFindingJson f =
     jsonObject
       ([(''policy'', policyReferenceJson (fd_policy f)),
         (''request'', jsonObject
            [(''definitionSha256'', jsonString (reqref_definitionSha256 (fd_request f))),
             (''evaluationRequestId'', jsonString (reqref_evaluationRequestId (fd_request f)))]),
         (''mode'', jsonString (releasePolicyModeName (fd_mode f)))] @
        (case fd_state f of
           Evaluated e \<Rightarrow>
             [(''state'', jsonString ''evaluated''), (''job'', jobReferenceJson (ef_job e)),
              (''snapshot'', snapshotReferenceJson (ef_snapshot e)),
              (''evaluation'', jsonObject
                 [(''evaluationId'', jsonString (resref_evaluationId (ef_evaluation e))),
                  (''definitionSha256'', jsonString (resref_definitionSha256 (ef_evaluation e)))]),
              (''ruleCount'', jsonInt (ef_ruleCount e)),
              (''rules'', JArray (map (\<lambda>r. Some (ruleFindingJson r)) (ef_rules e)))]
         | Unavailable u \<Rightarrow>
             [(''state'', jsonString ''unavailable''),
              (''reason'', jsonString (unavailableReasonName (uf_reason u)))] @
             jsonField ''job'' jobReferenceJson (uf_job u) @
             jsonField ''jobStatus'' (\<lambda>s. jsonString (policyJobStatusName s)) (uf_jobStatus u) @
             jsonField ''snapshot'' snapshotReferenceJson (uf_snapshot u)))"

definition decisionJson :: "'a ReleaseDecisionDefinition_scheme \<Rightarrow> json" where
  "decisionJson d =
     (let s = rdd_selection d in
      jsonObject
        [(''decisionId'', jsonString (rdd_decisionId d)),
         (''scope'', scopeJson (rdd_scope d)),
         (''input'', jsonObject
            [(''decisionInputRequestId'', jsonString (inref_decisionInputRequestId (rdd_input d))),
             (''definitionSha256'', jsonString (inref_definitionSha256 (rdd_input d)))]),
         (''candidate'', candidateReferenceJson (rdd_candidate d)),
         (''selection'', jsonObject
            [(''selectionId'', jsonString (selref_selectionId s)),
             (''selectionVersionId'', jsonString (selref_selectionVersionId s)),
             (''definitionSha256'', jsonString (selref_definitionSha256 s)),
             (''installationId'', jsonString (selref_installationId s)),
             (''gateTargetId'', jsonString (selref_gateTargetId s))]),
         (''mode'', jsonString (decisionModeName (rdd_mode d))),
         (''selectionState'', jsonString (selectionStateName (rdd_selectionState d))),
         (''authoritySnapshot'', jsonObject
            [(''authoritySnapshotId'', jsonString (asref_authoritySnapshotId (rdd_authoritySnapshot d))),
             (''definitionSha256'', jsonString (asref_definitionSha256 (rdd_authoritySnapshot d)))]),
         (''algorithm'', jsonObject [(''id'', jsonString ''proofstack.accountable-release-decision''),
            (''version'', jsonString ''1.0.0'')]),
         (''publisher'', publisherJson (rdd_publisher d)),
         (''decidedAt'', jsonString (policyTimeText (rdd_decidedAt d))),
         (''expiresAt'', jsonString (policyTimeText (rdd_expiresAt d))),
         (''rationale'', JString (rdd_rationale d)),
         (''disposition'', jsonString (dispositionName (rdd_disposition d))),
         (''policies'', JArray (map (\<lambda>f. Some (policyFindingJson f)) (rdd_policies d)))])"

definition decisionTimeRules :: "'a ReleaseDecisionDefinition_scheme \<Rightarrow> bool" where
  "decisionTimeRules d \<longleftrightarrow>
     (let cut = tkey (rdd_decidedAt d) in
      \<not> (millisecondOrderKey (pub_authenticatedAt (rdd_publisher d)) > cut \<or> cut \<ge> tkey (rdd_expiresAt d)) \<and>
      \<not> tkey (rdd_expiresAt d) - cut >
        MAX_POLICY_EVALUATION_DEADLINE_MILLISECONDS * POLICY_EVALUATION_TIME_UNITS_PER_MILLISECOND)"

definition ReleaseDecisionDefinitionSchema ::
  "(js_text \<Rightarrow> js_text) \<Rightarrow> 'a ReleaseDecisionDefinition_scheme \<Rightarrow> bool" where
  "ReleaseDecisionDefinitionSchema nfc d \<longleftrightarrow>
     OpaqueIdSchema (rdd_decisionId d) \<and> EvidenceScopeSchema (rdd_scope d) \<and>
     ReleaseDecisionInputReferenceSchema (rdd_input d) \<and> ReleaseCandidateReferenceSchema (rdd_candidate d) \<and>
     ReleasePolicySelectionReferenceSchema (rdd_selection d) \<and>
     ReleaseDecisionAuthoritySnapshotReferenceSchema (rdd_authoritySnapshot d) \<and>
     ReleaseDecisionPublisherReceiptSchema (rdd_publisher d) \<and>
     PolicyEvaluationTimeSchema (rdd_decidedAt d) \<and> PolicyEvaluationTimeSchema (rdd_expiresAt d) \<and>
     AssuranceRationaleSchema nfc (rdd_rationale d) \<and> decisionTimeRules d \<and>
     decisionFindingsRules (rdd_mode d) (rdd_selectionState d) (rdd_policies d) (rdd_disposition d) \<and>
     canonicalBytesAtMost MAX_RELEASE_DECISION_DEFINITION_BYTES (decisionJson d)"

record ReleaseDecision = ReleaseDecisionDefinition +
  rdd_definitionSha256 :: string

definition ReleaseDecisionSchema :: "(js_text \<Rightarrow> js_text) \<Rightarrow> ReleaseDecision \<Rightarrow> bool" where
  "ReleaseDecisionSchema nfc d \<longleftrightarrow>
     ReleaseDecisionDefinitionSchema nfc d \<and> Sha256Schema (rdd_definitionSha256 d)"

end
