(* ===== verification/Release_Safety.thy ===== *)
theory Release_Safety
  imports Decision_Record Policy_Sample Rule_Outcome
begin

text \<open>
  What the decision table promises: every classification fits the contract of the finding that
  records it, no observation but a complete one satisfies a rule, and the disposition derived from an
  inventory is the one the decision contract recomputes.
\<close>

section \<open>Classification\<close>

lemma classifyReleaseRule_cases:
  assumes "classifyReleaseRule nfc input = Inr c"
  obtains v where "parseRuleObservation nfc input = Inr v" "c = decideReleaseRule v"
  using assms by (auto simp: classifyReleaseRule_def split: sum.splits)

lemma parseRuleObservation_fields:
  assumes "parseRuleObservation nfc input = Inr v"
  shows "ReleasePolicyRuleSchema nfc (obs_rule v)" "PolicyEvaluationRuleResultSchema nfc (obs_result v)"
    "rule_ruleId (obs_rule v) = rr_ruleId (obs_result v)"
    "predicateKind (rule_predicate (obs_rule v)) = rr_predicateKind (obs_result v)"
    "rci_rule input = obs_rule v" "rci_result input = obs_result v"
    "rci_applicability input = Some (obs_applicability v)"
    "rci_candidateAuthority input = Some (obs_candidateAuthority v)"
    "rci_originalPolicyState input = Some (obs_originalPolicyState v)"
    "rci_currentPolicyState input = Some (obs_currentPolicyState v)"
    "rci_normalApproval input = Some (obs_normalApproval v)"
    "rci_ruleException input = Some (obs_ruleException v)"
  using assms by (auto simp: parseRuleObservation_def split: if_splits option.splits)

lemma approval_result_indeterminate:
  assumes "PolicyEvaluationRuleResultSchema nfc r" and "rr_predicateKind r = ApprovalRequiredKind"
  shows "rr_outcome r = OutcomeIndeterminate"
  using assms by (cases "rr_evidence r") (simp_all add: PolicyEvaluationRuleResultSchema_def)

lemma rule_result_index:
  assumes "PolicyEvaluationRuleResultSchema nfc r"
  shows "0 \<le> rr_ruleIndex r" "rr_ruleIndex r \<le> MAX_POLICY_RULES - 1" "OpaqueIdSchema (rr_ruleId r)"
  using assms by (simp_all add: PolicyEvaluationRuleResultSchema_def)

text \<open>The observations under which a rule is decided at all.\<close>

definition observationsComplete :: "ReleaseRuleObservation \<Rightarrow> bool" where
  "observationsComplete v \<longleftrightarrow>
     obs_originalPolicyState v = StateActive \<and> obs_currentPolicyState v = StateActive \<and>
     obs_candidateAuthority v = AuthorityQualified \<and> obs_applicability v = ApplicabilityMatch \<and>
     rr_outcome (obs_result v) \<noteq> OutcomeNotApplicable"

lemma decideReleaseRule_incomplete:
  assumes "\<not> observationsComplete v"
  shows "rc_status (decideReleaseRule v) = StatusUnresolved"
    "rc_reason (decideReleaseRule v) \<in>
       {OriginalPolicyUnavailable, CurrentPolicyUnavailable, CandidateAuthorityUnverified,
        PolicyInapplicable, PolicyApplicabilityUnknown}"
proof -
  have "obs_applicability v = ApplicabilityMatch \<or> obs_applicability v = ApplicabilityNoMatch \<or>
        obs_applicability v = ApplicabilityUnknown"
    by (cases "obs_applicability v") simp_all
  then show "rc_status (decideReleaseRule v) = StatusUnresolved"
    "rc_reason (decideReleaseRule v) \<in>
       {OriginalPolicyUnavailable, CurrentPolicyUnavailable, CandidateAuthorityUnverified,
        PolicyInapplicable, PolicyApplicabilityUnknown}"
    using assms by (auto simp: decideReleaseRule_def observationsComplete_def Let_def)
qed

lemma decideReleaseRule_complete:
  assumes "observationsComplete v"
  shows "decideReleaseRule v =
    (let outcome = rr_outcome (obs_result v);
         finding = (\<lambda>s r. \<lparr>rc_status = s, rc_originalOutcome = outcome, rc_reason = r\<rparr>) in
     if predicateKind (rule_predicate (obs_rule v)) = ApprovalRequiredKind then
       (case obs_normalApproval v of
          ReviewMatched \<Rightarrow> finding StatusSatisfied NormalApprovalApplied
        | ReviewStateOpposed \<Rightarrow> finding StatusUnresolved ReviewOpposed
        | ReviewStateEscalated \<Rightarrow> finding StatusUnresolved ReviewEscalated
        | _ \<Rightarrow> finding StatusUnresolved NormalApprovalUnavailable)
     else if outcome = OutcomeSatisfied then finding StatusSatisfied EvaluationSatisfied
     else if outcome = OutcomeIndeterminate then finding StatusUnresolved EvidenceIndeterminate
     else if rule_nonWaivable (obs_rule v) then finding StatusNonWaivableViolation NonWaivableViolation
     else case obs_ruleException v of
          ReviewMatched \<Rightarrow> finding StatusSatisfied ScopedExceptionApplied
        | ReviewStateOpposed \<Rightarrow> finding StatusUnresolved ReviewOpposed
        | ReviewStateEscalated \<Rightarrow> finding StatusUnresolved ReviewEscalated
        | _ \<Rightarrow> finding StatusUnresolved ExceptionUnavailable)"
  using assms
  by (cases "obs_normalApproval v"; cases "obs_ruleException v")
    (simp_all add: decideReleaseRule_def observationsComplete_def Let_def)

lemma decideReleaseRule_outcome [simp]: "rc_originalOutcome (decideReleaseRule v) = rr_outcome (obs_result v)"
  by (simp add: decideReleaseRule_def Let_def)

definition classifiedFinding ::
  "PolicyEvaluationRuleResult \<Rightarrow> bool \<Rightarrow> ReleaseRuleClassification \<Rightarrow> ReleaseApprovalReference list \<Rightarrow>
   ReleaseDecisionRuleFinding" where
  "classifiedFinding r nonWaivable c approvals =
     \<lparr>rf_ruleId = rr_ruleId r, rf_ruleIndex = rr_ruleIndex r, rf_predicateKind = rr_predicateKind r,
      rf_originalOutcome = rc_originalOutcome c, rf_nonWaivable = nonWaivable, rf_status = rc_status c,
      rf_reason = rc_reason c, rf_supportingApprovals = approvals\<rparr>"

lemma decided_finding_rules:
  assumes approval: "rr_predicateKind (obs_result v) = ApprovalRequiredKind \<Longrightarrow>
      rr_outcome (obs_result v) = OutcomeIndeterminate"
    and kind: "predicateKind (rule_predicate (obs_rule v)) = rr_predicateKind (obs_result v)"
    and support: "(approvals \<noteq> []) =
      (rc_reason (decideReleaseRule v) = NormalApprovalApplied \<or>
       rc_reason (decideReleaseRule v) = ScopedExceptionApplied)"
  shows "ruleFindingRules (classifiedFinding (obs_result v) (rule_nonWaivable (obs_rule v))
    (decideReleaseRule v) approvals)"
proof (cases "observationsComplete v")
  case False
  show ?thesis
    using decideReleaseRule_incomplete [OF False] approval support
    by (auto simp: ruleFindingRules_def classifiedFinding_def Let_def)
next
  case True
  have outcome: "rr_outcome (obs_result v) \<noteq> OutcomeNotApplicable"
    using True by (simp add: observationsComplete_def)
  show ?thesis
  proof (cases "rr_predicateKind (obs_result v) = ApprovalRequiredKind")
    case approvalRule: True
    show ?thesis
      using approval [OF approvalRule] support approvalRule kind
      by (cases "obs_normalApproval v")
        (simp_all add: ruleFindingRules_def classifiedFinding_def decideReleaseRule_complete [OF True] Let_def)
  next
    case False
    show ?thesis
      using outcome support False kind
      by (cases "rr_outcome (obs_result v)"; cases "rule_nonWaivable (obs_rule v)"; cases "obs_ruleException v")
        (simp_all add: ruleFindingRules_def classifiedFinding_def decideReleaseRule_complete [OF True] Let_def)
  qed
qed

lemma decided_satisfied_iff:
  assumes approval: "rr_predicateKind (obs_result v) = ApprovalRequiredKind \<Longrightarrow>
      rr_outcome (obs_result v) = OutcomeIndeterminate"
    and kind: "predicateKind (rule_predicate (obs_rule v)) = rr_predicateKind (obs_result v)"
  shows "rc_status (decideReleaseRule v) = StatusSatisfied \<longleftrightarrow>
    observationsComplete v \<and>
    (rr_outcome (obs_result v) = OutcomeSatisfied \<or>
     rr_predicateKind (obs_result v) = ApprovalRequiredKind \<and> obs_normalApproval v = ReviewMatched \<or>
     rr_outcome (obs_result v) = OutcomeViolated \<and> \<not> rule_nonWaivable (obs_rule v) \<and>
       obs_ruleException v = ReviewMatched)"
proof (cases "observationsComplete v")
  case False
  then show ?thesis using decideReleaseRule_incomplete(1) [OF False] by simp
next
  case True
  have outcome: "rr_outcome (obs_result v) \<noteq> OutcomeNotApplicable"
    using True by (simp add: observationsComplete_def)
  show ?thesis
  proof (cases "rr_predicateKind (obs_result v) = ApprovalRequiredKind")
    case approvalRule: True
    show ?thesis
      using True approval [OF approvalRule] approvalRule kind
      by (cases "obs_normalApproval v") (simp_all add: decideReleaseRule_complete Let_def)
  next
    case False
    show ?thesis
      using True outcome False kind
      by (cases "rr_outcome (obs_result v)"; cases "rule_nonWaivable (obs_rule v)"; cases "obs_ruleException v")
        (simp_all add: decideReleaseRule_complete Let_def)
  qed
qed

lemma decided_violation_iff:
  assumes approval: "rr_predicateKind (obs_result v) = ApprovalRequiredKind \<Longrightarrow>
      rr_outcome (obs_result v) = OutcomeIndeterminate"
    and kind: "predicateKind (rule_predicate (obs_rule v)) = rr_predicateKind (obs_result v)"
  shows "rc_status (decideReleaseRule v) = StatusNonWaivableViolation \<longleftrightarrow>
    observationsComplete v \<and> rr_outcome (obs_result v) = OutcomeViolated \<and> rule_nonWaivable (obs_rule v)"
proof (cases "observationsComplete v")
  case False
  then show ?thesis using decideReleaseRule_incomplete(1) [OF False] by simp
next
  case True
  have outcome: "rr_outcome (obs_result v) \<noteq> OutcomeNotApplicable"
    using True by (simp add: observationsComplete_def)
  show ?thesis
    using True approval outcome kind
    by (cases "rr_outcome (obs_result v)"; cases "obs_normalApproval v"; cases "obs_ruleException v")
      (auto simp: decideReleaseRule_complete Let_def)
qed

section \<open>Disposition\<close>

lemma list_all2_map_eq: "list_all2 P xs ys \<Longrightarrow> (\<And>x y. P x y \<Longrightarrow> f x = g y) \<Longrightarrow> map f xs = map g ys"
  by (induction rule: list_all2_induct) simp_all

lemma inventory_matches_plan:
  assumes "list_all2 findingMatchesPlan policies evaluations"
  shows "map (\<lambda>f. rpol_policyId (fd_policy f)) policies =
           map (\<lambda>e. rpol_policyId (prd_policy (plan_request e))) evaluations"
    "map (\<lambda>f. reqref_evaluationRequestId (fd_request f)) policies =
           map (\<lambda>e. prd_evaluationRequestId (plan_request e)) evaluations"
    "map fd_mode policies = map plan_mode evaluations"
  by (rule list_all2_map_eq [OF assms], simp add: findingMatchesPlan_def)+

lemma mandatory_exists_iff:
  assumes "map fd_mode policies = map plan_mode evaluations"
  shows "(filter (\<lambda>f. fd_mode f = MandatoryMode) policies \<noteq> []) =
    list_ex (\<lambda>e. plan_mode e = MandatoryMode) evaluations"
proof -
  have "(filter (\<lambda>f. fd_mode f = MandatoryMode) policies \<noteq> []) \<longleftrightarrow> MandatoryMode \<in> set (map fd_mode policies)"
    by (metis (mono_tags, lifting) filter_empty_conv image_iff set_map)
  also have "\<dots> \<longleftrightarrow> list_ex (\<lambda>e. plan_mode e = MandatoryMode) evaluations"
    unfolding assms list_ex_iff by (metis image_iff set_map)
  finally show ?thesis .
qed

lemma derived_disposition_cases:
  assumes "deriveReleaseDisposition nfc request selectionState policies = Inr d"
  obtains state where "selectionState = Some state" "inventoryComplete nfc request policies"
    "d = expectedDisposition state (rdi_mode request) policies"
  using assms by (auto simp: deriveReleaseDisposition_def expectedDisposition_def split: option.splits if_splits)

lemma inventory_findings_rules:
  assumes "inventoryComplete nfc request policies"
  shows "decisionFindingsRules (rdi_mode request) state policies
    (expectedDisposition state (rdi_mode request) policies)"
proof -
  let ?es = "rdi_evaluations request"
  have schema: "ReleaseDecisionInputDefinitionSchema nfc request"
    and matched: "list_all2 findingMatchesPlan policies ?es"
    using assms by (simp_all add: inventoryComplete_def)
  have rules: "(rdi_mode request = Enforce) = list_ex (\<lambda>e. plan_mode e = MandatoryMode) ?es"
    "strictly_sorted codeUnitLess (map (\<lambda>e. rpol_policyId (prd_policy (plan_request e))) ?es)"
    "distinct (map (\<lambda>e. prd_evaluationRequestId (plan_request e)) ?es)"
    "length ?es \<le> MAX_RELEASE_POLICY_SELECTION_POLICIES"
    "rvl_maxApprovalRecords (rdi_verificationLimits request) \<le> int MAX_RELEASE_DECISION_APPROVAL_READS"
    using schema
    by (simp_all add: ReleaseDecisionInputDefinitionSchema_def decisionInputRules_def
        ReleaseDecisionVerificationLimitsSchema_def Let_def)
  note plan = inventory_matches_plan [OF matched]
  show ?thesis
    using assms rules
    unfolding decisionFindingsRules_def plan mandatory_exists_iff [OF plan(3)]
    by (simp add: inventoryComplete_def)
qed

lemma proceed_iff:
  "expectedDisposition state mode policies = ProceedDisposition \<longleftrightarrow>
     state = SelectionCurrent \<and> mode = Enforce \<and>
     (\<forall>f\<in>set policies. fd_mode f = MandatoryMode \<longrightarrow>
        (\<exists>e. fd_state f = Evaluated e \<and> (\<forall>r\<in>set (ef_rules e). rf_status r = StatusSatisfied)))"
proof -
  have finding: "(\<exists>e. s = Evaluated e \<and> (\<forall>r\<in>set (ef_rules e). rf_status r = StatusSatisfied)) \<longleftrightarrow>
      \<not> list_ex (\<lambda>r. rf_status r = StatusNonWaivableViolation)
          (case s of Evaluated e \<Rightarrow> ef_rules e | Unavailable u \<Rightarrow> []) \<and>
      \<not> (case s of Unavailable _ \<Rightarrow> True
          | Evaluated e \<Rightarrow> list_ex (\<lambda>r. rf_status r = StatusUnresolved) (ef_rules e))" for s
  proof (cases s)
    case (Evaluated e)
    have "(rf_status r = StatusSatisfied) = (rf_status r \<noteq> StatusNonWaivableViolation \<and> rf_status r \<noteq> StatusUnresolved)" for r
      by (cases "rf_status r") simp_all
    then show ?thesis using Evaluated by (auto simp: list_ex_iff)
  qed simp
  have mode: "mode \<noteq> ObservationOnly \<longleftrightarrow> mode = Enforce" by (cases mode) simp_all
  have "expectedDisposition state mode policies = ProceedDisposition \<longleftrightarrow>
      state = SelectionCurrent \<and> mode = Enforce \<and> \<not> mandatoryRejected policies \<and> \<not> mandatoryUnresolved policies"
    using mode by (auto simp: expectedDisposition_def)
  then show ?thesis
    unfolding finding by (auto simp: mandatoryRejected_def mandatoryUnresolved_def findingRules_def list_ex_iff)
qed

lemma reject_iff:
  "expectedDisposition state mode policies = RejectDisposition \<longleftrightarrow>
     state = SelectionCurrent \<and> mode = Enforce \<and>
     (\<exists>f\<in>set policies. fd_mode f = MandatoryMode \<and>
        (\<exists>r\<in>set (findingRules f). rf_status r = StatusNonWaivableViolation))"
  by (cases mode) (auto simp: expectedDisposition_def mandatoryRejected_def list_ex_iff)

lemma satisfied_finding_supported:
  assumes "ReleaseDecisionRuleFindingSchema r" and "rf_status r = StatusSatisfied"
  shows "rf_originalOutcome r = OutcomeSatisfied \<or> rf_supportingApprovals r \<noteq> []"
    "rf_originalOutcome r = OutcomeViolated \<Longrightarrow> \<not> rf_nonWaivable r"
  using assms by (auto simp: ReleaseDecisionRuleFindingSchema_def ruleFindingRules_def Let_def)


section \<open>A concrete decision\<close>

definition sampleRuleResult :: PolicyEvaluationRuleResult where
  "sampleRuleResult =
     \<lparr>rr_ruleIndex = 0, rr_ruleId = ''rule0001'', rr_predicateKind = ArtifactRequiredKind,
      rr_outcome = OutcomeViolated, rr_evidence = ArtifactEvidence ''component_missing'' None,
      rr_limitations = []\<rparr>"

definition sampleRule :: ReleasePolicyRule where
  "sampleRule =
     \<lparr>rule_nonWaivable = False,
      rule_predicate = ArtifactRequired \<lparr>arp_allowedMediaTypes = [''application/json''],
        arp_componentKind = ''prompt'', arp_maximumDataClassification = Internal, arp_role = ''role0001''\<rparr>,
      rule_rationale = js_text_of ''why'', rule_ruleId = ''rule0001'', rule_severity = HighSeverity,
      rule_sources =
        [\<lparr>qs_review = \<lparr>revref_definitionSha256 = sampleSha, revref_sourceReviewId = ''review01''\<rparr>,
          qs_source = \<lparr>srcref_definitionSha256 = sampleSha, srcref_sourceSnapshotId = ''source01''\<rparr>\<rparr>]\<rparr>"

definition sampleRuleInput :: ReleaseRuleClassificationInput where
  "sampleRuleInput =
     \<lparr>rci_rule = sampleRule, rci_result = sampleRuleResult, rci_applicability = Some ApplicabilityMatch,
      rci_candidateAuthority = Some AuthorityQualified, rci_originalPolicyState = Some StateActive,
      rci_currentPolicyState = Some StateActive, rci_normalApproval = Some ReviewUnavailable,
      rci_ruleException = Some ReviewMatched\<rparr>"

definition sampleApproval :: ReleaseApprovalReference where
  "sampleApproval = \<lparr>apref_approvalId = ''approval1'', apref_definitionSha256 = sampleSha\<rparr>"

definition sampleClassification :: ReleaseRuleClassification where
  "sampleClassification =
     \<lparr>rc_status = StatusSatisfied, rc_originalOutcome = OutcomeViolated, rc_reason = ScopedExceptionApplied\<rparr>"

lemma sampleRuleResult_schema: "PolicyEvaluationRuleResultSchema (\<lambda>x. x) sampleRuleResult"
proof -
  have "canonicalBytesAtMost MAX_POLICY_EVALUATION_RULE_RESULT_BYTES (ruleResultJson sampleRuleResult)"
    by (rule canonicalBytesAtMostI)
      (simp_all add: sampleRuleResult_def ruleResultJson_def admitted_def MAX_CANONICAL_NESTING_DEPTH_def
        MAX_POLICY_EVALUATION_RULE_RESULT_BYTES_def showInt_def showNat.simps)
  moreover have "OpaqueIdSchema ''rule0001''" by code_simp
  ultimately show ?thesis
    by (simp add: sampleRuleResult_def PolicyEvaluationRuleResultSchema_def computedEvidenceRules_def
        MAX_POLICY_RULES_def incompleteSafety_def)
qed

lemma sampleRule_schema: "ReleasePolicyRuleSchema (\<lambda>x. x) sampleRule"
proof -
  have "ReleasePolicyPredicateSchema (rule_predicate sampleRule)"
    "sortedQualifiedSources 1 (rule_sources sampleRule)" "OpaqueIdSchema (rule_ruleId sampleRule)"
    by code_simp+
  moreover have "AssuranceRationaleSchema (\<lambda>x. x) (rule_rationale sampleRule)"
    by (simp add: sampleRule_def AssuranceRationaleSchema_def textSchemas)
  ultimately show ?thesis by (simp add: ReleasePolicyRuleSchema_def)
qed

lemma sample_classified: "classifyReleaseRule (\<lambda>x. x) sampleRuleInput = Inr sampleClassification"
  using sampleRule_schema sampleRuleResult_schema
  by (simp add: classifyReleaseRule_def parseRuleObservation_def sampleRuleInput_def decideReleaseRule_def
      sampleClassification_def Let_def)
    (simp add: sampleRule_def sampleRuleResult_def)

definition sampleCandidate :: ReleaseCandidateReference where
  "sampleCandidate = \<lparr>cand_candidateId = ''candidate1'', cand_candidateVersionId = ''version1'',
     cand_definitionSha256 = sampleSha\<rparr>"

definition samplePolicy :: ReleasePolicyReference where
  "samplePolicy = \<lparr>rpol_definitionSha256 = sampleSha, rpol_policyId = ''policy01'',
     rpol_policyVersionId = ''version1''\<rparr>"

definition samplePlan :: PlannedReleasePolicyEvaluation where
  "samplePlan =
     \<lparr>plan_mode = MandatoryMode,
      plan_request = \<lparr>prd_candidate = sampleCandidate, prd_evaluationRequestId = ''request1'',
        prd_evaluationTime = wholeSecond 1000, prd_limits = sampleLimits, prd_policy = samplePolicy\<rparr>,
      plan_requestSha256 = sampleSha\<rparr>"

definition sampleDecisionInput :: ReleaseDecisionInputDefinition where
  "sampleDecisionInput =
     \<lparr>rdi_decisionInputRequestId = ''input001'', rdi_candidate = sampleCandidate,
      rdi_selection = \<lparr>selref_selectionId = ''selection1'', selref_selectionVersionId = ''version1'',
        selref_definitionSha256 = sampleSha, selref_installationId = ''install1'',
        selref_gateTargetId = ''target01''\<rparr>,
      rdi_rationale = js_text_of ''why'', rdi_scope = sampleScope, rdi_mode = Enforce,
      rdi_publisher = \<lparr>pub_principalType = ServiceReceipt, pub_principalId = ''principal1'',
        pub_authenticatedAt = 999000, pub_credentialId = ''credential1'', pub_requestId = js_text_of ''r1''\<rparr>,
      rdi_createdAt = wholeSecond 1000, rdi_expiresAt = wholeSecond 1600,
      rdi_verificationLimits = \<lparr>rvl_maxAcquisitionRecords = 10, rvl_maxAcquisitionRecordBytes = 1000,
        rvl_maxApprovalRecords = 4\<rparr>,
      rdi_evaluations = [samplePlan]\<rparr>"

lemma sample_instants:
  "policyTimeText (wholeSecond 1000) = ''1970-01-01T00:16:40Z''"
  "policyTimeText (wholeSecond 1600) = ''1970-01-01T00:26:40Z''"
  "utcMillisecondText 999000 = ''1970-01-01T00:16:39.000Z''"
  by code_simp+




lemma sampleDecisionInput_bytes:
  "canonicalBytesAtMost MAX_RELEASE_DECISION_INPUT_DEFINITION_BYTES (decisionInputJson sampleDecisionInput)"
  by (rule canonicalBytesAtMostI)
    (simp_all add: sampleDecisionInput_def decisionInputJson_def scopeJson_def requestDefinitionJson_def algorithmJson_def candidateReferenceJson_def sampleCandidate_def
      sampleScope_def publisherJson_def sample_instants plannedEvaluationJson_def samplePlan_def
      policyReferenceJson_def samplePolicy_def executionLimitsJson_def sampleLimits_def admitted_def Let_def
      MAX_CANONICAL_NESTING_DEPTH_def MAX_RELEASE_DECISION_INPUT_DEFINITION_BYTES_def sampleSha_def
      showInt_def showNat.simps)

lemma sampleDecisionInput_rules: "decisionInputRules sampleDecisionInput"
proof -
  have "millisecondOrderKey 999000 \<le> 1000 * 10 ^ 30"
    by (simp add: millisecondOrderKey_def POLICY_EVALUATION_TIME_UNITS_PER_MILLISECOND_def)
  then show ?thesis
    by (simp add: decisionInputRules_def sampleDecisionInput_def samplePlan_def
        MAX_POLICY_EVALUATION_DEADLINE_MILLISECONDS_def POLICY_EVALUATION_TIME_UNITS_PER_MILLISECOND_def)
qed

lemma sample_references:
  "ReleaseCandidateReferenceSchema sampleCandidate" "ReleasePolicyReferenceSchema samplePolicy"
  "ReleasePolicySelectionReferenceSchema (rdi_selection sampleDecisionInput)" "EvidenceScopeSchema sampleScope"
  "Sha256Schema sampleSha" "OpaqueIdSchema ''request1''" "OpaqueIdSchema ''input001''"
  "ReleaseApprovalReferenceSchema sampleApproval"
  by code_simp+

lemma sampleDecisionInput_schema: "ReleaseDecisionInputDefinitionSchema (\<lambda>x. x) sampleDecisionInput"
proof -
  have "ReleaseDecisionPublisherReceiptSchema (rdi_publisher sampleDecisionInput)"
  proof -
    have "OpaqueIdSchema ''principal1''" "OpaqueIdSchema ''credential1''" by code_simp+
    then show ?thesis
      by (simp add: ReleaseDecisionPublisherReceiptSchema_def sampleDecisionInput_def
          UtcMillisecondTimestampSchema_def MIN_UTC_MS_def MAX_UTC_MS_def)
  qed
  moreover have "AssuranceRationaleSchema (\<lambda>x. x) (rdi_rationale sampleDecisionInput)"
    by (simp add: sampleDecisionInput_def AssuranceRationaleSchema_def textSchemas)
  moreover have "PlannedReleasePolicyEvaluationSchema samplePlan"
    using sample_references
    by (simp add: PlannedReleasePolicyEvaluationSchema_def PolicyEvaluationRequestDefinitionSchema_def samplePlan_def)
  moreover have "ReleaseDecisionVerificationLimitsSchema (rdi_verificationLimits sampleDecisionInput)"
    by (simp add: ReleaseDecisionVerificationLimitsSchema_def sampleDecisionInput_def
        MAX_POLICY_EVALUATION_ACQUISITION_RECORDS_def MAX_POLICY_EVALUATION_ACQUISITION_RECORD_BYTES_def
        MAX_RELEASE_DECISION_APPROVAL_READS_def)
  ultimately show ?thesis
    using sampleDecisionInput_bytes sampleDecisionInput_rules sample_references
    by (simp add: ReleaseDecisionInputDefinitionSchema_def)
      (simp add: sampleDecisionInput_def MAX_RELEASE_POLICY_SELECTION_POLICIES_def)
qed

definition sampleRuleFinding :: ReleaseDecisionRuleFinding where
  "sampleRuleFinding = classifiedFinding sampleRuleResult False sampleClassification [sampleApproval]"

definition samplePolicyFinding :: ReleaseDecisionPolicyFinding where
  "samplePolicyFinding =
     \<lparr>fd_policy = samplePolicy,
      fd_request = \<lparr>reqref_definitionSha256 = sampleSha, reqref_evaluationRequestId = ''request1''\<rparr>,
      fd_mode = MandatoryMode,
      fd_state = Evaluated
        \<lparr>ef_job = \<lparr>jobref_jobId = ''job00001'', jobref_definitionSha256 = sampleSha\<rparr>,
         ef_snapshot = sampleReference,
         ef_evaluation = \<lparr>resref_evaluationId = ''result01'', resref_definitionSha256 = sampleSha\<rparr>,
         ef_ruleCount = 1, ef_rules = [sampleRuleFinding]\<rparr>\<rparr>"

lemma samplePolicyFinding_schema: "ReleaseDecisionPolicyFindingSchema samplePolicyFinding"
  by code_simp

lemma sample_inventory: "inventoryComplete (\<lambda>x. x) sampleDecisionInput [samplePolicyFinding]"
  using sampleDecisionInput_schema samplePolicyFinding_schema
  by (simp add: inventoryComplete_def)
    (simp add: sampleDecisionInput_def samplePolicyFinding_def findingMatchesPlan_def samplePlan_def samplePolicy_def
      findingJobs_def findingSnapshots_def findingEvaluations_def findingSupports_def findingRules_def
      sampleRuleFinding_def classifiedFinding_def)

lemma sample_disposition:
  "deriveReleaseDisposition (\<lambda>x. x) sampleDecisionInput (Some SelectionCurrent) [samplePolicyFinding] =
     Inr ProceedDisposition"
  using sample_inventory
  by (simp add: deriveReleaseDisposition_def)
    (simp add: sampleDecisionInput_def mandatoryRejected_def mandatoryUnresolved_def findingRules_def
      samplePolicyFinding_def sampleRuleFinding_def classifiedFinding_def sampleClassification_def)

section \<open>Theorems\<close>

text \<open>
  C38 (type). Every classification the decision table accepts fits the contract of the finding that
  records it: with supporting approvals attached exactly when an approval or an exception was
  applied, the finding satisfies \<open>ReleaseDecisionRuleFindingSchema\<close>. A rule is satisfied exactly when
  original and current policy are active, the candidate's authority is qualified, the policy applies,
  and the outcome was satisfied, or an approval rule's review matched, or a waivable violation has a
  matched exception; it is a non-waivable violation exactly when all of that was observed for a
  violated rule that admits no waiver.
\<close>

theorem classification_fits_finding_contract:
  assumes "classifyReleaseRule nfc input = Inr c"
    and "list_all ReleaseApprovalReferenceSchema approvals"
    and "length approvals \<le> MAX_POLICY_APPROVAL_GROUPS"
    and "strictly_sorted codeUnitLess (map apref_approvalId approvals)"
    and "(approvals \<noteq> []) = (rc_reason c = NormalApprovalApplied \<or> rc_reason c = ScopedExceptionApplied)"
  shows "ReleaseDecisionRuleFindingSchema
      (classifiedFinding (rci_result input) (rule_nonWaivable (rci_rule input)) c approvals) \<and>
    (\<exists>v. parseRuleObservation nfc input = Inr v \<and>
      (rc_status c = StatusSatisfied \<longleftrightarrow>
        observationsComplete v \<and>
        (rr_outcome (rci_result input) = OutcomeSatisfied \<or>
         rr_predicateKind (rci_result input) = ApprovalRequiredKind \<and> obs_normalApproval v = ReviewMatched \<or>
         rr_outcome (rci_result input) = OutcomeViolated \<and> \<not> rule_nonWaivable (rci_rule input) \<and>
           obs_ruleException v = ReviewMatched)) \<and>
      (rc_status c = StatusNonWaivableViolation \<longleftrightarrow>
        observationsComplete v \<and> rr_outcome (rci_result input) = OutcomeViolated \<and>
        rule_nonWaivable (rci_rule input)))"
proof -
  obtain v where v: "parseRuleObservation nfc input = Inr v" and c: "c = decideReleaseRule v"
    using assms(1) by (rule classifyReleaseRule_cases)
  note fields = parseRuleObservation_fields [OF v]
  note approval = approval_result_indeterminate [OF fields(2)]
  have "ruleFindingRules (classifiedFinding (obs_result v) (rule_nonWaivable (obs_rule v)) c approvals)"
    using decided_finding_rules [OF approval fields(4)] assms(5) c by simp
  then have "ReleaseDecisionRuleFindingSchema
      (classifiedFinding (rci_result input) (rule_nonWaivable (rci_rule input)) c approvals)"
    using rule_result_index [OF fields(2)] assms(2-4) fields(5,6)
    by (simp add: ReleaseDecisionRuleFindingSchema_def classifiedFinding_def)
  then show ?thesis
    using v c fields(5,6) decided_satisfied_iff [OF approval fields(4)] decided_violation_iff [OF approval fields(4)]
    by auto
qed

theorem classification_fits_finding_contract_witness:
  "classifyReleaseRule (\<lambda>x. x) sampleRuleInput = Inr sampleClassification \<and>
   ReleaseDecisionRuleFindingSchema sampleRuleFinding"
proof -
  have "ReleaseDecisionRuleFindingSchema (classifiedFinding (rci_result sampleRuleInput)
      (rule_nonWaivable (rci_rule sampleRuleInput)) sampleClassification [sampleApproval])"
    using classification_fits_finding_contract [OF sample_classified, of "[sampleApproval]"] sample_references(8)
    by (simp add: MAX_POLICY_APPROVAL_GROUPS_def sampleClassification_def)
  then show ?thesis
    using sample_classified by (simp add: sampleRuleFinding_def sampleRuleInput_def sampleRule_def)
qed

text \<open>
  C39 (safety). A disposition the aggregation returns is the one the decision contract recomputes from
  the recorded findings, and the findings pass every inventory rule of that contract; no decision
  with another disposition over the same findings is accepted. A release
  proceeds exactly when the selection is current, enforcement is on and every mandatory policy was
  evaluated with every rule satisfied, so that no unavailable policy, unresolved rule or non-waivable
  violation is ever let through; it is rejected exactly when a mandatory policy has a non-waivable
  violation. In a release that proceeds every mandatory rule had a satisfied outcome or rests on
  supporting approvals, and no violated rule was non-waivable.
\<close>

theorem release_disposition_conservative:
  assumes "deriveReleaseDisposition nfc request selectionState policies = Inr d"
  shows "\<exists>state. selectionState = Some state \<and>
    decisionFindingsRules (rdi_mode request) state policies d \<and>
    (\<forall>dec :: ReleaseDecisionDefinition.
      ReleaseDecisionDefinitionSchema nfc dec \<and> rdd_mode dec = rdi_mode request \<and>
      rdd_selectionState dec = state \<and> rdd_policies dec = policies \<longrightarrow> rdd_disposition dec = d) \<and>
    (d = ProceedDisposition \<longleftrightarrow>
      state = SelectionCurrent \<and> rdi_mode request = Enforce \<and>
      (\<forall>f\<in>set policies. fd_mode f = MandatoryMode \<longrightarrow>
        (\<exists>e. fd_state f = Evaluated e \<and> (\<forall>r\<in>set (ef_rules e). rf_status r = StatusSatisfied)))) \<and>
    (d = RejectDisposition \<longleftrightarrow>
      state = SelectionCurrent \<and> rdi_mode request = Enforce \<and>
      (\<exists>f\<in>set policies. fd_mode f = MandatoryMode \<and>
        (\<exists>r\<in>set (findingRules f). rf_status r = StatusNonWaivableViolation))) \<and>
    (d = ProceedDisposition \<longrightarrow>
      (\<forall>f\<in>set policies. fd_mode f = MandatoryMode \<longrightarrow> findingRules f \<noteq> [] \<and>
        (\<forall>r\<in>set (findingRules f).
          (rf_originalOutcome r = OutcomeSatisfied \<or> rf_supportingApprovals r \<noteq> []) \<and>
          \<not> (rf_originalOutcome r = OutcomeViolated \<and> rf_nonWaivable r))))"
proof -
  obtain state where state: "selectionState = Some state"
    and inventory: "inventoryComplete nfc request policies"
    and d: "d = expectedDisposition state (rdi_mode request) policies"
    using assms by (rule derived_disposition_cases)
  have unique: "rdd_disposition dec = d"
    if "ReleaseDecisionDefinitionSchema nfc dec" "rdd_mode dec = rdi_mode request"
      "rdd_selectionState dec = state" "rdd_policies dec = policies" for dec :: ReleaseDecisionDefinition
    using that d by (simp add: ReleaseDecisionDefinitionSchema_def decisionFindingsRules_def)
  have supported: "findingRules f \<noteq> [] \<and> (\<forall>r\<in>set (findingRules f).
      (rf_originalOutcome r = OutcomeSatisfied \<or> rf_supportingApprovals r \<noteq> []) \<and>
      \<not> (rf_originalOutcome r = OutcomeViolated \<and> rf_nonWaivable r))"
    if proceed: "d = ProceedDisposition" and f: "f \<in> set policies" "fd_mode f = MandatoryMode" for f
  proof -
    obtain e where e: "fd_state f = Evaluated e" "\<forall>r\<in>set (ef_rules e). rf_status r = StatusSatisfied"
      using proceed [unfolded d proceed_iff] f by blast
    have "ReleaseDecisionPolicyFindingSchema f"
      using inventory f(1) by (auto simp: inventoryComplete_def list_all_iff)
    then have "ef_rules e \<noteq> []" "\<forall>r\<in>set (ef_rules e). ReleaseDecisionRuleFindingSchema r"
      using e(1) by (auto simp: ReleaseDecisionPolicyFindingSchema_def list_all_iff)
    then show ?thesis
      using e satisfied_finding_supported by (fastforce simp: findingRules_def)
  qed
  show ?thesis
    using state inventory_findings_rules [OF inventory, of state] supported unique [unfolded d]
      proceed_iff [of state "rdi_mode request" policies] reject_iff [of state "rdi_mode request" policies]
    unfolding d by blast
qed

theorem release_disposition_conservative_witness:
  "deriveReleaseDisposition (\<lambda>x. x) sampleDecisionInput (Some SelectionCurrent) [samplePolicyFinding] =
     Inr ProceedDisposition \<and>
   decisionFindingsRules Enforce SelectionCurrent [samplePolicyFinding] ProceedDisposition"
  using release_disposition_conservative [OF sample_disposition] sample_disposition
  by (simp add: sampleDecisionInput_def)

end
