(* ===== verification/Spec2Isabelle.thy ===== *)
theory Spec2Isabelle
  imports Replay_Job_Safety Replay_Budget Replay_Retry Replay_Random Policy_Arithmetic Applicability
    Policy_Safety Policy_Requests_Safety Credentials_Safety Policy_Result Comparison_Numeric_Safety Reviewer_Quorum Canonical_Identity Release_Safety
begin

text \<open>
  \<^bold>\<open>ProofStack: durable replay, policy evaluation and release decisions.\<close>

  ProofStack records evidence about AI systems, replays recorded runs, evaluates release policies over the
  evidence and decides releases. Its core is written as pure functions over records that are validated by
  schemas; persistence, HTTP and workers are shells around them. This development models that core and
  proves what the shells rely on. File names are relative to \<open>src/\<close>.

  \<^bold>\<open>Parts and how they interact\<close>

  \<^item> Durable replay (\<open>packages/replay\<close>, contracts in \<open>packages/contracts/src/replay-*.ts\<close>): a job is claimed under
    a lease with a fencing token, kept by heartbeats, completed or cancelled; its spending is a ledger of
    reservations and reconciliations; a failed attempt may be retried; a replayed run sees a fixed clock and a
    recorded random stream.
  \<^item> Policy evaluation (\<open>packages/core/src/policy\<close>, contracts \<open>policy-evaluation-*.ts\<close>): a scheduler with the
    same fencing idea over a larger graph (request, job, attempts, usage, cancellation, acquisition allowance),
    which acquires evidence within frozen limits, seals it, runs the rules and records a result. Every
    transition is retained as an entry of a hash-chained history, announced by outbox intents, stored through
    relational repositories (\<open>packages/postgres/src/postgres-policy-evaluation-job-*.ts\<close>) and asked for by
    authorized requests (\<open>policy-evaluation-job-use-cases.ts\<close>).
  \<^item> Identity (\<open>packages/core/src/identity\<close>, \<open>identity.ts\<close>, \<open>api-key.ts\<close>, \<open>service-token.ts\<close>): principals with
    capabilities and resource scopes, credentials, delegation.
  \<^item> Comparison (\<open>packages/core/src/evaluation/comparison-*.ts\<close>, \<open>evaluation-comparison*.ts\<close>): the retained
    evidence of a baseline and a candidate is paired fixture by fixture and numeric metrics are derived.
  \<^item> Numbers (\<open>packages/core/src/evaluation/comparison-exact-arithmetic.ts\<close>,
    \<open>packages/core/src/policy/policy-exact-arithmetic.ts\<close>): exact values, their statistics, and the comparisons
    by which a rule is satisfied or violated.
  \<^item> Applicability (\<open>packages/core/src/evaluation/applicability.ts\<close>): three-valued evaluation of the expression
    that says where a criterion applies.
  \<^item> Canonical encoding (\<open>packages/contracts/src/evaluation-definition-encoding.ts\<close>): the bytes every definition
    digest and every byte ceiling is computed over.
  \<^item> Releases (\<open>packages/core/src/release\<close>, contracts \<open>release-policy.ts\<close>, \<open>policy-evaluation-result.ts\<close>,
    \<open>release-decision-input.ts\<close>, \<open>release-decision.ts\<close>): reviewers are assigned to approval groups, each rule
    result is classified with the observed authority and reviews, and the findings of all policies give one
    disposition: advisory, proceed, hold or reject.

  \<^bold>\<open>Theories\<close>

  \<^item> \<open>Prelude\<close>, \<open>Primitives\<close>, \<open>Digits\<close>: results \<open>'e + 'a\<close> for code that throws, the numbers and strings of the
    language, the schemas of \<open>primitives.ts\<close>, \<open>evidence.ts\<close> and the text schemas of \<open>evaluation-source.ts\<close>, big
    integers and their decimal text; the collections \<open>schema_defs\<close> and \<open>result_simps\<close>.
  \<^item> \<open>Fenced_Machine\<close>: the locale \<open>fenced_machine\<close>, a step relation with a token that grows and an admission
    test, and \<open>epoch_machine\<close>, which adds recovery epochs. Inside: a superseded or finished worker is never
    admitted again, versions count steps, terminal states stay. \<open>Replay_Job_State\<close> interprets the first on the
    replay job, \<open>Policy_Machine\<close> the second on the policy-evaluation graph.
  \<^item> \<open>Replay_Job\<close> (\<open>replay-job.ts\<close>, \<open>replay-plan.ts\<close>, \<open>artifact.ts\<close>), \<open>Replay_Job_State\<close> (\<open>replay-job-state.ts\<close>: queue,
    claim, take over, heartbeat, complete, cancel, acknowledge), \<open>Replay_Job_Safety\<close> (fencing, leases, single
    commit, cancellation, counted runs).
  \<^item> \<open>Replay_Accounting\<close> (\<open>replay-accounting.ts\<close>), \<open>Replay_Budget\<close> (\<open>replay-budget.ts\<close>: the ledger conserves the
    budget and never grants past a limit), \<open>Replay_Retry\<close> (\<open>replay-retry.ts\<close>), \<open>Replay_Random\<close>
    (\<open>random-budget.ts\<close>, \<open>runtime-controls.ts\<close>).
  \<^item> \<open>Policy_Time\<close> (timestamps to thirty fractional digits and receipt arithmetic), \<open>Policy_Job\<close> and
    \<open>Policy_Snapshot\<close> (contracts of request, limits, fence, job, attempt, allowance and the whole graph),
    \<open>Policy_Scheduler\<close> (all transitions with their guards). \<open>Policy_Graph\<close>, \<open>Policy_Claim\<close> and \<open>Policy_Validity\<close>
    show that every transition keeps the whole contract, \<open>Policy_Machine\<close> gives the step relation,
    \<open>Policy_Totality\<close> shows on which valid graphs the parse which ends a transition can fail (two kinds of input),
    \<open>Policy_Safety\<close> states the properties; \<open>Policy_Sample\<close> is the job the witnesses use.
  \<^item> \<open>Policy_Json\<close>, \<open>Time_Text\<close>, \<open>Canonical_Plain\<close>, \<open>Policy_Graph_Json\<close>: the JSON a retained graph is digested
    over and what equal texts imply. \<open>Policy_History\<close> (\<open>policy-evaluation-job-history.ts\<close> and
    \<open>policy-evaluation-job-snapshot-record.ts\<close>: entries, heads, pages, replay of a transition),
    \<open>Policy_History_Entries\<close>, \<open>Policy_History_Run\<close> and \<open>Policy_History_Safety\<close>: a transition can be recorded
    and replays, an accepted history is a run of the scheduler, and it can be read back page by page. The digest
    is a parameter; where a replay is compared with a recorded graph by digest, the theorems assume that this one
    pair of graphs does not collide (\<open>linkCollisionFree\<close>, along a history \<open>collisionFree\<close>: one pair per entry).
    \<open>Policy_Outbox\<close> (\<open>policy-evaluation-job-outbox.ts\<close>): intents are emitted exactly once along a history.
  \<^item> \<open>Policy_Store\<close> (readers and writers of the relational store), \<open>Policy_Repository\<close> (creation, control,
    worker operations and the worker budget), \<open>Policy_Repository_Safety\<close>: whatever a database answers, a
    mutation that returns left the graph alone or moved it by the transition that was asked for.
  \<^item> \<open>Identity\<close> (access checks and delegation), \<open>Base64url\<close>, \<open>Credentials\<close> (keys, tokens, both authenticators
    and the key use cases), \<open>Credentials_Safety\<close> (keys are exactly what generation writes, delegation is
    containment of authority, a key acts within its issuer's authority).
  \<^item> \<open>Policy_Requests\<close> (the requests over a repository), \<open>Policy_Requests_Safety\<close>: a request stays inside its
    principal's reach; the locale \<open>serving_repository\<close> states what a request relies on and is interpreted on the
    relational repository, so that a command returns a transition of the scheduler.
  \<^item> \<open>Comparison_Contract\<close>, \<open>Comparison_Evidence\<close> (\<open>evaluation-comparison.ts\<close>), \<open>Comparison_Metrics\<close>
    (\<open>evaluation-comparison-result.ts\<close>), \<open>Comparison_Pairing\<close> (\<open>comparison-pairing.ts\<close>), \<open>Comparison_Numeric\<close>
    (\<open>comparison-numeric-metrics.ts\<close>). \<open>Comparison_Safety\<close>: pairing accounts for every logical fixture once, in
    its state, and decides comparability where each logical fixture is named in one version;
    \<open>dropped_fixture_version_comparable\<close> there shows that two bound versions of one logical
    fixture are reduced to the last one without a reason. \<open>Comparison_Numeric_Safety\<close>: the derived metrics are
    the exact statistics of the observations that count.
  \<^item> \<open>Exact_Arithmetic\<close> and \<open>Policy_Arithmetic\<close>: parsing, aggregation, subtraction, comparison, thresholds,
    coverage and probability bounds, each equal to its meaning over the rational numbers.
  \<^item> \<open>Applicability\<close>: a decided result is the classical truth value in every completion of the context, the
    reported fields suffice to decide, and the bounded traversal accepts exactly the expressions in bounds.
  \<^item> \<open>Canonical_Json\<close> (the encoder with its key cache and the UTF-8 encoder), \<open>Canonical_Bytes\<close> (UTF-8 decodes
    back), \<open>Canonical_Identity\<close> (the cache is invisible; equal bytes mean equal values up to property order),
    \<open>Canonical_Size\<close> (a linear bound on the bytes; the locale \<open>bounded_encoder\<close> states what contracts rely on
    and is interpreted on the encoder).
  \<^item> \<open>Rule_Result\<close> and \<open>Policy_Result\<close> (\<open>policy-evaluation-result.ts\<close>): evidence, rule results, whole evaluations.
    \<open>Rule_Outcome\<close> shows that the contract admits one outcome for each evidence, the one rational arithmetic
    gives; \<open>Policy_Result\<close> that the recorded counts are the counts.
  \<^item> \<open>Reviewer_Matching\<close> (\<open>match-reviewer-groups.ts\<close>), \<open>Reviewer_Search\<close> (the assignment search ends and is
    optimal for every cost matrix, by an invariant of dual potentials and the predecessor tree),
    \<open>Reviewer_Quorum\<close> (a match is reported exactly when a set of distinct memberships reaches the quorum with
    the required human).
  \<^item> \<open>Release_Policy\<close> (\<open>release-policy.ts\<close>), \<open>Release_Decision\<close> (\<open>release-decision-input.ts\<close>, the findings of
    \<open>release-decision.ts\<close>, \<open>classify-release-rule.ts\<close>, \<open>derive-release-disposition.ts\<close>), \<open>Decision_Record\<close> (the
    recorded decision), \<open>Release_Safety\<close> (classifications fit the finding contract; a release proceeds only on
    a complete, satisfied inventory and no other disposition is accepted).

  \<^bold>\<open>Conventions\<close>

  \<^item> A schema is a predicate on a record with the fields of the object; fields whose only value is a literal
    (\<open>schemaVersion\<close>, discriminators, algorithm names) are left out of the record and written where JSON is
    produced. A refinement that adds issues is the conjunction of the conditions it checks. Values of an
    enumeration a function branches on are datatypes; those that only travel are strings with the list of members.
  \<^item> Millisecond timestamps are integers in the range of the schema; timestamps of policy evaluation are
    seconds with the text of the fraction, because the code compares their texts. \<open>Release_Decision\<close> writes both
    back as text where the byte ceiling measures them.
  \<^item> Strings of identifiers, digests and enumerations are character lists; human text is a list of UTF-16 code
    units. Integers are unbounded with the safe-integer bounds of the code written out; a number that is not an
    integer is \<open>JsOther\<close>. The usage record of a policy evaluation is a function from its keys. An absent and a
    \<open>null\<close> acquisition allowance are both \<open>None\<close>.
  \<^item> An unchecked input is a finite tree; a cyclic object is not represented. The checks that an argument is an
    object with exactly the expected keys are left out where the argument is a record of the model.
  \<^item> Parameters: \<open>nfc\<close> is Unicode normalization, which depends on the platform's tables; \<open>hmac\<close> is the digest
    of the random stream, of which only the length of 32 bytes is used; \<open>sha\<close> is the digest of retained records
    and \<open>kdf\<close> the digest that binds a credential; \<open>isoDatetime\<close> is the part of the timestamp schema that is left
    to the schema library; random bytes and identifiers are arguments. A database is a record of what its
    statements answer, with errors as values; a repository is a record of its operations. Theorems hold for all
    of them, under the hypotheses they state.

  \<^bold>\<open>Termination\<close>

  Structural recursion and measures everywhere but in the two loops of the assignment search, which are partial
  functions into \<open>option\<close>; \<open>Reviewer_Search\<close> proves that both return, the inner loop because each step marks a
  new column, the augmentation because it follows the predecessor tree to the root. No fuel is used. Runs of the state
  machines are finite sequences of steps, bounded by the state version.

  \<^bold>\<open>Not modelled\<close>

  SQL itself, transactions and row locks are inside the database parameter; object storage, streaming, HTTP, the
  web application and worker processes are input and output. Hash functions are parameters. Of the relational
  repositories only those of policy evaluation jobs are modelled. The capture of evidence
  (\<open>packages/policy-evaluation\<close>), the trace and assurance metrics of a comparison and its final record read
  records whose contracts (\<open>evaluation-model-assurance.ts\<close>, \<open>evaluation-run.ts\<close>, the trace sources) are large and
  not modelled. Also left out: the projection of predicates over sealed sources, the captured approval and
  exception quorums with their authority snapshots, replay preflight and recorded boundary resolution.
\<close>

end
